(* ===== verification/JS_Values.thy ===== *)
theory JS_Values
  imports Complex_Main "HOL-Library.AList"
begin

text \<open>
  The part of the JavaScript language and of its standard library that the web client and
  the web server dashboards use: run-time values (what \<open>JSON.parse\<close> or \<open>response.json()\<close>
  returns is untyped at run time, whatever the TypeScript annotation says), truthiness and the
  operators \<open>||\<close>, \<open>??\<close>, \<open>?.\<close>, property access with its TypeError, object spread,
  string conversion, and the array and string methods.

  Numbers are exact rationals (\<open>JNum\<close>) or \<open>NaN\<close>: every number the modelled code meets is an
  integer below \<open>2^53\<close> or a decimal that a double prints back unchanged; the rounding of double
  arithmetic is not modelled. Strings are lists of bytes: ASCII text is itself, any other text
  is its UTF-8 encoding. Objects are association lists in insertion order; properties inherited
  from \<open>Object.prototype\<close> are not modelled.
\<close>

named_theorems js_simps \<open>equations that evaluate JavaScript values\<close>

section \<open>Values\<close>

datatype jsv =
    JUndef
  | JNull
  | JBool bool
  | JNum rat
  | JNaN
  | JStr string
  | JArr "jsv list"
  | JObj "(string \<times> jsv) list"

type_synonym err = string
type_synonym 'a res = "err + 'a"

fun truthy :: "jsv \<Rightarrow> bool" where
  "truthy JUndef = False"
| "truthy JNull = False"
| "truthy (JBool b) = b"
| "truthy (JNum n) = (n \<noteq> 0)"
| "truthy JNaN = False"
| "truthy (JStr s) = (s \<noteq> [])"
| "truthy (JArr xs) = True"
| "truthy (JObj kvs) = True"

fun nullish :: "jsv \<Rightarrow> bool" where
  "nullish JUndef = True"
| "nullish JNull = True"
| "nullish _ = False"

definition js_or :: "jsv \<Rightarrow> jsv \<Rightarrow> jsv" where
  "js_or a b = (if truthy a then a else b)"

definition js_coalesce :: "jsv \<Rightarrow> jsv \<Rightarrow> jsv" where
  "js_coalesce a b = (if nullish a then b else a)"

text \<open>Strict equality. Objects and arrays compare by identity; the values modelled here are
  always compared with a primitive, which a decoded object or array never equals.\<close>

fun strict_eq :: "jsv \<Rightarrow> jsv \<Rightarrow> bool" where
  "strict_eq JUndef JUndef = True"
| "strict_eq JNull JNull = True"
| "strict_eq (JBool a) (JBool b) = (a = b)"
| "strict_eq (JNum a) (JNum b) = (a = b)"
| "strict_eq (JStr a) (JStr b) = (a = b)"
| "strict_eq _ _ = False"

lemma js_or_truthy [simp]: "truthy a \<Longrightarrow> js_or a b = a"
  by (simp add: js_or_def)

lemma js_or_falsy [simp]: "\<not> truthy a \<Longrightarrow> js_or a b = b"
  by (simp add: js_or_def)

lemma truthy_js_or [simp]: "truthy (js_or a b) \<longleftrightarrow> truthy a \<or> truthy b"
  by (simp add: js_or_def)

lemma strict_eq_str [simp]: "strict_eq v (JStr s) \<longleftrightarrow> v = JStr s"
  by (cases v) auto

lemma strict_eq_num [simp]: "strict_eq v (JNum n) \<longleftrightarrow> v = JNum n"
  by (cases v) auto

section \<open>Numbers and their text\<close>

definition digit_char :: "nat \<Rightarrow> char" where
  "digit_char d = ''0123456789'' ! d"

fun show_nat :: "nat \<Rightarrow> string" where
  "show_nat n = (if n < 10 then [digit_char n] else show_nat (n div 10) @ [digit_char (n mod 10)])"

declare show_nat.simps [simp del]

definition show_int :: "int \<Rightarrow> string" where
  "show_int i = (if i < 0 then ''-'' @ show_nat (nat (- i)) else show_nat (nat i))"

fun show_frac :: "nat \<Rightarrow> rat \<Rightarrow> string" where
  "show_frac 0 x = []"
| "show_frac (Suc n) x =
     (if x = 0 then [] else digit_char (nat \<lfloor>10 * x\<rfloor>) # show_frac n (10 * x - of_int \<lfloor>10 * x\<rfloor>))"

text \<open>A number prints as its integer part and at most 17 decimals, the most a double needs.\<close>

definition show_num :: "rat \<Rightarrow> string" where
  "show_num x =
     (let a = \<bar>x\<bar>; f = a - of_int \<lfloor>a\<rfloor> in
        (if x < 0 then ''-'' else []) @ show_nat (nat \<lfloor>a\<rfloor>) @
        (if f = 0 then [] else ''.'' @ show_frac 17 f))"

text \<open>\<open>Number(x.toFixed(d))\<close>: the multiple of \<open>10^-d\<close> nearest to \<open>x\<close>, the one of larger
  magnitude on a tie.\<close>

definition to_fixed_num :: "nat \<Rightarrow> rat \<Rightarrow> rat" where
  "to_fixed_num d x =
     (let r = (\<lambda>y. of_int \<lfloor>y * 10 ^ d + 1 / 2\<rfloor> / 10 ^ d) in if x < 0 then - r (- x) else r x)"

lemma to_fixed_num_nonneg: "0 \<le> x \<Longrightarrow> 0 \<le> to_fixed_num d x"
proof -
  assume x: "0 \<le> x"
  then have "0 \<le> x * 10 ^ d + 1 / 2" by simp
  then have "0 \<le> \<lfloor>x * 10 ^ d + 1 / 2\<rfloor>" by simp
  with x show ?thesis by (simp add: to_fixed_num_def Let_def)
qed

lemma to_fixed_num_error:
  assumes "0 \<le> x"
  shows "\<bar>to_fixed_num d x - x\<bar> \<le> 1 / (2 * 10 ^ d)"
proof -
  let ?p = "10 ^ d :: rat"
  let ?m = "of_int \<lfloor>x * ?p + 1 / 2\<rfloor> :: rat"
  have p: "0 < ?p" by simp
  have lo: "?m \<le> x * ?p + 1 / 2" by linarith
  have hi: "x * ?p + 1 / 2 < ?m + 1" by linarith
  have "\<bar>?m - x * ?p\<bar> \<le> 1 / 2" using lo hi by linarith
  then have "\<bar>?m - x * ?p\<bar> / ?p \<le> (1 / 2) / ?p" using p by (intro divide_right_mono) simp_all
  moreover have "?m / ?p - x = (?m - x * ?p) / ?p" using p by (simp add: field_simps)
  ultimately show ?thesis using assms p by (simp add: to_fixed_num_def Let_def abs_divide)
qed

section \<open>String conversion\<close>

fun join_with :: "string \<Rightarrow> string list \<Rightarrow> string" where
  "join_with sep [] = []"
| "join_with sep [x] = x"
| "join_with sep (x # y # xs) = x @ sep @ join_with sep (y # xs)"

fun js_string :: "jsv \<Rightarrow> string" where
  "js_string JUndef = ''undefined''"
| "js_string JNull = ''null''"
| "js_string (JBool b) = (if b then ''true'' else ''false'')"
| "js_string (JNum n) = show_num n"
| "js_string JNaN = ''NaN''"
| "js_string (JStr s) = s"
| "js_string (JArr xs) = join_with '','' (map (\<lambda>x. if nullish x then [] else js_string x) xs)"
| "js_string (JObj kvs) = ''[object Object]''"

text \<open>\<open>new Error(v).message\<close>: the empty string for \<open>undefined\<close>, else \<open>String(v)\<close>.\<close>

definition error_message :: "jsv \<Rightarrow> err" where
  "error_message v = (if v = JUndef then [] else js_string v)"

lemma error_message_str [simp]: "error_message (JStr s) = s"
  by (simp add: error_message_def)

section \<open>Objects\<close>

definition quote_key :: "string \<Rightarrow> string" where
  "quote_key k = CHR 0x27 # k @ [CHR 0x27]"

definition obj_get :: "(string \<times> jsv) list \<Rightarrow> string \<Rightarrow> jsv" where
  "obj_get kvs k = (case map_of kvs k of None \<Rightarrow> JUndef | Some v \<Rightarrow> v)"

text \<open>\<open>v.k\<close>: a TypeError on \<open>undefined\<close> and \<open>null\<close>, \<open>undefined\<close> where the property is missing.\<close>

fun get_prop :: "jsv \<Rightarrow> string \<Rightarrow> jsv res" where
  "get_prop JUndef k = Inl (''Cannot read properties of undefined (reading '' @ quote_key k @ '')'')"
| "get_prop JNull k = Inl (''Cannot read properties of null (reading '' @ quote_key k @ '')'')"
| "get_prop (JObj kvs) k = Inr (obj_get kvs k)"
| "get_prop (JArr xs) k = Inr (if k = ''length'' then JNum (of_nat (length xs)) else JUndef)"
| "get_prop (JStr s) k = Inr (if k = ''length'' then JNum (of_nat (length s)) else JUndef)"
| "get_prop _ k = Inr JUndef"

text \<open>\<open>v?.k\<close>.\<close>

definition opt_prop :: "jsv \<Rightarrow> string \<Rightarrow> jsv" where
  "opt_prop v k = (case get_prop v k of Inl _ \<Rightarrow> JUndef | Inr w \<Rightarrow> w)"

text \<open>The own enumerable properties that a spread \<open>{...v}\<close> copies.\<close>

fun own_props :: "jsv \<Rightarrow> (string \<times> jsv) list" where
  "own_props (JObj kvs) = kvs"
| "own_props (JArr xs) = zip (map show_nat [0..<length xs]) xs"
| "own_props (JStr s) = zip (map show_nat [0..<length s]) (map (\<lambda>c. JStr [c]) s)"
| "own_props _ = []"

definition put_all :: "(string \<times> jsv) list \<Rightarrow> (string \<times> jsv) list \<Rightarrow> (string \<times> jsv) list" where
  "put_all new old = fold (\<lambda>(k, v). AList.update k v) new old"

text \<open>\<open>{...a, ...b}\<close>: the properties of \<open>a\<close>, then those of \<open>b\<close> over them.\<close>

definition spread2 :: "jsv \<Rightarrow> jsv \<Rightarrow> jsv" where
  "spread2 a b = JObj (put_all (own_props b) (put_all (own_props a) []))"

definition obj_put :: "string \<Rightarrow> jsv \<Rightarrow> jsv \<Rightarrow> jsv" where
  "obj_put k v a = spread2 a (JObj [(k, v)])"

lemma obj_get_update [simp]:
  "obj_get (AList.update k v kvs) j = (if j = k then v else obj_get kvs j)"
  by (auto simp: obj_get_def update_conv')

lemma obj_get_Nil [simp]: "obj_get [] k = JUndef"
  by (simp add: obj_get_def)

lemma obj_get_Cons [simp]: "obj_get ((k, v) # kvs) j = (if j = k then v else obj_get kvs j)"
  by (auto simp: obj_get_def)

lemma map_of_put_all: "distinct (map fst new) \<Longrightarrow> map_of (put_all new old) = map_of old ++ map_of new"
proof (induction new arbitrary: old)
  case Nil
  then show ?case by (simp add: put_all_def)
next
  case (Cons kv new)
  obtain k v where kv: "kv = (k, v)" by (cases kv)
  from Cons.prems kv have "k \<notin> dom (map_of new)" by (simp add: dom_map_of_conv_image_fst)
  moreover have "map_of (put_all (kv # new) old) = map_of (AList.update k v old) ++ map_of new"
    using Cons.IH [of "AList.update k v old"] Cons.prems kv by (simp add: put_all_def)
  ultimately show ?case
    using kv by (auto simp: update_conv' map_add_def fun_eq_iff domIff split: option.splits)
qed

lemma distinct_put_all: "distinct (map fst old) \<Longrightarrow> distinct (map fst (put_all new old))"
  by (induction new arbitrary: old) (auto simp: put_all_def distinct_update)

lemma get_prop_obj_put [simp]:
  "get_prop (obj_put k v (JObj kvs)) j =
     Inr (if j = k then v else obj_get (put_all kvs []) j)"
  by (simp add: obj_put_def spread2_def put_all_def)

text \<open>A plain object, and \<open>{...old, ...new}\<close> on plain objects, where \<open>old\<close> may be missing.\<close>

type_synonym obj = "(string \<times> jsv) list"

definition merge_obj :: "obj option \<Rightarrow> obj \<Rightarrow> obj" where
  "merge_obj old new = put_all new (case old of None \<Rightarrow> [] | Some kvs \<Rightarrow> kvs)"

lemma obj_get_merge:
  assumes "distinct (map fst new)"
  shows "obj_get (merge_obj old new) k =
     (case map_of new k of Some v \<Rightarrow> v | None \<Rightarrow> (case old of None \<Rightarrow> JUndef | Some kvs \<Rightarrow> obj_get kvs k))"
  using assms
  by (auto simp: merge_obj_def obj_get_def map_of_put_all map_add_def split: option.splits)

section \<open>Arithmetic on values\<close>

text \<open>A numeric string: an optional sign, decimal digits and an optional fraction, surrounded by
  white space; the empty string is 0. Exponents and other radixes are not modelled.\<close>

definition is_digit :: "char \<Rightarrow> bool" where
  "is_digit c = (c \<in> set ''0123456789'')"

definition digit_val :: "char \<Rightarrow> nat" where
  "digit_val c = of_char c - 48"

definition digits_val :: "string \<Rightarrow> nat" where
  "digits_val ds = foldl (\<lambda>n d. 10 * n + digit_val d) 0 ds"

text \<open>Printed naturals are digits that are read back, without leading zeros.\<close>

lemma digit_val_char: "d < 10 \<Longrightarrow> is_digit (digit_char d) \<and> digit_val (digit_char d) = d"
proof -
  assume "d < 10"
  moreover have "list_all (\<lambda>d. is_digit (digit_char d) \<and> digit_val (digit_char d) = d) [0..<10]"
    by (simp add: upt_rec digit_char_def is_digit_def digit_val_def)
  ultimately show ?thesis by (simp add: list_all_iff)
qed

lemma show_nat_digits: "list_all is_digit (show_nat n) \<and> show_nat n \<noteq> [] \<and> digits_val (show_nat n) = n"
proof (induction n rule: show_nat.induct)
  case (1 n)
  have "n mod 10 < 10" by simp
  then show ?case
    using 1 digit_val_char [of n] digit_val_char [of "n mod 10"]
    by (cases "n < 10") (simp_all add: show_nat.simps [of n] digits_val_def)
qed

lemma show_nat_chars: "c \<in> set (show_nat n) \<Longrightarrow> is_digit c"
  using show_nat_digits [of n] by (auto simp: list_all_iff)

lemma show_int_chars: "c \<in> set (show_int n) \<Longrightarrow> is_digit c \<or> c = CHR ''-''"
  using show_nat_chars by (auto simp: show_int_def split: if_splits)

lemma show_nat_leading: "hd (show_nat n) = CHR ''0'' \<Longrightarrow> n = 0"
proof (induction n rule: show_nat.induct)
  case (1 n)
  show ?case
  proof (cases "n < 10")
    case True
    then show ?thesis using 1 digit_val_char [of n] by (auto simp: show_nat.simps [of n] digit_val_def)
  next
    case False
    have "show_nat (n div 10) \<noteq> []" using show_nat_digits by blast
    then have "hd (show_nat (n div 10)) = CHR ''0''" using 1(2) False by (simp add: show_nat.simps [of n])
    then show ?thesis using 1(1) False by fastforce
  qed
qed

lemma show_num_int: "show_num (of_int i) = show_int i"
  by (simp add: show_num_def show_int_def Let_def flip: of_int_abs)

definition unsigned_num :: "string \<Rightarrow> jsv" where
  "unsigned_num s =
     (let a = takeWhile is_digit s; r = dropWhile is_digit s in
      case r of [] \<Rightarrow> (if a = [] then JNaN else JNum (of_nat (digits_val a)))
      | c # b \<Rightarrow> (if c = CHR ''.'' \<and> list_all is_digit b \<and> (a \<noteq> [] \<or> b \<noteq> [])
                 then JNum (of_nat (digits_val a) + of_nat (digits_val b) / 10 ^ length b)
                 else JNaN))"

definition neg_num :: "jsv \<Rightarrow> jsv" where
  "neg_num v = (case v of JNum n \<Rightarrow> JNum (- n) | _ \<Rightarrow> JNaN)"

section \<open>Arrays and strings\<close>

text \<open>The receiver of an array method \<open>m\<close>: anything that is not an array throws. \<open>what\<close> is the
  text of the receiver expression, as the engine prints it.\<close>

fun as_array :: "string \<Rightarrow> string \<Rightarrow> jsv \<Rightarrow> jsv list res" where
  "as_array what m (JArr xs) = Inr xs"
| "as_array what m JUndef = Inl (''Cannot read properties of undefined (reading '' @ quote_key m @ '')'')"
| "as_array what m JNull = Inl (''Cannot read properties of null (reading '' @ quote_key m @ '')'')"
| "as_array what m _ = Inl (what @ ''.'' @ m @ '' is not a function'')"

text \<open>\<open>[...v]\<close>.\<close>

fun iterate :: "string \<Rightarrow> jsv \<Rightarrow> jsv list res" where
  "iterate what (JArr xs) = Inr xs"
| "iterate what (JStr s) = Inr (map (\<lambda>c. JStr [c]) s)"
| "iterate what _ = Inl (what @ '' is not iterable'')"

text \<open>\<open>xs.map(f)\<close> and \<open>xs.filter(p)\<close> with callbacks that may throw: the first exception ends the
  traversal.\<close>

fun map_res :: "('a \<Rightarrow> 'b res) \<Rightarrow> 'a list \<Rightarrow> 'b list res" where
  "map_res f [] = Inr []"
| "map_res f (x # xs) =
     (case f x of Inl e \<Rightarrow> Inl e
      | Inr y \<Rightarrow> (case map_res f xs of Inl e \<Rightarrow> Inl e | Inr ys \<Rightarrow> Inr (y # ys)))"

fun filter_res :: "('a \<Rightarrow> bool res) \<Rightarrow> 'a list \<Rightarrow> 'a list res" where
  "filter_res p [] = Inr []"
| "filter_res p (x # xs) =
     (case p x of Inl e \<Rightarrow> Inl e
      | Inr b \<Rightarrow> (case filter_res p xs of Inl e \<Rightarrow> Inl e | Inr ys \<Rightarrow> Inr (if b then x # ys else ys)))"

text \<open>\<open>a => a.k === v\<close>.\<close>

definition prop_is :: "string \<Rightarrow> jsv \<Rightarrow> jsv \<Rightarrow> bool res" where
  "prop_is k v a = (case get_prop a k of Inl e \<Rightarrow> Inl e | Inr x \<Rightarrow> Inr (strict_eq x v))"

definition prop_is_not :: "string \<Rightarrow> jsv \<Rightarrow> jsv \<Rightarrow> bool res" where
  "prop_is_not k v a = (case prop_is k v a of Inl e \<Rightarrow> Inl e | Inr b \<Rightarrow> Inr (\<not> b))"

text \<open>\<open>a => a.k === v ? f(a) : a\<close>.\<close>

definition replace_where :: "string \<Rightarrow> jsv \<Rightarrow> (jsv \<Rightarrow> jsv) \<Rightarrow> jsv \<Rightarrow> jsv res" where
  "replace_where k v f a = (case prop_is k v a of Inl e \<Rightarrow> Inl e | Inr b \<Rightarrow> Inr (if b then f a else a))"

fun is_obj :: "jsv \<Rightarrow> bool" where
  "is_obj (JObj kvs) = True"
| "is_obj _ = False"

lemma prop_is_obj: "is_obj a \<Longrightarrow> prop_is k v a = Inr (strict_eq (opt_prop a k) v)"
  by (cases a) (simp_all add: prop_is_def opt_prop_def)

lemma filter_res_prop_is_not:
  "list_all is_obj xs \<Longrightarrow>
     filter_res (prop_is_not k v) xs = Inr (filter (\<lambda>a. \<not> strict_eq (opt_prop a k) v) xs)"
  by (induction xs) (auto simp: prop_is_not_def prop_is_obj)

lemma map_res_replace_where:
  "list_all is_obj xs \<Longrightarrow>
     map_res (replace_where k v f) xs = Inr (map (\<lambda>a. if strict_eq (opt_prop a k) v then f a else a) xs)"
  by (induction xs) (auto simp: replace_where_def prop_is_obj)

text \<open>\<open>xs.slice(-n)\<close>.\<close>

definition slice_last :: "nat \<Rightarrow> 'a list \<Rightarrow> 'a list" where
  "slice_last n xs = (if n = 0 then xs else drop (length xs - n) xs)"

lemma length_slice_last: "0 < n \<Longrightarrow> length (slice_last n xs) = min n (length xs)"
  by (simp add: slice_last_def)

lemma slice_last_id: "length xs \<le> n \<Longrightarrow> slice_last n xs = xs"
  by (simp add: slice_last_def)

lemma set_slice_last: "set (slice_last n xs) \<subseteq> set xs"
  by (simp add: slice_last_def set_drop_subset)

lemma slice_last_append:
  "0 < n \<Longrightarrow> slice_last n (slice_last n xs @ ys) = slice_last n (xs @ ys)"
proof (cases "length xs \<le> n")
  case False
  assume n: "0 < n"
  let ?d = "length xs - n"
  have *: "slice_last n xs @ ys = drop ?d (xs @ ys)" using n False by (simp add: slice_last_def)
  show ?thesis
    unfolding * using n False by (simp add: slice_last_def) (simp add: algebra_simps)
qed (simp add: slice_last_id)

definition to_lower_char :: "char \<Rightarrow> char" where
  "to_lower_char c =
     (let n = of_char c :: nat in if 65 \<le> n \<and> n \<le> 90 then char_of (n + 32) else c)"

definition to_upper_char :: "char \<Rightarrow> char" where
  "to_upper_char c =
     (let n = of_char c :: nat in if 97 \<le> n \<and> n \<le> 122 then char_of (n - 32) else c)"

definition to_lower :: "string \<Rightarrow> string" where
  "to_lower s = map to_lower_char s"

definition to_upper :: "string \<Rightarrow> string" where
  "to_upper s = map to_upper_char s"

definition is_space :: "char \<Rightarrow> bool" where
  "is_space c = (c \<in> set [CHR 0x09, CHR 0x0A, CHR 0x0B, CHR 0x0C, CHR 0x0D, CHR 0x20])"

definition trim :: "string \<Rightarrow> string" where
  "trim s = rev (dropWhile is_space (rev (dropWhile is_space s)))"

text \<open>\<open>Number(v)\<close>, the quotient \<open>v / d\<close> by a positive constant, and \<open>a < b\<close>.\<close>

definition str_number :: "string \<Rightarrow> jsv" where
  "str_number s =
     (case trim s of [] \<Rightarrow> JNum 0
      | c # t \<Rightarrow> (if c = CHR ''-'' then neg_num (unsigned_num t)
                 else if c = CHR ''+'' then unsigned_num t else unsigned_num (c # t)))"

fun to_number :: "jsv \<Rightarrow> jsv" where
  "to_number (JNum n) = JNum n"
| "to_number JNull = JNum 0"
| "to_number (JBool b) = JNum (if b then 1 else 0)"
| "to_number (JStr s) = str_number s"
| "to_number (JArr xs) = str_number (js_string (JArr xs))"
| "to_number _ = JNaN"

definition div_num :: "jsv \<Rightarrow> rat \<Rightarrow> jsv" where
  "div_num v d = (case to_number v of JNum n \<Rightarrow> JNum (n / d) | _ \<Rightarrow> JNaN)"

fun str_less :: "string \<Rightarrow> string \<Rightarrow> bool" where
  "str_less [] ys = (ys \<noteq> [])"
| "str_less (x # xs) [] = False"
| "str_less (x # xs) (y # ys) =
     ((of_char x :: nat) < of_char y \<or> (x = y \<and> str_less xs ys))"

fun to_primitive :: "jsv \<Rightarrow> jsv" where
  "to_primitive (JArr xs) = JStr (js_string (JArr xs))"
| "to_primitive (JObj kvs) = JStr (js_string (JObj kvs))"
| "to_primitive v = v"

definition js_less :: "jsv \<Rightarrow> jsv \<Rightarrow> bool" where
  "js_less a b = (case (to_primitive a, to_primitive b) of
       (JStr x, JStr y) \<Rightarrow> str_less x y
     | (x, y) \<Rightarrow> (case (to_number x, to_number y) of (JNum m, JNum n) \<Rightarrow> m < n | _ \<Rightarrow> False))"

text \<open>\<open>a + b\<close>: concatenation as soon as one side is a string, else the sum.\<close>

definition num_add :: "jsv \<Rightarrow> jsv \<Rightarrow> jsv" where
  "num_add a b = (case (to_number a, to_number b) of (JNum m, JNum n) \<Rightarrow> JNum (m + n) | _ \<Rightarrow> JNaN)"

fun is_str :: "jsv \<Rightarrow> bool" where
  "is_str (JStr s) = True"
| "is_str _ = False"

definition js_add :: "jsv \<Rightarrow> jsv \<Rightarrow> jsv" where
  "js_add a b = (let x = to_primitive a; y = to_primitive b in
     if is_str x \<or> is_str y then JStr (js_string x @ js_string y) else num_add x y)"

lemma js_add_num [simp]: "js_add (JNum m) (JNum n) = JNum (m + n)"
  by (simp add: js_add_def num_add_def)

text \<open>\<open>Math.max(lo, v)\<close> and \<open>Math.min(hi, v)\<close> for a constant and a value.\<close>

definition math_max :: "rat \<Rightarrow> jsv \<Rightarrow> jsv" where
  "math_max lo v = (case to_number v of JNum n \<Rightarrow> JNum (max lo n) | _ \<Rightarrow> JNaN)"

definition math_min :: "rat \<Rightarrow> jsv \<Rightarrow> jsv" where
  "math_min hi v = (case to_number v of JNum n \<Rightarrow> JNum (min hi n) | _ \<Rightarrow> JNaN)"

text \<open>\<open>Number(v.toFixed(d))\<close> for a number \<open>v\<close>.\<close>

definition fixed :: "nat \<Rightarrow> jsv \<Rightarrow> jsv" where
  "fixed d v = (case v of JNum x \<Rightarrow> JNum (to_fixed_num d x) | _ \<Rightarrow> JNaN)"

lemma js_less_num [simp]: "js_less (JNum m) (JNum n) \<longleftrightarrow> m < n"
  by (simp add: js_less_def)

fun is_prefix_of :: "string \<Rightarrow> string \<Rightarrow> bool" where
  "is_prefix_of [] ys = True"
| "is_prefix_of (x # xs) [] = False"
| "is_prefix_of (x # xs) (y # ys) = (x = y \<and> is_prefix_of xs ys)"

text \<open>\<open>s.includes(sub)\<close>.\<close>

fun includes_str :: "string \<Rightarrow> string \<Rightarrow> bool" where
  "includes_str [] sub = (sub = [])"
| "includes_str (c # s) sub = (is_prefix_of sub (c # s) \<or> includes_str s sub)"

text \<open>\<open>s.split(c)\<close> for a one-character separator.\<close>

fun split_on :: "char \<Rightarrow> string \<Rightarrow> string list" where
  "split_on c [] = [[]]"
| "split_on c (x # xs) =
     (if x = c then [] # split_on c xs
      else case split_on c xs of [] \<Rightarrow> [[x]] | y # ys \<Rightarrow> (x # y) # ys)"

lemma split_on_ne [simp]: "split_on c xs \<noteq> []"
  by (cases xs) (auto split: list.splits)

lemma split_on_no_sep: "c \<notin> set xs \<Longrightarrow> split_on c xs = [xs]"
  by (induction xs) auto

lemma split_on_append:
  "c \<notin> set xs \<Longrightarrow> split_on c (xs @ c # ys) = xs # split_on c ys"
  by (induction xs) auto

lemma join_with_snoc: "xs \<noteq> [] \<Longrightarrow> join_with sep (xs @ [x]) = join_with sep xs @ sep @ x"
proof (induction xs)
  case (Cons y ys)
  then show ?case by (cases ys) auto
qed simp

lemma set_join_with: "set (join_with sep xs) \<subseteq> set sep \<union> \<Union> (set ` set xs)"
  by (induction sep xs rule: join_with.induct) auto

lemma join_split [simp]: "join_with [c] (split_on c xs) = xs"
proof (induction xs)
  case (Cons x xs)
  obtain y ys where "split_on c xs = y # ys" by (cases "split_on c xs") auto
  with Cons show ?case by (cases ys) auto
qed simp

lemma split_on_head: "c \<notin> set a \<Longrightarrow> b = [] \<or> hd b = c \<Longrightarrow> hd (split_on c (a @ b)) = a"
  by (cases b) (auto simp: split_on_append split_on_no_sep)

lemma split_join:
  "(\<And>l. l \<in> set xs \<Longrightarrow> c \<notin> set l) \<Longrightarrow> xs \<noteq> [] \<Longrightarrow> split_on c (join_with [c] xs) = xs"
  by (induction "[c]" xs rule: join_with.induct) (simp_all add: split_on_append split_on_no_sep)

lemma includes_str_char [simp]: "includes_str s [c] \<longleftrightarrow> c \<in> set s"
proof (induction s)
  case (Cons x s)
  then show ?case by (cases s) auto
qed simp

lemma trim_is_suffix_free: "trim s = [] \<longleftrightarrow> (\<forall>c\<in>set s. is_space c)"
  by (auto simp: trim_def dropWhile_eq_Nil_conv dest: set_dropWhileD)
     (metis dropWhile_eq_Nil_conv set_dropWhileD takeWhile_dropWhile_id set_append set_takeWhileD Un_iff)

lemma digit_not_space: "is_digit c \<Longrightarrow> \<not> is_space c"
  by (auto simp: is_digit_def is_space_def)

lemma trim_ends: "trim s \<noteq> [] \<Longrightarrow> \<not> is_space (hd (trim s)) \<and> \<not> is_space (last (trim s))"
proof -
  let ?z = "dropWhile is_space s"
  let ?y = "dropWhile is_space (rev ?z)"
  assume "trim s \<noteq> []"
  then have y: "?y \<noteq> []" by (simp add: trim_def)
  then have z: "?z \<noteq> []" by (metis dropWhile.simps(1) rev.simps(1))
  have "\<not> is_space (last (trim s))" using y hd_dropWhile [of is_space "rev ?z"] by (simp add: trim_def last_rev)
  moreover have "hd (trim s) = hd ?z"
  proof -
    have "rev ?z = takeWhile is_space (rev ?z) @ ?y" by simp
    then have "?z = rev ?y @ rev (takeWhile is_space (rev ?z))" by (metis rev_append rev_rev_ident)
    then have "hd ?z = hd (rev ?y)" using y by (metis hd_append2 rev_is_Nil_conv)
    then show ?thesis by (simp add: trim_def)
  qed
  ultimately show ?thesis using z hd_dropWhile [of is_space s] by simp
qed

lemma trim_id: "s = [] \<or> (\<not> is_space (hd s) \<and> \<not> is_space (last s)) \<Longrightarrow> trim s = s"
proof (cases "s = []")
  case False
  assume "s = [] \<or> (\<not> is_space (hd s) \<and> \<not> is_space (last s))"
  with False have s: "\<not> is_space (hd s)" "\<not> is_space (hd (rev s))" by (simp_all add: hd_rev)
  have "dropWhile is_space s = s" using s(1) False by (cases s) auto
  moreover have "dropWhile is_space (rev s) = rev s" using s(2) False by (cases "rev s") auto
  ultimately show ?thesis by (simp add: trim_def)
qed (simp add: trim_def)

lemma trim_trim [simp]: "trim (trim s) = trim s"
  using trim_ends [of s] by (intro trim_id) blast

lemma trim_Nil [simp]: "trim [] = []"
  by (simp add: trim_def)

lemma trim_space [simp]: "is_space c \<Longrightarrow> trim (c # s) = trim s"
  by (simp add: trim_def)

text \<open>A list written with commas is read back, entry by entry.\<close>

lemma trim_split_join:
  assumes "xs \<noteq> []" and "\<And>x. x \<in> set xs \<Longrightarrow> CHR '','' \<notin> set x \<and> trim x = x"
  shows "map trim (split_on CHR '','' (join_with '', '' xs)) = xs"
proof -
  have sp: "is_space CHR '' ''" by (simp add: is_space_def)
  have rest: "map trim (split_on CHR '','' (CHR '' '' # join_with '', '' (y # ys))) = y # ys"
    if "\<And>x. x \<in> set (y # ys) \<Longrightarrow> CHR '','' \<notin> set x \<and> trim x = x" for y ys
    using that
  proof (induction ys arbitrary: y)
    case Nil
    then have "CHR '','' \<notin> set (CHR '' '' # y)" by simp
    then have "split_on CHR '','' (CHR '' '' # y) = [CHR '' '' # y]" by (rule split_on_no_sep)
    then show ?case using Nil sp by simp
  next
    case (Cons z zs)
    then have "CHR '','' \<notin> set (CHR '' '' # y)" by simp
    from split_on_append [OF this, of "CHR '' '' # join_with '', '' (z # zs)"]
    show ?case using Cons.IH [of z] Cons.prems sp by simp
  qed
  obtain x ys where xs: "xs = x # ys" using assms(1) by (cases xs) auto
  show ?thesis
  proof (cases ys)
    case Nil
    then show ?thesis using assms(2) [of x] by (simp add: xs split_on_no_sep)
  next
    case (Cons y zs)
    have "CHR '','' \<notin> set x" using assms(2) xs by simp
    from split_on_append [OF this, of "CHR '' '' # join_with '', '' (y # zs)"]
    show ?thesis using rest [of y zs] assms(2) by (simp add: xs Cons)
  qed
qed

text \<open>The receiver of a string method \<open>m\<close>.\<close>

fun as_string :: "string \<Rightarrow> string \<Rightarrow> jsv \<Rightarrow> string res" where
  "as_string what m (JStr s) = Inr s"
| "as_string what m JUndef = Inl (''Cannot read properties of undefined (reading '' @ quote_key m @ '')'')"
| "as_string what m JNull = Inl (''Cannot read properties of null (reading '' @ quote_key m @ '')'')"
| "as_string what m _ = Inl (what @ ''.'' @ m @ '' is not a function'')"

text \<open>\<open>a || b\<close> and \<open>a && b\<close> of conditions that may throw.\<close>

definition res_or :: "bool res \<Rightarrow> bool res \<Rightarrow> bool res" where
  "res_or a b = (if a = Inr False then b else a)"

definition res_and :: "bool res \<Rightarrow> bool res \<Rightarrow> bool res" where
  "res_and a b = (if a = Inr True then b else a)"

lemma res_bools [simp]:
  "res_or (Inr x) (Inr y) = Inr (x \<or> y)" "res_and (Inr x) (Inr y) = Inr (x \<and> y)"
  "res_or (Inr True) b = Inr True" "res_and (Inr False) b = Inr False" "res_or (Inl e) b = Inl e" "res_and (Inl e) b = Inl e"
  by (auto simp: res_or_def res_and_def)

text \<open>\<open>Array.from(new Set(xs))\<close>: each value once, at its first place.\<close>

definition as_set :: "'a list \<Rightarrow> 'a list" where
  "as_set xs = fold (\<lambda>x acc. if x \<in> set acc then acc else acc @ [x]) xs []"

lemma as_set_step: "set (fold (\<lambda>x acc. if x \<in> set acc then acc else acc @ [x]) xs acc) = set acc \<union> set xs"
  "distinct acc \<Longrightarrow> distinct (fold (\<lambda>x acc. if x \<in> set acc then acc else acc @ [x]) xs acc)"
  by (induction xs arbitrary: acc) auto

lemma set_as_set [simp]: "set (as_set xs) = set xs" "distinct (as_set xs)"
  by (simp_all add: as_set_def as_set_step)

section \<open>Values of forms\<close>

text \<open>
  The values that a form holds and sends: numbers, texts and switches, and the defaults that the pages put in for a value that
  is missing. What such a default keeps is what a form reads back after it was saved.
\<close>

definition number_in :: "jsv \<Rightarrow> bool" where
  "number_in v \<longleftrightarrow> (\<exists>q. v = JNum q \<and> q \<noteq> 0)"

definition text_in :: "jsv \<Rightarrow> bool" where
  "text_in v \<longleftrightarrow> (\<exists>t. v = JStr t)"

definition flag_in :: "jsv \<Rightarrow> bool" where
  "flag_in v \<longleftrightarrow> (\<exists>b. v = JBool b)"

text \<open>\<open>c.k !== undefined ? c.k : d\<close>.\<close>

definition or_undefined :: "jsv \<Rightarrow> jsv \<Rightarrow> jsv" where
  "or_undefined v d = (if v = JUndef then d else v)"

lemma keeps_values:
  "number_in v \<Longrightarrow> to_number v = v" "number_in v \<Longrightarrow> js_or v d = v" "text_in v \<Longrightarrow> js_or v (JStr []) = v"
  "flag_in v \<Longrightarrow> js_or v (JBool False) = v" "js_or JUndef d = d" "truthy v \<Longrightarrow> js_or v d = v"
  "flag_in v \<Longrightarrow> or_undefined v d = v"
  by (auto simp: number_in_def text_in_def flag_in_def js_or_def or_undefined_def)

end
