(* ===== verification/JS_Async.thy ===== *)
theory JS_Async
  imports JS_Values
begin

text \<open>
  Asynchronous JavaScript. An \<open>async\<close> function is a \<open>task\<close>: it reads and writes the store
  (\<open>Get\<close>, \<open>Set\<close>), suspends at every \<open>await\<close> of an outside answer (\<open>Await q k\<close>: a \<open>fetch\<close> or a
  dialog, with the continuation \<open>k\<close> of the answer) or of a promise that resolves by itself
  (\<open>Yield\<close>: the body of a response, the end of another async function), and ends with a value
  (\<open>Done\<close>) or with an exception (\<open>Fail\<close>). Between two suspension points a task runs alone, as
  JavaScript does; at a suspension point anything else may run.

  Two semantics: \<open>run\<close> executes one task alone on a list of answers, \<open>areach\<close> is the set of
  states that any interleaving of calls, answers and outside events reaches. \<open>wp\<close> is a
  weakest precondition for the second: the invariant holds at every suspension point, and is
  all that is known of the state when the task continues.
\<close>

named_theorems async_simps \<open>weakest preconditions and runs of tasks\<close>

section \<open>Tasks\<close>

datatype ('s, 'q, 'r, 'a) task =
    Done 'a
  | Fail err
  | Set "'s \<Rightarrow> 's" "('s, 'q, 'r, 'a) task"
  | Get "'s \<Rightarrow> ('s, 'q, 'r, 'a) task"
  | Await 'q "'r \<Rightarrow> ('s, 'q, 'r, 'a) task"
  | Yield "('s, 'q, 'r, 'a) task"

primrec bind :: "('s, 'q, 'r, 'a) task \<Rightarrow> ('a \<Rightarrow> ('s, 'q, 'r, 'b) task) \<Rightarrow> ('s, 'q, 'r, 'b) task" where
  "bind (Done a) f = f a"
| "bind (Fail e) f = Fail e"
| "bind (Set u t) f = Set u (bind t f)"
| "bind (Get g) f = Get (\<lambda>s. bind (g s) f)"
| "bind (Await q k) f = Await q (\<lambda>r. bind (k r) f)"
| "bind (Yield t) f = Yield (bind t f)"

definition andthen :: "('s, 'q, 'r, 'a) task \<Rightarrow> ('s, 'q, 'r, 'b) task \<Rightarrow> ('s, 'q, 'r, 'b) task" where
  "andthen t u = bind t (\<lambda>_. u)"

text \<open>\<open>try t catch (e) h\<close>.\<close>

primrec try_catch :: "('s, 'q, 'r, 'a) task \<Rightarrow> (err \<Rightarrow> ('s, 'q, 'r, 'a) task) \<Rightarrow> ('s, 'q, 'r, 'a) task" where
  "try_catch (Done a) h = Done a"
| "try_catch (Fail e) h = h e"
| "try_catch (Set u t) h = Set u (try_catch t h)"
| "try_catch (Get g) h = Get (\<lambda>s. try_catch (g s) h)"
| "try_catch (Await q k) h = Await q (\<lambda>r. try_catch (k r) h)"
| "try_catch (Yield t) h = Yield (try_catch t h)"

text \<open>\<open>try t finally c\<close>, where the cleanup writes the store and cannot throw.\<close>

primrec finally_do :: "('s, 'q, 'r, 'a) task \<Rightarrow> ('s \<Rightarrow> 's) \<Rightarrow> ('s, 'q, 'r, 'a) task" where
  "finally_do (Done a) c = Set c (Done a)"
| "finally_do (Fail e) c = Set c (Fail e)"
| "finally_do (Set u t) c = Set u (finally_do t c)"
| "finally_do (Get g) c = Get (\<lambda>s. finally_do (g s) c)"
| "finally_do (Await q k) c = Await q (\<lambda>r. finally_do (k r) c)"
| "finally_do (Yield t) c = Yield (finally_do t c)"

abbreviation set_state :: "('s \<Rightarrow> 's) \<Rightarrow> ('s, 'q, 'r, unit) task" where
  "set_state u \<equiv> Set u (Done ())"

definition lift_res :: "'a res \<Rightarrow> ('s, 'q, 'r, 'a) task" where
  "lift_res x = (case x of Inl e \<Rightarrow> Fail e | Inr a \<Rightarrow> Done a)"

text \<open>\<open>set(fn)\<close>: \<open>fn\<close> computes a patch from the current state, and may throw before anything is
  written.\<close>

definition set_with :: "('s \<Rightarrow> ('s \<Rightarrow> 's) res) \<Rightarrow> ('s, 'q, 'r, unit) task" where
  "set_with f = Get (\<lambda>s. case f s of Inl e \<Rightarrow> Fail e | Inr u \<Rightarrow> Set u (Done ()))"

text \<open>\<open>await t\<close> for a call of another async function: the caller continues in a later turn.\<close>

definition await_task :: "('s, 'q, 'r, 'a) task \<Rightarrow> ('s, 'q, 'r, 'a) task" where
  "await_task t = try_catch (bind t (\<lambda>a. Yield (Done a))) (\<lambda>e. Yield (Fail e))"

text \<open>A call whose result the caller ignores.\<close>

definition void :: "('s, 'q, 'r, 'a) task \<Rightarrow> ('s, 'q, 'r, unit) task" where
  "void t = bind t (\<lambda>_. Done ())"

lemma bind_Done_right [simp]: "bind t Done = t"
  by (induction t) auto

lemma bind_assoc: "bind (bind t f) g = bind t (\<lambda>a. bind (f a) g)"
  by (induction t) auto

section \<open>Running one task alone\<close>

datatype 'a outcome = Returned 'a | Threw err | Waiting

text \<open>\<open>run t rs s\<close>: the requests issued, the outcome, the final state and the answers left.\<close>

primrec run :: "('s, 'q, 'r, 'a) task \<Rightarrow> 'r list \<Rightarrow> 's \<Rightarrow> 'q list \<times> 'a outcome \<times> 's \<times> 'r list" where
  "run (Done a) rs s = ([], Returned a, s, rs)"
| "run (Fail e) rs s = ([], Threw e, s, rs)"
| "run (Set u t) rs s = run t rs (u s)"
| "run (Get g) rs s = run (g s) rs s"
| "run (Await q k) rs s =
     (case rs of [] \<Rightarrow> ([q], Waiting, s, [])
      | r # rs' \<Rightarrow> (case run (k r) rs' s of (qs, x) \<Rightarrow> (q # qs, x)))"
| "run (Yield t) rs s = run t rs s"

definition requests :: "('s, 'q, 'r, 'a) task \<Rightarrow> 'r list \<Rightarrow> 's \<Rightarrow> 'q list" where
  "requests t rs s = fst (run t rs s)"

definition outcome :: "('s, 'q, 'r, 'a) task \<Rightarrow> 'r list \<Rightarrow> 's \<Rightarrow> 'a outcome" where
  "outcome t rs s = fst (snd (run t rs s))"

definition final :: "('s, 'q, 'r, 'a) task \<Rightarrow> 'r list \<Rightarrow> 's \<Rightarrow> 's" where
  "final t rs s = fst (snd (snd (run t rs s)))"

lemmas run_defs = requests_def outcome_def final_def

section \<open>Weakest preconditions under interleaving\<close>

text \<open>\<open>wp A I Q E t s\<close>: started in \<open>s\<close>, the task establishes the invariant \<open>I\<close> whenever it
  suspends, and \<open>Q\<close> (or \<open>E\<close>, if it throws) when it ends, provided the answers satisfy \<open>A\<close> and
  everything that runs in between keeps \<open>I\<close>.\<close>

primrec wp :: "('q \<Rightarrow> 'r \<Rightarrow> bool) \<Rightarrow> ('s \<Rightarrow> bool) \<Rightarrow> ('a \<Rightarrow> 's \<Rightarrow> bool) \<Rightarrow> (err \<Rightarrow> 's \<Rightarrow> bool) \<Rightarrow>
    ('s, 'q, 'r, 'a) task \<Rightarrow> 's \<Rightarrow> bool" where
  "wp A I Q E (Done a) s = Q a s"
| "wp A I Q E (Fail e) s = E e s"
| "wp A I Q E (Set u t) s = wp A I Q E t (u s)"
| "wp A I Q E (Get g) s = wp A I Q E (g s) s"
| "wp A I Q E (Await q k) s = (I s \<and> (\<forall>r s'. A q r \<longrightarrow> I s' \<longrightarrow> wp A I Q E (k r) s'))"
| "wp A I Q E (Yield t) s = (I s \<and> (\<forall>s'. I s' \<longrightarrow> wp A I Q E t s'))"

lemma wp_ends [simp]:
  "wp A I Q E (Done a) = Q a"
  "wp A I Q E (Fail e) = E e"
  by (simp_all add: fun_eq_iff)

lemma wp_bind [simp]:
  "wp A I Q E (bind t f) s = wp A I (\<lambda>a. wp A I Q E (f a)) E t s"
  by (induction t arbitrary: s) auto

lemma wp_andthen [simp]: "wp A I Q E (andthen t u) s = wp A I (\<lambda>_. wp A I Q E u) E t s"
  by (simp add: andthen_def)

lemma wp_try_catch [simp]:
  "wp A I Q E (try_catch t h) s = wp A I Q (\<lambda>e. wp A I Q E (h e)) t s"
  by (induction t arbitrary: s) auto

lemma wp_finally_do [simp]:
  "wp A I Q E (finally_do t c) s = wp A I (\<lambda>a s. Q a (c s)) (\<lambda>e s. E e (c s)) t s"
  by (induction t arbitrary: s) auto

lemma wp_await_task [simp]:
  "wp A I Q E (await_task t) s =
     wp A I (\<lambda>a s. I s \<and> (\<forall>s'. I s' \<longrightarrow> Q a s')) (\<lambda>e s. I s \<and> (\<forall>s'. I s' \<longrightarrow> E e s')) t s"
  by (induction t arbitrary: s) (auto simp: await_task_def)

lemma wp_set_with [simp]:
  "wp A I Q E (set_with f) s = (case f s of Inl e \<Rightarrow> E e s | Inr u \<Rightarrow> Q () (u s))"
  by (simp add: set_with_def split: sum.splits)

lemma wp_lift_res [simp]:
  "wp A I Q E (lift_res x) s = (case x of Inl e \<Rightarrow> E e s | Inr a \<Rightarrow> Q a s)"
  by (simp add: lift_res_def split: sum.splits)

lemma wp_void [simp]: "wp A I Q E (void t) s = wp A I (\<lambda>_. Q ()) E t s"
  by (simp add: void_def)

lemma wp_mono:
  assumes "wp A I Q E t s" and "\<And>a s. Q a s \<Longrightarrow> Q' a s" and "\<And>e s. E e s \<Longrightarrow> E' e s"
  shows "wp A I Q' E' t s"
  using assms by (induction t arbitrary: s) auto

text \<open>The postcondition form used throughout: the task keeps \<open>I\<close>, however it ends.\<close>

abbreviation keeps :: "('q \<Rightarrow> 'r \<Rightarrow> bool) \<Rightarrow> ('s \<Rightarrow> bool) \<Rightarrow> ('s, 'q, 'r, 'a) task \<Rightarrow> 's \<Rightarrow> bool" where
  "keeps A I t s \<equiv> wp A I (\<lambda>_. I) (\<lambda>_. I) t s"

section \<open>Interleaved execution\<close>

text \<open>An invariant of a step relation holds in every state it reaches.\<close>

lemma reach_invariant:
  assumes "step\<^sup>*\<^sup>* s t" and "P s" and "\<And>s t. step s t \<Longrightarrow> P s \<Longrightarrow> P t"
  shows "P t"
  using assms by (induction rule: rtranclp_induct) blast+

text \<open>Short runs, step by step.\<close>

lemma run_steps2: "r a b \<Longrightarrow> r b c \<Longrightarrow> r\<^sup>*\<^sup>* a c"
  by (meson rtranclp.rtrancl_into_rtrancl rtranclp.rtrancl_refl)

lemma run_steps3: "r a b \<Longrightarrow> r b c \<Longrightarrow> r c d \<Longrightarrow> r\<^sup>*\<^sup>* a d"
  using run_steps2 [of r a b c] by (rule rtranclp.rtrancl_into_rtrancl)

lemma run_steps4: "r a b \<Longrightarrow> r b c \<Longrightarrow> r c d \<Longrightarrow> r d e \<Longrightarrow> r\<^sup>*\<^sup>* a e"
  using run_steps3 [of r a b c d] by (rule rtranclp.rtrancl_into_rtrancl)

lemma run_steps5: "r a b \<Longrightarrow> r b c \<Longrightarrow> r c d \<Longrightarrow> r d e \<Longrightarrow> r e f \<Longrightarrow> r\<^sup>*\<^sup>* a f"
  using run_steps4 [of r a b c d e] by (rule rtranclp.rtrancl_into_rtrancl)

text \<open>The turn of a task: it runs until it ends or suspends.\<close>

primrec turn :: "('s, 'q, 'r, 'a) task \<Rightarrow> 's \<Rightarrow> ('s, 'q, 'r, 'a) task \<times> 's" where
  "turn (Done a) s = (Done a, s)"
| "turn (Fail e) s = (Fail e, s)"
| "turn (Set u t) s = turn t (u s)"
| "turn (Get g) s = turn (g s) s"
| "turn (Await q k) s = (Await q k, s)"
| "turn (Yield t) s = (Yield t, s)"

text \<open>
  States that interleaved execution reaches, with the tasks started so far: a caller starts a
  task of \<open>acts\<close>, a suspended task gets an answer that \<open>A\<close> allows or simply continues, or
  something outside the tasks (a WebSocket or timer callback, a synchronous method) changes the
  state as \<open>ev\<close> says.
\<close>

inductive areach :: "('s, 'q, 'r, 'a) task set \<Rightarrow> ('q \<Rightarrow> 'r \<Rightarrow> bool) \<Rightarrow> ('s \<Rightarrow> 's \<Rightarrow> bool) \<Rightarrow> 's \<Rightarrow>
    's \<Rightarrow> ('s, 'q, 'r, 'a) task list \<Rightarrow> bool"
  for acts A ev s0 where
  start: "areach acts A ev s0 s0 []"
| call: "areach acts A ev s0 s p \<Longrightarrow> t \<in> acts \<Longrightarrow> turn t s = (t', s') \<Longrightarrow>
     areach acts A ev s0 s' (p @ [t'])"
| answer: "areach acts A ev s0 s p \<Longrightarrow> i < length p \<Longrightarrow> p ! i = Await q k \<Longrightarrow> A q r \<Longrightarrow>
     turn (k r) s = (t', s') \<Longrightarrow> areach acts A ev s0 s' (p[i := t'])"
| wake: "areach acts A ev s0 s p \<Longrightarrow> i < length p \<Longrightarrow> p ! i = Yield t \<Longrightarrow>
     turn t s = (t', s') \<Longrightarrow> areach acts A ev s0 s' (p[i := t'])"
| event: "areach acts A ev s0 s p \<Longrightarrow> ev s s' \<Longrightarrow> areach acts A ev s0 s' p"

text \<open>A suspended task is ready when it keeps \<open>I\<close> from every state that satisfies \<open>I\<close>.\<close>

primrec ready :: "('q \<Rightarrow> 'r \<Rightarrow> bool) \<Rightarrow> ('s \<Rightarrow> bool) \<Rightarrow> ('s, 'q, 'r, 'a) task \<Rightarrow> bool" where
  "ready A I (Done a) = True"
| "ready A I (Fail e) = True"
| "ready A I (Set u t) = False"
| "ready A I (Get g) = False"
| "ready A I (Await q k) = (\<forall>r s. A q r \<longrightarrow> I s \<longrightarrow> keeps A I (k r) s)"
| "ready A I (Yield t) = (\<forall>s. I s \<longrightarrow> keeps A I t s)"

lemma turn_keeps: "keeps A I t s \<Longrightarrow> turn t s = (t', s') \<Longrightarrow> I s' \<and> ready A I t'"
  by (induction t arbitrary: s) auto

locale async_store =
  fixes acts :: "('s, 'q, 'r, 'a) task set"
    and A :: "'q \<Rightarrow> 'r \<Rightarrow> bool"
    and ev :: "'s \<Rightarrow> 's \<Rightarrow> bool"
    and s0 :: 's
    and I :: "'s \<Rightarrow> bool"
  assumes init_inv: "I s0"
    and acts_inv: "t \<in> acts \<Longrightarrow> I s \<Longrightarrow> keeps A I t s"
    and ev_inv: "ev s s' \<Longrightarrow> I s \<Longrightarrow> I s'"
begin

lemma reach_ready:
  "areach acts A ev s0 s p \<Longrightarrow> I s \<and> (\<forall>t\<in>set p. ready A I t)"
proof (induction rule: areach.induct)
  case start
  then show ?case by (simp add: init_inv)
next
  case (call s p t t' s')
  then have "keeps A I t s" by (blast intro: acts_inv)
  then have "I s' \<and> ready A I t'" using call.hyps(3) by (rule turn_keeps)
  then show ?case using call.IH by auto
next
  case (answer s p i q k r t' s')
  then have "ready A I (Await q k)" by (metis nth_mem)
  then have "keeps A I (k r) s" using answer by simp
  then have "I s' \<and> ready A I t'" using answer.hyps(5) by (rule turn_keeps)
  then show ?case using answer.IH by (auto dest: set_update_subset_insert [THEN subsetD])
next
  case (wake s p i t t' s')
  then have "ready A I (Yield t)" by (metis nth_mem)
  then have "keeps A I t s" using wake by simp
  then have "I s' \<and> ready A I t'" using wake.hyps(4) by (rule turn_keeps)
  then show ?case using wake.IH by (auto dest: set_update_subset_insert [THEN subsetD])
next
  case (event s p s')
  then show ?case by (auto intro: ev_inv)
qed

lemma reach_inv: "areach acts A ev s0 s p \<Longrightarrow> I s"
  using reach_ready by blast

end

text \<open>An invariant that holds also describes every state in which a task runs alone.\<close>

lemma run_keeps:
  assumes "wp (\<lambda>_ _. True) I Q E t s"
  shows "case run t rs s of (qs, out, s', rs') \<Rightarrow>
     (case out of Returned a \<Rightarrow> Q a s' | Threw e \<Rightarrow> E e s' | Waiting \<Rightarrow> I s')"
  using assms
proof (induction t arbitrary: rs s)
  case (Await q k)
  show ?case
  proof (cases rs)
    case Nil
    then show ?thesis using Await.prems by simp
  next
    case (Cons r rs')
    have "wp (\<lambda>_ _. True) I Q E (k r) s" using Await.prems by simp
    then show ?thesis
      using Await.IH [of "k r" s rs'] Cons by (auto split: prod.splits)
  qed
qed auto

lemma final_keeps: "keeps (\<lambda>_ _. True) I t s \<Longrightarrow> I (final t rs s)"
  using run_keeps [of I "\<lambda>_. I" "\<lambda>_. I" t s rs]
  by (auto simp: final_def split: prod.splits outcome.splits)

section \<open>Tasks that run alone\<close>

text \<open>\<open>alone Q E t s\<close>: run alone from \<open>s\<close>, whatever the answers, the task ends in \<open>Q\<close>, or in \<open>E\<close>
  if it throws. Unlike \<open>wp\<close> the state stays as it is while the task waits.\<close>

primrec alone :: "('a \<Rightarrow> 's \<Rightarrow> bool) \<Rightarrow> (err \<Rightarrow> 's \<Rightarrow> bool) \<Rightarrow> ('s, 'q, 'r, 'a) task \<Rightarrow> 's \<Rightarrow> bool" where
  "alone Q E (Done a) s = Q a s"
| "alone Q E (Fail e) s = E e s"
| "alone Q E (Set u t) s = alone Q E t (u s)"
| "alone Q E (Get g) s = alone Q E (g s) s"
| "alone Q E (Await q k) s = (\<forall>r. alone Q E (k r) s)"
| "alone Q E (Yield t) s = alone Q E t s"

lemma alone_ends [simp]: "alone Q E (Done a) = Q a" "alone Q E (Fail e) = E e"
  by (simp_all add: fun_eq_iff)

lemma alone_bind [simp]: "alone Q E (bind t f) s = alone (\<lambda>a. alone Q E (f a)) E t s"
  by (induction t arbitrary: s) auto

lemma alone_andthen [simp]: "alone Q E (andthen t u) s = alone (\<lambda>_. alone Q E u) E t s"
  by (simp add: andthen_def)

lemma alone_try_catch [simp]: "alone Q E (try_catch t h) s = alone Q (\<lambda>e. alone Q E (h e)) t s"
  by (induction t arbitrary: s) auto

lemma alone_finally [simp]:
  "alone Q E (finally_do t c) s = alone (\<lambda>a s. Q a (c s)) (\<lambda>e s. E e (c s)) t s"
  by (induction t arbitrary: s) auto

lemma alone_await_task [simp]: "alone Q E (await_task t) s = alone Q E t s"
  by (induction t arbitrary: s) (auto simp: await_task_def)

lemma alone_set_with [simp]:
  "alone Q E (set_with f) s = (case f s of Inl e \<Rightarrow> E e s | Inr u \<Rightarrow> Q () (u s))"
  by (simp add: set_with_def split: sum.splits)

lemma alone_lift_res [simp]:
  "alone Q E (lift_res x) s = (case x of Inl e \<Rightarrow> E e s | Inr a \<Rightarrow> Q a s)"
  by (simp add: lift_res_def split: sum.splits)

lemma run_alone:
  "alone Q E t s \<Longrightarrow> run t rs s = (qs, out, s', rest) \<Longrightarrow>
     (case out of Returned a \<Rightarrow> Q a s' | Threw e \<Rightarrow> E e s' | Waiting \<Rightarrow> True)"
proof (induction t arbitrary: s rs qs)
  case (Await q k)
  show ?case
  proof (cases rs)
    case Nil
    then show ?thesis using Await.prems by auto
  next
    case (Cons a list)
    obtain qs' where "run (k a) list s = (qs', out, s', rest)"
      using Await.prems(2) Cons by (auto split: prod.splits)
    moreover have "alone Q E (k a) s" using Await.prems(1) by simp
    ultimately show ?thesis using Await.IH [of "k a" s list qs'] by simp
  qed
next
  case (Get g)
  then show ?case using Get.IH [of "g s" s rs qs] by simp
qed auto

end
