(* ===== verification/Browser.thy ===== *)
theory Browser
  imports JS_Async
begin

text \<open>
  What the application uses of the browser: \<open>fetch\<close> and the body of a response, the
  \<open>localStorage\<close> object, and WebSockets with their ready states and event handlers.

  The server is outside: an answer to a \<open>fetch\<close> is any \<open>reply\<close>, a rejected promise (network
  error) or a response with its \<open>ok\<close> flag and a body, which may fail to parse as JSON.
\<close>

section \<open>Requests and responses\<close>

record request =
  rq_method :: string
  rq_url :: string
  rq_headers :: "(string \<times> string) list"
  rq_body :: "jsv option"

datatype body = JsonOk jsv | JsonBad err

datatype reply = Rejected err | Response bool body

type_synonym ('s, 'a) action = "('s, request, reply, 'a) task"

definition fetch :: "request \<Rightarrow> ('s, bool \<times> body) action" where
  "fetch rq = Await rq (\<lambda>r. case r of Rejected e \<Rightarrow> Fail e | Response ok b \<Rightarrow> Done (ok, b))"

text \<open>\<open>await response.json()\<close>: the continuation runs in a later turn.\<close>

definition read_json :: "body \<Rightarrow> ('s, 'q, 'r, jsv) task" where
  "read_json b = Yield (case b of JsonOk v \<Rightarrow> Done v | JsonBad e \<Rightarrow> Fail e)"

lemma wp_fetch [simp]:
  "wp A I Q E (fetch rq) s \<longleftrightarrow>
     I s \<and> (\<forall>r s'. A rq r \<longrightarrow> I s' \<longrightarrow>
       (case r of Rejected e \<Rightarrow> E e s' | Response ok b \<Rightarrow> Q (ok, b) s'))"
  by (auto simp: fetch_def split: reply.splits)

lemma wp_read_json [simp]:
  "wp A I Q E (read_json b) s \<longleftrightarrow>
     I s \<and> (\<forall>s'. I s' \<longrightarrow> (case b of JsonOk v \<Rightarrow> Q v s' | JsonBad e \<Rightarrow> E e s'))"
  by (auto simp: read_json_def split: body.splits)

text \<open>\<open>fetch(url, {headers})\<close>, and with a method and a JSON body.\<close>

definition http_get :: "string \<Rightarrow> (string \<times> string) list \<Rightarrow> request" where
  "http_get url hs = \<lparr>rq_method = ''GET'', rq_url = url, rq_headers = hs, rq_body = None\<rparr>"

definition http_send :: "string \<Rightarrow> string \<Rightarrow> (string \<times> string) list \<Rightarrow> jsv option \<Rightarrow> request" where
  "http_send m url hs b = \<lparr>rq_method = m, rq_url = url, rq_headers = hs, rq_body = b\<rparr>"

definition auth_header :: "string \<Rightarrow> string \<times> string" where
  "auth_header token = (''Authorization'', ''Bearer '' @ token)"

definition json_header :: "string \<times> string" where
  "json_header = (''Content-Type'', ''application/json'')"

text \<open>\<open>const err = await response.json(); ... err.error || 'text'\<close>: the server's message, or a
  fixed one.\<close>

definition api_error :: "body \<Rightarrow> string \<Rightarrow> ('s, 'q, 'r, jsv) task" where
  "api_error b other =
     bind (read_json b) (\<lambda>err. bind (lift_res (get_prop err ''error'')) (\<lambda>e. Done (js_or e (JStr other))))"

lemma wp_api_error [simp]:
  "wp A I Q E (api_error b other) s \<longleftrightarrow>
     I s \<and> (\<forall>s'. I s' \<longrightarrow> (case b of JsonBad e \<Rightarrow> E e s'
       | JsonOk v \<Rightarrow> (case get_prop v ''error'' of Inl e \<Rightarrow> E e s' | Inr x \<Rightarrow> Q (js_or x (JStr other)) s')))"
  by (auto simp: api_error_def split: body.splits sum.splits)

lemma alone_fetch [simp]:
  "alone Q E (fetch rq) s \<longleftrightarrow>
     (\<forall>r. case r of Rejected e \<Rightarrow> E e s | Response ok b \<Rightarrow> Q (ok, b) s)"
  by (auto simp: fetch_def split: reply.splits)

lemma alone_read_json [simp]:
  "alone Q E (read_json b) s \<longleftrightarrow> (case b of JsonOk v \<Rightarrow> Q v s | JsonBad e \<Rightarrow> E e s)"
  by (auto simp: read_json_def split: body.splits)

lemma alone_api_error [simp]:
  "alone Q E (api_error b other) s \<longleftrightarrow> (case b of JsonBad e \<Rightarrow> E e s
     | JsonOk v \<Rightarrow> (case get_prop v ''error'' of Inl e \<Rightarrow> E e s | Inr x \<Rightarrow> Q (js_or x (JStr other)) s))"
  by (auto simp: api_error_def split: body.splits sum.splits)

section \<open>Local storage\<close>

type_synonym storage = "string \<rightharpoonup> string"

text \<open>\<open>localStorage.getItem(k) || other\<close>.\<close>

definition get_item_or :: "storage \<Rightarrow> string \<Rightarrow> string \<Rightarrow> string" where
  "get_item_or st k other = (case st k of None \<Rightarrow> other | Some v \<Rightarrow> if v = [] then other else v)"

text \<open>\<open>localStorage.getItem(k)\<close> as a value: \<open>null\<close> when the key is absent.\<close>

definition get_item :: "storage \<Rightarrow> string \<Rightarrow> jsv" where
  "get_item st k = (case st k of None \<Rightarrow> JNull | Some v \<Rightarrow> JStr v)"

lemma get_item_or_some [simp]: "st k = Some v \<Longrightarrow> v \<noteq> [] \<Longrightarrow> get_item_or st k d = v"
  by (simp add: get_item_or_def)

section \<open>WebSockets\<close>

datatype ready_state = CONNECTING | OPEN | CLOSING | CLOSED

text \<open>A socket and whether its \<open>onclose\<close> handler is still attached. A socket is known by its
  index in the list of all sockets the page has created.\<close>

record socket =
  sock_url :: string
  sock_ready :: ready_state
  sock_onclose :: bool

definition new_socket :: "string \<Rightarrow> socket" where
  "new_socket url = \<lparr>sock_url = url, sock_ready = CONNECTING, sock_onclose = True\<rparr>"

definition ready_of :: "socket list \<Rightarrow> nat \<Rightarrow> ready_state" where
  "ready_of ws i = (if i < length ws then sock_ready (ws ! i) else CLOSED)"

definition set_ready :: "nat \<Rightarrow> ready_state \<Rightarrow> socket list \<Rightarrow> socket list" where
  "set_ready i r ws = (if i < length ws then ws[i := (ws ! i)\<lparr>sock_ready := r\<rparr>] else ws)"

text \<open>\<open>socket.close()\<close>: starts the closing handshake; the \<open>close\<close> event comes later.\<close>

definition close_socket :: "nat \<Rightarrow> socket list \<Rightarrow> socket list" where
  "close_socket i ws = (if ready_of ws i \<in> {CONNECTING, OPEN} then set_ready i CLOSING ws else ws)"

definition detach_onclose :: "nat \<Rightarrow> socket list \<Rightarrow> socket list" where
  "detach_onclose i ws = (if i < length ws then ws[i := (ws ! i)\<lparr>sock_onclose := False\<rparr>] else ws)"

definition onclose_attached :: "socket list \<Rightarrow> nat \<Rightarrow> bool" where
  "onclose_attached ws i = (i < length ws \<and> sock_onclose (ws ! i))"

text \<open>The sockets that still hold a connection or will.\<close>

definition live_sockets :: "socket list \<Rightarrow> nat set" where
  "live_sockets ws = {i. i < length ws \<and> ready_of ws i \<in> {CONNECTING, OPEN}}"

definition ws_url :: "string \<Rightarrow> string \<Rightarrow> string \<Rightarrow> string \<Rightarrow> string" where
  "ws_url proto h path token =
     (if proto = ''https:'' then ''wss:'' else ''ws:'') @ ''//'' @ h @ path @ ''?token='' @ token"

lemma length_set_ready [simp]: "length (set_ready i r ws) = length ws"
  by (simp add: set_ready_def)

lemma length_close_socket [simp]: "length (close_socket i ws) = length ws"
  by (simp add: close_socket_def)

lemma length_detach_onclose [simp]: "length (detach_onclose i ws) = length ws"
  by (simp add: detach_onclose_def)

lemma ready_of_set_ready [simp]:
  "ready_of (set_ready i r ws) j = (if j = i \<and> i < length ws then r else ready_of ws j)"
  by (auto simp: ready_of_def set_ready_def)

lemma ready_of_close_socket [simp]:
  "ready_of (close_socket i ws) j =
     (if j = i \<and> ready_of ws i \<in> {CONNECTING, OPEN} then CLOSING else ready_of ws j)"
  by (auto simp: close_socket_def) (simp add: ready_of_def split: if_splits)+

lemma ready_of_detach [simp]: "ready_of (detach_onclose i ws) j = ready_of ws j"
  by (auto simp: ready_of_def detach_onclose_def nth_list_update)

lemma ready_of_snoc [simp]:
  "ready_of (ws @ [w]) j = (if j = length ws then sock_ready w else ready_of ws j)"
  by (auto simp: ready_of_def nth_append)

lemma ready_of_Cons [simp]:
  "ready_of (w # ws) 0 = sock_ready w"
  "ready_of (w # ws) (Suc i) = ready_of ws i"
  by (simp_all add: ready_of_def)

lemma ready_of_beyond [simp]: "length ws \<le> i \<Longrightarrow> ready_of ws i = CLOSED"
  by (simp add: ready_of_def)

lemma onclose_set_ready [simp]: "onclose_attached (set_ready i r ws) j = onclose_attached ws j"
  by (auto simp: onclose_attached_def set_ready_def nth_list_update)

lemma onclose_close_socket [simp]: "onclose_attached (close_socket i ws) j = onclose_attached ws j"
  by (simp add: close_socket_def)

lemma onclose_detach [simp]:
  "onclose_attached (detach_onclose i ws) j = (j \<noteq> i \<and> onclose_attached ws j)"
  by (auto simp: onclose_attached_def detach_onclose_def nth_list_update)

lemma onclose_snoc [simp]:
  "onclose_attached (ws @ [w]) j = (if j = length ws then sock_onclose w else onclose_attached ws j)"
  by (auto simp: onclose_attached_def nth_append)

lemma new_socket_simps [simp]:
  "sock_ready (new_socket url) = CONNECTING"
  "sock_url (new_socket url) = url"
  "sock_onclose (new_socket url)"
  by (simp_all add: new_socket_def)

lemma live_ops [simp]:
  "live_sockets (ss @ [new_socket url]) = insert (length ss) (live_sockets ss)"
  "live_sockets (set_ready i CLOSED ss) = live_sockets ss - {i}"
  "ready_of ss i = CONNECTING \<Longrightarrow> live_sockets (set_ready i OPEN ss) = live_sockets ss"
  "live_sockets (close_socket i ss) = live_sockets ss - {i}"
  "live_sockets (detach_onclose i ss) = live_sockets ss"
  by (auto simp: live_sockets_def less_Suc_eq split: if_splits)

lemma finite_live [simp]: "finite (live_sockets ss)"
  by (simp add: live_sockets_def)

end
