(* ===== verification/TS_Types.thy ===== *)
theory TS_Types
  imports JS_Values
begin

text \<open>
  TypeScript's structural types. The compiler erases them, and every value that comes from
  \<open>response.json()\<close> is typed \<open>any\<close>, so nothing checks at run time that a reply has the shape its
  interface declares. A type is a value of \<open>ts\<close> and \<open>conforms\<close> is what the compiler would have
  to check: the component theories translate the source's interfaces into \<open>ts\<close> values and prove
  that the stores keep them when the server does.
\<close>

datatype ts =
    TAny
  | TString
  | TNumber
  | TBool
  | TNull
  | TLit string
  | TArr ts
  | TRecord ts
  | TObj "(string \<times> bool \<times> ts) list"
  | TUnion "ts list"

text \<open>A required and an optional field of an interface.\<close>

abbreviation req :: "string \<Rightarrow> ts \<Rightarrow> string \<times> bool \<times> ts" where
  "req k t \<equiv> (k, True, t)"

abbreviation opt :: "string \<Rightarrow> ts \<Rightarrow> string \<times> bool \<times> ts" where
  "opt k t \<equiv> (k, False, t)"

abbreviation nullable :: "ts \<Rightarrow> ts" where
  "nullable t \<equiv> TUnion [t, TNull]"

definition literals :: "string list \<Rightarrow> ts" where
  "literals ss = TUnion (map TLit ss)"

lemma size_field [termination_simp]:
  "f \<in> set fs \<Longrightarrow> size (snd (snd f)) < Suc (size_list (size_prod size (size_prod size size)) fs)"
  by (induction fs) (auto split: prod.splits)

function conforms :: "ts \<Rightarrow> jsv \<Rightarrow> bool" where
  "conforms TAny v = True"
| "conforms TString v = (case v of JStr _ \<Rightarrow> True | _ \<Rightarrow> False)"
| "conforms TNumber v = (case v of JNum _ \<Rightarrow> True | JNaN \<Rightarrow> True | _ \<Rightarrow> False)"
| "conforms TBool v = (case v of JBool _ \<Rightarrow> True | _ \<Rightarrow> False)"
| "conforms TNull v = (v = JNull)"
| "conforms (TLit s) v = (v = JStr s)"
| "conforms (TArr t) v = (case v of JArr xs \<Rightarrow> list_all (conforms t) xs | _ \<Rightarrow> False)"
| "conforms (TRecord t) v =
     (case v of JObj kvs \<Rightarrow> list_all (\<lambda>kv. conforms t (snd kv)) kvs | _ \<Rightarrow> False)"
| "conforms (TObj fs) v =
     (case v of JObj kvs \<Rightarrow> distinct (map fst kvs) \<and>
        list_all (\<lambda>f. case map_of kvs (fst f) of
            None \<Rightarrow> \<not> fst (snd f)
          | Some w \<Rightarrow> conforms (snd (snd f)) w \<or> (\<not> fst (snd f) \<and> w = JUndef)) fs
      | _ \<Rightarrow> False)"
| "conforms (TUnion us) v = list_ex (\<lambda>u. conforms u v) us"
  by pat_completeness auto

termination
proof (relation "measure (\<lambda>(t, v). size t)", goal_cases)
  case (4 fs v kvs f w)
  then show ?case
    by (induction fs) (auto split: prod.splits)
next
  case (5 us v u)
  then show ?case
    by (induction us) auto
qed auto

text \<open>The equations of \<open>conforms\<close> split on the value; by default only these are used.\<close>

declare conforms.simps [simp del]

lemma conforms_simps [simp]:
  "conforms TAny v"
  "conforms TString v \<longleftrightarrow> (\<exists>s. v = JStr s)"
  "conforms TNumber v \<longleftrightarrow> (\<exists>n. v = JNum n) \<or> v = JNaN"
  "conforms TBool v \<longleftrightarrow> (\<exists>b. v = JBool b)"
  "conforms TNull v \<longleftrightarrow> v = JNull"
  "conforms (TLit s) v \<longleftrightarrow> v = JStr s"
  "conforms (TUnion us) v \<longleftrightarrow> (\<exists>u\<in>set us. conforms u v)"
  by (cases v; simp add: conforms.simps list_ex_iff)+

lemma conforms_arr [simp]: "conforms (TArr t) (JArr xs) \<longleftrightarrow> (\<forall>x\<in>set xs. conforms t x)"
  by (simp add: conforms.simps list_all_iff)

lemma conforms_literals [simp]: "conforms (literals ss) v \<longleftrightarrow> (\<exists>s\<in>set ss. v = JStr s)"
  by (auto simp: literals_def)

lemma conforms_arrE:
  assumes "conforms (TArr t) v"
  obtains xs where "v = JArr xs" and "\<forall>x\<in>set xs. conforms t x"
  using assms by (cases v) (auto simp: conforms.simps list_all_iff)

lemma conforms_obj:
  "conforms (TObj fs) v \<longleftrightarrow> (\<exists>kvs. v = JObj kvs \<and> distinct (map fst kvs) \<and>
     (\<forall>(k, needed, t)\<in>set fs. case map_of kvs k of
            None \<Rightarrow> \<not> needed
          | Some w \<Rightarrow> conforms t w \<or> (\<not> needed \<and> w = JUndef)))"
  by (cases v) (simp_all add: conforms.simps list_all_iff case_prod_unfold)

text \<open>Writing a declared field with a value of its type keeps an object's type, and so does
  copying it.\<close>

lemma conforms_objE:
  assumes "conforms (TObj fs) v"
  obtains kvs where "v = JObj kvs" and "distinct (map fst kvs)"
  using assms by (auto simp: conforms_obj)

lemma map_of_copy: "distinct (map fst kvs) \<Longrightarrow> map_of (put_all kvs []) = map_of kvs"
  by (simp add: map_of_put_all)

lemma conforms_obj_put:
  assumes "conforms (TObj fs) v" and "\<forall>f\<in>set fs. fst f = k \<longrightarrow> conforms (snd (snd f)) w"
  shows "conforms (TObj fs) (obj_put k w v)"
proof -
  obtain kvs where v: "v = JObj kvs" and d: "distinct (map fst kvs)"
    using assms(1) by (rule conforms_objE)
  have m: "map_of (put_all [(k, w)] (put_all kvs [])) = (map_of kvs)(k \<mapsto> w)"
    using d by (simp add: map_of_put_all map_of_copy)
  have "distinct (map fst (put_all [(k, w)] (put_all kvs [])))"
    by (intro distinct_put_all) simp
  moreover have "\<forall>(j, needed, t)\<in>set fs. case ((map_of kvs)(k \<mapsto> w)) j of
            None \<Rightarrow> \<not> needed
          | Some u \<Rightarrow> conforms t u \<or> (\<not> needed \<and> u = JUndef)"
    using assms v by (fastforce simp: conforms_obj)
  ultimately show ?thesis by (simp add: conforms_obj v obj_put_def spread2_def m)
qed

text \<open>A required field of a conforming object is present and has its type.\<close>

lemma conforms_field:
  assumes "conforms (TObj fs) v" and "(k, True, t) \<in> set fs"
  shows "\<exists>w. get_prop v k = Inr w \<and> conforms t w"
  using assms by (fastforce simp: conforms_obj obj_get_def split: option.splits)

lemma conforms_get:
  assumes "conforms (TObj fs) (JObj kvs)" and "(k, needed, t) \<in> set fs"
  shows "conforms t (obj_get kvs k) \<or> (\<not> needed \<and> obj_get kvs k = JUndef)"
proof -
  have "\<forall>(k, needed, t)\<in>set fs. case map_of kvs k of None \<Rightarrow> \<not> needed
      | Some w \<Rightarrow> conforms t w \<or> (\<not> needed \<and> w = JUndef)"
    using assms(1) by (simp add: conforms_obj)
  from bspec [OF this assms(2)] show ?thesis by (auto simp: obj_get_def split: option.splits)
qed

text \<open>A list field that may be missing or \<open>null\<close>, read as \<open>v.k || []\<close>.\<close>

lemma conforms_list_or_empty:
  assumes "conforms (TObj fs) (JObj kvs)" and "(k, needed, nullable (TArr t)) \<in> set fs"
  shows "conforms (TArr t) (js_or (obj_get kvs k) (JArr []))"
  using conforms_get [OF assms] by (auto elim: conforms_arrE)

end
