(* ===== verification/Auth_Store.thy ===== *)
theory Auth_Store
  imports Browser TS_Types
begin

text \<open>
  \<open>authStore.ts\<close> of both applications: the session token, in memory and in \<open>localStorage\<close>.
  The two files differ only in the storage keys, which are the parameter \<open>auth_keys\<close>.
\<close>

record auth_keys =
  token_key :: string
  username_key :: string

definition client_keys :: auth_keys where
  "client_keys = \<lparr>token_key = ''cc_client_token'', username_key = ''cc_client_username''\<rparr>"

definition server_keys :: auth_keys where
  "server_keys = \<lparr>token_key = ''cc_server_token'', username_key = ''cc_server_username''\<rparr>"

record auth_state =
  token :: jsv
  username :: jsv
  isAuthenticated :: bool
  isLoading :: bool
  error :: "string option"
  local_storage :: storage

text \<open>\<open>getInitialAuth\<close>; without a \<open>window\<close> (server-side rendering) nobody is signed in.\<close>

definition getInitialAuth :: "auth_keys \<Rightarrow> bool \<Rightarrow> storage \<Rightarrow> jsv \<times> jsv \<times> bool" where
  "getInitialAuth ks window st =
     (if \<not> window then (JNull, JNull, False)
      else let tok = get_item st (token_key ks); user = get_item st (username_key ks)
           in (tok, user, truthy tok))"

definition init_auth :: "auth_keys \<Rightarrow> bool \<Rightarrow> storage \<Rightarrow> auth_state" where
  "init_auth ks window st =
     (case getInitialAuth ks window st of (tok, user, ok) \<Rightarrow>
        \<lparr>token = tok, username = user, isAuthenticated = ok, isLoading = False, error = None,
         local_storage = st\<rparr>)"

definition initialize :: "auth_keys \<Rightarrow> auth_state \<Rightarrow> auth_state" where
  "initialize ks s =
     (let tok = get_item (local_storage s) (token_key ks);
          user = get_item (local_storage s) (username_key ks)
      in if truthy tok then s\<lparr>token := tok, username := user, isAuthenticated := True\<rparr> else s)"

definition set_item :: "string \<Rightarrow> jsv \<Rightarrow> auth_state \<Rightarrow> auth_state" where
  "set_item k v s = s\<lparr>local_storage := (local_storage s)(k \<mapsto> js_string v)\<rparr>"

definition remove_item :: "string \<Rightarrow> auth_state \<Rightarrow> auth_state" where
  "remove_item k s = s\<lparr>local_storage := (local_storage s)(k := None)\<rparr>"

definition login :: "auth_keys \<Rightarrow> string \<Rightarrow> string \<Rightarrow> (auth_state, bool) action" where
  "login ks user password =
     Set (\<lambda>s. s\<lparr>isLoading := True, error := None\<rparr>)
     (try_catch
       (bind (fetch (http_send ''POST'' ''/api/auth/login'' [json_header]
                (Some (JObj [(''username'', JStr user), (''password'', JStr password)]))))
          (\<lambda>(ok, b).
             if \<not> ok then
               bind (api_error b ''Authentication failed'') (\<lambda>e. Fail (error_message e))
             else
               bind (read_json b) (\<lambda>data.
               bind (lift_res (get_prop data ''token'')) (\<lambda>tok.
                 Set (set_item (token_key ks) tok)
                 (Set (set_item (username_key ks) (JStr user))
                 (Set (\<lambda>s. s\<lparr>token := tok, username := JStr user, isAuthenticated := True,
                            isLoading := False\<rparr>)
                   (Done True)))))))
       (\<lambda>e. Set (\<lambda>s. s\<lparr>error := Some e, isLoading := False\<rparr>) (Done False)))"

definition logout :: "auth_keys \<Rightarrow> auth_state \<Rightarrow> auth_state" where
  "logout ks s =
     (let s1 = remove_item (username_key ks) (remove_item (token_key ks) s)
      in s1\<lparr>token := JNull, username := JNull, isAuthenticated := False, error := None\<rparr>)"

text \<open>The server dashboard's copies.\<close>

definition server_getInitialAuth :: "bool \<Rightarrow> storage \<Rightarrow> jsv \<times> jsv \<times> bool" where
  "server_getInitialAuth = getInitialAuth server_keys"

definition server_initialize :: "auth_state \<Rightarrow> auth_state" where
  "server_initialize = initialize server_keys"

definition server_login :: "string \<Rightarrow> string \<Rightarrow> (auth_state, bool) action" where
  "server_login = login server_keys"

definition server_logout :: "auth_state \<Rightarrow> auth_state" where
  "server_logout = logout server_keys"

section \<open>The session and the storage agree\<close>

definition keys_ok :: "auth_keys \<Rightarrow> bool" where
  "keys_ok ks \<longleftrightarrow> token_key ks \<noteq> username_key ks"

lemma keys_ok [simp]: "keys_ok client_keys" "keys_ok server_keys"
  by (simp_all add: keys_ok_def client_keys_def server_keys_def)

text \<open>What the interceptor of \<open>main.tsx\<close> does to the session when some request is answered with 401
  (\<open>unauthorized\<close> of \<open>App_Shell\<close>): both keys leave the storage, the state in memory stays.\<close>

definition expired :: "auth_keys \<Rightarrow> auth_state \<Rightarrow> auth_state" where
  "expired ks s = remove_item (username_key ks) (remove_item (token_key ks) s)"

text \<open>A signed-in session is one that a reload of the page would restore, unless (\<open>answers_401\<close>) the
  interceptor has removed it from the storage.\<close>

definition session_inv :: "auth_keys \<Rightarrow> bool \<Rightarrow> auth_state \<Rightarrow> bool" where
  "session_inv ks answers_401 s \<longleftrightarrow> (isAuthenticated s \<longrightarrow>
     local_storage s (token_key ks) = Some (js_string (token s)) \<and>
       get_item (local_storage s) (username_key ks) = username s \<or>
     answers_401 \<and> local_storage s (token_key ks) = None \<and> local_storage s (username_key ks) = None)"

lemma get_item_upd [simp]: "get_item (st(k \<mapsto> v)) j = (if j = k then JStr v else get_item st j)"
  by (simp add: get_item_def)

lemma truthy_get_item: "truthy (get_item st k) \<Longrightarrow> st k = Some (js_string (get_item st k))"
  by (auto simp: get_item_def split: option.splits)

lemma session_inv_init: "session_inv ks h (init_auth ks w st)"
  by (auto simp: session_inv_def init_auth_def getInitialAuth_def Let_def dest: truthy_get_item)

lemma session_inv_initialize: "session_inv ks h s \<Longrightarrow> session_inv ks h (initialize ks s)"
  by (auto simp: session_inv_def initialize_def Let_def dest: truthy_get_item)

lemma session_inv_logout: "session_inv ks h (logout ks s)"
  by (simp add: session_inv_def logout_def remove_item_def)

lemma session_inv_expired: "keys_ok ks \<Longrightarrow> session_inv ks True (expired ks s)"
  by (simp add: session_inv_def expired_def remove_item_def keys_ok_def)

lemma session_inv_login:
  "keys_ok ks \<Longrightarrow> session_inv ks h s \<Longrightarrow> keeps A (session_inv ks h) (login ks user pw) s"
  by (auto simp: login_def session_inv_def set_item_def keys_ok_def split: reply.splits body.splits sum.splits)

section \<open>Properties\<close>

text \<open>A sign-in with the token \<open>t1\<close>, as the store performs it.\<close>

definition signed_in :: auth_state where
  "signed_in = final (login client_keys ''ann'' ''pw'')
     [Response True (JsonOk (JObj [(''token'', JStr ''t1'')]))] (init_auth client_keys True Map.empty)"

lemma signed_in_eq:
  "signed_in = \<lparr>token = JStr ''t1'', username = JStr ''ann'', isAuthenticated = True, isLoading = False,
     error = None, local_storage = [''cc_client_token'' \<mapsto> ''t1'', ''cc_client_username'' \<mapsto> ''ann'']\<rparr>"
  by (simp add: signed_in_def login_def fetch_def read_json_def lift_res_def run_defs init_auth_def
      getInitialAuth_def set_item_def client_keys_def get_item_def Let_def)

text \<open>Every login attempt ends with a boolean and the spinner down, after exactly one request. A
  login that fails, for whatever reason the server or the network gives, sets the error and leaves
  the session as it was, in memory and in storage; one that succeeds signs in the user it was
  called for with the token of the reply.\<close>

theorem auth_login_outcome:
  assumes "run (login ks u pw) [r] s = (qs, out, s', rest)"
  shows "qs = [http_send ''POST'' ''/api/auth/login'' [json_header]
           (Some (JObj [(''username'', JStr u), (''password'', JStr pw)]))] \<and>
    \<not> isLoading s' \<and> rest = [] \<and>
    (out = Returned False \<and> error s' \<noteq> None \<and> token s' = token s \<and> username s' = username s \<and>
       isAuthenticated s' = isAuthenticated s \<and> local_storage s' = local_storage s
     \<or> out = Returned True \<and> error s' = None \<and> isAuthenticated s' \<and> username s' = JStr u \<and>
       (\<exists>data. r = Response True (JsonOk data) \<and> get_prop data ''token'' = Inr (token s')))"
  using assms
  by (auto simp: login_def fetch_def read_json_def api_error_def lift_res_def set_item_def
      split: reply.splits body.splits sum.splits if_splits)

theorem auth_login_outcome_witness:
  "\<not> isLoading signed_in \<and> username signed_in = JStr ''ann''"
proof -
  let ?r = "Response True (JsonOk (JObj [(''token'', JStr ''t1'')]))"
  obtain qs out s' rest where r:
    "run (login client_keys ''ann'' ''pw'') [?r] (init_auth client_keys True Map.empty) = (qs, out, s', rest)"
    by (metis prod_cases4)
  then have s': "s' = signed_in" by (simp add: signed_in_def final_def)
  show ?thesis using auth_login_outcome [OF r] by (simp add: s' signed_in_eq)
qed

text \<open>A reply without a token signs the user in all the same: the store then holds
  \<open>undefined\<close>, the storage the string \<open>undefined\<close>, and a reload restores that string as the token.\<close>

theorem auth_login_without_token:
  "let s' = final (login client_keys u pw) [Response True (JsonOk (JObj []))] s in
     isAuthenticated s' \<and> token s' = JUndef \<and>
     token (init_auth client_keys True (local_storage s')) = JStr ''undefined'' \<and>
     isAuthenticated (init_auth client_keys True (local_storage s'))"
  by (simp add: login_def fetch_def read_json_def lift_res_def set_item_def run_defs init_auth_def
      getInitialAuth_def client_keys_def Let_def)

end
