(* ===== verification/App_Shell.thy ===== *)
theory App_Shell
  imports Auth_Store
begin

text \<open>
  The frame around the pages, for both applications: the routes of \<open>App.tsx\<close> with their
  authentication guards, the sidebar that navigates among them, the interceptor that \<open>main.tsx\<close>
  puts around \<open>window.fetch\<close>, the loading bar it feeds (client only), and the login page.
  The last section interleaves all that writes the session: store, login page and interceptor.

  A path is the list of its segments; a route matches when the segments are its own.
\<close>

section \<open>Routes and guards\<close>

type_synonym routes = "(string \<times> string) list"

definition client_routes :: routes where
  "client_routes =
    [(''dashboard'', ''DashboardPage''), (''settings'', ''SettingsPage''), (''fw-logs'', ''LogsPage''),
     (''ehco-tunnel'', ''EhcoClientPage''), (''files'', ''FilesPage''), (''leech'', ''LeechPage''),
     (''torrent'', ''TorrentPage''), (''youtube'', ''YouTubePage''), (''spotify'', ''SpotifyPage''),
     (''scheduler'', ''JobSchedulerPage''), (''telegram-settings'', ''TelegramSettingsPage''),
     (''soroush-tunnel'', ''SoroushPage''), (''trusttunnel'', ''TrustTunnelPage''),
     (''v2ray-dashboard'', ''V2RayDashboardPage''), (''v2ray-nodes'', ''V2RayClientPage''),
     (''v2ray-core'', ''V2RayCorePage''), (''v2ray-routing'', ''V2RayRoutingPage''),
     (''v2ray-scanner'', ''V2RayScannerPage''), (''domain-checker'', ''DomainCheckerPage''),
     (''ip-domain-checker'', ''IPDomainCheckerPage''), (''dns-tester'', ''DNSTesterPage''),
     (''v2ray-multipath'', ''V2RayMultipathPage''), (''cloudflare'', ''CloudflarePage''),
     (''v2ray-warp'', ''WarpPage'')]"

definition server_routes :: routes where
  "server_routes =
    [(''dashboard'', ''DashboardPage''), (''settings'', ''SettingsPage''), (''fw-logs'', ''LogsPage''),
     (''ehco-tunnel'', ''EhcoServerPage''), (''files'', ''FilesPage''),
     (''cloud-storage'', ''CloudStoragePage''), (''leech'', ''LeechPage''), (''torrent'', ''TorrentPage''),
     (''youtube'', ''YouTubePage''), (''spotify'', ''SpotifyPage''),
     (''telegram-settings'', ''TelegramSettingsPage''), (''scheduler'', ''JobSchedulerPage''),
     (''soroush-tunnel'', ''SoroushPage''), (''trusttunnel'', ''TrustTunnelPage''),
     (''v2ray-dashboard'', ''V2RayServerPage''), (''v2ray-core'', ''V2RayCorePage''),
     (''v2ray-routing'', ''V2RayRoutingPage''), (''bonding-combiner'', ''BondingCombinerPage''),
     (''cloudflare'', ''CloudflarePage'')]"

datatype visit = Show string | Redirect "string list"

text \<open>\<open>LoginGuard\<close>, \<open>PlayerGuard\<close> and \<open>ProtectedLayout\<close>.\<close>

definition LoginGuard :: "bool \<Rightarrow> visit" where
  "LoginGuard authed = (if authed then Redirect [''dashboard''] else Show ''LoginPage'')"

definition PlayerGuard :: "bool \<Rightarrow> visit" where
  "PlayerGuard authed = (if \<not> authed then Redirect [''login''] else Show ''PlayerPage'')"

definition ProtectedLayout :: "bool \<Rightarrow> visit \<Rightarrow> visit" where
  "ProtectedLayout authed outlet = (if \<not> authed then Redirect [''login''] else outlet)"

definition router :: "routes \<Rightarrow> bool \<Rightarrow> string list \<Rightarrow> visit" where
  "router rts authed path =
     (if path = [''login''] then LoginGuard authed
      else if path = [''player''] then PlayerGuard authed
      else case path of
          [] \<Rightarrow> ProtectedLayout authed (Redirect [''dashboard''])
        | [t] \<Rightarrow> (case map_of rts t of Some p \<Rightarrow> ProtectedLayout authed (Show p) | None \<Rightarrow> Redirect [''dashboard''])
        | _ \<Rightarrow> Redirect [''dashboard''])"

text \<open>The page that a visit ends on, following at most \<open>n\<close> redirects.\<close>

fun landing :: "routes \<Rightarrow> bool \<Rightarrow> nat \<Rightarrow> string list \<Rightarrow> string option" where
  "landing rts authed n path = (case router rts authed path of
       Show p \<Rightarrow> Some p
     | Redirect q \<Rightarrow> (case n of 0 \<Rightarrow> None | Suc m \<Rightarrow> landing rts authed m q))"

declare landing.simps [simp del]

section \<open>The sidebar\<close>

type_synonym nav = "(string \<times> string list) list"

definition client_navItems :: nav where
  "client_navItems =
    [(''dashboard'', []), (''protocol'', [''ehco-tunnel'', ''soroush-tunnel'', ''trusttunnel'']),
     (''v2ray-section'', [''v2ray-dashboard'', ''v2ray-nodes'', ''v2ray-multipath'', ''v2ray-warp'',
        ''v2ray-core'', ''v2ray-routing'']),
     (''network-tools-section'', [''v2ray-scanner'', ''domain-checker'', ''ip-domain-checker'',
        ''dns-tester'', ''cloudflare'']),
     (''files-section'', [''files'', ''leech'', ''torrent'', ''youtube'', ''spotify'']),
     (''fw-logs'', []), (''system-section'', [''scheduler'']),
     (''settings-section'', [''settings'', ''telegram-settings''])]"

definition server_navItems :: nav where
  "server_navItems =
    [(''dashboard'', []), (''protocol'', [''ehco-tunnel'', ''soroush-tunnel'', ''trusttunnel'',
        ''bonding-combiner'', ''cloudflare'']),
     (''v2ray-section'', [''v2ray-dashboard'', ''v2ray-core'', ''v2ray-routing'']),
     (''files-section'', [''files'', ''cloud-storage'', ''leech'', ''torrent'', ''youtube'', ''spotify'']),
     (''fw-logs'', []), (''system-section'', [''scheduler'']),
     (''settings-section'', [''settings'', ''telegram-settings''])]"

text \<open>The click on an entry: the first child of a section, else the entry itself.\<close>

definition click_target :: "string \<times> string list \<Rightarrow> string" where
  "click_target item = (case snd item of [] \<Rightarrow> fst item | c # cs \<Rightarrow> c)"

definition sidebar_tabs :: "nav \<Rightarrow> string list" where
  "sidebar_tabs nav = map click_target nav @ concat (map snd nav)"

text \<open>The section that is open while a tab is active.\<close>

definition openMenu :: "nav \<Rightarrow> string \<Rightarrow> string option" where
  "openMenu nav tab = map_option fst (find (\<lambda>item. tab \<in> set (snd item)) nav)"

text \<open>The name beside the logout button; both applications read the client's key.\<close>

definition sidebar_username :: "storage \<Rightarrow> string" where
  "sidebar_username st = get_item_or st ''cc_client_username'' ''salman''"

definition client_crumbs :: "(string \<times> string list) list" where
  "client_crumbs =
    [(''dashboard'', [''Wallets'', ''Balance'']), (''nodes'', [''VPN Nodes'', ''Servers'']),
     (''connections'', [''Connections'', ''Active'']), (''settings'', [''Preferences'', ''Settings'']),
     (''fw-logs'', [''System Logs'', ''Diagnostics'']), (''ehco-tunnel'', [''Protocol'', ''Ehco'']),
     (''files'', [''Storage'', ''Files Explorer'']), (''leech'', [''Storage'', ''Remote Leech Manager'']),
     (''torrent'', [''Storage'', ''Torrent Client'']), (''youtube'', [''Storage'', ''YouTube Downloader'']),
     (''spotify'', [''Storage'', ''Spotify Downloader'']), (''scheduler'', [''System'', ''Job Scheduler'']),
     (''telegram-settings'', [''Settings'', ''Telegram Bot'']),
     (''soroush-tunnel'', [''Protocol'', ''Soroush WebRTC Tunnel'']),
     (''trusttunnel'', [''Protocol'', ''TrustTunnel Stealth'']),
     (''v2ray-dashboard'', [''V2Ray'', ''Realtime Dashboard'']), (''v2ray-nodes'', [''V2Ray'', ''Nodes Manager'']),
     (''v2ray-core'', [''V2Ray'', ''Core Configuration'']), (''v2ray-routing'', [''V2Ray'', ''Routing Rules'']),
     (''v2ray-scanner'', [''Network Tools'', ''Scanner Engine'']),
     (''domain-checker'', [''Network Tools'', ''Domain Checker'']),
     (''ip-domain-checker'', [''Network Tools'', ''IP & Domain Checker'']),
     (''dns-tester'', [''Network Tools'', ''DNS Tester'']), (''v2ray-multipath'', [''V2Ray'', ''Multipath Engine'']),
     (''cloudflare'', [''Network Tools'', ''Cloudflare'']), (''v2ray-warp'', [''V2Ray'', ''WARP+ Engine''])]"

definition server_crumbs :: "(string \<times> string list) list" where
  "server_crumbs =
    [(''dashboard'', [''Dashboard'', ''Overview'']), (''clients'', [''Users'', ''Clients'']),
     (''settings'', [''Configure'', ''Settings'']), (''fw-logs'', [''System Logs'', ''Diagnostics'']),
     (''ehco-tunnel'', [''Protocol'', ''Ehco'']), (''files'', [''Storage'', ''Files Explorer'']),
     (''cloud-storage'', [''Storage'', ''Cloud Storage'']), (''leech'', [''Storage'', ''Remote Leech Manager'']),
     (''torrent'', [''Storage'', ''Torrent Client'']), (''youtube'', [''Storage'', ''YouTube Downloader'']),
     (''spotify'', [''Storage'', ''Spotify Downloader'']), (''telegram-settings'', [''Settings'', ''Telegram Bot'']),
     (''scheduler'', [''System'', ''Job Scheduler'']), (''soroush-tunnel'', [''Protocol'', ''Soroush WebRTC Tunnel'']),
     (''trusttunnel'', [''Protocol'', ''TrustTunnel Stealth'']),
     (''v2ray-dashboard'', [''V2Ray'', ''Dashboard & Nodes'']), (''v2ray-core'', [''V2Ray'', ''Core Configuration'']),
     (''v2ray-routing'', [''V2Ray'', ''Routing Rules'']), (''bonding-combiner'', [''Protocol'', ''Multipath Combiner'']),
     (''cloudflare'', [''Protocol'', ''Cloudflare''])]"

section \<open>The fetch interceptor\<close>

record shell =
  activeRequests :: int
  inflight :: "bool list"
  notified :: "(bool \<times> int) option"
  store :: storage
  pathname :: string
  leaving :: bool

definition init_shell :: "storage \<Rightarrow> string \<Rightarrow> shell" where
  "init_shell st path = \<lparr>activeRequests = 0, inflight = [], notified = None, store = st, pathname = path,
     leaving = False\<rparr>"

definition isApi :: "string \<Rightarrow> bool" where
  "isApi url \<longleftrightarrow> includes_str url ''/api/'' \<or> is_prefix_of ''api/'' url"

definition ends_with :: "string \<Rightarrow> string \<Rightarrow> bool" where
  "ends_with s suffix \<longleftrightarrow> is_prefix_of (rev suffix) (rev s)"

definition notifyLoadingChange :: "shell \<Rightarrow> shell" where
  "notifyLoadingChange s = s\<lparr>notified := Some (0 < activeRequests s, activeRequests s)\<rparr>"

text \<open>The call of \<open>fetch\<close>, up to the real request; the entry of \<open>inflight\<close> is its \<open>isApi\<close>.\<close>

definition fetch_begin :: "string \<Rightarrow> shell \<Rightarrow> shell" where
  "fetch_begin url s =
     (let s1 = s\<lparr>inflight := inflight s @ [isApi url]\<rparr>
      in if isApi url then notifyLoadingChange (s1\<lparr>activeRequests := activeRequests s1 + 1\<rparr>) else s1)"

text \<open>The handling of a 401, with the keys of either application.\<close>

definition unauthorized :: "auth_keys \<Rightarrow> shell \<Rightarrow> shell" where
  "unauthorized ks s =
     (let s1 = s\<lparr>store := (store s)(token_key ks := None, username_key ks := None)\<rparr>
      in if \<not> ends_with (pathname s1) ''/login'' then s1\<lparr>leaving := True\<rparr> else s1)"

text \<open>The rest, when request \<open>i\<close> is answered with a status, or fails (\<open>None\<close>).\<close>

definition fetch_end :: "nat \<Rightarrow> nat option \<Rightarrow> shell \<Rightarrow> shell" where
  "fetch_end i status s =
     (let api = inflight s ! i;
          s1 = s\<lparr>inflight := take i (inflight s) @ drop (Suc i) (inflight s)\<rparr>;
          s2 = (if status = Some 401 then unauthorized client_keys s1 else s1)
      in if api then
           (let n = activeRequests s2 - 1
            in notifyLoadingChange (s2\<lparr>activeRequests := (if n < 0 then 0 else n)\<rparr>))
         else s2)"

text \<open>The server's interceptor counts nothing.\<close>

definition server_fetch_end :: "nat option \<Rightarrow> shell \<Rightarrow> shell" where
  "server_fetch_end status s = (if status = Some 401 then unauthorized server_keys s else s)"

inductive shell_step :: "shell \<Rightarrow> shell \<Rightarrow> bool" where
  request: "shell_step s (fetch_begin url s)"
| settled: "i < length (inflight s) \<Longrightarrow> shell_step s (fetch_end i status s)"

inductive_cases shell_stepE: "shell_step s t"

section \<open>The loading bar\<close>

record bar =
  progress :: rat
  visible :: bool

definition bar_on :: "bar \<Rightarrow> bar" where
  "bar_on b = b\<lparr>visible := True, progress := 10\<rparr>"

definition bar_tick :: "bar \<Rightarrow> bar" where
  "bar_tick b =
     (if 90 \<le> progress b then b
      else let remaining = 90 - progress b; step = max 1 (of_int \<lfloor>remaining * (15 / 100)\<rfloor>)
           in b\<lparr>progress := progress b + step\<rparr>)"

definition bar_off :: "bar \<Rightarrow> bar" where
  "bar_off b = b\<lparr>progress := 100\<rparr>"

definition bar_gone :: "bar \<Rightarrow> bar" where
  "bar_gone b = b\<lparr>visible := False, progress := 0\<rparr>"

section \<open>The login page\<close>

definition login_localError :: "string \<Rightarrow> string \<Rightarrow> string option" where
  "login_localError user pw = (if user = [] \<or> pw = [] then Some ''Please enter both fields.'' else None)"

definition fallback_token :: string where
  "fallback_token = ''eyJhbGciOiJIUzI1NiJ9.eyJ1c2VybmFtZSI6InNhbG1hbiJ9''"

definition handleSubmit :: "auth_keys \<Rightarrow> string \<Rightarrow> string \<Rightarrow> (auth_state, unit) action" where
  "handleSubmit ks user pw =
     (if login_localError user pw \<noteq> None then Done ()
      else bind (await_task (login ks user pw)) (\<lambda>ok.
        if ok then Done ()
        else if user = ''salman'' \<and> pw = ''136517'' then
          Set (set_item (token_key ks) (JStr fallback_token))
          (Set (set_item (username_key ks) (JStr user))
          (Set (\<lambda>s. s\<lparr>token := JStr fallback_token, username := JStr user, isAuthenticated := True, error := None\<rparr>)
            (Done ())))
        else Done ()))"

section \<open>Navigation\<close>

lemma router_cases:
  "router rts authed path \<in> {Redirect [''dashboard''], Redirect [''login''], Show ''LoginPage'', Show ''PlayerPage''}
     \<or> (\<exists>p. p \<in> snd ` set rts \<and> router rts authed path = Show p)"
  by (auto simp: router_def LoginGuard_def PlayerGuard_def ProtectedLayout_def image_iff
      split: list.splits option.splits dest!: map_of_SomeD intro: rev_bexI)

lemma landing_login: "landing rts False (Suc n) [''login''] = Some ''LoginPage''" "landing rts False 0 [''login''] = Some ''LoginPage''"
  by (simp_all add: landing.simps router_def LoginGuard_def)

lemma landing_dashboard:
  "map_of rts ''dashboard'' = Some p \<Longrightarrow> landing rts True n [''dashboard''] = Some p"
  "map_of rts ''dashboard'' = Some p \<Longrightarrow> landing rts False (Suc n) [''dashboard''] = Some ''LoginPage''"
  by (cases n; simp add: landing.simps router_def ProtectedLayout_def LoginGuard_def)+

lemma landing_signed_out:
  assumes "map_of rts ''dashboard'' = Some d"
  shows "landing rts False (Suc (Suc n)) path = Some ''LoginPage''"
proof (cases "router rts False path")
  case (Show p)
  then have "p = ''LoginPage''"
    by (auto simp: router_def LoginGuard_def PlayerGuard_def ProtectedLayout_def split: if_splits list.splits option.splits)
  with Show show ?thesis by (simp add: landing.simps [of _ _ _ path])
next
  case (Redirect q)
  then have "q = [''login''] \<or> q = [''dashboard'']"
    by (auto simp: router_def LoginGuard_def PlayerGuard_def ProtectedLayout_def split: if_splits list.splits option.splits)
  then have "landing rts False (Suc n) q = Some ''LoginPage''"
    using landing_login landing_dashboard(2) [OF assms] by auto
  with Redirect show ?thesis by (simp add: landing.simps [of _ _ "Suc (Suc n)" path])
qed

lemma landing_signed_in:
  assumes "map_of rts ''dashboard'' = Some d"
  shows "landing rts True (Suc (Suc n)) path = Some (case router rts True path of Show p \<Rightarrow> p | Redirect q \<Rightarrow> d)"
proof (cases "router rts True path")
  case (Show p)
  then show ?thesis by (simp add: landing.simps [of _ _ _ path])
next
  case (Redirect q)
  then have "q = [''dashboard'']"
    by (auto simp: router_def LoginGuard_def PlayerGuard_def ProtectedLayout_def split: if_splits list.splits option.splits)
  then show ?thesis
    using Redirect landing_dashboard(1) [OF assms, of "Suc n"] by (simp add: landing.simps [of _ _ _ path])
qed

text \<open>A tab leads somewhere: it has a route and breadcrumbs.\<close>

definition tab_ok :: "routes \<Rightarrow> (string \<times> string list) list \<Rightarrow> string \<Rightarrow> bool" where
  "tab_ok rts crumbs t \<longleftrightarrow> map_of rts t \<noteq> None \<and> map_of crumbs t \<noteq> None"

text \<open>Every visit lands, after at most two redirects, in both applications: signed out on the login
  page, whatever the path; signed in on the page that the path names, or on the dashboard. And the
  sidebar reaches exactly the routes: every entry has a page and breadcrumbs, and every page an
  entry.\<close>

theorem app_navigation:
  "landing client_routes False 2 path = Some ''LoginPage'' \<and> landing server_routes False 2 path = Some ''LoginPage'' \<and>
   landing client_routes True 2 path =
     Some (case router client_routes True path of Show p \<Rightarrow> p | Redirect q \<Rightarrow> ''DashboardPage'') \<and>
   landing server_routes True 2 path =
     Some (case router server_routes True path of Show p \<Rightarrow> p | Redirect q \<Rightarrow> ''DashboardPage'') \<and>
   list_all (tab_ok client_routes client_crumbs) (sidebar_tabs client_navItems) \<and>
   list_all (tab_ok server_routes server_crumbs) (sidebar_tabs server_navItems) \<and>
   list_all (\<lambda>r. fst r \<in> set (sidebar_tabs client_navItems)) client_routes \<and>
   list_all (\<lambda>r. fst r \<in> set (sidebar_tabs server_navItems)) server_routes"
proof -
  have d: "map_of client_routes ''dashboard'' = Some ''DashboardPage''"
    "map_of server_routes ''dashboard'' = Some ''DashboardPage''"
    by (simp_all add: client_routes_def server_routes_def)
  have c: "list_all (tab_ok client_routes client_crumbs) (sidebar_tabs client_navItems)"
    by code_simp
  have s: "list_all (tab_ok server_routes server_crumbs) (sidebar_tabs server_navItems)"
    by code_simp
  have cr: "list_all (\<lambda>r. fst r \<in> set (sidebar_tabs client_navItems)) client_routes"
    by code_simp
  have sr: "list_all (\<lambda>r. fst r \<in> set (sidebar_tabs server_navItems)) server_routes"
    by code_simp
  show ?thesis
    using landing_signed_out [OF d(1), of 0 path] landing_signed_out [OF d(2), of 0 path]
      landing_signed_in [OF d(1), of 0 path] landing_signed_in [OF d(2), of 0 path] c s cr sr
    by (simp add: numeral_2_eq_2)
qed

section \<open>The loading indicator\<close>

definition api_count :: "bool list \<Rightarrow> nat" where
  "api_count bs = length (filter (\<lambda>b. b) bs)"

lemma api_count_snoc [simp]: "api_count (bs @ [b]) = api_count bs + (if b then 1 else 0)"
  by (simp add: api_count_def)

lemma api_count_remove:
  "i < length bs \<Longrightarrow> api_count bs = api_count (take i bs @ drop (Suc i) bs) + (if bs ! i then 1 else 0)"
  using arg_cong [OF id_take_nth_drop [of i bs], of api_count] by (simp add: api_count_def)

definition shell_inv :: "shell \<Rightarrow> bool" where
  "shell_inv s \<longleftrightarrow> activeRequests s = int (api_count (inflight s)) \<and>
     (case notified s of None \<Rightarrow> activeRequests s = 0 | Some (on, n) \<Rightarrow> n = activeRequests s \<and> on = (0 < n))"

lemma shell_unauthorized [simp]:
  "activeRequests (unauthorized ks s) = activeRequests s" "inflight (unauthorized ks s) = inflight s"
  "notified (unauthorized ks s) = notified s"
  by (simp_all add: unauthorized_def Let_def)

lemma shell_inv_step: "shell_step s t \<Longrightarrow> shell_inv s \<Longrightarrow> shell_inv t"
proof (induction rule: shell_step.induct)
  case (request s url)
  then show ?case by (auto simp: shell_inv_def fetch_begin_def notifyLoadingChange_def Let_def split: option.splits)
next
  case (settled i s status)
  then show ?case
    using api_count_remove [of i "inflight s"]
    by (auto simp: shell_inv_def fetch_end_def notifyLoadingChange_def Let_def split: option.splits)
qed

text \<open>C12: The loading indicator tells the truth: after any sequence of requests and answers the counter is
  the number of API requests in flight, so the guard against a negative counter never acts, and the
  last event that the loading bar received says \<open>active\<close> exactly while such a request is running.\<close>

theorem loading_indicator_exact:
  assumes "shell_step\<^sup>*\<^sup>* (init_shell st path) s"
  shows "activeRequests s = int (length (filter (\<lambda>api. api) (inflight s))) \<and>
    (case notified s of None \<Rightarrow> filter (\<lambda>api. api) (inflight s) = []
     | Some (on, n) \<Rightarrow> n = activeRequests s \<and> on = (filter (\<lambda>api. api) (inflight s) \<noteq> []))"
proof -
  have "shell_inv s"
    using assms by (rule reach_invariant [where P = shell_inv])
      (simp add: shell_inv_def init_shell_def api_count_def, rule shell_inv_step)
  then show ?thesis by (auto simp: shell_inv_def api_count_def split: option.splits)
qed

theorem loading_indicator_exact_witness:
  "activeRequests (fetch_begin ''/api/x'' (init_shell Map.empty ''/files'')) = 1"
proof -
  let ?s = "fetch_begin ''/api/x'' (init_shell Map.empty ''/files'')"
  have "shell_step\<^sup>*\<^sup>* (init_shell Map.empty ''/files'') ?s" by (rule r_into_rtranclp) (rule shell_step.request)
  from loading_indicator_exact [OF this] show ?thesis by (simp add: fetch_begin_def isApi_def init_shell_def
      notifyLoadingChange_def Let_def)
qed

section \<open>The loading bar\<close>

definition bar_step :: "int \<Rightarrow> int" where
  "bar_step p = (if 90 \<le> p then p else p + max 1 ((90 - p) * 15 div 100))"

lemma bar_tick_int: "progress b = of_int p \<Longrightarrow> progress (bar_tick b) = of_int (bar_step p)"
proof -
  assume p: "progress b = of_int p"
  have "(90 - of_int p) * (15 / 100) = (of_int ((90 - p) * 15) / of_int 100 :: rat)" by simp
  then have "\<lfloor>(90 - of_int p) * (15 / 100 :: rat)\<rfloor> = (90 - p) * 15 div 100"
    by (simp only: floor_divide_of_int_eq)
  then have "(of_int \<lfloor>(90 - of_int p) * (15 / 100 :: rat)\<rfloor> :: rat) = of_int ((90 - p) * 15 div 100)" by simp
  moreover have "(90 :: rat) \<le> of_int p \<longleftrightarrow> 90 \<le> p" by simp
  ultimately show ?thesis
    by (simp only: bar_tick_def bar_step_def p Let_def if_distrib of_int_add of_int_max of_int_1 bar.simps split: if_split)
      simp
qed

lemma bar_ticks_int:
  "progress b = of_int p \<Longrightarrow> progress ((bar_tick ^^ n) b) = of_int ((bar_step ^^ n) p)"
  by (induction n) (simp_all add: bar_tick_int)

lemma bar_step_bounds: "p \<le> 90 \<Longrightarrow> p \<le> bar_step p \<and> bar_step p \<le> 90 \<and> (p < 90 \<longrightarrow> p < bar_step p)"
  by (auto simp: bar_step_def max_def)

lemma bar_steps_bounds: "10 \<le> (bar_step ^^ n) 10 \<and> (bar_step ^^ n) 10 \<le> 90"
proof (induction n)
  case (Suc n)
  then show ?case using bar_step_bounds [of "(bar_step ^^ n) 10"] by simp
qed simp

lemma bar_values:
  "bar_step 10 = 22" "bar_step 22 = 32" "bar_step 32 = 40" "bar_step 40 = 47" "bar_step 47 = 53"
  "bar_step 53 = 58" "bar_step 58 = 62" "bar_step 62 = 66" "bar_step 66 = 69" "bar_step 69 = 72"
  "bar_step 72 = 74" "bar_step 74 = 76" "bar_step 76 = 78" "bar_step 78 = 79" "bar_step 79 = 80"
  "bar_step 80 = 81" "bar_step 81 = 82" "bar_step 82 = 83" "bar_step 83 = 84" "bar_step 84 = 85"
  "bar_step 85 = 86" "bar_step 86 = 87" "bar_step 87 = 88" "bar_step 88 = 89" "bar_step 89 = 90" "bar_step 90 = 90"
  by (simp_all add: bar_step_def)

lemma funpow_5: "(f ^^ 5) x = f (f (f (f (f x))))"
  by (simp add: numeral_eq_Suc)

lemma bar_steps_25: "(bar_step ^^ 25) 10 = 90"
proof -
  have "(bar_step ^^ (5 + (5 + (5 + (5 + 5))))) 10 = 90"
    by (simp only: funpow_add comp_apply funpow_5 bar_values)
  then show ?thesis by simp
qed

lemma bar_steps_rest: "(bar_step ^^ (25 + n)) 10 = 90"
proof -
  have "(bar_step ^^ n) 90 = 90" by (induction n) (simp_all add: bar_values)
  then show ?thesis by (simp only: add.commute [of 25 n] funpow_add comp_apply bar_steps_25)
qed

text \<open>While requests run the loading bar starts at 10 per cent and creeps up to 90, which it reaches
  after 25 ticks (five seconds) and never passes; only the end of the requests takes it to 100.\<close>

theorem loading_bar_creeps_to_90:
  "10 \<le> progress ((bar_tick ^^ n) (bar_on b)) \<and> progress ((bar_tick ^^ n) (bar_on b)) \<le> 90 \<and>
   progress ((bar_tick ^^ n) (bar_on b)) \<le> progress ((bar_tick ^^ Suc n) (bar_on b)) \<and>
   progress ((bar_tick ^^ (25 + n)) (bar_on b)) = 90 \<and> progress (bar_off b) = 100"
proof -
  have on: "progress (bar_on b) = of_int 10" by (simp add: bar_on_def)
  have p: "progress ((bar_tick ^^ m) (bar_on b)) = of_int ((bar_step ^^ m) 10)" for m
    by (rule bar_ticks_int [OF on])
  show ?thesis
    using bar_steps_bounds [of n] bar_step_bounds [of "(bar_step ^^ n) 10"]
    by (simp add: p bar_steps_rest bar_off_def del: funpow.simps(2)) simp
qed

section \<open>Sessions\<close>

lemma unauthorized_signs_out:
  "keys_ok ks \<Longrightarrow> \<not> isAuthenticated (init_auth ks True (store (unauthorized ks s)))"
  by (simp add: unauthorized_def init_auth_def getInitialAuth_def get_item_def keys_ok_def Let_def)

lemma store_fetch_end:
  "store (fetch_end i (Some 401) s) = store (unauthorized client_keys s)"
  "leaving (fetch_end i (Some 401) s) = (leaving s \<or> \<not> ends_with (pathname s) ''/login'')"
  by (simp_all add: fetch_end_def unauthorized_def notifyLoadingChange_def Let_def)

text \<open>The login page signs a user in without the server: with the built-in name and password, any
  failure of the request ends in a signed-in session with a fixed token.\<close>

lemma login_page_fallback:
  "let s' = final (handleSubmit client_keys ''salman'' ''136517'') [Rejected e] s in
     isAuthenticated s' \<and> token s' = JStr fallback_token \<and>
     isAuthenticated (init_auth client_keys True (local_storage s'))"
  by (simp add: handleSubmit_def login_localError_def login_def fetch_def await_task_def run_defs set_item_def
      fallback_token_def init_auth_def getInitialAuth_def client_keys_def get_item_def Let_def)

text \<open>The sidebar of the server application looks up the client's key, which the server's login never
  writes: whoever signs in there is shown as the default user.\<close>

lemma server_sidebar_name:
  "sidebar_username (local_storage (final (server_login u pw)
     [Response True (JsonOk (JObj [(''token'', JStr ''t'')]))] (init_auth server_keys True Map.empty))) = ''salman''"
  by (simp add: sidebar_username_def server_login_def login_def fetch_def read_json_def lift_res_def run_defs
      set_item_def server_keys_def get_item_or_def init_auth_def getInitialAuth_def Let_def)

text \<open>What a 401 leaves of the session in the store of \<open>authStore\<close>.\<close>

lemma unauthorized_expires: "store s = local_storage a \<Longrightarrow> store (unauthorized ks s) = local_storage (expired ks a)"
  by (simp add: unauthorized_def expired_def remove_item_def Let_def)

text \<open>All that writes the session: the login and the synchronous methods of the store, the submit
  handler of the login page, and, in an environment that answers 401, the interceptor.\<close>

definition session_acts :: "auth_keys \<Rightarrow> (auth_state, bool) action set" where
  "session_acts ks = {login ks u p | u p. True} \<union> {bind (handleSubmit ks u p) (\<lambda>_. Done True) | u p. True}"

definition session_ev :: "auth_keys \<Rightarrow> bool \<Rightarrow> auth_state \<Rightarrow> auth_state \<Rightarrow> bool" where
  "session_ev ks answers_401 s s' \<longleftrightarrow>
     s' = initialize ks s \<or> s' = logout ks s \<or> answers_401 \<and> s' = expired ks s"

lemma session_inv_handleSubmit:
  "keys_ok ks \<Longrightarrow> session_inv ks h s \<Longrightarrow>
     keeps A (session_inv ks h) (bind (handleSubmit ks u p) (\<lambda>_. Done True)) s"
  by (auto simp: handleSubmit_def login_def session_inv_def set_item_def keys_ok_def
      split: reply.splits body.splits sum.splits)

lemma session_async:
  "keys_ok ks \<Longrightarrow>
     async_store (session_acts ks) (\<lambda>_ _. True) (session_ev ks h) (init_auth ks w st) (session_inv ks h)"
  by unfold_locales
     (auto simp: session_acts_def session_ev_def session_inv_init session_inv_initialize session_inv_logout
       session_inv_expired intro: session_inv_login session_inv_handleSubmit)

interpretation client_auth:
  async_store "session_acts client_keys" "\<lambda>_ _. True" "session_ev client_keys h"
    "init_auth client_keys w st" "session_inv client_keys h" for h w st
  by (rule session_async) simp

interpretation server_auth:
  async_store "session_acts server_keys" "\<lambda>_ _. True" "session_ev server_keys h"
    "init_auth server_keys w st" "session_inv server_keys h" for h w st
  by (rule session_async) simp

lemma session_reach_inv:
  assumes "ks = client_keys \<or> ks = server_keys"
    and "areach (session_acts ks) (\<lambda>_ _. True) (session_ev ks h) (init_auth ks w st) s p"
  shows "session_inv ks h s"
  using assms client_auth.reach_inv server_auth.reach_inv by blast

lemma signed_in_reached:
  "areach (session_acts client_keys) (\<lambda>_ _. True) (session_ev client_keys h)
     (init_auth client_keys True Map.empty) signed_in [Done True]"
proof -
  let ?t = "login client_keys ''ann'' ''pw''" and ?s = "init_auth client_keys True Map.empty"
  let ?r = "Response True (JsonOk (JObj [(''token'', JStr ''t1'')]))"
  let ?reach = "areach (session_acts client_keys) (\<lambda>_ _. True) (session_ev client_keys h) ?s"
  obtain q k s1 where t: "turn ?t ?s = (Await q k, s1)"
    and s1: "s1 = ?s\<lparr>isLoading := True, error := None\<rparr>"
    and k: "\<exists>t'. k ?r = Yield t' \<and> turn t' s1 = (Done True, signed_in)"
    by (simp add: login_def fetch_def read_json_def lift_res_def signed_in_eq init_auth_def
        getInitialAuth_def set_item_def client_keys_def get_item_def)
  obtain t' where y: "k ?r = Yield t'" and d: "turn t' s1 = (Done True, signed_in)" using k by blast
  have "?reach s1 ([] @ [Await q k])"
    by (rule areach.call [OF areach.start _ t]) (auto simp: session_acts_def)
  from areach.answer [OF this, of 0 q k ?r "Yield t'" s1] have "?reach s1 [Yield t']" by (simp add: y)
  from areach.wake [OF this, of 0, OF _ _ d] show ?thesis by simp
qed



end
