(* ===== verification/Dialog_Store.thy ===== *)
theory Dialog_Store
  imports Browser
begin

text \<open>
  \<open>dialogStore.ts\<close> and the modal that shows it, \<open>GlobalDialog.tsx\<close>: a caller asks with
  \<open>alert\<close>, \<open>confirm\<close> or \<open>prompt\<close> and awaits the promise it gets back; the user's answer settles
  the promise. A promise is a number, \<open>settled\<close> holds the values of those settled so far, and
  \<open>asked\<close> the kind of dialog each was created for.
\<close>

datatype DialogType = Alert | Confirm | Prompt

datatype DialogVariant = Success | Error | Warning | Info | Question

record dialog_options =
  opt_title :: "string option"
  opt_variant :: "DialogVariant option"
  opt_placeholder :: "string option"

record DialogConfig =
  dtype :: DialogType
  variant :: DialogVariant
  title :: string
  message :: string
  defaultValue :: "string option"
  placeholder :: "string option"
  promise :: nat

record dialog_state =
  currentDialog :: "DialogConfig option"
  asked :: "DialogType list"
  settled :: "nat \<rightharpoonup> jsv"

definition init_dialog :: dialog_state where
  "init_dialog = \<lparr>currentDialog = None, asked = [], settled = Map.empty\<rparr>"

text \<open>\<open>options?.title || 'Alert'\<close>: an absent or empty title takes the default.\<close>

definition text_or :: "string option \<Rightarrow> string \<Rightarrow> string" where
  "text_or x d = (case x of None \<Rightarrow> d | Some s \<Rightarrow> if s = [] then d else s)"

definition variant_or :: "DialogVariant option \<Rightarrow> DialogVariant \<Rightarrow> DialogVariant" where
  "variant_or x d = (case x of None \<Rightarrow> d | Some v \<Rightarrow> v)"

definition show_dialog :: "DialogConfig \<Rightarrow> dialog_state \<Rightarrow> dialog_state" where
  "show_dialog d s = s\<lparr>currentDialog := Some d, asked := asked s @ [dtype d]\<rparr>"

definition alert :: "string \<Rightarrow> dialog_options \<Rightarrow> dialog_state \<Rightarrow> dialog_state" where
  "alert msg o1 s = show_dialog
     \<lparr>dtype = Alert, variant = variant_or (opt_variant o1) Info,
      title = text_or (opt_title o1) ''Alert'', message = msg,
      defaultValue = None, placeholder = None, promise = length (asked s)\<rparr> s"

definition confirm :: "string \<Rightarrow> dialog_options \<Rightarrow> dialog_state \<Rightarrow> dialog_state" where
  "confirm msg o1 s = show_dialog
     \<lparr>dtype = Confirm, variant = variant_or (opt_variant o1) Question,
      title = text_or (opt_title o1) ''Confirmation'', message = msg,
      defaultValue = None, placeholder = None, promise = length (asked s)\<rparr> s"

definition prompt :: "string \<Rightarrow> string option \<Rightarrow> dialog_options \<Rightarrow> dialog_state \<Rightarrow> dialog_state" where
  "prompt msg dflt o1 s = show_dialog
     \<lparr>dtype = Prompt, variant = Question,
      title = text_or (opt_title o1) ''Prompt'', message = msg,
      defaultValue = Some (case dflt of None \<Rightarrow> [] | Some d \<Rightarrow> d),
      placeholder = Some (text_or (opt_placeholder o1) ''Type here...''),
      promise = length (asked s)\<rparr> s"

text \<open>The \<open>resolve\<close> closure of a dialog: it clears the store, whatever dialog is on screen, and
  settles its promise; settling twice has no effect. An alert drops the value.\<close>

definition resolve_dialog :: "DialogConfig \<Rightarrow> jsv \<Rightarrow> dialog_state \<Rightarrow> dialog_state" where
  "resolve_dialog d v s =
     (let w = (if dtype d = Alert then JUndef else v) in
      s\<lparr>currentDialog := None,
        settled := (if settled s (promise d) = None then (settled s)(promise d \<mapsto> w) else settled s)\<rparr>)"

definition close :: "jsv \<Rightarrow> dialog_state \<Rightarrow> dialog_state" where
  "close v s = (case currentDialog s of None \<Rightarrow> s | Some d \<Rightarrow> resolve_dialog d v s)"

section \<open>The modal\<close>

definition escape_key :: "dialog_state \<Rightarrow> dialog_state" where
  "escape_key s = (case currentDialog s of None \<Rightarrow> s
     | Some d \<Rightarrow> (case dtype d of
           Confirm \<Rightarrow> close (JBool False) s
         | Prompt \<Rightarrow> close JNull s
         | Alert \<Rightarrow> close JUndef s))"

definition handleSubmit :: "string \<Rightarrow> dialog_state \<Rightarrow> dialog_state" where
  "handleSubmit inputValue s = (case currentDialog s of None \<Rightarrow> s
     | Some d \<Rightarrow> (case dtype d of
           Prompt \<Rightarrow> close (JStr inputValue) s
         | Confirm \<Rightarrow> close (JBool True) s
         | Alert \<Rightarrow> close JUndef s))"

definition cancel_button :: "dialog_state \<Rightarrow> dialog_state" where
  "cancel_button s = (case currentDialog s of None \<Rightarrow> s
     | Some d \<Rightarrow> (if dtype d = Confirm then close (JBool False) s
                 else if dtype d = Prompt then close JNull s else s))"

definition backdrop_click :: "dialog_state \<Rightarrow> dialog_state" where
  "backdrop_click s = (case currentDialog s of None \<Rightarrow> s
     | Some d \<Rightarrow> (if dtype d = Alert then close JUndef s else s))"

section \<open>Reachable states\<close>

inductive dialog_step :: "dialog_state \<Rightarrow> dialog_state \<Rightarrow> bool" where
  do_alert: "dialog_step s (alert msg o1 s)"
| do_confirm: "dialog_step s (confirm msg o1 s)"
| do_prompt: "dialog_step s (prompt msg dflt o1 s)"
| do_escape: "dialog_step s (escape_key s)"
| do_submit: "dialog_step s (handleSubmit v s)"
| do_cancel: "dialog_step s (cancel_button s)"
| do_backdrop: "dialog_step s (backdrop_click s)"

inductive_cases dialog_stepE: "dialog_step s t"

definition well_answered :: "DialogType \<Rightarrow> jsv \<Rightarrow> bool" where
  "well_answered k v = (case k of
      Alert \<Rightarrow> v = JUndef
    | Confirm \<Rightarrow> (\<exists>b. v = JBool b)
    | Prompt \<Rightarrow> v = JNull \<or> (\<exists>t. v = JStr t))"

text \<open>The dialog on screen is the last one asked for, and unanswered; every settled promise was
  created by a dialog and holds an answer of its kind.\<close>

definition dialog_inv :: "dialog_state \<Rightarrow> bool" where
  "dialog_inv s \<longleftrightarrow>
     (\<forall>d. currentDialog s = Some d \<longrightarrow>
        Suc (promise d) = length (asked s) \<and> asked s ! promise d = dtype d \<and>
        settled s (promise d) = None) \<and>
     (\<forall>p v. settled s p = Some v \<longrightarrow> p < length (asked s) \<and> well_answered (asked s ! p) v)"

lemma dialog_inv_init: "dialog_inv init_dialog"
  by (simp add: dialog_inv_def init_dialog_def)

lemma dialog_inv_show:
  assumes "dialog_inv s" and "promise d = length (asked s)"
  shows "dialog_inv (show_dialog d s)"
proof -
  have "settled s (length (asked s)) = None"
    using assms(1) by (metis dialog_inv_def less_irrefl not_None_eq)
  then show ?thesis
    using assms by (auto simp: dialog_inv_def show_dialog_def nth_append less_Suc_eq)
qed

lemma dialog_inv_close:
  assumes "dialog_inv s" and "currentDialog s = Some d" and "dtype d \<noteq> Alert \<longrightarrow> well_answered (dtype d) v"
  shows "dialog_inv (close v s)"
  using assms
  by (auto simp: dialog_inv_def close_def resolve_dialog_def Let_def well_answered_def
      split: DialogType.splits)

lemma dialog_inv_step: "dialog_step s t \<Longrightarrow> dialog_inv s \<Longrightarrow> dialog_inv t"
proof (erule dialog_stepE)
  fix v assume inv: "dialog_inv s" and t: "t = handleSubmit v s"
  then show "dialog_inv t"
    by (auto simp: handleSubmit_def split: option.splits DialogType.splits
        intro!: dialog_inv_close [OF inv] simp: well_answered_def)
qed (auto simp: alert_def confirm_def prompt_def escape_key_def cancel_button_def backdrop_click_def
      well_answered_def
    split: option.splits DialogType.splits intro!: dialog_inv_show dialog_inv_close)

lemma dialog_reach_inv: "dialog_step\<^sup>*\<^sup>* s t \<Longrightarrow> dialog_inv s \<Longrightarrow> dialog_inv t"
  by (erule reach_invariant [where P = dialog_inv]) (auto intro: dialog_inv_step)

text \<open>A promise whose dialog is not on screen is never settled again.\<close>

definition abandoned :: "nat \<Rightarrow> dialog_state \<Rightarrow> bool" where
  "abandoned p s \<longleftrightarrow> p < length (asked s) \<and> settled s p = None \<and>
     (\<forall>d. currentDialog s = Some d \<longrightarrow> promise d \<noteq> p)"

lemma abandoned_close: "abandoned p s \<Longrightarrow> abandoned p (close v s)"
  by (auto simp: abandoned_def close_def resolve_dialog_def Let_def split: option.splits)

lemma abandoned_show:
  "promise d = length (asked s) \<Longrightarrow> abandoned p s \<Longrightarrow> abandoned p (show_dialog d s)"
  by (auto simp: abandoned_def show_dialog_def)

lemma abandoned_step: "dialog_step s t \<Longrightarrow> abandoned p s \<Longrightarrow> abandoned p t"
  by (erule dialog_stepE)
     (auto simp: alert_def confirm_def prompt_def escape_key_def cancel_button_def handleSubmit_def
       backdrop_click_def split: option.splits DialogType.splits
       intro!: abandoned_close abandoned_show)

lemma abandoned_reach: "dialog_step\<^sup>*\<^sup>* s t \<Longrightarrow> abandoned p s \<Longrightarrow> abandoned p t"
  by (erule reach_invariant [where P = "abandoned p"]) (auto intro: abandoned_step)

section \<open>Properties\<close>

text \<open>Every answer the user gives is of the kind the caller awaits. In every state that any
  sequence of dialogs and user actions reaches, a settled alert holds \<open>undefined\<close>, a settled
  confirmation a boolean and a settled prompt a string or \<open>null\<close>, and the dialog on screen is
  still unanswered.\<close>

theorem dialog_answers_typed:
  assumes "dialog_step\<^sup>*\<^sup>* init_dialog s"
  shows "(\<forall>p v. settled s p = Some v \<longrightarrow> p < length (asked s) \<and> well_answered (asked s ! p) v) \<and>
    (\<forall>d. currentDialog s = Some d \<longrightarrow> settled s (promise d) = None)"
  using dialog_reach_inv [OF assms dialog_inv_init] by (auto simp: dialog_inv_def)

definition no_options :: dialog_options where
  "no_options = \<lparr>opt_title = None, opt_variant = None, opt_placeholder = None\<rparr>"

theorem dialog_answers_typed_witness:
  "settled (handleSubmit ''x'' (confirm ''go?'' no_options init_dialog)) 0 = Some (JBool True) \<and>
   well_answered Confirm (JBool True)"
proof -
  let ?s = "handleSubmit ''x'' (confirm ''go?'' no_options init_dialog)"
  have "dialog_step\<^sup>*\<^sup>* init_dialog ?s"
    by (meson do_confirm do_submit rtranclp.rtrancl_into_rtrancl rtranclp.rtrancl_refl)
  from dialog_answers_typed [OF this]
  have "\<And>p v. settled ?s p = Some v \<Longrightarrow> well_answered (asked ?s ! p) v" by blast
  moreover have "settled ?s 0 = Some (JBool True)" "asked ?s ! 0 = Confirm"
    by (simp_all add: handleSubmit_def confirm_def show_dialog_def init_dialog_def close_def
        resolve_dialog_def)
  ultimately show ?thesis by metis
qed

text \<open>C6: A dialog asked for while another is on screen replaces it, and the caller of the first
  one waits for ever: whichever of \<open>alert\<close>, \<open>confirm\<close> and \<open>prompt\<close> asks, the new dialog is the one on
  screen, and whatever happens afterwards the first promise is never settled.\<close>

theorem replaced_dialog_never_settles:
  assumes "dialog_step\<^sup>*\<^sup>* init_dialog s" and "currentDialog s = Some d"
    and "u = alert msg o1 s \<or> u = confirm msg o1 s \<or> u = prompt msg dflt o1 s"
    and "dialog_step\<^sup>*\<^sup>* u t"
  shows "(\<exists>e. currentDialog u = Some e \<and> message e = msg \<and> promise e \<noteq> promise d) \<and>
    settled t (promise d) = None"
proof -
  have inv: "dialog_inv s" using dialog_reach_inv [OF assms(1) dialog_inv_init] .
  have "abandoned (promise d) u"
    using inv assms(2,3)
    by (auto simp: dialog_inv_def abandoned_def alert_def confirm_def prompt_def show_dialog_def)
  then have "abandoned (promise d) t" using assms(4) by (rule abandoned_reach [rotated])
  moreover have "\<exists>e. currentDialog u = Some e \<and> message e = msg \<and> promise e = length (asked s)"
    using assms(3) by (auto simp: alert_def confirm_def prompt_def show_dialog_def)
  moreover have "promise d < length (asked s)" using inv assms(2) by (auto simp: dialog_inv_def)
  ultimately show ?thesis by (auto simp: abandoned_def)
qed

theorem replaced_dialog_never_settles_witness:
  "settled (handleSubmit [] (alert ''two'' no_options (confirm ''one'' no_options init_dialog))) 0 = None"
proof -
  let ?s = "confirm ''one'' no_options init_dialog"
  let ?u = "alert ''two'' no_options ?s"
  have s: "dialog_step\<^sup>*\<^sup>* init_dialog ?s" by (rule r_into_rtranclp) (rule do_confirm)
  obtain d where d: "currentDialog ?s = Some d" "promise d = 0"
    by (simp add: confirm_def show_dialog_def init_dialog_def)
  have "dialog_step\<^sup>*\<^sup>* ?u (handleSubmit [] ?u)" by (rule r_into_rtranclp) (rule do_submit)
  from replaced_dialog_never_settles [OF s d(1) disjI1 [OF refl] this] show ?thesis using d(2) by simp
qed

end
