(* ===== verification/Windows.thy ===== *)
theory Windows
  imports JS_Values
begin

text \<open>
  Bounded histories. Several stores keep the last so many entries of a stream (log lines,
  latency samples, traffic points, scan events), each with its own code; \<open>sliding_window\<close> is
  the contract they share: pushing keeps the last \<open>cap\<close> entries.
\<close>

locale sliding_window =
  fixes push :: "'a \<Rightarrow> 'a list \<Rightarrow> 'a list"
    and cap :: nat
  assumes cap_pos: "0 < cap"
    and push_slice: "length xs \<le> cap \<Longrightarrow> push x xs = slice_last cap (xs @ [x])"
begin

lemma push_bounded: "length xs \<le> cap \<Longrightarrow> length (push x xs) \<le> cap"
  using cap_pos by (simp add: push_slice length_slice_last)

lemma fold_push:
  "length xs \<le> cap \<Longrightarrow> fold push ys xs = slice_last cap (xs @ ys)"
proof (induction ys arbitrary: xs)
  case Nil
  then show ?case by (simp add: slice_last_id)
next
  case (Cons y ys)
  have "fold push (y # ys) xs = slice_last cap (slice_last cap (xs @ [y]) @ ys)"
    using Cons push_bounded [of xs y] by (simp add: push_slice)
  also have "\<dots> = slice_last cap (xs @ y # ys)"
    using slice_last_append [OF cap_pos, of "xs @ [y]" ys] by simp
  finally show ?case .
qed

lemma fold_push_empty: "fold push ys [] = slice_last cap ys"
  by (simp add: fold_push)

lemma fold_push_bounded: "length (fold push ys []) \<le> cap"
  using cap_pos by (simp add: fold_push_empty length_slice_last)

lemma push_last: "length xs \<le> cap \<Longrightarrow> last (push x xs) = x \<and> push x xs \<noteq> []"
  using cap_pos by (auto simp: push_slice slice_last_def)

end

end
