(* ===== verification/Log_Store.thy ===== *)
theory Log_Store
  imports Browser Windows
begin

text \<open>
  \<open>logStore.ts\<close>: the live log stream. \<open>connectLogs\<close> opens a WebSocket unless the store already
  holds one, and returns a clean-up function; the socket's callbacks maintain the connection
  flag and keep the last 200 messages. A message is the parsed JSON of a frame, or \<open>None\<close> where
  it does not parse.
\<close>

record log_state =
  logs :: "jsv list"
  isPaused :: bool
  isConnected :: bool
  ws :: "nat option"
  sockets :: "socket list"
  page_protocol :: string
  page_host :: string

definition init_logs :: "string \<Rightarrow> string \<Rightarrow> log_state" where
  "init_logs proto h = \<lparr>logs = [], isPaused = False, isConnected = False, ws = None, sockets = [],
     page_protocol = proto, page_host = h\<rparr>"

text \<open>\<open>connectLogs(token)\<close>: the new state, and the socket that the returned function closes (none
  where the store already held a socket).\<close>

definition connectLogs :: "string \<Rightarrow> log_state \<Rightarrow> log_state \<times> nat option" where
  "connectLogs token s =
     (if ws s \<noteq> None then (s, None)
      else let url = ws_url (page_protocol s) (page_host s) ''/ws/logs'' token;
               i = length (sockets s)
           in (s\<lparr>sockets := sockets s @ [new_socket url]\<rparr>, Some i))"

definition cleanup_logs :: "nat option \<Rightarrow> log_state \<Rightarrow> log_state" where
  "cleanup_logs c s = (case c of None \<Rightarrow> s
     | Some i \<Rightarrow> s\<lparr>sockets := close_socket i (sockets s), isConnected := False, ws := None\<rparr>)"

definition onopen :: "nat \<Rightarrow> log_state \<Rightarrow> log_state" where
  "onopen i s = s\<lparr>isConnected := True, ws := Some i\<rparr>"

definition push_log :: "jsv \<Rightarrow> jsv list \<Rightarrow> jsv list" where
  "push_log msg xs = (let newLogs = xs @ [msg] in if 200 < length newLogs then tl newLogs else newLogs)"

definition onmessage :: "jsv option \<Rightarrow> log_state \<Rightarrow> log_state" where
  "onmessage frame s =
     (if isPaused s then s
      else case frame of None \<Rightarrow> s | Some msg \<Rightarrow> s\<lparr>logs := push_log msg (logs s)\<rparr>)"

definition onclose :: "log_state \<Rightarrow> log_state" where
  "onclose s = s\<lparr>isConnected := False, ws := None\<rparr>"

definition onerror :: "log_state \<Rightarrow> log_state" where
  "onerror s = s\<lparr>isConnected := False\<rparr>"

definition clearLogs :: "log_state \<Rightarrow> log_state" where
  "clearLogs s = s\<lparr>logs := []\<rparr>"

definition togglePause :: "log_state \<Rightarrow> log_state" where
  "togglePause s = s\<lparr>isPaused := \<not> isPaused s\<rparr>"

section \<open>The store with its sockets\<close>

inductive log_step :: "log_state \<Rightarrow> log_state \<Rightarrow> bool" where
  connect: "log_step s (fst (connectLogs token s))"
| cleanup: "i < length (sockets s) \<Longrightarrow> log_step s (cleanup_logs (Some i) s)"
| opened: "ready_of (sockets s) i = CONNECTING \<Longrightarrow>
     log_step s (onopen i (s\<lparr>sockets := set_ready i OPEN (sockets s)\<rparr>))"
| message: "ready_of (sockets s) i = OPEN \<Longrightarrow> log_step s (onmessage frame s)"
| failed: "ready_of (sockets s) i \<noteq> CLOSED \<Longrightarrow>
     log_step s (onclose (onerror (s\<lparr>sockets := set_ready i CLOSED (sockets s)\<rparr>)))"
| closed: "ready_of (sockets s) i \<noteq> CLOSED \<Longrightarrow>
     log_step s (onclose (s\<lparr>sockets := set_ready i CLOSED (sockets s)\<rparr>))"
| clear: "log_step s (clearLogs s)"
| toggle: "log_step s (togglePause s)"

inductive_cases log_stepE: "log_step s t"

interpretation log_window: sliding_window push_log 200
proof
  show "0 < (200::nat)" by simp
  fix x and xs :: "jsv list"
  assume "length xs \<le> 200"
  then show "push_log x xs = slice_last 200 (xs @ [x])"
    by (cases "length xs = 200") (auto simp: push_log_def slice_last_def Let_def drop_Suc tl_append split: list.splits)
qed

definition log_inv :: "log_state \<Rightarrow> bool" where
  "log_inv s \<longleftrightarrow> length (logs s) \<le> 200 \<and> (isConnected s \<longrightarrow> ws s \<noteq> None) \<and>
     (\<forall>i. ws s = Some i \<longrightarrow> i < length (sockets s))"

lemma ready_bound: "ready_of w i = CONNECTING \<Longrightarrow> i < length w"
  by (auto simp: ready_of_def split: if_splits)

lemma log_step_inv: "log_step s t \<Longrightarrow> log_inv s \<Longrightarrow> log_inv t"
  by (erule log_stepE)
     (auto simp: log_inv_def connectLogs_def cleanup_logs_def onopen_def onmessage_def onclose_def
       onerror_def clearLogs_def togglePause_def Let_def ready_bound less_Suc_eq
       split: option.splits intro: log_window.push_bounded)

lemma log_reach_inv: "log_step\<^sup>*\<^sup>* (init_logs proto h) s \<Longrightarrow> log_inv s"
  by (erule reach_invariant [where P = log_inv]) (simp add: log_inv_def init_logs_def, rule log_step_inv)

section \<open>Properties\<close>

text \<open>However the log sockets, the viewer and the user interleave, the store never holds
  more than 200 messages, and it never reports a connection without holding a socket.\<close>

theorem log_store_bounded:
  assumes "log_step\<^sup>*\<^sup>* (init_logs proto h) s"
  shows "length (logs s) \<le> 200 \<and> (isConnected s \<longrightarrow> (\<exists>i. ws s = Some i \<and> i < length (sockets s)))"
  using log_reach_inv [OF assms] by (auto simp: log_inv_def)

theorem log_store_bounded_witness:
  "length (logs (fst (connectLogs ''t'' (init_logs ''http:'' ''h'')))) \<le> 200"
proof -
  have "log_step\<^sup>*\<^sup>* (init_logs ''http:'' ''h'') (fst (connectLogs ''t'' (init_logs ''http:'' ''h'')))"
    by (rule r_into_rtranclp) (rule log_step.connect)
  from log_store_bounded [OF this] show ?thesis by blast
qed

text \<open>While the stream is not paused, receiving any sequence of frames leaves exactly the
  last 200 parsed messages of the old and the new ones, in order of arrival; frames that do not
  parse are skipped.\<close>

theorem log_store_keeps_last_200:
  assumes "\<not> isPaused s" and "length (logs s) \<le> 200"
  shows "logs (fold onmessage frames s) = slice_last 200 (logs s @ List.map_filter (\<lambda>f. f) frames)"
  using assms
proof (induction frames arbitrary: s)
  case Nil
  then show ?case by (simp add: slice_last_id)
next
  case (Cons f frames)
  let ?s = "onmessage f s"
  have s: "\<not> isPaused ?s" "length (logs ?s) \<le> 200"
    using Cons.prems by (auto simp: onmessage_def split: option.splits intro: log_window.push_bounded)
  have "logs (fold onmessage (f # frames) s) = slice_last 200 (logs ?s @ List.map_filter (\<lambda>f. f) frames)"
    using Cons.IH [OF s] by simp
  moreover have "logs ?s = (case f of None \<Rightarrow> logs s | Some m \<Rightarrow> slice_last 200 (logs s @ [m]))"
    using Cons.prems by (simp add: onmessage_def log_window.push_slice split: option.splits)
  ultimately show ?case by (simp add: slice_last_append split: option.splits)
qed

theorem log_store_keeps_last_200_witness:
  "logs (fold onmessage [Some (JNum 1), None, Some (JNum 2)] (init_logs ''http:'' ''h'')) = [JNum 1, JNum 2]"
  using log_store_keeps_last_200 [of "init_logs ''http:'' ''h''" "[Some (JNum 1), None, Some (JNum 2)]"]
  by (simp add: init_logs_def slice_last_def)

text \<open>The guard against a second socket looks at \<open>ws\<close>, which is set only when the first
  socket opens: two calls before that leave two live sockets, and when both have opened every
  server message is delivered, and stored, once per socket.\<close>

lemma log_store_duplicate_sockets:
  "\<exists>s. log_step\<^sup>*\<^sup>* (init_logs proto h) s \<and> live_sockets (sockets s) = {0, 1} \<and>
     ready_of (sockets s) 0 = OPEN \<and> ready_of (sockets s) 1 = OPEN"
proof -
  let ?s0 = "init_logs proto h"
  let ?s1 = "fst (connectLogs ''t'' ?s0)"
  let ?s2 = "fst (connectLogs ''t'' ?s1)"
  let ?s3 = "onopen 0 (?s2\<lparr>sockets := set_ready 0 OPEN (sockets ?s2)\<rparr>)"
  let ?s4 = "onopen 1 (?s3\<lparr>sockets := set_ready 1 OPEN (sockets ?s3)\<rparr>)"
  note defs = init_logs_def connectLogs_def onopen_def Let_def
  have "log_step ?s0 ?s1" and "log_step ?s1 ?s2" by (rule log_step.connect)+
  moreover have "log_step ?s2 ?s3" by (rule log_step.opened) (simp add: defs)
  moreover have "log_step ?s3 ?s4" by (rule log_step.opened) (simp add: defs)
  ultimately have "log_step\<^sup>*\<^sup>* ?s0 ?s4" by (rule run_steps4)
  moreover have "live_sockets (sockets ?s4) = {0, 1}"
    by (auto simp: live_sockets_def defs less_Suc_eq numeral_2_eq_2)
  moreover have "ready_of (sockets ?s4) 0 = OPEN" "ready_of (sockets ?s4) 1 = OPEN"
    by (simp_all add: defs)
  ultimately show ?thesis by blast
qed

end
