(* ===== verification/Keyed.thy ===== *)
theory Keyed
  imports JS_Values
begin

text \<open>
  Keyed collections. Two stores keep a record of entries by key and, beside it, the list of the
  keys in display order. \<open>keyed_store\<close> is the contract of such a pair: inserting under a key and
  removing a key act on both, and the pair is then an ordered dictionary, the association list
  \<open>view\<close>, on which the two operations are \<open>AList.update\<close> and \<open>AList.delete\<close>.
\<close>

lemma alist_update_map:
  assumes "distinct ks"
  shows "AList.update k v (map (\<lambda>j. (j, f j)) ks) =
     map (\<lambda>j. (j, (f(k := v)) j)) (if k \<in> set ks then ks else ks @ [k])"
  using assms by (induction ks) (auto split: if_splits)

lemma alist_delete_map:
  "AList.delete k (map (\<lambda>j. (j, f j)) ks) = map (\<lambda>j. (j, f j)) (List.filter (\<lambda>j. j \<noteq> k) ks)"
  by (induction ks) auto

text \<open>The keys of a list that are not known yet, each at its first occurrence.\<close>

fun new_keys :: "'k set \<Rightarrow> 'k list \<Rightarrow> 'k list" where
  "new_keys known [] = []"
| "new_keys known (k # ks) =
     (if k \<in> known then new_keys known ks else k # new_keys (insert k known) ks)"

lemma new_keys_set: "set (new_keys known ks) = set ks - known"
  by (induction known ks rule: new_keys.induct) auto

lemma new_keys_distinct: "distinct (new_keys known ks)"
  by (induction known ks rule: new_keys.induct) (auto simp: new_keys_set)

lemma new_keys_fresh: "distinct ks \<Longrightarrow> set ks \<inter> known = {} \<Longrightarrow> new_keys known ks = ks"
  by (induction known ks rule: new_keys.induct) auto

locale keyed_store =
  fixes entries :: "'s \<Rightarrow> ('k \<rightharpoonup> 'v)"
    and keys :: "'s \<Rightarrow> 'k list"
    and put :: "'k \<Rightarrow> 'v \<Rightarrow> 's \<Rightarrow> 's"
    and remove :: "'k \<Rightarrow> 's \<Rightarrow> 's"
  assumes entries_put: "entries (put k v s) = (entries s)(k \<mapsto> v)"
    and keys_put: "set (keys s) = dom (entries s) \<Longrightarrow>
          keys (put k v s) = (if k \<in> dom (entries s) then keys s else keys s @ [k])"
    and entries_remove: "entries (remove k s) = (entries s)(k := None)"
    and keys_remove: "keys (remove k s) = List.filter (\<lambda>j. j \<noteq> k) (keys s)"
begin

definition consistent :: "'s \<Rightarrow> bool" where
  "consistent s \<longleftrightarrow> distinct (keys s) \<and> set (keys s) = dom (entries s)"

definition view :: "'s \<Rightarrow> ('k \<times> 'v) list" where
  "view s = map (\<lambda>k. (k, the (entries s k))) (keys s)"

lemma consistent_put: "consistent s \<Longrightarrow> consistent (put k v s)"
  by (auto simp: consistent_def entries_put keys_put)

lemma consistent_remove: "consistent s \<Longrightarrow> consistent (remove k s)"
  by (auto simp: consistent_def entries_remove keys_remove)

lemma view_put: "consistent s \<Longrightarrow> view (put k v s) = AList.update k v (view s)"
  by (simp add: view_def consistent_def entries_put keys_put alist_update_map)

lemma view_remove: "view (remove k s) = AList.delete k (view s)"
  by (simp add: view_def entries_remove keys_remove alist_delete_map)

lemma lookup_view: "consistent s \<Longrightarrow> map_of (view s) k = entries s k"
  unfolding view_def consistent_def
  by (simp add: map_of_map_restrict [where f = "\<lambda>k. the (entries s k)", unfolded restrict_map_def]
      fun_eq_iff domIff split: option.splits)

lemma consistent_fold_put: "consistent s \<Longrightarrow> consistent (fold (\<lambda>(k, v). put k v) kvs s)"
  by (induction kvs arbitrary: s) (auto intro: consistent_put)

lemma entries_fold_put: "entries (fold (\<lambda>(k, v). put k v) kvs s) = entries s ++ map_of (rev kvs)"
  by (induction kvs arbitrary: s) (auto simp: entries_put)

lemma keys_fold_put:
  "consistent s \<Longrightarrow> keys (fold (\<lambda>(k, v). put k v) kvs s) = keys s @ new_keys (dom (entries s)) (map fst kvs)"
proof (induction kvs arbitrary: s)
  case (Cons kv kvs)
  obtain k v where kv: "kv = (k, v)" by (cases kv)
  have "consistent (put k v s)" using Cons.prems by (rule consistent_put)
  from Cons.IH [OF this]
  have "keys (fold (\<lambda>(k, v). put k v) (kv # kvs) s) =
      keys (put k v s) @ new_keys (insert k (dom (entries s))) (map fst kvs)"
    by (simp add: kv entries_put del: fun_upd_apply)
  with Cons.prems show ?case
    by (simp add: kv keys_put consistent_def insert_absorb)
qed simp

end

section \<open>Association lists\<close>

text \<open>\<open>Map.set\<close>, or the assignment of a property, for each entry of a list.\<close>

abbreviation put_entries :: "('k \<times> 'v) list \<Rightarrow> ('k \<times> 'v) list \<Rightarrow> ('k \<times> 'v) list" where
  "put_entries kvs m \<equiv> fold (\<lambda>(k, c). AList.update k c) kvs m"

lemma update_fresh: "k \<notin> fst ` set m \<Longrightarrow> AList.update k v m = m @ [(k, v)]"
  by (induction m) auto

lemma update_commute:
  "k \<in> fst ` set m \<Longrightarrow> j \<noteq> k \<Longrightarrow> AList.update k v (AList.update j w m) = AList.update j w (AList.update k v m)"
  by (induction m) (auto simp: update_fresh)

lemma put_entries_fresh:
  "distinct (map fst kvs) \<Longrightarrow> fst ` set kvs \<inter> fst ` set m = {} \<Longrightarrow> put_entries kvs m = m @ kvs"
proof (induction kvs arbitrary: m)
  case (Cons kv kvs)
  then have "fst kv \<notin> fst ` set m" by auto
  then have "(case kv of (k, c) \<Rightarrow> AList.update k c) m = m @ [kv]" by (cases kv) (simp add: update_fresh)
  then show ?case using Cons.IH [of "m @ [kv]"] Cons.prems by auto
qed simp

text \<open>Updating an entry before or after it is put is the same.\<close>

lemma update_put_entries:
  "k \<in> fst ` set m \<Longrightarrow> k \<notin> fst ` set kvs \<Longrightarrow>
     AList.update k c (put_entries kvs m) = put_entries kvs (AList.update k c m)"
proof (induction kvs arbitrary: m)
  case (Cons kv kvs)
  obtain j w where kv: "kv = (j, w)" by (cases kv)
  have "k \<in> fst ` set (AList.update j w m)" using Cons.prems(1) by (simp add: dom_update)
  moreover have "AList.update k c (AList.update j w m) = AList.update j w (AList.update k c m)"
    using Cons.prems kv by (intro update_commute) auto
  ultimately show ?case using Cons.IH [of "AList.update j w m"] Cons.prems by (simp add: kv)
qed simp

lemma put_entries_update:
  "distinct (map fst kvs) \<Longrightarrow> put_entries (AList.update k c kvs) m = AList.update k c (put_entries kvs m)"
proof (induction kvs arbitrary: m)
  case (Cons kv kvs)
  obtain j w where kv: "kv = (j, w)" by (cases kv)
  show ?case
  proof (cases "j = k")
    case True
    have "k \<in> fst ` set (AList.update k w m)" by (simp add: dom_update)
    then show ?thesis using Cons.prems update_put_entries [of k "AList.update k w m" kvs c] by (simp add: kv True)
  next
    case False
    then show ?thesis using Cons by (simp add: kv)
  qed
qed simp

text \<open>Entries for the same keys put twice: the second ones are left.\<close>

lemma put_entries_same:
  "map fst d1 = map fst d2 \<Longrightarrow> distinct (map fst d2) \<Longrightarrow> fst ` set p \<inter> fst ` set d2 = {} \<Longrightarrow> put_entries d2 (p @ d1) = p @ d2"
proof (induction d2 arbitrary: d1 p)
  case (Cons kv d2)
  obtain k v where kv: "kv = (k, v)" by (cases kv)
  then obtain w d1' where d1: "d1 = (k, w) # d1'" "map fst d1' = map fst d2" using Cons.prems(1) by auto
  have "k \<notin> fst ` set p" using Cons.prems(3) kv by auto
  then have "AList.update k v (p @ (k, w) # d1') = (p @ [(k, v)]) @ d1'" by (induction p) auto
  moreover have "put_entries d2 ((p @ [(k, v)]) @ d1') = (p @ [(k, v)]) @ d2"
    using Cons.prems kv d1(2) by (intro Cons.IH) auto
  ultimately show ?case using kv d1(1) by simp
qed simp

lemma put_entries_assoc:
  "distinct (map fst d1) \<Longrightarrow> put_entries (put_entries d2 d1) m = put_entries d2 (put_entries d1 m)"
proof (induction d2 arbitrary: d1)
  case (Cons kv d2)
  obtain k v where kv: "kv = (k, v)" by (cases kv)
  then show ?case using Cons.IH [of "AList.update k v d1"] Cons.prems by (simp add: distinct_update put_entries_update)
qed simp

lemma put_entries_twice:
  "map fst d1 = map fst d2 \<Longrightarrow> distinct (map fst d2) \<Longrightarrow> put_entries d2 (put_entries d1 m) = put_entries d2 m"
  using put_entries_assoc [of d1 d2 m] put_entries_same [of d1 d2 "[]"] by simp

end
