(* ===== verification/Domain_Store.thy ===== *)
theory Domain_Store
  imports Keyed TS_Types
begin

text \<open>
  \<open>domainStore.ts\<close>: the domains of the checker page, as a record by identifier and the list of
  identifiers in display order.
\<close>

text \<open>The interface \<open>Domain\<close>.\<close>

definition Domain :: ts where
  "Domain = TObj
    [req ''id'' TString, req ''domain_name'' TString, req ''category'' TString,
     req ''status'' (literals [''pending'', ''checking'', ''online'', ''offline'', ''timeout'', ''nxdomain'']),
     req ''ip_addresses'' TString, req ''http_status'' TNumber, req ''latency_ms'' TNumber,
     req ''tls_status'' TBool, req ''tls_expiry_days'' TNumber, req ''last_checked_at'' TString]"

record domain_state =
  domains :: "string \<rightharpoonup> obj"
  domainIds :: "string list"
  isLoading :: bool

definition init_domains :: domain_state where
  "init_domains = \<lparr>domains = Map.empty, domainIds = [], isLoading = False\<rparr>"

text \<open>The property key that \<open>d.id\<close> denotes.\<close>

definition domain_id :: "obj \<Rightarrow> string" where
  "domain_id d = js_string (obj_get d ''id'')"

definition setLoading :: "bool \<Rightarrow> domain_state \<Rightarrow> domain_state" where
  "setLoading loading s = s\<lparr>isLoading := loading\<rparr>"

definition setDomains :: "obj list \<Rightarrow> domain_state \<Rightarrow> domain_state" where
  "setDomains ds s =
     (let (m, ids) = fold (\<lambda>d (m, ids). (m(domain_id d \<mapsto> d), ids @ [domain_id d])) ds (Map.empty, [])
      in s\<lparr>domains := m, domainIds := ids\<rparr>)"

definition append_one :: "obj \<Rightarrow> (string \<rightharpoonup> obj) \<times> string list \<Rightarrow> (string \<rightharpoonup> obj) \<times> string list" where
  "append_one d p =
     (case p of (m, ids) \<Rightarrow>
        (m(domain_id d \<mapsto> d), if m (domain_id d) = None then ids @ [domain_id d] else ids))"

definition appendDomains :: "obj list \<Rightarrow> domain_state \<Rightarrow> domain_state" where
  "appendDomains ds s =
     (let (m, ids) = fold append_one ds (domains s, domainIds s)
      in s\<lparr>domains := m, domainIds := ids\<rparr>)"

definition updateDomain :: "obj \<Rightarrow> domain_state \<Rightarrow> domain_state" where
  "updateDomain d s =
     s\<lparr>domains := (domains s)(domain_id d \<mapsto> merge_obj (domains s (domain_id d)) d)\<rparr>"

text \<open>The entries of the \<open>updates\<close> record, in enumeration order.\<close>

definition updateDomainsBulk :: "(string \<times> obj) list \<Rightarrow> domain_state \<Rightarrow> domain_state" where
  "updateDomainsBulk updates s =
     s\<lparr>domains := fold (\<lambda>(k, data) m. case m k of None \<Rightarrow> m | Some old \<Rightarrow> m(k \<mapsto> merge_obj (Some old) data))
        updates (domains s)\<rparr>"

definition removeDomain :: "string \<Rightarrow> domain_state \<Rightarrow> domain_state" where
  "removeDomain k s =
     s\<lparr>domains := (domains s)(k := None), domainIds := List.filter (\<lambda>x. x \<noteq> k) (domainIds s)\<rparr>"

definition removeDomainsBulk :: "string list \<Rightarrow> domain_state \<Rightarrow> domain_state" where
  "removeDomainsBulk ks s =
     s\<lparr>domains := fold (\<lambda>k m. m(k := None)) ks (domains s),
       domainIds := List.filter (\<lambda>x. x \<notin> set ks) (domainIds s)\<rparr>"

definition clearDomains :: "domain_state \<Rightarrow> domain_state" where
  "clearDomains s = s\<lparr>domains := Map.empty, domainIds := []\<rparr>"

section \<open>The store as an ordered dictionary\<close>

text \<open>Appending and removing a single domain are the two operations of the keyed-store contract.\<close>

definition put_domain :: "string \<Rightarrow> obj \<Rightarrow> domain_state \<Rightarrow> domain_state" where
  "put_domain k d s = s\<lparr>domains := (domains s)(k \<mapsto> d),
     domainIds := (if domains s k = None then domainIds s @ [k] else domainIds s)\<rparr>"

interpretation dom_keyed: keyed_store domains domainIds put_domain removeDomain
  by unfold_locales (auto simp: put_domain_def removeDomain_def)

abbreviation consistent :: "domain_state \<Rightarrow> bool" where
  "consistent \<equiv> dom_keyed.consistent"

abbreviation view :: "domain_state \<Rightarrow> (string \<times> obj) list" where
  "view \<equiv> dom_keyed.view"

lemma appendDomains_puts:
  "appendDomains ds s = fold (\<lambda>(k, d). put_domain k d) (map (\<lambda>d. (domain_id d, d)) ds) s"
proof (induction ds arbitrary: s)
  case (Cons d ds)
  have "appendDomains (d # ds) s = appendDomains ds (put_domain (domain_id d) d s)"
    by (simp add: appendDomains_def append_one_def put_domain_def Let_def split: prod.splits)
  then show ?case using Cons.IH by simp
qed (simp add: appendDomains_def)

lemma setDomains_fields:
  "setDomains ds s = s\<lparr>domains := map_of (rev (map (\<lambda>d. (domain_id d, d)) ds)),
     domainIds := map domain_id ds\<rparr>"
proof -
  have "fold (\<lambda>d (m, ids). (m(domain_id d \<mapsto> d), ids @ [domain_id d])) ds (m, ids) =
      (m ++ map_of (rev (map (\<lambda>d. (domain_id d, d)) ds)), ids @ map domain_id ds)" for m ids
    by (induction ds arbitrary: m ids) auto
  then show ?thesis by (simp add: setDomains_def)
qed

lemma removeDomainsBulk_removes: "removeDomainsBulk ks s = fold removeDomain ks s"
proof (induction ks arbitrary: s)
  case (Cons k ks)
  have "removeDomainsBulk (k # ks) s = removeDomainsBulk ks (removeDomain k s)"
    by (simp add: removeDomainsBulk_def removeDomain_def)
  then show ?case using Cons.IH by simp
qed (simp add: removeDomainsBulk_def)

lemma dom_updateDomainsBulk: "dom (domains (updateDomainsBulk us s)) = dom (domains s)"
proof -
  have "dom (fold (\<lambda>(k, data) m. case m k of None \<Rightarrow> m | Some old \<Rightarrow> m(k \<mapsto> merge_obj (Some old) data))
      us m) = dom m" for m
    by (induction us arbitrary: m) (auto split: option.splits, (metis domI domIff)+)
  then show ?thesis by (simp add: updateDomainsBulk_def)
qed

lemma domains_consistent_simps:
  "consistent s \<longleftrightarrow> distinct (domainIds s) \<and> set (domainIds s) = dom (domains s)"
  by (simp add: dom_keyed.consistent_def)

lemma consistent_init [simp]: "consistent init_domains"
  by (simp add: domains_consistent_simps init_domains_def)

lemma consistent_append: "consistent s \<Longrightarrow> consistent (appendDomains ds s)"
  by (simp add: appendDomains_puts dom_keyed.consistent_fold_put)

lemma consistent_set: "distinct (map domain_id ds) \<Longrightarrow> consistent (setDomains ds s)"
  by (simp add: domains_consistent_simps setDomains_fields dom_map_of_conv_image_fst image_comp comp_def)

lemma consistent_bulk: "consistent s \<Longrightarrow> consistent (updateDomainsBulk us s)"
  using dom_updateDomainsBulk [of us s] by (simp add: domains_consistent_simps) (simp add: updateDomainsBulk_def)

lemma consistent_update:
  "consistent s \<Longrightarrow> consistent (updateDomain d s) \<longleftrightarrow> domain_id d \<in> set (domainIds s)"
  by (auto simp: domains_consistent_simps updateDomain_def)

lemma consistent_removes: "consistent s \<Longrightarrow> consistent (removeDomainsBulk ks s)"
  unfolding removeDomainsBulk_removes by (induction ks arbitrary: s) (auto intro: dom_keyed.consistent_remove)

section \<open>Properties\<close>



text \<open>A live update for a domain that is not on the page makes the two parts of the store
  disagree, and hides the domain: its record is there, so that a later page containing it does
  not list it.\<close>

lemma updated_unknown_domain_is_hidden:
  assumes "consistent s" and "domain_id d \<notin> set (domainIds s)" and "domain_id d' = domain_id d"
  shows "\<not> consistent (updateDomain d s) \<and>
    domains (appendDomains [d'] (updateDomain d s)) (domain_id d) = Some d' \<and>
    domain_id d \<notin> set (domainIds (appendDomains [d'] (updateDomain d s)))"
  using assms consistent_update [OF assms(1), of d]
  by (auto simp: appendDomains_def append_one_def updateDomain_def)


end
