(* ===== verification/DNS_Store.thy ===== *)
theory DNS_Store
  imports Keyed TS_Types
begin

text \<open>
  \<open>dnsStore.ts\<close>: the resolvers of the DNS tester, by the composite key \<open>ip:protocol\<close>, with the
  list of keys in display order, and the state of a sweep.
\<close>

text \<open>The interfaces \<open>DNSResolver\<close>, \<open>DNSJobStats\<close> and \<open>DNSBulkProgress\<close>.\<close>

definition DNSResolver :: ts where
  "DNSResolver = TObj
    [req ''id'' TNumber, req ''ip'' TString, req ''protocol'' TString, req ''provider_name'' TString,
     req ''category'' TString, req ''support_udp'' TBool, req ''support_tcp'' TBool,
     req ''support_dot'' TBool, req ''support_doh'' TBool, req ''support_doq'' TBool,
     req ''is_custom'' TBool,
     req ''latency_ms'' TNumber, req ''jitter_ms'' TNumber, req ''success_rate'' TNumber,
     req ''packet_loss'' TNumber, req ''censored'' TBool, req ''nxdomain_hijacked'' TBool,
     req ''dnssec_valid'' TBool, opt ''dns_rebinding_vuln'' TBool, opt ''query_type'' TString,
     opt ''dns_class'' TString, opt ''domain'' TString, req ''clever_score'' TNumber,
     req ''completed_at'' TString, req ''error_message'' TString, req ''is_testing'' TBool,
     opt ''resolved_ip'' TString, opt ''country_code'' TString, opt ''country_name'' TString,
     opt ''city'' TString, opt ''isp'' TString, opt ''is_cdn'' TBool, opt ''cdn_provider'' TString,
     opt ''expected_match'' TBool, opt ''asn'' TString, opt ''censorship_status'' TString]"

definition DNSJobStats :: ts where
  "DNSJobStats = TObj
    [req ''total_resolvers'' TNumber, req ''processed_resolvers'' TNumber,
     req ''successful_resolvers'' TNumber, req ''failed_resolvers'' TNumber,
     req ''in_flight_resolvers'' TNumber, req ''is_active'' TBool, req ''elapsed_ms'' TNumber]"

definition DNSBulkProgress :: ts where
  "DNSBulkProgress = TObj
    [req ''total'' TNumber, req ''processed'' TNumber, req ''added'' TNumber,
     req ''duplicates'' TNumber, req ''active'' TBool]"

record dns_state =
  resolvers :: "string \<rightharpoonup> obj"
  resolverKeys :: "string list"
  jobStats :: "obj option"
  isSweeping :: jsv
  appliedResolver :: string
  isLoading :: bool
  bulkProgress :: "obj option"

definition init_dns :: dns_state where
  "init_dns = \<lparr>resolvers = Map.empty, resolverKeys = [], jobStats = None, isSweeping = JBool False,
     appliedResolver = [], isLoading = False, bulkProgress = None\<rparr>"

definition getResolverKey :: "string \<Rightarrow> string \<Rightarrow> string" where
  "getResolverKey ip protocol = ip @ '':'' @ protocol"

definition setLoading :: "bool \<Rightarrow> dns_state \<Rightarrow> dns_state" where
  "setLoading loading s = s\<lparr>isLoading := loading\<rparr>"

text \<open>The entry that \<open>setResolvers\<close> builds from a row of the server's list.\<close>

definition resolver_of_row :: "obj \<Rightarrow> obj" where
  "resolver_of_row r =
     (let g = obj_get r; status = g ''censorship_status'' in
      merge_obj (Some r)
       [(''latency_ms'', js_or (g ''latency_ms'') (JNum 0)),
        (''jitter_ms'', js_or (g ''jitter_ms'') (JNum 0)),
        (''success_rate'', if g ''success_rate_pct'' \<noteq> JUndef then div_num (g ''success_rate_pct'') 100
                         else js_or (g ''success_rate'') (JNum 0)),
        (''packet_loss'', if g ''packet_loss_pct'' \<noteq> JUndef then g ''packet_loss_pct''
                        else js_or (g ''packet_loss'') (JNum 0)),
        (''clever_score'', js_or (g ''clever_score'') (JNum 0)),
        (''censored'', JBool (status = JStr ''manipulated'' \<or> status = JStr ''sinkhole'')),
        (''nxdomain_hijacked'', JBool (status = JStr ''hijacked'')),
        (''dnssec_valid'', JBool (g ''dnssec_override'' = JBool False)),
        (''dns_rebinding_vuln'', js_or (g ''dns_rebinding_vuln'') (JBool False)),
        (''resolved_ip'', g ''resolved_ip''),
        (''country_code'', g ''country_code''),
        (''country_name'', g ''country_name''),
        (''city'', g ''city''),
        (''isp'', js_or (g ''isp'') (g ''ISP'')),
        (''is_cdn'', g ''is_cdn''),
        (''cdn_provider'', g ''cdn_provider''),
        (''expected_match'', JBool (g ''expected_match'' \<noteq> JBool False)),
        (''asn'', js_or (g ''asn'') (g ''ASN'')),
        (''censorship_status'', status)])"

definition row_key :: "obj \<Rightarrow> string" where
  "row_key r = getResolverKey (js_string (obj_get r ''ip'')) (js_string (obj_get r ''protocol''))"

definition setResolvers :: "obj list \<Rightarrow> dns_state \<Rightarrow> dns_state" where
  "setResolvers list s =
     (let (m, ks) = fold (\<lambda>r (m, ks). (m(row_key r \<mapsto> resolver_of_row r), ks @ [row_key r]))
                      list (Map.empty, [])
      in s\<lparr>resolvers := m, resolverKeys := ks\<rparr>)"

text \<open>The resolver added for a key that is not in the store: address and protocol are read back
  from the key, the fields of \<open>data\<close> go over the defaults.\<close>

definition key_ip :: "string \<Rightarrow> string" where
  "key_ip k = hd (split_on CHR '':'' k)"

definition key_protocol :: "string \<Rightarrow> string option" where
  "key_protocol k = (case split_on CHR '':'' k of _ # p # _ \<Rightarrow> Some p | _ \<Rightarrow> None)"

definition new_resolver :: "string \<Rightarrow> obj \<Rightarrow> obj" where
  "new_resolver k data =
     (let proto = key_protocol k in
      merge_obj (Some
       [(''id'', JNum 0),
        (''ip'', JStr (key_ip k)),
        (''protocol'', JStr (case proto of None \<Rightarrow> ''udp'' | Some p \<Rightarrow> if p = [] then ''udp'' else p)),
        (''provider_name'', js_or (obj_get data ''provider_name'') (JStr ''Dynamic Resolver'')),
        (''category'', js_or (obj_get data ''category'') (JStr ''public'')),
        (''support_udp'', JBool (proto = Some ''udp'')),
        (''support_tcp'', JBool (proto = Some ''tcp'')),
        (''support_dot'', JBool (proto = Some ''dot'')),
        (''support_doh'', JBool (proto = Some ''doh'')),
        (''support_doq'', JBool (proto = Some ''doq'')),
        (''is_custom'', JBool False),
        (''latency_ms'', JNum 0),
        (''jitter_ms'', JNum 0),
        (''success_rate'', JNum 0),
        (''packet_loss'', JNum 0),
        (''censored'', JBool False),
        (''nxdomain_hijacked'', JBool False),
        (''dnssec_valid'', JBool False),
        (''dns_rebinding_vuln'', JBool False),
        (''query_type'', JStr []),
        (''dns_class'', JStr []),
        (''domain'', JStr []),
        (''clever_score'', JNum 0),
        (''completed_at'', JStr []),
        (''error_message'', JStr []),
        (''is_testing'', JBool False)]) data)"

definition updateResolver :: "string \<Rightarrow> obj \<Rightarrow> dns_state \<Rightarrow> dns_state" where
  "updateResolver key data s =
     (case resolvers s key of
        None \<Rightarrow> s\<lparr>resolvers := (resolvers s)(key \<mapsto> new_resolver key data),
                 resolverKeys := (if key \<in> set (resolverKeys s) then resolverKeys s
                                  else resolverKeys s @ [key])\<rparr>
      | Some r \<Rightarrow> s\<lparr>resolvers := (resolvers s)(key \<mapsto> merge_obj (Some r) data)\<rparr>)"

text \<open>One entry of the batch, on the copies of the record and of the key list, with the flag that
  says whether a key was added.\<close>

definition bulk_one :: "string \<times> obj \<Rightarrow> (string \<rightharpoonup> obj) \<times> string list \<times> bool \<Rightarrow>
    (string \<rightharpoonup> obj) \<times> string list \<times> bool" where
  "bulk_one u p =
     (case (u, p) of ((key, data), (m, ks, changed)) \<Rightarrow>
        (case m key of
           None \<Rightarrow> (m(key \<mapsto> new_resolver key data),
                   if key \<in> set ks then ks else ks @ [key],
                   key \<notin> set ks \<or> changed)
         | Some r \<Rightarrow> (m(key \<mapsto> merge_obj (Some r) data), ks, changed)))"

definition updateResolversBulk :: "(string \<times> obj) list \<Rightarrow> dns_state \<Rightarrow> dns_state" where
  "updateResolversBulk updates s =
     (let (m, ks, changed) = fold bulk_one updates (resolvers s, resolverKeys s, False)
      in if changed then s\<lparr>resolvers := m, resolverKeys := ks\<rparr> else s\<lparr>resolvers := m\<rparr>)"

definition setJobStats :: "obj option \<Rightarrow> dns_state \<Rightarrow> dns_state" where
  "setJobStats stats s = s\<lparr>jobStats := stats,
     isSweeping := (case stats of None \<Rightarrow> JBool False | Some st \<Rightarrow> obj_get st ''is_active'')\<rparr>"

definition setSweeping :: "bool \<Rightarrow> dns_state \<Rightarrow> dns_state" where
  "setSweeping b s = s\<lparr>isSweeping := JBool b\<rparr>"

definition setAppliedResolver :: "string \<Rightarrow> dns_state \<Rightarrow> dns_state" where
  "setAppliedResolver r s = s\<lparr>appliedResolver := r\<rparr>"

definition cleared_fields :: obj where
  "cleared_fields =
     [(''latency_ms'', JNum 0), (''jitter_ms'', JNum 0), (''success_rate'', JNum 0),
      (''packet_loss'', JNum 0), (''censored'', JBool False), (''nxdomain_hijacked'', JBool False),
      (''dnssec_valid'', JBool False), (''clever_score'', JNum 0), (''completed_at'', JStr []),
      (''error_message'', JStr []), (''is_testing'', JBool False)]"

definition clearResults :: "dns_state \<Rightarrow> dns_state" where
  "clearResults s =
     s\<lparr>resolvers := fold (\<lambda>k m. m(k \<mapsto> merge_obj (resolvers s k) cleared_fields)) (resolverKeys s) Map.empty,
       jobStats := None, isSweeping := JBool False\<rparr>"

definition setBulkProgress :: "obj option \<Rightarrow> dns_state \<Rightarrow> dns_state" where
  "setBulkProgress p s = s\<lparr>bulkProgress := p\<rparr>"

section \<open>The store as an ordered dictionary\<close>

definition put_resolver :: "string \<Rightarrow> obj \<Rightarrow> dns_state \<Rightarrow> dns_state" where
  "put_resolver k r s = s\<lparr>resolvers := (resolvers s)(k \<mapsto> r),
     resolverKeys := (if k \<in> set (resolverKeys s) then resolverKeys s else resolverKeys s @ [k])\<rparr>"

definition drop_resolver :: "string \<Rightarrow> dns_state \<Rightarrow> dns_state" where
  "drop_resolver k s = s\<lparr>resolvers := (resolvers s)(k := None),
     resolverKeys := List.filter (\<lambda>j. j \<noteq> k) (resolverKeys s)\<rparr>"

interpretation dns_keyed: keyed_store resolvers resolverKeys put_resolver drop_resolver
  by unfold_locales (auto simp: put_resolver_def drop_resolver_def)

definition updated_resolver :: "string \<Rightarrow> obj \<Rightarrow> dns_state \<Rightarrow> obj" where
  "updated_resolver k data s =
     (case resolvers s k of None \<Rightarrow> new_resolver k data | Some r \<Rightarrow> merge_obj (Some r) data)"

lemma dns_consistent_simps:
  "dns_keyed.consistent s \<longleftrightarrow> distinct (resolverKeys s) \<and> set (resolverKeys s) = dom (resolvers s)"
  by (simp add: dns_keyed.consistent_def)

lemma updateResolver_puts:
  assumes "dns_keyed.consistent s"
  shows "updateResolver k data s = put_resolver k (updated_resolver k data s) s"
  using assms
  by (auto simp: updateResolver_def put_resolver_def updated_resolver_def dns_consistent_simps split: option.splits)

text \<open>The batch update is the sequence of the single ones, and skips the write of an unchanged
  key list.\<close>

lemma bulk_one_steps:
  assumes "m = resolvers s" and "ks = resolverKeys s"
  shows "\<exists>c. fold bulk_one us (m, ks, changed) =
      (resolvers (fold (\<lambda>(k, d). updateResolver k d) us s),
       resolverKeys (fold (\<lambda>(k, d). updateResolver k d) us s), c) \<and>
      (changed \<longrightarrow> c) \<and> (\<not> c \<longrightarrow> resolverKeys (fold (\<lambda>(k, d). updateResolver k d) us s) = ks)"
  using assms
proof (induction us arbitrary: m ks changed s)
  case (Cons u us)
  obtain k d where u: "u = (k, d)" by (cases u)
  let ?s = "updateResolver k d s"
  have step: "bulk_one u (m, ks, changed) =
      (resolvers ?s, resolverKeys ?s, (resolvers s k = None \<and> k \<notin> set ks) \<or> changed)"
    using Cons.prems by (auto simp: u bulk_one_def updateResolver_def split: option.splits)
  have keep: "resolverKeys ?s = ks" if "\<not> (resolvers s k = None \<and> k \<notin> set ks)"
    using that Cons.prems by (auto simp: updateResolver_def split: option.splits)
  show ?case
    using Cons.IH [of "resolvers ?s" ?s "resolverKeys ?s" "(resolvers s k = None \<and> k \<notin> set ks) \<or> changed"] keep
    by (auto simp: u step [unfolded u] split del: if_split)
qed simp

lemma updateResolver_frame [simp]:
  "jobStats (updateResolver k d s) = jobStats s"
  "isSweeping (updateResolver k d s) = isSweeping s"
  "appliedResolver (updateResolver k d s) = appliedResolver s"
  "isLoading (updateResolver k d s) = isLoading s"
  "bulkProgress (updateResolver k d s) = bulkProgress s"
  by (simp_all add: updateResolver_def split: option.splits)

lemma fold_update_frame [simp]:
  "jobStats (fold (\<lambda>(k, d). updateResolver k d) us s) = jobStats s"
  "isSweeping (fold (\<lambda>(k, d). updateResolver k d) us s) = isSweeping s"
  "appliedResolver (fold (\<lambda>(k, d). updateResolver k d) us s) = appliedResolver s"
  "isLoading (fold (\<lambda>(k, d). updateResolver k d) us s) = isLoading s"
  "bulkProgress (fold (\<lambda>(k, d). updateResolver k d) us s) = bulkProgress s"
  by (induction us arbitrary: s) auto

lemma updateResolversBulk_eq:
  "updateResolversBulk us s = fold (\<lambda>(k, d). updateResolver k d) us s"
proof -
  obtain c where c: "fold bulk_one us (resolvers s, resolverKeys s, False) =
      (resolvers (fold (\<lambda>(k, d). updateResolver k d) us s),
       resolverKeys (fold (\<lambda>(k, d). updateResolver k d) us s), c)"
    and same: "\<not> c \<Longrightarrow> resolverKeys (fold (\<lambda>(k, d). updateResolver k d) us s) = resolverKeys s"
    using bulk_one_steps [OF refl refl, of us s False] by blast
  show ?thesis
    using same by (intro dns_state.equality) (simp_all add: updateResolversBulk_def c)
qed

lemma consistent_updateResolver:
  "dns_keyed.consistent s \<Longrightarrow> dns_keyed.consistent (updateResolver k d s)"
  by (simp add: updateResolver_puts dns_keyed.consistent_put)

lemma consistent_fold_update:
  "dns_keyed.consistent s \<Longrightarrow> dns_keyed.consistent (fold (\<lambda>(k, d). updateResolver k d) us s)"
  by (induction us arbitrary: s) (auto intro: consistent_updateResolver)

lemma clearResults_resolvers:
  "resolvers (clearResults s) = (\<lambda>k. if k \<in> set (resolverKeys s)
     then Some (merge_obj (resolvers s k) cleared_fields) else None)"
proof -
  have "fold (\<lambda>k m. m(k \<mapsto> f k)) ks m = (\<lambda>k. if k \<in> set ks then Some (f k) else m k)"
    for ks :: "string list" and f :: "string \<Rightarrow> obj" and m
    by (induction ks arbitrary: m) (auto simp: fun_eq_iff)
  then show ?thesis by (simp add: clearResults_def)
qed

lemma consistent_clear:
  assumes "dns_keyed.consistent s"
  shows "dns_keyed.consistent (clearResults s)"
proof -
  have "dom (resolvers (clearResults s)) = set (resolverKeys s)"
    by (auto simp: clearResults_resolvers dom_def)
  then show ?thesis using assms by (simp add: dns_consistent_simps) (simp add: clearResults_def)
qed

section \<open>Properties\<close>

text \<open>The batch update of the resolvers, which copies the record once and rewrites the key list
  only when a key was added, has the same effect as the single updates one after the other.\<close>

theorem dns_bulk_update_is_sequential:
  "updateResolversBulk us s = fold (\<lambda>(k, d). updateResolver k d) us s"
  by (rule updateResolversBulk_eq)

text \<open>An update for a resolver that is not in the store reads the address and the protocol
  back from the key, exactly when neither contains a colon.\<close>

theorem resolver_key_roundtrip:
  assumes "CHR '':'' \<notin> set ip" and "CHR '':'' \<notin> set protocol"
  shows "key_ip (getResolverKey ip protocol) = ip \<and> key_protocol (getResolverKey ip protocol) = Some protocol"
  using assms by (simp add: key_ip_def key_protocol_def getResolverKey_def split_on_append split_on_no_sep)

theorem resolver_key_roundtrip_witness:
  "key_ip (getResolverKey ''1.1.1.1'' ''doh'') = ''1.1.1.1'' \<and>
   key_protocol (getResolverKey ''1.1.1.1'' ''doh'') = Some ''doh''"
  by (rule resolver_key_roundtrip) simp_all

text \<open>For an IPv6 resolver that is not in the store the key is cut at the first colon of the
  address: the resolver that an update adds has the wrong address, a piece of the address as its
  protocol, and supports none of the protocols.\<close>

lemma ipv6_resolver_misread:
  "obj_get (new_resolver (getResolverKey ''2001:4860::8888'' ''udp'') []) ''ip'' = JStr ''2001'' \<and>
   obj_get (new_resolver (getResolverKey ''2001:4860::8888'' ''udp'') []) ''protocol'' = JStr ''4860'' \<and>
   obj_get (new_resolver (getResolverKey ''2001:4860::8888'' ''udp'') []) ''support_udp'' = JBool False"
  by (simp add: new_resolver_def key_ip_def key_protocol_def getResolverKey_def merge_obj_def put_all_def Let_def)

text \<open>Clearing the results keeps every resolver of the list and its identity, resets the
  measured fields of each, ends the sweep, and keeps record and key list in step.\<close>

lemma clear_results_resets_measurements:
  assumes "dns_keyed.consistent s" and "resolvers s k = Some r"
  shows "\<exists>r'. resolvers (clearResults s) k = Some r' \<and>
      (\<forall>f. obj_get r' f = (case map_of cleared_fields f of Some v \<Rightarrow> v | None \<Rightarrow> obj_get r f)) \<and>
      resolverKeys (clearResults s) = resolverKeys s \<and> jobStats (clearResults s) = None \<and>
      isSweeping (clearResults s) = JBool False \<and> dns_keyed.consistent (clearResults s)"
proof -
  have k: "k \<in> set (resolverKeys s)" using assms by (auto simp: dns_consistent_simps)
  have "distinct (map fst cleared_fields)" by (simp add: cleared_fields_def)
  from obj_get_merge [OF this, of "Some r"]
  have "\<forall>f. obj_get (merge_obj (Some r) cleared_fields) f =
      (case map_of cleared_fields f of Some v \<Rightarrow> v | None \<Rightarrow> obj_get r f)"
    by (simp split: option.splits)
  then show ?thesis
    using k assms consistent_clear [OF assms(1)]
    by (auto simp: clearResults_resolvers) (simp_all add: clearResults_def)
qed


end
