(* ===== verification/Geo_Store.thy ===== *)
theory Geo_Store
  imports Browser TS_Types
begin

text \<open>
  \<open>geoStore.ts\<close>: the cache of IP locations. \<open>resolveIPs\<close> asks the server for the addresses that
  are neither cached nor being resolved by another call, and marks them as pending meanwhile.
\<close>

definition IPGeoInfo :: ts where
  "IPGeoInfo = TObj
    [req ''ip'' TString, req ''country_code'' TString, req ''country_name'' TString,
     req ''city'' TString, req ''isp'' TString, req ''cdn_provider'' TString,
     req ''latitude'' TNumber, req ''longitude'' TNumber, req ''is_cdn'' TBool,
     req ''last_updated'' TString]"

record geo_state =
  geoCache :: "string \<rightharpoonup> jsv"
  pendingResolutions :: "string \<rightharpoonup> bool"
  local_storage :: storage

definition init_geo :: "storage \<Rightarrow> geo_state" where
  "init_geo st = \<lparr>geoCache = Map.empty, pendingResolutions = Map.empty, local_storage = st\<rparr>"

definition updateGeoInfo :: "obj \<Rightarrow> geo_state \<Rightarrow> geo_state" where
  "updateGeoInfo info s = s\<lparr>geoCache := (geoCache s)(js_string (obj_get info ''ip'') \<mapsto> JObj info)\<rparr>"

text \<open>The filter of \<open>resolveIPs\<close>.\<close>

definition needs_lookup :: "bool \<Rightarrow> geo_state \<Rightarrow> string \<Rightarrow> bool" where
  "needs_lookup force s ip =
     (if ip = [] then False
      else let clean = trim ip in
        if clean = [] then False
        else if \<not> includes_str clean ''.'' \<and> \<not> includes_str clean '':'' then False
        else (force \<or> geoCache s clean = None) \<and> pendingResolutions s clean \<noteq> Some True)"

definition ips_to_fetch :: "string list \<Rightarrow> bool \<Rightarrow> geo_state \<Rightarrow> string list" where
  "ips_to_fetch ips force s = map trim (List.filter (needs_lookup force s) ips)"

definition mark_pending :: "string list \<Rightarrow> (string \<rightharpoonup> bool) \<Rightarrow> (string \<rightharpoonup> bool)" where
  "mark_pending ips m = fold (\<lambda>ip m. m(ip \<mapsto> True)) ips m"

definition clear_pending :: "string list \<Rightarrow> (string \<rightharpoonup> bool) \<Rightarrow> (string \<rightharpoonup> bool)" where
  "clear_pending ips m = fold (\<lambda>ip m. m(ip := None)) ips m"

definition cache_result :: "jsv \<Rightarrow> (string \<rightharpoonup> jsv) \<Rightarrow> (string \<rightharpoonup> jsv)" where
  "cache_result res m =
     (if truthy res \<and> truthy (opt_prop res ''ip'') then m(js_string (opt_prop res ''ip'') \<mapsto> res) else m)"

definition geo_request :: "string list \<Rightarrow> bool \<Rightarrow> string \<Rightarrow> request" where
  "geo_request ips force token =
     http_send ''POST'' ''/api/geo/resolve'' [json_header, auth_header token]
       (Some (JObj [(''ips'', JArr (map JStr ips)), (''force'', JBool force)]))"

text \<open>The last step of a successful resolution: \<open>set\<close> with both new records.\<close>

definition store_results :: "string list \<Rightarrow> jsv \<Rightarrow> (geo_state, unit) action" where
  "store_results ips data =
     bind (lift_res (get_prop data ''results'')) (\<lambda>v.
     let results = js_or v (JArr []) in
     set_with (\<lambda>s. case as_array ''results'' ''forEach'' results of
         Inl e \<Rightarrow> Inl e
       | Inr xs \<Rightarrow> Inr (\<lambda>s. s\<lparr>geoCache := fold cache_result xs (geoCache s),
                            pendingResolutions := clear_pending ips (pendingResolutions s)\<rparr>)))"

definition drop_pending :: "string list \<Rightarrow> (geo_state, unit) action" where
  "drop_pending ips =
     set_state (\<lambda>s. s\<lparr>pendingResolutions := clear_pending ips (pendingResolutions s)\<rparr>)"

definition fetch_ips :: "string list \<Rightarrow> bool \<Rightarrow> string \<Rightarrow> (geo_state, unit) action" where
  "fetch_ips ips force token =
     try_catch
       (bind (fetch (geo_request ips force token)) (\<lambda>(ok, b).
          if ok then bind (read_json b) (store_results ips)
          else Fail ''Failed to resolve IPs on backend''))
       (\<lambda>_. drop_pending ips)"

definition resolveIPs :: "string list \<Rightarrow> bool \<Rightarrow> (geo_state, unit) action" where
  "resolveIPs ips force =
     Get (\<lambda>s. let ipsToFetch = ips_to_fetch ips force s;
                  token = get_item_or (local_storage s) ''cc_client_token'' []
       in if ipsToFetch = [] then Done ()
          else Set (\<lambda>s. s\<lparr>pendingResolutions := mark_pending ipsToFetch (pendingResolutions s)\<rparr>)
                 (fetch_ips ipsToFetch force token))"

section \<open>Who is resolving what\<close>

lemma mark_pending_apply: "mark_pending ips m ip = (if ip \<in> set ips then Some True else m ip)"
  unfolding mark_pending_def by (induction ips arbitrary: m) auto

lemma clear_pending_apply: "clear_pending ips m ip = (if ip \<in> set ips then None else m ip)"
  unfolding clear_pending_def by (induction ips arbitrary: m) auto

lemma ips_to_fetch_not_pending:
  "ip \<in> set (ips_to_fetch ips force s) \<Longrightarrow> pendingResolutions s ip \<noteq> Some True"
  by (auto simp: ips_to_fetch_def needs_lookup_def Let_def split: if_splits)

text \<open>The two places where a resolution of \<open>ips\<close> is suspended: at the request, and at the body.\<close>

definition at_request :: "string list \<Rightarrow> (geo_state, unit) action set" where
  "at_request ips = {fetch_ips ips force token | force token. True}"

definition at_body :: "string list \<Rightarrow> (geo_state, unit) action set" where
  "at_body ips = {try_catch (bind (read_json b) (store_results ips)) (\<lambda>_. drop_pending ips) | b. True}"

definition holds_ips :: "string list \<Rightarrow> (geo_state, unit) action \<Rightarrow> bool" where
  "holds_ips ips t \<longleftrightarrow> (t = Done () \<and> ips = []) \<or> t \<in> at_request ips \<or> t \<in> at_body ips"

lemma turn_drop_pending:
  "turn (drop_pending ips) s =
     (Done (), s\<lparr>pendingResolutions := clear_pending ips (pendingResolutions s)\<rparr>)"
  by (simp add: drop_pending_def)

lemma fetch_ips_shape:
  "fetch_ips ips force token = Await q k \<Longrightarrow> turn (k r) s = (t, s') \<Longrightarrow>
     (t \<in> at_body ips \<and> s' = s) \<or>
     (t = Done () \<and> pendingResolutions s' = clear_pending ips (pendingResolutions s))"
  by (cases r) (auto simp: fetch_ips_def fetch_def drop_pending_def at_body_def read_json_def
      split: if_splits)

lemma read_ips_shape:
  assumes "try_catch (bind (read_json b) (store_results ips)) (\<lambda>_. drop_pending ips) = Yield u"
    and "turn u s = (t, s')"
  shows "t = Done () \<and> pendingResolutions s' = clear_pending ips (pendingResolutions s)"
  using assms
  by (auto simp: read_json_def store_results_def lift_res_def set_with_def drop_pending_def Let_def
      split: body.splits sum.splits)

lemma fetch_ips_suspends: "\<exists>q k. fetch_ips ips force token = Await q k"
  by (simp add: fetch_ips_def fetch_def)

lemma suspension_kinds [simp]:
  "fetch_ips ips force token \<noteq> Yield u"
  "fetch_ips ips force token \<noteq> Done x"
  "try_catch (bind (read_json b) (store_results ips)) (\<lambda>_. drop_pending ips) \<noteq> Await q k"
  by (simp_all add: fetch_ips_def fetch_def read_json_def)

text \<open>The pending addresses are those of the suspended calls, and no address belongs to two.\<close>

definition ledger :: "geo_state \<Rightarrow> (geo_state, unit) action list \<Rightarrow> string list list \<Rightarrow> bool" where
  "ledger s p L \<longleftrightarrow> list_all2 holds_ips L p \<and>
     (\<forall>ip. pendingResolutions s ip = Some True \<longleftrightarrow> (\<exists>i < length L. ip \<in> set (L ! i))) \<and>
     (\<forall>i j. i < length L \<longrightarrow> j < length L \<longrightarrow> i \<noteq> j \<longrightarrow> set (L ! i) \<inter> set (L ! j) = {})"

lemma ledger_append:
  assumes l: "ledger s p L" and h: "holds_ips ips t"
    and new: "\<And>ip. ip \<in> set ips \<Longrightarrow> pendingResolutions s ip \<noteq> Some True"
    and s': "pendingResolutions s' = mark_pending ips (pendingResolutions s)"
  shows "ledger s' (p @ [t]) (L @ [ips])"
proof -
  have pend: "pendingResolutions s ip = Some True \<longleftrightarrow> (\<exists>i < length L. ip \<in> set (L ! i))" for ip
    using l by (simp add: ledger_def)
  have free: "set (L ! i) \<inter> set ips = {}" if "i < length L" for i
    using that new pend by blast
  show ?thesis
    using l h free
    by (auto simp: ledger_def list_all2_appendI s' mark_pending_apply nth_append less_Suc_eq pend)
qed

lemma ledger_update:
  assumes l: "ledger s p L" and i: "i < length p" and h: "holds_ips ips t"
    and ips: "ips = L ! i \<and> pendingResolutions s' = pendingResolutions s \<or>
      ips = [] \<and> pendingResolutions s' = clear_pending (L ! i) (pendingResolutions s)"
  shows "ledger s' (p[i := t]) (L[i := ips])"
proof -
  have len: "length L = length p" using l by (auto simp: ledger_def dest: list_all2_lengthD)
  have all: "list_all2 holds_ips (L[i := ips]) (p[i := t])"
    using l h by (auto simp: ledger_def intro: list_all2_update_cong)
  from ips show ?thesis
  proof
    assume "ips = L ! i \<and> pendingResolutions s' = pendingResolutions s"
    then show ?thesis using l all by (simp add: ledger_def)
  next
    assume a: "ips = [] \<and> pendingResolutions s' = clear_pending (L ! i) (pendingResolutions s)"
    have "pendingResolutions s' ip = Some True \<longleftrightarrow> (\<exists>j < length L. ip \<in> set (L[i := []] ! j))" for ip
    proof (cases "ip \<in> set (L ! i)")
      case True
      then have "\<forall>j < length L. j \<noteq> i \<longrightarrow> ip \<notin> set (L ! j)"
        using l i len by (auto simp: ledger_def)
      then have "ip \<notin> set (L[i := []] ! j)" if "j < length L" for j
        using that by (cases "j = i") auto
      then show ?thesis using a True by (auto simp: clear_pending_apply)
    next
      case False
      then show ?thesis
        using a l i len by (auto simp: clear_pending_apply ledger_def nth_list_update)
    qed
    moreover have "set (L[i := []] ! j) \<subseteq> set (L ! j)" for j
      by (cases "j = i"; cases "i < length L") (auto simp: list_update_beyond)
    moreover have "\<forall>j k. j < length L \<longrightarrow> k < length L \<longrightarrow> j \<noteq> k \<longrightarrow> set (L ! j) \<inter> set (L ! k) = {}"
      using l by (simp add: ledger_def)
    ultimately show ?thesis using all a by (simp add: ledger_def) blast
  qed
qed

definition geo_acts :: "(geo_state, unit) action set" where
  "geo_acts = {resolveIPs ips force | ips force. True}"

definition geo_ev :: "geo_state \<Rightarrow> geo_state \<Rightarrow> bool" where
  "geo_ev s s' \<longleftrightarrow> (\<exists>info. s' = updateGeoInfo info s)"

lemma call_ledger:
  assumes l: "ledger s p L" and t: "turn (resolveIPs ips force) s = (t, s')"
  shows "\<exists>L. ledger s' (p @ [t]) L"
proof (cases "ips_to_fetch ips force s = []")
  case True
  then have "t = Done ()" "s' = s" using t by (auto simp: resolveIPs_def)
  then show ?thesis
    using ledger_append [OF l, of "[]" "Done ()" s] by (auto simp: holds_ips_def mark_pending_def)
next
  case False
  let ?ips = "ips_to_fetch ips force s"
  let ?tok = "get_item_or (local_storage s) ''cc_client_token'' []"
  obtain q k where q: "fetch_ips ?ips force ?tok = Await q k" using fetch_ips_suspends by blast
  have "t = fetch_ips ?ips force ?tok" and "pendingResolutions s' = mark_pending ?ips (pendingResolutions s)"
    using t False by (auto simp: resolveIPs_def Let_def q)
  then show ?thesis
    using ledger_append [OF l, of ?ips t s'] ips_to_fetch_not_pending
    by (auto simp: holds_ips_def at_request_def)
qed

lemma held_answer:
  assumes "holds_ips ips (Await q k)" and "turn (k r) s = (t', s')"
  shows "(t' \<in> at_body ips \<and> s' = s) \<or>
     (t' = Done () \<and> pendingResolutions s' = clear_pending ips (pendingResolutions s))"
proof -
  from assms(1) obtain force token where "fetch_ips ips force token = Await q k"
    by (auto simp: holds_ips_def at_request_def at_body_def dest: sym)
  then show ?thesis using assms(2) by (rule fetch_ips_shape)
qed

lemma held_wake:
  assumes "holds_ips ips (Yield u)" and "turn u s = (t', s')"
  shows "t' = Done () \<and> pendingResolutions s' = clear_pending ips (pendingResolutions s)"
proof -
  from assms(1) obtain b where
    "try_catch (bind (read_json b) (store_results ips)) (\<lambda>_. drop_pending ips) = Yield u"
    by (auto simp: holds_ips_def at_request_def at_body_def dest: sym)
  then show ?thesis using assms(2) by (rule read_ips_shape)
qed

lemma geo_ledger:
  "areach geo_acts (\<lambda>_ _. True) geo_ev (init_geo st) s p \<Longrightarrow> \<exists>L. ledger s p L"
proof (induction rule: areach.induct)
  case start
  have "ledger (init_geo st) [] []" by (simp add: ledger_def init_geo_def)
  then show ?case by blast
next
  case (call s p t t' s')
  then show ?case by (auto simp: geo_acts_def intro: call_ledger)
next
  case (answer s p i q k r t' s')
  then obtain L where L: "ledger s p L" by blast
  have "holds_ips (L ! i) (Await q k)"
    using L answer.hyps by (auto simp: ledger_def dest: list_all2_nthD2)
  from held_answer [OF this answer.hyps(5)] show ?case
    using ledger_update [OF L answer.hyps(2), of "L ! i" t' s'] ledger_update [OF L answer.hyps(2), of "[]" t' s']
    by (auto simp: holds_ips_def)
next
  case (wake s p i t t' s')
  then obtain L where L: "ledger s p L" by blast
  have "holds_ips (L ! i) (Yield t)"
    using L wake.hyps by (auto simp: ledger_def dest: list_all2_nthD2)
  from held_wake [OF this wake.hyps(4)] show ?case
    using ledger_update [OF L wake.hyps(2), of "[]" t' s'] by (auto simp: holds_ips_def)
next
  case (event s p s')
  then show ?case by (auto simp: geo_ev_def ledger_def updateGeoInfo_def)
qed

section \<open>Properties\<close>

text \<open>The addresses in the body of a request.\<close>

definition request_ips :: "request \<Rightarrow> string list" where
  "request_ips q = (case rq_body q of
       Some (JObj kvs) \<Rightarrow> (case obj_get kvs ''ips'' of JArr xs \<Rightarrow> map js_string xs | _ \<Rightarrow> [])
     | _ \<Rightarrow> [])"

lemma request_ips_geo [simp]: "request_ips (geo_request ips force token) = ips"
  by (simp add: request_ips_def geo_request_def http_send_def comp_def)

lemma held_request: "holds_ips ips (Await q k) \<Longrightarrow> request_ips q = ips"
  by (auto simp: holds_ips_def at_request_def at_body_def fetch_ips_def fetch_def dest: sym)

text \<open>C2: However calls of \<open>resolveIPs\<close> and their answers interleave, two calls that wait for
  the server never ask for the same address.\<close>

theorem geo_requests_disjoint:
  assumes "areach geo_acts (\<lambda>_ _. True) geo_ev (init_geo st) s p"
    and "i < length p" and "j < length p" and "i \<noteq> j"
    and "p ! i = Await q k" and "p ! j = Await q' k'"
  shows "set (request_ips q) \<inter> set (request_ips q') = {}"
proof -
  obtain L where L: "ledger s p L" using geo_ledger [OF assms(1)] by blast
  then have "holds_ips (L ! i) (Await q k)" "holds_ips (L ! j) (Await q' k')"
    using assms by (auto simp: ledger_def dest: list_all2_nthD2)
  then have "request_ips q = L ! i" "request_ips q' = L ! j" by (simp_all add: held_request)
  moreover have "length L = length p" using L by (auto simp: ledger_def dest: list_all2_lengthD)
  ultimately show ?thesis using L assms(2-4) by (simp add: ledger_def)
qed

theorem geo_requests_disjoint_witness:
  "\<exists>s p q k q' k'. areach geo_acts (\<lambda>_ _. True) geo_ev (init_geo Map.empty) s p \<and>
     p = [Await q k, Await q' k'] \<and> request_ips q = [''1.1''] \<and> request_ips q' = [''2.2''] \<and>
     set (request_ips q) \<inter> set (request_ips q') = {}"
proof -
  let ?s0 = "init_geo Map.empty"
  let ?s1 = "?s0\<lparr>pendingResolutions := [''1.1'' \<mapsto> True]\<rparr>"
  let ?s2 = "?s0\<lparr>pendingResolutions := [''1.1'' \<mapsto> True, ''2.2'' \<mapsto> True]\<rparr>"
  let ?t1 = "fetch_ips [''1.1''] False []" and ?t2 = "fetch_ips [''2.2''] False []"
  note defs = resolveIPs_def ips_to_fetch_def needs_lookup_def init_geo_def Let_def mark_pending_def
      fetch_ips_def fetch_def trim_def is_space_def get_item_or_def
  have t1: "turn (resolveIPs [''1.1''] False) ?s0 = (?t1, ?s1)" by (simp add: defs)
  have t2: "turn (resolveIPs [''2.2''] False) ?s1 = (?t2, ?s2)" by (simp add: defs)
  have "areach geo_acts (\<lambda>_ _. True) geo_ev ?s0 ?s1 ([] @ [?t1])"
    by (rule areach.call [OF areach.start _ t1]) (auto simp: geo_acts_def)
  then have r: "areach geo_acts (\<lambda>_ _. True) geo_ev ?s0 ?s2 ([?t1] @ [?t2])"
    by (intro areach.call [OF _ _ t2]) (auto simp: geo_acts_def)
  obtain q k where q: "?t1 = Await q k" using fetch_ips_suspends by blast
  obtain q' k' where q': "?t2 = Await q' k'" using fetch_ips_suspends by blast
  have "set (request_ips q) \<inter> set (request_ips q') = {}"
    using geo_requests_disjoint [OF r, of 0 1 q k q' k'] by (simp add: q q')
  moreover have "request_ips q = [''1.1'']" "request_ips q' = [''2.2'']"
    using q q' by (auto simp: fetch_ips_def fetch_def)
  ultimately show ?thesis using r unfolding q q' by fastforce
qed

text \<open>C3: Whatever the server answers, when every call of \<open>resolveIPs\<close> has returned no address is
  left marked as pending, so that each can be resolved again; and no call ends with an
  exception.\<close>

theorem geo_pending_cleared:
  assumes "areach geo_acts (\<lambda>_ _. True) geo_ev (init_geo st) s p"
    and "\<forall>t\<in>set p. (\<forall>q k. t \<noteq> Await q k) \<and> (\<forall>u. t \<noteq> Yield u)"
  shows "(\<forall>ip. pendingResolutions s ip \<noteq> Some True) \<and> (\<forall>t\<in>set p. t = Done ())"
proof -
  obtain L where L: "ledger s p L" using geo_ledger [OF assms(1)] by blast
  have len: "length L = length p" using L by (auto simp: ledger_def dest: list_all2_lengthD)
  have nil: "L ! i = [] \<and> p ! i = Done ()" if "i < length p" for i
  proof -
    have "holds_ips (L ! i) (p ! i)" using L that by (auto simp: ledger_def dest: list_all2_nthD2)
    moreover have "p ! i \<in> set p" using that by simp
    then have "p ! i \<noteq> Await q k" "p ! i \<noteq> Yield u" for q k u
      using assms(2) by blast+
    ultimately show ?thesis
      unfolding holds_ips_def at_request_def at_body_def
      using fetch_ips_suspends [of "L ! i"] by (fastforce simp: read_json_def)
  qed
  then show ?thesis using L len by (auto simp: ledger_def in_set_conv_nth)
qed

theorem geo_pending_cleared_witness:
  "\<exists>s. areach geo_acts (\<lambda>_ _. True) geo_ev (init_geo Map.empty) s [Done ()] \<and>
     pendingResolutions s ''1.1'' \<noteq> Some True"
proof -
  let ?s0 = "init_geo Map.empty"
  let ?s1 = "?s0\<lparr>pendingResolutions := [''1.1'' \<mapsto> True]\<rparr>"
  let ?t1 = "fetch_ips [''1.1''] False []"
  let ?s2 = "?s1\<lparr>pendingResolutions := clear_pending [''1.1''] (pendingResolutions ?s1)\<rparr>"
  note defs = resolveIPs_def ips_to_fetch_def needs_lookup_def init_geo_def Let_def mark_pending_def
      fetch_ips_def fetch_def trim_def is_space_def get_item_or_def
  have t1: "turn (resolveIPs [''1.1''] False) ?s0 = (?t1, ?s1)" by (simp add: defs)
  have r1: "areach geo_acts (\<lambda>_ _. True) geo_ev ?s0 ?s1 ([] @ [?t1])"
    by (rule areach.call [OF areach.start _ t1]) (auto simp: geo_acts_def)
  obtain q k where q: "?t1 = Await q k" using fetch_ips_suspends by blast
  have "turn (k (Rejected ''offline'')) ?s1 = (Done (), ?s2)"
    using q by (auto simp: fetch_ips_def fetch_def turn_drop_pending)
  with r1 have r2: "areach geo_acts (\<lambda>_ _. True) geo_ev ?s0 ?s2 (([] @ [?t1])[0 := Done ()])"
    by (intro areach.answer [OF r1]) (simp_all add: q)
  show ?thesis using geo_pending_cleared [OF r2] r2 by auto
qed

end
