(* ===== verification/Loading.thy ===== *)
theory Loading
  imports JS_Async
begin

text \<open>
  Loading flags. Almost every store has a flag that an action raises before its request and
  lowers when it ends, and that the pages show as a spinner. \<open>busy_flag\<close> is the contract that
  makes such a flag right under any interleaving: an action either ends with the flag down,
  however it ends, or lowers it and does not raise it again, or never raises it. Then the flag is up only while some action is suspended:
  no spinner outlives the actions that raise it.
\<close>

text \<open>Every end of the task leaves the flag down.\<close>

abbreviation lowers :: "('s \<Rightarrow> bool) \<Rightarrow> ('s, 'q, 'r, 'a) task \<Rightarrow> 's \<Rightarrow> bool" where
  "lowers flag t s \<equiv> wp (\<lambda>_ _. True) (\<lambda>_. True) (\<lambda>_ s. \<not> flag s) (\<lambda>_ s. \<not> flag s) t s"

text \<open>No write of the task raises the flag.\<close>

definition keeps_low :: "('s \<Rightarrow> bool) \<Rightarrow> ('s \<Rightarrow> 's) \<Rightarrow> bool" where
  "keeps_low flag u \<longleftrightarrow> (\<forall>s. flag (u s) \<longrightarrow> flag s)"

primrec never_raises :: "('s \<Rightarrow> bool) \<Rightarrow> ('s, 'q, 'r, 'a) task \<Rightarrow> bool" where
  "never_raises flag (Done a) = True"
| "never_raises flag (Fail e) = True"
| "never_raises flag (Set u t) = (keeps_low flag u \<and> never_raises flag t)"
| "never_raises flag (Get g) = (\<forall>s. never_raises flag (g s))"
| "never_raises flag (Await q k) = (\<forall>r. never_raises flag (k r))"
| "never_raises flag (Yield t) = never_raises flag t"

lemma never_raises_bind:
  "never_raises flag t \<Longrightarrow> (\<And>a. never_raises flag (f a)) \<Longrightarrow> never_raises flag (bind t f)"
  by (induction t) simp_all

lemma never_raises_try_catch:
  "never_raises flag t \<Longrightarrow> (\<And>e. never_raises flag (h e)) \<Longrightarrow> never_raises flag (try_catch t h)"
  by (induction t) simp_all

lemma never_raises_finally:
  "never_raises flag t \<Longrightarrow> keeps_low flag c \<Longrightarrow> never_raises flag (finally_do t c)"
  by (induction t) simp_all

lemma never_raises_await: "never_raises flag t \<Longrightarrow> never_raises flag (await_task t)"
  by (simp add: await_task_def never_raises_bind never_raises_try_catch)

lemma never_raises_void: "never_raises flag t \<Longrightarrow> never_raises flag (void t)"
  by (simp add: void_def never_raises_bind)

lemma never_raises_lift [simp]: "never_raises flag (lift_res x)"
  by (simp add: lift_res_def split: sum.splits)

lemma never_raises_set_with:
  "(\<And>s u. f s = Inr u \<Longrightarrow> keeps_low flag u) \<Longrightarrow> never_raises flag (set_with f)"
  by (auto simp: set_with_def split: sum.splits)

lemmas never_raises_rules = never_raises_bind never_raises_try_catch never_raises_finally
  never_raises_await never_raises_void never_raises_set_with

primrec suspended :: "('s, 'q, 'r, 'a) task \<Rightarrow> bool" where
  "suspended (Done a) = False"
| "suspended (Fail e) = False"
| "suspended (Set u t) = False"
| "suspended (Get g) = False"
| "suspended (Await q k) = True"
| "suspended (Yield t) = True"

text \<open>The task lowers the flag at some point, and does not raise it after that.\<close>

primrec settles :: "('s \<Rightarrow> bool) \<Rightarrow> ('s, 'q, 'r, 'a) task \<Rightarrow> 's \<Rightarrow> bool" where
  "settles flag (Done a) s = (\<not> flag s)"
| "settles flag (Fail e) s = (\<not> flag s)"
| "settles flag (Set u t) s = (settles flag t (u s) \<or> (\<not> flag (u s) \<and> never_raises flag t))"
| "settles flag (Get g) s = settles flag (g s) s"
| "settles flag (Await q k) s = (\<forall>r s'. settles flag (k r) s')"
| "settles flag (Yield t) s = (\<forall>s'. settles flag t s')"

lemma lowers_settles: "lowers flag t s \<Longrightarrow> settles flag t s"
  by (induction t arbitrary: s) auto

primrec lowers_later :: "('s \<Rightarrow> bool) \<Rightarrow> ('s, 'q, 'r, 'a) task \<Rightarrow> bool" where
  "lowers_later flag (Done a) = False"
| "lowers_later flag (Fail e) = False"
| "lowers_later flag (Set u t) = False"
| "lowers_later flag (Get g) = False"
| "lowers_later flag (Await q k) = (\<forall>r s. settles flag (k r) s)"
| "lowers_later flag (Yield t) = (\<forall>s. settles flag t s)"

lemma turn_never_raises:
  "never_raises flag t \<Longrightarrow> turn t s = (t', s') \<Longrightarrow> never_raises flag t' \<and> (flag s' \<longrightarrow> flag s)"
  by (induction t arbitrary: s) (auto simp: keeps_low_def)

lemma turn_settles:
  "settles flag t s \<Longrightarrow> turn t s = (t', s') \<Longrightarrow>
     lowers_later flag t' \<or> (\<not> flag s' \<and> never_raises flag t')"
proof (induction t arbitrary: s)
  case (Set u t)
  then show ?case using turn_never_raises [of flag t "u s" t' s'] by auto
qed auto

lemma lowers_later_suspended: "lowers_later flag t \<Longrightarrow> suspended t"
  by (cases t) auto

locale busy_flag =
  fixes flag :: "'s \<Rightarrow> bool"
    and acts :: "('s, 'q, 'r, 'a) task set"
    and A :: "'q \<Rightarrow> 'r \<Rightarrow> bool"
    and ev :: "'s \<Rightarrow> 's \<Rightarrow> bool"
    and s0 :: 's
  assumes flag_init: "\<not> flag s0"
    and flag_acts: "t \<in> acts \<Longrightarrow> (\<forall>s. settles flag t s) \<or> never_raises flag t"
    and flag_ev: "ev s s' \<Longrightarrow> flag s' \<Longrightarrow> flag s"
begin

definition flag_inv :: "'s \<Rightarrow> ('s, 'q, 'r, 'a) task list \<Rightarrow> bool" where
  "flag_inv s p \<longleftrightarrow> (\<forall>t\<in>set p. lowers_later flag t \<or> never_raises flag t) \<and>
     (flag s \<longrightarrow> (\<exists>i<length p. lowers_later flag (p ! i)))"

lemma flag_inv_turn:
  assumes "flag_inv s p" and i: "i < length p"
    and t: "turn t s = (t', s')" and low: "lowers_later flag (p ! i) \<Longrightarrow> settles flag t s"
    and nev: "never_raises flag (p ! i) \<Longrightarrow> never_raises flag t"
  shows "flag_inv s' (p[i := t'])"
proof (cases "lowers_later flag (p ! i)")
  case True
  from turn_settles [OF low [OF True] t] show ?thesis
    using assms(1) i by (auto simp: flag_inv_def dest!: set_update_subset_insert [THEN subsetD])
next
  case False
  then have "never_raises flag (p ! i)" using assms(1) i by (auto simp: flag_inv_def)
  from turn_never_raises [OF nev [OF this] t]
  have n: "never_raises flag t'" "flag s' \<longrightarrow> flag s" by auto
  have "\<exists>j<length (p[i := t']). lowers_later flag (p[i := t'] ! j)" if up: "flag s'"
  proof -
    obtain j where "j < length p" "lowers_later flag (p ! j)"
      using assms(1) n(2) up by (auto simp: flag_inv_def)
    moreover from this False have "j \<noteq> i" by auto
    ultimately show ?thesis by (intro exI [of _ j]) simp
  qed
  then show ?thesis
    using assms(1) n(1) by (auto simp: flag_inv_def dest!: set_update_subset_insert [THEN subsetD])
qed

lemma reach_flag_inv: "areach acts A ev s0 s p \<Longrightarrow> flag_inv s p"
proof (induction rule: areach.induct)
  case start
  then show ?case by (simp add: flag_inv_def flag_init)
next
  case (call s p t t' s')
  from flag_acts [OF call.hyps(2)] show ?case
  proof
    assume "\<forall>s. settles flag t s"
    then have "settles flag t s" ..
    then have "lowers_later flag t' \<or> (\<not> flag s' \<and> never_raises flag t')"
      using call.hyps(3) by (rule turn_settles)
    then show ?thesis using call.IH by (auto simp: flag_inv_def nth_append)
  next
    assume "never_raises flag t"
    then have "never_raises flag t' \<and> (flag s' \<longrightarrow> flag s)"
      using call.hyps(3) by (rule turn_never_raises)
    then show ?thesis using call.IH by (auto simp: flag_inv_def nth_append)
  qed
next
  case (answer s p i q k r t' s')
  show ?case
    by (rule flag_inv_turn [OF answer.IH answer.hyps(2) answer.hyps(5)]) (simp_all add: answer.hyps)
next
  case (wake s p i t t' s')
  show ?case
    by (rule flag_inv_turn [OF wake.IH wake.hyps(2) wake.hyps(4)]) (simp_all add: wake.hyps)
next
  case (event s p s')
  then show ?case by (auto simp: flag_inv_def dest: flag_ev)
qed

lemma busy_means_running: "areach acts A ev s0 s p \<Longrightarrow> flag s \<Longrightarrow> \<exists>t\<in>set p. suspended t"
  using reach_flag_inv by (fastforce simp: flag_inv_def dest: lowers_later_suspended)

end

end
