(* ===== verification/Cloudflare_Store.thy ===== *)
theory Cloudflare_Store
  imports Browser TS_Types Loading
begin

text \<open>
  \<open>cloudflareStore.ts\<close>: the Cloudflare accounts, their statistics, zones and Worker deployments.
  The server application's file is the client's with a forwarder configuration added: its state
  extends the record of the client's, and the shared actions are polymorphic in the extension.
  The arrays are what the server sent (\<open>data || []\<close>), unchecked, so they are values, and using
  them as arrays may throw.
\<close>

definition CloudflareAccount :: ts where
  "CloudflareAccount = TObj
    [req ''id'' TNumber, opt ''CreatedAt'' TString, opt ''UpdatedAt'' TString,
     req ''account_name'' TString, req ''account_id'' TString, req ''access_token'' TString,
     req ''refresh_token'' TString, req ''token_expiry'' TString, opt ''email'' TString,
     req ''status'' TString]"

definition CloudflareStats :: ts where
  "CloudflareStats = TObj
    [req ''total_zones'' TNumber, req ''active_zones'' TNumber, req ''pending_zones'' TNumber,
     req ''worker_scripts'' TNumber, req ''total_bandwidth'' TNumber,
     req ''cached_bandwidth'' TNumber, req ''total_requests'' TNumber,
     req ''cached_requests'' TNumber]"

definition CloudflareZone :: ts where
  "CloudflareZone = TObj [req ''id'' TString, req ''name'' TString, req ''status'' TString]"

definition CloudflareWorkerDeployment :: ts where
  "CloudflareWorkerDeployment = TObj
    [req ''id'' TNumber, opt ''CreatedAt'' TString, opt ''UpdatedAt'' TString,
     req ''account_id'' TString, req ''script_name'' TString, req ''local_path'' TString,
     req ''default_url'' TString, req ''custom_domain'' TString, req ''zone_id'' TString,
     req ''health_status'' TString, opt ''message'' TString]"

definition NovaForwarderConfig :: ts where
  "NovaForwarderConfig = TObj
    [opt ''id'' TNumber, req ''secret_auth_key'' TString, req ''assigned_core_port'' TNumber,
     req ''is_enabled'' TBool]"

record cf_state =
  accounts :: jsv
  stats :: "int \<rightharpoonup> jsv"
  zones :: jsv
  deployments :: jsv
  isLoading :: bool
  isDeploying :: bool
  error :: jsv
  local_storage :: storage

record server_cf_state = cf_state +
  forwarderConfig :: jsv

type_synonym 'x cf_action = "('x cf_state_scheme, unit) action"

definition init_cf :: "storage \<Rightarrow> cf_state" where
  "init_cf st = \<lparr>accounts = JArr [], stats = Map.empty, zones = JArr [], deployments = JArr [],
     isLoading = False, isDeploying = False, error = JNull, local_storage = st\<rparr>"

definition init_server_cf :: "storage \<Rightarrow> server_cf_state" where
  "init_server_cf st = \<lparr>accounts = JArr [], stats = Map.empty, zones = JArr [], deployments = JArr [],
     isLoading = False, isDeploying = False, error = JNull, local_storage = st, forwarderConfig = JNull\<rparr>"

definition getToken :: "storage \<Rightarrow> string" where
  "getToken st = get_item_or st ''cc_server_token'' (get_item_or st ''cc_client_token'' [])"

text \<open>The requests of this store: without a body only the authorisation header is sent, with one
  the content type too.\<close>

definition cf_fetch :: "string \<Rightarrow> string \<Rightarrow> jsv option \<Rightarrow> ('x cf_state_scheme, bool \<times> body) action" where
  "cf_fetch meth url b =
     Get (\<lambda>s. let auth = auth_header (getToken (local_storage s)) in
       fetch (http_send meth url (case b of None \<Rightarrow> [auth] | Some _ \<Rightarrow> [json_header, auth]) b))"

definition set_error :: "jsv \<Rightarrow> 'x cf_action" where
  "set_error e = set_state (\<lambda>s. s\<lparr>error := e\<rparr>)"

definition clearError :: "'x cf_state_scheme \<Rightarrow> 'x cf_state_scheme" where
  "clearError s = s\<lparr>error := JNull\<rparr>"

definition start_loading :: "'x cf_state_scheme \<Rightarrow> 'x cf_state_scheme" where
  "start_loading s = s\<lparr>isLoading := True, error := JNull\<rparr>"

definition stop_loading :: "'x cf_state_scheme \<Rightarrow> 'x cf_state_scheme" where
  "stop_loading s = s\<lparr>isLoading := False\<rparr>"

definition fetchAccounts :: "'x cf_action" where
  "fetchAccounts =
     Set start_loading
     (finally_do
       (try_catch
         (bind (cf_fetch ''GET'' ''/api/cloudflare/accounts'' None) (\<lambda>(ok, b).
            if ok then bind (read_json b) (\<lambda>data. set_state (\<lambda>s. s\<lparr>accounts := js_or data (JArr [])\<rparr>))
            else bind (api_error b ''Failed to fetch Cloudflare accounts'') set_error))
         (\<lambda>_. set_error (JStr ''Network error while fetching accounts'')))
       stop_loading)"

text \<open>\<open>catch (e) { if (!get().error) set({ error: e.message || text }); throw e; }\<close>.\<close>

definition rethrow :: "string \<Rightarrow> err \<Rightarrow> 'x cf_action" where
  "rethrow other e =
     Get (\<lambda>s. andthen (if \<not> truthy (error s) then set_error (js_or (JStr e) (JStr other)) else Done ())
                (Fail e))"

definition updateAccount :: "int \<Rightarrow> string \<Rightarrow> 'x cf_action" where
  "updateAccount i name =
     Set start_loading
     (finally_do
       (try_catch
         (bind (cf_fetch ''PUT'' (''/api/cloudflare/accounts/'' @ show_int i)
                 (Some (JObj [(''account_name'', JStr name)]))) (\<lambda>(ok, b).
            if ok then await_task fetchAccounts
            else bind (api_error b ''Failed to update Cloudflare account'') (\<lambda>e.
                   andthen (set_error e) (Fail (error_message e)))))
         (rethrow ''Network error while updating account''))
       stop_loading)"

definition deleteAccount :: "int \<Rightarrow> 'x cf_action" where
  "deleteAccount i =
     Set start_loading
     (finally_do
       (try_catch
         (bind (cf_fetch ''DELETE'' (''/api/cloudflare/accounts/'' @ show_int i) None) (\<lambda>(ok, b).
            if ok then
              set_with (\<lambda>s.
                case as_array ''state.accounts'' ''filter'' (accounts s) of Inl e \<Rightarrow> Inl e
                | Inr xs \<Rightarrow> (case filter_res (prop_is_not ''id'' (JNum (of_int i))) xs of Inl e \<Rightarrow> Inl e
                    | Inr ys \<Rightarrow> Inr (\<lambda>s. s\<lparr>accounts := JArr ys, stats := (stats s)(i := None)\<rparr>)))
            else bind (api_error b ''Failed to delete account'') set_error))
         (\<lambda>_. set_error (JStr ''Network error while deleting account'')))
       stop_loading)"

definition fetchStats :: "int \<Rightarrow> 'x cf_action" where
  "fetchStats i =
     try_catch
       (bind (cf_fetch ''GET'' (''/api/cloudflare/accounts/'' @ show_int i @ ''/stats'') None) (\<lambda>(ok, b).
          if ok then bind (read_json b) (\<lambda>data. set_state (\<lambda>s. s\<lparr>stats := (stats s)(i \<mapsto> data)\<rparr>))
          else set_with (\<lambda>s.
            case as_array ''state.accounts'' ''map'' (accounts s) of Inl e \<Rightarrow> Inl e
            | Inr xs \<Rightarrow> (case map_res (replace_where ''id'' (JNum (of_int i))
                                (\<lambda>acc. obj_put ''status'' (JStr ''error'') acc)) xs of Inl e \<Rightarrow> Inl e
                | Inr ys \<Rightarrow> Inr (\<lambda>s. s\<lparr>accounts := JArr ys\<rparr>)))))
       (\<lambda>_. Done ())"

definition fetchZones :: "string \<Rightarrow> 'x cf_action" where
  "fetchZones accountId =
     Set start_loading
     (finally_do
       (try_catch
         (bind (cf_fetch ''GET'' (''/api/cloudflare/zones?account_id='' @ accountId) None) (\<lambda>(ok, b).
            if ok then bind (read_json b) (\<lambda>data. set_state (\<lambda>s. s\<lparr>zones := js_or data (JArr [])\<rparr>))
            else bind (api_error b ''Failed to fetch zones'') set_error))
         (\<lambda>_. set_error (JStr ''Network error while fetching zones'')))
       stop_loading)"

definition fetchDeployments :: "'x cf_action" where
  "fetchDeployments =
     Set start_loading
     (finally_do
       (try_catch
         (bind (cf_fetch ''GET'' ''/api/cloudflare/workers/deployments'' None) (\<lambda>(ok, b).
            if ok then bind (read_json b) (\<lambda>data. set_state (\<lambda>s. s\<lparr>deployments := js_or data (JArr [])\<rparr>))
            else bind (api_error b ''Failed to fetch deployments'') set_error))
         (\<lambda>_. set_error (JStr ''Network error while fetching deployments'')))
       stop_loading)"

definition deployWorker :: "jsv \<Rightarrow> 'x cf_action" where
  "deployWorker payload =
     Set (\<lambda>s. s\<lparr>isDeploying := True, error := JNull\<rparr>)
     (finally_do
       (try_catch
         (bind (cf_fetch ''POST'' ''/api/cloudflare/workers/deploy'' (Some payload)) (\<lambda>(ok, b).
            if ok then bind (read_json b) (\<lambda>d. set_with (\<lambda>s.
              case iterate ''state.deployments'' (deployments s) of Inl e \<Rightarrow> Inl e
              | Inr xs \<Rightarrow> Inr (\<lambda>s. s\<lparr>deployments := JArr (d # xs)\<rparr>)))
            else bind (api_error b ''Failed to deploy worker'') (\<lambda>e.
                   andthen (set_error e) (Fail (error_message e)))))
         (rethrow ''Network error during worker deployment''))
       (\<lambda>s. s\<lparr>isDeploying := False\<rparr>))"

definition deleteDeployment :: "int \<Rightarrow> 'x cf_action" where
  "deleteDeployment i =
     Set start_loading
     (finally_do
       (try_catch
         (bind (cf_fetch ''DELETE'' (''/api/cloudflare/workers/deployments/'' @ show_int i) None) (\<lambda>(ok, b).
            if ok then
              set_with (\<lambda>s.
                case as_array ''state.deployments'' ''filter'' (deployments s) of Inl e \<Rightarrow> Inl e
                | Inr xs \<Rightarrow> (case filter_res (prop_is_not ''id'' (JNum (of_int i))) xs of Inl e \<Rightarrow> Inl e
                    | Inr ys \<Rightarrow> Inr (\<lambda>s. s\<lparr>deployments := JArr ys\<rparr>)))
            else bind (api_error b ''Failed to delete deployment'') set_error))
         (\<lambda>_. set_error (JStr ''Network error while deleting deployment'')))
       stop_loading)"

definition checkDeploymentHealth :: "int \<Rightarrow> 'x cf_action" where
  "checkDeploymentHealth i =
     try_catch
       (bind (cf_fetch ''POST'' (''/api/cloudflare/workers/deployments/'' @ show_int i @ ''/check-health'') None)
         (\<lambda>(ok, b).
            if ok then bind (read_json b) (\<lambda>updated. set_with (\<lambda>s.
              case as_array ''state.deployments'' ''map'' (deployments s) of Inl e \<Rightarrow> Inl e
              | Inr xs \<Rightarrow> (case map_res (replace_where ''id'' (JNum (of_int i)) (\<lambda>_. updated)) xs of
                    Inl e \<Rightarrow> Inl e
                  | Inr ys \<Rightarrow> Inr (\<lambda>s. s\<lparr>deployments := JArr ys\<rparr>))))
            else Done ()))
       (\<lambda>_. Done ())"

definition addManualAccount :: "jsv \<Rightarrow> 'x cf_action" where
  "addManualAccount payload =
     Set start_loading
     (finally_do
       (try_catch
         (bind (cf_fetch ''POST'' ''/api/cloudflare/accounts'' (Some payload)) (\<lambda>(ok, b).
            if ok then await_task fetchAccounts
            else bind (api_error b ''Failed to add Cloudflare account'') (\<lambda>e.
                   andthen (set_error e) (Fail (error_message e)))))
         (rethrow ''Network error while adding manual account''))
       stop_loading)"

section \<open>The forwarder of the server application\<close>

definition fetchForwarderConfig :: "(server_cf_state, unit) action" where
  "fetchForwarderConfig =
     try_catch
       (bind (cf_fetch ''GET'' ''/api/cloudflare/forwarder'' None) (\<lambda>(ok, b).
          if ok then bind (read_json b) (\<lambda>data. set_state (\<lambda>s. s\<lparr>forwarderConfig := data\<rparr>))
          else Done ()))
       (\<lambda>_. Done ())"

text \<open>The payload: each field is the argument's, else the current configuration's, else a default.\<close>

definition forwarder_payload :: "obj \<Rightarrow> jsv \<Rightarrow> jsv" where
  "forwarder_payload cfg current =
     JObj [(''secret_auth_key'', js_coalesce (obj_get cfg ''secret_auth_key'')
              (js_coalesce (opt_prop current ''secret_auth_key'') (JStr []))),
           (''assigned_core_port'', to_number (js_coalesce (obj_get cfg ''assigned_core_port'')
              (js_coalesce (opt_prop current ''assigned_core_port'') (JNum 8081)))),
           (''is_enabled'', js_coalesce (obj_get cfg ''is_enabled'')
              (js_coalesce (opt_prop current ''is_enabled'') (JBool True)))]"

definition updateForwarderConfig :: "obj \<Rightarrow> (server_cf_state, unit) action" where
  "updateForwarderConfig cfg =
     Set start_loading
     (finally_do
       (try_catch
         (bind (Get (\<lambda>s. cf_fetch ''POST'' ''/api/cloudflare/forwarder''
                    (Some (forwarder_payload cfg (forwarderConfig s))))) (\<lambda>(ok, b).
            if ok then bind (read_json b) (\<lambda>data. set_state (\<lambda>s. s\<lparr>forwarderConfig := data\<rparr>))
            else bind (api_error b ''Failed to update forwarder config'') set_error))
         (\<lambda>_. set_error (JStr ''Network error while updating forwarder config'')))
       stop_loading)"

section \<open>What an action can do\<close>

text \<open>The calls of the client's store, and its one synchronous method.\<close>

definition cf_acts :: "(cf_state, unit) action set" where
  "cf_acts = {fetchAccounts, fetchDeployments} \<union> range deleteAccount \<union> range fetchStats \<union>
     range fetchZones \<union> range deployWorker \<union> range deleteDeployment \<union>
     range checkDeploymentHealth \<union> range addManualAccount \<union> {updateAccount i n | i n. True}"

definition cf_ev :: "cf_state \<Rightarrow> cf_state \<Rightarrow> bool" where
  "cf_ev s s' \<longleftrightarrow> s' = clearError s"

lemma wp_cf_fetch [simp]:
  "wp A I Q E (cf_fetch meth url b) s \<longleftrightarrow>
     I s \<and> (\<forall>r s'. A (http_send meth url
              (case b of None \<Rightarrow> [auth_header (getToken (local_storage s))]
               | Some _ \<Rightarrow> [json_header, auth_header (getToken (local_storage s))]) b) r \<longrightarrow> I s' \<longrightarrow>
       (case r of Rejected e \<Rightarrow> E e s' | Response ok b \<Rightarrow> Q (ok, b) s'))"
  by (simp add: cf_fetch_def Let_def)

lemma wp_set_error [simp]: "wp A I Q E (set_error e) s = Q () (s\<lparr>error := e\<rparr>)"
  by (simp add: set_error_def)

lemmas cf_action_defs = fetchAccounts_def updateAccount_def deleteAccount_def fetchStats_def
  fetchZones_def fetchDeployments_def deployWorker_def deleteDeployment_def
  checkDeploymentHealth_def addManualAccount_def start_loading_def stop_loading_def rethrow_def

lemmas reply_splits = reply.splits body.splits sum.splits

subsection \<open>Loading flags\<close>

lemma cf_loading_lowers:
  "lowers isLoading fetchAccounts s" "lowers isLoading fetchDeployments s"
  "lowers isLoading (updateAccount i n) s" "lowers isLoading (deleteAccount i) s"
  "lowers isLoading (fetchZones z) s" "lowers isLoading (deleteDeployment i) s"
  "lowers isLoading (addManualAccount p) s"
  by (simp_all add: cf_action_defs split: reply_splits)

lemma never_raises_cf_fetch [simp]: "never_raises flag (cf_fetch meth url b)"
  by (simp add: cf_fetch_def fetch_def Let_def split: reply.splits)

lemma never_raises_json [simp]:
  "never_raises flag (read_json b)" "never_raises flag (api_error b x)"
  by (auto simp: read_json_def api_error_def intro!: never_raises_rules split: body.splits)

lemma cf_loading_never:
  "never_raises isLoading (fetchStats i :: (cf_state, unit) action)"
  "never_raises isLoading (checkDeploymentHealth i :: (cf_state, unit) action)"
  "never_raises isLoading (deployWorker p :: (cf_state, unit) action)"
  by (auto simp: cf_action_defs set_error_def andthen_def keeps_low_def intro!: never_raises_rules
      split: prod.splits sum.splits)

lemma cf_deploying_lowers: "lowers isDeploying (deployWorker p) s"
  by (simp add: cf_action_defs split: reply_splits)

lemma cf_deploying_never:
  "never_raises isDeploying (fetchAccounts :: (cf_state, unit) action)"
  "never_raises isDeploying (fetchDeployments :: (cf_state, unit) action)"
  "never_raises isDeploying (updateAccount i n :: (cf_state, unit) action)"
  "never_raises isDeploying (deleteAccount i :: (cf_state, unit) action)"
  "never_raises isDeploying (fetchStats i :: (cf_state, unit) action)"
  "never_raises isDeploying (fetchZones z :: (cf_state, unit) action)"
  "never_raises isDeploying (deleteDeployment i :: (cf_state, unit) action)"
  "never_raises isDeploying (checkDeploymentHealth i :: (cf_state, unit) action)"
  "never_raises isDeploying (addManualAccount p :: (cf_state, unit) action)"
  by (auto simp: cf_action_defs set_error_def andthen_def keeps_low_def intro!: never_raises_rules
      split: prod.splits sum.splits)

interpretation cf_loading: busy_flag isLoading cf_acts "\<lambda>_ _. True" cf_ev "init_cf st" for st
  by unfold_locales
     (auto simp: init_cf_def cf_ev_def clearError_def cf_acts_def cf_loading_lowers [THEN lowers_settles] cf_loading_never)

interpretation cf_deploying: busy_flag isDeploying cf_acts "\<lambda>_ _. True" cf_ev "init_cf st" for st
  by unfold_locales
     (auto simp: init_cf_def cf_ev_def clearError_def cf_acts_def cf_deploying_lowers [THEN lowers_settles] cf_deploying_never)

subsection \<open>Types\<close>

text \<open>A server that keeps to the declared types: on success, each endpoint that this store reads
  answers with the type of the interface, or \<open>null\<close> for an empty list; and the \<open>error\<close> of a refusal,
  where it has one, is a text or \<open>null\<close>.\<close>

definition cf_server_typed :: "request \<Rightarrow> reply \<Rightarrow> bool" where
  "cf_server_typed q r \<longleftrightarrow>
     (\<forall>v x. r = Response False (JsonOk v) \<longrightarrow> get_prop v ''error'' = Inr x \<longrightarrow>
        x = JUndef \<or> conforms (nullable TString) x) \<and>
     (\<forall>v. r = Response True (JsonOk v) \<longrightarrow>
     (rq_url q = ''/api/cloudflare/accounts'' \<and> rq_method q = ''GET'' \<longrightarrow>
        v = JNull \<or> conforms (TArr CloudflareAccount) v) \<and>
     (\<forall>i. rq_url q = ''/api/cloudflare/accounts/'' @ show_int i @ ''/stats'' \<longrightarrow> conforms CloudflareStats v) \<and>
     (\<forall>a. rq_url q = ''/api/cloudflare/zones?account_id='' @ a \<longrightarrow>
        v = JNull \<or> conforms (TArr CloudflareZone) v) \<and>
     (rq_url q = ''/api/cloudflare/workers/deployments'' \<longrightarrow>
        v = JNull \<or> conforms (TArr CloudflareWorkerDeployment) v) \<and>
     (rq_url q = ''/api/cloudflare/workers/deploy'' \<longrightarrow> conforms CloudflareWorkerDeployment v) \<and>
     (\<forall>i. rq_url q = ''/api/cloudflare/workers/deployments/'' @ show_int i @ ''/check-health'' \<longrightarrow>
        conforms CloudflareWorkerDeployment v))"

definition cf_typed :: "'x cf_state_scheme \<Rightarrow> bool" where
  "cf_typed s \<longleftrightarrow> conforms (TArr CloudflareAccount) (accounts s) \<and>
     conforms (TArr CloudflareZone) (zones s) \<and>
     conforms (TArr CloudflareWorkerDeployment) (deployments s) \<and>
     (\<forall>i v. stats s i = Some v \<longrightarrow> conforms CloudflareStats v) \<and>
     conforms (nullable TString) (error s)"

lemma list_or_empty: "v = JNull \<or> conforms (TArr t) v \<Longrightarrow> conforms (TArr t) (js_or v (JArr []))"
  by (auto elim: conforms_arrE)

lemma cf_answers:
  "cf_server_typed (http_send ''GET'' ''/api/cloudflare/accounts'' h b) (Response True (JsonOk v)) \<Longrightarrow>
     conforms (TArr CloudflareAccount) (js_or v (JArr []))"
  "cf_server_typed (http_send m (''/api/cloudflare/zones?account_id='' @ a) h b) (Response True (JsonOk v)) \<Longrightarrow>
     conforms (TArr CloudflareZone) (js_or v (JArr []))"
  "cf_server_typed (http_send m ''/api/cloudflare/workers/deployments'' h b) (Response True (JsonOk v)) \<Longrightarrow>
     conforms (TArr CloudflareWorkerDeployment) (js_or v (JArr []))"
  by (rule list_or_empty; unfold cf_server_typed_def http_send_def; simp)+

lemma cf_stats_answer:
  "cf_server_typed (http_send m (''/api/cloudflare/accounts/'' @ show_int i @ ''/stats'') h b)
     (Response True (JsonOk v)) \<Longrightarrow> conforms CloudflareStats v"
  unfolding cf_server_typed_def http_send_def request.simps by blast

lemma cf_deploy_answer:
  "cf_server_typed (http_send m ''/api/cloudflare/workers/deploy'' h b) (Response True (JsonOk v)) \<Longrightarrow>
     conforms CloudflareWorkerDeployment v"
  unfolding cf_server_typed_def http_send_def request.simps by blast

lemma cf_health_answer:
  "cf_server_typed (http_send m (''/api/cloudflare/workers/deployments/'' @ show_int i @ ''/check-health'') h b)
     (Response True (JsonOk v)) \<Longrightarrow> conforms CloudflareWorkerDeployment v"
  unfolding cf_server_typed_def http_send_def request.simps by blast

text \<open>Writes to the other fields, and typed writes to the typed ones.\<close>

lemma cf_typed_other [simp]:
  "cf_typed (s\<lparr>isLoading := l\<rparr>) = cf_typed s"
  "cf_typed (s\<lparr>isDeploying := l\<rparr>) = cf_typed s"
  by (simp_all add: cf_typed_def)

lemma cf_typed_error [simp]:
  "cf_typed s \<Longrightarrow> cf_typed (s\<lparr>error := JNull\<rparr>)"
  "cf_typed s \<Longrightarrow> cf_typed (s\<lparr>error := JStr e\<rparr>)"
  "cf_typed s \<Longrightarrow> cf_typed (s\<lparr>error := js_or (JStr e) (JStr t)\<rparr>)"
  by (auto simp: cf_typed_def js_or_def)

lemma cf_typed_refusal:
  "cf_typed s \<Longrightarrow> cf_server_typed q (Response False (JsonOk v)) \<Longrightarrow> get_prop v ''error'' = Inr x \<Longrightarrow>
     cf_typed (s\<lparr>error := js_or x (JStr t)\<rparr>)"
  by (auto simp: cf_server_typed_def cf_typed_def js_or_def)

lemma cf_typed_write:
  "cf_typed s \<Longrightarrow> conforms (TArr CloudflareAccount) v \<Longrightarrow> cf_typed (s\<lparr>accounts := v\<rparr>)"
  "cf_typed s \<Longrightarrow> conforms (TArr CloudflareZone) v \<Longrightarrow> cf_typed (s\<lparr>zones := v\<rparr>)"
  "cf_typed s \<Longrightarrow> conforms (TArr CloudflareWorkerDeployment) v \<Longrightarrow> cf_typed (s\<lparr>deployments := v\<rparr>)"
  "cf_typed s \<Longrightarrow> conforms CloudflareStats v \<Longrightarrow> cf_typed (s\<lparr>stats := (stats s)(i \<mapsto> v)\<rparr>)"
  "cf_typed s \<Longrightarrow> cf_typed (s\<lparr>stats := (stats s)(i := None)\<rparr>)"
  by (simp_all add: cf_typed_def)

lemma cf_typed_array:
  "cf_typed s \<Longrightarrow> as_array what m (accounts s) = Inr xs \<Longrightarrow> \<forall>x\<in>set xs. conforms CloudflareAccount x"
  "cf_typed s \<Longrightarrow> as_array what m (deployments s) = Inr xs \<Longrightarrow>
     \<forall>x\<in>set xs. conforms CloudflareWorkerDeployment x"
  by (auto simp: cf_typed_def elim!: conforms_arrE)

lemma cf_typed_iterate:
  "cf_typed s \<Longrightarrow> iterate what (deployments s) = Inr xs \<Longrightarrow>
     \<forall>x\<in>set xs. conforms CloudflareWorkerDeployment x"
  by (auto simp: cf_typed_def elim!: conforms_arrE)

lemma filter_res_all: "\<forall>x\<in>set xs. P x \<Longrightarrow> filter_res p xs = Inr ys \<Longrightarrow> \<forall>x\<in>set ys. P x"
  by (induction xs arbitrary: ys) (auto split: sum.splits if_splits)

lemma map_res_all:
  "\<forall>x\<in>set xs. P x \<Longrightarrow> (\<And>x y. P x \<Longrightarrow> f x = Inr y \<Longrightarrow> P y) \<Longrightarrow> map_res f xs = Inr ys \<Longrightarrow> \<forall>x\<in>set ys. P x"
  by (induction xs arbitrary: ys) (auto split: sum.splits)

lemma replace_where_keeps:
  "replace_where k v f x = Inr y \<Longrightarrow> P x \<Longrightarrow> P (f x) \<Longrightarrow> P y"
  by (auto simp: replace_where_def split: sum.splits if_splits)

lemma account_marked: "conforms CloudflareAccount a \<Longrightarrow> conforms CloudflareAccount (obj_put ''status'' (JStr e) a)"
  unfolding CloudflareAccount_def by (rule conforms_obj_put) auto

lemma marked_accounts:
  assumes "map_res (replace_where ''id'' v (obj_put ''status'' (JStr e))) xs = Inr ys"
    and "\<forall>x\<in>set xs. conforms CloudflareAccount x"
  shows "\<forall>x\<in>set ys. conforms CloudflareAccount x"
proof (rule map_res_all [OF assms(2) _ assms(1)])
  show "conforms CloudflareAccount y"
    if "conforms CloudflareAccount x" "replace_where ''id'' v (obj_put ''status'' (JStr e)) x = Inr y" for x y
    using that(2,1) account_marked [OF that(1)] by (rule replace_where_keeps)
qed

lemma replaced_deployments:
  assumes "map_res (replace_where ''id'' v (\<lambda>_. u)) xs = Inr ys"
    and "\<forall>x\<in>set xs. conforms CloudflareWorkerDeployment x"
    and "conforms CloudflareWorkerDeployment u"
  shows "\<forall>x\<in>set ys. conforms CloudflareWorkerDeployment x"
proof (rule map_res_all [OF assms(2) _ assms(1)])
  show "conforms CloudflareWorkerDeployment y"
    if "conforms CloudflareWorkerDeployment x" "replace_where ''id'' v (\<lambda>_. u) x = Inr y" for x y
    using that(2,1) assms(3) by (rule replace_where_keeps)
qed

lemma cf_typed_lists:
  "cf_typed s \<Longrightarrow> keeps cf_server_typed cf_typed fetchAccounts s"
  "cf_typed s \<Longrightarrow> keeps cf_server_typed cf_typed fetchDeployments s"
  "cf_typed s \<Longrightarrow> keeps cf_server_typed cf_typed (fetchZones z) s"
  by (auto simp: cf_action_defs simp del: append_Cons split: reply_splits intro: cf_typed_write cf_answers cf_typed_refusal)

lemma cf_typed_accounts:
  "cf_typed s \<Longrightarrow> keeps cf_server_typed cf_typed (updateAccount i n) s"
  "cf_typed s \<Longrightarrow> keeps cf_server_typed cf_typed (addManualAccount p) s"
  by (auto simp: cf_action_defs simp del: append_Cons split: reply_splits intro: cf_typed_write cf_answers cf_typed_refusal)

lemma cf_typed_filtered:
  "cf_typed s \<Longrightarrow> as_array what m (accounts s) = Inr xs \<Longrightarrow> filter_res f xs = Inr ys \<Longrightarrow>
     cf_typed (s\<lparr>accounts := JArr ys, stats := (stats s)(i := None)\<rparr>)"
  "cf_typed s \<Longrightarrow> as_array what m (deployments s) = Inr xs \<Longrightarrow> filter_res f xs = Inr ys \<Longrightarrow>
     cf_typed (s\<lparr>deployments := JArr ys\<rparr>)"
  using cf_typed_array [of s what m xs] by (auto simp: cf_typed_def dest: filter_res_all)

lemma cf_typed_put:
  "cf_typed s \<Longrightarrow> \<forall>x\<in>set xs. conforms CloudflareAccount x \<Longrightarrow> cf_typed (s\<lparr>accounts := JArr xs\<rparr>)"
  "cf_typed s \<Longrightarrow> \<forall>x\<in>set xs. conforms CloudflareWorkerDeployment x \<Longrightarrow>
     cf_typed (s\<lparr>deployments := JArr xs\<rparr>)"
  by (simp_all add: cf_typed_write)

lemma cf_typed_marked:
  "cf_typed s \<Longrightarrow> as_array what m (accounts s) = Inr xs \<Longrightarrow>
     map_res (replace_where ''id'' v (obj_put ''status'' (JStr e))) xs = Inr ys \<Longrightarrow>
     cf_typed (s\<lparr>accounts := JArr ys\<rparr>)"
  by (rule cf_typed_put(1), assumption) (rule marked_accounts, assumption, rule cf_typed_array(1))

lemma cf_typed_replaced:
  "cf_typed s \<Longrightarrow> as_array what m (deployments s) = Inr xs \<Longrightarrow> conforms CloudflareWorkerDeployment u \<Longrightarrow>
     map_res (replace_where ''id'' v (\<lambda>_. u)) xs = Inr ys \<Longrightarrow> cf_typed (s\<lparr>deployments := JArr ys\<rparr>)"
  by (rule cf_typed_put(2), assumption)
    (rule replaced_deployments, assumption, rule cf_typed_array(2))

lemma cf_typed_added:
  assumes "cf_typed s" "iterate what (deployments s) = Inr xs" "conforms CloudflareWorkerDeployment u"
  shows "cf_typed (s\<lparr>deployments := JArr (u # xs)\<rparr>)"
  using cf_typed_iterate [OF assms(1,2)] assms(3) by (intro cf_typed_put(2) [OF assms(1)]) simp

lemma cf_typed_deletes:
  "cf_typed s \<Longrightarrow> keeps cf_server_typed cf_typed (deleteAccount i) s"
  "cf_typed s \<Longrightarrow> keeps cf_server_typed cf_typed (deleteDeployment i) s"
  by (auto simp: cf_action_defs simp del: append_Cons split: reply_splits intro: cf_typed_filtered cf_typed_refusal)

lemma cf_typed_stats: "cf_typed s \<Longrightarrow> keeps cf_server_typed cf_typed (fetchStats i) s"
  by (auto simp: cf_action_defs simp del: append_Cons split: reply_splits
      intro: cf_typed_write cf_stats_answer cf_typed_marked cf_typed_refusal)

lemma cf_typed_deploys:
  "cf_typed s \<Longrightarrow> keeps cf_server_typed cf_typed (deployWorker p) s"
  "cf_typed s \<Longrightarrow> keeps cf_server_typed cf_typed (checkDeploymentHealth i) s"
  by (auto simp: cf_action_defs simp del: append_Cons split: reply_splits
      intro: cf_deploy_answer cf_health_answer cf_typed_replaced cf_typed_added cf_typed_refusal)

lemma cf_acts_typed: "t \<in> cf_acts \<Longrightarrow> cf_typed s \<Longrightarrow> keeps cf_server_typed cf_typed t s"
  unfolding cf_acts_def
  by (elim UnE insertE rangeE CollectE exE conjE emptyE; hypsubst)
    (assumption | rule cf_typed_lists cf_typed_accounts cf_typed_deletes cf_typed_stats cf_typed_deploys)+

interpretation cf_types: async_store cf_acts cf_server_typed cf_ev "init_cf st" cf_typed for st
proof
  show "cf_typed (init_cf st)" by (simp add: cf_typed_def init_cf_def)
  show "keeps cf_server_typed cf_typed t s" if "t \<in> cf_acts" "cf_typed s" for t s
    using that by (rule cf_acts_typed)
  show "cf_typed s'" if "cf_ev s s'" "cf_typed s" for s s'
    using that by (simp add: cf_ev_def clearError_def)
qed

section \<open>Properties\<close>

text \<open>C5: While the server keeps to the declared reply types (and puts only a text or \<open>null\<close> in the
  \<open>error\<close> of a refusal), the client's Cloudflare store keeps to its own: under every interleaving of its
  ten asynchronous actions and \<open>clearError\<close>, every field of the store that holds a value of the server
  conforms to its declared type: the accounts, zones, deployments and statistics to their TypeScript
  interfaces, and \<open>error\<close> is a text or \<open>null\<close>, although nothing checks a reply at run time.\<close>

theorem cloudflare_store_typed:
  assumes "areach cf_acts cf_server_typed cf_ev (init_cf st) s p"
  shows "conforms (TArr CloudflareAccount) (accounts s) \<and>
    conforms (TArr CloudflareZone) (zones s) \<and>
    conforms (TArr CloudflareWorkerDeployment) (deployments s) \<and>
    (\<forall>i v. stats s i = Some v \<longrightarrow> conforms CloudflareStats v) \<and>
    conforms (nullable TString) (error s)"
  using cf_types.reach_inv [OF assms] by (simp add: cf_typed_def)

definition sample_deployment :: jsv where
  "sample_deployment = JObj [(''id'', JNum 4), (''account_id'', JStr ''a''), (''script_name'', JStr ''w''),
     (''local_path'', JStr ''w.js''), (''default_url'', JStr []), (''custom_domain'', JStr []),
     (''zone_id'', JStr ''z''), (''health_status'', JStr ''ok'')]"

lemma sample_deployment_typed: "conforms CloudflareWorkerDeployment sample_deployment"
  by (simp add: sample_deployment_def CloudflareWorkerDeployment_def conforms_obj)

lemma sample_run:
  "areach cf_acts cf_server_typed cf_ev (init_cf Map.empty)
     ((init_cf Map.empty)\<lparr>deployments := JArr [sample_deployment]\<rparr>) [Done ()]"
proof -
  let ?s = "(init_cf Map.empty)\<lparr>isDeploying := True\<rparr>"
  let ?r = "Response True (JsonOk sample_deployment)"
  obtain q k where t: "turn (deployWorker JNull) (init_cf Map.empty) = (Await q k, ?s)"
    and q: "cf_server_typed q ?r" and k: "k ?r = Yield (finally_do (try_catch
        (set_with (\<lambda>s. case iterate ''state.deployments'' (deployments s) of Inl e \<Rightarrow> Inl e
              | Inr xs \<Rightarrow> Inr (\<lambda>s. s\<lparr>deployments := JArr (sample_deployment # xs)\<rparr>)))
        (rethrow ''Network error during worker deployment'')) (\<lambda>s. s\<lparr>isDeploying := False\<rparr>))"
    by (simp add: deployWorker_def cf_fetch_def fetch_def read_json_def init_cf_def Let_def
        cf_server_typed_def http_send_def sample_deployment_typed)
  have d: "deployWorker JNull \<in> cf_acts" by (simp add: cf_acts_def)
  have "areach cf_acts cf_server_typed cf_ev (init_cf Map.empty) ?s [Await q k]"
    using areach.call [OF areach.start d t] by simp
  from areach.answer [OF this, of 0 q k ?r, unfolded k, simplified, OF q]
  have "areach cf_acts cf_server_typed cf_ev (init_cf Map.empty) ?s [k ?r]" by (simp add: k)
  from areach.wake [OF this, of 0] show ?thesis
    by (simp add: k set_with_def init_cf_def)
qed

theorem cloudflare_store_typed_witness:
  "let s = (init_cf Map.empty)\<lparr>deployments := JArr [sample_deployment]\<rparr> in
     areach cf_acts cf_server_typed cf_ev (init_cf Map.empty) s [Done ()] \<and>
     conforms (TArr CloudflareWorkerDeployment) (deployments s) \<and> conforms (nullable TString) (error s)"
  using sample_run cloudflare_store_typed [OF sample_run] unfolding Let_def by blast

lemma sample_busy:
  "\<exists>s t. areach cf_acts (\<lambda>_ _. True) cf_ev (init_cf Map.empty) s [t] \<and> isDeploying s"
proof -
  obtain q k where t: "turn (deployWorker JNull) (init_cf Map.empty) =
      (Await q k, (init_cf Map.empty)\<lparr>isDeploying := True, error := JNull\<rparr>)"
    by (simp add: deployWorker_def cf_fetch_def fetch_def Let_def)
  have d: "deployWorker JNull \<in> cf_acts" by (simp add: cf_acts_def)
  have "areach cf_acts (\<lambda>_ _. True) cf_ev (init_cf Map.empty)
     ((init_cf Map.empty)\<lparr>isDeploying := True, error := JNull\<rparr>) ([] @ [Await q k])"
    by (rule areach.call [OF areach.start d t])
  then show ?thesis by fastforce
qed

text \<open>The actions of the Cloudflare store that report failure to their caller (\<open>deployWorker\<close>,
  \<open>updateAccount\<close>, \<open>addManualAccount\<close>) end with their loading flag down, however they end and whatever
  runs in between, and throw only after a non-empty error is shown in the store.\<close>

theorem cloudflare_throw_shows_error:
  "wp (\<lambda>_ _. True) (\<lambda>_. True) (\<lambda>_ s. \<not> isDeploying s) (\<lambda>_ s. \<not> isDeploying s \<and> truthy (error s))
     (deployWorker payload) s \<and>
   wp (\<lambda>_ _. True) (\<lambda>_. True) (\<lambda>_ s. \<not> isLoading s) (\<lambda>_ s. \<not> isLoading s \<and> truthy (error s))
     (updateAccount i n) s \<and>
   wp (\<lambda>_ _. True) (\<lambda>_. True) (\<lambda>_ s. \<not> isLoading s) (\<lambda>_ s. \<not> isLoading s \<and> truthy (error s))
     (addManualAccount payload) s"
  by (intro conjI; simp add: cf_action_defs js_or_def split: reply_splits)

end
