(* ===== verification/Reconnect.thy ===== *)
theory Reconnect
  imports Browser
begin

text \<open>
  Reconnecting WebSockets. The jobs store and the two dashboard stores each keep one connection:
  \<open>initWebSocket\<close> opens a socket, its \<open>onclose\<close> handler schedules the next attempt, and the
  function that \<open>initWebSocket\<close> returns is called when the page unmounts. \<open>link\<close> is the part of
  their state this concerns, and the operations here are their shared code; the stores differ in
  a \<open>policy\<close>: whether the timer of the next attempt is remembered, so that the clean-up can cancel
  it, and whether the clean-up detaches \<open>onclose\<close> before it closes the socket.

  \<open>link_step\<close> is the abstract behaviour of such a connection under mounts, unmounts and socket
  events; \<open>link_owner\<close> is the contract of a store that refines it.
\<close>

record link =
  ws :: "nat option"
  reconnectTimeout :: "nat option"
  timers :: "(string \<times> bool) list"
  sockets :: "socket list"
  wsConnected :: bool

record policy =
  remembers :: bool
  detaches :: bool

definition init_link :: link where
  "init_link = \<lparr>ws = None, reconnectTimeout = None, timers = [], sockets = [], wsConnected = False\<rparr>"

text \<open>\<open>connect\<close>: \<open>ws = new WebSocket(url)\<close>; the constructor may throw.\<close>

definition link_connect :: "bool \<Rightarrow> string \<Rightarrow> 'x link_scheme \<Rightarrow> 'x link_scheme" where
  "link_connect throws url s =
     (if throws then s\<lparr>wsConnected := False\<rparr>
      else s\<lparr>ws := Some (length (sockets s)), sockets := sockets s @ [new_socket url]\<rparr>)"

definition link_onopen :: "'x link_scheme \<Rightarrow> 'x link_scheme" where
  "link_onopen s = s\<lparr>wsConnected := True\<rparr>"

definition link_onerror :: "'x link_scheme \<Rightarrow> 'x link_scheme" where
  "link_onerror s = s\<lparr>wsConnected := False\<rparr>"

text \<open>The \<open>onclose\<close> handler of a socket with this URL: \<open>setTimeout(connect, ...)\<close>. A timer is known
  by its index; its entry holds the URL that \<open>connect\<close> captured and whether it will still fire.\<close>

definition link_onclose :: "policy \<Rightarrow> string \<Rightarrow> 'x link_scheme \<Rightarrow> 'x link_scheme" where
  "link_onclose pol url s =
     s\<lparr>wsConnected := False,
       reconnectTimeout := (if remembers pol then Some (length (timers s)) else reconnectTimeout s),
       timers := timers s @ [(url, True)]\<rparr>"

definition clear_timer :: "nat \<Rightarrow> (string \<times> bool) list \<Rightarrow> (string \<times> bool) list" where
  "clear_timer k ts = (if k < length ts then ts[k := (fst (ts ! k), False)] else ts)"

definition link_cleanup :: "policy \<Rightarrow> 'x link_scheme \<Rightarrow> 'x link_scheme" where
  "link_cleanup pol s =
     (let s1 = (case reconnectTimeout s of
            Some k \<Rightarrow> if remembers pol then s\<lparr>timers := clear_timer k (timers s)\<rparr> else s
          | None \<Rightarrow> s)
      in case ws s1 of None \<Rightarrow> s1
         | Some i \<Rightarrow> s1\<lparr>sockets := close_socket i
                         (if detaches pol then detach_onclose i (sockets s1) else sockets s1),
                       ws := None\<rparr>)"

text \<open>The operations of a store that extends \<open>link\<close>, seen on its \<open>link\<close> part.\<close>

lemma truncate_link_ops:
  "link.truncate (link_connect t u s) = link_connect t u (link.truncate s)"
  "link.truncate (link_onopen s) = link_onopen (link.truncate s)"
  "link.truncate (link_onerror s) = link_onerror (link.truncate s)"
  "link.truncate (link_onclose p u s) = link_onclose p u (link.truncate s)"
  "link.truncate (link_cleanup p s) = link_cleanup p (link.truncate s)"
  "link.truncate (s\<lparr>sockets := w\<rparr>) = (link.truncate s)\<lparr>sockets := w\<rparr>"
  "link.truncate (s\<lparr>timers := ts\<rparr>) = (link.truncate s)\<lparr>timers := ts\<rparr>"
  by (simp_all add: link.truncate_def link_connect_def link_onopen_def link_onerror_def link_onclose_def
      link_cleanup_def Let_def split: option.splits)

lemma truncate_fields:
  "sockets (link.truncate s) = sockets s" "timers (link.truncate s) = timers s"
  by (simp_all add: link.truncate_def)

section \<open>The connection as a state machine\<close>

text \<open>The flag beside the state says whether the page is mounted.\<close>

inductive link_step :: "policy \<Rightarrow> link \<times> bool \<Rightarrow> link \<times> bool \<Rightarrow> bool" for pol where
  mount: "link_step pol (s, False) (link_connect throws url s, True)"
| unmount: "link_step pol (s, True) (link_cleanup pol s, False)"
| opened: "ready_of (sockets s) i = CONNECTING \<Longrightarrow>
     link_step pol (s, m) (link_onopen (s\<lparr>sockets := set_ready i OPEN (sockets s)\<rparr>), m)"
| errored: "ready_of (sockets s) i \<noteq> CLOSED \<Longrightarrow> link_step pol (s, m) (link_onerror s, m)"
| closed: "ready_of (sockets s) i \<noteq> CLOSED \<Longrightarrow> onclose_attached (sockets s) i \<Longrightarrow>
     link_step pol (s, m)
       (link_onclose pol (sock_url (sockets s ! i)) (s\<lparr>sockets := set_ready i CLOSED (sockets s)\<rparr>), m)"
| closed_silently: "ready_of (sockets s) i \<noteq> CLOSED \<Longrightarrow> \<not> onclose_attached (sockets s) i \<Longrightarrow>
     link_step pol (s, m) (s\<lparr>sockets := set_ready i CLOSED (sockets s)\<rparr>, m)"
| fired: "k < length (timers s) \<Longrightarrow> timers s ! k = (url, True) \<Longrightarrow>
     link_step pol (s, m) (link_connect throws url (s\<lparr>timers := clear_timer k (timers s)\<rparr>), m)"
| idle: "link_step pol (s, m) (s, m)"

inductive_cases link_stepE: "link_step pol x y"

definition pending :: "(string \<times> bool) list \<Rightarrow> nat set" where
  "pending ts = {k. k < length ts \<and> snd (ts ! k)}"

text \<open>The sockets whose closing schedules another attempt.\<close>

definition armed :: "socket list \<Rightarrow> nat set" where
  "armed ss = {i. ready_of ss i \<noteq> CLOSED \<and> onclose_attached ss i}"

lemma pending_snoc [simp]:
  "pending (ts @ [(url, b)]) = (if b then insert (length ts) (pending ts) else pending ts)"
  by (auto simp: pending_def nth_append less_Suc_eq)

lemma pending_clear [simp]: "pending (clear_timer k ts) = pending ts - {k}"
  by (auto simp: pending_def clear_timer_def nth_list_update split: if_splits)

lemma length_clear_timer [simp]: "length (clear_timer k ts) = length ts"
  by (simp add: clear_timer_def)

lemma finite_pending [simp]: "finite (pending ts)"
  by (simp add: pending_def)

lemma pending_bound: "k \<in> pending ts \<Longrightarrow> k < length ts"
  by (simp add: pending_def)

lemma armed_bound: "i \<in> armed ss \<Longrightarrow> i < length ss"
  by (simp add: armed_def onclose_attached_def)

lemma armed_ops [simp]:
  "armed (ss @ [new_socket url]) = insert (length ss) (armed ss)"
  "ready_of ss i \<noteq> CLOSED \<Longrightarrow> armed (set_ready i CLOSED ss) = armed ss - {i}"
  "ready_of ss i = CONNECTING \<Longrightarrow> armed (set_ready i OPEN ss) = armed ss"
  "armed (close_socket i ss) = armed ss"
  "armed (detach_onclose i ss) = armed ss - {i}"
  by (auto simp: armed_def onclose_attached_def [of _ "length ss"] split: if_splits)

text \<open>Under the careful policy there is one attempt at a time, and none while unmounted.\<close>

definition careful :: policy where
  "careful = \<lparr>remembers = True, detaches = True\<rparr>"

definition careless :: policy where
  "careless = \<lparr>remembers = False, detaches = False\<rparr>"

definition link_inv :: "link \<times> bool \<Rightarrow> bool" where
  "link_inv x \<longleftrightarrow> (case x of (s, m) \<Rightarrow>
     live_sockets (sockets s) \<subseteq> armed (sockets s) \<and>
     armed (sockets s) \<subseteq> set_option (ws s) \<and> pending (timers s) \<subseteq> set_option (reconnectTimeout s) \<and>
     (armed (sockets s) = {} \<or> pending (timers s) = {}) \<and>
     (\<not> m \<longrightarrow> armed (sockets s) = {} \<and> pending (timers s) = {}))"

lemma armed_live: "ready_of ss i \<noteq> CLOSED \<Longrightarrow> onclose_attached ss i \<Longrightarrow> i \<in> armed ss"
  by (simp add: armed_def)

lemma fires_pending: "k < length ts \<Longrightarrow> ts ! k = (url, True) \<Longrightarrow> k \<in> pending ts"
  by (simp add: pending_def)

lemma subset_option: "A \<subseteq> set_option x \<Longrightarrow> i \<in> A \<Longrightarrow> x = Some i \<and> A = {i}"
  by (cases x) auto

lemma link_inv_step: "link_step careful x y \<Longrightarrow> link_inv x \<Longrightarrow> link_inv y"
proof (induction rule: link_step.induct)
  case (unmount s)
  then show ?case
    by (cases "ws s"; cases "reconnectTimeout s") (auto simp: link_inv_def link_cleanup_def careful_def Let_def)
next
  case (closed s i m)
  with subset_option [of "armed (sockets s)" "ws s" i] show ?case
    by (auto simp: link_inv_def link_onclose_def careful_def armed_live)
next
  case (closed_silently s i m)
  then have "i \<notin> armed (sockets s)" by (simp add: armed_def)
  with closed_silently show ?case by (auto simp: link_inv_def)
next
  case (fired k s url m throws)
  with subset_option [of "pending (timers s)" "reconnectTimeout s" k] fires_pending [OF fired(1,2)]
  show ?case by (auto simp: link_inv_def link_connect_def)
qed (auto simp: link_inv_def link_connect_def link_onopen_def link_onerror_def)

lemma link_inv_init: "link_inv (init_link, False)"
  by (simp add: link_inv_def init_link_def pending_def armed_def live_sockets_def)

lemma link_reach_inv: "(link_step careful)\<^sup>*\<^sup>* (init_link, False) x \<Longrightarrow> link_inv x"
  by (erule reach_invariant [where P = link_inv]) (rule link_inv_init, rule link_inv_step)

lemma link_inv_single:
  assumes "link_inv (s, m)"
  shows "card (live_sockets (sockets s)) + card (pending (timers s)) \<le> 1"
    and "\<not> m \<Longrightarrow> live_sockets (sockets s) = {} \<and> pending (timers s) = {}"
proof -
  have le: "A \<subseteq> set_option x \<Longrightarrow> card A \<le> 1" for A and x :: "nat option"
    using card_mono [of "set_option x" A] by (cases x) auto
  have live: "live_sockets (sockets s) \<subseteq> set_option (ws s)" using assms by (auto simp: link_inv_def)
  show "card (live_sockets (sockets s)) + card (pending (timers s)) \<le> 1"
    using assms le [OF live] le [of "pending (timers s)"] by (auto simp: link_inv_def)
  show "\<not> m \<Longrightarrow> live_sockets (sockets s) = {} \<and> pending (timers s) = {}"
    using assms by (auto simp: link_inv_def)
qed

section \<open>Stores that own a connection\<close>

text \<open>A store refines the machine when each of its steps, seen through \<open>link_of\<close>, is one of the
  machine's; whatever holds of every run of the machine then holds of the store.\<close>

locale link_owner =
  fixes pol :: policy
    and link_of :: "'s \<Rightarrow> link"
    and step :: "'s \<times> bool \<Rightarrow> 's \<times> bool \<Rightarrow> bool"
    and s0 :: 's
  assumes init_sim: "link_of s0 = init_link"
    and step_sim: "step (s, m) (t, m') \<Longrightarrow> link_step pol (link_of s, m) (link_of t, m')"
begin

lemma reach_link:
  "step\<^sup>*\<^sup>* (s0, False) x \<Longrightarrow> (link_step pol)\<^sup>*\<^sup>* (init_link, False) (link_of (fst x), snd x)"
proof (induction rule: rtranclp_induct)
  case base
  then show ?case by (simp add: init_sim)
next
  case (step y z)
  then have "link_step pol (link_of (fst y), snd y) (link_of (fst z), snd z)"
    by (intro step_sim) simp
  with step.IH show ?case by (rule rtranclp.rtrancl_into_rtrancl)
qed

lemma single_link:
  assumes "pol = careful" and "step\<^sup>*\<^sup>* (s0, False) (s, m)"
  shows "card (live_sockets (sockets (link_of s))) + card (pending (timers (link_of s))) \<le> 1"
    and "\<not> m \<Longrightarrow> live_sockets (sockets (link_of s)) = {} \<and> pending (timers (link_of s)) = {}"
  using link_inv_single [OF link_reach_inv] reach_link [OF assms(2)] assms(1) by auto

end

end
