(* ===== verification/Jobs_Store.thy ===== *)
theory Jobs_Store
  imports Reconnect TS_Types
begin

text \<open>
  \<open>jobsStore.ts\<close> of both applications: the download jobs that the server pushes over
  \<open>/ws/jobs\<close>, and the commands sent back on the same socket. The two files differ in one optional
  field of \<open>TorrentJob\<close>.
\<close>

definition TorrentJob_fields :: "(string \<times> bool \<times> ts) list" where
  "TorrentJob_fields =
    [req ''info_hash'' TString, req ''name'' TString, req ''magnet_uri'' TString,
     req ''torrent_path'' TString, req ''save_directory'' TString,
     req ''status'' (literals [''downloading'', ''paused'', ''queued'', ''completed'', ''seeding'', ''error'']),
     req ''total_bytes'' TNumber, req ''downloaded'' TNumber, req ''uploaded'' TNumber,
     req ''progress'' TNumber, req ''download_speed'' TNumber, req ''upload_speed'' TNumber,
     req ''peers'' TNumber, req ''error_message'' TString, opt ''file_exists'' TBool,
     req ''created_at'' TString, req ''updated_at'' TString]"

definition TorrentJob :: ts where
  "TorrentJob = TObj TorrentJob_fields"

definition server_TorrentJob :: ts where
  "server_TorrentJob = TObj (opt ''s3_stored'' TBool # TorrentJob_fields)"

definition LeechJob :: ts where
  "LeechJob = TObj
    [req ''id'' TString, req ''url'' TString, req ''filename'' TString, req ''save_directory'' TString,
     req ''total_bytes'' TNumber, req ''downloaded'' TNumber,
     req ''status'' (literals [''pending'', ''downloading'', ''paused'', ''completed'', ''error'']),
     req ''progress'' TNumber, req ''speed'' TNumber, req ''threads'' TNumber,
     req ''error_message'' TString, opt ''file_exists'' TBool, opt ''s3_stored'' TBool,
     req ''created_at'' TString, req ''updated_at'' TString]"

definition YouTubeJob :: ts where
  "YouTubeJob = TObj
    [req ''id'' TString, req ''video_url'' TString, req ''video_id'' TString, req ''title'' TString,
     req ''author'' TString, req ''duration'' TString, req ''duration_seconds'' TNumber,
     req ''thumbnail'' TString, req ''filename'' TString, req ''save_directory'' TString,
     req ''selected_itag'' TNumber, req ''quality_label'' TString, req ''mime_type'' TString,
     req ''total_bytes'' TNumber, req ''downloaded'' TNumber,
     req ''status'' (literals [''pending'', ''fetching'', ''downloading'', ''converting'', ''completed'', ''error'']),
     req ''progress'' TNumber, req ''convert_progress'' TNumber, req ''speed'' TNumber,
     req ''convert_to_tv'' TBool, req ''convert_status'' TString, req ''error_message'' TString,
     opt ''file_exists'' TBool, req ''created_at'' TString, req ''updated_at'' TString]"

definition SpotifyJob :: ts where
  "SpotifyJob = TObj
    [req ''id'' TString, req ''spotify_url'' TString, req ''spotify_id'' TString, req ''title'' TString,
     req ''artist'' TString, req ''artists'' TString, req ''album'' TString, req ''album_artist'' TString,
     req ''cover_url'' TString, req ''release_date'' TString, req ''track_number'' TNumber,
     req ''total_tracks'' TNumber, req ''duration_ms'' TNumber, req ''isrc'' TString,
     req ''genre'' TString, req ''explicit'' TBool, req ''popularity'' TNumber,
     req ''youtube_url'' TString, req ''filename'' TString, req ''save_directory'' TString,
     req ''format'' TString, req ''bitrate'' TString, req ''total_bytes'' TNumber,
     req ''downloaded'' TNumber, req ''status'' TString, req ''progress'' TNumber,
     req ''speed'' TNumber, req ''album_job_id'' TString, req ''error_message'' TString,
     opt ''file_exists'' TBool, req ''created_at'' TString, req ''updated_at'' TString]"

record jobs_state = link +
  torrents :: jsv
  leechJobs :: jsv
  youtubeJobs :: jsv
  spotifyJobs :: jsv
  sent :: "(nat \<times> jsv) list"
  page_protocol :: string
  page_host :: string

definition init_jobs :: "string \<Rightarrow> string \<Rightarrow> jobs_state" where
  "init_jobs proto h = \<lparr>ws = None, reconnectTimeout = None, timers = [], sockets = [], wsConnected = False,
     torrents = JArr [], leechJobs = JArr [], youtubeJobs = JArr [], spotifyJobs = JArr [], sent = [],
     page_protocol = proto, page_host = h\<rparr>"

section \<open>Operations\<close>

definition initWebSocket :: "bool \<Rightarrow> string \<Rightarrow> jobs_state \<Rightarrow> jobs_state" where
  "initWebSocket throws token s =
     link_connect throws (ws_url (page_protocol s) (page_host s) ''/ws/jobs'' token) s"

definition cleanup_jobs :: "jobs_state \<Rightarrow> jobs_state" where
  "cleanup_jobs = link_cleanup careful"

definition onclose_jobs :: "string \<Rightarrow> jobs_state \<Rightarrow> jobs_state" where
  "onclose_jobs = link_onclose careful"

text \<open>\<open>onmessage\<close>: a frame that does not parse (\<open>None\<close>) or parses to \<open>null\<close> is dropped.\<close>

definition list_field :: "string \<Rightarrow> jsv \<Rightarrow> jsv res" where
  "list_field k data = (case get_prop data k of Inl e \<Rightarrow> Inl e | Inr v \<Rightarrow> Inr (js_or v (JArr [])))"

definition onmessage_jobs :: "jsv option \<Rightarrow> jobs_state \<Rightarrow> jobs_state" where
  "onmessage_jobs frame s = (case frame of None \<Rightarrow> s
     | Some data \<Rightarrow> (case map_res (\<lambda>k. list_field k data)
                      [''torrents'', ''leechJobs'', ''youtubeJobs'', ''spotifyJobs''] of
           Inr [t, l, y, p] \<Rightarrow> s\<lparr>torrents := t, leechJobs := l, youtubeJobs := y, spotifyJobs := p\<rparr>
         | _ \<Rightarrow> s))"

definition sendAction :: "jsv \<Rightarrow> jobs_state \<Rightarrow> jobs_state" where
  "sendAction cmd s = (case ws s of
       Some i \<Rightarrow> if ready_of (sockets s) i = OPEN then s\<lparr>sent := sent s @ [(i, cmd)]\<rparr> else s
     | None \<Rightarrow> s)"

section \<open>The store with its sockets and timers\<close>

text \<open>A page opens the connection when it mounts and calls the clean-up when it unmounts (the flag
  beside the state); \<open>F\<close> says which frames the server sends.\<close>

inductive jobs_step :: "(jsv option \<Rightarrow> bool) \<Rightarrow> jobs_state \<times> bool \<Rightarrow> jobs_state \<times> bool \<Rightarrow> bool"
  for F where
  mount: "jobs_step F (s, False) (initWebSocket throws token s, True)"
| unmount: "jobs_step F (s, True) (cleanup_jobs s, False)"
| opened: "ready_of (sockets s) i = CONNECTING \<Longrightarrow>
     jobs_step F (s, m) (link_onopen (s\<lparr>sockets := set_ready i OPEN (sockets s)\<rparr>), m)"
| message: "ready_of (sockets s) i = OPEN \<Longrightarrow> F frame \<Longrightarrow> jobs_step F (s, m) (onmessage_jobs frame s, m)"
| errored: "ready_of (sockets s) i \<noteq> CLOSED \<Longrightarrow> jobs_step F (s, m) (link_onerror s, m)"
| closed: "ready_of (sockets s) i \<noteq> CLOSED \<Longrightarrow> onclose_attached (sockets s) i \<Longrightarrow>
     jobs_step F (s, m)
       (onclose_jobs (sock_url (sockets s ! i)) (s\<lparr>sockets := set_ready i CLOSED (sockets s)\<rparr>), m)"
| closed_silently: "ready_of (sockets s) i \<noteq> CLOSED \<Longrightarrow> \<not> onclose_attached (sockets s) i \<Longrightarrow>
     jobs_step F (s, m) (s\<lparr>sockets := set_ready i CLOSED (sockets s)\<rparr>, m)"
| fired: "k < length (timers s) \<Longrightarrow> timers s ! k = (url, True) \<Longrightarrow>
     jobs_step F (s, m) (link_connect throws url (s\<lparr>timers := clear_timer k (timers s)\<rparr>), m)"
| send: "jobs_step F (s, m) (sendAction cmd s, m)"

inductive_cases jobs_stepE: "jobs_step F x y"

lemma truncate_jobs [simp]:
  "link.truncate (onmessage_jobs f s) = link.truncate s"
  "link.truncate (sendAction c s) = link.truncate s"
  by (simp_all add: onmessage_jobs_def sendAction_def link.truncate_def split: option.splits sum.splits list.splits)

lemma jobs_refines_link:
  "jobs_step F (s, m) (t, m') \<Longrightarrow> link_step careful (link.truncate s, m) (link.truncate t, m')"
  by (erule jobs_stepE)
    (auto simp: truncate_link_ops initWebSocket_def cleanup_jobs_def onclose_jobs_def
      intro: link_step.intros link_step.opened [of "link.truncate s", unfolded truncate_fields]
        link_step.closed [of "link.truncate s", unfolded truncate_fields]
        link_step.closed_silently [of "link.truncate s", unfolded truncate_fields]
        link_step.errored [of "link.truncate s", unfolded truncate_fields]
        link_step.fired [of _ "link.truncate s", unfolded truncate_fields])

interpretation jobs_link: link_owner careful link.truncate "jobs_step F" "init_jobs proto h" for F proto h
  by unfold_locales
    (simp_all add: init_jobs_def init_link_def link.truncate_def jobs_refines_link [unfolded link.truncate_def])

section \<open>Types\<close>

definition jobs_frame :: "ts \<Rightarrow> ts" where
  "jobs_frame torrent = TObj
    [opt ''torrents'' (nullable (TArr torrent)), opt ''leechJobs'' (nullable (TArr LeechJob)),
     opt ''youtubeJobs'' (nullable (TArr YouTubeJob)), opt ''spotifyJobs'' (nullable (TArr SpotifyJob))]"

definition jobs_typed :: "ts \<Rightarrow> jobs_state \<Rightarrow> bool" where
  "jobs_typed torrent s \<longleftrightarrow> conforms (TArr torrent) (torrents s) \<and> conforms (TArr LeechJob) (leechJobs s) \<and>
     conforms (TArr YouTubeJob) (youtubeJobs s) \<and> conforms (TArr SpotifyJob) (spotifyJobs s)"

lemma list_field_typed:
  assumes "conforms (TObj fs) data" and "(k, False, nullable (TArr t)) \<in> set fs"
    and "list_field k data = Inr v"
  shows "conforms (TArr t) v"
proof -
  obtain kvs where d: "data = JObj kvs" using assms(1) by (rule conforms_objE)
  then have "v = js_or (obj_get kvs k) (JArr [])" using assms(3) by (simp add: list_field_def)
  then show ?thesis using conforms_list_or_empty [OF assms(1) [unfolded d] assms(2)] by simp
qed

lemma onmessage_typed:
  assumes "jobs_typed torrent s" and "\<And>data. frame = Some data \<Longrightarrow> conforms (jobs_frame torrent) data"
  shows "jobs_typed torrent (onmessage_jobs frame s)"
proof (cases frame)
  case (Some data)
  then have "conforms (jobs_frame torrent) data" by (rule assms(2))
  note typed = list_field_typed [OF this [unfolded jobs_frame_def]]
  show ?thesis
    using assms(1) unfolding onmessage_jobs_def Some
    by (auto simp: jobs_typed_def split: sum.splits list.splits intro!: typed)
qed (use assms in \<open>simp add: onmessage_jobs_def\<close>)

lemma jobs_typed_step:
  assumes "jobs_step (\<lambda>f. \<forall>data. f = Some data \<longrightarrow> conforms (jobs_frame torrent) data) x y"
    and "jobs_typed torrent (fst x)"
  shows "jobs_typed torrent (fst y)"
  using assms
proof (induction rule: jobs_step.induct)
  case (message s i frame m)
  then show ?case by (auto intro: onmessage_typed)
qed (auto simp: jobs_typed_def initWebSocket_def cleanup_jobs_def onclose_jobs_def link_connect_def
    link_onopen_def link_onerror_def link_onclose_def link_cleanup_def sendAction_def Let_def
    split: option.splits)

section \<open>Properties\<close>

text \<open>C1: The jobs store has at most one connection attempt at a time: in every state that any
  sequence of mounts, unmounts, socket events and timers reaches, its live sockets and its
  pending reconnection timers together are at most one, and after the page has unmounted there is
  none, so nothing reconnects behind the user's back.\<close>

theorem jobs_single_connection:
  assumes "(jobs_step F)\<^sup>*\<^sup>* (init_jobs proto h, False) (s, m)"
  shows "card (live_sockets (sockets s)) + card (pending (timers s)) \<le> 1 \<and>
    (\<not> m \<longrightarrow> live_sockets (sockets s) = {} \<and> pending (timers s) = {})"
  using jobs_link.single_link [OF refl assms] by (simp add: truncate_fields)

text \<open>A page that loses its connection once and unmounts while the reconnection is pending.\<close>

definition lost_link :: jobs_state where
  "lost_link = (let s = initWebSocket False ''t'' (init_jobs ''https:'' ''h'') in
     onclose_jobs (sock_url (sockets s ! 0)) (s\<lparr>sockets := set_ready 0 CLOSED (sockets s)\<rparr>))"

lemma lost_link_reached:
  "(jobs_step F)\<^sup>*\<^sup>* (init_jobs ''https:'' ''h'', False) (lost_link, True)"
  "(jobs_step F)\<^sup>*\<^sup>* (init_jobs ''https:'' ''h'', False) (cleanup_jobs lost_link, False)"
proof -
  let ?s0 = "init_jobs ''https:'' ''h''" and ?s1 = "initWebSocket False ''t'' (init_jobs ''https:'' ''h'')"
  have 1: "jobs_step F (?s0, False) (?s1, True)" by (rule jobs_step.mount)
  have 2: "jobs_step F (?s1, True) (lost_link, True)"
    unfolding lost_link_def Let_def
    by (rule jobs_step.closed)
      (simp_all add: initWebSocket_def link_connect_def init_jobs_def onclose_attached_def)
  have 3: "jobs_step F (lost_link, True) (cleanup_jobs lost_link, False)" by (rule jobs_step.unmount)
  show "(jobs_step F)\<^sup>*\<^sup>* (?s0, False) (lost_link, True)" using 1 2 by (rule run_steps2)
  show "(jobs_step F)\<^sup>*\<^sup>* (?s0, False) (cleanup_jobs lost_link, False)" using 1 2 3 by (rule run_steps3)
qed

theorem jobs_single_connection_witness:
  "pending (timers lost_link) = {0} \<and> pending (timers (cleanup_jobs lost_link)) = {}"
proof -
  have "pending (timers lost_link) = {0}"
    by (simp add: lost_link_def Let_def onclose_jobs_def link_onclose_def initWebSocket_def
        link_connect_def init_jobs_def pending_def Collect_conv_if cong: conj_cong)
  with jobs_single_connection [OF lost_link_reached(2)] show ?thesis by simp
qed

text \<open>While the server pushes frames of the declared shape (each list present, \<open>null\<close> or
  missing), the four job lists always hold values of their TypeScript interfaces, in both
  applications, whatever else happens on the socket.\<close>

theorem jobs_store_typed:
  assumes "torrent = TorrentJob \<or> torrent = server_TorrentJob"
    and "(jobs_step (\<lambda>f. \<forall>data. f = Some data \<longrightarrow> conforms (jobs_frame torrent) data))\<^sup>*\<^sup>*
       (init_jobs proto h, False) (s, m)"
  shows "conforms (TArr torrent) (torrents s) \<and> conforms (TArr LeechJob) (leechJobs s) \<and>
    conforms (TArr YouTubeJob) (youtubeJobs s) \<and> conforms (TArr SpotifyJob) (spotifyJobs s)"
proof -
  have "jobs_typed torrent (fst (s, m))"
    using assms(2)
    by (rule reach_invariant [where P = "\<lambda>x. jobs_typed torrent (fst x)"])
      (simp add: jobs_typed_def init_jobs_def, rule jobs_typed_step)
  then show ?thesis by (simp add: jobs_typed_def)
qed

theorem jobs_store_typed_witness: "conforms (TArr TorrentJob) (torrents lost_link)"
  using jobs_store_typed [OF disjI1 [OF refl] lost_link_reached(1)] by blast

end
