(* ===== verification/Multipath_Store.thy ===== *)
theory Multipath_Store
  imports Browser TS_Types Windows Loading
begin

text \<open>
  \<open>multipathStore.ts\<close>: the bonding engine's configuration and status, its start and stop, the
  telemetry socket with the last 60 samples of each artery, and the diagnostics run. A tag is
  the text of \<open>a.tag\<close>; the wall-clock text of a sample is an argument of the handler.
\<close>

definition ArteryStatus :: ts where
  "ArteryStatus = TObj
    [req ''tag'' TString, req ''node_name'' TString, req ''address'' TString, req ''port'' TNumber,
     req ''state'' TString, req ''srtt_ms'' TNumber, req ''loss_pct'' TNumber, req ''win_rate'' TNumber,
     req ''throughput_mbps'' TNumber, req ''error_count'' TNumber]"

definition EngineStatus :: ts where
  "EngineStatus = TObj
    [req ''state'' TString, req ''mode'' TString, req ''active_count'' TNumber, req ''total_pool'' TNumber,
     req ''arteries'' (TArr ArteryStatus), req ''last_eval_at'' TString, req ''bytes_tx'' TNumber,
     req ''bytes_rx'' TNumber, req ''uplink_bps'' TNumber, req ''downlink_bps'' TNumber,
     req ''active_conns'' TNumber]"

definition BondingConfig :: ts where
  "BondingConfig = TObj
    [opt ''id'' TNumber, req ''is_active'' TBool, req ''mode'' TString, req ''striping_mode'' TString,
     req ''max_arteries'' TNumber, req ''min_arteries'' TNumber, req ''combiner_url'' TString,
     req ''origin_id'' TString, req ''psk_hex'' TString, req ''frame_size'' TNumber,
     req ''socks_port'' TNumber, req ''http_port'' TNumber, req ''eval_window_ms'' TNumber,
     req ''demote_rtt_x'' TNumber, req ''promote_rtt_x'' TNumber, req ''loss_demote_pct'' TNumber,
     req ''cooldown_sec'' TNumber, req ''error_budget'' TNumber]"

definition DiagnosticStep :: ts where
  "DiagnosticStep = TObj
    [req ''name'' TString, req ''description'' TString,
     req ''status'' (literals [''success'', ''warning'', ''error'', ''pending'']),
     opt ''error_message'' TString, opt ''details'' TString]"

record sample =
  time :: string
  srtt :: jsv
  loss :: jsv

record mp_state =
  status :: jsv
  config :: jsv
  loading :: bool
  error :: jsv
  wsConnected :: bool
  diagnoseResults :: jsv
  diagnoseLoading :: bool
  arteryHistory :: "string \<rightharpoonup> sample list"
  ws :: "nat option"
  sockets :: "socket list"
  page_protocol :: string
  page_host :: string
  local_storage :: storage

type_synonym mp_action = "(mp_state, unit) action"

definition init_mp :: "string \<Rightarrow> string \<Rightarrow> storage \<Rightarrow> mp_state" where
  "init_mp proto h st = \<lparr>status = JNull, config = JNull, loading = False, error = JNull,
     wsConnected = False, diagnoseResults = JNull, diagnoseLoading = False, arteryHistory = Map.empty,
     ws = None, sockets = [], page_protocol = proto, page_host = h, local_storage = st\<rparr>"

definition getToken :: "mp_state \<Rightarrow> string" where
  "getToken s = get_item_or (local_storage s) ''cc_client_token'' []"

definition apiHeaders :: "mp_state \<Rightarrow> (string \<times> string) list" where
  "apiHeaders s = [auth_header (getToken s), json_header]"

definition mp_fetch :: "string \<Rightarrow> string \<Rightarrow> jsv option \<Rightarrow> (mp_state, bool \<times> body) action" where
  "mp_fetch meth url b = Get (\<lambda>s. fetch (http_send meth url (apiHeaders s) b))"

section \<open>Telemetry\<close>

definition connectTelemetry :: "mp_state \<Rightarrow> mp_state" where
  "connectTelemetry s =
     (let s1 = (case ws s of None \<Rightarrow> s | Some i \<Rightarrow> s\<lparr>sockets := close_socket i (sockets s), ws := None\<rparr>);
          url = ws_url (page_protocol s1) (page_host s1) ''/ws/v2ray/bonding/telemetry'' (getToken s1)
      in s1\<lparr>ws := Some (length (sockets s1)), sockets := sockets s1 @ [new_socket url]\<rparr>)"

definition telemetry_cleanup :: "mp_state \<Rightarrow> mp_state" where
  "telemetry_cleanup s =
     (case ws s of None \<Rightarrow> s | Some i \<Rightarrow> s\<lparr>sockets := close_socket i (sockets s), ws := None\<rparr>)"

definition push_sample :: "sample \<Rightarrow> sample list \<Rightarrow> sample list" where
  "push_sample x h = slice_last 60 (h @ [x])"

type_synonym history = "string \<rightharpoonup> sample list"

text \<open>The body of the loop over \<open>data.arteries\<close>.\<close>

definition record_artery :: "string \<Rightarrow> jsv \<Rightarrow> history \<Rightarrow> history res" where
  "record_artery now a h =
     (case get_prop a ''tag'' of Inl e \<Rightarrow> Inl e
      | Inr tag \<Rightarrow> (let k = js_string tag; old = (case h k of None \<Rightarrow> [] | Some xs \<Rightarrow> xs) in
          Inr (h(k \<mapsto> push_sample \<lparr>time = now, srtt = opt_prop a ''srtt_ms'', loss = opt_prop a ''loss_pct''\<rparr> old))))"

fun record_arteries :: "string \<Rightarrow> jsv list \<Rightarrow> history \<Rightarrow> history res" where
  "record_arteries now [] h = Inr h"
| "record_arteries now (a # as) h =
     (case record_artery now a h of Inl e \<Rightarrow> Inl e | Inr h' \<Rightarrow> record_arteries now as h')"

definition telemetry_update :: "string \<Rightarrow> jsv \<Rightarrow> mp_state \<Rightarrow> mp_state res" where
  "telemetry_update now data s =
     (case get_prop data ''arteries'' of Inl e \<Rightarrow> Inl e
      | Inr as \<Rightarrow>
          (case (if truthy as
                 then (case iterate ''data.arteries'' as of Inl e \<Rightarrow> Inl e
                       | Inr xs \<Rightarrow> record_arteries now xs (arteryHistory s))
                 else Inr (arteryHistory s)) of
             Inl e \<Rightarrow> Inl e | Inr h \<Rightarrow> Inr (s\<lparr>status := data, arteryHistory := h\<rparr>)))"

text \<open>\<open>onmessage\<close>: an exception anywhere is swallowed and nothing is written.\<close>

definition onmessage_mp :: "string \<Rightarrow> jsv option \<Rightarrow> mp_state \<Rightarrow> mp_state" where
  "onmessage_mp now frame s = (case frame of None \<Rightarrow> s
     | Some data \<Rightarrow> (case telemetry_update now data s of Inl e \<Rightarrow> s | Inr s' \<Rightarrow> s'))"

definition onopen_mp :: "mp_state \<Rightarrow> mp_state" where
  "onopen_mp s = s\<lparr>wsConnected := True\<rparr>"

definition onclose_mp :: "mp_state \<Rightarrow> mp_state" where
  "onclose_mp s = s\<lparr>wsConnected := False\<rparr>"

section \<open>Requests\<close>

definition fetchConfig :: mp_action where
  "fetchConfig =
     try_catch
       (bind (mp_fetch ''GET'' ''/api/v2ray/bonding/config'' None) (\<lambda>(ok, b).
          if ok then bind (read_json b) (\<lambda>cfg. set_state (\<lambda>s. s\<lparr>config := cfg\<rparr>)) else Done ()))
       (\<lambda>e. set_state (\<lambda>s. s\<lparr>error := JStr e\<rparr>))"

text \<open>How the actions with a loading flag end: \<open>set({ error, loading: false })\<close>.\<close>

definition fail_loading :: "jsv \<Rightarrow> mp_action" where
  "fail_loading e = set_state (\<lambda>s. s\<lparr>error := e, loading := False\<rparr>)"

definition saveConfig :: "jsv \<Rightarrow> mp_action" where
  "saveConfig cfg =
     Set (\<lambda>s. s\<lparr>loading := True, error := JNull\<rparr>)
     (try_catch
       (bind (mp_fetch ''POST'' ''/api/v2ray/bonding/config'' (Some cfg)) (\<lambda>(ok, b).
          if ok then bind (read_json b) (\<lambda>data. bind (lift_res (get_prop data ''config'')) (\<lambda>c.
                 set_state (\<lambda>s. s\<lparr>config := js_or c cfg, loading := False\<rparr>)))
          else bind (api_error b ''Failed to save config'') fail_loading))
       (\<lambda>e. fail_loading (JStr e)))"

definition fetchStatus :: mp_action where
  "fetchStatus =
     try_catch
       (bind (mp_fetch ''GET'' ''/api/v2ray/bonding/status'' None) (\<lambda>(ok, b).
          if ok then bind (read_json b) (\<lambda>st. set_state (\<lambda>s. s\<lparr>status := st\<rparr>)) else Done ()))
       (\<lambda>e. set_state (\<lambda>s. s\<lparr>error := JStr e\<rparr>))"

definition startEngine :: mp_action where
  "startEngine =
     Set (\<lambda>s. s\<lparr>loading := True, error := JNull\<rparr>)
     (try_catch
       (bind (mp_fetch ''POST'' ''/api/v2ray/bonding/start'' None) (\<lambda>(ok, b).
          if ok then
            Set (\<lambda>s. s\<lparr>loading := False\<rparr>)
              (andthen (await_task fetchStatus) (set_state connectTelemetry))
          else bind (api_error b ''Failed to start engine'') fail_loading))
       (\<lambda>e. fail_loading (JStr e)))"

definition stopEngine :: mp_action where
  "stopEngine =
     Set (\<lambda>s. s\<lparr>loading := True, error := JNull\<rparr>)
     (try_catch
       (bind (mp_fetch ''POST'' ''/api/v2ray/bonding/stop'' None) (\<lambda>(ok, b).
          if ok then set_state (\<lambda>s. s\<lparr>loading := False, status := JNull, arteryHistory := Map.empty\<rparr>)
          else bind (api_error b ''Failed to stop engine'') fail_loading))
       (\<lambda>e. fail_loading (JStr e)))"

definition runDiagnostics :: "jsv option \<Rightarrow> mp_action" where
  "runDiagnostics cfg =
     Set (\<lambda>s. s\<lparr>diagnoseLoading := True, error := JNull\<rparr>)
     (try_catch
       (bind (mp_fetch (if cfg = None then ''GET'' else ''POST'') ''/api/v2ray/bonding/diagnose'' cfg) (\<lambda>(ok, b).
          if ok then bind (read_json b) (\<lambda>steps.
                 set_state (\<lambda>s. s\<lparr>diagnoseResults := steps, diagnoseLoading := False\<rparr>))
          else bind (api_error b ''Failed to run diagnostics'') (\<lambda>e.
                 set_state (\<lambda>s. s\<lparr>error := e, diagnoseLoading := False\<rparr>))))
       (\<lambda>e. set_state (\<lambda>s. s\<lparr>error := JStr e, diagnoseLoading := False\<rparr>)))"

section \<open>Everything that can happen\<close>

definition mp_acts :: "mp_action set" where
  "mp_acts = {fetchConfig, fetchStatus, startEngine, stopEngine} \<union> range saveConfig \<union> range runDiagnostics"

inductive mp_ev :: "mp_state \<Rightarrow> mp_state \<Rightarrow> bool" where
  connect: "mp_ev s (connectTelemetry s)"
| cleanup: "mp_ev s (telemetry_cleanup s)"
| opened: "ready_of (sockets s) i = CONNECTING \<Longrightarrow>
     mp_ev s (onopen_mp (s\<lparr>sockets := set_ready i OPEN (sockets s)\<rparr>))"
| message: "ready_of (sockets s) i = OPEN \<Longrightarrow> mp_ev s (onmessage_mp now frame s)"
| closed: "ready_of (sockets s) i \<noteq> CLOSED \<Longrightarrow>
     mp_ev s (onclose_mp (s\<lparr>sockets := set_ready i CLOSED (sockets s)\<rparr>))"

inductive_cases mp_evE: "mp_ev s t"

lemma wp_mp_fetch [simp]:
  "wp A I Q E (mp_fetch meth url b) s \<longleftrightarrow>
     I s \<and> (\<forall>r s'. A (http_send meth url (apiHeaders s) b) r \<longrightarrow> I s' \<longrightarrow>
       (case r of Rejected e \<Rightarrow> E e s' | Response ok b \<Rightarrow> Q (ok, b) s'))"
  by (simp add: mp_fetch_def)

lemmas mp_action_defs = fetchConfig_def saveConfig_def fetchStatus_def startEngine_def
  stopEngine_def runDiagnostics_def fail_loading_def

interpretation sample_window: sliding_window push_sample 60
  by unfold_locales (simp_all add: push_sample_def)

section \<open>The invariant\<close>

definition bounded_history :: "history \<Rightarrow> bool" where
  "bounded_history h \<longleftrightarrow> (\<forall>k xs. h k = Some xs \<longrightarrow> length xs \<le> 60)"

definition mp_inv :: "mp_state \<Rightarrow> bool" where
  "mp_inv s \<longleftrightarrow> live_sockets (sockets s) \<subseteq> set_option (ws s) \<and> bounded_history (arteryHistory s)"

lemma record_artery_bounded:
  "record_artery now a h = Inr h' \<Longrightarrow> bounded_history h \<Longrightarrow> bounded_history h'"
  by (auto simp: record_artery_def bounded_history_def Let_def split: sum.splits option.splits if_splits
      intro!: sample_window.push_bounded)

lemma record_arteries_bounded:
  "record_arteries now as h = Inr h' \<Longrightarrow> bounded_history h \<Longrightarrow> bounded_history h'"
  by (induction as arbitrary: h) (auto split: sum.splits dest: record_artery_bounded)

lemma telemetry_update_inv: "telemetry_update now data s = Inr s' \<Longrightarrow> mp_inv s \<Longrightarrow> mp_inv s'"
  by (auto simp: telemetry_update_def mp_inv_def split: sum.splits if_splits
      dest: record_arteries_bounded)

lemma mp_ev_inv: "mp_ev s t \<Longrightarrow> mp_inv s \<Longrightarrow> mp_inv t"
proof (induction rule: mp_ev.induct)
  case (connect s)
  then show ?case by (cases "ws s") (auto simp: mp_inv_def connectTelemetry_def Let_def)
next
  case (cleanup s)
  then show ?case by (cases "ws s") (auto simp: mp_inv_def telemetry_cleanup_def)
next
  case (message s i now frame)
  then show ?case
    by (auto simp: onmessage_mp_def split: option.splits sum.splits dest: telemetry_update_inv)
qed (auto simp: mp_inv_def onopen_mp_def onclose_mp_def)

lemma mp_inv_other [simp]:
  "mp_inv (s\<lparr>status := v\<rparr>) = mp_inv s" "mp_inv (s\<lparr>config := v\<rparr>) = mp_inv s"
  "mp_inv (s\<lparr>loading := l\<rparr>) = mp_inv s" "mp_inv (s\<lparr>error := v\<rparr>) = mp_inv s"
  "mp_inv (s\<lparr>diagnoseResults := v\<rparr>) = mp_inv s" "mp_inv (s\<lparr>diagnoseLoading := l\<rparr>) = mp_inv s"
  "mp_inv s \<Longrightarrow> mp_inv (s\<lparr>arteryHistory := Map.empty\<rparr>)"
  by (simp_all add: mp_inv_def bounded_history_def)

lemma mp_acts_inv: "t \<in> mp_acts \<Longrightarrow> mp_inv s \<Longrightarrow> keeps A mp_inv t s"
  using mp_ev_inv [OF mp_ev.connect]
  by (auto simp: mp_acts_def mp_action_defs split: reply.splits body.splits sum.splits)

interpretation mp_async: async_store mp_acts "\<lambda>_ _. True" mp_ev "init_mp proto h st" mp_inv for proto h st
proof
  show "mp_inv (init_mp proto h st)"
    by (simp add: mp_inv_def init_mp_def bounded_history_def live_sockets_def)
qed (rule mp_acts_inv mp_ev_inv; assumption)+

section \<open>Loading flags\<close>

lemma mp_loading_lowers:
  "lowers loading stopEngine s" "lowers loading (saveConfig c) s"
  "lowers diagnoseLoading (runDiagnostics o1) s"
  by (simp_all add: mp_action_defs split: reply.splits body.splits sum.splits)

lemma never_raises_mp_fetch [simp]: "never_raises flag (mp_fetch meth url b)"
  by (simp add: mp_fetch_def fetch_def split: reply.splits)

lemma never_raises_replies [simp]:
  "never_raises flag (read_json b)" "never_raises flag (api_error b x)"
  by (auto simp: read_json_def api_error_def intro!: never_raises_rules split: body.splits)

lemma connectTelemetry_flags [simp]:
  "loading (connectTelemetry s) = loading s" "diagnoseLoading (connectTelemetry s) = diagnoseLoading s"
  by (simp_all add: connectTelemetry_def Let_def split: option.splits)

lemma mp_loading_never:
  "never_raises loading fetchConfig" "never_raises loading fetchStatus"
  "never_raises loading (runDiagnostics o1)"
  by (auto simp: mp_action_defs keeps_low_def intro!: never_raises_rules split: prod.splits sum.splits)

lemma mp_diagnose_never:
  "never_raises diagnoseLoading fetchConfig" "never_raises diagnoseLoading fetchStatus"
  "never_raises diagnoseLoading startEngine" "never_raises diagnoseLoading stopEngine"
  "never_raises diagnoseLoading (saveConfig c)"
  by (auto simp: mp_action_defs keeps_low_def andthen_def intro!: never_raises_rules
      split: prod.splits sum.splits)

text \<open>\<open>startEngine\<close> lowers the flag before it awaits the status, and does not raise it again.\<close>

lemma startEngine_rest: "never_raises loading (try_catch
    (andthen (await_task fetchStatus) (set_state connectTelemetry)) (\<lambda>e. fail_loading (JStr e)))"
  by (auto simp: andthen_def fail_loading_def keeps_low_def mp_loading_never intro!: never_raises_rules)

lemma startEngine_settles: "settles loading startEngine s"
  by (auto simp: startEngine_def mp_fetch_def fetch_def api_error_def read_json_def lift_res_def
      startEngine_rest [unfolded fail_loading_def] fail_loading_def split: reply.splits body.splits sum.splits)

interpretation mp_loading: busy_flag loading mp_acts "\<lambda>_ _. True" mp_ev "init_mp proto h st" for proto h st
proof
  show "\<not> loading (init_mp proto h st)" by (simp add: init_mp_def)
  show "(\<forall>s. settles loading t s) \<or> never_raises loading t" if "t \<in> mp_acts" for t
    using that by (auto simp: mp_acts_def mp_loading_lowers [THEN lowers_settles] startEngine_settles
        mp_loading_never)
  show "loading s" if "mp_ev s s'" "loading s'" for s s'
    using that by (induction rule: mp_ev.induct)
      (auto simp: telemetry_cleanup_def onopen_mp_def onclose_mp_def onmessage_mp_def telemetry_update_def
        split: option.splits sum.splits if_splits)
qed

interpretation mp_diagnosing:
  busy_flag diagnoseLoading mp_acts "\<lambda>_ _. True" mp_ev "init_mp proto h st" for proto h st
proof
  show "\<not> diagnoseLoading (init_mp proto h st)" by (simp add: init_mp_def)
  show "(\<forall>s. settles diagnoseLoading t s) \<or> never_raises diagnoseLoading t" if "t \<in> mp_acts" for t
    using that by (auto simp: mp_acts_def mp_loading_lowers [THEN lowers_settles] mp_diagnose_never)
  show "diagnoseLoading s" if "mp_ev s s'" "diagnoseLoading s'" for s s'
    using that by (induction rule: mp_ev.induct)
      (auto simp: telemetry_cleanup_def onopen_mp_def onclose_mp_def onmessage_mp_def telemetry_update_def
        split: option.splits sum.splits if_splits)
qed

section \<open>Properties\<close>

text \<open>At most one telemetry socket is alive, and it is the one the store holds; the history of an
  artery never exceeds 60 samples; and no spinner outlives its actions: this holds under every
  interleaving of the six actions with mounts, unmounts and socket events.\<close>

theorem multipath_store_safe:
  assumes "areach mp_acts (\<lambda>_ _. True) mp_ev (init_mp proto h st) s p"
  shows "live_sockets (sockets s) \<subseteq> set_option (ws s) \<and>
    (\<forall>k xs. arteryHistory s k = Some xs \<longrightarrow> length xs \<le> 60) \<and>
    (loading s \<or> diagnoseLoading s \<longrightarrow> (\<exists>t\<in>set p. suspended t))"
  using mp_async.reach_inv [OF assms] mp_loading.busy_means_running [OF assms]
    mp_diagnosing.busy_means_running [OF assms]
  by (auto simp: mp_inv_def bounded_history_def)

definition two_connects :: mp_state where
  "two_connects = connectTelemetry (connectTelemetry (init_mp ''http:'' ''h'' Map.empty))"

lemma two_connects_reached:
  "areach mp_acts (\<lambda>_ _. True) mp_ev (init_mp ''http:'' ''h'' Map.empty) two_connects []"
  unfolding two_connects_def
  by (rule areach.event [OF areach.event [OF areach.start]]) (rule mp_ev.connect)+

theorem multipath_store_safe_witness:
  "live_sockets (sockets two_connects) \<subseteq> {1} \<and> length (sockets two_connects) = 2"
  using multipath_store_safe [OF two_connects_reached]
  by (auto simp: two_connects_def connectTelemetry_def init_mp_def Let_def)

definition samples_of :: "history \<Rightarrow> string \<Rightarrow> sample list" where
  "samples_of h k = (case h k of None \<Rightarrow> [] | Some xs \<Rightarrow> xs)"

definition sample_at :: "string \<Rightarrow> jsv \<Rightarrow> sample" where
  "sample_at now a = \<lparr>time = now, srtt = opt_prop a ''srtt_ms'', loss = opt_prop a ''loss_pct''\<rparr>"

lemma record_artery_samples:
  "record_artery now a h = Inr h1 \<Longrightarrow> samples_of h1 k =
     (if js_string (opt_prop a ''tag'') = k then push_sample (sample_at now a) (samples_of h k)
      else samples_of h k)"
  by (auto simp: record_artery_def opt_prop_def samples_of_def sample_at_def Let_def split: sum.splits)

lemma samples_bounded: "bounded_history h \<Longrightarrow> length (samples_of h k) \<le> 60"
  by (auto simp: bounded_history_def samples_of_def split: option.splits)

lemma record_arteries_history:
  assumes "bounded_history h" and "record_arteries now as h = Inr h'"
  shows "samples_of h' k = slice_last 60 (samples_of h k @
      map (sample_at now) (filter (\<lambda>a. js_string (opt_prop a ''tag'') = k) as))"
  using assms
proof (induction as arbitrary: h)
  case Nil
  then show ?case using samples_bounded [of h k] by (simp add: slice_last_id)
next
  case (Cons a as)
  obtain h1 where 1: "record_artery now a h = Inr h1" and 2: "record_arteries now as h1 = Inr h'"
    using Cons.prems(2) by (auto split: sum.splits)
  show ?case
    using Cons.IH [OF record_artery_bounded [OF 1 Cons.prems(1)] 2] record_artery_samples [OF 1, of k]
    by (simp add: push_sample_def slice_last_append)
qed

lemma record_arteries_defined: "\<forall>a\<in>set as. is_obj a \<Longrightarrow> \<exists>h'. record_arteries now as h = Inr h'"
proof (induction as arbitrary: h)
  case (Cons a as)
  then obtain kvs where "a = JObj kvs" by (cases a) auto
  then obtain h1 where "record_artery now a h = Inr h1" by (simp add: record_artery_def Let_def)
  then show ?case using Cons.IH [of h1] Cons.prems by simp
qed simp

text \<open>A telemetry frame whose arteries are a list appends to each artery's history its own samples,
  in the frame's order, and keeps the last 60; the histories of other arteries stay as they
  were, and the status becomes the frame.\<close>

theorem multipath_history_last_60:
  assumes "\<forall>k xs. arteryHistory s k = Some xs \<longrightarrow> length xs \<le> 60"
    and "obj_get kvs ''arteries'' = JArr as" and "\<forall>a\<in>set as. is_obj a"
  shows "let s' = onmessage_mp now (Some (JObj kvs)) s in status s' = JObj kvs \<and>
    samples_of (arteryHistory s') k = slice_last 60 (samples_of (arteryHistory s) k @
      map (sample_at now) (filter (\<lambda>a. js_string (opt_prop a ''tag'') = k) as))"
proof -
  have "\<exists>h'. record_arteries now as h = Inr h'" for h by (rule record_arteries_defined [OF assms(3)])
  then obtain h' where h': "record_arteries now as (arteryHistory s) = Inr h'" by blast
  have "bounded_history (arteryHistory s)" using assms(1) by (simp add: bounded_history_def)
  from record_arteries_history [OF this h'] show ?thesis
    using assms(2) by (simp add: onmessage_mp_def telemetry_update_def h' Let_def)
qed

theorem multipath_history_last_60_witness:
  "let a = JObj [(''tag'', JStr ''a''), (''srtt_ms'', JNum 7)] in
     samples_of (arteryHistory (onmessage_mp ''t'' (Some (JObj [(''arteries'', JArr [a])]))
       (init_mp ''http:'' ''h'' Map.empty))) ''a'' = [\<lparr>time = ''t'', srtt = JNum 7, loss = JUndef\<rparr>]"
  using multipath_history_last_60 [of "init_mp ''http:'' ''h'' Map.empty"
      "[(''arteries'', JArr [JObj [(''tag'', JStr ''a''), (''srtt_ms'', JNum 7)]])]"
      "[JObj [(''tag'', JStr ''a''), (''srtt_ms'', JNum 7)]]" "''t''" "''a''"]
  by (simp add: Let_def init_mp_def samples_of_def sample_at_def opt_prop_def slice_last_def)

text \<open>The handlers do not ask whether their socket is still the store's: the close event of a
  replaced socket clears the flag of the open one.\<close>

lemma multipath_stale_close:
  "\<exists>s. areach mp_acts (\<lambda>_ _. True) mp_ev (init_mp ''http:'' ''h'' Map.empty) s [] \<and>
     ws s = Some 1 \<and> ready_of (sockets s) 1 = OPEN \<and> \<not> wsConnected s"
proof -
  let ?s1 = "onopen_mp (two_connects\<lparr>sockets := set_ready 1 OPEN (sockets two_connects)\<rparr>)"
  let ?s2 = "onclose_mp (?s1\<lparr>sockets := set_ready 0 CLOSED (sockets ?s1)\<rparr>)"
  have ready: "length (sockets two_connects) = 2" "ready_of (sockets two_connects) (Suc 0) = CONNECTING"
    "ready_of (sockets two_connects) 0 = CLOSING" "ws two_connects = Some 1"
    by (simp_all add: two_connects_def connectTelemetry_def init_mp_def Let_def)
  have "mp_ev two_connects ?s1" by (rule mp_ev.opened) (simp add: ready)
  moreover have "mp_ev ?s1 ?s2" by (rule mp_ev.closed) (simp add: onopen_mp_def ready)
  ultimately have "areach mp_acts (\<lambda>_ _. True) mp_ev (init_mp ''http:'' ''h'' Map.empty) ?s2 []"
    using areach.event [OF areach.event [OF two_connects_reached]] by simp
  then show ?thesis by (intro exI [of _ ?s2]) (simp add: onclose_mp_def onopen_mp_def ready)
qed

end
