(* ===== verification/Lookup_Store.thy ===== *)
theory Lookup_Store
  imports Browser TS_Types Loading
begin

text \<open>
  \<open>lookupStore.ts\<close>: the lookup of one address or domain, the API keys it uses, and the bulk scan,
  which runs over a WebSocket that the store keeps in its state.
\<close>

definition IPGeoInfo :: ts where
  "IPGeoInfo = TObj
    [req ''ip'' TString, req ''country'' TString, req ''country_code'' TString, req ''city'' TString,
     req ''asn'' TString, req ''isp'' TString, req ''latitude'' TNumber, req ''longitude'' TNumber,
     req ''proxy_status'' TString, req ''is_proxy'' TBool, req ''provider'' TString,
     req ''raw_json'' TString, req ''updated_at'' TString]"

definition DomainWhoisInfo :: ts where
  "DomainWhoisInfo = TObj
    [req ''domain_name'' TString, req ''registrar'' TString, req ''creation_date'' TString,
     req ''expiry_date'' TString, req ''name_servers'' (TArr TString), req ''raw_json'' TString,
     req ''updated_at'' TString]"

definition LookupResponse :: ts where
  "LookupResponse = TObj
    [req ''target'' TString, req ''type'' (literals [''ip'', ''domain'']), opt ''resolved_ip'' TString,
     opt ''geo'' IPGeoInfo, opt ''whois'' DomainWhoisInfo, req ''source'' (literals [''cache'', ''api'']),
     req ''quota_error'' TBool, opt ''error_msg'' TString]"

definition ApiKeysConfig :: ts where
  "ApiKeysConfig = TObj
    [opt ''ID'' TNumber, req ''ip2location_key'' TString, req ''ip_api_key'' TString,
     req ''ip_geolocation_key'' TString, req ''ip_whois_key'' TString, req ''find_ip_key'' TString,
     req ''enable_ip2location'' TBool, req ''enable_ip_api'' TBool, req ''enable_ip_geolocation'' TBool,
     req ''enable_ip_whois'' TBool, req ''enable_find_ip'' TBool]"

record lookup_state =
  activeTarget :: string
  lookupResult :: jsv
  isLoading :: bool
  errorAlert :: jsv
  apiConfig :: jsv
  bulkProgress :: "jsv \<times> jsv"
  bulkResults :: "jsv list"
  isBulkLoading :: bool
  bulkSocket :: "nat option"
  sockets :: "socket list"
  sent :: "(nat \<times> jsv) list"
  scans :: "(nat \<times> string list) list"
  page_protocol :: string
  page_host :: string
  local_storage :: storage

type_synonym 'a lookup_action = "(lookup_state, 'a) action"

definition init_lookup :: "string \<Rightarrow> string \<Rightarrow> storage \<Rightarrow> lookup_state" where
  "init_lookup proto h st = \<lparr>activeTarget = [], lookupResult = JNull, isLoading = False, errorAlert = JNull,
     apiConfig = JNull, bulkProgress = (JNum 0, JNum 0), bulkResults = [], isBulkLoading = False,
     bulkSocket = None, sockets = [], sent = [], scans = [], page_protocol = proto, page_host = h,
     local_storage = st\<rparr>"

definition lookup_token :: "lookup_state \<Rightarrow> string" where
  "lookup_token s = get_item_or (local_storage s) ''cc_client_token'' []"

definition lookup_fetch :: "string \<Rightarrow> string \<Rightarrow> jsv option \<Rightarrow> (bool \<times> body) lookup_action" where
  "lookup_fetch meth url b = Get (\<lambda>s. let auth = auth_header (lookup_token s) in
     fetch (http_send meth url (case b of None \<Rightarrow> [auth] | Some _ \<Rightarrow> [json_header, auth]) b))"

section \<open>API keys\<close>

definition fetchApiConfig :: "unit lookup_action" where
  "fetchApiConfig =
     try_catch
       (bind (lookup_fetch ''GET'' ''/api/settings/apikeys'' None) (\<lambda>(ok, b).
          if ok then bind (read_json b) (\<lambda>data. set_state (\<lambda>s. s\<lparr>apiConfig := data\<rparr>)) else Done ()))
       (\<lambda>_. Done ())"

definition saveApiConfig :: "jsv \<Rightarrow> bool lookup_action" where
  "saveApiConfig cfg =
     try_catch
       (bind (lookup_fetch ''POST'' ''/api/settings/apikeys'' (Some cfg)) (\<lambda>(ok, b).
          if ok then Set (\<lambda>s. s\<lparr>apiConfig := cfg\<rparr>) (Done True) else Done False))
       (\<lambda>_. Done False)"

definition testConnection :: "string \<Rightarrow> string \<Rightarrow> jsv lookup_action" where
  "testConnection service key =
     try_catch
       (bind (lookup_fetch ''POST'' ''/api/settings/test-key''
                (Some (JObj [(''service'', JStr service), (''key'', JStr key)]))) (\<lambda>(ok, b).
          if ok then read_json b
          else Done (JObj [(''valid'', JBool False), (''error'', JStr ''Network request failed'')])))
       (\<lambda>e. Done (JObj [(''valid'', JBool False), (''error'', JStr e)]))"

section \<open>One lookup\<close>

definition performLookup :: "string \<Rightarrow> string option \<Rightarrow> unit lookup_action" where
  "performLookup target type =
     Set (\<lambda>s. s\<lparr>isLoading := True, errorAlert := JNull, lookupResult := JNull, activeTarget := target\<rparr>)
     (finally_do
       (try_catch
         (bind (lookup_fetch ''POST'' ''/api/network/lookup'' (Some (JObj [(''target'', JStr target),
                  (''type'', JStr (case type of None \<Rightarrow> ''auto'' | Some t \<Rightarrow> t))]))) (\<lambda>(ok, b).
            if ok then
              bind (read_json b) (\<lambda>data.
              bind (lift_res (get_prop data ''quota_error'')) (\<lambda>quota.
              bind (lift_res (get_prop data ''error_msg'')) (\<lambda>msg.
                if truthy quota then set_state (\<lambda>s. s\<lparr>lookupResult := data, errorAlert :=
                  JStr ''Quota limit exceeded or no API key set. Please configure settings.''\<rparr>)
                else if truthy msg then set_state (\<lambda>s. s\<lparr>errorAlert := msg, lookupResult := data\<rparr>)
                else set_state (\<lambda>s. s\<lparr>lookupResult := data\<rparr>))))
            else
              bind (try_catch (read_json b) (\<lambda>_. Done (JObj []))) (\<lambda>errData.
              bind (lift_res (get_prop errData ''error'')) (\<lambda>e.
                set_state (\<lambda>s. s\<lparr>errorAlert :=
                  js_or e (JStr ''Failed to scan target. Check connection or settings.'')\<rparr>)))))
         (\<lambda>e. set_state (\<lambda>s. s\<lparr>errorAlert := js_or (JStr e) (JStr ''An unexpected error occurred.'')\<rparr>)))
       (\<lambda>s. s\<lparr>isLoading := False\<rparr>))"

section \<open>The bulk scan\<close>

text \<open>A socket's \<open>onopen\<close> handler sends the addresses its scan was started with; \<open>scans\<close> records
  them per socket.\<close>

definition startBulkLookup :: "string list \<Rightarrow> lookup_state \<Rightarrow> lookup_state" where
  "startBulkLookup ips s =
     (let s1 = (case bulkSocket s of None \<Rightarrow> s | Some i \<Rightarrow> s\<lparr>sockets := close_socket i (sockets s)\<rparr>);
          url = ws_url (page_protocol s1) (page_host s1) ''/ws'' (lookup_token s1);
          s2 = s1\<lparr>isBulkLoading := True, bulkProgress := (JNum 0, JNum (of_nat (length ips))),
                  bulkResults := [], errorAlert := JNull\<rparr>
      in s2\<lparr>bulkSocket := Some (length (sockets s2)), scans := scans s2 @ [(length (sockets s2), ips)],
            sockets := sockets s2 @ [new_socket url]\<rparr>)"

definition bulk_onopen :: "nat \<Rightarrow> lookup_state \<Rightarrow> lookup_state" where
  "bulk_onopen i s = (case map_of (scans s) i of None \<Rightarrow> s
     | Some ips \<Rightarrow> s\<lparr>sent := sent s @ [(i, JObj [(''type'', JStr ''bulk_lookup''),
         (''data'', JObj [(''ips'', JArr (map JStr ips))])])]\<rparr>)"

definition bulk_update :: "jsv \<Rightarrow> lookup_state \<Rightarrow> lookup_state res" where
  "bulk_update msg s =
     (case get_prop msg ''type'' of Inl e \<Rightarrow> Inl e
      | Inr type \<Rightarrow>
          if strict_eq type (JStr ''BULK_PROGRESS'') \<and> strict_eq (opt_prop msg ''event'') (JStr ''BULK_PROGRESS'')
          then (case iterate ''newBatch'' (js_or (opt_prop msg ''data'') (JArr [])) of Inl e \<Rightarrow> Inl e
            | Inr newBatch \<Rightarrow> Inr (s\<lparr>
                bulkProgress := (opt_prop msg ''resolved'', opt_prop msg ''total''),
                bulkResults := bulkResults s @ newBatch,
                isBulkLoading := js_less (opt_prop msg ''resolved'') (opt_prop msg ''total'')\<rparr>))
          else Inr s)"

definition bulk_onmessage :: "jsv option \<Rightarrow> lookup_state \<Rightarrow> lookup_state" where
  "bulk_onmessage frame s = (case frame of None \<Rightarrow> s
     | Some msg \<Rightarrow> (case bulk_update msg s of Inl e \<Rightarrow> s | Inr s' \<Rightarrow> s'))"

definition bulk_onerror :: "lookup_state \<Rightarrow> lookup_state" where
  "bulk_onerror s = s\<lparr>errorAlert := JStr ''WebSocket connection failed.'', isBulkLoading := False\<rparr>"

definition bulk_onclose :: "lookup_state \<Rightarrow> lookup_state" where
  "bulk_onclose s = s\<lparr>isBulkLoading := False, bulkSocket := None\<rparr>"

definition stopBulkLookup :: "lookup_state \<Rightarrow> lookup_state" where
  "stopBulkLookup s =
     (case bulkSocket s of None \<Rightarrow> s | Some i \<Rightarrow> s\<lparr>sockets := close_socket i (sockets s)\<rparr>)
     \<lparr>isBulkLoading := False, bulkSocket := None\<rparr>"

definition resetLookup :: "lookup_state \<Rightarrow> lookup_state" where
  "resetLookup s = s\<lparr>activeTarget := [], lookupResult := JNull, isLoading := False, errorAlert := JNull,
     bulkProgress := (JNum 0, JNum 0), bulkResults := [], isBulkLoading := False\<rparr>"

section \<open>Everything that can happen\<close>

definition lookup_acts :: "unit lookup_action set" where
  "lookup_acts = {fetchApiConfig} \<union> {void (saveApiConfig c) | c. True} \<union>
     {void (testConnection a b) | a b. True} \<union> {performLookup t o1 | t o1. True}"

inductive lookup_ev :: "lookup_state \<Rightarrow> lookup_state \<Rightarrow> bool" where
  scan: "lookup_ev s (startBulkLookup ips s)"
| stop: "lookup_ev s (stopBulkLookup s)"
| reset: "lookup_ev s (resetLookup s)"
| opened: "ready_of (sockets s) i = CONNECTING \<Longrightarrow>
     lookup_ev s (bulk_onopen i (s\<lparr>sockets := set_ready i OPEN (sockets s)\<rparr>))"
| message: "ready_of (sockets s) i = OPEN \<Longrightarrow> lookup_ev s (bulk_onmessage frame s)"
| errored: "ready_of (sockets s) i \<noteq> CLOSED \<Longrightarrow> lookup_ev s (bulk_onerror s)"
| closed: "ready_of (sockets s) i \<noteq> CLOSED \<Longrightarrow>
     lookup_ev s (bulk_onclose (s\<lparr>sockets := set_ready i CLOSED (sockets s)\<rparr>))"

inductive_cases lookup_evE: "lookup_ev s t"

lemma wp_lookup_fetch [simp]:
  "wp A I Q E (lookup_fetch meth url b) s \<longleftrightarrow>
     I s \<and> (\<forall>r s'. A (http_send meth url
              (case b of None \<Rightarrow> [auth_header (lookup_token s)]
               | Some _ \<Rightarrow> [json_header, auth_header (lookup_token s)]) b) r \<longrightarrow> I s' \<longrightarrow>
       (case r of Rejected e \<Rightarrow> E e s' | Response ok b \<Rightarrow> Q (ok, b) s'))"
  by (simp add: lookup_fetch_def Let_def)

lemma never_raises_lookup_fetch [simp]: "never_raises flag (lookup_fetch meth url b)"
  by (simp add: lookup_fetch_def fetch_def Let_def split: reply.splits)

lemma lookup_loading:
  "lowers isLoading (performLookup t o1) s"
  "never_raises isLoading fetchApiConfig"
  "never_raises isLoading (void (saveApiConfig c))"
  "never_raises isLoading (void (testConnection a b))"
  by (auto simp: performLookup_def fetchApiConfig_def saveApiConfig_def testConnection_def keeps_low_def
      read_json_def intro!: never_raises_rules split: reply.splits body.splits sum.splits prod.splits)

interpretation lookup_spinner:
  busy_flag isLoading lookup_acts "\<lambda>_ _. True" lookup_ev "init_lookup proto h st" for proto h st
proof
  show "\<not> isLoading (init_lookup proto h st)" by (simp add: init_lookup_def)
  show "(\<forall>s. settles isLoading t s) \<or> never_raises isLoading t" if "t \<in> lookup_acts" for t
    using that by (auto simp: lookup_acts_def lookup_loading(1) [THEN lowers_settles] lookup_loading)
  show "isLoading s" if "lookup_ev s s'" "isLoading s'" for s s'
    using that by (induction rule: lookup_ev.induct)
      (auto simp: startBulkLookup_def stopBulkLookup_def resetLookup_def bulk_onopen_def bulk_onmessage_def
        bulk_update_def bulk_onerror_def bulk_onclose_def Let_def split: option.splits sum.splits if_splits)
qed

section \<open>Properties\<close>

text \<open>A progress frame as the server sends it.\<close>

definition progress_frame :: "rat \<Rightarrow> rat \<Rightarrow> jsv list \<Rightarrow> jsv" where
  "progress_frame dn tot batch = JObj
     [(''type'', JStr ''BULK_PROGRESS''), (''event'', JStr ''BULK_PROGRESS''), (''data'', JArr batch),
      (''resolved'', JNum dn), (''total'', JNum tot)]"

lemma bulk_frame:
  "bulk_onmessage (Some (progress_frame d n xs)) s = s\<lparr>bulkProgress := (JNum d, JNum n),
     bulkResults := bulkResults s @ xs, isBulkLoading := d < n\<rparr>"
  by (simp add: bulk_onmessage_def bulk_update_def progress_frame_def opt_prop_def)

lemma bulk_frames_results:
  "bulkResults (fold (\<lambda>(d, n, xs). bulk_onmessage (Some (progress_frame d n xs))) fs s) =
     bulkResults s @ concat (map (\<lambda>(d, n, xs). xs) fs)"
  by (induction fs arbitrary: s) (auto simp: bulk_frame)

text \<open>A bulk scan collects every batch: after \<open>startBulkLookup\<close> and any sequence of progress frames
  the results are exactly the batches in order of arrival, whatever the store held before; the
  progress is the last frame's, and the scan counts as running exactly while that frame has
  resolved fewer addresses than its total.\<close>

theorem lookup_bulk_collects:
  assumes "fs \<noteq> []" and "last fs = (d, n, xs)"
  shows "let s' = fold (\<lambda>(d, n, xs). bulk_onmessage (Some (progress_frame d n xs))) fs (startBulkLookup ips s) in
    bulkResults s' = concat (map (\<lambda>(d, n, xs). xs) fs) \<and>
    bulkProgress s' = (JNum d, JNum n) \<and> isBulkLoading s' = (d < n)"
proof -
  obtain gs where fs: "fs = gs @ [(d, n, xs)]" using assms by (metis append_butlast_last_id)
  have "bulkResults (startBulkLookup ips s) = []" by (simp add: startBulkLookup_def Let_def)
  then show ?thesis by (simp add: fs bulk_frames_results bulk_frame Let_def)
qed

theorem lookup_bulk_collects_witness:
  "bulkResults (fold (\<lambda>(d, n, xs). bulk_onmessage (Some (progress_frame d n xs)))
     [(1, 2, [JStr ''a'']), (2, 2, [JStr ''b''])]
     (startBulkLookup [''a'', ''b''] (init_lookup ''http:'' ''h'' Map.empty))) = [JStr ''a'', JStr ''b'']"
  using lookup_bulk_collects [of "[(1, 2, [JStr ''a'']), (2, 2, [JStr ''b''])]" 2 2 "[JStr ''b'']"]
  by (simp add: Let_def)

text \<open>The close event of the scan that a new one replaced makes the store forget the new one: its
  socket stays open and keeps delivering, the spinner is off, and \<open>stopBulkLookup\<close> no longer
  reaches it.\<close>

lemma lookup_stale_close:
  "\<exists>s. lookup_ev\<^sup>*\<^sup>* (init_lookup proto h st) s \<and> ready_of (sockets s) 1 = OPEN \<and>
     bulkSocket s = None \<and> \<not> isBulkLoading s \<and> ready_of (sockets (stopBulkLookup s)) 1 = OPEN"
proof -
  let ?s0 = "init_lookup proto h st"
  let ?s1 = "startBulkLookup [''a''] ?s0"
  let ?s2 = "startBulkLookup [''b''] ?s1"
  let ?s3 = "bulk_onopen 1 (?s2\<lparr>sockets := set_ready 1 OPEN (sockets ?s2)\<rparr>)"
  let ?s4 = "bulk_onclose (?s3\<lparr>sockets := set_ready 0 CLOSED (sockets ?s3)\<rparr>)"
  note defs = init_lookup_def startBulkLookup_def bulk_onopen_def bulk_onclose_def stopBulkLookup_def Let_def
  have "lookup_ev ?s0 ?s1" "lookup_ev ?s1 ?s2" by (rule lookup_ev.scan)+
  moreover have "lookup_ev ?s2 ?s3" by (rule lookup_ev.opened) (simp add: defs)
  moreover have "lookup_ev ?s3 ?s4" by (rule lookup_ev.closed) (simp add: defs)
  ultimately have "lookup_ev\<^sup>*\<^sup>* ?s0 ?s4" by (rule run_steps4)
  then show ?thesis by (intro exI [of _ ?s4]) (simp add: defs)
qed

text \<open>\<open>resetLookup\<close> leaves the scan running, so its next batch fills the cleared list again.\<close>

lemma lookup_reset_keeps_scan:
  "bulkResults (bulk_onmessage (Some (progress_frame d n xs)) (resetLookup s)) = xs \<and>
   bulkSocket (resetLookup s) = bulkSocket s"
  by (simp add: bulk_frame resetLookup_def)

text \<open>The answers of two lookups may arrive in either order; the store shows the one that arrived last
  under the target asked for last.\<close>

lemma lookup_late_reply:
  "\<exists>s. areach lookup_acts (\<lambda>_ _. True) lookup_ev (init_lookup proto h st) s [Done (), Done ()] \<and>
     activeTarget s = ''new'' \<and> lookupResult s = JObj [(''target'', JStr ''old'')] \<and> \<not> isLoading s"
proof -
  let ?reach = "areach lookup_acts (\<lambda>_ _. True) lookup_ev (init_lookup proto h st)"
  let ?old = "Response True (JsonOk (JObj [(''target'', JStr ''old'')]))"
  let ?new = "Response True (JsonOk (JObj [(''target'', JStr ''new'')]))"
  note defs = performLookup_def lookup_fetch_def fetch_def read_json_def lift_res_def Let_def
  have look: "\<exists>q k. turn (performLookup t None) s = (Await q k,
        s\<lparr>isLoading := True, errorAlert := JNull, lookupResult := JNull, activeTarget := t\<rparr>) \<and>
      (\<forall>v. \<exists>t'. k (Response True (JsonOk (JObj [(''target'', JStr v)]))) = Yield t' \<and>
        (\<forall>s. turn t' s = (Done (), s\<lparr>lookupResult := JObj [(''target'', JStr v)], isLoading := False\<rparr>)))" for t s
    by (simp add: defs)
  have act: "performLookup t None \<in> lookup_acts" for t by (auto simp: lookup_acts_def)
  let ?s0 = "init_lookup proto h st"
  let ?s1 = "?s0\<lparr>isLoading := True, errorAlert := JNull, lookupResult := JNull, activeTarget := ''old''\<rparr>"
  obtain q1 k1 t1 where 1: "turn (performLookup ''old'' None) ?s0 = (Await q1 k1, ?s1)"
    and k1: "k1 ?old = Yield t1"
    and t1: "\<And>s. turn t1 s = (Done (), s\<lparr>lookupResult := JObj [(''target'', JStr ''old'')], isLoading := False\<rparr>)"
    using look [of "''old''" ?s0] by blast
  let ?s2 = "?s1\<lparr>isLoading := True, errorAlert := JNull, lookupResult := JNull, activeTarget := ''new''\<rparr>"
  obtain q2 k2 t2 where 2: "turn (performLookup ''new'' None) ?s1 = (Await q2 k2, ?s2)"
    and k2: "k2 ?new = Yield t2"
    and t2: "\<And>s. turn t2 s = (Done (), s\<lparr>lookupResult := JObj [(''target'', JStr ''new'')], isLoading := False\<rparr>)"
    using look [of "''new''" ?s1] by blast
  have "?reach ?s1 [Await q1 k1]" using areach.call [OF areach.start act 1] by simp
  from areach.call [OF this act 2] have "?reach ?s2 [Await q1 k1, Await q2 k2]" by simp
  from areach.answer [OF this, of 1 q2 k2 ?new] have "?reach ?s2 [Await q1 k1, Yield t2]" by (simp add: k2)
  from areach.wake [OF this, of 1, OF _ _ t2] have "?reach (?s2\<lparr>lookupResult :=
      JObj [(''target'', JStr ''new'')], isLoading := False\<rparr>) [Await q1 k1, Done ()]" (is "areach _ _ _ _ ?s3 _") by simp
  from areach.answer [OF this, of 0 q1 k1 ?old] have "?reach ?s3 [Yield t1, Done ()]" by (simp add: k1)
  from areach.wake [OF this, of 0, OF _ _ t1] show ?thesis by (intro exI) auto
qed

end
