(* ===== verification/TrustTunnel_Store.thy ===== *)
theory TrustTunnel_Store
  imports Browser TS_Types Loading
begin

text \<open>
  \<open>trusttunnelStore.ts\<close> of both applications: configuration, users and firewall rules of the
  TrustTunnel engine, and its life cycle. The server's file differs in the default mode, a
  parameter of the definitions here, and has \<open>generateCert\<close> besides.
\<close>

definition TrustTunnelConfig :: ts where
  "TrustTunnelConfig = TObj
    [opt ''ID'' TNumber, req ''is_active'' TBool, req ''listen_address'' TString,
     req ''connect_address'' TString, req ''socks5_port'' TNumber, req ''http_port'' TNumber,
     req ''forced_transport'' (literals [''http2'', ''http1'', ''quic'']),
     req ''auth_failure_status_code'' TNumber, req ''client_random_prefix'' TString,
     req ''h2_initial_stream_window_size'' TNumber, req ''h2_initial_conn_window_size'' TNumber,
     req ''tls_handshake_timeout_secs'' TNumber, req ''kill_switch_enabled'' TBool,
     req ''active_preset'' TString, req ''tls_cert_path'' TString, req ''tls_key_path'' TString,
     req ''server_hostname'' TString, opt ''public_tls_port'' TNumber, opt ''client_username'' TString,
     opt ''client_password'' TString, opt ''tls_server_cert'' TString, opt ''skip_tls_verify'' TBool,
     opt ''dns_upstreams'' TString, opt ''UpdatedAt'' TString]"

definition TrustTunnelUser :: ts where
  "TrustTunnelUser = TObj
    [req ''id'' TNumber, req ''username'' TString, req ''is_active'' TBool, opt ''created_at'' TString]"

definition TrustTunnelFirewallRule :: ts where
  "TrustTunnelFirewallRule = TObj
    [req ''id'' TNumber, req ''target_cidr'' TString, req ''bypass_strategy'' TString,
     req ''description'' TString]"

record tt_state =
  config :: jsv
  users :: jsv
  rules :: jsv
  isRunning :: jsv
  isLoading :: bool
  appMode :: jsv
  error :: jsv
  successMessage :: jsv
  local_storage :: storage

type_synonym 'a tt_action = "(tt_state, 'a) action"

definition init_tt :: "string \<Rightarrow> storage \<Rightarrow> tt_state" where
  "init_tt mode st = \<lparr>config = JNull, users = JArr [], rules = JArr [], isRunning = JBool False,
     isLoading = False, appMode = JStr mode, error = JNull, successMessage = JNull, local_storage = st\<rparr>"

definition tt_getToken :: "tt_state \<Rightarrow> string" where
  "tt_getToken s = get_item_or (local_storage s) ''cc_client_token''
     (get_item_or (local_storage s) ''cc_server_token'' [])"

definition tt_apiHeaders :: "tt_state \<Rightarrow> (string \<times> string) list" where
  "tt_apiHeaders s = [auth_header (tt_getToken s), json_header]"

definition clearMessages :: "tt_state \<Rightarrow> tt_state" where
  "clearMessages s = s\<lparr>error := JNull, successMessage := JNull\<rparr>"

section \<open>Requests\<close>

definition tt_fetch :: "string \<Rightarrow> string \<Rightarrow> jsv option \<Rightarrow> (bool \<times> body) tt_action" where
  "tt_fetch meth url b = Get (\<lambda>s. fetch (http_send meth url (tt_apiHeaders s) b))"

definition tt_error :: "jsv \<Rightarrow> unit tt_action" where
  "tt_error e = set_state (\<lambda>s. s\<lparr>error := e\<rparr>)"

definition tt_begin :: "tt_state \<Rightarrow> tt_state" where
  "tt_begin s = s\<lparr>isLoading := True, error := JNull, successMessage := JNull\<rparr>"

definition tt_end :: "tt_state \<Rightarrow> tt_state" where
  "tt_end s = s\<lparr>isLoading := False\<rparr>"

text \<open>The frame that nine of the actions share: a reply that is not \<open>ok\<close> shows the server's error or
  a fixed text, an exception a second text, and the flag falls at the end.\<close>

definition tt_request :: "string \<Rightarrow> string \<Rightarrow> jsv option \<Rightarrow> (body \<Rightarrow> unit tt_action) \<Rightarrow> string \<Rightarrow> string \<Rightarrow>
    unit tt_action" where
  "tt_request meth url b on_ok failed network =
     finally_do
       (try_catch
         (bind (tt_fetch meth url b) (\<lambda>(ok, b).
            if ok then on_ok b else bind (api_error b failed) tt_error))
         (\<lambda>_. tt_error (JStr network)))
       tt_end"

definition show_success :: "string \<Rightarrow> tt_state \<Rightarrow> tt_state" where
  "show_success msg s = s\<lparr>successMessage := JStr msg\<rparr>"

definition fetchConfig :: "string \<Rightarrow> unit tt_action" where
  "fetchConfig mode =
     Set (\<lambda>s. s\<lparr>isLoading := True, error := JNull\<rparr>)
     (tt_request ''GET'' ''/api/trusttunnel/config'' None
       (\<lambda>b. bind (read_json b) (\<lambda>data.
            bind (lift_res (get_prop data ''config'')) (\<lambda>c.
              set_state (\<lambda>s. s\<lparr>config := c,
                users := js_or (opt_prop data ''users'') (JArr []),
                rules := js_or (opt_prop data ''rules'') (JArr []),
                isRunning := opt_prop data ''is_running'',
                appMode := js_or (opt_prop data ''app_mode'') (JStr mode)\<rparr>))))
       ''Failed to fetch TrustTunnel configuration''
       ''Network error while fetching TrustTunnel configuration'')"

definition saveConfig :: "jsv \<Rightarrow> unit tt_action" where
  "saveConfig cfg =
     Set tt_begin
     (tt_request ''POST'' ''/api/trusttunnel/config'' (Some cfg)
       (\<lambda>b. bind (read_json b) (\<lambda>data.
            bind (lift_res (get_prop data ''config'')) (\<lambda>c.
              set_state (\<lambda>s. show_success ''Configuration saved successfully''
                (s\<lparr>config := c, isRunning := opt_prop data ''is_running''\<rparr>)))))
       ''Failed to save TrustTunnel configuration''
       ''Network error while saving configuration'')"

definition tt_startEngine :: "unit tt_action" where
  "tt_startEngine =
     Set tt_begin
     (tt_request ''POST'' ''/api/trusttunnel/start'' None
       (\<lambda>b. bind (read_json b) (\<lambda>data.
            bind (lift_res (get_prop data ''is_running'')) (\<lambda>r.
              set_state (\<lambda>s. show_success ''TrustTunnel engine started successfully'' (s\<lparr>isRunning := r\<rparr>)))))
       ''Failed to start TrustTunnel engine''
       ''Network error while starting TrustTunnel engine'')"

definition tt_stopEngine :: "unit tt_action" where
  "tt_stopEngine =
     Set tt_begin
     (tt_request ''POST'' ''/api/trusttunnel/stop'' None
       (\<lambda>b. bind (read_json b) (\<lambda>data.
            bind (lift_res (get_prop data ''is_running'')) (\<lambda>r.
              set_state (\<lambda>s. show_success ''TrustTunnel engine stopped'' (s\<lparr>isRunning := r\<rparr>)))))
       ''Failed to stop TrustTunnel engine''
       ''Network error while stopping TrustTunnel engine'')"

definition addUser :: "string \<Rightarrow> string \<Rightarrow> string \<Rightarrow> unit tt_action" where
  "addUser mode user password =
     Set tt_begin
     (tt_request ''POST'' ''/api/trusttunnel/users''
       (Some (JObj [(''username'', JStr user), (''password'', JStr password)]))
       (\<lambda>_. Set (show_success ''User created successfully'') (await_task (fetchConfig mode)))
       ''Failed to add proxy user''
       ''Network error while creating proxy user'')"

definition deleteUser :: "string \<Rightarrow> int \<Rightarrow> unit tt_action" where
  "deleteUser mode i =
     Set tt_begin
     (tt_request ''DELETE'' (''/api/trusttunnel/users/'' @ show_int i) None
       (\<lambda>_. Set (show_success ''User deleted'') (await_task (fetchConfig mode)))
       ''Failed to delete user''
       ''Network error while deleting user'')"

definition addRule :: "string \<Rightarrow> string \<Rightarrow> string \<Rightarrow> string option \<Rightarrow> unit tt_action" where
  "addRule mode cidr strategy desc =
     Set tt_begin
     (tt_request ''POST'' ''/api/trusttunnel/rules''
       (Some (JObj [(''target_cidr'', JStr cidr), (''bypass_strategy'', JStr strategy),
          (''description'', JStr (case desc of None \<Rightarrow> [] | Some d \<Rightarrow> d))]))
       (\<lambda>_. Set (show_success ''Firewall rule created'') (await_task (fetchConfig mode)))
       ''Failed to add rule''
       ''Network error while adding firewall rule'')"

definition deleteRule :: "string \<Rightarrow> int \<Rightarrow> unit tt_action" where
  "deleteRule mode i =
     Set tt_begin
     (tt_request ''DELETE'' (''/api/trusttunnel/rules/'' @ show_int i) None
       (\<lambda>_. Set (show_success ''Firewall rule deleted'') (await_task (fetchConfig mode)))
       ''Failed to delete rule''
       ''Network error while deleting rule'')"

definition importConnectionToken :: "string \<Rightarrow> unit tt_action" where
  "importConnectionToken token =
     Set tt_begin
     (tt_request ''POST'' ''/api/trusttunnel/import'' (Some (JObj [(''token'', JStr token)]))
       (\<lambda>b. bind (read_json b) (\<lambda>data.
            bind (lift_res (get_prop data ''config'')) (\<lambda>c.
              set_state (\<lambda>s. show_success ''Token imported successfully'' (s\<lparr>config := c\<rparr>)))))
       ''Failed to import connection token''
       ''Network error while importing token'')"

text \<open>The two actions that return a value rethrow what they catch.\<close>

definition exportConnectionToken :: "jsv tt_action" where
  "exportConnectionToken =
     Set (\<lambda>s. s\<lparr>isLoading := True, error := JNull\<rparr>)
     (finally_do
       (try_catch
         (bind (tt_fetch ''GET'' ''/api/trusttunnel/export'' None) (\<lambda>(ok, b).
            if ok then bind (read_json b) (\<lambda>data. lift_res (get_prop data ''token''))
            else bind (api_error b ''Failed to export connection token'') (\<lambda>e. Fail (error_message e))))
         (\<lambda>e. andthen (tt_error (js_or (JStr e) (JStr ''Network error while exporting token''))) (Fail e)))
       tt_end)"

definition generateCert :: "string \<Rightarrow> string \<Rightarrow> jsv tt_action" where
  "generateCert hostname email =
     Set tt_begin
     (finally_do
       (try_catch
         (bind (tt_fetch ''POST'' ''/api/trusttunnel/generate-cert''
                  (Some (JObj [(''hostname'', JStr hostname), (''email'', JStr email)]))) (\<lambda>(ok, b).
            if ok then
              bind (read_json b) (\<lambda>data.
              bind (lift_res (get_prop data ''config'')) (\<lambda>c.
                Set (\<lambda>s. show_success (''Let'' @ [CHR 0x27] @ ''s Encrypt certificate generated and applied successfully'')
                       (s\<lparr>config := c, isRunning := opt_prop data ''is_running''\<rparr>))
                  (Done data)))
            else
              bind (api_error b ''Failed to generate certificate'') (\<lambda>e.
                andthen (tt_error e) (Fail (error_message e)))))
         (\<lambda>e. Get (\<lambda>s. andthen
            (if \<not> truthy (error s) then tt_error (js_or (JStr e) (JStr ''Network error while generating certificate''))
             else Done ())
            (Fail e))))
       tt_end)"

section \<open>Everything that can happen\<close>

definition tt_acts :: "string \<Rightarrow> unit tt_action set" where
  "tt_acts mode = {fetchConfig mode, tt_startEngine, tt_stopEngine, void exportConnectionToken} \<union>
     range saveConfig \<union> range importConnectionToken \<union> range (deleteUser mode) \<union> range (deleteRule mode) \<union>
     {addUser mode u p | u p. True} \<union> {addRule mode c t d | c t d. True} \<union>
     {void (generateCert h e) | h e. True}"

definition tt_ev :: "tt_state \<Rightarrow> tt_state \<Rightarrow> bool" where
  "tt_ev s s' \<longleftrightarrow> s' = clearMessages s"

lemma wp_tt_fetch [simp]:
  "wp A I Q E (tt_fetch meth url b) s \<longleftrightarrow>
     I s \<and> (\<forall>r s'. A (http_send meth url (tt_apiHeaders s) b) r \<longrightarrow> I s' \<longrightarrow>
       (case r of Rejected e \<Rightarrow> E e s' | Response ok b \<Rightarrow> Q (ok, b) s'))"
  by (simp add: tt_fetch_def)

lemma wp_tt_error [simp]: "wp A I Q E (tt_error e) s = Q () (s\<lparr>error := e\<rparr>)"
  by (simp add: tt_error_def)

lemmas tt_action_defs = fetchConfig_def saveConfig_def tt_startEngine_def tt_stopEngine_def addUser_def
  deleteUser_def addRule_def deleteRule_def importConnectionToken_def exportConnectionToken_def
  generateCert_def tt_request_def tt_begin_def tt_end_def show_success_def

lemma tt_lowers: "t \<in> tt_acts mode \<Longrightarrow> lowers isLoading t s"
  unfolding tt_acts_def
  by (elim UnE insertE rangeE CollectE exE conjE emptyE; hypsubst)
    (simp_all add: tt_action_defs split: reply.splits body.splits sum.splits)

interpretation tt_spinner: busy_flag isLoading "tt_acts mode" "\<lambda>_ _. True" tt_ev "init_tt mode st" for mode st
  by unfold_locales
    (auto simp: init_tt_def tt_ev_def clearMessages_def tt_lowers [THEN lowers_settles])

section \<open>Properties\<close>

text \<open>The actions whose outcome is one message.\<close>

definition tt_message_acts :: "unit tt_action set" where
  "tt_message_acts = {tt_startEngine, tt_stopEngine} \<union> range saveConfig \<union> range importConnectionToken"

lemma tt_one_message:
  "t \<in> tt_message_acts \<Longrightarrow>
   wp (\<lambda>_ _. True) (\<lambda>s. isLoading s \<and> error s = JNull \<and> successMessage s = JNull)
     (\<lambda>_ s. \<not> isLoading s \<and> truthy (error s) \<noteq> truthy (successMessage s)) (\<lambda>_ _. False) t s"
  unfolding tt_message_acts_def
  by (elim UnE insertE rangeE emptyE; hypsubst)
    (simp_all add: tt_action_defs split: reply.splits body.splits sum.splits)

text \<open>Starting or stopping the TrustTunnel engine, saving its configuration and importing a token
  always end with exactly one message, an error or a success, and with the spinner down; they
  never throw, whatever the server answers.\<close>

theorem trusttunnel_one_message:
  assumes "t \<in> tt_message_acts" and "run t rs s = (qs, out, s', rest)"
  shows "(out = Waiting \<and> isLoading s') \<or>
    (out = Returned () \<and> \<not> isLoading s' \<and> truthy (error s') \<noteq> truthy (successMessage s'))"
  using run_keeps [OF tt_one_message [OF assms(1)], of rs s] assms(2)
  by (auto split: outcome.splits)

theorem trusttunnel_one_message_witness:
  "let s' = final tt_startEngine [Response False (JsonOk JNull)] (init_tt ''client'' Map.empty) in
     truthy (error s') \<noteq> truthy (successMessage s')"
proof -
  let ?run = "run tt_startEngine [Response False (JsonOk JNull)] (init_tt ''client'' Map.empty)"
  obtain qs out s' rest where r: "?run = (qs, out, s', rest)" by (metis prod_cases4)
  have t: "tt_startEngine \<in> tt_message_acts" by (simp add: tt_message_acts_def)
  have "out \<noteq> Waiting"
    using r by (auto simp: tt_startEngine_def tt_request_def tt_fetch_def fetch_def api_error_def
        read_json_def lift_res_def tt_error_def)
  with trusttunnel_one_message [OF t r] r show ?thesis by (simp add: final_def Let_def)
qed

text \<open>The TrustTunnel actions that rethrow (\<open>exportConnectionToken\<close>, \<open>generateCert\<close>) show a non-empty
  error before they throw, and lower the spinner however they end, under every interleaving.\<close>

theorem trusttunnel_throw_shows_error:
  "wp (\<lambda>_ _. True) (\<lambda>_. True) (\<lambda>_ s. \<not> isLoading s) (\<lambda>_ s. \<not> isLoading s \<and> truthy (error s))
     exportConnectionToken s \<and>
   wp (\<lambda>_ _. True) (\<lambda>_. True) (\<lambda>_ s. \<not> isLoading s) (\<lambda>_ s. \<not> isLoading s \<and> truthy (error s))
     (generateCert hostname email) s"
  by (intro conjI; simp add: tt_action_defs js_or_def split: reply.splits body.splits sum.splits)

end
