(* ===== verification/Warp_Store.thy ===== *)
theory Warp_Store
  imports Browser TS_Types Windows Loading
begin

text \<open>
  \<open>warpStore.ts\<close>: the WARP tunnel's configuration, its account pool, the edge scan with its event
  log, and the status of the tunnel that the page derives from the engine and the scan.
\<close>

definition TransportMode :: ts where
  "TransportMode = literals [''masque'', ''masque_h2'', ''wireguard'']"

definition WarpAccountSummary :: ts where
  "WarpAccountSummary = TObj
    [req ''id'' TNumber, req ''account_type'' TString, req ''total_quota'' TNumber,
     req ''used_quota'' TNumber, req ''is_functional'' TBool, req ''device_id'' TString]"

definition WarpGlobalConfig :: ts where
  "WarpGlobalConfig = TObj
    [req ''transport_mode'' TransportMode, req ''target_sni'' TString, req ''socks_port'' TNumber,
     req ''http_port'' TNumber, req ''is_active'' TBool, req ''last_trace_ok'' TBool,
     opt ''updated_at'' TString, opt ''active_account'' WarpAccountSummary]"

definition WarpAccount :: ts where
  "WarpAccount = TObj
    [req ''ID'' TNumber, opt ''CreatedAt'' TString, opt ''UpdatedAt'' TString, opt ''license_key'' TString,
     req ''device_id'' TString, req ''token'' TString, req ''private_key'' TString,
     req ''public_key'' TString, req ''client_id'' TString, req ''account_type'' TString,
     req ''total_quota'' TNumber, req ''used_quota'' TNumber, req ''is_functional'' TBool]"

definition WarpScanResult :: ts where
  "WarpScanResult = TObj
    [req ''ip_address'' TString, req ''port'' TNumber, req ''latency_ms'' TNumber,
     req ''packet_loss'' TNumber, req ''throughput_bps'' TNumber, req ''supported_alpns'' (TArr TString),
     req ''last_scanned'' TString, req ''is_restricted'' TBool, req ''fail_count'' TNumber,
     req ''last_failed'' TString, req ''score'' TNumber]"

definition ScanProgress :: ts where
  "ScanProgress = TObj
    [req ''is_running'' TBool, req ''total_targets'' TNumber, req ''scanned'' TNumber,
     req ''passed'' TNumber, req ''failed'' TNumber, req ''progress'' TNumber, opt ''udp_blocked'' TBool]"

definition ScanEvent :: ts where
  "ScanEvent = TObj
    [req ''index'' TNumber, req ''time'' TString, req ''ip'' TString, req ''port'' TNumber,
     req ''status'' (literals [''pass'', ''tcp_ok'', ''fail'']), opt ''latency_ms'' TNumber, opt ''note'' TString]"

definition EngineStatus :: ts where
  "EngineStatus = TObj
    [req ''state'' TString, req ''transport_mode'' TString, req ''socks_port'' TNumber,
     req ''http_port'' TNumber, req ''active_endpoint'' TString, req ''account_type'' TString,
     req ''last_trace_ok'' TBool, req ''uptime'' TString, opt ''tcp_fallback'' TBool]"

datatype TunnelStatus = Dormant | Sweeping | Linking | Active | Restricted

record warp_state =
  config :: jsv
  isConfigDirty :: bool
  accounts :: jsv
  activeAccountId :: jsv
  engineStatus :: jsv
  tunnelStatus :: TunnelStatus
  scanResults :: jsv
  scanProgress :: jsv
  scanEvents :: "jsv list"
  scanEventCursor :: jsv
  networkMetrics :: "jsv list"
  globalLoading :: bool
  scanLoading :: bool
  error :: jsv
  licenseError :: jsv
  local_storage :: storage

type_synonym warp_action = "(warp_state, unit) action"

definition init_warp :: "storage \<Rightarrow> warp_state" where
  "init_warp st = \<lparr>config = JNull, isConfigDirty = False, accounts = JArr [], activeAccountId = JNum 0,
     engineStatus = JNull, tunnelStatus = Dormant, scanResults = JArr [], scanProgress = JNull,
     scanEvents = [], scanEventCursor = JNum 0, networkMetrics = [], globalLoading = False, scanLoading = False,
     error = JNull, licenseError = JNull, local_storage = st\<rparr>"

definition warp_getToken :: "warp_state \<Rightarrow> string" where
  "warp_getToken s = get_item_or (local_storage s) ''cc_client_token''
     (get_item_or (local_storage s) ''cc_server_token'' [])"

definition warp_apiHeaders :: "warp_state \<Rightarrow> (string \<times> string) list" where
  "warp_apiHeaders s = [auth_header (warp_getToken s), json_header]"

text \<open>The status that the page shows. \<open>engineStatus.state\<close> is read only when \<open>engineStatus\<close> is truthy,
  so it cannot throw.\<close>

definition deriveTunnelStatus :: "jsv \<Rightarrow> jsv \<Rightarrow> TunnelStatus" where
  "deriveTunnelStatus engine progress =
     (if truthy (opt_prop progress ''is_running'') then Sweeping
      else if \<not> truthy engine \<or> strict_eq (opt_prop engine ''state'') (JStr ''stopped'') then Dormant
      else if strict_eq (opt_prop engine ''state'') (JStr ''starting'') then Linking
      else if strict_eq (opt_prop engine ''state'') (JStr ''running'')
        then (if truthy (opt_prop engine ''last_trace_ok'') then Active else Restricted)
      else Dormant)"

definition clearError :: "warp_state \<Rightarrow> warp_state" where
  "clearError s = s\<lparr>error := JNull, licenseError := JNull\<rparr>"

section \<open>Requests\<close>

definition warp_fetch :: "string \<Rightarrow> string \<Rightarrow> jsv option \<Rightarrow> (warp_state, bool \<times> body) action" where
  "warp_fetch meth url b = Get (\<lambda>s. fetch (http_send meth url (warp_apiHeaders s) b))"

definition warp_error :: "jsv \<Rightarrow> warp_action" where
  "warp_error e = set_state (\<lambda>s. s\<lparr>error := e\<rparr>)"

definition warp_begin :: "warp_state \<Rightarrow> warp_state" where
  "warp_begin s = s\<lparr>globalLoading := True, error := JNull\<rparr>"

definition warp_end :: "warp_state \<Rightarrow> warp_state" where
  "warp_end s = s\<lparr>globalLoading := False\<rparr>"

text \<open>The frame of the actions that keep the page waiting and report on \<open>error\<close>.\<close>

definition warp_request :: "string \<Rightarrow> string \<Rightarrow> jsv option \<Rightarrow> (body \<Rightarrow> warp_action) \<Rightarrow> string \<Rightarrow> string \<Rightarrow>
    warp_action" where
  "warp_request meth url b on_ok failed network =
     Set warp_begin
     (finally_do
       (try_catch
         (bind (warp_fetch meth url b) (\<lambda>(ok, b).
            if ok then on_ok b else bind (api_error b failed) warp_error))
         (\<lambda>_. warp_error (JStr network)))
       warp_end)"

definition fetchGlobalConfig :: warp_action where
  "fetchGlobalConfig =
     warp_request ''GET'' ''/api/v2ray/warp/config'' None
       (\<lambda>b. bind (read_json b) (\<lambda>data.
            bind (lift_res (get_prop data ''active_account'')) (\<lambda>acc.
              set_state (\<lambda>s. s\<lparr>config := data,
                activeAccountId := js_or (opt_prop acc ''id'') (JNum 0), isConfigDirty := False\<rparr>))))
       ''Failed to fetch WARP configuration''
       ''Network error while fetching WARP configuration''"

definition commitEngineTuning :: "jsv \<Rightarrow> warp_action" where
  "commitEngineTuning patch =
     warp_request ''POST'' ''/api/v2ray/warp/config'' (Some patch)
       (\<lambda>_. Set (\<lambda>s. s\<lparr>isConfigDirty := False\<rparr>) (await_task fetchGlobalConfig))
       ''Failed to save WARP configuration''
       ''Network error while saving configuration''"

definition fetchAccounts :: warp_action where
  "fetchAccounts =
     try_catch
       (bind (warp_fetch ''GET'' ''/api/v2ray/warp/accounts'' None) (\<lambda>(ok, b).
          if ok then bind (read_json b) (\<lambda>data. set_state (\<lambda>s. s\<lparr>accounts := js_or data (JArr [])\<rparr>))
          else Done ()))
       (\<lambda>_. Done ())"

definition provisionNewLicense :: "string \<Rightarrow> warp_action" where
  "provisionNewLicense licenseKey =
     Set (\<lambda>s. s\<lparr>globalLoading := True, licenseError := JNull\<rparr>)
     (finally_do
       (try_catch
         (bind (warp_fetch ''POST'' ''/api/v2ray/warp/accounts''
                  (Some (JObj [(''license_key'', JStr licenseKey)]))) (\<lambda>(ok, b).
            if ok then andthen (await_task fetchAccounts) (await_task fetchGlobalConfig)
            else
              bind (read_json b) (\<lambda>err. bind (lift_res (get_prop err ''error'')) (\<lambda>e.
                Set (\<lambda>s. s\<lparr>licenseError := js_or e (JStr ''Cloudflare API rejected registration'')\<rparr>)
                  (Fail (error_message e))))))
         (\<lambda>e. Get (\<lambda>s. andthen
            (if \<not> truthy (licenseError s) then set_state (\<lambda>s. s\<lparr>licenseError := JStr e\<rparr>) else Done ())
            (Fail e))))
       warp_end)"

definition deleteAccount :: "int \<Rightarrow> warp_action" where
  "deleteAccount i =
     warp_request ''DELETE'' (''/api/v2ray/warp/accounts/'' @ show_int i) None
       (\<lambda>_. andthen
         (set_with (\<lambda>s. case as_array ''state.accounts'' ''filter'' (accounts s) of Inl e \<Rightarrow> Inl e
            | Inr xs \<Rightarrow> (case filter_res (prop_is_not ''ID'' (JNum (of_int i))) xs of Inl e \<Rightarrow> Inl e
                | Inr ys \<Rightarrow> Inr (\<lambda>s. s\<lparr>accounts := JArr ys\<rparr>))))
         (await_task fetchGlobalConfig))
       ''Failed to delete account''
       ''Network error while deleting account''"

definition activateAccount :: "int \<Rightarrow> warp_action" where
  "activateAccount i =
     warp_request ''POST'' (''/api/v2ray/warp/accounts/'' @ show_int i @ ''/activate'') None
       (\<lambda>_. andthen (await_task fetchGlobalConfig) (await_task fetchAccounts))
       ''Failed to activate account''
       ''Network error while activating account''"

definition fetchStatus :: warp_action where
  "fetchStatus =
     try_catch
       (bind (warp_fetch ''GET'' ''/api/v2ray/warp/status'' None) (\<lambda>(ok, b).
          if ok then
            bind (read_json b) (\<lambda>data.
            bind (lift_res (get_prop data ''engine'')) (\<lambda>engine.
              let progress = js_or (opt_prop data ''scan_progress'') JNull in
              set_state (\<lambda>s. s\<lparr>engineStatus := engine, scanProgress := progress,
                tunnelStatus := deriveTunnelStatus engine progress\<rparr>)))
          else Done ()))
       (\<lambda>_. Done ())"

definition fetchScanResults :: "string option \<Rightarrow> warp_action" where
  "fetchScanResults mode =
     try_catch
       (bind (warp_fetch ''GET'' (''/api/v2ray/warp/scan/results?mode='' @
                (case mode of None \<Rightarrow> ''masque'' | Some m \<Rightarrow> m)) None) (\<lambda>(ok, b).
          if ok then
            bind (read_json b) (\<lambda>data.
            bind (lift_res (get_prop data ''progress'')) (\<lambda>p.
              let progress = js_or p JNull in
              set_state (\<lambda>s. s\<lparr>scanResults := js_or (opt_prop data ''results'') (JArr []),
                scanProgress := progress,
                tunnelStatus := deriveTunnelStatus (engineStatus s) progress\<rparr>)))
          else Done ()))
       (\<lambda>_. Done ())"

text \<open>Whether the engine is running or starting, as \<open>toggleTunnelLifecycle\<close> reads it.\<close>

definition engine_up :: "warp_state \<Rightarrow> bool" where
  "engine_up s \<longleftrightarrow> strict_eq (opt_prop (engineStatus s) ''state'') (JStr ''running'') \<or>
     strict_eq (opt_prop (engineStatus s) ''state'') (JStr ''starting'')"

definition toggleTunnelLifecycle :: warp_action where
  "toggleTunnelLifecycle =
     Get (\<lambda>s.
       let up = engine_up s;
           endpoint = (if up then ''/api/v2ray/warp/tunnel/stop'' else ''/api/v2ray/warp/tunnel/start'') in
       Set (\<lambda>s. s\<lparr>globalLoading := True, error := JNull, tunnelStatus := (if up then Dormant else Linking)\<rparr>)
       (finally_do
         (try_catch
           (bind (warp_fetch ''POST'' endpoint None) (\<lambda>(ok, b).
              if ok then andthen (await_task fetchStatus) (await_task fetchGlobalConfig)
              else bind (api_error b ''Failed to toggle tunnel lifecycle'') (\<lambda>e.
                     set_state (\<lambda>s. s\<lparr>error := e, tunnelStatus := Dormant\<rparr>))))
           (\<lambda>_. set_state (\<lambda>s. s\<lparr>error := JStr ''Network error during tunnel toggle'', tunnelStatus := Dormant\<rparr>)))
         warp_end))"

section \<open>The edge scan\<close>

definition scan_body :: "int option \<Rightarrow> int option \<Rightarrow> jsv" where
  "scan_body workers timeoutMs =
     (let field = (\<lambda>k x. case x of None \<Rightarrow> [] | Some n \<Rightarrow> if 0 < n then [(k, JNum (of_int n))] else [])
      in JObj (field ''workers'' workers @ field ''timeout_ms'' timeoutMs))"

definition initiateManualEdgeScan :: "int option \<Rightarrow> int option \<Rightarrow> warp_action" where
  "initiateManualEdgeScan workers timeoutMs =
     Set (\<lambda>s. s\<lparr>scanLoading := True, error := JNull, scanResults := JArr [], scanProgress := JNull,
                scanEvents := [], scanEventCursor := JNum 0\<rparr>)
     (finally_do
       (try_catch
         (bind (warp_fetch ''POST'' ''/api/v2ray/warp/scan'' (Some (scan_body workers timeoutMs))) (\<lambda>(ok, b).
            if ok then
              Set (\<lambda>s. s\<lparr>tunnelStatus := (if tunnelStatus s = Dormant then Sweeping else tunnelStatus s)\<rparr>)
                (await_task (fetchScanResults None))
            else bind (api_error b ''Failed to initiate edge scan'') warp_error))
         (\<lambda>_. warp_error (JStr ''Network error during edge scan'')))
       (\<lambda>s. s\<lparr>scanLoading := False\<rparr>))"

definition stopEdgeScan :: warp_action where
  "stopEdgeScan =
     try_catch
       (bind (warp_fetch ''POST'' ''/api/v2ray/warp/scan/stop'' None) (\<lambda>_.
          set_state (\<lambda>s. s\<lparr>
            scanProgress := (if truthy (scanProgress s) then obj_put ''is_running'' (JBool False) (scanProgress s)
                             else JNull),
            tunnelStatus := (if tunnelStatus s = Sweeping then Dormant else tunnelStatus s)\<rparr>)))
       (\<lambda>_. Done ())"

definition keep_events :: "jsv list \<Rightarrow> jsv list \<Rightarrow> jsv list" where
  "keep_events old new = slice_last 500 (old @ new)"

text \<open>\<open>data.events && data.events.length > 0\<close>, then \<open>[...state.scanEvents, ...data.events]\<close>; \<open>None\<close>
  where there is nothing to append.\<close>

definition new_events :: "jsv \<Rightarrow> jsv list option res" where
  "new_events data =
     (case get_prop data ''events'' of Inl e \<Rightarrow> Inl e
      | Inr ev \<Rightarrow> if truthy ev \<and> js_less (JNum 0) (opt_prop ev ''length'')
          then (case iterate ''data.events'' ev of Inl e \<Rightarrow> Inl e | Inr xs \<Rightarrow> Inr (Some xs))
          else Inr None)"

definition fetchScanEvents :: warp_action where
  "fetchScanEvents =
     Get (\<lambda>s0. try_catch
       (bind (warp_fetch ''GET'' (''/api/v2ray/warp/scan/events?since='' @ js_string (scanEventCursor s0)) None)
         (\<lambda>(ok, b).
            if \<not> ok then Done ()
            else bind (read_json b) (\<lambda>data.
              bind (lift_res (new_events data)) (\<lambda>xs. case xs of None \<Rightarrow> Done ()
                | Some xs \<Rightarrow> set_state (\<lambda>s. s\<lparr>scanEvents := keep_events (scanEvents s) xs,
                    scanEventCursor := opt_prop data ''last_index''\<rparr>)))))
       (\<lambda>_. Done ()))"

section \<open>Everything that can happen\<close>

definition warp_acts :: "warp_action set" where
  "warp_acts = {fetchGlobalConfig, fetchAccounts, fetchStatus, toggleTunnelLifecycle, stopEdgeScan,
       fetchScanEvents} \<union> range commitEngineTuning \<union> range provisionNewLicense \<union> range deleteAccount \<union>
     range activateAccount \<union> range fetchScanResults \<union> {initiateManualEdgeScan w t | w t. True}"

definition warp_ev :: "warp_state \<Rightarrow> warp_state \<Rightarrow> bool" where
  "warp_ev s s' \<longleftrightarrow> s' = clearError s"

lemma wp_warp_fetch [simp]:
  "wp A I Q E (warp_fetch meth url b) s \<longleftrightarrow>
     I s \<and> (\<forall>r s'. A (http_send meth url (warp_apiHeaders s) b) r \<longrightarrow> I s' \<longrightarrow>
       (case r of Rejected e \<Rightarrow> E e s' | Response ok b \<Rightarrow> Q (ok, b) s'))"
  by (simp add: warp_fetch_def)

lemma wp_warp_error [simp]: "wp A I Q E (warp_error e) s = Q () (s\<lparr>error := e\<rparr>)"
  by (simp add: warp_error_def)

lemmas warp_action_defs = fetchGlobalConfig_def commitEngineTuning_def fetchAccounts_def
  provisionNewLicense_def deleteAccount_def activateAccount_def fetchStatus_def fetchScanResults_def
  toggleTunnelLifecycle_def initiateManualEdgeScan_def stopEdgeScan_def fetchScanEvents_def
  warp_request_def warp_begin_def warp_end_def

section \<open>Loading flags\<close>

lemma never_raises_warp_fetch [simp]: "never_raises flag (warp_fetch meth url b)"
  by (simp add: warp_fetch_def fetch_def split: reply.splits)

lemma never_raises_warp_replies [simp]:
  "never_raises flag (read_json b)" "never_raises flag (api_error b x)"
  by (auto simp: read_json_def api_error_def intro!: never_raises_rules split: body.splits)

lemma warp_lowers:
  "lowers globalLoading fetchGlobalConfig s" "lowers globalLoading (commitEngineTuning c) s"
  "lowers globalLoading (provisionNewLicense k) s" "lowers globalLoading (deleteAccount i) s"
  "lowers globalLoading (activateAccount i) s" "lowers globalLoading toggleTunnelLifecycle s"
  "lowers scanLoading (initiateManualEdgeScan w o1) s"
  by (simp_all add: warp_action_defs Let_def split: reply.splits body.splits sum.splits)

lemma warp_global_never:
  "never_raises globalLoading fetchAccounts" "never_raises globalLoading fetchStatus"
  "never_raises globalLoading stopEdgeScan" "never_raises globalLoading fetchScanEvents"
  "never_raises globalLoading (fetchScanResults m)" "never_raises globalLoading (initiateManualEdgeScan w o1)"
  by (auto simp: warp_action_defs keeps_low_def warp_error_def Let_def
      intro!: never_raises_rules split: prod.splits option.splits)

lemma warp_scan_never:
  "never_raises scanLoading fetchAccounts" "never_raises scanLoading fetchStatus"
  "never_raises scanLoading stopEdgeScan" "never_raises scanLoading fetchScanEvents"
  "never_raises scanLoading (fetchScanResults m)" "never_raises scanLoading fetchGlobalConfig"
  by (auto simp: warp_action_defs keeps_low_def warp_error_def Let_def
      intro!: never_raises_rules split: prod.splits option.splits)

lemma warp_scan_never_composed:
  "never_raises scanLoading (commitEngineTuning c)" "never_raises scanLoading (provisionNewLicense k)"
  "never_raises scanLoading (deleteAccount i)" "never_raises scanLoading (activateAccount i)"
  "never_raises scanLoading toggleTunnelLifecycle"
  using warp_scan_never
  by (auto simp: commitEngineTuning_def provisionNewLicense_def deleteAccount_def activateAccount_def
      toggleTunnelLifecycle_def warp_request_def warp_begin_def warp_end_def andthen_def keeps_low_def
      warp_error_def Let_def intro!: never_raises_rules split: prod.splits sum.splits)

interpretation warp_global: busy_flag globalLoading warp_acts "\<lambda>_ _. True" warp_ev "init_warp st" for st
  by unfold_locales
    (auto simp: init_warp_def warp_ev_def clearError_def warp_acts_def warp_lowers [THEN lowers_settles]
      warp_global_never)

interpretation warp_scanning: busy_flag scanLoading warp_acts "\<lambda>_ _. True" warp_ev "init_warp st" for st
  by unfold_locales
    (auto simp: init_warp_def warp_ev_def clearError_def warp_acts_def warp_lowers(7) [THEN lowers_settles]
      warp_scan_never warp_scan_never_composed)

section \<open>The event log\<close>

definition push_event :: "jsv \<Rightarrow> jsv list \<Rightarrow> jsv list" where
  "push_event e old = keep_events old [e]"

interpretation event_window: sliding_window push_event 500
  by unfold_locales (simp_all add: push_event_def keep_events_def)

lemma keep_events_fold: "length old \<le> 500 \<Longrightarrow> keep_events old new = fold push_event new old"
  by (simp add: event_window.fold_push keep_events_def)

definition warp_inv :: "warp_state \<Rightarrow> bool" where
  "warp_inv s \<longleftrightarrow> length (scanEvents s) \<le> 500 \<and> networkMetrics s = []"

lemma warp_inv_other [simp]:
  "warp_inv (s\<lparr>config := v\<rparr>) = warp_inv s" "warp_inv (s\<lparr>accounts := v\<rparr>) = warp_inv s"
  "warp_inv (s\<lparr>activeAccountId := v\<rparr>) = warp_inv s" "warp_inv (s\<lparr>engineStatus := v\<rparr>) = warp_inv s"
  "warp_inv (s\<lparr>scanResults := v\<rparr>) = warp_inv s" "warp_inv (s\<lparr>scanProgress := v\<rparr>) = warp_inv s"
  "warp_inv (s\<lparr>scanEventCursor := v\<rparr>) = warp_inv s" "warp_inv (s\<lparr>error := v\<rparr>) = warp_inv s"
  "warp_inv (s\<lparr>licenseError := v\<rparr>) = warp_inv s" "warp_inv (s\<lparr>globalLoading := l\<rparr>) = warp_inv s"
  "warp_inv (s\<lparr>scanLoading := l\<rparr>) = warp_inv s" "warp_inv (s\<lparr>isConfigDirty := l\<rparr>) = warp_inv s"
  "warp_inv (s\<lparr>tunnelStatus := x\<rparr>) = warp_inv s"
  by (simp_all add: warp_inv_def)

lemma warp_inv_events [simp]:
  "warp_inv s \<Longrightarrow> warp_inv (s\<lparr>scanEvents := []\<rparr>)"
  "warp_inv s \<Longrightarrow> warp_inv (s\<lparr>scanEvents := keep_events (scanEvents s) xs\<rparr>)"
  by (simp_all add: warp_inv_def keep_events_def length_slice_last)

lemma warp_keeps:
  "warp_inv s \<Longrightarrow> keeps A warp_inv fetchGlobalConfig s" "warp_inv s \<Longrightarrow> keeps A warp_inv (commitEngineTuning c) s"
  "warp_inv s \<Longrightarrow> keeps A warp_inv fetchAccounts s" "warp_inv s \<Longrightarrow> keeps A warp_inv (provisionNewLicense k) s"
  "warp_inv s \<Longrightarrow> keeps A warp_inv (deleteAccount i) s" "warp_inv s \<Longrightarrow> keeps A warp_inv (activateAccount i) s"
  "warp_inv s \<Longrightarrow> keeps A warp_inv fetchStatus s" "warp_inv s \<Longrightarrow> keeps A warp_inv (fetchScanResults m) s"
  "warp_inv s \<Longrightarrow> keeps A warp_inv toggleTunnelLifecycle s"
  "warp_inv s \<Longrightarrow> keeps A warp_inv (initiateManualEdgeScan w o1) s"
  "warp_inv s \<Longrightarrow> keeps A warp_inv stopEdgeScan s" "warp_inv s \<Longrightarrow> keeps A warp_inv fetchScanEvents s"
  by (simp_all add: warp_action_defs Let_def split: reply.splits body.splits sum.splits option.splits)

lemma warp_acts_keep: "t \<in> warp_acts \<Longrightarrow> warp_inv s \<Longrightarrow> keeps A warp_inv t s"
  by (auto simp: warp_acts_def warp_keeps)

lemma warp_inv_init: "warp_inv (init_warp st)"
  by (simp add: warp_inv_def init_warp_def)

interpretation warp_async: async_store warp_acts "\<lambda>_ _. True" warp_ev "init_warp st" warp_inv for st
  by unfold_locales (auto simp: warp_acts_keep warp_inv_init warp_ev_def clearError_def)

section \<open>Properties\<close>

text \<open>Under every interleaving of the twelve WARP actions the scan log never exceeds 500 events, no
  spinner outlives its actions, and the network metrics, which the store declares as a window of 30
  entries, stay empty: no action writes them.\<close>

theorem warp_store_safe:
  assumes "areach warp_acts (\<lambda>_ _. True) warp_ev (init_warp st) s p"
  shows "length (scanEvents s) \<le> 500 \<and> networkMetrics s = [] \<and>
    (globalLoading s \<or> scanLoading s \<longrightarrow> (\<exists>t\<in>set p. suspended t))"
  using warp_async.reach_inv [OF assms] warp_global.busy_means_running [OF assms]
    warp_scanning.busy_means_running [OF assms]
  by (auto simp: warp_inv_def)

theorem warp_store_safe_witness:
  "\<exists>t. areach warp_acts (\<lambda>_ _. True) warp_ev (init_warp Map.empty)
     ((init_warp Map.empty)\<lparr>globalLoading := True\<rparr>) [t] \<and> suspended t"
proof -
  let ?s = "(init_warp Map.empty)\<lparr>globalLoading := True\<rparr>"
  obtain q k where t: "turn fetchGlobalConfig (init_warp Map.empty) = (Await q k, ?s)"
    by (simp add: fetchGlobalConfig_def warp_request_def warp_fetch_def fetch_def warp_begin_def init_warp_def)
  have "fetchGlobalConfig \<in> warp_acts" by (simp add: warp_acts_def)
  from areach.call [OF areach.start this t]
  have r: "areach warp_acts (\<lambda>_ _. True) warp_ev (init_warp Map.empty) ?s [Await q k]" by simp
  with warp_store_safe [OF r] show ?thesis by (intro exI [of _ "Await q k"]) simp
qed

text \<open>The toggle stops the tunnel when the engine is running or starting, and starts it otherwise;
  when the call fails, for whatever reason, the page shows an error and the status \<open>dormant\<close>, never
  the transitional one, and the spinner is down.\<close>

theorem warp_toggle_failure:
  assumes "r = Rejected e \<or> r = Response False b"
    and "run toggleTunnelLifecycle [r] s = (qs, out, s', rest)"
  shows "qs = [http_send ''POST'' (if engine_up s then ''/api/v2ray/warp/tunnel/stop''
        else ''/api/v2ray/warp/tunnel/start'') (warp_apiHeaders s) None] \<and>
    out = Returned () \<and> tunnelStatus s' = Dormant \<and> truthy (error s') \<and> \<not> globalLoading s' \<and>
    engineStatus s' = engineStatus s"
  using assms
  by (auto simp: toggleTunnelLifecycle_def warp_fetch_def fetch_def api_error_def read_json_def lift_res_def
      warp_end_def warp_apiHeaders_def warp_getToken_def js_or_def Let_def
      split: reply.splits body.splits sum.splits)

theorem warp_toggle_failure_witness:
  "tunnelStatus (final toggleTunnelLifecycle [Rejected ''offline''] (init_warp Map.empty)) = Dormant"
proof -
  obtain qs out s' rest where
    r: "run toggleTunnelLifecycle [Rejected ''offline''] (init_warp Map.empty) = (qs, out, s', rest)"
    by (metis prod_cases4)
  from warp_toggle_failure [OF disjI1 [OF refl] r] show ?thesis by (simp add: final_def r)
qed

text \<open>So a stop that fails leaves the page on \<open>dormant\<close> although the engine it last saw is running, and
  \<open>deriveTunnelStatus\<close> disagrees until the next poll.\<close>

lemma warp_failed_stop_shows_dormant:
  assumes "engineStatus s = JObj [(''state'', JStr ''running'')]" and "scanProgress s = JNull"
  shows "let s' = final toggleTunnelLifecycle [Rejected ''offline''] s in
    tunnelStatus s' = Dormant \<and> deriveTunnelStatus (engineStatus s') (scanProgress s') = Restricted"
  using assms
  by (simp add: toggleTunnelLifecycle_def warp_fetch_def fetch_def run_defs warp_end_def Let_def
      deriveTunnelStatus_def opt_prop_def)

lemma derive_sweeping [simp]:
  "deriveTunnelStatus engine p = Sweeping \<longleftrightarrow> truthy (opt_prop p ''is_running'')"
  by (simp add: deriveTunnelStatus_def)

lemma opt_prop_js_or: "truthy (opt_prop (js_or p JNull) ''is_running'') \<longleftrightarrow> truthy (opt_prop p ''is_running'')"
  by (cases p) (simp_all add: opt_prop_def js_or_def)

text \<open>A status poll that the server answers puts the page's status in step with what it received: the
  engine, the scan and the derived status are the reply's.\<close>

theorem warp_status_derived:
  assumes "run fetchStatus [Response True (JsonOk (JObj kvs))] s = (qs, out, s', rest)"
  shows "out = Returned () \<and> engineStatus s' = obj_get kvs ''engine'' \<and>
    tunnelStatus s' = deriveTunnelStatus (engineStatus s') (scanProgress s') \<and>
    (tunnelStatus s' = Sweeping \<longleftrightarrow> truthy (opt_prop (obj_get kvs ''scan_progress'') ''is_running''))"
  using assms
  by (simp add: fetchStatus_def warp_fetch_def fetch_def read_json_def lift_res_def Let_def)
    (auto simp: opt_prop_js_or opt_prop_def [of "JObj kvs"])

theorem warp_status_derived_witness:
  "tunnelStatus (final fetchStatus [Response True (JsonOk (JObj [(''engine'',
     JObj [(''state'', JStr ''running''), (''last_trace_ok'', JBool True)])]))] (init_warp Map.empty)) = Active"
proof -
  obtain qs out s' rest where r: "run fetchStatus [Response True (JsonOk (JObj [(''engine'',
     JObj [(''state'', JStr ''running''), (''last_trace_ok'', JBool True)])]))] (init_warp Map.empty)
     = (qs, out, s', rest)" by (metis prod_cases4)
  have p: "scanProgress s' = JNull"
    using r by (auto simp: fetchStatus_def warp_fetch_def fetch_def read_json_def lift_res_def opt_prop_def Let_def)
  from warp_status_derived [OF r] p show ?thesis by (simp add: final_def r deriveTunnelStatus_def opt_prop_def)
qed

text \<open>Two polls of the event log that overlap read the same cursor, and the second answer appends the
  same events again.\<close>

lemma warp_overlapping_polls:
  assumes "scanEvents s = []" and "scanEventCursor s = JNum 0"
    and "data = JObj [(''events'', JArr [e]), (''last_index'', JNum 1)]"
  obtains q k t' where "turn fetchScanEvents s = (Await q k, s)" and "k (Response True (JsonOk data)) = Yield t'"
    and "scanEvents (snd (turn t' (snd (turn t' s)))) = [e, e]"
  using assms
  by (simp add: fetchScanEvents_def warp_fetch_def fetch_def read_json_def lift_res_def new_events_def
      opt_prop_def keep_events_def slice_last_def)

end
