(* ===== verification/Combiner_Store.thy ===== *)
theory Combiner_Store
  imports Browser TS_Types Loading
begin

text \<open>
  \<open>combinerStore.ts\<close> of the server application: configuration, status, start and stop of the bonding
  combiner, and its diagnostics. Starting and stopping lower the loading flag before they refresh
  the status.
\<close>

definition ArteryStats :: ts where
  "ArteryStats = TObj [req ''artery_id'' TString, req ''last_ping'' TString, req ''last_pong'' TString]"

definition CombinerStatus :: ts where
  "CombinerStatus = TObj
    [req ''running'' TBool, req ''origin_id'' TString, req ''artery_count'' TNumber,
     req ''artery_stats'' (TArr ArteryStats), req ''active_streams'' TNumber, req ''bytes_rx'' TNumber,
     req ''bytes_tx'' TNumber, req ''rx_bps'' TNumber, req ''tx_bps'' TNumber]"

definition CombinerConfig :: ts where
  "CombinerConfig = TObj
    [opt ''id'' TNumber, req ''is_active'' TBool, req ''mode'' TString, req ''origin_id'' TString,
     req ''psk_hex'' TString]"

definition DiagnosticStep :: ts where
  "DiagnosticStep = TObj
    [req ''name'' TString, req ''description'' TString,
     req ''status'' (literals [''success'', ''warning'', ''error'', ''pending'']),
     opt ''error_message'' TString, opt ''details'' TString]"

record combiner_state =
  status :: jsv
  config :: jsv
  loading :: bool
  error :: jsv
  diagnoseResults :: jsv
  diagnoseLoading :: bool
  local_storage :: storage

type_synonym combiner_action = "(combiner_state, unit) action"

definition init_combiner :: "storage \<Rightarrow> combiner_state" where
  "init_combiner st = \<lparr>status = JNull, config = JNull, loading = False, error = JNull,
     diagnoseResults = JNull, diagnoseLoading = False, local_storage = st\<rparr>"

definition getToken :: "combiner_state \<Rightarrow> string" where
  "getToken s = get_item_or (local_storage s) ''cc_server_token'' []"

definition apiHeaders :: "combiner_state \<Rightarrow> (string \<times> string) list" where
  "apiHeaders s = [auth_header (getToken s), json_header]"

definition combiner_fetch :: "string \<Rightarrow> string \<Rightarrow> jsv option \<Rightarrow> (combiner_state, bool \<times> body) action" where
  "combiner_fetch meth url b = Get (\<lambda>s. fetch (http_send meth url (apiHeaders s) b))"

definition fail_loading :: "jsv \<Rightarrow> combiner_action" where
  "fail_loading e = set_state (\<lambda>s. s\<lparr>error := e, loading := False\<rparr>)"

definition fetchConfig :: combiner_action where
  "fetchConfig =
     try_catch
       (bind (combiner_fetch ''GET'' ''/api/bonding/combiner/config'' None) (\<lambda>(ok, b).
          if ok then bind (read_json b) (\<lambda>cfg. set_state (\<lambda>s. s\<lparr>config := cfg\<rparr>)) else Done ()))
       (\<lambda>e. set_state (\<lambda>s. s\<lparr>error := JStr e\<rparr>))"

definition saveConfig :: "jsv \<Rightarrow> combiner_action" where
  "saveConfig cfg =
     Set (\<lambda>s. s\<lparr>loading := True, error := JNull\<rparr>)
     (try_catch
       (bind (combiner_fetch ''POST'' ''/api/bonding/combiner/config'' (Some cfg)) (\<lambda>(ok, b).
          if ok then bind (read_json b) (\<lambda>data. bind (lift_res (get_prop data ''config'')) (\<lambda>c.
                 set_state (\<lambda>s. s\<lparr>config := js_or c cfg, loading := False\<rparr>)))
          else bind (api_error b ''Failed to save config'') fail_loading))
       (\<lambda>e. fail_loading (JStr e)))"

definition fetchStatus :: combiner_action where
  "fetchStatus =
     try_catch
       (bind (combiner_fetch ''GET'' ''/api/bonding/combiner/status'' None) (\<lambda>(ok, b).
          if ok then bind (read_json b) (\<lambda>st. set_state (\<lambda>s. s\<lparr>status := st\<rparr>)) else Done ()))
       (\<lambda>e. set_state (\<lambda>s. s\<lparr>error := JStr e\<rparr>))"

definition startCombiner :: combiner_action where
  "startCombiner =
     Set (\<lambda>s. s\<lparr>loading := True, error := JNull\<rparr>)
     (try_catch
       (bind (combiner_fetch ''POST'' ''/api/bonding/combiner/start'' None) (\<lambda>(ok, b).
          if ok then Set (\<lambda>s. s\<lparr>loading := False\<rparr>) (await_task fetchStatus)
          else bind (api_error b ''Failed to start combiner'') fail_loading))
       (\<lambda>e. fail_loading (JStr e)))"

definition stopCombiner :: combiner_action where
  "stopCombiner =
     Set (\<lambda>s. s\<lparr>loading := True, error := JNull\<rparr>)
     (try_catch
       (bind (combiner_fetch ''POST'' ''/api/bonding/combiner/stop'' None) (\<lambda>(ok, b).
          if ok then Set (\<lambda>s. s\<lparr>loading := False\<rparr>) (await_task fetchStatus)
          else bind (api_error b ''Failed to stop combiner'') fail_loading))
       (\<lambda>e. fail_loading (JStr e)))"

definition runDiagnostics :: "jsv option \<Rightarrow> combiner_action" where
  "runDiagnostics cfg =
     Set (\<lambda>s. s\<lparr>diagnoseLoading := True, error := JNull\<rparr>)
     (try_catch
       (bind (combiner_fetch (if cfg = None then ''GET'' else ''POST'') ''/api/bonding/combiner/diagnose'' cfg)
         (\<lambda>(ok, b).
          if ok then bind (read_json b) (\<lambda>steps.
                 set_state (\<lambda>s. s\<lparr>diagnoseResults := steps, diagnoseLoading := False\<rparr>))
          else bind (api_error b ''Failed to run diagnostics'') (\<lambda>e.
                 set_state (\<lambda>s. s\<lparr>error := e, diagnoseLoading := False\<rparr>))))
       (\<lambda>e. set_state (\<lambda>s. s\<lparr>error := JStr e, diagnoseLoading := False\<rparr>)))"

section \<open>Loading flags\<close>

definition combiner_acts :: "combiner_action set" where
  "combiner_acts = {fetchConfig, fetchStatus, startCombiner, stopCombiner} \<union> range saveConfig \<union>
     range runDiagnostics"

lemmas combiner_action_defs = fetchConfig_def saveConfig_def fetchStatus_def startCombiner_def
  stopCombiner_def runDiagnostics_def fail_loading_def

lemma wp_combiner_fetch [simp]:
  "wp A I Q E (combiner_fetch meth url b) s \<longleftrightarrow>
     I s \<and> (\<forall>r s'. A (http_send meth url (apiHeaders s) b) r \<longrightarrow> I s' \<longrightarrow>
       (case r of Rejected e \<Rightarrow> E e s' | Response ok b \<Rightarrow> Q (ok, b) s'))"
  by (simp add: combiner_fetch_def)

lemma never_raises_combiner_fetch [simp]: "never_raises flag (combiner_fetch meth url b)"
  by (simp add: combiner_fetch_def fetch_def split: reply.splits)

lemma never_raises_combiner_replies [simp]:
  "never_raises flag (read_json b)" "never_raises flag (api_error b x)"
  by (auto simp: read_json_def api_error_def intro!: never_raises_rules split: body.splits)

lemma combiner_lowers:
  "lowers loading (saveConfig c) s" "lowers diagnoseLoading (runDiagnostics o1) s"
  by (simp_all add: combiner_action_defs split: reply.splits body.splits sum.splits)

lemma combiner_loading_never:
  "never_raises loading fetchConfig" "never_raises loading fetchStatus"
  "never_raises loading (runDiagnostics o1)"
  by (auto simp: combiner_action_defs keeps_low_def intro!: never_raises_rules split: prod.splits sum.splits)

lemma combiner_diagnose_never:
  "never_raises diagnoseLoading fetchConfig" "never_raises diagnoseLoading fetchStatus"
  "never_raises diagnoseLoading startCombiner" "never_raises diagnoseLoading stopCombiner"
  "never_raises diagnoseLoading (saveConfig c)"
  by (auto simp: combiner_action_defs keeps_low_def intro!: never_raises_rules split: prod.splits sum.splits)

lemma refresh_never:
  "never_raises loading (try_catch (await_task fetchStatus) (\<lambda>e. set_state (\<lambda>s. s\<lparr>error := JStr e, loading := False\<rparr>)))"
  by (auto simp: keeps_low_def combiner_loading_never intro!: never_raises_rules)

lemma combiner_settles:
  "settles loading startCombiner s" "settles loading stopCombiner s"
  by (auto simp: startCombiner_def stopCombiner_def combiner_fetch_def fetch_def api_error_def read_json_def
      lift_res_def refresh_never fail_loading_def split: reply.splits body.splits sum.splits)

interpretation combiner_loading:
  busy_flag loading combiner_acts "\<lambda>_ _. True" "\<lambda>_ _. False" "init_combiner st" for st
  by unfold_locales
    (auto simp: init_combiner_def combiner_acts_def combiner_lowers [THEN lowers_settles] combiner_settles
      combiner_loading_never)

interpretation combiner_diagnosing:
  busy_flag diagnoseLoading combiner_acts "\<lambda>_ _. True" "\<lambda>_ _. False" "init_combiner st" for st
  by unfold_locales
    (auto simp: init_combiner_def combiner_acts_def combiner_lowers [THEN lowers_settles]
      combiner_diagnose_never)

section \<open>Properties\<close>

text \<open>A diagnostics run of the combiner ends with its flag down, and either stores the server's steps
  or shows an error and keeps the steps of the run before; it posts the configuration when it is
  given one and otherwise asks for the stored one.\<close>

theorem combiner_diagnostics_outcome:
  assumes "run (runDiagnostics cfg) [r] s = (qs, out, s', rest)"
  shows "qs = [http_send (if cfg = None then ''GET'' else ''POST'') ''/api/bonding/combiner/diagnose''
        (apiHeaders s) cfg] \<and> out = Returned () \<and> \<not> diagnoseLoading s' \<and> status s' = status s \<and>
    (if \<exists>v. r = Response True (JsonOk v)
     then r = Response True (JsonOk (diagnoseResults s')) \<and> error s' = JNull
     else diagnoseResults s' = diagnoseResults s \<and> error s' \<noteq> JNull)"
  using assms
  by (auto simp: runDiagnostics_def combiner_fetch_def fetch_def api_error_def read_json_def lift_res_def
      apiHeaders_def getToken_def js_or_def split: reply.splits body.splits sum.splits if_splits)

theorem combiner_diagnostics_outcome_witness:
  "diagnoseResults (final (runDiagnostics None) [Response True (JsonOk (JArr []))] (init_combiner Map.empty))
     = JArr []"
proof -
  obtain qs out s' rest where r: "run (runDiagnostics None) [Response True (JsonOk (JArr []))]
      (init_combiner Map.empty) = (qs, out, s', rest)" by (metis prod_cases4)
  have f: "final (runDiagnostics None) [Response True (JsonOk (JArr []))] (init_combiner Map.empty) = s'"
    by (simp add: final_def r)
  show ?thesis unfolding f using combiner_diagnostics_outcome [OF r] by simp
qed

end
