(* ===== verification/Dashboard_Store.thy ===== *)
theory Dashboard_Store
  imports Reconnect TS_Types Windows Loading
begin

text \<open>
  \<open>dashboardStore.ts\<close> of the client: the VPN nodes and the connection to one of them, the live
  traffic figures from \<open>/ws/stats\<close>, and the telemetry socket \<open>/ws\<close> that reconnects by itself.
  Wall-clock texts are arguments of the handlers. A query of an action is an HTTP request or the
  confirmation dialog.
\<close>

section \<open>Nodes\<close>

record VPNNode =
  node_id :: string
  node_name :: string
  country :: string
  flag :: string
  ip :: jsv
  ping :: jsv
  active :: jsv
  accounts :: int
  scheduledIn :: string
  scheduledOut :: string
  balance :: string

text \<open>A flag emoji is two regional indicator letters, each four bytes of UTF-8.\<close>

definition regional :: "char \<Rightarrow> string" where
  "regional c = [CHR 0xF0, CHR 0x9F, CHR 0x87, char_of ((of_char c :: nat) + 101)]"

definition flag_of :: "string \<Rightarrow> string" where
  "flag_of code = concat (map regional code)"

definition globe :: string where
  "globe = [CHR 0xF0, CHR 0x9F, CHR 0x8C, CHR 0x90]"

definition includes_any :: "string \<Rightarrow> string list \<Rightarrow> bool" where
  "includes_any s subs = list_ex (includes_str s) subs"

text \<open>The \<open>if\<close> chain of \<open>mapConfigToNode\<close>: country and flag from the lower-case name.\<close>

definition country_of :: "string \<Rightarrow> string \<times> string" where
  "country_of n =
     (if includes_any n [''singapore'', ''sgd'', ''sg''] then (''Singapore'', flag_of ''SG'')
      else if includes_any n [''germany'', ''de'', ''frankfurt'', ''eur''] then (''Germany'', flag_of ''DE'')
      else if includes_any n [''united kingdom'', ''uk'', ''london'', ''gbp'', ''gb'']
        then (''United Kingdom'', flag_of ''GB'')
      else if includes_any n [''united states'', ''us'', ''usa'', ''usd'', ''new york'']
        then (''United States'', flag_of ''US'')
      else if includes_any n [''australia'', ''aud'', ''sydney'', ''au''] then (''Australia'', flag_of ''AU'')
      else if includes_any n [''iran'', ''ir''] then (''Iran'', flag_of ''IR'')
      else if includes_any n [''finland'', ''fi''] then (''Finland'', flag_of ''FI'')
      else if includes_any n [''netherlands'', ''nl''] then (''Netherlands'', flag_of ''NL'')
      else if includes_any n [''france'', ''fr''] then (''France'', flag_of ''FR'')
      else (''Global'', globe))"

definition mapConfigToNode :: "jsv \<Rightarrow> VPNNode res" where
  "mapConfigToNode cfg =
     (case get_prop cfg ''name'' of Inl e \<Rightarrow> Inl e | Inr nm \<Rightarrow>
      (case as_string ''cfg.name'' ''toLowerCase'' nm of Inl e \<Rightarrow> Inl e | Inr name \<Rightarrow>
      (case as_string ''cfg.protocol'' ''toUpperCase'' (opt_prop cfg ''protocol'') of Inl e \<Rightarrow> Inl e | Inr protocol \<Rightarrow>
      (case as_string ''cfg.network'' ''toUpperCase'' (opt_prop cfg ''network'') of Inl e \<Rightarrow> Inl e | Inr network \<Rightarrow>
        (let (ctry, flg) = country_of (to_lower name); ms = opt_prop cfg ''latency_ms'' in
         Inr \<lparr>node_id = js_string (opt_prop cfg ''ID''), node_name = name, country = ctry, flag = flg,
              ip = opt_prop cfg ''address'',
              ping = (if js_less (JNum 0) ms then to_number ms else JNum 0),
              active = opt_prop cfg ''is_active'', accounts = 1, scheduledIn = [], scheduledOut = [],
              balance = to_upper protocol @ '' / '' @ to_upper network\<rparr>)))))"

section \<open>State\<close>

datatype ConnectionState = Disconnected | Connecting | Connected

record point =
  time :: string
  upload :: jsv
  download :: jsv

record dash_state = link +
  connectionState :: ConnectionState
  selectedNode :: "VPNNode option"
  nodes :: "VPNNode list"
  bandwidthHistory :: "point list"
  totalUsage :: "jsv \<times> jsv"
  latency :: jsv
  logs :: "jsv list"
  activeConns :: jsv
  totalUplink :: jsv
  totalDownlink :: jsv
  trafficHistory :: "point list"
  schedulerStats :: jsv
  domainStats :: jsv
  wsStats :: "nat option"
  stats_sockets :: "socket list"
  page_protocol :: string
  page_host :: string
  local_storage :: storage

definition init_dash :: "(nat \<Rightarrow> string) \<Rightarrow> string \<Rightarrow> string \<Rightarrow> storage \<Rightarrow> dash_state" where
  "init_dash clock proto h st = \<lparr>ws = None, reconnectTimeout = None, timers = [], sockets = [],
     wsConnected = False, connectionState = Disconnected, selectedNode = None, nodes = [],
     bandwidthHistory = map (\<lambda>i. \<lparr>time = clock i, upload = JNum 0, download = JNum 0\<rparr>) [0..<30],
     totalUsage = (JNum 0, JNum 0), latency = JNum 0,
     logs = [JStr ''[System] CleverConnect Client Ready. Loading nodes and statistics...''],
     activeConns = JNum 0, totalUplink = JNum 0, totalDownlink = JNum 0, trafficHistory = [],
     schedulerStats = JNull, domainStats = JNull, wsStats = None, stats_sockets = [],
     page_protocol = proto, page_host = h, local_storage = st\<rparr>"

text \<open>\<open>[...state.logs.slice(-49), ...lines]\<close>.\<close>

definition add_logs :: "jsv list \<Rightarrow> dash_state \<Rightarrow> dash_state" where
  "add_logs lines s = s\<lparr>logs := slice_last 49 (logs s) @ lines\<rparr>"

abbreviation add_log :: "string \<Rightarrow> dash_state \<Rightarrow> dash_state" where
  "add_log line \<equiv> add_logs [JStr line]"

section \<open>The traffic stream\<close>

definition client_token :: "dash_state \<Rightarrow> string" where
  "client_token s = get_item_or (local_storage s) ''cc_client_token'' []"

definition connectStream :: "dash_state \<Rightarrow> dash_state" where
  "connectStream s =
     (if wsStats s \<noteq> None then s
      else s\<lparr>wsStats := Some (length (stats_sockets s)),
             stats_sockets := stats_sockets s @
               [new_socket (ws_url (page_protocol s) (page_host s) ''/ws/stats'' (client_token s))]\<rparr>)"

definition disconnectStream :: "dash_state \<Rightarrow> dash_state" where
  "disconnectStream s = (case wsStats s of None \<Rightarrow> s
     | Some i \<Rightarrow> s\<lparr>stats_sockets := close_socket i (stats_sockets s), wsStats := None\<rparr>)"

definition push_traffic :: "point \<Rightarrow> point list \<Rightarrow> point list" where
  "push_traffic p h = slice_last 30 (h @ [p])"

definition push_bandwidth :: "point \<Rightarrow> point list \<Rightarrow> point list" where
  "push_bandwidth p h = drop 1 h @ [p]"

definition stats_onmessage :: "string \<Rightarrow> jsv option \<Rightarrow> dash_state \<Rightarrow> dash_state" where
  "stats_onmessage now frame s = (case frame of None \<Rightarrow> s | Some data \<Rightarrow>
     (case get_prop data ''uplinkSpeed'' of Inl e \<Rightarrow> s
      | Inr up \<Rightarrow>
        (let upKb = div_num up 1024; downKb = div_num (opt_prop data ''downlinkSpeed'') 1024 in
         s\<lparr>activeConns := opt_prop data ''activeConns'',
           totalUplink := opt_prop data ''totalUplink'',
           totalDownlink := opt_prop data ''totalDownlink'',
           trafficHistory := push_traffic
             \<lparr>time = now, upload = fixed 1 upKb, download = fixed 1 downKb\<rparr> (trafficHistory s),
           bandwidthHistory := push_bandwidth
             \<lparr>time = now, upload = fixed 2 (div_num upKb 1024), download = fixed 2 (div_num downKb 1024)\<rparr>
             (bandwidthHistory s),
           totalUsage := (div_num (opt_prop data ''totalUplink'') 1048576,
                          div_num (opt_prop data ''totalDownlink'') 1048576)\<rparr>)))"

section \<open>The telemetry socket\<close>

definition initWebSocket :: "bool \<Rightarrow> string \<Rightarrow> dash_state \<Rightarrow> dash_state" where
  "initWebSocket throws token s =
     link_connect throws (ws_url (page_protocol s) (page_host s) ''/ws'' token) s"

definition cleanup_dash :: "dash_state \<Rightarrow> dash_state" where
  "cleanup_dash = link_cleanup careless"

definition onopen_dash :: "dash_state \<Rightarrow> dash_state" where
  "onopen_dash s = add_log ''[System] Web telemetry channel open.'' (link_onopen s)"

definition onclose_dash :: "string \<Rightarrow> dash_state \<Rightarrow> dash_state" where
  "onclose_dash = link_onclose careless"

definition onmessage_dash :: "string \<Rightarrow> jsv option \<Rightarrow> dash_state \<Rightarrow> dash_state" where
  "onmessage_dash now frame s = (case frame of None \<Rightarrow> s | Some data \<Rightarrow>
     (case get_prop data ''type'' of Inl e \<Rightarrow> s
      | Inr type \<Rightarrow>
        if strict_eq type (JStr ''bandwidth'') then
          (if connectionState s = Connected then s
           else s\<lparr>bandwidthHistory := push_bandwidth
                  \<lparr>time = now, upload = opt_prop data ''upload'', download = opt_prop data ''download''\<rparr>
                  (bandwidthHistory s),
                totalUsage := (opt_prop data ''totalUpload'', opt_prop data ''totalDownload''),
                latency := js_or (opt_prop data ''latency'') (latency s)\<rparr>)
        else if strict_eq type (JStr ''log'') then add_logs [opt_prop data ''message''] s
        else s))"

section \<open>Actions\<close>

type_synonym 'a dash_action = "(dash_state, request + string, reply + bool, 'a) task"

text \<open>Each query gets an answer of its own kind.\<close>

definition answers :: "request + string \<Rightarrow> reply + bool \<Rightarrow> bool" where
  "answers q r \<longleftrightarrow> isl q = isl r"

definition dash_fetch :: "string \<Rightarrow> string \<Rightarrow> (bool \<times> body) dash_action" where
  "dash_fetch meth url = Get (\<lambda>s.
     Await (Inl (http_send meth url [auth_header (client_token s)] None)) (\<lambda>r. case r of
         Inl (Rejected e) \<Rightarrow> Fail e
       | Inl (Response ok b) \<Rightarrow> Done (ok, b)
       | Inr _ \<Rightarrow> Fail []))"

text \<open>\<open>await showGlobalConfirm(message)\<close>.\<close>

definition ask_confirm :: "string \<Rightarrow> bool dash_action" where
  "ask_confirm msg = Await (Inr msg) (\<lambda>r. case r of Inr yes \<Rightarrow> Done yes | Inl _ \<Rightarrow> Done False)"

text \<open>\<open>configs.find((c) => c.is_active)\<close>.\<close>

fun find_active :: "jsv list \<Rightarrow> jsv option res" where
  "find_active [] = Inr None"
| "find_active (c # cs) =
     (case get_prop c ''is_active'' of Inl e \<Rightarrow> Inl e
      | Inr a \<Rightarrow> if truthy a then Inr (Some c) else find_active cs)"

definition configs_of :: "jsv \<Rightarrow> jsv res" where
  "configs_of data = (case get_prop data ''data'' of Inl e \<Rightarrow> Inl e | Inr d \<Rightarrow> Inr (js_or d (JArr [])))"

definition fetchRealNodes :: "unit dash_action" where
  "fetchRealNodes =
     try_catch
       (bind (dash_fetch ''GET'' ''/api/v2ray/client/configs?limit=1000'') (\<lambda>(ok, b).
          if ok then
            bind (read_json b) (\<lambda>data.
            bind (lift_res (configs_of data)) (\<lambda>configs.
            bind (lift_res (as_array ''configs'' ''map'' configs)) (\<lambda>xs.
            bind (lift_res (map_res mapConfigToNode xs)) (\<lambda>mapped.
              Set (\<lambda>s. s\<lparr>nodes := mapped\<rparr>)
                (bind (lift_res (find_active xs)) (\<lambda>act. case act of
                   None \<Rightarrow> Done ()
                 | Some c \<Rightarrow> Get (\<lambda>s.
                     if connectionState s = Connected
                     then bind (lift_res (mapConfigToNode c)) (\<lambda>n. set_state (\<lambda>s. s\<lparr>selectedNode := Some n\<rparr>))
                     else Done ())))))))
          else Done ()))
       (\<lambda>_. Done ())"

definition checkClientStatus :: "unit dash_action" where
  "checkClientStatus =
     try_catch
       (bind (dash_fetch ''GET'' ''/api/v2ray/client/status'') (\<lambda>(ok, b).
          if ok then
            bind (read_json b) (\<lambda>data.
            bind (lift_res (get_prop data ''is_running'')) (\<lambda>running.
              if truthy running then
                bind (dash_fetch ''GET'' ''/api/v2ray/client/configs?limit=1000'') (\<lambda>(ok2, b2).
                  if ok2 then
                    bind (read_json b2) (\<lambda>configsData.
                    bind (lift_res (configs_of configsData)) (\<lambda>configs.
                    bind (lift_res (as_array ''configs'' ''find'' configs)) (\<lambda>xs.
                    bind (lift_res (find_active xs)) (\<lambda>act. case act of
                        Some c \<Rightarrow> bind (lift_res (mapConfigToNode c)) (\<lambda>n.
                          set_state (\<lambda>s. connectStream (s\<lparr>connectionState := Connected, selectedNode := Some n\<rparr>)))
                      | None \<Rightarrow> set_state (\<lambda>s. s\<lparr>connectionState := Connected\<rparr>)))))
                  else Done ())
              else set_state (\<lambda>s. disconnectStream (s\<lparr>connectionState := Disconnected, selectedNode := None\<rparr>))))
          else Done ()))
       (\<lambda>_. Done ())"

definition connectNode :: "VPNNode \<Rightarrow> unit dash_action" where
  "connectNode node =
     Set (\<lambda>s. add_log (''[System] Activating profile: '' @ node_name node @ ''...'')
                (s\<lparr>connectionState := Connecting, selectedNode := Some node\<rparr>))
     (try_catch
       (bind (dash_fetch ''POST'' (''/api/v2ray/client/configs/'' @ node_id node @ ''/active'')) (\<lambda>(ok, b).
          if \<not> ok then Fail ''Failed to activate node profile''
          else Set (add_log ''[System] Bootstrapping V2Ray core...'')
            (bind (dash_fetch ''POST'' ''/api/v2ray/client/start'') (\<lambda>(ok2, b2).
               if \<not> ok2 then bind (api_error b2 ''Failed to start proxy core'') (\<lambda>e. Fail (error_message e))
               else
                 Set (\<lambda>s. add_logs
                        [JStr (''[System] V2Ray tunnel successfully established to '' @ node_name node @ ''!''),
                         JStr ''[System] Telemetry stream initialized.'']
                        (s\<lparr>connectionState := Connected, latency := ping node\<rparr>))
                 (Set connectStream (await_task fetchRealNodes))))))
       (\<lambda>e. set_state (\<lambda>s. add_log (''[Error] Connection failed: '' @ e)
                (s\<lparr>connectionState := Disconnected, selectedNode := None\<rparr>))))"

definition disconnectNode :: "unit dash_action" where
  "disconnectNode =
     try_catch
       (Set (add_log ''[System] Shutting down V2Ray core...'')
         (bind (dash_fetch ''POST'' ''/api/v2ray/client/stop'') (\<lambda>(ok, b).
            if \<not> ok then Fail ''Failed to stop core''
            else Set (\<lambda>s. disconnectStream (add_log ''[System] V2Ray proxy core offline.''
                     (s\<lparr>connectionState := Disconnected, selectedNode := None, latency := JNum 0\<rparr>)))
                 (await_task fetchRealNodes))))
       (\<lambda>e. set_state (add_log (''[Error] Stop core failed: '' @ e)))"

definition deleteAllNodes :: "unit dash_action" where
  "deleteAllNodes =
     bind (ask_confirm (''Are you sure you want to delete all gateway nodes? '' @
             ''This will also remove them from the backend configs!'')) (\<lambda>confirmed.
       if \<not> confirmed then Done ()
       else try_catch
         (bind (dash_fetch ''DELETE'' ''/api/v2ray/client/configs/all'') (\<lambda>_.
            set_state (\<lambda>s. disconnectStream (add_log ''[System] All gateway nodes have been purged.''
              (s\<lparr>nodes := [], selectedNode := None, connectionState := Disconnected, latency := JNum 0\<rparr>)))))
         (\<lambda>_. Done ()))"

definition fetchSchedulerStats :: "unit dash_action" where
  "fetchSchedulerStats =
     try_catch
       (bind (dash_fetch ''GET'' ''/api/scheduler/stats'') (\<lambda>(ok, b).
          if ok then bind (read_json b) (\<lambda>st. set_state (\<lambda>s. s\<lparr>schedulerStats := st\<rparr>)) else Done ()))
       (\<lambda>_. Done ())"

definition fetchDomainStats :: "unit dash_action" where
  "fetchDomainStats =
     try_catch
       (bind (dash_fetch ''GET'' ''/api/domains?limit=1'') (\<lambda>(ok, b).
          if ok then bind (read_json b) (\<lambda>data. bind (lift_res (get_prop data ''stats'')) (\<lambda>st.
                 set_state (\<lambda>s. s\<lparr>domainStats := js_or st JNull\<rparr>)))
          else Done ()))
       (\<lambda>_. Done ())"

definition dash_acts :: "unit dash_action set" where
  "dash_acts = {fetchRealNodes, checkClientStatus, disconnectNode, deleteAllNodes, fetchSchedulerStats,
     fetchDomainStats} \<union> range connectNode"

section \<open>Everything that can happen\<close>

text \<open>Events of the two kinds of sockets, and timers.\<close>

inductive dash_event :: "dash_state \<Rightarrow> dash_state \<Rightarrow> bool" where
  opened: "ready_of (sockets s) i = CONNECTING \<Longrightarrow>
     dash_event s (onopen_dash (s\<lparr>sockets := set_ready i OPEN (sockets s)\<rparr>))"
| message: "ready_of (sockets s) i = OPEN \<Longrightarrow> dash_event s (onmessage_dash now frame s)"
| closed: "ready_of (sockets s) i \<noteq> CLOSED \<Longrightarrow> onclose_attached (sockets s) i \<Longrightarrow>
     dash_event s (onclose_dash (sock_url (sockets s ! i)) (s\<lparr>sockets := set_ready i CLOSED (sockets s)\<rparr>))"
| fired: "k < length (timers s) \<Longrightarrow> timers s ! k = (url, True) \<Longrightarrow>
     dash_event s (link_connect throws url (s\<lparr>timers := clear_timer k (timers s)\<rparr>))"
| stats_opened: "ready_of (stats_sockets s) i = CONNECTING \<Longrightarrow>
     dash_event s (s\<lparr>stats_sockets := set_ready i OPEN (stats_sockets s)\<rparr>)"
| stats_message: "ready_of (stats_sockets s) i = OPEN \<Longrightarrow> dash_event s (stats_onmessage now frame s)"
| stats_closed: "ready_of (stats_sockets s) i \<noteq> CLOSED \<Longrightarrow>
     dash_event s (s\<lparr>stats_sockets := set_ready i CLOSED (stats_sockets s)\<rparr>)"
| stream_on: "dash_event s (connectStream s)"
| stream_off: "dash_event s (disconnectStream s)"

text \<open>With the page's mounts and unmounts.\<close>

inductive dash_step :: "dash_state \<times> bool \<Rightarrow> dash_state \<times> bool \<Rightarrow> bool" where
  mount: "dash_step (s, False) (initWebSocket throws token s, True)"
| unmount: "dash_step (s, True) (cleanup_dash s, False)"
| happens: "dash_event s t \<Longrightarrow> dash_step (s, m) (t, m)"

inductive_cases dash_eventE: "dash_event s t"
inductive_cases dash_stepE: "dash_step x y"

definition dash_ev :: "dash_state \<Rightarrow> dash_state \<Rightarrow> bool" where
  "dash_ev s t \<longleftrightarrow> (\<exists>m m'. dash_step (s, m) (t, m'))"

lemma wp_dash_fetch [simp]:
  "wp A I Q E (dash_fetch meth url) s \<longleftrightarrow>
     I s \<and> (\<forall>r s'. A (Inl (http_send meth url [auth_header (client_token s)] None)) r \<longrightarrow> I s' \<longrightarrow>
       (case r of Inl (Rejected e) \<Rightarrow> E e s' | Inl (Response ok b) \<Rightarrow> Q (ok, b) s' | Inr _ \<Rightarrow> E [] s'))"
  by (auto simp: dash_fetch_def split: reply.splits sum.splits)

lemmas dash_action_defs = fetchRealNodes_def checkClientStatus_def connectNode_def disconnectNode_def
  deleteAllNodes_def fetchSchedulerStats_def fetchDomainStats_def ask_confirm_def

section \<open>Bounded histories\<close>

interpretation traffic_window: sliding_window push_traffic 30
  by unfold_locales (simp_all add: push_traffic_def)

definition dash_inv :: "dash_state \<Rightarrow> bool" where
  "dash_inv s \<longleftrightarrow> length (bandwidthHistory s) = 30 \<and> length (trafficHistory s) \<le> 30 \<and>
     length (logs s) \<le> 51 \<and> live_sockets (stats_sockets s) \<subseteq> set_option (wsStats s)"

lemma dash_inv_other [simp]:
  "dash_inv (s\<lparr>connectionState := c\<rparr>) = dash_inv s" "dash_inv (s\<lparr>selectedNode := n\<rparr>) = dash_inv s"
  "dash_inv (s\<lparr>nodes := ns\<rparr>) = dash_inv s" "dash_inv (s\<lparr>latency := v\<rparr>) = dash_inv s"
  "dash_inv (s\<lparr>schedulerStats := v\<rparr>) = dash_inv s" "dash_inv (s\<lparr>domainStats := v\<rparr>) = dash_inv s"
  "dash_inv (s\<lparr>sockets := w\<rparr>) = dash_inv s" "dash_inv (s\<lparr>timers := ts\<rparr>) = dash_inv s"
  by (simp_all add: dash_inv_def)

lemma dash_inv_logs [simp]: "dash_inv s \<Longrightarrow> length lines \<le> 2 \<Longrightarrow> dash_inv (add_logs lines s)"
  by (simp add: dash_inv_def add_logs_def length_slice_last)

lemma dash_inv_link [simp]:
  "dash_inv (link_connect t u s) = dash_inv s" "dash_inv (link_onopen s) = dash_inv s"
  "dash_inv (link_onclose p u s) = dash_inv s" "dash_inv (link_cleanup p s) = dash_inv s"
  by (simp_all add: dash_inv_def link_connect_def link_onopen_def link_onclose_def link_cleanup_def Let_def
      split: option.splits)

lemma dash_inv_stream [simp]:
  "dash_inv s \<Longrightarrow> dash_inv (connectStream s)" "dash_inv s \<Longrightarrow> dash_inv (disconnectStream s)"
  by (auto simp: dash_inv_def connectStream_def disconnectStream_def split: option.splits)

lemma dash_inv_messages:
  "dash_inv s \<Longrightarrow> dash_inv (stats_onmessage now f s)" "dash_inv s \<Longrightarrow> dash_inv (onmessage_dash now f s)"
  by (auto simp: stats_onmessage_def onmessage_dash_def dash_inv_def push_bandwidth_def Let_def add_logs_def
      length_slice_last traffic_window.push_bounded split: option.splits sum.splits)

lemma dash_event_inv: "dash_event s t \<Longrightarrow> dash_inv s \<Longrightarrow> dash_inv t"
proof (induction rule: dash_event.induct)
  case (stats_opened s i)
  then show ?case by (simp add: dash_inv_def)
next
  case (stats_closed s i)
  then show ?case by (auto simp: dash_inv_def)
qed (simp_all add: dash_inv_messages onopen_dash_def onclose_dash_def)

lemma dash_ev_inv: "dash_ev s t \<Longrightarrow> dash_inv s \<Longrightarrow> dash_inv t"
  by (auto simp: dash_ev_def initWebSocket_def cleanup_dash_def elim!: dash_stepE intro: dash_event_inv)

lemma dash_keeps:
  "dash_inv s \<Longrightarrow> keeps A dash_inv fetchRealNodes s" "dash_inv s \<Longrightarrow> keeps A dash_inv checkClientStatus s"
  "dash_inv s \<Longrightarrow> keeps A dash_inv deleteAllNodes s"
  "dash_inv s \<Longrightarrow> keeps A dash_inv fetchSchedulerStats s" "dash_inv s \<Longrightarrow> keeps A dash_inv fetchDomainStats s"
  by (simp_all add: dash_action_defs split: reply.splits body.splits sum.splits option.splits)

lemma dash_keeps_node:
  "dash_inv s \<Longrightarrow> keeps A dash_inv (connectNode n) s" "dash_inv s \<Longrightarrow> keeps A dash_inv disconnectNode s"
  by (simp_all add: connectNode_def disconnectNode_def fetchRealNodes_def
      split: reply.splits body.splits sum.splits option.splits)

lemma dash_acts_keep: "t \<in> dash_acts \<Longrightarrow> dash_inv s \<Longrightarrow> keeps A dash_inv t s"
  by (auto simp: dash_acts_def dash_keeps dash_keeps_node)

lemma dash_inv_init: "dash_inv (init_dash clock proto h st)"
  by (simp add: dash_inv_def init_dash_def live_sockets_def)

interpretation dash_async: async_store dash_acts answers dash_ev "init_dash clock proto h st" dash_inv
  for clock proto h st
  by unfold_locales (simp_all add: dash_inv_init dash_acts_keep dash_ev_inv)

lemma truncate_dash [simp]:
  "link.truncate (add_logs ls s) = link.truncate s"
  "link.truncate (connectStream s) = link.truncate s" "link.truncate (disconnectStream s) = link.truncate s"
  "link.truncate (onmessage_dash now f s) = link.truncate s"
  "link.truncate (stats_onmessage now f s) = link.truncate s"
  "link.truncate (s\<lparr>stats_sockets := w\<rparr>) = link.truncate s"
  by (simp_all add: link.truncate_def add_logs_def connectStream_def disconnectStream_def onmessage_dash_def
      stats_onmessage_def Let_def split: option.splits sum.splits)

lemma dash_event_link: "dash_event s t \<Longrightarrow> link_step careless (link.truncate s, m) (link.truncate t, m)"
  by (erule dash_eventE)
    (auto simp: truncate_link_ops onopen_dash_def onclose_dash_def
      intro: link_step.intros link_step.opened [of "link.truncate s", unfolded truncate_fields]
        link_step.closed [of "link.truncate s", unfolded truncate_fields]
        link_step.fired [of _ "link.truncate s", unfolded truncate_fields])

interpretation dash_link: link_owner careless link.truncate dash_step "init_dash clock proto h st"
  for clock proto h st
proof
  show "link.truncate (init_dash clock proto h st) = init_link"
    by (simp add: link.truncate_def init_dash_def init_link_def)
  show "link_step careless (link.truncate s, m) (link.truncate t, m')" if "dash_step (s, m) (t, m')" for s m t m'
    using that by (auto elim!: dash_stepE simp: initWebSocket_def cleanup_dash_def truncate_link_ops
        intro: link_step.intros dash_event_link)
qed

section \<open>Properties\<close>

text \<open>The client dashboard's histories stay bounded whatever happens: under every interleaving of its
  seven asynchronous actions, the user's answers, both sockets and the timers, the bandwidth chart
  has exactly 30 points, the traffic history at most 30 and the log at most 51 lines, and at most
  the stored traffic socket is alive.\<close>

theorem dashboard_bounded:
  assumes "areach dash_acts answers dash_ev (init_dash clock proto h st) s p"
  shows "length (bandwidthHistory s) = 30 \<and> length (trafficHistory s) \<le> 30 \<and> length (logs s) \<le> 51 \<and>
    live_sockets (stats_sockets s) \<subseteq> set_option (wsStats s)"
  using dash_async.reach_inv [OF assms] by (simp add: dash_inv_def)

theorem dashboard_bounded_witness:
  "length (bandwidthHistory (connectStream (init_dash show_nat ''http:'' ''h'' Map.empty))) = 30"
proof -
  let ?s = "init_dash show_nat ''http:'' ''h'' Map.empty"
  have "dash_ev ?s (connectStream ?s)"
    unfolding dash_ev_def using dash_step.happens [OF dash_event.stream_on] by blast
  have "areach dash_acts answers dash_ev ?s (connectStream ?s) []"
    by (rule areach.event [OF areach.start]) fact
  from dashboard_bounded [OF this] show ?thesis by blast
qed

definition connect_outcome :: "dash_state \<Rightarrow> bool" where
  "connect_outcome s \<longleftrightarrow> connectionState s = Connected \<and> selectedNode s \<noteq> None \<or>
     connectionState s = Disconnected \<and> selectedNode s = None \<and>
     (\<exists>e. last (logs s) = JStr (''[Error] Connection failed: '' @ e))"

lemma connect_stream_fields [simp]:
  "connectionState (connectStream s) = connectionState s" "selectedNode (connectStream s) = selectedNode s"
  by (simp_all add: connectStream_def)

lemma add_logs_fields [simp]:
  "connectionState (add_logs ls s) = connectionState s" "selectedNode (add_logs ls s) = selectedNode s"
  "ls \<noteq> [] \<Longrightarrow> last (logs (add_logs ls s)) = last ls"
  by (simp_all add: add_logs_def)

lemma alone_dash_fetch [simp]:
  "alone Q E (dash_fetch meth url) s \<longleftrightarrow> (\<forall>r :: reply + bool. case r of Inl (Rejected e) \<Rightarrow> E e s
     | Inl (Response ok b) \<Rightarrow> Q (ok, b) s | Inr _ \<Rightarrow> E [] s)"
  by (auto simp: dash_fetch_def split: reply.splits sum.splits)

lemma connectNode_alone: "alone (\<lambda>_. connect_outcome) (\<lambda>_ _. False) (connectNode n) s"
  by (simp add: connectNode_def fetchRealNodes_def connect_outcome_def
      split: reply.splits body.splits sum.splits option.splits)
    (auto split: sum.splits reply.splits)

text \<open>C9: Connecting to a node always settles: whatever the two requests and the refresh of the node list
  answer, \<open>connectNode\<close> never throws, and when it returns the dashboard either shows a connection
  with a selected node, or none, with the reason as the last line of the log; it never stays on
  \<open>connecting\<close>.\<close>

theorem connect_node_settles:
  assumes "run (connectNode n) rs s = (qs, out, s', rest)" and "out \<noteq> Waiting"
  shows "out = Returned () \<and>
    (connectionState s' = Connected \<and> selectedNode s' \<noteq> None \<or>
     connectionState s' = Disconnected \<and> selectedNode s' = None \<and>
     (\<exists>e. last (logs s') = JStr (''[Error] Connection failed: '' @ e)))"
  using run_alone [OF connectNode_alone assms(1)] assms(2)
  by (auto simp: connect_outcome_def split: outcome.splits)

definition sample_node :: VPNNode where
  "sample_node = \<lparr>node_id = ''7'', node_name = ''home'', country = ''Global'', flag = globe, ip = JStr ''1.2.3.4'',
     ping = JNum 20, active = JBool True, accounts = 1, scheduledIn = [], scheduledOut = [], balance = []\<rparr>"

theorem connect_node_settles_witness:
  "connectionState (final (connectNode sample_node) [Inl (Rejected ''offline'')]
     (init_dash show_nat ''http:'' ''h'' Map.empty)) = Disconnected"
proof -
  let ?t = "connectNode sample_node" and ?s = "init_dash show_nat ''http:'' ''h'' Map.empty"
  obtain qs out s' rest where r: "run ?t [Inl (Rejected ''offline'')] ?s = (qs, out, s', rest)"
    by (metis prod_cases4)
  have o: "out = Returned ()" and "connectionState s' \<noteq> Connected"
    using r by (auto simp: connectNode_def dash_fetch_def)
  with connect_node_settles [OF r] show ?thesis by (simp add: final_def r)
qed

lemma zombie_cycle:
  assumes "dash_step\<^sup>*\<^sup>* x (s, False)"
  obtains t where "dash_step\<^sup>*\<^sup>* x (t, False)"
    and "card (live_sockets (sockets t)) = Suc (card (live_sockets (sockets s)))"
proof -
  let ?i = "length (sockets s)" and ?k = "length (timers s)"
  let ?s1 = "initWebSocket False ''t'' s"
  let ?s2 = "cleanup_dash ?s1"
  let ?s3 = "onclose_dash (sock_url (sockets ?s2 ! ?i)) (?s2\<lparr>sockets := set_ready ?i CLOSED (sockets ?s2)\<rparr>)"
  let ?url = "fst (timers ?s3 ! ?k)"
  let ?s4 = "link_connect False ?url (?s3\<lparr>timers := clear_timer ?k (timers ?s3)\<rparr>)"
  note defs = initWebSocket_def link_connect_def cleanup_dash_def link_cleanup_def onclose_dash_def
    link_onclose_def careless_def Let_def
  have 1: "dash_step (s, False) (?s1, True)" by (rule dash_step.mount)
  have 2: "dash_step (?s1, True) (?s2, False)" by (rule dash_step.unmount)
  have 3: "dash_step (?s2, False) (?s3, False)"
    by (intro dash_step.happens dash_event.closed) (simp_all add: defs split: option.splits)
  have 4: "dash_step (?s3, False) (?s4, False)"
    by (intro dash_step.happens dash_event.fired) (simp_all add: defs split: option.splits)
  have "live_sockets (sockets ?s4) = insert (Suc ?i) (live_sockets (sockets s))"
    by (auto simp: defs live_sockets_def less_Suc_eq split: option.splits)
  moreover have "Suc ?i \<notin> live_sockets (sockets s)" by (simp add: live_sockets_def)
  ultimately have "card (live_sockets (sockets ?s4)) = Suc (card (live_sockets (sockets s)))" by simp
  moreover have "dash_step\<^sup>*\<^sup>* x (?s4, False)" using assms 1 2 3 4 by (meson rtranclp.rtrancl_into_rtrancl)
  ultimately show ?thesis using that by blast
qed

text \<open>C13: Unmounting the dashboard does not end its telemetry connection: the clean-up leaves the close
  handler attached, which schedules the next attempt. Every visit to the page leaves one more live
  socket behind: for every \<open>n\<close> there is a run that ends unmounted with \<open>n\<close> live sockets.\<close>

theorem dashboard_zombie_connections:
  "\<exists>s. dash_step\<^sup>*\<^sup>* (init_dash clock proto h st, False) (s, False) \<and> card (live_sockets (sockets s)) = n"
proof (induction n)
  case 0
  have "live_sockets (sockets (init_dash clock proto h st)) = {}"
    by (simp add: init_dash_def live_sockets_def)
  then show ?case by (intro exI [of _ "init_dash clock proto h st"]) simp
next
  case (Suc n)
  then show ?case by (metis zombie_cycle)
qed

section \<open>What the code does not mean to do\<close>

text \<open>The country is looked for as a part of the name, so two-letter codes match inside words.\<close>

lemma country_of_words:
  "country_of ''sweden'' = (''Germany'', flag_of ''DE'')"
  "country_of ''russia'' = (''United States'', flag_of ''US'')"
  "country_of ''ireland'' = (''Iran'', flag_of ''IR'')"
  by (simp_all add: country_of_def includes_any_def)

text \<open>A failed deletion empties the list all the same.\<close>

lemma delete_all_ignores_failure:
  "nodes (final deleteAllNodes [Inr True, Inl (Response False b)] s) = []"
  by (simp add: deleteAllNodes_def ask_confirm_def dash_fetch_def run_defs disconnectStream_def add_logs_def
      split: option.splits)

text \<open>When the traffic socket dies by itself the store keeps it, and asking for a stream again does
  nothing.\<close>

lemma dead_stream_blocks:
  "\<exists>s. dash_event\<^sup>*\<^sup>* (init_dash clock proto h st) s \<and> live_sockets (stats_sockets s) = {} \<and>
     wsStats s = Some 0 \<and> connectStream s = s"
proof -
  let ?s0 = "init_dash clock proto h st" and ?s1 = "connectStream (init_dash clock proto h st)"
  let ?s2 = "?s1\<lparr>stats_sockets := set_ready 0 CLOSED (stats_sockets ?s1)\<rparr>"
  have "dash_event ?s0 ?s1" by (rule dash_event.stream_on)
  moreover have "dash_event ?s1 ?s2"
    by (rule dash_event.stats_closed) (simp add: connectStream_def init_dash_def)
  ultimately have "dash_event\<^sup>*\<^sup>* ?s0 ?s2" by (rule run_steps2)
  then show ?thesis
    by (intro exI [of _ ?s2]) (auto simp: connectStream_def init_dash_def live_sockets_def)
qed

end
