(* ===== verification/Server_Dashboard.thy ===== *)
theory Server_Dashboard
  imports Reconnect TS_Types Windows
begin

text \<open>
  \<open>dashboardStore.ts\<close> of the server application (\<open>useServerStore\<close>): the machine's telemetry from the
  socket \<open>/ws\<close>, the connected clients, and a simulator that takes over while the socket is down.
  Wall-clock texts and the draws of \<open>Math.random()\<close> (rationals in \<open>[0, 1)\<close>) are arguments.
\<close>

definition ClientConnection :: ts where
  "ClientConnection = TObj
    [req ''id'' TString, req ''username'' TString, req ''ip'' TString, req ''country'' TString,
     req ''flag'' TString, req ''protocol'' TString, req ''connectedAt'' TString, req ''duration'' TString,
     req ''uploadSpeed'' TNumber, req ''downloadSpeed'' TNumber, req ''active'' TBool]"

record point =
  time :: string
  upload :: jsv
  download :: jsv

text \<open>The figures, in the order of the interface \<open>ServerState\<close>.\<close>

record metrics =
  cpu :: jsv
  memory :: jsv
  disk :: jsv
  mem_total_gb :: jsv
  mem_used_gb :: jsv
  disk_total_gb :: jsv
  disk_used_gb :: jsv
  uptime_seconds :: jsv
  app_mem_mb :: jsv
  go_version :: jsv
  os_runtime :: jsv
  active_leeches :: jsv
  active_torrents :: jsv
  active_scheds :: jsv
  cpu_cores_percent :: jsv
  cpu_mhz :: jsv
  mem_free_gb :: jsv
  swap_total_gb :: jsv
  swap_used_gb :: jsv
  swap_percent :: jsv
  disk_free_gb :: jsv
  disk_read_bytes_sec :: jsv
  disk_write_bytes_sec :: jsv
  net_recv_bytes_sec :: jsv
  net_sent_bytes_sec :: jsv
  cpu_temp :: jsv
  boot_time :: jsv
  os_platform :: jsv
  os_kernel :: jsv
  s3_enabled :: jsv
  s3_object_count :: jsv
  s3_total_size_gb :: jsv

record server_state = link +
  figures :: metrics
  activeConnectionsCount :: jsv
  clients :: jsv
  bandwidthHistory :: "point list"
  totalBandwidth :: "jsv \<times> jsv"
  logs :: "jsv list"
  mockInterval :: "nat option"
  intervals :: "bool list"
  page_protocol :: string
  page_host :: string
  local_storage :: storage

definition mock_client :: "string \<Rightarrow> string \<Rightarrow> string \<Rightarrow> string \<Rightarrow> string \<Rightarrow> string \<Rightarrow> string \<Rightarrow> string \<Rightarrow>
    rat \<Rightarrow> rat \<Rightarrow> bool \<Rightarrow> jsv" where
  "mock_client i user ip ctry flg proto since dur up down act = JObj
     [(''id'', JStr i), (''username'', JStr user), (''ip'', JStr ip), (''country'', JStr ctry), (''flag'', JStr flg),
      (''protocol'', JStr proto), (''connectedAt'', JStr since), (''duration'', JStr dur),
      (''uploadSpeed'', JNum up), (''downloadSpeed'', JNum down), (''active'', JBool act)]"

definition regional :: "char \<Rightarrow> string" where
  "regional c = [CHR 0xF0, CHR 0x9F, CHR 0x87, char_of ((of_char c :: nat) + 101)]"

definition flag_of :: "string \<Rightarrow> string" where
  "flag_of code = concat (map regional code)"

definition mock_clients :: "jsv list" where
  "mock_clients =
    [mock_client ''1'' ''salman_desktop'' ''82.102.23.45'' ''Iran'' (flag_of ''IR'') ''VLESS-XTLS'' ''12:04:12''
       ''02h 35m'' (24 / 10) (125 / 10) True,
     mock_client ''2'' ''john_iphone'' ''188.45.67.12'' ''Germany'' (flag_of ''DE'') ''Shadowsocks'' ''13:10:00''
       ''01h 29m'' (11 / 10) (58 / 10) True,
     mock_client ''3'' ''mary_macbook'' ''95.12.89.200'' ''United Kingdom'' (flag_of ''GB'') ''Trojan'' ''14:02:15''
       ''37m'' (8 / 10) (21 / 10) True,
     mock_client ''4'' ''office_router'' ''104.22.4.90'' ''United States'' (flag_of ''US'') ''Wireguard'' ''08:12:45''
       ''06h 27m'' (48 / 10) (182 / 10) True]"

definition init_metrics :: "rat \<Rightarrow> metrics" where
  "init_metrics now = \<lparr>cpu = JNum 24, memory = JNum 45, disk = JNum 18, mem_total_gb = JNum 16,
     mem_used_gb = JNum (72 / 10), disk_total_gb = JNum 500, disk_used_gb = JNum 90,
     uptime_seconds = JNum 7200, app_mem_mb = JNum 24, go_version = JStr ''go1.22.4'',
     os_runtime = JStr ''linux'', active_leeches = JNum 0, active_torrents = JNum 0, active_scheds = JNum 0,
     cpu_cores_percent = JArr [JNum 20, JNum 25, JNum 18, JNum 30], cpu_mhz = JNum 2400,
     mem_free_gb = JNum (88 / 10), swap_total_gb = JNum 2, swap_used_gb = JNum (1 / 2), swap_percent = JNum 25,
     disk_free_gb = JNum 410, disk_read_bytes_sec = JNum 0, disk_write_bytes_sec = JNum 0,
     net_recv_bytes_sec = JNum 0, net_sent_bytes_sec = JNum 0, cpu_temp = JNum (425 / 10),
     boot_time = JNum (now / 1000 - 7200), os_platform = JStr ''ubuntu'', os_kernel = JStr ''5.15.0-generic'',
     s3_enabled = JBool False, s3_object_count = JNum 0, s3_total_size_gb = JNum 0\<rparr>"

definition init_server :: "rat \<Rightarrow> (nat \<Rightarrow> string) \<Rightarrow> string \<Rightarrow> string \<Rightarrow> storage \<Rightarrow> server_state" where
  "init_server now clock proto h st = \<lparr>ws = None, reconnectTimeout = None, timers = [], sockets = [],
     wsConnected = False, figures = init_metrics now, activeConnectionsCount = JNum 4,
     clients = JArr mock_clients,
     bandwidthHistory = map (\<lambda>i. \<lparr>time = clock i, upload = JNum 15, download = JNum 65\<rparr>) [0..<30],
     totalBandwidth = (JNum 14205, JNum 52402),
     logs = map JStr [''[System] CleverConnect VPN Server Initialized.'',
       ''[System] Firewall rules generated. IP tables operational.'',
       ''[VLESS] Inbound port 443 active.'', ''[Shadowsocks] Inbound port 8388 active.'',
       ''[System] SQLite and MySQL connection handles initialized.''],
     mockInterval = None, intervals = [], page_protocol = proto, page_host = h, local_storage = st\<rparr>"

definition push_log :: "jsv \<Rightarrow> jsv list \<Rightarrow> jsv list" where
  "push_log line xs = slice_last 49 xs @ [line]"

definition add_log :: "jsv \<Rightarrow> server_state \<Rightarrow> server_state" where
  "add_log line s = s\<lparr>logs := push_log line (logs s)\<rparr>"

definition push_bandwidth :: "point \<Rightarrow> point list \<Rightarrow> point list" where
  "push_bandwidth p h = drop 1 h @ [p]"

section \<open>Clients\<close>

text \<open>\<open>Math.max(0, state.activeConnectionsCount - 1)\<close>.\<close>

definition one_less :: "jsv \<Rightarrow> jsv" where
  "one_less v = math_max 0 (num_add v (JNum (- 1)))"

text \<open>The patch that both ways of removing a client apply.\<close>

definition drop_client :: "string \<Rightarrow> string \<Rightarrow> server_state \<Rightarrow> (server_state \<Rightarrow> server_state) res" where
  "drop_client i line s =
     (case as_array ''state.clients'' ''filter'' (clients s) of Inl e \<Rightarrow> Inl e
      | Inr xs \<Rightarrow> (case filter_res (prop_is_not ''id'' (JStr i)) xs of Inl e \<Rightarrow> Inl e
          | Inr ys \<Rightarrow> Inr (\<lambda>s. add_log (JStr line)
              (s\<lparr>clients := JArr ys, activeConnectionsCount := one_less (activeConnectionsCount s)\<rparr>))))"

definition disconnectClient :: "string \<Rightarrow> (server_state, bool) action" where
  "disconnectClient i =
     try_catch
       (bind (Get (\<lambda>s. fetch (http_send ''POST'' (''/api/clients/disconnect/'' @ i)
                [auth_header (js_string (get_item (local_storage s) ''cc_server_token''))] None))) (\<lambda>_.
          bind (set_with (drop_client i (''[System] Forcefully disconnected client session: '' @ i)))
            (\<lambda>_. Done True)))
       (\<lambda>_. Done False)"

definition blockClient :: "string \<Rightarrow> (server_state, bool) action" where
  "blockClient i =
     bind (set_with (drop_client i (''[Firewall] Blocked & Blacklisted client: '' @ i))) (\<lambda>_. Done True)"

definition new_client :: "jsv \<Rightarrow> string \<Rightarrow> string \<Rightarrow> jsv" where
  "new_client n now user = mock_client (js_string (js_add n (JNum 1))) user ''127.0.0.1'' ''Local''
     [CHR 0xF0, CHR 0x9F, CHR 0x92, CHR 0xBB] ''VLESS'' now ''0s'' 0 0 False"

definition addClient :: "string \<Rightarrow> string \<Rightarrow> (server_state, bool) action" where
  "addClient now user =
     Get (\<lambda>s. bind (lift_res (get_prop (clients s) ''length'')) (\<lambda>n.
       bind (set_with (\<lambda>s. case iterate ''state.clients'' (clients s) of Inl e \<Rightarrow> Inl e
           | Inr xs \<Rightarrow> Inr (\<lambda>s. add_log (JStr (''[Admin] Created new client credentials for username: '' @ user))
               (s\<lparr>clients := JArr (xs @ [new_client n now user])\<rparr>))))
         (\<lambda>_. Done True)))"

section \<open>Telemetry\<close>

text \<open>\<open>data.k || old\<close>.\<close>

definition or_old :: "jsv \<Rightarrow> string \<Rightarrow> jsv \<Rightarrow> jsv" where
  "or_old data k old = js_or (opt_prop data k) old"

definition telemetry_figures :: "jsv \<Rightarrow> metrics \<Rightarrow> metrics" where
  "telemetry_figures d m = m\<lparr>
     cpu := opt_prop d ''cpu'', memory := opt_prop d ''memory'', disk := opt_prop d ''disk'',
     mem_total_gb := opt_prop d ''mem_total_gb'', mem_used_gb := opt_prop d ''mem_used_gb'',
     disk_total_gb := opt_prop d ''disk_total_gb'', disk_used_gb := opt_prop d ''disk_used_gb'',
     uptime_seconds := opt_prop d ''uptime_seconds'', app_mem_mb := opt_prop d ''app_mem_mb'',
     go_version := opt_prop d ''go_version'', os_runtime := opt_prop d ''os_runtime'',
     active_leeches := opt_prop d ''active_leeches'', active_torrents := opt_prop d ''active_torrents'',
     active_scheds := opt_prop d ''active_scheds'',
     cpu_cores_percent := or_old d ''cpu_cores_percent'' (cpu_cores_percent m),
     cpu_mhz := or_old d ''cpu_mhz'' (cpu_mhz m),
     mem_free_gb := or_old d ''mem_free_gb'' (mem_free_gb m),
     swap_total_gb := or_old d ''swap_total_gb'' (swap_total_gb m),
     swap_used_gb := or_old d ''swap_used_gb'' (swap_used_gb m),
     swap_percent := or_old d ''swap_percent'' (swap_percent m),
     disk_free_gb := or_old d ''disk_free_gb'' (disk_free_gb m),
     disk_read_bytes_sec := or_old d ''disk_read_bytes_sec'' (JNum 0),
     disk_write_bytes_sec := or_old d ''disk_write_bytes_sec'' (JNum 0),
     net_recv_bytes_sec := or_old d ''net_recv_bytes_sec'' (JNum 0),
     net_sent_bytes_sec := or_old d ''net_sent_bytes_sec'' (JNum 0),
     cpu_temp := or_old d ''cpu_temp'' (cpu_temp m),
     boot_time := or_old d ''boot_time'' (boot_time m),
     os_platform := or_old d ''os_platform'' (os_platform m),
     os_kernel := or_old d ''os_kernel'' (os_kernel m),
     s3_enabled := or_old d ''s3_enabled'' (JBool False),
     s3_object_count := or_old d ''s3_object_count'' (JNum 0),
     s3_total_size_gb := or_old d ''s3_total_size_gb'' (JNum 0)\<rparr>"

definition onmessage_server :: "string \<Rightarrow> jsv option \<Rightarrow> server_state \<Rightarrow> server_state" where
  "onmessage_server now frame s = (case frame of None \<Rightarrow> s | Some data \<Rightarrow>
     (case get_prop data ''type'' of Inl e \<Rightarrow> s
      | Inr type \<Rightarrow>
        if strict_eq type (JStr ''telemetry'') then
          s\<lparr>figures := telemetry_figures data (figures s),
            activeConnectionsCount := opt_prop data ''connsCount'',
            bandwidthHistory := push_bandwidth \<lparr>time = now, upload = opt_prop data ''uploadSpeed'',
              download = opt_prop data ''downloadSpeed''\<rparr> (bandwidthHistory s),
            totalBandwidth := (opt_prop data ''totalUpload'', opt_prop data ''totalDownload''),
            clients := or_old data ''clients'' (clients s)\<rparr>
        else if strict_eq type (JStr ''log'') then add_log (opt_prop data ''message'') s
        else s))"

section \<open>The simulator\<close>

definition floor_num :: "rat \<Rightarrow> rat" where
  "floor_num x = of_int \<lfloor>x\<rfloor>"

text \<open>\<open>state.clients.reduce((acc, c) => acc + (c.active ? c[k] : 0), 0)\<close>.\<close>

fun sum_active :: "string \<Rightarrow> jsv \<Rightarrow> jsv list \<Rightarrow> jsv res" where
  "sum_active k acc [] = Inr acc"
| "sum_active k acc (c # cs) =
     (case get_prop c ''active'' of Inl e \<Rightarrow> Inl e
      | Inr a \<Rightarrow> sum_active k (js_add acc (if truthy a then opt_prop c k else JNum 0)) cs)"

text \<open>\<open>parseFloat(v.toFixed(1))\<close>: a string has no \<open>toFixed\<close>.\<close>

definition fixed_res :: "string \<Rightarrow> jsv \<Rightarrow> jsv res" where
  "fixed_res what v = (if is_str v then Inl (what @ ''.toFixed is not a function'') else Inr (fixed 1 v))"

definition sim_client :: "(rat \<times> rat) \<Rightarrow> jsv \<Rightarrow> jsv res" where
  "sim_client r c = (case get_prop c ''active'' of Inl e \<Rightarrow> Inl e
     | Inr a \<Rightarrow> Inr (if truthy a
         then spread2 c (JObj [(''uploadSpeed'', fixed 1 (JNum (fst r * 3 + 2 / 10))),
                               (''downloadSpeed'', fixed 1 (JNum (snd r * 15 + 1)))])
         else c))"

text \<open>\<open>Math.max(0, Math.min(100, c + Math.floor(Math.random() * 11) - 5))\<close>.\<close>

definition sim_core :: "rat \<Rightarrow> jsv \<Rightarrow> jsv" where
  "sim_core r c = math_max 0 (math_min 100 (num_add (js_add c (JNum (floor_num (r * 11)))) (JNum (- 5))))"

definition sim_mem :: "rat \<Rightarrow> rat" where
  "sim_mem r = 44 + floor_num (r * 4) - 2"

definition sim_figures :: "(nat \<Rightarrow> rat) \<Rightarrow> jsv list \<Rightarrow> metrics \<Rightarrow> metrics" where
  "sim_figures rnd cores m = (let mem = sim_mem (rnd 1) in m\<lparr>
     cpu := JNum (floor_num (rnd 0 * 20) + 15), memory := JNum mem,
     mem_total_gb := JNum 16, mem_used_gb := fixed 1 (JNum (16 * (mem / 100))),
     disk_total_gb := JNum 500, disk_used_gb := JNum (90 + floor_num (rnd 4 * 2)),
     uptime_seconds := js_add (uptime_seconds m) (JNum 2),
     app_mem_mb := fixed 1 (JNum (20 + rnd 5 * 5)),
     go_version := JStr ''go1.22.4'', os_runtime := JStr ''linux'',
     cpu_cores_percent := JArr cores, cpu_mhz := JNum (2400 + floor_num (rnd 6 * 100) - 50),
     mem_free_gb := fixed 1 (JNum (16 - 16 * (mem / 100))), swap_total_gb := JNum 2,
     swap_used_gb := JNum (1 / 2 + rnd 7 / 10), swap_percent := JNum (25 + floor_num (rnd 8 * 5)),
     disk_free_gb := JNum (410 - floor_num (rnd 9 * 2)),
     disk_read_bytes_sec := JNum (rnd 10 * 1024 * 1024 * 5),
     disk_write_bytes_sec := JNum (rnd 11 * 1024 * 1024 * 10),
     net_recv_bytes_sec := JNum (rnd 12 * 1024 * 1024 * 8),
     net_sent_bytes_sec := JNum (rnd 13 * 1024 * 1024 * 2),
     cpu_temp := JNum (40 + rnd 14 * 10), os_platform := JStr ''ubuntu'',
     os_kernel := JStr ''5.15.0-generic''\<rparr>)"

text \<open>One tick of the interval. The updater may throw: then nothing is written.\<close>

definition simulate :: "(nat \<Rightarrow> rat) \<Rightarrow> (nat \<Rightarrow> rat \<times> rat) \<Rightarrow> (nat \<Rightarrow> rat) \<Rightarrow> string \<Rightarrow> server_state \<Rightarrow>
    server_state res" where
  "simulate rnd client_rnd core_rnd now s =
     (case as_array ''state.clients'' ''reduce'' (clients s) of Inl e \<Rightarrow> Inl e | Inr cs \<Rightarrow>
      (case sum_active ''uploadSpeed'' (JNum 0) cs of Inl e \<Rightarrow> Inl e | Inr up0 \<Rightarrow>
      (case sum_active ''downloadSpeed'' (JNum 0) cs of Inl e \<Rightarrow> Inl e | Inr down0 \<Rightarrow>
      (case fixed_res ''upSpeed'' (js_add up0 (JNum (rnd 2 * 2))) of Inl e \<Rightarrow> Inl e | Inr up \<Rightarrow>
      (case fixed_res ''downSpeed'' (js_add down0 (JNum (rnd 3 * 5))) of Inl e \<Rightarrow> Inl e | Inr down \<Rightarrow>
      (case map_res (\<lambda>(i, c). sim_client (client_rnd i) c) (zip [0..<length cs] cs) of Inl e \<Rightarrow> Inl e
       | Inr cs' \<Rightarrow>
      (case as_array ''state.cpu_cores_percent'' ''map'' (cpu_cores_percent (figures s)) of Inl e \<Rightarrow> Inl e
       | Inr cores \<Rightarrow>
         Inr (s\<lparr>figures := sim_figures rnd (map (\<lambda>(i, c). sim_core (core_rnd i) c) (zip [0..<length cores] cores))
                  (figures s),
                clients := JArr cs',
                bandwidthHistory := push_bandwidth \<lparr>time = now, upload = up, download = down\<rparr> (bandwidthHistory s),
                totalBandwidth := (js_add (fst (totalBandwidth s)) (JNum (1 / 10)),
                                   js_add (snd (totalBandwidth s)) (JNum (1 / 2)))\<rparr>))))))))"

definition mock_tick :: "(nat \<Rightarrow> rat) \<Rightarrow> (nat \<Rightarrow> rat \<times> rat) \<Rightarrow> (nat \<Rightarrow> rat) \<Rightarrow> string \<Rightarrow> server_state \<Rightarrow> server_state" where
  "mock_tick rnd client_rnd core_rnd now s =
     (if wsConnected s then s
      else case simulate rnd client_rnd core_rnd now s of Inl e \<Rightarrow> s | Inr s' \<Rightarrow> s')"

section \<open>The telemetry socket\<close>

definition initWebSocket :: "bool \<Rightarrow> string \<Rightarrow> server_state \<Rightarrow> server_state" where
  "initWebSocket throws token s =
     (let s1 = link_connect throws (ws_url (page_protocol s) (page_host s) ''/ws'' token) s
      in s1\<lparr>mockInterval := Some (length (intervals s1)), intervals := intervals s1 @ [True]\<rparr>)"

definition cleanup_server :: "server_state \<Rightarrow> server_state" where
  "cleanup_server s =
     (let s1 = link_cleanup careless s
      in case mockInterval s1 of None \<Rightarrow> s1
         | Some k \<Rightarrow> s1\<lparr>intervals := (intervals s1)[k := False], mockInterval := None\<rparr>)"

definition onopen_server :: "server_state \<Rightarrow> server_state" where
  "onopen_server s = add_log (JStr ''[System] Real-time server telemetry channel active.'') (link_onopen s)"

definition onclose_server :: "string \<Rightarrow> server_state \<Rightarrow> server_state" where
  "onclose_server url s =
     add_log (JStr ''[Warning] Closed connection. Running on local simulator.'') (link_onclose careless url s)"

definition server_acts :: "(server_state, bool) action set" where
  "server_acts = range disconnectClient \<union> range blockClient \<union> {addClient now u | now u. True}"

text \<open>Events of the socket, of the timers and of the simulator's interval.\<close>

inductive server_event :: "server_state \<Rightarrow> server_state \<Rightarrow> bool" where
  opened: "ready_of (sockets s) i = CONNECTING \<Longrightarrow>
     server_event s (onopen_server (s\<lparr>sockets := set_ready i OPEN (sockets s)\<rparr>))"
| message: "ready_of (sockets s) i = OPEN \<Longrightarrow> server_event s (onmessage_server now frame s)"
| closed: "ready_of (sockets s) i \<noteq> CLOSED \<Longrightarrow> onclose_attached (sockets s) i \<Longrightarrow>
     server_event s (onclose_server (sock_url (sockets s ! i)) (s\<lparr>sockets := set_ready i CLOSED (sockets s)\<rparr>))"
| fired: "k < length (timers s) \<Longrightarrow> timers s ! k = (url, True) \<Longrightarrow>
     server_event s (link_connect throws url (s\<lparr>timers := clear_timer k (timers s)\<rparr>))"
| tick: "k < length (intervals s) \<Longrightarrow> intervals s ! k \<Longrightarrow>
     server_event s (mock_tick rnd client_rnd core_rnd now s)"

inductive server_step :: "server_state \<times> bool \<Rightarrow> server_state \<times> bool \<Rightarrow> bool" where
  mount: "server_step (s, False) (initWebSocket throws token s, True)"
| unmount: "server_step (s, True) (cleanup_server s, False)"
| happens: "server_event s t \<Longrightarrow> server_step (s, m) (t, m)"

inductive_cases server_eventE: "server_event s t"
inductive_cases server_stepE: "server_step x y"

definition server_ev :: "server_state \<Rightarrow> server_state \<Rightarrow> bool" where
  "server_ev s t \<longleftrightarrow> (\<exists>m m'. server_step (s, m) (t, m'))"

section \<open>Invariants\<close>

interpretation server_log: sliding_window push_log 50
proof
  show "push_log x xs = slice_last 50 (xs @ [x])" for x :: jsv and xs
    by (cases "length xs \<le> 49") (simp_all add: push_log_def slice_last_def Suc_diff_le)
qed simp

definition server_inv :: "server_state \<Rightarrow> bool" where
  "server_inv s \<longleftrightarrow> length (bandwidthHistory s) = 30 \<and> length (logs s) \<le> 50"

lemma server_inv_add_log [simp]: "server_inv s \<Longrightarrow> server_inv (add_log line s)"
  by (simp add: server_inv_def add_log_def server_log.push_bounded)

lemma server_inv_other [simp]:
  "server_inv (s\<lparr>sockets := w\<rparr>) = server_inv s" "server_inv (s\<lparr>timers := ts\<rparr>) = server_inv s"
  "server_inv (s\<lparr>clients := c\<rparr>) = server_inv s" "server_inv (s\<lparr>activeConnectionsCount := n\<rparr>) = server_inv s"
  "server_inv (s\<lparr>intervals := ks\<rparr>) = server_inv s" "server_inv (s\<lparr>mockInterval := k\<rparr>) = server_inv s"
  "server_inv (link_connect t u s) = server_inv s" "server_inv (link_onopen s) = server_inv s"
  "server_inv (link_onclose p u s) = server_inv s" "server_inv (link_cleanup p s) = server_inv s"
  by (simp_all add: server_inv_def link_connect_def link_onopen_def link_onclose_def link_cleanup_def Let_def
      split: option.splits)

lemma push_bandwidth_length [simp]: "length h = 30 \<Longrightarrow> length (push_bandwidth p h) = 30"
  by (simp add: push_bandwidth_def)

lemma simulate_inv: "simulate r cr kr now s = Inr s' \<Longrightarrow> server_inv s \<Longrightarrow> server_inv s'"
  by (auto simp: simulate_def server_inv_def split: sum.splits)

lemma server_event_inv: "server_event s t \<Longrightarrow> server_inv s \<Longrightarrow> server_inv t"
proof (induction rule: server_event.induct)
  case (message s i now frame)
  then have "server_inv (add_log l s)" for l by simp
  with message show ?case
    by (auto simp: onmessage_server_def server_inv_def split: option.splits sum.splits)
next
  case (tick k s rnd client_rnd core_rnd now)
  then show ?case by (auto simp: mock_tick_def split: sum.splits dest: simulate_inv)
qed (simp_all add: onopen_server_def onclose_server_def)

lemma server_ev_inv: "server_ev s t \<Longrightarrow> server_inv s \<Longrightarrow> server_inv t"
  by (auto simp: server_ev_def initWebSocket_def cleanup_server_def Let_def elim!: server_stepE
      intro: server_event_inv split: option.splits)

lemma drop_client_inv: "drop_client i l s = Inr u \<Longrightarrow> server_inv s \<Longrightarrow> server_inv (u s)"
  by (auto simp: drop_client_def split: sum.splits)

lemma server_acts_inv: "t \<in> server_acts \<Longrightarrow> server_inv s \<Longrightarrow> keeps A server_inv t s"
  by (auto simp: server_acts_def disconnectClient_def blockClient_def addClient_def
      split: reply.splits sum.splits intro: drop_client_inv)

interpretation server_async: async_store server_acts "\<lambda>_ _. True" server_ev "init_server now clock proto h st"
    server_inv for now clock proto h st
proof
  show "server_inv (init_server now clock proto h st)" by (simp add: server_inv_def init_server_def)
qed (rule server_acts_inv server_ev_inv; assumption)+

text \<open>The simulator's intervals that still run.\<close>

definition running :: "bool list \<Rightarrow> nat set" where
  "running ks = {k. k < length ks \<and> ks ! k}"

lemma running_ops [simp]:
  "running (ks @ [True]) = insert (length ks) (running ks)" "finite (running ks)"
  by (auto simp: running_def nth_append less_Suc_eq)

lemma running_stop [simp]: "running (ks[k := False]) = running ks - {k}"
  by (cases "k < length ks") (auto simp: running_def nth_list_update split: if_splits)

definition interval_inv :: "server_state \<times> bool \<Rightarrow> bool" where
  "interval_inv x \<longleftrightarrow> running (intervals (fst x)) \<subseteq> set_option (mockInterval (fst x)) \<and>
     (\<not> snd x \<longrightarrow> running (intervals (fst x)) = {})"

lemma link_intervals [simp]:
  "intervals (link_connect t u s) = intervals s" "mockInterval (link_connect t u s) = mockInterval s"
  "intervals (link_cleanup p s) = intervals s" "mockInterval (link_cleanup p s) = mockInterval s"
  for s :: server_state
  by (simp_all add: link_connect_def link_cleanup_def Let_def split: option.splits)

lemma server_event_intervals: "server_event s t \<Longrightarrow> intervals t = intervals s \<and> mockInterval t = mockInterval s"
  by (induction rule: server_event.induct)
    (auto simp: onopen_server_def onclose_server_def onmessage_server_def mock_tick_def simulate_def add_log_def
      link_onopen_def link_onclose_def split: option.splits sum.splits)

lemma interval_step: "server_step x y \<Longrightarrow> interval_inv x \<Longrightarrow> interval_inv y"
proof (induction rule: server_step.induct)
  case (mount s throws token)
  then show ?case by (auto simp: interval_inv_def initWebSocket_def Let_def)
next
  case (unmount s)
  then show ?case by (cases "mockInterval s") (auto simp: interval_inv_def cleanup_server_def Let_def)
next
  case (happens s t m)
  then show ?case using server_event_intervals by (simp add: interval_inv_def)
qed

lemma truncate_server:
  "link.truncate (add_log l s) = link.truncate s" "link.truncate (onmessage_server now f s) = link.truncate s"
  "link.truncate (mock_tick r cr kr now s) = link.truncate s"
  "link.truncate (s\<lparr>intervals := ks\<rparr>) = link.truncate s" "link.truncate (s\<lparr>mockInterval := k\<rparr>) = link.truncate s"
  by (auto simp: link.truncate_def add_log_def onmessage_server_def mock_tick_def simulate_def
      split: option.splits sum.splits)

lemma server_event_link: "server_event s t \<Longrightarrow> link_step careless (link.truncate s, m) (link.truncate t, m)"
  by (erule server_eventE)
    (auto simp: truncate_server truncate_link_ops onopen_server_def onclose_server_def
      intro: link_step.intros link_step.opened [of "link.truncate s", unfolded truncate_fields]
        link_step.closed [of "link.truncate s", unfolded truncate_fields]
        link_step.fired [of _ "link.truncate s", unfolded truncate_fields])

interpretation server_link: link_owner careless link.truncate server_step "init_server now clock proto h st"
  for now clock proto h st
proof
  show "link.truncate (init_server now clock proto h st) = init_link"
    by (simp add: link.truncate_def init_server_def init_link_def)
  show "link_step careless (link.truncate s, m) (link.truncate t, m')" if "server_step (s, m) (t, m')" for s m t m'
    using that by (auto elim!: server_stepE simp: initWebSocket_def cleanup_server_def truncate_link_ops
        truncate_server Let_def intro: link_step.intros server_event_link split: option.splits)
qed

section \<open>Properties\<close>

lemma floor_num_bounds: "0 \<le> r \<Longrightarrow> r < 1 \<Longrightarrow> 0 < n \<Longrightarrow> 0 \<le> floor_num (r * of_nat n) \<and> floor_num (r * of_nat n) \<le> of_nat n - 1"
proof -
  assume r: "0 \<le> r" "r < 1" and n: "0 < n"
  have "r * of_nat n < of_nat n" using r n by simp
  then have "\<lfloor>r * of_nat n\<rfloor> < int n" by (simp add: floor_less_iff)
  then have "\<lfloor>r * of_nat n\<rfloor> \<le> int n - 1" by linarith
  then have "(of_int \<lfloor>r * of_nat n\<rfloor> :: rat) \<le> of_int (int n - 1)" by (rule iffD2 [OF of_int_le_iff])
  moreover have "0 \<le> \<lfloor>r * of_nat n\<rfloor>" using r by simp
  ultimately show ?thesis by (simp add: floor_num_def)
qed

lemma sim_core_bounds: "sim_core r c = JNum x \<Longrightarrow> 0 \<le> x \<and> x \<le> 100"
  by (auto simp: sim_core_def math_max_def math_min_def split: jsv.splits)

text \<open>What the simulator shows is plausible: with draws in \<open>[0, 1)\<close> a tick of the simulator, when its
  update does not throw, sets the processor load between 15 and 34 per cent, the memory between 42
  and 45, every core that is a number between 0 and 100, and keeps the number of clients and the
  length of the chart.\<close>

theorem simulator_plausible:
  assumes "simulate rnd client_rnd core_rnd now s = Inr s'" and "\<forall>i. 0 \<le> rnd i \<and> rnd i < 1"
  shows "(\<exists>c. cpu (figures s') = JNum c \<and> 15 \<le> c \<and> c \<le> 34) \<and>
    (\<exists>m. memory (figures s') = JNum m \<and> 42 \<le> m \<and> m \<le> 45) \<and>
    (\<exists>cores. cpu_cores_percent (figures s') = JArr cores \<and> (\<forall>x. JNum x \<in> set cores \<longrightarrow> 0 \<le> x \<and> x \<le> 100)) \<and>
    (length (bandwidthHistory s) = 30 \<longrightarrow> length (bandwidthHistory s') = 30)"
proof -
  have f: "figures s' = sim_figures rnd cores (figures s) \<Longrightarrow> cpu (figures s') = JNum (floor_num (rnd 0 * 20) + 15) \<and>
      memory (figures s') = JNum (sim_mem (rnd 1)) \<and> cpu_cores_percent (figures s') = JArr cores" for cores
    by (simp add: sim_figures_def Let_def)
  obtain cs where figs: "figures s' = sim_figures rnd (map (\<lambda>(i, c). sim_core (core_rnd i) c) (zip [0..<length cs] cs))
      (figures s)" (is "_ = sim_figures rnd ?cores _")
    and bw: "length (bandwidthHistory s) = 30 \<longrightarrow> length (bandwidthHistory s') = 30"
    using assms(1) by (auto simp: simulate_def split: sum.splits)
  have c: "15 \<le> floor_num (rnd 0 * 20) + 15 \<and> floor_num (rnd 0 * 20) + 15 \<le> 34"
    using floor_num_bounds [of "rnd 0" 20] assms(2) by simp
  have m: "42 \<le> sim_mem (rnd 1) \<and> sim_mem (rnd 1) \<le> 45"
    using floor_num_bounds [of "rnd 1" 4] assms(2) by (simp add: sim_mem_def)
  have "\<forall>x. JNum x \<in> set ?cores \<longrightarrow> 0 \<le> x \<and> x \<le> 100"
    by (auto dest: sim_core_bounds [OF sym])
  then show ?thesis using f [OF figs] c m bw by blast
qed

theorem simulator_plausible_witness:
  "\<exists>s' c. simulate (\<lambda>_. 0) (\<lambda>_. (0, 0)) (\<lambda>_. 0) ''t''
       ((init_server 0 show_nat ''http:'' ''h'' Map.empty)\<lparr>clients := JArr []\<rparr>) = Inr s' \<and>
     cpu (figures s') = JNum c \<and> 15 \<le> c"
proof -
  let ?s = "(init_server 0 show_nat ''http:'' ''h'' Map.empty)\<lparr>clients := JArr []\<rparr>"
  obtain s' where s': "simulate (\<lambda>_. 0) (\<lambda>_. (0, 0)) (\<lambda>_. 0) ''t'' ?s = Inr s'"
    by (simp add: simulate_def init_server_def init_metrics_def fixed_res_def)
  from simulator_plausible [OF s'] show ?thesis using s' by auto
qed

text \<open>The server dashboard's log never exceeds 50 lines and its chart always has 30 points, under
  every interleaving of its actions, the telemetry and the simulator; and the simulator's interval
  is never duplicated and stops when the page unmounts.\<close>

theorem server_dashboard_bounded:
  assumes "areach server_acts (\<lambda>_ _. True) server_ev (init_server now clock proto h st) s p"
    and "server_step\<^sup>*\<^sup>* (init_server now clock proto h st, False) (t, m)"
  shows "length (bandwidthHistory s) = 30 \<and> length (logs s) \<le> 50 \<and>
    card (running (intervals t)) \<le> 1 \<and> (\<not> m \<longrightarrow> running (intervals t) = {})"
proof -
  have i: "interval_inv (t, m)"
    using assms(2) by (rule reach_invariant [where P = interval_inv])
      (simp add: interval_inv_def init_server_def running_def, rule interval_step)
  then have "card (running (intervals t)) \<le> card (set_option (mockInterval t))"
    by (intro card_mono) (auto simp: interval_inv_def)
  then have "card (running (intervals t)) \<le> 1" by (cases "mockInterval t") auto
  then show ?thesis using server_async.reach_inv [OF assms(1)] i by (simp add: server_inv_def interval_inv_def)
qed

theorem server_dashboard_bounded_witness:
  "running (intervals (cleanup_server (initWebSocket False ''t'' (init_server 0 show_nat ''http:'' ''h'' Map.empty)))) = {}"
proof -
  let ?s = "init_server 0 show_nat ''http:'' ''h'' Map.empty"
  have 1: "server_step (?s, False) (initWebSocket False ''t'' ?s, True)" by (rule server_step.mount)
  have 2: "server_step (initWebSocket False ''t'' ?s, True) (cleanup_server (initWebSocket False ''t'' ?s), False)"
    by (rule server_step.unmount)
  have "server_step\<^sup>*\<^sup>* (?s, False) (cleanup_server (initWebSocket False ''t'' ?s), False)"
    using 1 2 by (rule run_steps2)
  from server_dashboard_bounded [OF areach.start this] show ?thesis by blast
qed

section \<open>What the code does not mean to do\<close>

text \<open>The id of a new client is the number of clients plus one, which a remaining client may have.\<close>

lemma add_client_reuses_id:
  "let s = final (blockClient ''1'') [] (init_server now clock proto h st);
       t = final (addClient ''12:00'' ''eve'') [] s in
     case clients t of JArr cs \<Rightarrow> map (\<lambda>c. opt_prop c ''id'') cs = map JStr [''2'', ''3'', ''4'', ''4'']
     | _ \<Rightarrow> False"
proof -
  have four: "show_num 4 = ''4''" by (simp add: show_num_def show_nat.simps digit_char_def)
  show ?thesis
    by (simp add: blockClient_def addClient_def drop_client_def run_defs lift_res_def set_with_def init_server_def
        mock_clients_def mock_client_def prop_is_not_def prop_is_def add_log_def new_client_def opt_prop_def four Let_def)
qed

text \<open>A client is dropped from the page although the server refused to disconnect it.\<close>

lemma disconnect_ignores_status:
  "clients (final (disconnectClient ''1'') [Response False b] (init_server now clock proto h st)) =
     JArr (tl mock_clients)"
  by (simp add: disconnectClient_def fetch_def drop_client_def run_defs set_with_def init_server_def
      mock_clients_def mock_client_def prop_is_not_def prop_is_def add_log_def Let_def)

end
