(* ===== verification/Composition.thy ===== *)
theory Composition
  imports App_Shell Auth_Store Cloudflare_Store Lookup_Store TrustTunnel_Store Combiner_Store
begin

text \<open>
  Properties of several components together: the shell with the authentication store, and the loading flags of the stores.
\<close>

section \<open>Properties of several components\<close>

text \<open>C7: An expired session ends on the login page in both applications: once the server answers any request with
  401, the interceptor has removed the session from the storage and leaves for the login page unless it is
  there already; the authentication store that the new page starts from is signed out, and every path
  lands on the login page.\<close>

theorem expired_session_lands_on_login:
  "(let s' = fetch_end i (Some 401) s; a = init_auth client_keys True (store s') in
      leaving s' = (if ends_with (pathname s) ''/login'' then leaving s else True) \<and> \<not> auth_state.isAuthenticated a \<and>
      landing client_routes (auth_state.isAuthenticated a) 2 path = Some ''LoginPage'') \<and>
   (let s' = server_fetch_end (Some 401) s; a = init_auth server_keys True (store s') in
      leaving s' = (if ends_with (pathname s) ''/login'' then leaving s else True) \<and> \<not> auth_state.isAuthenticated a \<and>
      landing server_routes (auth_state.isAuthenticated a) 2 path = Some ''LoginPage'')"
proof -
  have d: "map_of client_routes ''dashboard'' = Some ''DashboardPage''"
    "map_of server_routes ''dashboard'' = Some ''DashboardPage''"
    by (simp_all add: client_routes_def server_routes_def)
  have "leaving (server_fetch_end (Some 401) s) = (leaving s \<or> \<not> ends_with (pathname s) ''/login'')"
    by (simp add: server_fetch_end_def unauthorized_def Let_def)
  then show ?thesis
    using unauthorized_signs_out [of client_keys s] unauthorized_signs_out [of server_keys s]
      landing_signed_out [OF d(1), of 0 path] landing_signed_out [OF d(2), of 0 path]
    by (simp add: store_fetch_end server_fetch_end_def numeral_2_eq_2 Let_def)
qed


lemma call_shown:
  assumes "t \<in> acts" and "flag (snd (turn t s0))"
    and "\<And>s t. areach acts A ev s0 s [t] \<Longrightarrow> flag s \<Longrightarrow> suspended t"
  shows "\<exists>s t. areach acts A ev s0 s [t] \<and> flag s \<and> suspended t"
proof -
  have "areach acts A ev s0 (snd (turn t s0)) [fst (turn t s0)]"
    using areach.call [OF areach.start assms(1), of s0 "fst (turn t s0)" "snd (turn t s0)"] by simp
  with assms(2,3) show ?thesis by blast
qed

text \<open>Each flag can be up: one call from the initial state raises it.\<close>

lemma flags_raised:
  "cf_state.isLoading (snd (turn fetchAccounts (init_cf st)))"
  "cf_state.isDeploying (snd (turn (deployWorker p) (init_cf st)))"
  "lookup_state.isLoading (snd (turn (performLookup x ty) (init_lookup proto h st)))"
  "tt_state.isLoading (snd (turn tt_startEngine (init_tt mode st)))"
  "combiner_state.loading (snd (turn startCombiner (init_combiner st)))"
  "combiner_state.diagnoseLoading (snd (turn (runDiagnostics cfg) (init_combiner st)))"
  by (simp_all add: fetchAccounts_def deployWorker_def cf_fetch_def start_loading_def fetch_def performLookup_def
      lookup_fetch_def tt_startEngine_def tt_request_def tt_fetch_def tt_begin_def startCombiner_def
      runDiagnostics_def combiner_fetch_def Let_def)


end
