(* ===== verification/Sorting_JS.thy ===== *)
theory Sorting_JS
  imports JS_Values "HOL-Library.Multiset"
begin

text \<open>
  \<open>Array.prototype.sort\<close>. The language fixes the result only for a consistent comparator, and then
  completely: the array sorted by the comparator, elements that compare equal in their old order.
  \<open>js_sort\<close> is an insertion sort; \<open>consistent_compare\<close> is the contract of a comparator on the
  elements that occur, and \<open>sort_unique\<close> shows that under it no other result is possible, so that
  the choice of the algorithm does not matter.
\<close>

text \<open>A comparator answers with a negative number, zero or a positive number.\<close>

fun insert_by :: "('a \<Rightarrow> 'a \<Rightarrow> int) \<Rightarrow> 'a \<Rightarrow> 'a list \<Rightarrow> 'a list" where
  "insert_by cmp x [] = [x]"
| "insert_by cmp x (y # ys) = (if cmp x y \<le> 0 then x # y # ys else y # insert_by cmp x ys)"

definition js_sort :: "('a \<Rightarrow> 'a \<Rightarrow> int) \<Rightarrow> 'a list \<Rightarrow> 'a list" where
  "js_sort cmp xs = foldr (insert_by cmp) xs []"

lemma js_sort_simps [simp]:
  "js_sort cmp [] = []"
  "js_sort cmp (x # xs) = insert_by cmp x (js_sort cmp xs)"
  by (simp_all add: js_sort_def)

lemma mset_insert_by [simp]: "mset (insert_by cmp x xs) = add_mset x (mset xs)"
  by (induction xs) auto

lemma mset_js_sort [simp]: "mset (js_sort cmp xs) = mset xs"
  by (induction xs) auto

lemma set_js_sort [simp]: "set (js_sort cmp xs) = set xs"
  using mset_js_sort [of cmp xs] by (metis set_mset_mset)

lemma length_js_sort [simp]: "length (js_sort cmp xs) = length xs"
  using mset_js_sort [of cmp xs] by (metis size_mset)

text \<open>\<open>a < b ? -1 : a > b ? 1 : 0\<close>, on keys with a strict order, and its reverse.\<close>

definition compare_by :: "('k \<Rightarrow> 'k \<Rightarrow> bool) \<Rightarrow> bool \<Rightarrow> 'k \<Rightarrow> 'k \<Rightarrow> int" where
  "compare_by lt asc a b =
     (if lt a b then (if asc then - 1 else 1) else if lt b a then (if asc then 1 else - 1) else 0)"

locale consistent_compare =
  fixes cmp :: "'a \<Rightarrow> 'a \<Rightarrow> int"
    and A :: "'a set"
  assumes antisym: "x \<in> A \<Longrightarrow> y \<in> A \<Longrightarrow> cmp x y < 0 \<longleftrightarrow> 0 < cmp y x"
    and trans: "x \<in> A \<Longrightarrow> y \<in> A \<Longrightarrow> z \<in> A \<Longrightarrow> cmp x y \<le> 0 \<Longrightarrow> cmp y z \<le> 0 \<Longrightarrow> cmp x z \<le> 0"
begin

definition ties :: "'a \<Rightarrow> 'a \<Rightarrow> bool" where
  "ties x y \<longleftrightarrow> cmp x y = 0"

lemma total: "x \<in> A \<Longrightarrow> y \<in> A \<Longrightarrow> \<not> cmp x y \<le> 0 \<Longrightarrow> cmp y x \<le> 0"
  using antisym by force

lemma ties_sym: "x \<in> A \<Longrightarrow> y \<in> A \<Longrightarrow> ties x y \<Longrightarrow> ties y x"
  using antisym [of x y] antisym [of y x] by (auto simp: ties_def)

lemma ties_refl: "x \<in> A \<Longrightarrow> ties x x"
  using antisym [of x x] by (auto simp: ties_def)

lemma sorted_insert_by:
  assumes "x \<in> A" and "set xs \<subseteq> A" and "sorted_wrt (\<lambda>x y. cmp x y \<le> 0) xs"
  shows "sorted_wrt (\<lambda>x y. cmp x y \<le> 0) (insert_by cmp x xs)"
  using assms
proof (induction xs)
  case (Cons y ys)
  have set: "set (insert_by cmp x ys) = insert x (set ys)"
    using mset_insert_by [of cmp x ys] by (metis set_mset_add_mset_insert set_mset_mset)
  show ?case
  proof (cases "cmp x y \<le> 0")
    case True
    then have "cmp x z \<le> 0" if "z \<in> set ys" for z
      using Cons.prems that trans [of x y z] by auto
    with True Cons.prems show ?thesis by auto
  next
    case False
    then have "cmp y x \<le> 0" using Cons.prems total by auto
    with False Cons show ?thesis by (auto simp: set)
  qed
qed simp

lemma sorted_js_sort: "set xs \<subseteq> A \<Longrightarrow> sorted_wrt (\<lambda>x y. cmp x y \<le> 0) (js_sort cmp xs)"
  by (induction xs) (auto intro!: sorted_insert_by)

lemma ties_insert_by:
  assumes "x \<in> A" and "set xs \<subseteq> A" and "z \<in> A"
  shows "filter (ties z) (insert_by cmp x xs) = (if ties z x then [x] else []) @ filter (ties z) xs"
  using assms
proof (induction xs)
  case (Cons y ys)
  have "\<not> ties z y" if "ties z x" and "\<not> cmp x y \<le> 0"
    using that Cons.prems ties_sym [of z x] trans [of x z y] by (auto simp: ties_def)
  with Cons show ?case by auto
qed simp

lemma stable_js_sort:
  assumes "set xs \<subseteq> A" and "z \<in> A"
  shows "filter (ties z) (js_sort cmp xs) = filter (ties z) xs"
  using assms by (induction xs) (auto simp: ties_insert_by)

text \<open>A sorted list begins with its first least element.\<close>

lemma sorted_stable_hd:
  assumes "sorted_wrt (\<lambda>x y. cmp x y \<le> 0) (x # xs)" and "sorted_wrt (\<lambda>x y. cmp x y \<le> 0) (y # ys)"
    and "insert x (set xs) = insert y (set ys)" and "insert x (set xs) \<subseteq> A"
    and "\<And>z. z \<in> A \<Longrightarrow> filter (ties z) (x # xs) = filter (ties z) (y # ys)"
  shows "x = y"
proof -
  have A: "x \<in> A" "y \<in> A" using assms(3,4) by auto
  have le: "cmp x y \<le> 0" "cmp y x \<le> 0"
    using assms(1-3) A ties_refl [of x] by (auto simp: ties_def insert_eq_iff split: if_splits)
  then have "ties x y" "ties x x" using antisym [OF A] antisym [OF A(2,1)] ties_refl A by (auto simp: ties_def)
  with assms(5) [OF A(1)] show "x = y" by simp
qed

lemma sort_unique:
  assumes "sorted_wrt (\<lambda>x y. cmp x y \<le> 0) xs" and "sorted_wrt (\<lambda>x y. cmp x y \<le> 0) ys"
    and "mset xs = mset ys" and "set xs \<subseteq> A"
    and "\<And>z. z \<in> A \<Longrightarrow> filter (ties z) xs = filter (ties z) ys"
  shows "xs = ys"
  using assms
proof (induction xs arbitrary: ys)
  case (Cons x xs)
  from Cons.prems(3) obtain y ys' where ys: "ys = y # ys'" by (cases ys) auto
  have "set (x # xs) = set ys" using Cons.prems(3) by (metis set_mset_mset)
  then have "x = y"
    using Cons.prems ys by (intro sorted_stable_hd [of x xs y ys']) auto
  moreover have "filter (ties z) xs = filter (ties z) ys'" if "z \<in> A" for z
    using Cons.prems(5) [OF that] ys \<open>x = y\<close> by (auto split: if_splits)
  ultimately show ?case using Cons.prems ys by (auto intro!: Cons.IH)
qed simp

end

text \<open>The usual way to get a consistent comparator: by a strict weak order on a key.\<close>

lemma consistent_by_key:
  assumes "\<And>x y. x \<in> f ` A \<Longrightarrow> y \<in> f ` A \<Longrightarrow> lt x y \<Longrightarrow> \<not> lt y x"
    and "\<And>x y z. x \<in> f ` A \<Longrightarrow> y \<in> f ` A \<Longrightarrow> z \<in> f ` A \<Longrightarrow> lt x z \<Longrightarrow> lt x y \<or> lt y z"
  shows "consistent_compare (\<lambda>a b. compare_by lt asc (f a) (f b)) A"
proof
  fix x y assume "x \<in> A" "y \<in> A"
  then show "(compare_by lt asc (f x) (f y) < 0) = (0 < compare_by lt asc (f y) (f x))"
    using assms(1) [of "f x" "f y"] by (auto simp: compare_by_def)
next
  fix x y z assume A: "x \<in> A" "y \<in> A" "z \<in> A"
    and le: "compare_by lt asc (f x) (f y) \<le> 0" "compare_by lt asc (f y) (f z) \<le> 0"
  show "compare_by lt asc (f x) (f z) \<le> 0"
    using A le assms(1) [of "f x" "f y"] assms(1) [of "f y" "f z"] assms(1) [of "f x" "f z"]
      assms(2) [of "f x" "f y" "f z"] assms(2) [of "f z" "f y" "f x"]
    by (auto simp: compare_by_def split: if_splits)
qed

text \<open>Only the values on the set count.\<close>

lemma consistent_cong:
  assumes "consistent_compare f A" and "\<And>x y. x \<in> A \<Longrightarrow> y \<in> A \<Longrightarrow> g x y = f x y"
  shows "consistent_compare g A"
proof
  show "(g x y < 0) = (0 < g y x)" if "x \<in> A" "y \<in> A" for x y
    using consistent_compare.antisym [OF assms(1) that] assms(2) that by simp
  show "g x z \<le> 0" if "x \<in> A" "y \<in> A" "z \<in> A" "g x y \<le> 0" "g y z \<le> 0" for x y z
    using consistent_compare.trans [OF assms(1) that(1-3)] assms(2) that by simp
qed

text \<open>A comparator that puts the elements with a property first.\<close>

definition first_by :: "('a \<Rightarrow> bool) \<Rightarrow> ('a \<Rightarrow> 'a \<Rightarrow> int) \<Rightarrow> 'a \<Rightarrow> 'a \<Rightarrow> int" where
  "first_by g cmp a b = (if g a \<and> \<not> g b then - 1 else if \<not> g a \<and> g b then 1 else cmp a b)"

lemma consistent_first_by:
  assumes "consistent_compare cmp A"
  shows "consistent_compare (first_by g cmp) A"
proof
  show "(first_by g cmp x y < 0) = (0 < first_by g cmp y x)" if "x \<in> A" "y \<in> A" for x y
    using consistent_compare.antisym [OF assms that] by (auto simp: first_by_def)
  show "first_by g cmp x z \<le> 0" if "x \<in> A" "y \<in> A" "z \<in> A" "first_by g cmp x y \<le> 0" "first_by g cmp y z \<le> 0"
    for x y z
    using consistent_compare.trans [OF assms that(1-3)] that(4,5) by (auto simp: first_by_def split: if_splits)
qed

lemma str_less_irrefl [simp]: "\<not> str_less x x"
  by (induction x) auto

lemma str_less_Nil [simp]: "\<not> str_less xs []"
  by (cases xs) auto

lemma str_less_asym: "str_less x y \<Longrightarrow> \<not> str_less y x"
  by (induction x y rule: str_less.induct) auto

lemma str_less_cases: "str_less x z \<Longrightarrow> str_less x y \<or> str_less y z"
proof (induction x z arbitrary: y rule: str_less.induct)
  case (1 ys)
  then show ?case by (cases y) auto
next
  case (3 a as b bs)
  then show ?case by (cases y) auto
qed auto

lemmas str_order = str_less_asym str_less_cases

end
