(* ===== verification/Formats.thy ===== *)
theory Formats
  imports JS_Values
begin

text \<open>
  How the pages print amounts. Eight components of the two applications have a \<open>formatBytes\<close> of
  their own, of three kinds: with the unit found by a logarithm (\<open>FilesPage\<close>, \<open>TorrentPage\<close>,
  \<open>LeechPage\<close>, \<open>V2RayDashboardPage\<close>, \<open>SpotifyJobCard\<close>, \<open>CloudflareStatsCard\<close>), by comparisons
  (\<open>WarpPage\<close>, \<open>V2RayMultipathPage\<close>) and by a loop (\<open>CloudStoragePage\<close>). Byte counts are natural
  numbers. The kinds choose the same unit wherever all have one; the first runs out of units.
\<close>

section \<open>Text of fixed precision\<close>

text \<open>\<open>x.toFixed(d)\<close> for a number that is not negative.\<close>

definition show_fixed :: "nat \<Rightarrow> rat \<Rightarrow> string" where
  "show_fixed d x =
     (let m = nat \<lfloor>x * 10 ^ d + 1 / 2\<rfloor>; digits = show_nat (m mod 10 ^ d)
      in show_nat (m div 10 ^ d) @
         (if d = 0 then [] else ''.'' @ replicate (d - length digits) CHR ''0'' @ digits))"

text \<open>\<open>parseFloat(x.toFixed(d)) + ' ' + unit\<close>.\<close>

definition trimmed :: "nat \<Rightarrow> rat \<Rightarrow> string \<Rightarrow> string" where
  "trimmed d x unit = show_num (to_fixed_num d x) @ '' '' @ unit"

section \<open>The unit by a logarithm\<close>

text \<open>\<open>Math.floor(Math.log(n) / Math.log(1024))\<close> for a positive integer.\<close>

fun log1024 :: "nat \<Rightarrow> nat" where
  "log1024 n = (if n < 1024 then 0 else Suc (log1024 (n div 1024)))"

declare log1024.simps [simp del]

text \<open>\<open>sizes[i]\<close> in a template: past the end it is \<open>undefined\<close>.\<close>

definition unit_at :: "string list \<Rightarrow> nat \<Rightarrow> string" where
  "unit_at sizes i = (if i < length sizes then sizes ! i else ''undefined'')"

definition by_log :: "string list \<Rightarrow> nat \<Rightarrow> nat \<Rightarrow> string" where
  "by_log sizes d n = (let i = log1024 n in trimmed d (of_nat n / 1024 ^ i) (unit_at sizes i))"

definition files_formatSize :: "nat \<Rightarrow> string" where
  "files_formatSize bytes =
     (if bytes = 0 then ''0 Bytes'' else by_log [''Bytes'', ''KB'', ''MB'', ''GB''] 1 bytes)"

definition torrent_formatBytes :: "int \<Rightarrow> nat \<Rightarrow> string" where
  "torrent_formatBytes decimals bytes =
     (if bytes = 0 then ''0 Bytes''
      else by_log [''Bytes'', ''KB'', ''MB'', ''GB'', ''TB''] (if decimals < 0 then 0 else nat decimals) bytes)"

definition dashboard_formatBytes :: "nat \<Rightarrow> string" where
  "dashboard_formatBytes bytes =
     (if bytes = 0 then ''0 B'' else by_log [''B'', ''KB'', ''MB'', ''GB'', ''TB''] 2 bytes)"

definition leech_formatBytes :: "nat \<Rightarrow> string" where
  "leech_formatBytes bytes =
     (if bytes = 0 then ''0 B'' else by_log [''B'', ''KB'', ''MB'', ''GB'', ''TB''] 2 bytes)"

definition em_dash :: string where
  "em_dash = [CHR 0xE2, CHR 0x80, CHR 0x94]"

definition spotify_formatBytes :: "nat \<Rightarrow> string" where
  "spotify_formatBytes bytes =
     (if bytes = 0 then em_dash else by_log [''B'', ''KB'', ''MB'', ''GB''] 1 bytes)"

definition cloudflare_formatBytes :: "nat \<Rightarrow> string" where
  "cloudflare_formatBytes bytes =
     (if bytes = 0 then ''0 MB'' else by_log [''Bytes'', ''KB'', ''MB'', ''GB'', ''TB''] 1 bytes)"

section \<open>The unit by comparisons\<close>

definition warp_formatBytes :: "nat \<Rightarrow> string" where
  "warp_formatBytes bytes =
     (if bytes = 0 then ''0 B''
      else if bytes < 1024 then show_nat bytes @ '' B''
      else if bytes < 1024 ^ 2 then show_fixed 1 (of_nat bytes / 1024) @ '' KB''
      else if bytes < 1024 ^ 3 then show_fixed 2 (of_nat bytes / 1024 ^ 2) @ '' MB''
      else show_fixed 2 (of_nat bytes / 1024 ^ 3) @ '' GB'')"

definition multipath_formatBytes :: "nat \<Rightarrow> string" where
  "multipath_formatBytes bytes =
     (if bytes = 0 then ''0 B''
      else if bytes < 1024 then show_nat bytes @ '' B''
      else if bytes < 1024 * 1024 then show_fixed 1 (of_nat bytes / 1024) @ '' KB''
      else if bytes < 1024 * 1024 * 1024 then show_fixed 2 (of_nat bytes / (1024 * 1024)) @ '' MB''
      else show_fixed 2 (of_nat bytes / (1024 * 1024 * 1024)) @ '' GB'')"

definition multipath_formatSpeed :: "nat \<Rightarrow> string" where
  "multipath_formatSpeed bps =
     (if bps = 0 then ''0 B/s''
      else if bps < 1024 then show_nat bps @ '' B/s''
      else if bps < 1024 * 1024 then show_fixed 1 (of_nat bps / 1024) @ '' KB/s''
      else show_fixed 2 (of_nat bps / (1024 * 1024)) @ '' MB/s'')"

definition torrent_formatSpeed :: "rat \<Rightarrow> string" where
  "torrent_formatSpeed mbps =
     (if mbps < 1 / 10 then show_fixed 1 (mbps * 1024) @ '' KB/s'' else show_fixed 2 mbps @ '' MB/s'')"

definition formatQuotaPct :: "nat \<Rightarrow> nat \<Rightarrow> int" where
  "formatQuotaPct used quota =
     (if quota = 0 then 0 else min 100 \<lfloor>(of_nat used / of_nat quota :: rat) * 100 + 1 / 2\<rfloor>)"

section \<open>The unit by a loop\<close>

function scale :: "rat \<Rightarrow> nat \<Rightarrow> rat \<times> nat" where
  "scale v i = (if 1024 \<le> v \<and> i < 4 then scale (v / 1024) (Suc i) else (v, i))"
  by pat_completeness auto
termination by (relation "measure (\<lambda>(v, i). 4 - i)") auto

declare scale.simps [simp del]

definition fmtBytes :: "nat \<Rightarrow> string" where
  "fmtBytes n =
     (if n = 0 then em_dash
      else case scale (of_nat n) 0 of (v, i) \<Rightarrow>
        show_fixed (if 100 \<le> v \<or> i = 0 then 0 else 1) v @ '' '' @ [''B'', ''KB'', ''MB'', ''GB'', ''TB''] ! i)"

section \<open>The unit is right\<close>

lemma log1024_le:
  assumes "0 < n"
  shows "1024 ^ j \<le> n \<longleftrightarrow> j \<le> log1024 n"
  using assms
proof (induction n arbitrary: j rule: log1024.induct)
  case (1 n)
  show ?case
  proof (cases "n < 1024")
    case True
    then have "\<not> 1024 ^ j \<le> n" if "0 < j" using self_le_power [of "1024::nat" j] that by linarith
    with True 1 show ?thesis by (cases j) (auto simp: log1024.simps [of n])
  next
    case False
    then have "0 < n div 1024" by simp
    with False 1 have "1024 ^ k \<le> n div 1024 \<longleftrightarrow> k \<le> log1024 (n div 1024)" for k by blast
    moreover have "1024 ^ Suc k \<le> n \<longleftrightarrow> 1024 ^ k \<le> n div 1024" for k
      by (simp add: less_eq_div_iff_mult_less_eq mult.commute)
    ultimately show ?thesis using False 1(2) by (cases j) (auto simp: log1024.simps [of n])
  qed
qed

lemma log1024_bounds:
  assumes "0 < n"
  shows "1024 ^ log1024 n \<le> n" and "n < 1024 ^ Suc (log1024 n)"
  using log1024_le [OF assms] by (auto simp: not_le [symmetric] simp del: power_Suc)

lemma mantissa_bounds:
  assumes "0 < n"
  shows "1 \<le> (of_nat n / 1024 ^ log1024 n :: rat)" and "(of_nat n / 1024 ^ log1024 n :: rat) < 1024"
proof -
  have "of_nat (1024 ^ log1024 n) \<le> (of_nat n :: rat)" using log1024_bounds [OF assms] by (simp only: of_nat_le_iff)
  then show "1 \<le> (of_nat n / 1024 ^ log1024 n :: rat)" by simp
  have "(of_nat n :: rat) < of_nat (1024 ^ Suc (log1024 n))" using log1024_bounds [OF assms] by (simp only: of_nat_less_iff)
  then show "(of_nat n / 1024 ^ log1024 n :: rat) < 1024" by (simp add: field_simps)
qed

lemma scale_step:
  assumes "0 < n" and "j \<le> min (log1024 n) 4"
  shows "scale (of_nat n / 1024 ^ j) j = (of_nat n / 1024 ^ min (log1024 n) 4, min (log1024 n) 4)"
  using assms(2)
proof (induction "min (log1024 n) 4 - j" arbitrary: j)
  case 0
  then have j: "j = min (log1024 n) 4" by simp
  have "\<not> (1024 \<le> (of_nat n / 1024 ^ j :: rat) \<and> j < 4)"
    using j mantissa_bounds(2) [OF assms(1)] by (auto simp: min_def split: if_splits)
  then show ?case using j by (subst scale.simps) auto
next
  case (Suc m)
  then have less: "Suc j \<le> log1024 n" "j < 4" by auto
  then have "1024 ^ Suc j \<le> n" using log1024_le [OF assms(1)] by blast
  then have "of_nat (1024 ^ Suc j) \<le> (of_nat n :: rat)" by (simp only: of_nat_le_iff)
  then have "1024 \<le> (of_nat n / 1024 ^ j :: rat)" by (simp add: field_simps)
  then have "scale (of_nat n / 1024 ^ j) j = scale (of_nat n / 1024 ^ Suc j) (Suc j)"
    using less by (simp add: scale.simps [of _ j] field_simps)
  also have "\<dots> = (of_nat n / 1024 ^ min (log1024 n) 4, min (log1024 n) 4)"
    using Suc by (intro Suc.hyps(1)) auto
  finally show ?case .
qed

lemma scale_result:
  "0 < n \<Longrightarrow> scale (of_nat n) 0 = (of_nat n / 1024 ^ min (log1024 n) 4, min (log1024 n) 4)"
  using scale_step [of n 0] by simp

lemma scale_in_range: "snd (scale v i) \<le> max i 4"
  by (induction v i rule: scale.induct) (auto simp: scale.simps [of _ i for i])

lemma small_log: "0 < n \<Longrightarrow> n < 1024 ^ k \<Longrightarrow> log1024 n < k"
  using log1024_le [of n k] by (auto simp: not_le)

text \<open>The three kinds of byte formatter agree on the unit. For a positive count the logarithm, the
  comparisons and the loop all find the power of 1024 next below it, up to the largest unit each of them
  knows, and print the quotient; the loop ends in the range of its units. Past the last unit the
  formatters that use the logarithm print \<open>undefined\<close>.\<close>

theorem byte_units_agree:
  assumes "0 < n" and "i = log1024 n"
  shows "1024 ^ i \<le> n \<and> n < 1024 ^ Suc i \<and>
    files_formatSize n = trimmed 1 (of_nat n / 1024 ^ i)
      (if i < 4 then [''Bytes'', ''KB'', ''MB'', ''GB''] ! i else ''undefined'') \<and>
    warp_formatBytes n = (if i = 0 then show_nat n
      else show_fixed (if i = 1 then 1 else 2) (of_nat n / 1024 ^ min i 3)) @ '' '' @
      [''B'', ''KB'', ''MB'', ''GB''] ! min i 3 \<and>
    fmtBytes n = show_fixed (if 100 * 1024 ^ min i 4 \<le> n \<or> i = 0 then 0 else 1) (of_nat n / 1024 ^ min i 4) @
      '' '' @ [''B'', ''KB'', ''MB'', ''GB'', ''TB''] ! min i 4"
proof (intro conjI)
  show "1024 ^ i \<le> n" and "n < 1024 ^ Suc i" using log1024_bounds [OF assms(1)] assms(2) by simp_all
  show "files_formatSize n = trimmed 1 (of_nat n / 1024 ^ i)
      (if i < 4 then [''Bytes'', ''KB'', ''MB'', ''GB''] ! i else ''undefined'')"
    using assms by (simp add: files_formatSize_def by_log_def unit_at_def Let_def)
  have log: "n < 1024 \<longleftrightarrow> i < 1" "n < 1048576 \<longleftrightarrow> i < 2" "n < 1073741824 \<longleftrightarrow> i < 3"
    using log1024_le [OF assms(1), of 1] log1024_le [OF assms(1), of 2] log1024_le [OF assms(1), of 3] assms(2)
    by auto
  consider "i = 0" | "i = 1" | "i = 2" | "3 \<le> i" by linarith
  then show "warp_formatBytes n = (if i = 0 then show_nat n
      else show_fixed (if i = 1 then 1 else 2) (of_nat n / 1024 ^ min i 3)) @ '' '' @
      [''B'', ''KB'', ''MB'', ''GB''] ! min i 3"
    using assms(1) by cases (simp_all add: warp_formatBytes_def log)
  have "100 \<le> (of_nat n / 1024 ^ min i 4 :: rat) \<longleftrightarrow> of_nat (100 * 1024 ^ min i 4) \<le> (of_nat n :: rat)"
    by (simp add: field_simps)
  also have "\<dots> \<longleftrightarrow> 100 * 1024 ^ min i 4 \<le> n" by (simp only: of_nat_le_iff)
  finally have *: "100 \<le> (of_nat n / 1024 ^ min i 4 :: rat) \<longleftrightarrow> 100 * 1024 ^ min i 4 \<le> n" .
  show "fmtBytes n = show_fixed (if 100 * 1024 ^ min i 4 \<le> n \<or> i = 0 then 0 else 1) (of_nat n / 1024 ^ min i 4) @
      '' '' @ [''B'', ''KB'', ''MB'', ''GB'', ''TB''] ! min i 4"
    using assms(1) * by (cases "i = 0") (simp_all add: fmtBytes_def scale_result min_def flip: assms(2))
qed

theorem byte_units_agree_witness: "warp_formatBytes 1536 = show_fixed 1 (1536 / 1024) @ '' KB''"
proof -
  have i: "log1024 1536 = 1" by (simp add: log1024.simps)
  show ?thesis
    using byte_units_agree [of 1536 1] i by simp
qed

text \<open>From a terabyte on the file manager prints \<open>undefined\<close> for the unit.\<close>

lemma terabyte_undefined: "files_formatSize (1024 ^ 4) = ''1 undefined''"
proof -
  have "log1024 (1024 ^ 4) = 4" by (simp add: log1024.simps)
  moreover have "\<lfloor>21 / 2 :: rat\<rfloor> = 10" by (simp add: floor_eq_iff)
  ultimately show ?thesis
    by (simp add: files_formatSize_def by_log_def unit_at_def trimmed_def to_fixed_num_def show_num_def
        show_nat.simps digit_char_def)
qed

end
