(* ===== verification/Files_Lib.thy ===== *)
theory Files_Lib
  imports Sorting_JS Formats
begin

text \<open>
  The pure part of the file manager (\<open>pages/FilesPage.tsx\<close> of both applications): kinds of files,
  archive names, paths, the sorted and filtered listing, the sizes per kind and the folder tree.
  Names are compared as bytes and lowered in ASCII only.
\<close>

section \<open>Files and their kinds\<close>

record FileItem =
  file_name :: string
  is_dir :: bool
  file_size :: nat
  mod_time :: string
  extension :: string
  s3_key :: "string option"

datatype category = Image | Video | Code | Other

definition getFileCategory :: "string \<Rightarrow> category" where
  "getFileCategory ext =
     (let e = to_lower ext in
      if e \<in> set [''.png'', ''.jpg'', ''.jpeg'', ''.gif'', ''.svg'', ''.webp'', ''.ico''] then Image
      else if e \<in> set [''.mp4'', ''.mkv'', ''.mov'', ''.webm'', ''.ogg'', ''.3gp''] then Video
      else if e \<in> set [''.go'', ''.ts'', ''.tsx'', ''.js'', ''.jsx'', ''.css'', ''.scss'', ''.html'',
        ''.md'', ''.json'', ''.env'', ''.sh'', ''.yml'', ''.yaml'', ''.txt'', ''.ini'', ''.conf''] then Code
      else Other)"

definition getMonacoLanguage :: "string \<Rightarrow> string" where
  "getMonacoLanguage ext =
     (let e = to_lower ext in
      if e = ''.go'' then ''go''
      else if e = ''.ts'' \<or> e = ''.tsx'' then ''typescript''
      else if e = ''.js'' \<or> e = ''.jsx'' then ''javascript''
      else if e = ''.css'' then ''css''
      else if e = ''.scss'' then ''scss''
      else if e = ''.html'' then ''html''
      else if e = ''.md'' then ''markdown''
      else if e = ''.json'' then ''json''
      else if e = ''.sh'' then ''shell''
      else if e = ''.yml'' \<or> e = ''.yaml'' then ''yaml''
      else ''plaintext'')"

text \<open>A file with a language of its own in the editor is of the kind that opens there.\<close>

lemma highlighted_is_code: "getMonacoLanguage ext \<noteq> ''plaintext'' \<Longrightarrow> getFileCategory ext = Code"
  by (auto simp: getMonacoLanguage_def getFileCategory_def Let_def split: if_splits)

definition formatDuration :: "rat option \<Rightarrow> string" where
  "formatDuration secs = (case secs of None \<Rightarrow> ''Unknown''
     | Some x \<Rightarrow> (let h = \<lfloor>x / 3600\<rfloor>; r = x - 3600 * of_int h; m = \<lfloor>r / 60\<rfloor>; s = \<lfloor>r - 60 * of_int m\<rfloor> in
         (if 0 < h then show_int h @ ''h '' else []) @ show_int m @ ''m '' @ show_int s @ ''s''))"

definition getResolutionLabel :: "int \<Rightarrow> int \<Rightarrow> string" where
  "getResolutionLabel w h =
     (if 3840 \<le> w \<or> 2160 \<le> h then ''4K Ultra HD''
      else if 2560 \<le> w \<or> 1440 \<le> h then ''2K QHD''
      else if 1920 \<le> w \<or> 1080 \<le> h then ''1080p Full HD''
      else if 1280 \<le> w \<or> 720 \<le> h then ''720p HD'' else ''SD'')"

section \<open>Archive names\<close>

definition has_suffix :: "string \<Rightarrow> string \<Rightarrow> bool" where
  "has_suffix s suf \<longleftrightarrow> is_prefix_of (rev suf) (rev s)"

text \<open>\<open>/\.part\d+$/\<close> and \<open>/\.\d{3,}$/\<close>: the digits at the end of the name, and what stands before.\<close>

definition isArchiveFile :: "string \<Rightarrow> bool" where
  "isArchiveFile fileName =
     (let lower = to_lower fileName;
          digits = takeWhile is_digit (rev lower);
          before = rev (dropWhile is_digit (rev lower))
      in list_ex (has_suffix lower) [''.zip'', ''.tar'', ''.tar.gz'', ''.tgz'', ''.rar'', ''.7z'', ''.gz'',
           ''.xz'', ''.bz2'', ''.zst''] \<or>
         (digits \<noteq> [] \<and> has_suffix before ''.part'') \<or> (3 \<le> length digits \<and> has_suffix before ''.''))"

definition archive_exts :: "string list" where
  "archive_exts = [''.zip'', ''.tar'', ''.tar.gz'', ''.tgz'', ''.tar.bz2'', ''.tbz2'', ''.tar.xz'', ''.txz'',
     ''.tar.zst'', ''.tzst'', ''.rar'', ''.7z'']"

text \<open>\<open>name.replace(/\.(zip|...)$/i, '')\<close>: the first position from which the rest of the name is one
  of the extensions.\<close>

fun strip_archive :: "string \<Rightarrow> string" where
  "strip_archive [] = []"
| "strip_archive (c # s) = (if to_lower (c # s) \<in> set archive_exts then [] else c # strip_archive s)"

definition updateArchiveExtension :: "string \<Rightarrow> string \<Rightarrow> string" where
  "updateArchiveExtension name ext =
     (let base = strip_archive name in if base \<noteq> [] then base @ ext else ''archive'' @ ext)"

lemma to_lower_append [simp]: "to_lower (s @ t) = to_lower s @ to_lower t"
  by (simp add: to_lower_def)

lemma archive_ext_lower: "ext \<in> set archive_exts \<Longrightarrow> to_lower ext = ext"
  by (auto simp: archive_exts_def to_lower_def to_lower_char_def)

lemma archive_ext_no_suffix:
  assumes "x \<noteq> []" and "ext \<in> set archive_exts"
  shows "x @ ext \<notin> set archive_exts"
proof
  assume "x @ ext \<in> set archive_exts"
  have "list_all (\<lambda>e. list_all (\<lambda>k. drop k e \<notin> set archive_exts) [1..<length e]) archive_exts"
    by (simp add: archive_exts_def upt_rec)
  then have no: "drop k e \<notin> set archive_exts" if "e \<in> set archive_exts" "0 < k" "k < length e" for e k
    using that by (auto simp: list_all_iff)
  have "ext \<noteq> []" using assms(2) by (auto simp: archive_exts_def)
  then have "ext \<notin> set archive_exts"
    using no [of "x @ ext" "length x"] \<open>x @ ext \<in> set archive_exts\<close> assms(1) by simp
  with assms(2) show False by simp
qed

lemma strip_archive_append: "ext \<in> set archive_exts \<Longrightarrow> strip_archive (b @ ext) = b"
proof (induction b)
  case Nil
  then have "to_lower ext \<in> set archive_exts" by (simp add: archive_ext_lower)
  moreover have "ext \<noteq> []" using Nil by (auto simp: archive_exts_def)
  ultimately show ?case by (cases ext) simp_all
next
  case (Cons c b)
  have "to_lower (c # b) @ ext \<notin> set archive_exts"
    using Cons.prems by (intro archive_ext_no_suffix) (simp_all add: to_lower_def)
  then have "to_lower ((c # b) @ ext) \<notin> set archive_exts"
    using Cons.prems by (simp add: archive_ext_lower del: append_Cons)
  with Cons show ?case by simp
qed

section \<open>Paths\<close>

definition child_path :: "string \<Rightarrow> string \<Rightarrow> string" where
  "child_path cur name = (if cur = ''/'' then ''/'' @ name else cur @ ''/'' @ name)"

definition parent_path :: "string \<Rightarrow> string" where
  "parent_path cur =
     (if cur = ''/'' \<or> cur = [] then cur
      else let p = join_with ''/'' (butlast (split_on CHR ''/'' cur)) in if p = [] then ''/'' else p)"

definition breadcrumb_path :: "nat \<Rightarrow> string list \<Rightarrow> string" where
  "breadcrumb_path index parts = ''/'' @ join_with ''/'' (take (index + 1) parts)"

definition pathParts :: "string \<Rightarrow> string list" where
  "pathParts cur = filter (\<lambda>p. p \<noteq> []) (split_on CHR ''/'' cur)"

text \<open>\<open>path.lastIndexOf('/')\<close> and the part before it, in \<open>handleSearchResultClick\<close>.\<close>

definition result_parent :: "string \<Rightarrow> string" where
  "result_parent path =
     (let before = rev (drop 1 (dropWhile (\<lambda>c. c \<noteq> CHR ''/'') (rev path)))
      in if CHR ''/'' \<notin> set path \<or> before = [] then ''/'' else before)"

text \<open>The paths of the application: \<open>/\<close>, or names after slashes.\<close>

inductive clean_path :: "string \<Rightarrow> bool" where
  root: "clean_path ''/''"
| child: "clean_path p \<Longrightarrow> name \<noteq> [] \<Longrightarrow> CHR ''/'' \<notin> set name \<Longrightarrow> clean_path (child_path p name)"

lemma split_on_snoc:
  "c \<notin> set name \<Longrightarrow> split_on c (p @ c # name) = split_on c p @ [name]"
proof (induction p)
  case Nil
  then show ?case by (simp add: split_on_no_sep)
next
  case (Cons x p)
  then show ?case by (auto split: list.splits)
qed

lemma clean_nonempty: "clean_path p \<Longrightarrow> p \<noteq> [] \<and> hd p = CHR ''/''"
  by (induction rule: clean_path.induct) (auto simp: child_path_def)

lemma parent_child:
  assumes "clean_path p" and "name \<noteq> []" and "CHR ''/'' \<notin> set name"
  shows "parent_path (child_path p name) = p"
  using assms clean_nonempty [OF assms(1)]
  by (auto simp: parent_path_def child_path_def split_on_snoc split_on_no_sep butlast_append append_eq_Cons_conv
      Let_def)

lemma child_parent_cases:
  assumes "clean_path p" and "p \<noteq> ''/''"
  obtains q name where "p = child_path q name" and "clean_path q" and "name \<noteq> []" and "CHR ''/'' \<notin> set name"
  using assms by (cases rule: clean_path.cases) auto

lemma clean_parent:
  assumes "clean_path p"
  shows "clean_path (parent_path p)"
  using assms
proof (cases rule: clean_path.cases)
  case root
  then show ?thesis by (simp add: parent_path_def clean_path.root)
next
  case (child q name)
  then show ?thesis by (simp add: parent_child)
qed

lemma pathParts_child:
  "clean_path p \<Longrightarrow> name \<noteq> [] \<Longrightarrow> CHR ''/'' \<notin> set name \<Longrightarrow> pathParts (child_path p name) = pathParts p @ [name]"
  by (auto simp: pathParts_def child_path_def split_on_snoc split_on_no_sep)

lemma pathParts_ne:
  assumes "clean_path p" and "p \<noteq> ''/''"
  shows "pathParts p \<noteq> []"
  using assms by (rule child_parent_cases) (simp add: pathParts_child)

lemma breadcrumb_last:
  "clean_path p \<Longrightarrow> p \<noteq> ''/'' \<Longrightarrow> ''/'' @ join_with ''/'' (pathParts p) = p"
proof (induction rule: clean_path.induct)
  case (child p name)
  show ?case
  proof (cases "p = ''/''")
    case True
    then show ?thesis using child by (simp add: child_path_def pathParts_def split_on_no_sep)
  next
    case False
    have "''/'' @ join_with ''/'' (pathParts (child_path p name)) =
        (''/'' @ join_with ''/'' (pathParts p)) @ ''/'' @ name"
      using child.hyps pathParts_ne [OF child.hyps(1) False] by (simp add: pathParts_child join_with_snoc)
    also have "\<dots> = p @ ''/'' @ name" using child.IH [OF False] by (simp only:)
    finally show ?thesis using False by (simp add: child_path_def)
  qed
qed simp

section \<open>The listing\<close>

datatype sort_field = ByName | BySize | ByTime | ByType

text \<open>The value a file is sorted by; \<open>ms\<close> is \<open>new Date(...).getTime()\<close>, \<open>None\<close> for a text that is not
  a date.\<close>

definition sort_value :: "(string \<Rightarrow> rat option) \<Rightarrow> sort_field \<Rightarrow> FileItem \<Rightarrow> jsv" where
  "sort_value ms by f = (case by of
       ByName \<Rightarrow> JStr (to_lower (file_name f))
     | BySize \<Rightarrow> JNum (of_nat (file_size f))
     | ByTime \<Rightarrow> (case ms (mod_time f) of None \<Rightarrow> JNaN | Some t \<Rightarrow> JNum t)
     | ByType \<Rightarrow> JStr (to_lower (extension f)))"

definition file_compare :: "(string \<Rightarrow> rat option) \<Rightarrow> sort_field \<Rightarrow> bool \<Rightarrow> FileItem \<Rightarrow> FileItem \<Rightarrow> int" where
  "file_compare ms by asc a b =
     (if is_dir a \<and> \<not> is_dir b then - 1
      else if \<not> is_dir a \<and> is_dir b then 1
      else compare_by js_less asc (sort_value ms by a) (sort_value ms by b))"

definition sortedFiles :: "(string \<Rightarrow> rat option) \<Rightarrow> sort_field \<Rightarrow> bool \<Rightarrow> FileItem list \<Rightarrow> FileItem list" where
  "sortedFiles ms by asc files = js_sort (file_compare ms by asc) files"

definition matches :: "string \<Rightarrow> FileItem \<Rightarrow> bool" where
  "matches searchQuery f \<longleftrightarrow> includes_str (to_lower (file_name f)) (to_lower searchQuery)"

definition filteredFiles :: "(string \<Rightarrow> rat option) \<Rightarrow> sort_field \<Rightarrow> bool \<Rightarrow> string \<Rightarrow> FileItem list \<Rightarrow> FileItem list" where
  "filteredFiles ms by asc searchQuery files = filter (matches searchQuery) (sortedFiles ms by asc files)"

text \<open>The files whose sort value is a number or a text: all of them, unless they are sorted by a time
  that cannot be read.\<close>

definition dated :: "(string \<Rightarrow> rat option) \<Rightarrow> sort_field \<Rightarrow> FileItem set" where
  "dated ms by = {f. by = ByTime \<longrightarrow> ms (mod_time f) \<noteq> None}"

lemma js_less_str [simp]: "js_less (JStr x) (JStr y) \<longleftrightarrow> str_less x y"
  by (simp add: js_less_def)

lemma file_compare_consistent: "consistent_compare (file_compare ms by asc) (dated ms by)"
proof -
  have "consistent_compare (\<lambda>a b. compare_by js_less asc (sort_value ms by a) (sort_value ms by b)) (dated ms by)"
  proof (rule consistent_by_key)
    fix x y z
    assume "x \<in> sort_value ms by ` dated ms by" "y \<in> sort_value ms by ` dated ms by" and xy: "js_less x y"
    then show "\<not> js_less y x"
      by (cases "by") (auto simp: sort_value_def dated_def dest: str_order)
  next
    fix x y z
    assume "x \<in> sort_value ms by ` dated ms by" "y \<in> sort_value ms by ` dated ms by"
      "z \<in> sort_value ms by ` dated ms by" and xz: "js_less x z"
    then show "js_less x y \<or> js_less y z"
      by (cases "by") (auto simp: sort_value_def dated_def dest: str_order)
  qed
  then have "consistent_compare (first_by is_dir (\<lambda>a b. compare_by js_less asc (sort_value ms by a) (sort_value ms by b)))
      (dated ms by)" by (rule consistent_first_by)
  moreover have "first_by is_dir (\<lambda>a b. compare_by js_less asc (sort_value ms by a) (sort_value ms by b)) =
      file_compare ms by asc"
    by (simp add: fun_eq_iff first_by_def file_compare_def)
  ultimately show ?thesis by simp
qed

interpretation files_order: consistent_compare "file_compare ms by asc" "dated ms by" for ms "by" asc
  by (rule file_compare_consistent)

text \<open>C31: The listing shows what matches the search, each file once, folders before files, in the chosen
  order and direction, files that compare equal as the server sent them.\<close>

theorem listing_sorted:
  assumes "set files \<subseteq> dated ms by"
  shows "mset (filteredFiles ms by asc q files) = mset (filter (matches q) files) \<and>
    sorted_wrt (\<lambda>a b. is_dir a \<or> \<not> is_dir b) (filteredFiles ms by asc q files) \<and>
    sorted_wrt (\<lambda>a b. is_dir a = is_dir b \<longrightarrow> \<not> js_less (sort_value ms by (if asc then b else a))
      (sort_value ms by (if asc then a else b))) (filteredFiles ms by asc q files) \<and>
    (\<forall>f\<in>set files. filter (\<lambda>g. file_compare ms by asc f g = 0) (filteredFiles ms by asc q files) =
      filter (\<lambda>g. file_compare ms by asc f g = 0) (filter (matches q) files))"
proof (intro conjI ballI)
  let ?s = "sortedFiles ms by asc files" and ?v = "filteredFiles ms by asc q files"
  show "mset ?v = mset (filter (matches q) files)"
    by (simp add: filteredFiles_def sortedFiles_def)
  have "sorted_wrt (\<lambda>a b. file_compare ms by asc a b \<le> 0) ?s"
    unfolding sortedFiles_def using assms by (rule files_order.sorted_js_sort)
  then have s: "sorted_wrt (\<lambda>a b. file_compare ms by asc a b \<le> 0) ?v"
    unfolding filteredFiles_def by (rule sorted_wrt_filter)
  show "sorted_wrt (\<lambda>a b. is_dir a \<or> \<not> is_dir b) ?v"
    by (rule sorted_wrt_mono_rel [OF _ s]) (auto simp: file_compare_def split: if_splits)
  show "sorted_wrt (\<lambda>a b. is_dir a = is_dir b \<longrightarrow> \<not> js_less (sort_value ms by (if asc then b else a))
      (sort_value ms by (if asc then a else b))) ?v"
  proof (rule sorted_wrt_mono_rel [OF _ s])
    fix a b assume "a \<in> set ?v" "b \<in> set ?v" and le: "file_compare ms by asc a b \<le> 0"
    then have A: "a \<in> dated ms by" "b \<in> dated ms by"
      using assms by (auto simp: filteredFiles_def sortedFiles_def)
    then show "is_dir a = is_dir b \<longrightarrow> \<not> js_less (sort_value ms by (if asc then b else a))
      (sort_value ms by (if asc then a else b))"
      using le by (cases "by") (auto simp: file_compare_def compare_by_def sort_value_def dated_def
          dest: str_order split: if_splits)
  qed
  fix f assume "f \<in> set files"
  then have "filter (files_order.ties ms by asc f) ?s = filter (files_order.ties ms by asc f) files"
    unfolding sortedFiles_def using assms by (intro files_order.stable_js_sort) auto
  moreover have "files_order.ties ms by asc f = (\<lambda>g. file_compare ms by asc f g = 0)"
    by (simp add: fun_eq_iff files_order.ties_def)
  ultimately have "filter (matches q) (filter (\<lambda>g. file_compare ms by asc f g = 0) ?s) =
      filter (matches q) (filter (\<lambda>g. file_compare ms by asc f g = 0) files)" by simp
  then show "filter (\<lambda>g. file_compare ms by asc f g = 0) ?v =
      filter (\<lambda>g. file_compare ms by asc f g = 0) (filter (matches q) files)"
    by (simp add: filteredFiles_def filter_filter conj_commute)
qed

definition two_files :: "FileItem list" where
  "two_files = [\<lparr>file_name = ''a'', is_dir = False, file_size = 3, mod_time = [], extension = [], s3_key = None\<rparr>,
     \<lparr>file_name = ''b'', is_dir = True, file_size = 0, mod_time = [], extension = [], s3_key = None\<rparr>]"

theorem listing_sorted_witness:
  "sorted_wrt (\<lambda>a b. is_dir a \<or> \<not> is_dir b) (filteredFiles (\<lambda>_. None) BySize True [] two_files) \<and>
    mset (filteredFiles (\<lambda>_. None) BySize True [] two_files) = mset two_files"
proof -
  have "matches [] = (\<lambda>_. True)"
  proof
    show "matches [] f = True" for f
      by (cases "file_name f") (simp_all add: matches_def to_lower_def)
  qed
  then show ?thesis
    using listing_sorted [of two_files "\<lambda>_. None" BySize True "[]"] by (simp add: dated_def)
qed

end
