(* ===== verification/URI.thy ===== *)
theory URI
  imports JS_Values
begin

text \<open>
  \<open>encodeURIComponent\<close> and \<open>decodeURIComponent\<close> on strings of bytes (UTF-8). Decoding throws on a
  malformed escape and on bytes that are not UTF-8, which is the value \<open>None\<close>.
\<close>

definition unreserved :: "char \<Rightarrow> bool" where
  "unreserved c \<longleftrightarrow>
     (let n = of_char c :: nat in (65 \<le> n \<and> n \<le> 90) \<or> (97 \<le> n \<and> n \<le> 122) \<or> (48 \<le> n \<and> n \<le> 57) \<or>
        c \<in> set ''-_.!~*()'' \<or> n = 39)"

definition hex_digit :: "nat \<Rightarrow> char" where
  "hex_digit d = ''0123456789ABCDEF'' ! d"

definition hex_value :: "char \<Rightarrow> nat option" where
  "hex_value c =
     (let n = of_char c :: nat in
      if 48 \<le> n \<and> n \<le> 57 then Some (n - 48)
      else if 65 \<le> n \<and> n \<le> 70 then Some (n - 55)
      else if 97 \<le> n \<and> n \<le> 102 then Some (n - 87) else None)"

definition encode_char :: "char \<Rightarrow> string" where
  "encode_char c = (if unreserved c then [c]
     else [CHR ''%'', hex_digit (of_char c div 16), hex_digit (of_char c mod 16)])"

definition encodeURIComponent :: "string \<Rightarrow> string" where
  "encodeURIComponent s = concat (map encode_char s)"

fun unescape :: "string \<Rightarrow> string option" where
  "unescape [] = Some []"
| "unescape (c # s) =
     (if c = CHR ''%'' then
        (case s of a # b # t \<Rightarrow>
            (case (hex_value a, hex_value b) of
               (Some h, Some l) \<Rightarrow> map_option ((#) (char_of (16 * h + l))) (unescape t)
             | _ \<Rightarrow> None)
         | _ \<Rightarrow> None)
      else map_option ((#) c) (unescape s))"

text \<open>UTF-8: the lengths and ranges of its sequences.\<close>

definition continuation :: "nat \<Rightarrow> bool" where
  "continuation b \<longleftrightarrow> 128 \<le> b \<and> b \<le> 191"

fun utf8 :: "nat list \<Rightarrow> bool" where
  "utf8 [] = True"
| "utf8 (b # bs) =
     (if b < 128 then utf8 bs
      else case bs of
        c # cs \<Rightarrow>
          if 194 \<le> b \<and> b \<le> 223 then continuation c \<and> utf8 cs
          else (case cs of
            d # ds \<Rightarrow>
              if 224 \<le> b \<and> b \<le> 239 then
                continuation c \<and> continuation d \<and> (b = 224 \<longrightarrow> 160 \<le> c) \<and> (b = 237 \<longrightarrow> c \<le> 159) \<and> utf8 ds
              else (case ds of
                e # es \<Rightarrow> 240 \<le> b \<and> b \<le> 244 \<and> continuation c \<and> continuation d \<and> continuation e \<and>
                  (b = 240 \<longrightarrow> 144 \<le> c) \<and> (b = 244 \<longrightarrow> c \<le> 143) \<and> utf8 es
              | [] \<Rightarrow> False)
          | [] \<Rightarrow> False)
      | [] \<Rightarrow> False)"

definition utf8_string :: "string \<Rightarrow> bool" where
  "utf8_string s = utf8 (map of_char s)"

definition decodeURIComponent :: "string \<Rightarrow> string option" where
  "decodeURIComponent s =
     (case unescape s of None \<Rightarrow> None | Some t \<Rightarrow> if utf8_string t then Some t else None)"

section \<open>Decoding undoes encoding\<close>

lemma hex_value_digit: "d < 16 \<Longrightarrow> hex_value (hex_digit d) = Some d"
proof -
  assume "d < 16"
  moreover have "list_all (\<lambda>d. hex_value (hex_digit d) = Some d) [0..<16]"
    by (simp add: upt_rec hex_value_def hex_digit_def)
  ultimately show ?thesis by (simp add: list_all_iff)
qed

lemma unescape_encode_char: "unescape (encode_char c @ s) = map_option ((#) c) (unescape s)"
proof (cases "unreserved c")
  case True
  then have "c \<noteq> CHR ''%''" by (auto simp: unreserved_def)
  with True show ?thesis by (simp add: encode_char_def)
next
  case False
  have "of_char c < (256::nat)" by simp
  then have "of_char c div 16 < (16::nat)" by (intro less_mult_imp_div_less) simp
  then show ?thesis using False by (simp add: encode_char_def hex_value_digit)
qed

lemma unescape_encode [simp]: "unescape (encodeURIComponent s) = Some s"
  by (induction s) (auto simp: encodeURIComponent_def unescape_encode_char)

lemma decode_encode: "utf8_string s \<Longrightarrow> decodeURIComponent (encodeURIComponent s) = Some s"
  by (simp add: decodeURIComponent_def)

lemma utf8_ascii: "\<forall>c\<in>set s. of_char c < (128::nat) \<Longrightarrow> utf8_string s"
  unfolding utf8_string_def by (induction s) auto

text \<open>What encoding never produces.\<close>

lemma encode_chars:
  "c \<in> set (encodeURIComponent s) \<Longrightarrow> unreserved c \<or> c = CHR ''%''"
proof -
  have "list_all (\<lambda>d. unreserved (hex_digit d)) [0..<16]"
    by (simp add: upt_rec unreserved_def hex_digit_def)
  then have "unreserved (hex_digit d)" if "d < 16" for d using that by (simp add: list_all_iff)
  moreover have "of_char c div 16 < (16::nat)" for c :: char
    by (intro less_mult_imp_div_less) simp
  ultimately show "c \<in> set (encodeURIComponent s) \<Longrightarrow> unreserved c \<or> c = CHR ''%''"
    by (auto simp: encodeURIComponent_def encode_char_def split: if_splits)
qed

end
