(* ===== verification/Page.thy ===== *)
theory Page
  imports Browser URI
begin

text \<open>
  What the pages share. A page's handlers await the server (\<open>fetch\<close>) and the user
  (\<open>showGlobalConfirm\<close>, \<open>showGlobalPrompt\<close>, the browser's \<open>confirm\<close>), or several requests at once
  (\<open>Promise.all\<close>): a query is one of these, and its answer is of the same kind. A handler is a closure of the render that the user saw, so it reads the state
  once, when it starts, and goes on with these values after every \<open>await\<close>; what it writes goes to the
  state of that moment. \<open>console.error\<close> has no effect on the page.
\<close>

datatype query = Http request | AskConfirm string | AskPrompt string string | HttpAll "request list"

datatype answer = Replied reply | Confirmed bool | Prompted "string option" | RepliedAll "reply list"

text \<open>An answer of the query's kind.\<close>

fun fits :: "query \<Rightarrow> answer \<Rightarrow> bool" where
  "fits (Http rq) (Replied r) = True"
| "fits (AskConfirm m) (Confirmed b) = True"
| "fits (AskPrompt m d) (Prompted v) = True"
| "fits (HttpAll rqs) (RepliedAll rs) = (length rs = length rqs)"
| "fits _ _ = False"

type_synonym ('s, 'a) page_action = "('s, query, answer, 'a) task"

definition page_fetch :: "request \<Rightarrow> ('s, bool \<times> body) page_action" where
  "page_fetch rq = Await (Http rq) (\<lambda>a. case a of
       Replied (Rejected e) \<Rightarrow> Fail e
     | Replied (Response ok b) \<Rightarrow> Done (ok, b)
     | _ \<Rightarrow> Fail [])"

definition ask_confirm :: "string \<Rightarrow> ('s, bool) page_action" where
  "ask_confirm msg = Await (AskConfirm msg) (\<lambda>a. case a of Confirmed b \<Rightarrow> Done b | _ \<Rightarrow> Done False)"

definition ask_prompt :: "string \<Rightarrow> string \<Rightarrow> ('s, string option) page_action" where
  "ask_prompt msg dflt = Await (AskPrompt msg dflt) (\<lambda>a. case a of Prompted v \<Rightarrow> Done v | _ \<Rightarrow> Done None)"

text \<open>\<open>await Promise.all(requests)\<close>: fails when one of them does, and nobody looks at the answers.\<close>

fun rejection :: "reply \<Rightarrow> err option" where
  "rejection (Rejected e) = Some e"
| "rejection (Response ok b) = None"

definition fetch_all :: "request list \<Rightarrow> ('s, unit) page_action" where
  "fetch_all rqs = Await (HttpAll rqs) (\<lambda>a. case a of
       RepliedAll rs \<Rightarrow> (case List.map_filter rejection rs of [] \<Rightarrow> Done () | e # _ \<Rightarrow> Fail e)
     | _ \<Rightarrow> Fail [])"

text \<open>\<open>try { ... } catch (err) { console.error(err) }\<close>.\<close>

definition quietly :: "('s, unit) page_action \<Rightarrow> ('s, unit) page_action" where
  "quietly t = try_catch t (\<lambda>_. Done ())"

text \<open>A request that nobody awaits leaves the list of requests when its answer comes.\<close>

definition drop_nth :: "nat \<Rightarrow> 'a list \<Rightarrow> 'a list" where
  "drop_nth i xs = take i xs @ drop (Suc i) xs"

text \<open>\<open>if (d.k) set(d.k)\<close> and \<open>if (d.k !== undefined) set(d.k)\<close>.\<close>

definition if_truthy :: "jsv \<Rightarrow> string \<Rightarrow> jsv \<Rightarrow> jsv" where
  "if_truthy d k old = js_or (opt_prop d k) old"

definition if_defined :: "jsv \<Rightarrow> string \<Rightarrow> jsv \<Rightarrow> jsv" where
  "if_defined d k old = (if opt_prop d k \<noteq> JUndef then opt_prop d k else old)"

text \<open>\<open>parseInt(s, 10)\<close> and \<open>parseInt(s)\<close>: white space, a sign and the digits at the front; the second
  reads a prefix \<open>0x\<close> as hexadecimal. \<open>None\<close> is \<open>NaN\<close>.\<close>

definition int_prefix :: "string \<Rightarrow> nat option" where
  "int_prefix u = (let ds = takeWhile is_digit u in if ds = [] then None else Some (digits_val ds))"

definition hex_prefix :: "string \<Rightarrow> nat option" where
  "hex_prefix u = (let hs = takeWhile (\<lambda>c. hex_value c \<noteq> None) u in
     if hs = [] then None else Some (foldl (\<lambda>n c. 16 * n + the (hex_value c)) 0 hs))"

definition signed_int :: "(string \<Rightarrow> nat option) \<Rightarrow> string \<Rightarrow> int option" where
  "signed_int f s =
     (let t = dropWhile is_space s in
      if t \<noteq> [] \<and> hd t = CHR ''-'' then map_option (\<lambda>n. - int n) (f (tl t))
      else if t \<noteq> [] \<and> hd t = CHR ''+'' then map_option int (f (tl t)) else map_option int (f t))"

definition parse_int10 :: "string \<Rightarrow> int option" where
  "parse_int10 = signed_int int_prefix"

definition parse_int :: "string \<Rightarrow> int option" where
  "parse_int = signed_int (\<lambda>u. if to_lower (take 2 u) = ''0x'' then hex_prefix (drop 2 u) else int_prefix u)"

text \<open>A printed integer is read back.\<close>

lemma int_prefix_show [simp]: "int_prefix (show_nat n) = Some n"
proof -
  have "takeWhile is_digit (show_nat n) = show_nat n"
    using show_nat_digits [of n] by (simp add: list_all_iff)
  then show ?thesis using show_nat_digits [of n] by (simp add: int_prefix_def Let_def del: takeWhile_eq_all_conv)
qed

lemma decimal_not_hex: "to_lower (take 2 (show_nat n)) \<noteq> ''0x''"
proof
  assume "to_lower (take 2 (show_nat n)) = ''0x''"
  then obtain a b s where s: "show_nat n = a # b # s" and b: "to_lower_char b = CHR ''x''"
    by (cases "show_nat n" rule: remdups_adj.cases) (auto simp: to_lower_def)
  then have "is_digit b" using show_nat_chars [of b n] by simp
  then show False using b by (auto simp: is_digit_def to_lower_char_def)
qed

lemma parse_show_int: "parse_int (show_int n) = Some n"
proof (cases "n < 0")
  case True
  then show ?thesis
    using decimal_not_hex by (simp add: parse_int_def signed_int_def show_int_def is_space_def)
next
  case False
  obtain c s where s: "show_nat (nat n) = c # s" using show_nat_digits [of "nat n"] by (cases "show_nat (nat n)") auto
  then have c: "is_digit c" using show_nat_chars [of c "nat n"] by simp
  have "int_prefix (c # s) = Some (nat n)" using int_prefix_show [of "nat n"] s by simp
  moreover have "to_lower (take 2 (c # s)) \<noteq> ''0x''" using decimal_not_hex [of "nat n"] s by simp
  moreover have "c \<noteq> CHR ''-''" "c \<noteq> CHR ''+''" using c by (auto simp: is_digit_def)
  ultimately show ?thesis
    using False digit_not_space [OF c] s by (simp add: parse_int_def signed_int_def show_int_def)
qed

text \<open>\<open>fetch(url, {method: 'POST', headers: {...}, body: JSON.stringify(v)})\<close>.\<close>

definition post_json :: "string \<Rightarrow> string \<Rightarrow> jsv \<Rightarrow> request" where
  "post_json token url v = http_send ''POST'' url [json_header, auth_header token] (Some v)"

definition authed_get :: "string \<Rightarrow> string \<Rightarrow> request" where
  "authed_get token url = http_get url [auth_header token]"

text \<open>\<open>`${v.k}`\<close>: a TypeError when \<open>v\<close> is \<open>undefined\<close> or \<open>null\<close>.\<close>

definition show_prop :: "jsv \<Rightarrow> string \<Rightarrow> string res" where
  "show_prop v k = (case get_prop v k of Inl e \<Rightarrow> Inl e | Inr x \<Rightarrow> Inr (js_string x))"

text \<open>\<open>for (const x of xs) { body(x) }\<close> with awaits in the body; an exception leaves the loop.\<close>

primrec for_each :: "('x \<Rightarrow> ('s, 'q, 'r, unit) task) \<Rightarrow> 'x list \<Rightarrow> ('s, 'q, 'r, unit) task" where
  "for_each f [] = Done ()"
| "for_each f (x # xs) = bind (f x) (\<lambda>_. for_each f xs)"

lemma wp_quietly [simp]: "wp A I Q E (quietly t) s = wp A I Q (\<lambda>_. Q ()) t s"
  by (simp add: quietly_def)

lemma wp_page_fetch [simp]:
  "wp fits I Q E (page_fetch rq) s \<longleftrightarrow>
     I s \<and> (\<forall>r s'. I s' \<longrightarrow> (case r of Rejected e \<Rightarrow> E e s' | Response ok b \<Rightarrow> Q (ok, b) s'))"
  unfolding page_fetch_def wp.simps
proof (intro iffI conjI allI impI)
  show "case r of Rejected e \<Rightarrow> E e s' | Response ok b \<Rightarrow> Q (ok, b) s'"
    if "I s \<and> (\<forall>r s'. fits (Http rq) r \<longrightarrow> I s' \<longrightarrow> wp fits I Q E (case r of
        Replied (Rejected e) \<Rightarrow> Fail e | Replied (Response ok b) \<Rightarrow> Done (ok, b) | _ \<Rightarrow> Fail []) s')" "I s'"
    for r s'
    using that by (cases r) (auto dest!: spec [of _ "Replied r"])
  show "wp fits I Q E (case a of
        Replied (Rejected e) \<Rightarrow> Fail e | Replied (Response ok b) \<Rightarrow> Done (ok, b) | _ \<Rightarrow> Fail []) s'"
    if "I s \<and> (\<forall>r s'. I s' \<longrightarrow> (case r of Rejected e \<Rightarrow> E e s' | Response ok b \<Rightarrow> Q (ok, b) s'))"
      "fits (Http rq) a" "I s'" for a s'
  proof (cases a)
    case (Replied r)
    with that have "case r of Rejected e \<Rightarrow> E e s' | Response ok b \<Rightarrow> Q (ok, b) s'" by blast
    with Replied show ?thesis by (cases r) simp_all
  qed (use that in auto)
qed auto

lemma wp_ask_confirm [simp]:
  "wp fits I Q E (ask_confirm msg) s \<longleftrightarrow> I s \<and> (\<forall>b s'. I s' \<longrightarrow> Q b s')"
  unfolding ask_confirm_def wp.simps
proof (intro iffI conjI allI impI)
  show "Q b s'" if "I s \<and> (\<forall>r s'. fits (AskConfirm msg) r \<longrightarrow> I s' \<longrightarrow>
      wp fits I Q E (case r of Confirmed b \<Rightarrow> Done b | _ \<Rightarrow> Done False) s')" "I s'" for b s'
    using that by (auto dest!: spec [of _ "Confirmed b"])
qed (auto split: answer.splits)

lemma wp_ask_prompt [simp]:
  "wp fits I Q E (ask_prompt msg d) s \<longleftrightarrow> I s \<and> (\<forall>v s'. I s' \<longrightarrow> Q v s')"
  unfolding ask_prompt_def wp.simps
proof (intro iffI conjI allI impI)
  show "Q v s'" if "I s \<and> (\<forall>r s'. fits (AskPrompt msg d) r \<longrightarrow> I s' \<longrightarrow>
      wp fits I Q E (case r of Prompted v \<Rightarrow> Done v | _ \<Rightarrow> Done None) s')" "I s'" for v s'
    using that by (auto dest!: spec [of _ "Prompted v"])
qed (auto split: answer.splits)

text \<open>A loop keeps what its body keeps.\<close>

lemma wp_for_each:
  assumes "\<And>x s. x \<in> set xs \<Longrightarrow> I s \<Longrightarrow> wp A I (\<lambda>_. I) E (f x) s"
    and "I s" and "\<And>s. I s \<Longrightarrow> Q () s"
  shows "wp A I Q E (for_each f xs) s"
  using assms
proof (induction xs arbitrary: s)
  case (Cons x xs)
  have rest: "wp A I Q E (for_each f xs) s'" if "I s'" for s'
    using Cons.prems(1,3) that by (intro Cons.IH) auto
  have "wp A I (\<lambda>_. I) E (f x) s" using Cons.prems(1,2) by simp
  then have "wp A I (\<lambda>_. wp A I Q E (for_each f xs)) E (f x) s"
    by (rule wp_mono) (rule rest)
  then show ?case by simp
qed simp

text \<open>Run alone on answers that are all network successes, a loop of one request each asks for
  all of them, in order.\<close>

fun answered :: "answer \<Rightarrow> bool" where
  "answered (Replied (Response ok b)) = True"
| "answered _ = False"

lemma run_bind:
  "run (bind t f) rs s = (case run t rs s of
      (qs, Returned a, s', rs') \<Rightarrow> (case run (f a) rs' s' of (qs', x) \<Rightarrow> (qs @ qs', x))
    | (qs, Threw e, s', rs') \<Rightarrow> (qs, Threw e, s', rs')
    | (qs, Waiting, s', rs') \<Rightarrow> (qs, Waiting, s', rs'))"
  by (induction t arbitrary: rs s) (auto split: list.splits prod.splits outcome.splits)

lemma run_for_each_fetch:
  assumes "length rs = length xs" and "list_all answered rs"
  shows "run (for_each (\<lambda>x. void (page_fetch (rq x))) xs) (rs @ rest) s =
     (map (Http \<circ> rq) xs, Returned (), s, rest)"
  using assms
proof (induction xs arbitrary: rs)
  case (Cons x xs)
  obtain r rs' where rs: "rs = r # rs'" using Cons.prems by (cases rs) auto
  then have "answered r" "length rs' = length xs" "list_all answered rs'" using Cons.prems by auto
  then show ?case
    using Cons.IH [of rs'] rs
    by (cases r rule: answered.cases) (auto simp: void_def page_fetch_def run_bind)
qed simp

text \<open>A network error in the middle ends the loop.\<close>

lemma run_for_each_fetch_fail:
  assumes "length rs = k" and "k < length xs" and "list_all answered rs"
  shows "run (for_each (\<lambda>x. void (page_fetch (rq x))) xs) (rs @ Replied (Rejected e) # rest) s =
     (map (Http \<circ> rq) (take (Suc k) xs), Threw e, s, rest)"
  using assms
proof (induction xs arbitrary: rs k)
  case (Cons x xs)
  show ?case
  proof (cases rs)
    case Nil
    then show ?thesis using Cons.prems by (simp add: void_def page_fetch_def run_bind)
  next
    case (Cons r rs')
    then have "answered r" using Cons.prems by simp
    then show ?thesis
      using Cons.IH [of rs' "length rs'"] Cons.prems \<open>rs = r # rs'\<close>
      by (cases r rule: answered.cases) (auto simp: void_def page_fetch_def run_bind)
  qed
qed simp

lemma run_try_catch:
  "run (try_catch t h) rs s = (case run t rs s of
      (qs, Threw e, s', rs') \<Rightarrow> (case run (h e) rs' s' of (qs', x) \<Rightarrow> (qs @ qs', x))
    | (qs, Returned a, s', rs') \<Rightarrow> (qs, Returned a, s', rs')
    | (qs, Waiting, s', rs') \<Rightarrow> (qs, Waiting, s', rs'))"
  by (induction t arbitrary: rs s) (auto split: list.splits prod.splits outcome.splits)

lemma run_finally:
  "run (finally_do t c) rs s = (case run t rs s of
      (qs, Waiting, s', rs') \<Rightarrow> (qs, Waiting, s', rs')
    | (qs, out, s', rs') \<Rightarrow> (qs, out, c s', rs'))"
  by (induction t arbitrary: rs s) (auto split: list.splits prod.splits outcome.splits)

end
