(* ===== verification/Files_Page.thy ===== *)
theory Files_Page
  imports Files_Lib Page URI
begin

text \<open>
  The file manager of the server panel (\<open>web/server/src/pages/FilesPage.tsx\<close>; the client's page is
  the same without the cloud operations). The React state is a record. A handler reads
  the state once and keeps these values, as the closure of a render does. \<open>fetchFiles\<close> is never
  awaited: it writes the state at once and leaves a request in \<open>listings\<close>, whose answer comes as an
  event. The effect that loads the directory whenever \<open>currentPath\<close> changes is part of every
  operation that sets it (\<open>go\<close>).
\<close>

section \<open>State\<close>

datatype clip_action = CopyItems | CutItems

record ClipboardState =
  clip_action :: "clip_action option"
  srcParent :: string
  clip_items :: "FileItem list"

datatype preview_type = PreviewImage | PreviewVideo | PreviewEditor | PreviewOther

record files_state =
  token :: string
  currentPath :: string
  files :: "FileItem list"
  loading :: bool
  searchQuery :: string
  sortBy :: sort_field
  sortAsc :: bool
  selectedItems :: "string list"
  clipboard :: ClipboardState
  folderTree :: "string list"
  listings :: "string list"
  disk :: "jsv list"
  previewFile :: "FileItem option"
  previewType :: "preview_type option"
  editorContent :: string
  editorLang :: string
  editorLoading :: bool
  savingContent :: bool
  newFolderName :: string
  showFolderModal :: bool
  creatingFolder :: bool
  archiveName :: string
  compressing :: bool
  showArchiveModal :: bool
  compressQueue :: "(string \<times> string) list"
  showCompressQueueModal :: bool
  passwordModal :: "string option"
  shareUrl :: string
  showShareModal :: bool
  showCloudUploadModal :: bool
  cloudRemotes :: "jsv list"
  cloudRemoteId :: string
  cloudDestDir :: string
  cloudKeepStructure :: bool
  cloudNeedLink :: bool
  cloudUploading :: bool
  uploading :: bool
  imgZoom :: rat
  imgRotation :: int
  detectedMetadata :: "(nat \<times> nat \<times> rat option) option"
  showSearchModal :: bool
  alerts :: "string list"

definition no_clipboard :: ClipboardState where
  "no_clipboard = \<lparr>clip_action = None, srcParent = [], clip_items = []\<rparr>"

definition init_files :: "string \<Rightarrow> files_state" where
  "init_files tok = \<lparr>token = tok, currentPath = ''/'', files = [], loading = False, searchQuery = [],
     sortBy = ByName, sortAsc = True, selectedItems = [], clipboard = no_clipboard, folderTree = [],
     listings = [], disk = replicate 6 (JNum 0), previewFile = None, previewType = None, editorContent = [],
     editorLang = ''plaintext'', editorLoading = False, savingContent = False, newFolderName = [],
     showFolderModal = False, creatingFolder = False, archiveName = ''archive.zip'', compressing = False,
     showArchiveModal = False, compressQueue = [], showCompressQueueModal = False, passwordModal = None,
     shareUrl = [], showShareModal = False, showCloudUploadModal = False, cloudRemotes = [],
     cloudRemoteId = [], cloudDestDir = [], cloudKeepStructure = True, cloudNeedLink = False,
     cloudUploading = False, uploading = False, imgZoom = 1, imgRotation = 0, detectedMetadata = None, showSearchModal = False, alerts = []\<rparr>"

definition alert :: "string \<Rightarrow> files_state \<Rightarrow> files_state" where
  "alert msg s = s\<lparr>alerts := alerts s @ [msg]\<rparr>"

section \<open>Listing a directory\<close>

definition fetchFiles :: "string \<Rightarrow> files_state \<Rightarrow> files_state" where
  "fetchFiles path s = s\<lparr>loading := True, selectedItems := [], listings := listings s @ [path]\<rparr>"

text \<open>\<open>setCurrentPath(p)\<close>, and the effect on \<open>[currentPath, token]\<close>.\<close>

definition go :: "string \<Rightarrow> files_state \<Rightarrow> files_state" where
  "go p s = (let s1 = s\<lparr>currentPath := p\<rparr> in
     if p \<noteq> currentPath s \<and> token s \<noteq> [] then fetchFiles p s1 else s1)"

definition mounted :: "files_state \<Rightarrow> files_state" where
  "mounted s = (if token s \<noteq> [] then fetchFiles (currentPath s) s else s)"

text \<open>\<open>foldersSet.add(p)\<close>.\<close>

definition set_add :: "string \<Rightarrow> string list \<Rightarrow> string list" where
  "set_add p ps = (if p \<in> set ps then ps else ps @ [p])"

definition updateFolderTree :: "string \<Rightarrow> FileItem list \<Rightarrow> string list \<Rightarrow> string list" where
  "updateFolderTree current currentFiles prev =
     (let f1 = set_add ''/'' (fold set_add prev []);
          f2 = (if current \<noteq> ''/'' \<and> current \<noteq> [] then set_add current f1 else f1);
          f3 = fold (\<lambda>f. set_add (child_path current (file_name f))) (filter is_dir currentFiles) f2
      in js_sort (compare_by str_less True) f3)"

text \<open>The body of a successful answer; a missing field is \<open>None\<close> or \<open>undefined\<close>.\<close>

record listing =
  l_files :: "FileItem list option"
  l_path :: "string option"
  l_disk :: "jsv list"

definition or_root :: "string option \<Rightarrow> string" where
  "or_root p = (case p of None \<Rightarrow> ''/'' | Some q \<Rightarrow> if q = [] then ''/'' else q)"

text \<open>The answer to request \<open>i\<close>: \<open>None\<close> when the request failed, was refused or did not parse.\<close>

definition listed :: "nat \<Rightarrow> listing option \<Rightarrow> files_state \<Rightarrow> files_state" where
  "listed i r s =
     (let s1 = s\<lparr>listings := take i (listings s) @ drop (Suc i) (listings s)\<rparr> in
      case r of
        None \<Rightarrow> s1\<lparr>loading := False\<rparr>
      | Some d \<Rightarrow>
          (let fs = (case l_files d of None \<Rightarrow> [] | Some xs \<Rightarrow> xs);
               s2 = s1\<lparr>files := fs, disk := map (\<lambda>v. js_or v (JNum 0)) (l_disk d),
                       folderTree := updateFolderTree (or_root (l_path d)) fs (folderTree s1), loading := False\<rparr>
           in go (or_root (l_path d)) s2))"

section \<open>Navigation and selection\<close>

definition navigateTo :: "string \<Rightarrow> files_state \<Rightarrow> files_state" where
  "navigateTo name s = go (child_path (currentPath s) name) s"

definition navigateUp :: "files_state \<Rightarrow> files_state" where
  "navigateUp s = (if currentPath s = ''/'' \<or> currentPath s = [] then s else go (parent_path (currentPath s)) s)"

definition navigateToBreadcrumb :: "nat \<Rightarrow> string list \<Rightarrow> files_state \<Rightarrow> files_state" where
  "navigateToBreadcrumb index parts s = go (breadcrumb_path index parts) s"

definition toggleSelectItem :: "string \<Rightarrow> files_state \<Rightarrow> files_state" where
  "toggleSelectItem name s = s\<lparr>selectedItems :=
     (if name \<in> set (selectedItems s) then filter (\<lambda>x. x \<noteq> name) (selectedItems s)
      else selectedItems s @ [name])\<rparr>"

definition shown :: "(string \<Rightarrow> rat option) \<Rightarrow> files_state \<Rightarrow> FileItem list" where
  "shown ms s = filteredFiles ms (sortBy s) (sortAsc s) (searchQuery s) (files s)"

definition toggleSelectAll :: "(string \<Rightarrow> rat option) \<Rightarrow> files_state \<Rightarrow> files_state" where
  "toggleSelectAll ms s = s\<lparr>selectedItems :=
     (if length (selectedItems s) = length (shown ms s) then [] else map file_name (shown ms s))\<rparr>"

definition ctrl_a :: "(string \<Rightarrow> rat option) \<Rightarrow> files_state \<Rightarrow> files_state" where
  "ctrl_a ms s = s\<lparr>selectedItems := map file_name (shown ms s)\<rparr>"

definition contextMenu_select :: "FileItem \<Rightarrow> files_state \<Rightarrow> files_state" where
  "contextMenu_select f s =
     (if file_name f \<in> set (selectedItems s) then s else s\<lparr>selectedItems := [file_name f]\<rparr>)"

definition selected_files :: "files_state \<Rightarrow> FileItem list" where
  "selected_files s = filter (\<lambda>x. file_name x \<in> set (selectedItems s)) (files s)"

section \<open>Clipboard and compress queue\<close>

definition take_selection :: "clip_action \<Rightarrow> string \<Rightarrow> files_state \<Rightarrow> files_state" where
  "take_selection a verb s =
     (if selectedItems s = [] then s
      else alert (verb @ '' '' @ show_nat (length (selectedItems s)) @ '' items to clipboard.'')
        (s\<lparr>clipboard := \<lparr>clip_action = Some a, srcParent = currentPath s, clip_items = selected_files s\<rparr>\<rparr>))"

definition handleCopy :: "files_state \<Rightarrow> files_state" where
  "handleCopy = take_selection CopyItems ''Copied''"

definition handleCut :: "files_state \<Rightarrow> files_state" where
  "handleCut = take_selection CutItems ''Cut''"

definition handleCopySingle :: "FileItem \<Rightarrow> files_state \<Rightarrow> files_state" where
  "handleCopySingle f s = s\<lparr>clipboard := \<lparr>clip_action = Some CopyItems, srcParent = currentPath s, clip_items = [f]\<rparr>\<rparr>"

definition handleCutSingle :: "FileItem \<Rightarrow> files_state \<Rightarrow> files_state" where
  "handleCutSingle f s = s\<lparr>clipboard := \<lparr>clip_action = Some CutItems, srcParent = currentPath s, clip_items = [f]\<rparr>\<rparr>"

definition handleAddToCompressQueue :: "FileItem \<Rightarrow> files_state \<Rightarrow> files_state" where
  "handleAddToCompressQueue f s =
     (let fullPath = child_path (currentPath s) (file_name f) in
      if fullPath \<in> snd ` set (compressQueue s)
      then alert (CHR 0x22 # file_name f @ [CHR 0x22] @ '' is already in the compress queue.'') s
      else s\<lparr>compressQueue := compressQueue s @ [(file_name f, fullPath)]\<rparr>)"

definition find_file :: "string \<Rightarrow> FileItem list \<Rightarrow> FileItem option" where
  "find_file name fs = List.find (\<lambda>f. file_name f = name) fs"

text \<open>One name of the selection, with the queue so far and the number of items added.\<close>

definition queue_one :: "string \<Rightarrow> FileItem list \<Rightarrow> string \<Rightarrow> (string \<times> string) list \<times> nat \<Rightarrow>
    (string \<times> string) list \<times> nat" where
  "queue_one cur fs name p = (case (p, find_file name fs) of
       ((q, n), Some f) \<Rightarrow>
          (let fullPath = child_path cur (file_name f) in
           if fullPath \<in> snd ` set q then (q, n) else (q @ [(file_name f, fullPath)], n + 1))
     | (p, None) \<Rightarrow> p)"

definition handleAddSelectedToCompressQueue :: "files_state \<Rightarrow> files_state" where
  "handleAddSelectedToCompressQueue s =
     (let (q, n) = fold (queue_one (currentPath s) (files s)) (selectedItems s) (compressQueue s, 0);
          s1 = s\<lparr>compressQueue := q\<rparr>;
          s2 = (if 0 < n then alert (''Added '' @ show_nat n @ '' items to the compress queue.'') s1 else s1)
      in s2\<lparr>selectedItems := []\<rparr>)"

definition removeFromQueue :: "nat \<Rightarrow> files_state \<Rightarrow> files_state" where
  "removeFromQueue idx s = s\<lparr>compressQueue := take idx (compressQueue s) @ drop (Suc idx) (compressQueue s)\<rparr>"

definition clearQueue :: "files_state \<Rightarrow> files_state" where
  "clearQueue s = s\<lparr>compressQueue := []\<rparr>"

section \<open>Requests to the server\<close>

type_synonym 'a files_action = "(files_state, 'a) page_action"

definition start_loading :: "files_state \<Rightarrow> files_state" where
  "start_loading s = s\<lparr>loading := True\<rparr>"

definition stop_loading :: "files_state \<Rightarrow> files_state" where
  "stop_loading s = s\<lparr>loading := False\<rparr>"

definition quoted :: "string \<Rightarrow> string" where
  "quoted s = CHR 0x22 # s @ [CHR 0x22]"

text \<open>\<open>const data = await res.json(); showGlobalAlert(`...${data.k}...`)\<close>.\<close>

definition alert_with :: "body \<Rightarrow> string \<Rightarrow> string \<Rightarrow> string \<Rightarrow> unit files_action" where
  "alert_with b pre k post = bind (read_json b) (\<lambda>v. bind (lift_res (show_prop v k)) (\<lambda>x.
     set_state (alert (pre @ x @ post))))"

definition move_body :: "string \<Rightarrow> string \<Rightarrow> jsv" where
  "move_body src dst = JObj [(''src_path'', JStr src), (''dst_path'', JStr dst)]"

definition paste_request :: "files_state \<Rightarrow> FileItem \<Rightarrow> request" where
  "paste_request s item = post_json (token s)
     (if clip_action (clipboard s) = Some CopyItems then ''/api/files/copy'' else ''/api/files/move'')
     (move_body (child_path (srcParent (clipboard s)) (file_name item)) (child_path (currentPath s) (file_name item)))"

definition handlePaste :: "unit files_action" where
  "handlePaste = Get (\<lambda>c.
     if clip_action (clipboard c) = None \<or> clip_items (clipboard c) = [] then Done ()
     else Set start_loading
       (finally_do
         (quietly
           (andthen (for_each (\<lambda>item. void (page_fetch (paste_request c item))) (clip_items (clipboard c)))
             (Set (\<lambda>s. if clip_action (clipboard c) = Some CutItems then s\<lparr>clipboard := no_clipboard\<rparr> else s)
               (set_state (fetchFiles (currentPath c))))))
         stop_loading))"

definition rename_request :: "files_state \<Rightarrow> FileItem \<Rightarrow> string \<Rightarrow> request" where
  "rename_request c f newName = post_json (token c) ''/api/files/move''
     (move_body (child_path (currentPath c) (file_name f)) (child_path (currentPath c) (trim newName)))"

text \<open>The prompt, and the new name when there is one to use.\<close>

definition ask_name :: "FileItem \<Rightarrow> string option files_action" where
  "ask_name f = bind (ask_prompt (''Enter new name for '' @ quoted (file_name f) @ '':'') (file_name f)) (\<lambda>a.
     Done (case a of None \<Rightarrow> None
       | Some n \<Rightarrow> if n = [] \<or> trim n = [] \<or> n = file_name f then None else Some n))"

definition handleRename :: "FileItem \<Rightarrow> unit files_action" where
  "handleRename f = Get (\<lambda>c. bind (ask_name f) (\<lambda>a. case a of
       None \<Rightarrow> Done ()
     | Some newName \<Rightarrow> Set start_loading
         (finally_do (quietly (bind (page_fetch (rename_request c f newName)) (\<lambda>(ok, b).
             if ok then set_state (fetchFiles (currentPath c)) else Done ())))
           stop_loading)))"

definition handleRenameBulk :: "unit files_action" where
  "handleRenameBulk = Get (\<lambda>c. if selectedItems c = [] then Done () else Set start_loading
     (finally_do (quietly
       (andthen (for_each (\<lambda>name. case find_file name (files c) of
             None \<Rightarrow> Done ()
           | Some f \<Rightarrow> bind (ask_name f) (\<lambda>a. case a of
                 None \<Rightarrow> Done ()
               | Some newName \<Rightarrow> void (page_fetch (rename_request c f newName)))) (selectedItems c))
         (set_state (fetchFiles (currentPath c)))))
       stop_loading))"

definition compress_body :: "string \<Rightarrow> string list \<Rightarrow> string \<Rightarrow> jsv" where
  "compress_body parent items name =
     JObj [(''parent_path'', JStr parent), (''items'', JArr (map JStr items)), (''zip_name'', JStr (trim name))]"

definition handleCompress :: "unit files_action" where
  "handleCompress = Get (\<lambda>c. if selectedItems c = [] \<or> trim (archiveName c) = [] then Done ()
     else Set (\<lambda>s. s\<lparr>compressing := True\<rparr>)
       (finally_do (quietly
         (bind (page_fetch (post_json (token c) ''/api/files/compress''
             (compress_body (currentPath c) (selectedItems c) (archiveName c)))) (\<lambda>(ok, b).
            if ok then andthen (alert_with b ''Compression job queued successfully! Job ID: '' ''job_id'' [])
              (set_state (\<lambda>s. fetchFiles (currentPath c) (s\<lparr>showArchiveModal := False\<rparr>)))
            else alert_with b ''Compression failed: '' ''error'' [])))
         (\<lambda>s. s\<lparr>compressing := False\<rparr>)))"

definition handleCompressQueue :: "unit files_action" where
  "handleCompressQueue = Get (\<lambda>c. if compressQueue c = [] \<or> trim (archiveName c) = [] then Done ()
     else Set (\<lambda>s. s\<lparr>compressing := True\<rparr>)
       (finally_do (quietly
         (bind (page_fetch (post_json (token c) ''/api/files/compress''
             (compress_body [] (map snd (compressQueue c)) (archiveName c)))) (\<lambda>(ok, b).
            if ok then andthen
                (alert_with b ''Compression job queued successfully for all queue items! Job ID: '' ''job_id'' [])
                (set_state (\<lambda>s. fetchFiles (currentPath c)
                   (s\<lparr>compressQueue := [], showCompressQueueModal := False\<rparr>)))
            else alert_with b ''Compression failed: '' ''error'' [])))
         (\<lambda>s. s\<lparr>compressing := False\<rparr>)))"

definition decompress :: "files_state \<Rightarrow> (string \<times> jsv) list \<Rightarrow> request" where
  "decompress c body = post_json (token c) ''/api/files/decompress'' (JObj body)"

definition handleExtract :: "FileItem \<Rightarrow> unit files_action" where
  "handleExtract f = Get (\<lambda>c.
     bind (ask_confirm (''Do you want to extract '' @ quoted (file_name f) @ '' in the current directory?'')) (\<lambda>yes.
       if \<not> yes then Done ()
       else let targetPath = child_path (currentPath c) (file_name f) in
         Set start_loading
         (finally_do (quietly
           (bind (page_fetch (decompress c [(''path'', JStr targetPath)])) (\<lambda>(ok, b).
              if ok then bind (read_json b) (\<lambda>data. bind (lift_res (get_prop data ''status'')) (\<lambda>st.
                if st = JStr ''password_required'' then set_state (\<lambda>s. s\<lparr>passwordModal := Some targetPath\<rparr>)
                else bind (lift_res (show_prop data ''job_id'')) (\<lambda>x.
                  set_state (\<lambda>s. fetchFiles (currentPath c)
                    (alert (''Extraction job queued successfully! Job ID: '' @ x) s)))))
              else alert_with b ''Extraction failed: '' ''error'' [])))
           stop_loading)))"

text \<open>The callback that the password modal calls; \<open>c\<close> is the render in which the extraction began.\<close>

definition extract_with_password :: "files_state \<Rightarrow> string \<Rightarrow> string \<Rightarrow> unit files_action" where
  "extract_with_password c targetPath pwd = Set start_loading
     (finally_do (quietly
       (bind (page_fetch (decompress c [(''path'', JStr targetPath), (''password'', JStr pwd)])) (\<lambda>(ok, b).
          bind (read_json b) (\<lambda>d. bind (lift_res (if ok then get_prop d ''status'' else Inr JUndef)) (\<lambda>st.
            if ok \<and> st = JStr ''success'' then bind (lift_res (show_prop d ''job_id'')) (\<lambda>x.
              set_state (\<lambda>s. fetchFiles (currentPath c)
                (alert (''Extraction job queued successfully! Job ID: '' @ x) s)))
            else bind (lift_res (get_prop d ''error'')) (\<lambda>e.
              set_state (alert (''Extraction failed: '' @
                js_string (js_or e (JStr ''Wrong password or corrupt archive'')))))))))) 
       stop_loading)"

definition handleExtractBulk :: "unit files_action" where
  "handleExtractBulk = Get (\<lambda>c. let archiveFiles = filter isArchiveFile (selectedItems c) in
     if archiveFiles = [] then Done () else Set start_loading
     (finally_do (quietly
       (andthen (for_each (\<lambda>name. void (page_fetch (decompress c
            [(''path'', JStr (child_path (currentPath c) name))]))) archiveFiles)
         (set_state (\<lambda>s. alert (''Extraction jobs queued for '' @ show_nat (length archiveFiles) @ '' archives!'')
            (fetchFiles (currentPath c) s)))))
       stop_loading))"

definition delete_request :: "files_state \<Rightarrow> string \<Rightarrow> request" where
  "delete_request c name = post_json (token c) ''/api/files/delete''
     (JObj [(''path'', JStr (child_path (currentPath c) name))])"

definition handleDeleteSelected :: "unit files_action" where
  "handleDeleteSelected = Get (\<lambda>c. if selectedItems c = [] then Done () else
     bind (ask_confirm (''Are you absolutely sure you want to permanently delete these '' @
         show_nat (length (selectedItems c)) @ '' items?'')) (\<lambda>yes.
       if \<not> yes then Done () else Set start_loading
       (finally_do (quietly
         (andthen (for_each (\<lambda>name. void (page_fetch (delete_request c name))) (selectedItems c))
           (set_state (fetchFiles (currentPath c)))))
         stop_loading)))"

definition closePreview :: "files_state \<Rightarrow> files_state" where
  "closePreview s = s\<lparr>previewFile := None, previewType := None, editorContent := [], detectedMetadata := None\<rparr>"

definition handleDelete :: "FileItem \<Rightarrow> unit files_action" where
  "handleDelete f = Get (\<lambda>c.
     bind (ask_confirm (''Are you sure you want to permanently delete '' @ quoted (file_name f) @ ''?'')) (\<lambda>yes.
       if \<not> yes then Done () else Set start_loading
       (finally_do (quietly
         (bind (page_fetch (delete_request c (file_name f))) (\<lambda>(ok, b).
            if ok then set_state (\<lambda>s. let s1 = fetchFiles (currentPath c) s in
               if map_option file_name (previewFile c) = Some (file_name f) then closePreview s1 else s1)
            else Done ())))
         stop_loading)))"

definition handleCreateFolder :: "unit files_action" where
  "handleCreateFolder = Get (\<lambda>c. if trim (newFolderName c) = [] then Done ()
     else Set (\<lambda>s. s\<lparr>creatingFolder := True\<rparr>)
       (finally_do (quietly
         (bind (page_fetch (post_json (token c) ''/api/files/create-folder''
             (JObj [(''parent_path'', JStr (currentPath c)), (''folder_name'', JStr (trim (newFolderName c)))])))
           (\<lambda>(ok, b). if ok then set_state (\<lambda>s. fetchFiles (currentPath c)
                (s\<lparr>newFolderName := [], showFolderModal := False\<rparr>)) else Done ())))
         (\<lambda>s. s\<lparr>creatingFolder := False\<rparr>)))"

section \<open>Sending files elsewhere\<close>

definition send_request :: "files_state \<Rightarrow> string \<Rightarrow> request" where
  "send_request c name = post_json (token c) ''/api/telegram/send-file''
     (JObj [(''file_path'', JStr (child_path (currentPath c) name))])"

definition handleSendToTelegram :: "FileItem \<Rightarrow> unit files_action" where
  "handleSendToTelegram f = Get (\<lambda>c. try_catch
     (bind (page_fetch (send_request c (file_name f))) (\<lambda>(ok, b).
        if ok then alert_with b ''Upload job queued in scheduler! Job ID: '' ''job_id'' []
        else alert_with b ''Failed to send to Telegram: '' ''error'' []))
     (\<lambda>e. set_state (alert (''Error sending file to Telegram: '' @ e))))"

definition handleSendToTelegramBulk :: "unit files_action" where
  "handleSendToTelegramBulk = Get (\<lambda>c. if selectedItems c = [] then Done () else Set start_loading
     (finally_do (try_catch
       (andthen (for_each (\<lambda>name. case find_file name (files c) of
             Some f \<Rightarrow> if is_dir f then Done ()
               else bind (page_fetch (send_request c (file_name f))) (\<lambda>(ok, b).
                 if ok then Done ()
                 else bind (read_json b) (\<lambda>d. void (lift_res (show_prop d ''error''))))
           | None \<Rightarrow> Done ()) (selectedItems c))
         (set_state (alert (''Successfully queued '' @ show_nat (length (selectedItems c)) @
            '' send jobs to Telegram!''))))
       (\<lambda>e. set_state (alert (''Error sending files to Telegram: '' @ e))))
       stop_loading))"

definition to_s3 :: "files_state \<Rightarrow> string list \<Rightarrow> request" where
  "to_s3 c names = post_json (token c) ''/api/files/to-s3''
     (JObj [(''paths'', JArr (map (\<lambda>n. JStr (child_path (currentPath c) n)) names))])"

definition handleMoveToS3 :: "FileItem \<Rightarrow> unit files_action" where
  "handleMoveToS3 f = Get (\<lambda>c. try_catch
     (bind (page_fetch (to_s3 c [file_name f])) (\<lambda>(ok, b).
        if ok then andthen (alert_with b ''Move to S3 job queued! Job ID: '' ''job_id'' [])
          (set_state (fetchFiles (currentPath c)))
        else alert_with b ''Failed to move to S3: '' ''error'' []))
     (\<lambda>e. set_state (alert (''Error moving to S3: '' @ e))))"

definition handleMoveToS3Bulk :: "unit files_action" where
  "handleMoveToS3Bulk = Get (\<lambda>c. if selectedItems c = [] then Done () else try_catch
     (bind (page_fetch (to_s3 c (selectedItems c))) (\<lambda>(ok, b).
        if ok then andthen (alert_with b (''Move to S3 job queued for '' @
              show_nat (length (selectedItems c)) @ '' items! Job ID: '') ''job_id'' [])
          (set_state (\<lambda>s. fetchFiles (currentPath c) (s\<lparr>selectedItems := []\<rparr>)))
        else alert_with b ''Failed to move to S3: '' ''error'' []))
     (\<lambda>e. set_state (alert (''Error moving to S3: '' @ e))))"

text \<open>\<open>(data.remotes || []).filter((r) => r.enabled)\<close>.\<close>

definition enabled_remotes :: "jsv \<Rightarrow> jsv list res" where
  "enabled_remotes data = (case get_prop data ''remotes'' of Inl e \<Rightarrow> Inl e
     | Inr v \<Rightarrow> (case as_array ''(data.remotes || [])'' ''filter'' (js_or v (JArr [])) of Inl e \<Rightarrow> Inl e
       | Inr xs \<Rightarrow> filter_res (\<lambda>r. map_sum id truthy (get_prop r ''enabled'')) xs))"

definition openCloudUploadModal :: "unit files_action" where
  "openCloudUploadModal = Get (\<lambda>c. if selectedItems c = [] then Done () else try_catch
     (bind (page_fetch (http_get ''/api/rclone/remotes'' [json_header, auth_header (token c)])) (\<lambda>(ok, b).
        if ok then bind (read_json b) (\<lambda>data. bind (lift_res (enabled_remotes data)) (\<lambda>enabled.
          case enabled of
            [] \<Rightarrow> set_state (alert (''No enabled cloud remotes '' @ em_dash @
                    '' configure one on the Cloud Storage page first.''))
          | r # _ \<Rightarrow> bind (lift_res (show_prop r ''id'')) (\<lambda>i.
              set_state (\<lambda>s. s\<lparr>cloudRemotes := enabled, cloudRemoteId := i, cloudDestDir := [],
                cloudKeepStructure := True, cloudNeedLink := False, showCloudUploadModal := True\<rparr>))))
        else set_state (alert ''Cloud storage is unavailable on this server.'')))
     (\<lambda>e. set_state (alert (''Error loading remotes: '' @ e))))"

text \<open>\<open>JSON.stringify\<close> writes \<open>NaN\<close> as \<open>null\<close>.\<close>

definition json_number :: "int option \<Rightarrow> jsv" where
  "json_number v = (case v of None \<Rightarrow> JNull | Some n \<Rightarrow> JNum (of_int n))"

definition handleCloudUpload :: "unit files_action" where
  "handleCloudUpload = Get (\<lambda>c. if selectedItems c = [] \<or> cloudRemoteId c = [] then Done ()
     else Set (\<lambda>s. s\<lparr>cloudUploading := True\<rparr>)
       (finally_do (try_catch
         (bind (page_fetch (post_json (token c) ''/api/rclone/upload'' (JObj
             [(''paths'', JArr (map (\<lambda>n. JStr (child_path (currentPath c) n)) (selectedItems c))),
              (''remote_id'', json_number (parse_int10 (cloudRemoteId c))), (''dest_dir'', JStr (trim (cloudDestDir c))),
              (''keep_structure'', JBool (cloudKeepStructure c)),
              (''require_public_link'', JBool (cloudNeedLink c))]))) (\<lambda>(ok, b).
            if ok then bind (read_json b) (\<lambda>d. bind (lift_res (show_prop d ''upload_count'')) (\<lambda>n.
              bind (lift_res (show_prop d ''job_id'')) (\<lambda>j. set_state (\<lambda>s. alert (''Cloud upload queued: '' @ n @
                  '' item(s), job #'' @ j @ ''. Track progress on the Cloud Storage page.'')
                (s\<lparr>showCloudUploadModal := False, selectedItems := []\<rparr>)))))
            else alert_with b ''Cloud upload failed: '' ''error'' []))
         (\<lambda>e. set_state (alert (''Error uploading to cloud: '' @ e))))
         (\<lambda>s. s\<lparr>cloudUploading := False\<rparr>)))"

text \<open>The first of the chosen files; the body of the request is a form.\<close>

definition handleUpload :: "jsv list \<Rightarrow> unit files_action" where
  "handleUpload chosen = Get (\<lambda>c. case chosen of [] \<Rightarrow> Done () | f # _ \<Rightarrow>
     Set (\<lambda>s. s\<lparr>uploading := True\<rparr>)
       (finally_do (quietly
         (bind (page_fetch (http_send ''POST'' ''/api/files/upload'' [auth_header (token c)]
             (Some (JObj [(''path'', JStr (currentPath c)), (''file'', f)])))) (\<lambda>(ok, b).
            if ok then set_state (fetchFiles (currentPath c)) else Done ())))
         (\<lambda>s. s\<lparr>uploading := False\<rparr>)))"

section \<open>Preview\<close>

definition stream_url :: "string \<Rightarrow> string \<Rightarrow> string \<Rightarrow> string" where
  "stream_url origin tok path = origin @ ''/api/files/stream?path='' @ encodeURIComponent path @
     ''&token='' @ encodeURIComponent tok"

definition handleShareLink :: "string \<Rightarrow> FileItem \<Rightarrow> files_state \<Rightarrow> files_state" where
  "handleShareLink origin f s = s\<lparr>shareUrl := stream_url origin (token s) (child_path (currentPath s) (file_name f)),
     showShareModal := True\<rparr>"

text \<open>\<open>openPreview\<close> of render \<open>c\<close>. The metadata of a video arrive later (\<open>video_metadata\<close>).\<close>

definition openPreview :: "files_state \<Rightarrow> FileItem \<Rightarrow> unit files_action" where
  "openPreview c f = Set (\<lambda>s. s\<lparr>previewFile := Some f\<rparr>)
     (case getFileCategory (extension f) of
        Image \<Rightarrow> set_state (\<lambda>s. s\<lparr>previewType := Some PreviewImage, imgZoom := 1, imgRotation := 0\<rparr>)
      | Video \<Rightarrow> set_state (\<lambda>s. s\<lparr>previewType := Some PreviewVideo, detectedMetadata := None\<rparr>)
      | Code \<Rightarrow> Set (\<lambda>s. s\<lparr>previewType := Some PreviewEditor,
            editorLang := getMonacoLanguage (extension f), editorLoading := True\<rparr>)
          (finally_do (quietly
            (bind (page_fetch (authed_get (token c) (''/api/files/content?path='' @
                encodeURIComponent (child_path (currentPath c) (file_name f))))) (\<lambda>(ok, b).
               if ok then bind (read_json b) (\<lambda>d. bind (lift_res (get_prop d ''content'')) (\<lambda>x.
                 set_state (\<lambda>s. s\<lparr>editorContent := js_string (js_or x (JStr []))\<rparr>)))
               else Done ())))
            (\<lambda>s. s\<lparr>editorLoading := False\<rparr>))
      | Other \<Rightarrow> set_state (\<lambda>s. s\<lparr>previewType := Some PreviewOther\<rparr>))"

definition video_metadata :: "nat \<times> nat \<times> rat option \<Rightarrow> files_state \<Rightarrow> files_state" where
  "video_metadata m s = s\<lparr>detectedMetadata := Some m\<rparr>"

definition handleItemClick :: "FileItem \<Rightarrow> unit files_action" where
  "handleItemClick f = Get (\<lambda>c. if is_dir f then set_state (navigateTo (file_name f)) else openPreview c f)"

definition handleSaveContent :: "unit files_action" where
  "handleSaveContent = Get (\<lambda>c. case previewFile c of None \<Rightarrow> Done () | Some f \<Rightarrow>
     Set (\<lambda>s. s\<lparr>savingContent := True\<rparr>)
       (finally_do (quietly
         (bind (page_fetch (post_json (token c) ''/api/files/save'' (JObj
             [(''path'', JStr (child_path (currentPath c) (file_name f))), (''content'', JStr (editorContent c))])))
           (\<lambda>(ok, b). if ok then set_state (alert ''File saved successfully!'') else Done ())))
         (\<lambda>s. s\<lparr>savingContent := False\<rparr>)))"

text \<open>A click on a search result, and its timer of 150 milliseconds; \<open>c\<close> is the render of the click.\<close>

definition search_click :: "string \<Rightarrow> files_state \<Rightarrow> files_state" where
  "search_click path s = go (result_parent path) (s\<lparr>showSearchModal := False\<rparr>)"

definition search_timer :: "files_state \<Rightarrow> string \<Rightarrow> FileItem \<Rightarrow> unit files_action" where
  "search_timer c path f =
     (if is_dir f then set_state (go path)
      else Get (\<lambda>s. case turn (openPreview c f) s of (rest, s') \<Rightarrow>
        Set (\<lambda>_. s'\<lparr>selectedItems := [file_name f]\<rparr>) rest))"

section \<open>Sizes\<close>

definition totalSize :: "FileItem list \<Rightarrow> nat" where
  "totalSize fs = foldl (\<lambda>acc f. acc + (if is_dir f then 0 else file_size f)) 0 fs"

definition category_size :: "category \<Rightarrow> FileItem list \<Rightarrow> nat" where
  "category_size k fs =
     foldl (\<lambda>acc f. if getFileCategory (extension f) = k \<and> \<not> is_dir f then acc + file_size f else acc) 0 fs"

text \<open>The sizes per kind add up to the total.\<close>

lemma foldl_sum: "foldl (\<lambda>acc f. if P f then acc + g f else acc) (k::nat) fs = k + sum_list (map g (filter P fs))"
  by (induction fs arbitrary: k) auto

lemma totalSize_sum: "totalSize fs = sum_list (map file_size (filter (\<lambda>f. \<not> is_dir f) fs))"
proof -
  have "foldl (\<lambda>acc f. acc + (if is_dir f then 0 else file_size f)) k fs =
      k + sum_list (map file_size (filter (\<lambda>f. \<not> is_dir f) fs))" for k
    by (induction fs arbitrary: k) auto
  then show ?thesis by (simp add: totalSize_def)
qed

lemma sizes_add_up:
  "totalSize fs = category_size Image fs + category_size Video fs + category_size Code fs + category_size Other fs"
proof -
  have c: "category_size k xs = sum_list (map file_size (filter (\<lambda>f. getFileCategory (extension f) = k \<and> \<not> is_dir f) xs))"
    for k xs by (simp add: category_size_def foldl_sum)
  show ?thesis
    unfolding c totalSize_sum
  proof (induction fs)
    case (Cons f fs)
    then show ?case by (cases "getFileCategory (extension f)") simp_all
  qed simp
qed

section \<open>What the page can do\<close>

inductive_set files_acts :: "unit files_action set" where
  "handlePaste \<in> files_acts"
| "handleRename f \<in> files_acts"
| "handleRenameBulk \<in> files_acts"
| "handleCompress \<in> files_acts"
| "handleCompressQueue \<in> files_acts"
| "handleExtract f \<in> files_acts"
| "extract_with_password c path pwd \<in> files_acts"
| "handleExtractBulk \<in> files_acts"
| "handleDeleteSelected \<in> files_acts"
| "handleDelete f \<in> files_acts"
| "handleCreateFolder \<in> files_acts"
| "handleSendToTelegram f \<in> files_acts"
| "handleSendToTelegramBulk \<in> files_acts"
| "handleMoveToS3 f \<in> files_acts"
| "handleMoveToS3Bulk \<in> files_acts"
| "openCloudUploadModal \<in> files_acts"
| "handleCloudUpload \<in> files_acts"
| "handleUpload chosen \<in> files_acts"
| "handleItemClick f \<in> files_acts"
| "search_timer c path f \<in> files_acts"
| "handleSaveContent \<in> files_acts"

inductive files_ev :: "(string \<Rightarrow> rat option) \<Rightarrow> files_state \<Rightarrow> files_state \<Rightarrow> bool" for ms where
  mount: "files_ev ms s (mounted s)"
| refresh: "files_ev ms s (fetchFiles (currentPath s) s)"
| answer: "i < length (listings s) \<Longrightarrow> files_ev ms s (listed i r s)"
| to: "files_ev ms s (navigateTo name s)"
| up: "files_ev ms s (navigateUp s)"
| crumb: "files_ev ms s (navigateToBreadcrumb index parts s)"
| toggle: "files_ev ms s (toggleSelectItem name s)"
| toggle_all: "files_ev ms s (toggleSelectAll ms s)"
| all_key: "files_ev ms s (ctrl_a ms s)"
| menu: "files_ev ms s (contextMenu_select f s)"
| copy: "files_ev ms s (handleCopy s)"
| cut: "files_ev ms s (handleCut s)"
| copy1: "files_ev ms s (handleCopySingle f s)"
| cut1: "files_ev ms s (handleCutSingle f s)"
| queue: "files_ev ms s (handleAddToCompressQueue f s)"
| queue_selected: "files_ev ms s (handleAddSelectedToCompressQueue s)"
| unqueue: "files_ev ms s (removeFromQueue idx s)"
| clear: "files_ev ms s (clearQueue s)"
| close: "files_ev ms s (closePreview s)"
| video: "files_ev ms s (video_metadata m s)"
| share: "files_ev ms s (handleShareLink origin f s)"
| search: "files_ev ms s (search_click path s)"
| typing: "files_ev ms s (s\<lparr>searchQuery := q, archiveName := a, newFolderName := n, editorContent := e,
     cloudDestDir := d, cloudRemoteId := i, cloudKeepStructure := k, cloudNeedLink := l\<rparr>)"
| sorting: "files_ev ms s (s\<lparr>sortBy := b, sortAsc := asc\<rparr>)"

text \<open>The queue holds no path twice, the folder tree is strictly sorted, and a clipboard without an action
  is empty.\<close>

definition files_inv :: "files_state \<Rightarrow> bool" where
  "files_inv s \<longleftrightarrow> distinct (map snd (compressQueue s)) \<and> sorted_wrt str_less (folderTree s) \<and>
     (clip_action (clipboard s) = None \<longrightarrow> clip_items (clipboard s) = [])"

lemma distinct_set_add [simp]: "distinct ps \<Longrightarrow> distinct (set_add p ps)"
  by (simp add: set_add_def)

lemma set_set_add [simp]: "set (set_add p ps) = insert p (set ps)"
  by (auto simp: set_add_def)

lemma distinct_fold_set_add [simp]: "distinct acc \<Longrightarrow> distinct (fold (\<lambda>x. set_add (g x)) xs acc)"
  by (induction xs arbitrary: acc) auto

lemma set_fold_set_add [simp]: "set (fold (\<lambda>x. set_add (g x)) xs acc) = g ` set xs \<union> set acc"
  by (induction xs arbitrary: acc) auto

lemma str_less_total: "x \<noteq> y \<Longrightarrow> str_less x y \<or> str_less y x"
proof (induction x y rule: str_less.induct)
  case (1 ys)
  then show ?case by (cases ys) auto
next
  case (3 x xs y ys)
  have "of_char x \<noteq> (of_char y :: nat)" if "x \<noteq> y" using that by simp
  then have "of_char x < (of_char y :: nat) \<or> of_char y < (of_char x :: nat)" if "x \<noteq> y" using that by linarith
  with 3 show ?case by (cases "x = y") auto
qed simp

interpretation tree_order: consistent_compare "compare_by str_less True" UNIV
proof -
  have "consistent_compare (\<lambda>a b. compare_by str_less True (id a) (id b)) UNIV"
    by (rule consistent_by_key) (auto dest: str_order)
  then show "consistent_compare (compare_by str_less True) UNIV" by simp
qed

lemma tree_sorted:
  assumes "distinct xs"
  shows "sorted_wrt str_less (js_sort (compare_by str_less True) xs)"
proof -
  let ?s = "js_sort (compare_by str_less True) xs"
  have "sorted_wrt (\<lambda>x y. compare_by str_less True x y \<le> 0) ?s" by (simp add: tree_order.sorted_js_sort)
  moreover have "distinct ?s" using assms by (metis mset_js_sort mset_eq_imp_distinct_iff)
  ultimately have "sorted_wrt (\<lambda>x y. compare_by str_less True x y \<le> 0 \<and> x \<noteq> y) ?s"
    by (simp add: sorted_wrt_iff_nth_less distinct_conv_nth)
  then show ?thesis
    by (rule sorted_wrt_mono_rel [rotated]) (auto simp: compare_by_def dest: str_less_total split: if_splits)
qed

lemma updateFolderTree_sorted: "sorted_wrt str_less (updateFolderTree cur fs prev)"
proof -
  have id: "fold set_add ps [] = fold (\<lambda>x. set_add (id x)) ps []" for ps by simp
  show ?thesis
    unfolding updateFolderTree_def Let_def id by (rule tree_sorted) (simp del: id_apply)
qed

lemma updateFolderTree_set:
  "set (updateFolderTree cur fs prev) = set prev \<union> {''/''} \<union> (if cur = [] then {} else {cur}) \<union>
     (\<lambda>f. child_path cur (file_name f)) ` {f \<in> set fs. is_dir f}"
  using set_fold_set_add [of id prev "[]"] by (auto simp: updateFolderTree_def Let_def)

end
