(* ===== verification/Files_Behaviour.thy ===== *)
theory Files_Behaviour
  imports Files_Page
begin

text \<open>
  What holds of the file manager: the invariant of its queue, folder tree and clipboard under every
  interleaving, navigation, what a paste asks of the server, and what happens when listings of two
  directories are in flight.
\<close>

section \<open>The invariant\<close>

text \<open>Most operations leave the three parts alone.\<close>

lemma other_fields [simp]:
  "compressQueue (start_loading s) = compressQueue s"
  "compressQueue (stop_loading s) = compressQueue s"
  "compressQueue (fetchFiles p s) = compressQueue s"
  "compressQueue (alert m s) = compressQueue s"
  "compressQueue (closePreview s) = compressQueue s"
  "compressQueue (go p s) = compressQueue s"
  "folderTree (start_loading s) = folderTree s"
  "folderTree (stop_loading s) = folderTree s"
  "folderTree (fetchFiles p s) = folderTree s"
  "folderTree (alert m s) = folderTree s"
  "folderTree (closePreview s) = folderTree s"
  "folderTree (go p s) = folderTree s"
  "clipboard (start_loading s) = clipboard s"
  "clipboard (stop_loading s) = clipboard s"
  "clipboard (fetchFiles p s) = clipboard s"
  "clipboard (alert m s) = clipboard s"
  "clipboard (closePreview s) = clipboard s"
  "clipboard (go p s) = clipboard s"
  by (simp_all add: start_loading_def stop_loading_def fetchFiles_def alert_def closePreview_def go_def Let_def)

lemma no_clipboard_empty [simp]: "clip_items no_clipboard = []"
  by (simp add: no_clipboard_def)

lemma wp_alert_with [simp]:
  "wp A I Q E (alert_with b pre k post) s \<longleftrightarrow> I s \<and> (\<forall>s'. I s' \<longrightarrow> (case b of JsonBad e \<Rightarrow> E e s'
     | JsonOk v \<Rightarrow> (case show_prop v k of Inl e \<Rightarrow> E e s' | Inr x \<Rightarrow> Q () (alert (pre @ x @ post) s'))))"
  by (simp add: alert_with_def split: body.splits sum.splits)

lemma wp_ask_name [simp]: "wp fits I Q E (ask_name f) s \<longleftrightarrow>
   I s \<and> (\<forall>a s'. I s' \<longrightarrow> Q (case a of None \<Rightarrow> None
       | Some n \<Rightarrow> if n = [] \<or> trim n = [] \<or> n = file_name f then None else Some n) s')"
  by (simp add: ask_name_def)

lemma keeps_for_each:
  assumes "\<And>x s. I s \<Longrightarrow> wp A I (\<lambda>_. I) (\<lambda>_. I) (f x) s" and "I s" and "\<And>s. I s \<Longrightarrow> Q () s"
    and "\<And>e s. I s \<Longrightarrow> E e s"
  shows "wp A I Q E (for_each f xs) s"
proof (rule wp_for_each [where I = I])
  show "wp A I (\<lambda>_. I) E (f x) s" if "I s" for x s
    using assms(1) [OF that] by (rule wp_mono) (auto intro: assms(4))
qed (use assms in auto)

lemmas files_action_defs = handlePaste_def handleRename_def handleRenameBulk_def handleCompress_def
  handleCompressQueue_def handleExtract_def extract_with_password_def handleExtractBulk_def
  handleDeleteSelected_def handleDelete_def handleCreateFolder_def handleSendToTelegram_def
  handleSendToTelegramBulk_def handleMoveToS3_def handleMoveToS3Bulk_def openCloudUploadModal_def
  handleCloudUpload_def handleUpload_def handleSaveContent_def

lemmas answer_splits = reply.splits body.splits sum.splits option.splits list.splits

lemma openPreview_inv: "files_inv s \<Longrightarrow> keeps fits files_inv (openPreview c f) s"
  by (cases "getFileCategory (extension f)") (auto simp: openPreview_def files_inv_def split: answer_splits)

lemma single_request_inv:
  assumes "files_inv s"
  shows "keeps fits files_inv (handleRename f) s" "keeps fits files_inv handleCompress s"
    "keeps fits files_inv handleCompressQueue s" "keeps fits files_inv (handleDelete f) s"
    "keeps fits files_inv handleCreateFolder s" "keeps fits files_inv (handleSendToTelegram f) s"
    "keeps fits files_inv (handleUpload chosen) s" "keeps fits files_inv handleSaveContent s"
  using assms by (auto simp: files_action_defs files_inv_def Let_def split: answer_splits)

lemma extract_inv:
  assumes "files_inv s"
  shows "keeps fits files_inv (handleExtract f) s" "keeps fits files_inv (extract_with_password c path pwd) s"
  using assms by (auto simp: files_action_defs files_inv_def Let_def split: answer_splits)

lemma cloud_inv:
  assumes "files_inv s"
  shows "keeps fits files_inv (handleMoveToS3 f) s" "keeps fits files_inv handleMoveToS3Bulk s"
    "keeps fits files_inv openCloudUploadModal s" "keeps fits files_inv handleCloudUpload s"
  using assms by (auto simp: files_action_defs files_inv_def split: answer_splits)

lemma bulk_inv:
  assumes "files_inv s"
  shows "keeps fits files_inv handlePaste s" "keeps fits files_inv handleRenameBulk s"
    "keeps fits files_inv handleExtractBulk s" "keeps fits files_inv handleDeleteSelected s"
    "keeps fits files_inv handleSendToTelegramBulk s"
  using assms
  by (auto simp: files_action_defs Let_def intro!: keeps_for_each split: answer_splits)
    (auto simp: files_inv_def)

lemma click_inv: "files_inv s \<Longrightarrow> keeps fits files_inv (handleItemClick f) s"
  by (simp add: handleItemClick_def openPreview_inv) (simp add: files_inv_def navigateTo_def)

lemma turn_keeps_ready: "keeps A I t s \<Longrightarrow> turn t s = (t', s') \<Longrightarrow> I s' \<Longrightarrow> keeps A I t' s'"
  by (induction t arbitrary: s) auto

lemma timer_inv:
  assumes "files_inv s"
  shows "keeps fits files_inv (search_timer c path f) s"
proof -
  obtain rest s' where turn: "turn (openPreview c f) s = (rest, s')" by fastforce
  have keeps: "keeps fits files_inv (openPreview c f) s" using assms by (rule openPreview_inv)
  from turn_keeps [OF keeps turn] have inv: "files_inv s'" and ready: "ready fits files_inv rest" by simp_all
  then have "files_inv (s'\<lparr>selectedItems := [file_name f]\<rparr>)" by (simp add: files_inv_def)
  moreover have "keeps fits files_inv rest (s'\<lparr>selectedItems := [file_name f]\<rparr>)"
    using ready calculation by (cases rest) auto
  ultimately show ?thesis
    using assms turn by (auto simp: search_timer_def) (simp add: files_inv_def)
qed

lemma files_acts_inv: "t \<in> files_acts \<Longrightarrow> files_inv s \<Longrightarrow> keeps fits files_inv t s"
  by (induction rule: files_acts.induct)
    (auto intro: single_request_inv extract_inv cloud_inv bulk_inv click_inv timer_inv)

lemma distinct_snd_snoc: "distinct (map snd q) \<Longrightarrow> x \<notin> snd ` set q \<Longrightarrow> distinct (map snd (q @ [(n, x)]))"
  by simp

lemma queue_fold_distinct:
  "distinct (map snd q) \<Longrightarrow> distinct (map snd (fst (fold (queue_one cur fs) names (q, n))))"
proof (induction names arbitrary: q n)
  case (Cons name names)
  obtain q' n' where q': "queue_one cur fs name (q, n) = (q', n')" by fastforce
  then have "distinct (map snd q')"
    using Cons.prems by (auto simp: queue_one_def Let_def split: option.splits if_splits)
  with Cons.IH q' show ?case by simp
qed simp

lemma files_ev_inv: "files_ev ms s s' \<Longrightarrow> files_inv s \<Longrightarrow> files_inv s'"
proof (induction rule: files_ev.induct)
  case (answer i s r)
  then show ?case
    by (auto simp: files_inv_def listed_def Let_def updateFolderTree_sorted split: option.splits)
next
  case (queue_selected s)
  then show ?case
    using queue_fold_distinct [of "compressQueue s" "currentPath s" "files s" "selectedItems s" 0]
    by (auto simp: files_inv_def handleAddSelectedToCompressQueue_def Let_def split: prod.splits)
next
  case (unqueue s idx)
  then have "distinct (take idx (map snd (compressQueue s)) @ drop (Suc idx) (map snd (compressQueue s)))"
    by (simp add: files_inv_def set_take_disj_set_drop_if_distinct)
  with unqueue show ?case by (simp add: files_inv_def removeFromQueue_def take_map drop_map)
qed (auto simp: files_inv_def mounted_def navigateTo_def navigateUp_def navigateToBreadcrumb_def toggleSelectItem_def
    toggleSelectAll_def ctrl_a_def contextMenu_select_def handleCopy_def handleCut_def take_selection_def
    handleCopySingle_def handleCutSingle_def handleAddToCompressQueue_def clearQueue_def video_metadata_def
    handleShareLink_def search_click_def Let_def)

interpretation files_async: async_store files_acts fits "files_ev ms" "init_files tok" files_inv for ms tok
proof
  show "files_inv (init_files tok)" by (simp add: files_inv_def init_files_def)
  show "keeps fits files_inv t s" if "t \<in> files_acts" "files_inv s" for t s
    using that by (rule files_acts_inv)
  show "files_inv s'" if "files_ev ms s s'" "files_inv s" for s s'
    using that by (rule files_ev_inv)
qed

text \<open>Under every interleaving of its 21 asynchronous handlers, the user's clicks and the server's
  answers, the file manager's compress queue holds no path twice, its folder tree is in strict order
  (so without duplicates), and the clipboard is empty when no copy or cut is pending.\<close>

theorem files_page_invariant:
  assumes "areach files_acts fits (files_ev ms) (init_files tok) s p"
  shows "distinct (map snd (compressQueue s)) \<and> sorted_wrt str_less (folderTree s) \<and>
    (clip_action (clipboard s) = None \<longrightarrow> clip_items (clipboard s) = [])"
  using files_async.reach_inv [OF assms] by (simp add: files_inv_def)

definition sample_dir :: FileItem where
  "sample_dir = \<lparr>file_name = ''docs'', is_dir = True, file_size = 0, mod_time = [], extension = [], s3_key = None\<rparr>"

theorem files_page_invariant_witness:
  "distinct (map snd (compressQueue (handleAddToCompressQueue sample_dir (init_files ''t''))))"
proof -
  have "areach files_acts fits (files_ev (\<lambda>_. None)) (init_files ''t'')
      (handleAddToCompressQueue sample_dir (init_files ''t'')) []"
    by (rule areach.event [where s = "init_files ''t''"]) (rule areach.start, rule files_ev.queue)
  from files_page_invariant [OF this] show ?thesis by blast
qed

section \<open>Paste\<close>

text \<open>A paste asks the server for one copy or move per item of the clipboard, in their order, from the
  directory of the cut or copy to the one shown when the paste began. When every request reaches the
  server the directory is listed again and a cut empties the clipboard; a network error on the way ends
  the paste, and the clipboard keeps its items.\<close>

theorem paste_requests:
  assumes "clip_action (clipboard c) = Some a" and "list_all answered rs" and "length rs = k"
    and "k < length (clip_items (clipboard c))"
    and "rq = (\<lambda>f. Http (post_json (token c) (if a = CopyItems then ''/api/files/copy'' else ''/api/files/move'')
      (move_body (child_path (srcParent (clipboard c)) (file_name f)) (child_path (currentPath c) (file_name f)))))"
    and "answered r"
  shows "run handlePaste (rs @ [Replied (Rejected e)]) c =
      (map rq (take (Suc k) (clip_items (clipboard c))), Returned (), c\<lparr>loading := False\<rparr>, []) \<and>
    (Suc k = length (clip_items (clipboard c)) \<longrightarrow> run handlePaste (rs @ [r]) c =
      (map rq (clip_items (clipboard c)), Returned (),
       (fetchFiles (currentPath c) (c\<lparr>clipboard := (if a = CutItems then no_clipboard else clipboard c)\<rparr>))
         \<lparr>loading := False\<rparr>, []))"
proof (intro conjI impI)
  have rq: "rq = Http \<circ> paste_request c"
    using assms(1,5) by (simp add: fun_eq_iff paste_request_def)
  have c: "clip_items (clipboard c) \<noteq> []" using assms(4) by auto
  show "run handlePaste (rs @ [Replied (Rejected e)]) c =
      (map rq (take (Suc k) (clip_items (clipboard c))), Returned (), c\<lparr>loading := False\<rparr>, [])"
    using run_for_each_fetch_fail [OF assms(3,4,2), of "paste_request c" e "[]" "start_loading c"] assms(1) c
    by (simp add: handlePaste_def quietly_def andthen_def run_finally run_try_catch run_bind rq
        start_loading_def stop_loading_def)
  assume k: "Suc k = length (clip_items (clipboard c))"
  have "run (for_each (\<lambda>x. void (page_fetch (paste_request c x))) (clip_items (clipboard c))) (rs @ [r])
      (start_loading c) = (map (Http \<circ> paste_request c) (clip_items (clipboard c)), Returned (), start_loading c, [])"
    using run_for_each_fetch [of "rs @ [r]" "clip_items (clipboard c)" "paste_request c" "[]" "start_loading c"]
      assms k by simp
  then show "run handlePaste (rs @ [r]) c =
      (map rq (clip_items (clipboard c)), Returned (),
       (fetchFiles (currentPath c) (c\<lparr>clipboard := (if a = CutItems then no_clipboard else clipboard c)\<rparr>))
         \<lparr>loading := False\<rparr>, [])"
    using assms(1) c
    by (cases a) (simp_all add: handlePaste_def quietly_def andthen_def run_finally run_try_catch run_bind rq
        start_loading_def stop_loading_def fetchFiles_def)
qed

definition cut_docs :: files_state where
  "cut_docs = (init_files ''t'')\<lparr>currentPath := ''/b'',
     clipboard := \<lparr>clip_action = Some CutItems, srcParent = ''/a'', clip_items = [sample_dir]\<rparr>\<rparr>"

theorem paste_requests_witness:
  "requests handlePaste [Replied (Response True (JsonOk JNull))] cut_docs =
     [Http (post_json ''t'' ''/api/files/move'' (move_body ''/a/docs'' ''/b/docs''))]"
  using paste_requests [of cut_docs CutItems "[]" 0 _ "Replied (Response True (JsonOk JNull))" "[]", OF _ _ _ _ refl]
  by (simp add: cut_docs_def init_files_def sample_dir_def child_path_def requests_def)

text \<open>The answers are not looked at: a cut whose moves the server refuses empties the clipboard all the
  same.\<close>

lemma refused_cut_is_forgotten:
  "clipboard (final handlePaste [Replied (Response False b)] cut_docs) = no_clipboard"
  by (simp add: handlePaste_def quietly_def andthen_def final_def cut_docs_def start_loading_def stop_loading_def
      page_fetch_def void_def fetchFiles_def)

text \<open>Neither are those of a bulk upload, which announces as many jobs as were selected.\<close>

lemma bulk_send_counts_refusals:
  assumes "selectedItems s = [''x'']" and "files s = [f]" and "file_name f = ''x''" and "\<not> is_dir f"
  shows "alerts (final handleSendToTelegramBulk [Replied (Response False (JsonOk (JObj [])))] s) =
    alerts s @ [''Successfully queued 1 send jobs to Telegram!'']"
  using assms
  by (simp add: handleSendToTelegramBulk_def andthen_def final_def start_loading_def stop_loading_def find_file_def
      send_request_def page_fetch_def void_def alert_def read_json_def lift_res_def show_prop_def show_nat.simps
      digit_char_def)

section \<open>Navigation\<close>

text \<open>Entering a folder and going up again returns to the directory, and the last breadcrumb of a path
  leads to the path itself, at the root and below it.\<close>

theorem navigation_roundtrip:
  assumes "clean_path (currentPath s)" and "name \<noteq> []" and "CHR ''/'' \<notin> set name"
  shows "currentPath (navigateUp (navigateTo name s)) = currentPath s \<and>
    (let t = navigateTo name s; parts = pathParts (currentPath t) in
       parts = pathParts (currentPath s) @ [name] \<and>
       currentPath (navigateToBreadcrumb (length parts - 1) parts t) = currentPath t \<and>
       clean_path (currentPath t))"
proof -
  have go: "currentPath (go p s') = p" for p s' by (simp add: go_def fetchFiles_def Let_def)
  have child: "clean_path (child_path (currentPath s) name)" using assms by (rule clean_path.child)
  have ne: "child_path (currentPath s) name \<noteq> ''/''"
    using assms clean_nonempty [OF assms(1)] by (auto simp: child_path_def append_eq_Cons_conv)
  then show ?thesis
    using assms child clean_nonempty [OF child] breadcrumb_last [OF child ne]
    by (simp add: navigateTo_def navigateUp_def navigateToBreadcrumb_def breadcrumb_path_def go parent_child
        pathParts_child Let_def)
qed

theorem navigation_roundtrip_witness:
  "currentPath (navigateUp (navigateTo ''docs'' (init_files ''t''))) = ''/''"
proof -
  have "currentPath (init_files ''t'') = ''/''" by (simp add: init_files_def)
  then show ?thesis using navigation_roundtrip [of "init_files ''t''" "''docs''"] by (simp add: clean_path.root)
qed

section \<open>Listings in flight\<close>

text \<open>The server answers the oldest request, with the directory that it was asked for.\<close>

definition respond :: "(string \<Rightarrow> FileItem list) \<Rightarrow> files_state \<Rightarrow> files_state" where
  "respond dirs s = listed 0 (Some \<lparr>l_files = Some (dirs (hd (listings s))), l_path = Some (hd (listings s)),
     l_disk = []\<rparr>) s"

lemma respond_two:
  assumes "listings s = [p, q]" and "token s \<noteq> []" and "p \<noteq> []" and "currentPath s = q" and "p \<noteq> q"
  shows "listings (respond dirs s) = [q, p] \<and> token (respond dirs s) = token s \<and>
    currentPath (respond dirs s) = p \<and> loading (respond dirs s)"
  using assms by (simp add: respond_def listed_def or_root_def go_def fetchFiles_def Let_def)

text \<open>C28: Opening a folder while nothing is in flight shows it after one answer. But while the current
  directory is still being listed it starts a race that never ends: each answer takes the page back to
  the other directory and asks for it again, so with a server that answers in order the page goes back
  and forth between the two for ever, with two requests in flight.\<close>

theorem navigation_settles_or_oscillates:
  assumes "token s \<noteq> []" and "currentPath s \<noteq> []" and "name \<noteq> []" and "p = child_path (currentPath s) name"
  shows "(listings s = [] \<longrightarrow> (let t = respond dirs (navigateTo name s) in
       listings t = [] \<and> currentPath t = p \<and> files t = dirs p \<and> \<not> loading t)) \<and>
    (listings s = [currentPath s] \<longrightarrow> (let t = (respond dirs ^^ n) (navigateTo name s) in
       length (listings t) = 2 \<and> loading t \<and> currentPath t = (if even n then p else currentPath s)))"
proof (intro conjI impI)
  have p: "p \<noteq> []" "p \<noteq> currentPath s" using assms(3,4) by (auto simp: child_path_def append_eq_Cons_conv)
  show "let t = respond dirs (navigateTo name s) in
       listings t = [] \<and> currentPath t = p \<and> files t = dirs p \<and> \<not> loading t" if "listings s = []"
    using assms p that by (simp add: navigateTo_def go_def fetchFiles_def respond_def listed_def or_root_def Let_def)
  assume l: "listings s = [currentPath s]"
  let ?cur = "currentPath s"
  let ?race = "\<lambda>a b t. listings t = [a, b] \<and> token t \<noteq> [] \<and> currentPath t = b \<and> loading t"
  have "if even n then ?race ?cur p ((respond dirs ^^ n) (navigateTo name s))
      else ?race p ?cur ((respond dirs ^^ n) (navigateTo name s))"
  proof (induction n)
    case 0
    then show ?case using assms p l by (simp add: navigateTo_def go_def fetchFiles_def Let_def)
  next
    case (Suc n)
    then show ?case
      using respond_two [of "(respond dirs ^^ n) (navigateTo name s)" ?cur p dirs]
        respond_two [of "(respond dirs ^^ n) (navigateTo name s)" p ?cur dirs] p assms(2)
      by (auto split: if_splits)
  qed
  then show "let t = (respond dirs ^^ n) (navigateTo name s) in
       length (listings t) = 2 \<and> loading t \<and> currentPath t = (if even n then p else ?cur)"
    by (auto simp: Let_def split: if_splits)
qed

theorem navigation_settles_or_oscillates_witness:
  "currentPath ((respond (\<lambda>_. []) ^^ 101) (navigateTo ''a'' (mounted (init_files ''t'')))) = ''/''"
  using navigation_settles_or_oscillates [of "mounted (init_files ''t'')" "''a''" _ "\<lambda>_. []" 101, OF _ _ _ refl]
  by (simp add: mounted_def init_files_def fetchFiles_def Let_def del: funpow.simps)

text \<open>The preview that a search result opens after its timer still builds the path from the directory
  that was shown when the result was clicked.\<close>

lemma search_preview_wrong_path:
  assumes "currentPath c = ''/''" and "getFileCategory (extension f) = Code" and "\<not> is_dir f"
    and "file_name f = ''a.txt''"
  shows "requests (search_timer c ''/docs/a.txt'' f) [] (search_click ''/docs/a.txt'' c) =
    [Http (authed_get (token c) (''/api/files/content?path='' @ encodeURIComponent ''/a.txt''))]"
  using assms
  by (simp add: search_timer_def openPreview_def requests_def quietly_def page_fetch_def child_path_def)

end
