(* ===== verification/Files_Media.thy ===== *)
theory Files_Media
  imports Files_Page
begin

text \<open>
  The rest of the file manager (\<open>web/server/src/pages/FilesPage.tsx\<close>): the video player, the lightbox
  over the images of a directory, the global search with its delayed request, bulk downloads. The
  player is the React state beside the state of the \<open>video\<close> element, whose events it follows; media
  times are exact numbers.
\<close>

section \<open>The video player\<close>

record player =
  e_time :: rat
  e_duration :: "rat option"
  e_volume :: rat
  e_muted :: bool
  e_rate :: rat
  e_paused :: bool
  doc_fullscreen :: bool
  isPlaying :: bool
  currentTime :: rat
  duration :: "rat option"
  volume :: rat
  isMuted :: bool
  playbackSpeed :: rat
  isFullscreen :: bool
  showControls :: bool
  isLoading :: bool
  hasError :: bool
  hideTimer :: bool
  closes :: nat

text \<open>After the effect of the first render has muted the element.\<close>

definition init_player :: player where
  "init_player = \<lparr>e_time = 0, e_duration = None, e_volume = 0, e_muted = True, e_rate = 1, e_paused = True,
     doc_fullscreen = False, isPlaying = False, currentTime = 0, duration = Some 0, volume = 0, isMuted = True,
     playbackSpeed = 1, isFullscreen = False, showControls = True, isLoading = True, hasError = False,
     hideTimer = False, closes = 0\<rparr>"

text \<open>The effect on \<open>[src]\<close> when the source changes.\<close>

definition source_effect :: "player \<Rightarrow> player" where
  "source_effect s = s\<lparr>e_muted := True, e_volume := 0\<rparr>"

definition togglePlay :: "player \<Rightarrow> player" where
  "togglePlay s = s\<lparr>e_paused := isPlaying s\<rparr>"

text \<open>\<open>duration || 0\<close> where the duration may be \<open>NaN\<close>.\<close>

definition skip :: "rat \<Rightarrow> player \<Rightarrow> player" where
  "skip seconds s = s\<lparr>e_time := max 0 (min (case e_duration s of None \<Rightarrow> 0 | Some d \<Rightarrow> d) (e_time s + seconds))\<rparr>"

definition formatTime :: "rat option \<Rightarrow> string" where
  "formatTime time = (case time of None \<Rightarrow> ''0:00''
     | Some t \<Rightarrow> (let mins = \<lfloor>t / 60\<rfloor>; secs = \<lfloor>t - 60 * of_int mins\<rfloor> in
         show_int mins @ '':'' @ (if secs < 10 then ''0'' else []) @ show_int secs))"

definition handleProgressChange :: "rat \<Rightarrow> player \<Rightarrow> player" where
  "handleProgressChange t s = s\<lparr>e_time := t, currentTime := t\<rparr>"

definition handleVolumeChange :: "rat \<Rightarrow> player \<Rightarrow> player" where
  "handleVolumeChange v s = s\<lparr>volume := v, e_volume := v, isMuted := (v = 0), e_muted := (v = 0)\<rparr>"

definition toggleMute :: "player \<Rightarrow> player" where
  "toggleMute s = (let nextMute = \<not> isMuted s; s1 = s\<lparr>isMuted := nextMute, e_muted := nextMute\<rparr> in
     if \<not> nextMute \<and> volume s = 0 then s1\<lparr>volume := 1 / 2, e_volume := 1 / 2\<rparr> else s1)"

definition speeds :: "rat list" where
  "speeds = [1 / 2, 1, 5 / 4, 3 / 2, 2]"

text \<open>\<open>indexOf\<close>, \<open>-1\<close> where there is none, so that the next index is 0.\<close>

definition next_index :: "rat \<Rightarrow> nat" where
  "next_index v = (if v \<in> set speeds then length (takeWhile (\<lambda>x. x \<noteq> v) speeds) + 1 else 0) mod length speeds"

definition cycleSpeed :: "player \<Rightarrow> player" where
  "cycleSpeed s = (let nextSpeed = speeds ! next_index (playbackSpeed s) in
     s\<lparr>playbackSpeed := nextSpeed, e_rate := nextSpeed\<rparr>)"

text \<open>Whether the browser grants the request shows in a later event.\<close>

definition toggleFullscreen :: "player \<Rightarrow> player" where
  "toggleFullscreen s = s\<lparr>isFullscreen := \<not> doc_fullscreen s\<rparr>"

definition handleFsChange :: "bool \<Rightarrow> player \<Rightarrow> player" where
  "handleFsChange now s = s\<lparr>doc_fullscreen := now, isFullscreen := now\<rparr>"

definition resetControlsTimeout :: "player \<Rightarrow> player" where
  "resetControlsTimeout s = s\<lparr>showControls := True, hideTimer := isPlaying s\<rparr>"

definition hide_controls :: "player \<Rightarrow> player" where
  "hide_controls s = (if hideTimer s then s\<lparr>showControls := False, hideTimer := False\<rparr> else s)"

definition mouse_leave :: "player \<Rightarrow> player" where
  "mouse_leave s = (if isPlaying s then s\<lparr>showControls := False\<rparr> else s)"

text \<open>\<open>setIsPlaying\<close> with the effect on \<open>[isPlaying]\<close>, whose clean-up clears the timer.\<close>

definition set_playing :: "bool \<Rightarrow> player \<Rightarrow> player" where
  "set_playing b s = (if isPlaying s = b then s else resetControlsTimeout (s\<lparr>isPlaying := b, hideTimer := False\<rparr>))"

definition onPlay :: "player \<Rightarrow> player" where
  "onPlay = set_playing True"

definition onPause :: "player \<Rightarrow> player" where
  "onPause = set_playing False"

definition onTimeUpdate :: "rat \<Rightarrow> player \<Rightarrow> player" where
  "onTimeUpdate t s = s\<lparr>e_time := t, currentTime := t\<rparr>"

definition onDurationChange :: "rat option \<Rightarrow> player \<Rightarrow> player" where
  "onDurationChange d s = s\<lparr>e_duration := d, duration := d\<rparr>"

definition onWaiting :: "player \<Rightarrow> player" where
  "onWaiting s = s\<lparr>isLoading := True\<rparr>"

definition onPlaying :: "player \<Rightarrow> player" where
  "onPlaying s = s\<lparr>isLoading := False\<rparr>"

definition onError :: "player \<Rightarrow> player" where
  "onError s = s\<lparr>isLoading := False, hasError := True\<rparr>"

definition retry :: "player \<Rightarrow> player" where
  "retry s = s\<lparr>hasError := False, isLoading := True\<rparr>"

text \<open>The key, lowered; \<open>typing\<close>: an input has the focus.\<close>

definition handleKeyDown :: "bool \<Rightarrow> string \<Rightarrow> player \<Rightarrow> player" where
  "handleKeyDown typing key s =
     (if typing then s
      else if key = '' '' then togglePlay s
      else if key = ''arrowleft'' then skip (- 10) s
      else if key = ''arrowright'' then skip 10 s
      else if key = ''arrowup'' then
        (let v = min 1 (volume s + 1 / 10) in s\<lparr>volume := v, e_volume := v, e_muted := False, isMuted := False\<rparr>)
      else if key = ''arrowdown'' then
        (let v = max 0 (volume s - 1 / 10); s1 = s\<lparr>volume := v, e_volume := v\<rparr> in
         if v = 0 then s1\<lparr>e_muted := True, isMuted := True\<rparr> else s1)
      else if key = ''f'' then toggleFullscreen s
      else if key = ''m'' then toggleMute s
      else if key = ''escape'' then (if doc_fullscreen s then s else s\<lparr>closes := Suc (closes s)\<rparr>)
      else s)"

text \<open>What can happen to a player whose source stays.\<close>

inductive player_ev :: "player \<Rightarrow> player \<Rightarrow> bool" where
  click: "player_ev s (togglePlay s)"
| progress: "player_ev s (handleProgressChange t s)"
| slide: "0 \<le> v \<Longrightarrow> v \<le> 1 \<Longrightarrow> player_ev s (handleVolumeChange v s)"
| mute: "player_ev s (toggleMute s)"
| speed: "player_ev s (cycleSpeed s)"
| skipped: "player_ev s (skip d s)"
| fullscreen: "player_ev s (toggleFullscreen s)"
| fs_change: "player_ev s (handleFsChange b s)"
| move: "player_ev s (resetControlsTimeout s)"
| leave: "player_ev s (mouse_leave s)"
| hide: "player_ev s (hide_controls s)"
| play: "player_ev s (onPlay s)"
| pause: "player_ev s (onPause s)"
| time: "player_ev s (onTimeUpdate t s)"
| duration_change: "player_ev s (onDurationChange d s)"
| waiting: "player_ev s (onWaiting s)"
| playing: "player_ev s (onPlaying s)"
| failed: "player_ev s (onError s)"
| again: "player_ev s (retry s)"
| key: "player_ev s (handleKeyDown typing k s)"

definition player_inv :: "player \<Rightarrow> bool" where
  "player_inv s \<longleftrightarrow> volume s = e_volume s \<and> isMuted s = e_muted s \<and> 0 \<le> volume s \<and> volume s \<le> 1 \<and>
     (\<not> isMuted s \<longrightarrow> 0 < volume s) \<and> playbackSpeed s = e_rate s \<and> playbackSpeed s \<in> set speeds \<and>
     (\<not> isPlaying s \<longrightarrow> showControls s \<and> \<not> hideTimer s)"

lemma next_index_bound: "next_index v < length speeds"
  by (simp add: next_index_def speeds_def)

lemma keeps_speed: "player_inv s \<Longrightarrow> player_inv (cycleSpeed s)"
proof -
  assume s: "player_inv s"
  have "speeds ! next_index (playbackSpeed s) \<in> set speeds" by (rule nth_mem [OF next_index_bound])
  then show ?thesis using s unfolding player_inv_def cycleSpeed_def Let_def by auto
qed

lemma keeps_volume:
  "player_inv s \<Longrightarrow> player_inv (s\<lparr>volume := min 1 (volume s + 1 / 10), e_volume := min 1 (volume s + 1 / 10),
     e_muted := False, isMuted := False\<rparr>)"
  "player_inv s \<Longrightarrow> 0 < v \<Longrightarrow> v \<le> 1 \<Longrightarrow> player_inv (s\<lparr>volume := v, e_volume := v\<rparr>)"
  "player_inv s \<Longrightarrow> player_inv (s\<lparr>volume := 0, e_volume := 0, e_muted := True, isMuted := True\<rparr>)"
  "player_inv s \<Longrightarrow> 0 \<le> v \<Longrightarrow> v \<le> 1 \<Longrightarrow> player_inv (handleVolumeChange v s)"
  "player_inv s \<Longrightarrow> player_inv (toggleMute s)"
  by (auto simp: player_inv_def handleVolumeChange_def toggleMute_def Let_def min_def)

lemma keeps_others:
  "player_inv s \<Longrightarrow> player_inv (togglePlay s)" "player_inv s \<Longrightarrow> player_inv (skip d s)"
  "player_inv s \<Longrightarrow> player_inv (toggleFullscreen s)" "player_inv s \<Longrightarrow> player_inv (handleFsChange b s)"
  "player_inv s \<Longrightarrow> player_inv (handleProgressChange t s)" "player_inv s \<Longrightarrow> player_inv (onTimeUpdate t s)"
  "player_inv s \<Longrightarrow> player_inv (resetControlsTimeout s)" "player_inv s \<Longrightarrow> player_inv (mouse_leave s)"
  "player_inv s \<Longrightarrow> player_inv (hide_controls s)" "player_inv s \<Longrightarrow> player_inv (onPlay s)"
  "player_inv s \<Longrightarrow> player_inv (onPause s)" "player_inv s \<Longrightarrow> player_inv (onDurationChange e s)"
  "player_inv s \<Longrightarrow> player_inv (onWaiting s)" "player_inv s \<Longrightarrow> player_inv (onPlaying s)"
  "player_inv s \<Longrightarrow> player_inv (onError s)" "player_inv s \<Longrightarrow> player_inv (retry s)"
  "player_inv s \<Longrightarrow> player_inv (s\<lparr>closes := n\<rparr>)"
  by (auto simp: player_inv_def togglePlay_def skip_def toggleFullscreen_def handleFsChange_def handleProgressChange_def
      onTimeUpdate_def resetControlsTimeout_def mouse_leave_def hide_controls_def onPlay_def onPause_def
      set_playing_def onDurationChange_def onWaiting_def onPlaying_def onError_def retry_def)

lemmas player_keeps = keeps_speed keeps_volume keeps_others

lemma keeps_key: "player_inv s \<Longrightarrow> player_inv (handleKeyDown typing k s)"
proof -
  assume s: "player_inv s"
  define v where "v = max 0 (volume s - 1 / 10)"
  have "0 \<le> v" "v \<le> 1" using s by (auto simp: v_def player_inv_def)
  then have "player_inv (if v = 0 then s\<lparr>volume := v, e_volume := v, e_muted := True, isMuted := True\<rparr>
      else s\<lparr>volume := v, e_volume := v\<rparr>)"
    using s by (simp add: player_keeps)
  then show ?thesis
    using s player_keeps unfolding handleKeyDown_def Let_def v_def [symmetric] by simp
qed

lemma player_inv_step: "player_ev s s' \<Longrightarrow> player_inv s \<Longrightarrow> player_inv s'"
  by (induction rule: player_ev.induct) (simp_all add: player_keeps keeps_key)

text \<open>A volume set before the source changes is still shown, but the element is silent.\<close>

lemma new_source_desyncs:
  "volume (source_effect (handleVolumeChange (1 / 2) s)) = 1 / 2 \<and> \<not> isMuted (source_effect (handleVolumeChange (1 / 2) s)) \<and>
   e_muted (source_effect (handleVolumeChange (1 / 2) s))"
  by (simp add: source_effect_def handleVolumeChange_def)

lemma skip_in_range: "e_duration s = Some d \<Longrightarrow> 0 \<le> d \<Longrightarrow> 0 \<le> e_time (skip x s) \<and> e_time (skip x s) \<le> d"
  by (simp add: skip_def)

lemma five_speeds: "playbackSpeed s \<in> set speeds \<Longrightarrow> playbackSpeed ((cycleSpeed ^^ 5) s) = playbackSpeed s"
proof -
  let ?f = "\<lambda>v. speeds ! next_index v"
  have step: "playbackSpeed (cycleSpeed s) = ?f (playbackSpeed s)" for s by (simp add: cycleSpeed_def Let_def)
  have f: "?f (1 / 2) = 1" "?f 1 = 5 / 4" "?f (5 / 4) = 3 / 2" "?f (3 / 2) = 2" "?f 2 = 1 / 2"
    by (simp_all add: speeds_def next_index_def)
  have five: "?f (?f (?f (?f (?f v)))) = v" if "v \<in> set speeds" for v
  proof -
    have "v \<in> {1 / 2, 1, 5 / 4, 3 / 2, 2}" using that by (simp add: speeds_def)
    then show ?thesis by (elim insertE emptyE) (simp_all only: f)
  qed
  assume "playbackSpeed s \<in> set speeds"
  from five [OF this] show ?thesis by (simp add: eval_nat_numeral step)
qed

section \<open>The lightbox\<close>

text \<open>\<open>n\<close> is the number of images, of which there is at least one.\<close>

record lightbox =
  isLightboxOpen :: bool
  lightboxIndex :: nat
  slideshow :: bool

definition imageFiles :: "FileItem list \<Rightarrow> FileItem list" where
  "imageFiles fs = filter (\<lambda>f. getFileCategory (extension f) = Image \<and> \<not> is_dir f) fs"

definition open_lightbox :: "string \<Rightarrow> FileItem list \<Rightarrow> lightbox \<Rightarrow> lightbox" where
  "open_lightbox name images b = (let i = length (takeWhile (\<lambda>f. file_name f \<noteq> name) images) in
     if i < length images then b\<lparr>lightboxIndex := i, isLightboxOpen := True\<rparr> else b)"

definition next_image :: "nat \<Rightarrow> lightbox \<Rightarrow> lightbox" where
  "next_image n b = b\<lparr>lightboxIndex := (lightboxIndex b + 1) mod n\<rparr>"

definition prev_image :: "nat \<Rightarrow> lightbox \<Rightarrow> lightbox" where
  "prev_image n b = b\<lparr>lightboxIndex := nat ((int (lightboxIndex b) - 1 + int n) mod int n)\<rparr>"

definition slideshow_tick :: "nat \<Rightarrow> lightbox \<Rightarrow> lightbox" where
  "slideshow_tick n b = (if slideshow b \<and> isLightboxOpen b \<and> 1 < n then next_image n b else b)"

definition lightbox_key :: "nat \<Rightarrow> string \<Rightarrow> lightbox \<Rightarrow> lightbox" where
  "lightbox_key n key b =
     (if \<not> isLightboxOpen b \<or> n = 0 then b
      else if key = ''ArrowRight'' then (next_image n b)\<lparr>slideshow := False\<rparr>
      else if key = ''ArrowLeft'' then (prev_image n b)\<lparr>slideshow := False\<rparr>
      else if key = ''Escape'' then b\<lparr>isLightboxOpen := False, slideshow := False\<rparr>
      else if key = '' '' then b\<lparr>slideshow := \<not> slideshow b\<rparr> else b)"

text \<open>The address of the picture; the name of a missing one is \<open>undefined\<close>.\<close>

definition lightbox_path :: "string \<Rightarrow> FileItem list \<Rightarrow> lightbox \<Rightarrow> string" where
  "lightbox_path cur images b = child_path cur
     (if lightboxIndex b < length images then file_name (images ! lightboxIndex b) else ''undefined'')"

lemma lightbox_next_prev:
  assumes "lightboxIndex b < n"
  shows "prev_image n (next_image n b) = b \<and> next_image n (prev_image n b) = b"
proof -
  have "nat ((int ((i + 1) mod n) - 1 + int n) mod int n) = i" if "i < n" for i
  proof (cases "i + 1 = n")
    case True
    then have "(i + 1) mod n = 0" by simp
    then show ?thesis using True by (simp flip: True)
  next
    case False
    then have "(i + 1) mod n = i + 1" using that by simp
    then show ?thesis using that by simp
  qed
  moreover have "(nat ((int i - 1 + int n) mod int n) + 1) mod n = i" if "i < n" for i
  proof (cases "i = 0")
    case True
    then have e: "int i - 1 + int n = int n - 1" by simp
    have "(int i - 1 + int n) mod int n = int n - 1"
      unfolding e by (rule mod_pos_pos_trivial) (use that True in simp_all)
    then show ?thesis using True that by (simp add: nat_diff_distrib)
  next
    case False
    then have "(int i - 1 + int n) mod int n = int i - 1" using that by simp
    then show ?thesis using False that by (simp add: nat_diff_distrib)
  qed
  ultimately show ?thesis using assms by (simp add: next_image_def prev_image_def)
qed

text \<open>The index stays when the listing shrinks.\<close>

lemma lightbox_missing_image:
  "lightboxIndex b = 2 \<Longrightarrow> length images = 1 \<Longrightarrow> lightbox_path ''/'' images b = ''/undefined''"
  by (simp add: lightbox_path_def child_path_def)

section \<open>The global search\<close>

record search =
  globalSearchQuery :: string
  globalSearchResults :: "string list"
  globalSearchLoading :: bool
  delayed :: "(string \<times> string) option"
  searching :: "(string \<times> string) list"

text \<open>The effect on the query and the directory: it clears the timer of the last run and sets a new one.\<close>

definition search_effect :: "string \<Rightarrow> search \<Rightarrow> search" where
  "search_effect cur s = (if length (trim (globalSearchQuery s)) \<le> 3
     then s\<lparr>globalSearchResults := [], delayed := None\<rparr>
     else s\<lparr>delayed := Some (cur, trim (globalSearchQuery s))\<rparr>)"

definition type_query :: "string \<Rightarrow> string \<Rightarrow> search \<Rightarrow> search" where
  "type_query cur q s = (if q = globalSearchQuery s then s else search_effect cur (s\<lparr>globalSearchQuery := q\<rparr>))"

definition search_request :: "string \<Rightarrow> string \<times> string \<Rightarrow> request" where
  "search_request tok = (\<lambda>(cur, q). authed_get tok (''/api/files/search?path='' @ encodeURIComponent cur @ ''&q='' @
     encodeURIComponent q))"

definition delay_over :: "search \<Rightarrow> search" where
  "delay_over s = (case delayed s of None \<Rightarrow> s
     | Some x \<Rightarrow> s\<lparr>delayed := None, globalSearchLoading := True, searching := searching s @ [x]\<rparr>)"

text \<open>The answer to request \<open>i\<close>: the paths found, \<open>None\<close> when it failed.\<close>

definition search_reply :: "nat \<Rightarrow> string list option \<Rightarrow> search \<Rightarrow> search" where
  "search_reply i r s = (let s1 = s\<lparr>searching := take i (searching s) @ drop (Suc i) (searching s)\<rparr> in
     case r of None \<Rightarrow> s1\<lparr>globalSearchLoading := False\<rparr>
     | Some xs \<Rightarrow> s1\<lparr>globalSearchResults := xs, globalSearchLoading := False\<rparr>)"

text \<open>Answers are shown in the order of their arrival: one to a query that is no longer there, too.\<close>

lemma late_search_result:
  assumes "searching s = [(cur, q)]"
  shows "globalSearchQuery (search_reply 0 (Some xs) (type_query cur ''ab'' s)) = ''ab'' \<and>
    globalSearchResults (search_reply 0 (Some xs) (type_query cur ''ab'' s)) = xs"
  by (simp add: type_query_def search_effect_def search_reply_def Let_def)

text \<open>The answer to an earlier query also takes down the sign that the later one is being searched.\<close>

lemma search_spinner_lost:
  assumes "searching s = [p, q]"
  shows "searching (search_reply 0 r s) = [q] \<and> \<not> globalSearchLoading (search_reply 0 r s)"
  using assms by (simp add: search_reply_def Let_def split: option.splits)

section \<open>Downloads\<close>

text \<open>The links that a bulk download clicks, each with its delay in milliseconds.\<close>

definition handleDownloadBulk :: "files_state \<Rightarrow> (nat \<times> string) list" where
  "handleDownloadBulk c = map (\<lambda>(i, name). (i * 800, ''/api/files/stream?path='' @
     encodeURIComponent (child_path (currentPath c) name) @ ''&download=true&token='' @ encodeURIComponent (token c)))
     (enumerate 0 (selectedItems c))"

section \<open>Properties\<close>

text \<open>Whatever is clicked, typed, moved or reported by the element, the player shows the element's volume,
  mute state and speed; the volume is between 0 and 1 and not 0 when sound is on; the speed is one of
  the five offered; and while the video stands still the controls are visible and stay so.\<close>

theorem player_shows_element:
  assumes "player_ev\<^sup>*\<^sup>* init_player s"
  shows "volume s = e_volume s \<and> isMuted s = e_muted s \<and> 0 \<le> volume s \<and> volume s \<le> 1 \<and>
    (\<not> isMuted s \<longrightarrow> 0 < volume s) \<and> playbackSpeed s = e_rate s \<and>
    playbackSpeed s \<in> {1 / 2, 1, 5 / 4, 3 / 2, 2} \<and> (\<not> isPlaying s \<longrightarrow> showControls (hide_controls (mouse_leave s)))"
proof -
  have "player_inv init_player" by (simp add: player_inv_def init_player_def speeds_def)
  with assms have "player_inv s" by (rule reach_invariant) (rule player_inv_step)
  then show ?thesis by (auto simp: player_inv_def speeds_def mouse_leave_def hide_controls_def)
qed

theorem player_shows_element_witness:
  "volume (toggleMute (handleKeyDown False ''arrowup'' init_player)) = e_volume (toggleMute (handleKeyDown False ''arrowup'' init_player))"
proof -
  have "player_ev\<^sup>*\<^sup>* init_player (toggleMute (handleKeyDown False ''arrowup'' init_player))"
    by (rule run_steps2) (rule player_ev.key, rule player_ev.mute)
  from player_shows_element [OF this] show ?thesis by blast
qed

end
