(* ===== verification/Proxy_Links.thy ===== *)
theory Proxy_Links
  imports URI Page
begin

text \<open>
  Proxy links in the V2Ray client page (\<open>web/client/src/pages/V2RayClientPage.tsx\<close>): building the
  link of a profile, reading pasted links in chunks of 15000 lines between which the browser may run
  other code, and importing the selected ones in batches of 2500. \<open>vm\<close> is \<open>JSON.parse(atob(x))\<close> of
  the language's library, \<open>None\<close> where it throws.
\<close>

section \<open>The link of a profile\<close>

record profile =
  p_protocol :: string
  p_uuid :: string
  p_address :: string
  p_port :: nat
  p_network :: string
  p_tls_mode :: string
  p_sni :: string
  p_path :: string
  p_name :: string

definition link_params :: "profile \<Rightarrow> string list" where
  "link_params p =
     (if p_network p \<noteq> [] then [''type='' @ p_network p] else []) @
     (if p_tls_mode p \<noteq> [] then [''security='' @ p_tls_mode p] else []) @
     (if p_sni p \<noteq> [] then [''sni='' @ p_sni p] else []) @
     (if p_path p \<noteq> [] then [''path='' @ p_path p] else [])"

definition BuildProxyLink :: "profile \<Rightarrow> string" where
  "BuildProxyLink p =
     (if p_protocol p \<in> {''vless'', ''vmess'', ''trojan'', ''shadowsocks'', ''ss''} then
        (let proto = (if p_protocol p = ''shadowsocks'' then ''ss'' else p_protocol p);
             url = proto @ ''://'' @ p_uuid p @ ''@'' @ p_address p @ '':'' @ show_nat (p_port p);
             url = (if link_params p \<noteq> [] then url @ ''?'' @ join_with ''&'' (link_params p) else url)
         in if p_name p \<noteq> [] then url @ ''#'' @ encodeURIComponent (p_name p) else url)
      else [])"

section \<open>Reading one line\<close>

record parsed_config =
  raw :: string
  protocol :: string
  cfg_name :: jsv
  host :: jsv
  port :: jsv

definition is_alnum :: "char \<Rightarrow> bool" where
  "is_alnum c \<longleftrightarrow> (let n = of_char c :: nat in (65 \<le> n \<and> n \<le> 90) \<or> (97 \<le> n \<and> n \<le> 122) \<or> (48 \<le> n \<and> n \<le> 57))"

text \<open>\<open>.\<close> in a regular expression: not a line terminator, and the two others are of three bytes.\<close>

definition one_line :: "string \<Rightarrow> bool" where
  "one_line s \<longleftrightarrow> CHR 0x0A \<notin> set s \<and> CHR 0x0D \<notin> set s \<and>
     \<not> includes_str s [CHR 0xE2, CHR 0x80, CHR 0xA8] \<and> \<not> includes_str s [CHR 0xE2, CHR 0x80, CHR 0xA9]"

text \<open>\<open>line.match(/^([a-zA-Z0-9]+):\/\/(.*)$/)\<close>.\<close>

definition match_link :: "string \<Rightarrow> (string \<times> string) option" where
  "match_link line =
     (let scheme = takeWhile is_alnum line; after = dropWhile is_alnum line in
      if scheme \<noteq> [] \<and> take 3 after = ''://'' \<and> one_line (drop 3 after)
      then Some (scheme, drop 3 after) else None)"

text \<open>The part before the first \<open>c\<close>, and the part after it if there is one.\<close>

definition cut_at :: "char \<Rightarrow> string \<Rightarrow> string \<times> string option" where
  "cut_at c s = (case dropWhile (\<lambda>x. x \<noteq> c) s of
       [] \<Rightarrow> (s, None) | _ # after \<Rightarrow> (takeWhile (\<lambda>x. x \<noteq> c) s, Some after))"

lemma cut_at_append: "c \<notin> set a \<Longrightarrow> cut_at c (a @ c # b) = (a, Some b)"
proof -
  assume "c \<notin> set a"
  then have "\<forall>x\<in>set a. x \<noteq> c" by blast
  then show ?thesis by (simp add: cut_at_def dropWhile_append2 takeWhile_append2)
qed

lemma cut_at_none: "c \<notin> set a \<Longrightarrow> cut_at c a = (a, None)"
proof -
  assume "c \<notin> set a"
  then have "dropWhile (\<lambda>x. x \<noteq> c) a = []" by (auto simp: dropWhile_eq_Nil_conv)
  then show ?thesis unfolding cut_at_def by (simp del: dropWhile_eq_Nil_conv)
qed

text \<open>Host and port: from the part after \<open>@\<close>, or from the encoded object of a \<open>vmess\<close> link, which may
  have a name too.\<close>

definition server_of :: "(string \<Rightarrow> jsv option) \<Rightarrow> string \<Rightarrow> string \<Rightarrow> jsv \<Rightarrow> jsv \<times> jsv \<times> jsv" where
  "server_of vm proto mainPart name =
     (case snd (cut_at CHR ''@'' mainPart) of
        Some after \<Rightarrow>
          (let parts = split_on CHR '':'' (hd (split_on CHR ''?'' after)) in
           (name, JStr (hd parts),
            js_or (if 1 < length parts then JStr (parts ! 1) else JUndef) (JStr ''443'')))
      | None \<Rightarrow>
          if proto = ''vmess'' then
            (case vm mainPart of
               None \<Rightarrow> (name, JStr [], JStr ''443'')
             | Some obj \<Rightarrow>
                 if nullish obj then (name, JStr [], JStr ''443'')
                 else (js_or (opt_prop obj ''ps'') name, js_or (opt_prop obj ''add'') (JStr []),
                       js_or (opt_prop obj ''port'') (JStr ''443'')))
          else (name, JStr [], JStr ''443''))"

definition parse_line :: "(string \<Rightarrow> jsv option) \<Rightarrow> nat \<Rightarrow> string \<Rightarrow> parsed_config option" where
  "parse_line vm n line =
     (case match_link line of
        None \<Rightarrow> None
      | Some (scheme, rest) \<Rightarrow>
          (let proto = to_lower scheme in
           if proto \<in> {''vmess'', ''vless'', ''trojan'', ''ss'', ''shadowsocks''} then
             (let (mainPart, frag) = cut_at CHR ''#'' rest;
                  name = (case frag of None \<Rightarrow> JStr (''Node '' @ show_nat (n + 1))
                    | Some f \<Rightarrow> JStr (case decodeURIComponent f of None \<Rightarrow> f | Some d \<Rightarrow> d));
                  (name, h, p) = server_of vm proto mainPart name
              in Some \<lparr>raw = line, protocol = proto, cfg_name = name, host = js_or h (JStr ''Dynamic Host''), port = p\<rparr>)
           else None))"

definition parse_next :: "(string \<Rightarrow> jsv option) \<Rightarrow> string \<Rightarrow> parsed_config list \<Rightarrow> parsed_config list" where
  "parse_next vm l parsed = (let line = trim l in
     if line = [] then parsed
     else case parse_line vm (length parsed) line of None \<Rightarrow> parsed | Some c \<Rightarrow> parsed @ [c])"

section \<open>Reading in chunks\<close>

text \<open>\<open>text.split(/\r?\n/)\<close>: the carriage return before a line feed is part of the separator.\<close>

definition drop_cr :: "string \<Rightarrow> string" where
  "drop_cr l = (if l \<noteq> [] \<and> last l = CHR 0x0D then butlast l else l)"

definition split_lines :: "string \<Rightarrow> string list" where
  "split_lines t = (let ls = split_on CHR 0x0A t in map drop_cr (butlast ls) @ [last ls])"

lemma split_lines_join:
  assumes "\<And>l. l \<in> set ls \<Longrightarrow> CHR 0x0A \<notin> set l" and "\<And>l. l \<in> set ls \<Longrightarrow> l = [] \<or> last l \<noteq> CHR 0x0D"
    and "ls \<noteq> []"
  shows "split_lines (join_with [CHR 0x0A] ls) = ls"
proof -
  have "split_on CHR 0x0A (join_with [CHR 0x0A] ls) = ls" using assms(1,3) by (intro split_join) auto
  moreover have "map drop_cr (butlast ls) = butlast ls"
    using assms(2) by (intro map_idI) (auto simp: drop_cr_def dest: in_set_butlastD)
  ultimately show ?thesis using assms(3) by (simp add: split_lines_def Let_def)
qed

text \<open>The closure of \<open>parseNextChunk\<close>, and the page with the closures that wait for their timer.\<close>

record chunk_parser =
  pc_lines :: "string list"
  pc_index :: nat
  pc_parsed :: "parsed_config list"

record paste_page =
  parsedConfigs :: "parsed_config list"
  deselected :: "nat set"
  clipboardCount :: nat
  clipboardPage :: nat
  isParsing :: bool
  parseProgress :: int
  parsers :: "chunk_parser list"

definition chunkSize :: nat where
  "chunkSize = 15000"

definition parseNextChunk :: "(string \<Rightarrow> jsv option) \<Rightarrow> chunk_parser \<Rightarrow> paste_page \<Rightarrow> paste_page" where
  "parseNextChunk vm c s =
     (let total = length (pc_lines c);
          limit = min (pc_index c + chunkSize) total;
          parsed = fold (parse_next vm) (take (limit - pc_index c) (drop (pc_index c) (pc_lines c))) (pc_parsed c);
          s1 = s\<lparr>parseProgress := \<lfloor>(of_nat limit / of_nat total :: rat) * 100 + 1 / 2\<rfloor>\<rparr>
      in if limit < total
         then s1\<lparr>parsers := parsers s1 @ [c\<lparr>pc_index := limit, pc_parsed := parsed\<rparr>]\<rparr>
         else s1\<lparr>parsedConfigs := parsed, clipboardCount := length parsed, clipboardPage := 0, isParsing := False\<rparr>)"

definition processPastedTextChunked :: "(string \<Rightarrow> jsv option) \<Rightarrow> string \<Rightarrow> paste_page \<Rightarrow> paste_page" where
  "processPastedTextChunked vm text s =
     (let s1 = s\<lparr>isParsing := True, parseProgress := 0, parsedConfigs := [], deselected := {}\<rparr> in
      if trim text = [] then s1\<lparr>clipboardCount := 0, clipboardPage := 0, isParsing := False\<rparr>
      else parseNextChunk vm \<lparr>pc_lines = split_lines text, pc_index = 0, pc_parsed = []\<rparr> s1)"

text \<open>The next timer fires, if there is one.\<close>

definition timer :: "(string \<Rightarrow> jsv option) \<Rightarrow> paste_page \<Rightarrow> paste_page" where
  "timer vm s = (case parsers s of [] \<Rightarrow> s | c # cs \<Rightarrow> parseNextChunk vm c (s\<lparr>parsers := cs\<rparr>))"

section \<open>Importing in batches\<close>

record import_page =
  imp_token :: string
  isImportingBulk :: bool
  imp_message :: "(string \<times> string) option"
  isClipboardModalOpen :: bool
  reloads :: nat
  imp_alerts :: "string list"

fun slices :: "nat \<Rightarrow> 'a list \<Rightarrow> 'a list list" where
  "slices k xs = (if k = 0 \<or> xs = [] then [] else take k xs # slices k (drop k xs))"

declare slices.simps [simp del]

definition selected_uris :: "parsed_config list \<Rightarrow> nat set \<Rightarrow> string list" where
  "selected_uris cs des = map (\<lambda>(i, c). raw c) (filter (\<lambda>(i, c). i \<notin> des) (enumerate 0 cs))"

definition batch_request :: "string \<Rightarrow> string list \<Rightarrow> request" where
  "batch_request tok batch = post_json tok ''/api/v2ray/client/configs/import-bulk''
     (JObj [(''uris'', JArr (map JStr batch))])"

text \<open>The loop over the batches, with \<open>importedCount\<close>.\<close>

primrec import_batches :: "string \<Rightarrow> string list list \<Rightarrow> jsv \<Rightarrow> ('s, jsv) page_action" where
  "import_batches tok [] n = Done n"
| "import_batches tok (b # bs) n =
     bind (page_fetch (batch_request tok b)) (\<lambda>(ok, body).
       if ok then bind (read_json body) (\<lambda>data. bind (lift_res (get_prop data ''count'')) (\<lambda>c.
         import_batches tok bs (js_add n (js_or c (JNum 0)))))
       else import_batches tok bs n)"

definition handleImportBulk :: "parsed_config list \<Rightarrow> nat set \<Rightarrow> (import_page, unit) page_action" where
  "handleImportBulk cs des = (let selectedUris = selected_uris cs des in
     if selectedUris = []
     then set_state (\<lambda>s. s\<lparr>imp_alerts := imp_alerts s @ [''Please select at least one configuration to import.'']\<rparr>)
     else Get (\<lambda>c. Set (\<lambda>s. s\<lparr>isImportingBulk := True\<rparr>)
       (finally_do (try_catch
         (bind (import_batches (imp_token c) (slices 2500 selectedUris) (JNum 0)) (\<lambda>n.
            set_state (\<lambda>s. s\<lparr>imp_message := Some (''success'', ''Successfully imported '' @ js_string n @
                '' profiles from clipboard!''), isClipboardModalOpen := False, reloads := reloads s + 1\<rparr>)))
         (\<lambda>e. set_state (\<lambda>s. s\<lparr>imp_message := Some (''error'', ''Bulk import failed: '' @ e)\<rparr>)))
         (\<lambda>s. s\<lparr>isImportingBulk := False\<rparr>))))"

end
