(* ===== verification/Proxy_Behaviour.thy ===== *)
theory Proxy_Behaviour
  imports Proxy_Links
begin

text \<open>
  What the V2Ray client page does with pasted links: the chunked reading ends with the result of
  reading the text at once, the links that the page builds are read back as the profiles they came
  from, and the batches of an import are the selection.
\<close>

section \<open>Reading in chunks\<close>

text \<open>The page while the text with these lines is read and \<open>i\<close> lines are done.\<close>

definition reading :: "(string \<Rightarrow> jsv option) \<Rightarrow> string list \<Rightarrow> nat \<Rightarrow> paste_page \<Rightarrow> bool" where
  "reading vm ls i s \<longleftrightarrow> i < length ls \<and> isParsing s \<and>
     parsers s = [\<lparr>pc_lines = ls, pc_index = i, pc_parsed = fold (parse_next vm) (take i ls) []\<rparr>]"

definition all_read :: "(string \<Rightarrow> jsv option) \<Rightarrow> string list \<Rightarrow> paste_page \<Rightarrow> bool" where
  "all_read vm ls s \<longleftrightarrow> \<not> isParsing s \<and> parsers s = [] \<and> parseProgress s = 100 \<and> clipboardPage s = 0 \<and>
     parsedConfigs s = fold (parse_next vm) ls [] \<and> clipboardCount s = length (parsedConfigs s)"

lemma chunk_step:
  fixes vm :: "string \<Rightarrow> jsv option"
  assumes "i < length ls" and "isParsing s" and "parsers s = []"
  defines "c \<equiv> \<lparr>pc_lines = ls, pc_index = i, pc_parsed = fold (parse_next vm) (take i ls) []\<rparr>"
  shows "if i + chunkSize < length ls then reading vm ls (i + chunkSize) (parseNextChunk vm c s)
     else all_read vm ls (parseNextChunk vm c s)"
proof -
  have part: "fold (parse_next vm) (take n (drop i ls)) (fold (parse_next vm) (take i ls) []) =
      fold (parse_next vm) (take (i + n) ls) []" for n
    by (simp add: take_add)
  show ?thesis
  proof (cases "i + chunkSize < length ls")
    case True
    then show ?thesis using assms by (simp add: parseNextChunk_def reading_def part Let_def)
  next
    case False
    then show ?thesis
      using assms by (auto simp: parseNextChunk_def all_read_def part min_absorb2 floor_eq_iff Let_def)
  qed
qed

lemma timer_reading:
  assumes "reading vm ls i s"
  shows "if i + chunkSize < length ls then reading vm ls (i + chunkSize) (timer vm s)
     else all_read vm ls (timer vm s)"
proof -
  have "timer vm s = parseNextChunk vm \<lparr>pc_lines = ls, pc_index = i,
      pc_parsed = fold (parse_next vm) (take i ls) []\<rparr> (s\<lparr>parsers := []\<rparr>)"
    using assms by (simp add: reading_def timer_def)
  moreover have "i < length ls" "isParsing (s\<lparr>parsers := []\<rparr>)" using assms by (simp_all add: reading_def)
  ultimately show ?thesis using chunk_step [of i ls "s\<lparr>parsers := []\<rparr>" vm] by simp
qed

lemma last_chunk:
  fixes n m :: nat
  assumes "0 < n" and "0 < m"
  shows "n \<le> ((n - 1) div m + 1) * m \<and> (n - 1) div m * m < n"
proof -
  have "(n - 1) div m * m + (n - 1) mod m = n - 1" by (rule div_mult_mod_eq)
  moreover have "(n - 1) mod m < m" using assms(2) by (rule mod_less_divisor)
  moreover have "((n - 1) div m + 1) * m = (n - 1) div m * m + m" by simp
  ultimately show ?thesis using assms(1) by (intro conjI) linarith+
qed

lemma paste_pages:
  fixes vm :: "string \<Rightarrow> jsv option"
  assumes "trim text \<noteq> []" and "parsers s = []"
  defines "ls \<equiv> split_lines text" and "page \<equiv> \<lambda>k. (timer vm ^^ k) (processPastedTextChunked vm text s)"
  shows "if (k + 1) * chunkSize < length ls then reading vm ls ((k + 1) * chunkSize) (page k)
      else k * chunkSize < length ls \<longrightarrow> all_read vm ls (page k)"
proof (induction k)
  case 0
  have "0 < length ls" by (simp add: ls_def split_lines_def Let_def)
  then show ?case
    using chunk_step [of 0 ls "s\<lparr>isParsing := True, parseProgress := 0, parsedConfigs := [], deselected := {}\<rparr>" vm]
      assms by (auto simp: processPastedTextChunked_def)
next
  case (Suc k)
  have "page (Suc k) = timer vm (page k)" by (simp add: page_def)
  then show ?case
    using Suc timer_reading [of vm ls "(k + 1) * chunkSize" "page k"]
    by (auto simp: algebra_simps split: if_splits)
qed

lemma paste_result:
  assumes "trim text \<noteq> []" and "parsers s = []"
  defines "K \<equiv> (length (split_lines text) - 1) div 15000"
  shows "all_read vm (split_lines text) ((timer vm ^^ K) (processPastedTextChunked vm text s)) \<and>
    (\<forall>k<K. isParsing ((timer vm ^^ k) (processPastedTextChunked vm text s)))"
proof -
  let ?ls = "split_lines text"
  have "0 < length ?ls" by (simp add: split_lines_def Let_def)
  from last_chunk [OF this, of chunkSize]
  have K: "length ?ls \<le> (K + 1) * chunkSize" "K * chunkSize < length ?ls"
    by (auto simp: chunkSize_def K_def)
  have "(k + 1) * chunkSize < length ?ls" if "k < K" for k
  proof -
    have "k + 1 \<le> K" using that by simp
    then have "(k + 1) * chunkSize \<le> K * chunkSize" by (rule mult_right_mono) simp
    with K(2) show ?thesis by linarith
  qed
  then have "\<forall>k<K. isParsing ((timer vm ^^ k) (processPastedTextChunked vm text s))"
    using paste_pages [OF assms(1,2), of _ vm] by (metis reading_def)
  with K paste_pages [OF assms(1,2), of K vm] show ?thesis by simp
qed

text \<open>C27: A paste is read to its end, for any text: after one timer for every further 15000 lines
  the page has stopped parsing, shows 100 percent and holds what reading all lines in sequence gives; until
  then it says that it is parsing.\<close>

theorem paste_parse_terminates:
  assumes "trim text \<noteq> []" and "parsers s = []"
    and "page = (\<lambda>k. (timer vm ^^ k) (processPastedTextChunked vm text s))"
    and "K = (length (split_lines text) - 1) div 15000"
  shows "(\<forall>k<K. isParsing (page k)) \<and> \<not> isParsing (page K) \<and> parsers (page K) = [] \<and>
    parseProgress (page K) = 100 \<and> parsedConfigs (page K) = fold (parse_next vm) (split_lines text) [] \<and>
    clipboardCount (page K) = length (parsedConfigs (page K))"
  using paste_result [OF assms(1,2), of vm] assms(3,4) by (simp add: all_read_def)

lemma length_split_lines: "length (split_lines t) = Suc (count_list t CHR 0x0A)"
proof -
  have "length (split_on c xs) = Suc (count_list xs c)" for c xs
    by (induction xs) (auto split: list.splits)
  then show ?thesis by (simp add: split_lines_def Let_def)
qed

definition long_paste :: string where
  "long_paste = ''ss://u@h:1'' @ replicate 15000 CHR 0x0A"

theorem paste_parse_terminates_witness:
  "let s = \<lparr>parsedConfigs = [], deselected = {}, clipboardCount = 0, clipboardPage = 0, isParsing = False,
       parseProgress = 0, parsers = []\<rparr>; page = processPastedTextChunked (\<lambda>_. None) long_paste s in
     isParsing page \<and> \<not> isParsing (timer (\<lambda>_. None) page)"
proof -
  have "\<not> is_space CHR ''s''" by (simp add: is_space_def)
  then have "trim long_paste \<noteq> []" by (auto simp: trim_is_suffix_free long_paste_def)
  moreover have "count_list (replicate n x) x = n" for n and x :: char by (induction n) auto
  then have "(length (split_lines long_paste) - 1) div 15000 = 1"
    by (simp add: length_split_lines long_paste_def)
  ultimately show ?thesis
    using paste_parse_terminates [of long_paste _ _ "\<lambda>_. None", OF _ _ refl refl] by (simp add: Let_def)
qed

section \<open>Links that the page builds\<close>

text \<open>A printable ASCII character, one that is not the mark of the name, and a field of a link.\<close>

definition graphic :: "char \<Rightarrow> bool" where
  "graphic c \<longleftrightarrow> (33 :: nat) \<le> of_char c \<and> (of_char c :: nat) \<le> 126"

definition link_char :: "char \<Rightarrow> bool" where
  "link_char c \<longleftrightarrow> graphic c \<and> c \<noteq> CHR ''#''"

abbreviation link_field :: "string \<Rightarrow> bool" where
  "link_field \<equiv> list_all link_char"

definition proxy_protocols :: "string list" where
  "proxy_protocols = [''vless'', ''vmess'', ''trojan'', ''shadowsocks'', ''ss'']"

definition linkable :: "profile \<Rightarrow> bool" where
  "linkable p \<longleftrightarrow> p_protocol p \<in> set proxy_protocols \<and>
     list_all link_field [p_uuid p, p_address p, p_network p, p_tls_mode p, p_sni p, p_path p] \<and>
     CHR ''@'' \<notin> set (p_uuid p) \<and> p_address p \<noteq> [] \<and> CHR '':'' \<notin> set (p_address p) \<and>
     CHR ''?'' \<notin> set (p_address p) \<and> utf8_string (p_name p)"

definition link_proto :: "profile \<Rightarrow> string" where
  "link_proto p = (if p_protocol p = ''shadowsocks'' then ''ss'' else p_protocol p)"

text \<open>What the page should read back as the entry \<open>i\<close> of its list.\<close>

definition entry_of :: "nat \<Rightarrow> profile \<Rightarrow> parsed_config" where
  "entry_of i p = \<lparr>raw = BuildProxyLink p,
     protocol = link_proto p,
     cfg_name = JStr (if p_name p = [] then ''Node '' @ show_nat (i + 1) else p_name p),
     host = JStr (p_address p), port = JStr (show_nat (p_port p))\<rparr>"

definition main_part :: "profile \<Rightarrow> string" where
  "main_part p = p_uuid p @ CHR ''@'' # p_address p @ CHR '':'' # show_nat (p_port p) @
     (if link_params p = [] then [] else CHR ''?'' # join_with ''&'' (link_params p))"

definition link_rest :: "profile \<Rightarrow> string" where
  "link_rest p = main_part p @ (if p_name p = [] then [] else CHR ''#'' # encodeURIComponent (p_name p))"

lemma BuildProxyLink_parts:
  "linkable p \<Longrightarrow> BuildProxyLink p = link_proto p @ ''://'' @ link_rest p"
  by (auto simp: linkable_def proxy_protocols_def BuildProxyLink_def link_proto_def link_rest_def main_part_def Let_def)

text \<open>The characters of a link.\<close>

lemma link_field_join: "link_field sep \<Longrightarrow> list_all link_field xs \<Longrightarrow> link_field (join_with sep xs)"
  by (induction sep xs rule: join_with.induct) auto

lemma link_field_encode: "link_field (encodeURIComponent s)"
proof -
  have "link_char c" if "c \<in> set (encodeURIComponent s)" for c
    using encode_chars [OF that] by (auto simp: unreserved_def link_char_def graphic_def Let_def)
  then show ?thesis by (simp add: list_all_iff)
qed

lemma link_field_show_nat: "link_field (show_nat n)"
proof -
  have "link_field ''0123456789''" by (simp add: link_char_def graphic_def)
  then show ?thesis using show_nat_chars [of _ n] by (auto simp: list_all_iff is_digit_def)
qed

lemma link_field_main: "linkable p \<Longrightarrow> link_field (main_part p)"
proof -
  assume p: "linkable p"
  have "list_all link_field [''type='', ''security='', ''sni='', ''path='', ''&'', ''@'', '':'', ''?'']"
    by (simp add: link_char_def graphic_def)
  with p have "list_all link_field (link_params p)" by (simp add: linkable_def link_params_def)
  then have "link_field (join_with ''&'' (link_params p))"
    by (intro link_field_join) (simp add: link_char_def graphic_def)
  then show ?thesis
    using p link_field_show_nat [of "p_port p"]
    by (simp add: linkable_def main_part_def) (simp add: link_char_def graphic_def)
qed

lemma graphic_rest: "linkable p \<Longrightarrow> list_all graphic (link_rest p)"
  using link_field_main [of p] link_field_encode [of "p_name p"]
  by (auto simp: link_rest_def link_char_def graphic_def list_all_iff)

lemma includes_str_hd: "includes_str s (c # sub) \<Longrightarrow> c \<in> set s"
  by (induction s) auto

lemma one_line_graphic: "list_all graphic s \<Longrightarrow> one_line s"
proof -
  assume "list_all graphic s"
  then have "c \<in> set s \<Longrightarrow> graphic c" for c by (simp add: list_all_iff)
  then show ?thesis
    by (auto simp: one_line_def dest!: includes_str_hd) (force simp: graphic_def)+
qed

lemma link_proto_cases: "linkable p \<Longrightarrow> link_proto p \<in> set [''vless'', ''vmess'', ''trojan'', ''ss'']"
  by (auto simp: linkable_def link_proto_def proxy_protocols_def)

lemma match_built_link: "linkable p \<Longrightarrow> match_link (BuildProxyLink p) = Some (link_proto p, link_rest p)"
  using link_proto_cases [of p] one_line_graphic [OF graphic_rest, of p]
  by (auto simp: BuildProxyLink_parts match_link_def is_alnum_def)

lemma server_of_built:
  assumes "linkable p"
  shows "server_of vm proto (main_part p) name = (name, JStr (p_address p), JStr (show_nat (p_port p)))"
proof -
  let ?q = "if link_params p = [] then [] else CHR ''?'' # join_with ''&'' (link_params p)"
  have fields: "CHR ''@'' \<notin> set (p_uuid p)" "CHR '':'' \<notin> set (p_address p)" "CHR ''?'' \<notin> set (p_address p)"
    using assms by (simp_all add: linkable_def)
  have digits: "CHR '':'' \<notin> set (show_nat (p_port p))" "CHR ''?'' \<notin> set (show_nat (p_port p))" "show_nat (p_port p) \<noteq> []"
    using show_nat_chars [of _ "p_port p"] show_nat_digits [of "p_port p"] by (auto simp: is_digit_def)
  have "hd (split_on CHR ''?'' ((p_address p @ CHR '':'' # show_nat (p_port p)) @ ?q)) =
      p_address p @ CHR '':'' # show_nat (p_port p)"
    using fields digits by (intro split_on_head) auto
  then show ?thesis
    using fields digits
    by (simp add: server_of_def main_part_def cut_at_append split_on_append split_on_no_sep Let_def)
qed

lemma to_lower_protos: "list_all (\<lambda>x. to_lower x = x) [''vless'', ''vmess'', ''trojan'', ''ss'']"
  by (simp add: to_lower_def to_lower_char_def)

lemma parse_built_link:
  assumes "linkable p"
  shows "parse_line vm n (BuildProxyLink p) = Some (entry_of n p)"
proof -
  have cut: "cut_at CHR ''#'' (link_rest p) =
      (main_part p, if p_name p = [] then None else Some (encodeURIComponent (p_name p)))"
  proof -
    have "CHR ''#'' \<notin> set (main_part p)"
      using link_field_main [OF assms] by (metis list_all_iff link_char_def)
    then show ?thesis by (simp add: link_rest_def cut_at_append cut_at_none)
  qed
  note protos = link_proto_cases [OF assms]
  have lower: "to_lower (link_proto p) = link_proto p"
    using to_lower_protos protos unfolding list_all_iff by (rule bspec)
  have known: "link_proto p \<in> {''vmess'', ''vless'', ''trojan'', ''ss'', ''shadowsocks''}"
    using protos unfolding list.set by blast
  have utf8: "utf8_string (p_name p)" and addr: "truthy (JStr (p_address p))" using assms by (simp_all add: linkable_def)
  show ?thesis
    unfolding parse_line_def match_built_link [OF assms] option.case prod.case Let_def
    using lower known addr
    by (simp only: cut prod.case server_of_built [OF assms] if_True js_or_truthy entry_of_def)
       (simp add: decode_encode [OF utf8])
qed

text \<open>A pasted list of such links, one on each line.\<close>

lemma graphic_no_space: "graphic c \<Longrightarrow> \<not> is_space c"
  by (auto simp: graphic_def is_space_def)

lemma trim_graphic: "list_all graphic s \<Longrightarrow> trim s = s"
proof -
  assume s: "list_all graphic s"
  have "dropWhile is_space xs = xs" if "list_all graphic xs" for xs
    using that by (cases xs) (auto dest: graphic_no_space)
  from this [OF s] this [of "rev s"] s show ?thesis by (simp add: trim_def)
qed

lemma graphic_link: "linkable p \<Longrightarrow> list_all graphic (BuildProxyLink p) \<and> BuildProxyLink p \<noteq> []"
proof -
  assume p: "linkable p"
  then have "list_all graphic (link_proto p @ ''://'')"
    using link_proto_cases [OF p] by (auto simp: graphic_def)
  then show ?thesis using p by (auto simp: BuildProxyLink_parts graphic_rest)
qed

lemma parse_next_built:
  "linkable p \<Longrightarrow> parse_next vm (BuildProxyLink p) parsed = parsed @ [entry_of (length parsed) p]"
  using graphic_link [of p] by (simp add: parse_next_def trim_graphic parse_built_link)

lemma fold_parse_built:
  "list_all linkable ps \<Longrightarrow> fold (parse_next vm) (map BuildProxyLink ps) parsed =
     parsed @ map (\<lambda>(i, p). entry_of i p) (enumerate (length parsed) ps)"
  by (induction ps arbitrary: parsed) (auto simp: parse_next_built)

lemma split_lines_graphic:
  assumes "list_all (list_all graphic) ls" and "ls \<noteq> []"
  shows "split_lines (join_with [CHR 0x0A] ls) = ls"
proof (rule split_lines_join [OF _ _ assms(2)])
  fix l
  assume "l \<in> set ls"
  then have g: "c \<in> set l \<Longrightarrow> \<not> is_space c" for c using assms(1) graphic_no_space by (auto simp: list_all_iff)
  show "CHR 0x0A \<notin> set l" using g [of "CHR 0x0A"] by (auto simp: is_space_def)
  show "l = [] \<or> last l \<noteq> CHR 0x0D" using g [of "CHR 0x0D"] last_in_set [of l] by (fastforce simp: is_space_def)
qed


definition sample_profile :: profile where
  "sample_profile = \<lparr>p_protocol = ''shadowsocks'', p_uuid = ''u'', p_address = ''h.x'', p_port = 80, p_network = ''ws'',
     p_tls_mode = [], p_sni = [], p_path = ''/p?a@b'', p_name = ''Node #1''\<rparr>"


text \<open>The address of an IPv6 profile is cut at its first colon: what follows becomes the port.\<close>

lemma ipv6_profile_misread:
  "map_option (\<lambda>e. (host e, port e))
     (parse_line (\<lambda>_. None) 0 (BuildProxyLink (sample_profile\<lparr>p_address := ''2001:db8::1''\<rparr>))) =
   Some (JStr ''2001'', JStr ''db8'')"
  by code_simp

section \<open>Importing\<close>

lemma slices_Nil [simp]: "slices k [] = []"
  by (simp add: slices.simps)

lemma slices_partition:
  assumes "0 < k"
  shows "concat (slices k xs) = xs \<and> list_all (\<lambda>b. b \<noteq> [] \<and> length b \<le> k) (slices k xs) \<and>
    (\<forall>b\<in>set (butlast (slices k xs)). length b = k)"
  using assms
proof (induction k xs rule: slices.induct)
  case (1 k xs)
  show ?case
  proof (cases "xs = []")
    case False
    then have eq: "slices k xs = take k xs # slices k (drop k xs)" using 1 by (subst slices.simps) simp
    have "length (take k xs) = k" if "slices k (drop k xs) \<noteq> []"
      using that by (cases "length xs \<le> k") auto
    then show ?thesis using 1 False by (auto simp: eq)
  qed simp
qed

text \<open>The reply to one batch: accepted or not, with a count.\<close>

definition count_reply :: "bool \<times> rat \<Rightarrow> answer" where
  "count_reply = (\<lambda>(ok, n). Replied (Response ok (JsonOk (JObj [(''count'', JNum n)]))))"

lemma js_or_num: "js_or (JNum n) (JNum 0) = JNum n"
  by (simp add: js_or_def)

lemma run_import_batches:
  "length bs = length cs \<Longrightarrow> run (import_batches tok bs (JNum n)) (map count_reply cs) s =
     (map (Http \<circ> batch_request tok) bs, Returned (JNum (n + sum_list (map snd (filter fst cs)))), s, [])"
proof (induction bs arbitrary: cs n)
  case (Cons b bs)
  then obtain ok m cs' where cs: "cs = (ok, m) # cs'" "length bs = length cs'" by (cases cs) auto
  then show ?case
    using Cons.IH [OF cs(2)]
    by (simp add: count_reply_def page_fetch_def read_json_def lift_res_def run_bind js_or_num obj_get_def)
qed simp

text \<open>An import sends the selected links in batches of 2500, one request after the other: put together the
  batches are the selection in its order, none is empty and only the last may be short. Whatever the server
  refuses, it ends with the message of success, which adds up the counts of the accepted batches.\<close>

theorem bulk_import_batches:
  assumes "selected_uris cs des \<noteq> []" and "batches = slices 2500 (selected_uris cs des)"
    and "length counts = length batches"
  shows "concat batches = selected_uris cs des \<and> (\<forall>b\<in>set batches. b \<noteq> [] \<and> length b \<le> 2500) \<and>
    (\<forall>b\<in>set (butlast batches). length b = 2500) \<and>
    run (handleImportBulk cs des) (map count_reply counts) s =
      (map (Http \<circ> batch_request (imp_token s)) batches, Returned (),
       s\<lparr>imp_message := Some (''success'', ''Successfully imported '' @
           show_num (sum_list (map snd (filter fst counts))) @ '' profiles from clipboard!''),
         isClipboardModalOpen := False, reloads := reloads s + 1, isImportingBulk := False\<rparr>, [])"
  using assms slices_partition [of 2500 "selected_uris cs des"]
    run_import_batches [of batches counts "imp_token s" 0 "s\<lparr>isImportingBulk := True\<rparr>"]
  by (simp add: handleImportBulk_def list_all_iff run_finally run_try_catch run_bind)

theorem bulk_import_batches_witness:
  "final (handleImportBulk [entry_of 0 sample_profile, entry_of 1 sample_profile] {1})
      [count_reply (False, 5)] \<lparr>imp_token = ''t'', isImportingBulk = False, imp_message = None,
        isClipboardModalOpen = True, reloads = 0, imp_alerts = []\<rparr> =
    \<lparr>imp_token = ''t'', isImportingBulk = False,
     imp_message = Some (''success'', ''Successfully imported 0 profiles from clipboard!''),
     isClipboardModalOpen = False, reloads = 1, imp_alerts = []\<rparr>"
proof -
  have "selected_uris [entry_of 0 sample_profile, entry_of 1 sample_profile] {1} = [BuildProxyLink sample_profile]"
    by (simp add: selected_uris_def entry_of_def)
  moreover have "slices 2500 [x] = [[x]]" for x :: string by (simp add: slices.simps)
  ultimately show ?thesis
    using bulk_import_batches [of _ _ _ "[(False, 5)]", OF _ refl, of "[entry_of 0 sample_profile, entry_of 1 sample_profile]" "{1}"]
    by (simp add: final_def show_num_def show_nat.simps digit_char_def)
qed

text \<open>A paste while an earlier, longer one is being read: the earlier one ends later and replaces it.\<close>

lemma stale_paste_wins:
  assumes "parsers s = [c]" and "length (pc_lines c) \<le> pc_index c + chunkSize" and "trim text \<noteq> []"
    and "length (split_lines text) \<le> chunkSize"
  shows "parsedConfigs (timer vm (processPastedTextChunked vm text s)) =
    fold (parse_next vm) (drop (pc_index c) (pc_lines c)) (pc_parsed c)"
proof -
  have "parsers (processPastedTextChunked vm text s) = [c]"
    using assms by (simp add: processPastedTextChunked_def parseNextChunk_def Let_def min_absorb2)
  then show ?thesis using assms(2) by (simp add: timer_def parseNextChunk_def Let_def min_absorb2)
qed

end
