(* ===== verification/Scanner_Page.thy ===== *)
theory Scanner_Page
  imports Sorting_JS Formats Page Keyed
begin

text \<open>
  The page of the V2Ray scanner (\<open>web/client/src/pages/v2ray-scanner\<close>): the socket that delivers
  candidates, the buffer that a timer empties into the table every 250 milliseconds, the list of
  saved candidates, settings, sources and exports. Frames have any shape; \<open>None\<close> is one that does
  not parse. A request that nobody awaits is an entry of a list in the state, and its answer an event.
  The provider names of a scan are not numerals, which JavaScript would put first in an object.
\<close>

section \<open>State\<close>

record candidate =
  ip :: jsv
  port :: jsv
  protocol :: jsv
  latencyMs :: jsv
  speedMbps :: jsv
  packetLoss :: jsv
  cdnProvider :: jsv
  popLocation :: jsv
  status :: string
  cand_time :: string

definition cand_key :: "candidate \<Rightarrow> string" where
  "cand_key c = js_string (ip c) @ '':'' @ js_string (port c)"

record settings =
  concurrencyLimit :: jsv
  maxRateLimit :: jsv
  networkTimeoutMs :: jsv
  probeAttempts :: jsv
  targetMode :: jsv
  targetSni :: jsv
  websocketHost :: jsv
  websocketPath :: jsv
  requireWs :: jsv
  enableNeighbors :: jsv
  topLimit :: jsv
  totalTargetCount :: jsv

record scanner_state =
  token :: string
  local_store :: storage
  wsConnected :: bool
  ws :: "nat option"
  sockets :: "socket list"
  sent :: "(nat \<times> jsv) list"
  isScanning :: bool
  stats :: "(string \<times> jsv) list"
  candidates :: "candidate list"
  candidatesBuffer :: "(string \<times> candidate) list"
  scannerLogs :: "string list"
  selectedPortsList :: "int list"
  customPorts :: string
  targetCidrs :: string
  selectedCDNs :: "string list"
  config :: settings
  sources :: "jsv list"
  message :: "(string \<times> string) option"
  geo_updates :: "jsv list"
  copied :: "string list"
  saved_requests :: "bool list"
  source_requests :: nat
  config_requests :: nat
  newSourceName :: string
  newSourceUrl :: string
  newSourceType :: string
  showAddSourceInline :: bool
  dragCounter :: int
  isDragging :: bool

definition say :: "string \<Rightarrow> string \<Rightarrow> scanner_state \<Rightarrow> scanner_state" where
  "say kind text s = s\<lparr>message := Some (kind, text)\<rparr>"

text \<open>\<open>token || localStorage.getItem('cc_client_token') || ''\<close>.\<close>

definition activeToken :: "scanner_state \<Rightarrow> string" where
  "activeToken s = (if token s \<noteq> [] then token s else get_item_or (local_store s) ''cc_client_token'' [])"

definition init_scanner :: "string \<Rightarrow> storage \<Rightarrow> scanner_state" where
  "init_scanner tok st = \<lparr>token = tok, local_store = st, wsConnected = False, ws = None, sockets = [], sent = [], isScanning = False,
     stats = map (\<lambda>k. (k, JNum 0)) [''tested'', ''healthy'', ''failed'', ''in_flight'', ''total_targets'', ''remaining_sec''] @
       [(''phase'', JStr [])],
     candidates = [], candidatesBuffer = [], scannerLogs = [],
     selectedPortsList = [443, 2053, 2083, 2087, 2096, 8443], customPorts = [],
     targetCidrs = ''108.162.192.0/18'' @ [CHR 0x0A] @ ''103.21.244.0/22'', selectedCDNs = [],
     config = \<lparr>concurrencyLimit = JNum 100, maxRateLimit = JNum 0, networkTimeoutMs = JNum 3000,
       probeAttempts = JNum 1, targetMode = JStr ''ws'', targetSni = JStr ''speed.cloudflare.com'',
       websocketHost = JStr ''speed.cloudflare.com'', websocketPath = JStr ''/__down'', requireWs = JBool True,
       enableNeighbors = JBool True, topLimit = JNum 20, totalTargetCount = JNum 0\<rparr>,
     sources = [], message = None, geo_updates = [], copied = [], saved_requests = [], source_requests = 0,
     config_requests = 0, newSourceName = [], newSourceUrl = [], newSourceType = ''cidr'',
     showAddSourceInline = False, dragCounter = 0, isDragging = False\<rparr>"

section \<open>The table\<close>

text \<open>\<open>new Map()\<close> filled with \<open>set\<close>: an association list in the order of first insertion.\<close>

definition as_map :: "candidate list \<Rightarrow> (string \<times> candidate) list" where
  "as_map cs = fold (\<lambda>c. AList.update (cand_key c) c) cs []"

definition merge_buffer :: "(string \<times> candidate) list \<Rightarrow> candidate list \<Rightarrow> candidate list" where
  "merge_buffer buffer prev = map snd (fold (\<lambda>(k, c). AList.update k c) buffer (as_map prev))"

text \<open>The interval of 250 milliseconds.\<close>

definition flush :: "scanner_state \<Rightarrow> scanner_state" where
  "flush s = (if candidatesBuffer s = [] then s
     else s\<lparr>candidatesBuffer := [], candidates := merge_buffer (candidatesBuffer s) (candidates s)\<rparr>)"

definition positive :: "jsv \<Rightarrow> bool" where
  "positive v = js_less (JNum 0) v"

definition status_of :: "jsv \<Rightarrow> jsv \<Rightarrow> string" where
  "status_of latency loss =
     (if positive latency then (if loss = JNum 100 then ''failed'' else ''healthy'') else ''failed'')"

definition candidate_of :: "string \<Rightarrow> jsv \<Rightarrow> candidate" where
  "candidate_of now c = (let p = opt_prop c; lat = js_or (p ''latency_ms'') (p ''latencyMs'') in
     \<lparr>ip = p ''ip'', port = p ''port'', protocol = js_or (p ''protocol'') (JStr ''ws''),
      latencyMs = js_or lat (JNum 0),
      speedMbps = js_or (js_or (js_or (p ''download_speed_mbps'') (p ''speed_mbps'')) (p ''speedMbps'')) (JNum 0),
      packetLoss = (if p ''packet_loss'' \<noteq> JUndef then p ''packet_loss'' else JNum 0),
      cdnProvider = js_or (p ''cdn_provider'') (JStr []), popLocation = js_or (p ''pop_location'') (JStr []),
      status = status_of lat (p ''packet_loss''), cand_time = now\<rparr>)"

section \<open>Saved candidates\<close>

definition fetchSavedConfigs :: "bool \<Rightarrow> scanner_state \<Rightarrow> scanner_state" where
  "fetchSavedConfigs merge s = s\<lparr>saved_requests := saved_requests s @ [merge]\<rparr>"

definition saved_of :: "jsv \<Rightarrow> candidate" where
  "saved_of item = (let p = opt_prop item in
     \<lparr>ip = p ''address'', port = p ''port'', protocol = js_or (p ''network'') (JStr ''tcp''),
      latencyMs = js_or (js_or (p ''latency_ms'') (p ''latency'')) (JNum 0),
      speedMbps = js_or (js_or (js_or (p ''download_speed_mbps'') (p ''speed_mbps'')) (p ''speed'')) (JNum 0),
      packetLoss = js_or (p ''packet_loss'') (JNum 0),
      cdnProvider = js_or (p ''cdn_provider'') (JStr []), popLocation = js_or (p ''pop_location'') (JStr []),
      status = status_of (p ''latency_ms'') (p ''packet_loss''), cand_time = ''Saved''\<rparr>)"

definition discovered :: "jsv \<Rightarrow> bool res" where
  "discovered item = (case get_prop item ''name'' of Inl e \<Rightarrow> Inl e
     | Inr n \<Rightarrow> if \<not> truthy n then Inr False
         else (case n of JStr t \<Rightarrow> Inr (is_prefix_of ''Discovered-'' t)
               | _ \<Rightarrow> Inl ''item.name.startsWith is not a function''))"

definition saved_list :: "jsv \<Rightarrow> candidate list res" where
  "saved_list reply = (case get_prop reply ''data'' of Inl e \<Rightarrow> Inl e
     | Inr d \<Rightarrow> (case as_array ''(list.data || list)'' ''filter'' (js_or d reply) of Inl e \<Rightarrow> Inl e
       | Inr items \<Rightarrow> map_sum id (map saved_of) (filter_res discovered items)))"

text \<open>\<open>{...existing, ...dbCand, time: 'Saved'}\<close>: both have the same ten properties.\<close>

definition overwrite :: "candidate \<Rightarrow> candidate \<Rightarrow> candidate" where
  "overwrite existing c = c\<lparr>cand_time := ''Saved''\<rparr>"

definition merge_saved :: "candidate list \<Rightarrow> candidate list \<Rightarrow> candidate list" where
  "merge_saved parsed prev = map snd (fold (\<lambda>c m. case map_of m (cand_key c) of
       Some e \<Rightarrow> AList.update (cand_key c) (overwrite e c) m
     | None \<Rightarrow> AList.update (cand_key c) c m) parsed (as_map prev))"

text \<open>The answer to request \<open>i\<close>: the body of a successful one, \<open>None\<close> otherwise.\<close>

definition saved_reply :: "nat \<Rightarrow> jsv option \<Rightarrow> scanner_state \<Rightarrow> scanner_state" where
  "saved_reply i r s =
     (let s1 = s\<lparr>saved_requests := take i (saved_requests s) @ drop (Suc i) (saved_requests s)\<rparr> in
      case r of None \<Rightarrow> s1
      | Some reply \<Rightarrow> (case saved_list reply of Inl e \<Rightarrow> s1
        | Inr parsed \<Rightarrow> s1\<lparr>candidates := (if saved_requests s ! i then merge_saved parsed (candidates s1) else parsed)\<rparr>))"

section \<open>The socket\<close>

definition connect :: "string \<Rightarrow> string \<Rightarrow> scanner_state \<Rightarrow> scanner_state" where
  "connect proto h s = (let url = ws_url proto h ''/ws'' (activeToken s) in
     s\<lparr>ws := Some (length (sockets s)), sockets := sockets s @ [new_socket url]\<rparr>)"

text \<open>The clean-up of the effect, for the socket of its closure.\<close>

definition disconnect :: "nat \<Rightarrow> scanner_state \<Rightarrow> scanner_state" where
  "disconnect i s = s\<lparr>sockets := close_socket i (sockets s)\<rparr>"

text \<open>\<open>socket.send\<close> on an open socket; a closed one drops the message.\<close>

definition send :: "nat \<Rightarrow> jsv \<Rightarrow> scanner_state \<Rightarrow> scanner_state" where
  "send i v s = (if ready_of (sockets s) i = OPEN then s\<lparr>sent := sent s @ [(i, v)]\<rparr> else s)"

definition onopen :: "nat \<Rightarrow> scanner_state \<Rightarrow> scanner_state" where
  "onopen i s = send i (JObj [(''type'', JStr ''scanner:telemetry''), (''data'', JObj [])]) (s\<lparr>wsConnected := True\<rparr>)"

definition onclose :: "scanner_state \<Rightarrow> scanner_state" where
  "onclose s = s\<lparr>wsConnected := False, isScanning := False\<rparr>"

definition read_stats :: "jsv \<Rightarrow> jsv \<Rightarrow> scanner_state \<Rightarrow> scanner_state" where
  "read_stats st event s = (let p = opt_prop st in
     s\<lparr>stats := map (\<lambda>k. (k, js_or (p k) (JNum 0)))
          [''tested'', ''healthy'', ''failed'', ''in_flight'', ''total_targets'', ''remaining_sec''] @
          [(''phase'', js_or (p ''phase'') (JStr []))],
       isScanning := (positive (js_or (p ''in_flight'') (JNum 0)) \<or> event = JStr ''scanner.progress'' \<or>
          (truthy (p ''phase'') \<and> event \<noteq> JStr ''scanner.finished''))\<rparr>)"

definition onmessage :: "string \<Rightarrow> jsv option \<Rightarrow> scanner_state \<Rightarrow> scanner_state" where
  "onmessage now frame s = (case frame of None \<Rightarrow> s | Some msg \<Rightarrow>
     if nullish msg then s else
     let p = opt_prop msg; data = p ''data''; event = p ''event'';
         s1 = (if p ''type'' = JStr ''GEO_RESOLVED'' \<and> truthy data then s\<lparr>geo_updates := geo_updates s @ [data]\<rparr> else s)
     in if p ''type'' \<noteq> JStr ''scanner:telemetry'' then s1 else
       let s2 = (if truthy (p ''stats'') then read_stats (p ''stats'') event s1 else s1);
           s3 = (if event = JStr ''scanner.log'' \<and> truthy data
             then s2\<lparr>scannerLogs := scannerLogs s2 @ [js_string data]\<rparr> else s2);
           s4 = (if event = JStr ''scanner.error'' \<and> truthy data
             then (say ''error'' (js_string data) s3)\<lparr>scannerLogs := scannerLogs s3 @ [''[ERROR] '' @ js_string data]\<rparr>
             else s3);
           s5 = (if event = JStr ''scanner.candidate'' \<and> truthy data
             then s4\<lparr>candidatesBuffer := AList.update
               (js_string (opt_prop data ''ip'') @ '':'' @ js_string (opt_prop data ''port''))
               (candidate_of now data) (candidatesBuffer s4)\<rparr> else s4)
       in if event = JStr ''scanner.finished''
          then fetchSavedConfigs True (say ''success'' ''Scanning operations completed.'' (s5\<lparr>isScanning := False\<rparr>))
          else s5)"

section \<open>Ports and targets\<close>

definition commonPorts :: "int list" where
  "commonPorts = [443, 2053, 2083, 2087, 2096, 8443, 80, 2052, 2082, 2086, 2095, 8080]"

definition handleTogglePort :: "int \<Rightarrow> scanner_state \<Rightarrow> scanner_state" where
  "handleTogglePort p s = s\<lparr>selectedPortsList :=
     (if p \<in> set (selectedPortsList s) then filter (\<lambda>q. q \<noteq> p) (selectedPortsList s)
      else selectedPortsList s @ [p])\<rparr>"

definition handleSelectAllPorts :: "scanner_state \<Rightarrow> scanner_state" where
  "handleSelectAllPorts s =
     s\<lparr>selectedPortsList := [443, 2053, 2083, 2087, 2096, 8443, 80, 2052, 2082, 2086, 2095, 8080]\<rparr>"

definition handleClearPorts :: "scanner_state \<Rightarrow> scanner_state" where
  "handleClearPorts s = s\<lparr>selectedPortsList := []\<rparr>"

text \<open>\<open>Array.from(new Set(xs))\<close>.\<close>

definition unique :: "'a list \<Rightarrow> 'a list" where
  "unique xs = fold (\<lambda>x acc. if x \<in> set acc then acc else acc @ [x]) xs []"

definition getSelectedPorts :: "scanner_state \<Rightarrow> int list" where
  "getSelectedPorts s =
     unique (selectedPortsList s @ List.map_filter (\<lambda>p. parse_int (trim p)) (split_on CHR '','' (customPorts s)))"

definition handleDragEnter :: "bool \<Rightarrow> scanner_state \<Rightarrow> scanner_state" where
  "handleDragEnter has_items s = (let s1 = s\<lparr>dragCounter := dragCounter s + 1\<rparr> in
     if has_items then s1\<lparr>isDragging := True\<rparr> else s1)"

definition handleDragLeave :: "scanner_state \<Rightarrow> scanner_state" where
  "handleDragLeave s = (let s1 = s\<lparr>dragCounter := dragCounter s - 1\<rparr> in
     if dragCounter s1 = 0 then s1\<lparr>isDragging := False\<rparr> else s1)"

definition handleDrop :: "scanner_state \<Rightarrow> scanner_state" where
  "handleDrop s = s\<lparr>isDragging := False, dragCounter := 0\<rparr>"

text \<open>The file of a drop has been read.\<close>

definition dropped_file :: "string \<Rightarrow> string \<Rightarrow> scanner_state \<Rightarrow> scanner_state" where
  "dropped_file name text s = (if text = [] then s else
     let lines = filter (\<lambda>l. l \<noteq> [] \<and> \<not> is_prefix_of ''#'' l) (map trim (split_on CHR 0x0A text)) in
     say ''success'' (''Imported '' @ show_nat (length lines) @ '' network targets from '' @ name)
       (s\<lparr>targetCidrs := join_with [CHR 0x0A] lines\<rparr>))"

section \<open>Scanning\<close>

definition scan_payload :: "bool \<Rightarrow> bool \<Rightarrow> scanner_state \<Rightarrow> jsv" where
  "scan_payload retry discoveredOnly s =
     (let c = config s; cidrs = filter (\<lambda>x. x \<noteq> []) (map trim (split_on CHR 0x0A (targetCidrs s))) in
      JObj [(''type'', JStr ''scanner:start''), (''data'', JObj [
        (''target_cidrs'', JArr (map JStr cidrs)), (''target_cdns'', JArr (map JStr (selectedCDNs s))),
        (''selected_ports'', JArr (map (\<lambda>p. JNum (of_int p)) (getSelectedPorts s))),
        (''concurrency_limit'', to_number (concurrencyLimit c)), (''max_rate_limit'', to_number (maxRateLimit c)),
        (''network_timeout_ms'', to_number (networkTimeoutMs c)), (''probe_attempts'', to_number (probeAttempts c)),
        (''target_mode'', targetMode c), (''target_sni'', targetSni c), (''websocket_host'', websocketHost c),
        (''websocket_path'', websocketPath c), (''require_ws'', requireWs c),
        (''enable_neighbors'', enableNeighbors c), (''top_limit'', to_number (topLimit c)),
        (''total_target_count'', to_number (totalTargetCount c)), (''retry'', JBool retry),
        (''scan_discovered_only'', JBool discoveredOnly)])])"

definition handleStartScan :: "bool \<Rightarrow> bool \<Rightarrow> scanner_state \<Rightarrow> scanner_state" where
  "handleStartScan retry discoveredOnly s = (case ws s of
       Some i \<Rightarrow> if wsConnected s then
           (let msg = (if retry then ''Retrying last configuration scan sweep...''
                  else if discoveredOnly then ''Rerunning scan on saved healthy discovered list...''
                  else ''Launching network scan sweep...'')
            in send i (scan_payload retry discoveredOnly s)
                 ((say ''info'' msg s)\<lparr>isScanning := True, candidates := [], scannerLogs := []\<rparr>))
         else say ''error'' ''WebSocket connection not ready!'' s
     | None \<Rightarrow> say ''error'' ''WebSocket connection not ready!'' s)"

text \<open>On a socket that is still connecting \<open>send\<close> throws, and nothing else happens.\<close>

definition handleStopScan :: "scanner_state \<Rightarrow> scanner_state" where
  "handleStopScan s = (case ws s of None \<Rightarrow> s
     | Some i \<Rightarrow> if ready_of (sockets s) i = CONNECTING then s
         else say ''info'' ''Scan canceled by user.''
           ((send i (JObj [(''type'', JStr ''scanner:stop''), (''data'', JObj [])]) s)\<lparr>isScanning := False\<rparr>))"

section \<open>Settings\<close>

definition fetchScannerConfig :: "scanner_state \<Rightarrow> scanner_state" where
  "fetchScannerConfig s = s\<lparr>config_requests := Suc (config_requests s)\<rparr>"

text \<open>The settings of the server: the lists, where it sends them, and the object with the rest.\<close>

record config_reply =
  c_ports :: "int list option"
  c_cidrs :: "string list option"
  c_cdns :: "string list option"
  c_rest :: jsv

definition load_ports :: "int list \<Rightarrow> scanner_state \<Rightarrow> scanner_state" where
  "load_ports ports s =
     s\<lparr>selectedPortsList := filter (\<lambda>p. p \<in> set ports) commonPorts,
       customPorts := join_with '', '' (map show_int (filter (\<lambda>p. p \<notin> set commonPorts) ports))\<rparr>"

definition times1000 :: "jsv \<Rightarrow> jsv" where
  "times1000 v = (case to_number v of JNum n \<Rightarrow> JNum (n * 1000) | _ \<Rightarrow> JNaN)"

definition load_settings :: "jsv \<Rightarrow> settings \<Rightarrow> settings" where
  "load_settings d c = \<lparr>
     concurrencyLimit = if_truthy d ''concurrency_limit'' (concurrencyLimit c),
     maxRateLimit = if_defined d ''max_rate_limit'' (maxRateLimit c),
     networkTimeoutMs = (if truthy (opt_prop d ''network_timeout_sec'')
        then times1000 (opt_prop d ''network_timeout_sec'') else networkTimeoutMs c),
     probeAttempts = if_truthy d ''probe_attempts'' (probeAttempts c),
     targetMode = if_truthy d ''target_mode'' (targetMode c),
     targetSni = if_truthy d ''target_sni'' (targetSni c),
     websocketHost = if_truthy d ''websocket_host'' (websocketHost c),
     websocketPath = if_truthy d ''websocket_path'' (websocketPath c),
     requireWs = if_defined d ''require_ws'' (requireWs c),
     enableNeighbors = if_defined d ''enable_neighbors'' (enableNeighbors c),
     topLimit = if_truthy d ''top_limit'' (topLimit c),
     totalTargetCount = if_defined d ''total_target_count'' (totalTargetCount c)\<rparr>"

definition config_loaded :: "config_reply option \<Rightarrow> scanner_state \<Rightarrow> scanner_state" where
  "config_loaded r s = (let s0 = s\<lparr>config_requests := config_requests s - 1\<rparr> in case r of None \<Rightarrow> s0 | Some d \<Rightarrow>
     let s1 = (case c_ports d of None \<Rightarrow> s0 | Some ports \<Rightarrow> load_ports ports s0);
         s2 = (case c_cidrs d of None \<Rightarrow> s1 | Some cs \<Rightarrow> s1\<lparr>targetCidrs := join_with [CHR 0x0A] cs\<rparr>);
         s3 = (case c_cdns d of None \<Rightarrow> s2 | Some cs \<Rightarrow> s2\<lparr>selectedCDNs := cs\<rparr>)
     in s3\<lparr>config := load_settings (c_rest d) (config s3)\<rparr>)"

text \<open>The link to scan with. \<open>url\<close> is the browser's \<open>URL\<close> with its search parameters; \<open>Inl\<close> is the
  message of its TypeError.\<close>

record url_parts =
  u_protocol :: string
  u_hostname :: string
  u_port :: string
  u_params :: "string \<rightharpoonup> string"

definition str_or :: "string option \<Rightarrow> string \<Rightarrow> string" where
  "str_or v other = (case v of None \<Rightarrow> other | Some x \<Rightarrow> if x = [] then other else x)"

definition handleParseLink :: "(string \<Rightarrow> url_parts res) \<Rightarrow> string \<Rightarrow> scanner_state \<Rightarrow> scanner_state" where
  "handleParseLink url rawConfigLink s =
     (if trim rawConfigLink = [] then say ''error'' ''Connection link is empty!'' s
      else case url (trim rawConfigLink) of
        Inl e \<Rightarrow> say ''error'' (''Failed parsing configuration link: '' @ e) s
      | Inr u \<Rightarrow>
          (let proto = remove1 CHR '':'' (u_protocol u); h = u_hostname u; get = u_params u;
               p = js_or (str_number (u_port u)) (JNum (if proto = ''trojan'' then 443 else 80));
               is_ws = (get ''type'' = Some ''ws'')
           in if proto \<noteq> ''vless'' \<and> proto \<noteq> ''trojan''
              then say ''error'' (''Unsupported protocol scheme: '' @ proto) s
              else say ''success'' (''Parsed outbound configuration link: '' @ to_upper proto @ ''://'' @ h @ '':'' @
                  js_string p)
                (s\<lparr>config := (config s)\<lparr>targetSni := JStr (str_or (get ''sni'') h),
                    websocketHost := JStr (str_or (get ''host'') h), websocketPath := JStr (str_or (get ''path'') ''/''),
                    requireWs := JBool is_ws,
                    targetMode := JStr (if is_ws then ''ws''
                      else if get ''security'' = Some ''tls'' then ''tls'' else ''http'')\<rparr>\<rparr>)))"

section \<open>Requests that are awaited\<close>

type_synonym scanner_action = "(scanner_state, unit) page_action"

definition fetchSources :: "scanner_state \<Rightarrow> scanner_state" where
  "fetchSources s = s\<lparr>source_requests := Suc (source_requests s)\<rparr>"

definition sources_reply :: "jsv list option \<Rightarrow> scanner_state \<Rightarrow> scanner_state" where
  "sources_reply r s = (let s1 = s\<lparr>source_requests := source_requests s - 1\<rparr> in
     case r of None \<Rightarrow> s1 | Some xs \<Rightarrow> s1\<lparr>sources := xs\<rparr>)"

definition source_url :: "jsv \<Rightarrow> string" where
  "source_url i = ''/api/v2ray/scanner/sources/'' @ js_string i"

definition put_source :: "string \<Rightarrow> jsv \<Rightarrow> bool \<Rightarrow> request" where
  "put_source tok src enabled = http_send ''PUT'' (source_url (opt_prop src ''id'')) [json_header, auth_header tok]
     (Some (obj_put ''is_enabled'' (JBool enabled) src))"

definition handleToggleSource :: "jsv \<Rightarrow> scanner_action" where
  "handleToggleSource src = Get (\<lambda>c. quietly
     (bind (page_fetch (put_source (activeToken c) src (\<not> truthy (opt_prop src ''is_enabled'')))) (\<lambda>(ok, b).
        if ok then set_state fetchSources else Done ())))"

definition handleAddSource :: "string \<Rightarrow> string \<Rightarrow> string \<Rightarrow> scanner_action" where
  "handleAddSource name url kind = Get (\<lambda>c. quietly
     (bind (page_fetch (post_json (activeToken c) ''/api/v2ray/scanner/sources'' (JObj [(''name'', JStr name),
         (''url'', JStr url), (''type'', JStr kind), (''is_enabled'', JBool True)]))) (\<lambda>(ok, b).
        if ok then set_state (\<lambda>s. say ''success'' (''Added new source: '' @ name) (fetchSources s)) else Done ())))"

definition handleAddSourceSubmit :: scanner_action where
  "handleAddSourceSubmit = Get (\<lambda>c. if newSourceName c = [] \<or> newSourceUrl c = [] then Done ()
     else case turn (handleAddSource (newSourceName c) (newSourceUrl c) (newSourceType c)) c of (rest, s) \<Rightarrow>
       Set (\<lambda>_. s\<lparr>newSourceName := [], newSourceUrl := [], showAddSourceInline := False\<rparr>) rest)"

definition handleDeleteSource :: "int \<Rightarrow> scanner_action" where
  "handleDeleteSource i = Get (\<lambda>c. bind (ask_confirm ''Are you sure you want to delete this source?'') (\<lambda>yes.
     if \<not> yes then Done () else quietly
       (bind (page_fetch (http_send ''DELETE'' (source_url (JNum (of_int i))) [auth_header (activeToken c)] None)) (\<lambda>(ok, b).
          if ok then set_state (\<lambda>s. say ''success'' ''Source deleted.'' (fetchSources s)) else Done ()))))"

definition should_be_enabled :: "jsv \<Rightarrow> bool" where
  "should_be_enabled src \<longleftrightarrow> opt_prop src ''name'' = JStr ''Cloudflare Official''"

definition handleResetSources :: scanner_action where
  "handleResetSources = Get (\<lambda>c. quietly
     (andthen (fetch_all (map (\<lambda>src. put_source (activeToken c) src (should_be_enabled src))
          (filter (\<lambda>src. opt_prop src ''is_enabled'' \<noteq> JBool (should_be_enabled src)) (sources c))))
       (set_state (\<lambda>s. say ''success'' ''Reset IP sources default selection.'' (fetchSources s)))))"

definition handleResetSettings :: scanner_action where
  "handleResetSettings = Get (\<lambda>c. bind
     (ask_confirm ''Are you sure you want to reset all scanner settings to default values?'') (\<lambda>yes.
     if \<not> yes then Done () else quietly
       (bind (page_fetch (http_send ''POST'' ''/api/v2ray/scanner/config/reset'' [auth_header (activeToken c)] None)) (\<lambda>(ok, b).
          if ok then set_state (\<lambda>s. fetchScannerConfig (say ''success'' ''Scanner settings successfully reset to default.'' s))
          else set_state (say ''error'' ''Failed to reset settings.'')))))"

definition cleanup :: "string \<Rightarrow> string \<Rightarrow> string \<Rightarrow> string \<Rightarrow> string \<Rightarrow> scanner_action" where
  "cleanup question url what refused failed = Get (\<lambda>c. bind (ask_confirm question) (\<lambda>yes.
     if \<not> yes then Done () else try_catch
       (bind (page_fetch (http_send ''DELETE'' url [auth_header (activeToken c)] None)) (\<lambda>(ok, b).
          if ok then bind (read_json b) (\<lambda>d. bind (lift_res (get_prop d ''count'')) (\<lambda>n.
            set_state (\<lambda>s. fetchSavedConfigs False (say ''success''
              (''Cleaned up '' @ js_string (js_or n (JNum 0)) @ what) s))))
          else set_state (say ''error'' refused)))
       (\<lambda>_. set_state (say ''error'' failed))))"

definition handleCleanupDiscoveredHealthy :: scanner_action where
  "handleCleanupDiscoveredHealthy = cleanup
     ''Are you sure you want to delete ALL scanner-discovered healthy results completely from the database?''
     ''/api/v2ray/client/configs/discovered'' '' discovered nodes.''
     ''Failed to delete discovered nodes.'' ''Network error during healthy candidate deletion.''"

definition handleCleanupDiscovered :: scanner_action where
  "handleCleanupDiscovered = cleanup
     ''Are you sure you want to clean up all failed candidates from the database?''
     ''/api/v2ray/client/configs/failed'' '' failed candidates.''
     ''Failed to clean up configs.'' ''Network error during cleanup.''"

section \<open>Exports and figures\<close>

definition healthy :: "candidate list \<Rightarrow> candidate list" where
  "healthy = filter (\<lambda>c. status c = ''healthy'')"

text \<open>\<open>v.toFixed(2)\<close>.\<close>

definition to_fixed2 :: "jsv \<Rightarrow> string res" where
  "to_fixed2 v = (case v of
       JNum x \<Rightarrow> Inr (if x < 0 then ''-'' @ show_fixed 2 (- x) else show_fixed 2 x)
     | JNaN \<Rightarrow> Inr ''NaN''
     | _ \<Rightarrow> Inl ''c.speedMbps.toFixed is not a function'')"

text \<open>The text of the file, if there is one.\<close>

definition downloadTxt :: "scanner_state \<Rightarrow> scanner_state \<times> string option" where
  "downloadTxt s = (let healthyList = join_with [CHR 0x0A] (map cand_key (healthy (candidates s))) in
     if healthyList = [] then (say ''info'' ''No verified candidates available to download.'' s, None)
     else (say ''success'' ''Downloaded healthy_ips.txt successfully.'' s, Some healthyList))"

definition csv_row :: "candidate \<Rightarrow> string res" where
  "csv_row c = map_sum id (\<lambda>speed. join_with '',''
     (map (\<lambda>v. if nullish v then [] else js_string v) [ip c, port c, protocol c, latencyMs c] @ [speed]))
     (to_fixed2 (speedMbps c))"

definition downloadCsv :: "scanner_state \<Rightarrow> (scanner_state \<times> string option) res" where
  "downloadCsv s = (if healthy (candidates s) = []
     then Inr (say ''info'' ''No verified candidates available to download.'' s, None)
     else map_sum id (\<lambda>rows. (say ''success'' ''Downloaded healthy_ips.csv successfully.'' s,
         Some (join_with [CHR 0x0A] (''IP,Port,Protocol,Latency(ms),Speed(Mbps)'' # rows))))
       (map_res csv_row (healthy (candidates s))))"

definition copyAllHealthy :: "scanner_state \<Rightarrow> scanner_state res" where
  "copyAllHealthy s = map_sum id (\<lambda>ls. let healthyList = join_with [CHR 0x0A] ls in
       if healthyList \<noteq> [] then say ''success'' ''Copied verified IPs list to clipboard!'' (s\<lparr>copied := copied s @ [healthyList]\<rparr>)
       else say ''info'' ''No verified candidates available to copy.'' s)
     (map_res (\<lambda>c. map_sum id (\<lambda>speed. cand_key c @ '' (latency: '' @ js_string (latencyMs c) @ ''ms, speed: '' @
         speed @ '' Mbps)'') (to_fixed2 (speedMbps c))) (healthy (candidates s)))"

definition handleCopyItem :: "candidate \<Rightarrow> scanner_state \<Rightarrow> scanner_state" where
  "handleCopyItem c s = say ''success'' (''Copied '' @ cand_key c @ '' to clipboard.'') (s\<lparr>copied := copied s @ [cand_key c]\<rparr>)"

definition formatRemainingTime :: "int \<Rightarrow> string" where
  "formatRemainingTime seconds = (if seconds \<le> 0 then ''0s''
     else if 0 < seconds div 60 then show_int (seconds div 60) @ ''m '' @ show_int (seconds mod 60) @ ''s''
     else show_int (seconds mod 60) @ ''s'')"

definition formatCount :: "nat \<Rightarrow> string" where
  "formatCount n = (if 1000 \<le> n then show_fixed 1 (of_nat n / 1000) @ ''K'' else show_nat n)"

text \<open>The groups of healthy candidates by provider: how many, and the sums of latency and speed.\<close>

definition group_step :: "candidate \<Rightarrow> (string \<times> nat \<times> jsv \<times> jsv) list \<Rightarrow> (string \<times> nat \<times> jsv \<times> jsv) list" where
  "group_step c groups = (if status c = ''healthy'' \<and> truthy (cdnProvider c) then
       (let k = js_string (cdnProvider c);
            (n, lat, speed) = (case map_of groups k of None \<Rightarrow> (0, JNum 0, JNum 0) | Some g \<Rightarrow> g)
        in AList.update k (n + 1, js_add lat (latencyMs c), js_add speed (speedMbps c)) groups)
     else groups)"

definition cdn_groups :: "candidate list \<Rightarrow> (string \<times> nat \<times> jsv \<times> jsv) list" where
  "cdn_groups cs = fold group_step cs []"

text \<open>\<open>b - a\<close> as the result of a comparison: \<open>NaN\<close> counts as 0.\<close>

definition descending :: "jsv \<Rightarrow> jsv \<Rightarrow> int" where
  "descending a b = (case (to_number a, to_number b) of
       (JNum x, JNum y) \<Rightarrow> if y < x then - 1 else if x < y then 1 else 0
     | _ \<Rightarrow> 0)"

definition cdnData :: "candidate list \<Rightarrow> (string \<times> nat \<times> jsv \<times> jsv) list" where
  "cdnData cs = js_sort (\<lambda>(_, _, _, a) (_, _, _, b). descending a b)
     (map (\<lambda>(name, n, lat, speed). (name, n, div_num lat (of_nat n), div_num speed (of_nat n))) (cdn_groups cs))"

text \<open>The table and the log as they are shown. \<open>locale\<close> is \<open>localeCompare\<close>, which the runtime defines.\<close>

datatype candidate_order = ByLatency | BySpeed | ByTime

definition filteredCandidates :: "(string \<Rightarrow> string \<Rightarrow> int) \<Rightarrow> string \<Rightarrow> candidate_order \<Rightarrow> candidate list \<Rightarrow> candidate list" where
  "filteredCandidates locale searchQuery sortBy cs =
     (let q = trim (to_lower searchQuery) in
      js_sort (\<lambda>a b. case sortBy of
          ByLatency \<Rightarrow> descending (latencyMs b) (latencyMs a)
        | BySpeed \<Rightarrow> descending (speedMbps a) (speedMbps b)
        | ByTime \<Rightarrow> locale (cand_time b) (cand_time a))
      (filter (\<lambda>c. includes_str (to_lower (js_string (ip c))) q \<or> includes_str (js_string (port c)) q) cs))"

definition filteredLogs :: "string \<Rightarrow> string list \<Rightarrow> string list" where
  "filteredLogs logsFilter = filter (\<lambda>l. includes_str (to_lower l) (to_lower logsFilter))"

text \<open>Mounting asks for everything.\<close>

definition mounted :: "scanner_state \<Rightarrow> scanner_state" where
  "mounted s = fetchScannerConfig (fetchSources (fetchSavedConfigs False s))"

chapter \<open>What holds of it\<close>

text \<open>
  The scanner page: the buffer in front of the table loses and reorders nothing, the ports of the
  server's settings are the ports a scan is started with, and what a late or left-over event does.
\<close>

section \<open>The buffer\<close>

definition table :: "candidate list \<Rightarrow> (string \<times> candidate) list" where
  "table = map (\<lambda>c. (cand_key c, c))"

lemma as_map_table: "distinct (map cand_key cs) \<Longrightarrow> as_map cs = table cs"
proof -
  assume d: "distinct (map cand_key cs)"
  have "as_map cs = put_entries (table cs) []" by (simp add: as_map_def table_def fold_map comp_def)
  then show ?thesis using d put_entries_fresh [of "table cs" "[]"] by (simp add: table_def comp_def)
qed

definition keyed :: "(string \<times> candidate) list \<Rightarrow> bool" where
  "keyed m \<longleftrightarrow> distinct (map fst m) \<and> (\<forall>(k, c)\<in>set m. k = cand_key c)"

lemma keyed_update: "keyed m \<Longrightarrow> k = cand_key c \<Longrightarrow> keyed (AList.update k c m)"
proof -
  have "x \<in> set (AList.update k c m) \<Longrightarrow> x = (k, c) \<or> x \<in> set m" for x
    by (induction m) (auto split: if_splits)
  then show "keyed m \<Longrightarrow> k = cand_key c \<Longrightarrow> keyed (AList.update k c m)"
    unfolding keyed_def by (auto simp: distinct_update) blast
qed

lemma keyed_put: "keyed kvs \<Longrightarrow> keyed m \<Longrightarrow> keyed (put_entries kvs m)"
proof (induction kvs arbitrary: m)
  case (Cons kv kvs)
  then show ?case by (cases kv) (auto simp: keyed_def intro!: Cons.IH [unfolded keyed_def] keyed_update [unfolded keyed_def])
qed simp

lemma table_snd: "keyed m \<Longrightarrow> table (map snd m) = m"
  by (auto simp: keyed_def table_def intro!: map_idI)

lemma keyed_table: "distinct (map cand_key cs) \<Longrightarrow> keyed (table cs)"
  by (auto simp: keyed_def table_def comp_def)

text \<open>A candidate arrives, or the timer fires.\<close>

definition candidate_frame :: "jsv \<Rightarrow> jsv" where
  "candidate_frame c = JObj [(''type'', JStr ''scanner:telemetry''), (''event'', JStr ''scanner.candidate''), (''data'', c)]"

definition scan_step :: "(string \<times> jsv) option \<Rightarrow> scanner_state \<Rightarrow> scanner_state" where
  "scan_step e s = (case e of None \<Rightarrow> flush s | Some (now, c) \<Rightarrow> onmessage now (Some (candidate_frame c)) s)"

definition entry :: "string \<times> jsv \<Rightarrow> string \<times> candidate" where
  "entry = (\<lambda>(now, c). (cand_key (candidate_of now c), candidate_of now c))"

lemma candidate_arrives:
  "truthy c \<Longrightarrow> scan_step (Some (now, c)) s =
     s\<lparr>candidatesBuffer := AList.update (cand_key (candidate_of now c)) (candidate_of now c) (candidatesBuffer s)\<rparr>"
  by (simp add: scan_step_def onmessage_def candidate_frame_def opt_prop_def obj_get_def cand_key_def candidate_of_def Let_def)

definition shown :: "scanner_state \<Rightarrow> (string \<times> candidate) list" where
  "shown s = put_entries (candidatesBuffer s) (table (candidates s))"

definition tidy :: "scanner_state \<Rightarrow> bool" where
  "tidy s \<longleftrightarrow> keyed (candidatesBuffer s) \<and> distinct (map cand_key (candidates s))"

lemma flush_shown: "tidy s \<Longrightarrow> candidates (flush s) = map snd (shown s) \<and> tidy (flush s) \<and> shown (flush s) = shown s"
proof -
  assume s: "tidy s"
  have k: "keyed (shown s)"
    using s keyed_put [of "candidatesBuffer s" "table (candidates s)"] keyed_table by (simp add: tidy_def shown_def)
  have "map snd (table cs) = cs" for cs by (simp add: table_def comp_def)
  moreover have "distinct (map cand_key (map snd (shown s)))"
  proof -
    have "map (cand_key \<circ> snd) (shown s) = map fst (shown s)"
      using k by (intro map_cong) (auto simp: keyed_def)
    then show ?thesis using k by (metis keyed_def map_map)
  qed
  ultimately show ?thesis
    using s k table_snd [OF k]
    by (auto simp: flush_def shown_def tidy_def merge_buffer_def as_map_table keyed_def [of "[]"])
qed

lemma scan_steps_shown:
  assumes "tidy s" and "\<forall>(now, c)\<in>set (List.map_filter id evs). truthy c"
  shows "tidy (fold scan_step evs s) \<and>
    shown (fold scan_step evs s) = put_entries (map entry (List.map_filter id evs)) (shown s)"
  using assms
proof (induction evs arbitrary: s)
  case (Cons e evs)
  show ?case
  proof (cases e)
    case None
    then have "tidy (scan_step e s) \<and> shown (scan_step e s) = shown s"
      using flush_shown [OF Cons.prems(1)] by (simp add: scan_step_def)
    then show ?thesis using Cons.IH [of "scan_step e s"] Cons.prems(2) None by (simp add: map_filter_simps)
  next
    case (Some nc)
    obtain now c where e: "e = Some (now, c)" using Some by (cases nc) auto
    then have c: "truthy c" using Cons.prems(2) by (simp add: map_filter_simps)
    have "tidy (scan_step e s)" using Cons.prems(1) by (auto simp: e candidate_arrives [OF c] tidy_def intro: keyed_update)
    moreover have "shown (scan_step e s) =
        AList.update (cand_key (candidate_of now c)) (candidate_of now c) (shown s)"
      using Cons.prems(1) by (simp add: e candidate_arrives [OF c] shown_def tidy_def keyed_def put_entries_update)
    ultimately show ?thesis
      using Cons.IH [of "scan_step e s"] Cons.prems(2) by (simp add: e map_filter_simps entry_def)
  qed
qed (simp add: map_filter_simps)

text \<open>C26: The buffer is transparent. However candidates arrive and the timer fires, after the next flush the
  table is what storing every candidate at once in a dictionary gives: nothing is lost, a candidate seen
  again keeps its place with its latest values, and new ones stand at the end in the order of their arrival.\<close>

theorem scan_buffer_transparent:
  assumes "candidatesBuffer s = []" and "distinct (map cand_key (candidates s))"
    and "\<forall>(now, c)\<in>set (List.map_filter id evs). truthy c"
  shows "candidates (flush (fold scan_step evs s)) =
      map snd (put_entries (map entry (List.map_filter id evs)) (table (candidates s))) \<and>
    candidatesBuffer (flush (fold scan_step evs s)) = []"
proof -
  have "tidy s" using assms(1,2) by (simp add: tidy_def keyed_def)
  from scan_steps_shown [OF this assms(3)] flush_shown [of "fold scan_step evs s"]
  show ?thesis using assms(1) by (simp add: shown_def flush_def)
qed

definition found :: "string \<Rightarrow> jsv" where
  "found address = JObj [(''ip'', JStr address), (''port'', JNum 443), (''latency_ms'', JNum 20)]"

theorem scan_buffer_transparent_witness:
  "map ip (candidates (flush (fold scan_step [Some (''1'', found ''b''), None, Some (''2'', found ''a''),
     Some (''3'', found ''b'')] (init_scanner [] Map.empty)))) = [JStr ''b'', JStr ''a'']"
proof -
  have k: "cand_key (candidate_of now (found a)) = a @ '':443''" for now a
    by (simp add: cand_key_def candidate_of_def found_def opt_prop_def show_num_def show_nat.simps digit_char_def Let_def)
  have i: "ip (candidate_of now (found a)) = JStr a" for now a
    by (simp add: candidate_of_def found_def opt_prop_def Let_def)
  have t: "truthy (found a)" for a by (simp add: found_def)
  show ?thesis
    using scan_buffer_transparent [of "init_scanner [] Map.empty"
        "[Some (''1'', found ''b''), None, Some (''2'', found ''a''), Some (''3'', found ''b'')]"]
    by (simp add: init_scanner_def entry_def k i t table_def map_filter_simps)
qed

text \<open>The settings do not touch the buffer, and neither does a new scan: what an earlier scan found last
  shows up in its table.\<close>

lemma old_scan_reappears:
  assumes "ws s = Some i" and "wsConnected s" and "candidatesBuffer s = [(k, c)]"
  shows "candidates (flush (handleStartScan retry discoveredOnly s)) = [c]"
  using assms
  by (simp add: handleStartScan_def send_def say_def flush_def merge_buffer_def as_map_def Let_def)

text \<open>A listing of the saved candidates that was asked for before the scan and arrives during it replaces
  what the scan has found.\<close>

lemma late_listing_replaces_scan:
  assumes "saved_requests s = [False]"
  shows "candidates (saved_reply 0 (Some (JArr [])) s) = []"
  using assms by (simp add: saved_reply_def saved_list_def)

text \<open>The close event of a socket that was replaced marks the page as not connected.\<close>

lemma stale_socket_close:
  assumes "ready_of (sockets s) 0 = CLOSING" and "ws s = Some 1" and "wsConnected s"
  shows "handleStartScan retry discoveredOnly (onclose (s\<lparr>sockets := set_ready 0 CLOSED (sockets s)\<rparr>)) =
    say ''error'' ''WebSocket connection not ready!'' (onclose (s\<lparr>sockets := set_ready 0 CLOSED (sockets s)\<rparr>))"
  using assms by (simp add: handleStartScan_def onclose_def)

section \<open>Ports\<close>

lemma unique_aux:
  "distinct acc \<Longrightarrow> distinct (fold (\<lambda>x acc. if x \<in> set acc then acc else acc @ [x]) xs acc) \<and>
     set (fold (\<lambda>x acc. if x \<in> set acc then acc else acc @ [x]) xs acc) = set acc \<union> set xs"
  by (induction xs arbitrary: acc) auto

lemma unique [simp]: "distinct (unique xs)" "set (unique xs) = set xs"
  using unique_aux [of "[]" xs] by (simp_all add: unique_def)

lemma show_int_plain: "CHR '','' \<notin> set (show_int n) \<and> trim (show_int n) = show_int n"
proof
  show "CHR '','' \<notin> set (show_int n)" using show_int_chars [of "CHR '',''" n] by (auto simp: is_digit_def)
  have ne: "show_int n \<noteq> []" using show_nat_digits by (simp add: show_int_def)
  have "\<not> is_space c" if "c \<in> set (show_int n)" for c
    using show_int_chars [OF that] digit_not_space by (auto simp: is_space_def)
  with ne show "trim (show_int n) = show_int n" by (intro trim_id) simp
qed

lemma parse_ports:
  assumes "ps \<noteq> []"
  shows "List.map_filter (\<lambda>p. parse_int (trim p)) (split_on CHR '','' (join_with '', '' (map show_int ps))) = ps"
proof -
  have "map trim (split_on CHR '','' (join_with '', '' (map show_int ps))) = map show_int ps"
    using assms show_int_plain by (intro trim_split_join) auto
  moreover have "List.map_filter (\<lambda>p. parse_int (trim p)) xs = List.map_filter parse_int (map trim xs)" for xs
    by (simp add: List.map_filter_def filter_map comp_def)
  moreover have "List.map_filter parse_int (map show_int ps) = ps"
    using parse_show_int by (induction ps) (simp_all add: map_filter_simps)
  ultimately show ?thesis by simp
qed

text \<open>The ports of the server's settings survive the page, which shows the well-known ones as boxes and
  writes the others into a text field: the ports that a scan is then started with are the same, each once.\<close>

theorem ports_roundtrip:
  "set (getSelectedPorts (load_ports ports s)) = set ports \<and> distinct (getSelectedPorts (load_ports ports s))"
proof -
  let ?custom = "filter (\<lambda>p. p \<notin> set commonPorts) ports"
  have "List.map_filter (\<lambda>p. parse_int (trim p)) (split_on CHR '','' (join_with '', '' (map show_int ?custom))) = ?custom"
  proof (cases "?custom = []")
    case True
    then show ?thesis by (simp add: map_filter_simps trim_def parse_int_def signed_int_def int_prefix_def to_lower_def)
  qed (rule parse_ports)
  then show ?thesis by (auto simp: getSelectedPorts_def load_ports_def)
qed

end
