(* ===== verification/JSON.thy ===== *)
theory JSON
  imports URI
begin

text \<open>
  \<open>JSON.stringify\<close> and \<open>JSON.parse\<close>. The text is cut into tokens, which a stack automaton reads, so
  that both are total; the text of a value is read back as the value. Numbers are exact. A \<open>\u\<close>
  escape stands for the UTF-8 bytes of its code point; half of a surrogate pair alone gets the three
  bytes of its number.
\<close>

section \<open>Printing\<close>

definition newline :: char where
  "newline = CHR 0x0A"

definition escape_of :: "char \<Rightarrow> string" where
  "escape_of c =
     (if c = CHR 0x22 then [CHR 0x5C, CHR 0x22]
      else if c = CHR 0x5C then [CHR 0x5C, CHR 0x5C]
      else if c = CHR 0x08 then [CHR 0x5C, CHR ''b'']
      else if c = CHR 0x09 then [CHR 0x5C, CHR ''t'']
      else if c = CHR 0x0A then [CHR 0x5C, CHR ''n'']
      else if c = CHR 0x0C then [CHR 0x5C, CHR ''f'']
      else if c = CHR 0x0D then [CHR 0x5C, CHR ''r'']
      else if (of_char c :: nat) < 32
        then [CHR 0x5C, CHR ''u'', CHR ''0'', CHR ''0'', ''0123456789abcdef'' ! (of_char c div 16),
              ''0123456789abcdef'' ! (of_char c mod 16)]
      else [c])"

definition quote_str :: "string \<Rightarrow> string" where
  "quote_str s = CHR 0x22 # concat (map escape_of s) @ [CHR 0x22]"

text \<open>A line break and the indentation, when there is a gap; the items of a list or an object.\<close>

definition line_break :: "string \<Rightarrow> nat \<Rightarrow> string" where
  "line_break gap k = (if gap = [] then [] else newline # concat (replicate k gap))"

definition items :: "string \<Rightarrow> nat \<Rightarrow> char \<Rightarrow> char \<Rightarrow> string list \<Rightarrow> string" where
  "items gap k l r xs = (if xs = [] then [l, r]
     else l # line_break gap (Suc k) @ join_with (CHR '','' # line_break gap (Suc k)) xs @ line_break gap k @ [r])"

text \<open>\<open>JSON.stringify(v, null, gap)\<close> inside something that is not \<open>undefined\<close>.\<close>

fun stringify :: "string \<Rightarrow> nat \<Rightarrow> jsv \<Rightarrow> string" where
  "stringify gap k JUndef = ''null''"
| "stringify gap k JNull = ''null''"
| "stringify gap k (JBool b) = (if b then ''true'' else ''false'')"
| "stringify gap k (JNum n) = show_num n"
| "stringify gap k JNaN = ''null''"
| "stringify gap k (JStr s) = quote_str s"
| "stringify gap k (JArr xs) = items gap k CHR ''['' CHR '']'' (map (stringify gap (Suc k)) xs)"
| "stringify gap k (JObj kvs) = items gap k CHR ''{'' CHR ''}''
     (concat (map (\<lambda>(key, v). if v = JUndef then []
        else [quote_str key @ (if gap = [] then '':'' else '': '') @ stringify gap (Suc k) v]) kvs))"

section \<open>Tokens\<close>

datatype token = LBrace | RBrace | LBrack | RBrack | Colon | Comma | Const jsv

definition punctuation :: "char \<Rightarrow> token option" where
  "punctuation c =
     (if c = CHR ''{'' then Some LBrace else if c = CHR ''}'' then Some RBrace
      else if c = CHR ''['' then Some LBrack else if c = CHR '']'' then Some RBrack
      else if c = CHR '':'' then Some Colon else if c = CHR '','' then Some Comma else None)"

definition json_space :: "char \<Rightarrow> bool" where
  "json_space c \<longleftrightarrow> c \<in> {CHR 0x20, CHR 0x09, CHR 0x0A, CHR 0x0D}"

definition unescape_char :: "char \<Rightarrow> char option" where
  "unescape_char c =
     (if c \<in> {CHR 0x22, CHR 0x5C, CHR ''/''} then Some c
      else if c = CHR ''b'' then Some (CHR 0x08) else if c = CHR ''t'' then Some (CHR 0x09)
      else if c = CHR ''n'' then Some (CHR 0x0A) else if c = CHR ''f'' then Some (CHR 0x0C)
      else if c = CHR ''r'' then Some (CHR 0x0D) else None)"

fun hex4 :: "string \<Rightarrow> (nat \<times> string) option" where
  "hex4 (a # b # c # d # s) = (case (hex_value a, hex_value b, hex_value c, hex_value d) of
       (Some w, Some x, Some y, Some z) \<Rightarrow> Some (4096 * w + 256 * x + 16 * y + z, s)
     | _ \<Rightarrow> None)"
| "hex4 _ = None"

definition utf8_bytes :: "nat \<Rightarrow> string" where
  "utf8_bytes n = map char_of
     (if n < 128 then [n]
      else if n < 2048 then [192 + n div 64, 128 + n mod 64]
      else if n < 65536 then [224 + n div 4096, 128 + n div 64 mod 64, 128 + n mod 64]
      else [240 + n div 262144, 128 + n div 4096 mod 64, 128 + n div 64 mod 64, 128 + n mod 64])"

text \<open>After \<open>\u\<close>: four digits, and the second half of a surrogate pair if it follows.\<close>

definition unicode :: "string \<Rightarrow> (string \<times> string) option" where
  "unicode s = (case hex4 s of None \<Rightarrow> None
     | Some (n, r) \<Rightarrow>
         (case (if 55296 \<le> n \<and> n < 56320 \<and> take 2 r = [CHR 0x5C, CHR ''u''] then hex4 (drop 2 r) else None) of
            Some (m, r') \<Rightarrow> if 56320 \<le> m \<and> m < 57344
              then Some (utf8_bytes (65536 + (n - 55296) * 1024 + (m - 56320)), r')
              else Some (utf8_bytes n, r)
          | None \<Rightarrow> Some (utf8_bytes n, r)))"

lemma hex4_shorter: "hex4 s = Some (n, r) \<Longrightarrow> length r < length s"
  by (induction s rule: hex4.induct) (auto split: option.splits)

lemma unicode_shorter: "unicode s = Some (t, r) \<Longrightarrow> length r < length s"
proof -
  have "drop 2 r' = [] \<or> length (drop 2 r') < length r'" for r' :: string by (cases "r' = []") auto
  then show "unicode s = Some (t, r) \<Longrightarrow> length r < length s"
    unfolding unicode_def
    by (auto split: option.splits if_splits prod.splits dest!: hex4_shorter)
qed

text \<open>The rest of a string literal: its content, and what follows the closing quote.\<close>

definition before :: "string \<Rightarrow> (string \<times> string) option \<Rightarrow> (string \<times> string) option" where
  "before p r = map_option (\<lambda>(t, s). (p @ t, s)) r"

function lex_string :: "string \<Rightarrow> (string \<times> string) option" where
  "lex_string s = (case s of [] \<Rightarrow> None
     | c # s1 \<Rightarrow>
         if c = CHR 0x22 then Some ([], s1)
         else if c = CHR 0x5C then
           (case s1 of [] \<Rightarrow> None
            | e # s2 \<Rightarrow>
                if e = CHR ''u'' then (case unicode s2 of None \<Rightarrow> None | Some (t, r) \<Rightarrow> before t (lex_string r))
                else (case unescape_char e of None \<Rightarrow> None | Some d \<Rightarrow> before [d] (lex_string s2)))
         else if (of_char c :: nat) < 32 then None else before [c] (lex_string s1))"
  by pat_completeness auto
termination by (relation "measure length") (auto dest: unicode_shorter)

declare lex_string.simps [simp del]

lemma lex_string_shorter: "lex_string s = Some (t, r) \<Longrightarrow> length r < length s"
proof (induction s arbitrary: t r rule: lex_string.induct)
  case (1 s)
  show ?case
    using 1 by (subst (asm) (4) lex_string.simps)
      (fastforce simp: before_def dest: unicode_shorter split: list.splits if_splits option.splits prod.splits)
qed

text \<open>A number: sign, integer part without leading zeros, fraction, exponent.\<close>

definition num_char :: "char \<Rightarrow> bool" where
  "num_char c \<longleftrightarrow> is_digit c \<or> c \<in> set ''+-.eE''"

definition exponent :: "string \<Rightarrow> int option" where
  "exponent s = (case s of [] \<Rightarrow> Some 0
     | e # t \<Rightarrow> if e \<notin> {CHR ''e'', CHR ''E''} then None
         else let neg = (t \<noteq> [] \<and> hd t = CHR ''-'');
                  ds = (if t \<noteq> [] \<and> hd t \<in> {CHR ''+'', CHR ''-''} then tl t else t)
              in if ds \<noteq> [] \<and> list_all is_digit ds
                 then Some (if neg then - int (digits_val ds) else int (digits_val ds)) else None)"

definition pow10 :: "int \<Rightarrow> rat" where
  "pow10 e = (if 0 \<le> e then 10 ^ nat e else 1 / 10 ^ nat (- e))"

definition unsigned_number :: "string \<Rightarrow> rat option" where
  "unsigned_number s =
     (let i = takeWhile is_digit s; r = dropWhile is_digit s;
          f = (if r \<noteq> [] \<and> hd r = CHR ''.'' then takeWhile is_digit (tl r) else []);
          r2 = (if r \<noteq> [] \<and> hd r = CHR ''.'' then dropWhile is_digit (tl r) else r)
      in if i = [] \<or> (hd i = CHR ''0'' \<and> tl i \<noteq> []) \<or> (r \<noteq> [] \<and> hd r = CHR ''.'' \<and> f = []) then None
         else map_option (\<lambda>e. (of_nat (digits_val i) + of_nat (digits_val f) / 10 ^ length f) * pow10 e) (exponent r2))"

definition read_number :: "string \<Rightarrow> rat option" where
  "read_number s = (if s \<noteq> [] \<and> hd s = CHR ''-'' then map_option uminus (unsigned_number (tl s)) else unsigned_number s)"

definition is_lower :: "char \<Rightarrow> bool" where
  "is_lower c \<longleftrightarrow> (97 :: nat) \<le> of_char c \<and> (of_char c :: nat) \<le> 122"

definition read_word :: "string \<Rightarrow> jsv option" where
  "read_word w = (if w = ''true'' then Some (JBool True) else if w = ''false'' then Some (JBool False)
     else if w = ''null'' then Some JNull else None)"

definition and_then :: "token option \<Rightarrow> token list option \<Rightarrow> token list option" where
  "and_then t ts = (case t of None \<Rightarrow> None | Some x \<Rightarrow> map_option ((#) x) ts)"

function lex :: "string \<Rightarrow> token list option" where
  "lex s = (case s of [] \<Rightarrow> Some []
     | c # s1 \<Rightarrow>
         if json_space c then lex s1
         else if punctuation c \<noteq> None then and_then (punctuation c) (lex s1)
         else if c = CHR 0x22 then
           (case lex_string s1 of None \<Rightarrow> None | Some (t, r) \<Rightarrow> and_then (Some (Const (JStr t))) (lex r))
         else if num_char c then and_then (map_option (\<lambda>x. Const (JNum x)) (read_number (c # takeWhile num_char s1)))
           (lex (dropWhile num_char s1))
         else and_then (map_option Const (read_word (c # takeWhile is_lower s1))) (lex (dropWhile is_lower s1)))"
  by pat_completeness auto
termination
  by (relation "measure length")
     (auto dest: lex_string_shorter intro: le_imp_less_Suc [OF length_dropWhile_le])

declare lex.simps [simp del]

section \<open>The automaton\<close>

datatype frame = InArr "jsv list" | InObj "(string \<times> jsv) list" string

text \<open>What the automaton expects: a value; a value or the end of a list; nothing, a value is complete;
  a key or the end of an object; a key; a colon.\<close>

datatype mode = Want | First | Got jsv | FirstKey | Key "(string \<times> jsv) list" | After_Key "(string \<times> jsv) list" string

type_synonym config = "frame list \<times> mode"

fun json_step :: "token \<Rightarrow> config \<Rightarrow> config option" where
  "json_step (Const v) (st, Want) = Some (st, Got v)"
| "json_step (Const v) (st, First) = Some (st, Got v)"
| "json_step LBrack (st, Want) = Some (InArr [] # st, First)"
| "json_step LBrack (st, First) = Some (InArr [] # st, First)"
| "json_step LBrace (st, Want) = Some (st, FirstKey)"
| "json_step LBrace (st, First) = Some (st, FirstKey)"
| "json_step RBrack (InArr vs # st, First) = Some (st, Got (JArr vs))"
| "json_step Comma (InArr vs # st, Got v) = Some (InArr (vs @ [v]) # st, Want)"
| "json_step RBrack (InArr vs # st, Got v) = Some (st, Got (JArr (vs @ [v])))"
| "json_step RBrace (st, FirstKey) = Some (st, Got (JObj []))"
| "json_step (Const (JStr k)) (st, FirstKey) = Some (st, After_Key [] k)"
| "json_step (Const (JStr k)) (st, Key ms) = Some (st, After_Key ms k)"
| "json_step Colon (st, After_Key ms k) = Some (InObj ms k # st, Want)"
| "json_step Comma (InObj ms k # st, Got v) = Some (st, Key (AList.update k v ms))"
| "json_step RBrace (InObj ms k # st, Got v) = Some (st, Got (JObj (AList.update k v ms)))"
| "json_step _ _ = None"

fun json_run :: "token list \<Rightarrow> config \<Rightarrow> config option" where
  "json_run [] c = Some c"
| "json_run (t # ts) c = (case json_step t c of None \<Rightarrow> None | Some c' \<Rightarrow> json_run ts c')"

text \<open>\<open>JSON.parse(s)\<close>: \<open>None\<close> when it throws.\<close>

definition json_parse :: "string \<Rightarrow> jsv option" where
  "json_parse s = (case lex s of None \<Rightarrow> None
     | Some ts \<Rightarrow> (case json_run ts ([], Want) of Some ([], Got v) \<Rightarrow> Some v | _ \<Rightarrow> None))"

definition json_text :: "string \<Rightarrow> jsv \<Rightarrow> string" where
  "json_text gap v = stringify gap 0 v"

section \<open>The text of a value is read back\<close>

text \<open>The values that JSON can express and this model prints exactly: integers, no \<open>undefined\<close>, no key twice.\<close>

fun json_value :: "jsv \<Rightarrow> bool" where
  "json_value JUndef = False"
| "json_value JNull = True"
| "json_value (JBool b) = True"
| "json_value (JNum n) = (n = of_int \<lfloor>n\<rfloor>)"
| "json_value JNaN = False"
| "json_value (JStr s) = True"
| "json_value (JArr xs) = list_all json_value xs"
| "json_value (JObj kvs) = (distinct (map fst kvs) \<and> list_all (\<lambda>(k, v). json_value v) kvs)"

fun separated :: "token list list \<Rightarrow> token list" where
  "separated [] = []"
| "separated [x] = x"
| "separated (x # y # xs) = x @ Comma # separated (y # xs)"

fun toks :: "jsv \<Rightarrow> token list" where
  "toks (JArr xs) = LBrack # separated (map toks xs) @ [RBrack]"
| "toks (JObj kvs) = LBrace # separated (map (\<lambda>(k, v). Const (JStr k) # Colon # toks v) kvs) @ [RBrace]"
| "toks v = [Const v]"

lemma separated_Cons: "xs \<noteq> [] \<Longrightarrow> separated (x # xs) = x @ Comma # separated xs"
  by (cases xs) auto

text \<open>Running the automaton over the tokens of a value.\<close>

lemma run_array:
  assumes "\<And>x ts st m. x \<in> set xs \<Longrightarrow> m \<in> {Want, First} \<Longrightarrow> json_run (toks x @ ts) (st, m) = json_run ts (st, Got x)"
    and "xs \<noteq> []" and "m \<in> {Want, First}"
  shows "json_run (separated (map toks xs) @ RBrack # ts) (InArr vs # st, m) = json_run ts (st, Got (JArr (vs @ xs)))"
  using assms
proof (induction xs arbitrary: vs m)
  case (Cons x xs)
  show ?case
  proof (cases xs)
    case Nil
    then show ?thesis using Cons.prems by simp
  next
    case (Cons y ys)
    then show ?thesis using Cons.IH [of Want "vs @ [x]"] Cons.prems by simp
  qed
qed simp

lemma run_object:
  assumes "\<And>k x ts st m. (k, x) \<in> set kvs \<Longrightarrow> m \<in> {Want, First} \<Longrightarrow> json_run (toks x @ ts) (st, m) = json_run ts (st, Got x)"
    and "kvs \<noteq> []" and "m = Key ms \<or> (m = FirstKey \<and> ms = [])"
    and "distinct (map fst (ms @ kvs))"
  shows "json_run (separated (map (\<lambda>(k, v). Const (JStr k) # Colon # toks v) kvs) @ RBrace # ts) (st, m) =
     json_run ts (st, Got (JObj (ms @ kvs)))"
  using assms
proof (induction kvs arbitrary: ms m)
  case (Cons kv kvs)
  obtain k v where kv: "kv = (k, v)" by (cases kv)
  have k: "AList.update k v ms = ms @ [(k, v)]"
    using Cons.prems(4) kv by (induction ms) auto
  have first: "json_run (Const (JStr k) # Colon # toks v @ rest) (st, m) = json_run rest (InObj ms k # st, Got v)" for rest
    using Cons.prems(1) [of k v Want] Cons.prems(3) kv by auto
  show ?case
  proof (cases "kvs = []")
    case True
    then show ?thesis using first kv k by simp
  next
    case False
    have "json_run (separated (map (\<lambda>(k, v). Const (JStr k) # Colon # toks v) kvs) @ RBrace # ts) (st, Key (ms @ [(k, v)])) =
        json_run ts (st, Got (JObj ((ms @ [(k, v)]) @ kvs)))"
    proof (rule Cons.IH)
      show "json_run (toks x @ ts) (st, m) = json_run ts (st, Got x)"
        if "(k, x) \<in> set kvs" "m \<in> {Want, First}" for k x ts st m
        using that by (intro Cons.prems(1)) auto
    qed (use Cons.prems(4) kv False in auto)
    then show ?thesis using first [of "Comma # separated (map (\<lambda>(k, v). Const (JStr k) # Colon # toks v) kvs) @ RBrace # ts"]
      by (simp add: separated_Cons kv k False)
  qed
qed simp

lemma run_toks:
  "json_value v \<Longrightarrow> m \<in> {Want, First} \<Longrightarrow> json_run (toks v @ ts) (st, m) = json_run ts (st, Got v)"
proof (induction v arbitrary: ts st m)
  case (JArr xs)
  show ?case
  proof (cases "xs = []")
    case False
    have "json_run (separated (map toks xs) @ RBrack # ts) (InArr [] # st, First) = json_run ts (st, Got (JArr ([] @ xs)))"
      using JArr False by (intro run_array) (auto simp: list_all_iff)
    then show ?thesis using JArr.prems(2) by auto
  qed (use JArr in auto)
next
  case (JObj kvs)
  show ?case
  proof (cases "kvs = []")
    case False
    have "json_run (separated (map (\<lambda>(k, v). Const (JStr k) # Colon # toks v) kvs) @ RBrace # ts) (st, FirstKey) =
        json_run ts (st, Got (JObj ([] @ kvs)))"
      using JObj False by (intro run_object) (fastforce simp: list_all_iff)+
    then show ?thesis using JObj.prems(2) by auto
  qed (use JObj in auto)
qed auto

text \<open>The tokens of the text.\<close>

lemma lex_space [simp]: "json_space c \<Longrightarrow> lex (c # s) = lex s"
  by (subst lex.simps) simp

lemma lex_break: "list_all json_space gap \<Longrightarrow> lex (line_break gap k @ s) = lex s"
proof -
  assume "list_all json_space gap"
  then have "list_all json_space (line_break gap k)"
    by (auto simp: line_break_def json_space_def newline_def list_all_iff)
  moreover have "list_all json_space xs \<Longrightarrow> lex (xs @ s) = lex s" for xs by (induction xs) auto
  ultimately show ?thesis by simp
qed

lemma lex_punctuation: "punctuation c = Some t \<Longrightarrow> lex (c # s) = map_option ((#) t) (lex s)"
  by (subst lex.simps) (auto simp: punctuation_def json_space_def and_then_def split: if_splits)

lemma lex_marks [simp]:
  "lex (CHR ''['' # s) = map_option ((#) LBrack) (lex s)" "lex (CHR '']'' # s) = map_option ((#) RBrack) (lex s)"
  "lex (CHR ''{'' # s) = map_option ((#) LBrace) (lex s)" "lex (CHR ''}'' # s) = map_option ((#) RBrace) (lex s)"
  "lex (CHR '','' # s) = map_option ((#) Comma) (lex s)" "lex (CHR '':'' # s) = map_option ((#) Colon) (lex s)"
  by (simp_all add: lex_punctuation punctuation_def)

lemma hex_lower: "d < 16 \<Longrightarrow> hex_value (''0123456789abcdef'' ! d) = Some d"
proof -
  assume "d < 16"
  moreover have "list_all (\<lambda>d. hex_value (''0123456789abcdef'' ! d) = Some d) [0..<16]"
    by (simp add: upt_rec hex_value_def)
  ultimately show ?thesis by (simp add: list_all_iff)
qed

lemma unicode_control:
  "of_char c < (32 :: nat) \<Longrightarrow> unicode (CHR ''0'' # CHR ''0'' # ''0123456789abcdef'' ! (of_char c div 16) #
     ''0123456789abcdef'' ! (of_char c mod 16) # s) = Some ([c], s)"
proof -
  assume c: "of_char c < (32 :: nat)"
  let ?n = "of_char c :: nat"
  have "?n div 16 < 16" "?n mod 16 < 16" using c by simp_all
  moreover have "hex_value CHR ''0'' = Some 0" by (simp add: hex_value_def)
  ultimately have "hex4 (CHR ''0'' # CHR ''0'' # ''0123456789abcdef'' ! (?n div 16) # ''0123456789abcdef'' ! (?n mod 16) # s) =
      Some (?n, s)"
    by (simp add: hex_lower)
  then show ?thesis using c by (simp add: unicode_def utf8_bytes_def)
qed

lemma lex_string_escape: "lex_string (escape_of c @ s) = before [c] (lex_string s)"
proof -
  consider "c \<in> {CHR 0x22, CHR 0x5C, CHR 0x08, CHR 0x09, CHR 0x0A, CHR 0x0C, CHR 0x0D}"
    | "c \<notin> {CHR 0x22, CHR 0x5C, CHR 0x08, CHR 0x09, CHR 0x0A, CHR 0x0C, CHR 0x0D}" "(of_char c :: nat) < 32"
    | "c \<notin> {CHR 0x22, CHR 0x5C, CHR 0x08, CHR 0x09, CHR 0x0A, CHR 0x0C, CHR 0x0D}" "\<not> (of_char c :: nat) < 32"
    by blast
  then show ?thesis
  proof cases
    case 1
    then show ?thesis by (subst lex_string.simps) (auto simp: escape_of_def unescape_char_def)
  next
    case 2
    then show ?thesis using unicode_control [OF 2(2), of s] by (subst lex_string.simps) (simp add: escape_of_def)
  next
    case 3
    then show ?thesis by (subst lex_string.simps) (simp add: escape_of_def)
  qed
qed

lemma lex_string_quoted: "lex_string (concat (map escape_of t) @ CHR 0x22 # s) = Some (t, s)"
proof (induction t)
  case Nil
  then show ?case by (subst lex_string.simps) simp
qed (simp add: lex_string_escape before_def)

lemma lex_quoted: "lex (quote_str t @ s) = map_option ((#) (Const (JStr t))) (lex s)"
  unfolding quote_str_def
  by (simp, subst lex.simps) (simp add: lex_string_quoted and_then_def json_space_def punctuation_def)

lemma read_printed: "read_number (show_int i) = Some (of_int i)"
proof -
  have u: "unsigned_number (show_nat n) = Some (of_nat n)" for n
  proof -
    have d: "takeWhile is_digit (show_nat n) = show_nat n" "dropWhile is_digit (show_nat n) = []"
      "show_nat n \<noteq> []" "digits_val (show_nat n) = n"
      using show_nat_digits [of n] by (auto simp: list_all_iff)
    have "tl (show_nat n) = []" if "hd (show_nat n) = CHR ''0''"
      using show_nat_leading [OF that] by (simp add: show_nat.simps)
    then show ?thesis
      unfolding unsigned_number_def d(1,2)
      using d(3,4) by (auto simp: exponent_def pow10_def digits_val_def Let_def)
  qed
  have "hd (show_nat n) \<noteq> CHR ''-''" for n
    using show_nat_chars [of "hd (show_nat n)" n] show_nat_digits [of n] by (auto simp: is_digit_def)
  then show ?thesis
    using u show_nat_digits by (auto simp: read_number_def show_int_def)
qed

text \<open>A text that does not go on with a number or a word.\<close>

definition stops :: "string \<Rightarrow> bool" where
  "stops s \<longleftrightarrow> s = [] \<or> (\<not> num_char (hd s) \<and> \<not> is_lower (hd s))"

lemma stops_Cons [simp]: "stops (c # s) \<longleftrightarrow> \<not> num_char c \<and> \<not> is_lower c"
  by (simp add: stops_def)

lemma stops_cut:
  assumes "stops s"
  shows "list_all num_char w \<Longrightarrow> takeWhile num_char (w @ s) = w \<and> dropWhile num_char (w @ s) = s"
    and "list_all is_lower w \<Longrightarrow> takeWhile is_lower (w @ s) = w \<and> dropWhile is_lower (w @ s) = s"
  using assms by (cases s; auto simp: list_all_iff stops_def takeWhile_append2 dropWhile_append2)+

lemma lex_number:
  assumes "n = of_int \<lfloor>n\<rfloor>" and "stops s"
  shows "lex (show_num n @ s) = map_option ((#) (Const (JNum n))) (lex s)"
proof -
  obtain i where i: "n = of_int i" using assms(1) by blast
  have num: "list_all num_char (show_int i)"
    using show_nat_chars by (auto simp: show_int_def list_all_iff num_char_def)
  obtain c w where cw: "show_int i = c # w"
    using show_nat_digits by (cases "show_int i") (auto simp: show_int_def split: if_splits)
  have c: "num_char c" and w: "list_all num_char w" using num cw by auto
  have other: "\<not> json_space c" "punctuation c = None" "c \<noteq> CHR 0x22"
    using c by (auto simp: num_char_def is_digit_def json_space_def punctuation_def)
  show ?thesis
    unfolding i show_num_int cw append_Cons
    using stops_cut(1) [OF assms(2) w] c other read_printed [of i] cw
    by (subst lex.simps) (simp add: and_then_def)
qed

lemma lex_word:
  assumes "read_word (c # w) = Some v" and "stops s"
  shows "lex (c # w @ s) = map_option ((#) (Const v)) (lex s)"
proof -
  have c: "c \<in> {CHR ''t'', CHR ''f'', CHR ''n''}" and w: "list_all is_lower w"
    using assms(1) by (auto simp: read_word_def is_lower_def split: if_splits)
  from c have "\<not> json_space c" "punctuation c = None" "c \<noteq> CHR 0x22" "\<not> num_char c"
    by (auto simp: json_space_def punctuation_def num_char_def is_digit_def)
  moreover note cut = stops_cut(2) [OF assms(2) w]
  ultimately show ?thesis
    using assms(1) by (subst lex.simps) (simp add: and_then_def conjunct1 [OF cut] conjunct2 [OF cut])
qed

lemma stops_break: "list_all json_space gap \<Longrightarrow> stops s \<Longrightarrow> stops (line_break gap k @ s)"
  by (auto simp: line_break_def newline_def num_char_def is_digit_def is_lower_def)

lemma lex_joined:
  assumes "\<And>y s. y \<in> set ys \<Longrightarrow> stops s \<Longrightarrow> lex (f y @ s) = map_option ((@) (g y)) (lex s)"
    and "list_all json_space gap" and "ys \<noteq> []" and "stops s"
  shows "lex (join_with (CHR '','' # line_break gap k) (map f ys) @ s) =
     map_option ((@) (separated (map g ys))) (lex s)"
  using assms
proof (induction ys)
  case (Cons y ys)
  show ?case
  proof (cases ys)
    case Nil
    then show ?thesis using Cons.prems by simp
  next
    case (Cons z zs)
    let ?rest = "join_with (CHR '','' # line_break gap k) (map f ys) @ s"
    have "lex (f y @ CHR '','' # line_break gap k @ ?rest) = map_option ((@) (g y)) (lex (CHR '','' # line_break gap k @ ?rest))"
      using Cons.prems by (intro Cons.prems(1)) (auto simp: num_char_def is_digit_def is_lower_def)
    also have "lex (CHR '','' # line_break gap k @ ?rest) = map_option ((#) Comma) (map_option ((@) (separated (map g ys))) (lex s))"
      using Cons.IH Cons.prems Cons by (simp add: lex_break)
    finally show ?thesis using Cons by (simp add: option.map_comp comp_def)
  qed
qed simp

lemma lex_items:
  assumes "\<And>y s. y \<in> set ys \<Longrightarrow> stops s \<Longrightarrow> lex (f y @ s) = map_option ((@) (g y)) (lex s)"
    and "list_all json_space gap" and "punctuation l = Some L" and "punctuation r = Some R"
  shows "lex (items gap k l r (map f ys) @ s) = map_option (\<lambda>ts. L # separated (map g ys) @ R # ts) (lex s)"
proof (cases "ys = []")
  case True
  then show ?thesis using assms(3,4) by (simp add: items_def lex_punctuation option.map_comp comp_def)
next
  case False
  have "stops (r # s)"
    using assms(4) by (auto simp: punctuation_def num_char_def is_digit_def is_lower_def split: if_splits)
  then have "stops (line_break gap k @ r # s)" using assms(2) by (rule stops_break [rotated])
  from lex_joined [OF assms(1,2) False this] show ?thesis
    using False assms(2-4) by (simp add: items_def lex_punctuation lex_break option.map_comp comp_def)
qed

definition member_text :: "string \<Rightarrow> nat \<Rightarrow> string \<times> jsv \<Rightarrow> string" where
  "member_text gap k = (\<lambda>(key, v). quote_str key @ (if gap = [] then '':'' else '': '') @ stringify gap (Suc k) v)"

lemma stringify_members:
  assumes "json_value (JObj kvs)"
  shows "stringify gap k (JObj kvs) = items gap k CHR ''{'' CHR ''}'' (map (member_text gap k) kvs)"
proof -
  have "concat (map (\<lambda>(key, v). if v = JUndef then []
        else [quote_str key @ (if gap = [] then '':'' else '': '') @ stringify gap (Suc k) v]) kvs) =
      map (member_text gap k) kvs"
    using assms by (induction kvs) (auto simp: member_text_def)
  then show ?thesis by (simp only: stringify.simps)
qed

lemma lex_stringify:
  "json_value v \<Longrightarrow> list_all json_space gap \<Longrightarrow> stops s \<Longrightarrow>
     lex (stringify gap k v @ s) = map_option ((@) (toks v)) (lex s)"
proof (induction v arbitrary: k s)
  case (JArr xs)
  have "lex (items gap k CHR ''['' CHR '']'' (map (stringify gap (Suc k)) xs) @ s) =
      map_option (\<lambda>ts. LBrack # separated (map toks xs) @ RBrack # ts) (lex s)"
    using JArr by (intro lex_items) (auto simp: list_all_iff punctuation_def)
  then show ?case by (simp add: comp_def)
next
  case (JObj kvs)
  let ?g = "\<lambda>(key, v). Const (JStr key) # Colon # toks v"
  have "lex (items gap k CHR ''{'' CHR ''}'' (map (member_text gap k) kvs) @ s) =
      map_option (\<lambda>ts. LBrace # separated (map ?g kvs) @ RBrace # ts) (lex s)"
  proof (rule lex_items)
    fix y s assume y: "y \<in> set kvs" and s: "stops s"
    obtain key v where kv: "y = (key, v)" by (cases y)
    have eq: "lex (stringify gap (Suc k) v @ s) = map_option ((@) (toks v)) (lex s)"
      using JObj.IH [of y v] y kv s JObj.prems by (auto simp: list_all_iff)
    have colon: "lex ((if gap = [] then '':'' else '': '') @ x) = map_option ((#) Colon) (lex x)" for x
      by (simp add: json_space_def)
    show "lex (member_text gap k y @ s) = map_option ((@) (?g y)) (lex s)"
      by (cases "lex s") (simp_all only: member_text_def kv prod.case append_assoc lex_quoted colon eq option.map append.simps)
  qed (use JObj.prems in \<open>simp_all add: punctuation_def\<close>)
  then show ?case unfolding stringify_members [OF JObj.prems(1)] by simp
next
  case JNull
  then show ?case using lex_word [of "CHR ''n''" "''ull''" JNull s] by (simp add: read_word_def)
next
  case (JBool b)
  then show ?case
    using lex_word [of "CHR ''t''" "''rue''" "JBool True" s] lex_word [of "CHR ''f''" "''alse''" "JBool False" s]
    by (simp add: read_word_def)
next
  case (JNum n)
  then show ?case using lex_number [of n s] by (cases "lex s") simp_all
next
  case (JStr t)
  show ?case using lex_quoted [of t s] by (cases "lex s") simp_all
qed simp_all

text \<open>\<open>JSON.parse(JSON.stringify(v, null, gap))\<close> is \<open>v\<close>.\<close>

lemma json_roundtrip:
  assumes "json_value v" and "list_all json_space gap"
  shows "json_parse (json_text gap v) = Some v"
proof -
  have "lex [] = Some []" by (subst lex.simps) simp
  then have "lex (stringify gap 0 v) = Some (toks v)"
    using lex_stringify [OF assms, of "[]" 0] by (simp add: stops_def)
  moreover have "json_run (toks v) ([], Want) = Some ([], Got v)"
    using run_toks [OF assms(1), of Want "[]" "[]"] by simp
  ultimately show ?thesis by (simp add: json_parse_def json_text_def)
qed

end
