(* ===== verification/Routing_Page.thy ===== *)
theory Routing_Page
  imports JSON Page
begin

text \<open>
  The routing page of the client (\<open>web/client/src/pages/V2RayRoutingPage.tsx\<close>): rules edited in a
  form and saved as JSON text, which is read back into the form, and the domain fronting maps.
  Settings have any shape when they arrive. A handler that throws leaves what it wrote before.
\<close>

section \<open>State\<close>

record gui_rule =
  outboundTag :: jsv
  domain :: string
  ip :: string
  port :: jsv
  network :: jsv

record routing_state =
  local_store :: storage
  isLoading :: bool
  message :: "(string \<times> jsv) option"
  routingPreset :: jsv
  customRoutingRules :: jsv
  guiRules :: "gui_rule list"
  frontingMaps :: jsv
  targetDomain :: string
  frontDomain :: string
  cdnIP :: string
  frontPort :: jsv
  frontSNI :: string
  frontAlpn :: string

definition init_routing :: "storage \<Rightarrow> routing_state" where
  "init_routing st = \<lparr>local_store = st, isLoading = False, message = None, routingPreset = JStr ''bypass_domestic'',
     customRoutingRules = JStr [],
     guiRules = [\<lparr>outboundTag = JStr ''direct'', domain = ''regexp:.*'' @ [CHR 0x5C] @ ''.ir$'', ip = ''geoip:ir'',
       port = JStr [], network = JStr ''any''\<rparr>],
     frontingMaps = JArr [], targetDomain = [], frontDomain = [], cdnIP = [], frontPort = JNum 443,
     frontSNI = [], frontAlpn = ''h2,http/1.1''\<rparr>"

section \<open>Rules and their text\<close>

text \<open>\<open>s.split(',').map(x => x.trim()).filter(Boolean)\<close>.\<close>

definition entries :: "string \<Rightarrow> string list" where
  "entries s = filter (\<lambda>x. x \<noteq> []) (map trim (split_on CHR '','' s))"

definition compile_list :: "string \<Rightarrow> string \<Rightarrow> (string \<times> jsv) list" where
  "compile_list k s = (if trim s \<noteq> [] then [(k, JArr (map JStr (entries s)))] else [])"

definition compile_port :: "jsv \<Rightarrow> (string \<times> jsv) list res" where
  "compile_port p = (if \<not> truthy p then Inr []
     else case p of JStr s \<Rightarrow> Inr (if trim s \<noteq> [] then [(''port'', JStr (trim s))] else [])
       | _ \<Rightarrow> Inl ''r.port.trim is not a function'')"

definition compile_rule :: "gui_rule \<Rightarrow> jsv res" where
  "compile_rule r = (case compile_port (port r) of Inl e \<Rightarrow> Inl e
     | Inr p \<Rightarrow> Inr (JObj ([(''type'', JStr ''field''), (''outboundTag'', js_or (outboundTag r) (JStr ''proxy''))] @
         compile_list ''domain'' (domain r) @ compile_list ''ip'' (ip r) @ p @
         (if truthy (network r) \<and> network r \<noteq> JStr ''any'' then [(''network'', network r)] else []))))"

text \<open>\<open>JSON.stringify(parsedRules, null, 2)\<close>.\<close>

definition compile_text :: "gui_rule list \<Rightarrow> string res" where
  "compile_text rules = map_sum id (\<lambda>xs. json_text ''  '' (JArr xs)) (map_res compile_rule rules)"

definition compileGuiRulesToJSON :: "gui_rule list \<Rightarrow> routing_state \<Rightarrow> (routing_state \<times> string) res" where
  "compileGuiRulesToJSON rules s = map_sum id (\<lambda>t. (s\<lparr>customRoutingRules := JStr t\<rparr>, t)) (compile_text rules)"

text \<open>\<open>Array.isArray(v) ? v.join(', ') : ''\<close>.\<close>

definition joined :: "jsv \<Rightarrow> string" where
  "joined v = (case v of JArr xs \<Rightarrow> join_with '', '' (map (\<lambda>x. if nullish x then [] else js_string x) xs) | _ \<Rightarrow> [])"

definition parse_rule :: "jsv \<Rightarrow> gui_rule res" where
  "parse_rule r = (case get_prop r ''outboundTag'' of Inl e \<Rightarrow> Inl e
     | Inr tag \<Rightarrow> Inr \<lparr>outboundTag = js_or tag (JStr ''proxy''), domain = joined (opt_prop r ''domain''),
         ip = joined (opt_prop r ''ip''), port = js_or (opt_prop r ''port'') (JStr []),
         network = js_or (opt_prop r ''network'') (JStr ''any'')\<rparr>)"

definition parseJSONToGuiRules :: "string \<Rightarrow> routing_state \<Rightarrow> routing_state" where
  "parseJSONToGuiRules text s = (case json_parse text of
       Some (JArr xs) \<Rightarrow> (case map_res parse_rule xs of Inl e \<Rightarrow> s | Inr rs \<Rightarrow> s\<lparr>guiRules := rs\<rparr>)
     | _ \<Rightarrow> s)"

section \<open>Loading and saving\<close>

type_synonym routing_action = "(routing_state, unit) page_action"

definition routing_token :: "routing_state \<Rightarrow> string" where
  "routing_token s = get_item_or (local_store s) ''cc_client_token'' []"

text \<open>What a successful answer does, in the order of the statements; the first exception ends it.\<close>

definition loaded :: "jsv \<Rightarrow> routing_state \<Rightarrow> routing_state" where
  "loaded data s = (if nullish data then s else
     let p = opt_prop data; custom = p ''custom_routing''; maps = p ''fronting_maps'';
         s1 = s\<lparr>routingPreset := js_or (p ''routing_preset'') (JStr ''bypass_domestic''),
                customRoutingRules := js_or custom (JStr [])\<rparr>;
         s2 = (if truthy custom then parseJSONToGuiRules (js_string custom) s1 else s1)
     in if truthy maps
        then s2\<lparr>frontingMaps := (case json_parse (js_string maps) of None \<Rightarrow> JArr [] | Some v \<Rightarrow> v)\<rparr> else s2)"

definition loadSettings :: routing_action where
  "loadSettings = Set (\<lambda>s. s\<lparr>isLoading := True\<rparr>) (Get (\<lambda>c. finally_do (try_catch
     (bind (page_fetch (authed_get (routing_token c) ''/api/v2ray/client/settings'')) (\<lambda>(ok, b).
        if ok then bind (read_json b) (\<lambda>data. set_state (loaded data)) else Done ()))
     (\<lambda>_. Done ())) (\<lambda>s. s\<lparr>isLoading := False\<rparr>)))"

definition save_body :: "jsv \<Rightarrow> jsv \<Rightarrow> jsv \<Rightarrow> jsv" where
  "save_body preset custom maps = JObj [(''routing_preset'', preset), (''custom_routing'', custom),
     (''fronting_maps'', JStr (json_text [] maps))]"

text \<open>The rules to send, and the state with the text that compiling them leaves.\<close>

definition final_rules :: "routing_state \<Rightarrow> (routing_state \<times> jsv) res" where
  "final_rules c = (if routingPreset c = JStr ''custom''
     then map_sum id (map_prod id JStr) (compileGuiRulesToJSON (guiRules c) c)
     else Inr (c, customRoutingRules c))"

definition save_request :: "routing_state \<Rightarrow> jsv \<Rightarrow> request" where
  "save_request c rules = post_json (routing_token c) ''/api/v2ray/client/settings''
     (save_body (routingPreset c) rules (frontingMaps c))"

definition handleSaveRouting :: routing_action where
  "handleSaveRouting = Get (\<lambda>c. Set (\<lambda>s. s\<lparr>isLoading := True, message := None\<rparr>)
     (finally_do (try_catch
       (bind (lift_res (final_rules c)) (\<lambda>(c', rules).
         Set (\<lambda>s. s\<lparr>customRoutingRules := customRoutingRules c'\<rparr>)
         (if routingPreset c = JStr ''custom'' \<and> truthy rules \<and> json_parse (js_string rules) = None
          then set_state (\<lambda>s. s\<lparr>message := Some (''error'', JStr ''Invalid Custom Routing Rules JSON''), isLoading := False\<rparr>)
          else bind (page_fetch (save_request c rules)) (\<lambda>(ok, b).
            if ok then set_state (\<lambda>s. s\<lparr>message := Some (''success'', JStr ''Client routing settings updated successfully!'')\<rparr>)
            else bind (api_error b ''Failed to update routing settings.'') (\<lambda>e.
              set_state (\<lambda>s. s\<lparr>message := Some (''error'', e)\<rparr>))))))
       (\<lambda>e. set_state (\<lambda>s. s\<lparr>message := Some (''error'', JStr e)\<rparr>)))
       (\<lambda>s. s\<lparr>isLoading := False\<rparr>)))"

section \<open>Editing\<close>

text \<open>\<open>setGuiRules(copy); compileGuiRulesToJSON(copy)\<close>: the rules are set even if compiling throws.\<close>

definition set_rules :: "gui_rule list \<Rightarrow> routing_state \<Rightarrow> routing_state" where
  "set_rules rules s = (let s1 = s\<lparr>guiRules := rules\<rparr> in
     case compileGuiRulesToJSON rules s1 of Inl e \<Rightarrow> s1 | Inr (s2, t) \<Rightarrow> s2)"

definition new_rule :: gui_rule where
  "new_rule = \<lparr>outboundTag = JStr ''proxy'', domain = [], ip = [], port = JStr [], network = JStr ''any''\<rparr>"

definition add_rule :: "routing_state \<Rightarrow> routing_state" where
  "add_rule s = set_rules (guiRules s @ [new_rule]) s"

text \<open>The buttons are disabled at the ends.\<close>

definition move_up :: "nat \<Rightarrow> routing_state \<Rightarrow> routing_state" where
  "move_up i s = (let rs = guiRules s in
     if 0 < i \<and> i < length rs then set_rules (rs[i := rs ! (i - 1), i - 1 := rs ! i]) s else s)"

definition move_down :: "nat \<Rightarrow> routing_state \<Rightarrow> routing_state" where
  "move_down i s = (let rs = guiRules s in
     if i + 1 < length rs then set_rules (rs[i := rs ! (i + 1), i + 1 := rs ! i]) s else s)"

definition remove_rule :: "nat \<Rightarrow> routing_state \<Rightarrow> routing_state" where
  "remove_rule i s = set_rules (take i (guiRules s) @ drop (Suc i) (guiRules s)) s"

datatype rule_field = TagField | NetworkField | DomainField | IpField | PortField

definition put_field :: "rule_field \<Rightarrow> string \<Rightarrow> gui_rule \<Rightarrow> gui_rule" where
  "put_field f v r = (case f of TagField \<Rightarrow> r\<lparr>outboundTag := JStr v\<rparr> | NetworkField \<Rightarrow> r\<lparr>network := JStr v\<rparr>
     | DomainField \<Rightarrow> r\<lparr>domain := v\<rparr> | IpField \<Rightarrow> r\<lparr>ip := v\<rparr> | PortField \<Rightarrow> r\<lparr>port := JStr v\<rparr>)"

definition edit_rule :: "nat \<Rightarrow> rule_field \<Rightarrow> string \<Rightarrow> routing_state \<Rightarrow> routing_state" where
  "edit_rule i f v s = (if i < length (guiRules s)
     then set_rules ((guiRules s)[i := put_field f v (guiRules s ! i)]) s else s)"

text \<open>The fronting maps, which are whatever the saved text held.\<close>

definition handleAddFrontingMap :: "routing_state \<Rightarrow> routing_state" where
  "handleAddFrontingMap s = (if targetDomain s = [] \<or> frontDomain s = [] \<or> cdnIP s = [] then s
     else case iterate ''frontingMaps'' (frontingMaps s) of Inl e \<Rightarrow> s
     | Inr xs \<Rightarrow> s\<lparr>frontingMaps := JArr (xs @ [JObj [(''target'', JStr (targetDomain s)), (''front'', JStr (frontDomain s)),
         (''cdn'', JStr (cdnIP s)), (''port'', frontPort s),
         (''sni'', JStr (if frontSNI s \<noteq> [] then frontSNI s else frontDomain s)), (''alpn'', JStr (frontAlpn s))]]),
         targetDomain := [], frontDomain := [], cdnIP := [], frontSNI := []\<rparr>)"

definition handleDeleteFrontingMap :: "nat \<Rightarrow> routing_state \<Rightarrow> routing_state" where
  "handleDeleteFrontingMap i s = (case as_array ''frontingMaps'' ''filter'' (frontingMaps s) of Inl e \<Rightarrow> s
     | Inr xs \<Rightarrow> s\<lparr>frontingMaps := JArr (take i xs @ drop (Suc i) xs)\<rparr>)"

section \<open>What a round trip makes of a rule\<close>

definition normal_rule :: "gui_rule \<Rightarrow> gui_rule" where
  "normal_rule r = \<lparr>outboundTag = js_or (outboundTag r) (JStr ''proxy''), domain = join_with '', '' (entries (domain r)),
     ip = join_with '', '' (entries (ip r)), port = (case port r of JStr p \<Rightarrow> JStr (trim p) | p \<Rightarrow> JStr []),
     network = js_or (network r) (JStr ''any'')\<rparr>"

text \<open>A rule of the form: texts in its fields.\<close>

definition form_rule :: "gui_rule \<Rightarrow> bool" where
  "form_rule r \<longleftrightarrow> is_str (outboundTag r) \<and> is_str (port r) \<and> is_str (network r)"

lemma entries_plain: "x \<in> set (entries s) \<Longrightarrow> x \<noteq> [] \<and> CHR '','' \<notin> set x \<and> trim x = x"
proof -
  have no: "y \<in> set (split_on c s) \<Longrightarrow> c \<notin> set y" for y c s
    by (induction s arbitrary: y) (auto split: list.splits if_splits)
  have sub: "set (trim y) \<subseteq> set y" for y by (metis set_dropWhileD set_rev subsetI trim_def)
  assume "x \<in> set (entries s)"
  then obtain y where y: "x = trim y" "x \<noteq> []" "y \<in> set (split_on CHR '','' s)" by (auto simp: entries_def)
  then show ?thesis using no [OF y(3)] sub [of y] by auto
qed

lemma entries_joined [simp]: "entries (join_with '', '' (entries s)) = entries s"
proof (cases "entries s = []")
  case False
  have "map trim (split_on CHR '','' (join_with '', '' (entries s))) = entries s"
    using False entries_plain by (intro trim_split_join) blast+
  moreover have "filter (\<lambda>x. x \<noteq> []) (entries s) = entries s" using entries_plain by (auto simp: filter_id_conv)
  ultimately show ?thesis unfolding entries_def by simp
next
  case True
  then show ?thesis by (simp add: entries_def)
qed

lemma entries_blank: "trim s = [] \<Longrightarrow> entries s = []"
proof -
  assume "trim s = []"
  then have sp: "\<forall>c\<in>set s. is_space c" by (simp add: trim_is_suffix_free)
  moreover have "\<not> is_space CHR '',''" by (simp add: is_space_def)
  ultimately have "CHR '','' \<notin> set s" by blast
  then show ?thesis using \<open>trim s = []\<close> by (simp add: entries_def split_on_no_sep)
qed

lemma normal_rule_idem: "form_rule r \<Longrightarrow> normal_rule (normal_rule r) = normal_rule r"
  by (cases "port r") (auto simp: form_rule_def normal_rule_def js_or_def)

lemma compiled_rule:
  assumes "form_rule r"
  shows "\<exists>v. compile_rule r = Inr v \<and> json_value v \<and> parse_rule v = Inr (normal_rule r)"
proof -
  obtain t p n where r: "outboundTag r = JStr t" "port r = JStr p" "network r = JStr n"
    using assms by (cases "outboundTag r"; cases "port r"; cases "network r") (auto simp: form_rule_def)
  have strs: "joined (JArr (map JStr xs)) = join_with '', '' xs" for xs by (simp add: joined_def comp_def)
  have none: "joined JUndef = []" by (simp add: joined_def)
  show ?thesis
    by (auto simp: compile_rule_def compile_port_def compile_list_def parse_rule_def normal_rule_def r opt_prop_def
        strs none entries_blank list_all_iff js_or_def)
qed

lemma compiled_rules:
  "list_all form_rule rs \<Longrightarrow>
     \<exists>xs. map_res compile_rule rs = Inr xs \<and> list_all json_value xs \<and> map_res parse_rule xs = Inr (map normal_rule rs)"
proof (induction rs)
  case (Cons r rs)
  then obtain xs where "map_res compile_rule rs = Inr xs" "list_all json_value xs"
    "map_res parse_rule xs = Inr (map normal_rule rs)" by auto
  moreover obtain v where "compile_rule r = Inr v" "json_value v" "parse_rule v = Inr (normal_rule r)"
    using compiled_rule [of r] Cons.prems by auto
  ultimately show ?case by (intro exI [of _ "v # xs"]) simp
qed simp

lemma compile_text_roundtrip:
  assumes "list_all form_rule rs"
  shows "\<exists>t. compile_text rs = Inr t \<and> t \<noteq> [] \<and> json_parse t \<noteq> None \<and>
    (\<forall>s. parseJSONToGuiRules t s = s\<lparr>guiRules := map normal_rule rs\<rparr>)"
proof -
  obtain xs where xs: "map_res compile_rule rs = Inr xs" "list_all json_value xs"
    "map_res parse_rule xs = Inr (map normal_rule rs)"
    using compiled_rules [OF assms] by blast
  have "list_all json_space ''  ''" by (simp add: json_space_def)
  then have "json_parse (json_text ''  '' (JArr xs)) = Some (JArr xs)" using xs(2) by (intro json_roundtrip) simp_all
  moreover have "json_text gap (JArr xs) \<noteq> []" for gap by (simp add: json_text_def items_def)
  ultimately show ?thesis using xs by (simp add: compile_text_def parseJSONToGuiRules_def)
qed

section \<open>Properties\<close>

text \<open>What is saved is what is loaded. Saving the rules of the form never fails in the page: it
  compiles them to a JSON text, which always parses, and sends that text in one request; when the server
  later returns this text, the page shows the same rules in the same order, with the lists written out
  evenly and empty fields at their defaults; saving and loading these again changes nothing.\<close>

theorem routing_rules_roundtrip:
  assumes "routingPreset c = JStr ''custom''" and "list_all form_rule (guiRules c)"
  shows "\<exists>text. requests handleSaveRouting [Replied (Response True b)] c = [Http (save_request c (JStr text))] \<and>
    message (final handleSaveRouting [Replied (Response True b)] c) =
      Some (''success'', JStr ''Client routing settings updated successfully!'') \<and>
    guiRules (loaded (JObj [(''custom_routing'', JStr text)]) s) = map normal_rule (guiRules c) \<and>
    map normal_rule (map normal_rule (guiRules c)) = map normal_rule (guiRules c)"
proof -
  obtain t where t: "compile_text (guiRules c) = Inr t" "t \<noteq> []" "json_parse t \<noteq> None"
    "\<And>s. parseJSONToGuiRules t s = s\<lparr>guiRules := map normal_rule (guiRules c)\<rparr>"
    using compile_text_roundtrip [OF assms(2)] by blast
  have "final_rules c = Inr (c\<lparr>customRoutingRules := JStr t\<rparr>, JStr t)"
    using assms(1) t(1) by (simp add: final_rules_def compileGuiRulesToJSON_def)
  then have "requests handleSaveRouting [Replied (Response True b)] c = [Http (save_request c (JStr t))]"
    and "message (final handleSaveRouting [Replied (Response True b)] c) =
      Some (''success'', JStr ''Client routing settings updated successfully!'')"
    using t(3) by (simp_all add: handleSaveRouting_def requests_def final_def lift_res_def page_fetch_def run_bind
        run_finally run_try_catch)
  moreover have "guiRules (loaded (JObj [(''custom_routing'', JStr t)]) s) = map normal_rule (guiRules c)"
    using t(2,4) by (simp add: loaded_def opt_prop_def Let_def)
  moreover have "map normal_rule (map normal_rule (guiRules c)) = map normal_rule (guiRules c)"
    using assms(2) normal_rule_idem by (auto simp: list_all_iff)
  ultimately show ?thesis by blast
qed

theorem routing_rules_roundtrip_witness:
  "\<exists>text. guiRules (loaded (JObj [(''custom_routing'', JStr text)]) (init_routing Map.empty)) =
     [\<lparr>outboundTag = JStr ''proxy'', domain = [], ip = ''a, b'', port = JStr ''80'', network = JStr ''any''\<rparr>]"
proof -
  let ?c = "(init_routing Map.empty)\<lparr>routingPreset := JStr ''custom'', guiRules :=
    [\<lparr>outboundTag = JStr [], domain = '' '', ip = ''a,, b '', port = JStr '' 80'', network = JStr ''any''\<rparr>]\<rparr>"
  have e: "entries '' '' = []" "entries ''a,, b '' = [''a'', ''b'']" "trim '' 80'' = ''80''"
    by (simp_all add: entries_def trim_def is_space_def)
  show ?thesis
    using routing_rules_roundtrip [of ?c "JsonOk JNull" "init_routing Map.empty"]
    by (auto simp: form_rule_def normal_rule_def e js_or_def)
qed

text \<open>A rule saved by another program may hold its port as a number. It is shown, but the page can no
  longer save: compiling the rules throws.\<close>

lemma numeric_port_blocks_saving:
  assumes "routingPreset c = JStr ''custom''" and "guiRules c = [r]" and "port r = JNum 443"
  shows "requests handleSaveRouting rs c = [] \<and>
    message (final handleSaveRouting rs c) = Some (''error'', JStr ''r.port.trim is not a function'')"
  using assms
  by (simp add: handleSaveRouting_def requests_def final_def final_rules_def compileGuiRulesToJSON_def compile_text_def
      compile_rule_def compile_port_def lift_res_def run_bind run_finally run_try_catch)

text \<open>Loading and saving drops every property of a rule that the form does not show.\<close>

lemma unknown_properties_dropped:
  "parse_rule (JObj [(''inboundTag'', JArr [JStr ''api'']), (''outboundTag'', JStr ''api'')]) = Inr r \<Longrightarrow>
     compile_rule r = Inr (JObj [(''type'', JStr ''field''), (''outboundTag'', JStr ''api'')])"
  by (auto simp: parse_rule_def compile_rule_def compile_port_def compile_list_def opt_prop_def joined_def js_or_def)

end
