(* ===== verification/Torrent_Page.thy ===== *)
theory Torrent_Page
  imports Files_Lib Page Jobs_Store
begin

text \<open>
  The torrent page (\<open>web/client/src/pages/TorrentPage.tsx\<close>; the server's copy differs in the titles of its
  dialogs). The list of torrents and the commands go through the jobs store, whose model is part of the state
  here, so a command on a socket that is not open is lost. A request that nobody awaits (settings, folders) is an
  entry of a list, and its answer an event. The steps of adding a torrent are the field \<open>addStep\<close>, and the
  effect on it that asks for the files of a torrent every 1500 milliseconds is the field \<open>poller\<close>.
\<close>

section \<open>Files to add\<close>

record torrent_file =
  tf_name :: string
  tf_size :: nat
  tf_modified :: int

text \<open>\<open>`${f.name}:${f.size}:${f.lastModified}`\<close>.\<close>

definition file_key :: "torrent_file \<Rightarrow> string" where
  "file_key f = tf_name f @ '':'' @ show_nat (tf_size f) @ '':'' @ show_int (tf_modified f)"

definition merge_one :: "torrent_file \<Rightarrow> string list \<times> torrent_file list \<Rightarrow> string list \<times> torrent_file list" where
  "merge_one f = (\<lambda>(seen, merged). if file_key f \<in> set seen then (seen, merged)
     else (file_key f # seen, merged @ [f]))"

definition mergeTorrentFiles :: "torrent_file list \<Rightarrow> torrent_file list \<Rightarrow> torrent_file list" where
  "mergeTorrentFiles current incoming = snd (fold merge_one incoming (map file_key current, current))"

definition torrent_files_of :: "torrent_file list \<Rightarrow> torrent_file list" where
  "torrent_files_of = filter (\<lambda>f. has_suffix ''.torrent'' (to_lower (tf_name f)))"

section \<open>State\<close>

datatype add_step = InputStep | Submitting | FetchingMetadata | SelectFiles

datatype picker_target = PickForAdd | PickForSettings

record torrent_state =
  token :: string
  jobs :: jobs_state
  hoveredTorrentHash :: "jsv option"
  dismissedOverlays :: "jsv list"
  showAddModal :: bool
  magnetUri :: string
  addTorrentFiles :: "torrent_file list"
  addProgress :: "nat \<times> nat"
  saveDir :: jsv
  showConfigModal :: bool
  folderPickerTarget :: picker_target
  config :: jsv
  showFolderModal :: bool
  currentPath :: string
  directories :: "string list"
  newFolderName :: string
  showNewFolderInput :: bool
  selectedTorrent :: "jsv option"
  torrentFiles :: jsv
  selectedFileIndices :: "jsv list"
  loadingFiles :: bool
  torrentToDelete :: "jsv option"
  deleteFilesOption :: bool
  selectedTorrentHashes :: "jsv list"
  showBulkDeleteModal :: bool
  bulkDeleteFilesOption :: bool
  bulkDeleting :: bool
  addStep :: add_step
  addedInfoHash :: jsv
  modalFiles :: jsv
  selectedModalFileIndices :: "jsv list"
  fileSearchQuery :: string
  selectFilesEnabled :: bool
  sendToTelegram :: bool
  poller :: "(nat \<times> jsv) option"
  pollers :: nat
  config_requests :: "jsv list"
  dir_requests :: "string list"
  alerts :: "(string \<times> jsv) list"

definition default_config :: jsv where
  "default_config = JObj [(''save_directory'', JStr ''./data/manager/downloads''),
     (''max_connections_per_torrent'', JNum 200), (''max_half_open_connections'', JNum 100),
     (''upload_limit_mb'', JNum 0), (''download_limit_mb'', JNum 0), (''enable_dht'', JBool True),
     (''enable_pex'', JBool True), (''enable_utp'', JBool True), (''enable_tcp'', JBool True),
     (''enable_upload'', JBool True), (''piece_hashers_per_torrent'', JNum 4), (''custom_trackers'', JStr [])]"

definition init_torrents :: "string \<Rightarrow> jobs_state \<Rightarrow> torrent_state" where
  "init_torrents tok js = \<lparr>token = tok, jobs = js, hoveredTorrentHash = None, dismissedOverlays = [],
     showAddModal = False, magnetUri = [], addTorrentFiles = [], addProgress = (0, 0),
     saveDir = JStr ''./data/manager/downloads'', showConfigModal = False, folderPickerTarget = PickForAdd,
     config = default_config, showFolderModal = False, currentPath = ''/'', directories = [], newFolderName = [],
     showNewFolderInput = False, selectedTorrent = None, torrentFiles = JArr [], selectedFileIndices = [],
     loadingFiles = False, torrentToDelete = None, deleteFilesOption = False, selectedTorrentHashes = [],
     showBulkDeleteModal = False, bulkDeleteFilesOption = False, bulkDeleting = False, addStep = InputStep,
     addedInfoHash = JStr [], modalFiles = JArr [], selectedModalFileIndices = [], fileSearchQuery = [],
     selectFilesEnabled = False, sendToTelegram = False, poller = None, pollers = 0, config_requests = [],
     dir_requests = [], alerts = []\<rparr>"

definition alert :: "string \<Rightarrow> jsv \<Rightarrow> torrent_state \<Rightarrow> torrent_state" where
  "alert title msg s = s\<lparr>alerts := alerts s @ [(title, msg)]\<rparr>"

text \<open>The torrents of the store; the page fails to render where they are no list.\<close>

definition torrent_list :: "torrent_state \<Rightarrow> jsv list" where
  "torrent_list s = (case torrents (jobs s) of JArr ts \<Rightarrow> ts | _ \<Rightarrow> [])"

definition hash_of :: "jsv \<Rightarrow> jsv" where
  "hash_of t = opt_prop t ''info_hash''"

definition hashes :: "torrent_state \<Rightarrow> jsv list" where
  "hashes s = map hash_of (torrent_list s)"

definition tell :: "(string \<times> jsv) list \<Rightarrow> torrent_state \<Rightarrow> torrent_state" where
  "tell cmd s = s\<lparr>jobs := sendAction (JObj cmd) (jobs s)\<rparr>"

text \<open>The lines of the text field that are not blank. The pattern \<open>[\r\n]+\<close> separates; the empty pieces between
  adjacent separators are filtered out with the blank ones.\<close>

definition magnets_of :: "string \<Rightarrow> string list" where
  "magnets_of text = filter (\<lambda>m. m \<noteq> [])
     (map trim (split_on (CHR 0x0A) (map (\<lambda>c. if c = CHR 0x0D then CHR 0x0A else c) text)))"

definition isBulkAdd :: "torrent_state \<Rightarrow> bool" where
  "isBulkAdd s \<longleftrightarrow> 1 < length (magnets_of (magnetUri s)) \<or> 1 < length (addTorrentFiles s)"

definition isAllSelected :: "torrent_state \<Rightarrow> bool" where
  "isAllSelected s \<longleftrightarrow> torrent_list s \<noteq> [] \<and> length (selectedTorrentHashes s) = length (torrent_list s)"

definition isSomeSelected :: "torrent_state \<Rightarrow> bool" where
  "isSomeSelected s \<longleftrightarrow> selectedTorrentHashes s \<noteq> [] \<and> \<not> isAllSelected s"

section \<open>Settings\<close>

type_synonym torrent_action = "(torrent_state, unit) page_action"

text \<open>The request keeps the directory of its closure.\<close>

definition fetchConfig :: "jsv \<Rightarrow> torrent_state \<Rightarrow> torrent_state" where
  "fetchConfig dir s = s\<lparr>config_requests := config_requests s @ [dir]\<rparr>"

text \<open>The answer to request \<open>i\<close>: \<open>None\<close> when it failed, was refused or did not parse. Where the body is \<open>null\<close> the
  second statement throws.\<close>

definition config_reply :: "nat \<Rightarrow> jsv option \<Rightarrow> torrent_state \<Rightarrow> torrent_state" where
  "config_reply i r s =
     (let dir = config_requests s ! i;
          s1 = s\<lparr>config_requests := take i (config_requests s) @ drop (Suc i) (config_requests s)\<rparr> in
      case r of None \<Rightarrow> s1
      | Some data \<Rightarrow> (let s2 = s1\<lparr>config := data\<rparr> in
          if truthy dir then s2
          else case get_prop data ''save_directory'' of Inl e \<Rightarrow> s2 | Inr d \<Rightarrow> s2\<lparr>saveDir := d\<rparr>))"

definition handleSaveConfig :: torrent_action where
  "handleSaveConfig = Get (\<lambda>c. quietly
     (bind (page_fetch (post_json (token c) ''/api/torrent/config'' (config c))) (\<lambda>(ok, b).
        if ok then set_state (\<lambda>s. fetchConfig (saveDir c) (s\<lparr>showConfigModal := False\<rparr>))
        else bind (api_error b ''Failed to save configuration'') (\<lambda>e. set_state (alert ''Configuration Error'' e)))))"

text \<open>\<open>setConfig(prev => ({...prev, k: v}))\<close>, with the value of a number field read by \<open>parseFloat\<close>
  (the number itself, \<open>None\<close> for \<open>NaN\<close>) or \<open>parseInt\<close>.\<close>

definition put_config :: "string \<Rightarrow> jsv \<Rightarrow> torrent_state \<Rightarrow> torrent_state" where
  "put_config k v s = s\<lparr>config := obj_put k v (config s)\<rparr>"

definition put_limit :: "string \<Rightarrow> rat option \<Rightarrow> torrent_state \<Rightarrow> torrent_state" where
  "put_limit k x = put_config k (JNum (case x of None \<Rightarrow> 0 | Some v \<Rightarrow> v))"

definition put_count :: "string \<Rightarrow> int \<Rightarrow> string \<Rightarrow> torrent_state \<Rightarrow> torrent_state" where
  "put_count k other v = put_config k (JNum (of_int
     (case parse_int v of None \<Rightarrow> other | Some n \<Rightarrow> if n = 0 then other else n)))"

text \<open>Mounting with a token opens the store's socket and asks for the settings; leaving runs the store's clean-up.\<close>

definition mounted :: "bool \<Rightarrow> torrent_state \<Rightarrow> torrent_state" where
  "mounted throws s = (if token s \<noteq> []
     then fetchConfig (saveDir s) (s\<lparr>jobs := initWebSocket throws (token s) (jobs s)\<rparr>) else s)"

definition unmounted :: "torrent_state \<Rightarrow> torrent_state" where
  "unmounted s = (if token s \<noteq> [] then s\<lparr>jobs := cleanup_jobs (jobs s)\<rparr> else s)"

section \<open>The folder picker\<close>

definition fetchDirectories :: "string \<Rightarrow> torrent_state \<Rightarrow> torrent_state" where
  "fetchDirectories path s = s\<lparr>dir_requests := dir_requests s @ [path]\<rparr>"

definition dir_request :: "string \<Rightarrow> string \<Rightarrow> request" where
  "dir_request tok path = authed_get tok (''/api/files/list?path='' @ encodeURIComponent path)"

text \<open>The body of a successful answer: the entries with their names and whether they are folders.\<close>

record dir_answer =
  d_files :: "(string \<times> bool) list option"
  d_path :: "string option"

definition directories_reply :: "nat \<Rightarrow> dir_answer option \<Rightarrow> torrent_state \<Rightarrow> torrent_state" where
  "directories_reply i r s =
     (let s1 = s\<lparr>dir_requests := take i (dir_requests s) @ drop (Suc i) (dir_requests s)\<rparr> in
      case r of None \<Rightarrow> s1
      | Some d \<Rightarrow> s1\<lparr>directories := map fst (filter snd (case d_files d of None \<Rightarrow> [] | Some fs \<Rightarrow> fs)),
            currentPath := (case d_path d of None \<Rightarrow> ''/'' | Some p \<Rightarrow> if p = [] then ''/'' else p)\<rparr>)"

definition openFolderPicker :: "picker_target \<Rightarrow> torrent_state \<Rightarrow> torrent_state" where
  "openFolderPicker target s =
     (let initialPath = (case target of PickForAdd \<Rightarrow> saveDir s | PickForSettings \<Rightarrow> opt_prop (config s) ''save_directory'')
      in (fetchDirectories (if truthy initialPath then js_string initialPath else currentPath s)
           (s\<lparr>folderPickerTarget := target\<rparr>))\<lparr>showFolderModal := True\<rparr>)"

definition handleDirUp :: "torrent_state \<Rightarrow> torrent_state" where
  "handleDirUp s = (if currentPath s = ''/'' \<or> currentPath s = [] then s
     else fetchDirectories (parent_path (currentPath s)) s)"

definition handleDirSelect :: "string \<Rightarrow> torrent_state \<Rightarrow> torrent_state" where
  "handleDirSelect name s = fetchDirectories (child_path (currentPath s) name) s"

definition confirm_folder :: "torrent_state \<Rightarrow> torrent_state" where
  "confirm_folder s = (let s1 = (case folderPickerTarget s of PickForAdd \<Rightarrow> s\<lparr>saveDir := JStr (currentPath s)\<rparr>
       | PickForSettings \<Rightarrow> put_config ''save_directory'' (JStr (currentPath s)) s) in s1\<lparr>showFolderModal := False\<rparr>)"

definition handleCreateDirectory :: torrent_action where
  "handleCreateDirectory = Get (\<lambda>c. if trim (newFolderName c) = [] then Done () else quietly
     (bind (page_fetch (post_json (token c) ''/api/files/create-folder''
         (JObj [(''parent_path'', JStr (currentPath c)), (''folder_name'', JStr (newFolderName c))]))) (\<lambda>(ok, b).
        if ok then set_state (\<lambda>s. fetchDirectories (currentPath c) (s\<lparr>newFolderName := [], showNewFolderInput := False\<rparr>))
        else bind (api_error b ''Unknown error'') (\<lambda>e.
          set_state (alert ''Directory Creation'' (JStr (''Failed: '' @ js_string e)))))))"

section \<open>The steps of adding\<close>

text \<open>\<open>setAddedInfoHash(h); setAddStep(st)\<close> in one batch, and the effect on both: its clean-up ends the polling of
  the last run, and it polls again where the new values ask for it.\<close>

definition to_step :: "add_step \<Rightarrow> jsv \<Rightarrow> torrent_state \<Rightarrow> torrent_state" where
  "to_step st h s =
     (if addStep s = st \<and> addedInfoHash s = h then s
      else let s1 = s\<lparr>addStep := st, addedInfoHash := h\<rparr> in
        if st = FetchingMetadata \<and> truthy h then s1\<lparr>poller := Some (pollers s, h), pollers := Suc (pollers s)\<rparr>
        else s1\<lparr>poller := None\<rparr>)"

definition handleSelectAllFiles :: "torrent_state \<Rightarrow> torrent_state" where
  "handleSelectAllFiles s = s\<lparr>selectedModalFileIndices :=
     (case modalFiles s of JArr fs \<Rightarrow> map (\<lambda>f. opt_prop f ''index'') fs | _ \<Rightarrow> [])\<rparr>"

definition handleDeselectAllFiles :: "torrent_state \<Rightarrow> torrent_state" where
  "handleDeselectAllFiles s = s\<lparr>selectedModalFileIndices := []\<rparr>"

definition toggle :: "'a \<Rightarrow> 'a list \<Rightarrow> 'a list" where
  "toggle x xs = (if x \<in> set xs then filter (\<lambda>y. y \<noteq> x) xs else xs @ [x])"

definition handleToggleModalFile :: "jsv \<Rightarrow> torrent_state \<Rightarrow> torrent_state" where
  "handleToggleModalFile i s = s\<lparr>selectedModalFileIndices := toggle i (selectedModalFileIndices s)\<rparr>"

definition handleCloseKeepBackground :: "torrent_state \<Rightarrow> torrent_state" where
  "handleCloseKeepBackground s = (to_step InputStep (JStr []) s)\<lparr>modalFiles := JArr [], selectedModalFileIndices := [],
     fileSearchQuery := [], selectFilesEnabled := False, sendToTelegram := False, showAddModal := False\<rparr>"

definition delete_command :: "jsv \<Rightarrow> bool \<Rightarrow> (string \<times> jsv) list" where
  "delete_command h with_files =
     [(''action'', JStr ''delete_torrent''), (''info_hash'', h), (''delete_files'', JBool with_files)]"

definition handleCancelAdd :: "torrent_state \<Rightarrow> torrent_state" where
  "handleCancelAdd s = handleCloseKeepBackground
     (if truthy (addedInfoHash s) then tell (delete_command (addedInfoHash s) True) s else s)"

definition resetAddForm :: "torrent_state \<Rightarrow> torrent_state" where
  "resetAddForm s = (to_step InputStep (addedInfoHash s) s)\<lparr>addTorrentFiles := [], magnetUri := [],
     selectFilesEnabled := False, sendToTelegram := False, addProgress := (0, 0), showAddModal := False\<rparr>"

definition resume_command :: "jsv \<Rightarrow> (string \<times> jsv) list" where
  "resume_command h = [(''action'', JStr ''resume_torrent''), (''info_hash'', h)]"

definition select_request :: "string \<Rightarrow> jsv \<Rightarrow> jsv list \<Rightarrow> request" where
  "select_request tok h indices = post_json tok ''/api/torrent/select-files''
     (JObj [(''info_hash'', h), (''selected_files'', JArr indices)])"

definition handleConfirmDownload :: torrent_action where
  "handleConfirmDownload = Get (\<lambda>c. if \<not> truthy (addedInfoHash c) then Done ()
     else finally_do (quietly
       (bind (page_fetch (select_request (token c) (addedInfoHash c) (selectedModalFileIndices c))) (\<lambda>(ok, b).
          if ok then set_state (tell (resume_command (addedInfoHash c))) else Done ())))
       handleCloseKeepBackground)"


section \<open>Adding torrents\<close>

text \<open>The fields of the form data; a file stands for its contents by its name.\<close>

definition flag :: "bool \<Rightarrow> jsv" where
  "flag b = JStr (if b then ''true'' else ''false'')"

definition file_request :: "torrent_state \<Rightarrow> bool \<Rightarrow> torrent_file \<Rightarrow> request" where
  "file_request c select f = http_send ''POST'' ''/api/torrent/add'' [auth_header (token c)]
     (Some (JObj [(''file'', JStr (tf_name f)), (''save_directory'', JStr (js_string (saveDir c))),
        (''select_files'', flag select), (''send_to_telegram'', flag (sendToTelegram c))]))"

definition magnet_request :: "torrent_state \<Rightarrow> bool \<Rightarrow> string \<Rightarrow> request" where
  "magnet_request c select m = post_json (token c) ''/api/torrent/add''
     (JObj [(''magnet_uri'', JStr m), (''save_directory'', saveDir c), (''select_files'', JBool select),
        (''send_to_telegram'', JBool (sendToTelegram c))])"

text \<open>The body of a successful answer to a single torrent.\<close>

definition added_one :: "bool \<Rightarrow> body \<Rightarrow> torrent_action" where
  "added_one select b = bind (read_json b) (\<lambda>data. bind (lift_res (get_prop data ''info_hash'')) (\<lambda>h.
     if truthy h then
       (if select then set_state (to_step FetchingMetadata h) else set_state resetAddForm)
     else set_state (\<lambda>s. alert ''Torrent Error'' (JStr ''Failed to add torrent: info hash missing'')
       (to_step InputStep (addedInfoHash s) s))))"

definition refused_one :: "body \<Rightarrow> torrent_action" where
  "refused_one b = bind (read_json b) (\<lambda>data. Set (\<lambda>s. to_step InputStep (addedInfoHash s) s)
     (bind (lift_res (get_prop data ''error'')) (\<lambda>e.
        set_state (alert ''Torrent Error'' (js_or e (JStr ''Failed to add torrent''))))))"

text \<open>One of several files: its message when it was not added. A body that does not parse counts as \<open>{}\<close>.\<close>

definition add_file :: "torrent_state \<Rightarrow> torrent_file \<Rightarrow> (torrent_state, string option) page_action" where
  "add_file c f = try_catch
     (bind (page_fetch (file_request c False f)) (\<lambda>(ok, b).
        if ok then Done None
        else bind (try_catch (read_json b) (\<lambda>_. Yield (Done (JObj [])))) (\<lambda>data.
          bind (lift_res (get_prop data ''error'')) (\<lambda>e.
            Done (Some (tf_name f @ '': '' @ js_string (js_or e (JStr ''unknown error''))))))))
     (\<lambda>_. Done (Some (tf_name f @ '': network error'')))"

definition bulk_report :: "nat \<Rightarrow> nat \<Rightarrow> string list \<Rightarrow> torrent_state \<Rightarrow> torrent_state" where
  "bulk_report n added failures =
     (if failures = [] then alert ''Bulk Add Complete''
        (JStr (''Added '' @ show_nat added @ '' torrent'' @ (if added = 1 then [] else ''s'') @ '' for download''))
      else alert ''Bulk Add Finished With Errors''
        (JStr (''Added '' @ show_nat added @ '' of '' @ show_nat n @ '' torrents. Failed: '' @
           join_with '', '' (take 3 failures) @
           (if 3 < length failures then '' +'' @ show_nat (length failures - 3) @ '' more'' else []))))"

text \<open>The loop over the files from number \<open>i\<close> on.\<close>

primrec add_files :: "torrent_state \<Rightarrow> torrent_file list \<Rightarrow> nat \<Rightarrow> nat \<Rightarrow> string list \<Rightarrow> torrent_action" where
  "add_files c [] i added failures =
     Set (bulk_report (length (addTorrentFiles c)) added failures) (set_state resetAddForm)"
| "add_files c (f # fs) i added failures =
     Set (\<lambda>s. s\<lparr>addProgress := (i + 1, length (addTorrentFiles c))\<rparr>)
       (bind (add_file c f) (\<lambda>failure. case failure of
            None \<Rightarrow> add_files c fs (i + 1) (added + 1) failures
          | Some msg \<Rightarrow> add_files c fs (i + 1) added (failures @ [msg])))"

text \<open>The loop over the magnet links. The result says whether it came to its end.\<close>

primrec add_magnets :: "torrent_state \<Rightarrow> bool \<Rightarrow> string list \<Rightarrow> (torrent_state, bool) page_action" where
  "add_magnets c bulk [] = Done True"
| "add_magnets c bulk (m # ms) =
     (let select = (if bulk then False else selectFilesEnabled c) in
      bind (page_fetch (magnet_request c select m)) (\<lambda>(ok, b).
        if ok then
          (if bulk then bind (read_json b) (\<lambda>_. add_magnets c bulk ms)
           else bind (added_one select b) (\<lambda>_. add_magnets c bulk ms))
        else if bulk then bind (read_json b) (\<lambda>data. bind (lift_res (get_prop data ''error'')) (\<lambda>_.
            add_magnets c bulk ms))
        else bind (refused_one b) (\<lambda>_. Done False)))"

definition network_error :: "torrent_state \<Rightarrow> torrent_state" where
  "network_error s = alert ''Network Error'' (JStr ''Network error adding torrent'') (to_step InputStep (addedInfoHash s) s)"

definition handleAddTorrent :: torrent_action where
  "handleAddTorrent = Get (\<lambda>c.
     if addTorrentFiles c = [] \<and> trim (magnetUri c) = [] then Done ()
     else Set (\<lambda>s. to_step Submitting (addedInfoHash s) s) (try_catch
       (case addTorrentFiles c of
          [f] \<Rightarrow> bind (page_fetch (file_request c (selectFilesEnabled c) f)) (\<lambda>(ok, b).
              if ok then added_one (selectFilesEnabled c) b else refused_one b)
        | f # g # fs \<Rightarrow> Set (\<lambda>s. s\<lparr>addProgress := (0, length (addTorrentFiles c))\<rparr>)
              (add_files c (addTorrentFiles c) 0 0 [])
        | [] \<Rightarrow> (let magnets = magnets_of (magnetUri c); bulk = 1 < length magnets in
              bind (add_magnets c bulk magnets) (\<lambda>ended.
                if ended \<and> bulk then set_state resetAddForm else Done ())))
       (\<lambda>_. set_state network_error)))"

text \<open>One poll of run \<open>n\<close> for the files of torrent \<open>h\<close>. The flag of the closure is looked at before the body is
  read and not afterwards.\<close>

definition poll :: "nat \<Rightarrow> jsv \<Rightarrow> torrent_action" where
  "poll n h = Get (\<lambda>c. quietly
     (bind (page_fetch (authed_get (token c) (''/api/torrent/files?info_hash='' @ js_string h))) (\<lambda>(ok, b).
        Get (\<lambda>s. if map_option fst (poller s) \<noteq> Some n then Done ()
          else if ok then bind (read_json b) (\<lambda>data.
            if truthy data \<and> opt_prop data ''status'' \<noteq> JStr ''fetching_metadata''
            then Set (\<lambda>s. s\<lparr>modalFiles := data\<rparr>)
              (bind (lift_res (as_array ''(data || [])'' ''map'' data)) (\<lambda>fs.
                bind (lift_res (map_res (\<lambda>f. get_prop f ''index'') fs)) (\<lambda>is.
                  set_state (\<lambda>s. to_step SelectFiles (addedInfoHash s) (s\<lparr>selectedModalFileIndices := is\<rparr>)))))
            else Done ())
          else Done ()))))"

text \<open>The form: typing a link drops the files, choosing files drops the links.\<close>

definition type_magnet :: "string \<Rightarrow> torrent_state \<Rightarrow> torrent_state" where
  "type_magnet v s = s\<lparr>magnetUri := v, addTorrentFiles := []\<rparr>"

definition pick_files :: "torrent_file list \<Rightarrow> torrent_state \<Rightarrow> torrent_state" where
  "pick_files chosen s = (let picked = torrent_files_of chosen in
     if picked \<noteq> [] then s\<lparr>addTorrentFiles := mergeTorrentFiles (addTorrentFiles s) picked, magnetUri := []\<rparr> else s)"

definition drop_files :: "torrent_file list \<Rightarrow> torrent_state \<Rightarrow> torrent_state" where
  "drop_files chosen s = (let dropped = torrent_files_of chosen in
     if dropped \<noteq> [] then s\<lparr>addTorrentFiles := mergeTorrentFiles (addTorrentFiles s) dropped, magnetUri := []\<rparr> else s)"

definition remove_file :: "nat \<Rightarrow> torrent_state \<Rightarrow> torrent_state" where
  "remove_file i s = s\<lparr>addTorrentFiles := take i (addTorrentFiles s) @ drop (Suc i) (addTorrentFiles s)\<rparr>"

section \<open>The list\<close>

definition handlePause :: "jsv \<Rightarrow> torrent_state \<Rightarrow> torrent_state" where
  "handlePause h = tell [(''action'', JStr ''pause_torrent''), (''info_hash'', h)]"

definition handleResume :: "jsv \<Rightarrow> torrent_state \<Rightarrow> torrent_state" where
  "handleResume h = tell (resume_command h)"

definition handleDeleteConfirm :: "torrent_state \<Rightarrow> torrent_state" where
  "handleDeleteConfirm s = (case torrentToDelete s of None \<Rightarrow> s
     | Some t \<Rightarrow> (tell (delete_command (hash_of t) (deleteFilesOption s)) s)\<lparr>torrentToDelete := None,
         deleteFilesOption := False\<rparr>)"

definition delete_record :: "jsv \<Rightarrow> torrent_state \<Rightarrow> torrent_state" where
  "delete_record t = tell (delete_command (hash_of t) False)"

definition toggleSelectTorrent :: "jsv \<Rightarrow> torrent_state \<Rightarrow> torrent_state" where
  "toggleSelectTorrent h s = s\<lparr>selectedTorrentHashes := toggle h (selectedTorrentHashes s)\<rparr>"

definition toggleSelectAllTorrents :: "torrent_state \<Rightarrow> torrent_state" where
  "toggleSelectAllTorrents s = s\<lparr>selectedTorrentHashes :=
     (if length (selectedTorrentHashes s) = length (torrent_list s) then [] else hashes s)\<rparr>"

text \<open>The effect on the list of torrents.\<close>

definition sync_selection :: "torrent_state \<Rightarrow> torrent_state" where
  "sync_selection s = (let next = filter (\<lambda>h. h \<in> set (hashes s)) (selectedTorrentHashes s) in
     if length next = length (selectedTorrentHashes s) then s else s\<lparr>selectedTorrentHashes := next\<rparr>)"

text \<open>The store changes, by a frame of the server or an event of its socket, and the effect follows.\<close>

definition jobs_changed :: "jobs_state \<Rightarrow> torrent_state \<Rightarrow> torrent_state" where
  "jobs_changed js s = sync_selection (s\<lparr>jobs := js\<rparr>)"

definition bulk_delete_request :: "torrent_state \<Rightarrow> request" where
  "bulk_delete_request c = (let deleteAll = (length (selectedTorrentHashes c) = length (torrent_list c)) in
     post_json (token c) ''/api/torrent/delete-all'' (JObj
       [(''info_hashes'', JArr (if deleteAll then [] else selectedTorrentHashes c)), (''delete_all'', JBool deleteAll),
        (''delete_files'', JBool (bulkDeleteFilesOption c))]))"

definition bulk_deleted :: "jsv \<Rightarrow> torrent_state \<Rightarrow> torrent_state" where
  "bulk_deleted v s = (let n = js_coalesce v (JNum 0);
       s1 = (if js_less (JNum 0) n then alert ''Delete Torrents'' (JStr (''Deleting '' @ js_string v @ '' torrent'' @
           (if v = JNum 1 then [] else ''s'') @ ''...'')) s else s)
     in s1\<lparr>showBulkDeleteModal := False, selectedTorrentHashes := [], bulkDeleteFilesOption := False\<rparr>)"

definition handleBulkDeleteConfirm :: torrent_action where
  "handleBulkDeleteConfirm = Get (\<lambda>c. if selectedTorrentHashes c = [] then Done ()
     else Set (\<lambda>s. s\<lparr>bulkDeleting := True\<rparr>) (finally_do (try_catch
       (bind (page_fetch (bulk_delete_request c)) (\<lambda>(ok, b).
          if ok then bind (read_json b) (\<lambda>data. bind (lift_res (get_prop data ''count'')) (\<lambda>n. set_state (bulk_deleted n)))
          else bind (api_error b ''Failed to delete torrents'') (\<lambda>e. set_state (alert ''Delete Torrents'' e))))
       (\<lambda>_. set_state (alert ''Delete Torrents'' (JStr ''Failed to delete torrents''))))
       (\<lambda>s. s\<lparr>bulkDeleting := False\<rparr>)))"

section \<open>The files of a torrent\<close>

definition fetchTorrentFiles :: "jsv \<Rightarrow> torrent_action" where
  "fetchTorrentFiles h = Get (\<lambda>c. Set (\<lambda>s. s\<lparr>loadingFiles := True\<rparr>) (finally_do (quietly
     (bind (page_fetch (authed_get (token c) (''/api/torrent/files?info_hash='' @ js_string h))) (\<lambda>(ok, b).
        if ok then bind (read_json b) (\<lambda>data. bind (lift_res (get_prop data ''status'')) (\<lambda>st.
          if st = JStr ''fetching_metadata'' then set_state (\<lambda>s. (alert ''Metadata Fetching''
            (JStr ''Torrent metadata is still fetching from peers. Please wait.'') s)\<lparr>selectedTorrent := None\<rparr>)
          else let fs = js_or data (JArr []) in Set (\<lambda>s. s\<lparr>torrentFiles := fs\<rparr>)
            (bind (lift_res (as_array ''(data || [])'' ''map'' fs)) (\<lambda>xs.
              bind (lift_res (map_res (\<lambda>f. get_prop f ''index'') xs)) (\<lambda>is.
                set_state (\<lambda>s. s\<lparr>selectedFileIndices := is\<rparr>))))))
        else Done ())))
     (\<lambda>s. s\<lparr>loadingFiles := False\<rparr>)))"

definition openFilesModal :: "jsv \<Rightarrow> torrent_action" where
  "openFilesModal t = Set (\<lambda>s. s\<lparr>selectedTorrent := Some t\<rparr>) (fetchTorrentFiles (hash_of t))"

definition handleToggleFileSelection :: "jsv \<Rightarrow> torrent_state \<Rightarrow> torrent_state" where
  "handleToggleFileSelection i s = s\<lparr>selectedFileIndices := toggle i (selectedFileIndices s)\<rparr>"

definition handleSaveFilePriorities :: torrent_action where
  "handleSaveFilePriorities = Get (\<lambda>c. case selectedTorrent c of None \<Rightarrow> Done ()
     | Some t \<Rightarrow> quietly (bind (page_fetch (select_request (token c) (hash_of t) (selectedFileIndices c))) (\<lambda>(ok, b).
         if ok then set_state (\<lambda>s. s\<lparr>selectedTorrent := None\<rparr>) else Done ())))"

section \<open>What is shown\<close>

definition currentPeers :: "torrent_state \<Rightarrow> jsv" where
  "currentPeers s = (case List.find (\<lambda>t. hash_of t = addedInfoHash s) (torrent_list s) of
       None \<Rightarrow> JNum 0 | Some t \<Rightarrow> opt_prop t ''peers'')"

definition filteredModalFiles :: "torrent_state \<Rightarrow> jsv list" where
  "filteredModalFiles s = filter (\<lambda>f. includes_str (to_lower (js_string (opt_prop f ''path''))) (to_lower (fileSearchQuery s)))
     (case modalFiles s of JArr fs \<Rightarrow> fs | _ \<Rightarrow> [])"

definition fileMissing :: "jsv \<Rightarrow> bool" where
  "fileMissing t \<longleftrightarrow> (opt_prop t ''status'' = JStr ''completed'' \<or> opt_prop t ''status'' = JStr ''seeding'') \<and>
     opt_prop t ''file_exists'' = JBool False"

definition showOverlay :: "jsv \<Rightarrow> torrent_state \<Rightarrow> bool" where
  "showOverlay t s \<longleftrightarrow> fileMissing t \<and> hoveredTorrentHash s = Some (hash_of t) \<and> hash_of t \<notin> set (dismissedOverlays s)"

definition mouse_left :: "jsv \<Rightarrow> torrent_state \<Rightarrow> torrent_state" where
  "mouse_left t s = s\<lparr>hoveredTorrentHash := None, dismissedOverlays := filter (\<lambda>h. h \<noteq> hash_of t) (dismissedOverlays s)\<rparr>"

definition dismiss :: "jsv \<Rightarrow> torrent_state \<Rightarrow> torrent_state" where
  "dismiss t s = s\<lparr>dismissedOverlays := hash_of t # dismissedOverlays s\<rparr>"

record bar_colours =
  outerCircleColor :: string
  trackBorderColor :: string
  lightningColor :: string

definition TorrentProgressBar :: "string \<Rightarrow> bar_colours" where
  "TorrentProgressBar st =
     (let isCompleted = (st = ''completed'' \<or> st = ''seeding''); isIdle = (st = ''paused'' \<or> st = ''queued'') in
      \<lparr>outerCircleColor = (if isCompleted then ''#166534'' else if isIdle then ''#374151'' else ''#ea580c''),
       trackBorderColor = (if isCompleted then ''#22c55e'' else if isIdle then ''#4b5563'' else ''#f97316''),
       lightningColor = (if isCompleted then ''#4ade80'' else if isIdle then ''#9ca3af'' else ''#38bdf8'')\<rparr>)"

end
