(* ===== verification/Torrent_Behaviour.thy ===== *)
theory Torrent_Behaviour
  imports Torrent_Page
begin

text \<open>
  The properties of the torrent page: adding several files, the selection and the bulk deletion; and the runs in
  which the page does not do what it means to.
\<close>

section \<open>Keys of files\<close>

lemma split_last_colon:
  assumes "CHR '':'' \<notin> set x" and "CHR '':'' \<notin> set y" and "a @ '':'' @ x = b @ '':'' @ y"
  shows "a = b \<and> x = y"
proof -
  have e: "rev x @ CHR '':'' # rev a = rev y @ CHR '':'' # rev b"
    using arg_cong [OF assms(3), of rev] by simp
  have "takeWhile (\<lambda>c. c \<noteq> CHR '':'') (rev z @ CHR '':'' # r) = rev z" if "CHR '':'' \<notin> set z" for z r
    using that by (subst takeWhile_append2) auto
  then have "rev x = rev y" using assms(1,2) e by metis
  with e show ?thesis by simp
qed

lemma no_colon: "CHR '':'' \<notin> set (show_int n)" "CHR '':'' \<notin> set (show_nat k)"
  using show_int_chars [of "CHR '':''" n] show_nat_chars [of "CHR '':''" k] by (auto simp: is_digit_def)

lemma file_key_inj: "file_key f = file_key g \<longleftrightarrow> f = g"
proof
  assume k: "file_key f = file_key g"
  have a: "(tf_name f @ '':'' @ show_nat (tf_size f)) @ '':'' @ show_int (tf_modified f) =
      (tf_name g @ '':'' @ show_nat (tf_size g)) @ '':'' @ show_int (tf_modified g)"
    using k by (simp add: file_key_def)
  from split_last_colon [OF no_colon(1) no_colon(1) a]
  have b: "tf_name f @ '':'' @ show_nat (tf_size f) = tf_name g @ '':'' @ show_nat (tf_size g)"
    and m: "show_int (tf_modified f) = show_int (tf_modified g)" by simp_all
  from split_last_colon [OF no_colon(2) no_colon(2) b]
  have n: "tf_name f = tf_name g" and z: "show_nat (tf_size f) = show_nat (tf_size g)" by simp_all
  have "tf_size f = tf_size g" using z show_nat_digits by metis
  moreover have "tf_modified f = tf_modified g" using m parse_show_int by (metis option.inject)
  ultimately show "f = g" using n by simp
qed simp

lemma merge_fold:
  assumes "set seen = file_key ` set merged" and "distinct merged"
  shows "distinct (snd (fold merge_one fs (seen, merged))) \<and>
    set (snd (fold merge_one fs (seen, merged))) = set merged \<union> set fs \<and>
    (\<exists>rest. snd (fold merge_one fs (seen, merged)) = merged @ rest)"
  using assms
proof (induction fs arbitrary: seen merged)
  case (Cons f fs)
  show ?case
  proof (cases "f \<in> set merged")
    case True
    then have "merge_one f (seen, merged) = (seen, merged)" using Cons.prems by (simp add: merge_one_def)
    then show ?thesis using Cons.IH [OF Cons.prems] True by auto
  next
    case False
    then have "file_key f \<notin> set seen" using Cons.prems by (auto simp: file_key_inj)
    then have m: "merge_one f (seen, merged) = (file_key f # seen, merged @ [f])" by (simp add: merge_one_def)
    show ?thesis using Cons.IH [of "file_key f # seen" "merged @ [f]"] Cons.prems False by (auto simp: m)
  qed
qed simp

lemma mergeTorrentFiles_once:
  assumes "distinct current"
  shows "distinct (mergeTorrentFiles current incoming)" "set (mergeTorrentFiles current incoming) = set current \<union> set incoming"
    "\<exists>rest. mergeTorrentFiles current incoming = current @ rest"
  using merge_fold [of "map file_key current" current incoming] assms by (simp_all add: mergeTorrentFiles_def)

section \<open>Adding several files\<close>

text \<open>The message for a file, as its answer decides.\<close>

fun failure_of :: "torrent_file \<Rightarrow> reply \<Rightarrow> string option" where
  "failure_of f (Rejected e) = Some (tf_name f @ '': network error'')"
| "failure_of f (Response True b) = None"
| "failure_of f (Response False (JsonBad e)) = Some (tf_name f @ '': unknown error'')"
| "failure_of f (Response False (JsonOk v)) = Some (tf_name f @ '': '' @ (case get_prop v ''error'' of
       Inl e \<Rightarrow> ''network error'' | Inr x \<Rightarrow> js_string (js_or x (JStr ''unknown error''))))"

definition failures_of :: "torrent_file list \<Rightarrow> reply list \<Rightarrow> string list" where
  "failures_of fs rs = List.map_filter (\<lambda>(f, r). failure_of f r) (zip fs rs)"

lemma run_add_file:
  "run (add_file c f) (Replied r # rs) s = ([Http (file_request c False f)], Returned (failure_of f r), s, rs)"
proof (cases r)
  case (Response ok b)
  then show ?thesis
    by (cases ok; cases b)
      (auto simp: add_file_def page_fetch_def run_try_catch run_bind read_json_def lift_res_def js_or_def obj_get_def split: sum.splits)
qed (simp add: add_file_def page_fetch_def run_try_catch run_bind)

lemma progress_commutes:
  "to_step st h (s\<lparr>addProgress := p\<rparr>) = (to_step st h s)\<lparr>addProgress := p\<rparr>"
  "alert title msg (s\<lparr>addProgress := p\<rparr>) = (alert title msg s)\<lparr>addProgress := p\<rparr>"
  by (simp_all add: to_step_def alert_def Let_def)

lemma reset_progress [simp]: "resetAddForm (bulk_report n k ms (s\<lparr>addProgress := p\<rparr>)) = resetAddForm (bulk_report n k ms s)"
proof -
  have "bulk_report n k ms (s\<lparr>addProgress := p\<rparr>) = (bulk_report n k ms s)\<lparr>addProgress := p\<rparr>"
    by (simp add: bulk_report_def progress_commutes)
  moreover have "resetAddForm (s\<lparr>addProgress := p\<rparr>) = resetAddForm s" for s
    unfolding resetAddForm_def by (simp add: progress_commutes)
  ultimately show ?thesis by simp
qed

lemma run_add_files:
  assumes "length rs = length fs"
  shows "run (add_files c fs i added failures) (map Replied rs @ rest) s =
    (map (Http \<circ> file_request c False) fs, Returned (),
      resetAddForm (bulk_report (length (addTorrentFiles c)) (added + (length fs - length (failures_of fs rs)))
        (failures @ failures_of fs rs) s), rest)"
  using assms
proof (induction fs arbitrary: rs i added failures s)
  case Nil
  then show ?case by (simp add: failures_of_def map_filter_simps)
next
  case (Cons f fs)
  then obtain r rs' where rs: "rs = r # rs'" "length rs' = length fs" by (cases rs) auto
  have "length (failures_of fs rs') \<le> length (zip fs rs')"
    unfolding failures_of_def List.map_filter_def length_map by (rule length_filter_le)
  then have le: "length (failures_of fs rs') \<le> length fs" using rs(2) by simp
  have step: "failures_of (f # fs) rs = (case failure_of f r of None \<Rightarrow> failures_of fs rs' | Some m \<Rightarrow> m # failures_of fs rs')"
    by (cases "failure_of f r") (simp_all add: failures_of_def rs(1) map_filter_simps)
  show ?case
    using Cons.IH [OF rs(2)] le
    by (cases "failure_of f r") (simp_all add: rs(1) step [unfolded rs(1)] run_bind run_add_file Suc_diff_le)
qed

lemma to_step_fields [simp]:
  "magnetUri (to_step st h s) = magnetUri s" "addTorrentFiles (to_step st h s) = addTorrentFiles s"
  "alerts (to_step st h s) = alerts s" "showAddModal (to_step st h s) = showAddModal s" "jobs (to_step st h s) = jobs s"
  "addStep (to_step st h s) = st" "addedInfoHash (to_step st h s) = h"
  by (auto simp: to_step_def Let_def)


definition two_chosen :: torrent_state where
  "two_chosen = (init_torrents ''t'' (init_jobs ''https:'' ''h''))\<lparr>addTorrentFiles :=
     [\<lparr>tf_name = ''a.torrent'', tf_size = 1, tf_modified = 0\<rparr>, \<lparr>tf_name = ''b.torrent'', tf_size = 2, tf_modified = 0\<rparr>]\<rparr>"


section \<open>Selection\<close>

text \<open>What changes the list or the selection: a box of the list, the box above it, another list from the store
  (in which each torrent is listed once), and the end of a bulk deletion.\<close>

inductive selection_ev :: "torrent_state \<Rightarrow> torrent_state \<Rightarrow> bool" where
  box: "h \<in> set (hashes s) \<Longrightarrow> selection_ev s (toggleSelectTorrent h s)"
| all: "selection_ev s (toggleSelectAllTorrents s)"
| listed: "distinct (hashes (s\<lparr>jobs := js\<rparr>)) \<Longrightarrow> selection_ev s (jobs_changed js s)"
| deleted: "selection_ev s (bulk_deleted n s)"

definition selection_inv :: "torrent_state \<Rightarrow> bool" where
  "selection_inv s \<longleftrightarrow> distinct (hashes s) \<and> distinct (selectedTorrentHashes s) \<and>
     set (selectedTorrentHashes s) \<subseteq> set (hashes s)"

lemma hashes_fields [simp]:
  "hashes (s\<lparr>selectedTorrentHashes := xs\<rparr>) = hashes s"
  "hashes (s\<lparr>showBulkDeleteModal := b, selectedTorrentHashes := xs, bulkDeleteFilesOption := c\<rparr>) = hashes s"
  "hashes (alert title msg s) = hashes s" "hashes (sync_selection s) = hashes s"
  by (simp_all add: hashes_def torrent_list_def alert_def sync_selection_def Let_def)

lemma sync_selection_eq:
  "selectedTorrentHashes (sync_selection s) = filter (\<lambda>h. h \<in> set (hashes s)) (selectedTorrentHashes s)"
  by (simp add: sync_selection_def Let_def) (metis filter_id_conv length_filter_less less_irrefl)

lemma selection_inv_step: "selection_ev s t \<Longrightarrow> selection_inv s \<Longrightarrow> selection_inv t"
proof (induction rule: selection_ev.induct)
  case (listed s js)
  then show ?case by (auto simp: jobs_changed_def selection_inv_def sync_selection_eq)
qed (auto simp: selection_inv_def toggleSelectTorrent_def toggle_def toggleSelectAllTorrents_def bulk_deleted_def Let_def)

lemma all_selected:
  assumes "selection_inv s"
  shows "length (selectedTorrentHashes s) = length (torrent_list s) \<longleftrightarrow> set (selectedTorrentHashes s) = set (hashes s)"
proof -
  have "length (torrent_list s) = card (set (hashes s))" "length (selectedTorrentHashes s) = card (set (selectedTorrentHashes s))"
    using assms distinct_card [of "hashes s"] distinct_card [of "selectedTorrentHashes s"]
    by (simp_all add: selection_inv_def hashes_def)
  then show ?thesis using assms card_subset_eq [of "set (hashes s)" "set (selectedTorrentHashes s)"]
    by (auto simp: selection_inv_def)
qed

text \<open>C29: A bulk deletion asks for what is ticked, and nothing else. However boxes are ticked while the server
  changes the list, the selection holds torrents of the list only, each once; so the request asks for all torrents
  exactly when all of the list are ticked, and otherwise names the ticked ones; nothing is sent when none is.\<close>

theorem bulk_delete_names_selection:
  assumes "selection_ev\<^sup>*\<^sup>* (init_torrents tok (init_jobs proto h)) s"
  shows "distinct (selectedTorrentHashes s) \<and> set (selectedTorrentHashes s) \<subseteq> set (hashes s) \<and>
    requests handleBulkDeleteConfirm rs s =
      (if selectedTorrentHashes s = [] then []
       else [Http (post_json (token s) ''/api/torrent/delete-all'' (JObj
         (let everything = (set (selectedTorrentHashes s) = set (hashes s)) in
          [(''info_hashes'', JArr (if everything then [] else selectedTorrentHashes s)), (''delete_all'', JBool everything),
           (''delete_files'', JBool (bulkDeleteFilesOption s))])))])"
proof -
  have "selection_inv (init_torrents tok (init_jobs proto h))"
    by (simp add: selection_inv_def hashes_def torrent_list_def init_torrents_def init_jobs_def)
  with assms have inv: "selection_inv s" by (rule reach_invariant) (rule selection_inv_step)
  have "requests handleBulkDeleteConfirm rs s =
      (if selectedTorrentHashes s = [] then [] else [Http (bulk_delete_request s)])"
    by (cases rs) (auto simp: requests_def handleBulkDeleteConfirm_def run_finally run_try_catch run_bind page_fetch_def
        read_json_def api_error_def lift_res_def split: answer.splits reply.splits body.splits sum.splits prod.splits)
  then show ?thesis
    using inv all_selected [OF inv] by (simp add: selection_inv_def bulk_delete_request_def Let_def)
qed

definition listed_store :: jobs_state where
  "listed_store = (init_jobs ''https:'' ''h'')\<lparr>torrents := JArr [JObj [(''info_hash'', JStr ''x'')], JObj [(''info_hash'', JStr ''y'')]]\<rparr>"

theorem bulk_delete_names_selection_witness:
  "set (selectedTorrentHashes (toggleSelectTorrent (JStr ''y'') (jobs_changed listed_store (init_torrents ''t'' (init_jobs ''https:'' ''h''))))) \<subseteq>
   {JStr ''x'', JStr ''y''}"
proof -
  let ?s0 = "init_torrents ''t'' (init_jobs ''https:'' ''h'')"
  have h: "hashes (s\<lparr>jobs := listed_store\<rparr>) = [JStr ''x'', JStr ''y'']" for s
    by (simp add: hashes_def torrent_list_def listed_store_def hash_of_def opt_prop_def obj_get_def)
  have h2: "hashes (jobs_changed listed_store s) = [JStr ''x'', JStr ''y'']" for s by (simp add: jobs_changed_def h)
  have h3: "hashes (toggleSelectTorrent x s) = hashes s" for x s by (simp add: toggleSelectTorrent_def)
  have "selection_ev\<^sup>*\<^sup>* ?s0 (toggleSelectTorrent (JStr ''y'') (jobs_changed listed_store ?s0))"
    by (rule run_steps2, rule selection_ev.listed [where js = listed_store], simp add: h, rule selection_ev.box, simp add: h2)
  from bulk_delete_names_selection [OF this] show ?thesis by (simp add: h3 h2)
qed

section \<open>What goes wrong\<close>

text \<open>Cancelling while the torrent is being sent closes the form, but the answer reopens its step behind it: the
  page goes on asking for the files of a torrent that nobody waits for.\<close>

lemma cancelled_add_comes_back:
  assumes "h \<noteq> []"
  shows "(let s' = final (added_one True (JsonOk (JObj [(''info_hash'', JStr h)]))) [] (handleCancelAdd s) in
    \<not> showAddModal s' \<and> addStep s' = FetchingMetadata \<and> poller s' \<noteq> None)"
proof -
  have "addStep (handleCancelAdd s) = InputStep" "showAddModal (handleCancelAdd s) = False"
    by (simp_all add: handleCancelAdd_def handleCloseKeepBackground_def)
  then show ?thesis
    using assms by (simp add: added_one_def final_def run_bind read_json_def lift_res_def obj_get_def to_step_def Let_def)
qed

text \<open>A poll looks at its flag before it reads the body: a cancellation in between leaves the closed form at the
  step of choosing files, with no torrent to choose them for.\<close>

lemma poll_after_cancel:
  "addStep (final (poll n h) [Replied (Response True (JsonOk (JArr [])))] (s\<lparr>poller := Some (n, h)\<rparr>)) = SelectFiles"
  "\<exists>rest. (case poll n h of Get g \<Rightarrow> (case g c of Await q k \<Rightarrow>
       turn (k (Replied (Response True (JsonOk (JArr []))))) (s\<lparr>poller := Some (n, h)\<rparr>) = (rest, s\<lparr>poller := Some (n, h)\<rparr>) | _ \<Rightarrow> False)
     | _ \<Rightarrow> False) \<and>
     addStep (final rest [] (handleCancelAdd t)) = SelectFiles \<and> \<not> showAddModal (final rest [] (handleCancelAdd t)) \<and>
     addedInfoHash (final rest [] (handleCancelAdd t)) = JStr []"
proof -
  show "addStep (final (poll n h) [Replied (Response True (JsonOk (JArr [])))] (s\<lparr>poller := Some (n, h)\<rparr>)) = SelectFiles"
    by (simp add: poll_def quietly_def final_def run_try_catch run_bind page_fetch_def read_json_def lift_res_def opt_prop_def)
  let ?rest = "Yield (try_catch (bind (Done (JArr [])) (\<lambda>data.
      if truthy data \<and> opt_prop data ''status'' \<noteq> JStr ''fetching_metadata''
      then Set (\<lambda>s. s\<lparr>modalFiles := data\<rparr>)
        (bind (lift_res (as_array ''(data || [])'' ''map'' data)) (\<lambda>fs.
          bind (lift_res (map_res (\<lambda>f. get_prop f ''index'') fs)) (\<lambda>is.
            set_state (\<lambda>s. to_step SelectFiles (addedInfoHash s) (s\<lparr>selectedModalFileIndices := is\<rparr>)))))
      else Done ())) (\<lambda>_. Done ()))"
  have "addedInfoHash (handleCancelAdd t) = JStr []" "showAddModal (handleCancelAdd t) = False"
    by (simp_all add: handleCancelAdd_def handleCloseKeepBackground_def)
  then show "\<exists>rest. (case poll n h of Get g \<Rightarrow> (case g c of Await q k \<Rightarrow>
       turn (k (Replied (Response True (JsonOk (JArr []))))) (s\<lparr>poller := Some (n, h)\<rparr>) = (rest, s\<lparr>poller := Some (n, h)\<rparr>) | _ \<Rightarrow> False)
     | _ \<Rightarrow> False) \<and>
     addStep (final rest [] (handleCancelAdd t)) = SelectFiles \<and> \<not> showAddModal (final rest [] (handleCancelAdd t)) \<and>
     addedInfoHash (final rest [] (handleCancelAdd t)) = JStr []"
    by (intro exI [of _ ?rest])
      (simp add: poll_def quietly_def page_fetch_def read_json_def final_def lift_res_def opt_prop_def)
qed

text \<open>A refused choice of files is not reported: the torrent is not resumed and the form closes. A link whose
  torrent was confirmed stays in the text field.\<close>

lemma refused_selection_silent:
  assumes "truthy (addedInfoHash c)"
  shows "(let s' = final handleConfirmDownload [Replied (Response False b)] c in
    \<not> showAddModal s' \<and> jobs s' = jobs c \<and> alerts s' = alerts c)"
  using assms
  by (simp add: handleConfirmDownload_def final_def quietly_def run_finally run_try_catch run_bind page_fetch_def
      handleCloseKeepBackground_def)

lemma confirmed_magnet_stays:
  assumes "truthy (addedInfoHash c)"
  shows "magnetUri (final handleConfirmDownload [Replied (Response True b)] c) = magnetUri c"
  using assms
  by (simp add: handleConfirmDownload_def final_def quietly_def run_finally run_try_catch run_bind page_fetch_def
      handleCloseKeepBackground_def tell_def)

text \<open>Several links that the server refuses: the form closes without a word. One answer that does not parse ends
  the loop, and the links after it are not tried.\<close>

lemma refused_magnets_silent:
  assumes "addTorrentFiles c = []" and "magnets_of (magnetUri c) = [m1, m2]" and "trim (magnetUri c) \<noteq> []"
  shows "(let s' = final handleAddTorrent [Replied (Response False (JsonOk (JObj []))), Replied (Response False (JsonOk (JObj [])))] c in
    alerts s' = alerts c \<and> magnetUri s' = [] \<and> \<not> showAddModal s')"
  using assms
  by (simp add: handleAddTorrent_def final_def run_try_catch run_bind page_fetch_def read_json_def lift_res_def
      resetAddForm_def obj_get_def)

lemma unparsed_answer_ends_bulk:
  assumes "addTorrentFiles c = []" and "magnets_of (magnetUri c) = [m1, m2]" and "trim (magnetUri c) \<noteq> []"
  shows "requests handleAddTorrent (Replied (Response True (JsonBad e)) # rs) c = [Http (magnet_request c False m1)]"
  using assms
  by (simp add: handleAddTorrent_def requests_def run_try_catch run_bind page_fetch_def read_json_def)

text \<open>The files of a torrent whose dialog was left arrive under the next one: saving then names files by the
  numbers of the former.\<close>

lemma late_files_reply:
  assumes "get_prop f ''index'' = Inr i"
  shows "(let s' = final (fetchTorrentFiles h) [Replied (Response True (JsonOk (JArr [f])))] (s\<lparr>selectedTorrent := Some t\<rparr>) in
    selectedTorrent s' = Some t \<and> torrentFiles s' = JArr [f] \<and> selectedFileIndices s' = [i])"
  using assms
  by (simp add: fetchTorrentFiles_def quietly_def final_def run_finally run_try_catch run_bind page_fetch_def read_json_def
      lift_res_def js_or_def)

text \<open>A deletion that is confirmed while the store's socket is down is lost, and the dialog closes as if it were done.\<close>

lemma lost_delete_command:
  assumes "ws (jobs s) = None"
  shows "jobs (handleDeleteConfirm s) = jobs s \<and> torrentToDelete (handleDeleteConfirm s) = None"
  using assms by (auto simp: handleDeleteConfirm_def tell_def sendAction_def split: option.splits)

end
