(* ===== verification/DNS_Page.thy ===== *)
theory DNS_Page
  imports DNS_Store Sorting_JS Page JSON
begin

text \<open>
  The page of the DNS tester (\<open>web/client/src/pages/dns-tester/DNSTesterPage.tsx\<close> and its modals) over the
  model of its store. Its socket belongs to an effect on the sweep: whenever the sweep starts or ends the page
  closes the socket and opens another. Requests that nobody awaits are counted, and their answers are events.
  Resolvers are the objects of the store, whose texts are texts; numbers may be anything.
\<close>

section \<open>State\<close>

record dns_filters =
  search :: string
  categoryFilter :: string
  protocolFilter :: string
  filterMinLatency :: "rat option"
  filterMaxLatency :: "rat option"
  filterMinSuccessRate :: "rat option"
  filterCensorship :: string
  filterDNSSEC :: string
  filterRebinding :: string
  filterISP :: string
  filterCountry :: string
  filterCDN :: string

text \<open>The three number fields hold what \<open>parseFloat\<close> reads in them, \<open>None\<close> for an empty field and for \<open>NaN\<close>, neither
  of which filters.\<close>

definition no_filters :: dns_filters where
  "no_filters = \<lparr>search = [], categoryFilter = ''ALL'', protocolFilter = ''ALL'', filterMinLatency = None,
     filterMaxLatency = None, filterMinSuccessRate = None, filterCensorship = ''ALL'', filterDNSSEC = ''ALL'',
     filterRebinding = ''ALL'', filterISP = [], filterCountry = [], filterCDN = ''ALL''\<rparr>"

record sweep_settings =
  concurrencyLimit :: jsv
  timeoutMs :: jsv
  attempts :: jsv
  cacheBusting :: bool
  referenceDomain :: jsv
  selectedProtocols :: "string list"
  queryTypes :: "string list"
  dnsClass :: jsv
  queryGenerator :: jsv
  domainSource :: jsv
  customDomains :: string
  wordlistURL :: jsv
  expectResponse :: jsv

definition default_settings :: sweep_settings where
  "default_settings = \<lparr>concurrencyLimit = JNum 10, timeoutMs = JNum 2000, attempts = JNum 2, cacheBusting = True,
     referenceDomain = JStr ''google.com'', selectedProtocols = [''udp'', ''tcp'', ''dot'', ''doh''], queryTypes = [''A''],
     dnsClass = JStr ''IN'', queryGenerator = JStr ''random'', domainSource = JStr ''default'', customDomains = [],
     wordlistURL = JStr [], expectResponse = JStr []\<rparr>"

record custom_form =
  customIP :: string
  customProvider :: string
  customProtocol :: string
  customCategory :: string
  bulkText :: string
  bulkFile :: "string option"
  isImporting :: bool
  showAddModal :: bool

record test_form =
  advancedTestResolverKey :: "string option"
  advDomain :: string
  advQueryType :: string
  advDNSClass :: string
  advTimeout :: jsv
  advAttempts :: jsv
  advCacheBusting :: bool
  advExpectResponse :: string
  isTestingSingle :: bool
  singleTestResult :: "jsv option"
  singleTestError :: "string option"
  showAdvancedTestModal :: bool

record probe_form =
  traceResolverKey :: "string option"
  traceSteps :: jsv
  isTracing :: bool
  showTraceModal :: bool
  axfrResolverKey :: "string option"
  axfrResult :: jsv
  isTestingAXFR :: bool
  showAXFRModal :: bool

record dns_page =
  token :: string
  local_store :: storage
  page_protocol :: string
  page_host :: string
  dns :: dns_state
  ws :: "nat option"
  sockets :: "socket list"
  sent :: "(nat \<times> jsv) list"
  sweepStartTime :: "rat option"
  elapsedMs :: rat
  ticking :: bool
  filters :: dns_filters
  sortBy :: string
  sortAsc :: bool
  selectedKeys :: "string list"
  toastMessage :: "(string \<times> string) option"
  toast_timers :: nat
  settings :: sweep_settings
  custom :: custom_form
  test :: test_form
  probe :: probe_form
  selectedPublicSource :: string
  isFetchingPublic :: bool
  fetchPublicResult :: "jsv option"
  list_requests :: nat
  config_requests :: nat
  progress_requests :: nat
  copied :: "string list"
  exported :: "string list"

definition init_dns_page :: "string \<Rightarrow> storage \<Rightarrow> string \<Rightarrow> string \<Rightarrow> dns_state \<Rightarrow> dns_page" where
  "init_dns_page tok st proto h d = \<lparr>token = tok, local_store = st, page_protocol = proto, page_host = h, dns = d, ws = None,
     sockets = [], sent = [], sweepStartTime = None, elapsedMs = 0, ticking = False, filters = no_filters,
     sortBy = ''clever_score'', sortAsc = False, selectedKeys = [], toastMessage = None, toast_timers = 0,
     settings = default_settings,
     custom = \<lparr>customIP = [], customProvider = [], customProtocol = ''udp'', customCategory = ''custom'', bulkText = [],
       bulkFile = None, isImporting = False, showAddModal = False\<rparr>,
     test = \<lparr>advancedTestResolverKey = None, advDomain = ''google.com'', advQueryType = ''A'', advDNSClass = ''IN'',
       advTimeout = JNum 2000, advAttempts = JNum 2, advCacheBusting = True, advExpectResponse = [], isTestingSingle = False,
       singleTestResult = None, singleTestError = None, showAdvancedTestModal = False\<rparr>,
     probe = \<lparr>traceResolverKey = None, traceSteps = JArr [], isTracing = False, showTraceModal = False,
       axfrResolverKey = None, axfrResult = JNull, isTestingAXFR = False, showAXFRModal = False\<rparr>,
     selectedPublicSource = ''curated'', isFetchingPublic = False, fetchPublicResult = None, list_requests = 0,
     config_requests = 0, progress_requests = 0, copied = [], exported = []\<rparr>"

definition activeToken :: "dns_page \<Rightarrow> string" where
  "activeToken s = (if token s \<noteq> [] then token s else get_item_or (local_store s) ''cc_client_token'' [])"

text \<open>The message with its kind, and a timer that takes down whatever message is there when it fires.\<close>

definition triggerToast :: "string \<Rightarrow> string \<Rightarrow> dns_page \<Rightarrow> dns_page" where
  "triggerToast msg kind s = s\<lparr>toastMessage := Some (msg, kind), toast_timers := Suc (toast_timers s)\<rparr>"

definition toast_over :: "dns_page \<Rightarrow> dns_page" where
  "toast_over s = (if toast_timers s = 0 then s else s\<lparr>toastMessage := None, toast_timers := toast_timers s - 1\<rparr>)"

section \<open>The socket\<close>

definition open_socket :: "dns_page \<Rightarrow> dns_page" where
  "open_socket s = s\<lparr>ws := Some (length (sockets s)),
     sockets := sockets s @ [new_socket (ws_url (page_protocol s) (page_host s) ''/ws'' (activeToken s))]\<rparr>"

definition close_own :: "dns_page \<Rightarrow> dns_page" where
  "close_own s = (case ws s of None \<Rightarrow> s | Some i \<Rightarrow> s\<lparr>sockets := close_socket i (sockets s)\<rparr>)"

text \<open>The two effects on \<open>[isSweeping, sweepStartTime]\<close>.\<close>

definition timer_effect :: "dns_page \<Rightarrow> dns_page" where
  "timer_effect s = (if truthy (isSweeping (dns s)) \<and> sweepStartTime s \<noteq> None \<and> sweepStartTime s \<noteq> Some 0
     then s\<lparr>ticking := True\<rparr> else s\<lparr>ticking := False, elapsedMs := 0\<rparr>)"

definition effects :: "dns_page \<Rightarrow> dns_page \<Rightarrow> dns_page" where
  "effects old s = (if isSweeping (dns s) = isSweeping (dns old) \<and> sweepStartTime s = sweepStartTime old then s
     else timer_effect (open_socket (close_own s)))"

definition tick :: "rat \<Rightarrow> dns_page \<Rightarrow> dns_page" where
  "tick now s = (case sweepStartTime s of Some t \<Rightarrow> if ticking s then s\<lparr>elapsedMs := now - t\<rparr> else s | None \<Rightarrow> s)"

text \<open>Sending on an open socket; a message of the handler for socket \<open>i\<close>.\<close>

definition send :: "nat \<Rightarrow> jsv \<Rightarrow> dns_page \<Rightarrow> dns_page" where
  "send i v s = (if ready_of (sockets s) i = OPEN then s\<lparr>sent := sent s @ [(i, v)]\<rparr> else s)"

definition ask_socket :: "string \<Rightarrow> (string \<times> jsv) list \<Rightarrow> nat \<Rightarrow> dns_page \<Rightarrow> dns_page" where
  "ask_socket kind data i = send i (JObj [(''type'', JStr kind), (''data'', JObj data)])"

definition onopen :: "nat \<Rightarrow> dns_page \<Rightarrow> dns_page" where
  "onopen = ask_socket ''dns:telemetry'' []"

definition fetchResolversList :: "dns_page \<Rightarrow> dns_page" where
  "fetchResolversList s = s\<lparr>list_requests := Suc (list_requests s)\<rparr>"

definition fetchTesterConfig :: "dns_page \<Rightarrow> dns_page" where
  "fetchTesterConfig s = s\<lparr>config_requests := Suc (config_requests s)\<rparr>"

definition fetchBulkProgress :: "dns_page \<Rightarrow> dns_page" where
  "fetchBulkProgress s = s\<lparr>progress_requests := Suc (progress_requests s)\<rparr>"

text \<open>One measured resolver of a frame, as an update of the store.\<close>

definition candidate_fields :: "jsv \<Rightarrow> obj" where
  "candidate_fields res = (let p = opt_prop res; c = p ''censorship'' in
     [(''latency_ms'', p ''latency_ms''), (''jitter_ms'', p ''jitter_ms''),
      (''success_rate'', div_num (p ''success_rate_pct'') 100), (''packet_loss'', p ''packet_loss_pct''),
      (''censored'', JBool (c = JStr ''manipulated'' \<or> c = JStr ''sinkhole'')),
      (''nxdomain_hijacked'', JBool (c = JStr ''hijacked'')), (''censorship_status'', c),
      (''dnssec_valid'', p ''dnssec_valid''), (''dns_rebinding_vuln'', p ''dns_rebinding_vuln''),
      (''query_type'', p ''query_type''), (''dns_class'', p ''dns_class''), (''domain'', p ''domain''),
      (''clever_score'', p ''clever_score''), (''completed_at'', p ''checked_at''), (''error_message'', p ''error''),
      (''is_testing'', JBool False), (''resolved_ip'', p ''resolved_ip''), (''country_code'', p ''country_code''),
      (''country_name'', p ''country_name''), (''city'', p ''city''), (''isp'', p ''isp''), (''is_cdn'', p ''is_cdn''),
      (''cdn_provider'', p ''cdn_provider''), (''expected_match'', JBool (p ''expected_match'' \<noteq> JBool False))])"

definition candidate_update :: "jsv \<Rightarrow> (string \<times> obj) res" where
  "candidate_update res = (case get_prop res ''ip'' of Inl e \<Rightarrow> Inl e
     | Inr a \<Rightarrow> Inr (getResolverKey (js_string a) (js_string (opt_prop res ''protocol'')), candidate_fields res))"

text \<open>\<open>updates[key] = ...\<close> for each: an object, in the order of first insertion.\<close>

definition updates_of :: "(string \<times> obj) list \<Rightarrow> (string \<times> obj) list" where
  "updates_of us = fold (\<lambda>(k, d). AList.update k d) us []"

definition take_candidates :: "jsv \<Rightarrow> dns_page \<Rightarrow> dns_page" where
  "take_candidates data s = (case map_res candidate_update (case data of JArr xs \<Rightarrow> xs | v \<Rightarrow> [v]) of
       Inl e \<Rightarrow> s | Inr us \<Rightarrow> s\<lparr>dns := updateResolversBulk (updates_of us) (dns s)\<rparr>)"

definition take_stats :: "rat \<Rightarrow> jsv \<Rightarrow> dns_page \<Rightarrow> dns_page" where
  "take_stats now raw s = (let p = opt_prop raw; active = (p ''phase'' = JStr ''benchmark_sweep'');
       d = setJobStats (Some [(''total_resolvers'', js_or (p ''total_targets'') (JNum 0)),
         (''processed_resolvers'', js_or (p ''tested'') (JNum 0)), (''successful_resolvers'', js_or (p ''healthy'') (JNum 0)),
         (''failed_resolvers'', js_or (p ''failed'') (JNum 0)), (''in_flight_resolvers'', js_or (p ''in_flight'') (JNum 0)),
         (''is_active'', JBool active), (''elapsed_ms'', JNum 0)]) (dns s)
     in if active \<and> \<not> truthy (isSweeping (dns s))
        then s\<lparr>dns := setSweeping True d,
          sweepStartTime := (case sweepStartTime s of Some t \<Rightarrow> if t \<noteq> 0 then Some t else Some now | None \<Rightarrow> Some now)\<rparr>
        else s\<lparr>dns := d\<rparr>)"

definition telemetry :: "rat \<Rightarrow> jsv \<Rightarrow> dns_page \<Rightarrow> dns_page" where
  "telemetry now msg s = (let p = opt_prop msg; data = p ''data''; event = p ''event'';
       s1 = (if truthy (p ''stats'') then take_stats now (p ''stats'') s else s)
     in if event = JStr ''dns.candidate'' \<and> truthy data then take_candidates data s1
        else if event = JStr ''dns.bulk_progress'' \<and> truthy data then
          (let s2 = s1\<lparr>dns := setBulkProgress (Some (own_props data)) (dns s1)\<rparr> in
           if truthy (opt_prop data ''active'') then s2 else fetchResolversList s2)
        else if event = JStr ''dns.started'' then s1\<lparr>dns := setSweeping True (dns s1), sweepStartTime := Some now\<rparr>
        else if event = JStr ''dns.stopped'' \<or> event = JStr ''dns.finished'' then
          fetchTesterConfig (fetchResolversList (s1\<lparr>dns := setSweeping False (dns s1), sweepStartTime := None\<rparr>))
        else s1)"

text \<open>\<open>onmessage\<close> at the time \<open>now\<close>, followed by the effects. A frame that does not parse is \<open>None\<close>.\<close>

definition onmessage :: "rat \<Rightarrow> jsv option \<Rightarrow> dns_page \<Rightarrow> dns_page" where
  "onmessage now frame s = (case frame of None \<Rightarrow> s | Some msg \<Rightarrow>
     if nullish msg then s else
     let p = opt_prop msg; kind = p ''type'' in effects s
       (if kind = JStr ''dns:trace_result''
        then s\<lparr>probe := (probe s)\<lparr>traceSteps := js_or (p ''steps'') (JArr []), isTracing := False\<rparr>\<rparr>
        else if kind = JStr ''dns:axfr_result''
        then s\<lparr>probe := (probe s)\<lparr>axfrResult := js_or (p ''result'') JNull, isTestingAXFR := False\<rparr>\<rparr>
        else if kind = JStr ''dns:telemetry'' then telemetry now msg s else s))"

text \<open>Mounting asks for everything and opens the first socket; leaving closes the last.\<close>

definition mounted :: "dns_page \<Rightarrow> dns_page" where
  "mounted s = timer_effect (open_socket (fetchBulkProgress (fetchTesterConfig (fetchResolversList s))))"

definition unmounted :: "dns_page \<Rightarrow> dns_page" where
  "unmounted = close_own"


section \<open>Answers\<close>

definition list_reply :: "obj list option \<Rightarrow> dns_page \<Rightarrow> dns_page" where
  "list_reply r s = (let s1 = s\<lparr>list_requests := list_requests s - 1\<rparr> in
     case r of None \<Rightarrow> s1 | Some rows \<Rightarrow> s1\<lparr>dns := setResolvers rows (dns s1)\<rparr>)"

definition texts_or :: "jsv \<Rightarrow> string list \<Rightarrow> string list" where
  "texts_or v old = (case v of JArr xs \<Rightarrow> map js_string xs | _ \<Rightarrow> old)"

definition load_settings :: "jsv \<Rightarrow> sweep_settings \<Rightarrow> sweep_settings" where
  "load_settings d c = c\<lparr>concurrencyLimit := if_truthy d ''concurrency_limit'' (concurrencyLimit c),
     timeoutMs := if_truthy d ''timeout_ms'' (timeoutMs c), attempts := if_truthy d ''attempts'' (attempts c),
     referenceDomain := if_truthy d ''reference_domain'' (referenceDomain c),
     selectedProtocols := texts_or (opt_prop d ''selected_protocols'') (selectedProtocols c),
     queryTypes := texts_or (opt_prop d ''query_types'') (queryTypes c),
     dnsClass := if_truthy d ''dns_class'' (dnsClass c), queryGenerator := if_truthy d ''query_generator'' (queryGenerator c),
     domainSource := if_truthy d ''domain_source'' (domainSource c),
     customDomains := (if truthy (opt_prop d ''custom_domains'') then js_string (opt_prop d ''custom_domains'') else customDomains c),
     wordlistURL := if_truthy d ''wordlist_url'' (wordlistURL c),
     expectResponse := (if opt_prop d ''expect_response'' \<noteq> JUndef then js_or (opt_prop d ''expect_response'') (JStr [])
       else expectResponse c)\<rparr>"

definition config_reply :: "jsv option \<Rightarrow> dns_page \<Rightarrow> dns_page" where
  "config_reply r s = (let s1 = s\<lparr>config_requests := config_requests s - 1\<rparr> in
     case r of None \<Rightarrow> s1
     | Some d \<Rightarrow> if nullish d then s1 else
         let s2 = (if truthy (opt_prop d ''resolver_applied'')
           then s1\<lparr>dns := setAppliedResolver (js_string (opt_prop d ''resolver_applied'')) (dns s1)\<rparr> else s1)
         in s2\<lparr>settings := load_settings d (settings s2)\<rparr>)"

definition progress_reply :: "obj option \<Rightarrow> dns_page \<Rightarrow> dns_page" where
  "progress_reply r s = (let s1 = s\<lparr>progress_requests := progress_requests s - 1\<rparr> in
     case r of None \<Rightarrow> s1 | Some p \<Rightarrow> s1\<lparr>dns := setBulkProgress (Some p) (dns s1)\<rparr>)"

section \<open>Requests that are awaited\<close>

type_synonym dns_action = "(dns_page, unit) page_action"

text \<open>\<open>throw new Error(v)\<close> with the server's text or another.\<close>

definition throw_error :: "body \<Rightarrow> string \<Rightarrow> dns_action" where
  "throw_error b other = bind (api_error b other) (\<lambda>e. Fail (error_message e))"

definition set_custom :: "(custom_form \<Rightarrow> custom_form) \<Rightarrow> dns_page \<Rightarrow> dns_page" where
  "set_custom f s = s\<lparr>custom := f (custom s)\<rparr>"

definition bulk_started :: "dns_page \<Rightarrow> dns_page" where
  "bulk_started s = triggerToast ''Bulk import started in background'' ''info''
     (set_custom (\<lambda>f. f\<lparr>showAddModal := False, bulkText := [], bulkFile := None\<rparr>) s)"

definition bulk_request :: "dns_page \<Rightarrow> request" where
  "bulk_request c = (case bulkFile (custom c) of
       Some f \<Rightarrow> http_send ''POST'' ''/api/dns/resolvers/bulk'' [auth_header (activeToken c)] (Some (JObj [(''file'', JStr f)]))
     | None \<Rightarrow> post_json (activeToken c) ''/api/dns/resolvers/bulk'' (JObj [(''text'', JStr (bulkText (custom c)))]))"

definition handleBulkImport :: dns_action where
  "handleBulkImport = Get (\<lambda>c. Set (set_custom (\<lambda>f. f\<lparr>isImporting := True\<rparr>)) (finally_do (try_catch
     (if bulkFile (custom c) = None \<and> trim (bulkText (custom c)) = []
      then set_state (triggerToast ''Please enter some DNS resolver strings or choose a file to upload.'' ''error'')
      else bind (page_fetch (bulk_request c)) (\<lambda>(ok, b).
        if ok then set_state bulk_started
        else throw_error b (if bulkFile (custom c) = None then ''Failed to submit bulk import''
          else ''Failed to submit bulk import file'')))
     (\<lambda>e. set_state (triggerToast (''Error: '' @ e) ''error'')))
     (set_custom (\<lambda>f. f\<lparr>isImporting := False\<rparr>))))"

definition custom_payload :: "custom_form \<Rightarrow> jsv" where
  "custom_payload f = (let proto = customProtocol f in JObj
     [(''ip'', JStr (trim (customIP f))), (''protocol'', JStr proto),
      (''provider_name'', JStr (if trim (customProvider f) = [] then ''Custom Resolver'' else trim (customProvider f))),
      (''category'', JStr (customCategory f)), (''is_custom'', JBool True),
      (''support_udp'', JBool (proto = ''udp'')), (''support_tcp'', JBool (proto = ''tcp'')),
      (''support_dot'', JBool (proto = ''dot'')), (''support_doh'', JBool (proto = ''doh'')),
      (''support_doq'', JBool (proto = ''doq''))])"

definition handleAddCustomResolver :: dns_action where
  "handleAddCustomResolver = Get (\<lambda>c. if trim (customIP (custom c)) = []
     then set_state (triggerToast ''IP address is required'' ''error'')
     else try_catch (bind (page_fetch (http_send ''POST'' ''/api/dns/resolvers'' [auth_header (activeToken c), json_header]
           (Some (custom_payload (custom c))))) (\<lambda>(ok, b).
         if ok then set_state (\<lambda>s. fetchResolversList (set_custom (\<lambda>f. f\<lparr>showAddModal := False, customIP := [],
             customProvider := []\<rparr>) (triggerToast ''Custom resolver saved successfully'' ''success'' s)))
         else bind (api_error b ''Failed to save resolver'') (\<lambda>e. set_state (triggerToast (js_string e) ''error''))))
       (\<lambda>_. set_state (triggerToast ''Error saving custom resolver'' ''error'')))"

definition field :: "obj \<Rightarrow> string \<Rightarrow> string" where
  "field r k = js_string (obj_get r k)"

definition handleDeleteResolver :: "string \<Rightarrow> dns_action" where
  "handleDeleteResolver key = Get (\<lambda>c. bind (ask_confirm ''Are you sure you want to delete this resolver?'') (\<lambda>yes.
     if \<not> yes then Done () else case resolvers (dns c) key of None \<Rightarrow> Done ()
     | Some r \<Rightarrow> try_catch (bind (page_fetch (http_send ''DELETE'' (''/api/dns/resolvers/'' @ field r ''id'')
             [auth_header (activeToken c)] None)) (\<lambda>(ok, b).
           if ok then set_state (\<lambda>s. fetchResolversList (triggerToast ''Resolver deleted successfully'' ''success'' s)) else Done ()))
         (\<lambda>_. set_state (triggerToast ''Error deleting custom resolver'' ''error''))))"

definition applied :: "obj \<Rightarrow> jsv \<Rightarrow> dns_page \<Rightarrow> dns_page" where
  "applied r data s = triggerToast (''Applied '' @ field r ''provider_name'' @ '' ('' @ to_upper (field r ''protocol'') @
       '') as system DNS! Core restart: '' @ (if truthy (opt_prop data ''core_reloaded'') then ''Success'' else ''Bypassed''))
     ''success'' (s\<lparr>dns := setAppliedResolver (js_string (opt_prop data ''resolver_applied'')) (dns s)\<rparr>)"

definition handleApplyResolver :: "string \<Rightarrow> dns_action" where
  "handleApplyResolver key = Get (\<lambda>c. case resolvers (dns c) key of None \<Rightarrow> Done ()
     | Some r \<Rightarrow> try_catch (bind (page_fetch (http_send ''POST'' ''/api/dns/core/apply'' [auth_header (activeToken c), json_header]
           (Some (JObj [(''ip'', obj_get r ''ip''), (''protocol'', obj_get r ''protocol'')])))) (\<lambda>(ok, b).
         if ok then bind (read_json b) (\<lambda>data. bind (lift_res (get_prop data ''resolver_applied'')) (\<lambda>_.
           set_state (applied r data)))
         else bind (api_error b ''Failed to apply resolver'') (\<lambda>e. set_state (triggerToast (js_string e) ''error''))))
       (\<lambda>_. set_state (triggerToast ''Error applying active resolver'' ''error'')))"

definition set_test :: "(test_form \<Rightarrow> test_form) \<Rightarrow> dns_page \<Rightarrow> dns_page" where
  "set_test f s = s\<lparr>test := f (test s)\<rparr>"

definition test_body :: "test_form \<Rightarrow> jsv" where
  "test_body f = JObj [(''domain'', JStr (advDomain f)), (''query_type'', JStr (advQueryType f)),
     (''dns_class'', JStr (advDNSClass f)), (''timeout_ms'', advTimeout f), (''attempts'', advAttempts f),
     (''cache_busting'', JBool (advCacheBusting f)), (''expect_response'', JStr (advExpectResponse f))]"

definition test_failed :: "string \<Rightarrow> dns_page \<Rightarrow> dns_page" where
  "test_failed e s = (let msg = (if e = [] then ''Failed to run DNS test query'' else e) in
     triggerToast msg ''error'' (set_test (\<lambda>f. f\<lparr>singleTestError := Some msg\<rparr>) s))"

definition handleRunSingleTest :: dns_action where
  "handleRunSingleTest = Get (\<lambda>c. case advancedTestResolverKey (test c) of None \<Rightarrow> Done () | Some key \<Rightarrow>
     (case resolvers (dns c) key of None \<Rightarrow> Done () | Some r \<Rightarrow>
       Set (set_test (\<lambda>f. f\<lparr>isTestingSingle := True, singleTestResult := None, singleTestError := None\<rparr>))
       (finally_do (try_catch
         (bind (page_fetch (http_send ''POST'' (''/api/dns/resolvers/'' @ field r ''id'' @ ''/test'')
             [auth_header (activeToken c), json_header] (Some (test_body (test c))))) (\<lambda>(ok, b).
            if ok then bind (read_json b) (\<lambda>data. set_state (\<lambda>s. fetchResolversList
              (triggerToast ''DNS test completed successfully!'' ''success'' (set_test (\<lambda>f. f\<lparr>singleTestResult := Some data\<rparr>) s))))
            else throw_error b ''Failed to perform test query''))
         (\<lambda>e. set_state (test_failed e)))
         (set_test (\<lambda>f. f\<lparr>isTestingSingle := False\<rparr>)))))"

text \<open>\<open>txt\<close> is \<open>res.text()\<close>.\<close>

definition handleFetchPublicDNS :: "(body \<Rightarrow> string) \<Rightarrow> dns_action" where
  "handleFetchPublicDNS txt = Get (\<lambda>c. Set (\<lambda>s. s\<lparr>isFetchingPublic := True, fetchPublicResult := None\<rparr>) (finally_do (try_catch
     (bind (page_fetch (http_send ''POST'' ''/api/dns/resolvers/fetch-public'' [auth_header (activeToken c), json_header]
         (Some (JObj [(''source'', JStr (selectedPublicSource c))])))) (\<lambda>(ok, b).
        if \<not> ok then Yield (Fail (txt b))
        else bind (read_json b) (\<lambda>data. Set (\<lambda>s. s\<lparr>fetchPublicResult := Some data\<rparr>)
          (bind (lift_res (show_prop data ''added_count'')) (\<lambda>n. set_state (\<lambda>s. fetchResolversList
            (triggerToast (''Fetched list and added '' @ n @ '' new resolvers!'') ''success'' s)))))))
     (\<lambda>e. set_state (triggerToast (''Failed to fetch public DNS: '' @ e) ''error'')))
     (\<lambda>s. s\<lparr>isFetchingPublic := False\<rparr>)))"

section \<open>Commands on the socket\<close>

definition socket_open :: "dns_page \<Rightarrow> nat option" where
  "socket_open s = (case ws s of None \<Rightarrow> None | Some i \<Rightarrow> if ready_of (sockets s) i = OPEN then Some i else None)"

definition no_socket :: "dns_page \<Rightarrow> dns_page" where
  "no_socket = triggerToast ''WebSocket connection closed. Try refreshing.'' ''error''"

definition probe_data :: "string \<Rightarrow> string \<Rightarrow> (string \<times> jsv) list" where
  "probe_data resolverIp domain = [(''resolver_ip'', JStr resolverIp), (''domain'', JStr domain)]"

definition handleRunTrace :: "string \<Rightarrow> string \<Rightarrow> dns_page \<Rightarrow> dns_page" where
  "handleRunTrace resolverIp domain s = (case socket_open s of None \<Rightarrow> no_socket s
     | Some i \<Rightarrow> ask_socket ''dns:trace'' (probe_data resolverIp domain) i
         (s\<lparr>probe := (probe s)\<lparr>isTracing := True, traceSteps := JArr []\<rparr>\<rparr>))"

definition handleRunAXFR :: "string \<Rightarrow> string \<Rightarrow> dns_page \<Rightarrow> dns_page" where
  "handleRunAXFR resolverIp domain s = (case socket_open s of None \<Rightarrow> no_socket s
     | Some i \<Rightarrow> ask_socket ''dns:axfr'' (probe_data resolverIp domain) i
         (s\<lparr>probe := (probe s)\<lparr>isTestingAXFR := True, axfrResult := JNull\<rparr>\<rparr>))"

text \<open>The resolvers of the list, in its order, that the record holds.\<close>

definition known :: "dns_page \<Rightarrow> string list \<Rightarrow> obj list" where
  "known s = List.map_filter (resolvers (dns s))"

text \<open>The pieces between new lines and commas that are not blank.\<close>

definition domains_of :: "string \<Rightarrow> string list" where
  "domains_of text = filter (\<lambda>d. d \<noteq> [])
     (map trim (split_on CHR '','' (map (\<lambda>c. if c = CHR 0x0A then CHR '','' else c) text)))"

definition sweep_data :: "dns_page \<Rightarrow> (string \<times> jsv) list" where
  "sweep_data s = (let c = settings s; strs = (\<lambda>xs. JArr (map JStr xs)) in
     [(''concurrency_limit'', concurrencyLimit c), (''qps_limit'', JNum 50), (''timeout_ms'', timeoutMs c),
      (''attempts'', attempts c), (''cache_busting'', JBool (cacheBusting c)), (''reference_domain'', referenceDomain c),
      (''selected_protocols'', strs (selectedProtocols c)),
      (''custom_resolvers'', JArr (map JObj (filter (\<lambda>r. truthy (obj_get r ''is_custom'')) (known s (resolverKeys (dns s)))))),
      (''query_types'', strs (queryTypes c)), (''dns_class'', dnsClass c), (''query_generator'', queryGenerator c),
      (''domain_source'', domainSource c), (''custom_domains'', strs (domains_of (customDomains c))),
      (''wordlist_url'', wordlistURL c), (''expect_response'', expectResponse c)])"

definition testing_updates :: "dns_page \<Rightarrow> (string \<times> obj) list" where
  "testing_updates s = updates_of (map (\<lambda>k. (k, [(''is_testing'', JBool True)]))
     (filter (\<lambda>k. case resolvers (dns s) k of None \<Rightarrow> False
        | Some r \<Rightarrow> obj_get r ''protocol'' \<in> JStr ` set (selectedProtocols (settings s))) (resolverKeys (dns s))))"

definition handleStartSweep :: "dns_page \<Rightarrow> dns_page" where
  "handleStartSweep s = (case socket_open s of None \<Rightarrow> no_socket s
     | Some i \<Rightarrow> (let s1 = ask_socket ''dns:start'' (sweep_data s) i s in
         triggerToast ''Starting multi-protocol DNS scan sweep...'' ''success''
           (s1\<lparr>dns := updateResolversBulk (testing_updates s) (dns s1)\<rparr>)))"

definition handleStopSweep :: "dns_page \<Rightarrow> dns_page" where
  "handleStopSweep s = (case socket_open s of None \<Rightarrow> s
     | Some i \<Rightarrow> triggerToast ''Stopping DNS sweep...'' ''success'' (ask_socket ''dns:stop'' [] i s))"

definition handleResetSweep :: "dns_page \<Rightarrow> dns_page" where
  "handleResetSweep s = effects s (triggerToast ''Cleaned local DNS metrics. Database records untouched.'' ''success''
     (s\<lparr>dns := clearResults (dns s)\<rparr>))"

definition toggle_text :: "string \<Rightarrow> string list \<Rightarrow> string list" where
  "toggle_text x xs = (if x \<in> set xs then filter (\<lambda>y. y \<noteq> x) xs else xs @ [x])"

definition handleProtocolCheckbox :: "string \<Rightarrow> dns_page \<Rightarrow> dns_page" where
  "handleProtocolCheckbox proto s = s\<lparr>settings := (settings s)\<lparr>selectedProtocols := toggle_text proto (selectedProtocols (settings s))\<rparr>\<rparr>"

text \<open>A query type; the last one cannot be taken off.\<close>

definition toggle_query_type :: "string \<Rightarrow> dns_page \<Rightarrow> dns_page" where
  "toggle_query_type t s = (let ts = queryTypes (settings s) in
     if t \<in> set ts \<and> length ts \<le> 1 then s else s\<lparr>settings := (settings s)\<lparr>queryTypes := toggle_text t ts\<rparr>\<rparr>)"

text \<open>\<open>Math.max(least, parseInt(v) || least)\<close>.\<close>

definition at_least :: "int \<Rightarrow> string \<Rightarrow> jsv" where
  "at_least least v = JNum (of_int (max least (case parse_int v of None \<Rightarrow> least | Some n \<Rightarrow> if n = 0 then least else n)))"


section \<open>The table\<close>

text \<open>Comparisons of values as numbers: \<open>a <= b\<close>, and the sign of \<open>a - b\<close>, where \<open>NaN\<close> counts as 0.\<close>

definition num_leq :: "jsv \<Rightarrow> jsv \<Rightarrow> bool" where
  "num_leq a b = (case (to_number a, to_number b) of (JNum x, JNum y) \<Rightarrow> x \<le> y | _ \<Rightarrow> False)"

definition num_less :: "jsv \<Rightarrow> jsv \<Rightarrow> bool" where
  "num_less a b = (case (to_number a, to_number b) of (JNum x, JNum y) \<Rightarrow> x < y | _ \<Rightarrow> False)"

definition minus_sign :: "jsv \<Rightarrow> jsv \<Rightarrow> int" where
  "minus_sign a b = (if num_less a b then - 1 else if num_less b a then 1 else 0)"

definition times100 :: "jsv \<Rightarrow> jsv" where
  "times100 v = (case to_number v of JNum x \<Rightarrow> JNum (x * 100) | _ \<Rightarrow> JNaN)"

definition matches_text :: "string \<Rightarrow> string \<Rightarrow> bool" where
  "matches_text q text \<longleftrightarrow> includes_str (to_lower text) (to_lower q)"

definition text_or :: "jsv \<Rightarrow> string" where
  "text_or v = js_string (js_or v (JStr []))"

definition visible :: "dns_filters \<Rightarrow> obj \<Rightarrow> bool" where
  "visible f r \<longleftrightarrow> (let g = obj_get r; lat = g ''latency_ms'';
       same = (\<lambda>chosen v. chosen = ''ALL'' \<or> to_lower v = to_lower chosen);
       flag = (\<lambda>chosen yes v. chosen = ''ALL'' \<or> (truthy v = (chosen = yes))) in
     (includes_str (field r ''ip'') (search f) \<or> matches_text (search f) (field r ''provider_name'')) \<and>
     same (protocolFilter f) (field r ''protocol'') \<and> same (categoryFilter f) (field r ''category'') \<and>
     (case filterMinLatency f of None \<Rightarrow> True | Some v \<Rightarrow> \<not> (num_leq lat (JNum 0) \<or> num_less lat (JNum v))) \<and>
     (case filterMaxLatency f of None \<Rightarrow> True | Some v \<Rightarrow> \<not> (num_leq lat (JNum 0) \<or> num_less (JNum v) lat)) \<and>
     (case filterMinSuccessRate f of None \<Rightarrow> True | Some v \<Rightarrow> \<not> num_less (times100 (g ''success_rate'')) (JNum v)) \<and>
     same (filterCensorship f) (text_or (g ''censorship_status'')) \<and>
     flag (filterDNSSEC f) ''valid'' (g ''dnssec_valid'') \<and> flag (filterRebinding f) ''vulnerable'' (g ''dns_rebinding_vuln'') \<and>
     (filterISP f = [] \<or> matches_text (filterISP f) (text_or (g ''isp''))) \<and>
     (filterCountry f = [] \<or> matches_text (filterCountry f) (text_or (js_or (g ''country_name'') (g ''country_code'')))) \<and>
     flag (filterCDN f) ''cdn'' (g ''is_cdn''))"

text \<open>What a column compares; the columns of the address, the provider and the protocol have no case of their own.\<close>

definition measured :: "obj \<Rightarrow> jsv \<Rightarrow> jsv" where
  "measured r v = (if num_less (JNum 0) (obj_get r ''latency_ms'') then v else JNum 999999)"

definition column_value :: "string \<Rightarrow> obj \<Rightarrow> jsv" where
  "column_value column r =
     (if column = ''latency_ms'' then measured r (obj_get r ''latency_ms'')
      else if column = ''success_rate'' then obj_get r ''success_rate''
      else if column = ''jitter_ms'' then measured r (obj_get r ''jitter_ms'')
      else obj_get r ''clever_score'')"

definition resolver_cmp :: "(string \<rightharpoonup> obj) \<Rightarrow> string \<Rightarrow> bool \<Rightarrow> string \<Rightarrow> string \<Rightarrow> int" where
  "resolver_cmp m column asc a b = (case (m a, m b) of
       (Some r, Some q) \<Rightarrow> (let v = minus_sign (column_value column r) (column_value column q) in if asc then v else - v)
     | _ \<Rightarrow> 0)"

definition listed_key :: "dns_page \<Rightarrow> string \<Rightarrow> bool" where
  "listed_key s k = (case resolvers (dns s) k of None \<Rightarrow> False | Some r \<Rightarrow> visible (filters s) r)"

definition filteredKeys :: "dns_page \<Rightarrow> string list" where
  "filteredKeys s = js_sort (resolver_cmp (resolvers (dns s)) (sortBy s) (sortAsc s)) (filter (listed_key s) (resolverKeys (dns s)))"

definition toggleSort :: "string \<Rightarrow> dns_page \<Rightarrow> dns_page" where
  "toggleSort column s = (if sortBy s = column then s\<lparr>sortAsc := \<not> sortAsc s\<rparr>
     else s\<lparr>sortBy := column, sortAsc := (column = ''latency_ms'' \<or> column = ''jitter_ms'')\<rparr>)"

text \<open>The selection is a \<open>Set\<close>, which keeps the order of insertion.\<close>

definition handleToggleSelect :: "string \<Rightarrow> dns_page \<Rightarrow> dns_page" where
  "handleToggleSelect k s = s\<lparr>selectedKeys := toggle_text k (selectedKeys s)\<rparr>"

definition isAllSelected :: "dns_page \<Rightarrow> bool" where
  "isAllSelected s \<longleftrightarrow> filteredKeys s \<noteq> [] \<and> (\<forall>k\<in>set (filteredKeys s). k \<in> set (selectedKeys s))"

definition handleToggleSelectAll :: "dns_page \<Rightarrow> dns_page" where
  "handleToggleSelectAll s = s\<lparr>selectedKeys := (if isAllSelected s then [] else as_set (filteredKeys s))\<rparr>"

definition targetKeys :: "dns_page \<Rightarrow> string list" where
  "targetKeys s = (if selectedKeys s \<noteq> [] then selectedKeys s else filteredKeys s)"

definition healthyIPs :: "dns_page \<Rightarrow> string list" where
  "healthyIPs s = map (\<lambda>r. field r ''ip'') (filter (\<lambda>r. num_less (JNum 0) (obj_get r ''latency_ms'') \<and>
     num_less (obj_get r ''packet_loss'') (JNum 100)) (known s (targetKeys s)))"

text \<open>\<open>refused\<close> is the message of the browser when it does not let the page write to the clipboard.\<close>

definition copyHealthyToClipboard :: "string option \<Rightarrow> dns_page \<Rightarrow> dns_page" where
  "copyHealthyToClipboard refused s =
     (if healthyIPs s = [] then triggerToast ''No healthy DNS resolvers found to copy'' ''info'' s
      else case refused of Some e \<Rightarrow> triggerToast (''Failed to copy: '' @ e) ''error'' s
      | None \<Rightarrow> triggerToast (''Copied '' @ show_nat (length (healthyIPs s)) @ '' healthy resolver IPs to clipboard!'') ''success''
          (s\<lparr>copied := copied s @ [join_with [CHR 0x0A] (as_set (healthyIPs s))]\<rparr>))"

section \<open>Exports\<close>

text \<open>\<open>`"${String(val).replace(/"/g, '""')}"`\<close>.\<close>

definition csv_cell :: "string \<Rightarrow> string" where
  "csv_cell v = CHR 0x22 # concat (map (\<lambda>c. if c = CHR 0x22 then [c, c] else [c]) v) @ [CHR 0x22]"

definition csv_headers :: "string list" where
  "csv_headers = [''IP'', ''Protocol'', ''Provider'', ''Category'', ''Latency (ms)'', ''Jitter (ms)'', ''Success Rate (%)'',
     ''Censorship'', ''DNSSEC Valid'', ''Rebinding Vuln'', ''Country'', ''ISP'']"

definition csv_row :: "obj \<Rightarrow> string list" where
  "csv_row r = (let g = obj_get r; up = num_less (JNum 0) (g ''latency_ms'') in map js_string
     [g ''ip'', g ''protocol'', g ''provider_name'', g ''category'',
      if up then g ''latency_ms'' else JStr [], if up then g ''jitter_ms'' else JStr [], times100 (g ''success_rate''),
      js_or (g ''censorship_status'') (JStr ''unverified''), JStr (if truthy (g ''dnssec_valid'') then ''Yes'' else ''No''),
      JStr (if truthy (g ''dns_rebinding_vuln'') then ''Yes'' else ''No''),
      js_or (js_or (g ''country_name'') (g ''country_code'')) (JStr []), js_or (g ''isp'') (JStr [])])"

definition csv_text :: "obj list \<Rightarrow> string" where
  "csv_text rs = join_with [CHR 0x0A]
     (join_with '','' csv_headers # map (\<lambda>r. join_with '','' (map csv_cell (csv_row r))) rs)"

definition exportResolvers :: "bool \<Rightarrow> dns_page \<Rightarrow> dns_page" where
  "exportResolvers as_json s = (let rs = known s (targetKeys s) in
     if rs = [] then triggerToast ''No resolvers found to export'' ''info'' s
     else triggerToast (''Exported '' @ show_nat (length rs) @ '' resolvers successfully!'') ''success''
       (s\<lparr>exported := exported s @ [if as_json then json_text ''  '' (JArr (map JObj rs)) else csv_text rs]\<rparr>))"

definition deleteSelectedResolvers :: "(body \<Rightarrow> string) \<Rightarrow> dns_action" where
  "deleteSelectedResolvers txt = Get (\<lambda>c. let chosen = known c (selectedKeys c); n = show_nat (length chosen);
       idsToDelete = filter (num_less (JNum 0)) (map (\<lambda>r. obj_get r ''id'') chosen);
       done = set_state (\<lambda>s. fetchResolversList ((triggerToast (''Successfully deleted '' @ n @ '' resolvers!'') ''success'' s)\<lparr>selectedKeys := []\<rparr>))
     in if chosen = [] then Done ()
        else bind (ask_confirm (''Are you sure you want to delete the '' @ n @ '' selected resolvers?'')) (\<lambda>yes.
          if \<not> yes then Done () else try_catch
            (if idsToDelete = [] then done
             else bind (page_fetch (http_send ''POST'' ''/api/dns/resolvers/batch-delete'' [auth_header (activeToken c), json_header]
                 (Some (JObj [(''ids'', JArr idsToDelete)])))) (\<lambda>(ok, b). if ok then done else Yield (Fail (txt b))))
            (\<lambda>e. set_state (triggerToast (''Error deleting selected resolvers: '' @ e) ''error''))))"

section \<open>What else is shown\<close>

definition checkIsApplied :: "obj \<Rightarrow> dns_page \<Rightarrow> bool" where
  "checkIsApplied r s = (let cleanApplied = to_lower (appliedResolver (dns s)); cleanIP = to_lower (field r ''ip'') in
     if obj_get r ''protocol'' = JStr ''doh'' then includes_str cleanApplied cleanIP \<and> includes_str cleanApplied ''dns-query''
     else if obj_get r ''protocol'' = JStr ''dot'' then includes_str cleanApplied cleanIP \<and> includes_str cleanApplied ''853''
     else cleanApplied = cleanIP)"

definition progressPercent :: "dns_page \<Rightarrow> jsv" where
  "progressPercent s = (case jobStats (dns s) of None \<Rightarrow> JNum 0
     | Some st \<Rightarrow> if obj_get st ''total_resolvers'' = JNum 0 then JNum 0
         else (case (to_number (obj_get st ''processed_resolvers''), to_number (obj_get st ''total_resolvers'')) of
             (JNum x, JNum y) \<Rightarrow> if y = 0 then JNaN else JNum (x / y * 100) | _ \<Rightarrow> JNaN))"

definition getLatencyColor :: "jsv \<Rightarrow> string" where
  "getLatencyColor ms = (if num_leq ms (JNum 0) then ''var(--color-brand-muted)''
     else if num_less ms (JNum 50) then ''var(--color-brand-green)''
     else if num_less ms (JNum 150) then ''#f59e0b'' else ''var(--color-brand-red)'')"

definition open_trace :: "string \<Rightarrow> dns_page \<Rightarrow> dns_page" where
  "open_trace k s = s\<lparr>probe := (probe s)\<lparr>traceResolverKey := Some k, traceSteps := JArr [], showTraceModal := True\<rparr>\<rparr>"

definition open_axfr :: "string \<Rightarrow> dns_page \<Rightarrow> dns_page" where
  "open_axfr k s = s\<lparr>probe := (probe s)\<lparr>axfrResolverKey := Some k, axfrResult := JNull, showAXFRModal := True\<rparr>\<rparr>"

definition open_test :: "string \<Rightarrow> dns_page \<Rightarrow> dns_page" where
  "open_test k = set_test (\<lambda>f. f\<lparr>advancedTestResolverKey := Some k, singleTestResult := None, singleTestError := None,
     showAdvancedTestModal := True\<rparr>)"

text \<open>Text and file of a bulk import exclude each other.\<close>

definition type_bulk :: "string \<Rightarrow> dns_page \<Rightarrow> dns_page" where
  "type_bulk v = set_custom (\<lambda>f. f\<lparr>bulkText := v, bulkFile := None\<rparr>)"

definition choose_bulk :: "string \<Rightarrow> dns_page \<Rightarrow> dns_page" where
  "choose_bulk name = set_custom (\<lambda>f. f\<lparr>bulkFile := Some name, bulkText := []\<rparr>)"

end
