(* ===== verification/DNS_Behaviour.thy ===== *)
theory DNS_Behaviour
  imports DNS_Page
begin

text \<open>
  The properties of the page of the DNS tester: its table, its exports, the composition of its frames with the
  store, and the runs in which it does not do what it means to.
\<close>

section \<open>The table\<close>

text \<open>The resolvers whose value in the chosen column is a number.\<close>

definition rated :: "(string \<rightharpoonup> obj) \<Rightarrow> string \<Rightarrow> string set" where
  "rated m column = {k. \<exists>r x. m k = Some r \<and> column_value column r = JNum x}"

definition rating :: "(string \<rightharpoonup> obj) \<Rightarrow> string \<Rightarrow> string \<Rightarrow> rat" where
  "rating m column k = (case m k of Some r \<Rightarrow> (case column_value column r of JNum x \<Rightarrow> x | _ \<Rightarrow> 0) | None \<Rightarrow> 0)"

lemma resolver_cmp_rated:
  "a \<in> rated m column \<Longrightarrow> b \<in> rated m column \<Longrightarrow>
     resolver_cmp m column asc a b = compare_by (<) asc (rating m column a) (rating m column b)"
  by (auto simp: rated_def rating_def resolver_cmp_def minus_sign_def num_less_def compare_by_def)

lemma resolver_cmp_consistent: "consistent_compare (resolver_cmp m column asc) (rated m column)"
  by (rule consistent_cong [OF consistent_by_key [where lt = "(<)" and f = "rating m column"]])
    (auto simp: resolver_cmp_rated)

interpretation resolver_order: consistent_compare "resolver_cmp m column asc" "rated m column" for m column asc
  by (rule resolver_cmp_consistent)

text \<open>The table shows the resolvers of the store's list that pass every filter, each as often as the list has it,
  in the chosen direction of the chosen column; resolvers with equal values stay in the order of the list.\<close>

theorem resolver_table_sorted:
  assumes "set (resolverKeys (dns s)) \<subseteq> rated (resolvers (dns s)) (sortBy s)"
  shows "mset (filteredKeys s) = mset (filter (listed_key s) (resolverKeys (dns s))) \<and>
    sorted_wrt (\<lambda>a b. let f = rating (resolvers (dns s)) (sortBy s) in if sortAsc s then f a \<le> f b else f b \<le> f a)
      (filteredKeys s) \<and>
    (\<forall>k\<in>set (filteredKeys s). let same = (\<lambda>j. rating (resolvers (dns s)) (sortBy s) j = rating (resolvers (dns s)) (sortBy s) k) in
      filter same (filteredKeys s) = filter same (filter (listed_key s) (resolverKeys (dns s))))"
proof (intro conjI ballI)
  let ?m = "resolvers (dns s)" and ?c = "sortBy s" and ?ks = "filter (listed_key s) (resolverKeys (dns s))"
  let ?cmp = "resolver_cmp ?m ?c (sortAsc s)"
  have rated: "set ?ks \<subseteq> rated ?m ?c" using assms by auto
  show "mset (filteredKeys s) = mset ?ks" by (simp add: filteredKeys_def)
  have "sorted_wrt (\<lambda>a b. ?cmp a b \<le> 0) (filteredKeys s)"
    unfolding filteredKeys_def by (rule resolver_order.sorted_js_sort [OF rated])
  then show "sorted_wrt (\<lambda>a b. let f = rating ?m ?c in if sortAsc s then f a \<le> f b else f b \<le> f a) (filteredKeys s)"
  proof (rule sorted_wrt_mono_rel [rotated])
    fix a b assume "a \<in> set (filteredKeys s)" "b \<in> set (filteredKeys s)" and le: "?cmp a b \<le> 0"
    then have "a \<in> rated ?m ?c" "b \<in> rated ?m ?c" using rated by (auto simp: filteredKeys_def)
    then show "let f = rating ?m ?c in if sortAsc s then f a \<le> f b else f b \<le> f a"
      using le by (auto simp: resolver_cmp_rated compare_by_def Let_def split: if_splits)
  qed
  fix k assume k: "k \<in> set (filteredKeys s)"
  then have kr: "k \<in> rated ?m ?c" using rated by (auto simp: filteredKeys_def)
  have stable: "filter (resolver_order.ties ?m ?c (sortAsc s) k) (filteredKeys s) =
      filter (resolver_order.ties ?m ?c (sortAsc s) k) ?ks"
    unfolding filteredKeys_def by (rule resolver_order.stable_js_sort [OF rated kr])
  have ties: "resolver_order.ties ?m ?c (sortAsc s) k j \<longleftrightarrow> rating ?m ?c j = rating ?m ?c k" if "j \<in> rated ?m ?c" for j
    using that kr by (auto simp: resolver_order.ties_def resolver_cmp_rated compare_by_def split: if_splits)
  have "filter (\<lambda>j. rating ?m ?c j = rating ?m ?c k) xs = filter (resolver_order.ties ?m ?c (sortAsc s) k) xs"
    if "set xs \<subseteq> rated ?m ?c" for xs
    using that ties by (intro filter_cong) auto
  from this [of ?ks] this [of "filteredKeys s"] rated
  have "filter (\<lambda>j. rating ?m ?c j = rating ?m ?c k) (filteredKeys s) = filter (\<lambda>j. rating ?m ?c j = rating ?m ?c k) ?ks"
    using stable by (simp add: filteredKeys_def)
  then show "let same = (\<lambda>j. rating ?m ?c j = rating ?m ?c k) in filter same (filteredKeys s) = filter same ?ks"
    by (simp only: Let_def)
qed

definition rated_page :: dns_page where
  "rated_page = (init_dns_page [] Map.empty ''https:'' ''h'' (init_dns\<lparr>resolverKeys := [''a:udp'', ''b:udp''],
     resolvers := [''a:udp'' \<mapsto> [(''ip'', JStr ''a''), (''clever_score'', JNum 1)],
       ''b:udp'' \<mapsto> [(''ip'', JStr ''b''), (''clever_score'', JNum 2)]]\<rparr>))"

theorem resolver_table_sorted_witness:
  "sorted_wrt (\<lambda>a b. rating (resolvers (dns rated_page)) ''clever_score'' b \<le> rating (resolvers (dns rated_page)) ''clever_score'' a)
     (filteredKeys rated_page)"
proof -
  have "set (resolverKeys (dns rated_page)) \<subseteq> rated (resolvers (dns rated_page)) (sortBy rated_page)"
    by (simp add: rated_page_def init_dns_page_def rated_def column_value_def obj_get_def)
  from resolver_table_sorted [OF this] show ?thesis
    by (simp add: rated_page_def init_dns_page_def Let_def)
qed

text \<open>A click on the address, the provider or the protocol sorts by the score.\<close>

lemma sort_by_address_is_by_score:
  "filteredKeys (s\<lparr>sortBy := ''ip'', sortAsc := a\<rparr>) = filteredKeys (s\<lparr>sortBy := ''clever_score'', sortAsc := a\<rparr>)"
proof -
  have "column_value ''ip'' r = column_value ''clever_score'' r" for r by (simp add: column_value_def)
  then have "resolver_cmp m ''ip'' a = resolver_cmp m ''clever_score'' a" for m by (intro ext) (simp add: resolver_cmp_def split: option.splits)
  moreover have "listed_key (s\<lparr>sortBy := c, sortAsc := a\<rparr>) = listed_key s" for c
    by (intro ext) (simp add: listed_key_def split: option.splits)
  ultimately show ?thesis by (simp add: filteredKeys_def)
qed

section \<open>Exports\<close>

text \<open>A reader of CSV: \<open>csv_read quoted cell row text\<close> with the cell and the row read so far. Within quotes a doubled
  quote stands for one, and commas and line ends are text.\<close>

fun csv_read :: "bool \<Rightarrow> string \<Rightarrow> string list \<Rightarrow> string \<Rightarrow> string list list" where
  "csv_read q cell row [] = [row @ [cell]]"
| "csv_read False cell row (c # cs) =
     (if c = CHR '','' then csv_read False [] (row @ [cell]) cs
      else if c = CHR 0x0A then (row @ [cell]) # csv_read False [] [] cs
      else if c = CHR 0x22 \<and> cell = [] then csv_read True [] row cs
      else csv_read False (cell @ [c]) row cs)"
| "csv_read True cell row [c] = (if c = CHR 0x22 then [row @ [cell]] else [row @ [cell @ [c]]])"
| "csv_read True cell row (c # d # cs) =
     (if c \<noteq> CHR 0x22 then csv_read True (cell @ [c]) row (d # cs)
      else if d = CHR 0x22 then csv_read True (cell @ [c]) row cs
      else csv_read False cell row (d # cs))"

text \<open>What may follow a cell.\<close>

definition cell_end :: "string \<Rightarrow> bool" where
  "cell_end r \<longleftrightarrow> r = [] \<or> hd r = CHR '','' \<or> hd r = CHR 0x0A"

lemma csv_read_quoted:
  "cell_end r \<Longrightarrow> csv_read True cell row (concat (map (\<lambda>c. if c = CHR 0x22 then [c, c] else [c]) v) @ CHR 0x22 # r) =
     csv_read False (cell @ v) row r"
proof (induction v arbitrary: cell)
  case Nil
  then show ?case by (cases r) (auto simp: cell_end_def)
next
  case (Cons c v)
  obtain d ds where rest: "concat (map (\<lambda>c. if c = CHR 0x22 then [c, c] else [c]) v) @ CHR 0x22 # r = d # ds"
    by (cases "concat (map (\<lambda>c. if c = CHR 0x22 then [c, c] else [c]) v) @ CHR 0x22 # r") auto
  show ?case using Cons.IH [of "cell @ [c]"] Cons.prems by (cases "c = CHR 0x22") (simp_all add: rest)
qed

lemma csv_read_cell:
  "cell_end r \<Longrightarrow> csv_read False [] row (csv_cell v @ r) = csv_read False v row r"
  using csv_read_quoted [of r "[]" row v] by (simp add: csv_cell_def)

lemma csv_read_plain:
  "\<forall>c\<in>set v. c \<notin> {CHR '','', CHR 0x0A, CHR 0x22} \<Longrightarrow> csv_read False cell row (v @ r) = csv_read False (cell @ v) row r"
  by (induction v arbitrary: cell) auto

text \<open>A printed row, by cells that the reader takes one at a time.\<close>

lemma csv_read_row:
  assumes "\<And>x row r. x \<in> set xs \<Longrightarrow> cell_end r \<Longrightarrow> csv_read False [] row (pr x @ r) = csv_read False x row r"
    and "xs \<noteq> []" and "r = [] \<or> hd r = CHR 0x0A"
  shows "csv_read False [] row (join_with '','' (map pr xs) @ r) =
    (case r of [] \<Rightarrow> [row @ xs] | _ # cs \<Rightarrow> (row @ xs) # csv_read False [] [] cs)"
  using assms
proof (induction xs arbitrary: row)
  case (Cons x xs)
  show ?case
  proof (cases "xs = []")
    case True
    have "csv_read False [] row (pr x @ r) = csv_read False x row r"
      using Cons.prems by (intro Cons.prems(1)) (auto simp: cell_end_def)
    then show ?thesis using True Cons.prems(3) by (cases r) auto
  next
    case False
    then have "join_with '','' (map pr (x # xs)) @ r = pr x @ CHR '','' # (join_with '','' (map pr xs) @ r)"
      by (cases xs) simp_all
    moreover have "csv_read False [] row (pr x @ CHR '','' # t) = csv_read False x row (CHR '','' # t)" for t
      by (intro Cons.prems(1)) (auto simp: cell_end_def)
    moreover have "csv_read False [] (row @ [x]) (join_with '','' (map pr xs) @ r) =
        (case r of [] \<Rightarrow> [(row @ [x]) @ xs] | _ # cs \<Rightarrow> ((row @ [x]) @ xs) # csv_read False [] [] cs)"
      using Cons.prems False by (intro Cons.IH) auto
    ultimately show ?thesis by (simp split: list.splits)
  qed
qed simp

lemma csv_read_rows:
  assumes "\<And>row. csv_row row \<noteq> []"
  shows "rs \<noteq> [] \<Longrightarrow> csv_read False [] [] (join_with [CHR 0x0A] (map (\<lambda>r. join_with '','' (map csv_cell (csv_row r))) rs)) =
    map csv_row rs"
proof (induction rs)
  case (Cons r rs)
  have row: "csv_read False [] [] (join_with '','' (map csv_cell (csv_row r)) @ t) =
      (case t of [] \<Rightarrow> [csv_row r] | _ # cs \<Rightarrow> csv_row r # csv_read False [] [] cs)" if "t = [] \<or> hd t = CHR 0x0A" for t
    using csv_read_row [of "csv_row r" csv_cell t "[]", OF csv_read_cell assms that] by (simp split: list.splits)
  show ?case
  proof (cases rs)
    case Nil
    then show ?thesis using row [of "[]"] by simp
  next
    case (Cons q qs)
    then show ?thesis using row [of "CHR 0x0A # join_with [CHR 0x0A] (map (\<lambda>r. join_with '','' (map csv_cell (csv_row r))) rs)"]
        Cons.IH by simp
  qed
qed simp

text \<open>The CSV export loses nothing. Reading the file back gives the headers and, for each resolver in the order
  of the table, exactly the texts of its twelve cells, whatever quotes, commas and line ends the names of
  providers and networks hold.\<close>

theorem csv_export_roundtrip:
  "csv_read False [] [] (csv_text rs) = csv_headers # map csv_row rs"
proof -
  have row: "csv_row r \<noteq> []" for r by (simp add: csv_row_def Let_def)
  have "\<forall>h\<in>set csv_headers. \<forall>c\<in>set h. c \<notin> {CHR '','', CHR 0x0A, CHR 0x22}" by (simp add: csv_headers_def)
  then have "csv_read False [] [] (join_with '','' (map (\<lambda>x. x) csv_headers) @ t) =
      (case t of [] \<Rightarrow> [[] @ csv_headers] | _ # cs \<Rightarrow> ([] @ csv_headers) # csv_read False [] [] cs)" if "t = [] \<or> hd t = CHR 0x0A" for t
    using that csv_read_plain by (intro csv_read_row) (auto simp: csv_headers_def)
  then have head: "csv_read False [] [] (join_with '','' csv_headers @ t) =
      (case t of [] \<Rightarrow> [csv_headers] | _ # cs \<Rightarrow> csv_headers # csv_read False [] [] cs)" if "t = [] \<or> hd t = CHR 0x0A" for t
    using that by (simp split: list.splits)
  show ?thesis
  proof (cases rs)
    case Nil
    then show ?thesis using head [of "[]"] by (simp add: csv_text_def)
  next
    case (Cons r qs)
    then show ?thesis using csv_read_rows [OF row, of rs]
        head [of "CHR 0x0A # join_with [CHR 0x0A] (map (\<lambda>r. join_with '','' (map csv_cell (csv_row r))) rs)"]
      by (simp add: csv_text_def)
  qed
qed

section \<open>Frames and the store\<close>

text \<open>Updates for the same key, with the same fields: the last one counts.\<close>

lemma update_absorbed:
  assumes "map fst d = map fst e" and "distinct (map fst e)" and "obj_get d ''provider_name'' = obj_get e ''provider_name''"
    and "obj_get d ''category'' = obj_get e ''category''"
  shows "updateResolver k e (updateResolver k d s) = updateResolver k e s"
proof -
  have m: "merge_obj (Some (merge_obj (Some r) d)) e = merge_obj (Some r) e" for r
    using put_entries_twice [OF assms(1,2), of r] by (simp add: merge_obj_def put_all_def)
  have "merge_obj (Some (new_resolver k d)) e = new_resolver k e"
    unfolding new_resolver_def Let_def assms(3,4) by (rule m)
  then show ?thesis by (simp add: updateResolver_def m split: option.splits)
qed

text \<open>An update of a resolver that the store holds commutes with one of another resolver.\<close>

lemma updates_commute:
  assumes "resolvers s k \<noteq> None" and "j \<noteq> k"
  shows "updateResolver k d (updateResolver j e s) = updateResolver j e (updateResolver k d s)"
  using assms by (auto simp: updateResolver_def fun_upd_twist split: option.splits)

abbreviation apply_updates :: "(string \<times> obj) list \<Rightarrow> dns_state \<Rightarrow> dns_state" where
  "apply_updates us \<equiv> fold (\<lambda>(k, d). updateResolver k d) us"

lemma updates_commute_list:
  "resolvers s k \<noteq> None \<Longrightarrow> k \<notin> fst ` set us \<Longrightarrow>
     updateResolver k d (apply_updates us s) = apply_updates us (updateResolver k d s)"
proof (induction us arbitrary: s)
  case (Cons u us)
  obtain j e where u: "u = (j, e)" by (cases u)
  have "resolvers (updateResolver j e s) k \<noteq> None"
    using Cons.prems(1) by (auto simp: updateResolver_def split: option.splits)
  moreover have "updateResolver k d (updateResolver j e s) = updateResolver j e (updateResolver k d s)"
    using Cons.prems u by (intro updates_commute) auto
  ultimately show ?case using Cons u by simp
qed simp

definition same_fields :: "(string \<times> obj) list \<Rightarrow> bool" where
  "same_fields us \<longleftrightarrow> (\<forall>(k, d)\<in>set us. map fst d = map fst (candidate_fields JUndef))"

lemma candidate_fields_keys:
  "distinct (map fst (candidate_fields v))" "map fst (candidate_fields v) = map fst (candidate_fields JUndef)"
  by (simp_all add: candidate_fields_def Let_def)

lemma other_field: "f \<notin> fst ` set d \<Longrightarrow> obj_get d f = JUndef"
  by (simp add: obj_get_def map_of_eq_None_iff [symmetric] split: option.splits)

lemma candidate_absorbed:
  assumes "map fst d = map fst (candidate_fields JUndef)" and "map fst e = map fst (candidate_fields JUndef)"
  shows "updateResolver k e (updateResolver k d s) = updateResolver k e s"
proof -
  have no: "f \<in> {''provider_name'', ''category''} \<Longrightarrow> obj_get x f = JUndef" if "map fst x = map fst (candidate_fields JUndef)" for f x
    using arg_cong [OF that, of set] by (intro other_field) (auto simp: candidate_fields_def Let_def)
  show ?thesis using assms candidate_fields_keys(1) [of JUndef] no
    by (intro update_absorbed) simp_all
qed

lemma apply_update_entry:
  assumes "distinct (map fst us)" and "same_fields us" and "map fst d = map fst (candidate_fields JUndef)"
  shows "apply_updates (AList.update k d us) s = updateResolver k d (apply_updates us s)"
  using assms
proof (induction us arbitrary: s)
  case (Cons u us)
  obtain j e where u: "u = (j, e)" by (cases u)
  show ?case
  proof (cases "j = k")
    case True
    have "resolvers (updateResolver k e s) k \<noteq> None" by (simp add: updateResolver_def split: option.splits)
    then have "updateResolver k d (apply_updates us (updateResolver k e s)) = apply_updates us (updateResolver k d (updateResolver k e s))"
      using Cons.prems(1) u True by (intro updates_commute_list) auto
    moreover have "updateResolver k d (updateResolver k e s) = updateResolver k d s"
      using Cons.prems(2,3) u by (intro candidate_absorbed) (simp_all add: same_fields_def)
    ultimately show ?thesis by (simp add: u True)
  next
    case False
    then show ?thesis using Cons u by (simp add: same_fields_def)
  qed
qed simp

lemma apply_updates_of:
  "same_fields us \<Longrightarrow> apply_updates (updates_of us) s = apply_updates us s"
proof (induction us rule: rev_induct)
  case (snoc u us)
  obtain k d where u: "u = (k, d)" by (cases u)
  have sf: "same_fields us" "map fst d = map fst (candidate_fields JUndef)" using snoc.prems u by (auto simp: same_fields_def)
  have dist: "distinct (map fst (put_entries vs m))" if "distinct (map fst m)" for vs m :: "(string \<times> obj) list"
    using that by (induction vs arbitrary: m) (auto simp: distinct_update)
  have same: "same_fields (put_entries vs m)" if "same_fields vs" "same_fields m" for vs m
    using that
  proof (induction vs arbitrary: m)
    case (Cons v vs)
    obtain j e where v: "v = (j, e)" by (cases v)
    have "set (AList.update j e m) \<subseteq> insert (j, e) (set m)" by (induction m) auto
    then have "same_fields (AList.update j e m)" using Cons.prems v by (auto simp: same_fields_def)
    then show ?case using Cons v by (simp add: same_fields_def)
  qed simp
  have "same_fields []" by (simp add: same_fields_def)
  then have "apply_updates (AList.update k d (updates_of us)) s = updateResolver k d (apply_updates (updates_of us) s)"
    unfolding updates_of_def using sf by (intro apply_update_entry dist same) simp_all
  then show ?case using snoc.IH sf u by (simp add: updates_of_def)
qed (simp add: updates_of_def)

text \<open>C11: How the server groups its measurements into frames does not matter. A frame with several measured
  resolvers, also with several measurements of one resolver, changes the page and its store exactly as frames with
  one each in the same order.\<close>

theorem candidate_frames_compose:
  assumes "\<forall>x\<in>set xs. \<not> nullish x"
  shows "take_candidates (JArr xs) s = fold (\<lambda>x. take_candidates (JArr [x])) xs s"
proof -
  define upd where "upd x = (getResolverKey (js_string (opt_prop x ''ip'')) (js_string (opt_prop x ''protocol'')), candidate_fields x)" for x
  have one: "candidate_update x = Inr (upd x)" if "\<not> nullish x" for x
  proof -
    from that have "get_prop x ''ip'' = Inr (opt_prop x ''ip'')" by (cases x) (simp_all add: opt_prop_def)
    then show ?thesis by (simp add: candidate_update_def upd_def)
  qed
  have all: "map_res candidate_update ys = Inr (map upd ys)" if "set ys \<subseteq> set xs" for ys
    using that assms by (induction ys) (auto simp: one)
  have sf: "same_fields (map upd ys)" for ys by (auto simp: same_fields_def upd_def candidate_fields_keys(2) [symmetric] intro: candidate_fields_keys)
  have step: "take_candidates (JArr ys) s = s\<lparr>dns := apply_updates (map upd ys) (dns s)\<rparr>" if "set ys \<subseteq> set xs" for ys s
    by (simp add: take_candidates_def all [OF that] updateResolversBulk_eq apply_updates_of [OF sf])
  have "fold (\<lambda>x. take_candidates (JArr [x])) ys s = s\<lparr>dns := apply_updates (map upd ys) (dns s)\<rparr>" if "set ys \<subseteq> set xs" for ys s
    using that
  proof (induction ys arbitrary: s)
    case (Cons y ys)
    then have "take_candidates (JArr [y]) s = s\<lparr>dns := apply_updates [upd y] (dns s)\<rparr>" using step [of "[y]" s] by simp
    then show ?case using Cons by (simp add: case_prod_unfold)
  qed simp
  then show ?thesis using step [of xs s] by simp
qed

theorem candidate_frames_compose_witness:
  "take_candidates (JArr [JObj [(''ip'', JStr ''a'')], JObj [(''ip'', JStr ''b'')]]) rated_page =
     take_candidates (JArr [JObj [(''ip'', JStr ''b'')]]) (take_candidates (JArr [JObj [(''ip'', JStr ''a'')]]) rated_page)"
proof -
  have "\<forall>x\<in>set [JObj [(''ip'', JStr ''a'')], JObj [(''ip'', JStr ''b'')]]. \<not> nullish x" by simp
  from candidate_frames_compose [OF this, of rated_page] show ?thesis by (simp only: fold.simps comp_def id_def)
qed

section \<open>What goes wrong\<close>

text \<open>The frame that announces a sweep makes the page drop the socket on which the sweep reports, and open another.\<close>

definition started :: jsv where
  "started = JObj [(''type'', JStr ''dns:telemetry''), (''event'', JStr ''dns.started'')]"

lemma started_drops_socket:
  assumes "ws s = Some i" and "i < length (sockets s)" and "ready_of (sockets s) i = OPEN" and "isSweeping (dns s) = JBool False"
  shows "(let s' = onmessage now (Some started) s in
    ready_of (sockets s') i = CLOSING \<and> ws s' = Some (length (sockets s)) \<and> socket_open s' = None)"
  using assms
  by (simp add: onmessage_def started_def telemetry_def opt_prop_def effects_def setSweeping_def close_own_def
      open_socket_def timer_effect_def socket_open_def Let_def ready_of_def close_socket_def nth_append new_socket_def
      set_ready_def)

text \<open>A trace that was asked for on that socket is never answered: the page waits for ever.\<close>

lemma trace_waits_for_ever:
  assumes "ws s = Some i" and "i < length (sockets s)" and "ready_of (sockets s) i = OPEN" and "isSweeping (dns s) = JBool False"
  shows "(let s' = onmessage now (Some started) (handleRunTrace a d s) in
    isTracing (probe s') \<and> ready_of (sockets s') i = CLOSING)"
  using assms
  by (simp add: handleRunTrace_def socket_open_def ask_socket_def send_def onmessage_def started_def telemetry_def opt_prop_def
      effects_def setSweeping_def close_own_def open_socket_def timer_effect_def Let_def ready_of_def close_socket_def
      nth_append set_ready_def)

text \<open>A frame with idle figures ends the sweep but keeps its start, so the clock of a sweep that is noticed by its
  figures later goes on from there.\<close>

definition figures :: "string \<Rightarrow> jsv" where
  "figures phase = JObj [(''phase'', JStr phase)]"

lemma old_start_time_kept:
  assumes "sweepStartTime s = Some t" and "t \<noteq> 0"
  shows "sweepStartTime (take_stats now2 (figures ''benchmark_sweep'') (take_stats now1 (figures ''idle'') s)) = Some t"
  using assms
  by (simp add: take_stats_def figures_def opt_prop_def setJobStats_def Let_def)

text \<open>The timer of an earlier message takes down a later one.\<close>

lemma toast_cut_short:
  "toastMessage (toast_over (triggerToast later kind2 (triggerToast earlier kind1 s))) = None"
  by (simp add: toast_over_def triggerToast_def)

text \<open>The page reports more addresses than it copied when a resolver is listed under several protocols.\<close>

lemma copied_count_has_duplicates:
  assumes "healthyIPs s = [a, a]"
  shows "copied (copyHealthyToClipboard None s) = copied s @ [a] \<and>
    toastMessage (copyHealthyToClipboard None s) = Some (''Copied 2 healthy resolver IPs to clipboard!'', ''success'')"
  using assms by (simp add: copyHealthyToClipboard_def triggerToast_def as_set_def show_nat.simps digit_char_def)

text \<open>A resolver that was deleted stays selected: with nothing else selected the page finds nothing to export,
  however many resolvers the table shows.\<close>

lemma stale_selection_blocks_export:
  assumes "selectedKeys s = [k]" and "resolvers (dns (list_reply (Some rows) s)) k = None"
  shows "toastMessage (exportResolvers as_json (list_reply (Some rows) s)) = Some (''No resolvers found to export'', ''info'')"
proof -
  have "selectedKeys (list_reply (Some rows) s) = [k]" using assms(1) by (simp add: list_reply_def Let_def)
  then show ?thesis using assms(2)
    by (simp add: exportResolvers_def targetKeys_def known_def map_filter_simps triggerToast_def)
qed

end
