(* ===== verification/V2Ray_Page.thy ===== *)
theory V2Ray_Page
  imports Proxy_Links Formats JSON
begin

text \<open>
  The V2Ray client page (\<open>web/client/src/pages/V2RayClientPage.tsx\<close>), less the proxy links (\<open>Proxy_Links\<close>): the
  settings, the list of profiles that is read page by page, the engine, and the diagnostic tools. A request
  that nobody awaits is an entry of the list \<open>pending\<close> with its purpose, and its answer an event. The effects of
  the page remember the values they last ran for, as React does.
\<close>

section \<open>State\<close>

text \<open>The banner: a success with its text, or an error.\<close>

datatype banner = Success string | Failure jsv

record client_form =
  selectedCore :: jsv
  fragmentMode :: jsv
  fragmentPackets :: jsv
  fragmentLength :: jsv
  fragmentInterval :: jsv
  socksPort :: jsv
  httpPort :: jsv
  muxEnabled :: bool
  dnsServer :: jsv
  routingPreset :: jsv
  customRouting :: jsv
  evasionFingerprint :: jsv
  evasionFragment :: bool
  evasionEch :: bool
  evasionEchConfig :: jsv
  evasionTcpBrutal :: bool
  evasionMixedCase :: bool
  evasionPadding :: bool

record system_form =
  hotkeys :: jsv
  systemTrayEnabled :: bool
  dpiBypassEnabled :: bool
  dpiBypassArgs :: jsv

record list_filters =
  f_search :: string
  f_protocol :: string
  f_network :: string
  f_port :: string
  f_pingStatus :: string
  f_sortBy :: string

text \<open>What \<open>loadSettings\<close> and \<open>fetchProfiles\<close> read from their closure.\<close>

record closure =
  c_filters :: list_filters
  c_category :: jsv
  c_query :: string

datatype purpose =
    ForSettings closure
  | ForStatus closure
  | ForProfiles nat bool
  | ForLogs
  | ForCategories
  | ForSubscriptions
  | ForProxyLogs
  | ForScanStatus

record node_state =
  n_status :: string
  pingMs :: jsv
  relayMs :: jsv
  httpStatus :: jsv
  colo :: jsv
  n_error :: jsv

record test_options =
  o_ids :: "jsv list"
  o_testType :: jsv
  o_concurrency :: jsv
  o_timeoutMs :: jsv
  o_delayMs :: jsv
  o_url :: jsv
  o_core :: jsv

record recent =
  r_id :: jsv
  r_name :: jsv
  r_ok :: jsv
  r_latency :: jsv
  r_error :: jsv
  r_timestamp :: string

record v2ray_page =
  token :: string
  page_protocol :: string
  page_host :: string
  isRunning :: jsv
  isLoading :: bool
  logs :: jsv
  logsQuery :: string
  message :: "banner option"
  form :: client_form
  sys :: system_form
  subUrl :: string
  profiles :: jsv
  totalProfiles :: jsv
  pageOffset :: nat
  activeProfileId :: jsv
  manualUri :: string
  testingStatus :: jsv
  testingProgress :: "jsv \<times> jsv"
  filters :: list_filters
  nodeTestStates :: "(string \<times> node_state) list"
  recentResults :: "recent list"
  wsRef :: "nat option"
  sockets :: "socket list"
  tests :: "(test_options \<times> jsv list) list"
  sent :: "(nat \<times> jsv) list"
  probeIP :: string
  probePorts :: string
  probeProto :: string
  probeResults :: jsv
  wolMac :: string
  wolBcast :: string
  discoveredDevices :: jsv
  isDiscovering :: bool
  debugProxyPort :: jsv
  isDebugProxyActive :: bool
  debugProxyLogs :: jsv
  selectedProfileIds :: "jsv list"
  cdnRanges :: string
  cdnScannerActive :: bool
  cdnScanStatus :: jsv
  speedTestActive :: bool
  speedTestBreakdown :: jsv
  activeTab :: string
  categories :: jsv
  selectedCategoryId :: jsv
  subscriptions :: jsv
  editingProfile :: jsv
  isEditModalOpen :: bool
  pdf_downloads :: nat
  pending :: "(request \<times> purpose) list"
  load_deps :: "(string \<times> bool \<times> bool) option"
  category_dep :: "jsv option"

definition default_form :: client_form where
  "default_form = \<lparr>selectedCore = JStr ''xray'', fragmentMode = JStr ''default'', fragmentPackets = JStr ''tlshello'',
     fragmentLength = JStr ''100-200'', fragmentInterval = JStr ''10-20'', socksPort = JNum 10808,
     httpPort = JNum 10809, muxEnabled = True, dnsServer = JStr ''8.8.8.8'', routingPreset = JStr ''bypass_domestic'',
     customRouting = JStr [], evasionFingerprint = JStr ''chrome'', evasionFragment = True, evasionEch = False,
     evasionEchConfig = JStr [], evasionTcpBrutal = False, evasionMixedCase = False, evasionPadding = False\<rparr>"

definition default_sys :: system_form where
  "default_sys = \<lparr>hotkeys = JStr [], systemTrayEnabled = True, dpiBypassEnabled = False,
     dpiBypassArgs = JStr ''-d1+s -t 5''\<rparr>"

definition no_filters :: list_filters where
  "no_filters = \<lparr>f_search = [], f_protocol = [], f_network = [], f_port = [], f_pingStatus = [], f_sortBy = ''priority''\<rparr>"

definition init_v2ray :: "string \<Rightarrow> string \<Rightarrow> string \<Rightarrow> v2ray_page" where
  "init_v2ray tok proto h = \<lparr>token = tok, page_protocol = proto, page_host = h, isRunning = JBool False,
     isLoading = False, logs = JArr [], logsQuery = [], message = None, form = default_form, sys = default_sys,
     subUrl = [], profiles = JArr [], totalProfiles = JNum 0, pageOffset = 0, activeProfileId = JNull, manualUri = [],
     testingStatus = JStr ''idle'', testingProgress = (JNum 0, JNum 0), filters = no_filters, nodeTestStates = [],
     recentResults = [], wsRef = None, sockets = [], tests = [], sent = [], probeIP = ''8.8.8.8'',
     probePorts = ''53,80,443'', probeProto = ''tcp'', probeResults = JArr [], wolMac = [],
     wolBcast = ''255.255.255.255'', discoveredDevices = JArr [], isDiscovering = False, debugProxyPort = JNum 8080,
     isDebugProxyActive = False, debugProxyLogs = JArr [], selectedProfileIds = [], cdnRanges = ''104.16.0.0/16'',
     cdnScannerActive = False, cdnScanStatus = JNull, speedTestActive = False, speedTestBreakdown = JNull,
     activeTab = ''arena'', categories = JArr [], selectedCategoryId = JNull, subscriptions = JArr [],
     editingProfile = JNull, isEditModalOpen = False, pdf_downloads = 0, pending = [], load_deps = None,
     category_dep = None\<rparr>"

text \<open>The profiles; where they are no list the page fails to render.\<close>

definition profile_list :: "v2ray_page \<Rightarrow> jsv list" where
  "profile_list s = (case profiles s of JArr ps \<Rightarrow> ps | _ \<Rightarrow> [])"

definition id_of :: "jsv \<Rightarrow> jsv" where
  "id_of p = opt_prop p ''ID''"

definition api :: "string \<Rightarrow> string" where
  "api path = ''/api/v2ray/client/'' @ path"

section \<open>Requests\<close>

definition closure_of :: "v2ray_page \<Rightarrow> closure" where
  "closure_of s = \<lparr>c_filters = filters s, c_category = selectedCategoryId s, c_query = logsQuery s\<rparr>"

text \<open>\<open>if (v) url += `&k=${encodeURIComponent(v)}`\<close>.\<close>

definition param :: "string \<Rightarrow> string \<Rightarrow> string" where
  "param k v = (if v = [] then [] else ''&'' @ k @ ''='' @ encodeURIComponent v)"

definition PAGE_LIMIT :: nat where
  "PAGE_LIMIT = 50"

definition profiles_url :: "nat \<Rightarrow> list_filters \<Rightarrow> jsv \<Rightarrow> string" where
  "profiles_url offset fl cat =
     api ''configs?offset='' @ show_nat offset @ ''&limit='' @ show_nat PAGE_LIMIT @ param ''search'' (f_search fl) @
     param ''protocol'' (f_protocol fl) @ param ''network'' (f_network fl) @ param ''port'' (f_port fl) @
     param ''ping_status'' (f_pingStatus fl) @ param ''sort_by'' (f_sortBy fl) @
     (if nullish cat then [] else ''&category_id='' @ encodeURIComponent (js_string cat))"

definition ask :: "string \<Rightarrow> purpose \<Rightarrow> v2ray_page \<Rightarrow> v2ray_page" where
  "ask url what s = s\<lparr>pending := pending s @ [(authed_get (token s) url, what)]\<rparr>"

definition fetchProfiles :: "nat \<Rightarrow> bool \<Rightarrow> list_filters \<Rightarrow> jsv \<Rightarrow> v2ray_page \<Rightarrow> v2ray_page" where
  "fetchProfiles offset reset fl cat = ask (profiles_url offset fl cat) (ForProfiles offset reset)"

definition fetchLogs :: "string \<Rightarrow> v2ray_page \<Rightarrow> v2ray_page" where
  "fetchLogs query = ask (api ''logs?q='' @ encodeURIComponent query) ForLogs"

definition fetchCategories :: "v2ray_page \<Rightarrow> v2ray_page" where
  "fetchCategories = ask (api ''categories'') ForCategories"

definition fetchSubscriptions :: "v2ray_page \<Rightarrow> v2ray_page" where
  "fetchSubscriptions = ask (api ''subscriptions'') ForSubscriptions"

definition fetchProxyLogs :: "v2ray_page \<Rightarrow> v2ray_page" where
  "fetchProxyLogs = ask (api ''debug-proxy/logs'') ForProxyLogs"

definition fetchCDNScanStatus :: "v2ray_page \<Rightarrow> v2ray_page" where
  "fetchCDNScanStatus = ask (api ''scan-cdn/status'') ForScanStatus"

text \<open>The first step of \<open>loadSettings\<close>.\<close>

definition loadSettings :: "closure \<Rightarrow> v2ray_page \<Rightarrow> v2ray_page" where
  "loadSettings c s = ask (api ''settings'') (ForSettings c) (s\<lparr>isLoading := True\<rparr>)"

section \<open>Effects\<close>

text \<open>The effect on the category, then the effect on the log query and the two tools: each runs when its values
  differ from those it last ran for.\<close>

definition category_effect :: "v2ray_page \<Rightarrow> v2ray_page" where
  "category_effect s = (if category_dep s = Some (selectedCategoryId s) then s
     else fetchProfiles 0 True (filters s) (selectedCategoryId s) (s\<lparr>category_dep := Some (selectedCategoryId s)\<rparr>))"

definition load_effect :: "v2ray_page \<Rightarrow> v2ray_page" where
  "load_effect s = (let deps = Some (logsQuery s, isDebugProxyActive s, cdnScannerActive s) in
     if load_deps s = deps then s else loadSettings (closure_of s) (s\<lparr>load_deps := deps\<rparr>))"

definition effects :: "v2ray_page \<Rightarrow> v2ray_page" where
  "effects s = load_effect (category_effect s)"

text \<open>Every 4000 milliseconds.\<close>

definition ticker :: "v2ray_page \<Rightarrow> v2ray_page" where
  "ticker s = (let s1 = fetchLogs (logsQuery s) s;
       s2 = (if isDebugProxyActive s then fetchProxyLogs s1 else s1)
     in if cdnScannerActive s then fetchCDNScanStatus s2 else s2)"

definition set_logsQuery :: "string \<Rightarrow> v2ray_page \<Rightarrow> v2ray_page" where
  "set_logsQuery q s = effects (s\<lparr>logsQuery := q\<rparr>)"

definition set_category :: "jsv \<Rightarrow> v2ray_page \<Rightarrow> v2ray_page" where
  "set_category c s = effects (s\<lparr>selectedCategoryId := c\<rparr>)"

section \<open>Answers\<close>

text \<open>The settings of the server; what it does not send has its default, the last four stay as they are.\<close>

definition string_or :: "jsv \<Rightarrow> string \<Rightarrow> string \<Rightarrow> jsv" where
  "string_or data k dflt = js_or (opt_prop data k) (JStr dflt)"

definition number_or :: "jsv \<Rightarrow> string \<Rightarrow> rat \<Rightarrow> jsv" where
  "number_or data k dflt = (if truthy (opt_prop data k) then to_number (opt_prop data k) else JNum dflt)"

definition is_true :: "jsv \<Rightarrow> string \<Rightarrow> bool" where
  "is_true data k \<longleftrightarrow> opt_prop data k = JStr ''true''"

definition read_form :: "jsv \<Rightarrow> client_form" where
  "read_form d = \<lparr>selectedCore = string_or d ''v2ray_core'' ''xray'',
     fragmentMode = string_or d ''fragment_mode'' ''default'',
     fragmentPackets = string_or d ''fragment_packets'' ''tlshello'',
     fragmentLength = string_or d ''fragment_length'' ''100-200'',
     fragmentInterval = string_or d ''fragment_interval'' ''10-20'',
     socksPort = number_or d ''socks_port'' 10808, httpPort = number_or d ''http_port'' 10809,
     muxEnabled = is_true d ''mux_enabled'', dnsServer = string_or d ''dns_server'' ''8.8.8.8'',
     routingPreset = string_or d ''routing_preset'' ''bypass_domestic'',
     customRouting = string_or d ''custom_routing'' [],
     evasionFingerprint = string_or d ''evasion_fingerprint'' ''chrome'',
     evasionFragment = is_true d ''evasion_fragment'', evasionEch = is_true d ''evasion_ech'',
     evasionEchConfig = string_or d ''evasion_ech_config'' [], evasionTcpBrutal = is_true d ''evasion_tcp_brutal'',
     evasionMixedCase = is_true d ''evasion_mixed_case'', evasionPadding = is_true d ''evasion_padding''\<rparr>"

definition read_sys :: "jsv \<Rightarrow> system_form \<Rightarrow> system_form" where
  "read_sys d f = \<lparr>hotkeys = if_truthy d ''keyboard_shortcuts'' (hotkeys f),
     systemTrayEnabled = (if truthy (opt_prop d ''system_tray_config'') then is_true d ''system_tray_config''
       else systemTrayEnabled f),
     dpiBypassEnabled = (if truthy (opt_prop d ''dpibypass_enabled'') then is_true d ''dpibypass_enabled''
       else dpiBypassEnabled f),
     dpiBypassArgs = if_truthy d ''dpibypass_args'' (dpiBypassArgs f)\<rparr>"

definition take_settings :: "jsv \<Rightarrow> v2ray_page \<Rightarrow> v2ray_page" where
  "take_settings d s = s\<lparr>form := read_form d, sys := read_sys d (sys s)\<rparr>"

definition end_load :: "v2ray_page \<Rightarrow> v2ray_page" where
  "end_load s = s\<lparr>isLoading := False\<rparr>"

definition ask_status :: "closure \<Rightarrow> v2ray_page \<Rightarrow> v2ray_page" where
  "ask_status c = ask (api ''status'') (ForStatus c)"

definition ask_lists :: "closure \<Rightarrow> v2ray_page \<Rightarrow> v2ray_page" where
  "ask_lists c s = end_load (fetchSubscriptions (fetchCategories (fetchLogs (c_query c)
     (fetchProfiles 0 True (c_filters c) (c_category c) s))))"

text \<open>The answer's value, where \<open>fetch\<close> and \<open>json\<close> succeed: \<open>f\<close> goes on with it, \<open>refused\<close> where the status is not
  ok, and \<open>broken\<close> after an exception, as when a property of \<open>null\<close> is read.\<close>

definition settled :: "reply \<Rightarrow> (jsv \<Rightarrow> 's \<Rightarrow> 's) \<Rightarrow> ('s \<Rightarrow> 's) \<Rightarrow> ('s \<Rightarrow> 's) \<Rightarrow> 's \<Rightarrow> 's" where
  "settled r f refused broken = (case r of
       Response True (JsonOk d) \<Rightarrow> f d
     | Response False b \<Rightarrow> refused
     | _ \<Rightarrow> broken)"

definition object_or :: "('s \<Rightarrow> 's) \<Rightarrow> (jsv \<Rightarrow> 's \<Rightarrow> 's) \<Rightarrow> jsv \<Rightarrow> 's \<Rightarrow> 's" where
  "object_or broken f d = (if nullish d then broken else f d)"

definition settings_answer :: "closure \<Rightarrow> reply \<Rightarrow> v2ray_page \<Rightarrow> v2ray_page" where
  "settings_answer c r = settled r (object_or end_load (\<lambda>d s. ask_status c (take_settings d s))) (ask_status c) end_load"

definition status_answer :: "closure \<Rightarrow> reply \<Rightarrow> v2ray_page \<Rightarrow> v2ray_page" where
  "status_answer c r = settled r
     (object_or end_load (\<lambda>d s. ask_lists c (s\<lparr>isRunning := opt_prop d ''is_running''\<rparr>))) (ask_lists c) end_load"

text \<open>A page of profiles. \<open>[...prev, ...data]\<close> of anything but two lists fails when the page renders, and so does
  an element that is no object.\<close>

definition append_rows :: "jsv \<Rightarrow> jsv \<Rightarrow> jsv" where
  "append_rows prev data = (case (prev, data) of (JArr ps, JArr ds) \<Rightarrow> JArr (ps @ ds) | _ \<Rightarrow> prev)"

definition active_row :: "jsv list \<Rightarrow> jsv option" where
  "active_row = find (\<lambda>p. truthy (opt_prop p ''is_active''))"

definition take_rows :: "nat \<Rightarrow> bool \<Rightarrow> jsv \<Rightarrow> v2ray_page \<Rightarrow> v2ray_page" where
  "take_rows offset reset pList s =
     (let data = js_or (opt_prop pList ''data'') (JArr []);
          s1 = s\<lparr>totalProfiles := js_or (opt_prop pList ''total'') (JNum 0),
            profiles := (if reset then data else append_rows (profiles s) data), pageOffset := offset\<rparr>
      in case data of
           JArr rows \<Rightarrow> (case active_row rows of Some p \<Rightarrow> s1\<lparr>activeProfileId := id_of p\<rparr>
             | None \<Rightarrow> if reset then s1\<lparr>activeProfileId := JNull\<rparr> else s1)
         | _ \<Rightarrow> s1)"

text \<open>Where no rendering ends in an exception: \<open>catch\<close> only prints.\<close>

definition no_change :: "'s \<Rightarrow> 's" where
  "no_change s = s"

definition profiles_answer :: "nat \<Rightarrow> bool \<Rightarrow> reply \<Rightarrow> v2ray_page \<Rightarrow> v2ray_page" where
  "profiles_answer offset reset r = settled r (object_or no_change (take_rows offset reset)) no_change no_change"

definition or_empty :: "jsv \<Rightarrow> jsv" where
  "or_empty d = js_or d (JArr [])"

definition take_scan_status :: "jsv \<Rightarrow> v2ray_page \<Rightarrow> v2ray_page" where
  "take_scan_status d s = effects (s\<lparr>cdnScanStatus := d,
     cdnScannerActive := (cdnScannerActive s \<and> \<not> (truthy d \<and> \<not> truthy (opt_prop d ''is_running'')))\<rparr>)"

fun answer :: "purpose \<Rightarrow> reply \<Rightarrow> v2ray_page \<Rightarrow> v2ray_page" where
  "answer (ForSettings c) r = settings_answer c r"
| "answer (ForStatus c) r = status_answer c r"
| "answer (ForProfiles offset reset) r = profiles_answer offset reset r"
| "answer ForLogs r = settled r (\<lambda>d s. s\<lparr>logs := or_empty d\<rparr>) no_change no_change"
| "answer ForCategories r = settled r (\<lambda>d s. s\<lparr>categories := or_empty d\<rparr>) no_change no_change"
| "answer ForSubscriptions r = settled r (\<lambda>d s. s\<lparr>subscriptions := or_empty d\<rparr>) no_change no_change"
| "answer ForProxyLogs r = settled r (\<lambda>d s. s\<lparr>debugProxyLogs := or_empty d\<rparr>) no_change no_change"
| "answer ForScanStatus r = settled r take_scan_status no_change no_change"

text \<open>The answer to request \<open>i\<close> arrives.\<close>

definition answered_nth :: "nat \<Rightarrow> reply \<Rightarrow> v2ray_page \<Rightarrow> v2ray_page" where
  "answered_nth i r s = (if i < length (pending s)
     then answer (snd (pending s ! i)) r (s\<lparr>pending := drop_nth i (pending s)\<rparr>) else s)"

section \<open>Paging\<close>

text \<open>The effect of the virtual list (\<open>SubscriptionsCard\<close>): the last row it renders is the last profile or the row
  below it, there are more, and nothing is loading. It runs after every render of the page.\<close>

definition scrolled :: "nat \<Rightarrow> v2ray_page \<Rightarrow> v2ray_page" where
  "scrolled last_index s =
     (let n = length (profile_list s); more = js_less (JNum (of_nat n)) (totalProfiles s) in
      if n \<le> Suc last_index \<and> more \<and> \<not> isLoading s
      then fetchProfiles (pageOffset s + PAGE_LIMIT) False (filters s) (selectedCategoryId s) s else s)"

definition applyFilters :: "list_filters \<Rightarrow> v2ray_page \<Rightarrow> v2ray_page" where
  "applyFilters fl s = fetchProfiles 0 True fl (selectedCategoryId s) (s\<lparr>filters := fl\<rparr>)"

end
