(* ===== verification/V2Ray_Handlers.thy ===== *)
theory V2Ray_Handlers
  imports V2Ray_Page
begin

text \<open>
  The commands of the V2Ray client page. Nearly all of them have the same shape: the flag \<open>isLoading\<close> is set, a
  request is awaited, a success shows a message and loads the page again, a refusal shows the server's error, an
  exception its message, and the flag is cleared whatever happened. \<open>command\<close> is that shape.
\<close>

type_synonym v2ray_action = "(v2ray_page, unit) page_action"

definition say :: "string \<Rightarrow> v2ray_page \<Rightarrow> v2ray_page" where
  "say text s = s\<lparr>message := Some (Success text)\<rparr>"

definition complain :: "jsv \<Rightarrow> v2ray_page \<Rightarrow> v2ray_page" where
  "complain e s = s\<lparr>message := Some (Failure e)\<rparr>"

definition begin_work :: "v2ray_page \<Rightarrow> v2ray_page" where
  "begin_work s = s\<lparr>isLoading := True\<rparr>"

definition clear_message :: "v2ray_page \<Rightarrow> v2ray_page" where
  "clear_message s = s\<lparr>message := None\<rparr>"

text \<open>\<open>finally { setIsLoading(false) }\<close> ends a handler, and the page renders.\<close>

definition end_work :: "v2ray_page \<Rightarrow> v2ray_page" where
  "end_work s = effects (end_load s)"

definition loudly :: "v2ray_action \<Rightarrow> v2ray_action" where
  "loudly t = try_catch t (\<lambda>e. set_state (complain (JStr e)))"

definition refuse :: "string \<Rightarrow> body \<Rightarrow> v2ray_action" where
  "refuse dflt b = bind (api_error b dflt) (\<lambda>e. set_state (complain e))"

text \<open>\<open>if (res.ok) { ... } else { const data = await res.json(); setMessage(data.error || dflt) }\<close>.\<close>

definition on_reply :: "request \<Rightarrow> string \<Rightarrow> (body \<Rightarrow> v2ray_action) \<Rightarrow> v2ray_action" where
  "on_reply rq dflt good = bind (page_fetch rq) (\<lambda>(ok, b). if ok then good b else refuse dflt b)"

definition on_success :: "request \<Rightarrow> (body \<Rightarrow> v2ray_action) \<Rightarrow> v2ray_action" where
  "on_success rq good = bind (page_fetch rq) (\<lambda>(ok, b). if ok then good b else Done ())"

definition command :: "request \<Rightarrow> string \<Rightarrow> (body \<Rightarrow> v2ray_action) \<Rightarrow> v2ray_action" where
  "command rq dflt good = Set (\<lambda>s. clear_message (begin_work s)) (finally_do (loudly (on_reply rq dflt good)) end_work)"

definition v2ray_post :: "v2ray_page \<Rightarrow> string \<Rightarrow> jsv \<Rightarrow> request" where
  "v2ray_post c path v = post_json (token c) (api path) v"

definition v2ray_send :: "v2ray_page \<Rightarrow> string \<Rightarrow> string \<Rightarrow> request" where
  "v2ray_send c verb path = http_send verb (api path) [auth_header (token c)] None"

text \<open>\<open>setMessage(...); loadSettings()\<close> with the closure of the handler.\<close>

definition done_reload :: "v2ray_page \<Rightarrow> string \<Rightarrow> v2ray_page \<Rightarrow> v2ray_page" where
  "done_reload c text s = loadSettings (closure_of c) (say text s)"

section \<open>Settings\<close>

definition text_of :: "jsv \<Rightarrow> jsv" where
  "text_of v = JStr (js_string v)"

definition save_body :: "client_form \<Rightarrow> jsv" where
  "save_body f = JObj [(''v2ray_core'', text_of (selectedCore f)), (''fragment_mode'', text_of (fragmentMode f)),
     (''fragment_packets'', text_of (fragmentPackets f)), (''fragment_length'', text_of (fragmentLength f)),
     (''fragment_interval'', text_of (fragmentInterval f)), (''socks_port'', text_of (socksPort f)),
     (''http_port'', text_of (httpPort f)), (''mux_enabled'', text_of (JBool (muxEnabled f))),
     (''dns_server'', text_of (dnsServer f)), (''routing_preset'', text_of (routingPreset f)),
     (''custom_routing'', text_of (customRouting f)), (''evasion_fingerprint'', text_of (evasionFingerprint f)),
     (''evasion_fragment'', text_of (JBool (evasionFragment f))), (''evasion_ech'', text_of (JBool (evasionEch f))),
     (''evasion_ech_config'', text_of (evasionEchConfig f)),
     (''evasion_tcp_brutal'', text_of (JBool (evasionTcpBrutal f))),
     (''evasion_mixed_case'', text_of (JBool (evasionMixedCase f))),
     (''evasion_padding'', text_of (JBool (evasionPadding f)))]"

definition handleSaveSettings :: v2ray_action where
  "handleSaveSettings = Get (\<lambda>c. command (v2ray_post c ''settings'' (save_body (form c))) ''Failed to update settings.''
     (\<lambda>b. set_state (done_reload c ''V2Ray client settings updated successfully!'')))"

definition sys_body :: "system_form \<Rightarrow> jsv" where
  "sys_body f = JObj [(''keyboard_shortcuts'', hotkeys f), (''system_tray_config'', text_of (JBool (systemTrayEnabled f))),
     (''dpibypass_enabled'', text_of (JBool (dpiBypassEnabled f))), (''dpibypass_args'', dpiBypassArgs f)]"

text \<open>A failure loads the page again, to go back to what the server has.\<close>

definition handleSaveSystemSettings :: v2ray_action where
  "handleSaveSystemSettings = Get (\<lambda>c. Set (\<lambda>s. clear_message (begin_work s)) (finally_do (try_catch
     (bind (page_fetch (v2ray_post c ''settings'' (sys_body (sys c)))) (\<lambda>(ok, b).
        if ok then set_state (say ''System settings saved successfully!'')
        else bind (api_error b ''Failed to save system settings.'') (\<lambda>e.
          set_state (\<lambda>s. loadSettings (closure_of c) (complain e s)))))
     (\<lambda>e. set_state (\<lambda>s. loadSettings (closure_of c) (complain (JStr e) s)))) end_work))"

section \<open>The engine\<close>

definition no_active :: string where
  "no_active = ''No active configuration selected. Please select/activate a configuration profile from the list before starting the core engine.''"

definition started_core :: "jsv \<Rightarrow> v2ray_page \<Rightarrow> v2ray_page" where
  "started_core d s = say ''V2Ray Client engine started successfully!'' (s\<lparr>isRunning := JBool True,
     form := (form s)\<lparr>socksPort := (if truthy (opt_prop d ''socks_port'') then to_number (opt_prop d ''socks_port'')
         else socksPort (form s)),
       httpPort := (if truthy (opt_prop d ''http_port'') then to_number (opt_prop d ''http_port'')
         else httpPort (form s))\<rparr>\<rparr>)"

text \<open>A body that is \<open>null\<close> fails after \<open>setIsRunning(true)\<close>.\<close>

definition handleStartCore :: v2ray_action where
  "handleStartCore = Get (\<lambda>c. if activeProfileId c = JNull then set_state (complain (JStr no_active))
     else command (v2ray_send c ''POST'' ''start'') ''Failed to start proxy core.''
       (\<lambda>b. bind (read_json b) (\<lambda>d. case get_prop d ''socks_port'' of
            Inl e \<Rightarrow> Set (\<lambda>s. s\<lparr>isRunning := JBool True\<rparr>) (Fail e)
          | Inr _ \<Rightarrow> set_state (started_core d))))"

definition handleStopCore :: v2ray_action where
  "handleStopCore = Get (\<lambda>c. command (v2ray_send c ''POST'' ''stop'') ''Failed to stop proxy core.''
     (\<lambda>b. set_state (\<lambda>s. say ''V2Ray Client engine stopped.'' (s\<lparr>isRunning := JBool False\<rparr>))))"

section \<open>Importing and exporting\<close>

definition handleImportSub :: v2ray_action where
  "handleImportSub = Get (\<lambda>c. if subUrl c = [] then Done ()
     else command (v2ray_post c ''subscriptions'' (JObj [(''url'', JStr (subUrl c))])) ''Failed to import subscription.''
       (\<lambda>b. set_state (\<lambda>s. done_reload c ''Subscription sync trigger added! Reloading profiles...'' (s\<lparr>subUrl := []\<rparr>))))"

definition handleManualImport :: v2ray_action where
  "handleManualImport = Get (\<lambda>c. if manualUri c = [] then Done ()
     else command (v2ray_post c ''configs/import-manual'' (JObj [(''uri'', JStr (manualUri c))])) ''Import failed.''
       (\<lambda>b. set_state (\<lambda>s. done_reload c ''Manual profile imported successfully!'' (s\<lparr>manualUri := []\<rparr>))))"

text \<open>The file stands for its contents by its name; no file is no command.\<close>

definition handleQRImport :: "string option \<Rightarrow> v2ray_action" where
  "handleQRImport file = (case file of None \<Rightarrow> Done ()
     | Some f \<Rightarrow> Get (\<lambda>c. command (http_send ''POST'' (api ''configs/import-qr'') [auth_header (token c)]
           (Some (JObj [(''file'', JStr f)]))) ''Failed to decode QR code.''
         (\<lambda>b. set_state (done_reload c ''QR code imported successfully!''))))"

definition ids_body :: "v2ray_page \<Rightarrow> jsv" where
  "ids_body c = JObj [(''ids'', JArr (selectedProfileIds c))]"

definition handleExportPDF :: v2ray_action where
  "handleExportPDF = Get (\<lambda>c. if selectedProfileIds c = []
     then set_state (complain (JStr ''Please select at least one profile to export.''))
     else Set begin_work (finally_do (loudly (on_reply (v2ray_post c ''export-pdf'' (ids_body c)) ''Failed to export PDF.''
       (\<lambda>b. Yield (set_state (\<lambda>s. say ''PDF export downloaded successfully!'' (s\<lparr>pdf_downloads := Suc (pdf_downloads s)\<rparr>))))))
       end_work))"

section \<open>The CDN scan\<close>

text \<open>The profile of a row, for \<open>BuildProxyLink\<close>: the server sends strings, and a natural number as the port.\<close>

definition str_prop :: "jsv \<Rightarrow> string \<Rightarrow> string" where
  "str_prop p k = (if truthy (opt_prop p k) then js_string (opt_prop p k) else [])"

definition row_profile :: "jsv \<Rightarrow> profile" where
  "row_profile p = \<lparr>p_protocol = str_prop p ''protocol'', p_uuid = str_prop p ''uuid'',
     p_address = js_string (opt_prop p ''address''),
     p_port = (case opt_prop p ''port'' of JNum n \<Rightarrow> nat \<lfloor>n\<rfloor> | _ \<Rightarrow> 0), p_network = str_prop p ''network'',
     p_tls_mode = str_prop p ''tls_mode'', p_sni = str_prop p ''sni'', p_path = str_prop p ''path'',
     p_name = str_prop p ''name''\<rparr>"

definition scan_target :: "v2ray_page \<Rightarrow> jsv" where
  "scan_target c = (case find (\<lambda>p. strict_eq (id_of p) (activeProfileId c)) (profile_list c) of
       Some p \<Rightarrow> p | None \<Rightarrow> hd (profile_list c))"

definition scan_ranges :: "v2ray_page \<Rightarrow> string list" where
  "scan_ranges c = filter (\<lambda>r. r \<noteq> []) (map trim (split_on newline (cdnRanges c)))"

definition scan_body :: "string \<Rightarrow> string list \<Rightarrow> jsv" where
  "scan_body link ranges = JObj [(''uri'', JStr link), (''ranges'', JArr (map JStr ranges)), (''per_range_limit'', JNum 10),
     (''max_scan_cap'', JNum 100), (''ports'', JArr [JNum 443]), (''top_for_speed'', JNum 5), (''final_count'', JNum 3),
     (''download_bytes'', JNum 1000000), (''upload_bytes'', JNum 500000), (''ping_timeout_sec'', JNum 2),
     (''speed_timeout_sec'', JNum 10), (''ping_concurrency'', JNum 20), (''speed_conc'', JNum 2), (''base_port'', JNum 20000)]"

definition handleStartCDNScan :: v2ray_action where
  "handleStartCDNScan = Get (\<lambda>c.
     if profile_list c = [] then set_state (complain (JStr ''Please import a template profile first.''))
     else let link = BuildProxyLink (row_profile (scan_target c)) in
       if link = [] then set_state (complain (JStr ''Could not construct valid config link from active profile.''))
       else Set begin_work (finally_do (loudly (on_reply (v2ray_post c ''scan-cdn'' (scan_body link (scan_ranges c)))
         ''Scanner failed to start.''
         (\<lambda>b. set_state (\<lambda>s. say ''CDN IP Scan initialized!'' (s\<lparr>cdnScannerActive := True\<rparr>))))) end_work))"

definition handleStopCDNScan :: v2ray_action where
  "handleStopCDNScan = Get (\<lambda>c. Set begin_work (finally_do (quietly (on_success (v2ray_send c ''POST'' ''scan-cdn/stop'')
     (\<lambda>b. set_state (\<lambda>s. say ''CDN IP scanner stopped by user request.'' (s\<lparr>cdnScannerActive := False\<rparr>))))) end_work))"

section \<open>The speed test\<close>

definition handleRunSpeedTest :: v2ray_action where
  "handleRunSpeedTest = Get (\<lambda>c. if \<not> truthy (isRunning c)
     then set_state (complain (JStr ''V2Ray client proxy is not running. Please connect first.''))
     else Set (\<lambda>s. s\<lparr>speedTestActive := True, speedTestBreakdown := JNull\<rparr>) (finally_do (loudly
       (on_reply (v2ray_post c ''speed-test'' (JObj [(''size_bytes'', JNum 10000000)])) ''Speed test failed.''
         (\<lambda>b. bind (read_json b) (\<lambda>d. set_state (\<lambda>s. s\<lparr>speedTestBreakdown := d\<rparr>)))))
       (\<lambda>s. s\<lparr>speedTestActive := False\<rparr>)))"

section \<open>Profiles\<close>

definition config_path :: "jsv \<Rightarrow> string" where
  "config_path i = ''configs/'' @ js_string i"

definition handleSelectProfile :: "jsv \<Rightarrow> v2ray_action" where
  "handleSelectProfile i = Get (\<lambda>c. Set begin_work (finally_do (quietly
     (on_success (v2ray_send c ''POST'' (config_path i @ ''/active''))
       (\<lambda>b. set_state (\<lambda>s. done_reload c ''Active outbound profile modified!'' (s\<lparr>activeProfileId := i\<rparr>))))) end_work))"

definition profile_title :: "v2ray_page \<Rightarrow> jsv \<Rightarrow> string" where
  "profile_title c i = (case find (\<lambda>p. strict_eq (id_of p) i) (profile_list c) of None \<Rightarrow> []
     | Some p \<Rightarrow> '' '' @ [CHR 0x22] @ js_string (opt_prop p ''name'') @ [CHR 0x22])"

definition handleDeleteProfile :: "jsv \<Rightarrow> v2ray_action" where
  "handleDeleteProfile i = Get (\<lambda>c. bind (ask_confirm (''Are you sure you want to delete the outbound configuration''
       @ profile_title c i @ ''? (1 node targeted)'')) (\<lambda>yes.
     if \<not> yes then Done ()
     else Set begin_work (finally_do (quietly (on_success (v2ray_send c ''DELETE'' (config_path i))
       (\<lambda>b. set_state (done_reload c ''Outbound profile deleted.'')))) end_work)))"

text \<open>Deleting many: an exception shows a message of its own.\<close>

definition delete_many :: "string \<Rightarrow> request \<Rightarrow> string \<Rightarrow> string \<Rightarrow> (body \<Rightarrow> v2ray_action) \<Rightarrow> v2ray_action" where
  "delete_many question rq dflt failed good = bind (ask_confirm question) (\<lambda>yes.
     if \<not> yes then Done ()
     else Set begin_work (finally_do (try_catch (on_reply rq dflt good)
       (\<lambda>e. set_state (complain (JStr failed)))) end_work))"

definition handleDeleteAllNodes :: v2ray_action where
  "handleDeleteAllNodes = Get (\<lambda>c. delete_many
     (''Are you sure you want to delete ALL outbound configurations? This action will permanently remove all ''
       @ js_string (totalProfiles c) @ '' configurations and cannot be undone!'')
     (v2ray_send c ''DELETE'' ''configs/all'') ''Failed to delete nodes.''
     ''An unexpected error occurred while deleting nodes.''
     (\<lambda>b. set_state (done_reload c ''All outbound profiles have been deleted.'')))"

text \<open>The body of a success: \<open>null\<close> fails.\<close>

definition with_count :: "body \<Rightarrow> (string \<Rightarrow> v2ray_page \<Rightarrow> v2ray_page) \<Rightarrow> v2ray_action" where
  "with_count b f = bind (read_json b) (\<lambda>d. bind (lift_res (get_prop d ''count'')) (\<lambda>n.
     set_state (f (js_string (js_or n (JNum 0))))))"

definition handleDeleteFailedNodes :: v2ray_action where
  "handleDeleteFailedNodes = Get (\<lambda>c. delete_many
     ''Are you sure you want to delete ALL failed (RTT < 0 / failed latency test) outbound configurations from the entire database? This action cannot be undone.''
     (v2ray_send c ''DELETE'' ''configs/failed'') ''Failed to delete failed nodes.''
     ''Network/server error while deleting failed nodes.''
     (\<lambda>b. with_count b (\<lambda>n s. done_reload c (''Successfully deleted '' @ n @ '' failed configuration profiles.'')
        (s\<lparr>pageOffset := 0\<rparr>))))"

definition handleDeleteSelectedNodes :: v2ray_action where
  "handleDeleteSelectedNodes = Get (\<lambda>c. if selectedProfileIds c = [] then Done ()
     else delete_many (''Are you sure you want to delete the '' @ show_nat (length (selectedProfileIds c))
         @ '' selected outbound configurations?'')
       (v2ray_post c ''configs/delete-selected'' (ids_body c)) ''Failed to delete selected nodes.''
       ''Network/server error while deleting selected nodes.''
       (\<lambda>b. with_count b (\<lambda>n s. done_reload c (''Successfully deleted '' @ n @ '' selected configuration profiles.'')
          (s\<lparr>selectedProfileIds := [], pageOffset := 0\<rparr>))))"

definition handleTestLatency :: v2ray_action where
  "handleTestLatency = Get (\<lambda>c. Set (\<lambda>s. say ''Running parallel RTT latency test sweep...'' (begin_work s))
     (finally_do (quietly (on_success (v2ray_send c ''POST'' ''test-mass'')
       (\<lambda>b. set_state (loadSettings (closure_of c))))) end_work))"

definition handleEditProfile :: "jsv \<Rightarrow> v2ray_page \<Rightarrow> v2ray_page" where
  "handleEditProfile p s = s\<lparr>editingProfile := p, isEditModalOpen := True\<rparr>"

definition close_edit :: "v2ray_page \<Rightarrow> v2ray_page" where
  "close_edit s = s\<lparr>isEditModalOpen := False, editingProfile := JNull\<rparr>"

definition edit_body :: "jsv \<Rightarrow> jsv" where
  "edit_body p = JObj (map (\<lambda>k. (k, if k = ''port'' then to_number (opt_prop p k) else opt_prop p k))
     [''name'', ''protocol'', ''address'', ''port'', ''uuid'', ''network'', ''tls_settings'', ''mux_enabled'', ''priority''])"

definition handleSaveEditedProfile :: "jsv \<Rightarrow> v2ray_action" where
  "handleSaveEditedProfile p = Get (\<lambda>c. command
     (http_send ''PUT'' (api (config_path (id_of p))) [json_header, auth_header (token c)] (Some (edit_body p)))
     ''Failed to update configuration.''
     (\<lambda>b. set_state (\<lambda>s. close_edit (done_reload c
        (''Configuration '' @ [CHR 0x22] @ js_string (opt_prop p ''name'') @ [CHR 0x22] @ '' updated successfully!'') s))))"

section \<open>Diagnostic tools\<close>

text \<open>The ports of the text field: \<open>Number\<close> reads a blank piece as 0, and what is no number is left out.\<close>

definition ports_of :: "string \<Rightarrow> jsv list" where
  "ports_of text = filter (\<lambda>n. n \<noteq> JNaN) (map (\<lambda>p. str_number (trim p)) (split_on CHR '','' text))"

definition handleProbePorts :: v2ray_action where
  "handleProbePorts = Get (\<lambda>c. if probeIP c = [] \<or> probePorts c = [] then Done ()
     else Set (\<lambda>s. begin_work s\<lparr>probeResults := JArr []\<rparr>) (finally_do (quietly
       (on_success (v2ray_post c ''probe-ports'' (JObj [(''ip'', JStr (probeIP c)),
           (''ports'', JArr (ports_of (probePorts c))), (''protocol'', JStr (probeProto c))]))
         (\<lambda>b. bind (read_json b) (\<lambda>d. set_state (\<lambda>s. s\<lparr>probeResults := d\<rparr>))))) end_work))"

definition handleSendWol :: v2ray_action where
  "handleSendWol = Get (\<lambda>c. if wolMac c = [] then Done ()
     else command (v2ray_post c ''wol'' (JObj [(''mac'', JStr (wolMac c)), (''broadcast_ip'', JStr (wolBcast c))]))
       ''Failed to dispatch packet.'' (\<lambda>b. set_state (say ''Magic WOL broadcast packet dispatched!'')))"

definition handleDiscoverDevices :: v2ray_action where
  "handleDiscoverDevices = Get (\<lambda>c. Set (\<lambda>s. s\<lparr>isDiscovering := True, discoveredDevices := JArr []\<rparr>) (finally_do (quietly
     (on_success (authed_get (token c) (api ''discover''))
       (\<lambda>b. bind (read_json b) (\<lambda>d. set_state (\<lambda>s. s\<lparr>discoveredDevices := or_empty d\<rparr>)))))
     (\<lambda>s. s\<lparr>isDiscovering := False\<rparr>)))"

definition debug_request :: "v2ray_page \<Rightarrow> request" where
  "debug_request c = http_send ''POST'' (api (if isDebugProxyActive c then ''debug-proxy/stop'' else ''debug-proxy/start''))
     [json_header, auth_header (token c)]
     (if isDebugProxyActive c then None else Some (JObj [(''port'', to_number (debugProxyPort c))]))"

definition handleToggleDebugProxy :: v2ray_action where
  "handleToggleDebugProxy = Get (\<lambda>c. Set begin_work (finally_do (quietly (on_success (debug_request c)
     (\<lambda>b. set_state (\<lambda>s. s\<lparr>isDebugProxyActive := (\<not> isDebugProxyActive c), debugProxyLogs := JArr []\<rparr>)))) end_work))"

end
