(* ===== verification/V2Ray_Sweep.thy ===== *)
theory V2Ray_Sweep
  imports V2Ray_Page
begin

text \<open>
  The configuration tester of the V2Ray client page. Each test opens a socket of its own; the socket's handlers are
  closures of the render that started the test, kept in \<open>tests\<close> with the options of the test, at the socket's
  index. The statistics above the list are computed from the states of the nodes.
\<close>

section \<open>Starting and stopping\<close>

definition testing :: node_state where
  "testing = \<lparr>n_status = ''testing'', pingMs = JUndef, relayMs = JUndef, httpStatus = JUndef, colo = JUndef,
     n_error = JUndef\<rparr>"

definition mark_testing :: "jsv list \<Rightarrow> (string \<times> node_state) list" where
  "mark_testing ids = fold (\<lambda>i. AList.update (js_string i) testing) ids []"

definition test_url :: "v2ray_page \<Rightarrow> string" where
  "test_url s = ws_url (page_protocol s) (page_host s) ''/ws/v2ray/test'' (encodeURIComponent (token s))"

definition close_test :: "v2ray_page \<Rightarrow> v2ray_page" where
  "close_test s = (case wsRef s of None \<Rightarrow> s | Some i \<Rightarrow> s\<lparr>sockets := close_socket i (sockets s)\<rparr>)"

definition startAdvancedTest :: "test_options \<Rightarrow> v2ray_page \<Rightarrow> v2ray_page" where
  "startAdvancedTest opts s =
     (let s1 = close_test s in s1\<lparr>wsRef := Some (length (sockets s1)),
        sockets := sockets s1 @ [new_socket (test_url s1)], tests := tests s1 @ [(opts, profile_list s1)],
        testingStatus := JStr ''running'',
        testingProgress := (if o_ids opts = [] then totalProfiles s1 else JNum (of_nat (length (o_ids opts))), JNum 0),
        recentResults := [],
        nodeTestStates := mark_testing (if o_ids opts = [] then map id_of (profile_list s1) else o_ids opts)\<rparr>)"

definition start_frame :: "test_options \<Rightarrow> jsv" where
  "start_frame opts = JObj [(''action'', JStr ''start''), (''ids'', JArr (o_ids opts)), (''test_type'', o_testType opts),
     (''concurrency'', o_concurrency opts), (''timeout_ms'', o_timeoutMs opts), (''delay_ms'', o_delayMs opts),
     (''url'', o_url opts), (''core'', o_core opts)]"

definition test_opened :: "nat \<Rightarrow> v2ray_page \<Rightarrow> v2ray_page" where
  "test_opened i s = (if i < length (sockets s) \<and> ready_of (sockets s) i = CONNECTING
     then s\<lparr>sockets := set_ready i OPEN (sockets s), sent := sent s @ [(i, start_frame (fst (tests s ! i)))]\<rparr> else s)"

text \<open>\<open>stopAdvancedTest\<close> tells the server only when the socket of the reference is open.\<close>

definition stopAdvancedTest :: "v2ray_page \<Rightarrow> v2ray_page" where
  "stopAdvancedTest s =
     (let s1 = (case wsRef s of
          Some i \<Rightarrow> if ready_of (sockets s) i = OPEN
            then s\<lparr>sent := sent s @ [(i, JObj [(''action'', JStr ''stop'')])]\<rparr> else s
        | None \<Rightarrow> s) in s1\<lparr>testingStatus := JStr ''stopped''\<rparr>)"

definition testSingleProfileAdvanced :: "jsv \<Rightarrow> jsv \<Rightarrow> jsv \<Rightarrow> v2ray_page \<Rightarrow> v2ray_page" where
  "testSingleProfileAdvanced i kind url = startAdvancedTest \<lparr>o_ids = [i], o_testType = kind, o_concurrency = JNum 1,
     o_timeoutMs = JNum 5000, o_delayMs = JNum 0,
     o_url = js_or url (JStr ''http://www.gstatic.com/generate_204''), o_core = JStr ''current''\<rparr>"

definition test_unmounted :: "v2ray_page \<Rightarrow> v2ray_page" where
  "test_unmounted = close_test"

section \<open>Messages\<close>

definition finished :: "jsv \<Rightarrow> bool" where
  "finished st \<longleftrightarrow> st \<in> {JStr ''completed'', JStr ''stopped'', JStr ''error''}"

definition take_status :: "nat \<Rightarrow> jsv \<Rightarrow> v2ray_page \<Rightarrow> v2ray_page" where
  "take_status i msg s =
     (let st = opt_prop msg ''status''; s1 = s\<lparr>testingStatus := st,
        testingProgress := (opt_prop msg ''total'', opt_prop msg ''current'')\<rparr>
      in if finished st then s1\<lparr>sockets := close_socket i (sockets s1)\<rparr> else s1)"

definition node_name :: "jsv list \<Rightarrow> jsv \<Rightarrow> jsv" where
  "node_name ps i = (case find (\<lambda>p. strict_eq (id_of p) i) ps of Some p \<Rightarrow> opt_prop p ''name''
     | None \<Rightarrow> JStr (''Node #'' @ js_string i))"

definition result_latency :: "jsv \<Rightarrow> jsv" where
  "result_latency res = (if truthy (opt_prop res ''ok'') then opt_prop res ''relay_ms'' else JNum (-1))"

definition recent_of :: "jsv list \<Rightarrow> string \<Rightarrow> jsv \<Rightarrow> recent" where
  "recent_of ps now res = \<lparr>r_id = opt_prop res ''config_id'', r_name = node_name ps (opt_prop res ''config_id''),
     r_ok = opt_prop res ''ok'', r_latency = result_latency res, r_error = opt_prop res ''error'', r_timestamp = now\<rparr>"

definition tested :: "jsv \<Rightarrow> node_state" where
  "tested res = \<lparr>n_status = (if truthy (opt_prop res ''ok'') then ''done'' else ''error''),
     pingMs = opt_prop res ''ping_ms'', relayMs = opt_prop res ''relay_ms'', httpStatus = opt_prop res ''http_status'',
     colo = opt_prop res ''colo'', n_error = opt_prop res ''error''\<rparr>"

text \<open>\<open>profiles.map\<close> with \<open>{...p, latency_ms}\<close> for the profile of the result.\<close>

definition set_latency :: "jsv \<Rightarrow> jsv \<Rightarrow> jsv" where
  "set_latency res p = (if strict_eq (id_of p) (opt_prop res ''config_id'')
     then obj_put ''latency_ms'' (result_latency res) p else p)"

definition map_rows :: "(jsv \<Rightarrow> jsv) \<Rightarrow> jsv \<Rightarrow> jsv" where
  "map_rows f ps = (case ps of JArr xs \<Rightarrow> JArr (map f xs) | _ \<Rightarrow> ps)"

definition take_result :: "nat \<Rightarrow> string \<Rightarrow> jsv \<Rightarrow> jsv \<Rightarrow> v2ray_page \<Rightarrow> v2ray_page" where
  "take_result i now msg res s = s\<lparr>testingProgress := (opt_prop msg ''total'', opt_prop msg ''current''),
     recentResults := take 5 (recent_of (snd (tests s ! i)) now res # recentResults s),
     nodeTestStates := AList.update (js_string (opt_prop res ''config_id'')) (tested res) (nodeTestStates s),
     profiles := map_rows (set_latency res) (profiles s)\<rparr>"

text \<open>A message on socket \<open>i\<close>: \<open>None\<close> when it is no JSON; \<open>null\<close> fails too, and both are only printed.\<close>

definition test_message :: "nat \<Rightarrow> string \<Rightarrow> jsv option \<Rightarrow> v2ray_page \<Rightarrow> v2ray_page" where
  "test_message i now data s = (case data of None \<Rightarrow> s
     | Some msg \<Rightarrow>
         if opt_prop msg ''type'' = JStr ''status'' then take_status i msg s
         else if opt_prop msg ''type'' = JStr ''result'' \<and> truthy (opt_prop msg ''result'')
         then take_result i now msg (opt_prop msg ''result'') s else s)"

definition test_closed :: "nat \<Rightarrow> v2ray_page \<Rightarrow> v2ray_page" where
  "test_closed i s = s\<lparr>sockets := set_ready i CLOSED (sockets s),
     testingStatus := (if testingStatus s = JStr ''running'' then JStr ''stopped'' else testingStatus s), wsRef := None\<rparr>"

definition test_failed :: "nat \<Rightarrow> v2ray_page \<Rightarrow> v2ray_page" where
  "test_failed i s = s\<lparr>testingStatus := JStr ''error'', sockets := close_socket i (sockets s)\<rparr>"

section \<open>Statistics\<close>

definition node_states :: "v2ray_page \<Rightarrow> node_state list" where
  "node_states s = map snd (nodeTestStates s)"

definition positive :: "jsv \<Rightarrow> bool" where
  "positive v \<longleftrightarrow> truthy v \<and> js_less (JNum 0) v"

definition testResults :: "v2ray_page \<Rightarrow> node_state list" where
  "testResults s = filter (\<lambda>n. n_status n = ''done'' \<and> positive (pingMs n)) (node_states s)"

definition totalTested :: "v2ray_page \<Rightarrow> nat" where
  "totalTested s = length (filter (\<lambda>n. n_status n = ''done'' \<or> n_status n = ''error'') (node_states s))"

definition latency_of :: "jsv \<Rightarrow> jsv" where
  "latency_of p = opt_prop p ''latency_ms''"

definition allProfilesWithLatency :: "v2ray_page \<Rightarrow> jsv list" where
  "allProfilesWithLatency s = filter (\<lambda>p. positive (latency_of p)) (profile_list s)"

definition finalTested :: "v2ray_page \<Rightarrow> nat" where
  "finalTested s = (if 0 < totalTested s then totalTested s
     else length (filter (\<lambda>p. latency_of p \<noteq> JUndef \<and> latency_of p \<noteq> JNum 0) (profile_list s)))"

definition finalLive :: "v2ray_page \<Rightarrow> nat" where
  "finalLive s = (if 0 < totalTested s then length (testResults s) else length (allProfilesWithLatency s))"

text \<open>The latencies are numbers; the sum, \<open>Math.min\<close> and \<open>Math.max\<close> are taken over these.\<close>

fun number_of :: "jsv \<Rightarrow> rat" where
  "number_of (JNum n) = n"
| "number_of _ = 0"

definition activePings :: "v2ray_page \<Rightarrow> rat list" where
  "activePings s = (if 0 < totalTested s then map (number_of \<circ> pingMs) (testResults s)
     else map (number_of \<circ> latency_of) (allProfilesWithLatency s))"

definition avg_ping :: "rat list \<Rightarrow> rat" where
  "avg_ping ps = to_fixed_num 0 (sum_list ps / of_nat (length ps))"

definition min_ping :: "rat list \<Rightarrow> rat" where
  "min_ping ps = foldl min (hd ps) ps"

definition max_ping :: "rat list \<Rightarrow> rat" where
  "max_ping ps = foldl max (hd ps) ps"

definition ping_text :: "(rat list \<Rightarrow> rat) \<Rightarrow> rat list \<Rightarrow> string" where
  "ping_text f ps = (if ps = [] then ''-'' else show_num (f ps) @ ''ms'')"

definition finalAvgPing :: "v2ray_page \<Rightarrow> string" where
  "finalAvgPing s = ping_text avg_ping (activePings s)"

definition finalMinPing :: "v2ray_page \<Rightarrow> string" where
  "finalMinPing s = ping_text min_ping (activePings s)"

definition finalMaxPing :: "v2ray_page \<Rightarrow> string" where
  "finalMaxPing s = ping_text max_ping (activePings s)"

end
