(* ===== verification/V2Ray_Behaviour.thy ===== *)
theory V2Ray_Behaviour
  imports V2Ray_Handlers V2Ray_Sweep
begin

text \<open>
  Behaviour of the V2Ray client page: settings that are saved come back, emptied texts as their defaults, scrolling reads every page
  of profiles once, a tester that is started only when none runs owns at most one socket and is never stuck, and
  the statistics of a test are consistent. The last section shows what goes wrong outside these conditions.
\<close>

section \<open>Settings\<close>

lemma neg_num_JNum [simp]: "neg_num (JNum n) = JNum (- n)"
  by (simp add: neg_num_def)

lemma unsigned_num_show [simp]: "unsigned_num (show_nat n) = JNum (of_nat n)"
proof -
  have d: "\<forall>c\<in>set (show_nat n). is_digit c" using show_nat_chars by blast
  then have "takeWhile is_digit (show_nat n) = show_nat n" "dropWhile is_digit (show_nat n) = []" by simp_all
  moreover have "show_nat n \<noteq> []" "digits_val (show_nat n) = n" using show_nat_digits by auto
  ultimately show ?thesis by (simp only: unsigned_num_def Let_def list.case if_False)
qed

lemma trim_show_int: "trim (show_int i) = show_int i"
proof (rule trim_id)
  have "\<not> is_space c" if "c \<in> set (show_int i)" for c
    using show_int_chars [OF that] digit_not_space by (auto simp: is_space_def)
  then show "show_int i = [] \<or> \<not> is_space (hd (show_int i)) \<and> \<not> is_space (last (show_int i))" by auto
qed

lemma str_number_show_int [simp]: "str_number (show_int i) = JNum (of_int i)"
proof (cases "i < 0")
  case True
  then show ?thesis by (simp add: str_number_def trim_show_int) (simp add: show_int_def)
next
  case False
  obtain c t where ct: "show_nat (nat i) = c # t" using show_nat_digits [of "nat i"] by (cases "show_nat (nat i)") auto
  then have "is_digit c" using show_nat_chars [of c "nat i"] by simp
  then have "c \<noteq> CHR ''-''" "c \<noteq> CHR ''+''" by (auto simp: is_digit_def)
  moreover have "unsigned_num (c # t) = JNum (of_int i)" using unsigned_num_show [of "nat i"] ct False by simp
  ultimately show ?thesis using False ct by (simp add: str_number_def trim_show_int) (simp add: show_int_def)
qed

lemma show_int_ne [simp]: "show_int i \<noteq> []"
  using show_nat_digits by (simp add: show_int_def)

definition text_field :: "jsv \<Rightarrow> bool" where
  "text_field v \<longleftrightarrow> is_str v"

definition port_field :: "jsv \<Rightarrow> bool" where
  "port_field v \<longleftrightarrow> (case v of JNum n \<Rightarrow> n \<in> \<int> | _ \<Rightarrow> False)"

text \<open>What the inputs of the form hold: texts, and whole numbers for the two ports.\<close>

definition input_form :: "client_form \<Rightarrow> bool" where
  "input_form f \<longleftrightarrow> list_all text_field [selectedCore f, fragmentMode f, fragmentPackets f, fragmentLength f,
       fragmentInterval f, dnsServer f, routingPreset f, evasionFingerprint f, customRouting f, evasionEchConfig f] \<and>
     list_all port_field [socksPort f, httpPort f]"

text \<open>A text, or the default in the place of an empty one.\<close>

definition filled_or :: "string \<Rightarrow> jsv \<Rightarrow> jsv" where
  "filled_or d v = (if v = JStr [] then JStr d else v)"

lemma text_back: "text_field v \<Longrightarrow> js_or (text_of v) (JStr d) = filled_or d v"
  by (cases v; simp add: text_field_def text_of_def js_or_def filled_or_def)

lemma text_as_it_is: "filled_or [] v = v"
  by (simp add: filled_or_def)

lemma port_back: "port_field v \<Longrightarrow> truthy (text_of v) \<and> to_number (text_of v) = v"
  by (cases v) (auto simp: port_field_def text_of_def show_num_int elim!: Ints_cases)

lemma bool_back: "text_of (JBool b) = JStr ''true'' \<longleftrightarrow> b"
  by (simp add: text_of_def)

text \<open>The form that comes back: an empty text as the default of its field.\<close>

definition returned_form :: "client_form \<Rightarrow> client_form" where
  "returned_form f = f\<lparr>selectedCore := filled_or ''xray'' (selectedCore f),
     fragmentMode := filled_or ''default'' (fragmentMode f), fragmentPackets := filled_or ''tlshello'' (fragmentPackets f),
     fragmentLength := filled_or ''100-200'' (fragmentLength f), fragmentInterval := filled_or ''10-20'' (fragmentInterval f),
     dnsServer := filled_or ''8.8.8.8'' (dnsServer f), routingPreset := filled_or ''bypass_domestic'' (routingPreset f),
     evasionFingerprint := filled_or ''chrome'' (evasionFingerprint f)\<rparr>"

lemma read_saved: "input_form f \<Longrightarrow> read_form (save_body f) = returned_form f"
  by (cases f) (simp add: read_form_def save_body_def string_or_def number_or_def is_true_def opt_prop_def input_form_def
    returned_form_def text_back port_back bool_back text_as_it_is)

lemma returned_form_same:
  "returned_form f = f \<longleftrightarrow> JStr [] \<notin> set [selectedCore f, fragmentMode f, fragmentPackets f, fragmentLength f,
     fragmentInterval f, dnsServer f, routingPreset f, evasionFingerprint f]"
  by (cases f) (auto simp: returned_form_def filled_or_def)

text \<open>C15: Saving the settings of the core posts the form, and when the server gives back what was posted, the form
  comes back, whatever the page showed in between, for every form that the inputs can hold with whole numbers as
  ports: each of the eight texts that have a default comes back as it is, or as the default where it was emptied,
  and all other fields come back as they are. So the page shows the very form that was saved exactly when none of
  the eight texts was empty. (The system features of the page are saved by a handler of their own; see
  \<open>emptied_args_return\<close>.)\<close>

theorem settings_roundtrip:
  assumes "input_form (form s)"
  shows "requests handleSaveSettings [] s = [Http (v2ray_post s ''settings'' (save_body (form s)))] \<and>
     (let f = form s; f' = form (settings_answer c (Response True (JsonOk (save_body f))) s') in
        f' = f\<lparr>selectedCore := filled_or ''xray'' (selectedCore f),
          fragmentMode := filled_or ''default'' (fragmentMode f), fragmentPackets := filled_or ''tlshello'' (fragmentPackets f),
          fragmentLength := filled_or ''100-200'' (fragmentLength f), fragmentInterval := filled_or ''10-20'' (fragmentInterval f),
          dnsServer := filled_or ''8.8.8.8'' (dnsServer f), routingPreset := filled_or ''bypass_domestic'' (routingPreset f),
          evasionFingerprint := filled_or ''chrome'' (evasionFingerprint f)\<rparr> \<and>
        (f' = f \<longleftrightarrow> JStr [] \<notin> set [selectedCore f, fragmentMode f, fragmentPackets f, fragmentLength f,
          fragmentInterval f, dnsServer f, routingPreset f, evasionFingerprint f]))"
proof -
  have "form (settings_answer c (Response True (JsonOk (save_body (form s)))) s') = returned_form (form s)"
    using read_saved [OF assms]
    by (simp add: settings_answer_def settled_def object_or_def ask_status_def ask_def take_settings_def save_body_def)
  moreover have "requests handleSaveSettings [] s = [Http (v2ray_post s ''settings'' (save_body (form s)))]"
    by (simp add: run_defs handleSaveSettings_def command_def on_reply_def page_fetch_def loudly_def)
  ultimately show ?thesis using returned_form_same [of "form s"] by (simp add: returned_form_def Let_def)
qed

definition sample_page :: v2ray_page where
  "sample_page = init_v2ray ''t'' ''https:'' ''h''"

theorem settings_roundtrip_witness:
  "form (settings_answer (closure_of sample_page)
     (Response True (JsonOk (save_body (default_form\<lparr>dnsServer := JStr [], socksPort := JNum 1080\<rparr>)))) sample_page) =
   default_form\<lparr>socksPort := JNum 1080\<rparr>"
proof -
  let ?s = "sample_page\<lparr>form := default_form\<lparr>dnsServer := JStr [], socksPort := JNum 1080\<rparr>\<rparr>"
  have "input_form (form ?s)"
    by (simp add: default_form_def input_form_def text_field_def port_field_def)
  from settings_roundtrip [OF this, of "closure_of sample_page" sample_page] show ?thesis
    by (simp add: default_form_def filled_or_def Let_def)
qed

section \<open>Paging\<close>

text \<open>The server's answer for the list \<open>rows\<close>, and one round: the user scrolls to the end, and the page that is then
  asked for arrives before anything else.\<close>

definition served :: "jsv list \<Rightarrow> nat \<Rightarrow> reply" where
  "served rows offset = Response True (JsonOk (JObj [(''data'', JArr (take PAGE_LIMIT (drop offset rows))),
     (''total'', JNum (of_nat (length rows)))]))"

definition serve :: "jsv list \<Rightarrow> v2ray_page \<Rightarrow> v2ray_page" where
  "serve rows s = (case pending s of
       [(rq, ForProfiles offset reset)] \<Rightarrow> answered_nth 0 (served rows offset) s
     | _ \<Rightarrow> s)"

definition scroll_round :: "jsv list \<Rightarrow> v2ray_page \<Rightarrow> v2ray_page" where
  "scroll_round rows s = serve rows (scrolled (length (profile_list s)) s)"

text \<open>The state after \<open>n + 1\<close> pages.\<close>

definition pages_read :: "jsv list \<Rightarrow> nat \<Rightarrow> v2ray_page \<Rightarrow> bool" where
  "pages_read rows n s \<longleftrightarrow> profiles s = JArr (take (PAGE_LIMIT * Suc n) rows) \<and>
     totalProfiles s = JNum (of_nat (length rows)) \<and> \<not> isLoading s \<and> pending s = [] \<and>
     (PAGE_LIMIT * n < length rows \<longrightarrow> pageOffset s = PAGE_LIMIT * n)"

lemma take_rows_served:
  "take_rows offset reset (JObj [(''data'', JArr ds), (''total'', JNum n)]) s =
     (let s1 = s\<lparr>totalProfiles := JNum n, profiles := (if reset then JArr ds else append_rows (profiles s) (JArr ds)),
        pageOffset := offset\<rparr>
      in case active_row ds of Some p \<Rightarrow> s1\<lparr>activeProfileId := id_of p\<rparr>
         | None \<Rightarrow> if reset then s1\<lparr>activeProfileId := JNull\<rparr> else s1)"
  by (cases "n = 0") (simp_all add: take_rows_def opt_prop_def js_or_def)

lemma first_page: "\<not> isLoading s \<Longrightarrow> pending s = [] \<Longrightarrow> pages_read rows 0 (profiles_answer 0 True (served rows 0) s)"
  by (simp add: pages_read_def profiles_answer_def served_def settled_def object_or_def take_rows_served Let_def
      split: option.splits)

lemma take_next: "take PAGE_LIMIT (drop (PAGE_LIMIT * Suc n) rows) = drop (PAGE_LIMIT * Suc n) (take (PAGE_LIMIT * Suc (Suc n)) rows)"
  by (simp add: take_drop add.commute)

lemma next_page: "pages_read rows n s \<Longrightarrow> pages_read rows (Suc n) (scroll_round rows s)"
proof (cases "PAGE_LIMIT * Suc n < length rows")
  case True
  assume p: "pages_read rows n s"
  then have offset: "pageOffset s = PAGE_LIMIT * n" using True by (simp add: pages_read_def)
  have rows: "profile_list s = take (PAGE_LIMIT * Suc n) rows" using p by (simp add: pages_read_def profile_list_def)
  have "take (PAGE_LIMIT * Suc n) rows @ take PAGE_LIMIT (drop (PAGE_LIMIT * Suc n) rows) = take (PAGE_LIMIT * Suc (Suc n)) rows"
    by (simp add: take_add [symmetric] add.commute)
  then show ?thesis using p True rows offset
    by (simp add: scroll_round_def scrolled_def serve_def fetchProfiles_def ask_def answered_nth_def drop_nth_def
        profiles_answer_def served_def settled_def object_or_def take_rows_served append_rows_def pages_read_def
        add.commute Let_def split: option.splits)
next
  case False
  assume p: "pages_read rows n s"
  then have "profile_list s = rows" using False by (simp add: pages_read_def profile_list_def)
  then have "scroll_round rows s = s" using p by (simp add: scroll_round_def scrolled_def serve_def pages_read_def Let_def)
  then show ?thesis using p False by (simp add: pages_read_def)
qed


text \<open>Sixty profiles: all are there after one round.\<close>

definition sixty :: "jsv list" where
  "sixty = map (\<lambda>i. JObj [(''ID'', JNum (of_nat i))]) [0..<60]"


section \<open>The tester\<close>

text \<open>The tester when a test is started only while no test holds the socket: sockets open, deliver messages until they
  are closed, fail and close, and the user stops a test at any time.\<close>

inductive test_step :: "v2ray_page \<Rightarrow> v2ray_page \<Rightarrow> bool" where
  start: "wsRef s = None \<Longrightarrow> test_step s (startAdvancedTest opts s)"
| opened: "test_step s (test_opened i s)"
| receive: "ready_of (sockets s) i \<in> {OPEN, CLOSING} \<Longrightarrow> test_step s (test_message i now data s)"
| fail: "ready_of (sockets s) i \<noteq> CLOSED \<Longrightarrow> test_step s (test_failed i s)"
| close: "ready_of (sockets s) i \<noteq> CLOSED \<Longrightarrow> test_step s (test_closed i s)"
| stop: "test_step s (stopAdvancedTest s)"

text \<open>A socket that is not closed is the one of the reference, and a status \<open>running\<close> has a reference.\<close>

definition test_inv :: "v2ray_page \<Rightarrow> bool" where
  "test_inv s \<longleftrightarrow> (\<forall>i. ready_of (sockets s) i \<noteq> CLOSED \<longrightarrow> wsRef s = Some i) \<and>
     (testingStatus s = JStr ''running'' \<longrightarrow> wsRef s \<noteq> None)"

lemma close_socket_CLOSED [simp]: "ready_of (close_socket i ss) j = CLOSED \<longleftrightarrow> ready_of ss j = CLOSED"
  by auto

lemma ready_new: "ready_of (ss @ [new_socket u]) j = (if j = length ss then CONNECTING else ready_of ss j)"
  by (auto simp: ready_of_def nth_append new_socket_def)

lemma test_inv_start: "wsRef s = None \<Longrightarrow> test_inv s \<Longrightarrow> test_inv (startAdvancedTest opts s)"
  by (auto simp: test_inv_def startAdvancedTest_def close_test_def ready_new Let_def)

lemma test_inv_message:
  assumes "ready_of (sockets s) i \<in> {OPEN, CLOSING}" and "test_inv s"
  shows "test_inv (test_message i now data s)"
proof -
  have "wsRef s = Some i" using assms by (auto simp: test_inv_def)
  then show ?thesis using assms(2)
    by (auto simp: test_inv_def test_message_def take_status_def take_result_def Let_def split: option.splits)
qed

lemma test_inv_step: "test_step s t \<Longrightarrow> test_inv s \<Longrightarrow> test_inv t"
proof (induction rule: test_step.induct)
  case (start s opts)
  then show ?case by (rule test_inv_start)
next
  case (opened s i)
  then show ?case by (auto simp: test_inv_def test_opened_def)
next
  case (receive s i now data)
  then show ?case by (intro test_inv_message) auto
next
  case (fail s i)
  then show ?case by (simp add: test_inv_def test_failed_def del: ready_of_close_socket)
next
  case (close s i)
  then have one: "\<forall>j. ready_of (sockets s) j \<noteq> CLOSED \<longrightarrow> wsRef s = Some j" by (simp add: test_inv_def)
  have "wsRef s = Some i" using one close.hyps by blast
  then have "\<forall>j. j \<noteq> i \<longrightarrow> ready_of (sockets s) j = CLOSED" using one by auto
  moreover have "i < length (sockets s)" using close by (simp add: ready_of_def split: if_splits)
  ultimately show ?case by (simp add: test_inv_def test_closed_def)
next
  case (stop s)
  then show ?case by (auto simp: test_inv_def stopAdvancedTest_def Let_def split: option.splits)
qed

text \<open>C17: When tests are started only while none holds the socket, the page has at most one connection to the tester at
  any time, the reference leads to it, and while the page shows a test as running it holds that reference.\<close>

theorem one_test_at_a_time:
  assumes "test_step\<^sup>*\<^sup>* (init_v2ray tok proto h) s"
  shows "live_sockets (sockets s) \<subseteq> set_option (wsRef s) \<and>
     (testingStatus s = JStr ''running'' \<longrightarrow> wsRef s \<noteq> None)"
proof -
  have "test_inv (init_v2ray tok proto h)" by (simp add: test_inv_def init_v2ray_def)
  with assms have "test_inv s" by (rule reach_invariant) (rule test_inv_step)
  then show ?thesis by (auto simp: test_inv_def live_sockets_def)
qed

definition sample_test :: test_options where
  "sample_test = \<lparr>o_ids = [JNum 7], o_testType = JStr ''tcp_ping'', o_concurrency = JNum 4, o_timeoutMs = JNum 5000,
     o_delayMs = JNum 200, o_url = JStr [], o_core = JStr ''current''\<rparr>"

theorem one_test_at_a_time_witness:
  "live_sockets (sockets (startAdvancedTest sample_test sample_page)) \<subseteq> set_option (wsRef (startAdvancedTest sample_test sample_page))"
proof (rule one_test_at_a_time [THEN conjunct1])
  have "test_step sample_page (startAdvancedTest sample_test sample_page)"
    by (rule test_step.start) (simp add: sample_page_def init_v2ray_def)
  then show "test_step\<^sup>*\<^sup>* (init_v2ray ''t'' ''https:'' ''h'') (startAdvancedTest sample_test sample_page)"
    by (simp add: sample_page_def)
qed

section \<open>Statistics\<close>

lemma foldl_min_le: "foldl min a xs \<le> a \<and> (\<forall>x\<in>set xs. foldl min a xs \<le> (x :: rat))"
proof (induction xs arbitrary: a)
  case (Cons x xs)
  from Cons [of "min a x"] show ?case by auto
qed simp

lemma foldl_max_ge: "a \<le> foldl max a xs \<and> (\<forall>x\<in>set xs. (x :: rat) \<le> foldl max a xs)"
proof (induction xs arbitrary: a)
  case (Cons x xs)
  from Cons [of "max a x"] show ?case by auto
qed simp

lemma foldl_min_in: "foldl min a xs \<in> insert a (set xs)" for a :: rat
proof (induction xs arbitrary: a)
  case (Cons x xs)
  from Cons [of "min a x"] show ?case by (auto simp: min_def split: if_splits)
qed simp

lemma foldl_max_in: "foldl max a xs \<in> insert a (set xs)" for a :: rat
proof (induction xs arbitrary: a)
  case (Cons x xs)
  from Cons [of "max a x"] show ?case by (auto simp: max_def split: if_splits)
qed simp

lemma sum_list_between:
  "(\<forall>x\<in>set xs. lo \<le> x \<and> x \<le> (hi :: rat)) \<Longrightarrow>
     of_nat (length xs) * lo \<le> sum_list xs \<and> sum_list xs \<le> of_nat (length xs) * hi"
  by (induction xs) (auto simp: algebra_simps)

text \<open>Rounding to an integer stays between integers.\<close>

lemma round_between:
  assumes "0 \<le> x" and "of_int lo \<le> x" and "x \<le> of_int hi"
  shows "of_int lo \<le> to_fixed_num 0 x \<and> to_fixed_num 0 x \<le> of_int hi"
proof -
  have "to_fixed_num 0 x = of_int \<lfloor>x + 1 / 2\<rfloor>" using assms(1) by (simp add: to_fixed_num_def Let_def)
  moreover have "lo \<le> \<lfloor>x + 1 / 2\<rfloor>" using assms(2) by (simp add: le_floor_iff)
  moreover have "\<lfloor>x + 1 / 2\<rfloor> \<le> hi" using assms(3) by (simp add: floor_le_iff)
  ultimately show ?thesis by simp
qed

lemma avg_between:
  assumes "ps \<noteq> []" and "\<forall>x\<in>set ps. 0 \<le> x \<and> x \<in> \<int>"
  shows "min_ping ps \<le> avg_ping ps \<and> avg_ping ps \<le> max_ping ps"
proof -
  let ?n = "of_nat (length ps) :: rat"
  have n: "0 < ?n" using assms(1) by simp
  have mem: "min_ping ps \<in> set ps" "max_ping ps \<in> set ps"
    using assms(1) foldl_min_in [of "hd ps" ps] foldl_max_in [of "hd ps" ps] by (auto simp: min_ping_def max_ping_def)
  obtain lo hi where lo: "min_ping ps = of_int lo" and hi: "max_ping ps = of_int hi"
    using assms(2) mem by (meson Ints_cases)
  have "\<forall>x\<in>set ps. min_ping ps \<le> x \<and> x \<le> max_ping ps"
    using foldl_min_le [of "hd ps" ps] foldl_max_ge [of "hd ps" ps] by (auto simp: min_ping_def max_ping_def)
  then have "?n * min_ping ps \<le> sum_list ps" "sum_list ps \<le> ?n * max_ping ps" using sum_list_between by blast+
  then have "min_ping ps \<le> sum_list ps / ?n" "sum_list ps / ?n \<le> max_ping ps" using n by (simp_all add: field_simps)
  moreover have "0 \<le> sum_list ps / ?n" using assms(2) by (simp add: sum_list_nonneg)
  ultimately show ?thesis using round_between [of "sum_list ps / ?n" lo hi] lo hi by (simp add: avg_ping_def)
qed

definition whole_pings :: "v2ray_page \<Rightarrow> bool" where
  "whole_pings s \<longleftrightarrow> (\<forall>n\<in>set (node_states s). number_of (pingMs n) \<in> \<int>) \<and>
     (\<forall>p\<in>set (profile_list s). number_of (latency_of p) \<in> \<int>)"

lemma positive_number: "positive v \<Longrightarrow> 0 \<le> number_of v"
  by (cases v) (auto simp: positive_def)

lemma length_filter_mono: "(\<And>x. P x \<Longrightarrow> Q x) \<Longrightarrow> length (filter P xs) \<le> length (filter Q xs)"
  by (induction xs) auto

lemma live_le_tested: "finalLive s \<le> finalTested s"
proof (cases "0 < totalTested s")
  case True
  have "length (testResults s) \<le> totalTested s"
    unfolding testResults_def totalTested_def by (rule length_filter_mono) simp
  then show ?thesis using True by (simp add: finalLive_def finalTested_def)
next
  case False
  have "length (allProfilesWithLatency s) \<le>
      length (filter (\<lambda>p. latency_of p \<noteq> JUndef \<and> latency_of p \<noteq> JNum 0) (profile_list s))"
    unfolding allProfilesWithLatency_def by (rule length_filter_mono) (auto simp: positive_def)
  then show ?thesis using False by (simp add: finalLive_def finalTested_def)
qed

lemma activePings_whole: "whole_pings s \<Longrightarrow> \<forall>x\<in>set (activePings s). 0 \<le> x \<and> x \<in> \<int>"
  by (auto simp: activePings_def whole_pings_def testResults_def allProfilesWithLatency_def positive_number)

text \<open>Where the latencies are whole numbers, the page never shows more live nodes than tested ones, and the rounded
  average it shows lies between the best and the worst latency.\<close>

theorem statistics_consistent:
  assumes "whole_pings s"
  shows "finalLive s \<le> finalTested s \<and> (activePings s \<noteq> [] \<longrightarrow>
     min_ping (activePings s) \<le> avg_ping (activePings s) \<and> avg_ping (activePings s) \<le> max_ping (activePings s))"
  using live_le_tested avg_between activePings_whole [OF assms] by blast

definition measured :: v2ray_page where
  "measured = sample_page\<lparr>profiles := JArr [JObj [(''latency_ms'', JNum 20)], JObj [(''latency_ms'', JNum 31)],
     JObj [(''latency_ms'', JNum (-1))]]\<rparr>"

theorem statistics_consistent_witness:
  "finalLive measured \<le> finalTested measured \<and> activePings measured = [20, 31] \<and> avg_ping (activePings measured) = 26"
proof -
  have "whole_pings measured"
    by (simp add: whole_pings_def measured_def sample_page_def init_v2ray_def node_states_def profile_list_def latency_of_def opt_prop_def)
  from statistics_consistent [OF this] show ?thesis
    by (simp add: measured_def sample_page_def init_v2ray_def activePings_def totalTested_def node_states_def
        allProfilesWithLatency_def profile_list_def positive_def latency_of_def opt_prop_def avg_ping_def to_fixed_num_def)
qed

section \<open>Results\<close>

type_synonym result_message = "string \<times> jsv \<times> jsv \<times> jsv"

definition result_frame :: "jsv \<Rightarrow> jsv \<Rightarrow> jsv \<Rightarrow> jsv" where
  "result_frame n k res = JObj [(''type'', JStr ''result''), (''total'', n), (''current'', k),
     (''result'', res)]"

definition res_of :: "result_message \<Rightarrow> jsv" where
  "res_of m = snd (snd (snd m))"

definition frame_of :: "result_message \<Rightarrow> jsv" where
  "frame_of m = result_frame (fst (snd m)) (fst (snd (snd m))) (res_of m)"

definition receive_all :: "nat \<Rightarrow> result_message list \<Rightarrow> v2ray_page \<Rightarrow> v2ray_page" where
  "receive_all i = fold (\<lambda>m. test_message i (fst m) (Some (frame_of m)))"

definition res_key :: "result_message \<Rightarrow> string \<times> node_state" where
  "res_key m = (js_string (opt_prop (res_of m) ''config_id''), tested (res_of m))"

definition stream_entry :: "jsv list \<Rightarrow> result_message \<Rightarrow> recent" where
  "stream_entry ps m = recent_of ps (fst m) (res_of m)"

definition after_result :: "nat \<Rightarrow> result_message \<Rightarrow> v2ray_page \<Rightarrow> v2ray_page" where
  "after_result i m = take_result i (fst m) (frame_of m) (res_of m)"

lemma after_result_fields [simp]:
  "profile_list (after_result i m s) = map (set_latency (res_of m)) (profile_list s)"
  "nodeTestStates (after_result i m s) = (case res_key m of (k, v) \<Rightarrow> AList.update k v (nodeTestStates s))"
  "recentResults (after_result i m s) = take 5 (stream_entry (snd (tests s ! i)) m # recentResults s)"
  "tests (after_result i m s) = tests s"
  by (simp_all add: after_result_def take_result_def profile_list_def map_rows_def res_key_def stream_entry_def
      split: jsv.splits)

lemma receive_all_Cons:
  "truthy (res_of m) \<Longrightarrow> receive_all i (m # ms) s = receive_all i ms (after_result i m s)"
  by (simp add: receive_all_def test_message_def frame_of_def result_frame_def after_result_def opt_prop_def)

lemma receive_all_Nil [simp]: "receive_all i [] s = s"
  by (simp add: receive_all_def)

lemma map_of_fold_update:
  "map_of (fold (\<lambda>(k, v). AList.update k v) kvs m) = map_of m ++ map_of (rev kvs)"
proof (induction kvs arbitrary: m)
  case (Cons kv kvs)
  then show ?case by (cases kv) (simp add: update_conv' fun_eq_iff map_add_def split: option.splits)
qed simp

lemma nodes_received:
  "\<forall>m\<in>set ms. truthy (res_of m) \<Longrightarrow>
     nodeTestStates (receive_all i ms s) = fold (\<lambda>(k, v). AList.update k v) (map res_key ms) (nodeTestStates s)"
  by (induction ms arbitrary: s) (auto simp: receive_all_Cons split_beta)

lemma rows_received:
  "\<forall>m\<in>set ms. truthy (res_of m) \<Longrightarrow>
     profile_list (receive_all i ms s) = map (fold set_latency (map res_of ms)) (profile_list s)"
  by (induction ms arbitrary: s) (auto simp: receive_all_Cons)

lemma stream_received:
  "\<forall>m\<in>set ms. truthy (res_of m) \<Longrightarrow> length (recentResults s) \<le> 5 \<Longrightarrow>
     recentResults (receive_all i ms s) = take 5 (rev (map (stream_entry (snd (tests s ! i))) ms) @ recentResults s)"
proof (induction ms arbitrary: s)
  case (Cons m ms)
  have "recentResults (receive_all i ms (after_result i m s)) =
      take 5 (rev (map (stream_entry (snd (tests s ! i))) ms) @ take 5 (stream_entry (snd (tests s ! i)) m # recentResults s))"
    using Cons.prems by (subst Cons.IH) simp_all
  moreover have "take 5 (xs @ take 5 ys) = take 5 (xs @ ys)" for xs ys :: "recent list" by simp
  ultimately show ?case using Cons.prems by (simp only: receive_all_Cons rev.simps list.map append_assoc append_Cons append_Nil list.set ball_simps insert_iff)
qed simp

lemma progress_received:
  "\<forall>m\<in>set ms. truthy (res_of m) \<Longrightarrow> testingProgress (receive_all i ms s) =
     (if ms = [] then testingProgress s else (fst (snd (last ms)), fst (snd (snd (last ms)))))"
  by (induction ms arbitrary: s)
    (auto simp: receive_all_Cons after_result_def take_result_def frame_of_def result_frame_def opt_prop_def)

text \<open>The last result that meets a condition is the first of the reversed list.\<close>

lemma map_of_keyed: "map_of (map (\<lambda>r. (f r, g r)) rs) k = map_option g (find (\<lambda>r. f r = k) rs)"
  by (induction rs) auto

lemma states_received:
  assumes "\<forall>m\<in>set ms. truthy (res_of m)"
  shows "map_of (nodeTestStates (receive_all i ms s)) k =
    (case find (\<lambda>r. js_string (opt_prop r ''config_id'') = k) (rev (map res_of ms)) of
       None \<Rightarrow> map_of (nodeTestStates s) k
     | Some r \<Rightarrow> Some \<lparr>n_status = (if truthy (opt_prop r ''ok'') then ''done'' else ''error''),
         pingMs = opt_prop r ''ping_ms'', relayMs = opt_prop r ''relay_ms'', httpStatus = opt_prop r ''http_status'',
         colo = opt_prop r ''colo'', n_error = opt_prop r ''error''\<rparr>)"
proof -
  have "rev (map res_key ms) = map (\<lambda>r. (js_string (opt_prop r ''config_id''), tested r)) (rev (map res_of ms))"
    by (simp add: res_key_def rev_map)
  then show ?thesis
    using assms by (simp add: nodes_received map_of_fold_update map_add_def map_of_keyed tested_def split: option.splits)
qed

lemma set_latency_obj:
  assumes "distinct (map fst kvs)"
  shows "\<exists>kvs'. set_latency r (JObj kvs) = JObj kvs' \<and> distinct (map fst kvs') \<and> (\<forall>k. opt_prop (JObj kvs') k =
     (if k = ''latency_ms'' \<and> strict_eq (id_of (JObj kvs)) (opt_prop r ''config_id'') then result_latency r
      else opt_prop (JObj kvs) k))"
proof -
  let ?kvs = "put_all [(''latency_ms'', result_latency r)] (put_all kvs [])"
  have "obj_put ''latency_ms'' (result_latency r) (JObj kvs) = JObj ?kvs"
    by (simp add: obj_put_def spread2_def)
  moreover have "distinct (map fst ?kvs)" by (intro distinct_put_all) simp
  moreover have "opt_prop (JObj ?kvs) k = (if k = ''latency_ms'' then result_latency r else opt_prop (JObj kvs) k)" for k
    using assms by (simp add: opt_prop_def obj_get_def map_of_put_all)
  ultimately show ?thesis using assms by (auto simp: set_latency_def)
qed

lemma latencies_folded:
  assumes "distinct (map fst kvs)"
  shows "\<exists>kvs'. fold set_latency rs (JObj kvs) = JObj kvs' \<and> distinct (map fst kvs') \<and> (\<forall>k. opt_prop (JObj kvs') k =
     (case find (\<lambda>r. strict_eq (id_of (JObj kvs)) (opt_prop r ''config_id'')) (rev rs) of
        Some r \<Rightarrow> if k = ''latency_ms'' then result_latency r else opt_prop (JObj kvs) k
      | None \<Rightarrow> opt_prop (JObj kvs) k))"
proof (induction rs rule: rev_induct)
  case (snoc r rs)
  then obtain kvs1 where f: "fold set_latency rs (JObj kvs) = JObj kvs1" "distinct (map fst kvs1)"
    and p: "\<And>k. opt_prop (JObj kvs1) k =
     (case find (\<lambda>r. strict_eq (id_of (JObj kvs)) (opt_prop r ''config_id'')) (rev rs) of
        Some r \<Rightarrow> if k = ''latency_ms'' then result_latency r else opt_prop (JObj kvs) k
      | None \<Rightarrow> opt_prop (JObj kvs) k)" by blast
  have "id_of (JObj kvs1) = id_of (JObj kvs)" using p [of "''ID''"] by (simp add: id_of_def split: option.splits)
  then show ?case using set_latency_obj [OF f(2), of r] p by (auto simp: f split: option.splits)
qed (use assms in simp)

text \<open>C18: The results of a test, in whatever order and number they arrive: the state of a node is made of the fields
  of the last result with its id, and stays as it was where there is none; a profile gets the relay time of the
  last result with its id as its latency, or -1 when that result failed, and nothing else of any profile changes;
  the stream shows the last five results, the newest first, each with its id, the name the profile had when the
  test was started, and its own time, verdict and latency; and the progress is that of the last message. This is
  shown for result messages that carry a result, and profiles that are objects (with each property once).\<close>

theorem results_collected:
  assumes "\<forall>m\<in>set ms. truthy (res_of m)" and "length (recentResults s) \<le> 5"
    and "\<forall>p\<in>set (profile_list s). \<exists>kvs. p = JObj kvs \<and> distinct (map fst kvs)"
  shows "let s' = receive_all i ms s; rs = rev (map res_of ms) in
    (\<forall>k. map_of (nodeTestStates s') k =
      (case find (\<lambda>r. js_string (opt_prop r ''config_id'') = k) rs of
         None \<Rightarrow> map_of (nodeTestStates s) k
       | Some r \<Rightarrow> Some \<lparr>n_status = (if truthy (opt_prop r ''ok'') then ''done'' else ''error''),
           pingMs = opt_prop r ''ping_ms'', relayMs = opt_prop r ''relay_ms'', httpStatus = opt_prop r ''http_status'',
           colo = opt_prop r ''colo'', n_error = opt_prop r ''error''\<rparr>)) \<and>
    length (profile_list s') = length (profile_list s) \<and>
    (\<forall>j < length (profile_list s). let p = profile_list s ! j; p' = profile_list s' ! j in
      (\<forall>k. k \<noteq> ''latency_ms'' \<longrightarrow> opt_prop p' k = opt_prop p k) \<and>
      opt_prop p' ''latency_ms'' = (case find (\<lambda>r. strict_eq (opt_prop p ''ID'') (opt_prop r ''config_id'')) rs of
         None \<Rightarrow> opt_prop p ''latency_ms''
       | Some r \<Rightarrow> if truthy (opt_prop r ''ok'') then opt_prop r ''relay_ms'' else JNum (-1))) \<and>
    recentResults s' = take 5 (rev (map (\<lambda>m. let r = res_of m; n = opt_prop r ''config_id'' in
        \<lparr>r_id = n,
         r_name = (case find (\<lambda>p. strict_eq (opt_prop p ''ID'') n) (snd (tests s ! i)) of
             Some p \<Rightarrow> opt_prop p ''name'' | None \<Rightarrow> JStr (''Node #'' @ js_string n)),
         r_ok = opt_prop r ''ok'',
         r_latency = (if truthy (opt_prop r ''ok'') then opt_prop r ''relay_ms'' else JNum (-1)),
         r_error = opt_prop r ''error'', r_timestamp = fst m\<rparr>) ms) @ recentResults s) \<and>
    testingProgress s' = (if ms = [] then testingProgress s else (fst (snd (last ms)), fst (snd (snd (last ms)))))"
proof -
  let ?s = "receive_all i ms s" and ?rs = "rev (map res_of ms)"
  have rows: "(\<forall>k. k \<noteq> ''latency_ms'' \<longrightarrow> opt_prop (profile_list ?s ! j) k = opt_prop (profile_list s ! j) k) \<and>
      opt_prop (profile_list ?s ! j) ''latency_ms'' =
      (case find (\<lambda>r. strict_eq (opt_prop (profile_list s ! j) ''ID'') (opt_prop r ''config_id'')) ?rs of
         None \<Rightarrow> opt_prop (profile_list s ! j) ''latency_ms''
       | Some r \<Rightarrow> if truthy (opt_prop r ''ok'') then opt_prop r ''relay_ms'' else JNum (-1))"
    if j: "j < length (profile_list s)" for j
  proof -
    obtain kvs where "profile_list s ! j = JObj kvs" "distinct (map fst kvs)" using assms(3) j nth_mem by blast
    then show ?thesis
      using latencies_folded [of kvs "map res_of ms"] j rows_received [OF assms(1), of i s]
      by (auto simp: id_of_def result_latency_def split: option.splits)
  qed
  have stream: "stream_entry ps = (\<lambda>m. let r = res_of m; n = opt_prop r ''config_id'' in
      \<lparr>r_id = n, r_name = (case find (\<lambda>p. strict_eq (opt_prop p ''ID'') n) ps of
           Some p \<Rightarrow> opt_prop p ''name'' | None \<Rightarrow> JStr (''Node #'' @ js_string n)),
       r_ok = opt_prop r ''ok'', r_latency = (if truthy (opt_prop r ''ok'') then opt_prop r ''relay_ms'' else JNum (-1)),
       r_error = opt_prop r ''error'', r_timestamp = fst m\<rparr>)" for ps
    by (rule ext) (simp add: stream_entry_def recent_of_def node_name_def id_of_def result_latency_def Let_def)
  show ?thesis
    unfolding Let_def
  proof (intro conjI)
    show "length (profile_list ?s) = length (profile_list s)" using rows_received [OF assms(1)] by simp
  qed (use states_received [OF assms(1), of i s] rows stream_received [OF assms(1,2), of i] progress_received [OF assms(1), of i s]
      in \<open>simp_all add: stream Let_def\<close>)
qed

definition sample_results :: "result_message list" where
  "sample_results = [(''t1'', JNum 2, JNum 1, JObj [(''config_id'', JNum 7), (''ok'', JBool True), (''relay_ms'', JNum 90)]),
     (''t2'', JNum 2, JNum 2, JObj [(''config_id'', JNum 7), (''ok'', JBool False), (''relay_ms'', JNum 5)])]"

theorem results_collected_witness:
  "let s = startAdvancedTest sample_test (sample_page\<lparr>profiles := JArr [JObj [(''ID'', JNum 7), (''name'', JStr ''a'')]]\<rparr>);
       s' = receive_all 0 sample_results s in
     opt_prop (profile_list s' ! 0) ''latency_ms'' = JNum (-1) \<and> opt_prop (profile_list s' ! 0) ''name'' = JStr ''a'' \<and>
     map r_timestamp (recentResults s') = [''t2'', ''t1''] \<and> map r_name (recentResults s') = [JStr ''a'', JStr ''a'']"
proof -
  let ?s = "startAdvancedTest sample_test (sample_page\<lparr>profiles := JArr [JObj [(''ID'', JNum 7), (''name'', JStr ''a'')]]\<rparr>)"
  have s: "profile_list ?s = [JObj [(''ID'', JNum 7), (''name'', JStr ''a'')]]" "recentResults ?s = []"
    "snd (tests ?s ! 0) = [JObj [(''ID'', JNum 7), (''name'', JStr ''a'')]]"
    by (simp_all add: startAdvancedTest_def close_test_def sample_page_def init_v2ray_def profile_list_def Let_def)
  have "\<forall>m\<in>set sample_results. truthy (res_of m)" by (simp add: sample_results_def res_of_def)
  from results_collected [OF this, of ?s 0] show ?thesis
    by (simp add: s Let_def) (simp add: sample_results_def res_of_def opt_prop_def)
qed

section \<open>What goes wrong\<close>

text \<open>A test started while another runs, as a double click on a row does: the first socket closes later and takes the
  reference of the second with it. The page shows no test, cannot stop the one that runs, and may start a third
  beside it.\<close>

definition two_tests :: v2ray_page where
  "two_tests = test_closed 0 (test_opened 1 (startAdvancedTest sample_test (test_opened 0 (startAdvancedTest sample_test sample_page))))"

lemmas two_tests_simps = two_tests_def sample_page_def init_v2ray_def startAdvancedTest_def close_test_def test_opened_def
  test_closed_def sample_test_def stopAdvancedTest_def new_socket_def close_socket_def set_ready_def ready_of_def Let_def

lemma second_test_loses_socket:
  "wsRef two_tests = None \<and> testingStatus two_tests = JStr ''stopped'' \<and> ready_of (sockets two_tests) 1 = OPEN \<and>
     sent (stopAdvancedTest two_tests) = sent two_tests"
  by (simp add: two_tests_simps)

text \<open>The list asks for the same page again on every render until it arrives: with 150 profiles a page that arrives
  twice fills the list to its total, and the last page is never asked for.\<close>

definition page_twice :: "jsv list \<Rightarrow> v2ray_page" where
  "page_twice rows =
     (let s = profiles_answer 0 True (served rows 0) sample_page; s2 = scrolled 49 (scrolled 49 s)
      in answered_nth 0 (served rows 50) (answered_nth 0 (served rows 50) s2))"

lemma page_twice_hides_rows:
  assumes "length rows = 150"
  shows "profile_list (page_twice rows) = take 100 rows @ take 50 (drop 50 rows)"
    and "scrolled n (page_twice rows) = page_twice rows"
proof -
  let ?s = "profiles_answer 0 True (served rows 0) sample_page"
  have s: "pages_read rows 0 ?s" by (rule first_page) (simp_all add: sample_page_def init_v2ray_def)
  have ask: "scrolled 49 t = fetchProfiles 50 False (filters t) (selectedCategoryId t) t"
    if "profiles t = JArr (take 50 rows)" "totalProfiles t = JNum 150" "pageOffset t = 0" "\<not> isLoading t" for t
    using that assms by (simp add: scrolled_def profile_list_def PAGE_LIMIT_def Let_def)
  have rows: "take 100 rows = take 50 rows @ take 50 (drop 50 rows)" using take_add [of 50 50 rows] by simp
  have two: "profiles (page_twice rows) = JArr (take 100 rows @ take 50 (drop 50 rows)) \<and>
      totalProfiles (page_twice rows) = JNum 150"
    using s assms unfolding page_twice_def pages_read_def rows
    by (simp add: ask PAGE_LIMIT_def Let_def fetchProfiles_def ask_def answered_nth_def drop_nth_def profiles_answer_def
        served_def settled_def object_or_def take_rows_served append_rows_def split: option.splits)
  then show "profile_list (page_twice rows) = take 100 rows @ take 50 (drop 50 rows)" by (simp add: profile_list_def)
  show "scrolled n (page_twice rows) = page_twice rows"
    using two assms by (simp add: scrolled_def profile_list_def Let_def)
qed

text \<open>A page asked for before the filters change, and arriving after the new list, is appended to it.\<close>

lemma late_page_of_old_filters:
  assumes "pending s = []" and "profile_list s \<noteq> []" and "profiles s = JArr ps" and "js_less (JNum (of_nat (length ps))) (totalProfiles s)"
    and "\<not> isLoading s"
  shows "profile_list (answered_nth 0 (served old (pageOffset s + PAGE_LIMIT)) (answered_nth 1 (served new 0)
      (applyFilters fl (scrolled (length ps) s)))) = take PAGE_LIMIT new @ take PAGE_LIMIT (drop (pageOffset s + PAGE_LIMIT) old)"
  using assms
  by (simp add: scrolled_def applyFilters_def profile_list_def fetchProfiles_def ask_def answered_nth_def drop_nth_def
      profiles_answer_def served_def settled_def object_or_def take_rows_served append_rows_def Let_def split: option.splits)

text \<open>The active profile is known only from the rows that arrived: where it is not on the first page, or filtered out,
  the page refuses to start the engine.\<close>

lemma start_refused_off_page:
  assumes "active_row ds = None"
  shows "requests handleStartCore [] (take_rows 0 True (JObj [(''data'', JArr ds), (''total'', JNum n)]) s) = []"
    and "message (final handleStartCore [] (take_rows 0 True (JObj [(''data'', JArr ds), (''total'', JNum n)]) s)) =
      Some (Failure (JStr no_active))"
  using assms by (simp_all add: run_defs handleStartCore_def take_rows_served complain_def Let_def)

text \<open>A keystroke in the search field of the log loads the settings again: what was edited and not saved is gone.\<close>

lemma log_search_discards_edits:
  assumes "load_deps s = Some (logsQuery s, isDebugProxyActive s, cdnScannerActive s)"
    and "category_dep s = Some (selectedCategoryId s)" and "pending s = []" and "q \<noteq> logsQuery s" and "\<not> nullish d"
  shows "form (answered_nth 0 (Response True (JsonOk d)) (set_logsQuery q s)) = read_form d"
  using assms
  by (simp add: set_logsQuery_def effects_def category_effect_def load_effect_def loadSettings_def ask_def answered_nth_def
      settings_answer_def settled_def object_or_def ask_status_def take_settings_def Let_def)

text \<open>A command that loads the page again clears the flag that the loading has set: the page looks idle while it
  loads.\<close>

lemma idle_while_loading:
  assumes "load_deps s = Some (logsQuery s, isDebugProxyActive s, cdnScannerActive s)"
    and "category_dep s = Some (selectedCategoryId s)"
  shows "\<not> isLoading (final handleSaveSettings [Replied (Response True b)] s)"
    and "pending (final handleSaveSettings [Replied (Response True b)] s) =
      pending s @ [(authed_get (token s) (api ''settings''), ForSettings (closure_of s))]"
  using assms
  by (simp_all add: run_defs handleSaveSettings_def command_def on_reply_def page_fetch_def loudly_def done_reload_def
      loadSettings_def ask_def say_def clear_message_def begin_work_def end_work_def end_load_def effects_def
      category_effect_def load_effect_def Let_def)

text \<open>A blank piece of the list of ports is the port 0.\<close>

lemma blank_port_is_zero: "ports_of ''80,'' = [JNum 80, JNum 0]"
  by (simp add: ports_of_def str_number_def trim_def is_space_def unsigned_num_def is_digit_def digits_val_def digit_val_def Let_def)

text \<open>A profile that was deleted on its own stays selected.\<close>

lemma deleted_stays_selected:
  "selectedProfileIds (final (handleDeleteProfile i) [Confirmed True, Replied (Response True b)] s) = selectedProfileIds s"
  by (simp add: run_defs handleDeleteProfile_def ask_confirm_def on_success_def page_fetch_def quietly_def done_reload_def
      loadSettings_def ask_def say_def begin_work_def end_work_def end_load_def effects_def category_effect_def
      load_effect_def fetchProfiles_def Let_def)

text \<open>The arguments of the DPI tool that were saved as empty come back as the default on the next visit.\<close>

lemma emptied_args_return:
  "dpiBypassArgs (read_sys (sys_body (default_sys\<lparr>dpiBypassArgs := JStr []\<rparr>)) default_sys) = JStr ''-d1+s -t 5''"
  by (simp add: read_sys_def sys_body_def default_sys_def if_truthy_def opt_prop_def text_of_def)

end
