(* ===== verification/Regex.thy ===== *)
theory Regex
  imports JS_Values
begin

text \<open>
  The regular expressions of the pages, all of them anchored at both ends and without back references, so that
  \<open>test\<close> is membership in a language. The matcher computes with derivatives; \<open>lang\<close> is the language.
\<close>

datatype re =
    Never
  | Empty
  | Class "char list"
  | Seq re re
  | Alt re re
  | Many re

text \<open>\<open>r?\<close>, \<open>r{n}\<close>, \<open>r{m,n}\<close>, a literal text and a group of alternatives.\<close>

definition Opt :: "re \<Rightarrow> re" where
  "Opt r = Alt Empty r"

fun Times :: "nat \<Rightarrow> re \<Rightarrow> re" where
  "Times 0 r = Empty"
| "Times (Suc n) r = Seq r (Times n r)"

fun Upto :: "nat \<Rightarrow> re \<Rightarrow> re" where
  "Upto 0 r = Empty"
| "Upto (Suc n) r = Opt (Seq r (Upto n r))"

definition Between :: "nat \<Rightarrow> nat \<Rightarrow> re \<Rightarrow> re" where
  "Between m n r = Seq (Times m r) (Upto (n - m) r)"

fun Lit :: "string \<Rightarrow> re" where
  "Lit [] = Empty"
| "Lit (c # s) = Seq (Class [c]) (Lit s)"

fun Seqs :: "re list \<Rightarrow> re" where
  "Seqs [] = Empty"
| "Seqs (r # rs) = Seq r (Seqs rs)"

fun Alts :: "re list \<Rightarrow> re" where
  "Alts [] = Never"
| "Alts (r # rs) = Alt r (Alts rs)"

section \<open>The language and the matcher\<close>

inductive star :: "(string \<Rightarrow> bool) \<Rightarrow> string \<Rightarrow> bool" for L where
  empty: "star L []"
| more: "L s \<Longrightarrow> star L t \<Longrightarrow> star L (s @ t)"

primrec lang :: "re \<Rightarrow> string \<Rightarrow> bool" where
  "lang Never = (\<lambda>s. False)"
| "lang Empty = (\<lambda>s. s = [])"
| "lang (Class cs) = (\<lambda>s. \<exists>c. s = [c] \<and> c \<in> set cs)"
| "lang (Seq r q) = (\<lambda>s. \<exists>a b. s = a @ b \<and> lang r a \<and> lang q b)"
| "lang (Alt r q) = (\<lambda>s. lang r s \<or> lang q s)"
| "lang (Many r) = star (lang r)"

primrec nullable :: "re \<Rightarrow> bool" where
  "nullable Never = False"
| "nullable Empty = True"
| "nullable (Class cs) = False"
| "nullable (Seq r q) = (nullable r \<and> nullable q)"
| "nullable (Alt r q) = (nullable r \<or> nullable q)"
| "nullable (Many r) = True"

text \<open>Smart constructors keep derivatives small.\<close>

fun seq :: "re \<Rightarrow> re \<Rightarrow> re" where
  "seq Never q = Never"
| "seq Empty q = q"
| "seq r q = (if q = Never then Never else Seq r q)"

fun alt :: "re \<Rightarrow> re \<Rightarrow> re" where
  "alt Never q = q"
| "alt r Never = r"
| "alt r q = (if r = q then r else Alt r q)"

primrec deriv :: "char \<Rightarrow> re \<Rightarrow> re" where
  "deriv c Never = Never"
| "deriv c Empty = Never"
| "deriv c (Class cs) = (if c \<in> set cs then Empty else Never)"
| "deriv c (Seq r q) = (if nullable r then alt (seq (deriv c r) q) (deriv c q) else seq (deriv c r) q)"
| "deriv c (Alt r q) = alt (deriv c r) (deriv c q)"
| "deriv c (Many r) = seq (deriv c r) (Many r)"

definition test :: "re \<Rightarrow> string \<Rightarrow> bool" where
  "test r s = nullable (fold deriv s r)"

lemma lang_seq [simp]: "lang (seq r q) s = lang (Seq r q) s"
  by (cases r) auto

lemma lang_alt [simp]: "lang (alt r q) s = lang (Alt r q) s"
  by (cases r; cases q) auto

lemma nullable_lang: "nullable r \<longleftrightarrow> lang r []"
  by (induction r) (auto intro: star.empty)

lemma star_Cons: "star L (c # s) \<longleftrightarrow> (\<exists>a b. s = a @ b \<and> L (c # a) \<and> star L b)"
proof
  show "star L (c # s) \<Longrightarrow> \<exists>a b. s = a @ b \<and> L (c # a) \<and> star L b"
  proof (induction "c # s" arbitrary: c s rule: star.induct)
    case (more s' t)
    then show ?case by (cases s') auto
  qed
  show "\<exists>a b. s = a @ b \<and> L (c # a) \<and> star L b \<Longrightarrow> star L (c # s)"
    using star.more [of L "c # _"] by fastforce
qed

lemma deriv_lang: "lang (deriv c r) s \<longleftrightarrow> lang r (c # s)"
proof (induction r arbitrary: s)
  case (Seq r q)
  have "(\<exists>a b. c # s = a @ b \<and> lang r a \<and> lang q b) \<longleftrightarrow>
      (\<exists>a b. s = a @ b \<and> lang r (c # a) \<and> lang q b) \<or> (lang r [] \<and> lang q (c # s))"
    by (auto simp: Cons_eq_append_conv)
  then show ?case using Seq by (auto simp: nullable_lang)
next
  case (Many r)
  then show ?case by (simp add: star_Cons)
qed auto

lemma test_lang: "test r s \<longleftrightarrow> lang r s"
  unfolding test_def by (induction s arbitrary: r) (simp_all add: nullable_lang deriv_lang)

section \<open>Languages of the derived forms\<close>

lemma lang_Opt [simp]: "lang (Opt r) s \<longleftrightarrow> s = [] \<or> lang r s"
  by (simp add: Opt_def)

lemma lang_Lit [simp]: "lang (Lit t) s \<longleftrightarrow> s = t"
  by (induction t arbitrary: s) auto

lemma lang_Seqs [simp]: "lang (Seqs []) s \<longleftrightarrow> s = []" "lang (Seqs (r # rs)) s \<longleftrightarrow> (\<exists>a b. s = a @ b \<and> lang r a \<and> lang (Seqs rs) b)"
  by simp_all

lemma lang_Alts [simp]: "lang (Alts rs) s \<longleftrightarrow> (\<exists>r\<in>set rs. lang r s)"
  by (induction rs) auto

lemma lang_Times: "lang (Times n r) s \<longleftrightarrow> (\<exists>ss. length ss = n \<and> s = concat ss \<and> (\<forall>t\<in>set ss. lang r t))"
proof (induction n arbitrary: s)
  case (Suc n)
  show ?case
  proof
    assume "lang (Times (Suc n) r) s"
    then obtain a b where "s = a @ b" "lang r a" "lang (Times n r) b" by auto
    moreover then obtain ss where "length ss = n" "b = concat ss" "\<forall>t\<in>set ss. lang r t" using Suc.IH by blast
    ultimately show "\<exists>ss. length ss = Suc n \<and> s = concat ss \<and> (\<forall>t\<in>set ss. lang r t)"
      by (intro exI [of _ "a # ss"]) simp
  next
    assume "\<exists>ss. length ss = Suc n \<and> s = concat ss \<and> (\<forall>t\<in>set ss. lang r t)"
    then obtain t ss where "length ss = n" "s = t @ concat ss" "lang r t" "\<forall>t\<in>set ss. lang r t"
      by (auto simp: length_Suc_conv)
    then show "lang (Times (Suc n) r) s" using Suc.IH by auto
  qed
qed simp

lemma lang_Seq_Class: "lang (Seq (Class cs) r) s \<longleftrightarrow> (\<exists>c t. s = c # t \<and> c \<in> set cs \<and> lang r t)"
proof
  assume "lang (Seq (Class cs) r) s"
  then obtain a b c where "s = a @ b" "a = [c]" "c \<in> set cs" "lang r b" by auto
  then show "\<exists>c t. s = c # t \<and> c \<in> set cs \<and> lang r t" by simp
next
  assume "\<exists>c t. s = c # t \<and> c \<in> set cs \<and> lang r t"
  then obtain c t where "s = [c] @ t" "lang (Class cs) [c]" "lang r t" by auto
  then show "lang (Seq (Class cs) r) s" unfolding lang.simps by blast
qed

text \<open>The first part of a sequence, read from the front of the text.\<close>

lemma lang_Seq_Empty: "lang (Seq r Empty) s \<longleftrightarrow> lang r s"
  by auto

lemma lang_Seq_Lit: "lang (Seq (Lit t) r) s \<longleftrightarrow> (\<exists>u. s = t @ u \<and> lang r u)"
  by auto

lemma lang_Seq_Opt: "lang (Seq (Opt r) q) s \<longleftrightarrow> lang q s \<or> lang (Seq r q) s"
  by auto

lemmas lang_front = lang_Seq_Class lang_Seq_Empty lang_Seq_Lit lang_Seq_Opt

lemma lang_Times_Class: "lang (Times n (Class cs)) s \<longleftrightarrow> length s = n \<and> set s \<subseteq> set cs"
proof (induction n arbitrary: s)
  case (Suc n)
  show ?case unfolding Times.simps lang_Seq_Class Suc.IH by (auto simp: length_Suc_conv)
qed auto

lemma lang_Upto_Class: "lang (Upto n (Class cs)) s \<longleftrightarrow> length s \<le> n \<and> set s \<subseteq> set cs"
proof (induction n arbitrary: s)
  case (Suc n)
  show ?case unfolding Upto.simps lang_Opt lang_Seq_Class Suc.IH by (cases s) auto
qed auto

lemma lang_Between_Class:
  "m \<le> n \<Longrightarrow> lang (Between m n (Class cs)) s \<longleftrightarrow> m \<le> length s \<and> length s \<le> n \<and> set s \<subseteq> set cs"
proof
  assume mn: "m \<le> n" and "m \<le> length s \<and> length s \<le> n \<and> set s \<subseteq> set cs"
  then have "lang (Times m (Class cs)) (take m s)" "lang (Upto (n - m) (Class cs)) (drop m s)"
    by (auto simp: lang_Times_Class lang_Upto_Class dest: in_set_takeD in_set_dropD)
  then show "lang (Between m n (Class cs)) s" unfolding Between_def lang.simps by (metis append_take_drop_id)
qed (auto simp: Between_def lang_Times_Class lang_Upto_Class)

section \<open>Digits\<close>

definition digits :: "char list" where
  "digits = ''0123456789''"

definition hex_digits :: "char list" where
  "hex_digits = ''0123456789abcdefABCDEF''"

lemma digits_set: "c \<in> set digits \<longleftrightarrow> is_digit c"
  by (simp add: digits_def is_digit_def)

end
