(* ===== verification/Subscriptions_Card.thy ===== *)
theory Subscriptions_Card
  imports V2Ray_Handlers V2Ray_Sweep JSON Keyed Regex
begin

text \<open>
  The card of subscriptions and profiles (\<open>web/client/src/pages/v2ray-client/components/SubscriptionsCard.tsx\<close>). It
  works on the state of its page, the field \<open>page\<close>, and has its own: the settings of the tester, which an effect
  saves 300 milliseconds after the last change, the history of probe addresses, the categories, the filters before
  they are applied. Requests whose answer nobody reads are only recorded, in \<open>posted\<close>.
\<close>

section \<open>State\<close>

record tester =
  testType :: jsv
  core :: jsv
  concurrency :: jsv
  timeoutMs :: jsv
  delayMs :: jsv
  testUrl :: jsv

datatype ingest_tab = IngestSub | IngestUri | IngestQr

record card_state =
  page :: v2ray_page
  isTesterPanelOpen :: bool
  tester :: tester
  isLoadedRef :: bool
  tester_dep :: "tester option"
  save_timer :: "tester option"
  urlHistory :: "jsv list"
  showSuggestions :: bool
  ingestTab :: ingest_tab
  newCatName :: string
  isCreatingCat :: bool
  editingCategoryId :: jsv
  editingCatName :: string
  syncingSubId :: jsv
  temp :: list_filters
  rowTestTypes :: "(string \<times> string) list"
  posted :: "request list"
  shown :: "(string \<times> jsv) list"

definition probe_urls :: "string list" where
  "probe_urls = [''http://www.gstatic.com/generate_204'', ''http://cp.cloudflare.com'', ''https://www.google.com'']"

definition default_tester :: tester where
  "default_tester = \<lparr>testType = JStr ''tcp_ping'', core = JStr ''current'', concurrency = JNum 4, timeoutMs = JNum 5000,
     delayMs = JNum 200, testUrl = JStr (hd probe_urls)\<rparr>"

definition init_card :: "v2ray_page \<Rightarrow> card_state" where
  "init_card p = \<lparr>page = p, isTesterPanelOpen = False, tester = default_tester, isLoadedRef = False, tester_dep = None,
     save_timer = None, urlHistory = map JStr probe_urls, showSuggestions = False, ingestTab = IngestSub,
     newCatName = [], isCreatingCat = False, editingCategoryId = JNull, editingCatName = [], syncingSubId = JNull,
     temp = no_filters, rowTestTypes = [], posted = [], shown = []\<rparr>"

type_synonym card_action = "(card_state, unit) page_action"

definition on_page :: "(v2ray_page \<Rightarrow> v2ray_page) \<Rightarrow> card_state \<Rightarrow> card_state" where
  "on_page f s = s\<lparr>page := f (page s)\<rparr>"

text \<open>\<open>alert(text)\<close> and \<open>showGlobalAlert(text, {title})\<close>: a box that waits for nobody.\<close>

definition show_box :: "string \<Rightarrow> jsv \<Rightarrow> card_state \<Rightarrow> card_state" where
  "show_box title text s = s\<lparr>shown := shown s @ [(title, text)]\<rparr>"

section \<open>The settings of the tester\<close>

definition post_settings :: "card_state \<Rightarrow> jsv \<Rightarrow> card_state" where
  "post_settings s v = s\<lparr>posted := posted s @ [post_json (token (page s)) (api ''settings'') v]\<rparr>"

definition tester_body :: "tester \<Rightarrow> (string \<times> jsv) list" where
  "tester_body t = [(''tester_test_type'', testType t), (''tester_core'', core t),
     (''tester_concurrency'', text_of (concurrency t)), (''tester_timeout_ms'', text_of (timeoutMs t)),
     (''tester_delay_ms'', text_of (delayMs t))]"

definition save_tester :: "tester \<Rightarrow> jsv" where
  "save_tester t = JObj (tester_body t @ [(''tester_test_url'', testUrl t)])"

text \<open>The effect on the settings: a change cancels the timer, and sets it again once the settings were loaded.\<close>

definition tester_effect :: "card_state \<Rightarrow> card_state" where
  "tester_effect s = (if tester_dep s = Some (tester s) then s
     else s\<lparr>tester_dep := Some (tester s), save_timer := (if isLoadedRef s then Some (tester s) else None)\<rparr>)"

definition save_due :: "card_state \<Rightarrow> card_state" where
  "save_due s = (case save_timer s of None \<Rightarrow> s | Some t \<Rightarrow> post_settings (s\<lparr>save_timer := None\<rparr>) (save_tester t))"

definition set_tester :: "tester \<Rightarrow> card_state \<Rightarrow> card_state" where
  "set_tester t s = tester_effect (s\<lparr>tester := t\<rparr>)"

definition set_concurrency :: "string \<Rightarrow> card_state \<Rightarrow> card_state" where
  "set_concurrency v s = set_tester ((tester s)\<lparr>concurrency := math_max 1 (str_number v)\<rparr>) s"

definition set_timeout :: "string \<Rightarrow> card_state \<Rightarrow> card_state" where
  "set_timeout v s = set_tester ((tester s)\<lparr>timeoutMs := math_max 500 (str_number v)\<rparr>) s"

definition set_delay :: "string \<Rightarrow> card_state \<Rightarrow> card_state" where
  "set_delay v s = set_tester ((tester s)\<lparr>delayMs := math_max 0 (str_number v)\<rparr>) s"

definition edit_url :: "string \<Rightarrow> card_state \<Rightarrow> card_state" where
  "edit_url v s = (set_tester ((tester s)\<lparr>testUrl := JStr v\<rparr>) s)\<lparr>showSuggestions := True\<rparr>"

definition choose_url :: "jsv \<Rightarrow> card_state \<Rightarrow> card_state" where
  "choose_url v s = (set_tester ((tester s)\<lparr>testUrl := v\<rparr>) s)\<lparr>showSuggestions := False\<rparr>"

text \<open>The answer to \<open>loadTesterSettings\<close>: a number is read by \<open>Number\<close>; the history is JSON in a text, and the
  first occurrence of each address is kept.\<close>

definition number_if :: "jsv \<Rightarrow> string \<Rightarrow> jsv \<Rightarrow> jsv" where
  "number_if d k old = (if truthy (opt_prop d k) then to_number (opt_prop d k) else old)"

definition read_tester :: "jsv \<Rightarrow> tester \<Rightarrow> tester" where
  "read_tester d t = \<lparr>testType = if_truthy d ''tester_test_type'' (testType t), core = if_truthy d ''tester_core'' (core t),
     concurrency = number_if d ''tester_concurrency'' (concurrency t),
     timeoutMs = number_if d ''tester_timeout_ms'' (timeoutMs t), delayMs = number_if d ''tester_delay_ms'' (delayMs t),
     testUrl = if_truthy d ''tester_test_url'' (testUrl t)\<rparr>"

definition merge_history :: "jsv list \<Rightarrow> jsv list" where
  "merge_history h = new_keys {} (h @ map JStr probe_urls)"

definition read_history :: "jsv \<Rightarrow> jsv list \<Rightarrow> jsv list" where
  "read_history d old = (let h = opt_prop d ''tester_url_history'' in
     if \<not> truthy h then old
     else case json_parse (js_string h) of Some (JArr xs) \<Rightarrow> merge_history xs | _ \<Rightarrow> old)"

definition take_tester :: "jsv \<Rightarrow> card_state \<Rightarrow> card_state" where
  "take_tester d s = s\<lparr>tester := read_tester d (tester s), urlHistory := read_history d (urlHistory s)\<rparr>"

definition tester_loaded :: "reply \<Rightarrow> card_state \<Rightarrow> card_state" where
  "tester_loaded r s = tester_effect ((settled r (object_or no_change take_tester) no_change no_change s)\<lparr>isLoadedRef := True\<rparr>)"

definition history_body :: "jsv list \<Rightarrow> jsv" where
  "history_body h = JObj [(''tester_url_history'', JStr (json_text [] (JArr h)))]"

text \<open>\<open>addToHistory\<close>; \<open>trim\<close> of anything but a string throws.\<close>

definition addToHistory :: "jsv \<Rightarrow> card_state \<Rightarrow> card_state" where
  "addToHistory url s = (case url of
       JStr u \<Rightarrow> (let v = trim u in
         if v = [] \<or> JStr v \<in> set (urlHistory s) then s
         else let h = urlHistory s @ [JStr v] in post_settings (s\<lparr>urlHistory := h\<rparr>) (history_body h))
     | _ \<Rightarrow> s)"

text \<open>The test address keeps its value.\<close>

definition handleResetTesterConfig :: "card_state \<Rightarrow> card_state" where
  "handleResetTesterConfig s = (let t = default_tester\<lparr>testUrl := testUrl (tester s)\<rparr> in
     set_tester t (post_settings s (JObj (tester_body t))))"

definition suggestions :: "card_state \<Rightarrow> jsv list" where
  "suggestions s = (let u = js_string (testUrl (tester s)) in
     if trim u = [] then urlHistory s else filter (\<lambda>h. includes_str (to_lower (js_string h)) (to_lower u)) (urlHistory s))"

section \<open>Tests\<close>

definition options_of :: "jsv list \<Rightarrow> tester \<Rightarrow> test_options" where
  "options_of ids t = \<lparr>o_ids = ids, o_testType = testType t, o_concurrency = concurrency t, o_timeoutMs = timeoutMs t,
     o_delayMs = delayMs t, o_url = testUrl t, o_core = core t\<rparr>"

definition handleBulkTestSelected :: "card_state \<Rightarrow> card_state" where
  "handleBulkTestSelected s =
     (let ids = selectedProfileIds (page s); s1 = addToHistory (testUrl (tester s)) s in
      if ids = [] then show_box ''No Profile Selected'' (JStr ''Please select at least one profile first.'') s1
      else on_page (startAdvancedTest (options_of ids (tester s))) s1)"

definition handleBulkTestAll :: "card_state \<Rightarrow> card_state" where
  "handleBulkTestAll s = on_page (startAdvancedTest (options_of [] (tester s))) (addToHistory (testUrl (tester s)) s)"

definition row_type :: "card_state \<Rightarrow> jsv \<Rightarrow> string" where
  "row_type s p = (case map_of (rowTestTypes s) (js_string (id_of p)) of
       None \<Rightarrow> ''tls_ping'' | Some t \<Rightarrow> if t = [] then ''tls_ping'' else t)"

definition set_row_type :: "jsv \<Rightarrow> string \<Rightarrow> card_state \<Rightarrow> card_state" where
  "set_row_type p t s = s\<lparr>rowTestTypes := AList.update (js_string (id_of p)) t (rowTestTypes s)\<rparr>"

definition quick_test :: "jsv \<Rightarrow> card_state \<Rightarrow> card_state" where
  "quick_test p s = (if testingStatus (page s) = JStr ''running'' then s
     else on_page (testSingleProfileAdvanced (id_of p) (JStr (row_type s p)) JUndef) s)"

text \<open>A double click on the diagnostics of a row; nothing disables it.\<close>

definition double_click :: "jsv \<Rightarrow> card_state \<Rightarrow> card_state" where
  "double_click p s = on_page (testSingleProfileAdvanced (id_of p) (JStr ''real_url'') (testUrl (tester s))) s"

datatype diagnostics =
    Testing
  | Pass jsv jsv "(jsv \<times> string) option"
  | Fail_Text jsv jsv
  | Idle string string string

definition getLatencyColor :: "jsv \<Rightarrow> string" where
  "getLatencyColor ms = (if js_less ms (JNum 0) \<or> to_number ms = JNum 0 then ''var(--color-brand-muted)''
     else if js_less ms (JNum 100) then ''var(--color-brand-green)''
     else if js_less ms (JNum 300) then ''#f59e0b'' else ''var(--color-brand-red)'')"

definition ms_text :: "jsv \<Rightarrow> string" where
  "ms_text v = (if js_less (JNum 0) v then js_string v @ ''ms'' else ''N/A'')"

definition renderDiagnostics :: "card_state \<Rightarrow> jsv \<Rightarrow> diagnostics" where
  "renderDiagnostics s p =
     (let idle = Idle (getLatencyColor (latency_of p)) (ms_text (latency_of p)) (row_type s p) in
      case map_of (nodeTestStates (page s)) (js_string (id_of p)) of
        None \<Rightarrow> idle
      | Some n \<Rightarrow>
          if n_status n = ''testing'' then Testing
          else if n_status n = ''done'' then Pass (relayMs n) (colo n)
            (if relayMs n \<noteq> JUndef \<and> httpStatus n \<noteq> JUndef \<and> httpStatus n \<noteq> JNum (-1)
             then Some (httpStatus n, ms_text (js_coalesce (pingMs n) (JNum 0))) else None)
          else if n_status n = ''error'' then Fail_Text (n_error n) (js_or (n_error n) (JStr ''Connection Failed''))
          else idle)"

definition percentDone :: "v2ray_page \<Rightarrow> jsv" where
  "percentDone p = (case testingProgress p of (n, k) \<Rightarrow>
     if js_less (JNum 0) n then
       (case (to_number k, to_number n) of (JNum a, JNum b) \<Rightarrow> JNum (of_int \<lfloor>a / b * 100 + 1 / 2\<rfloor>) | _ \<Rightarrow> JNaN)
     else JNum 0)"

definition successCount :: "v2ray_page \<Rightarrow> nat" where
  "successCount p = length (filter (\<lambda>n. n_status n = ''done'') (node_states p))"

definition failCount :: "v2ray_page \<Rightarrow> nat" where
  "failCount p = length (filter (\<lambda>n. n_status n = ''error'') (node_states p))"

section \<open>Categories and subscriptions\<close>

definition loudly_boxed :: "string \<Rightarrow> card_action \<Rightarrow> card_action" where
  "loudly_boxed title t = try_catch t (\<lambda>e. set_state (show_box title (JStr e)))"

definition boxed_reply :: "request \<Rightarrow> string \<Rightarrow> string \<Rightarrow> (body \<Rightarrow> card_action) \<Rightarrow> card_action" where
  "boxed_reply rq title dflt good = bind (page_fetch rq) (\<lambda>(ok, b).
     if ok then good b else bind (api_error b dflt) (\<lambda>e. set_state (show_box title e)))"

definition category_request :: "card_state \<Rightarrow> string \<Rightarrow> jsv \<Rightarrow> (string \<times> string) list \<Rightarrow> jsv option \<Rightarrow> request" where
  "category_request c verb i headers v =
     http_send verb (api (''categories/'' @ js_string i)) (headers @ [auth_header (token (page c))]) v"

definition handleCreateCategory :: card_action where
  "handleCreateCategory = Get (\<lambda>c. if trim (newCatName c) = [] then Done ()
     else loudly_boxed [] (boxed_reply (v2ray_post (page c) ''categories'' (JObj [(''name'', JStr (trim (newCatName c))),
         (''type'', JStr ''custom''), (''color_hex'', JStr ''#6366f1'')])) [] ''Failed to create category''
       (\<lambda>b. set_state (\<lambda>s. on_page fetchCategories (s\<lparr>newCatName := [], isCreatingCat := False\<rparr>)))))"

text \<open>The page's \<open>fetchProfiles(0, true)\<close> of the closure, which reads the filters and the category of that render.\<close>

definition reload_rows :: "card_state \<Rightarrow> v2ray_page \<Rightarrow> v2ray_page" where
  "reload_rows c = fetchProfiles 0 True (filters (page c)) (selectedCategoryId (page c))"

definition reload_all :: "card_state \<Rightarrow> v2ray_page \<Rightarrow> v2ray_page" where
  "reload_all c p = reload_rows c (fetchSubscriptions (fetchCategories p))"

definition confirm_category :: string where
  "confirm_category = ''Are you sure you want to delete this category? All its nodes will become ungrouped.''"

definition leave_category :: "card_state \<Rightarrow> jsv \<Rightarrow> v2ray_page \<Rightarrow> v2ray_page" where
  "leave_category c i p = (if strict_eq (selectedCategoryId (page c)) i then p\<lparr>selectedCategoryId := JNull\<rparr> else p)"

definition handleDeleteCategory :: "jsv \<Rightarrow> card_action" where
  "handleDeleteCategory i = Get (\<lambda>c. bind (ask_confirm confirm_category) (\<lambda>yes. if \<not> yes then Done ()
     else loudly_boxed [] (boxed_reply (category_request c ''DELETE'' i [] None) [] ''Failed to delete category''
       (\<lambda>b. set_state (on_page (\<lambda>p. effects (reload_all c (leave_category c i p))))))))"

definition handleUpdateCategory :: "jsv \<Rightarrow> card_action" where
  "handleUpdateCategory i = Get (\<lambda>c. if trim (editingCatName c) = [] then Done ()
     else loudly_boxed [] (boxed_reply (category_request c ''PUT'' i [json_header]
         (Some (JObj [(''name'', JStr (trim (editingCatName c)))]))) [] ''Failed to update category''
       (\<lambda>b. set_state (\<lambda>s. on_page (reload_all c) (s\<lparr>editingCategoryId := JNull, editingCatName := []\<rparr>)))))"

definition handleSyncSubscription :: "jsv \<Rightarrow> card_action" where
  "handleSyncSubscription i = Get (\<lambda>c. Set (\<lambda>s. s\<lparr>syncingSubId := i\<rparr>) (finally_do (loudly_boxed ''Update Error''
     (boxed_reply (v2ray_send (page c) ''POST'' (''subscriptions/'' @ js_string i @ ''/update'')) ''Update Failed''
       ''Failed to update subscription''
       (\<lambda>b. bind (read_json b) (\<lambda>d. bind (lift_res (show_prop d ''count'')) (\<lambda>n. set_state (\<lambda>s. on_page (reload_rows c)
         (show_box ''Update Successful'' (JStr (''Successfully updated subscription! '' @ n @ '' nodes retrieved.'')) s)))))))
     (\<lambda>s. s\<lparr>syncingSubId := JNull\<rparr>)))"

definition handleAssignCategory :: "string \<Rightarrow> card_action" where
  "handleAssignCategory v = Get (\<lambda>c. if v = [] then Done ()
     else loudly_boxed [] (boxed_reply (v2ray_post (page c) ''configs/assign-category''
         (JObj [(''ids'', JArr (selectedProfileIds (page c))), (''category_id'', str_number v)])) []
         ''Failed to assign category''
       (\<lambda>b. set_state (on_page (\<lambda>p. reload_rows c (p\<lparr>selectedProfileIds := []\<rparr>))))))"

definition start_rename :: "jsv \<Rightarrow> card_state \<Rightarrow> card_state" where
  "start_rename cat s = s\<lparr>editingCategoryId := opt_prop cat ''id'', editingCatName := js_string (opt_prop cat ''name'')\<rparr>"

definition cancel_rename :: "card_state \<Rightarrow> card_state" where
  "cancel_rename s = s\<lparr>editingCategoryId := JNull, editingCatName := []\<rparr>"

definition cancel_create :: "card_state \<Rightarrow> card_state" where
  "cancel_create s = s\<lparr>isCreatingCat := False, newCatName := []\<rparr>"

text \<open>A category is known as a subscription's by its name; the buttons of a category.\<close>

definition sub_match :: "v2ray_page \<Rightarrow> jsv \<Rightarrow> jsv option" where
  "sub_match p cat = (case subscriptions p of
       JArr ss \<Rightarrow> find (\<lambda>s. strict_eq (opt_prop s ''name'') (opt_prop cat ''name'')) ss | _ \<Rightarrow> None)"

definition editable_category :: "v2ray_page \<Rightarrow> jsv \<Rightarrow> bool" where
  "editable_category p cat \<longleftrightarrow> opt_prop cat ''type'' = JStr ''custom'' \<or> sub_match p cat \<noteq> None"

section \<open>Filters and selection\<close>

definition handleApplyFilters :: "card_state \<Rightarrow> card_state" where
  "handleApplyFilters s = on_page (applyFilters (temp s)) s"

definition handleClearFilters :: "card_state \<Rightarrow> card_state" where
  "handleClearFilters s = on_page (applyFilters no_filters) (s\<lparr>temp := no_filters\<rparr>)"

definition row_ids :: "v2ray_page \<Rightarrow> jsv list" where
  "row_ids p = map id_of (profile_list p)"

definition all_selected :: "v2ray_page \<Rightarrow> bool" where
  "all_selected p \<longleftrightarrow> profile_list p \<noteq> [] \<and> set (row_ids p) \<subseteq> set (selectedProfileIds p)"

definition select_all :: "bool \<Rightarrow> v2ray_page \<Rightarrow> v2ray_page" where
  "select_all checked p = p\<lparr>selectedProfileIds := (if checked
     then new_keys {} (selectedProfileIds p @ row_ids p)
     else filter (\<lambda>i. i \<notin> set (row_ids p)) (selectedProfileIds p))\<rparr>"

definition select_row :: "bool \<Rightarrow> jsv \<Rightarrow> v2ray_page \<Rightarrow> v2ray_page" where
  "select_row checked i p = p\<lparr>selectedProfileIds := (if checked then selectedProfileIds p @ [i]
     else filter (\<lambda>j. j \<noteq> i) (selectedProfileIds p))\<rparr>"

section \<open>Badges\<close>

text \<open>The background and the colour of a protocol; \<open>None\<close> for a dash.\<close>

definition getProtocolBadge :: "string \<Rightarrow> (string \<times> string \<times> string) option" where
  "getProtocolBadge proto = (let n = to_upper proto in
     if n = ''VLESS'' then Some (n, ''rgba(99, 102, 241, 0.15)'', ''var(--color-brand-indigo)'')
     else if n = ''VMESS'' then Some (n, ''rgba(59, 130, 246, 0.15)'', ''var(--color-brand-blue)'')
     else if n = ''TROJAN'' then Some (n, ''rgba(232, 90, 28, 0.15)'', ''var(--color-brand)'')
     else if n = ''SS'' \<or> n = ''SHADOWSOCKS'' then Some (n, ''rgba(34, 197, 94, 0.15)'', ''var(--color-brand-green)'')
     else if n = [] then None else Some (n, ''var(--color-brand-light)'', ''var(--color-brand)''))"

text \<open>The code points of a country's flag.\<close>

definition getFlagEmoji :: "string \<Rightarrow> nat list" where
  "getFlagEmoji code = map (\<lambda>c. 127397 + of_char c) (to_upper code)"

section \<open>Addresses\<close>

text \<open>\<open>(25[0-5]|2[0-4][0-9]|[01]?[0-9][0-9]?)\<close>, and the two expressions of \<open>isIP\<close>.\<close>

definition octetRegex :: re where
  "octetRegex = Alts [Seqs [Lit ''25'', Class ''012345''], Seqs [Class ''2'', Class ''01234'', Class digits],
     Seqs [Opt (Class ''01''), Class digits, Opt (Class digits)]]"

definition ipv4Regex :: re where
  "ipv4Regex = Seq (Times 3 (Seq octetRegex (Lit ''.''))) octetRegex"

definition quad :: re where
  "quad = (let octet = Alts [Seqs [Lit ''25'', Class ''012345''],
       Seq (Opt (Alt (Seq (Class ''2'') (Class ''01234'')) (Seq (Opt (Class ''1'')) (Class digits)))) (Class digits)]
     in Seq (Times 3 (Seq octet (Lit ''.''))) octet)"

definition hextet :: re where
  "hextet = Between 1 4 (Class hex_digits)"

definition hextet_colon :: re where
  "hextet_colon = Seq hextet (Lit '':'')"

definition colon_hextet :: re where
  "colon_hextet = Seq (Lit '':'') hextet"

definition alphanumerics :: "char list" where
  "alphanumerics = digits @ ''abcdefghijklmnopqrstuvwxyzABCDEFGHIJKLMNOPQRSTUVWXYZ''"

definition ipv6Regex :: re where
  "ipv6Regex = Alts [
     Seq (Times 7 hextet_colon) hextet,
     Seq (Between 1 7 hextet_colon) (Lit '':''),
     Seqs [Between 1 6 hextet_colon, Lit '':'', hextet],
     Seq (Between 1 5 hextet_colon) (Between 1 2 colon_hextet),
     Seq (Between 1 4 hextet_colon) (Between 1 3 colon_hextet),
     Seq (Between 1 3 hextet_colon) (Between 1 4 colon_hextet),
     Seq (Between 1 2 hextet_colon) (Between 1 5 colon_hextet),
     Seq hextet_colon (Between 1 6 colon_hextet),
     Seq (Lit '':'') (Alt (Between 1 7 colon_hextet) (Lit '':'')),
     Seqs [Lit ''fe80:'', Upto 4 (Seq (Lit '':'') (Upto 4 (Class hex_digits))), Lit ''%'',
       Class alphanumerics, Many (Class alphanumerics)],
     Seqs [Lit ''::'', Opt (Seqs [Lit ''ffff'', Opt (Seq (Lit '':'') (Between 1 4 (Class ''0''))), Lit '':'']), quad],
     Seqs [Between 1 4 hextet_colon, Lit '':'', quad]]"

definition isIP :: "string \<Rightarrow> bool" where
  "isIP s \<longleftrightarrow> test ipv4Regex s \<or> test ipv6Regex s"

end
