(* ===== verification/Subscriptions_Behaviour.thy ===== *)
theory Subscriptions_Behaviour
  imports Subscriptions_Card
begin

text \<open>
  Behaviour of the card of subscriptions: a burst of changes to the tester's settings is saved once, with the last
  values; the history of addresses holds none twice and survives saving and loading; the expression for IPv4
  addresses accepts exactly four numbers of at most 255; and what goes wrong.
\<close>

section \<open>Saving the settings of the tester\<close>

definition settled_card :: "card_state \<Rightarrow> bool" where
  "settled_card s \<longleftrightarrow> isLoadedRef s \<and> tester_dep s = Some (tester s) \<and> save_timer s = None"

lemma burst:
  assumes "isLoadedRef s" and "tester_dep s = Some (tester s)" and "save_timer s \<in> {None, Some (tester s)}"
  shows "posted (fold set_tester ts s) = posted s \<and> page (fold set_tester ts s) = page s \<and>
     save_timer (fold set_tester ts s) =
       (if \<forall>t\<in>set ts. t = tester s then save_timer s else Some (last ts))"
  using assms
proof (induction ts arbitrary: s)
  case (Cons t ts)
  show ?case
  proof (cases "t = tester s")
    case True
    then have "set_tester t s = s" using Cons.prems by (simp add: set_tester_def tester_effect_def)
    then show ?thesis using Cons True by (auto split: if_splits)
  next
    case False
    let ?s = "set_tester t s"
    have s: "isLoadedRef ?s" "tester_dep ?s = Some (tester ?s)" "save_timer ?s = Some t" "tester ?s = t"
        "posted ?s = posted s" "page ?s = page s"
      using Cons.prems False by (simp_all add: set_tester_def tester_effect_def)
    have "last (t # ts) = t" if "\<forall>u\<in>set ts. u = t" using that by (induction ts) auto
    then show ?thesis using Cons.IH [of ?s] s False by (auto split: if_splits)
  qed
qed simp

text \<open>C19: Once the settings of the tester are loaded, a burst of changes that ends before its timer fires is saved by one
  request, with the values of the last change; nothing is sent when nothing changed.\<close>

theorem burst_saved_once:
  assumes "settled_card s"
  shows "posted (save_due (fold set_tester ts s)) = posted s @
     (if \<forall>t\<in>set ts. t = tester s then []
      else [post_json (token (page s)) (api ''settings'') (save_tester (last ts))])"
  using burst [of s ts] assms by (simp add: settled_card_def save_due_def post_settings_def)

definition sample_card :: card_state where
  "sample_card = tester_loaded (Rejected []) (tester_effect (init_card (init_v2ray ''t'' ''https:'' ''h'')))"

theorem burst_saved_once_witness:
  "posted (save_due (set_concurrency ''12'' (set_concurrency ''1'' sample_card))) =
     [post_json ''t'' (api ''settings'') (save_tester (default_tester\<lparr>concurrency := JNum 12\<rparr>))]"
proof -
  have s: "settled_card sample_card" "tester sample_card = default_tester" "posted sample_card = []" "token (page sample_card) = ''t''"
    by (simp_all add: settled_card_def sample_card_def tester_loaded_def settled_def no_change_def tester_effect_def
        init_card_def init_v2ray_def)
  have n: "str_number ''1'' = JNum 1" "str_number ''12'' = JNum 12"
    by (simp_all add: str_number_def trim_def is_space_def unsigned_num_def is_digit_def digits_val_def digit_val_def Let_def)
  have t: "tester (set_concurrency ''1'' sample_card) = default_tester\<lparr>concurrency := JNum 1\<rparr>"
    by (simp add: set_concurrency_def n s math_max_def set_tester_def tester_effect_def)
  have "set_concurrency ''12'' (set_concurrency ''1'' sample_card) =
      fold set_tester [default_tester\<lparr>concurrency := JNum 1\<rparr>, default_tester\<lparr>concurrency := JNum 12\<rparr>] sample_card"
    by (simp add: set_concurrency_def [of "''12''"] t n math_max_def) (simp add: set_concurrency_def s n math_max_def)
  then show ?thesis
    using burst_saved_once [OF s(1), of "[default_tester\<lparr>concurrency := JNum 1\<rparr>, default_tester\<lparr>concurrency := JNum 12\<rparr>]"]
    by (simp add: s) (simp add: default_tester_def)
qed

section \<open>The history of addresses\<close>

definition history_ok :: "card_state \<Rightarrow> bool" where
  "history_ok s \<longleftrightarrow> distinct (urlHistory s) \<and> list_all json_value (urlHistory s) \<and> set (map JStr probe_urls) \<subseteq> set (urlHistory s)"

lemma history_ok_add: "history_ok s \<Longrightarrow> history_ok (addToHistory u s)"
  by (cases u) (auto simp: history_ok_def addToHistory_def post_settings_def Let_def)

lemma history_add_kept: "urlHistory s = pre \<Longrightarrow> \<exists>more. urlHistory (addToHistory u s) = pre @ more"
  by (cases u) (auto simp: addToHistory_def post_settings_def Let_def)

lemma new_keys_known: "set ys \<subseteq> K \<Longrightarrow> new_keys K ys = []"
  by (induction ys) auto

lemma new_keys_append: "new_keys K (xs @ ys) = new_keys K xs @ new_keys (K \<union> set xs) ys"
  by (induction K xs rule: new_keys.induct) (simp_all add: insert_absorb)

lemma new_keys_absorb: "distinct xs \<Longrightarrow> set ys \<subseteq> set xs \<Longrightarrow> new_keys {} (xs @ ys) = xs"
  by (simp add: new_keys_append new_keys_known new_keys_fresh)

text \<open>What the card saves as its history is what it reads back, with the same order and no address twice, and the
  three addresses that the program knows are always among them.\<close>

theorem history_roundtrip:
  assumes "history_ok s"
  shows "read_history (history_body (urlHistory (addToHistory u s))) old = urlHistory (addToHistory u s) \<and>
     distinct (urlHistory (addToHistory u s)) \<and> set (map JStr probe_urls) \<subseteq> set (urlHistory (addToHistory u s))"
proof -
  let ?h = "urlHistory (addToHistory u s)"
  have ok: "distinct ?h" "list_all json_value ?h" "set (map JStr probe_urls) \<subseteq> set ?h"
    using history_ok_add [OF assms, of u] by (simp_all add: history_ok_def)
  have parse: "json_parse (json_text [] (JArr ?h)) = Some (JArr ?h)" using ok by (intro json_roundtrip) simp_all
  then have "json_text [] (JArr ?h) \<noteq> []" by (cases "json_text [] (JArr ?h)") (auto simp: json_parse_def lex.simps)
  then have "read_history (history_body ?h) old = merge_history ?h"
    by (simp add: read_history_def history_body_def opt_prop_def parse Let_def)
  also have "\<dots> = ?h" using ok by (simp add: merge_history_def new_keys_absorb)
  finally show ?thesis using ok by simp
qed

theorem history_roundtrip_witness:
  "read_history (history_body (urlHistory (addToHistory (JStr '' http://a '') sample_card))) [] =
     map JStr (probe_urls @ [''http://a''])"
proof -
  have h: "urlHistory sample_card = map JStr probe_urls"
    by (simp add: sample_card_def tester_loaded_def settled_def no_change_def tester_effect_def init_card_def)
  have "history_ok sample_card" by (simp add: history_ok_def h) (simp add: probe_urls_def)
  from history_roundtrip [OF this, of "JStr '' http://a ''" "[]"] show ?thesis
    by (simp add: addToHistory_def h trim_def is_space_def post_settings_def Let_def) (simp add: probe_urls_def)
qed

section \<open>IPv4 addresses\<close>

lemma digit_classes:
  "c \<in> set ''01'' \<longleftrightarrow> is_digit c \<and> digit_val c \<le> 1"
  "c \<in> set ''2'' \<longleftrightarrow> is_digit c \<and> digit_val c = 2"
  "c \<in> set ''01234'' \<longleftrightarrow> is_digit c \<and> digit_val c \<le> 4"
  "c \<in> set ''012345'' \<longleftrightarrow> is_digit c \<and> digit_val c \<le> 5"
  "c = CHR ''2'' \<longleftrightarrow> is_digit c \<and> digit_val c = 2"
  "c = CHR ''5'' \<longleftrightarrow> is_digit c \<and> digit_val c = 5"
  by (auto simp: is_digit_def digit_val_def)

lemma digit_le_9: "is_digit c \<Longrightarrow> digit_val c \<le> 9"
  by (auto simp: is_digit_def digit_val_def)

text \<open>A number of at most three digits and at most 255.\<close>

definition octet :: "string \<Rightarrow> bool" where
  "octet p \<longleftrightarrow> p \<noteq> [] \<and> length p \<le> 3 \<and> list_all is_digit p \<and> digits_val p \<le> 255"

abbreviation digit_upto :: "nat \<Rightarrow> char \<Rightarrow> bool" where
  "digit_upto n c \<equiv> is_digit c \<and> digit_val c \<le> n"

lemma octet_alternatives:
  "lang (Seqs [Lit ''25'', Class ''012345'']) p \<longleftrightarrow> (\<exists>a b c. p = [a, b, c] \<and> a = CHR ''2'' \<and> b = CHR ''5'' \<and> c \<in> set ''012345'')"
  "lang (Seqs [Class ''2'', Class ''01234'', Class digits]) p \<longleftrightarrow>
     (\<exists>a b c. p = [a, b, c] \<and> a \<in> set ''2'' \<and> b \<in> set ''01234'' \<and> c \<in> set digits)"
  "lang (Seqs [Class digits, Opt (Class digits)]) p \<longleftrightarrow>
     (\<exists>a. p = [a] \<and> a \<in> set digits) \<or> (\<exists>a b. p = [a, b] \<and> a \<in> set digits \<and> b \<in> set digits)"
  unfolding Seqs.simps lang_front lang_Opt lang.simps(2) by auto

lemma octet_third:
  "lang (Seqs [Opt (Class ''01''), Class digits, Opt (Class digits)]) p \<longleftrightarrow>
     lang (Seqs [Class digits, Opt (Class digits)]) p \<or>
     (\<exists>a q. p = a # q \<and> a \<in> set ''01'' \<and> lang (Seqs [Class digits, Opt (Class digits)]) q)"
  unfolding Seqs.simps(2) [of "Opt (Class ''01'')"] lang_Seq_Opt lang_Seq_Class by (rule refl)

lemma lang_Alts3: "lang (Alts [r, q, t]) s \<longleftrightarrow> lang r s \<or> lang q s \<or> lang t s"
  by simp

lemma octet_regex:
  "lang octetRegex p \<longleftrightarrow>
     (\<exists>a b c. p = [a, b, c] \<and> (is_digit a \<and> digit_val a = 2) \<and> (is_digit b \<and> digit_val b = 5) \<and> digit_upto 5 c) \<or>
     (\<exists>a b c. p = [a, b, c] \<and> (is_digit a \<and> digit_val a = 2) \<and> digit_upto 4 b \<and> is_digit c) \<or>
     ((\<exists>a. p = [a] \<and> is_digit a) \<or> (\<exists>a b. p = [a, b] \<and> is_digit a \<and> is_digit b)) \<or>
     (\<exists>a q. p = a # q \<and> digit_upto 1 a \<and>
        ((\<exists>b. q = [b] \<and> is_digit b) \<or> (\<exists>b c. q = [b, c] \<and> is_digit b \<and> is_digit c)))"
  unfolding octetRegex_def lang_Alts3 octet_third octet_alternatives digits_set digit_classes by (rule refl)

lemma three_digits:
  assumes "x \<le> 9" and "y \<le> 9" and "z \<le> (9 :: nat)"
  shows "(x = 2 \<and> y = 5 \<and> z \<le> 5 \<or> x = 2 \<and> y \<le> 4 \<or> x \<le> 1) \<longleftrightarrow> 10 * (10 * x + y) + z \<le> 255"
proof -
  consider "x \<le> 1" | "x = 2" "y \<le> 4" | "x = 2" "y = 5" | "x = 2" "5 < y" | "2 < x" by linarith
  then show ?thesis by cases (use assms in \<open>simp_all add: algebra_simps\<close>)
qed

lemma octet_short:
  "octet [a] \<longleftrightarrow> is_digit a"
  "octet [a, b] \<longleftrightarrow> is_digit a \<and> is_digit b"
  "octet [a, b, c] \<longleftrightarrow> is_digit a \<and> is_digit b \<and> is_digit c \<and>
     (digit_val a = 2 \<and> digit_val b = 5 \<and> digit_val c \<le> 5 \<or> digit_val a = 2 \<and> digit_val b \<le> 4 \<or> digit_val a \<le> 1)"
proof -
  show "octet [a] \<longleftrightarrow> is_digit a" "octet [a, b] \<longleftrightarrow> is_digit a \<and> is_digit b"
    using digit_le_9 [of a] digit_le_9 [of b] by (auto simp: octet_def digits_val_def)
  show "octet [a, b, c] \<longleftrightarrow> is_digit a \<and> is_digit b \<and> is_digit c \<and>
     (digit_val a = 2 \<and> digit_val b = 5 \<and> digit_val c \<le> 5 \<or> digit_val a = 2 \<and> digit_val b \<le> 4 \<or> digit_val a \<le> 1)"
    using three_digits [OF digit_le_9 digit_le_9 digit_le_9, of a b c] by (simp add: octet_def digits_val_def) blast
qed

lemma octet_lang: "lang octetRegex p \<longleftrightarrow> octet p"
proof -
  consider "p = []" | a where "p = [a]" | a b where "p = [a, b]" | a b c where "p = [a, b, c]"
    | "3 < length p"
    by (cases p; cases "tl p"; cases "tl (tl p)"; cases "tl (tl (tl p))") auto
  then show ?thesis
  proof cases
    case 5
    then show ?thesis unfolding octet_regex by (auto simp: octet_def)
  next
    case (4 a b c)
    then show ?thesis unfolding octet_regex by (simp add: octet_short) blast
  qed (auto simp: octet_regex octet_short octet_def [of "[]"])
qed

text \<open>The reference: the text split at its dots.\<close>

definition dotted_quad :: "string \<Rightarrow> bool" where
  "dotted_quad s \<longleftrightarrow> length (split_on CHR ''.'' s) = 4 \<and> list_all octet (split_on CHR ''.'' s)"

lemma octet_no_dot: "octet p \<Longrightarrow> CHR ''.'' \<notin> set p"
proof -
  have "\<not> is_digit CHR ''.''" by (simp add: is_digit_def)
  then show "octet p \<Longrightarrow> CHR ''.'' \<notin> set p" by (auto simp: octet_def list_all_iff)
qed

lemma ipv4_lang:
  "lang ipv4Regex s \<longleftrightarrow> (\<exists>a b c d. octet a \<and> octet b \<and> octet c \<and> octet d \<and>
     s = a @ CHR ''.'' # b @ CHR ''.'' # c @ CHR ''.'' # d)"
proof -
  have part: "lang (Seq octetRegex (Lit ''.'')) t \<longleftrightarrow> (\<exists>a. octet a \<and> t = a @ ''.'')" for t
    unfolding lang.simps octet_lang lang_Lit by blast
  have "lang ipv4Regex s \<longleftrightarrow> (\<exists>u d. s = u @ d \<and> octet d \<and>
      (\<exists>ss. length ss = 3 \<and> u = concat ss \<and> (\<forall>t\<in>set ss. \<exists>a. octet a \<and> t = a @ ''.'')))"
    unfolding ipv4Regex_def lang.simps(4) [of "Times 3 _"] lang_Times part octet_lang by blast
  also have "\<dots> \<longleftrightarrow> (\<exists>a b c d. octet a \<and> octet b \<and> octet c \<and> octet d \<and>
     s = a @ CHR ''.'' # b @ CHR ''.'' # c @ CHR ''.'' # d)" (is "?l \<longleftrightarrow> ?r")
  proof
    show "?l \<Longrightarrow> ?r" by (force simp: length_Suc_conv numeral_3_eq_3)
    assume ?r
    then obtain a b c d where o: "octet a" "octet b" "octet c" "octet d"
      and s: "s = concat [a @ ''.'', b @ ''.'', c @ ''.''] @ d" by auto
    then show ?l by (intro exI [of _ "concat [a @ ''.'', b @ ''.'', c @ ''.'']"] exI [of _ d] conjI exI [of _ "[a @ ''.'', b @ ''.'', c @ ''.'']"]) auto
  qed
  finally show ?thesis .
qed

text \<open>C20: The expression for IPv4 addresses matches exactly the texts that split at their dots into four numbers of one
  to three digits, none above 255.\<close>

theorem ipv4_is_dotted_quad: "test ipv4Regex s \<longleftrightarrow> dotted_quad s"
proof
  assume "test ipv4Regex s"
  then obtain a b c d where o: "octet a" "octet b" "octet c" "octet d"
    and s: "s = a @ CHR ''.'' # b @ CHR ''.'' # c @ CHR ''.'' # d"
    by (auto simp: test_lang ipv4_lang)
  then show "dotted_quad s"
    by (simp add: dotted_quad_def split_on_append split_on_no_sep octet_no_dot)
next
  assume "dotted_quad s"
  then obtain a b c d where "split_on CHR ''.'' s = [a, b, c, d]" "octet a" "octet b" "octet c" "octet d"
    by (auto simp: dotted_quad_def length_Suc_conv eval_nat_numeral)
  moreover from this have "s = join_with ''.'' [a, b, c, d]" by (metis join_split)
  ultimately show "test ipv4Regex s" unfolding test_lang ipv4_lang by auto
qed

section \<open>Selection and flags\<close>

lemma select_all_checked:
  "set (selectedProfileIds (select_all True p)) = set (selectedProfileIds p) \<union> set (row_ids p) \<and>
     distinct (selectedProfileIds (select_all True p)) \<and> (profile_list p \<noteq> [] \<longrightarrow> all_selected (select_all True p))"
  by (auto simp: select_all_def new_keys_set new_keys_distinct all_selected_def row_ids_def profile_list_def)

lemma select_all_unchecked:
  "set (selectedProfileIds (select_all False p)) = set (selectedProfileIds p) - set (row_ids p)"
  by (auto simp: select_all_def)

text \<open>The two letters of a country are two regional indicators.\<close>

lemma flag_letters:
  assumes "\<forall>c\<in>set (to_upper code). 65 \<le> (of_char c :: nat) \<and> (of_char c :: nat) \<le> 90"
  shows "\<forall>n\<in>set (getFlagEmoji code). 127462 \<le> n \<and> n \<le> 127487"
  using assms by (simp add: getFlagEmoji_def)

section \<open>What goes wrong\<close>

text \<open>Deleting the category on display asks for its rows once more, from the closure, and then for all rows; when the
  first answer comes last, the page shows the rows of a category that is gone.\<close>

lemma deleted_category_rows_return:
  assumes "load_deps (page s) = Some (logsQuery (page s), isDebugProxyActive (page s), cdnScannerActive (page s))"
    and "category_dep (page s) = Some (selectedCategoryId (page s))" and "selectedCategoryId (page s) = JNum i"
    and "pending (page s) = []"
    and p_def: "p = page (final (handleDeleteCategory (JNum i)) [Confirmed True, Replied (Response True b)] s)"
  shows "selectedCategoryId p = JNull"
    and "map (rq_url \<circ> fst) (pending p) = [api ''categories'', api ''subscriptions'',
      profiles_url 0 (filters (page s)) (JNum i), profiles_url 0 (filters (page s)) JNull]"
    and "profiles (answered_nth 2 (Response True (JsonOk (JObj [(''data'', JArr old)]))) (answered_nth 3 r p)) = JArr old"
proof -
  have p: "p = effects (reload_all s (leave_category s (JNum i) (page s)))"
    unfolding p_def by (simp add: run_defs handleDeleteCategory_def ask_confirm_def loudly_boxed_def boxed_reply_def
        page_fetch_def on_page_def)
  have e: "p = fetchProfiles 0 True (filters (page s)) JNull ((reload_all s ((page s)\<lparr>selectedCategoryId := JNull\<rparr>))\<lparr>category_dep := Some JNull\<rparr>)"
    using assms(1-4) unfolding p
    by (simp add: leave_category_def effects_def category_effect_def load_effect_def reload_all_def reload_rows_def
        fetchProfiles_def fetchCategories_def fetchSubscriptions_def ask_def Let_def)
  show "selectedCategoryId p = JNull"
    by (simp add: e reload_all_def reload_rows_def fetchProfiles_def fetchCategories_def fetchSubscriptions_def ask_def)
  show "map (rq_url \<circ> fst) (pending p) = [api ''categories'', api ''subscriptions'',
      profiles_url 0 (filters (page s)) (JNum i), profiles_url 0 (filters (page s)) JNull]"
    using assms(3,4) by (simp add: e reload_all_def reload_rows_def fetchProfiles_def fetchCategories_def
        fetchSubscriptions_def ask_def authed_get_def http_get_def)
  have "pending p = [(authed_get (token (page s)) (api ''categories''), ForCategories),
      (authed_get (token (page s)) (api ''subscriptions''), ForSubscriptions),
      (authed_get (token (page s)) (profiles_url 0 (filters (page s)) (JNum i)), ForProfiles 0 True),
      (authed_get (token (page s)) (profiles_url 0 (filters (page s)) JNull), ForProfiles 0 True)]"
    using assms(3,4) by (simp add: e reload_all_def reload_rows_def fetchProfiles_def fetchCategories_def
        fetchSubscriptions_def ask_def)
  moreover have "pending (profiles_answer 0 True r q) = pending q" for q
    by (auto simp: profiles_answer_def settled_def object_or_def no_change_def take_rows_def Let_def
        split: reply.splits body.splits jsv.splits option.splits bool.splits)
  ultimately show "profiles (answered_nth 2 (Response True (JsonOk (JObj [(''data'', JArr old)]))) (answered_nth 3 r p)) = JArr old"
    by (simp add: answered_nth_def drop_nth_def)
      (simp add: profiles_answer_def settled_def object_or_def take_rows_def opt_prop_def Let_def split: option.splits)
qed

text \<open>A double click on a row starts a test while another runs, though the buttons for it are disabled.\<close>

lemma double_click_interrupts:
  assumes "wsRef (page s) = Some i" and "testingStatus (page s) = JStr ''running''" and "ready_of (sockets (page s)) i = OPEN"
  shows "ready_of (sockets (page (double_click p s))) i = CLOSING" and "quick_test p s = s"
proof -
  have "i < length (sockets (page s))" using assms(3) by (simp add: ready_of_def split: if_splits)
  then show "ready_of (sockets (page (double_click p s))) i = CLOSING"
    using assms by (simp add: double_click_def on_page_def testSingleProfileAdvanced_def startAdvancedTest_def close_test_def Let_def)
  show "quick_test p s = s" using assms by (simp add: quick_test_def)
qed

text \<open>Resetting the settings leaves the probe address as it is, and what is saved next contains it.\<close>

lemma reset_keeps_url:
  "testUrl (tester (handleResetTesterConfig s)) = testUrl (tester s)"
  by (simp add: handleResetTesterConfig_def set_tester_def tester_effect_def post_settings_def Let_def)

end
