(* ===== verification/Domain_Page.thy ===== *)
theory Domain_Page
  imports Domain_Store Proxy_Links JSON
begin

text \<open>
  The domain checker page (\<open>web/client/src/pages/domain-checker\<close>) over the model of its store: the list read
  in pages of 100, the socket that delivers results, the counters of the dashboard, imports, checks, deletions
  and exports. A request for domains that nobody awaits is an entry of a list, with the closure of the render
  that made it; its answer is an event.
\<close>

section \<open>State\<close>

record db_stats =
  d_total :: int
  d_online :: int
  d_offline :: int
  d_checking :: int
  d_ssl_valid :: int

record list_query =
  q_search :: string
  q_category :: string
  q_status :: string
  q_tls :: string
  q_http :: string
  q_sortBy :: string
  q_ascending :: bool

datatype import_method = FromText | FromFile

record domain_page =
  token :: string
  dom :: domain_state
  geo_updates :: "jsv list"
  query :: list_query
  query_dep :: "list_query option"
  showAdvancedFilters :: bool
  categories :: "jsv list"
  selectedIds :: "string list"
  page :: nat
  hasMore :: bool
  isFetching :: bool
  isAddModalOpen :: bool
  isNewCatModalOpen :: bool
  newCatName :: string
  addMethod :: import_method
  rawTextImport :: string
  importCategory :: string
  isCreatingNewCatInImport :: bool
  customImportCat :: string
  fileDomains :: "string list"
  fileParsedCount :: nat
  isImporting :: bool
  runnerThreads :: int
  runnerTimeout :: int
  isCheckingAll :: bool
  checkedAllCount :: nat
  totalAllToCheck :: int
  done_timer :: bool
  dbStats :: db_stats
  domain_requests :: "(request \<times> nat \<times> bool) list"
  category_requests :: nat
  downloads :: "(string \<times> string) list"

definition init_query :: list_query where
  "init_query = \<lparr>q_search = [], q_category = ''ALL'', q_status = [], q_tls = [], q_http = [], q_sortBy = ''created_at'',
     q_ascending = False\<rparr>"

definition init_domain_page :: "string \<Rightarrow> domain_state \<Rightarrow> domain_page" where
  "init_domain_page tok d = \<lparr>token = tok, dom = d, geo_updates = [], query = init_query, query_dep = None,
     showAdvancedFilters = False, categories = [JStr ''ALL''], selectedIds = [], page = 0, hasMore = True,
     isFetching = False, isAddModalOpen = False, isNewCatModalOpen = False, newCatName = [], addMethod = FromText,
     rawTextImport = [], importCategory = ''ALL'', isCreatingNewCatInImport = False, customImportCat = [],
     fileDomains = [], fileParsedCount = 0, isImporting = False, runnerThreads = 50, runnerTimeout = 3,
     isCheckingAll = False, checkedAllCount = 0, totalAllToCheck = 0, done_timer = False,
     dbStats = \<lparr>d_total = 0, d_online = 0, d_offline = 0, d_checking = 0, d_ssl_valid = 0\<rparr>,
     domain_requests = [], category_requests = 0, downloads = []\<rparr>"

type_synonym domain_action = "(domain_page, unit) page_action"

definition isChecking :: "domain_page \<Rightarrow> bool" where
  "isChecking s \<longleftrightarrow> 0 < d_checking (dbStats s)"

section \<open>Reading the list\<close>

definition LIMIT :: nat where
  "LIMIT = 100"

definition query_param :: "string \<Rightarrow> string \<Rightarrow> string" where
  "query_param k v = (if v = [] then [] else ''&'' @ k @ ''='' @ encodeURIComponent v)"

definition domains_url :: "nat \<Rightarrow> list_query \<Rightarrow> string" where
  "domains_url n q = ''/api/domains?limit='' @ show_nat LIMIT @ ''&offset='' @ show_nat (n * LIMIT) @ ''&sortBy='' @ q_sortBy q
     @ ''&sortOrder='' @ (if q_ascending q then ''asc'' else ''desc'')
     @ (if q_category q = ''ALL'' then [] else query_param ''category'' (q_category q))
     @ query_param ''search'' (q_search q) @ query_param ''status'' (q_status q) @ query_param ''tlsFilter'' (q_tls q)
     @ query_param ''httpStatus'' (q_http q)"

definition fetchCategories :: "domain_page \<Rightarrow> domain_page" where
  "fetchCategories s = s\<lparr>category_requests := Suc (category_requests s)\<rparr>"

text \<open>The guard reads the closure \<open>c\<close>, as the address does.\<close>

definition fetchDomains :: "domain_page \<Rightarrow> nat \<Rightarrow> bool \<Rightarrow> domain_page \<Rightarrow> domain_page" where
  "fetchDomains c n reset s = (if isFetching c \<or> (\<not> hasMore c \<and> \<not> reset) then s
     else s\<lparr>isFetching := True, domain_requests := domain_requests s @
       [(authed_get (token c) (domains_url n (query c)), n, reset)]\<rparr>)"

text \<open>The effect on the filters and the order.\<close>

definition query_effect :: "domain_page \<Rightarrow> domain_page" where
  "query_effect s = (if query_dep s = Some (query s) then s
     else let s1 = s\<lparr>query_dep := Some (query s)\<rparr> in fetchCategories (fetchDomains s1 0 True s1))"

definition set_query :: "list_query \<Rightarrow> domain_page \<Rightarrow> domain_page" where
  "set_query q s = query_effect (s\<lparr>query := q\<rparr>)"

definition toggleSort :: "string \<Rightarrow> domain_page \<Rightarrow> domain_page" where
  "toggleSort column s = (let q = query s in
     if q_sortBy q = column then set_query (q\<lparr>q_ascending := (\<not> q_ascending q)\<rparr>) s
     else set_query (q\<lparr>q_sortBy := column, q_ascending := False\<rparr>) s)"

text \<open>The server counts with integers.\<close>

definition count_of :: "jsv \<Rightarrow> string \<Rightarrow> int" where
  "count_of d k = (case opt_prop d k of JNum n \<Rightarrow> \<lfloor>n\<rfloor> | _ \<Rightarrow> 0)"

definition read_stats :: "jsv \<Rightarrow> db_stats" where
  "read_stats d = \<lparr>d_total = count_of d ''total'', d_online = count_of d ''online'', d_offline = count_of d ''offline'',
     d_checking = count_of d ''checking'', d_ssl_valid = count_of d ''ssl_valid''\<rparr>"

text \<open>The answer to a page: \<open>None\<close> when it failed, was refused or did not parse.\<close>

definition take_page :: "nat \<Rightarrow> bool \<Rightarrow> jsv \<Rightarrow> domain_page \<Rightarrow> domain_page" where
  "take_page n reset data s =
     (let incoming = (case opt_prop data ''domains'' of JArr ds \<Rightarrow> map own_props ds | _ \<Rightarrow> []);
          s1 = s\<lparr>dom := (if reset then setDomains incoming (dom s) else appendDomains incoming (dom s)),
            hasMore := (length incoming = LIMIT), page := n\<rparr>
      in if truthy (opt_prop data ''stats'') then s1\<lparr>dbStats := read_stats (opt_prop data ''stats'')\<rparr> else s1)"

definition page_arrived :: "nat \<Rightarrow> jsv option \<Rightarrow> domain_page \<Rightarrow> domain_page" where
  "page_arrived i r s = (if i < length (domain_requests s) then
     (let (rq, n, reset) = domain_requests s ! i; s1 = s\<lparr>domain_requests := drop_nth i (domain_requests s)\<rparr>
      in (case r of None \<Rightarrow> s1 | Some d \<Rightarrow> if nullish d then s1 else take_page n reset d s1)\<lparr>isFetching := False\<rparr>)
     else s)"

definition categories_arrived :: "jsv option \<Rightarrow> domain_page \<Rightarrow> domain_page" where
  "categories_arrived r s = (let s1 = s\<lparr>category_requests := category_requests s - 1\<rparr> in
     case r of None \<Rightarrow> s1
     | Some d \<Rightarrow> if nullish d then s1
         else (case js_or (opt_prop d ''categories'') (JArr [JStr ''ALL'']) of JArr cs \<Rightarrow> s1\<lparr>categories := cs\<rparr> | _ \<Rightarrow> s1))"

text \<open>The effect of the virtual list, whose last rendered row is given.\<close>

definition scrolled :: "nat \<Rightarrow> domain_page \<Rightarrow> domain_page" where
  "scrolled last_index s = (if length (domainIds (dom s)) \<le> Suc last_index \<and> last_index < length (domainIds (dom s)) \<and>
       hasMore s \<and> \<not> isFetching s
     then fetchDomains s (page s + 1) False s else s)"

section \<open>Results from the socket\<close>

definition failed_statuses :: "jsv list" where
  "failed_statuses = map JStr [''offline'', ''timeout'', ''nxdomain'']"

definition dec :: "int \<Rightarrow> int" where
  "dec n = max 0 (n - 1)"

definition inc :: "int \<Rightarrow> int" where
  "inc n = n + 1"

definition bump :: "(int \<Rightarrow> int) \<Rightarrow> jsv \<Rightarrow> db_stats \<Rightarrow> db_stats" where
  "bump f st n = (if st = JStr ''online'' then n\<lparr>d_online := f (d_online n)\<rparr>
     else if st \<in> set failed_statuses then n\<lparr>d_offline := f (d_offline n)\<rparr>
     else if st = JStr ''checking'' then n\<lparr>d_checking := f (d_checking n)\<rparr> else n)"

definition bump_ssl :: "(int \<Rightarrow> int) \<Rightarrow> jsv \<Rightarrow> db_stats \<Rightarrow> db_stats" where
  "bump_ssl f tls n = (if truthy tls then n\<lparr>d_ssl_valid := f (d_ssl_valid n)\<rparr> else n)"

definition count_result :: "obj option \<Rightarrow> jsv \<Rightarrow> db_stats \<Rightarrow> db_stats" where
  "count_result old d n =
     (let n1 = (case old of
          Some o' \<Rightarrow> bump_ssl dec (obj_get o' ''tls_status'') (bump dec (obj_get o' ''status'') n)
        | None \<Rightarrow> n\<lparr>d_checking := dec (d_checking n)\<rparr>)
      in bump_ssl inc (opt_prop d ''tls_status'') (bump inc (opt_prop d ''status'') n1))"

text \<open>The effect that ends a check of all: a timer runs while all are checked.\<close>

definition all_checked :: "domain_page \<Rightarrow> bool" where
  "all_checked s \<longleftrightarrow> isCheckingAll s \<and> 0 < totalAllToCheck s \<and> totalAllToCheck s \<le> int (checkedAllCount s)"

definition done_effect :: "domain_page \<Rightarrow> domain_page" where
  "done_effect s = s\<lparr>done_timer := all_checked s\<rparr>"

definition done_due :: "domain_page \<Rightarrow> domain_page" where
  "done_due s = (if done_timer s
     then done_effect (s\<lparr>isCheckingAll := False, checkedAllCount := 0, totalAllToCheck := 0\<rparr>) else s)"

definition take_result :: "jsv \<Rightarrow> domain_page \<Rightarrow> domain_page" where
  "take_result d s =
     (let old = domains (dom s) (js_string (opt_prop d ''id''));
          settled = opt_prop d ''status'' \<notin> {JStr ''checking'', JStr ''pending''}
      in done_effect (s\<lparr>dom := updateDomain (own_props d) (dom s),
           checkedAllCount := (if settled then Suc (checkedAllCount s) else checkedAllCount s),
           dbStats := count_result old d (dbStats s)\<rparr>))"

text \<open>\<open>None\<close> is a frame that is no JSON; \<open>null\<close> fails as well.\<close>

definition onmessage :: "jsv option \<Rightarrow> domain_page \<Rightarrow> domain_page" where
  "onmessage frame s = (case frame of None \<Rightarrow> s
     | Some msg \<Rightarrow> (let d = opt_prop msg ''data'' in
         if opt_prop msg ''type'' = JStr ''DOMAIN_CHECK_RESULT'' \<and> truthy d then take_result d s
         else if opt_prop msg ''type'' = JStr ''GEO_RESOLVED'' \<and> truthy d then s\<lparr>geo_updates := geo_updates s @ [d]\<rparr>
         else s))"

section \<open>Selection\<close>

definition toggleSelectAll :: "domain_page \<Rightarrow> domain_page" where
  "toggleSelectAll s = s\<lparr>selectedIds :=
     (if length (selectedIds s) = length (domainIds (dom s)) then [] else new_keys {} (domainIds (dom s)))\<rparr>"

definition toggleSelect :: "string \<Rightarrow> domain_page \<Rightarrow> domain_page" where
  "toggleSelect i s = s\<lparr>selectedIds := (if i \<in> set (selectedIds s) then filter (\<lambda>j. j \<noteq> i) (selectedIds s)
     else selectedIds s @ [i])\<rparr>"

section \<open>Importing\<close>

text \<open>The names of a CSV file: the column whose header names a domain, a host or an address, the first one else;
  quotes are dropped from the cells.\<close>

definition header_index :: "string list \<Rightarrow> nat" where
  "header_index hs = (let named = (\<lambda>h. includes_str h ''domain'' \<or> includes_str h ''host'' \<or> includes_str h ''url'');
       n = length (takeWhile (\<lambda>h. \<not> named h) hs) in if n < length hs then n else 0)"

definition csv_name :: "nat \<Rightarrow> string \<Rightarrow> string option" where
  "csv_name col line = (let cells = split_on CHR '','' line in
     if col < length cells then
       (let v = trim (filter (\<lambda>c. c \<noteq> CHR 0x22 \<and> c \<noteq> CHR 0x27) (cells ! col)) in if v = [] then None else Some v)
     else None)"

definition csv_names :: "string \<Rightarrow> string list" where
  "csv_names text = (let ls = split_lines text;
       col = header_index (map (\<lambda>h. to_lower (trim h)) (split_on CHR '','' (hd ls)))
     in List.map_filter (csv_name col) (tl ls))"

definition txt_names :: "string \<Rightarrow> string list" where
  "txt_names text = filter (\<lambda>l. l \<noteq> []) (map trim (split_lines text))"

definition name_ends_with :: "string \<Rightarrow> string \<Rightarrow> bool" where
  "name_ends_with s suffix \<longleftrightarrow> length suffix \<le> length s \<and> drop (length s - length suffix) s = suffix"

definition file_read :: "string \<Rightarrow> string \<Rightarrow> domain_page \<Rightarrow> domain_page" where
  "file_read file text s = (if text = [] then s
     else let names = (if name_ends_with file ''.csv'' then csv_names text else txt_names text)
       in s\<lparr>fileParsedCount := length names, fileDomains := names\<rparr>)"

definition pasted_names :: "string \<Rightarrow> string list" where
  "pasted_names text = filter (\<lambda>l. l \<noteq> []) (map trim (split_on newline text))"

definition import_list :: "domain_page \<Rightarrow> string list" where
  "import_list s = (case addMethod s of FromText \<Rightarrow> pasted_names (rawTextImport s) | FromFile \<Rightarrow> fileDomains s)"

definition import_target :: "domain_page \<Rightarrow> string" where
  "import_target s = (if isCreatingNewCatInImport s then trim (customImportCat s) else importCategory s)"

definition imported :: "domain_page \<Rightarrow> domain_page" where
  "imported s = s\<lparr>rawTextImport := [], fileDomains := [], fileParsedCount := 0, isAddModalOpen := False,
     isCreatingNewCatInImport := False, customImportCat := []\<rparr>"

definition handleImportSubmit :: domain_action where
  "handleImportSubmit = Get (\<lambda>c. if import_list c = [] \<or> import_target c = [] then Done ()
     else Set (\<lambda>s. s\<lparr>isImporting := True\<rparr>) (finally_do (quietly
       (bind (page_fetch (post_json (token c) ''/api/domains'' (JObj [(''domains'', JArr (map JStr (import_list c))),
           (''category'', JStr (import_target c))]))) (\<lambda>(ok, b).
          if ok then set_state (\<lambda>s. fetchDomains c 0 True (fetchCategories (imported s))) else Done ())))
       (\<lambda>s. s\<lparr>isImporting := False\<rparr>)))"

section \<open>Checking\<close>

definition handleCheckSingle :: "string \<Rightarrow> domain_action" where
  "handleCheckSingle i = Get (\<lambda>c. case domains (dom c) i of None \<Rightarrow> Done ()
     | Some d \<Rightarrow> Set (\<lambda>s. s\<lparr>dom := updateDomain (AList.update ''status'' (JStr ''checking'') d) (dom s)\<rparr>)
         (void (page_fetch (http_send ''POST'' (''/api/domains/check/'' @ i) [auth_header (token c)] None))))"

definition run_options :: "domain_page \<Rightarrow> (string \<times> jsv) list" where
  "run_options c = [(''threads'', JNum (of_int (runnerThreads c))), (''timeout'', JNum (of_int (runnerTimeout c)))]"

definition begin_check :: "int \<Rightarrow> domain_page \<Rightarrow> domain_page" where
  "begin_check n s = s\<lparr>checkedAllCount := 0, totalAllToCheck := n, isCheckingAll := True\<rparr>"

definition mark_checking :: "string list \<Rightarrow> domain_page \<Rightarrow> domain_page" where
  "mark_checking ids s = s\<lparr>dom := updateDomainsBulk (map (\<lambda>i. (i, [(''status'', JStr ''checking'')])) ids) (dom s)\<rparr>"

definition handleCheckSelected :: domain_action where
  "handleCheckSelected = Get (\<lambda>c. let ids = selectedIds c in if ids = [] then Done ()
     else Set (\<lambda>s. done_effect (mark_checking ids (begin_check (int (length ids)) s)))
       (bind (page_fetch (post_json (token c) ''/api/domains/check/bulk''
           (JObj ((''ids'', JArr (map JStr ids)) # run_options c))))
         (\<lambda>_. set_state (\<lambda>s. s\<lparr>selectedIds := []\<rparr>))))"

definition all_checking :: "db_stats \<Rightarrow> db_stats" where
  "all_checking n = \<lparr>d_total = d_total n, d_online = 0, d_offline = 0, d_checking = d_total n, d_ssl_valid = 0\<rparr>"

definition handleCheckCategory :: domain_action where
  "handleCheckCategory = Get (\<lambda>c.
     Set (\<lambda>s. done_effect (begin_check 0 (s\<lparr>dbStats := all_checking (dbStats s)\<rparr>)))
       (bind (page_fetch (post_json (token c) ''/api/domains/check/bulk''
           (JObj ([(''ids'', JArr []), (''category'', JStr (q_category (query c)))] @ run_options c)))) (\<lambda>(ok, b).
         if ok then bind (read_json b) (\<lambda>d. if truthy (opt_prop d ''count'')
           then set_state (\<lambda>s. done_effect (s\<lparr>totalAllToCheck := count_of d ''count''\<rparr>)) else Done ())
         else Done ())))"

section \<open>Deleting\<close>

definition handleDeleteSingle :: "string \<Rightarrow> domain_action" where
  "handleDeleteSingle i = Get (\<lambda>c. bind (ask_confirm ''Are you sure you want to delete this domain?'') (\<lambda>yes.
     if \<not> yes then Done ()
     else bind (page_fetch (http_send ''DELETE'' (''/api/domains/'' @ i) [auth_header (token c)] None)) (\<lambda>(ok, b).
       if ok then set_state (\<lambda>s. s\<lparr>dom := removeDomain i (dom s)\<rparr>) else Done ())))"

definition handleDeleteSelected :: domain_action where
  "handleDeleteSelected = Get (\<lambda>c. let ids = selectedIds c in if ids = [] then Done ()
     else bind (ask_confirm (''Are you sure you want to delete '' @ show_nat (length ids) @ '' selected domains?'')) (\<lambda>yes.
       if \<not> yes then Done ()
       else bind (page_fetch (post_json (token c) ''/api/domains/delete'' (JObj [(''ids'', JArr (map JStr ids))]))) (\<lambda>(ok, b).
         if ok then set_state (\<lambda>s. s\<lparr>dom := removeDomainsBulk ids (dom s), selectedIds := []\<rparr>) else Done ())))"

definition handleDeleteCategory :: domain_action where
  "handleDeleteCategory = Get (\<lambda>c. bind (ask_confirm (''Are you sure you want to delete all domains in category ''
       @ [CHR 0x22] @ q_category (query c) @ [CHR 0x22] @ ''?'')) (\<lambda>yes.
     if \<not> yes then Done ()
     else bind (page_fetch (post_json (token c) ''/api/domains/delete''
         (JObj [(''category'', JStr (q_category (query c))), (''all'', JBool True)]))) (\<lambda>(ok, b).
       if ok then set_state (\<lambda>s. (fetchDomains c 0 True (fetchCategories s))\<lparr>selectedIds := []\<rparr>) else Done ())))"

text \<open>A new category exists on the page alone, until a domain is imported into it.\<close>

definition handleCreateCategory :: "domain_page \<Rightarrow> domain_page" where
  "handleCreateCategory s = (let name = trim (newCatName s) in if name = [] then s
     else query_effect (s\<lparr>categories := (if JStr name \<in> set (categories s) then categories s else categories s @ [JStr name]),
       query := (query s)\<lparr>q_category := name\<rparr>, newCatName := [], isNewCatModalOpen := False\<rparr>))"

definition set_threads :: "string \<Rightarrow> domain_page \<Rightarrow> domain_page" where
  "set_threads v s = s\<lparr>runnerThreads := max 1 (case parse_int v of None \<Rightarrow> 50 | Some n \<Rightarrow> if n = 0 then 50 else n)\<rparr>"

definition set_timeout :: "string \<Rightarrow> domain_page \<Rightarrow> domain_page" where
  "set_timeout v s = s\<lparr>runnerTimeout := (case parse_int v of None \<Rightarrow> 3 | Some n \<Rightarrow> if n = 0 then 3 else n)\<rparr>"

section \<open>Exporting\<close>

definition listed :: "domain_page \<Rightarrow> obj list" where
  "listed s = List.map_filter (domains (dom s)) (domainIds (dom s))"

definition csv_header :: "string list" where
  "csv_header = [''Domain Name'', ''Status'', ''Category'', ''IP Addresses'', ''HTTP Status'', ''Latency (ms)'', ''TLS Valid'',
     ''TLS Expiry (Days)'']"

text \<open>An array literal of a template joins as \<open>String\<close> does, so a value is its text.\<close>

definition csv_cells :: "obj \<Rightarrow> string list" where
  "csv_cells d = map (js_string \<circ> obj_get d) [''domain_name'', ''status'', ''category'']
     @ map (\<lambda>k. js_string (js_or (obj_get d k) (JStr []))) [''ip_addresses'', ''http_status'', ''latency_ms'']
     @ [if truthy (obj_get d ''tls_status'') then ''YES'' else ''NO'',
        js_string (js_or (obj_get d ''tls_expiry_days'') (JStr []))]"

definition quoted :: "string \<Rightarrow> string" where
  "quoted v = [CHR 0x22] @ v @ [CHR 0x22]"

definition csv_file :: "obj list \<Rightarrow> string" where
  "csv_file ds = join_with [newline] (join_with '','' csv_header # map (\<lambda>d. join_with '','' (map quoted (csv_cells d))) ds)"

text \<open>\<open>encodeURI\<close>, which keeps the reserved characters, the number sign among them.\<close>

definition encodeURI :: "string \<Rightarrow> string" where
  "encodeURI s = concat (map (\<lambda>c. if c \<in> set '';/?:@&=+$,#'' then [c] else encode_char c) s)"

definition exportToCSV :: "domain_page \<Rightarrow> domain_page" where
  "exportToCSV s = s\<lparr>downloads := downloads s @ [(''domains_'' @ to_lower (q_category (query s)) @ ''.csv'',
     encodeURI (''data:text/csv;charset=utf-8,'' @ csv_file (listed s)))]\<rparr>"

definition txt_file :: "obj list \<Rightarrow> string" where
  "txt_file ds = join_with [newline] (map (\<lambda>d. let v = obj_get d ''domain_name'' in if nullish v then [] else js_string v) ds)"

definition exportToTXT :: "domain_page \<Rightarrow> domain_page" where
  "exportToTXT s = s\<lparr>downloads := downloads s @ [(''domains_'' @ to_lower (q_category (query s)) @ ''.txt'', txt_file (listed s))]\<rparr>"

section \<open>A row\<close>

text \<open>What a row shows of the latency, the certificate and the status code.\<close>

definition row_latency :: "obj \<Rightarrow> string \<times> string" where
  "row_latency d = (let v = obj_get d ''latency_ms'' in if js_less (JNum 0) v
     then (js_string v @ ''ms'', if js_less v (JNum 150) then ''var(--color-brand-green)'' else ''#f59e0b'')
     else (''-'', ''var(--color-brand-muted)''))"

definition row_tls :: "obj \<Rightarrow> string option" where
  "row_tls d = (if obj_get d ''status'' \<in> {JStr ''pending'', JStr ''checking''} then None
     else Some (if truthy (obj_get d ''tls_status'') then
       (if js_less (JNum 0) (obj_get d ''tls_expiry_days'') then js_string (obj_get d ''tls_expiry_days'') @ ''d'' else ''Valid'')
       else ''Invalid''))"

definition row_http :: "obj \<Rightarrow> string" where
  "row_http d = js_string (js_or (obj_get d ''http_status'') (JStr ''-''))"

end
