(* ===== verification/Domain_Behaviour.thy ===== *)
theory Domain_Behaviour
  imports Domain_Page
begin

text \<open>
  Behaviour of the domain checker page: its counters move with the store while complete results for loaded domains
  arrive, the names of an exported file are read back by the import, and what goes wrong.
\<close>

section \<open>The counters\<close>

definition has_status :: "jsv list \<Rightarrow> obj \<Rightarrow> bool" where
  "has_status sts d \<longleftrightarrow> obj_get d ''status'' \<in> set sts"

definition has_tls :: "obj \<Rightarrow> bool" where
  "has_tls d \<longleftrightarrow> truthy (obj_get d ''tls_status'')"

definition tally :: "(obj \<Rightarrow> bool) \<Rightarrow> domain_state \<Rightarrow> int" where
  "tally P s = int (length (filter (\<lambda>i. \<exists>d. domains s i = Some d \<and> P d) (domainIds s)))"

text \<open>The counters are the server's, over its whole database, of which the store holds the pages read so far: each
  counter is at least the number of the loaded domains that it counts.\<close>

definition counters_cover :: "domain_page \<Rightarrow> bool" where
  "counters_cover s \<longleftrightarrow> tally (has_status [JStr ''online'']) (dom s) \<le> d_online (dbStats s) \<and>
     tally (has_status failed_statuses) (dom s) \<le> d_offline (dbStats s) \<and>
     tally (has_status [JStr ''checking'']) (dom s) \<le> d_checking (dbStats s) \<and>
     tally has_tls (dom s) \<le> d_ssl_valid (dbStats s)"

text \<open>A result with a status and a certificate flag, for a domain of the store.\<close>

definition complete_result :: "domain_state \<Rightarrow> obj \<Rightarrow> bool" where
  "complete_result s r \<longleftrightarrow> domains s (domain_id r) \<noteq> None \<and> distinct (map fst r) \<and>
     ''status'' \<in> fst ` set r \<and> ''tls_status'' \<in> fst ` set r"

lemma filter_replace:
  "distinct xs \<Longrightarrow> x \<in> set xs \<Longrightarrow> (\<And>y. y \<noteq> x \<Longrightarrow> P y = Q y) \<Longrightarrow>
     int (length (filter P xs)) = int (length (filter Q xs)) + of_bool (P x) - of_bool (Q x)"
proof (induction xs)
  case (Cons y ys)
  show ?case
  proof (cases "x = y")
    case True
    then have "P z = Q z" if "z \<in> set ys" for z using Cons.prems(1) Cons.prems(3) [of z] that by auto
    then have "filter P ys = filter Q ys" by (intro filter_cong) auto
    then show ?thesis using True by simp
  next
    case False
    then show ?thesis using Cons by auto
  qed
qed simp

lemma tally_update:
  assumes "consistent s" and "domains s (domain_id r) = Some old"
  shows "tally P (updateDomain r s) = tally P s + of_bool (P (merge_obj (Some old) r)) - of_bool (P old)"
proof -
  have "distinct (domainIds s)" "domain_id r \<in> set (domainIds s)" using assms by (auto simp: dom_keyed.consistent_def)
  from filter_replace [OF this, of "\<lambda>i. \<exists>d. domains (updateDomain r s) i = Some d \<and> P d" "\<lambda>i. \<exists>d. domains s i = Some d \<and> P d"]
  show ?thesis using assms(2) by (simp add: tally_def updateDomain_def)
qed

lemma tally_nonneg: "consistent s \<Longrightarrow> domains s i = Some d \<Longrightarrow> P d \<Longrightarrow> 1 \<le> tally P s"
proof -
  assume "consistent s" "domains s i = Some d" "P d"
  then have "i \<in> set (filter (\<lambda>i. \<exists>d. domains s i = Some d \<and> P d) (domainIds s))" by (auto simp: dom_keyed.consistent_def)
  then have "0 < length (filter (\<lambda>i. \<exists>d. domains s i = Some d \<and> P d) (domainIds s))" by (rule length_pos_if_in_set)
  then show ?thesis unfolding tally_def by linarith
qed

lemma merged_field:
  assumes "distinct (map fst r)" and "k \<in> fst ` set r"
  shows "obj_get (merge_obj (Some old) r) k = obj_get r k"
proof -
  obtain v where "map_of r k = Some v" using assms(2) by (metis map_of_eq_None_iff not_None_eq)
  then show ?thesis using obj_get_merge [OF assms(1), of "Some old" k] by (simp add: obj_get_def [of r])
qed

lemma merged_fields:
  "complete_result s r \<Longrightarrow> obj_get (merge_obj (Some old) r) ''status'' = obj_get r ''status''"
  "complete_result s r \<Longrightarrow> obj_get (merge_obj (Some old) r) ''tls_status'' = obj_get r ''tls_status''"
  by (simp_all add: complete_result_def merged_field)

lemma bump_fields:
  "d_online (bump f st n) = (if st = JStr ''online'' then f (d_online n) else d_online n)"
  "d_offline (bump f st n) = (if st \<in> set failed_statuses then f (d_offline n) else d_offline n)"
  "d_checking (bump f st n) = (if st = JStr ''checking'' then f (d_checking n) else d_checking n)"
  "d_ssl_valid (bump f st n) = d_ssl_valid n"
  by (auto simp: bump_def failed_statuses_def)

lemma bump_ssl_fields:
  "d_online (bump_ssl f tls n) = d_online n"
  "d_offline (bump_ssl f tls n) = d_offline n"
  "d_checking (bump_ssl f tls n) = d_checking n"
  "d_ssl_valid (bump_ssl f tls n) = (if truthy tls then f (d_ssl_valid n) else d_ssl_valid n)"
  by (auto simp: bump_ssl_def)

text \<open>One counter of one property, over a result that replaces \<open>old\<close>.\<close>

definition recount :: "bool \<Rightarrow> bool \<Rightarrow> int \<Rightarrow> int" where
  "recount was is n = (let m = (if was then dec n else n) in if is then inc m else m)"

lemma count_result_fields:
  assumes "complete_result s r" and "new = merge_obj (Some old) r"
  shows "d_online (count_result (Some old) (JObj r) n) =
      recount (has_status [JStr ''online''] old) (has_status [JStr ''online''] new) (d_online n)"
    and "d_offline (count_result (Some old) (JObj r) n) =
      recount (has_status failed_statuses old) (has_status failed_statuses new) (d_offline n)"
    and "d_checking (count_result (Some old) (JObj r) n) =
      recount (has_status [JStr ''checking''] old) (has_status [JStr ''checking''] new) (d_checking n)"
    and "d_ssl_valid (count_result (Some old) (JObj r) n) = recount (has_tls old) (has_tls new) (d_ssl_valid n)"
  using merged_fields [OF assms(1), of old]
  by (simp_all add: assms(2) count_result_def Let_def bump_fields bump_ssl_fields recount_def has_status_def has_tls_def opt_prop_def)

lemma recount_tally:
  assumes "consistent s" and "domains s (domain_id r) = Some old" and "tally P s \<le> n"
  shows "recount (P old) (P (merge_obj (Some old) r)) n - n = tally P (updateDomain r s) - tally P s"
  using tally_nonneg [OF assms(1,2), of P] tally_update [OF assms(1,2), of P] assms(3)
  by (auto simp: recount_def dec_def inc_def)

text \<open>What the counters count beyond the store.\<close>

definition beyond :: "domain_page \<Rightarrow> int list" where
  "beyond s = [d_online (dbStats s) - tally (has_status [JStr ''online'']) (dom s),
     d_offline (dbStats s) - tally (has_status failed_statuses) (dom s),
     d_checking (dbStats s) - tally (has_status [JStr ''checking'']) (dom s),
     d_ssl_valid (dbStats s) - tally has_tls (dom s)]"

lemma counters_cover_beyond: "counters_cover s \<longleftrightarrow> (\<forall>n\<in>set (beyond s). 0 \<le> n)"
  by (simp add: counters_cover_def beyond_def)

lemma result_counted:
  assumes "consistent (dom s)" and "counters_cover s" and "complete_result (dom s) r"
  shows "beyond (take_result (JObj r) s) = beyond s"
proof -
  obtain old where old: "domains (dom s) (domain_id r) = Some old" using assms(3) by (auto simp: complete_result_def)
  have id: "js_string (opt_prop (JObj r) ''id'') = domain_id r" by (simp add: opt_prop_def domain_id_def)
  have stats: "dbStats (take_result (JObj r) s) = count_result (Some old) (JObj r) (dbStats s)"
    and store: "dom (take_result (JObj r) s) = updateDomain r (dom s)"
    by (simp_all add: take_result_def done_effect_def id old Let_def)
  have counted: "recount (P old) (P (merge_obj (Some old) r)) n - tally P (updateDomain r (dom s)) = n - tally P (dom s)"
    if "tally P (dom s) \<le> n" for P n using recount_tally [OF assms(1) old that] by linarith
  show ?thesis using assms(2)
    by (simp add: counters_cover_def beyond_def stats store count_result_fields [OF assms(3) refl] counted)
qed

lemma results_counted:
  assumes "consistent (dom s)" and "counters_cover s" and "\<forall>r\<in>set rs. complete_result (dom s) r"
  shows "beyond (fold (\<lambda>r. take_result (JObj r)) rs s) = beyond s \<and>
    dom (fold (\<lambda>r. take_result (JObj r)) rs s) = fold updateDomain rs (dom s)"
  using assms
proof (induction rs arbitrary: s)
  case (Cons r rs)
  let ?s = "take_result (JObj r) s"
  obtain old where old: "domains (dom s) (domain_id r) = Some old" using Cons.prems(3) by (auto simp: complete_result_def)
  have store: "dom ?s = updateDomain r (dom s)" by (simp add: take_result_def done_effect_def Let_def)
  have "consistent (dom ?s)" using Cons.prems(1) old consistent_update [of "dom s" r] by (auto simp: store dom_keyed.consistent_def)
  moreover have b: "beyond ?s = beyond s" using Cons.prems by (intro result_counted) auto
  moreover have "counters_cover ?s" using Cons.prems(2) b by (simp add: counters_cover_beyond)
  moreover have "\<forall>q\<in>set rs. complete_result (dom ?s) q"
    using Cons.prems(3) by (auto simp: store complete_result_def updateDomain_def)
  ultimately show ?case using Cons.IH [of ?s] by (simp add: store)
qed simp

text \<open>C21: The counters of the dashboard move with the store. When complete results (with a status and a certificate
  flag) for loaded domains arrive on the socket, in any order and number, the store becomes the merge of the results
  in their order, and each of the four counters (online, failed, checking, valid certificate) changes by exactly as
  much as the number of loaded domains that it counts. The counters are over the whole database, so this does not say
  that they are those numbers: it needs only that each is at least the number of loaded domains it counts before the
  results arrive. It is about results, not about the page's own marking of a domain as being checked, which leaves
  the counters behind (\<open>single_check_counted_twice\<close>).\<close>

theorem counters_follow_store:
  assumes "consistent (dom s)" and "counters_cover s" and "\<forall>r\<in>set rs. complete_result (dom s) r"
  shows "let s' = fold (\<lambda>r. take_result (JObj r)) rs s;
      change = (\<lambda>P. tally P (dom s') - tally P (dom s)) in
    dom s' = fold updateDomain rs (dom s) \<and>
    d_online (dbStats s') = d_online (dbStats s) + change (has_status [JStr ''online'']) \<and>
    d_offline (dbStats s') = d_offline (dbStats s) +
      change (has_status [JStr ''offline'', JStr ''timeout'', JStr ''nxdomain'']) \<and>
    d_checking (dbStats s') = d_checking (dbStats s) + change (has_status [JStr ''checking'']) \<and>
    d_ssl_valid (dbStats s') = d_ssl_valid (dbStats s) + change has_tls"
  using results_counted [OF assms] by (auto simp: beyond_def failed_statuses_def Let_def algebra_simps)

lemma counters_follow_store_witness:
  "let d = [(''id'', JStr ''7''), (''status'', JStr ''checking''), (''tls_status'', JBool False)];
       r = [(''id'', JStr ''7''), (''status'', JStr ''online''), (''tls_status'', JBool True)];
       s = (init_domain_page [] (setDomains [d] init_domains))\<lparr>dbStats :=
         \<lparr>d_total = 90, d_online = 40, d_offline = 9, d_checking = 3, d_ssl_valid = 30\<rparr>\<rparr>;
       n = dbStats (fold (\<lambda>r. take_result (JObj r)) [r] s)
   in d_online n = 41 \<and> d_offline n = 9 \<and> d_checking n = 2 \<and> d_ssl_valid n = 31"
proof -
  let ?d = "[(''id'', JStr ''7''), (''status'', JStr ''checking''), (''tls_status'', JBool False)]"
  let ?r = "[(''id'', JStr ''7''), (''status'', JStr ''online''), (''tls_status'', JBool True)]"
  let ?s = "(init_domain_page [] (setDomains [?d] init_domains))\<lparr>dbStats :=
         \<lparr>d_total = 90, d_online = 40, d_offline = 9, d_checking = 3, d_ssl_valid = 30\<rparr>\<rparr>"
  have d: "dom (init_domain_page tok x) = x" for tok x by (simp add: init_domain_page_def)
  have "consistent (dom ?s)" "counters_cover ?s" "\<forall>r\<in>set [?r]. complete_result (dom ?s) r"
    by (simp_all add: d dom_keyed.consistent_def setDomains_def init_domains_def complete_result_def
      domain_id_def obj_get_def counters_cover_def tally_def has_status_def has_tls_def failed_statuses_def)
  from counters_follow_store [OF this] show ?thesis
    by (simp add: d tally_def has_status_def has_tls_def failed_statuses_def setDomains_def init_domains_def updateDomain_def
        domain_id_def obj_get_def merge_obj_def put_all_def Let_def del: fold_simps)
qed

section \<open>What is exported can be imported\<close>

definition domain_text :: "obj \<Rightarrow> string" where
  "domain_text d = js_string (obj_get d ''domain_name'')"

text \<open>A trimmed name without the marks of the formats, in a row whose cells have neither line ends nor number signs.\<close>

definition exportable :: "obj \<Rightarrow> bool" where
  "exportable d \<longleftrightarrow> (let n = domain_text d in n \<noteq> [] \<and> trim n = n \<and> set n \<inter> set [newline, CHR '','', CHR 0x22, CHR 0x27] = {} \<and>
     \<not> nullish (obj_get d ''domain_name'') \<and> (\<forall>v\<in>set (csv_cells d). newline \<notin> set v \<and> CHR ''#'' \<notin> set v))"

abbreviation "csv_row d \<equiv> join_with '','' (map quoted (csv_cells d))"

lemma csv_row_line:
  assumes "exportable d"
  shows "newline \<notin> set (csv_row d)" and "csv_row d \<noteq> []" and "last (csv_row d) = CHR 0x22"
    and "hd (split_on CHR '','' (csv_row d)) = quoted (domain_text d)"
proof -
  have "\<forall>v\<in>set (map quoted (csv_cells d)). newline \<notin> set v"
    using assms by (auto simp: exportable_def quoted_def newline_def Let_def)
  moreover have "newline \<noteq> CHR '',''" by (simp add: newline_def)
  ultimately show "newline \<notin> set (csv_row d)" using set_join_with [of "'',''" "map quoted (csv_cells d)"] by auto
  show "csv_row d \<noteq> []" by (simp add: csv_cells_def quoted_def)
  show "last (csv_row d) = CHR 0x22" by (simp add: csv_cells_def quoted_def)
  have "CHR '','' \<notin> set (quoted (domain_text d))" using assms by (auto simp: exportable_def quoted_def Let_def)
  then show "hd (split_on CHR '','' (csv_row d)) = quoted (domain_text d)"
    by (simp add: csv_cells_def domain_text_def split_on_head)
qed

lemma csv_name_row: "exportable d \<Longrightarrow> csv_name 0 (csv_row d) = Some (domain_text d)"
proof -
  assume e: "exportable d"
  let ?n = "domain_text d"
  have "filter (\<lambda>c. c \<noteq> CHR 0x22 \<and> c \<noteq> CHR 0x27) (quoted ?n) = ?n"
    using e by (auto simp: exportable_def quoted_def Let_def intro!: filter_True)
  moreover have "split_on CHR '','' (csv_row d) ! 0 = quoted ?n" using csv_row_line(4) [OF e] by (simp add: hd_conv_nth)
  moreover have "trim ?n = ?n" "?n \<noteq> []" using e by (auto simp: exportable_def Let_def)
  ultimately show ?thesis unfolding csv_name_def Let_def by simp
qed

lemma csv_header_line:
  "header_index (map (\<lambda>h. to_lower (trim h)) (split_on CHR '','' (join_with '','' csv_header))) = 0"
  "newline \<notin> set (join_with '','' csv_header)" "last (join_with '','' csv_header) \<noteq> CHR 0x0D"
  by (code_simp, simp_all add: csv_header_def newline_def)

lemma csv_read_back:
  assumes "\<forall>d\<in>set ds. exportable d"
  shows "csv_names (csv_file ds) = map domain_text ds"
proof -
  let ?ls = "join_with '','' csv_header # map (\<lambda>d. csv_row d) ds"
  have "split_lines (csv_file ds) = ?ls"
    unfolding csv_file_def newline_def
  proof (rule split_lines_join)
    fix l
    assume "l \<in> set ?ls"
    then show "CHR 0x0A \<notin> set l" and "l = [] \<or> last l \<noteq> CHR 0x0D"
      using assms csv_row_line csv_header_line(2,3) unfolding newline_def by auto
  qed simp
  moreover have "List.map_filter (csv_name 0) (map (\<lambda>d. csv_row d) ds) = map domain_text ds"
    using assms by (induction ds) (auto simp: List.map_filter_simps csv_name_row)
  ultimately show ?thesis by (simp add: csv_names_def Let_def csv_header_line(1))
qed

lemma txt_read_back:
  assumes "\<forall>d\<in>set ds. exportable d"
  shows "txt_names (txt_file ds) = map domain_text ds"
proof (cases "ds = []")
  case False
  have line: "newline \<notin> set n" "n = [] \<or> last n \<noteq> CHR 0x0D" "trim n = n" "n \<noteq> []" if "n \<in> domain_text ` set ds" for n
  proof -
    have n: "trim n = n" "n \<noteq> []" "newline \<notin> set n" using assms that by (auto simp: exportable_def Let_def)
    then show "newline \<notin> set n" "trim n = n" "n \<noteq> []" by auto
    show "n = [] \<or> last n \<noteq> CHR 0x0D" using trim_ends [of n] n by (auto simp: is_space_def)
  qed
  have "txt_file ds = join_with [newline] (map domain_text ds)"
    unfolding txt_file_def using assms by (intro arg_cong [where f = "join_with [newline]"]) (auto simp: domain_text_def exportable_def Let_def)
  moreover have "split_lines (join_with [newline] (map domain_text ds)) = map domain_text ds"
    using line False unfolding newline_def by (intro split_lines_join) auto
  moreover have "map trim (map domain_text ds) = map domain_text ds" using line(3) by auto
  ultimately show ?thesis using line(4) by (auto simp: txt_names_def)
qed (simp add: txt_names_def txt_file_def split_lines_def)

text \<open>What the browser saves for a \<open>data:\<close> address: the part after the comma that ends the media type, up to the
  number sign that starts a fragment, with the escapes decoded.\<close>

definition saved :: "string \<Rightarrow> string option" where
  "saved uri = (case snd (cut_at CHR '','' (fst (cut_at CHR ''#'' uri))) of None \<Rightarrow> None | Some body \<Rightarrow> unescape body)"

lemma unescape_encodeURI: "unescape (encodeURI s) = Some s"
proof (induction s)
  case (Cons c s)
  have "encodeURI (c # s) = (if c \<in> set '';/?:@&=+$,#'' then [c] else encode_char c) @ encodeURI s"
    by (simp add: encodeURI_def)
  moreover have "CHR ''%'' \<notin> set '';/?:@&=+$,#''" by simp
  ultimately show ?case using Cons unescape_encode_char [of c "encodeURI s"] by (cases "c \<in> set '';/?:@&=+$,#''") auto
qed (simp add: encodeURI_def)

lemma no_fragment: "CHR ''#'' \<notin> set s \<Longrightarrow> CHR ''#'' \<notin> set (encodeURI s)"
proof -
  have "CHR ''#'' \<notin> set (encode_char c)" for c
    using encode_chars [of "CHR ''#''" "[c]"] by (auto simp: encodeURIComponent_def unreserved_def Let_def)
  then show "CHR ''#'' \<notin> set s \<Longrightarrow> ?thesis" by (auto simp: encodeURI_def split: if_splits)
qed

lemma csv_saved: "CHR ''#'' \<notin> set f \<Longrightarrow> saved (encodeURI (''data:text/csv;charset=utf-8,'' @ f)) = Some f"
proof -
  assume f: "CHR ''#'' \<notin> set f"
  have "encodeURI (''data:text/csv;charset=utf-8,'' @ f) = ''data:text/csv;charset=utf-8'' @ CHR '','' # encodeURI f"
    by (simp add: encodeURI_def encode_char_def unreserved_def)
  moreover have "cut_at CHR ''#'' (''data:text/csv;charset=utf-8'' @ CHR '','' # encodeURI f) =
      (''data:text/csv;charset=utf-8'' @ CHR '','' # encodeURI f, None)"
    using no_fragment [OF f] by (intro cut_at_none) simp
  moreover have "cut_at CHR '','' (''data:text/csv;charset=utf-8'' @ CHR '','' # encodeURI f) =
      (''data:text/csv;charset=utf-8'', Some (encodeURI f))"
    by (intro cut_at_append) simp
  ultimately show ?thesis by (simp only: saved_def fst_conv snd_conv option.case unescape_encodeURI)
qed

lemma csv_no_number_sign: "\<forall>d\<in>set ds. exportable d \<Longrightarrow> CHR ''#'' \<notin> set (csv_file ds)"
proof -
  assume ds: "\<forall>d\<in>set ds. exportable d"
  have row: "CHR ''#'' \<notin> set (csv_row d)" if "d \<in> set ds" for d
  proof -
    have "\<forall>v\<in>set (map quoted (csv_cells d)). CHR ''#'' \<notin> set v"
      using ds that by (auto simp: exportable_def quoted_def Let_def)
    then show ?thesis using set_join_with [of "'',''" "map quoted (csv_cells d)"] by auto
  qed
  have "CHR ''#'' \<notin> set (join_with '','' csv_header)" by (simp add: csv_header_def)
  then show ?thesis
    using row set_join_with [of "[newline]" "join_with '','' csv_header # map (\<lambda>d. csv_row d) ds"]
    by (auto simp: csv_file_def newline_def)
qed

lemma csv_suffix: "name_ends_with (x @ ''.csv'') ''.csv''" "\<not> name_ends_with (x @ ''.txt'') ''.csv''"
  by (simp_all add: name_ends_with_def)

text \<open>C22: What the page exports it can import. The file that \<open>exportToCSV\<close> makes the browser save, from its \<open>data:\<close>
  address, and the file that \<open>exportToTXT\<close> saves, each under the name the page gives it, offer for import exactly
  the names of the listed domains, in their order. This is shown for a list that is not empty, whose domains have a
  name that is not blank, has no white space around it and holds no comma, no quote and no line end, and whose cells
  hold neither a line end nor a number sign (which would cut the saved CSV file off, see \<open>number_sign_kept\<close>).\<close>

theorem export_import_roundtrip:
  assumes "\<forall>d\<in>set (listed s). exportable d" and "listed s \<noteq> []"
    and "(csv, uri) = last (downloads (exportToCSV s))" and "(plain, content) = last (downloads (exportToTXT s))"
  shows "(\<exists>file. saved uri = Some file \<and>
      fileDomains (file_read csv file t) = map (\<lambda>d. js_string (obj_get d ''domain_name'')) (listed s) \<and>
      fileParsedCount (file_read csv file t) = length (listed s)) \<and>
    fileDomains (file_read plain content t) = map (\<lambda>d. js_string (obj_get d ''domain_name'')) (listed s) \<and>
    fileParsedCount (file_read plain content t) = length (listed s)"
proof -
  have "csv_file (listed s) \<noteq> []" by (cases "listed s") (simp_all add: csv_file_def csv_header_def)
  moreover have "txt_file (listed s) \<noteq> []"
    using txt_read_back [OF assms(1)] assms(2) by (auto simp: txt_names_def split_lines_def)
  moreover have "uri = encodeURI (''data:text/csv;charset=utf-8,'' @ csv_file (listed s))" "content = txt_file (listed s)"
    and "csv = (''domains_'' @ to_lower (q_category (query s))) @ ''.csv''"
      "plain = (''domains_'' @ to_lower (q_category (query s))) @ ''.txt''"
    using assms(3,4) by (simp_all add: exportToCSV_def exportToTXT_def)
  moreover from this(3,4) have "name_ends_with csv ''.csv''" "\<not> name_ends_with plain ''.csv''"
    by (simp_all only: csv_suffix not_True_eq_False not_False_eq_True)
  moreover have "domain_text = (\<lambda>d. js_string (obj_get d ''domain_name''))" by (rule ext) (simp add: domain_text_def)
  ultimately show ?thesis
    using csv_saved [OF csv_no_number_sign [OF assms(1)]] csv_read_back [OF assms(1)] txt_read_back [OF assms(1)]
    by (simp add: file_read_def)
qed

lemma export_import_roundtrip_witness:
  "let d = [(''id'', JStr ''7''), (''domain_name'', JStr ''a.com''), (''status'', JStr ''online'')];
       s = init_domain_page [] (setDomains [d] init_domains); (csv, uri) = last (downloads (exportToCSV s))
   in \<exists>file. saved uri = Some file \<and> fileDomains (file_read csv file s) = [''a.com'']"
proof -
  let ?d = "[(''id'', JStr ''7''), (''domain_name'', JStr ''a.com''), (''status'', JStr ''online'')]"
  let ?s = "init_domain_page [] (setDomains [?d] init_domains)"
  have l: "listed ?s = [?d]"
    by (simp add: setDomains_def init_domains_def init_domain_page_def listed_def List.map_filter_simps domain_id_def obj_get_def)
  have e: "exportable ?d"
    by (simp add: exportable_def domain_id_def obj_get_def domain_text_def csv_cells_def trim_id is_space_def newline_def)
  obtain csv uri where c: "(csv, uri) = last (downloads (exportToCSV ?s))" by (metis surj_pair)
  obtain plain content where x: "(plain, content) = last (downloads (exportToTXT ?s))" by (metis surj_pair)
  show ?thesis
    using export_import_roundtrip [OF _ _ c x, of ?s] e by (auto simp: l simp flip: c)
qed

section \<open>What goes wrong\<close>

text \<open>A filter that changes while a page is read asks for nothing, then or later: the list stays that of the old filter.\<close>

lemma filter_change_dropped:
  "isFetching s \<Longrightarrow> domain_requests (set_query q s) = domain_requests s"
  "isFetching s \<Longrightarrow> domain_requests (page_arrived i r (set_query q s)) = drop_nth i (domain_requests s) \<or>
     domain_requests (page_arrived i r (set_query q s)) = domain_requests s"
  by (auto simp: set_query_def query_effect_def fetchDomains_def fetchCategories_def page_arrived_def take_page_def Let_def
      split: option.splits prod.splits)

text \<open>The check of one domain marks it in the store and not in the counters, so its result is counted on top.\<close>

definition one_online :: domain_page where
  "one_online = (init_domain_page [] (setDomains [[(''id'', JStr ''7''), (''status'', JStr ''online'')]] init_domains))\<lparr>dbStats :=
     \<lparr>d_total = 1, d_online = 1, d_offline = 0, d_checking = 0, d_ssl_valid = 0\<rparr>\<rparr>"

lemma single_check_counted_twice:
  "d_online (dbStats (take_result (JObj [(''id'', JStr ''7''), (''status'', JStr ''online'')])
     (final (handleCheckSingle ''7'') [Replied (Response True (JsonBad []))] one_online))) = 2"
  by code_simp

text \<open>A bulk check that the server never got is shown as running until the page is left.\<close>

lemma failed_bulk_check_stays:
  assumes "selectedIds s \<noteq> []"
  shows "isCheckingAll (final handleCheckSelected [Replied (Rejected e)] s) \<and>
     checkedAllCount (final handleCheckSelected [Replied (Rejected e)] s) < nat (totalAllToCheck (final handleCheckSelected [Replied (Rejected e)] s))"
  using assms
  by (simp add: handleCheckSelected_def final_def page_fetch_def begin_check_def mark_checking_def done_effect_def Let_def)

text \<open>\<open>Select all\<close> compares sizes: a deleted domain that is still selected makes it clear the selection.\<close>

lemma select_all_clears:
  "selectedIds (toggleSelectAll (final (handleDeleteSingle ''8'') [Confirmed True, Replied (Response True (JsonBad []))]
     (one_online\<lparr>selectedIds := [''8'']\<rparr>))) = []"
  by code_simp

text \<open>The first line of a CSV file is taken for its header, and a number sign ends the data of the exported address.\<close>

lemma csv_first_line_lost: "csv_names (''a.com'' @ newline # ''b.com'') = [''b.com'']"
  by code_simp

lemma number_sign_kept: "CHR ''#'' \<in> set v \<Longrightarrow> CHR ''#'' \<in> set (encodeURI v)"
  by (force simp: encodeURI_def)

end
