(* ===== verification/Scheduler_Page.thy ===== *)
theory Scheduler_Page
  imports Page Formats
begin

text \<open>
  The job scheduler page of the server (\<open>web/server/src/pages/JobSchedulerPage.tsx\<close>): the list of jobs polled every two
  seconds, single and bulk actions on jobs, the form of a new job, the settings and the log window. A refresh asks three
  addresses at once and nobody awaits it: the number of those under way is kept, and the three answers of one are an event.
\<close>

section \<open>State\<close>

record new_job =
  nj_type :: string
  nj_name :: string
  nj_description :: string
  nj_category :: string
  nj_priority :: int
  nj_payload :: string
  nj_cron :: string

record sched_page =
  token :: string
  jobs :: jsv
  stats :: "jsv option"
  config :: jsv
  status_tab :: string
  showCreate :: bool
  showConfig :: bool
  showLogs :: "jsv option"
  logs :: "jsv list"
  newJob :: new_job
  selectedIds :: "jsv list"
  bulkLoading :: bool
  toast :: "(jsv \<times> bool) option"
  toast_timers :: nat
  configSaving :: bool
  refreshes :: nat
  polling :: bool

definition empty_job :: new_job where
  "empty_job = \<lparr>nj_type = ''custom_task'', nj_name = [], nj_description = [], nj_category = ''general'', nj_priority = 5,
     nj_payload = [], nj_cron = []\<rparr>"

definition default_config :: jsv where
  "default_config = JObj [(''max_concurrent_jobs'', JNum 4), (''default_priority'', JNum 5), (''retry_limit'', JNum 3),
     (''retry_delay_seconds'', JNum 30), (''job_timeout_seconds'', JNum 3600), (''purge_after_days'', JNum 30),
     (''enable_cron_jobs'', JBool True), (''enable_notifications'', JBool False)]"

definition init_sched :: "string \<Rightarrow> sched_page" where
  "init_sched tok = \<lparr>token = tok, jobs = JArr [], stats = None, config = default_config, status_tab = [], showCreate = False,
     showConfig = False, showLogs = None, logs = [], newJob = empty_job, selectedIds = [], bulkLoading = False,
     toast = None, toast_timers = 0, configSaving = False, refreshes = 0, polling = False\<rparr>"

type_synonym sched_action = "(sched_page, unit) page_action"

text \<open>The jobs of the list; the page fails to render where they are no list. Identifiers are numbers.\<close>

definition job_list :: "sched_page \<Rightarrow> jsv list" where
  "job_list s = (case jobs s of JArr js \<Rightarrow> js | _ \<Rightarrow> [])"

definition job_id :: "jsv \<Rightarrow> jsv" where
  "job_id j = opt_prop j ''id''"

definition has_job_status :: "string \<Rightarrow> jsv \<Rightarrow> bool" where
  "has_job_status st j \<longleftrightarrow> opt_prop j ''status'' = JStr st"

definition filtered :: "sched_page \<Rightarrow> jsv list" where
  "filtered s = (if status_tab s \<noteq> [] then filter (has_job_status (status_tab s)) (job_list s) else job_list s)"

definition filteredIds :: "sched_page \<Rightarrow> jsv list" where
  "filteredIds s = map job_id (filtered s)"

definition targetIds :: "sched_page \<Rightarrow> jsv list" where
  "targetIds s = filter (\<lambda>i. i \<in> set (selectedIds s)) (filteredIds s)"

definition selectedCount :: "sched_page \<Rightarrow> nat" where
  "selectedCount s = length (targetIds s)"

definition allSelected :: "sched_page \<Rightarrow> bool" where
  "allSelected s \<longleftrightarrow> filteredIds s \<noteq> [] \<and> list_all (\<lambda>i. i \<in> set (selectedIds s)) (filteredIds s)"

definition someSelected :: "sched_page \<Rightarrow> bool" where
  "someSelected s \<longleftrightarrow> 0 < selectedCount s \<and> \<not> allSelected s"

section \<open>Messages\<close>

text \<open>A message disappears when a timer that was started for it, or for an earlier one, is due.\<close>

definition showToast :: "jsv \<Rightarrow> bool \<Rightarrow> sched_page \<Rightarrow> sched_page" where
  "showToast msg good s = s\<lparr>toast := Some (msg, good), toast_timers := Suc (toast_timers s)\<rparr>"

definition toast_due :: "sched_page \<Rightarrow> sched_page" where
  "toast_due s = (if toast_timers s = 0 then s else s\<lparr>toast := None, toast_timers := toast_timers s - 1\<rparr>)"

section \<open>The interface of the scheduler\<close>

definition api_get :: "string \<Rightarrow> string \<Rightarrow> request" where
  "api_get tok path = http_get (''/api/scheduler'' @ path) [json_header, auth_header tok]"

definition api_post :: "string \<Rightarrow> string \<Rightarrow> jsv option \<Rightarrow> request" where
  "api_post tok path b = http_send ''POST'' (''/api/scheduler'' @ path) [json_header, auth_header tok] b"

text \<open>The status of the response is not looked at.\<close>

definition api :: "request \<Rightarrow> (sched_page, jsv) page_action" where
  "api rq = bind (page_fetch rq) (\<lambda>(ok, b). read_json b)"

section \<open>Polling\<close>

definition refresh_requests :: "sched_page \<Rightarrow> request list" where
  "refresh_requests s = map (api_get (token s)) [''/jobs'', ''/stats'', ''/config'']"

definition refresh :: "sched_page \<Rightarrow> sched_page" where
  "refresh s = s\<lparr>refreshes := Suc (refreshes s)\<rparr>"

text \<open>The three bodies, taken in order; \<open>null\<close> or \<open>undefined\<close> ends with an exception.\<close>

definition take_lists :: "jsv \<Rightarrow> jsv \<Rightarrow> jsv \<Rightarrow> sched_page \<Rightarrow> sched_page" where
  "take_lists j st c s =
     (if nullish j then s else
      let s1 = (if truthy (opt_prop j ''jobs'') then s\<lparr>jobs := opt_prop j ''jobs''\<rparr> else s) in
      if nullish st then s1 else
      let s2 = (if opt_prop st ''total_jobs'' \<noteq> JUndef then s1\<lparr>stats := Some st\<rparr> else s1) in
      if nullish c then s2 else
      if opt_prop c ''max_concurrent_jobs'' \<noteq> JUndef then s2\<lparr>config := c\<rparr> else s2)"

text \<open>\<open>None\<close> when one of the three failed or did not parse.\<close>

definition refreshed :: "(jsv \<times> jsv \<times> jsv) option \<Rightarrow> sched_page \<Rightarrow> sched_page" where
  "refreshed r s = (if refreshes s = 0 then s else
     let s1 = s\<lparr>refreshes := refreshes s - 1\<rparr> in
     case r of None \<Rightarrow> s1 | Some (j, st, c) \<Rightarrow> take_lists j st c s1)"

definition mounted :: "sched_page \<Rightarrow> sched_page" where
  "mounted s = (if token s \<noteq> [] then refresh (s\<lparr>polling := True\<rparr>) else s)"

definition interval_due :: "sched_page \<Rightarrow> sched_page" where
  "interval_due s = (if polling s then refresh s else s)"

definition unmounted :: "sched_page \<Rightarrow> sched_page" where
  "unmounted s = s\<lparr>polling := False\<rparr>"

section \<open>One job\<close>

definition deselect :: "jsv list \<Rightarrow> sched_page \<Rightarrow> sched_page" where
  "deselect ids s = s\<lparr>selectedIds := filter (\<lambda>i. i \<notin> set ids) (selectedIds s)\<rparr>"

definition doAction :: "jsv \<Rightarrow> string \<Rightarrow> sched_action" where
  "doAction i action = Get (\<lambda>c. bind (await_task (api (api_post (token c) (''/jobs/'' @ js_string i @ ''/'' @ action) None)))
     (\<lambda>_. set_state (\<lambda>s. refresh (deselect [i] s))))"

text \<open>What a row offers for a job, besides its deletion.\<close>

definition row_actions :: "jsv \<Rightarrow> string list" where
  "row_actions j = (if has_job_status ''queued'' j then [''force''] else [])
     @ (if has_job_status ''running'' j \<or> has_job_status ''queued'' j then [''cancel''] else [])
     @ (if has_job_status ''failed'' j \<or> has_job_status ''cancelled'' j then [''retry''] else []) @ [''delete'']"

definition loadLogs :: "jsv \<Rightarrow> sched_action" where
  "loadLogs i = Get (\<lambda>c. Set (\<lambda>s. s\<lparr>showLogs := Some i\<rparr>)
     (bind (await_task (api (api_get (token c) (''/jobs/'' @ js_string i @ ''/logs''))))
       (\<lambda>data. set_state (\<lambda>s. s\<lparr>logs := (case data of JArr ls \<Rightarrow> ls | _ \<Rightarrow> [])\<rparr>))))"

definition close_logs :: "sched_page \<Rightarrow> sched_page" where
  "close_logs s = s\<lparr>showLogs := None, logs := []\<rparr>"

section \<open>New jobs\<close>

definition JOB_TYPES :: "(string \<times> string \<times> string) list" where
  "JOB_TYPES = [(''file_compress'', ''File Compression'', ''files''), (''file_decompress'', ''File Decompression'', ''files''),
     (''rclone_upload'', ''Cloud Upload'', ''files''), (''system_cleanup'', ''System Cleanup'', ''system''),
     (''db_backup'', ''Database Backup'', ''system''), (''custom_task'', ''Custom Task'', ''general'')]"

definition set_type :: "string \<Rightarrow> sched_page \<Rightarrow> sched_page" where
  "set_type v s = s\<lparr>newJob := (newJob s)\<lparr>nj_type := v,
     nj_category := (case map_of JOB_TYPES v of Some (label, cat) \<Rightarrow> cat | None \<Rightarrow> ''general'')\<rparr>\<rparr>"

text \<open>\<open>parseInt(v) || d\<close>.\<close>

definition int_or :: "int \<Rightarrow> string \<Rightarrow> int" where
  "int_or d v = (case parse_int v of None \<Rightarrow> d | Some n \<Rightarrow> if n = 0 then d else n)"

definition set_priority :: "string \<Rightarrow> sched_page \<Rightarrow> sched_page" where
  "set_priority v s = s\<lparr>newJob := (newJob s)\<lparr>nj_priority := int_or 5 v\<rparr>\<rparr>"

definition job_body :: "new_job \<Rightarrow> jsv" where
  "job_body n = JObj [(''type'', JStr (nj_type n)), (''name'', JStr (nj_name n)), (''description'', JStr (nj_description n)),
     (''category'', JStr (nj_category n)), (''priority'', JNum (of_int (nj_priority n))), (''payload'', JStr (nj_payload n)),
     (''cron_expr'', JStr (nj_cron n))]"

definition createJob :: sched_action where
  "createJob = Get (\<lambda>c. if trim (nj_name (newJob c)) = [] then Done ()
     else bind (await_task (api (api_post (token c) ''/jobs'' (Some (job_body (newJob c))))))
       (\<lambda>_. set_state (\<lambda>s. refresh (s\<lparr>showCreate := False, newJob := empty_job\<rparr>))))"

section \<open>Settings\<close>

definition config_fields :: "(string \<times> int \<times> int) list" where
  "config_fields = [(''max_concurrent_jobs'', 1, 32), (''default_priority'', 1, 10), (''retry_limit'', 0, 10),
     (''retry_delay_seconds'', 5, 600), (''job_timeout_seconds'', 60, 86400), (''purge_after_days'', 1, 365)]"

text \<open>Typing in the number field with the least value \<open>low\<close>; the form reads the settings that it changes.\<close>

definition set_field :: "string \<Rightarrow> int \<Rightarrow> string \<Rightarrow> sched_page \<Rightarrow> sched_page" where
  "set_field k low v s = s\<lparr>config := obj_put k (JNum (of_int (int_or low v))) (config s)\<rparr>"

definition set_cron_jobs :: "bool \<Rightarrow> sched_page \<Rightarrow> sched_page" where
  "set_cron_jobs b s = s\<lparr>config := obj_put ''enable_cron_jobs'' (JBool b) (config s)\<rparr>"

definition saveConfig :: sched_action where
  "saveConfig = Get (\<lambda>c. Set (\<lambda>s. s\<lparr>configSaving := True\<rparr>) (finally_do (try_catch
     (bind (await_task (api (api_post (token c) ''/config'' (Some (config c))))) (\<lambda>res.
        bind (lift_res (get_prop res ''status'')) (\<lambda>st.
          if st = JStr ''saved'' then set_state (\<lambda>s. refresh (showToast (JStr ''Scheduler configuration saved successfully.'') True
            (s\<lparr>showConfig := False\<rparr>)))
          else set_state (showToast (js_or (opt_prop res ''error'') (JStr ''Failed to save configuration.'')) False))))
     (\<lambda>_. set_state (showToast (JStr ''Network error saving configuration.'') False)))
     (\<lambda>s. s\<lparr>configSaving := False\<rparr>)))"

definition purge :: sched_action where
  "purge = Get (\<lambda>c. let days = opt_prop (config c) ''purge_after_days'' in
     bind (ask_confirm (''Purge all completed/failed jobs older than '' @ js_string days @ '' days?'')) (\<lambda>yes.
       if \<not> yes then Done ()
       else bind (await_task (api (api_post (token c) ''/purge'' (Some (JObj [(''older_than_days'', days)])))))
         (\<lambda>_. set_state refresh)))"

section \<open>Selection\<close>

definition handleFilterChange :: "string \<Rightarrow> sched_page \<Rightarrow> sched_page" where
  "handleFilterChange f s = s\<lparr>status_tab := f, selectedIds := []\<rparr>"

definition add_id :: "jsv \<Rightarrow> jsv list \<Rightarrow> jsv list" where
  "add_id i ids = (if i \<in> set ids then ids else ids @ [i])"

definition toggleOne :: "jsv \<Rightarrow> sched_page \<Rightarrow> sched_page" where
  "toggleOne i s = (if i \<in> set (selectedIds s) then deselect [i] s else s\<lparr>selectedIds := add_id i (selectedIds s)\<rparr>)"

definition toggleAll :: "sched_page \<Rightarrow> sched_page" where
  "toggleAll s = (if allSelected s then deselect (filteredIds s) s
     else s\<lparr>selectedIds := fold add_id (filteredIds s) (selectedIds s)\<rparr>)"

section \<open>Actions on the selected jobs\<close>

datatype bulk_action = BulkRetry | BulkDelete | BulkCancel

primrec action_name :: "bulk_action \<Rightarrow> string" where
  "action_name BulkRetry = ''retry''"
| "action_name BulkDelete = ''delete''"
| "action_name BulkCancel = ''cancel''"

definition capitalised :: "string \<Rightarrow> string" where
  "capitalised w = to_upper (take 1 w) @ drop 1 w"

definition plural :: "nat \<Rightarrow> string \<Rightarrow> string" where
  "plural n w = show_nat n @ '' '' @ w @ (if n \<noteq> 1 then ''s'' else [])"

definition check_mark :: string where
  "check_mark = [CHR 0xE2, CHR 0x9C, CHR 0x93]"

text \<open>The lists of the answer, of the declared type.\<close>

definition list_prop :: "jsv \<Rightarrow> string \<Rightarrow> jsv list" where
  "list_prop v k = (case opt_prop v k of JArr xs \<Rightarrow> xs | _ \<Rightarrow> [])"

definition bulk_message :: "bulk_action \<Rightarrow> nat \<Rightarrow> nat \<Rightarrow> string" where
  "bulk_message a good bad =
     (if bad = 0 then check_mark @ '' '' @ capitalised (action_name a) @ '' applied to '' @ plural good ''job'' @ ''.''
      else if good = 0 then ''All '' @ plural bad ''job'' @ '' failed to '' @ action_name a @ ''. Check job statuses.''
      else capitalised (action_name a) @ '': '' @ show_nat good @ '' succeeded, '' @ show_nat bad @ '' failed.'')"

definition bulk_done :: "bulk_action \<Rightarrow> jsv \<Rightarrow> sched_page \<Rightarrow> sched_page" where
  "bulk_done a res s =
     (let good = list_prop res ''succeeded''; bad = list_prop res ''failed'' in
      refresh (showToast (JStr (bulk_message a (length good) (length bad))) (bad = []) (deselect good s)))"

definition bulk_request :: "bulk_action \<Rightarrow> sched_page \<Rightarrow> request" where
  "bulk_request a c = api_post (token c) ''/jobs/bulk-action''
     (Some (JObj [(''action'', JStr (action_name a)), (''job_ids'', JArr (targetIds c))]))"

definition delete_question :: "nat \<Rightarrow> string" where
  "delete_question n = ''Permanently delete '' @ show_nat n @ '' selected job'' @ (if 1 < n then ''s'' else [])
     @ '' and all associated logs?''"

definition handleBulkAction :: "bulk_action \<Rightarrow> sched_action" where
  "handleBulkAction a = Get (\<lambda>c. if targetIds c = [] then Done ()
     else bind (if a = BulkDelete then ask_confirm (delete_question (length (targetIds c))) else Done True) (\<lambda>yes.
       if \<not> yes then Done ()
       else Set (\<lambda>s. s\<lparr>bulkLoading := True\<rparr>) (finally_do (try_catch
         (bind (await_task (api (bulk_request a c))) (\<lambda>res. bind (lift_res (get_prop res ''status'')) (\<lambda>st.
           if st = JStr ''processed'' then set_state (bulk_done a res)
           else set_state (showToast (js_or (opt_prop res ''error'')
             (JStr (''Bulk '' @ action_name a @ '' failed. Please try again.''))) False))))
         (\<lambda>_. set_state (showToast (JStr ''Network error. Please try again.'') False)))
         (\<lambda>s. s\<lparr>bulkLoading := False\<rparr>))))"

section \<open>Rows\<close>

text \<open>The times are milliseconds; \<open>now\<close> is the moment of rendering.\<close>

definition math_round :: "rat \<Rightarrow> int" where
  "math_round x = \<lfloor>x + 1 / 2\<rfloor>"

definition seconds_between :: "int \<Rightarrow> int \<Rightarrow> rat" where
  "seconds_between b e = max 0 (of_int (e - b) / 1000)"

definition rat_mod :: "rat \<Rightarrow> int \<Rightarrow> rat" where
  "rat_mod x m = x - of_int m * of_int \<lfloor>x / of_int m\<rfloor>"

definition duration_text :: "rat \<Rightarrow> string" where
  "duration_text diff =
     (if diff < 60 then show_int (math_round diff) @ ''s''
      else if diff < 3600 then show_int \<lfloor>diff / 60\<rfloor> @ ''m '' @ show_int (math_round (rat_mod diff 60)) @ ''s''
      else show_int \<lfloor>diff / 3600\<rfloor> @ ''h '' @ show_int \<lfloor>rat_mod diff 3600 / 60\<rfloor> @ ''m'')"

definition fmtDuration :: "int \<Rightarrow> int option \<Rightarrow> int option \<Rightarrow> string" where
  "fmtDuration now start end_time = (case start of None \<Rightarrow> em_dash
     | Some b \<Rightarrow> duration_text (seconds_between b (case end_time of Some e \<Rightarrow> e | None \<Rightarrow> now)))"

definition STATUS_COLORS :: "(string \<times> string \<times> string) list" where
  "STATUS_COLORS = [(''queued'', ''rgba(59,130,246,0.1)'', ''#3b82f6''), (''running'', ''rgba(245,158,11,0.1)'', ''#f59e0b''),
     (''completed'', ''rgba(34,197,94,0.1)'', ''#22c55e''), (''failed'', ''rgba(239,68,68,0.1)'', ''#ef4444''),
     (''cancelled'', ''rgba(107,114,128,0.1)'', ''#6b7280''), (''scheduled'', ''rgba(139,92,246,0.1)'', ''#8b5cf6'')]"

definition StatusBadge :: "string \<Rightarrow> string \<times> string" where
  "StatusBadge st = (case map_of STATUS_COLORS st of Some c \<Rightarrow> c | None \<Rightarrow> the (map_of STATUS_COLORS ''queued''))"

definition PriorityBadge :: "rat \<Rightarrow> string" where
  "PriorityBadge p = (if p \<le> 2 then ''#ef4444'' else if p \<le> 4 then ''#f59e0b'' else if p \<le> 6 then ''#3b82f6'' else ''#6b7280'')"

definition ProgressBar :: "rat \<Rightarrow> string \<Rightarrow> rat \<times> string" where
  "ProgressBar progress st = (max 2 progress, if st = ''completed'' then ''#22c55e'' else if st = ''failed'' then ''#ef4444''
     else if st = ''running'' then ''#f59e0b'' else ''#3b82f6'')"

text \<open>The label of a tab, with the number of its jobs.\<close>

definition tab_label :: "string \<Rightarrow> sched_page \<Rightarrow> string" where
  "tab_label f s = (if f = [] then ''All'' else f) @ '' ('' @
     show_nat (if f = [] then length (job_list s) else length (filter (has_job_status f) (job_list s))) @ '')''"

definition stat_cards :: "jsv \<Rightarrow> (string \<times> jsv) list" where
  "stat_cards st = [(''Total Jobs'', opt_prop st ''total_jobs''), (''Running'', opt_prop st ''running_jobs''),
     (''Queued'', opt_prop st ''queued_jobs''), (''Completed'', opt_prop st ''completed_jobs''),
     (''Failed'', opt_prop st ''failed_jobs''),
     (''Workers'', JStr (js_string (opt_prop st ''active_workers'') @ ''/'' @ js_string (opt_prop st ''max_workers'')))]"

text \<open>The colours of a log line: of its level, and of its message.\<close>

definition log_colors :: "jsv \<Rightarrow> string \<times> string" where
  "log_colors l = (let lv = opt_prop l ''level'' in
     if lv = JStr ''ERROR'' then (''#f85149'', ''#f85149'') else if lv = JStr ''WARN'' then (''#d29922'', ''#d29922'')
     else (''#8b949e'', ''#c9d1d9''))"

chapter \<open>What holds of it\<close>

text \<open>
  Behaviour of the job scheduler page: what a bulk action names, asks and reports, the selection under its toggles, the text
  of a duration, and what goes wrong.
\<close>

section \<open>Selection\<close>

lemma set_fold_add_id: "set (fold add_id xs ids) = set ids \<union> set xs"
  by (induction xs arbitrary: ids) (auto simp: add_id_def)

lemma distinct_fold_add_id: "distinct ids \<Longrightarrow> distinct (fold add_id xs ids)"
  by (induction xs arbitrary: ids) (auto simp: add_id_def)

lemma filteredIds_selection [simp]: "filteredIds (s\<lparr>selectedIds := x\<rparr>) = filteredIds s"
  by (simp add: filteredIds_def filtered_def job_list_def)

lemma filteredIds_deselect [simp]: "filteredIds (deselect x s) = filteredIds s"
  by (simp add: deselect_def)

lemma filter_fold_add_id:
  "set xs \<subseteq> X \<Longrightarrow> filter (\<lambda>i. i \<notin> X) (fold add_id xs ids) = filter (\<lambda>i. i \<notin> X) ids"
  by (induction xs arbitrary: ids) (auto simp: add_id_def)

lemma toggle_distinct:
  "distinct (selectedIds s) \<Longrightarrow> distinct (selectedIds (toggleOne i s))"
  "distinct (selectedIds s) \<Longrightarrow> distinct (selectedIds (toggleAll s))"
  by (auto simp: toggleOne_def toggleAll_def deselect_def add_id_def distinct_fold_add_id)

lemma toggle_all_selects: "filteredIds s \<noteq> [] \<Longrightarrow> \<not> allSelected s \<Longrightarrow> allSelected (toggleAll s)"
  by (simp add: toggleAll_def) (simp add: allSelected_def set_fold_add_id list_all_iff)

lemma toggle_all_twice:
  assumes "filteredIds s \<noteq> []" and "\<not> allSelected s"
  shows "selectedIds (toggleAll (toggleAll s)) = filter (\<lambda>i. i \<notin> set (filteredIds s)) (selectedIds s)"
proof -
  have "toggleAll (toggleAll s) = deselect (filteredIds s) (toggleAll s)"
    using toggle_all_selects [OF assms] assms(2) by (simp add: toggleAll_def)
  then show ?thesis using assms(2) by (simp add: toggleAll_def deselect_def filter_fold_add_id)
qed

section \<open>Bulk actions\<close>

text \<open>The answers of a user who confirms and of a server.\<close>

definition bulk_answers :: "bulk_action \<Rightarrow> reply \<Rightarrow> answer list" where
  "bulk_answers a r = (if a = BulkDelete then [Confirmed True] else []) @ [Replied r]"

lemma bulk_run:
  assumes "targetIds s \<noteq> []"
  shows "run (handleBulkAction a) (bulk_answers a (Response ok (JsonOk res))) s =
     ((if a = BulkDelete then [AskConfirm (delete_question (length (targetIds s)))] else []) @ [Http (bulk_request a s)],
      Returned (), (case get_prop res ''status'' of
          Inl e \<Rightarrow> showToast (JStr ''Network error. Please try again.'') False (s\<lparr>bulkLoading := True\<rparr>)
        | Inr st \<Rightarrow> if st = JStr ''processed'' then bulk_done a res (s\<lparr>bulkLoading := True\<rparr>)
            else showToast (js_or (opt_prop res ''error'') (JStr (''Bulk '' @ action_name a @ '' failed. Please try again.'')))
              False (s\<lparr>bulkLoading := True\<rparr>))\<lparr>bulkLoading := False\<rparr>, [])"
  using assms
  by (cases "get_prop res ''status''")
    (simp_all add: handleBulkAction_def bulk_answers_def ask_confirm_def page_fetch_def read_json_def api_def await_task_def
      lift_res_def)

text \<open>The jobs of which the server says that they succeeded, among those named.\<close>

definition honest :: "jsv list \<Rightarrow> jsv \<Rightarrow> bool" where
  "honest ids res \<longleftrightarrow> opt_prop res ''status'' = JStr ''processed'' \<and> set (list_prop res ''succeeded'') \<subseteq> set ids \<and>
     distinct (list_prop res ''succeeded'') \<and> length (list_prop res ''succeeded'') + length (list_prop res ''failed'') = length ids"

lemma status_of_opt: "opt_prop res k = JStr v \<Longrightarrow> get_prop res k = Inr (JStr v)"
  by (auto simp: opt_prop_def split: sum.splits)

lemma still_selected:
  assumes "distinct ids" and "distinct good" and "set good \<subseteq> set ids"
  shows "length (filter (\<lambda>i. i \<notin> set good) ids) = length ids - length good"
proof -
  have "set (filter (\<lambda>i. i \<notin> set good) ids) = set ids - set good" by auto
  then have "card (set ids - set good) = length (filter (\<lambda>i. i \<notin> set good) ids)"
    using distinct_card [of "filter (\<lambda>i. i \<notin> set good) ids"] assms(1) by simp
  moreover have "card (set ids - set good) = card (set ids) - card (set good)" using assms(3) by (simp add: card_Diff_subset)
  ultimately show ?thesis using assms(1,2) by (simp add: distinct_card)
qed

text \<open>C23: A bulk action asks for exactly the ticked jobs of the open tab, each once, after a confirmation when it
  deletes. When the server settles each of them, naming the ids that succeeded and listing as many failures as the
  rest, the dock is free again; the message counts the jobs: all of them when none failed, or none succeeded, and
  otherwise first those that succeeded and then those that failed, and it is shown as a success exactly when none
  failed; and of the asked jobs exactly those stay ticked that are not among the succeeded, as many as failed, so
  that another click asks for these.\<close>

theorem bulk_action_settles:
  assumes "targetIds s \<noteq> []" and "distinct (filteredIds s)" and "honest (targetIds s) res"
    and "s' = final (handleBulkAction a) (bulk_answers a (Response ok (JsonOk res))) s"
  shows "requests (handleBulkAction a) (bulk_answers a (Response ok (JsonOk res))) s =
      (if a = BulkDelete then [AskConfirm (delete_question (length (targetIds s)))] else []) @ [Http (bulk_request a s)] \<and>
    rq_body (bulk_request a s) = Some (JObj [(''action'', JStr (action_name a)), (''job_ids'', JArr (targetIds s))]) \<and>
    distinct (targetIds s) \<and> set (targetIds s) = set (selectedIds s) \<inter> set (filteredIds s) \<and>
    \<not> bulkLoading s' \<and> refreshes s' = Suc (refreshes s) \<and>
    (let good = list_prop res ''succeeded''; bad = list_prop res ''failed''; n = length (targetIds s) in
      toast s' = Some (JStr (
          if bad = [] then check_mark @ '' '' @ capitalised (action_name a) @ '' applied to '' @ plural n ''job'' @ ''.''
          else if good = [] then ''All '' @ plural n ''job'' @ '' failed to '' @ action_name a @ ''. Check job statuses.''
          else capitalised (action_name a) @ '': '' @ show_nat (length good) @ '' succeeded, '' @
            show_nat (n - length good) @ '' failed.''), bad = []) \<and>
      targetIds s' = filter (\<lambda>i. i \<notin> set good) (targetIds s) \<and> selectedCount s' = length bad \<and>
      rq_body (bulk_request a s') = Some (JObj [(''action'', JStr (action_name a)),
        (''job_ids'', JArr (filter (\<lambda>i. i \<notin> set good) (targetIds s)))]))"
proof -
  let ?good = "list_prop res ''succeeded''"
  have st: "get_prop res ''status'' = Inr (JStr ''processed'')" using assms(3) by (simp add: honest_def status_of_opt)
  have s': "s' = (bulk_done a res (s\<lparr>bulkLoading := True\<rparr>))\<lparr>bulkLoading := False\<rparr>"
    using assms(4) st by (simp add: final_def bulk_run [OF assms(1)])
  have dist: "distinct (targetIds s)" and sub: "set ?good \<subseteq> set (targetIds s)" "distinct ?good"
    using assms(2,3) by (simp_all add: targetIds_def honest_def)
  have left: "targetIds s' = filter (\<lambda>i. i \<notin> set ?good) (targetIds s)"
    by (simp add: s' bulk_done_def refresh_def showToast_def deselect_def targetIds_def filteredIds_def filtered_def job_list_def Let_def
        conj_commute)
  from this have "selectedCount s' = length (targetIds s) - length ?good"
    using still_selected [OF dist sub(2,1)] by (simp add: selectedCount_def)
  then have count: "selectedCount s' = length (list_prop res ''failed'')" using assms(3) unfolding honest_def by linarith
  have rq: "requests (handleBulkAction a) (bulk_answers a (Response ok (JsonOk res))) s =
      (if a = BulkDelete then [AskConfirm (delete_question (length (targetIds s)))] else []) @ [Http (bulk_request a s)]"
    by (simp add: requests_def bulk_run [OF assms(1)])
  have ids: "set (targetIds s) = set (selectedIds s) \<inter> set (filteredIds s)" by (auto simp: targetIds_def)
  have body: "rq_body (bulk_request a s) = Some (JObj [(''action'', JStr (action_name a)), (''job_ids'', JArr (targetIds s))])"
    by (simp add: bulk_request_def api_post_def http_send_def)
  have again: "rq_body (bulk_request a s') = Some (JObj [(''action'', JStr (action_name a)), (''job_ids'', JArr (targetIds s'))])"
    by (simp add: bulk_request_def api_post_def http_send_def)
  have rest: "\<not> bulkLoading s'" "refreshes s' = Suc (refreshes s)"
    "toast s' = Some (JStr (bulk_message a (length ?good) (length (list_prop res ''failed''))), list_prop res ''failed'' = [])"
    by (simp_all add: s' bulk_done_def refresh_def showToast_def deselect_def Let_def)
  have "length (targetIds s) = length ?good + length (list_prop res ''failed'')" using assms(3) by (simp add: honest_def)
  then show ?thesis using rq body dist ids rest count left again by (auto simp: bulk_message_def Let_def)
qed

definition two_failed_jobs :: sched_page where
  "two_failed_jobs = (init_sched ''t'')\<lparr>jobs := JArr [JObj [(''id'', JNum 1), (''status'', JStr ''failed'')],
     JObj [(''id'', JNum 2), (''status'', JStr ''failed'')]], selectedIds := [JNum 2, JNum 1]\<rparr>"

lemma bulk_action_settles_witness:
  "let res = JObj [(''status'', JStr ''processed''), (''succeeded'', JArr [JNum 2]), (''failed'', JArr [JNull])];
       s' = final (handleBulkAction BulkDelete) (bulk_answers BulkDelete (Response True (JsonOk res))) two_failed_jobs
   in toast s' = Some (JStr (''Delete: '' @ show_nat 1 @ '' succeeded, '' @ show_nat 1 @ '' failed.''), False) \<and>
     targetIds s' = [JNum 1] \<and> selectedCount s' = 1"
proof -
  let ?res = "JObj [(''status'', JStr ''processed''), (''succeeded'', JArr [JNum 2]), (''failed'', JArr [JNull])]"
  have ids: "targetIds two_failed_jobs = [JNum 1, JNum 2]" "distinct (filteredIds two_failed_jobs)"
    by (simp_all add: two_failed_jobs_def init_sched_def targetIds_def filteredIds_def filtered_def job_list_def job_id_def
        opt_prop_def)
  have lists: "list_prop ?res ''succeeded'' = [JNum 2]" "list_prop ?res ''failed'' = [JNull]" "honest (targetIds two_failed_jobs) ?res"
    by (simp_all add: ids honest_def list_prop_def opt_prop_def)
  have name: "capitalised ''delete'' = ''Delete''" by code_simp
  have "targetIds two_failed_jobs \<noteq> []" by (simp add: ids)
  from bulk_action_settles [OF this ids(2) lists(3) refl, of BulkDelete True] show ?thesis
    by (simp add: lists(1,2) ids(1) name Let_def)
qed

section \<open>Durations\<close>

lemma rat_mod_nat:
  assumes "0 < m"
  shows "rat_mod (of_nat n) (int m) = of_nat (n mod m)"
proof -
  have "\<lfloor>(of_nat n :: rat) / of_nat m\<rfloor> = int (n div m)" by (simp add: floor_divide_of_nat_eq)
  then have "rat_mod (of_nat n) (int m) = of_nat n - of_nat (m * (n div m))" by (simp add: rat_mod_def)
  then show ?thesis by (simp add: minus_mult_div_eq_mod [symmetric] of_nat_diff)
qed

lemma math_round_nat [simp]: "math_round (of_nat n) = int n"
  by (simp add: math_round_def floor_eq_iff)

lemma floor_div_nat: "\<lfloor>(of_nat n :: rat) / numeral m\<rfloor> = int (n div numeral m)"
  using floor_divide_of_nat_eq [of n "numeral m", where 'a = rat] by simp

text \<open>The text of a whole number of seconds, with natural numbers.\<close>

definition duration_of :: "nat \<Rightarrow> string" where
  "duration_of n = (if n < 60 then show_nat n @ ''s''
     else if n < 3600 then show_nat (n div 60) @ ''m '' @ show_nat (n mod 60) @ ''s''
     else show_nat (n div 3600) @ ''h '' @ show_nat (n mod 3600 div 60) @ ''m'')"

lemma duration_text_nat: "duration_text (of_nat n) = duration_of n"
proof -
  have m: "rat_mod (of_nat n) 60 = of_nat (n mod 60)" "rat_mod (of_nat n) 3600 = of_nat (n mod 3600)"
    using rat_mod_nat [of 60 n] rat_mod_nat [of 3600 n] by simp_all
  have b: "(of_nat n :: rat) < 60 \<longleftrightarrow> n < 60" "(of_nat n :: rat) < 3600 \<longleftrightarrow> n < 3600"
    using of_nat_less_iff [of n 60, where 'a = rat] of_nat_less_iff [of n 3600, where 'a = rat] by simp_all
  have i: "show_int (int k) = show_nat k" for k by (simp add: show_int_def)
  show ?thesis by (simp only: duration_text_def duration_of_def m b math_round_nat floor_div_nat i)
qed

lemma whole_duration: "fmtDuration now (Some b) (Some (b + 1000 * int n)) = duration_of n"
  by (simp add: fmtDuration_def seconds_between_def duration_text_nat)

section \<open>What goes wrong\<close>

text \<open>Each refresh, every two seconds, overwrites the settings that the user is changing.\<close>

lemma edited_settings_lost:
  assumes "refreshes s \<noteq> 0" and "\<not> nullish j" and "\<not> nullish st" and "\<not> nullish c" and "opt_prop c ''max_concurrent_jobs'' \<noteq> JUndef"
  shows "config (refreshed (Some (j, st, c)) (set_field k low v s)) = c"
  using assms by (simp add: refreshed_def take_lists_def set_field_def Let_def)

lemma edited_settings_lost_witness:
  "config (refreshed (Some (JObj [], JObj [], default_config)) (set_field ''retry_limit'' 0 ''7'' (mounted (init_sched ''t'')))) = default_config"
  by (rule edited_settings_lost) (simp_all add: mounted_def init_sched_def refresh_def default_config_def opt_prop_def)

text \<open>The limits of a number field are not enforced.\<close>

lemma limits_ignored: "int_or 1 ''-5'' = -5 \<and> int_or 1 ''99'' = 99"
  by code_simp

text \<open>The log lines of one job are shown in the window of another when they arrive late.\<close>

lemma stale_logs_shown:
  "\<exists>q k. turn (loadLogs i) s = (Await q k, s\<lparr>showLogs := Some i\<rparr>) \<and>
     (\<forall>s2 ls. final (k (Replied (Response ok (JsonOk (JArr ls))))) [] s2 = s2\<lparr>logs := ls\<rparr>)"
  by (simp add: loadLogs_def api_def page_fetch_def read_json_def await_task_def final_def)

text \<open>A refused action and a refused job look like ones that were accepted; the form of the job is gone.\<close>

lemma refusal_is_silent:
  "final (doAction i action) [Replied (Response False (JsonOk v))] s = final (doAction i action) [Replied (Response True (JsonOk w))] s"
  by (simp add: doAction_def api_def page_fetch_def read_json_def await_task_def final_def)

lemma refused_job_lost:
  "trim (nj_name (newJob s)) \<noteq> [] \<Longrightarrow> newJob (final createJob [Replied (Response False (JsonOk v))] s) = empty_job"
  by (simp add: createJob_def api_def page_fetch_def read_json_def await_task_def final_def refresh_def)

text \<open>The timer of an earlier message ends a later one.\<close>

lemma toast_ends_early: "toast_timers s = 0 \<Longrightarrow> toast (toast_due (showToast m2 g2 (showToast m1 g1 s))) = None"
  by (simp add: toast_due_def showToast_def)

text \<open>Rounding gives sixty seconds.\<close>

lemma sixty_seconds: "duration_text (597 / 10) = ''60s'' \<and> duration_text (1197 / 10) = ''1m 60s''"
  by code_simp

end
