(* ===== verification/Cloud_Page.thy ===== *)
theory Cloud_Page
  imports Page Formats Sorting_JS
begin

text \<open>
  The cloud storage page of the server (\<open>web/server/src/pages/CloudStoragePage.tsx\<close>): the rclone engine, the remotes with
  the wizard that adds and edits them, the live browser of a remote, the history of uploads and the indexed files of a
  remote, read in pages of 200. Remotes, providers and rows are the server's objects.
\<close>

section \<open>State\<close>

text \<open>\<open>http_code\<close> is the status of a refused response, which a reply does not carry. A load of the providers that
  nobody awaits is counted, and its answer is an event. The timers that end the mark of a copied link are counted too.\<close>

record cloud_page =
  token :: string
  http_code :: string
  status :: "jsv option"
  providers :: "jsv list"
  remotes :: "jsv list"
  uploads :: "jsv list"
  uploadTotal :: jsv
  installing :: bool
  testingId :: "jsv option"
  savingRemote :: bool
  showWizard :: bool
  wizardStep :: nat
  editingRemote :: "jsv option"
  providerSearch :: string
  wizardType :: string
  wizardName :: string
  wizardPrefix :: string
  wizardFlags :: string
  wizardEnabled :: jsv
  optionValues :: obj
  showAdvanced :: bool
  showSecrets :: "string list"
  browseRemote :: "jsv option"
  browsePath :: string
  browseEntries :: "jsv list"
  browsing :: bool
  filterRemote :: string
  filterStatus :: string
  copiedId :: "jsv option"
  filesRemote :: "jsv option"
  fileRows :: "jsv list"
  fileTotal :: jsv
  fileSearch :: string
  fileOffset :: nat
  fileLastSync :: jsv
  filesLoading :: bool
  syncingId :: "jsv option"
  downloadingId :: "jsv option"
  fileLinkId :: "jsv option"
  copiedFileId :: "jsv option"
  copy_timers :: nat
  file_copy_timers :: nat
  provider_loads :: nat
  polling :: bool
  alerts :: "(jsv \<times> string \<times> string) list"
  downloads :: "string list"

definition init_cloud :: "string \<Rightarrow> string \<Rightarrow> cloud_page" where
  "init_cloud tok code = \<lparr>token = tok, http_code = code, status = None, providers = [], remotes = [], uploads = [],
     uploadTotal = JNum 0, installing = False, testingId = None, savingRemote = False, showWizard = False, wizardStep = 0,
     editingRemote = None, providerSearch = [], wizardType = [], wizardName = [], wizardPrefix = [], wizardFlags = [],
     wizardEnabled = JBool True, optionValues = [], showAdvanced = False, showSecrets = [], browseRemote = None,
     browsePath = [], browseEntries = [], browsing = False, filterRemote = [], filterStatus = [], copiedId = None,
     filesRemote = None, fileRows = [], fileTotal = JNum 0, fileSearch = [], fileOffset = 0, fileLastSync = JNull,
     filesLoading = False, syncingId = None, downloadingId = None, fileLinkId = None, copiedFileId = None,
     copy_timers = 0, file_copy_timers = 0, provider_loads = 0, polling = True, alerts = [], downloads = []\<rparr>"

type_synonym cloud_action = "(cloud_page, unit) page_action"

definition alert :: "jsv \<Rightarrow> string \<Rightarrow> string \<Rightarrow> cloud_page \<Rightarrow> cloud_page" where
  "alert msg title variant s = s\<lparr>alerts := alerts s @ [(msg, title, variant)]\<rparr>"

text \<open>Texts, lists and \<open>v || ''\<close> of the server's objects.\<close>

definition text_prop :: "jsv \<Rightarrow> string \<Rightarrow> string" where
  "text_prop v k = js_string (js_or (opt_prop v k) (JStr []))"

definition list_or_empty :: "jsv \<Rightarrow> jsv list" where
  "list_or_empty v = (case v of JArr xs \<Rightarrow> xs | _ \<Rightarrow> [])"

definition prop_text :: "jsv \<Rightarrow> string \<Rightarrow> string" where
  "prop_text v k = js_string (opt_prop v k)"

section \<open>The interface of the engine\<close>

definition api_request :: "string \<Rightarrow> string \<Rightarrow> string \<Rightarrow> jsv option \<Rightarrow> request" where
  "api_request tok meth path b = http_send meth (''/api/rclone'' @ path) [json_header, auth_header tok] b"

definition body_or_empty :: "body \<Rightarrow> jsv" where
  "body_or_empty b = (case b of JsonOk v \<Rightarrow> v | JsonBad e \<Rightarrow> JObj [])"

text \<open>\<open>throw new Error(data.error || data.details || `HTTP ${res.status}`)\<close>.\<close>

definition refuse :: "string \<Rightarrow> jsv \<Rightarrow> (cloud_page, 'a) page_action" where
  "refuse code data = bind (lift_res (get_prop data ''error''))
     (\<lambda>e. Fail (error_message (js_or e (js_or (opt_prop data ''details'') (JStr (''HTTP '' @ code))))))"

definition api_call :: "string \<Rightarrow> request \<Rightarrow> (cloud_page, jsv) page_action" where
  "api_call code rq = bind (page_fetch rq) (\<lambda>(ok, b). Yield (if ok then Done (body_or_empty b) else refuse code (body_or_empty b)))"

definition api :: "cloud_page \<Rightarrow> string \<Rightarrow> string \<Rightarrow> jsv option \<Rightarrow> (cloud_page, jsv) page_action" where
  "api c meth path b = await_task (api_call (http_code c) (api_request (token c) meth path b))"

definition api_get :: "cloud_page \<Rightarrow> string \<Rightarrow> (cloud_page, jsv) page_action" where
  "api_get c path = await_task (api_call (http_code c)
     (http_get (''/api/rclone'' @ path) [json_header, auth_header (token c)]))"

text \<open>\<open>catch (e) { showGlobalAlert(e.message, {title, variant: 'error'}) }\<close>.\<close>

definition alerting :: "string \<Rightarrow> cloud_action \<Rightarrow> cloud_action" where
  "alerting title t = try_catch t (\<lambda>e. set_state (alert (JStr e) title ''error''))"

section \<open>Loading\<close>

definition refreshCore :: cloud_action where
  "refreshCore = Get (\<lambda>c. quietly (bind (api_get c ''/status'') (\<lambda>st. Set (\<lambda>s. s\<lparr>status := Some st\<rparr>)
     (bind (api_get c ''/remotes'') (\<lambda>r. bind (lift_res (get_prop r ''remotes'')) (\<lambda>rs.
       set_state (\<lambda>s. s\<lparr>remotes := list_or_empty rs\<rparr>)))))))"

text \<open>The serialiser of \<open>URLSearchParams\<close>.\<close>

definition form_char :: "char \<Rightarrow> string" where
  "form_char c = (if c = CHR '' '' then ''+''
     else if c \<in> set ''!~()'' \<union> {CHR 0x27} then [CHR ''%'', hex_digit (of_char c div 16), hex_digit (of_char c mod 16)]
     else encode_char c)"

definition form_pair :: "string \<times> string \<Rightarrow> string" where
  "form_pair kv = concat (map form_char (fst kv)) @ ''='' @ concat (map form_char (snd kv))"

definition form_query :: "(string \<times> string) list \<Rightarrow> string" where
  "form_query kvs = join_with ''&'' (map form_pair kvs)"

definition given :: "string \<Rightarrow> string \<Rightarrow> (string \<times> string) list" where
  "given k v = (if v = [] then [] else [(k, v)])"

definition uploads_path :: "cloud_page \<Rightarrow> string" where
  "uploads_path c = ''/uploads?'' @
     form_query (given ''remote_id'' (filterRemote c) @ given ''status'' (filterStatus c) @ [(''limit'', ''200'')])"

definition refreshUploads :: cloud_action where
  "refreshUploads = Get (\<lambda>c. quietly (bind (api_get c (uploads_path c)) (\<lambda>u. bind (lift_res (get_prop u ''uploads'')) (\<lambda>us.
     set_state (\<lambda>s. s\<lparr>uploads := list_or_empty us, uploadTotal := js_or (opt_prop u ''total'') (JNum 0)\<rparr>)))))"

definition take_providers :: "jsv \<Rightarrow> cloud_page \<Rightarrow> cloud_page" where
  "take_providers v s = s\<lparr>providers := list_or_empty v\<rparr>"

definition loadProviders :: "bool \<Rightarrow> cloud_action" where
  "loadProviders force = Get (\<lambda>c. bind (api_get c (''/providers'' @ (if force then ''?refresh=1'' else [])))
     (\<lambda>p. bind (lift_res (get_prop p ''providers'')) (\<lambda>ps. set_state (take_providers ps))))"

definition providers_arrived :: "jsv option \<Rightarrow> cloud_page \<Rightarrow> cloud_page" where
  "providers_arrived r s = (if provider_loads s = 0 then s else
     let s1 = s\<lparr>provider_loads := provider_loads s - 1\<rparr> in
     case r of None \<Rightarrow> s1 | Some p \<Rightarrow> if nullish p then s1 else take_providers (opt_prop p ''providers'') s1)"

section \<open>The engine\<close>

definition toggleAutoInstall :: cloud_action where
  "toggleAutoInstall = Get (\<lambda>c. case status c of None \<Rightarrow> Done ()
     | Some st \<Rightarrow> alerting ''Update Failed''
         (bind (api c ''POST'' ''/system'' (Some (JObj [(''auto_install'', JBool (\<not> truthy (opt_prop st ''auto_install'')))])))
           (\<lambda>_. await_task refreshCore)))"

definition installBinary :: "bool \<Rightarrow> cloud_action" where
  "installBinary force = Get (\<lambda>c. Set (\<lambda>s. s\<lparr>installing := True\<rparr>) (finally_do (alerting ''Install Failed''
     (bind (api c ''POST'' ''/install'' (Some (JObj [(''force'', JBool force)]))) (\<lambda>r.
       bind (lift_res (show_prop r ''message'')) (\<lambda>m.
         Set (alert (JStr (m @ '' (v'' @ prop_text r ''version'' @ '')'')) ''Engine Installed'' ''success'')
           (bind (await_task refreshCore) (\<lambda>_. set_state (\<lambda>s. s\<lparr>provider_loads := Suc (provider_loads s)\<rparr>)))))))
     (\<lambda>s. s\<lparr>installing := False\<rparr>)))"

section \<open>Remotes\<close>

definition remote_path :: "jsv \<Rightarrow> string" where
  "remote_path remote = ''/remotes/'' @ prop_text remote ''id''"

text \<open>\<open>Math.round(report.latency_ms / 1000000)\<close>.\<close>

definition nano_to_milli :: "jsv \<Rightarrow> string" where
  "nano_to_milli v = (case to_number v of JNum n \<Rightarrow> show_int \<lfloor>n / 1000000 + 1 / 2\<rfloor> | _ \<Rightarrow> ''NaN'')"

definition test_report :: "jsv \<Rightarrow> jsv \<Rightarrow> cloud_page \<Rightarrow> cloud_page" where
  "test_report remote report = (if truthy (opt_prop report ''ok'')
     then alert (JStr (''Connection OK '' @ em_dash @ '' '' @ prop_text report ''entries'' @ '' entries at root ('' @
       nano_to_milli (opt_prop report ''latency_ms'') @ '' ms)'')) (prop_text remote ''name'') ''success''
     else alert (js_or (opt_prop report ''detail'') (JStr ''Test failed'')) (prop_text remote ''name'') ''error'')"

definition testRemote :: "jsv \<Rightarrow> cloud_action" where
  "testRemote remote = Get (\<lambda>c. Set (\<lambda>s. s\<lparr>testingId := Some (opt_prop remote ''id'')\<rparr>) (finally_do (alerting ''Test Failed''
     (bind (api c ''POST'' (remote_path remote @ ''/test'') (Some (JObj []))) (\<lambda>report.
       bind (lift_res (get_prop report ''ok'')) (\<lambda>_. Set (test_report remote report) (await_task refreshCore)))))
     (\<lambda>s. s\<lparr>testingId := None\<rparr>)))"

definition deleteRemote :: "jsv \<Rightarrow> cloud_action" where
  "deleteRemote remote = Get (\<lambda>c.
     bind (ask_confirm (''Delete remote '' @ [CHR 0x22] @ prop_text remote ''name'' @ [CHR 0x22] @
       ''? Its upload history rows stay unless you also purge them.'')) (\<lambda>yes.
     if \<not> yes then Done ()
     else bind (ask_confirm (''Also purge the '' @ prop_text remote ''name'' @
         '' upload history rows (provider objects are never touched)?'')) (\<lambda>wipe.
       alerting ''Delete Failed''
         (bind (api c ''DELETE'' (remote_path remote @ (if wipe then ''?purge_uploads=1'' else [])) None) (\<lambda>_.
           Set (alert (JStr ''Remote deleted'') ''Deleted'' ''success'')
             (bind (await_task refreshCore) (\<lambda>_. await_task refreshUploads)))))))"

text \<open>The fields that are sent to change a remote.\<close>

definition remote_body :: "jsv \<Rightarrow> jsv \<Rightarrow> jsv \<Rightarrow> jsv \<Rightarrow> jsv \<Rightarrow> jsv \<Rightarrow> jsv" where
  "remote_body name type prefix flags enabled options = JObj [(''name'', name), (''type'', type), (''root_prefix'', prefix),
     (''extra_flags'', flags), (''enabled'', enabled), (''options'', options)]"

definition toggleRemoteEnabled :: "jsv \<Rightarrow> cloud_action" where
  "toggleRemoteEnabled remote = Get (\<lambda>c. alerting ''Toggle Failed''
     (bind (api c ''PUT'' (remote_path remote) (Some (remote_body (opt_prop remote ''name'') (opt_prop remote ''type'')
         (opt_prop remote ''root_prefix'') (opt_prop remote ''extra_flags'')
         (JBool (\<not> truthy (opt_prop remote ''enabled''))) (opt_prop remote ''options''))))
       (\<lambda>_. await_task refreshCore)))"

section \<open>The wizard\<close>

definition fill_wizard :: "jsv option \<Rightarrow> cloud_page \<Rightarrow> cloud_page" where
  "fill_wizard remote s =
     (let s1 = s\<lparr>editingRemote := remote, optionValues := [], showAdvanced := False, showSecrets := [], providerSearch := [],
        showWizard := True\<rparr> in
      case remote of
        Some r \<Rightarrow> s1\<lparr>wizardFlags := text_prop r ''extra_flags'', wizardPrefix := text_prop r ''root_prefix'',
          wizardEnabled := opt_prop r ''enabled'', wizardType := prop_text r ''type'', wizardName := prop_text r ''name'',
          optionValues := own_props (opt_prop r ''options''), wizardStep := 1\<rparr>
      | None \<Rightarrow> s1\<lparr>wizardFlags := [], wizardPrefix := [], wizardEnabled := JBool True, wizardType := [], wizardName := [],
          wizardStep := 0\<rparr>)"

definition openWizard :: "jsv option \<Rightarrow> cloud_action" where
  "openWizard remote = Get (\<lambda>c. Set (fill_wizard remote)
     (if providers c = [] then quietly (await_task (loadProviders False)) else Done ()))"

definition name_char :: "char \<Rightarrow> bool" where
  "name_char c \<longleftrightarrow> (97 \<le> (of_char c :: nat) \<and> (of_char c :: nat) \<le> 122) \<or> is_digit c \<or> c = CHR ''_'' \<or> c = CHR ''-''"

definition name_of_provider :: "string \<Rightarrow> string" where
  "name_of_provider n = (let short = take 24 (filter name_char n) in if short = [] then n else short)"

definition seed_options :: "jsv list \<Rightarrow> obj" where
  "seed_options opts = fold (\<lambda>p vs. if truthy (opt_prop p ''has_default'') \<and> truthy (opt_prop p ''default'')
     then AList.update (prop_text p ''name'') (opt_prop p ''default'') vs else vs) opts []"

definition provider_options :: "jsv \<Rightarrow> jsv list" where
  "provider_options p = list_or_empty (opt_prop p ''options'')"

definition pickProvider :: "jsv \<Rightarrow> cloud_page \<Rightarrow> cloud_page" where
  "pickProvider p s = s\<lparr>wizardType := prop_text p ''name'',
     wizardName := (if editingRemote s = None \<and> wizardName s = [] then name_of_provider (prop_text p ''name'') else wizardName s),
     optionValues := seed_options (provider_options p), wizardStep := 1\<rparr>"

definition activeProvider :: "cloud_page \<Rightarrow> jsv option" where
  "activeProvider s = find (\<lambda>p. prop_text p ''name'' = wizardType s) (providers s)"

definition missing_options :: "cloud_page \<Rightarrow> string list" where
  "missing_options s = (case activeProvider s of None \<Rightarrow> []
     | Some p \<Rightarrow> map (\<lambda>q. prop_text q ''name'') (filter (\<lambda>q. truthy (opt_prop q ''required'') \<and>
         trim (text_prop (JObj (optionValues s)) (prop_text q ''name'')) = []) (provider_options p)))"

definition wizard_body :: "cloud_page \<Rightarrow> jsv" where
  "wizard_body s = remote_body (JStr (to_lower (trim (wizardName s)))) (JStr (wizardType s)) (JStr (trim (wizardPrefix s)))
     (JStr (trim (wizardFlags s))) (wizardEnabled s) (JObj (optionValues s))"

definition saveRemote :: cloud_action where
  "saveRemote = Get (\<lambda>c.
     if trim (wizardName c) = [] then set_state (alert (JStr ''Remote name is required'') ''Validation'' ''warning'')
     else if missing_options c \<noteq> [] then set_state (\<lambda>s. (alert (JStr (''Missing required option(s): '' @
         join_with '', '' (missing_options c))) ''Validation'' ''warning'' s)\<lparr>wizardStep := 1\<rparr>)
     else Set (\<lambda>s. s\<lparr>savingRemote := True\<rparr>) (finally_do (alerting ''Save Failed''
       (bind (case editingRemote c of Some r \<Rightarrow> api c ''PUT'' (remote_path r) (Some (wizard_body c))
              | None \<Rightarrow> api c ''POST'' ''/remotes'' (Some (wizard_body c))) (\<lambda>_.
          Set (\<lambda>s. (alert (JStr (if editingRemote c = None then ''Remote created'' else ''Remote updated'')) ''Saved'' ''success'' s)
            \<lparr>showWizard := False\<rparr>) (await_task refreshCore))))
       (\<lambda>s. s\<lparr>savingRemote := False\<rparr>)))"

definition type_name :: "string \<Rightarrow> cloud_page \<Rightarrow> cloud_page" where
  "type_name v s = s\<lparr>wizardName := filter name_char (to_lower v)\<rparr>"

definition set_option :: "string \<Rightarrow> string \<Rightarrow> cloud_page \<Rightarrow> cloud_page" where
  "set_option k v s = s\<lparr>optionValues := AList.update k (JStr v) (optionValues s)\<rparr>"

definition toggle_secret :: "string \<Rightarrow> cloud_page \<Rightarrow> cloud_page" where
  "toggle_secret k s = s\<lparr>showSecrets := (if k \<in> set (showSecrets s) then filter (\<lambda>j. j \<noteq> k) (showSecrets s) else k # showSecrets s)\<rparr>"

definition can_go_back :: "cloud_page \<Rightarrow> bool" where
  "can_go_back s \<longleftrightarrow> \<not> (wizardStep s = 0 \<or> (editingRemote s \<noteq> None \<and> wizardStep s = 1))"

definition wizard_back :: "cloud_page \<Rightarrow> cloud_page" where
  "wizard_back s = (if can_go_back s then s\<lparr>wizardStep := wizardStep s - 1\<rparr> else s)"

text \<open>The button is there on the first two steps; on the first it needs a provider.\<close>

definition wizard_next :: "cloud_page \<Rightarrow> cloud_page" where
  "wizard_next s = (if wizardStep s < 2 \<and> \<not> (wizardStep s = 0 \<and> wizardType s = []) then s\<lparr>wizardStep := wizardStep s + 1\<rparr> else s)"

definition filteredProviders :: "cloud_page \<Rightarrow> jsv list" where
  "filteredProviders s = (if providerSearch s = [] then providers s
     else filter (\<lambda>p. includes_str (prop_text p ''name'') (to_lower (providerSearch s)) \<or>
       includes_str (to_lower (prop_text p ''description'')) (to_lower (providerSearch s))) (providers s))"

text \<open>The fields of an option: core ones, and the advanced ones behind a button; a mask marks an unchanged secret.\<close>

definition shown_options :: "cloud_page \<Rightarrow> jsv list" where
  "shown_options s = (case activeProvider s of None \<Rightarrow> []
     | Some p \<Rightarrow> filter (\<lambda>q. \<not> truthy (opt_prop q ''advanced'')) (provider_options p) @
         (if showAdvanced s then filter (\<lambda>q. truthy (opt_prop q ''advanced'')) (provider_options p) else []))"

definition bullets :: string where
  "bullets = concat (replicate 8 [CHR 0xE2, CHR 0x80, CHR 0xA2])"

definition is_masked :: "cloud_page \<Rightarrow> jsv \<Rightarrow> bool" where
  "is_masked s q \<longleftrightarrow> editingRemote s \<noteq> None \<and>
     js_coalesce (obj_get (optionValues s) (prop_text q ''name'')) (JStr []) =
       js_or (case status s of None \<Rightarrow> JUndef | Some st \<Rightarrow> opt_prop st ''secret_marker'') (JStr bullets)"

section \<open>Browsing a remote\<close>

definition browse :: "jsv \<Rightarrow> string \<Rightarrow> cloud_action" where
  "browse remote path = Get (\<lambda>c. Set (\<lambda>s. s\<lparr>browsing := True\<rparr>) (finally_do (alerting ''Listing Failed''
     (bind (api c ''POST'' (remote_path remote @ ''/list'') (Some (JObj [(''path'', JStr path), (''recursive'', JBool False)]))) (\<lambda>r.
       bind (lift_res (get_prop r ''entries'')) (\<lambda>es. set_state (\<lambda>s. s\<lparr>browseEntries := list_or_empty es, browsePath := path\<rparr>)))))
     (\<lambda>s. s\<lparr>browsing := False\<rparr>)))"

definition openBrowser :: "jsv \<Rightarrow> cloud_action" where
  "openBrowser remote = Set (\<lambda>s. s\<lparr>browseRemote := Some remote, browsePath := [], browseEntries := []\<rparr>)
     (await_task (browse remote []))"

text \<open>\<open>p.includes('/') ? p.slice(0, p.lastIndexOf('/')) : ''\<close>.\<close>

definition parent_path :: "string \<Rightarrow> string" where
  "parent_path p = join_with ''/'' (butlast (split_on CHR ''/'' p))"

definition child_path :: "string \<Rightarrow> string \<Rightarrow> string" where
  "child_path p n = (if p = [] then n else p @ ''/'' @ n)"

definition compare_entries :: "(string \<Rightarrow> string \<Rightarrow> int) \<Rightarrow> jsv \<Rightarrow> jsv \<Rightarrow> int" where
  "compare_entries collate a b = (if opt_prop a ''IsDir'' = opt_prop b ''IsDir'' then collate (prop_text a ''Name'') (prop_text b ''Name'')
     else if truthy (opt_prop a ''IsDir'') then - 1 else 1)"

definition sorted_entries :: "(string \<Rightarrow> string \<Rightarrow> int) \<Rightarrow> cloud_page \<Rightarrow> jsv list" where
  "sorted_entries collate s = js_sort (compare_entries collate) (browseEntries s)"

section \<open>Uploads\<close>

text \<open>A denied clipboard goes unnoticed.\<close>

definition copyLink :: "jsv \<Rightarrow> cloud_page \<Rightarrow> cloud_page" where
  "copyLink row s = (if truthy (opt_prop row ''public_link'')
     then s\<lparr>copiedId := Some (opt_prop row ''id''), copy_timers := Suc (copy_timers s)\<rparr> else s)"

definition copy_due :: "cloud_page \<Rightarrow> cloud_page" where
  "copy_due s = (if copy_timers s = 0 then s else s\<lparr>copiedId := None, copy_timers := copy_timers s - 1\<rparr>)"

definition upload_path :: "jsv \<Rightarrow> string" where
  "upload_path row = ''/uploads/'' @ prop_text row ''id''"

definition refreshLink :: "jsv \<Rightarrow> cloud_action" where
  "refreshLink row = Get (\<lambda>c. alerting ''Link Failed'' (bind (api c ''POST'' (upload_path row @ ''/link'') None) (\<lambda>r.
     bind (lift_res (get_prop r ''public_link'')) (\<lambda>l.
       Set (alert l ''Public Link Created'' ''success'') (await_task refreshUploads)))))"

definition deleteUpload :: "jsv \<Rightarrow> bool \<Rightarrow> cloud_action" where
  "deleteUpload row wipe = Get (\<lambda>c. bind (ask_confirm (if wipe
       then ''Delete the record AND remove '' @ [CHR 0x22] @ prop_text row ''remote_path'' @ [CHR 0x22] @ '' from the provider?''
       else ''Delete upload record #'' @ prop_text row ''id'' @ '' (the remote object stays)?'')) (\<lambda>yes.
     if \<not> yes then Done ()
     else alerting ''Delete Failed'' (bind (api c ''DELETE'' (upload_path row @ (if wipe then ''?purge=1'' else [])) None) (\<lambda>_.
       bind (await_task refreshUploads) (\<lambda>_. await_task refreshCore)))))"

definition last_part :: "string \<Rightarrow> string" where
  "last_part path = (case filter (\<lambda>w. w \<noteq> []) (split_on CHR ''/'' path) of [] \<Rightarrow> path | ws \<Rightarrow> last ws)"

section \<open>Indexed files\<close>

definition files_path :: "jsv \<Rightarrow> string \<Rightarrow> nat \<Rightarrow> string" where
  "files_path remote search offset = remote_path remote @ ''/files?'' @ form_query (given ''search'' search @ [(''limit'', ''200'')] @
     (if 0 < offset then [(''offset'', show_nat offset)] else []))"

definition take_files :: "nat \<Rightarrow> jsv \<Rightarrow> cloud_page \<Rightarrow> cloud_page" where
  "take_files offset r s = (let rows = list_or_empty (opt_prop r ''files'') in
     s\<lparr>fileRows := (if offset = 0 then rows else fileRows s @ rows), fileTotal := js_or (opt_prop r ''total'') (JNum 0),
       fileLastSync := js_or (opt_prop r ''last_sync_at'') JNull, fileOffset := offset + length rows\<rparr>)"

definition loadFiles :: "jsv \<Rightarrow> string \<Rightarrow> nat \<Rightarrow> cloud_action" where
  "loadFiles remote search offset = Get (\<lambda>c. Set (\<lambda>s. s\<lparr>filesLoading := True\<rparr>) (finally_do (alerting ''Loading Files Failed''
     (bind (api_get c (files_path remote search offset)) (\<lambda>r. bind (lift_res (get_prop r ''files''))
       (\<lambda>_. set_state (take_files offset r)))))
     (\<lambda>s. s\<lparr>filesLoading := False\<rparr>)))"

definition openFiles :: "jsv \<Rightarrow> cloud_action" where
  "openFiles remote = Set (\<lambda>s. s\<lparr>filesRemote := Some remote, fileSearch := [], fileRows := [], fileOffset := 0\<rparr>)
     (await_task (loadFiles remote [] 0))"

text \<open>The search field and the button for more, which is disabled while files load or when all are shown.\<close>

definition search_files :: cloud_action where
  "search_files = Get (\<lambda>c. case filesRemote c of None \<Rightarrow> Done () | Some r \<Rightarrow> loadFiles r (fileSearch c) 0)"

definition more_disabled :: "cloud_page \<Rightarrow> bool" where
  "more_disabled s \<longleftrightarrow> filesLoading s \<or> (case to_number (fileTotal s) of JNum n \<Rightarrow> n \<le> of_nat (length (fileRows s)) | _ \<Rightarrow> False)"

definition more_files :: cloud_action where
  "more_files = Get (\<lambda>c. case filesRemote c of None \<Rightarrow> Done ()
     | Some r \<Rightarrow> if more_disabled c then Done () else loadFiles r (fileSearch c) (fileOffset c))"

definition sync_message :: "jsv \<Rightarrow> string" where
  "sync_message r = ''Indexed '' @ prop_text r ''files_seen'' @ '' file(s) and '' @ prop_text r ''dirs_seen'' @ '' folder(s) '' @ em_dash
     @ '' '' @ prop_text r ''created'' @ '' new, '' @ prop_text r ''updated'' @ '' updated, '' @ prop_text r ''removed'' @ '' removed.''"

definition syncRemote :: "jsv \<Rightarrow> cloud_action" where
  "syncRemote remote = Get (\<lambda>c. Set (\<lambda>s. s\<lparr>syncingId := Some (opt_prop remote ''id'')\<rparr>) (finally_do (alerting ''Sync Failed''
     (bind (api c ''POST'' (remote_path remote @ ''/sync'') None) (\<lambda>r. bind (lift_res (get_prop r ''files_seen'')) (\<lambda>_.
       Set (alert (JStr (sync_message r)) (prop_text remote ''name'' @ '' synced'') ''success'')
         (bind (await_task refreshCore) (\<lambda>_.
           if (case filesRemote c of None \<Rightarrow> JUndef | Some f \<Rightarrow> opt_prop f ''id'') = opt_prop remote ''id''
           then await_task (loadFiles remote (fileSearch c) 0) else Done ()))))))
     (\<lambda>s. s\<lparr>syncingId := None\<rparr>)))"

definition download_name :: "jsv \<Rightarrow> string" where
  "download_name row = (let n = text_prop row ''name''; part = last (split_on CHR ''/'' (prop_text row ''path''))
     in if n \<noteq> [] then n else if part \<noteq> [] then part else ''download'')"

text \<open>The body of a good response is the file.\<close>

definition downloadFile :: "jsv \<Rightarrow> cloud_action" where
  "downloadFile row = Get (\<lambda>c. Set (\<lambda>s. s\<lparr>downloadingId := Some (opt_prop row ''id'')\<rparr>) (finally_do (alerting ''Download Failed''
     (bind (page_fetch (authed_get (token c) (''/api/rclone/files/'' @ prop_text row ''id'' @ ''/download''))) (\<lambda>(ok, b).
       Yield (if ok then set_state (\<lambda>s. s\<lparr>downloads := downloads s @ [download_name row]\<rparr>)
              else refuse (http_code c) (body_or_empty b)))))
     (\<lambda>s. s\<lparr>downloadingId := None\<rparr>)))"

definition fileLink :: "jsv \<Rightarrow> cloud_action" where
  "fileLink row = Get (\<lambda>c. Set (\<lambda>s. s\<lparr>fileLinkId := Some (opt_prop row ''id'')\<rparr>) (finally_do (alerting ''Link Failed''
     (bind (api c ''POST'' (''/files/'' @ prop_text row ''id'' @ ''/link'') None) (\<lambda>r. bind (lift_res (get_prop r ''public_link'')) (\<lambda>l.
       Set (alert l ''Public Link Created'' ''success'') (case filesRemote c of None \<Rightarrow> Done ()
         | Some f \<Rightarrow> await_task (loadFiles f (fileSearch c) 0))))))
     (\<lambda>s. s\<lparr>fileLinkId := None\<rparr>)))"

definition copyFileLink :: "jsv \<Rightarrow> cloud_page \<Rightarrow> cloud_page" where
  "copyFileLink row s = (if truthy (opt_prop row ''public_link'')
     then s\<lparr>copiedFileId := Some (opt_prop row ''id''), file_copy_timers := Suc (file_copy_timers s)\<rparr> else s)"

definition file_copy_due :: "cloud_page \<Rightarrow> cloud_page" where
  "file_copy_due s = (if file_copy_timers s = 0 then s else s\<lparr>copiedFileId := None, file_copy_timers := file_copy_timers s - 1\<rparr>)"

definition UPLOAD_STATUS :: "(string \<times> string \<times> string) list" where
  "UPLOAD_STATUS = [(''queued'', ''rgba(59,130,246,0.1)'', ''#3b82f6''), (''uploading'', ''rgba(245,158,11,0.1)'', ''#f59e0b''),
     (''success'', ''rgba(34,197,94,0.1)'', ''#22c55e''), (''failed'', ''rgba(239,68,68,0.1)'', ''#ef4444'')]"

definition UploadStatusBadge :: "string \<Rightarrow> string \<times> string" where
  "UploadStatusBadge st = (case map_of UPLOAD_STATUS st of Some c \<Rightarrow> c | None \<Rightarrow> the (map_of UPLOAD_STATUS ''queued''))"

end
