(* ===== verification/Cloud_Behaviour.thy ===== *)
theory Cloud_Behaviour
  imports Cloud_Page
begin

text \<open>
  Behaviour of the cloud storage page: an edit without changes gives a remote back as it was, the path of the browser is a
  stack of folders, the indexed files are read page by page, and what goes wrong.
\<close>

section \<open>Editing a remote\<close>

text \<open>A remote as the server keeps it: a trimmed name in lower case, trimmed texts, an object of options.\<close>

definition normal_remote :: "jsv \<Rightarrow> bool" where
  "normal_remote r \<longleftrightarrow> (\<exists>n ty p f kvs. opt_prop r ''name'' = JStr n \<and> trim n \<noteq> [] \<and> trim n = n \<and> to_lower n = n \<and>
     opt_prop r ''type'' = JStr ty \<and> opt_prop r ''root_prefix'' = JStr p \<and> trim p = p \<and>
     opt_prop r ''extra_flags'' = JStr f \<and> trim f = f \<and> opt_prop r ''options'' = JObj kvs)"

definition own_body :: "jsv \<Rightarrow> jsv" where
  "own_body r = remote_body (opt_prop r ''name'') (opt_prop r ''type'') (opt_prop r ''root_prefix'') (opt_prop r ''extra_flags'')
     (opt_prop r ''enabled'') (opt_prop r ''options'')"

lemma js_string_or_empty: "js_string (js_or (JStr t) (JStr [])) = t"
  by (cases "t = []") (simp_all add: js_or_def)

lemma wizard_body_filled: "normal_remote r \<Longrightarrow> wizard_body (fill_wizard (Some r) s) = own_body r"
  by (auto simp: normal_remote_def wizard_body_def fill_wizard_def own_body_def text_prop_def prop_text_def js_string_or_empty)

lemma wizard_next_body: "wizard_body (wizard_next s) = wizard_body s" "missing_options (wizard_next s) = missing_options s"
  "editingRemote (wizard_next s) = editingRemote s" "token (wizard_next s) = token s" "wizardName (wizard_next s) = wizardName s"
  by (simp_all add: wizard_next_def wizard_body_def missing_options_def activeProvider_def split: option.split)

lemma wizard_name_filled: "normal_remote r \<Longrightarrow> trim (wizardName (fill_wizard (Some r) s)) \<noteq> []"
  by (auto simp: normal_remote_def fill_wizard_def prop_text_def)

text \<open>Opening a remote in the wizard, going on to the last step and saving sends one change of this remote, whose fields
  are the remote's own ones, the options with their masked secrets among them, when the remote is as the server keeps it and
  its required options are filled.\<close>

theorem unchanged_edit_is_identity:
  assumes "normal_remote r" and "providers s \<noteq> []" and "missing_options (fill_wizard (Some r) s) = []"
  shows "requests saveRemote [] (wizard_next (final (openWizard (Some r)) [] s)) =
     [Http (api_request (token s) ''PUT'' (remote_path r) (Some (own_body r)))]"
proof -
  let ?s = "wizard_next (final (openWizard (Some r)) [] s)"
  have open1: "final (openWizard (Some r)) [] s = fill_wizard (Some r) s"
    using assms(2) by (simp add: openWizard_def final_def)
  have ed: "editingRemote ?s = Some r" "token ?s = token s" by (simp_all add: open1 wizard_next_body fill_wizard_def)
  have "trim (wizardName ?s) \<noteq> []" using wizard_name_filled [OF assms(1)] by (simp add: open1 wizard_next_body)
  moreover have "missing_options ?s = []" using assms(3) by (simp add: open1 wizard_next_body)
  moreover have "wizard_body ?s = own_body r" using wizard_body_filled [OF assms(1)] by (simp add: open1 wizard_next_body)
  ultimately show ?thesis
    using ed by (simp add: saveRemote_def requests_def alerting_def api_def api_call_def await_task_def page_fetch_def)
qed

lemma unchanged_edit_is_identity_witness:
  "let r = JObj [(''id'', JNum 3), (''name'', JStr ''box''), (''type'', JStr ''s3''), (''root_prefix'', JStr []),
       (''extra_flags'', JStr ''-v''), (''enabled'', JBool True), (''options'', JObj [(''key'', JStr ''***'')])];
       s = (init_cloud ''t'' [])\<lparr>providers := [JObj [(''name'', JStr ''s3''), (''options'', JArr [JObj [(''name'', JStr ''key''),
         (''required'', JBool True)]])]]\<rparr>
   in requests saveRemote [] (wizard_next (final (openWizard (Some r)) [] s)) =
     [Http (api_request (token s) ''PUT'' (remote_path r) (Some (own_body r)))]"
  unfolding Let_def
  by (rule unchanged_edit_is_identity)
    (simp_all add: normal_remote_def opt_prop_def init_cloud_def missing_options_def activeProvider_def fill_wizard_def
      prop_text_def text_prop_def provider_options_def list_or_empty_def js_or_def trim_def is_space_def to_lower_def to_lower_char_def)

section \<open>The browser is a stack\<close>

datatype move = Down string | Up

primrec stack_move :: "move \<Rightarrow> string list \<Rightarrow> string list" where
  "stack_move (Down n) ns = ns @ [n]"
| "stack_move Up ns = butlast ns"

definition target :: "move \<Rightarrow> cloud_page \<Rightarrow> string" where
  "target m s = (case m of Down n \<Rightarrow> child_path (browsePath s) n | Up \<Rightarrow> parent_path (browsePath s))"

text \<open>A server that lists every folder.\<close>

definition listing :: "(string \<Rightarrow> jsv list) \<Rightarrow> string \<Rightarrow> answer" where
  "listing srv p = Replied (Response True (JsonOk (JObj [(''entries'', JArr (srv p))])))"

definition go :: "(string \<Rightarrow> jsv list) \<Rightarrow> jsv \<Rightarrow> move \<Rightarrow> cloud_page \<Rightarrow> cloud_page" where
  "go srv r m s = final (browse r (target m s)) [listing srv (target m s)] s"

definition folder_name :: "string \<Rightarrow> bool" where
  "folder_name n \<longleftrightarrow> n \<noteq> [] \<and> CHR ''/'' \<notin> set n"

definition valid_move :: "move \<Rightarrow> bool" where
  "valid_move m \<longleftrightarrow> (case m of Down n \<Rightarrow> folder_name n | Up \<Rightarrow> True)"

lemma join_empty: "list_all folder_name ns \<Longrightarrow> join_with ''/'' ns = [] \<longleftrightarrow> ns = []"
  by (cases ns; cases "tl ns") (auto simp: folder_name_def)

lemma child_of_stack: "list_all folder_name ns \<Longrightarrow> child_path (join_with ''/'' ns) n = join_with ''/'' (ns @ [n])"
  using join_empty [of ns] by (simp add: child_path_def join_with_snoc)

lemma parent_of_stack: "list_all folder_name ns \<Longrightarrow> parent_path (join_with ''/'' ns) = join_with ''/'' (butlast ns)"
proof (cases "ns = []")
  case False
  assume "list_all folder_name ns"
  then have "split_on CHR ''/'' (join_with ''/'' ns) = ns"
    using False by (intro split_join) (auto simp: list_all_iff folder_name_def)
  then show ?thesis by (simp add: parent_path_def)
qed (simp add: parent_path_def)

lemma browse_run:
  "final (browse r p) [listing srv p] s = s\<lparr>browseEntries := srv p, browsePath := p, browsing := False\<rparr>"
  by (simp add: browse_def listing_def final_def alerting_def api_def api_call_def await_task_def page_fetch_def body_or_empty_def
      lift_res_def list_or_empty_def)



section \<open>Reading the index\<close>

definition page_answer :: "jsv list \<Rightarrow> nat \<Rightarrow> answer" where
  "page_answer fs n = Replied (Response True (JsonOk (JObj [(''files'', JArr (take 200 (drop n fs))), (''total'', JNum (of_nat (length fs)))])))"

text \<open>A click on the button for more, which the server answers.\<close>

definition click_more :: "jsv list \<Rightarrow> cloud_page \<Rightarrow> cloud_page" where
  "click_more fs s = final more_files [page_answer fs (fileOffset s)] s"

lemma load_run:
  "final (loadFiles r q n) [page_answer fs n] s = s\<lparr>fileRows := (if n = 0 then take 200 fs else fileRows s @ take 200 (drop n fs)),
     fileTotal := (if fs = [] then JNum 0 else JNum (of_nat (length fs))), fileLastSync := JNull,
     fileOffset := n + length (take 200 (drop n fs)), filesLoading := False\<rparr>"
  by (simp add: loadFiles_def page_answer_def final_def alerting_def api_get_def api_call_def await_task_def page_fetch_def
      body_or_empty_def lift_res_def take_files_def list_or_empty_def opt_prop_def js_or_def Let_def)

definition shows_index :: "jsv list \<Rightarrow> jsv \<Rightarrow> nat \<Rightarrow> cloud_page \<Rightarrow> bool" where
  "shows_index fs r n s \<longleftrightarrow> fileRows s = take n fs \<and> fileOffset s = min n (length fs) \<and> fileTotal s = JNum (of_nat (length fs)) \<and>
     filesRemote s = Some r \<and> \<not> filesLoading s"

lemma more_disabled_index: "shows_index fs r n s \<Longrightarrow> more_disabled s \<longleftrightarrow> length fs \<le> n"
  by (auto simp: shows_index_def more_disabled_def)

lemma click_more_shows:
  assumes "shows_index fs r n s" and "0 < n"
  shows "shows_index fs r (n + 200) (click_more fs s)"
proof (cases "length fs \<le> n")
  case True
  then have "click_more fs s = s"
    using assms more_disabled_index [OF assms(1)] by (simp add: click_more_def more_files_def final_def shows_index_def)
  then show ?thesis using assms True by (simp add: shows_index_def)
next
  case False
  then have off: "fileOffset s = n" using assms(1) by (simp add: shows_index_def)
  have more: "click_more fs s = final (loadFiles r (fileSearch s) n) [page_answer fs n] s"
    using False assms(1) more_disabled_index [OF assms(1)] off by (simp add: click_more_def more_files_def final_def shows_index_def)
  have rows: "take n fs @ take 200 (drop n fs) = take (n + 200) fs" by (simp add: take_add)
  have len: "n + min 200 (length fs - n) = min (n + 200) (length fs)" "fs \<noteq> []" using False by auto
  show ?thesis
    unfolding more load_run shows_index_def
    using assms rows len False by (auto simp: shows_index_def)
qed

text \<open>While the index of a remote and the search do not change, opening it and asking n times for more shows its first
  200 (n + 1) files, each once and in order; the button for more is off exactly when all of them are shown.\<close>

theorem index_read_in_pages:
  assumes "s = (click_more fs ^^ n) (final (openFiles r) [page_answer fs 0] s0)"
  shows "fileRows s = take (200 * (n + 1)) fs \<and> (more_disabled s \<longleftrightarrow> fileRows s = fs) \<and> \<not> filesLoading s"
proof -
  have start: "shows_index fs r 200 (final (openFiles r) [page_answer fs 0] s0)"
    by (auto simp: shows_index_def openFiles_def loadFiles_def page_answer_def final_def alerting_def api_get_def api_call_def
        await_task_def page_fetch_def body_or_empty_def lift_res_def take_files_def list_or_empty_def opt_prop_def js_or_def Let_def)
  have "shows_index fs r (200 * (n + 1)) ((click_more fs ^^ n) (final (openFiles r) [page_answer fs 0] s0))" for n
  proof (induction n)
    case (Suc n)
    then show ?case using click_more_shows [OF Suc.IH] by (simp add: algebra_simps)
  qed (simp add: start)
  then have i: "shows_index fs r (200 * (n + 1)) s" using assms by simp
  then show ?thesis using more_disabled_index [OF i] by (auto simp: shows_index_def)
qed

lemma index_read_in_pages_witness:
  "let fs = [JNum 1, JNum 2]; s = (click_more fs ^^ 1) (final (openFiles JNull) [page_answer fs 0] (init_cloud ''t'' []))
   in fileRows s = take (200 * (1 + 1)) fs \<and> (more_disabled s \<longleftrightarrow> fileRows s = fs) \<and> \<not> filesLoading s"
  unfolding Let_def by (rule index_read_in_pages [OF refl])

section \<open>What goes wrong\<close>

text \<open>A text typed into the search field, not yet searched for, is used for the next page, whose offset counts the rows of
  the old search; what it finds is appended to these.\<close>

lemma more_mixes_searches:
  assumes "filesRemote s = Some r" and "\<not> more_disabled s" and "0 < fileOffset s"
  shows "requests more_files [] (s\<lparr>fileSearch := q\<rparr>) =
      [Http (http_get (''/api/rclone'' @ files_path r q (fileOffset s)) [json_header, auth_header (token s)])] \<and>
    fileRows (final more_files [page_answer fs (fileOffset s)] (s\<lparr>fileSearch := q\<rparr>)) = fileRows s @ take 200 (drop (fileOffset s) fs)"
proof -
  have en: "\<not> more_disabled (s\<lparr>fileSearch := q\<rparr>)" using assms(2) by (cases "to_number (fileTotal s)") (simp_all add: more_disabled_def)
  have "final more_files [page_answer fs (fileOffset s)] (s\<lparr>fileSearch := q\<rparr>) =
      final (loadFiles r q (fileOffset s)) [page_answer fs (fileOffset s)] (s\<lparr>fileSearch := q\<rparr>)"
    using en assms(1) by (simp add: more_files_def final_def)
  then have "fileRows (final more_files [page_answer fs (fileOffset s)] (s\<lparr>fileSearch := q\<rparr>)) = fileRows s @ take 200 (drop (fileOffset s) fs)"
    using assms(3) by (simp add: load_run)
  moreover have "requests more_files [] (s\<lparr>fileSearch := q\<rparr>) =
      [Http (http_get (''/api/rclone'' @ files_path r q (fileOffset s)) [json_header, auth_header (token s)])]"
    using en assms(1)
    by (simp add: more_files_def requests_def loadFiles_def alerting_def api_get_def api_call_def await_task_def page_fetch_def)
  ultimately show ?thesis by blast
qed

text \<open>A listing that arrives after another remote was opened is shown as that remote's.\<close>

lemma stale_listing_shown:
  "\<exists>k s1. turn (browse r p) s = (Await (Http (api_request (token s) ''POST'' (remote_path r @ ''/list'')
       (Some (JObj [(''path'', JStr p), (''recursive'', JBool False)])))) k, s1) \<and>
     (\<forall>s2 es. final (k (Replied (Response True (JsonOk (JObj [(''entries'', JArr es)]))))) [] s2 =
       s2\<lparr>browseEntries := es, browsePath := p, browsing := False\<rparr>)"
  by (simp add: browse_def final_def alerting_def api_def api_call_def await_task_def page_fetch_def body_or_empty_def
      lift_res_def list_or_empty_def)

text \<open>The end of one test takes the mark from another that still runs.\<close>

lemma test_mark_taken:
  "testingId (final (testRemote r) [Replied (Rejected e)] s) = None"
  by (simp add: testRemote_def final_def alerting_def api_def api_call_def await_task_def page_fetch_def)

text \<open>Without the list of providers, which may fail to load, no required option is missed.\<close>

lemma required_unchecked: "providers s = [] \<Longrightarrow> missing_options s = []"
  by (simp add: missing_options_def activeProvider_def)

end
