(* ===== verification/Folder_Picker.thy ===== *)
theory Folder_Picker
  imports Files_Lib Page
begin

text \<open>
  What the pages that download to the server share: the list of links of a text field, and the dialog that picks a folder. The
  dialog is a record inside the state of its page; the locale \<open>picker_host\<close> says how a page holds it, and the lemmas on the
  walk through the folders are proved under it. A listing that nobody awaits is an entry of a list, its answer an event.
\<close>

section \<open>Links\<close>

text \<open>\<open>text.split(/[\r\n]+/).map(u => u.trim()).filter(Boolean)\<close>: the empty pieces between adjacent separators are filtered out
  with the blank ones.\<close>

definition links_of :: "string \<Rightarrow> string list" where
  "links_of text = filter (\<lambda>u. u \<noteq> [])
     (map trim (split_on (CHR 0x0A) (map (\<lambda>c. if c = CHR 0x0D then CHR 0x0A else c) text)))"

section \<open>The dialog\<close>

record picker =
  currentPath :: string
  directories :: "string list"
  newFolderName :: string
  showNewFolderInput :: bool
  showFolderModal :: bool
  dir_requests :: "string list"

definition init_picker :: picker where
  "init_picker = \<lparr>currentPath = ''/'', directories = [], newFolderName = [], showNewFolderInput = False,
     showFolderModal = False, dir_requests = []\<rparr>"

definition fetchDirectories :: "string \<Rightarrow> picker \<Rightarrow> picker" where
  "fetchDirectories path p = p\<lparr>dir_requests := dir_requests p @ [path]\<rparr>"

definition dir_request :: "string \<Rightarrow> string \<Rightarrow> request" where
  "dir_request tok path = authed_get tok (''/api/files/list?path='' @ encodeURIComponent path)"

text \<open>The body of a good answer: the entries with their names and whether they are folders, and the path.\<close>

definition folder_names :: "jsv \<Rightarrow> string list" where
  "folder_names data = (case js_or (opt_prop data ''files'') (JArr []) of
     JArr fs \<Rightarrow> map (\<lambda>f. js_string (opt_prop f ''name'')) (filter (\<lambda>f. truthy (opt_prop f ''is_dir'')) fs) | _ \<Rightarrow> [])"

definition directories_reply :: "nat \<Rightarrow> jsv option \<Rightarrow> picker \<Rightarrow> picker" where
  "directories_reply i r p = (if length (dir_requests p) \<le> i then p else
     let p1 = p\<lparr>dir_requests := drop_nth i (dir_requests p)\<rparr> in
     case r of None \<Rightarrow> p1
     | Some data \<Rightarrow> if nullish data then p1
         else p1\<lparr>directories := folder_names data, currentPath := js_string (js_or (opt_prop data ''current_path'') (JStr ''/''))\<rparr>)"

text \<open>Opened at the folder that the form has, or where the dialog was last.\<close>

definition openFolderPicker :: "jsv \<Rightarrow> picker \<Rightarrow> picker" where
  "openFolderPicker dir p = (fetchDirectories (js_string (js_or dir (JStr (currentPath p)))) p)\<lparr>showFolderModal := True\<rparr>"

definition handleDirUp :: "picker \<Rightarrow> picker" where
  "handleDirUp p = (if currentPath p = ''/'' \<or> currentPath p = [] then p else fetchDirectories (parent_path (currentPath p)) p)"

definition handleDirSelect :: "string \<Rightarrow> picker \<Rightarrow> picker" where
  "handleDirSelect name p = fetchDirectories (child_path (currentPath p) name) p"

definition folder_body :: "picker \<Rightarrow> jsv" where
  "folder_body p = JObj [(''parent_path'', JStr (currentPath p)), (''folder_name'', JStr (newFolderName p))]"

text \<open>Creating a folder, for a page that holds the dialog as \<open>get\<close> and \<open>upd\<close> say; the pages differ in what they do when the
  server refuses.\<close>

definition handleCreateDirectory :: "('s \<Rightarrow> picker) \<Rightarrow> ((picker \<Rightarrow> picker) \<Rightarrow> 's \<Rightarrow> 's) \<Rightarrow> ('s \<Rightarrow> string) \<Rightarrow>
    (body \<Rightarrow> ('s, unit) page_action) \<Rightarrow> ('s, unit) page_action" where
  "handleCreateDirectory get upd tok refused = Get (\<lambda>c. if trim (newFolderName (get c)) = [] then Done () else quietly
     (bind (page_fetch (post_json (tok c) ''/api/files/create-folder'' (folder_body (get c)))) (\<lambda>(ok, b).
        if ok then set_state (upd (\<lambda>p. fetchDirectories (currentPath (get c)) (p\<lparr>newFolderName := [], showNewFolderInput := False\<rparr>)))
        else refused b)))"

section \<open>Walking through the folders\<close>

text \<open>A server that lists the folder it is asked for.\<close>

definition honest_listing :: "string \<Rightarrow> jsv \<Rightarrow> bool" where
  "honest_listing path data \<longleftrightarrow> opt_prop data ''current_path'' = JStr path"

lemma honest_not_nullish: "honest_listing path data \<Longrightarrow> \<not> nullish data"
  by (cases data) (auto simp: honest_listing_def opt_prop_def)

lemma answered_path:
  assumes "i < length (dir_requests p)" and "honest_listing path data" and "path \<noteq> []"
  shows "currentPath (directories_reply i (Some data) p) = path"
  using assms honest_not_nullish [OF assms(2)] by (simp add: directories_reply_def honest_listing_def js_or_def Let_def)

locale picker_host =
  fixes get :: "'s \<Rightarrow> picker"
    and upd :: "(picker \<Rightarrow> picker) \<Rightarrow> 's \<Rightarrow> 's"
  assumes get_upd: "get (upd f s) = f (get s)"
begin

text \<open>A step into a folder and its answer, and the step up and its answer, lead back.\<close>

definition walk :: "(picker \<Rightarrow> picker) \<Rightarrow> jsv \<Rightarrow> 's \<Rightarrow> 's" where
  "walk f data s = upd (directories_reply (length (dir_requests (get s))) (Some data)) (upd f s)"

lemma walk_select:
  assumes "honest_listing (child_path (currentPath (get s)) name) data"
  shows "currentPath (get (walk (handleDirSelect name) data s)) = child_path (currentPath (get s)) name"
proof -
  have "child_path (currentPath (get s)) name \<noteq> []" by (simp add: child_path_def)
  then show ?thesis using assms by (simp add: walk_def get_upd handleDirSelect_def fetchDirectories_def answered_path)
qed

lemma walk_up:
  assumes "currentPath (get s) \<noteq> ''/''" and "clean_path (currentPath (get s))"
    and "honest_listing (parent_path (currentPath (get s))) data"
  shows "currentPath (get (walk handleDirUp data s)) = parent_path (currentPath (get s))"
proof -
  have "parent_path (currentPath (get s)) \<noteq> []" "currentPath (get s) \<noteq> []"
    using clean_nonempty [OF clean_parent [OF assms(2)]] clean_nonempty [OF assms(2)] by auto
  then show ?thesis using assms by (simp add: walk_def get_upd handleDirUp_def fetchDirectories_def answered_path)
qed

lemma down_and_up:
  assumes "clean_path (currentPath (get s))" and "name \<noteq> []" and "CHR ''/'' \<notin> set name"
    and "honest_listing (child_path (currentPath (get s)) name) d1" and "honest_listing (currentPath (get s)) d2"
  shows "currentPath (get (walk handleDirUp d2 (walk (handleDirSelect name) d1 s))) = currentPath (get s)"
proof -
  let ?t = "walk (handleDirSelect name) d1 s"
  have t: "currentPath (get ?t) = child_path (currentPath (get s)) name" by (rule walk_select [OF assms(4)])
  have home: "parent_path (currentPath (get ?t)) = currentPath (get s)" unfolding t by (rule parent_child [OF assms(1-3)])
  have "currentPath (get ?t) \<noteq> ''/''" using assms(2) by (auto simp: t child_path_def append_eq_Cons_conv)
  moreover have "clean_path (currentPath (get ?t))" unfolding t by (rule clean_path.child [OF assms(1-3)])
  ultimately show ?thesis using walk_up [of ?t d2] assms(5) by (simp add: home)
qed

lemma create_asks_again:
  assumes "trim (newFolderName (get s)) \<noteq> []"
  shows "get (final (handleCreateDirectory get upd tok refused) [Replied (Response True b)] s) =
     fetchDirectories (currentPath (get s)) ((get s)\<lparr>newFolderName := [], showNewFolderInput := False\<rparr>)"
  using assms by (simp add: handleCreateDirectory_def final_def quietly_def page_fetch_def get_upd)

end

end
