(* ===== verification/Leech_Page.thy ===== *)
theory Leech_Page
  imports Folder_Picker Jobs_Store
begin

text \<open>
  The leech page (\<open>web/client/src/pages/LeechPage.tsx\<close>; the server's copy differs in titles and in the markup of a row):
  downloads to the server, over the model of the jobs store. The dialog for folders is the one of \<open>Folder_Picker\<close>.
\<close>

section \<open>State\<close>

record leech_page =
  token :: string
  jobs :: jobs_state
  hoveredJobId :: "jsv option"
  dismissedOverlays :: "jsv list"
  config :: jsv
  showAddModal :: bool
  showConfigModal :: bool
  downloadUrl :: string
  saveDir :: jsv
  filename :: string
  threads :: jsv
  downloadUsername :: string
  downloadPassword :: string
  usePremium :: bool
  isAdding :: bool
  addingProgress :: string
  folders :: picker
  config_requests :: "jsv list"
  alerts :: "(string \<times> string) list"

definition default_config :: jsv where
  "default_config = JObj [(''default_save_path'', JStr ''./downloads''), (''max_concurrent'', JNum 3), (''threads_per_job'', JNum 8),
     (''user_agent'', JStr ''CleverConnect/1.0''), (''proxy_url'', JStr []), (''auto_upload_to_telegram'', JBool False),
     (''auto_upload_chat_id'', JNum 0)]"

definition init_leech :: "string \<Rightarrow> jobs_state \<Rightarrow> leech_page" where
  "init_leech tok js = \<lparr>token = tok, jobs = js, hoveredJobId = None, dismissedOverlays = [], config = default_config,
     showAddModal = False, showConfigModal = False, downloadUrl = [], saveDir = JStr [], filename = [], threads = JNum 8,
     downloadUsername = [], downloadPassword = [], usePremium = False, isAdding = False, addingProgress = [],
     folders = init_picker, config_requests = [], alerts = []\<rparr>"

type_synonym leech_action = "(leech_page, unit) page_action"

definition tell :: "(string \<times> jsv) list \<Rightarrow> leech_page \<Rightarrow> leech_page" where
  "tell cmd s = s\<lparr>jobs := sendAction (JObj cmd) (jobs s)\<rparr>"

section \<open>Settings\<close>

text \<open>A request for the settings keeps the directory of its closure.\<close>

definition fetchConfig :: "jsv \<Rightarrow> leech_page \<Rightarrow> leech_page" where
  "fetchConfig dir s = s\<lparr>config_requests := config_requests s @ [dir]\<rparr>"

definition config_arrived :: "nat \<Rightarrow> jsv option \<Rightarrow> leech_page \<Rightarrow> leech_page" where
  "config_arrived i r s = (if length (config_requests s) \<le> i then s else
     let dir = config_requests s ! i; s1 = s\<lparr>config_requests := drop_nth i (config_requests s)\<rparr> in
     case r of None \<Rightarrow> s1
     | Some data \<Rightarrow> (let s2 = s1\<lparr>config := data\<rparr> in
         if truthy dir then s2
         else case get_prop data ''default_save_path'' of Inl e \<Rightarrow> s2 | Inr d \<Rightarrow> s2\<lparr>saveDir := d\<rparr>))"

definition mounted :: "bool \<Rightarrow> leech_page \<Rightarrow> leech_page" where
  "mounted throws s = (if token s \<noteq> []
     then fetchConfig (saveDir s) (s\<lparr>jobs := initWebSocket throws (token s) (jobs s)\<rparr>) else s)"

definition unmounted :: "leech_page \<Rightarrow> leech_page" where
  "unmounted s = (if token s \<noteq> [] then s\<lparr>jobs := cleanup_jobs (jobs s)\<rparr> else s)"

definition set_config :: "string \<Rightarrow> jsv \<Rightarrow> leech_page \<Rightarrow> leech_page" where
  "set_config k v s = s\<lparr>config := obj_put k v (config s)\<rparr>"

text \<open>\<open>parseInt(v) || d\<close>: 1 for the two counts, 0 for the chat.\<close>

definition set_number :: "string \<Rightarrow> int \<Rightarrow> string \<Rightarrow> leech_page \<Rightarrow> leech_page" where
  "set_number k d v = set_config k (JNum (of_int (case parse_int v of None \<Rightarrow> d | Some n \<Rightarrow> if n = 0 then d else n)))"

definition toggle_upload :: "leech_page \<Rightarrow> leech_page" where
  "toggle_upload s = set_config ''auto_upload_to_telegram'' (JBool (\<not> truthy (opt_prop (config s) ''auto_upload_to_telegram''))) s"

definition handleSaveConfig :: leech_action where
  "handleSaveConfig = Get (\<lambda>c. quietly (bind (page_fetch (post_json (token c) ''/api/leech/config'' (config c))) (\<lambda>(ok, b).
     if ok then set_state (\<lambda>s. fetchConfig (saveDir c) (s\<lparr>showConfigModal := False\<rparr>)) else Done ())))"

section \<open>Folders\<close>

definition on_folders :: "(picker \<Rightarrow> picker) \<Rightarrow> leech_page \<Rightarrow> leech_page" where
  "on_folders f s = s\<lparr>folders := f (folders s)\<rparr>"

definition open_picker :: "leech_page \<Rightarrow> leech_page" where
  "open_picker s = on_folders (openFolderPicker (saveDir s)) s"

definition create_refused :: "body \<Rightarrow> leech_action" where
  "create_refused b = bind (api_error b ''Unknown error'') (\<lambda>e.
     set_state (\<lambda>s. s\<lparr>alerts := alerts s @ [(''Directory Creation'', ''Failed: '' @ js_string e)]\<rparr>))"

definition create_directory :: leech_action where
  "create_directory = handleCreateDirectory folders on_folders token create_refused"

definition confirm_folder :: "leech_page \<Rightarrow> leech_page" where
  "confirm_folder s = on_folders (\<lambda>p. p\<lparr>showFolderModal := False\<rparr>) (s\<lparr>saveDir := JStr (currentPath (folders s))\<rparr>)"

interpretation leech_folders: picker_host folders on_folders
  by unfold_locales (simp add: on_folders_def)

section \<open>Adding downloads\<close>

text \<open>The range of the threads has whole numbers from 1 to 32.\<close>

definition set_threads :: "string \<Rightarrow> leech_page \<Rightarrow> leech_page" where
  "set_threads v s = s\<lparr>threads := (case parse_int v of None \<Rightarrow> JNaN | Some n \<Rightarrow> JNum (of_int n))\<rparr>"

text \<open>The body for one link; the name of the file is sent when there is one link only.\<close>

definition add_body :: "leech_page \<Rightarrow> string \<Rightarrow> jsv" where
  "add_body c url = JObj ([(''url'', JStr url), (''save_directory'', saveDir c), (''threads'', threads c),
       (''username'', JStr (downloadUsername c)), (''password'', JStr (downloadPassword c)), (''use_premium'', JBool (usePremium c))]
     @ (if length (links_of (downloadUrl c)) = 1 \<and> trim (filename c) \<noteq> [] then [(''filename'', JStr (filename c))] else []))"

definition add_request :: "leech_page \<Rightarrow> string \<Rightarrow> request" where
  "add_request c url = post_json (token c) ''/api/leech/add'' (add_body c url)"

definition adding_text :: "nat \<Rightarrow> nat \<Rightarrow> string" where
  "adding_text i n = ''Adding '' @ show_nat (i + 1) @ ''/'' @ show_nat n @ ''...''"

text \<open>A refusal is read, so that a body that is no JSON ends the loop, and only logged.\<close>

definition add_one :: "leech_page \<Rightarrow> nat \<Rightarrow> nat \<times> string \<Rightarrow> leech_action" where
  "add_one c n = (\<lambda>(i, url). Set (\<lambda>s. s\<lparr>addingProgress := adding_text i n\<rparr>)
     (bind (page_fetch (add_request c url)) (\<lambda>(ok, b).
        if ok then Done () else bind (read_json b) (\<lambda>data. bind (lift_res (get_prop data ''error'')) (\<lambda>_. Done ())))))"

definition clear_form :: "leech_page \<Rightarrow> leech_page" where
  "clear_form s = s\<lparr>showAddModal := False, downloadUrl := [], filename := [], downloadUsername := [], downloadPassword := [],
     usePremium := False\<rparr>"

definition handleAddJob :: leech_action where
  "handleAddJob = Get (\<lambda>c. let urls = links_of (downloadUrl c) in if urls = [] then Done ()
     else Set (\<lambda>s. s\<lparr>isAdding := True\<rparr>) (finally_do (quietly
       (bind (for_each (add_one c (length urls)) (enumerate 0 urls)) (\<lambda>_. set_state clear_form)))
       (\<lambda>s. s\<lparr>isAdding := False, addingProgress := []\<rparr>)))"

definition toggle_premium :: "leech_page \<Rightarrow> leech_page" where
  "toggle_premium s = (if isAdding s then s else s\<lparr>usePremium := \<not> usePremium s\<rparr>)"

definition add_disabled :: "leech_page \<Rightarrow> bool" where
  "add_disabled s \<longleftrightarrow> trim (downloadUrl s) = [] \<or> isAdding s"

section \<open>Jobs\<close>

definition job_is :: "jsv \<Rightarrow> string \<Rightarrow> bool" where
  "job_is job st \<longleftrightarrow> opt_prop job ''status'' = JStr st"

definition handleToggleJob :: "jsv \<Rightarrow> leech_page \<Rightarrow> leech_page" where
  "handleToggleJob job = tell [(''action'', JStr (if job_is job ''downloading'' then ''pause_leech'' else ''resume_leech'')),
     (''job_id'', opt_prop job ''id'')]"

definition delete_command :: "jsv \<Rightarrow> bool \<Rightarrow> (string \<times> jsv) list" where
  "delete_command i with_files = [(''action'', JStr ''delete_leech''), (''job_id'', i), (''delete_files'', JBool with_files)]"

definition handleDeleteJob :: "jsv \<Rightarrow> bool \<Rightarrow> leech_action" where
  "handleDeleteJob i with_files = bind (ask_confirm ''Are you sure you want to delete this download job?'') (\<lambda>yes.
     if yes then set_state (tell (delete_command i with_files)) else Done ())"

section \<open>Rows\<close>

definition fileMissing :: "jsv \<Rightarrow> bool" where
  "fileMissing job \<longleftrightarrow> job_is job ''completed'' \<and> opt_prop job ''file_exists'' = JBool False"

definition showOverlay :: "leech_page \<Rightarrow> jsv \<Rightarrow> bool" where
  "showOverlay s job \<longleftrightarrow> fileMissing job \<and> hoveredJobId s = Some (opt_prop job ''id'') \<and>
     opt_prop job ''id'' \<notin> set (dismissedOverlays s)"

definition enter_row :: "jsv \<Rightarrow> leech_page \<Rightarrow> leech_page" where
  "enter_row i s = s\<lparr>hoveredJobId := Some i\<rparr>"

definition leave_row :: "jsv \<Rightarrow> leech_page \<Rightarrow> leech_page" where
  "leave_row i s = s\<lparr>hoveredJobId := None, dismissedOverlays := filter (\<lambda>j. j \<noteq> i) (dismissedOverlays s)\<rparr>"

definition dismiss :: "jsv \<Rightarrow> leech_page \<Rightarrow> leech_page" where
  "dismiss i s = s\<lparr>dismissedOverlays := List.insert i (dismissedOverlays s)\<rparr>"

definition url_text :: "string \<Rightarrow> string" where
  "url_text url = (if 55 < length url then take 55 url @ ''...'' else url)"

definition download_href :: "string \<Rightarrow> jsv \<Rightarrow> string" where
  "download_href tok job = ''/api/files/download?path='' @
     encodeURIComponent (js_string (opt_prop job ''save_directory'') @ ''/'' @ js_string (opt_prop job ''filename'')) @
     ''&token='' @ encodeURIComponent tok"

text \<open>The hundred blocks of a job with its progress in per cent and its threads.\<close>

datatype block = Pending | Completed | Downloading

definition completed_count :: "rat \<Rightarrow> int" where
  "completed_count progress = \<lfloor>progress / 100 * 100\<rfloor>"

definition active_threads :: "bool \<Rightarrow> int \<Rightarrow> int" where
  "active_threads downloading n = (if downloading then max 1 n else 0)"

definition block_at :: "rat \<Rightarrow> bool \<Rightarrow> int \<Rightarrow> nat \<Rightarrow> block" where
  "block_at progress downloading n i = (if int i < completed_count progress then Completed
     else if downloading \<and> int i < completed_count progress + active_threads downloading n then Downloading else Pending)"

definition blocks :: "rat \<Rightarrow> bool \<Rightarrow> int \<Rightarrow> block list" where
  "blocks progress downloading n = map (block_at progress downloading n) [0..<100]"

definition blocks_text :: "jsv \<Rightarrow> int \<Rightarrow> string" where
  "blocks_text job n = (if job_is job ''downloading'' then show_int (active_threads True n) @ '' segments pulling''
     else if job_is job ''completed'' then ''100% synced'' else ''queued'')"

definition progress_colors :: "string \<Rightarrow> string \<times> string" where
  "progress_colors st = (if st = ''completed'' then (''#166534'', ''#22c55e'') else if st = ''error'' then (''#991b1b'', ''#ef4444'')
     else (''#ea580c'', ''#f97316''))"

definition bar_width :: "rat \<Rightarrow> rat" where
  "bar_width progress = max 3 progress"

end
