(* ===== verification/YouTube_Page.thy ===== *)
theory YouTube_Page
  imports Folder_Picker Jobs_Store
begin

text \<open>
  The YouTube page (\<open>web/client/src/pages/YouTubePage.tsx\<close>; the server's copy differs in three titles), over the model of the
  jobs store: details that are fetched as soon as one link is typed, and adding one video or a list of them. The dialog for
  folders is the one of \<open>Folder_Picker\<close>.
\<close>

section \<open>State\<close>

record youtube_page =
  token :: string
  jobs :: jobs_state
  hoveredJobId :: "jsv option"
  dismissedOverlays :: "jsv list"
  config :: jsv
  showAddModal :: bool
  showConfigModal :: bool
  videoUrl :: string
  isFetchingInfo :: bool
  fetchedInfo :: jsv
  fetchError :: jsv
  selectedFormatItag :: jsv
  saveDir :: jsv
  convertToTV :: bool
  isAdding :: bool
  addingProgress :: string
  folders :: picker
  config_requests :: "jsv list"
  alerts :: "(string \<times> jsv) list"

definition default_config :: jsv where
  "default_config = JObj [(''default_save_path'', JStr ''./downloads/youtube''), (''max_concurrent'', JNum 2), (''proxy_url'', JStr [])]"

definition default_dir :: jsv where
  "default_dir = JStr ''Downloads/youtube''"

definition init_youtube :: "string \<Rightarrow> jobs_state \<Rightarrow> youtube_page" where
  "init_youtube tok js = \<lparr>token = tok, jobs = js, hoveredJobId = None, dismissedOverlays = [], config = default_config,
     showAddModal = False, showConfigModal = False, videoUrl = [], isFetchingInfo = False, fetchedInfo = JNull,
     fetchError = JStr [], selectedFormatItag = JNull, saveDir = default_dir, convertToTV = False, isAdding = False,
     addingProgress = [], folders = init_picker, config_requests = [], alerts = []\<rparr>"

type_synonym youtube_action = "(youtube_page, unit) page_action"

definition tell :: "(string \<times> jsv) list \<Rightarrow> youtube_page \<Rightarrow> youtube_page" where
  "tell cmd s = s\<lparr>jobs := sendAction (JObj cmd) (jobs s)\<rparr>"

section \<open>Settings\<close>

definition fetchConfig :: "jsv \<Rightarrow> youtube_page \<Rightarrow> youtube_page" where
  "fetchConfig dir s = s\<lparr>config_requests := config_requests s @ [dir]\<rparr>"

text \<open>The directory of the closure that asked decides whether the answer sets it.\<close>

definition config_arrived :: "nat \<Rightarrow> jsv option \<Rightarrow> youtube_page \<Rightarrow> youtube_page" where
  "config_arrived i r s = (if length (config_requests s) \<le> i then s else
     let dir = config_requests s ! i; s1 = s\<lparr>config_requests := drop_nth i (config_requests s)\<rparr> in
     case r of None \<Rightarrow> s1
     | Some data \<Rightarrow> (let s2 = s1\<lparr>config := data\<rparr> in
         if truthy dir \<and> dir \<noteq> default_dir then s2
         else case get_prop data ''default_save_path'' of Inl e \<Rightarrow> s2 | Inr d \<Rightarrow> s2\<lparr>saveDir := js_or d default_dir\<rparr>))"

definition mounted :: "bool \<Rightarrow> youtube_page \<Rightarrow> youtube_page" where
  "mounted throws s = (if token s \<noteq> []
     then fetchConfig (saveDir s) (s\<lparr>jobs := initWebSocket throws (token s) (jobs s)\<rparr>) else s)"

definition unmounted :: "youtube_page \<Rightarrow> youtube_page" where
  "unmounted s = (if token s \<noteq> [] then s\<lparr>jobs := cleanup_jobs (jobs s)\<rparr> else s)"

definition set_config :: "string \<Rightarrow> jsv \<Rightarrow> youtube_page \<Rightarrow> youtube_page" where
  "set_config k v s = s\<lparr>config := obj_put k v (config s)\<rparr>"

definition set_concurrent :: "string \<Rightarrow> youtube_page \<Rightarrow> youtube_page" where
  "set_concurrent v = set_config ''max_concurrent'' (str_number v)"

definition handleSaveConfig :: youtube_action where
  "handleSaveConfig = Get (\<lambda>c. quietly (bind (page_fetch (post_json (token c) ''/api/youtube/config'' (config c))) (\<lambda>(ok, b).
     if ok then set_state (\<lambda>s. fetchConfig (saveDir c) (s\<lparr>showConfigModal := False\<rparr>)) else Done ())))"

section \<open>Folders\<close>

definition on_folders :: "(picker \<Rightarrow> picker) \<Rightarrow> youtube_page \<Rightarrow> youtube_page" where
  "on_folders f s = s\<lparr>folders := f (folders s)\<rparr>"

definition fetch_directories :: "string \<Rightarrow> youtube_page \<Rightarrow> youtube_page" where
  "fetch_directories path = on_folders (fetchDirectories path)"

definition directories_arrived :: "nat \<Rightarrow> jsv option \<Rightarrow> youtube_page \<Rightarrow> youtube_page" where
  "directories_arrived i r = on_folders (directories_reply i r)"

definition open_picker :: "youtube_page \<Rightarrow> youtube_page" where
  "open_picker s = on_folders (openFolderPicker (saveDir s)) s"

definition dir_up :: "youtube_page \<Rightarrow> youtube_page" where
  "dir_up = on_folders handleDirUp"

definition dir_select :: "string \<Rightarrow> youtube_page \<Rightarrow> youtube_page" where
  "dir_select name = on_folders (handleDirSelect name)"

definition create_directory :: youtube_action where
  "create_directory = handleCreateDirectory folders on_folders token (\<lambda>b. Done ())"

definition confirm_folder :: "youtube_page \<Rightarrow> youtube_page" where
  "confirm_folder s = on_folders (\<lambda>p. p\<lparr>showFolderModal := False\<rparr>) (s\<lparr>saveDir := JStr (currentPath (folders s))\<rparr>)"

interpretation youtube_folders: picker_host folders on_folders
  by unfold_locales (simp add: on_folders_def)

section \<open>Details of a video\<close>

definition is_youtube :: "string \<Rightarrow> bool" where
  "is_youtube url \<longleftrightarrow> includes_str url ''youtube.com/'' \<or> includes_str url ''youtu.be/''"

definition info_request :: "string \<Rightarrow> string \<Rightarrow> request" where
  "info_request tok url = post_json tok ''/api/youtube/info'' (JObj [(''url'', JStr url)])"

text \<open>\<open>info.formats.filter(...)\<close>: the formats, or the exception.\<close>

definition formats_of :: "jsv \<Rightarrow> jsv list res" where
  "formats_of info = (case get_prop info ''formats'' of Inl e \<Rightarrow> Inl e | Inr v \<Rightarrow> as_array ''info.formats'' ''filter'' v)"

text \<open>The first format with video, the first one else.\<close>

definition default_format :: "jsv list \<Rightarrow> jsv option" where
  "default_format fs = (case filter (\<lambda>f. truthy (opt_prop f ''has_video'')) fs of
       f # _ \<Rightarrow> Some f | [] \<Rightarrow> (case fs of f # _ \<Rightarrow> Some f | [] \<Rightarrow> None))"

definition clear_info :: "string \<Rightarrow> youtube_page \<Rightarrow> youtube_page" where
  "clear_info url s = s\<lparr>videoUrl := url, fetchError := JStr [], fetchedInfo := JNull, selectedFormatItag := JNull\<rparr>"

definition select_default :: "jsv list \<Rightarrow> youtube_page \<Rightarrow> youtube_page" where
  "select_default fs s = (case default_format fs of None \<Rightarrow> s | Some f \<Rightarrow> s\<lparr>selectedFormatItag := opt_prop f ''itag''\<rparr>)"

definition fetch_info :: "string \<Rightarrow> string \<Rightarrow> youtube_action" where
  "fetch_info tok url = Set (\<lambda>s. s\<lparr>isFetchingInfo := True\<rparr>) (finally_do (try_catch
     (bind (page_fetch (info_request tok url)) (\<lambda>(ok, b). bind (read_json b) (\<lambda>v.
        if ok then Set (\<lambda>s. s\<lparr>fetchedInfo := v\<rparr>) (bind (lift_res (formats_of v)) (\<lambda>fs. set_state (select_default fs)))
        else bind (lift_res (get_prop v ''details'')) (\<lambda>d.
          set_state (\<lambda>s. s\<lparr>fetchError := js_or d (JStr ''Failed to retrieve YouTube video details'')\<rparr>)))))
     (\<lambda>_. set_state (\<lambda>s. s\<lparr>fetchError := JStr ''Connection error while fetching video info''\<rparr>)))
     (\<lambda>s. s\<lparr>isFetchingInfo := False\<rparr>))"

definition handleUrlChange :: "string \<Rightarrow> youtube_action" where
  "handleUrlChange url = Get (\<lambda>c. Set (clear_info url) (case links_of url of
       [u] \<Rightarrow> if is_youtube u then fetch_info (token c) u else Done ()
     | _ \<Rightarrow> Done ()))"

definition choose_format :: "string \<Rightarrow> youtube_page \<Rightarrow> youtube_page" where
  "choose_format v s = s\<lparr>selectedFormatItag := str_number v\<rparr>"

section \<open>Adding videos\<close>

text \<open>\<open>format?.k || ''\<close>.\<close>

definition format_text :: "jsv option \<Rightarrow> string \<Rightarrow> jsv" where
  "format_text f k = js_or (case f of None \<Rightarrow> JUndef | Some v \<Rightarrow> opt_prop v k) (JStr [])"

definition add_body :: "youtube_page \<Rightarrow> string \<Rightarrow> jsv \<Rightarrow> jsv option \<Rightarrow> jsv \<Rightarrow> jsv" where
  "add_body c url itag f info = JObj ([(''url'', JStr url), (''save_directory'', saveDir c), (''selected_itag'', itag),
       (''quality_label'', format_text f ''quality_label''), (''mime_type'', format_text f ''mime_type''),
       (''convert_to_tv'', JBool (convertToTV c))]
     @ map (\<lambda>k. (k, opt_prop info k)) [''video_id'', ''title'', ''author'', ''duration'', ''duration_seconds'', ''thumbnail''])"

definition add_request :: "youtube_page \<Rightarrow> string \<Rightarrow> jsv \<Rightarrow> jsv option \<Rightarrow> jsv \<Rightarrow> request" where
  "add_request c url itag f info = post_json (token c) ''/api/youtube/add'' (add_body c url itag f info)"

definition clear_form :: "youtube_page \<Rightarrow> youtube_page" where
  "clear_form s = s\<lparr>showAddModal := False, videoUrl := [], fetchedInfo := JNull, convertToTV := False\<rparr>"

definition progress_text :: "string \<Rightarrow> youtube_page \<Rightarrow> youtube_page" where
  "progress_text t s = s\<lparr>addingProgress := t\<rparr>"

definition add_single :: "youtube_page \<Rightarrow> string \<Rightarrow> youtube_action" where
  "add_single c url = (if \<not> truthy (fetchedInfo c) \<or> \<not> truthy (selectedFormatItag c) then Done ()
     else bind (lift_res (formats_of (fetchedInfo c))) (\<lambda>fs.
       Set (progress_text ''Adding video...'')
         (bind (page_fetch (add_request c url (selectedFormatItag c)
             (find (\<lambda>f. strict_eq (opt_prop f ''itag'') (selectedFormatItag c)) fs) (fetchedInfo c))) (\<lambda>(ok, b).
           if ok then set_state clear_form
           else bind (read_json b) (\<lambda>err. bind (lift_res (get_prop err ''details'')) (\<lambda>d.
             set_state (\<lambda>s. s\<lparr>alerts := alerts s @ [(''Download Error'', js_or d (JStr ''Failed to add YouTube video''))]\<rparr>)))))))"

text \<open>One link of several: a failure of any kind ends its turn only.\<close>

definition counted :: "string \<Rightarrow> nat \<Rightarrow> nat \<Rightarrow> string" where
  "counted w i n = w @ show_nat (i + 1) @ ''/'' @ show_nat n @ ''...''"

definition add_listed :: "youtube_page \<Rightarrow> nat \<Rightarrow> nat \<times> string \<Rightarrow> youtube_action" where
  "add_listed c n = (\<lambda>(i, url). Set (progress_text (counted ''Fetching details for '' i n)) (quietly
     (bind (page_fetch (info_request (token c) url)) (\<lambda>(ok, b).
        if \<not> ok then Done ()
        else bind (read_json b) (\<lambda>info. bind (lift_res (formats_of info)) (\<lambda>fs.
          Set (progress_text (counted ''Adding '' i n)) (void (page_fetch (add_request c url
            (case default_format fs of None \<Rightarrow> JNum 0 | Some f \<Rightarrow> opt_prop f ''itag'') (default_format fs) info)))))))))"

definition handleAddJob :: youtube_action where
  "handleAddJob = Get (\<lambda>c. let urls = links_of (videoUrl c) in if urls = [] then Done ()
     else Set (\<lambda>s. s\<lparr>isAdding := True\<rparr>) (finally_do (quietly
       (case urls of [url] \<Rightarrow> add_single c url
        | _ \<Rightarrow> bind (for_each (add_listed c (length urls)) (enumerate 0 urls)) (\<lambda>_. set_state clear_form)))
       (\<lambda>s. s\<lparr>isAdding := False, addingProgress := []\<rparr>)))"

definition add_disabled :: "youtube_page \<Rightarrow> bool" where
  "add_disabled s \<longleftrightarrow> ((\<not> truthy (fetchedInfo s) \<or> \<not> truthy (selectedFormatItag s)) \<and> length (links_of (videoUrl s)) \<le> 1) \<or> isAdding s"

definition toggle_tv :: "youtube_page \<Rightarrow> youtube_page" where
  "toggle_tv s = (if isAdding s then s else s\<lparr>convertToTV := \<not> convertToTV s\<rparr>)"

section \<open>Jobs\<close>

definition handleCancelJob :: "jsv \<Rightarrow> youtube_page \<Rightarrow> youtube_page" where
  "handleCancelJob i = tell [(''action'', JStr ''cancel_youtube''), (''job_id'', i)]"

definition handleDeleteJob :: "jsv \<Rightarrow> bool \<Rightarrow> youtube_action" where
  "handleDeleteJob i with_files = bind (ask_confirm ''Are you sure you want to remove this download job?'') (\<lambda>yes.
     if yes then set_state (tell [(''action'', JStr ''delete_youtube''), (''job_id'', i), (''delete_files'', JBool with_files)])
     else Done ())"

definition fileMissing :: "jsv \<Rightarrow> bool" where
  "fileMissing job \<longleftrightarrow> opt_prop job ''status'' = JStr ''completed'' \<and> opt_prop job ''file_exists'' = JBool False"

definition showOverlay :: "youtube_page \<Rightarrow> jsv \<Rightarrow> bool" where
  "showOverlay s job \<longleftrightarrow> fileMissing job \<and> hoveredJobId s = Some (opt_prop job ''id'') \<and>
     opt_prop job ''id'' \<notin> set (dismissedOverlays s)"

definition enter_row :: "jsv \<Rightarrow> youtube_page \<Rightarrow> youtube_page" where
  "enter_row i s = s\<lparr>hoveredJobId := Some i\<rparr>"

definition leave_row :: "jsv \<Rightarrow> youtube_page \<Rightarrow> youtube_page" where
  "leave_row i s = s\<lparr>hoveredJobId := None, dismissedOverlays := filter (\<lambda>j. j \<noteq> i) (dismissedOverlays s)\<rparr>"

definition dismiss :: "jsv \<Rightarrow> youtube_page \<Rightarrow> youtube_page" where
  "dismiss i s = s\<lparr>dismissedOverlays := List.insert i (dismissedOverlays s)\<rparr>"

end
