(* ===== verification/Download_Behaviour.thy ===== *)
theory Download_Behaviour
  imports Leech_Page YouTube_Page
begin

text \<open>
  Behaviour of the two pages that download to the server: how lists of links are added, whatever the server and the network
  answer, the blocks of a download, and what goes wrong.
\<close>

section \<open>Links of the leech page\<close>

text \<open>An answer whose body can be read where the page reads it.\<close>

definition readable :: "reply \<Rightarrow> bool" where
  "readable r \<longleftrightarrow> (case r of Rejected e \<Rightarrow> False | Response ok b \<Rightarrow> ok \<or> (\<exists>v. b = JsonOk v \<and> \<not> nullish v))"

lemma get_prop_not_nullish: "\<not> nullish v \<Longrightarrow> \<exists>x. get_prop v k = Inr x"
  by (cases v) auto

lemma run_add_one:
  assumes "readable r"
  shows "run (Leech_Page.add_one c n (i, u)) (Replied r # rest) s =
     ([Http (Leech_Page.add_request c u)], Returned (), s\<lparr>leech_page.addingProgress := adding_text i n\<rparr>, rest)"
proof (cases r)
  case (Response ok b)
  show ?thesis
  proof (cases ok)
    case False
    then obtain v where b: "b = JsonOk v" "\<not> nullish v" using assms Response by (auto simp: readable_def)
    then obtain x where "get_prop v ''error'' = Inr x" using get_prop_not_nullish by blast
    then show ?thesis using Response False b by (simp add: add_one_def page_fetch_def read_json_def lift_res_def)
  qed (simp add: Response add_one_def page_fetch_def)
qed (use assms in \<open>simp add: readable_def\<close>)

lemma run_add_all:
  assumes "length rs = length us" and "list_all readable rs"
  shows "\<exists>p. run (for_each (Leech_Page.add_one c n) (enumerate k us)) (map Replied rs @ rest) s =
     (map (Http \<circ> Leech_Page.add_request c) us, Returned (), s\<lparr>leech_page.addingProgress := p\<rparr>, rest)"
  using assms
proof (induction us arbitrary: rs s k)
  case Nil
  then show ?case by (intro exI [of _ "leech_page.addingProgress s"]) simp
next
  case (Cons u us)
  then obtain r rs' where rs: "rs = r # rs'" "readable r" "length rs' = length us" "list_all readable rs'" by (cases rs) auto
  let ?s = "s\<lparr>leech_page.addingProgress := adding_text k n\<rparr>"
  obtain p where "run (for_each (Leech_Page.add_one c n) (enumerate (Suc k) us)) (map Replied rs' @ rest) ?s =
      (map (Http \<circ> Leech_Page.add_request c) us, Returned (), ?s\<lparr>leech_page.addingProgress := p\<rparr>, rest)"
    using Cons.IH [OF rs(3,4)] by blast
  then have "run (for_each (Leech_Page.add_one c n) (enumerate k (u # us))) (map Replied rs @ rest) s =
      (map (Http \<circ> Leech_Page.add_request c) (u # us), Returned (), ?s\<lparr>leech_page.addingProgress := p\<rparr>, rest)"
    by (simp add: rs(1) run_bind run_add_one [OF rs(2)])
  then show ?case by (intro exI [of _ p]) simp
qed

lemma run_leech_add:
  assumes "links_of (downloadUrl s) \<noteq> []" and "length rs = length (links_of (downloadUrl s))" and "list_all readable rs"
  shows "run Leech_Page.handleAddJob (map Replied rs) s = (map (Http \<circ> Leech_Page.add_request s) (links_of (downloadUrl s)),
     Returned (), (Leech_Page.clear_form s)\<lparr>leech_page.isAdding := False, leech_page.addingProgress := []\<rparr>, [])"
proof -
  let ?us = "links_of (downloadUrl s)" and ?s = "s\<lparr>leech_page.isAdding := True\<rparr>"
  obtain p where loop: "run (for_each (Leech_Page.add_one s (length ?us)) (enumerate 0 ?us)) (map Replied rs) ?s =
      (map (Http \<circ> Leech_Page.add_request s) ?us, Returned (), ?s\<lparr>leech_page.addingProgress := p\<rparr>, [])"
    using run_add_all [OF assms(2,3), of s "length ?us" 0 "[]" ?s] by auto
  show ?thesis
    using assms(1) by (simp add: Leech_Page.handleAddJob_def Let_def quietly_def run_finally run_try_catch run_bind loop Leech_Page.clear_form_def)
qed

text \<open>A list of links is added by one request for each, in their order and whatever the server says to the others, and then
  the form is empty and closed, while no answer is lost or cannot be read.\<close>

theorem leech_adds_every_link:
  assumes "links_of (downloadUrl s) \<noteq> []" and "length rs = length (links_of (downloadUrl s))" and "list_all readable rs"
  shows "requests Leech_Page.handleAddJob (map Replied rs) s = map (Http \<circ> Leech_Page.add_request s) (links_of (downloadUrl s)) \<and>
     final Leech_Page.handleAddJob (map Replied rs) s =
       (Leech_Page.clear_form s)\<lparr>leech_page.isAdding := False, leech_page.addingProgress := []\<rparr>"
  using run_leech_add [OF assms] by (simp add: requests_def final_def)

definition leech_witness :: leech_page where
  "leech_witness = (init_leech ''t'' (init_jobs ''https:'' ''h''))\<lparr>downloadUrl := ''http://a'' @ CHR 0x0A # '' http://b''\<rparr>"

lemma leech_adds_every_link_witness:
  "let rs = [Response False (JsonOk (JObj [])), Response True (JsonOk (JObj []))]; s = leech_witness in
   requests Leech_Page.handleAddJob (map Replied rs) s = map (Http \<circ> Leech_Page.add_request s) (links_of (downloadUrl s)) \<and>
     final Leech_Page.handleAddJob (map Replied rs) s =
       (Leech_Page.clear_form s)\<lparr>leech_page.isAdding := False, leech_page.addingProgress := []\<rparr>"
  unfolding Let_def
  by (rule leech_adds_every_link)
    (simp_all add: leech_witness_def init_leech_def links_of_def readable_def trim_id is_space_def)

section \<open>Lists of videos\<close>

text \<open>The details that an answer gives, with the formats.\<close>

definition details :: "reply \<Rightarrow> (jsv \<times> jsv list) option" where
  "details r = (case r of Response True (JsonOk v) \<Rightarrow> (case formats_of v of Inr fs \<Rightarrow> Some (v, fs) | Inl e \<Rightarrow> None) | _ \<Rightarrow> None)"

text \<open>What the turn of a link asks, and the answers that it takes: to the question for details \<open>r\<close>, to the addition \<open>a\<close>.\<close>

definition asks :: "youtube_page \<Rightarrow> string \<times> reply \<times> reply \<Rightarrow> query list" where
  "asks c = (\<lambda>(url, r, a). Http (info_request (youtube_page.token c) url) # (case details r of None \<Rightarrow> []
     | Some (info, fs) \<Rightarrow> [Http (YouTube_Page.add_request c url
         (case default_format fs of None \<Rightarrow> JNum 0 | Some f \<Rightarrow> opt_prop f ''itag'') (default_format fs) info)]))"

definition takes :: "string \<times> reply \<times> reply \<Rightarrow> answer list" where
  "takes = (\<lambda>(url, r, a). Replied r # (if details r = None then [] else [Replied a]))"

lemma run_add_listed:
  "run (add_listed c n (i, url)) (takes (url, r, a) @ rest) s = (asks c (url, r, a), Returned (),
     s\<lparr>youtube_page.addingProgress := counted (if details r = None then ''Fetching details for '' else ''Adding '') i n\<rparr>, rest)"
proof (cases r)
  case (Response ok b)
  consider (refused) "\<not> ok" | (unreadable) e where "ok" "b = JsonBad e" | (read) v where "ok" "b = JsonOk v"
    by (cases ok; cases b) auto
  then show ?thesis
  proof cases
    case (read v)
    show ?thesis
    proof (cases "formats_of v")
      case (Inr fs)
      show ?thesis unfolding Response read Inr
        by (cases a) (simp_all add: Inr takes_def asks_def details_def add_listed_def progress_text_def quietly_def run_try_catch run_bind
            page_fetch_def read_json_def lift_res_def void_def)
    qed (simp add: Response read takes_def asks_def details_def add_listed_def progress_text_def quietly_def run_try_catch run_bind
        page_fetch_def read_json_def lift_res_def)
  qed (simp_all add: Response takes_def asks_def details_def add_listed_def progress_text_def quietly_def run_try_catch run_bind
      page_fetch_def read_json_def)
qed (simp add: takes_def asks_def details_def add_listed_def progress_text_def quietly_def run_try_catch run_bind page_fetch_def)

lemma run_add_listed_all:
  "\<exists>p. run (for_each (add_listed c n) (enumerate k (map fst turns))) (concat (map takes turns) @ rest) s =
     (concat (map (asks c) turns), Returned (), s\<lparr>youtube_page.addingProgress := p\<rparr>, rest)"
proof (induction turns arbitrary: s k)
  case Nil
  then show ?case by (intro exI [of _ "youtube_page.addingProgress s"]) simp
next
  case (Cons t turns)
  obtain url r a where t: "t = (url, r, a)" by (cases t) auto
  define p where "p = counted (if details r = None then ''Fetching details for '' else ''Adding '') k n"
  then have one: "run (add_listed c n (k, url)) (takes t @ concat (map takes turns) @ rest) s =
      (asks c t, Returned (), s\<lparr>youtube_page.addingProgress := p\<rparr>, concat (map takes turns) @ rest)"
    using run_add_listed [of c n k url r a] by (simp add: t)
  obtain q where "run (for_each (add_listed c n) (enumerate (Suc k) (map fst turns))) (concat (map takes turns) @ rest)
      (s\<lparr>youtube_page.addingProgress := p\<rparr>) =
      (concat (map (asks c) turns), Returned (), s\<lparr>youtube_page.addingProgress := p\<rparr>\<lparr>youtube_page.addingProgress := q\<rparr>, rest)"
    using Cons.IH by blast
  then have "run (for_each (add_listed c n) (enumerate k (map fst (t # turns)))) (concat (map takes (t # turns)) @ rest) s =
      (concat (map (asks c) (t # turns)), Returned (), s\<lparr>youtube_page.addingProgress := q\<rparr>, rest)"
    using one by (simp add: run_bind t)
  then show ?case by blast
qed



section \<open>Blocks\<close>

lemma filter_below: "0 \<le> k \<Longrightarrow> k \<le> int n \<Longrightarrow> length (filter (\<lambda>i. int i < k) [0..<n]) = nat k"
proof -
  assume "0 \<le> k" "k \<le> int n"
  then have "filter (\<lambda>i. int i < k) [0..<n] = [0..<nat k]"
  proof (induction n)
    case (Suc n)
    show ?case
    proof (cases "k \<le> int n")
      case False
      then have "nat k = Suc n" using Suc.prems by simp
      moreover have "filter (\<lambda>i. int i < k) [0..<Suc n] = [0..<Suc n]" using False by (intro filter_True) auto
      ultimately show ?thesis by simp
    qed (use Suc in simp)
  qed simp
  then show ?thesis by simp
qed

text \<open>As many blocks are completed as per cent are done.\<close>

lemma completed_blocks:
  assumes "0 \<le> progress" and "progress \<le> 100"
  shows "length (filter (\<lambda>b. b = Completed) (blocks progress downloading n)) = nat \<lfloor>progress\<rfloor>"
proof -
  have k: "0 \<le> \<lfloor>progress\<rfloor>" "\<lfloor>progress\<rfloor> \<le> 100" using assms by (simp_all add: floor_le_iff)
  have "block_at progress downloading n i = Completed \<longleftrightarrow> int i < \<lfloor>progress\<rfloor>" for i
    by (auto simp: block_at_def completed_count_def)
  then show ?thesis using filter_below [OF k(1), of 100] k(2) by (simp add: blocks_def filter_map o_def)
qed

section \<open>What goes wrong\<close>

text \<open>A link that the server refused is gone with the form, as one that it accepted.\<close>

lemma refused_link_gone:
  assumes "links_of (downloadUrl s) = [u]" and "readable r"
  shows "final Leech_Page.handleAddJob [Replied r] s = final Leech_Page.handleAddJob [Replied (Response True (JsonOk JNull))] s"
  using run_leech_add [of s "[r]"] run_leech_add [of s "[Response True (JsonOk JNull)]"] assms
  by (simp add: readable_def final_def)

text \<open>After an answer is lost the form still names the links that were added before.\<close>

lemma added_links_stay:
  assumes "links_of (downloadUrl s) = u # v # us"
  shows "downloadUrl (final Leech_Page.handleAddJob [Replied (Response True b), Replied (Rejected e)] s) = downloadUrl s \<and>
     requests Leech_Page.handleAddJob [Replied (Response True b), Replied (Rejected e)] s =
       map (Http \<circ> Leech_Page.add_request s) [u, v]"
  using assms
  by (simp add: Leech_Page.handleAddJob_def requests_def final_def Let_def quietly_def run_finally run_try_catch run_bind
      add_one_def page_fetch_def)

text \<open>Details that arrive after the link was changed are shown, and sent, with the new link.\<close>

lemma stale_details_shown:
  assumes "links_of url = [u]" and "is_youtube u" and "formats_of info = Inr fs"
  shows "\<exists>k s1. turn (handleUrlChange url) s = (Await (Http (info_request (youtube_page.token s) u)) k, s1) \<and>
     (\<forall>s2. fetchedInfo (final (k (Replied (Response True (JsonOk info)))) [] s2) = info \<and>
       videoUrl (final (k (Replied (Response True (JsonOk info)))) [] s2) = videoUrl s2)"
  using assms
  by (simp add: handleUrlChange_def fetch_info_def page_fetch_def read_json_def lift_res_def final_def select_default_def
      split: option.split)

end
