(* ===== verification/Zoom.thy ===== *)
theory Zoom
  imports JS_Async
begin

text \<open>
  A page that calls the asynchronous actions of a store: \<open>zoom g u t\<close> is the task \<open>t\<close> of the store in the page, whose
  state holds the store as \<open>g s\<close>. The update \<open>u\<close> carries a write of the store out in the page, with the effects of the
  page that the write causes.
\<close>

primrec zoom :: "('t \<Rightarrow> 's) \<Rightarrow> (('s \<Rightarrow> 's) \<Rightarrow> 't \<Rightarrow> 't) \<Rightarrow> ('s, 'q, 'r, 'a) task \<Rightarrow> ('t, 'q, 'r, 'a) task" where
  "zoom g u (Done a) = Done a"
| "zoom g u (Fail e) = Fail e"
| "zoom g u (Set f t) = Set (u f) (zoom g u t)"
| "zoom g u (Get k) = Get (\<lambda>s. zoom g u (k (g s)))"
| "zoom g u (Await q k) = Await q (\<lambda>r. zoom g u (k r))"
| "zoom g u (Yield t) = Yield (zoom g u t)"

lemma zoom_bind [simp]: "zoom g u (bind t f) = bind (zoom g u t) (\<lambda>a. zoom g u (f a))"
  by (induction t) auto

lemma zoom_try_catch [simp]: "zoom g u (try_catch t h) = try_catch (zoom g u t) (\<lambda>e. zoom g u (h e))"
  by (induction t) auto

lemma zoom_finally [simp]: "zoom g u (finally_do t c) = finally_do (zoom g u t) (u c)"
  by (induction t) auto

text \<open>An effect of the page on a field \<open>c\<close> of the store compares references: a write of the field counts, also when it writes
  the same value again. An update that writes none keeps any.\<close>

definition writes :: "('s \<Rightarrow> jsv) \<Rightarrow> ((jsv \<Rightarrow> jsv) \<Rightarrow> 's \<Rightarrow> 's) \<Rightarrow> ('s \<Rightarrow> 's) \<Rightarrow> 's \<Rightarrow> bool" where
  "writes c c_update f s \<longleftrightarrow>
     \<not> (c (f (c_update (\<lambda>_. JUndef) s)) = JUndef \<and> c (f (c_update (\<lambda>_. JNull) s)) = JNull)"

text \<open>What depends on a part of the state only, which \<open>v\<close> shows.\<close>

definition depends_on :: "('s \<Rightarrow> 'v) \<Rightarrow> ('s \<Rightarrow> 'b) \<Rightarrow> bool" where
  "depends_on v k \<longleftrightarrow> (\<forall>s s'. v s = v s' \<longrightarrow> k s = k s')"

lemma depends_same: "depends_on v k \<Longrightarrow> v s = v s' \<Longrightarrow> k s = k s'"
  unfolding depends_on_def by blast

lemma depends_comp: "depends_on v k \<Longrightarrow> depends_on v (\<lambda>s. h (k s))"
  unfolding depends_on_def by metis

text \<open>A page whose effects leave a view \<open>v\<close> of the store as the store's own action leaves it: the view of
  the store after the action in the page is the view after the action alone, and the same is asked of the server.\<close>

locale store_view =
  fixes g :: "'t \<Rightarrow> 's" and u :: "('s \<Rightarrow> 's) \<Rightarrow> 't \<Rightarrow> 't" and v :: "'s \<Rightarrow> 'v"
  assumes view: "v (g (u f s)) = v (f (g s))"
begin

text \<open>A task that reads and writes through the view only.\<close>

primrec through :: "('s, 'q, 'r, 'a) task \<Rightarrow> bool" where
  "through (Done a) = True"
| "through (Fail e) = True"
| "through (Set f t) = (depends_on v (\<lambda>s. v (f s)) \<and> through t)"
| "through (Get k) = (depends_on v k \<and> (\<forall>s. through (k s)))"
| "through (Await q k) = (\<forall>r. through (k r))"
| "through (Yield t) = through t"

lemma through_bind: "through t \<Longrightarrow> (\<And>a. through (f a)) \<Longrightarrow> through (bind t f)"
  by (induction t) (auto intro: depends_comp)

lemma through_try_catch: "through t \<Longrightarrow> (\<And>e. through (h e)) \<Longrightarrow> through (try_catch t h)"
  by (induction t) (auto intro: depends_comp)

lemma zoom_agrees:
  "through t \<Longrightarrow> v (g s) = v s' \<Longrightarrow>
     (case run (zoom g u t) rs s of (qs, out, s1, rest) \<Rightarrow> \<exists>s2. run t rs s' = (qs, out, s2, rest) \<and> v (g s1) = v s2)"
proof (induction t arbitrary: rs s s')
  case (Set f t)
  then have "v (f (g s)) = v (f s')" and t: "through t" by (auto dest: depends_same)
  then have "v (g (u f s)) = v (f s')" by (simp only: view)
  from Set.IH [OF t this, of rs] show ?case by (simp only: zoom.simps run.simps)
next
  case (Get k)
  then have e: "k (g s) = k s'" and "through (k s')" by (auto dest: depends_same)
  from Get.IH [OF rangeI this(2) Get.prems(2), of rs] show ?case by (simp only: zoom.simps run.simps e)
next
  case (Await q k)
  show ?case
  proof (cases rs)
    case Nil
    then show ?thesis using Await.prems by simp
  next
    case (Cons r rest)
    have "through (k r)" using Await.prems by simp
    from Await.IH [OF rangeI this Await.prems(2), of rest] show ?thesis
      using Cons by (auto split: prod.splits)
  qed
qed simp_all

end

text \<open>A page whose effects leave the whole store as the action left it: the action does in the page what it does alone.\<close>

locale exact_store =
  fixes g :: "'t \<Rightarrow> 's" and u :: "('s \<Rightarrow> 's) \<Rightarrow> 't \<Rightarrow> 't"
  assumes exact: "g (u f s) = f (g s)"
begin

lemma action_in_page: "run (zoom g u t) rs s = (qs, out, s1, rest) \<Longrightarrow> run t rs (g s) = (qs, out, g s1, rest)"
proof (induction t arbitrary: rs s qs)
  case (Set f t)
  from Set.IH [of rs "u f s" qs] Set.prems show ?case by (simp only: zoom.simps run.simps exact)
next
  case (Await q k)
  then show ?case by (cases rs) (auto split: prod.splits)
qed auto

end

sublocale exact_store \<subseteq> store_view g u "\<lambda>s. s"
  by unfold_locales (rule exact)

end
