(* ===== verification/Multipath_Page.thy ===== *)
theory Multipath_Page
  imports Multipath_Store Zoom Formats
begin

text \<open>
  The multipath page (\<open>V2RayMultipathPage.tsx\<close>) over the model of its mp_store: the form of the settings with its effects,
  the switch of the engine, the panel that reveals the results of the diagnostics one by one, the drawing of the arteries.
  Every write of the mp_store runs the page's effects on what it changed (\<open>on_store\<close>). The results of the diagnostics and the
  arteries are lists; the page fails to render where the server sends something else.
\<close>

section \<open>State\<close>

record mp_page =
  mp_store :: mp_state
  mode :: jsv
  stripingMode :: jsv
  maxArteries :: jsv
  minArteries :: jsv
  socksPort :: jsv
  httpPort :: jsv
  combinerUrl :: jsv
  originId :: jsv
  pskHex :: jsv
  frameSize :: jsv
  evalWindowMs :: jsv
  demoteRttX :: jsv
  promoteRttX :: jsv
  lossDemotePct :: jsv
  cooldownSec :: jsv
  errorBudget :: jsv
  showAdvanced :: bool
  revealIndex :: int
  isAnimating :: bool
  reveal_timer :: "nat option"

type_synonym page_act = "(mp_page, unit) action"

definition init_page :: "mp_state \<Rightarrow> mp_page" where
  "init_page st = \<lparr>mp_store = st, mode = JStr ''selector'', stripingMode = JStr ''auto'', maxArteries = JNum 5, minArteries = JNum 2,
     socksPort = JNum 10646, httpPort = JNum 10545, combinerUrl = JStr [], originId = JStr [], pskHex = JStr [],
     frameSize = JNum 4096, evalWindowMs = JNum 5000, demoteRttX = JNum (3/2), promoteRttX = JNum (6/5),
     lossDemotePct = JNum 5, cooldownSec = JNum 30, errorBudget = JNum 5, showAdvanced = False,
     revealIndex = -1, isAnimating = False, reveal_timer = None\<rparr>"

definition engine_state :: "mp_state \<Rightarrow> jsv" where
  "engine_state st = opt_prop (status st) ''state''"

definition engine_runs :: "mp_state \<Rightarrow> bool" where
  "engine_runs st \<longleftrightarrow> engine_state st = JStr ''running''"

definition isRunning :: "mp_page \<Rightarrow> bool" where
  "isRunning s = engine_runs (mp_store s)"

definition arteries_of :: "mp_state \<Rightarrow> jsv list" where
  "arteries_of st = (case opt_prop (status st) ''arteries'' of JArr as \<Rightarrow> as | _ \<Rightarrow> [])"

definition steps :: "mp_state \<Rightarrow> jsv list" where
  "steps st = (case diagnoseResults st of JArr xs \<Rightarrow> xs | _ \<Rightarrow> [])"

section \<open>The diagnostics panel\<close>

text \<open>Where the panel is on the page: next to the topology, below the form, or nowhere. It starts anew when it moves.\<close>

datatype place = Beside_topology | Below_form | Nowhere

definition panel_place :: "mp_state \<Rightarrow> place" where
  "panel_place st = (if engine_runs st then if arteries_of st \<noteq> [] then Beside_topology else Nowhere else Below_form)"

definition fresh_panel :: "mp_page \<Rightarrow> mp_page" where
  "fresh_panel s = s\<lparr>revealIndex := -1, isAnimating := False, reveal_timer := None\<rparr>"

text \<open>The effect on \<open>loading\<close>, and the one on \<open>loading\<close>, \<open>results\<close> and \<open>isAnimating\<close>, whose clean-up stops the timer of the
  run before; the timer keeps the number of results it was started for.\<close>

definition hide_results :: "mp_page \<Rightarrow> mp_page" where
  "hide_results s = (if diagnoseLoading (mp_store s) then s\<lparr>revealIndex := -1, isAnimating := True\<rparr> else s)"

definition start_reveal :: "mp_page \<Rightarrow> mp_page" where
  "start_reveal s =
     (if \<not> diagnoseLoading (mp_store s) \<and> steps (mp_store s) \<noteq> [] \<and> isAnimating s
      then s\<lparr>revealIndex := 0, reveal_timer := Some (length (steps (mp_store s)))\<rparr> else s\<lparr>reveal_timer := None\<rparr>)"

definition panel_effects :: "mp_state \<Rightarrow> mp_page \<Rightarrow> mp_page" where
  "panel_effects old s =
     (let new = mp_store s in
      if panel_place new \<noteq> panel_place old then
        (let s1 = fresh_panel s in if panel_place new = Nowhere then s1 else start_reveal (hide_results s1))
      else if panel_place new = Nowhere then s
      else if diagnoseLoading new \<noteq> diagnoseLoading old then start_reveal (hide_results s)
      else if diagnoseResults new \<noteq> diagnoseResults old then start_reveal s else s)"

text \<open>The timer's function, every 900 milliseconds; with the last result the effect runs again and stops it.\<close>

definition reveal_due :: "mp_page \<Rightarrow> mp_page" where
  "reveal_due s = (case reveal_timer s of None \<Rightarrow> s
     | Some n \<Rightarrow> if int n - 1 \<le> revealIndex s
         then s\<lparr>revealIndex := int n, isAnimating := False, reveal_timer := None\<rparr>
         else s\<lparr>revealIndex := revealIndex s + 1\<rparr>)"

definition step_is :: "string \<Rightarrow> jsv \<Rightarrow> bool" where
  "step_is st r \<longleftrightarrow> opt_prop r ''status'' = JStr st"

definition getOverallStatus :: "mp_page \<Rightarrow> string" where
  "getOverallStatus s =
     (let results = diagnoseResults (mp_store s); rs = steps (mp_store s) in
      if \<not> truthy results \<or> isAnimating s \<or> revealIndex s < int (length rs) then ''pending''
      else if list_ex (step_is ''error'') rs then ''error''
      else if list_ex (step_is ''warning'') rs then ''warning'' else ''success'')"

definition run_disabled :: "mp_page \<Rightarrow> bool" where
  "run_disabled s \<longleftrightarrow> diagnoseLoading (mp_store s) \<or> isAnimating s"

definition run_label :: "mp_page \<Rightarrow> string" where
  "run_label s = (if diagnoseLoading (mp_store s) then ''Running API...'' else if isAnimating s then ''Evaluating...''
     else ''Run Health Checks'')"

text \<open>The width of the bar in percent.\<close>

definition bar_percent :: "mp_page \<Rightarrow> rat" where
  "bar_percent s =
     (if diagnoseLoading (mp_store s) then 30
      else let n = length (steps (mp_store s)) in
        of_int (if truthy (diagnoseResults (mp_store s)) then min (revealIndex s + 1) (int n) else 0)
          / of_nat (if n = 0 then 1 else n) * 100)"

datatype step_view = Pending_step | Checking_step | Revealed_step

definition view_of_step :: "int \<Rightarrow> nat \<Rightarrow> step_view" where
  "view_of_step shown i =
     (if int i < shown then Revealed_step else if int i = shown then Checking_step else Pending_step)"

definition step_text :: "jsv \<Rightarrow> string option" where
  "step_text step =
     (if truthy (js_or (opt_prop step ''details'') (opt_prop step ''error_message''))
      then (let shown = (if step_is ''error'' step then opt_prop step ''error_message'' else opt_prop step ''details'')
            in Some (if nullish shown then [] else js_string shown))
      else None)"

definition verdict_shown :: "mp_page \<Rightarrow> bool" where
  "verdict_shown s \<longleftrightarrow> truthy (diagnoseResults (mp_store s)) \<and> \<not> isAnimating s \<and> int (length (steps (mp_store s))) \<le> revealIndex s"

definition verdict_text :: "mp_page \<Rightarrow> string" where
  "verdict_text s = (if getOverallStatus s = ''error'' then ''CRITICAL FAULT DETECTED''
     else if getOverallStatus s = ''warning'' then ''SUBOPTIMAL PERFORMANCE WARNING'' else ''ALL SYSTEMS FULLY FUNCTIONAL'')"

section \<open>Effects on the store\<close>

definition config_or :: "jsv \<Rightarrow> string \<Rightarrow> jsv \<Rightarrow> jsv" where
  "config_or c k d = js_or (opt_prop c k) d"

definition load_form :: "jsv \<Rightarrow> mp_page \<Rightarrow> mp_page" where
  "load_form c s = s\<lparr>
     mode := config_or c ''mode'' (JStr ''selector''), stripingMode := config_or c ''striping_mode'' (JStr ''auto''),
     maxArteries := config_or c ''max_arteries'' (JNum 5), minArteries := config_or c ''min_arteries'' (JNum 2),
     socksPort := config_or c ''socks_port'' (JNum 10646), httpPort := config_or c ''http_port'' (JNum 10545),
     combinerUrl := config_or c ''combiner_url'' (JStr []), originId := config_or c ''origin_id'' (JStr []),
     pskHex := config_or c ''psk_hex'' (JStr []), frameSize := config_or c ''frame_size'' (JNum 4096),
     evalWindowMs := config_or c ''eval_window_ms'' (JNum 5000), demoteRttX := config_or c ''demote_rtt_x'' (JNum (3/2)),
     promoteRttX := config_or c ''promote_rtt_x'' (JNum (6/5)), lossDemotePct := config_or c ''loss_demote_pct'' (JNum 5),
     cooldownSec := config_or c ''cooldown_sec'' (JNum 30), errorBudget := config_or c ''error_budget'' (JNum 5)\<rparr>"

definition sync_form :: "mp_page \<Rightarrow> mp_page" where
  "sync_form s = (if truthy (config (mp_store s)) then load_form (config (mp_store s)) s else s)"

text \<open>The effect on \<open>status?.state\<close>: its clean-up closes the socket, whoever opened it.\<close>

definition telemetry_effect :: "mp_state \<Rightarrow> mp_state \<Rightarrow> mp_state" where
  "telemetry_effect old new =
     (if engine_state new = engine_state old then new
      else let s1 = (if engine_runs old then telemetry_cleanup new else new) in
        if engine_runs new then connectTelemetry s1 else s1)"

definition on_store :: "(mp_state \<Rightarrow> mp_state) \<Rightarrow> mp_page \<Rightarrow> mp_page" where
  "on_store f s =
     (let old = mp_store s; new = f old;
          s1 = panel_effects old (s\<lparr>mp_store := new\<rparr>);
          s2 = (if writes config config_update f old then sync_form s1 else s1)
      in s2\<lparr>mp_store := telemetry_effect old (mp_store s2)\<rparr>)"

abbreviation in_page :: "mp_action \<Rightarrow> page_act" where
  "in_page \<equiv> zoom mp_store on_store"

text \<open>Mounting asks for the settings and the status; the socket is opened when the engine runs already.\<close>

definition mounted :: "mp_page \<Rightarrow> mp_page" where
  "mounted s =
     (let s1 = sync_form (if panel_place (mp_store s) = Nowhere then s else start_reveal (hide_results s)) in
      if isRunning s then s1\<lparr>mp_store := connectTelemetry (mp_store s1)\<rparr> else s1)"

definition mount_requests :: "page_act list" where
  "mount_requests = [in_page fetchConfig, in_page fetchStatus]"

definition unmounted :: "mp_page \<Rightarrow> mp_page" where
  "unmounted s = (let s1 = s\<lparr>reveal_timer := None\<rparr> in
     if isRunning s then s1\<lparr>mp_store := telemetry_cleanup (mp_store s1)\<rparr> else s1)"

section \<open>Handlers\<close>

definition form_config :: "jsv \<Rightarrow> mp_page \<Rightarrow> jsv" where
  "form_config active s = JObj
     [(''is_active'', active), (''mode'', mode s), (''striping_mode'', stripingMode s),
      (''max_arteries'', to_number (maxArteries s)), (''min_arteries'', to_number (minArteries s)),
      (''socks_port'', to_number (socksPort s)), (''http_port'', to_number (httpPort s)),
      (''combiner_url'', combinerUrl s), (''origin_id'', originId s), (''psk_hex'', pskHex s),
      (''frame_size'', to_number (frameSize s)), (''eval_window_ms'', to_number (evalWindowMs s)),
      (''demote_rtt_x'', to_number (demoteRttX s)), (''promote_rtt_x'', to_number (promoteRttX s)),
      (''loss_demote_pct'', to_number (lossDemotePct s)), (''cooldown_sec'', to_number (cooldownSec s)),
      (''error_budget'', to_number (errorBudget s))]"

definition handleToggle :: page_act where
  "handleToggle = Get (\<lambda>c.
     bind (if isRunning c then await_task (in_page stopEngine)
           else bind (await_task (in_page (saveConfig (form_config (JBool True) c))))
             (\<lambda>_. await_task (in_page startEngine)))
     (\<lambda>_. await_task (in_page fetchStatus)))"

definition active_flag :: "mp_page \<Rightarrow> jsv" where
  "active_flag s = js_coalesce (opt_prop (config (mp_store s)) ''is_active'') (JBool False)"

definition handleSave :: page_act where
  "handleSave = Get (\<lambda>c. await_task (in_page (saveConfig (form_config (active_flag c) c))))"

text \<open>The two calls of the diagnostics: with the stored settings while the engine runs, else with the form as it is.\<close>

definition form_values :: "mp_page \<Rightarrow> jsv" where
  "form_values s = JObj
     [(''mode'', mode s), (''striping_mode'', stripingMode s), (''max_arteries'', maxArteries s),
      (''min_arteries'', minArteries s), (''socks_port'', socksPort s), (''http_port'', httpPort s),
      (''combiner_url'', combinerUrl s), (''origin_id'', originId s), (''psk_hex'', pskHex s),
      (''frame_size'', frameSize s), (''eval_window_ms'', evalWindowMs s), (''demote_rtt_x'', demoteRttX s),
      (''promote_rtt_x'', promoteRttX s), (''loss_demote_pct'', lossDemotePct s), (''cooldown_sec'', cooldownSec s),
      (''error_budget'', errorBudget s), (''is_active'', active_flag s)]"

definition diagnose_running :: page_act where
  "diagnose_running = Get (\<lambda>c. in_page (runDiagnostics
     (if truthy (config (mp_store c)) then Some (config (mp_store c)) else None)))"

definition diagnose_form :: page_act where
  "diagnose_form = Get (\<lambda>c. in_page (runDiagnostics (Some (form_values c))))"

text \<open>The inputs: a number field gives \<open>Number(e.target.value)\<close>.\<close>

definition choose_mode :: "string \<Rightarrow> mp_page \<Rightarrow> mp_page" where
  "choose_mode m s = on_store (\<lambda>st. st\<lparr>diagnoseResults := JNull\<rparr>) (s\<lparr>mode := JStr m\<rparr>)"

datatype number_field = Max_arteries | Socks_port | Http_port | Min_arteries | Frame_size | Eval_window
  | Loss_demote | Demote_rtt | Promote_rtt | Cooldown | Error_budget

fun type_number :: "number_field \<Rightarrow> string \<Rightarrow> mp_page \<Rightarrow> mp_page" where
  "type_number Max_arteries v s = s\<lparr>maxArteries := str_number v\<rparr>"
| "type_number Socks_port v s = s\<lparr>socksPort := str_number v\<rparr>"
| "type_number Http_port v s = s\<lparr>httpPort := str_number v\<rparr>"
| "type_number Min_arteries v s = s\<lparr>minArteries := str_number v\<rparr>"
| "type_number Frame_size v s = s\<lparr>frameSize := str_number v\<rparr>"
| "type_number Eval_window v s = s\<lparr>evalWindowMs := str_number v\<rparr>"
| "type_number Loss_demote v s = s\<lparr>lossDemotePct := str_number v\<rparr>"
| "type_number Demote_rtt v s = s\<lparr>demoteRttX := str_number v\<rparr>"
| "type_number Promote_rtt v s = s\<lparr>promoteRttX := str_number v\<rparr>"
| "type_number Cooldown v s = s\<lparr>cooldownSec := str_number v\<rparr>"
| "type_number Error_budget v s = s\<lparr>errorBudget := str_number v\<rparr>"

definition toggle_label :: "mp_page \<Rightarrow> string" where
  "toggle_label s = (if loading (mp_store s) then ''...'' else if isRunning s then [CHR 0xE2, CHR 0x96, CHR 0xA0] @ ''  Stop Engine''
     else [CHR 0xE2, CHR 0x96, CHR 0xB6] @ ''  Start Engine'')"

section \<open>The summary, the table and the drawing\<close>

definition times_sign :: string where
  "times_sign = [CHR 0xC3, CHR 0x97]"

definition config_summary :: "jsv \<Rightarrow> (string \<times> string) list" where
  "config_summary c =
     [(''Mode'', js_string (config_or c ''mode'' (JStr ''selector''))),
      (''Striping'', js_string (config_or c ''striping_mode'' (JStr ''auto''))),
      (''Max Arteries'', js_string (config_or c ''max_arteries'' (JNum 5))),
      (''Min Arteries'', js_string (config_or c ''min_arteries'' (JNum 2))),
      (''SOCKS Port'', js_string (config_or c ''socks_port'' (JNum 10646))),
      (''HTTP Port'', js_string (config_or c ''http_port'' (JNum 10545))),
      (''Eval Window'', js_string (config_or c ''eval_window_ms'' (JNum 5000)) @ ''ms''),
      (''Demote RTT'' @ times_sign, js_string (config_or c ''demote_rtt_x'' (JNum (3/2)))),
      (''Promote RTT'' @ times_sign, js_string (config_or c ''promote_rtt_x'' (JNum (6/5)))),
      (''Loss Demote %'', js_string (config_or c ''loss_demote_pct'' (JNum 5)) @ ''%''),
      (''Cooldown'', js_string (config_or c ''cooldown_sec'' (JNum 30)) @ ''s''),
      (''Error Budget'', js_string (config_or c ''error_budget'' (JNum 5)))]"

definition artery_is :: "string \<Rightarrow> jsv \<Rightarrow> bool" where
  "artery_is st a \<longleftrightarrow> opt_prop a ''state'' = JStr st"

definition active_arteries :: "mp_page \<Rightarrow> nat" where
  "active_arteries s = length (filter (artery_is ''active'') (arteries_of (mp_store s)))"

definition stateColor :: "(string \<times> string) list" where
  "stateColor = [(''active'', ''#10b981''), (''shadow'', ''#6366f1''), (''probation'', ''#f59e0b''), (''dead'', ''#ef4444''),
     (''quarantined'', ''#9b9bab'')]"

definition artery_color :: "jsv \<Rightarrow> string" where
  "artery_color a = (case map_of stateColor (js_string (opt_prop a ''state'')) of Some c \<Rightarrow> c | None \<Rightarrow> ''#9b9bab'')"

definition topology_height :: "nat \<Rightarrow> rat" where
  "topology_height n = max 180 (of_nat n * 50 + 60)"

definition artery_y :: "nat \<Rightarrow> nat \<Rightarrow> rat" where
  "artery_y n i = 30 + (topology_height n - 60) / of_nat (max (n - 1) 1) * of_nat i"

definition artery_down :: "jsv \<Rightarrow> bool" where
  "artery_down a \<longleftrightarrow> artery_is ''dead'' a \<or> artery_is ''quarantined'' a"

definition stroke_width :: "jsv \<Rightarrow> rat" where
  "stroke_width a = (if artery_down a then 1 else if artery_is ''shadow'' a then 3/2 else 5/2)"

text \<open>The running dot of an artery that carries traffic, with the seconds of its run.\<close>

definition particle :: "jsv \<Rightarrow> nat \<Rightarrow> rat option" where
  "particle a i = (if \<not> artery_down a \<and> \<not> artery_is ''shadow'' a then Some (3/2 + of_nat i * (3/10)) else None)"

text \<open>The vertical extent of an artery's label.\<close>

definition label_top :: "nat \<Rightarrow> nat \<Rightarrow> rat" where
  "label_top n i = artery_y n i - 9"

definition label_bottom :: "nat \<Rightarrow> nat \<Rightarrow> rat" where
  "label_bottom n i = label_top n i + 18"

end
