(* ===== verification/Multipath_Behaviour.thy ===== *)
theory Multipath_Behaviour
  imports Multipath_Page
begin

text \<open>
  Properties of the multipath page: how the diagnostics are revealed, what the switch asks for, what the form makes of
  stored settings, and that the labels of the drawing do not overlap.
\<close>

section \<open>The store in the page\<close>

text \<open>The effects of the page open and close the socket of the telemetry and leave the rest of the store as the action of
  the store left it: what an action writes in the page is what the store's theory says of it.\<close>

definition beside_socket :: "mp_state \<Rightarrow> mp_state" where
  "beside_socket st = st\<lparr>ws := None, sockets := []\<rparr>"

lemma store_of_effects [simp]:
  "mp_store (panel_effects old s) = mp_store s" "mp_store (sync_form s) = mp_store s"
  by (simp_all add: panel_effects_def fresh_panel_def start_reveal_def hide_results_def sync_form_def load_form_def Let_def)

lemma beside_telemetry [simp]:
  "beside_socket (connectTelemetry st) = beside_socket st" "beside_socket (telemetry_cleanup st) = beside_socket st"
  by (simp_all add: beside_socket_def connectTelemetry_def telemetry_cleanup_def Let_def split: option.splits)

interpretation mp_page: store_view mp_store on_store beside_socket
  by unfold_locales (simp add: on_store_def telemetry_effect_def Let_def)

lemma same_beside:
  assumes "beside_socket s = beside_socket s'"
  shows "\<exists>w ss. s' = s\<lparr>ws := w, sockets := ss\<rparr>"
proof -
  have "s' = s\<lparr>ws := ws s', sockets := sockets s'\<rparr>"
    using assms by (cases s, cases s') (simp add: beside_socket_def)
  then show ?thesis by blast
qed

lemma depends_beside:
  "(\<And>s w ss. k (s\<lparr>ws := w, sockets := ss\<rparr>) = k s) \<Longrightarrow> depends_on beside_socket k"
  unfolding depends_on_def by (metis same_beside)

lemma through_fetch: "mp_page.through (mp_fetch meth url b)"
  by (auto simp: mp_fetch_def fetch_def apiHeaders_def getToken_def intro!: depends_beside split: reply.splits)

lemma through_calls:
  "mp_page.through (read_json c)" "mp_page.through (lift_res x)" "mp_page.through (api_error c m)"
  by (auto simp: read_json_def lift_res_def api_error_def split: body.splits sum.splits)

lemma through_write:
  "(\<And>s w ss. beside_socket (f (s\<lparr>ws := w, sockets := ss\<rparr>)) = beside_socket (f s)) \<Longrightarrow>
     mp_page.through t \<Longrightarrow> mp_page.through (Set f t)"
  by (simp add: depends_beside)

lemmas through_intros = mp_page.through_bind mp_page.through_try_catch through_fetch through_calls through_write

lemma through_status: "mp_page.through fetchStatus"
  unfolding fetchStatus_def
  by (intro through_intros) (auto intro!: through_intros simp: beside_socket_def simp del: mp_page.through.simps(3))

lemma actions_through: "t \<in> mp_acts \<Longrightarrow> mp_page.through t"
  unfolding mp_acts_def saveConfig_def startEngine_def stopEngine_def runDiagnostics_def fetchConfig_def fail_loading_def
    andthen_def await_task_def
  by (auto intro!: through_intros through_status simp: beside_socket_def connectTelemetry_def Let_def
    simp del: mp_page.through.simps(3) split: option.splits)

lemma mp_action_in_page:
  assumes "t \<in> mp_acts" and "run (in_page t) rs s = (qs, out, s1, rest)"
  shows "\<exists>s2. run t rs (mp_store s) = (qs, out, s2, rest) \<and> beside_socket (mp_store s1) = beside_socket s2"
  using mp_page.zoom_agrees [OF actions_through [OF assms(1)] refl, of rs s] assms(2) by simp

section \<open>Writes that concern the panel only\<close>

lemma on_store_panel:
  assumes "\<And>st. config (f st) = config st" and "\<And>st. status (f st) = status st"
  shows "on_store f s = panel_effects (mp_store s) (s\<lparr>mp_store := f (mp_store s)\<rparr>)"
proof -
  have e: "engine_state (f st) = engine_state st" for st by (simp add: engine_state_def assms)
  have "mp_store (panel_effects old (s\<lparr>mp_store := st\<rparr>)) = st" for old st
    by (simp add: panel_effects_def fresh_panel_def start_reveal_def hide_results_def Let_def)
  then show ?thesis
    by (simp add: on_store_def writes_def assms telemetry_effect_def e Let_def)
qed

lemma place_of_status: "status a = status b \<Longrightarrow> panel_place a = panel_place b"
  by (simp add: panel_place_def engine_runs_def engine_state_def arteries_of_def)

lemma panel_stays:
  assumes "status (mp_store s) = status old"
  shows "panel_effects old s =
     (if panel_place old = Nowhere then s
      else if diagnoseLoading (mp_store s) \<noteq> diagnoseLoading old then start_reveal (hide_results s)
      else if diagnoseResults (mp_store s) \<noteq> diagnoseResults old then start_reveal s else s)"
  using place_of_status [OF assms] by (simp add: panel_effects_def Let_def)

text \<open>A click on the button while the panel is idle, and the answer.\<close>

definition hidden :: "mp_page \<Rightarrow> mp_page" where
  "hidden s = s\<lparr>mp_store := (mp_store s)\<lparr>diagnoseLoading := True, error := JNull\<rparr>, revealIndex := -1, isAnimating := True,
     reveal_timer := None\<rparr>"

lemma diagnostics_begin:
  assumes "panel_place (mp_store s) \<noteq> Nowhere" and "\<not> run_disabled s"
  shows "on_store (\<lambda>st. st\<lparr>diagnoseLoading := True, error := JNull\<rparr>) s = hidden s"
  using assms
  by (simp add: on_store_panel panel_stays hidden_def run_disabled_def hide_results_def start_reveal_def)

lemma diagnostics_answer:
  assumes "panel_place (mp_store s) \<noteq> Nowhere" and "diagnoseLoading (mp_store s)" and "isAnimating s" and "reveal_timer s = None"
    and "\<And>st. config (f st) = config st" and "\<And>st. status (f st) = status st" and "\<And>st. \<not> diagnoseLoading (f st)"
  shows "on_store f s = (if steps (f (mp_store s)) = [] then s\<lparr>mp_store := f (mp_store s)\<rparr>
     else s\<lparr>mp_store := f (mp_store s), revealIndex := 0, reveal_timer := Some (length (steps (f (mp_store s))))\<rparr>)"
  using assms by (simp add: on_store_panel panel_stays hide_results_def start_reveal_def)

section \<open>Revealing the results\<close>

text \<open>What a run leaves in the store.\<close>

definition reported :: "reply \<Rightarrow> jsv \<Rightarrow> jsv" where
  "reported r old = (case r of Response True (JsonOk v) \<Rightarrow> v | _ \<Rightarrow> old)"

definition revealing :: "mp_page \<Rightarrow> nat \<Rightarrow> mp_page" where
  "revealing s k = s\<lparr>revealIndex := int k, isAnimating := True, reveal_timer := Some (length (steps (mp_store s)))\<rparr>"

definition revealed :: "mp_page \<Rightarrow> mp_page" where
  "revealed s = s\<lparr>revealIndex := int (length (steps (mp_store s))), isAnimating := False, reveal_timer := None\<rparr>"

lemma reveal_step:
  "reveal_due (revealing s k) =
     (if Suc k < length (steps (mp_store s)) then revealing s (Suc k) else revealed s)"
  by (auto simp: reveal_due_def revealing_def revealed_def)

lemma reveal_steps: "k < length (steps (mp_store s)) \<Longrightarrow> (reveal_due ^^ k) (revealing s 0) = revealing s k"
  by (induction k) (simp_all add: reveal_step)

lemma reveal_all: "steps (mp_store s) \<noteq> [] \<Longrightarrow> (reveal_due ^^ length (steps (mp_store s))) (revealing s 0) = revealed s"
  using reveal_steps [of "length (steps (mp_store s)) - 1" s]
  by (cases "length (steps (mp_store s))") (simp_all add: reveal_step)

lemma reveal_idle: "reveal_timer s = None \<Longrightarrow> (reveal_due ^^ k) s = s"
  by (induction k) (simp_all add: reveal_due_def)

text \<open>After an answer one more write lowers the flag and leaves the results of the answer, if it has any.\<close>

definition closing_write :: "reply \<Rightarrow> (mp_state \<Rightarrow> mp_state) \<Rightarrow> bool" where
  "closing_write r f \<longleftrightarrow> (\<forall>st. config (f st) = config st \<and> status (f st) = status st \<and> \<not> diagnoseLoading (f st) \<and>
     diagnoseResults (f st) = reported r (diagnoseResults st))"

lemma zoom_simps [simp]:
  "zoom g u (read_json b) = read_json b" "zoom g u (lift_res x) = lift_res x" "zoom g u (api_error b m) = api_error b m"
  by (auto simp: read_json_def lift_res_def api_error_def split: body.splits sum.splits)

lemma run_diagnostics_writes:
  "\<exists>f. closing_write r f \<and> run (in_page (runDiagnostics (Some c))) (r # rs) s =
     ([http_send ''POST'' ''/api/v2ray/bonding/diagnose'' (apiHeaders (mp_store s')) (Some c)], Returned (),
      on_store f s', rs)"
  if "s' = on_store (\<lambda>st. st\<lparr>diagnoseLoading := True, error := JNull\<rparr>) s"
proof (cases r)
  case (Rejected e)
  then show ?thesis
    by (intro exI [of _ "\<lambda>st. st\<lparr>error := JStr e, diagnoseLoading := False\<rparr>"])
      (simp add: that closing_write_def reported_def runDiagnostics_def mp_fetch_def fetch_def)
next
  case (Response ok b)
  then show ?thesis
  proof (cases b)
    case (JsonBad e)
    with Response show ?thesis
      by (intro exI [of _ "\<lambda>st. st\<lparr>error := JStr e, diagnoseLoading := False\<rparr>"])
        (simp add: that closing_write_def reported_def runDiagnostics_def mp_fetch_def fetch_def read_json_def
          api_error_def split: bool.splits)
  next
    case (JsonOk v)
    show ?thesis
    proof (cases ok)
      case True
      with Response JsonOk show ?thesis
        by (intro exI [of _ "\<lambda>st. st\<lparr>diagnoseResults := v, diagnoseLoading := False\<rparr>"])
          (simp add: that closing_write_def reported_def runDiagnostics_def mp_fetch_def fetch_def read_json_def)
    next
      case False
      with Response JsonOk show ?thesis
        by (intro exI [of _ "\<lambda>st. st\<lparr>error := (case get_prop v ''error'' of Inl e \<Rightarrow> JStr e
             | Inr x \<Rightarrow> js_or x (JStr ''Failed to run diagnostics'')), diagnoseLoading := False\<rparr>"])
          (simp add: that closing_write_def reported_def runDiagnostics_def mp_fetch_def fetch_def api_error_def
            read_json_def lift_res_def split: sum.splits)
    qed
  qed
qed

lemma diagnose_result:
  assumes "panel_place (mp_store s) \<noteq> Nowhere" and "\<not> run_disabled s" and s': "s' = final diagnose_form [r] s"
  shows "diagnoseResults (mp_store s') = reported r (diagnoseResults (mp_store s))" "\<not> diagnoseLoading (mp_store s')"
    "if steps (mp_store s') = [] then isAnimating s' \<and> reveal_timer s' = None else s' = revealing s' 0"
proof -
  have h: "panel_place (mp_store (hidden s)) \<noteq> Nowhere" "diagnoseLoading (mp_store (hidden s))" "isAnimating (hidden s)"
    "reveal_timer (hidden s) = None" "mp_store (hidden s) = (mp_store s)\<lparr>diagnoseLoading := True, error := JNull\<rparr>"
    using assms(1) place_of_status [of "mp_store (hidden s)" "mp_store s"] by (simp_all add: hidden_def)
  obtain f where f: "closing_write r f" and "s' = on_store f (hidden s)"
    using run_diagnostics_writes [OF refl, of r "form_values s" "[]" s] diagnostics_begin [OF assms(1,2)]
    by (auto simp: s' final_def diagnose_form_def)
  then have e: "s' = (if steps (f (mp_store (hidden s))) = [] then (hidden s)\<lparr>mp_store := f (mp_store (hidden s))\<rparr>
     else (hidden s)\<lparr>mp_store := f (mp_store (hidden s)), revealIndex := 0,
       reveal_timer := Some (length (steps (f (mp_store (hidden s)))))\<rparr>)"
    using diagnostics_answer [OF h(1-4), of f] by (simp add: closing_write_def)
  then have st: "mp_store s' = f (mp_store (hidden s))" by simp
  show "diagnoseResults (mp_store s') = reported r (diagnoseResults (mp_store s))" "\<not> diagnoseLoading (mp_store s')"
    using f by (simp_all add: st h closing_write_def)
  show "if steps (mp_store s') = [] then isAnimating s' \<and> reveal_timer s' = None else s' = revealing s' 0"
    using e h by (simp add: revealing_def)
qed

text \<open>C39: The results of the diagnostics come one by one. When a run from the idle panel has been answered, with whatever
  answer, the store holds the results of that answer, or still those of the run before when it has none. If there are any,
  the k-th tick of the timer makes step k the one being checked, all before it revealed, no verdict, and the button off; the
  last tick stops the timer, shows the verdict, which is the worst status among the results, fills the bar and
  frees the button. If there are none the button is off for ever.\<close>

theorem diagnostics_reveal:
  assumes "panel_place (mp_store s) \<noteq> Nowhere" and "\<not> run_disabled s"
  shows "let s' = final diagnose_form [r] s; rs = steps (mp_store s'); n = length rs in
    diagnoseResults (mp_store s') = reported r (diagnoseResults (mp_store s)) \<and>
    (if rs = [] then \<forall>k. run_disabled ((reveal_due ^^ k) s')
     else (\<forall>k<n. let p = (reveal_due ^^ k) s' in revealIndex p = int k \<and> run_disabled p \<and> getOverallStatus p = ''pending'' \<and>
              (\<forall>i. view_of_step (revealIndex p) i = (if i < k then Revealed_step else if i = k then Checking_step else Pending_step))) \<and>
          (let p = (reveal_due ^^ n) s' in \<not> run_disabled p \<and> reveal_timer p = None \<and> verdict_shown p \<and> bar_percent p = 100 \<and>
              (\<forall>i<n. view_of_step (revealIndex p) i = Revealed_step) \<and>
              getOverallStatus p = (if \<exists>x\<in>set rs. step_is ''error'' x then ''error''
                else if \<exists>x\<in>set rs. step_is ''warning'' x then ''warning'' else ''success'')))"
proof -
  let ?s' = "final diagnose_form [r] s"
  note d = diagnose_result [OF assms refl, of r]
  show ?thesis
  proof (cases "steps (mp_store ?s') = []")
    case True
    then show ?thesis using d by (simp add: Let_def run_disabled_def reveal_idle)
  next
    case False
    then have s': "?s' = revealing ?s' 0" using d(3) by simp
    have st: "mp_store (revealing p k) = mp_store p" "mp_store (revealed p) = mp_store p" for p k
      by (simp_all add: revealing_def revealed_def)
    have steps: "(reveal_due ^^ k) ?s' = revealing ?s' k" if "k < length (steps (mp_store ?s'))" for k
      using reveal_steps [OF that] s' by simp
    have "(reveal_due ^^ length (steps (mp_store ?s'))) ?s' = revealed ?s'"
      using reveal_all [OF False] s' by simp
    moreover have "truthy (diagnoseResults (mp_store ?s'))"
      using False by (auto simp: steps_def split: jsv.splits)
    ultimately show ?thesis
      using False d steps
      by (simp add: Let_def st run_disabled_def getOverallStatus_def verdict_shown_def bar_percent_def view_of_step_def
          list_ex_iff) (simp add: revealing_def revealed_def)
  qed
qed

definition sample_steps :: jsv where
  "sample_steps = JArr [JObj [(''name'', JStr ''config''), (''status'', JStr ''success'')],
     JObj [(''name'', JStr ''network''), (''status'', JStr ''warning'')]]"

definition sample_page :: mp_page where
  "sample_page = init_page (init_mp ''https:'' ''host'' Map.empty)"

lemma sample_idle: "panel_place (mp_store sample_page) \<noteq> Nowhere" "\<not> run_disabled sample_page"
  by (simp_all add: sample_page_def init_page_def init_mp_def panel_place_def engine_runs_def engine_state_def
      run_disabled_def opt_prop_def)

theorem diagnostics_reveal_witness:
  "getOverallStatus ((reveal_due ^^ 2) (final diagnose_form [Response True (JsonOk sample_steps)] sample_page)) = ''warning''"
proof -
  let ?s = "final diagnose_form [Response True (JsonOk sample_steps)] sample_page"
  note d = diagnostics_reveal [OF sample_idle, of "Response True (JsonOk sample_steps)", unfolded Let_def]
  have "diagnoseResults (mp_store ?s) = sample_steps" using conjunct1 [OF d] by (simp add: reported_def)
  then have "steps (mp_store ?s) = [JObj [(''name'', JStr ''config''), (''status'', JStr ''success'')],
     JObj [(''name'', JStr ''network''), (''status'', JStr ''warning'')]]"
    by (simp add: steps_def sample_steps_def)
  with d show ?thesis by (simp add: step_is_def opt_prop_def numeral_2_eq_2)
qed

text \<open>After a failure the results of an earlier run are revealed as if they were new, and without an earlier run the
  button is dead.\<close>

lemma failed_run_shows_old_results:
  assumes "panel_place (mp_store s) \<noteq> Nowhere" and "\<not> run_disabled s" and "steps (mp_store s) \<noteq> []"
  shows "verdict_shown ((reveal_due ^^ length (steps (mp_store s))) (final diagnose_form [Rejected e] s))"
proof -
  let ?s = "final diagnose_form [Rejected e] s"
  note d = diagnose_result [OF assms(1,2) refl, of "Rejected e"]
  have r: "steps (mp_store ?s) = steps (mp_store s)" using d(1) by (simp add: reported_def steps_def)
  with d(3) assms(3) have "?s = revealing ?s 0" by simp
  with reveal_all [of ?s] r assms(3) have "(reveal_due ^^ length (steps (mp_store s))) ?s = revealed ?s" by simp
  moreover have "truthy (diagnoseResults (mp_store ?s))"
    using assms(3) r by (auto simp: steps_def split: jsv.splits)
  ultimately show ?thesis by (simp add: verdict_shown_def revealed_def)
qed

lemma failed_run_blocks_button:
  assumes "panel_place (mp_store s) \<noteq> Nowhere" and "\<not> run_disabled s" and "steps (mp_store s) = []"
  shows "run_disabled ((reveal_due ^^ k) (final diagnose_form [Rejected e] s))"
proof -
  note d = diagnose_result [OF assms(1,2) refl, of "Rejected e"]
  have "steps (mp_store (final diagnose_form [Rejected e] s)) = []"
    using d(1) assms(3) by (simp add: reported_def steps_def)
  with d(3) show ?thesis by (simp add: reveal_idle run_disabled_def)
qed

text \<open>Choosing a mode while results are revealed takes them away and leaves the button off.\<close>

lemma choosing_mode_blocks_button:
  assumes "panel_place (mp_store s) \<noteq> Nowhere" and "diagnoseLoading (mp_store s) = False" and "isAnimating s"
    and "diagnoseResults (mp_store s) \<noteq> JNull"
  shows "run_disabled ((reveal_due ^^ k) (choose_mode m s))"
proof -
  have "choose_mode m s = start_reveal (s\<lparr>mode := JStr m, mp_store := (mp_store s)\<lparr>diagnoseResults := JNull\<rparr>\<rparr>)"
    using assms by (simp add: choose_mode_def on_store_panel panel_stays)
  then have "reveal_timer (choose_mode m s) = None" "isAnimating (choose_mode m s)"
    using assms by (simp_all add: start_reveal_def steps_def)
  then show ?thesis by (simp add: reveal_idle run_disabled_def)
qed

section \<open>The switch\<close>

text \<open>The engine is started whether or not the settings were saved, and the message of a failed save is gone by then.\<close>

lemma start_follows_failed_save:
  assumes "\<not> isRunning s"
  shows "map (\<lambda>rq. (rq_method rq, rq_url rq, rq_body rq))
      (requests handleToggle [Rejected e, Response False (JsonOk (JObj [])), Rejected e'] s) =
    [(''POST'', ''/api/v2ray/bonding/config'', Some (form_config (JBool True) s)),
     (''POST'', ''/api/v2ray/bonding/start'', None), (''GET'', ''/api/v2ray/bonding/status'', None)]"
  using assms
  by (simp add: requests_def handleToggle_def saveConfig_def startEngine_def fetchStatus_def mp_fetch_def fetch_def
      fail_loading_def await_task_def api_error_def read_json_def lift_res_def http_send_def)

section \<open>The form\<close>

text \<open>Settings whose fields are all set are read into the form and sent as they are; a number 0 is read as the default.\<close>

lemma zero_is_lost: "lossDemotePct (load_form (JObj [(''loss_demote_pct'', JNum 0)]) s) = JNum 5"
  "errorBudget (load_form (JObj [(''error_budget'', JNum 0)]) s) = JNum 5"
  by (simp_all add: load_form_def config_or_def opt_prop_def js_or_def obj_get_def)

definition number_set :: "jsv \<Rightarrow> string \<Rightarrow> bool" where
  "number_set c k \<longleftrightarrow> (\<exists>n. opt_prop c k = JNum n \<and> n \<noteq> 0)"

definition text_set :: "jsv \<Rightarrow> string \<Rightarrow> bool" where
  "text_set c k \<longleftrightarrow> (\<exists>v. opt_prop c k = JStr v \<and> v \<noteq> [])"

lemma config_or_set:
  "number_set c k \<Longrightarrow> to_number (config_or c k d) = opt_prop c k"
  "text_set c k \<Longrightarrow> config_or c k d = opt_prop c k"
  "is_str (opt_prop c k) \<Longrightarrow> config_or c k (JStr []) = opt_prop c k"
  by (cases "opt_prop c k"; auto simp: number_set_def text_set_def config_or_def js_or_def)+

lemma form_of_settings:
  assumes "list_all (number_set c)
     [''max_arteries'', ''min_arteries'', ''socks_port'', ''http_port'', ''frame_size'', ''eval_window_ms'', ''demote_rtt_x'',
      ''promote_rtt_x'', ''loss_demote_pct'', ''cooldown_sec'', ''error_budget'']"
    and "list_all (\<lambda>k. is_str (opt_prop c k)) [''combiner_url'', ''origin_id'', ''psk_hex'']"
    and "list_all (text_set c) [''mode'', ''striping_mode'']"
  shows "form_config a (load_form c s) = JObj ((''is_active'', a) # map (\<lambda>k. (k, opt_prop c k))
     [''mode'', ''striping_mode'', ''max_arteries'', ''min_arteries'', ''socks_port'', ''http_port'', ''combiner_url'',
      ''origin_id'', ''psk_hex'', ''frame_size'', ''eval_window_ms'', ''demote_rtt_x'', ''promote_rtt_x'',
      ''loss_demote_pct'', ''cooldown_sec'', ''error_budget''])"
  using assms by (simp add: form_config_def load_form_def config_or_set)

section \<open>The drawing\<close>

lemma artery_gap: "Suc i < n \<Longrightarrow> artery_y n (Suc i) - artery_y n i \<ge> 50"
proof -
  assume "Suc i < n"
  then have "(2 :: rat) \<le> of_nat n" by simp
  have "50 * (of_nat n - 1) \<le> topology_height n - 60" by (simp add: topology_height_def)
  with \<open>2 \<le> of_nat n\<close> have "50 \<le> (topology_height n - 60) / (of_nat n - 1)" by (simp add: le_divide_eq)
  moreover have "max (n - 1) 1 = n - 1" using \<open>Suc i < n\<close> by simp
  then have "of_nat (max (n - 1) 1) = (of_nat n - 1 :: rat)" using \<open>Suc i < n\<close> by (simp add: of_nat_diff)
  ultimately show ?thesis by (simp add: artery_y_def distrib_left)
qed

lemma artery_y_mono: "i < j \<Longrightarrow> j < n \<Longrightarrow> artery_y n i + 50 \<le> artery_y n j"
proof (induction j)
  case (Suc j)
  with artery_gap [of j n] show ?case by (cases "i = j") auto
qed simp

text \<open>C40: The labels of the drawing of the arteries lie within it, one below the other in the order of the list with a gap
  between any two, however many there are.\<close>

theorem topology_labels_apart:
  assumes "i < n"
  shows "0 \<le> label_top n i \<and> label_bottom n i \<le> topology_height n \<and>
    (\<forall>j. i < j \<and> j < n \<longrightarrow> label_bottom n i + 32 \<le> label_top n j)"
proof -
  have pos: "0 \<le> topology_height n - 60" by (simp add: topology_height_def)
  have first: "30 \<le> artery_y n i" using pos by (simp add: artery_y_def)
  have "of_nat i \<le> (of_nat (max (n - 1) 1) :: rat)" using assms by (simp only: of_nat_le_iff)
  then have "(topology_height n - 60) / of_nat (max (n - 1) 1) * of_nat i \<le> topology_height n - 60"
    using pos by (simp add: divide_le_eq mult_left_mono)
  then have "artery_y n i \<le> topology_height n - 30" by (simp add: artery_y_def)
  moreover have "label_bottom n i + 32 \<le> label_top n j" if "i < j" "j < n" for j
    using artery_y_mono [OF that] by (simp add: label_top_def label_bottom_def)
  ultimately show ?thesis
    using first by (simp add: label_top_def label_bottom_def)
qed

theorem topology_labels_apart_witness: "label_bottom 9 3 + 32 \<le> label_top 9 7"
  using topology_labels_apart [of 3 9] by simp

end
