(* ===== verification/JSON_Places.thy ===== *)
theory JSON_Places
  imports JSON
begin

text \<open>
  What the editors of configurations share: the places of a value by key or index, its copy through JSON, and lists that are
  edited as text with one separator.
\<close>

section \<open>Places in a value\<close>

text \<open>A key of a list is the decimal text of an index.\<close>

definition array_index :: "string \<Rightarrow> nat option" where
  "array_index k = (if k \<noteq> [] \<and> list_all is_digit k \<and> show_nat (digits_val k) = k then Some (digits_val k) else None)"

text \<open>\<open>v?.[k]\<close>.\<close>

definition opt_index :: "jsv \<Rightarrow> string \<Rightarrow> jsv" where
  "opt_index v k =
     (case (v, array_index k) of
        (JArr xs, Some i) \<Rightarrow> if i < length xs then xs ! i else JUndef
      | (JStr s, Some i) \<Rightarrow> if i < length s then JStr [s ! i] else JUndef
      | _ \<Rightarrow> opt_prop v k)"

text \<open>\<open>v[k] = x\<close>: a list grows with holes; other properties of a list do not reach its JSON. Values that are no objects
  throw.\<close>

definition list_put :: "nat \<Rightarrow> jsv \<Rightarrow> jsv list \<Rightarrow> jsv list" where
  "list_put i x xs = (if i < length xs then xs[i := x] else xs @ replicate (i - length xs) JUndef @ [x])"

definition put_prop :: "string \<Rightarrow> jsv \<Rightarrow> jsv \<Rightarrow> jsv res" where
  "put_prop k x v =
     (case v of
        JObj kvs \<Rightarrow> Inr (JObj (AList.update k x kvs))
      | JArr xs \<Rightarrow> Inr (case array_index k of Some i \<Rightarrow> JArr (list_put i x xs) | None \<Rightarrow> v)
      | _ \<Rightarrow> Inl (''Cannot set properties of '' @ js_string v @ '' (setting '' @ quote_key k @ '')''))"

text \<open>\<open>JSON.parse(JSON.stringify(v))\<close>.\<close>

fun json_clone :: "jsv \<Rightarrow> jsv" where
  "json_clone JUndef = JNull"
| "json_clone JNaN = JNull"
| "json_clone (JArr xs) = JArr (map json_clone xs)"
| "json_clone (JObj kvs) = JObj (map (\<lambda>(k, v). (k, json_clone v)) (filter (\<lambda>(k, v). v \<noteq> JUndef) kvs))"
| "json_clone v = v"

section \<open>Lists as text\<close>

text \<open>\<open>t.split(c).map(s => s.trim()).filter(Boolean)\<close>.\<close>

definition clean_parts :: "char \<Rightarrow> string \<Rightarrow> string list" where
  "clean_parts c t = filter (\<lambda>x. x \<noteq> []) (map trim (split_on c t))"

lemma set_dropWhile_subset: "set (dropWhile P xs) \<subseteq> set xs"
  by (auto dest: set_dropWhileD)

lemma set_trim: "set (trim x) \<subseteq> set x"
  using set_dropWhile_subset [of is_space "rev (dropWhile is_space x)"] set_dropWhile_subset [of is_space x]
  by (auto simp: trim_def)

lemma split_on_chars: "x \<in> set (split_on c xs) \<Longrightarrow> c \<notin> set x"
proof (induction xs arbitrary: x)
  case (Cons a xs)
  obtain y ys where y: "split_on c xs = y # ys" by (cases "split_on c xs") auto
  with Cons show ?case by (auto split: if_splits)
qed simp

lemma clean_parts_joined:
  assumes "list_all (\<lambda>x. c \<notin> set x \<and> x \<noteq> [] \<and> trim x = x) ts"
  shows "clean_parts c (join_with [c] ts) = ts"
proof (cases "ts = []")
  case True
  then show ?thesis by (simp add: clean_parts_def trim_def)
next
  case False
  have "split_on c (join_with [c] ts) = ts"
    using assms False by (intro split_join) (auto simp: list_all_iff)
  moreover have "map trim ts = ts" "filter (\<lambda>x. x \<noteq> []) ts = ts"
    using assms by (auto simp: list_all_iff intro!: map_idI filter_True)
  ultimately show ?thesis by (simp add: clean_parts_def)
qed

lemma clean_parts_clean: "x \<in> set (clean_parts c t) \<Longrightarrow> c \<notin> set x \<and> x \<noteq> [] \<and> trim x = x"
  using set_trim by (auto simp: clean_parts_def trim_trim dest!: split_on_chars)

lemma clean_parts_join: "clean_parts c (join_with [c] (clean_parts c t)) = clean_parts c t"
  using clean_parts_clean by (intro clean_parts_joined) (auto simp: list_all_iff)

section \<open>Copies and places\<close>

lemma clone_json: "json_value v \<Longrightarrow> json_clone v = v"
proof (induction v rule: json_value.induct)
  case (7 xs)
  then show ?case by (auto simp: list_all_iff intro!: map_idI)
next
  case (8 kvs)
  have "v \<noteq> JUndef \<and> json_clone v = v" if "(k, v) \<in> set kvs" for k v
    using 8 that by (fastforce simp: list_all_iff)
  then have "filter (\<lambda>(k, v). v \<noteq> JUndef) kvs = kvs" "map (\<lambda>(k, v). (k, json_clone v)) kvs = kvs"
    by (auto intro!: filter_True map_idI)
  then show ?case by simp
qed simp_all

lemma array_index_unique: "array_index k = Some i \<Longrightarrow> array_index j = Some i \<Longrightarrow> j = k"
  by (auto simp: array_index_def split: if_splits)

lemma opt_prop_json [simp]: "opt_prop (JObj kvs) k = obj_get kvs k"
  by (simp add: opt_prop_def)

lemma opt_index_obj [simp]: "opt_index (JObj kvs) k = obj_get kvs k"
  by (simp add: opt_index_def split: option.splits)

lemma opt_index_undef [simp]: "opt_index JUndef k = JUndef"
  by (simp add: opt_index_def opt_prop_def split: option.splits)

lemma list_put_nth: "list_put i x xs ! j = (if j = i then x else if j < length xs then xs ! j else JUndef)"
  if "j < length (list_put i x xs)"
  using that by (auto simp: list_put_def nth_append nth_Cons' split: if_splits)

lemma length_list_put: "length (list_put i x xs) = max (length xs) (Suc i)"
  by (simp add: list_put_def)

lemma put_same:
  assumes "put_prop k x v = Inr w" and "\<And>xs. v = JArr xs \<Longrightarrow> array_index k \<noteq> None"
  shows "opt_index w k = x"
  using assms by (cases v) (auto simp: put_prop_def opt_index_def list_put_nth length_list_put)

lemma put_other:
  assumes "put_prop k x v = Inr w" and "j \<noteq> k" and "j \<noteq> ''length''"
  shows "opt_index w j = opt_index v j"
proof (cases v)
  case (JArr xs)
  have "i \<noteq> n" if "array_index k = Some i" "array_index j = Some n" for i n
    using array_index_unique that assms(2) by blast
  then show ?thesis
    using assms JArr
    by (auto simp: put_prop_def opt_index_def list_put_nth length_list_put opt_prop_def split: option.splits)
qed (use assms in \<open>auto simp: put_prop_def opt_index_def opt_prop_def split: option.splits\<close>)

lemma index_of_show [simp]: "array_index (show_nat i) = Some i"
  using show_nat_digits [of i] by (simp add: array_index_def list_all_iff)

text \<open>A value and its copy have one text, so the text of any value is read back as its copy.\<close>

lemma clone_defined: "v \<noteq> JUndef \<Longrightarrow> json_clone v \<noteq> JUndef"
  by (cases v) auto

lemma stringify_clone: "stringify gap k (json_clone v) = stringify gap k v"
proof (induction gap k v rule: stringify.induct)
  case (7 gap k xs)
  then have "map (stringify gap (Suc k) \<circ> json_clone) xs = map (stringify gap (Suc k)) xs" by simp
  then show ?case by (simp only: json_clone.simps stringify.simps map_map)
next
  case (8 gap k kvs)
  let ?p = "\<lambda>(key, v). if v = JUndef then []
        else [quote_str key @ (if gap = [] then '':'' else '': '') @ stringify gap (Suc k) v]"
  have "concat (map ?p (map (\<lambda>(k, v). (k, json_clone v)) (filter (\<lambda>(k, v). v \<noteq> JUndef) ms))) = concat (map ?p ms)"
    if "set ms \<subseteq> set kvs" for ms
    using that
  proof (induction ms)
    case (Cons m ms)
    obtain key v where m: "m = (key, v)" by (cases m)
    have "stringify gap (Suc k) (json_clone v) = stringify gap (Suc k) v" if "v \<noteq> JUndef"
      using 8 [of "(key, v)"] Cons.prems m that by simp
    then show ?case using Cons clone_defined [of v] by (simp add: m)
  qed simp
  then show ?case by (simp only: json_clone.simps stringify.simps subset_refl)
qed simp_all

lemma json_read_clone:
  "json_value (json_clone v) \<Longrightarrow> list_all json_space gap \<Longrightarrow> json_parse (json_text gap v) = Some (json_clone v)"
  using json_roundtrip [of "json_clone v" gap] by (simp add: json_text_def stringify_clone)

end
