(* ===== verification/EditConfig_Modal.thy ===== *)
theory EditConfig_Modal
  imports JSON_Places Page
begin

text \<open>
  The modal that edits a profile (\<open>v2ray-client/components/EditConfigModal.tsx\<close>): a form and an editor of JSON over the same
  settings, the tabs that translate one into the other, the test of the edited profile and its saving. Values that come out
  of JSON keep whatever type they have there. The text of a SyntaxError is the argument \<open>why\<close>.
\<close>

section \<open>State\<close>

datatype tab = Form_tab | Json_tab

record edit_modal =
  isOpen :: bool
  profile :: jsv
  selectedCore :: "string option"
  activeTab :: tab
  name :: jsv
  protocol :: jsv
  address :: jsv
  port :: jsv
  uuid :: jsv
  network :: jsv
  muxEnabled :: bool
  security :: jsv
  sni :: jsv
  allowInsecure :: bool
  alpn :: string
  publicKey :: jsv
  shortId :: jsv
  spiderX :: jsv
  dest :: jsv
  path :: jsv
  host :: jsv
  serviceName :: jsv
  multiMode :: bool
  vmessSecurity :: jsv
  alterId :: jsv
  flow :: jsv
  encryption :: jsv
  ssMethod :: jsv
  rawJson :: string
  jsonError :: "string option"
  isTesting :: bool
  testResult :: jsv
  testType :: string
  local_store :: storage

definition default_alpn :: string where
  "default_alpn = ''h2,http/1.1''"

definition init_modal :: "storage \<Rightarrow> edit_modal" where
  "init_modal st = \<lparr>isOpen = False, profile = JNull, selectedCore = None, activeTab = Form_tab, name = JStr [],
     protocol = JStr ''vless'', address = JStr [], port = JNum 443, uuid = JStr [], network = JStr ''tcp'', muxEnabled = False,
     security = JStr ''none'', sni = JStr [], allowInsecure = False, alpn = default_alpn, publicKey = JStr [],
     shortId = JStr [], spiderX = JStr [], dest = JStr [], path = JStr [], host = JStr [], serviceName = JStr [],
     multiMode = False, vmessSecurity = JStr ''auto'', alterId = JNum 0, flow = JStr ''xtls-rprx-vision'',
     encryption = JStr ''none'', ssMethod = JStr ''aes-256-gcm'', rawJson = ''{}'', jsonError = None, isTesting = False,
     testResult = JNull, testType = ''tls_ping'', local_store = st\<rparr>"

section \<open>From JSON to the form\<close>

definition prop_or :: "jsv \<Rightarrow> string \<Rightarrow> jsv \<Rightarrow> jsv" where
  "prop_or v k d = js_or (opt_prop v k) d"

definition take_tls :: "jsv \<Rightarrow> edit_modal \<Rightarrow> edit_modal" where
  "take_tls tls s =
     (if truthy tls
      then (let s1 = s\<lparr>allowInsecure := truthy (opt_prop tls ''allowInsecure'')\<rparr> in
        case opt_prop tls ''alpn'' of JArr xs \<Rightarrow> s1\<lparr>alpn := js_string (JArr xs)\<rparr> | _ \<Rightarrow> s1)
      else s)"

definition first_short_id :: "jsv \<Rightarrow> jsv \<Rightarrow> jsv" where
  "first_short_id rs obj =
     (case opt_prop rs ''shortIds'' of
        JArr xs \<Rightarrow> js_or (case xs of [] \<Rightarrow> JUndef | x # _ \<Rightarrow> x) (JStr [])
      | _ \<Rightarrow> js_or (js_or (opt_prop rs ''shortId'') (opt_prop obj ''shortId'')) (JStr []))"

definition take_reality :: "jsv \<Rightarrow> edit_modal \<Rightarrow> edit_modal" where
  "take_reality obj s =
     (let rs = opt_prop obj ''realitySettings'' in
      if truthy rs
      then s\<lparr>publicKey := js_or (js_or (opt_prop rs ''publicKey'') (opt_prop obj ''publicKey'')) (JStr []),
             shortId := first_short_id rs obj, spiderX := prop_or rs ''spiderX'' (JStr []),
             dest := prop_or rs ''dest'' (JStr [])\<rparr>
      else s\<lparr>publicKey := prop_or obj ''publicKey'' (JStr []), shortId := prop_or obj ''shortId'' (JStr [])\<rparr>)"

definition take_rest :: "jsv \<Rightarrow> edit_modal \<Rightarrow> edit_modal" where
  "take_rest obj s = s\<lparr>path := prop_or obj ''path'' (JStr []), host := prop_or obj ''host'' (JStr []),
     serviceName := prop_or obj ''serviceName'' (JStr []), multiMode := truthy (opt_prop obj ''multiMode''),
     vmessSecurity := js_or (js_or (opt_prop obj ''vmess_security'') (opt_prop obj ''security_vmess'')) (JStr ''auto''),
     alterId := prop_or obj ''alterId'' (JNum 0),
     flow := (if opt_prop obj ''flow'' \<noteq> JUndef then opt_prop obj ''flow'' else JStr ''xtls-rprx-vision''),
     encryption := prop_or obj ''encryption'' (JStr ''none''), ssMethod := prop_or obj ''method'' (JStr ''aes-256-gcm'')\<rparr>"

definition fill_form :: "jsv \<Rightarrow> edit_modal \<Rightarrow> edit_modal" where
  "fill_form obj s = take_rest obj (take_reality obj (take_tls (opt_prop obj ''tlsSettings'')
     (s\<lparr>security := prop_or obj ''security'' (JStr ''none''), sni := prop_or obj ''sni'' (JStr [])\<rparr>)))"

text \<open>The effect on the profile and on opening. What the tab keeps when the JSON lacks it gets its default here. A text that
  does not parse counts as no settings; \<open>null\<close> fails the effect.\<close>

definition profile_settings :: "jsv \<Rightarrow> jsv" where
  "profile_settings p = (let t = opt_prop p ''tls_settings'' in
     if truthy t then (case json_parse (js_string t) of None \<Rightarrow> JObj [] | Some v \<Rightarrow> v) else JObj [])"

definition take_basics :: "jsv \<Rightarrow> edit_modal \<Rightarrow> edit_modal" where
  "take_basics p s = s\<lparr>name := prop_or p ''name'' (JStr []), protocol := prop_or p ''protocol'' (JStr ''vless''),
     address := prop_or p ''address'' (JStr []), port := prop_or p ''port'' (JNum 443), uuid := prop_or p ''uuid'' (JStr []),
     network := prop_or p ''network'' (JStr ''tcp''), muxEnabled := truthy (opt_prop p ''mux_enabled'')\<rparr>"

definition load_profile :: "edit_modal \<Rightarrow> edit_modal res" where
  "load_profile s =
     (if \<not> truthy (profile s) then Inr s
      else let obj = profile_settings (profile s);
               s1 = (take_basics (profile s) s)\<lparr>rawJson := json_text ''  '' obj\<rparr> in
        case get_prop obj ''security'' of Inl e \<Rightarrow> Inl e
        | Inr _ \<Rightarrow> Inr ((fill_form obj (s1\<lparr>allowInsecure := False, alpn := default_alpn, spiderX := JStr [],
            dest := JStr []\<rparr>))\<lparr>testResult := JNull, isTesting := False\<rparr>))"

definition open_modal :: "jsv \<Rightarrow> edit_modal \<Rightarrow> edit_modal res" where
  "open_modal p s = load_profile (s\<lparr>profile := p, isOpen := True\<rparr>)"

definition shown :: "edit_modal \<Rightarrow> bool" where
  "shown s \<longleftrightarrow> isOpen s \<and> truthy (profile s)"

section \<open>From the form to JSON\<close>

definition is_text :: "string \<Rightarrow> jsv \<Rightarrow> bool" where
  "is_text t v \<longleftrightarrow> v = JStr t"

definition alpn_list :: "string \<Rightarrow> string list" where
  "alpn_list t = clean_parts CHR '','' t"

definition security_part :: "edit_modal \<Rightarrow> obj" where
  "security_part s =
     (if is_text ''none'' (security s) then [] else [(''security'', security s)]) @
     (if truthy (sni s) then [(''sni'', sni s)] else []) @
     (if is_text ''tls'' (security s) then [(''tlsSettings'', JObj
        [(''serverName'', sni s), (''allowInsecure'', JBool (allowInsecure s)),
         (''alpn'', JArr (map JStr (alpn_list (alpn s))))])] else []) @
     (if is_text ''reality'' (security s) then
        [(''publicKey'', publicKey s), (''shortId'', shortId s), (''realitySettings'', JObj
          [(''publicKey'', publicKey s), (''shortIds'', JArr (if truthy (shortId s) then [shortId s] else [])),
           (''serverName'', sni s), (''spiderX'', spiderX s), (''dest'', dest s)])] else [])"

definition transport_part :: "edit_modal \<Rightarrow> obj" where
  "transport_part s =
     (if is_text ''ws'' (network s) then (''path'', js_or (path s) (JStr ''/ws'')) #
        (if truthy (host s) then [(''host'', host s)] else [])
      else if is_text ''grpc'' (network s) then
        [(''serviceName'', js_or (serviceName s) (JStr ''TunService'')), (''multiMode'', JBool (multiMode s))]
      else [])"

definition protocol_part :: "edit_modal \<Rightarrow> obj" where
  "protocol_part s =
     (if is_text ''vmess'' (protocol s) then
        [(''vmess_security'', vmessSecurity s), (''alterId'', js_or (to_number (alterId s)) (JNum 0))]
      else if is_text ''vless'' (protocol s) then
        [(''flow'', flow s), (''encryption'', js_or (encryption s) (JStr ''none''))]
      else if is_text ''shadowsocks'' (protocol s) then [(''method'', ssMethod s)]
      else [])"

definition compile_settings :: "edit_modal \<Rightarrow> jsv" where
  "compile_settings s = JObj (security_part s @ transport_part s @ protocol_part s)"

definition updateJsonFromForm :: "edit_modal \<Rightarrow> edit_modal" where
  "updateJsonFromForm s = s\<lparr>rawJson := json_text ''  '' (compile_settings s), jsonError := None\<rparr>"

text \<open>The tabs: an exception while the JSON is read leaves everything but the message as it was.\<close>

definition to_form :: "string \<Rightarrow> edit_modal \<Rightarrow> edit_modal" where
  "to_form why s =
     (let fail = (\<lambda>e. s\<lparr>jsonError := Some (''Cannot switch tab: Invalid JSON syntax. '' @ e)\<rparr>) in
      case json_parse (rawJson s) of None \<Rightarrow> fail why
      | Some obj \<Rightarrow> (case get_prop obj ''security'' of Inl e \<Rightarrow> fail e
          | Inr _ \<Rightarrow> (fill_form obj s)\<lparr>jsonError := None, activeTab := Form_tab\<rparr>))"

definition handleTabChange :: "string \<Rightarrow> tab \<Rightarrow> edit_modal \<Rightarrow> edit_modal" where
  "handleTabChange why t s = (case t of Json_tab \<Rightarrow> (updateJsonFromForm s)\<lparr>activeTab := Json_tab\<rparr> | Form_tab \<Rightarrow> to_form why s)"

section \<open>Testing and saving\<close>

definition final_settings :: "string \<Rightarrow> edit_modal \<Rightarrow> string res" where
  "final_settings why s =
     (case activeTab s of Form_tab \<Rightarrow> Inr (json_text [] (compile_settings s))
      | Json_tab \<Rightarrow> (case json_parse (rawJson s) of None \<Rightarrow> Inl (''Invalid JSON structure: '' @ why)
          | Some _ \<Rightarrow> Inr (rawJson s)))"

definition buildCompiledProfile :: "string \<Rightarrow> edit_modal \<Rightarrow> jsv res" where
  "buildCompiledProfile why s =
     (case final_settings why s of Inl e \<Rightarrow> Inl e
      | Inr t \<Rightarrow> Inr (spread2 (profile s) (JObj
          [(''name'', name s), (''protocol'', protocol s), (''address'', address s), (''port'', to_number (port s)),
           (''uuid'', uuid s), (''network'', network s), (''mux_enabled'', JBool (muxEnabled s)),
           (''tls_settings'', JStr t)])))"

definition test_body :: "edit_modal \<Rightarrow> jsv \<Rightarrow> jsv" where
  "test_body s compiled = JObj
     [(''config'', compiled), (''test_type'', JStr (testType s)),
      (''core'', JStr (case selectedCore s of None \<Rightarrow> ''current'' | Some c \<Rightarrow> if c = [] then ''current'' else c)),
      (''timeout_sec'', JNum 5)]"

definition failed_test :: "jsv \<Rightarrow> jsv" where
  "failed_test e = JObj [(''ok'', JBool False), (''error'', e)]"

definition handleDirectTest :: "string \<Rightarrow> (edit_modal, unit) page_action" where
  "handleDirectTest why = Get (\<lambda>c. Set (\<lambda>s. s\<lparr>isTesting := True, testResult := JNull, jsonError := None\<rparr>)
     (finally_do (try_catch
       (bind (lift_res (buildCompiledProfile why c)) (\<lambda>compiled.
        bind (page_fetch (http_send ''POST'' ''/api/v2ray/client/test-config-direct''
            [json_header, auth_header (get_item_or (local_store c) ''cc_client_token'' [])] (Some (test_body c compiled))))
         (\<lambda>(ok, b). bind (read_json b) (\<lambda>data.
            if ok then set_state (\<lambda>s. s\<lparr>testResult := data\<rparr>)
            else bind (lift_res (get_prop data ''error'')) (\<lambda>e.
              set_state (\<lambda>s. s\<lparr>testResult := failed_test (js_or e (JStr ''Server error''))\<rparr>))))))
       (\<lambda>e. set_state (\<lambda>s. s\<lparr>testResult := failed_test (JStr (if e = [] then ''Test compilation or request error'' else e))\<rparr>)))
     (\<lambda>s. s\<lparr>isTesting := False\<rparr>)))"

text \<open>The parent's \<open>onSave\<close> is an argument.\<close>

definition handleSave :: "(jsv \<Rightarrow> (edit_modal, unit) page_action) \<Rightarrow> string \<Rightarrow> (edit_modal, unit) page_action" where
  "handleSave onSave why = Get (\<lambda>c. Set (\<lambda>s. s\<lparr>jsonError := None\<rparr>)
     (try_catch (bind (lift_res (buildCompiledProfile why c)) (\<lambda>compiled. await_task (onSave compiled)))
       (\<lambda>e. set_state (\<lambda>s. s\<lparr>jsonError := Some e\<rparr>))))"

section \<open>What is shown\<close>

definition uuid_label :: "edit_modal \<Rightarrow> string" where
  "uuid_label s = (if is_text ''shadowsocks'' (protocol s) \<or> is_text ''trojan'' (protocol s) then ''Password''
     else ''UUID / User Identifier'')"

text \<open>A value as a child of an element: nothing for \<open>undefined\<close>, \<open>null\<close> and booleans.\<close>

fun child :: "jsv \<Rightarrow> string" where
  "child (JBool b) = []"
| "child v = (if nullish v then [] else js_string v)"

definition test_text :: "jsv \<Rightarrow> string" where
  "test_text r = (if \<not> truthy (opt_prop r ''ok'') then ''FAILED: '' @ child (js_or (opt_prop r ''error'') (JStr ''Connection error''))
   else ''SUCCESS: '' @ child (opt_prop r ''relay_ms'') @ ''ms '' @
       (if truthy (opt_prop r ''colo'') then ''[Colo: '' @ js_string (opt_prop r ''colo'') @ '']'' else []) @
       (if opt_prop r ''http_status'' \<noteq> JNum (- 1) then '' (HTTP: '' @ js_string (opt_prop r ''http_status'') @ '')'' else []))"

definition buttons_disabled :: "bool \<Rightarrow> edit_modal \<Rightarrow> bool" where
  "buttons_disabled isLoading s \<longleftrightarrow> isLoading \<or> isTesting s"

text \<open>Ticking Reality's box and the like write one field each; the number fields read \<open>Number(e.target.value)\<close>.\<close>

definition type_port :: "string \<Rightarrow> edit_modal \<Rightarrow> edit_modal" where
  "type_port v s = s\<lparr>port := str_number v\<rparr>"

definition type_alterId :: "string \<Rightarrow> edit_modal \<Rightarrow> edit_modal" where
  "type_alterId v s = s\<lparr>alterId := str_number v\<rparr>"

definition vmess_options :: "(string \<times> string) list" where
  "vmess_options = [(''auto'', ''Auto (Default)''), (''cyan'', ''AES-128-GCM''),
     (''chacha20-poly1305'', ''Chacha20-Poly1305''), (''none'', ''None (Plaintext/Clear)'')]"

definition edit_raw :: "string \<Rightarrow> edit_modal \<Rightarrow> edit_modal" where
  "edit_raw v s = s\<lparr>rawJson := v\<rparr>"

end
