(* ===== verification/EditConfig_Behaviour.thy ===== *)
theory EditConfig_Behaviour
  imports EditConfig_Modal
begin

text \<open>
  The form and the editor of JSON of a profile show the same settings: what the form writes as JSON fills it again, so that
  changing tabs, or saving and opening again, leaves the compiled profile as it is.
\<close>

section \<open>What the compiled settings hold\<close>

lemmas compile_defs = compile_settings_def security_part_def transport_part_def protocol_part_def is_text_def

lemma opt_prop_obj: "opt_prop (JObj kvs) k = obj_get kvs k"
  by (simp add: opt_prop_def)

text \<open>A lookup in a list put together from parts that are there under a condition.\<close>

definition part_get :: "obj \<Rightarrow> string \<Rightarrow> jsv option" where
  "part_get kvs k = map_of kvs k"

lemma part_get_simps [simp]:
  "part_get [] k = None" "part_get ((j, v) # kvs) k = (if j = k then Some v else part_get kvs k)"
  "part_get (if c then a else b) k = (if c then part_get a k else part_get b k)"
  "part_get (a @ b) k = (case part_get a k of None \<Rightarrow> part_get b k | Some v \<Rightarrow> Some v)"
  by (auto simp: part_get_def map_add_def split: option.splits)

lemma obj_get_part: "obj_get kvs k = (case part_get kvs k of None \<Rightarrow> JUndef | Some v \<Rightarrow> v)"
  by (simp add: obj_get_def part_get_def)

lemma compiled_security:
  "obj_get (security_part s @ transport_part s @ protocol_part s) ''security'' =
     (if is_text ''none'' (security s) then JUndef else security s)"
  "obj_get (security_part s @ transport_part s @ protocol_part s) ''sni'' = (if truthy (sni s) then sni s else JUndef)"
  "obj_get (security_part s @ transport_part s @ protocol_part s) ''tlsSettings'' = (if is_text ''tls'' (security s)
     then JObj [(''serverName'', sni s), (''allowInsecure'', JBool (allowInsecure s)),
       (''alpn'', JArr (map JStr (alpn_list (alpn s))))] else JUndef)"
  "obj_get (security_part s @ transport_part s @ protocol_part s) ''realitySettings'' = (if is_text ''reality'' (security s)
     then JObj [(''publicKey'', publicKey s), (''shortIds'', JArr (if truthy (shortId s) then [shortId s] else [])),
       (''serverName'', sni s), (''spiderX'', spiderX s), (''dest'', dest s)] else JUndef)"
  "obj_get (security_part s @ transport_part s @ protocol_part s) ''publicKey'' =
     (if is_text ''reality'' (security s) then publicKey s else JUndef)"
  "obj_get (security_part s @ transport_part s @ protocol_part s) ''shortId'' =
     (if is_text ''reality'' (security s) then shortId s else JUndef)"
  by (simp_all add: obj_get_part security_part_def transport_part_def protocol_part_def is_text_def)

lemma compiled_transport:
  "obj_get (security_part s @ transport_part s @ protocol_part s) ''path'' =
     (if is_text ''ws'' (network s) then js_or (path s) (JStr ''/ws'') else JUndef)"
  "obj_get (security_part s @ transport_part s @ protocol_part s) ''host'' =
     (if is_text ''ws'' (network s) \<and> truthy (host s) then host s else JUndef)"
  "obj_get (security_part s @ transport_part s @ protocol_part s) ''serviceName'' =
     (if is_text ''grpc'' (network s) then js_or (serviceName s) (JStr ''TunService'') else JUndef)"
  "obj_get (security_part s @ transport_part s @ protocol_part s) ''multiMode'' =
     (if is_text ''grpc'' (network s) then JBool (multiMode s) else JUndef)"
  by (simp_all add: obj_get_part security_part_def transport_part_def protocol_part_def is_text_def)

lemma compiled_protocol:
  "obj_get (security_part s @ transport_part s @ protocol_part s) ''vmess_security'' =
     (if is_text ''vmess'' (protocol s) then vmessSecurity s else JUndef)"
  "obj_get (security_part s @ transport_part s @ protocol_part s) ''alterId'' =
     (if is_text ''vmess'' (protocol s) then js_or (to_number (alterId s)) (JNum 0) else JUndef)"
  "obj_get (security_part s @ transport_part s @ protocol_part s) ''flow'' =
     (if is_text ''vless'' (protocol s) then flow s else JUndef)"
  "obj_get (security_part s @ transport_part s @ protocol_part s) ''encryption'' =
     (if is_text ''vless'' (protocol s) then js_or (encryption s) (JStr ''none'') else JUndef)"
  "obj_get (security_part s @ transport_part s @ protocol_part s) ''method'' =
     (if is_text ''shadowsocks'' (protocol s) then ssMethod s else JUndef)"
  by (simp_all add: obj_get_part security_part_def transport_part_def protocol_part_def is_text_def)

section \<open>The list of ALPN names\<close>

lemma alpn_list_join: "alpn_list (join_with '','' (alpn_list t)) = alpn_list t"
  by (simp add: alpn_list_def clean_parts_join)

lemma js_string_texts: "js_string (JArr (map JStr xs)) = join_with '','' xs"
  by (simp add: comp_def)

section \<open>The settings fill the form that wrote them\<close>

text \<open>What the inputs hold: texts, whole numbers, and one of the choices where there is a list of them.\<close>

definition whole :: "jsv \<Rightarrow> bool" where
  "whole v \<longleftrightarrow> (\<exists>n. v = JNum (of_int n))"

definition chosen :: "jsv \<Rightarrow> bool" where
  "chosen v \<longleftrightarrow> (\<exists>t. v = JStr t \<and> t \<noteq> [])"

definition typed_form :: "edit_modal \<Rightarrow> bool" where
  "typed_form s \<longleftrightarrow> chosen (security s) \<and> chosen (vmessSecurity s) \<and> chosen (ssMethod s) \<and> whole (alterId s) \<and>
     list_all is_str [sni s, publicKey s, shortId s, spiderX s, dest s, path s, host s, serviceName s, flow s, encryption s]"

lemma js_or_text: "is_str v \<Longrightarrow> js_or v (JStr []) = v" "is_str v \<Longrightarrow> js_or (js_or v v) (JStr []) = v"
  by (cases v; simp add: js_or_def)+

lemma js_or_chosen: "chosen v \<Longrightarrow> js_or v d = v"
  by (auto simp: chosen_def js_or_def)

lemma js_or_twice: "js_or (js_or v d) d = js_or v d" if "is_str v \<or> whole v"
  using that by (cases v) (auto simp: js_or_def whole_def)

lemma js_or_undef [simp]: "js_or JUndef d = d"
  by (simp add: js_or_def)

lemma optional_text: "is_str v \<Longrightarrow> js_or (if truthy v then v else JUndef) (JStr []) = v"
  by (cases v) (auto simp: js_or_def)

lemma fill_fields:
  "security (fill_form obj s) = prop_or obj ''security'' (JStr ''none'')" "sni (fill_form obj s) = prop_or obj ''sni'' (JStr [])"
  "path (fill_form obj s) = prop_or obj ''path'' (JStr [])" "host (fill_form obj s) = prop_or obj ''host'' (JStr [])"
  "serviceName (fill_form obj s) = prop_or obj ''serviceName'' (JStr [])"
  "multiMode (fill_form obj s) = truthy (opt_prop obj ''multiMode'')"
  "vmessSecurity (fill_form obj s) =
     js_or (js_or (opt_prop obj ''vmess_security'') (opt_prop obj ''security_vmess'')) (JStr ''auto'')"
  "alterId (fill_form obj s) = prop_or obj ''alterId'' (JNum 0)"
  "flow (fill_form obj s) = (if opt_prop obj ''flow'' \<noteq> JUndef then opt_prop obj ''flow'' else JStr ''xtls-rprx-vision'')"
  "encryption (fill_form obj s) = prop_or obj ''encryption'' (JStr ''none'')"
  "ssMethod (fill_form obj s) = prop_or obj ''method'' (JStr ''aes-256-gcm'')"
  by (simp_all add: fill_form_def take_rest_def take_reality_def take_tls_def Let_def split: jsv.splits)

lemma fill_keeps:
  "network (fill_form obj s) = network s" "protocol (fill_form obj s) = protocol s" "name (fill_form obj s) = name s"
  "address (fill_form obj s) = address s" "port (fill_form obj s) = port s" "uuid (fill_form obj s) = uuid s"
  "muxEnabled (fill_form obj s) = muxEnabled s" "profile (fill_form obj s) = profile s"
  "activeTab (fill_form obj s) = activeTab s"
  by (simp_all add: fill_form_def take_rest_def take_reality_def take_tls_def Let_def split: jsv.splits)

lemma fill_tls:
  "opt_prop obj ''tlsSettings'' = tls \<Longrightarrow> truthy tls \<Longrightarrow> allowInsecure (fill_form obj s) = truthy (opt_prop tls ''allowInsecure'')"
  "opt_prop obj ''tlsSettings'' = tls \<Longrightarrow> truthy tls \<Longrightarrow> opt_prop tls ''alpn'' = JArr xs \<Longrightarrow>
     alpn (fill_form obj s) = js_string (JArr xs)"
  by (simp_all add: fill_form_def take_rest_def take_reality_def take_tls_def Let_def del: js_string.simps split: jsv.splits)

lemma fill_reality:
  assumes "opt_prop obj ''realitySettings'' = rs" and "truthy rs"
  shows "publicKey (fill_form obj s) = js_or (js_or (opt_prop rs ''publicKey'') (opt_prop obj ''publicKey'')) (JStr [])"
    "shortId (fill_form obj s) = first_short_id rs obj" "spiderX (fill_form obj s) = prop_or rs ''spiderX'' (JStr [])"
    "dest (fill_form obj s) = prop_or rs ''dest'' (JStr [])"
  using assms by (simp_all add: fill_form_def take_rest_def take_reality_def Let_def)

lemma compile_prop: "opt_prop (compile_settings s) k = obj_get (security_part s @ transport_part s @ protocol_part s) k"
  by (simp add: compile_settings_def opt_prop_obj)

lemma fill_security:
  assumes "typed_form s"
  shows "security_part (fill_form (compile_settings s) s') = security_part s"
proof -
  let ?f = "fill_form (compile_settings s) s'"
  have t: "is_str (sni s)" "is_str (publicKey s)" "is_str (shortId s)" "is_str (spiderX s)" "is_str (dest s)" "chosen (security s)"
    using assms by (simp_all add: typed_form_def)
  have sni: "sni ?f = sni s"
    using optional_text [OF t(1)] by (simp only: fill_fields prop_or_def compile_prop compiled_security)
  have sec: "security ?f = security s"
    using t(6) by (auto simp: fill_fields prop_or_def compile_prop compiled_security is_text_def js_or_chosen)
  have tls: "allowInsecure ?f = allowInsecure s \<and> alpn_list (alpn ?f) = alpn_list (alpn s)" if "is_text ''tls'' (security s)"
  proof -
    let ?o = "JObj [(''serverName'', sni s), (''allowInsecure'', JBool (allowInsecure s)),
       (''alpn'', JArr (map JStr (alpn_list (alpn s))))]"
    have o: "opt_prop (compile_settings s) ''tlsSettings'' = ?o" using that by (simp add: compile_prop compiled_security)
    have a: "alpn ?f = join_with '','' (alpn_list (alpn s))"
      using fill_tls(2) [OF o, of "map JStr (alpn_list (alpn s))" s'] by (simp only: js_string_texts) (simp add: opt_prop_obj)
    show ?thesis using fill_tls(1) [OF o, of s'] by (simp add: opt_prop_obj a alpn_list_join)
  qed
  have reality: "publicKey ?f = publicKey s \<and> shortId ?f = shortId s \<and> spiderX ?f = spiderX s \<and> dest ?f = dest s"
    if "is_text ''reality'' (security s)"
  proof -
    let ?o = "JObj [(''publicKey'', publicKey s), (''shortIds'', JArr (if truthy (shortId s) then [shortId s] else [])),
       (''serverName'', sni s), (''spiderX'', spiderX s), (''dest'', dest s)]"
    have o: "opt_prop (compile_settings s) ''realitySettings'' = ?o"
      and p: "opt_prop (compile_settings s) ''publicKey'' = publicKey s"
      using that by (simp_all add: compile_prop compiled_security)
    have "first_short_id ?o (compile_settings s) = shortId s"
      using t(3) by (cases "shortId s") (auto simp: first_short_id_def opt_prop_obj js_or_def)
    then show ?thesis
      using fill_reality [OF o, of s'] t by (simp add: opt_prop_obj p js_or_text prop_or_def)
  qed
  show ?thesis
  proof (cases "is_text ''tls'' (security s)")
    case True
    then show ?thesis using tls by (simp add: security_part_def sni sec is_text_def)
  next
    case False
    then show ?thesis using reality by (cases "is_text ''reality'' (security s)") (simp_all add: security_part_def sni sec)
  qed
qed

lemma fill_transport:
  assumes "typed_form s" and "network s' = network s"
  shows "transport_part (fill_form (compile_settings s) s') = transport_part s"
proof -
  let ?f = "fill_form (compile_settings s) s'"
  have t: "is_str (path s)" "is_str (host s)" "is_str (serviceName s)" using assms by (simp_all add: typed_form_def)
  have ws: "js_or (path ?f) (JStr ''/ws'') = js_or (path s) (JStr ''/ws'') \<and> host ?f = host s" if "is_text ''ws'' (network s)"
    using that t optional_text [OF t(2)]
    by (cases "path s") (simp_all add: fill_fields prop_or_def compile_prop compiled_transport js_or_def)
  have grpc: "js_or (serviceName ?f) (JStr ''TunService'') = js_or (serviceName s) (JStr ''TunService'') \<and>
      multiMode ?f = multiMode s" if "is_text ''grpc'' (network s)"
    using that t by (cases "serviceName s") (simp_all add: fill_fields prop_or_def compile_prop compiled_transport js_or_def)
  show ?thesis using ws grpc by (simp add: transport_part_def fill_keeps assms(2))
qed

lemma fill_protocol:
  assumes "typed_form s" and "protocol s' = protocol s"
  shows "protocol_part (fill_form (compile_settings s) s') = protocol_part s"
proof -
  let ?f = "fill_form (compile_settings s) s'"
  have t: "chosen (vmessSecurity s)" "whole (alterId s)" "is_str (encryption s)" "is_str (flow s)" "chosen (ssMethod s)"
    using assms by (simp_all add: typed_form_def)
  obtain k where k: "alterId s = JNum (of_int k)" using t(2) by (auto simp: whole_def)
  have vmess: "vmessSecurity ?f = vmessSecurity s \<and>
      js_or (to_number (alterId ?f)) (JNum 0) = js_or (to_number (alterId s)) (JNum 0)" if "is_text ''vmess'' (protocol s)"
    using that t(1) by (auto simp: fill_fields prop_or_def compile_prop compiled_protocol chosen_def k js_or_def)
  have "flow s \<noteq> JUndef" using t(4) by auto
  then have vless: "flow ?f = flow s \<and> js_or (encryption ?f) (JStr ''none'') = js_or (encryption s) (JStr ''none'')"
    if "is_text ''vless'' (protocol s)"
    using that t(3) by (cases "encryption s") (simp_all add: fill_fields prop_or_def compile_prop compiled_protocol js_or_def)
  have ss: "ssMethod ?f = ssMethod s" if "is_text ''shadowsocks'' (protocol s)"
    using that t(5) by (simp add: fill_fields prop_or_def compile_prop compiled_protocol js_or_chosen)
  show ?thesis using vmess vless ss by (simp add: protocol_part_def fill_keeps assms(2))
qed

lemma refill:
  assumes "typed_form s" and "network s' = network s" and "protocol s' = protocol s"
  shows "compile_settings (fill_form (compile_settings s) s') = compile_settings s"
  using fill_security [OF assms(1), of s'] fill_transport [OF assms(1,2)] fill_protocol [OF assms(1,3)]
  by (simp add: compile_settings_def)

section \<open>The text of the settings is read back\<close>

lemma part_keys:
  "set (map fst (security_part s)) \<subseteq> {''security'', ''sni'', ''tlsSettings'', ''publicKey'', ''shortId'', ''realitySettings''}"
  "set (map fst (transport_part s)) \<subseteq> {''path'', ''host'', ''serviceName'', ''multiMode''}"
  "set (map fst (protocol_part s)) \<subseteq> {''vmess_security'', ''alterId'', ''flow'', ''encryption'', ''method''}"
  by (auto simp: security_part_def transport_part_def protocol_part_def split: if_splits)

lemma part_distinct:
  "distinct (map fst (security_part s))" "distinct (map fst (transport_part s))" "distinct (map fst (protocol_part s))"
  by (auto simp: security_part_def transport_part_def protocol_part_def is_text_def split: if_splits)

lemma json_texts: "is_str v \<Longrightarrow> json_value v" "chosen v \<Longrightarrow> json_value v"
  by (cases v; auto simp: chosen_def)+

lemma json_or_text: "is_str v \<Longrightarrow> json_value (js_or v (JStr d))"
  by (cases v) (auto simp: js_or_def)

lemma json_names: "list_all json_value (map JStr xs)"
  by (induction xs) auto

lemma compiled_is_json:
  assumes "typed_form s"
  shows "json_value (compile_settings s)"
proof -
  have t: "chosen (security s)" "chosen (vmessSecurity s)" "chosen (ssMethod s)" "whole (alterId s)" "is_str (sni s)"
    "is_str (publicKey s)" "is_str (shortId s)" "is_str (spiderX s)" "is_str (dest s)" "is_str (path s)" "is_str (host s)"
    "is_str (serviceName s)" "is_str (flow s)" "is_str (encryption s)"
    using assms by (simp_all add: typed_form_def)
  obtain k where k: "alterId s = JNum (of_int k)" using t(4) by (auto simp: whole_def)
  have d: "distinct (map fst (security_part s @ transport_part s @ protocol_part s))"
    using part_distinct [of s] part_keys [of s] by (simp only: map_append distinct_append set_append) blast
  have "list_all (\<lambda>(k, v). json_value v) (security_part s)"
    using t by (simp add: security_part_def json_texts json_names)
  moreover have "list_all (\<lambda>(k, v). json_value v) (transport_part s)"
    using t by (simp add: transport_part_def json_texts json_or_text)
  moreover have "list_all (\<lambda>(k, v). json_value v) (protocol_part s)"
    using t by (simp add: protocol_part_def json_texts json_or_text k js_or_def)
  ultimately show ?thesis using d by (simp add: compile_settings_def del: map_append)
qed

lemma read_compiled:
  assumes "typed_form s" and "list_all json_space gap"
  shows "json_parse (json_text gap (compile_settings s)) = Some (compile_settings s)"
  using json_roundtrip [OF compiled_is_json [OF assms(1)] assms(2)] .

lemma indent_space [simp]: "list_all json_space ''  ''"
  by (simp add: json_space_def)

section \<open>Changing tabs\<close>

lemma to_json_to_form:
  assumes "typed_form s"
  shows "handleTabChange why Form_tab (handleTabChange why Json_tab s) =
    (fill_form (compile_settings s) ((updateJsonFromForm s)\<lparr>activeTab := Json_tab\<rparr>))\<lparr>jsonError := None, activeTab := Form_tab\<rparr>"
proof -
  have "get_prop (compile_settings s) ''security'' = Inr (opt_prop (compile_settings s) ''security'')"
    by (simp add: compile_settings_def opt_prop_def)
  then show ?thesis
    using read_compiled [OF assms indent_space] by (simp add: handleTabChange_def to_form_def updateJsonFromForm_def Let_def)
qed

lemma final_form: "activeTab s = Form_tab \<Longrightarrow> final_settings why s = Inr (json_text [] (compile_settings s))"
  by (simp add: final_settings_def)

lemma compile_other [simp]:
  "compile_settings (s\<lparr>jsonError := e\<rparr>) = compile_settings s" "compile_settings (s\<lparr>activeTab := a\<rparr>) = compile_settings s"
  "compile_settings (s\<lparr>rawJson := r\<rparr>) = compile_settings s"
  by (simp_all add: compile_defs)

text \<open>C38: The two tabs show one profile. From the form, looking at the JSON and coming back never fails and leaves the profile
  that is tested or saved exactly as it was; and saving from the JSON tab sends the same profile with settings that parse
  to the same object as those sent from the form.\<close>

theorem tabs_agree:
  assumes "typed_form s" and "activeTab s = Form_tab"
  shows "let j = handleTabChange why Json_tab s; f = handleTabChange why Form_tab j; c = compile_settings s in
    activeTab f = Form_tab \<and> jsonError f = None \<and> buildCompiledProfile why f = buildCompiledProfile why s \<and>
    final_settings why s = Inr (json_text [] c) \<and> json_parse (json_text [] c) = Some c \<and>
    final_settings why j = Inr (json_text ''  '' c) \<and> json_parse (json_text ''  '' c) = Some c \<and>
    (\<forall>k. k \<noteq> ''tls_settings'' \<longrightarrow> map_option (\<lambda>v. opt_prop v k) (case buildCompiledProfile why j of Inl e \<Rightarrow> None | Inr v \<Rightarrow> Some v) =
       map_option (\<lambda>v. opt_prop v k) (case buildCompiledProfile why s of Inl e \<Rightarrow> None | Inr v \<Rightarrow> Some v))"
proof -
  let ?j = "handleTabChange why Json_tab s" let ?f = "handleTabChange why Form_tab ?j"
  note f = to_json_to_form [OF assms(1), of why]
  have basics: "name ?f = name s" "protocol ?f = protocol s" "address ?f = address s" "port ?f = port s" "uuid ?f = uuid s"
    "network ?f = network s" "muxEnabled ?f = muxEnabled s" "profile ?f = profile s"
    by (simp_all add: f fill_keeps updateJsonFromForm_def)
  have "compile_settings ?f = compile_settings s"
    using refill [OF assms(1), of "(updateJsonFromForm s)\<lparr>activeTab := Json_tab\<rparr>"] by (simp add: f updateJsonFromForm_def)
  then have "final_settings why ?f = final_settings why s"
    using final_form [of ?f] final_form [OF assms(2)] by (simp add: f)
  then have build: "buildCompiledProfile why ?f = buildCompiledProfile why s"
    unfolding buildCompiledProfile_def basics by simp
  have j: "final_settings why ?j = Inr (json_text ''  '' (compile_settings s))"
    using read_compiled [OF assms(1) indent_space]
    by (simp add: final_settings_def handleTabChange_def updateJsonFromForm_def)
  have other: "opt_prop (spread2 p (JObj (kvs @ [(''tls_settings'', v)]))) k = opt_prop (spread2 p (JObj (kvs @ [(''tls_settings'', w)]))) k"
    if "k \<noteq> ''tls_settings''" for p kvs v w k
    using that by (simp add: spread2_def put_all_def opt_prop_obj)
  have same: "name ?j = name s" "protocol ?j = protocol s" "address ?j = address s" "port ?j = port s" "uuid ?j = uuid s"
    "network ?j = network s" "muxEnabled ?j = muxEnabled s" "profile ?j = profile s"
    by (simp_all add: handleTabChange_def updateJsonFromForm_def)
  show ?thesis
    unfolding Let_def
  proof (intro conjI allI impI)
    show "map_option (\<lambda>v. opt_prop v k) (case buildCompiledProfile why ?j of Inl e \<Rightarrow> None | Inr v \<Rightarrow> Some v) =
        map_option (\<lambda>v. opt_prop v k) (case buildCompiledProfile why s of Inl e \<Rightarrow> None | Inr v \<Rightarrow> Some v)"
      if "k \<noteq> ''tls_settings''" for k
      using other [OF that, of "profile s" "[(''name'', name s), (''protocol'', protocol s), (''address'', address s),
          (''port'', to_number (port s)), (''uuid'', uuid s), (''network'', network s), (''mux_enabled'', JBool (muxEnabled s))]"]
      by (simp add: buildCompiledProfile_def j final_form [OF assms(2)] same)
  qed (use f build j final_form [OF assms(2)] read_compiled [OF assms(1) indent_space]
      read_compiled [OF assms(1), of "[]"] in \<open>simp_all\<close>)
qed

definition sample_form :: edit_modal where
  "sample_form = (init_modal Map.empty)\<lparr>security := JStr ''tls'', sni := JStr ''a.example'', allowInsecure := True, alpn := '' h2 ,,x'',
     network := JStr ''ws'', host := JStr ''b''\<rparr>"

lemma tabs_agree_witness:
  "buildCompiledProfile [] (handleTabChange [] Form_tab (handleTabChange [] Json_tab sample_form)) = buildCompiledProfile [] sample_form"
proof -
  have "typed_form sample_form" and "activeTab sample_form = Form_tab"
    by (simp_all add: typed_form_def sample_form_def init_modal_def chosen_def whole_def)
  from tabs_agree [OF this, of "[]"] show ?thesis by (simp add: Let_def)
qed

text \<open>What is saved opens again: the settings, of a profile that the form has compiled, fill the form with what compiles
  to the same text.\<close>

lemma reopened_profile_compiles_alike:
  assumes "typed_form s" and "activeTab s = Form_tab" and "buildCompiledProfile why s = Inr p" and "protocol s = JStr pr" "pr \<noteq> []"
    and "network s = JStr n" "n \<noteq> []" and "open_modal p s' = Inr s2"
  shows "compile_settings s2 = compile_settings s"
proof -
  have p: "p = spread2 (profile s) (JObj
          [(''name'', name s), (''protocol'', protocol s), (''address'', address s), (''port'', to_number (port s)),
           (''uuid'', uuid s), (''network'', network s), (''mux_enabled'', JBool (muxEnabled s)),
           (''tls_settings'', JStr (json_text [] (compile_settings s)))])"
    using assms(2,3) by (simp add: buildCompiledProfile_def final_settings_def)
  then have k: "opt_prop p ''tls_settings'' = JStr (json_text [] (compile_settings s))" "opt_prop p ''network'' = JStr n"
    "opt_prop p ''protocol'' = JStr pr" "truthy p"
    using assms(4,6) by (simp_all add: spread2_def put_all_def opt_prop_obj)
  have "json_parse (json_text [] (compile_settings s)) = Some (compile_settings s)"
    using read_compiled [OF assms(1), of "[]"] by simp
  moreover from this have "json_text [] (compile_settings s) \<noteq> []"
    by (auto simp: json_parse_def lex.simps)
  ultimately have o: "profile_settings p = compile_settings s"
    by (simp add: profile_settings_def k)
  have "get_prop (compile_settings s) ''security'' = Inr (opt_prop (compile_settings s) ''security'')"
    by (simp add: compile_settings_def opt_prop_def)
  then obtain s1 where s1: "s2 = (fill_form (compile_settings s) s1)\<lparr>testResult := JNull, isTesting := False\<rparr>"
      "network s1 = network s" "protocol s1 = protocol s"
    using assms(4-8) k o
    by (auto simp: open_modal_def load_profile_def Let_def take_basics_def prop_or_def js_or_def)
  have "compile_settings (u\<lparr>testResult := a, isTesting := b\<rparr>) = compile_settings u" for u a b
    by (simp add: compile_defs)
  with refill [OF assms(1) s1(2,3)] show ?thesis by (simp add: s1)
qed

section \<open>Clicks that lose work\<close>

text \<open>A click on the tab that is already open writes what the other one holds over it.\<close>

lemma json_click_discards_edits:
  "rawJson (handleTabChange why Json_tab (edit_raw v s)) = json_text ''  '' (compile_settings s)"
  by (simp add: handleTabChange_def updateJsonFromForm_def edit_raw_def)

lemma form_click_discards_edits:
  assumes "rawJson s = ''{}''"
  shows "sni (handleTabChange why Form_tab s) = JStr []" "security (handleTabChange why Form_tab s) = JStr ''none''"
proof -
  have "json_value (JObj [])" by simp
  from json_roundtrip [OF this, of "[]"] have "json_parse ''{}'' = Some (JObj [])"
    by (simp add: json_text_def items_def)
  then show "sni (handleTabChange why Form_tab s) = JStr []" "security (handleTabChange why Form_tab s) = JStr ''none''"
    using assms by (simp_all add: handleTabChange_def to_form_def fill_fields prop_or_def opt_prop_obj)
qed

text \<open>Settings that the form does not know are gone when the form is saved.\<close>

lemma unknown_settings_dropped:
  assumes "k \<notin> {''security'', ''sni'', ''tlsSettings'', ''publicKey'', ''shortId'', ''realitySettings'', ''path'', ''host'',
     ''serviceName'', ''multiMode'', ''vmess_security'', ''alterId'', ''flow'', ''encryption'', ''method''}"
  shows "opt_prop (compile_settings s) k = JUndef"
proof -
  have "k \<notin> set (map fst (security_part s))" "k \<notin> set (map fst (transport_part s))" "k \<notin> set (map fst (protocol_part s))"
    using assms by (intro contra_subsetD [OF part_keys(1)] contra_subsetD [OF part_keys(2)] contra_subsetD [OF part_keys(3)]; simp)+
  then have "k \<notin> set (map fst (security_part s @ transport_part s @ protocol_part s))"
    by (simp only: map_append set_append Un_iff simp_thms)
  then have "map_of (security_part s @ transport_part s @ protocol_part s) k = None"
    by (simp only: map_of_eq_None_iff set_map not_False_eq_True)
  then show ?thesis by (simp add: compile_prop obj_get_def del: map_of_append)
qed

text \<open>JSON that asks for TLS and says nothing of certificates leaves the earlier permission to skip their check.\<close>

lemma insecure_flag_survives_json:
  assumes "rawJson s = json_text [] (JObj [(''security'', JStr ''tls'')])"
  shows "allowInsecure (handleTabChange why Form_tab s) = allowInsecure s"
proof -
  have "json_value (JObj [(''security'', JStr ''tls'')])" by simp
  from json_roundtrip [OF this, of "[]"] show ?thesis
    using assms by (simp add: handleTabChange_def to_form_def opt_prop_obj fill_form_def take_rest_def take_reality_def
        take_tls_def)
qed

end
