(* ===== verification/Core_Config.thy ===== *)
theory Core_Config
  imports JSON_Places Page
begin

text \<open>
  The editor of a core's configuration (\<open>v2ray-client/components/AdvancedCoreConfigModal.tsx\<close>): a template that the server stores
  for each core, shown as JSON or through fields that read and write one place of it, and the list of DNS servers as text.
  The built-in templates are objects of the module: a write into one of them lasts as long as the page, so they are part of
  the state (\<open>defaults\<close>), and \<open>shared\<close> tells whose \<open>dns\<close> the edited configuration shares.
\<close>

section \<open>The built-in templates\<close>

definition defaultV2rayConfig :: jsv where
  "defaultV2rayConfig = JObj [
     (''log'', JObj [(''access'', JStr []), (''error'', JStr []), (''loglevel'', JStr ''warning'')]),
     (''api'', JObj [(''tag'', JStr ''api''), (''services'', JArr [JStr ''HandlerService'', JStr ''LoggerService'',
       JStr ''StatsService''])]),
     (''dns'', JObj [(''hosts'', JObj [(''localhost'', JStr ''127.0.0.1'')]), (''servers'', JArr [JStr ''8.8.8.8'',
       JStr ''1.1.1.1'', JObj [(''address'', JStr ''223.5.5.5''), (''port'', JNum 53), (''domains'', JArr [JStr
       ''geosite:cn''])]]), (''clientIp'', JStr ''0.0.0.0''), (''tag'', JStr ''dns'')]),
     (''stats'', JObj []),
     (''policy'', JObj [(''levels'', JObj [(''0'', JObj [(''handshake'', JNum 4), (''connIdle'', JNum 300),
       (''uplinkOnly'', JNum 2), (''downlinkOnly'', JNum 5), (''bufferSize'', JNum 10240), (''statsUserUplink'', JBool
       True), (''statsUserDownlink'', JBool True)])]), (''system'', JObj [(''statsInboundUplink'', JBool True),
       (''statsInboundDownlink'', JBool True), (''statsOutboundUplink'', JBool True), (''statsOutboundDownlink'', JBool
       True)])]),
     (''routing'', JObj [(''domainStrategy'', JStr ''IPIfNonMatch''), (''domainMatcher'', JStr ''mph''), (''rules'',
       JArr [JObj [(''type'', JStr ''field''), (''inboundTag'', JArr [JStr ''socks-in'']), (''outboundTag'', JStr
       ''proxy'')], JObj [(''type'', JStr ''field''), (''domain'', JArr [JStr ''geosite:cn'']), (''outboundTag'', JStr
       ''direct'')], JObj [(''type'', JStr ''field''), (''ip'', JArr [JStr ''geoip:private'', JStr ''geoip:cn'']),
       (''outboundTag'', JStr ''direct'')], JObj [(''type'', JStr ''field''), (''protocol'', JArr [JStr ''bittorrent'']),
       (''outboundTag'', JStr ''block'')]]), (''balancers'', JArr [JObj [(''tag'', JStr ''proxy-balancer''),
       (''selector'', JArr [JStr ''proxy''])]])]),
     (''reverse'', JObj [(''bridges'', JArr []), (''portals'', JArr [])]),
     (''inbounds'', JArr [JObj [(''tag'', JStr ''socks-in''), (''listen'', JStr ''127.0.0.1''), (''port'', JNum
       1080), (''protocol'', JStr ''socks''), (''settings'', JObj [(''auth'', JStr ''noauth''), (''udp'', JBool True),
       (''ip'', JStr ''127.0.0.1'')]), (''streamSettings'', JObj [(''network'', JStr ''tcp''), (''security'', JStr
       ''none'')]), (''sniffing'', JObj [(''enabled'', JBool True), (''destOverride'', JArr [JStr ''http'', JStr
       ''tls''])]), (''allocate'', JObj [(''strategy'', JStr ''always''), (''refresh'', JNum 5), (''concurrency'', JNum
       3)])]]),
     (''outbounds'', JArr [JObj [(''tag'', JStr ''proxy''), (''protocol'', JStr ''vmess''), (''settings'', JObj
       [(''vnext'', JArr [JObj [(''address'', JStr ''example.com''), (''port'', JNum 443), (''users'', JArr [JObj
       [(''id'', JStr ''00000000-0000-0000-0000-000000000000''), (''alterId'', JNum 0), (''security'', JStr ''auto''),
       (''email'', JStr ''user@example.com'')]])]])]), (''sendThrough'', JStr ''0.0.0.0''), (''streamSettings'', JObj
       [(''network'', JStr ''ws''), (''security'', JStr ''tls''), (''tlsSettings'', JObj [(''serverName'', JStr
       ''example.com''), (''allowInsecure'', JBool False), (''alpn'', JArr [JStr ''http/1.1'', JStr ''h2''])]),
       (''wsSettings'', JObj [(''path'', JStr ''/ws''), (''headers'', JObj [(''Host'', JStr ''example.com'')])]),
       (''sockopt'', JObj [(''mark'', JNum 0), (''tcpFastOpen'', JBool False), (''tproxy'', JStr ''off'')])]),
       (''proxySettings'', JObj [(''tag'', JStr ''another-proxy'')]), (''mux'', JObj [(''enabled'', JBool False),
       (''concurrency'', JNum 8)])], JObj [(''tag'', JStr ''direct''), (''protocol'', JStr ''freedom''), (''settings'',
       JObj [])], JObj [(''tag'', JStr ''block''), (''protocol'', JStr ''blackhole''), (''settings'', JObj [])]]),
     (''transport'', JObj [(''tcpSettings'', JObj []), (''kcpSettings'', JObj []), (''wsSettings'', JObj []),
       (''httpSettings'', JObj []), (''dsSettings'', JObj []), (''quicSettings'', JObj [])])]"

definition defaultXrayConfig :: jsv where
  "defaultXrayConfig = JObj [
     (''log'', JObj [(''access'', JStr []), (''error'', JStr []), (''loglevel'', JStr ''warning''), (''dnsLog'',
       JBool False)]),
     (''api'', JObj [(''tag'', JStr ''api''), (''services'', JArr [JStr ''HandlerService'', JStr ''LoggerService'',
       JStr ''StatsService'', JStr ''RoutingService''])]),
     (''stats'', JObj []),
     (''metrics'', JObj [(''tag'', JStr ''metrics'')]),
     (''fakedns'', JArr [JObj [(''ipPool'', JStr ''198.18.0.0/15''), (''poolSize'', JNum 65535)]]),
     (''dns'', JObj [(''tag'', JStr ''dns''), (''hosts'', JObj [(''localhost'', JStr ''127.0.0.1'')]), (''servers'',
       JArr [JStr ''8.8.8.8'', JObj [(''address'', JStr ''https://1.1.1.1/dns-query''), (''domains'', JArr [JStr
       ''geosite:geolocation-!cn'']), (''expectIPs'', JArr [JStr ''geoip:!cn'']), (''skipFallback'', JBool False)], JObj
       [(''address'', JStr ''223.5.5.5''), (''domains'', JArr [JStr ''geosite:cn''])], JStr ''fakedns'']),
       (''queryStrategy'', JStr ''UseIP''), (''disableCache'', JBool False), (''disableFallback'', JBool False),
       (''disableFallbackIfMatch'', JBool False)]),
     (''policy'', JObj [(''levels'', JObj [(''0'', JObj [(''handshake'', JNum 4), (''connIdle'', JNum 300),
       (''uplinkOnly'', JNum 2), (''downlinkOnly'', JNum 5), (''bufferSize'', JNum 10240), (''statsUserUplink'', JBool
       True), (''statsUserDownlink'', JBool True)])]), (''system'', JObj [(''statsInboundUplink'', JBool True),
       (''statsInboundDownlink'', JBool True), (''statsOutboundUplink'', JBool True), (''statsOutboundDownlink'', JBool
       True)])]),
     (''routing'', JObj [(''domainStrategy'', JStr ''IPIfNonMatch''), (''domainMatcher'', JStr ''mph''), (''rules'',
       JArr [JObj [(''type'', JStr ''field''), (''inboundTag'', JArr [JStr ''socks-in'']), (''outboundTag'', JStr
       ''proxy'')], JObj [(''type'', JStr ''field''), (''network'', JStr ''udp''), (''port'', JStr ''443''),
       (''outboundTag'', JStr ''block'')], JObj [(''type'', JStr ''field''), (''domain'', JArr [JStr ''geosite:cn'']),
       (''outboundTag'', JStr ''direct'')], JObj [(''type'', JStr ''field''), (''ip'', JArr [JStr ''geoip:private'', JStr
       ''geoip:cn'']), (''outboundTag'', JStr ''direct'')], JObj [(''type'', JStr ''field''), (''protocol'', JArr [JStr
       ''bittorrent'']), (''outboundTag'', JStr ''block'')]]), (''balancers'', JArr [JObj [(''tag'', JStr
       ''proxy-balancer''), (''selector'', JArr [JStr ''proxy'']), (''strategy'', JObj [(''type'', JStr
       ''random'')])]])]),
     (''observatory'', JObj [(''subjectSelector'', JArr [JStr ''proxy'']), (''probeUrl'', JStr
       ''https://www.google.com/generate_204''), (''probeInterval'', JStr ''10s'')]),
     (''burstObservatory'', JObj [(''subjectSelector'', JArr [JStr ''proxy'']), (''pingConfig'', JObj
       [(''destination'', JStr ''https://www.google.com/generate_204'')])]),
     (''reverse'', JObj [(''bridges'', JArr []), (''portals'', JArr [])]),
     (''inbounds'', JArr [JObj [(''tag'', JStr ''socks-in''), (''listen'', JStr ''127.0.0.1''), (''port'', JNum
       1080), (''protocol'', JStr ''socks''), (''settings'', JObj [(''auth'', JStr ''noauth''), (''udp'', JBool True),
       (''ip'', JStr ''127.0.0.1'')]), (''sniffing'', JObj [(''enabled'', JBool True), (''destOverride'', JArr [JStr
       ''http'', JStr ''tls'', JStr ''quic'', JStr ''fakedns'']), (''routeOnly'', JBool False)]), (''streamSettings'',
       JObj [(''network'', JStr ''tcp''), (''security'', JStr ''none'')])]]),
     (''outbounds'', JArr [JObj [(''tag'', JStr ''proxy''), (''protocol'', JStr ''vless''), (''settings'', JObj
       [(''vnext'', JArr [JObj [(''address'', JStr ''server.example.com''), (''port'', JNum 443), (''users'', JArr [JObj
       [(''id'', JStr ''00000000-0000-0000-0000-000000000000''), (''encryption'', JStr ''none''), (''flow'', JStr
       ''xtls-rprx-vision''), (''level'', JNum 0), (''email'', JStr ''user@example.com'')]])]])]), (''streamSettings'',
       JObj [(''network'', JStr ''tcp''), (''security'', JStr ''reality''), (''realitySettings'', JObj [(''serverName'',
       JStr ''www.microsoft.com''), (''fingerprint'', JStr ''chrome''), (''publicKey'', JStr ''PUBLIC_KEY''),
       (''shortId'', JStr ''0123456789abcdef''), (''spiderX'', JStr ''/'')]), (''tlsSettings'', JObj [(''serverName'',
       JStr ''example.com''), (''allowInsecure'', JBool False), (''fingerprint'', JStr ''chrome''), (''alpn'', JArr [JStr
       ''h2'', JStr ''http/1.1''])]), (''tcpSettings'', JObj []), (''wsSettings'', JObj [(''path'', JStr ''/ws''),
       (''headers'', JObj [(''Host'', JStr ''example.com'')])]), (''grpcSettings'', JObj [(''serviceName'', JStr
       ''grpc'')]), (''httpupgradeSettings'', JObj [(''host'', JStr ''example.com''), (''path'', JStr ''/upgrade'')]),
       (''xhttpSettings'', JObj [(''host'', JStr ''example.com''), (''path'', JStr ''/xhttp''), (''mode'', JStr
       ''auto'')]), (''sockopt'', JObj [(''tcpFastOpen'', JBool True), (''tcpNoDelay'', JBool True), (''mark'', JNum 0),
       (''domainStrategy'', JStr ''UseIP''), (''dialerProxy'', JStr []), (''tcpKeepAliveInterval'', JNum 15)])]),
       (''mux'', JObj [(''enabled'', JBool False), (''concurrency'', JNum 8), (''xudpConcurrency'', JNum 16),
       (''xudpProxyUDP443'', JStr ''reject'')]), (''proxySettings'', JObj [(''tag'', JStr ''another-hop''),
       (''transportLayer'', JBool False)])], JObj [(''tag'', JStr ''wireguard''), (''protocol'', JStr ''wireguard''),
       (''settings'', JObj [(''secretKey'', JStr ''PRIVATE_KEY''), (''address'', JArr [JStr ''172.16.0.2/32'']),
       (''peers'', JArr [JObj [(''publicKey'', JStr ''PEER_PUBLIC_KEY''), (''endpoint'', JStr ''1.2.3.4:51820'')]]),
       (''mtu'', JNum 1420)])], JObj [(''tag'', JStr ''direct''), (''protocol'', JStr ''freedom''), (''settings'', JObj
       [])], JObj [(''tag'', JStr ''dns-out''), (''protocol'', JStr ''dns''), (''settings'', JObj [])], JObj [(''tag'',
       JStr ''block''), (''protocol'', JStr ''blackhole''), (''settings'', JObj [])]])]"

definition defaultSingBoxConfig :: jsv where
  "defaultSingBoxConfig = JObj [
     (''log'', JObj [(''level'', JStr ''info''), (''timestamp'', JBool True), (''output'', JStr ''sing-box.log'')]),
     (''dns'', JObj [(''servers'', JArr [JObj [(''tag'', JStr ''local''), (''address'', JStr ''local'')], JObj
       [(''tag'', JStr ''cloudflare''), (''address'', JStr ''https://1.1.1.1/dns-query''), (''detour'', JStr
       ''proxy'')]]), (''rules'', JArr [JObj [(''outbound'', JStr ''direct''), (''server'', JStr ''local'')]]),
       (''final'', JStr ''cloudflare''), (''strategy'', JStr ''prefer_ipv4''), (''disable_cache'', JBool False),
       (''independent_cache'', JBool True)]),
     (''ntp'', JObj [(''enabled'', JBool True), (''server'', JStr ''time.cloudflare.com''), (''server_port'', JNum
       123), (''interval'', JStr ''30m''), (''detour'', JStr ''direct'')]),
     (''certificate'', JObj [(''store'', JStr ''system'')]),
     (''certificate_providers'', JArr [JObj [(''type'', JStr ''local''), (''tag'', JStr ''cert-provider''),
       (''certificate_path'', JStr ''cert.pem''), (''key_path'', JStr ''key.pem'')]]),
     (''http_clients'', JArr [JObj [(''tag'', JStr ''default-http''), (''tls'', JObj [(''enabled'', JBool True),
       (''server_name'', JStr ''example.com'')]), (''connect_timeout'', JStr ''10s''), (''idle_timeout'', JStr ''30s''),
       (''keep_alive_period'', JStr ''15s'')]]),
     (''endpoints'', JArr [JObj [(''type'', JStr ''wireguard''), (''tag'', JStr ''wg-endpoint''), (''address'', JArr
       [JStr ''10.0.0.2/32'']), (''private_key'', JStr ''PRIVATE_KEY''), (''peers'', JArr [JObj [(''address'', JStr
       ''1.2.3.4''), (''port'', JNum 51820), (''public_key'', JStr ''PUBLIC_KEY'')]])]]),
     (''inbounds'', JArr [JObj [(''type'', JStr ''mixed''), (''tag'', JStr ''mixed-in''), (''listen'', JStr
       ''127.0.0.1''), (''listen_port'', JNum 2080), (''users'', JArr [JObj [(''username'', JStr ''user''), (''password'',
       JStr ''pass'')]]), (''tcp_fast_open'', JBool True), (''tcp_multi_path'', JBool False), (''sniff'', JBool True),
       (''sniff_override_destination'', JBool False)], JObj [(''type'', JStr ''tun''), (''tag'', JStr ''tun-in''),
       (''interface_name'', JStr ''singtun0''), (''address'', JArr [JStr ''172.19.0.1/30'', JStr
       ''fdfe:dcba:9876::1/126'']), (''mtu'', JNum 1500), (''auto_route'', JBool True), (''strict_route'', JBool True),
       (''stack'', JStr ''system''), (''endpoint_independent_nat'', JBool True), (''sniff'', JBool True)]]),
     (''outbounds'', JArr [JObj [(''type'', JStr ''vless''), (''tag'', JStr ''proxy''), (''server'', JStr
       ''server.example.com''), (''server_port'', JNum 443), (''uuid'', JStr ''00000000-0000-0000-0000-000000000000''),
       (''flow'', JStr ''xtls-rprx-vision''), (''tls'', JObj [(''enabled'', JBool True), (''server_name'', JStr
       ''www.cloudflare.com''), (''utls'', JObj [(''enabled'', JBool True), (''fingerprint'', JStr ''chrome'')]),
       (''reality'', JObj [(''enabled'', JBool True), (''public_key'', JStr ''PUBLIC_KEY''), (''short_id'', JStr
       ''0123456789abcdef'')])]), (''multiplex'', JObj [(''enabled'', JBool True), (''protocol'', JStr ''smux''),
       (''max_connections'', JNum 8), (''min_streams'', JNum 4), (''max_streams'', JNum 32)]), (''transport'', JObj
       [(''type'', JStr ''grpc''), (''service_name'', JStr ''grpc''), (''idle_timeout'', JStr ''15s''), (''ping_timeout'',
       JStr ''15s'')]), (''detour'', JStr [])], JObj [(''type'', JStr ''selector''), (''tag'', JStr ''selector''),
       (''outbounds'', JArr [JStr ''proxy'', JStr ''direct'']), (''default'', JStr ''proxy'')], JObj [(''type'', JStr
       ''urltest''), (''tag'', JStr ''auto''), (''outbounds'', JArr [JStr ''proxy'']), (''url'', JStr
       ''https://www.gstatic.com/generate_204''), (''interval'', JStr ''3m''), (''tolerance'', JNum 50)], JObj [(''type'',
       JStr ''dns''), (''tag'', JStr ''dns-out'')], JObj [(''type'', JStr ''direct''), (''tag'', JStr ''direct'')], JObj
       [(''type'', JStr ''block''), (''tag'', JStr ''block'')]]),
     (''route'', JObj [(''rules'', JArr [JObj [(''protocol'', JStr ''dns''), (''outbound'', JStr ''dns-out'')], JObj
       [(''ip_is_private'', JBool True), (''outbound'', JStr ''direct'')], JObj [(''rule_set'', JArr [JStr
       ''geosite-cn'']), (''outbound'', JStr ''direct'')]]), (''rule_set'', JArr [JObj [(''tag'', JStr ''geosite-cn''),
       (''type'', JStr ''remote''), (''format'', JStr ''binary''), (''url'', JStr ''https://example.com/geosite-cn.srs''),
       (''download_detour'', JStr ''direct'')]]), (''final'', JStr ''selector''), (''auto_detect_interface'', JBool True),
       (''override_android_vpn'', JBool True), (''default_domain_resolver'', JStr ''local'')]),
     (''services'', JArr [JObj [(''type'', JStr ''clash-api''), (''external_controller'', JStr ''127.0.0.1:9090''),
       (''secret'', JStr ''password'')]]),
     (''experimental'', JObj [(''cache_file'', JObj [(''enabled'', JBool True), (''path'', JStr ''cache.db''),
       (''store_fakeip'', JBool True)]), (''clash_api'', JObj [(''external_controller'', JStr ''127.0.0.1:9090''),
       (''secret'', JStr ''password'')])])]"

section \<open>State\<close>

datatype view = Ui | Json

datatype save_status = Idle | Saving | Success | Failure

datatype builtin = V2ray_template | Xray_template | Singbox_template

record core_modal =
  selectedCore :: string
  viewMode :: view
  jsonText :: string
  configObj :: jsv
  isLoading :: bool
  saveStatus :: save_status
  errorMsg :: jsv
  dnsServersText :: string
  defaults :: "builtin \<Rightarrow> jsv"
  shared :: "builtin option"
  idle_timers :: nat
  local_store :: storage

type_synonym core_action = "(core_modal, unit) page_action"

definition builtin_templates :: "builtin \<Rightarrow> jsv" where
  "builtin_templates b = (case b of V2ray_template \<Rightarrow> defaultV2rayConfig | Xray_template \<Rightarrow> defaultXrayConfig
     | Singbox_template \<Rightarrow> defaultSingBoxConfig)"

definition init_core :: "string \<Rightarrow> (builtin \<Rightarrow> jsv) \<Rightarrow> storage \<Rightarrow> core_modal" where
  "init_core core ds st = \<lparr>selectedCore = core, viewMode = Ui, jsonText = [], configObj = JObj [], isLoading = True,
     saveStatus = Idle, errorMsg = JStr [], dnsServersText = [], defaults = ds, shared = None, idle_timers = 0,
     local_store = st\<rparr>"

definition is_sing :: "core_modal \<Rightarrow> bool" where
  "is_sing s \<longleftrightarrow> selectedCore s = ''sing-box''"

definition builtin_of :: "string \<Rightarrow> builtin" where
  "builtin_of core = (if core = ''sing-box'' then Singbox_template else if core = ''v2ray'' then V2ray_template
     else Xray_template)"

section \<open>The list of DNS servers\<close>

definition server_address :: "bool \<Rightarrow> jsv \<Rightarrow> jsv" where
  "server_address sing v = (if \<not> sing \<and> is_str v then v else js_or (opt_prop v ''address'') (JStr []))"

text \<open>A server that is \<open>null\<close> fails the whole text.\<close>

definition syncToUIState :: "jsv \<Rightarrow> core_modal \<Rightarrow> core_modal res" where
  "syncToUIState cfg s =
     (case get_prop cfg ''dns'' of Inl e \<Rightarrow> Inl e
      | Inr dns \<Rightarrow>
          (case opt_prop dns ''servers'' of
             JArr xs \<Rightarrow> if truthy dns
               then (if list_ex nullish xs then Inl ''Cannot read properties of null (reading 'address')''
                 else Inr (s\<lparr>dnsServersText := join_with [newline] (map (js_string \<circ> server_address (is_sing s)) xs)\<rparr>))
               else Inr s
           | _ \<Rightarrow> Inr s))"

definition typed_servers :: "string \<Rightarrow> string list" where
  "typed_servers t = clean_parts newline t"

definition merge_server :: "bool \<Rightarrow> jsv \<Rightarrow> nat \<Rightarrow> string \<Rightarrow> jsv" where
  "merge_server sing old i addr =
     (let existing = opt_index old (show_nat i) in
      if sing then
        (if truthy existing then spread2 existing (JObj [(''address'', JStr addr)])
         else JObj [(''tag'', JStr (''dns-'' @ show_nat i)), (''address'', JStr addr)])
      else (case existing of
          JObj _ \<Rightarrow> spread2 existing (JObj [(''address'', JStr addr)])
        | JArr _ \<Rightarrow> spread2 existing (JObj [(''address'', JStr addr)])
        | _ \<Rightarrow> JStr addr))"

definition merged_servers :: "bool \<Rightarrow> jsv \<Rightarrow> string list \<Rightarrow> jsv" where
  "merged_servers sing old ts = JArr (map (\<lambda>(i, t). merge_server sing old i t) (zip [0..<length ts] ts))"

text \<open>What \<open>syncFromUIState\<close> returns. The copy is shallow: a \<open>dns\<close> that was there is written in place, so the
  configuration of the state, and a built-in template that shares it, change as well.\<close>

definition with_servers :: "bool \<Rightarrow> string list \<Rightarrow> jsv \<Rightarrow> jsv res" where
  "with_servers sing ts cfg =
     (let dns = (if truthy (opt_prop cfg ''dns'') then opt_prop cfg ''dns'' else JObj []);
          old = (if truthy (opt_prop dns ''servers'') then opt_prop dns ''servers'' else JArr []) in
      case put_prop ''servers'' (merged_servers sing old ts) dns of Inl e \<Rightarrow> Inl e
      | Inr dns' \<Rightarrow> Inr (spread2 cfg (JObj [(''dns'', dns')])))"

definition syncFromUIState :: "core_modal \<Rightarrow> jsv res" where
  "syncFromUIState s = with_servers (is_sing s) (typed_servers (dnsServersText s)) (configObj s)"

definition written_through :: "core_modal \<Rightarrow> core_modal" where
  "written_through s =
     (case syncFromUIState s of Inl e \<Rightarrow> s
      | Inr cfg \<Rightarrow> if truthy (opt_prop (configObj s) ''dns'')
          then s\<lparr>configObj := cfg, defaults := (case shared s of None \<Rightarrow> defaults s
              | Some b \<Rightarrow> (defaults s)(b := spread2 (defaults s b) (JObj [(''dns'', opt_prop cfg ''dns'')])))\<rparr>
          else s)"

section \<open>Loading\<close>

definition template_request :: "core_modal \<Rightarrow> request" where
  "template_request s = http_get (''/api/v2ray/client/core-template?core='' @ selectedCore s)
     [auth_header (get_item_or (local_store s) ''cc_client_token'' [])]"

definition load_default :: "core_modal \<Rightarrow> core_modal" where
  "load_default s =
     (let b = builtin_of (selectedCore s); def = defaults s b;
          s1 = s\<lparr>jsonText := json_text ''  '' def, configObj := def, shared := Some b\<rparr> in
      case syncToUIState def s1 of Inl e \<Rightarrow> s1 | Inr s2 \<Rightarrow> s2)"

definition load_template :: "jsv \<Rightarrow> core_modal \<Rightarrow> core_modal" where
  "load_template t s =
     (let s1 = s\<lparr>jsonText := js_string t\<rparr> in
      case json_parse (js_string t) of None \<Rightarrow> s1
      | Some cfg \<Rightarrow> (let s2 = s1\<lparr>configObj := cfg, shared := None\<rparr> in
          case syncToUIState cfg s2 of Inl e \<Rightarrow> s2 | Inr s3 \<Rightarrow> s3))"

definition fetchTemplate :: core_action where
  "fetchTemplate = Get (\<lambda>c. finally_do (quietly
     (bind (page_fetch (template_request c)) (\<lambda>(ok, b).
       if ok then bind (read_json b) (\<lambda>data. bind (lift_res (get_prop data ''template'')) (\<lambda>t.
         set_state (if truthy t then load_template t else load_default)))
       else Done ())))
     (\<lambda>s. s\<lparr>isLoading := False\<rparr>))"

section \<open>Saving\<close>

definition save_request :: "core_modal \<Rightarrow> string \<Rightarrow> request" where
  "save_request s payload = post_json (get_item_or (local_store s) ''cc_client_token'' []) ''/api/v2ray/client/core-template''
     (JObj [(''core'', JStr (selectedCore s)), (''template'', JStr payload)])"

definition send_template :: "core_modal \<Rightarrow> string \<Rightarrow> core_action" where
  "send_template c payload = try_catch
     (bind (page_fetch (save_request c payload)) (\<lambda>(ok, b).
        if ok then set_state (\<lambda>s. s\<lparr>saveStatus := Success, idle_timers := Suc (idle_timers s)\<rparr>)
        else bind (read_json b) (\<lambda>data. Set (\<lambda>s. s\<lparr>saveStatus := Failure\<rparr>)
          (bind (lift_res (get_prop data ''error'')) (\<lambda>e.
            set_state (\<lambda>s. s\<lparr>errorMsg := js_or e (JStr ''Failed to save template'')\<rparr>))))))
     (\<lambda>e. set_state (\<lambda>s. s\<lparr>saveStatus := Failure, errorMsg := JStr e\<rparr>))"

definition save_ui :: "core_modal \<Rightarrow> core_action" where
  "save_ui c =
     (case syncFromUIState c of Inl e \<Rightarrow> Fail e
      | Inr cfg \<Rightarrow> Set (\<lambda>s. (written_through s)\<lparr>configObj := cfg, jsonText := json_text ''  '' cfg,
            shared := (if truthy (opt_prop (configObj c) ''dns'') then shared s else None)\<rparr>)
          (send_template c (json_text ''  '' cfg)))"

definition invalid_json :: "err \<Rightarrow> core_action" where
  "invalid_json e = set_state (\<lambda>s. s\<lparr>saveStatus := Failure, errorMsg := JStr (''Invalid JSON format: '' @ e)\<rparr>)"

definition save_json :: "string \<Rightarrow> core_modal \<Rightarrow> core_action" where
  "save_json why c =
     (case json_parse (jsonText c) of None \<Rightarrow> invalid_json why
      | Some cfg \<Rightarrow> Set (\<lambda>s. s\<lparr>configObj := cfg, shared := None\<rparr>)
          (case syncToUIState cfg c of Inl e \<Rightarrow> invalid_json e
           | Inr s' \<Rightarrow> Set (\<lambda>s. s\<lparr>dnsServersText := dnsServersText s'\<rparr>) (send_template c (jsonText c))))"

definition handleSave :: "string \<Rightarrow> core_action" where
  "handleSave why = Get (\<lambda>c. Set (\<lambda>s. s\<lparr>saveStatus := Saving, errorMsg := JStr []\<rparr>)
     (case viewMode c of Ui \<Rightarrow> save_ui c | Json \<Rightarrow> save_json why c))"

definition idle_due :: "core_modal \<Rightarrow> core_modal" where
  "idle_due s = (if idle_timers s = 0 then s else s\<lparr>saveStatus := Idle, idle_timers := idle_timers s - 1\<rparr>)"

section \<open>The fields\<close>

text \<open>A missing place on the way is created; the value of \<open>undefined\<close> and a place in something that is no object throw.\<close>

fun set_in :: "string list \<Rightarrow> jsv \<Rightarrow> jsv \<Rightarrow> jsv res" where
  "set_in [] x v = Inr v"
| "set_in [k] x v = put_prop k x v"
| "set_in (k # j # ks) x v =
     (case get_prop v k of Inl e \<Rightarrow> Inl e
      | Inr _ \<Rightarrow> case set_in (j # ks) x (if opt_index v k = JUndef then JObj [] else opt_index v k) of
        Inl e \<Rightarrow> Inl e | Inr w \<Rightarrow> put_prop k w v)"

definition change_config :: "(jsv \<Rightarrow> jsv res) \<Rightarrow> core_modal \<Rightarrow> core_modal res" where
  "change_config f s = (case f (json_clone (configObj s)) of Inl e \<Rightarrow> Inl e
     | Inr cfg \<Rightarrow> Inr (s\<lparr>configObj := cfg, shared := None\<rparr>))"

definition updateNested :: "string list \<Rightarrow> jsv \<Rightarrow> core_modal \<Rightarrow> core_modal res" where
  "updateNested path x = change_config (set_in path x)"

definition get_in :: "string list \<Rightarrow> jsv \<Rightarrow> jsv" where
  "get_in path v = foldl opt_index v path"

definition getNested :: "string list \<Rightarrow> core_modal \<Rightarrow> jsv" where
  "getNested path s = get_in path (configObj s)"

definition array_items :: "jsv \<Rightarrow> jsv list" where
  "array_items v = (case v of JArr xs \<Rightarrow> xs | _ \<Rightarrow> [])"

text \<open>The two buttons of a list are used with one key.\<close>

definition removeArrayItem :: "string \<Rightarrow> nat \<Rightarrow> core_modal \<Rightarrow> core_modal res" where
  "removeArrayItem k i = change_config (\<lambda>cfg. case opt_index cfg k of
       JArr xs \<Rightarrow> put_prop k (JArr (drop_nth i xs)) cfg | _ \<Rightarrow> Inr cfg)"

definition addArrayItem :: "string \<Rightarrow> jsv \<Rightarrow> core_modal \<Rightarrow> core_modal res" where
  "addArrayItem k item = change_config (\<lambda>cfg. put_prop k (JArr (array_items (opt_index cfg k) @ [item])) cfg)"

definition new_inbound :: "core_modal \<Rightarrow> jsv" where
  "new_inbound s = (if is_sing s
     then JObj [(''type'', JStr ''socks''), (''tag'', JStr ''new-in''), (''listen'', JStr ''127.0.0.1''), (''listen_port'', JNum 1080)]
     else JObj [(''protocol'', JStr ''socks''), (''tag'', JStr ''new-in''), (''listen'', JStr ''127.0.0.1''), (''port'', JNum 1080)])"

definition new_outbound :: "core_modal \<Rightarrow> jsv" where
  "new_outbound s = (if is_sing s then JObj [(''type'', JStr ''direct''), (''tag'', JStr ''direct'')]
     else JObj [(''protocol'', JStr ''freedom''), (''tag'', JStr ''direct'')])"

text \<open>The places of the fields.\<close>

definition port_path :: "core_modal \<Rightarrow> nat \<Rightarrow> string list" where
  "port_path s i = [''inbounds'', show_nat i, if is_sing s then ''listen_port'' else ''port'']"

definition inbound_kind_path :: "core_modal \<Rightarrow> nat \<Rightarrow> string list" where
  "inbound_kind_path s i = [''inbounds'', show_nat i, if is_sing s then ''type'' else ''protocol'']"

definition outbound_kind_path :: "core_modal \<Rightarrow> nat \<Rightarrow> string list" where
  "outbound_kind_path s i = [''outbounds'', show_nat i, if is_sing s then ''type'' else ''protocol'']"

definition strategy_path :: "core_modal \<Rightarrow> string list" where
  "strategy_path s = (if is_sing s then [''dns'', ''strategy''] else [''routing'', ''domainStrategy''])"

definition access_log_path :: "core_modal \<Rightarrow> string list" where
  "access_log_path s = (if is_sing s then [''log'', ''output''] else [''log'', ''access''])"

definition error_log_path :: "core_modal \<Rightarrow> string list" where
  "error_log_path s = (if is_sing s then [''log'', ''output''] else [''log'', ''error''])"

definition verbosity_path :: "core_modal \<Rightarrow> string list" where
  "verbosity_path s = (if is_sing s then [''log'', ''level''] else [''log'', ''loglevel''])"

definition buffer_path :: "string list" where
  "buffer_path = [''policy'', ''levels'', ''0'', ''bufferSize'']"

definition idle_path :: "string list" where
  "idle_path = [''policy'', ''levels'', ''0'', ''connIdle'']"

definition type_inbound_port :: "nat \<Rightarrow> string \<Rightarrow> core_modal \<Rightarrow> core_modal res" where
  "type_inbound_port i v s = updateNested (port_path s i)
     (JNum (case parse_int v of None \<Rightarrow> 0 | Some n \<Rightarrow> of_int n)) s"

definition type_limit :: "string list \<Rightarrow> string \<Rightarrow> core_modal \<Rightarrow> core_modal res" where
  "type_limit path v = updateNested path (case parse_int v of None \<Rightarrow> JNaN | Some n \<Rightarrow> JNum (of_int n))"

text \<open>The two views: going to the JSON writes it from the fields, going back reads nothing.\<close>

definition show_json :: "core_modal \<Rightarrow> core_modal res" where
  "show_json s =
     (case viewMode s of Json \<Rightarrow> Inr s
      | Ui \<Rightarrow> (case syncFromUIState s of Inl e \<Rightarrow> Inl e
          | Inr cfg \<Rightarrow> Inr ((written_through s)\<lparr>jsonText := json_text ''  '' cfg, viewMode := Json\<rparr>)))"

definition show_ui :: "core_modal \<Rightarrow> core_modal" where
  "show_ui s = s\<lparr>viewMode := Ui\<rparr>"

end
