(* ===== verification/Core_Behaviour.thy ===== *)
theory Core_Behaviour
  imports Core_Config
begin

text \<open>
  The fields of the core editor write exactly their place, saving a configuration that nobody edited sends it as it was, and
  the runs in which edits are lost or a built-in template is overwritten.
\<close>

section \<open>Reading back what was written\<close>

text \<open>A place that can be written: objects on the way, or nothing yet, and lists met by an index.\<close>

definition holds_key :: "jsv \<Rightarrow> string \<Rightarrow> bool" where
  "holds_key v k = (case v of JObj kvs \<Rightarrow> True | JArr xs \<Rightarrow> array_index k \<noteq> None | _ \<Rightarrow> False)"

definition or_empty :: "jsv \<Rightarrow> jsv" where
  "or_empty v = (if v = JUndef then JObj [] else v)"

fun fits_path :: "string list \<Rightarrow> jsv \<Rightarrow> bool" where
  "fits_path [] v = False"
| "fits_path [k] v = holds_key v k"
| "fits_path (k # j # ks) v = (holds_key v k \<and> fits_path (j # ks) (or_empty (opt_index v k)))"

lemma put_holds: "holds_key v k \<Longrightarrow> \<exists>w. put_prop k x v = Inr w \<and> opt_index w k = x"
  using put_same [of k x v] by (cases v) (auto simp: holds_key_def put_prop_def)

lemma get_in_simps [simp]: "get_in [] v = v" "get_in (k # ks) v = get_in ks (opt_index v k)"
  by (simp_all add: get_in_def)

lemma get_in_undef [simp]: "get_in ks JUndef = JUndef"
  by (induction ks) auto

lemma get_in_empty: "ks \<noteq> [] \<Longrightarrow> get_in ks (JObj []) = JUndef"
  by (cases ks) auto

lemma set_in_step:
  assumes "holds_key v k"
  shows "set_in (k # j # ks) x v =
    (case set_in (j # ks) x (or_empty (opt_index v k)) of Inl e \<Rightarrow> Inl e | Inr w \<Rightarrow> put_prop k w v)"
  using assms by (cases v) (auto simp: holds_key_def or_empty_def)

lemma set_then_get: "fits_path ks v \<Longrightarrow> \<exists>w. set_in ks x v = Inr w \<and> get_in ks w = x"
proof (induction ks v rule: fits_path.induct)
  case (2 k v)
  then show ?case using put_holds by fastforce
next
  case (3 k j ks v)
  then obtain u where u: "set_in (j # ks) x (or_empty (opt_index v k)) = Inr u" "get_in (j # ks) u = x" by auto
  obtain w where "put_prop k u v = Inr w" "opt_index w k = u" using put_holds 3(2) by fastforce
  moreover have "set_in (k # j # ks) x v = put_prop k u v" using set_in_step [of v k] 3(2) u(1) by simp
  ultimately show ?case using u(2) by (intro exI [of _ w]) simp
qed simp

text \<open>Places that part at some key.\<close>

fun diverge :: "string list \<Rightarrow> string list \<Rightarrow> bool" where
  "diverge (k # ks) (j # js) = (k \<noteq> j \<or> diverge ks js)"
| "diverge _ _ = False"

lemma set_keeps_others:
  "fits_path ks v \<Longrightarrow> diverge ks js \<Longrightarrow> ''length'' \<notin> set js \<Longrightarrow> set_in ks x v = Inr w \<Longrightarrow> get_in js w = get_in js v"
proof (induction ks v arbitrary: js w rule: fits_path.induct)
  case (2 k v)
  then obtain j js' where "js = j # js'" by (cases js) auto
  then show ?case using 2(2-4) put_other [of k x v w j] by auto
next
  case (3 k j ks v)
  obtain i rest where js: "js = i # rest" using 3(3) by (cases js) auto
  have h: "holds_key v k" and f: "fits_path (j # ks) (or_empty (opt_index v k))" using 3(2) by simp_all
  obtain u where u: "set_in (j # ks) x (or_empty (opt_index v k)) = Inr u" "put_prop k u v = Inr w"
    using 3(5) set_in_step [OF h, of j ks x] by (auto simp del: set_in.simps split: sum.splits)
  show ?case
  proof (cases "i = k")
    case True
    then have d: "diverge (j # ks) rest" "''length'' \<notin> set rest" using 3(3,4) js by auto
    obtain w' where "put_prop k u v = Inr w'" "opt_index w' k = u" using put_holds [OF h] by blast
    with u have "opt_index w k = u" by simp
    moreover have "get_in rest u = get_in rest (or_empty (opt_index v k))" by (rule 3(1) [OF f d u(1)])
    moreover have "rest \<noteq> []" using d(1) by (cases rest) auto
    ultimately show ?thesis using js True by (auto simp: or_empty_def get_in_empty)
  next
    case False
    then show ?thesis using put_other [OF u(2), of i] 3(4) js by auto
  qed
qed simp


definition sample_core :: core_modal where
  "sample_core = (init_core ''xray'' builtin_templates Map.empty)\<lparr>configObj := JObj [(''log'', JObj [(''access'', JStr [])]),
     (''inbounds'', JArr [JObj [(''port'', JNum 1080)], JObj [(''port'', JNum 1081)]])]\<rparr>"


section \<open>Saving what nobody edited\<close>

text \<open>A list of servers that its text can hold: every one has an address, on one line and without blanks around it.\<close>

definition clean_address :: "string \<Rightarrow> bool" where
  "clean_address t \<longleftrightarrow> t \<noteq> [] \<and> trim t = t \<and> newline \<notin> set t"

definition server_has :: "bool \<Rightarrow> jsv \<Rightarrow> string \<Rightarrow> bool" where
  "server_has sing v t \<longleftrightarrow> clean_address t \<and> ((\<not> sing \<and> v = JStr t) \<or>
     (\<exists>kvs. v = JObj kvs \<and> distinct (map fst kvs) \<and> map_of kvs ''address'' = Some (JStr t)))"

lemma update_same: "map_of kvs k = Some v \<Longrightarrow> AList.update k v kvs = kvs"
  by (induction kvs) (auto split: if_splits)

lemma update_new: "k \<notin> fst ` set kvs \<Longrightarrow> AList.update k v kvs = kvs @ [(k, v)]"
  by (induction kvs) auto

lemma put_all_copy: "distinct (map fst (old @ new)) \<Longrightarrow> put_all new old = old @ new"
proof (induction new arbitrary: old)
  case (Cons kv new)
  obtain k v where kv: "kv = (k, v)" by (cases kv)
  have "AList.update k v old = old @ [(k, v)]" using Cons.prems kv by (intro update_new) auto
  then have "put_all (kv # new) old = put_all new (old @ [(k, v)])" by (simp add: put_all_def kv)
  also have "\<dots> = (old @ [(k, v)]) @ new" by (rule Cons.IH) (use Cons.prems kv in simp)
  finally show ?case by (simp add: kv)
qed (simp add: put_all_def)

lemma spread_same:
  assumes "distinct (map fst kvs)" and "map_of kvs k = Some v"
  shows "spread2 (JObj kvs) (JObj [(k, v)]) = JObj kvs"
  using put_all_copy [of "[]" kvs] update_same [OF assms(2)] assms(1) by (simp add: spread2_def) (simp add: put_all_def)

lemma server_text: "server_has sing v t \<Longrightarrow> js_string (server_address sing v) = t \<and> \<not> nullish v"
  by (auto simp: server_has_def server_address_def clean_address_def js_or_def obj_get_def)

lemma merge_same:
  assumes "i < length xs" and "server_has sing (xs ! i) t"
  shows "merge_server sing (JArr xs) i t = xs ! i"
  using assms spread_same
  by (auto simp: merge_server_def opt_index_def server_has_def Let_def)

lemma merged_same:
  assumes "list_all2 (server_has sing) xs ts"
  shows "merged_servers sing (JArr xs) ts = JArr xs"
proof -
  have l: "length xs = length ts" using assms by (rule list_all2_lengthD)
  have "map (\<lambda>(i, t). merge_server sing (JArr xs) i t) (zip [0..<length ts] ts) = xs"
  proof (rule nth_equalityI)
    fix i assume "i < length (map (\<lambda>(i, t). merge_server sing (JArr xs) i t) (zip [0..<length ts] ts))"
    then have i: "i < length ts" by simp
    then have "server_has sing (xs ! i) (ts ! i)" using assms l by (simp add: list_all2_conv_all_nth)
    then show "map (\<lambda>(i, t). merge_server sing (JArr xs) i t) (zip [0..<length ts] ts) ! i = xs ! i"
      using i l by (simp add: merge_same)
  qed (simp add: l)
  then show ?thesis by (simp add: merged_servers_def)
qed

lemma typed_joined: "list_all clean_address ts \<Longrightarrow> typed_servers (join_with [newline] ts) = ts"
  unfolding typed_servers_def by (rule clean_parts_joined) (auto simp: list_all_iff clean_address_def)

definition clean_config :: "bool \<Rightarrow> jsv \<Rightarrow> string list \<Rightarrow> bool" where
  "clean_config sing cfg ts \<longleftrightarrow> (\<exists>kvs dns xs. cfg = JObj kvs \<and> distinct (map fst kvs) \<and> map_of kvs ''dns'' = Some (JObj dns) \<and>
     distinct (map fst dns) \<and> map_of dns ''servers'' = Some (JArr xs) \<and> list_all2 (server_has sing) xs ts)"

lemma servers_shown:
  assumes "clean_config (is_sing s) cfg ts"
  shows "syncToUIState cfg s = Inr (s\<lparr>dnsServersText := join_with [newline] ts\<rparr>)"
proof -
  obtain kvs dns xs where c: "cfg = JObj kvs" "map_of kvs ''dns'' = Some (JObj dns)" "map_of dns ''servers'' = Some (JArr xs)"
      "list_all2 (server_has (is_sing s)) xs ts"
    using assms by (auto simp: clean_config_def)
  have "map (js_string \<circ> server_address (is_sing s)) xs = ts"
    using c(4) by (induction rule: list_all2_induct) (simp_all add: server_text)
  moreover have "\<not> list_ex nullish xs"
    using c(4) by (induction rule: list_all2_induct) (simp_all add: server_text)
  ultimately show ?thesis by (simp add: syncToUIState_def c(1) obj_get_def c(2,3))
qed

lemma servers_kept:
  assumes "clean_config sing cfg ts"
  shows "with_servers sing (typed_servers (join_with [newline] ts)) cfg = Inr cfg"
proof -
  obtain kvs dns xs where c: "cfg = JObj kvs" "distinct (map fst kvs)" "map_of kvs ''dns'' = Some (JObj dns)"
      "distinct (map fst dns)" "map_of dns ''servers'' = Some (JArr xs)" "list_all2 (server_has sing) xs ts"
    using assms by (auto simp: clean_config_def)
  have "list_all clean_address ts"
    using c(6) by (induction rule: list_all2_induct) (simp_all add: server_has_def)
  then have "typed_servers (join_with [newline] ts) = ts" by (rule typed_joined)
  moreover have "put_prop ''servers'' (JArr xs) (JObj dns) = Inr (JObj dns)"
    using update_same [OF c(5)] by (simp add: put_prop_def)
  ultimately show ?thesis
    using spread_same [OF c(2,3)] merged_same [OF c(6)] by (simp add: with_servers_def c(1) obj_get_def c(3,5))
qed

text \<open>The editor after its template has been read.\<close>

definition loaded :: "string \<Rightarrow> jsv \<Rightarrow> string list \<Rightarrow> core_modal \<Rightarrow> core_modal" where
  "loaded t cfg ts s = s\<lparr>jsonText := t, configObj := cfg, shared := None, dnsServersText := join_with [newline] ts, isLoading := False\<rparr>"

lemma template_read:
  assumes "t \<noteq> []" and "json_parse t = Some cfg" and "clean_config (is_sing s) cfg ts"
  shows "final fetchTemplate [Replied (Response True (JsonOk (JObj [(''template'', JStr t)])))] s = loaded t cfg ts s"
proof -
  have "is_sing (s\<lparr>jsonText := t, configObj := cfg, shared := None\<rparr>) = is_sing s" by (simp add: is_sing_def)
  with servers_shown [of "s\<lparr>jsonText := t, configObj := cfg, shared := None\<rparr>" cfg ts] assms show ?thesis
    by (simp add: final_def fetchTemplate_def page_fetch_def read_json_def lift_res_def quietly_def load_template_def loaded_def)
qed

text \<open>C37: A configuration that nobody edited stays as it is. Let the server's template parse to an object whose \<open>dns\<close> is
  an object with a list of \<open>servers\<close>, each of which has an address of one line without blanks around it: as a property
  of an object, or, unless the core is sing-box, as the server itself. Then the list in the form shows these addresses
  in their order; opening the JSON shows the configuration, whose text parses to the one that was read; and saving from
  the fields sends that text and nothing else. (Numbers are whole. Other configurations do change: where an address is
  missing the ones behind it move up, see \<open>address_moves_up\<close>, and one without \<open>dns\<close> is saved with an empty list, see
  \<open>untouched_save_adds_dns\<close>.)\<close>

theorem untouched_save_is_identity:
  assumes "t \<noteq> []" and "json_parse t = Some cfg" and "json_value cfg" and "viewMode s = Ui"
    and "cfg = JObj kvs" and "map_of kvs ''dns'' = Some (JObj dns)" and "map_of dns ''servers'' = Some (JArr xs)"
    and "list_all2 (\<lambda>v a. a \<noteq> [] \<and> trim a = a \<and> newline \<notin> set a \<and>
      ((selectedCore s \<noteq> ''sing-box'' \<and> v = JStr a) \<or> (\<exists>ps. v = JObj ps \<and> map_of ps ''address'' = Some (JStr a)))) xs ts"
  shows "let s1 = final fetchTemplate [Replied (Response True (JsonOk (JObj [(''template'', JStr t)])))] s in
    typed_servers (dnsServersText s1) = ts \<and> configObj s1 = cfg \<and>
    (\<exists>j. show_json s1 = Inr j \<and> jsonText j = json_text ''  '' cfg \<and> json_parse (jsonText j) = Some cfg \<and> configObj j = cfg) \<and>
    requests (handleSave why) [Replied (Response True b)] s1 = [Http (save_request s (json_text ''  '' cfg))] \<and>
    configObj (final (handleSave why) [Replied (Response True b)] s1) = cfg \<and>
    saveStatus (final (handleSave why) [Replied (Response True b)] s1) = Success"
proof -
  have member: "json_value v" if "json_value (JObj ps)" "map_of ps k = Some v" for ps k v
    using that by (fastforce simp: list_all_iff dest: map_of_SomeD)
  have d: "json_value (JObj dns)" using member [OF assms(3) [unfolded assms(5)] assms(6)] .
  then have "json_value (JArr xs)" using assms(7) by (rule member)
  then have all: "list_all json_value xs" by simp
  have "list_all2 (server_has (is_sing s)) xs ts"
    using assms(8) all unfolding list_all2_conv_all_nth
    by (fastforce simp: server_has_def clean_address_def is_sing_def list_all_length)
  with d assms(3,5-7) have c: "clean_config (is_sing s) cfg ts" by (simp add: clean_config_def)
  note r = template_read [OF assms(1,2) c]
  let ?s = "loaded t cfg ts s"
  have "list_all clean_address ts"
    using c by (auto simp: clean_config_def server_has_def list_all2_conv_all_nth list_all_length)
  then have typed: "typed_servers (dnsServersText ?s) = ts" by (simp add: loaded_def typed_joined)
  have sync: "syncFromUIState ?s = Inr cfg"
    using servers_kept [OF c] by (simp add: syncFromUIState_def loaded_def is_sing_def)
  have reread: "json_parse (json_text ''  '' cfg) = Some cfg"
    using json_roundtrip [OF assms(3), of "''  ''"] by (simp add: json_space_def)
  have w: "written_through ?s = ?s"
    using sync by (simp add: written_through_def) (simp add: loaded_def)
  have vm: "viewMode ?s = Ui" by (simp add: loaded_def assms(4))
  have "show_json ?s = Inr (?s\<lparr>jsonText := json_text ''  '' cfg, viewMode := Json\<rparr>)"
    by (simp add: show_json_def sync w vm)
  moreover have "configObj ?s = cfg" by (simp add: loaded_def)
  moreover have "save_request ?s p = save_request s p" for p by (simp add: save_request_def loaded_def)
  moreover have "requests (handleSave why) [Replied (Response True b)] ?s = [Http (save_request ?s (json_text ''  '' cfg))]"
    "configObj (final (handleSave why) [Replied (Response True b)] ?s) = cfg"
    "saveStatus (final (handleSave why) [Replied (Response True b)] ?s) = Success"
    by (simp_all add: handleSave_def save_ui_def sync vm requests_def final_def send_template_def page_fetch_def)
  ultimately show ?thesis
    unfolding Let_def r using typed reread by simp
qed

definition sample_template :: jsv where
  "sample_template = JObj [(''log'', JObj []), (''dns'', JObj [(''servers'', JArr [JStr ''8.8.8.8'',
     JObj [(''port'', JNum 53), (''address'', JStr ''1.1.1.1'')]]), (''tag'', JStr ''dns'')])]"

theorem untouched_save_is_identity_witness:
  "requests (handleSave []) [Replied (Response True (JsonOk JNull))] (final fetchTemplate
      [Replied (Response True (JsonOk (JObj [(''template'', JStr (json_text [] sample_template))])))]
      (init_core ''xray'' builtin_templates Map.empty)) =
    [Http (save_request (init_core ''xray'' builtin_templates Map.empty) (json_text ''  '' sample_template))]"
proof -
  have v: "json_value sample_template" by (simp add: sample_template_def)
  then have p: "json_parse (json_text [] sample_template) = Some sample_template" using json_roundtrip by simp
  then have n: "json_text [] sample_template \<noteq> []" by (auto simp: json_parse_def lex.simps)
  have t: "trim ''8.8.8.8'' = ''8.8.8.8''" "trim ''1.1.1.1'' = ''1.1.1.1''" by (simp_all add: trim_def is_space_def)
  have c: "viewMode (init_core ''xray'' builtin_templates Map.empty) = Ui"
    "selectedCore (init_core ''xray'' builtin_templates Map.empty) \<noteq> ''sing-box''" by (simp_all add: init_core_def)
  show ?thesis
    using untouched_save_is_identity [OF n p v c(1), of
        "[(''log'', JObj []), (''dns'', JObj [(''servers'', JArr [JStr ''8.8.8.8'',
           JObj [(''port'', JNum 53), (''address'', JStr ''1.1.1.1'')]]), (''tag'', JStr ''dns'')])]"
        "[(''servers'', JArr [JStr ''8.8.8.8'', JObj [(''port'', JNum 53), (''address'', JStr ''1.1.1.1'')]]), (''tag'', JStr ''dns'')]"
        "[JStr ''8.8.8.8'', JObj [(''port'', JNum 53), (''address'', JStr ''1.1.1.1'')]]"
        "[''8.8.8.8'', ''1.1.1.1'']" "[]" "JsonOk JNull"] c(2)
    by (simp add: sample_template_def t newline_def Let_def)
qed

section \<open>Runs that lose something\<close>

text \<open>Going back to the fields reads nothing: what was typed as JSON is gone when the JSON is shown again, or saved.\<close>

lemma json_edits_lost:
  assumes "syncFromUIState s = Inr cfg"
  shows "map_option jsonText (case show_json (show_ui (s\<lparr>viewMode := Json, jsonText := typed\<rparr>)) of Inl e \<Rightarrow> None | Inr j \<Rightarrow> Some j) =
    Some (json_text ''  '' cfg)"
proof -
  have "syncFromUIState (show_ui (s\<lparr>viewMode := Json, jsonText := typed\<rparr>)) = Inr cfg"
    using assms by (simp add: syncFromUIState_def show_ui_def is_sing_def)
  moreover have "viewMode (show_ui (s\<lparr>viewMode := Json, jsonText := typed\<rparr>)) = Ui" by (simp add: show_ui_def)
  ultimately show ?thesis by (simp add: show_json_def)
qed

text \<open>When the template cannot be read the editor opens on an empty configuration, and saving sends it.\<close>

lemma failed_load_saves_empty:
  assumes "final fetchTemplate [Replied (Rejected e)] (init_core core ds st) = s"
  shows "\<not> isLoading s" "requests (handleSave why) [r] s =
    [Http (save_request s (json_text ''  '' (JObj [(''dns'', JObj [(''servers'', JArr [])])])))]"
proof -
  have s: "s = (init_core core ds st)\<lparr>isLoading := False\<rparr>"
    using assms by (simp add: final_def fetchTemplate_def page_fetch_def quietly_def)
  then show "\<not> isLoading s" by simp
  have "syncFromUIState s = Inr (JObj [(''dns'', JObj [(''servers'', JArr [])])])"
    by (simp add: s init_core_def syncFromUIState_def with_servers_def typed_servers_def clean_parts_def trim_def merged_servers_def
        put_prop_def spread2_def put_all_def)
  moreover have "viewMode s = Ui" by (simp add: s init_core_def)
  ultimately show "requests (handleSave why) [r] s =
    [Http (save_request s (json_text ''  '' (JObj [(''dns'', JObj [(''servers'', JArr [])])])))]"
    by (cases r) (auto simp: requests_def handleSave_def save_ui_def send_template_def page_fetch_def read_json_def
        lift_res_def split: reply.splits body.splits sum.splits bool.splits prod.splits)
qed

text \<open>A server without an address takes a blank line in the text, which is skipped on the way back: the addresses behind it
  move to the server before.\<close>

lemma address_moves_up:
  "syncToUIState (JObj [(''dns'', JObj [(''servers'', JArr [JObj [(''tag'', JStr ''fake'')],
     JObj [(''tag'', JStr ''real''), (''address'', JStr ''1.1.1.1'')]])])]) s = Inr s' \<Longrightarrow>
   with_servers True (typed_servers (dnsServersText s')) (JObj [(''dns'', JObj [(''servers'', JArr [JObj [(''tag'', JStr ''fake'')],
     JObj [(''tag'', JStr ''real''), (''address'', JStr ''1.1.1.1'')]])])]) =
   Inr (JObj [(''dns'', JObj [(''servers'', JArr [JObj [(''tag'', JStr ''fake''), (''address'', JStr ''1.1.1.1'')]])])])"
proof -
  assume "syncToUIState (JObj [(''dns'', JObj [(''servers'', JArr [JObj [(''tag'', JStr ''fake'')],
     JObj [(''tag'', JStr ''real''), (''address'', JStr ''1.1.1.1'')]])])]) s = Inr s'"
  then have "dnsServersText s' = newline # ''1.1.1.1''"
    by (auto simp: syncToUIState_def server_address_def js_or_def)
  moreover have "typed_servers (newline # ''1.1.1.1'') = [''1.1.1.1'']"
    by (simp add: typed_servers_def clean_parts_def newline_def trim_def is_space_def)
  ultimately show ?thesis
    by (simp add: with_servers_def merged_servers_def merge_server_def opt_index_def put_prop_def spread2_def put_all_def)
qed

text \<open>A configuration without \<open>dns\<close> gets one with an empty list of servers.\<close>

lemma untouched_save_adds_dns:
  "syncToUIState (JObj []) s = Inr s' \<Longrightarrow> dnsServersText s = [] \<Longrightarrow>
   with_servers sing (typed_servers (dnsServersText s')) (JObj []) = Inr (JObj [(''dns'', JObj [(''servers'', JArr [])])])"
  by (auto simp: syncToUIState_def with_servers_def typed_servers_def clean_parts_def trim_def merged_servers_def
      put_prop_def spread2_def put_all_def split: jsv.splits)

text \<open>Opening the JSON of a built-in template writes the typed servers into the template itself, for as long as the
  application runs.\<close>

lemma builtin_overwritten:
  assumes "shared s = Some b" and "configObj s = JObj kvs" and "obj_get kvs ''dns'' = JObj dns" and "viewMode s = Ui"
  shows "\<exists>j. show_json s = Inr j \<and> opt_prop (opt_prop (defaults j b) ''dns'') ''servers'' =
    merged_servers (is_sing s) (js_or (obj_get dns ''servers'') (JArr [])) (typed_servers (dnsServersText s))"
proof -
  let ?m = "merged_servers (is_sing s) (js_or (obj_get dns ''servers'') (JArr [])) (typed_servers (dnsServersText s))"
  have "syncFromUIState s = Inr (spread2 (JObj kvs) (JObj [(''dns'', JObj (AList.update ''servers'' ?m dns))]))"
    using assms by (simp add: syncFromUIState_def with_servers_def put_prop_def js_or_def)
  moreover have "opt_prop (spread2 v (JObj [(''dns'', w)])) ''dns'' = w" for v w
    by (simp add: spread2_def put_all_def)
  ultimately show ?thesis
    using assms by (simp add: show_json_def written_through_def)
qed

end
