(* ===== verification/Telegram_Page.thy ===== *)
theory Telegram_Page
  imports Page
begin

text \<open>
  The Telegram page of the server (\<open>web/server/src/pages/TelegramSettingsPage.tsx\<close>): the settings of the bot or of a user
  account, the wizard that verifies the account, starting and stopping with the polling of the status, avatar and broadcast.
  The page of the client lacks the branch of a refused start. What a request with a file carries is left out of the request.
\<close>

section \<open>State\<close>

datatype auth_step = Phone_step | Code_step | Twofa_step | Success_step

record telegram_page =
  token :: string
  config :: jsv
  running :: bool
  stats :: jsv
  maskedToken :: jsv
  showToken :: bool
  loading :: bool
  saving :: bool
  testing :: bool
  starting :: bool
  testResult :: jsv
  saveMsg :: string
  save_timers :: nat
  avatarFile :: "string option"
  uploadingAvatar :: bool
  avatarMsg :: string
  broadcastMsg :: string
  broadcasting :: bool
  broadcastResult :: string
  broadcast_timers :: nat
  sessionExists :: bool
  authStep :: auth_step
  phone :: jsv
  code :: string
  password :: string
  authLoading :: bool
  authError :: jsv
  polling :: bool

type_synonym tg_action = "(telegram_page, unit) page_action"

definition good :: "string \<Rightarrow> string" where
  "good t = [CHR 0xE2, CHR 0x9C, CHR 0x85, CHR '' ''] @ t"

definition bad :: "string \<Rightarrow> string" where
  "bad t = [CHR 0xE2, CHR 0x9D, CHR 0x8C, CHR '' ''] @ t"

definition welcome_text :: string where
  "welcome_text = [CHR 0xF0, CHR 0x9F, CHR 0x91, CHR 0x8B] @ '' Welcome to *CleverConnect Bot*, {name}!'' @
     [CHR 0x0A, CHR 0x0A] @ ''Use /help to see available commands.''"

definition defaultConfig :: jsv where
  "defaultConfig = JObj [(''bot_token'', JStr []), (''admin_user_ids'', JStr []), (''welcome_message'', JStr welcome_text),
     (''polling_interval'', JNum 10), (''max_file_size'', JNum 2000), (''enable_file_sharing'', JBool True),
     (''enable_notifications'', JBool True), (''is_active'', JBool False), (''auth_type'', JStr ''bot''), (''app_id'', JNum 32022585),
     (''app_hash'', JStr ''9991d973ceb69d70b059369c3eed430e''), (''mtproto_server'', JStr ''149.154.167.40:443''),
     (''phone_number'', JStr [])]"

definition init_telegram :: "string \<Rightarrow> telegram_page" where
  "init_telegram tok = \<lparr>token = tok, config = defaultConfig, running = False, stats = JNull, maskedToken = JStr [],
     showToken = False, loading = True, saving = False, testing = False, starting = False, testResult = JNull, saveMsg = [],
     save_timers = 0, avatarFile = None, uploadingAvatar = False, avatarMsg = [], broadcastMsg = [], broadcasting = False,
     broadcastResult = [], broadcast_timers = 0, sessionExists = False, authStep = Phone_step, phone = JStr [], code = [],
     password = [], authLoading = False, authError = JStr [], polling = False\<rparr>"

section \<open>Requests\<close>

definition headers :: "telegram_page \<Rightarrow> (string \<times> string) list" where
  "headers s = [auth_header (token s), json_header]"

definition tg_get :: "telegram_page \<Rightarrow> string \<Rightarrow> request" where
  "tg_get s path = http_get (''/api/telegram/'' @ path) (headers s)"

definition tg_post :: "telegram_page \<Rightarrow> string \<Rightarrow> jsv option \<Rightarrow> request" where
  "tg_post s path b = http_send ''POST'' (''/api/telegram/'' @ path) (headers s) b"

text \<open>The answer's \<open>ok\<close> and its JSON.\<close>

definition ask :: "request \<Rightarrow> (telegram_page, bool \<times> jsv) page_action" where
  "ask rq = bind (page_fetch rq) (\<lambda>(ok, b). bind (read_json b) (\<lambda>d. Done (ok, d)))"

text \<open>Whether the engine runs, which starts or stops the polling.\<close>

definition set_running :: "bool \<Rightarrow> telegram_page \<Rightarrow> telegram_page" where
  "set_running r s = s\<lparr>running := r, polling := r\<rparr>"

section \<open>Settings and status\<close>

definition take_config :: "jsv \<Rightarrow> telegram_page \<Rightarrow> telegram_page" where
  "take_config d s =
     (let cfg = spread2 defaultConfig (opt_prop d ''config'');
          s1 = s\<lparr>config := cfg, phone := js_or (opt_prop cfg ''phone_number'') (JStr []),
            maskedToken := js_or (opt_prop d ''masked_token'') (JStr [])\<rparr>;
          s2 = (if opt_prop cfg ''auth_type'' = JStr ''user'' \<and>
                   (truthy (opt_prop d ''running'') \<or> truthy (opt_prop d ''user_session_exists''))
                then s1\<lparr>authStep := Success_step\<rparr> else s1)
      in s2\<lparr>sessionExists := truthy (opt_prop d ''user_session_exists'')\<rparr>)"

definition take_status :: "jsv \<Rightarrow> telegram_page \<Rightarrow> telegram_page" where
  "take_status d s = (let s1 = set_running (truthy (opt_prop d ''running'')) s in
     if truthy (opt_prop d ''stats'') then s1\<lparr>stats := opt_prop d ''stats''\<rparr> else s1)"

definition fetchConfig :: tg_action where
  "fetchConfig = Get (\<lambda>c. andthen (quietly (bind (ask (tg_get c ''config'')) (\<lambda>(ok, d).
       bind (lift_res (get_prop d ''config'')) (\<lambda>cfg.
         set_state (\<lambda>s. take_status d (if truthy cfg then take_config d s else s))))))
     (set_state (\<lambda>s. s\<lparr>loading := False\<rparr>)))"

text \<open>Every five seconds while the engine runs.\<close>

definition poll :: tg_action where
  "poll = Get (\<lambda>c. if polling c then quietly (bind (ask (tg_get c ''status'')) (\<lambda>(ok, d).
       bind (lift_res (get_prop d ''running'')) (\<lambda>_. set_state (take_status d)))) else Done ())"

definition savedConfig :: "telegram_page \<Rightarrow> jsv" where
  "savedConfig s = spread2 (config s) (JObj
     [(''app_id'', JNum (case parse_int (js_string (opt_prop (config s) ''app_id'')) of None \<Rightarrow> 0 | Some n \<Rightarrow> of_int n)),
      (''phone_number'', phone s)])"

definition is_success :: "jsv \<Rightarrow> bool" where
  "is_success d \<longleftrightarrow> opt_prop d ''status'' = JStr ''success''"

definition error_of :: "jsv \<Rightarrow> string" where
  "error_of d = js_string (opt_prop d ''error'')"

definition saveConfig :: tg_action where
  "saveConfig = Get (\<lambda>c. Set (\<lambda>s. s\<lparr>saving := True, saveMsg := []\<rparr>)
     (andthen (try_catch
        (bind (ask (tg_post c ''config'' (Some (savedConfig c)))) (\<lambda>(ok, d).
          bind (lift_res (get_prop d ''status'')) (\<lambda>_.
          Set (\<lambda>s. s\<lparr>saveMsg := (if is_success d then good ''Configuration saved!'' else bad (error_of d)),
                 save_timers := Suc (save_timers s)\<rparr>)
            (await_task fetchConfig))))
        (\<lambda>e. set_state (\<lambda>s. s\<lparr>saveMsg := bad e\<rparr>)))
      (set_state (\<lambda>s. s\<lparr>saving := False\<rparr>))))"

definition save_msg_due :: "telegram_page \<Rightarrow> telegram_page" where
  "save_msg_due s = (if save_timers s = 0 then s else s\<lparr>saveMsg := [], save_timers := save_timers s - 1\<rparr>)"

definition testConnection :: tg_action where
  "testConnection = Get (\<lambda>c. Set (\<lambda>s. s\<lparr>testing := True, testResult := JNull\<rparr>)
     (andthen (try_catch
        (bind (ask (tg_post c ''test'' (Some (JObj [(''bot_token'', opt_prop (config c) ''bot_token''),
            (''auth_type'', opt_prop (config c) ''auth_type'')]))))
          (\<lambda>(ok, d). set_state (\<lambda>s. s\<lparr>testResult := d\<rparr>)))
        (\<lambda>e. set_state (\<lambda>s. s\<lparr>testResult := JObj [(''success'', JBool False), (''error'', JStr e)]\<rparr>)))
      (set_state (\<lambda>s. s\<lparr>testing := False\<rparr>))))"

definition needs_verification :: string where
  "needs_verification = ''Start aborted '' @ [CHR 0xE2, CHR 0x80, CHR 0x94] @
     '' this user account has no verified session yet. Enter your phone number below and complete verification; the engine will start automatically afterwards.''"

definition toggleBot :: tg_action where
  "toggleBot = Get (\<lambda>c. Set (\<lambda>s. s\<lparr>starting := True\<rparr>)
     (andthen (try_catch
        (bind (ask (tg_post c (if running c then ''stop'' else ''start'') None)) (\<lambda>(ok, d).
          bind (lift_res (get_prop d ''status'')) (\<lambda>_.
          if is_success d then Set (set_running (\<not> running c)) (await_task fetchConfig)
          else if \<not> running c \<and> opt_prop d ''code'' = JStr ''user_auth_required'' then
            set_state (\<lambda>s. s\<lparr>authStep := Phone_step, authError := JStr needs_verification, saveMsg := []\<rparr>)
          else set_state (\<lambda>s. s\<lparr>saveMsg := bad (error_of d)\<rparr>))))
        (\<lambda>e. set_state (\<lambda>s. s\<lparr>saveMsg := bad e\<rparr>)))
      (set_state (\<lambda>s. s\<lparr>starting := False\<rparr>))))"

definition toggle_disabled :: "telegram_page \<Rightarrow> bool" where
  "toggle_disabled s \<longleftrightarrow> starting s \<or> (\<not> running s \<and> opt_prop (config s) ''auth_type'' = JStr ''bot'' \<and>
     \<not> truthy (opt_prop (config s) ''bot_token''))"

section \<open>The wizard\<close>

definition in_wizard :: "tg_action \<Rightarrow> tg_action" where
  "in_wizard t = Set (\<lambda>s. s\<lparr>authLoading := True, authError := JStr []\<rparr>)
     (finally_do (try_catch t (\<lambda>e. set_state (\<lambda>s. s\<lparr>authError := JStr e\<rparr>))) (\<lambda>s. s\<lparr>authLoading := False\<rparr>))"

definition refused :: "jsv \<Rightarrow> string \<Rightarrow> tg_action" where
  "refused d other = bind (lift_res (get_prop d ''error'')) (\<lambda>e. set_state (\<lambda>s. s\<lparr>authError := js_or e (JStr other)\<rparr>))"

definition sendAuthCode :: tg_action where
  "sendAuthCode = Get (\<lambda>c. in_wizard
     (bind (bind (page_fetch (tg_post c ''config'' (Some (savedConfig c)))) (\<lambda>(ok, b).
         if ok then Done () else bind (read_json b) (\<lambda>d. bind (lift_res (get_prop d ''error'')) (\<lambda>e.
           Fail (js_string (js_or e (JStr ''Failed to save configuration before authentication'')))))))
      (\<lambda>_. bind (ask (tg_post c ''auth/send-code'' (Some (JObj [(''phone_number'', phone c)])))) (\<lambda>(ok, d).
         if ok then set_state (\<lambda>s. s\<lparr>authStep := Code_step\<rparr>) else refused d ''Failed to send verification code''))))"

definition verified :: tg_action where
  "verified = Set (\<lambda>s. set_running True (s\<lparr>authStep := Success_step\<rparr>)) (await_task fetchConfig)"

definition verifyAuthCode :: tg_action where
  "verifyAuthCode = Get (\<lambda>c. in_wizard
     (bind (ask (tg_post c ''auth/verify-code'' (Some (JObj [(''code'', JStr (code c))])))) (\<lambda>(ok, d).
        if ok then bind (lift_res (get_prop d ''status'')) (\<lambda>st.
          if st = JStr ''2fa_required'' then set_state (\<lambda>s. s\<lparr>authStep := Twofa_step\<rparr>) else verified)
        else refused d ''Invalid code'')))"

definition verifyAuthPassword :: tg_action where
  "verifyAuthPassword = Get (\<lambda>c. in_wizard
     (bind (ask (tg_post c ''auth/verify-password'' (Some (JObj [(''password'', JStr (password c))])))) (\<lambda>(ok, d).
        if ok then verified else refused d ''Invalid password'')))"

definition resetSession :: "telegram_page \<Rightarrow> telegram_page" where
  "resetSession s = s\<lparr>authStep := Phone_step, code := [], password := [], authError := JStr []\<rparr>"

section \<open>Avatar and broadcast\<close>

definition handleAvatarUpload :: tg_action where
  "handleAvatarUpload = Get (\<lambda>c. if avatarFile c = None then Done () else
     Set (\<lambda>s. s\<lparr>uploadingAvatar := True, avatarMsg := []\<rparr>)
     (andthen (try_catch
        (bind (ask (http_send ''POST'' ''/api/telegram/set-avatar'' [auth_header (token c)] None)) (\<lambda>(ok, d).
          if ok then set_state (\<lambda>s. s\<lparr>avatarMsg := good ''Bot avatar updated successfully!'', avatarFile := None\<rparr>)
          else bind (lift_res (get_prop d ''error'')) (\<lambda>e. set_state (\<lambda>s. s\<lparr>avatarMsg := bad (js_string e)\<rparr>))))
        (\<lambda>e. set_state (\<lambda>s. s\<lparr>avatarMsg := bad e\<rparr>)))
      (set_state (\<lambda>s. s\<lparr>uploadingAvatar := False\<rparr>))))"

definition broadcast_text :: "jsv \<Rightarrow> string" where
  "broadcast_text n = good (''Broadcast initiated to '' @ js_string n @ '' active subscriber(s).'')"

definition handleBroadcast :: tg_action where
  "handleBroadcast = Get (\<lambda>c. if trim (broadcastMsg c) = [] then Done () else
     Set (\<lambda>s. s\<lparr>broadcasting := True, broadcastResult := []\<rparr>)
     (andthen (try_catch
        (bind (ask (tg_post c ''broadcast'' (Some (JObj [(''message'', JStr (broadcastMsg c))])))) (\<lambda>(ok, d).
          if ok then bind (lift_res (get_prop d ''subscribers_count'')) (\<lambda>n. set_state (\<lambda>s. s\<lparr>
              broadcastResult := broadcast_text n, broadcastMsg := [], broadcast_timers := Suc (broadcast_timers s)\<rparr>))
          else bind (lift_res (get_prop d ''error'')) (\<lambda>e. set_state (\<lambda>s. s\<lparr>broadcastResult := bad (js_string e)\<rparr>))))
        (\<lambda>e. set_state (\<lambda>s. s\<lparr>broadcastResult := bad e\<rparr>)))
      (set_state (\<lambda>s. s\<lparr>broadcasting := False\<rparr>))))"

definition broadcast_due :: "telegram_page \<Rightarrow> telegram_page" where
  "broadcast_due s = (if broadcast_timers s = 0 then s else s\<lparr>broadcastResult := [], broadcast_timers := broadcast_timers s - 1\<rparr>)"

definition broadcast_disabled :: "telegram_page \<Rightarrow> bool" where
  "broadcast_disabled s \<longleftrightarrow> broadcasting s \<or> trim (broadcastMsg s) = [] \<or> \<not> running s"

section \<open>Fields and texts\<close>

definition set_field :: "string \<Rightarrow> jsv \<Rightarrow> telegram_page \<Rightarrow> telegram_page" where
  "set_field k v s = s\<lparr>config := spread2 (config s) (JObj [(k, v)])\<rparr>"

definition set_auth_type :: "string \<Rightarrow> telegram_page \<Rightarrow> telegram_page" where
  "set_auth_type t = set_field ''auth_type'' (JStr t)"

text \<open>\<open>parseInt(v) || d\<close>.\<close>

definition number_or :: "int \<Rightarrow> string \<Rightarrow> jsv" where
  "number_or d v = JNum (of_int (case parse_int v of None \<Rightarrow> d | Some n \<Rightarrow> if n = 0 then d else n))"

definition type_app_id :: "string \<Rightarrow> telegram_page \<Rightarrow> telegram_page" where
  "type_app_id v = set_field ''app_id'' (number_or 0 v)"

definition type_interval :: "string \<Rightarrow> telegram_page \<Rightarrow> telegram_page" where
  "type_interval v = set_field ''polling_interval'' (number_or 10 v)"

definition type_file_size :: "string \<Rightarrow> telegram_page \<Rightarrow> telegram_page" where
  "type_file_size v = set_field ''max_file_size'' (number_or 50 v)"

definition flip_option :: "string \<Rightarrow> telegram_page \<Rightarrow> telegram_page" where
  "flip_option k s = set_field k (JBool (\<not> truthy (opt_prop (config s) k))) s"

definition formatUptime :: "nat \<Rightarrow> string" where
  "formatUptime s = (let d = s div 86400; h = (s mod 86400) div 3600; m = (s mod 3600) div 60 in
     join_with '' '' ((if d = 0 then [] else [show_nat d @ ''d'']) @ (if h = 0 then [] else [show_nat h @ ''h'']) @ [show_nat m @ ''m'']))"

chapter \<open>What holds of it\<close>

text \<open>
  Properties of the Telegram page: what each answer does to the wizard, and that reloading the settings loses what was typed.
\<close>

section \<open>Reloading the settings\<close>

text \<open>What the answer to a request for the settings writes.\<close>

definition reloaded :: "answer \<Rightarrow> telegram_page \<Rightarrow> telegram_page" where
  "reloaded q s =
     (case q of Replied (Response ok (JsonOk d)) \<Rightarrow>
        if nullish d then s else take_status d (if truthy (opt_prop d ''config'') then take_config d s else s)
      | _ \<Rightarrow> s)\<lparr>loading := False\<rparr>"

lemma get_prop_cases: "get_prop d k = (if nullish d then get_prop d k else Inr (opt_prop d k))"
  by (cases d) (auto simp: opt_prop_def)

lemma get_prop_nullish: "nullish d \<Longrightarrow> \<exists>e. get_prop d k = Inl e"
  by (cases d) auto

lemma get_prop_some: "\<not> nullish d \<Longrightarrow> get_prop d k = Inr (opt_prop d k)"
  using get_prop_cases by metis

lemma run_fetchConfig: "run fetchConfig (q # rs) s = ([Http (tg_get s ''config'')], Returned (), reloaded q s, rs)"
proof (cases q)
  case (Replied r)
  show ?thesis
  proof (cases r)
    case (Rejected e)
    with Replied show ?thesis
      by (simp add: fetchConfig_def quietly_def ask_def page_fetch_def andthen_def reloaded_def)
  next
    case (Response ok b)
    show ?thesis
    proof (cases b)
      case (JsonBad e)
      with Replied Response show ?thesis
        by (simp add: fetchConfig_def quietly_def ask_def page_fetch_def andthen_def read_json_def reloaded_def)
    next
      case (JsonOk d)
      show ?thesis
      proof (cases "nullish d")
        case True
        then obtain e where "get_prop d ''config'' = Inl e" using get_prop_nullish by blast
        with Replied Response JsonOk True show ?thesis
          by (simp add: fetchConfig_def quietly_def ask_def page_fetch_def andthen_def read_json_def lift_res_def reloaded_def)
      next
        case False
        then have "get_prop d ''config'' = Inr (opt_prop d ''config'')" by (rule get_prop_some)
        with Replied Response JsonOk False show ?thesis
          by (simp add: fetchConfig_def quietly_def ask_def page_fetch_def andthen_def read_json_def lift_res_def reloaded_def)
      qed
    qed
  qed
qed (simp_all add: fetchConfig_def quietly_def ask_def page_fetch_def andthen_def reloaded_def)

lemma reloaded_wizard:
  "authLoading (reloaded q s) = authLoading s" "authError (reloaded q s) = authError s"
  "authStep (reloaded q s) = authStep s \<or> authStep (reloaded q s) = Success_step"
  "authStep s = Success_step \<Longrightarrow> authStep (reloaded q s) = Success_step"
  by (auto simp: reloaded_def take_status_def set_running_def take_config_def Let_def
      split: answer.splits reply.splits body.splits)

text \<open>The settings that a reload shows are those of the server, whatever was in the form.\<close>

lemma reload_overwrites_form:
  assumes "truthy (opt_prop d ''config'')"
  shows "config (reloaded (Replied (Response ok (JsonOk d))) s) = spread2 defaultConfig (opt_prop d ''config'')"
proof -
  have "\<not> nullish d" using assms by (cases d) (auto simp: opt_prop_def)
  then show ?thesis
    using assms by (simp add: reloaded_def take_status_def set_running_def take_config_def Let_def)
qed

section \<open>The wizard\<close>

text \<open>What \<open>ask\<close> makes of an answer, and the answers that mean success.\<close>

definition got :: "answer \<Rightarrow> (bool \<times> jsv) res" where
  "got r = (case r of Replied (Rejected e) \<Rightarrow> Inl e
     | Replied (Response ok (JsonOk d)) \<Rightarrow> Inr (ok, d)
     | Replied (Response ok (JsonBad e)) \<Rightarrow> Inl e | _ \<Rightarrow> Inl [])"

definition stored :: "answer \<Rightarrow> bool" where
  "stored r = (case r of Replied (Response True b) \<Rightarrow> True | _ \<Rightarrow> False)"

definition accepted :: "answer \<Rightarrow> bool" where
  "accepted r = (case got r of Inr (True, d) \<Rightarrow> True | _ \<Rightarrow> False)"

text \<open>The answer to a code: whether a password is wanted too, if the code was accepted.\<close>

definition code_verdict :: "answer \<Rightarrow> bool option" where
  "code_verdict r = (case got r of Inr (True, d) \<Rightarrow> if nullish d then None else Some (opt_prop d ''status'' = JStr ''2fa_required'')
     | _ \<Rightarrow> None)"

lemma run_ask: "run (ask rq) (r # rs) s = ([Http rq], (case got r of Inl e \<Rightarrow> Threw e | Inr p \<Rightarrow> Returned p), s, rs)"
  by (auto simp: ask_def page_fetch_def read_json_def got_def split: answer.splits reply.splits body.splits)

lemma run_in_wizard:
  "run (in_wizard t) rs s = (case run t rs (s\<lparr>authLoading := True, authError := JStr []\<rparr>) of
      (qs, Returned a, s', rest) \<Rightarrow> (qs, Returned (), s'\<lparr>authLoading := False\<rparr>, rest)
    | (qs, Threw e, s', rest) \<Rightarrow> (qs, Returned (), s'\<lparr>authError := JStr e, authLoading := False\<rparr>, rest)
    | (qs, Waiting, s', rest) \<Rightarrow> (qs, Waiting, s', rest))"
  by (simp add: in_wizard_def run_finally run_try_catch split: prod.splits outcome.splits)

lemma run_refused:
  "run (refused d m) rs s = ([], (case get_prop d ''error'' of Inl e \<Rightarrow> (Threw e, s, rs)
     | Inr v \<Rightarrow> (Returned (), s\<lparr>authError := js_or v (JStr m)\<rparr>, rs)))"
  by (simp add: refused_def lift_res_def split: sum.splits)

lemma run_await: "run (await_task t) rs s = run t rs s"
  by (simp add: await_task_def run_try_catch run_bind split: prod.splits outcome.splits)

lemma run_verified:
  "run verified (q # rs) s = ([Http (tg_get s ''config'')], Returned (),
     reloaded q (set_running True (s\<lparr>authStep := Success_step\<rparr>)), rs)"
  by (simp add: verified_def run_await run_fetchConfig tg_get_def headers_def set_running_def)

lemma verify_code_result:
  "authStep (final verifyAuthCode [r, q] s) = (case code_verdict r of None \<Rightarrow> authStep s
     | Some twofa \<Rightarrow> if twofa then Twofa_step else Success_step) \<and> \<not> authLoading (final verifyAuthCode [r, q] s)"
proof (cases "got r")
  case (Inl e)
  then show ?thesis by (simp add: final_def verifyAuthCode_def run_in_wizard run_bind run_ask code_verdict_def)
next
  case (Inr p)
  obtain ok d where p: "p = (ok, d)" by (cases p)
  show ?thesis
  proof (cases ok)
    case True
    show ?thesis
    proof (cases "nullish d")
      case True
      then obtain e where "get_prop d ''status'' = Inl e" using get_prop_nullish by blast
      with \<open>ok\<close> True Inr p show ?thesis
        by (simp add: final_def verifyAuthCode_def run_in_wizard run_bind run_ask code_verdict_def lift_res_def)
    next
      case False
      then have "get_prop d ''status'' = Inr (opt_prop d ''status'')" by (rule get_prop_some)
      with \<open>ok\<close> False Inr p show ?thesis
        by (simp add: final_def verifyAuthCode_def run_in_wizard run_bind run_ask code_verdict_def lift_res_def run_verified
            reloaded_wizard set_running_def)
    qed
  next
    case False
    with Inr p show ?thesis
      by (simp add: final_def verifyAuthCode_def run_in_wizard run_bind run_ask code_verdict_def run_refused split: sum.splits)
  qed
qed

lemma verify_password_result:
  "authStep (final verifyAuthPassword [r, q] s) = (if accepted r then Success_step else authStep s) \<and>
   \<not> authLoading (final verifyAuthPassword [r, q] s)"
proof (cases "got r")
  case (Inl e)
  then show ?thesis by (simp add: final_def verifyAuthPassword_def run_in_wizard run_bind run_ask accepted_def)
next
  case (Inr p)
  obtain ok d where p: "p = (ok, d)" by (cases p)
  then show ?thesis
    using Inr by (cases ok) (simp_all add: final_def verifyAuthPassword_def run_in_wizard run_bind run_ask accepted_def
        run_verified reloaded_wizard set_running_def run_refused split: sum.splits)
qed

lemma send_code_result:
  "authStep (final sendAuthCode [r1, r2] s) = (if stored r1 \<and> accepted r2 then Code_step else authStep s) \<and>
   \<not> authLoading (final sendAuthCode [r1, r2] s)"
proof (cases "stored r1")
  case True
  then obtain b where r1: "r1 = Replied (Response True b)" by (auto simp: stored_def split: answer.splits reply.splits bool.splits)
  show ?thesis
  proof (cases "got r2")
    case (Inl e)
    then show ?thesis
      by (simp add: final_def sendAuthCode_def run_in_wizard run_bind run_ask accepted_def r1 stored_def page_fetch_def)
  next
    case (Inr p)
    obtain ok d where p: "p = (ok, d)" by (cases p)
    then show ?thesis
      using Inr by (cases ok) (simp_all add: final_def sendAuthCode_def run_in_wizard run_bind run_ask accepted_def r1
          stored_def page_fetch_def run_refused split: sum.splits)
  qed
next
  case False
  then show ?thesis
    by (auto simp: final_def sendAuthCode_def run_in_wizard run_bind stored_def page_fetch_def read_json_def lift_res_def
        split: answer.splits reply.splits body.splits sum.splits bool.splits)
qed


section \<open>What reloading does to the form\<close>

text \<open>A save that the server refuses reloads the stored settings over the form; so does starting the engine.\<close>

lemma failed_save_discards_edits:
  assumes "\<not> nullish d" and "truthy (opt_prop d' ''config'')"
  shows "config (final saveConfig [Replied (Response False (JsonOk d)), Replied (Response True (JsonOk d'))] s) =
    spread2 defaultConfig (opt_prop d' ''config'')"
proof -
  let ?r = "Replied (Response False (JsonOk d))" and ?q = "Replied (Response True (JsonOk d'))"
  have "got ?r = Inr (False, d)" by (simp add: got_def)
  then have "config (final saveConfig [?r, ?q] s) = config (reloaded ?q (s\<lparr>saving := True, saveMsg := (if is_success d
      then good ''Configuration saved!'' else bad (error_of d)), save_timers := Suc (save_timers s)\<rparr>))"
    by (simp add: final_def saveConfig_def andthen_def run_bind run_try_catch run_ask run_await run_fetchConfig lift_res_def
        get_prop_some [OF assms(1)])
  then show ?thesis using reload_overwrites_form [OF assms(2)] by simp
qed

lemma starting_discards_edits:
  assumes "is_success d" and "truthy (opt_prop d' ''config'')"
  shows "config (final toggleBot [Replied (Response True (JsonOk d)), Replied (Response True (JsonOk d'))] s) =
    spread2 defaultConfig (opt_prop d' ''config'')"
proof -
  let ?r = "Replied (Response True (JsonOk d))" and ?q = "Replied (Response True (JsonOk d'))"
  have "\<not> nullish d" using assms(1) by (cases d) (auto simp: is_success_def opt_prop_def)
  moreover have "got ?r = Inr (True, d)" by (simp add: got_def)
  ultimately have "config (final toggleBot [?r, ?q] s) = config (reloaded ?q (set_running (\<not> running s) (s\<lparr>starting := True\<rparr>)))"
    using assms(1) by (simp add: final_def toggleBot_def andthen_def run_bind run_try_catch run_ask run_await run_fetchConfig
        lift_res_def get_prop_some)
  then show ?thesis using reload_overwrites_form [OF assms(2)] by simp
qed

end
