(* ===== verification/Configurator_Page.thy ===== *)
theory Configurator_Page
  imports JSON_Places Page
begin

text \<open>
  The core configurator of both applications (\<open>V2RayCorePage.tsx\<close>): one configuration as JSON and as a form of inbounds,
  outbounds, DNS servers, routing and log. Every edit of the form compiles the form into the JSON; the tab of the form reads
  the JSON. \<open>srv\<close> tells the server's page from the client's.
\<close>

section \<open>State\<close>

record gui_inbound =
  ib_port :: jsv
  ib_protocol :: jsv
  ib_listen :: jsv
  ib_tag :: jsv
  ib_uuid :: jsv

record gui_outbound =
  ob_protocol :: jsv
  ob_tag :: jsv
  ob_address :: jsv
  ob_port :: jsv
  ob_uuid :: jsv

datatype cfg_tab = Gui_tab | Raw_tab

datatype cfg_message = Good_news string | Bad_news jsv

record cfg_page =
  selectedCore :: jsv
  rawConfigJson :: jsv
  geofilesUpdate :: bool
  loggingLevel :: jsv
  maxConnections :: jsv
  bufferSize :: jsv
  activeTab :: cfg_tab
  guiAccessLog :: jsv
  guiErrorLog :: jsv
  guiDnsServers :: string
  guiDomainStrategy :: jsv
  guiInbounds :: "gui_inbound list"
  guiOutbounds :: "gui_outbound list"
  isLoading :: bool
  message :: "cfg_message option"
  help_shown :: "(string \<times> string) option"
  local_store :: storage

type_synonym cfg_action = "(cfg_page, unit) page_action"

definition first_inbound :: "bool \<Rightarrow> gui_inbound" where
  "first_inbound srv = (if srv
     then \<lparr>ib_port = JNum 443, ib_protocol = JStr ''vless'', ib_listen = JStr ''0.0.0.0'', ib_tag = JStr ''vless-in'',
       ib_uuid = JUndef\<rparr>
     else \<lparr>ib_port = JNum 10808, ib_protocol = JStr ''socks'', ib_listen = JStr ''127.0.0.1'', ib_tag = JStr ''socks-in'',
       ib_uuid = JUndef\<rparr>)"

definition first_outbound :: gui_outbound where
  "first_outbound = \<lparr>ob_protocol = JStr ''freedom'', ob_tag = JStr ''direct'', ob_address = JStr [], ob_port = JStr [],
     ob_uuid = JStr []\<rparr>"

definition log_level :: "bool \<Rightarrow> string" where
  "log_level srv = (if srv then ''info'' else ''warning'')"

definition init_cfg :: "bool \<Rightarrow> storage \<Rightarrow> cfg_page" where
  "init_cfg srv st = \<lparr>selectedCore = JStr ''xray'',
     rawConfigJson = JStr (json_text ''  '' (JObj [(''log'', JObj [(''loglevel'', JStr (log_level srv))])])),
     geofilesUpdate = True, loggingLevel = JStr (log_level srv), maxConnections = JNum (if srv then 4096 else 1024),
     bufferSize = JNum (if srv then 1024 else 512), activeTab = Gui_tab, guiAccessLog = JStr [], guiErrorLog = JStr [],
     guiDnsServers = ''8.8.8.8'' @ newline # ''1.1.1.1'', guiDomainStrategy = JStr ''IPIfNonMatch'',
     guiInbounds = [first_inbound srv], guiOutbounds = [first_outbound], isLoading = False, message = None, help_shown = None,
     local_store = st\<rparr>"

section \<open>From the form to JSON\<close>

definition or_undefined :: "jsv \<Rightarrow> jsv" where
  "or_undefined v = js_or v JUndef"

definition log_json :: "cfg_page \<Rightarrow> jsv" where
  "log_json s = JObj [(''loglevel'', loggingLevel s), (''access'', or_undefined (guiAccessLog s)),
     (''error'', or_undefined (guiErrorLog s))]"

definition dns_json :: "cfg_page \<Rightarrow> jsv" where
  "dns_json s = JObj [(''servers'', JArr (map JStr (clean_parts newline (guiDnsServers s))))]"

definition kept_rules :: "jsv \<Rightarrow> jsv" where
  "kept_rules base = js_or (opt_prop (opt_prop base ''routing'') ''rules'') (JArr [])"

definition routing_json :: "cfg_page \<Rightarrow> jsv \<Rightarrow> jsv" where
  "routing_json s base = JObj [(''domainStrategy'', guiDomainStrategy s), (''rules'', kept_rules base)]"

definition socks_settings :: jsv where
  "socks_settings = JObj [(''auth'', JStr ''noauth''), (''udp'', JBool True)]"

definition inbound_head :: "rat \<Rightarrow> string \<Rightarrow> gui_inbound \<Rightarrow> obj" where
  "inbound_head p l i = [(''port'', js_or (to_number (ib_port i)) (JNum p)), (''protocol'', ib_protocol i),
     (''listen'', js_or (ib_listen i) (JStr l)), (''tag'', or_undefined (ib_tag i))]"

definition client_inbound :: "gui_inbound \<Rightarrow> jsv" where
  "client_inbound i = JObj (inbound_head 10808 ''127.0.0.1'' i @
     [(''settings'', if ib_protocol i = JStr ''socks'' then socks_settings else JObj [])])"

definition vless_settings :: "jsv \<Rightarrow> jsv" where
  "vless_settings u = JObj [(''clients'', JArr (if truthy u
       then [JObj [(''id'', u), (''flow'', JStr ''xtls-rprx-vision'')]] else [])), (''decryption'', JStr ''none'')]"

definition reality_stream :: jsv where
  "reality_stream = JObj [(''network'', JStr ''tcp''), (''security'', JStr ''reality''), (''realitySettings'', JObj
     [(''show'', JBool False), (''dest'', JStr ''yahoo.com:443''), (''xver'', JNum 0),
      (''serverNames'', JArr [JStr ''yahoo.com'']), (''privateKey'', JStr []), (''shortIds'', JArr [JStr []])])]"

definition server_inbound :: "gui_inbound \<Rightarrow> jsv" where
  "server_inbound i = JObj (inbound_head 443 ''0.0.0.0'' i @
     (if ib_protocol i = JStr ''vless'' then [(''settings'', vless_settings (ib_uuid i)), (''streamSettings'', reality_stream)]
      else if ib_protocol i = JStr ''socks'' then [(''settings'', socks_settings)] else [(''settings'', JObj [])]))"

definition inbound_json :: "bool \<Rightarrow> gui_inbound \<Rightarrow> jsv" where
  "inbound_json srv = (if srv then server_inbound else client_inbound)"

definition user_json :: "bool \<Rightarrow> jsv \<Rightarrow> jsv" where
  "user_json srv u = JObj ((''id'', u) # (if srv then [] else [(''security'', JStr ''auto'')]))"

definition outbound_settings :: "bool \<Rightarrow> gui_outbound \<Rightarrow> jsv" where
  "outbound_settings srv i =
     (if ob_protocol i \<noteq> JStr ''freedom'' \<and> ob_protocol i \<noteq> JStr ''blackhole''
      then JObj [(''servers'', JArr [JObj
        [(''address'', js_or (ob_address i) (JStr ''127.0.0.1'')), (''port'', js_or (to_number (ob_port i)) (JNum 443)),
         (''users'', if truthy (ob_uuid i) then JArr [user_json srv (ob_uuid i)] else JUndef)]])]
      else JObj [])"

definition outbound_json :: "bool \<Rightarrow> gui_outbound \<Rightarrow> jsv" where
  "outbound_json srv i = JObj [(''protocol'', ob_protocol i), (''tag'', ob_tag i), (''settings'', outbound_settings srv i)]"

text \<open>The parts that the form writes into the configuration, in their order; a text that does not parse counts as no
  configuration. \<open>null\<close>, a number, a truth value or a string throws and leaves the text.\<close>

definition gui_parts :: "bool \<Rightarrow> cfg_page \<Rightarrow> jsv \<Rightarrow> obj" where
  "gui_parts srv s base =
     [(''log'', log_json s), (''dns'', dns_json s), (''routing'', routing_json s base),
      (''inbounds'', JArr (map (inbound_json srv) (guiInbounds s))),
      (''outbounds'', JArr (map (outbound_json srv) (guiOutbounds s)))]"

definition base_of :: "jsv \<Rightarrow> jsv" where
  "base_of raw = (case json_parse (js_string raw) of None \<Rightarrow> JObj [] | Some v \<Rightarrow> v)"

fun put_props :: "obj \<Rightarrow> jsv \<Rightarrow> jsv res" where
  "put_props [] v = Inr v"
| "put_props ((k, x) # ps) v = (case put_prop k x v of Inl e \<Rightarrow> Inl e | Inr w \<Rightarrow> put_props ps w)"

definition compiled :: "bool \<Rightarrow> cfg_page \<Rightarrow> jsv" where
  "compiled srv s = (let base = base_of (rawConfigJson s) in
     case put_props (gui_parts srv s base) base of Inl e \<Rightarrow> rawConfigJson s | Inr v \<Rightarrow> JStr (json_text ''  '' v))"

definition compileGuiToJSON :: "bool \<Rightarrow> cfg_page \<Rightarrow> cfg_page" where
  "compileGuiToJSON srv s = s\<lparr>rawConfigJson := compiled srv s\<rparr>"

section \<open>From JSON to the form\<close>

definition take_log :: "jsv \<Rightarrow> cfg_page \<Rightarrow> cfg_page" where
  "take_log lg s = (if truthy lg
     then s\<lparr>loggingLevel := if_truthy lg ''loglevel'' (loggingLevel s), guiAccessLog := if_truthy lg ''access'' (guiAccessLog s),
       guiErrorLog := if_truthy lg ''error'' (guiErrorLog s)\<rparr>
     else s)"

definition joined :: "jsv list \<Rightarrow> string" where
  "joined xs = join_with [newline] (map (\<lambda>x. if nullish x then [] else js_string x) xs)"

definition take_dns :: "jsv \<Rightarrow> cfg_page \<Rightarrow> cfg_page" where
  "take_dns dns s = (case opt_prop dns ''servers'' of JArr xs \<Rightarrow> s\<lparr>guiDnsServers := joined xs\<rparr> | _ \<Rightarrow> s)"

definition take_routing :: "jsv \<Rightarrow> cfg_page \<Rightarrow> cfg_page" where
  "take_routing r s = s\<lparr>guiDomainStrategy := if_truthy r ''domainStrategy'' (guiDomainStrategy s)\<rparr>"

definition at_zero :: "jsv \<Rightarrow> jsv" where
  "at_zero v = opt_index v ''0''"

definition read_inbound :: "bool \<Rightarrow> jsv \<Rightarrow> gui_inbound res" where
  "read_inbound srv v = (case get_prop v ''port'' of Inl e \<Rightarrow> Inl e
     | Inr p \<Rightarrow> Inr \<lparr>ib_port = js_or p (JNum (if srv then 443 else 10808)),
         ib_protocol = js_or (opt_prop v ''protocol'') (JStr (if srv then ''vless'' else ''socks'')),
         ib_listen = js_or (opt_prop v ''listen'') (JStr (if srv then ''0.0.0.0'' else ''127.0.0.1'')),
         ib_tag = js_or (opt_prop v ''tag'') (JStr []),
         ib_uuid = (if srv then js_or (opt_prop (at_zero (opt_prop (opt_prop v ''settings'') ''clients'')) ''id'') (JStr [])
           else JUndef)\<rparr>)"

definition read_outbound :: "jsv \<Rightarrow> gui_outbound res" where
  "read_outbound v = (case get_prop v ''settings'' of Inl e \<Rightarrow> Inl e
     | Inr st \<Rightarrow> (let server = at_zero (opt_prop st ''servers''); user = at_zero (opt_prop server ''users'') in
         Inr \<lparr>ob_protocol = js_or (opt_prop v ''protocol'') (JStr ''freedom''),
           ob_tag = js_or (opt_prop v ''tag'') (JStr ''direct''),
           ob_address = js_or (opt_prop server ''address'') (JStr []), ob_port = js_or (opt_prop server ''port'') (JStr []),
           ob_uuid = js_or (js_or (opt_prop user ''id'') (opt_prop user ''uuid'')) (JStr [])\<rparr>))"

definition take_outbounds :: "jsv \<Rightarrow> cfg_page \<Rightarrow> cfg_page" where
  "take_outbounds v s = (case v of JArr xs \<Rightarrow>
       (case map_res read_outbound xs of Inl e \<Rightarrow> s | Inr obs \<Rightarrow> s\<lparr>guiOutbounds := obs\<rparr>) | _ \<Rightarrow> s)"

text \<open>An inbound that is \<open>null\<close> ends the reading, with what was read before it.\<close>

definition take_bounds :: "bool \<Rightarrow> jsv \<Rightarrow> cfg_page \<Rightarrow> cfg_page" where
  "take_bounds srv cfg s = (case opt_prop cfg ''inbounds'' of JArr xs \<Rightarrow>
       (case map_res (read_inbound srv) xs of Inl e \<Rightarrow> s
        | Inr ibs \<Rightarrow> take_outbounds (opt_prop cfg ''outbounds'') (s\<lparr>guiInbounds := ibs\<rparr>))
     | _ \<Rightarrow> take_outbounds (opt_prop cfg ''outbounds'') s)"

definition take_config :: "bool \<Rightarrow> jsv \<Rightarrow> cfg_page \<Rightarrow> cfg_page" where
  "take_config srv cfg s =
     (if nullish cfg then s
      else take_bounds srv cfg (take_routing (opt_prop cfg ''routing'') (take_dns (opt_prop cfg ''dns'')
        (take_log (opt_prop cfg ''log'') s))))"

definition syncRawToGui :: "bool \<Rightarrow> jsv \<Rightarrow> cfg_page \<Rightarrow> cfg_page" where
  "syncRawToGui srv raw s = (case json_parse (js_string raw) of None \<Rightarrow> s | Some cfg \<Rightarrow> take_config srv cfg s)"

section \<open>Tabs and inputs\<close>

definition open_gui :: "bool \<Rightarrow> cfg_page \<Rightarrow> cfg_page" where
  "open_gui srv s = (syncRawToGui srv (rawConfigJson s) s)\<lparr>activeTab := Gui_tab\<rparr>"

definition open_raw :: "bool \<Rightarrow> cfg_page \<Rightarrow> cfg_page" where
  "open_raw srv s = (compileGuiToJSON srv s)\<lparr>activeTab := Raw_tab\<rparr>"

datatype inbound_edit = Ib_port string | Ib_protocol string | Ib_listen string | Ib_tag string | Ib_uuid string

fun edit_inbound :: "inbound_edit \<Rightarrow> gui_inbound \<Rightarrow> gui_inbound" where
  "edit_inbound (Ib_port v) i = i\<lparr>ib_port := str_number v\<rparr>"
| "edit_inbound (Ib_protocol v) i = i\<lparr>ib_protocol := JStr v\<rparr>"
| "edit_inbound (Ib_listen v) i = i\<lparr>ib_listen := JStr v\<rparr>"
| "edit_inbound (Ib_tag v) i = i\<lparr>ib_tag := JStr v\<rparr>"
| "edit_inbound (Ib_uuid v) i = i\<lparr>ib_uuid := JStr v\<rparr>"

datatype outbound_edit = Ob_protocol string | Ob_tag string | Ob_address string | Ob_port string | Ob_uuid string

fun edit_outbound :: "outbound_edit \<Rightarrow> gui_outbound \<Rightarrow> gui_outbound" where
  "edit_outbound (Ob_protocol v) i = i\<lparr>ob_protocol := JStr v\<rparr>"
| "edit_outbound (Ob_tag v) i = i\<lparr>ob_tag := JStr v\<rparr>"
| "edit_outbound (Ob_address v) i = i\<lparr>ob_address := JStr v\<rparr>"
| "edit_outbound (Ob_port v) i = i\<lparr>ob_port := JStr v\<rparr>"
| "edit_outbound (Ob_uuid v) i = i\<lparr>ob_uuid := JStr v\<rparr>"

definition added_inbound :: "bool \<Rightarrow> nat \<Rightarrow> gui_inbound" where
  "added_inbound srv n = (if srv
     then \<lparr>ib_port = JNum (443 + of_nat n), ib_protocol = JStr ''vless'', ib_listen = JStr ''0.0.0.0'',
       ib_tag = JStr (''inbound-'' @ show_nat n), ib_uuid = JStr []\<rparr>
     else \<lparr>ib_port = JNum (10808 + of_nat n), ib_protocol = JStr ''socks'', ib_listen = JStr ''127.0.0.1'',
       ib_tag = JStr (''inbound-'' @ show_nat n), ib_uuid = JUndef\<rparr>)"

definition added_outbound :: "nat \<Rightarrow> gui_outbound" where
  "added_outbound n = first_outbound\<lparr>ob_tag := JStr (''outbound-'' @ show_nat n)\<rparr>"

text \<open>The edits of the form; each of them compiles.\<close>

datatype gui_edit = Inbound nat inbound_edit | Remove_inbound nat | Add_inbound
  | Outbound nat outbound_edit | Remove_outbound nat | Add_outbound
  | Dns_servers string | Domain_strategy string | Access_log string | Error_log string | Log_level string

fun change_gui :: "bool \<Rightarrow> gui_edit \<Rightarrow> cfg_page \<Rightarrow> cfg_page" where
  "change_gui srv (Inbound k e) s = s\<lparr>guiInbounds := (guiInbounds s)[k := edit_inbound e (guiInbounds s ! k)]\<rparr>"
| "change_gui srv (Remove_inbound k) s = s\<lparr>guiInbounds := drop_nth k (guiInbounds s)\<rparr>"
| "change_gui srv Add_inbound s = s\<lparr>guiInbounds := guiInbounds s @ [added_inbound srv (length (guiInbounds s))]\<rparr>"
| "change_gui srv (Outbound k e) s = s\<lparr>guiOutbounds := (guiOutbounds s)[k := edit_outbound e (guiOutbounds s ! k)]\<rparr>"
| "change_gui srv (Remove_outbound k) s = s\<lparr>guiOutbounds := drop_nth k (guiOutbounds s)\<rparr>"
| "change_gui srv Add_outbound s = s\<lparr>guiOutbounds := guiOutbounds s @ [added_outbound (length (guiOutbounds s))]\<rparr>"
| "change_gui srv (Dns_servers v) s = s\<lparr>guiDnsServers := v\<rparr>"
| "change_gui srv (Domain_strategy v) s = s\<lparr>guiDomainStrategy := JStr v\<rparr>"
| "change_gui srv (Access_log v) s = s\<lparr>guiAccessLog := JStr v\<rparr>"
| "change_gui srv (Error_log v) s = s\<lparr>guiErrorLog := JStr v\<rparr>"
| "change_gui srv (Log_level v) s = s\<lparr>loggingLevel := JStr v\<rparr>"

definition edit_gui :: "bool \<Rightarrow> gui_edit \<Rightarrow> cfg_page \<Rightarrow> cfg_page" where
  "edit_gui srv e s = compileGuiToJSON srv (change_gui srv e s)"

definition type_raw :: "string \<Rightarrow> cfg_page \<Rightarrow> cfg_page" where
  "type_raw v s = s\<lparr>rawConfigJson := JStr v\<rparr>"

definition type_connections :: "string \<Rightarrow> cfg_page \<Rightarrow> cfg_page" where
  "type_connections v s = s\<lparr>maxConnections := str_number v\<rparr>"

definition type_buffer :: "string \<Rightarrow> cfg_page \<Rightarrow> cfg_page" where
  "type_buffer v s = s\<lparr>bufferSize := str_number v\<rparr>"

text \<open>The fields of an entry that are shown.\<close>

definition shows_uuid :: "bool \<Rightarrow> gui_inbound \<Rightarrow> bool" where
  "shows_uuid srv i \<longleftrightarrow> srv \<and> ib_protocol i = JStr ''vless''"

definition shows_server :: "gui_outbound \<Rightarrow> bool" where
  "shows_server i \<longleftrightarrow> ob_protocol i \<noteq> JStr ''freedom'' \<and> ob_protocol i \<noteq> JStr ''blackhole''"

definition showHelp :: "string \<Rightarrow> string \<Rightarrow> cfg_page \<Rightarrow> cfg_page" where
  "showHelp t x s = s\<lparr>help_shown := Some (t, x)\<rparr>"

section \<open>Loading and saving\<close>

definition token_of :: "bool \<Rightarrow> cfg_page \<Rightarrow> string" where
  "token_of srv s =
     (let client = get_item_or (local_store s) ''cc_client_token'' []; server = get_item_or (local_store s) ''cc_server_token'' [] in
      if srv \<and> server \<noteq> [] then server else client)"

definition field :: "bool \<Rightarrow> string \<Rightarrow> string" where
  "field srv k = (if srv then ''server_'' @ k else k)"

definition load_settings :: "bool \<Rightarrow> jsv \<Rightarrow> cfg_page \<Rightarrow> cfg_page" where
  "load_settings srv d s =
     (let raw = opt_prop d (field srv ''raw_config_json'');
          s1 = (if srv then s\<lparr>selectedCore := js_or (opt_prop d ''v2ray_core'') (JStr ''xray'')\<rparr> else s);
          s2 = (if truthy raw then syncRawToGui srv raw (s1\<lparr>rawConfigJson := raw\<rparr>) else s1)
      in s2\<lparr>geofilesUpdate := (opt_prop d (field srv ''geofiles_auto_update'') = JStr ''true''),
            loggingLevel := js_or (opt_prop d (field srv ''logging_level'')) (JStr (log_level srv)),
            maxConnections := js_or (to_number (opt_prop d (field srv ''max_connections''))) (JNum (if srv then 4096 else 1024)),
            bufferSize := js_or (to_number (opt_prop d (field srv ''buffer_size''))) (JNum (if srv then 1024 else 512))\<rparr>)"

definition loadSettings :: "bool \<Rightarrow> cfg_action" where
  "loadSettings srv = Get (\<lambda>c. Set (\<lambda>s. s\<lparr>isLoading := True\<rparr>) (finally_do (quietly
     (bind (page_fetch (authed_get (token_of srv c) ''/api/v2ray/client/settings'')) (\<lambda>(ok, b).
       if ok then bind (read_json b) (\<lambda>d. bind (lift_res (get_prop d ''raw_config_json'')) (\<lambda>_. set_state (load_settings srv d)))
       else Done ())))
     (\<lambda>s. s\<lparr>isLoading := False\<rparr>)))"

definition save_body :: "bool \<Rightarrow> cfg_page \<Rightarrow> jsv \<Rightarrow> jsv" where
  "save_body srv s json = JObj
     ((if srv then [(''v2ray_core'', selectedCore s)] else []) @
      [(field srv ''raw_config_json'', json), (field srv ''geofiles_auto_update'', JStr (js_string (JBool (geofilesUpdate s)))),
       (field srv ''logging_level'', loggingLevel s), (field srv ''max_connections'', JStr (js_string (maxConnections s))),
       (field srv ''buffer_size'', JStr (js_string (bufferSize s)))])"

definition final_json :: "bool \<Rightarrow> cfg_page \<Rightarrow> jsv" where
  "final_json srv s = (case activeTab s of Gui_tab \<Rightarrow> compiled srv s | Raw_tab \<Rightarrow> rawConfigJson s)"

definition saved_text :: "bool \<Rightarrow> string" where
  "saved_text srv = (if srv then ''Server core configuration updated successfully!''
     else ''Core configuration settings updated successfully!'')"

definition save_failed :: "bool \<Rightarrow> string" where
  "save_failed srv = (if srv then ''Failed to save server core settings.'' else ''Failed to save core settings.'')"

text \<open>\<open>why\<close> is the message of the parser.\<close>

definition handleSave :: "bool \<Rightarrow> string \<Rightarrow> cfg_action" where
  "handleSave srv why = Get (\<lambda>c. Set (\<lambda>s. s\<lparr>isLoading := True, message := None\<rparr>)
     (Set (\<lambda>s. if activeTab c = Gui_tab then s\<lparr>rawConfigJson := compiled srv c\<rparr> else s)
     (finally_do
       (if json_parse (js_string (final_json srv c)) = None
        then set_state (\<lambda>s. s\<lparr>message := Some (Bad_news (JStr (''Invalid config JSON format: '' @ why))), isLoading := False\<rparr>)
        else try_catch
          (bind (page_fetch (post_json (token_of srv c) ''/api/v2ray/client/settings'' (save_body srv c (final_json srv c))))
            (\<lambda>(ok, b). if ok then set_state (\<lambda>s. s\<lparr>message := Some (Good_news (saved_text srv))\<rparr>)
              else bind (read_json b) (\<lambda>d. bind (lift_res (get_prop d ''error'')) (\<lambda>e.
                set_state (\<lambda>s. s\<lparr>message := Some (Bad_news (js_or e (JStr (save_failed srv))))\<rparr>)))))
          (\<lambda>e. set_state (\<lambda>s. s\<lparr>message := Some (Bad_news (JStr e))\<rparr>)))
       (\<lambda>s. s\<lparr>isLoading := False\<rparr>))))"

definition default_structure :: "bool \<Rightarrow> cfg_page \<Rightarrow> jsv" where
  "default_structure srv s = JObj
     [(''log'', JObj [(''loglevel'', loggingLevel s)]),
      (''inbounds'', JArr [JObj (if srv
         then [(''port'', JNum 443), (''protocol'', JStr ''vless''), (''settings'', vless_settings JUndef),
           (''streamSettings'', reality_stream)]
         else [(''port'', JNum 10808), (''protocol'', JStr ''socks''), (''settings'', socks_settings)])]),
      (''outbounds'', JArr [JObj [(''protocol'', JStr ''freedom''), (''settings'', JObj [])]])]"

definition handleFetchActiveGenerated :: "bool \<Rightarrow> cfg_page \<Rightarrow> cfg_page" where
  "handleFetchActiveGenerated srv s =
     (let t = JStr (json_text ''  '' (default_structure srv s)) in
      (syncRawToGui srv t (s\<lparr>rawConfigJson := t\<rparr>))\<lparr>isLoading := False\<rparr>)"

chapter \<open>What holds of it\<close>

text \<open>
  The form and the JSON of the core configurator: what the form compiles is read back as the same form, so the text settles
  after one edit; what the form does not show stays in the text; and the runs in which the form overwrites what it cannot show.
\<close>

section \<open>Writing parts into an object\<close>

definition cloned :: "obj \<Rightarrow> obj" where
  "cloned kvs = map (\<lambda>(k, v). (k, json_clone v)) kvs"

lemma put_props_obj: "put_props ps (JObj kvs) = Inr (JObj (put_all ps kvs))"
  by (induction ps arbitrary: kvs) (auto simp: put_prop_def put_all_def)

lemma cloned_update: "cloned (AList.update k v kvs) = AList.update k (json_clone v) (cloned kvs)"
  by (induction kvs) (auto simp: cloned_def)

lemma cloned_put_all: "cloned (put_all ps kvs) = put_all (cloned ps) (cloned kvs)"
  by (induction ps arbitrary: kvs) (auto simp: put_all_def cloned_update, auto simp: cloned_def)

definition defined :: "obj \<Rightarrow> bool" where
  "defined kvs \<longleftrightarrow> list_all (\<lambda>(k, v). v \<noteq> JUndef) kvs"

lemma defined_update: "defined kvs \<Longrightarrow> v \<noteq> JUndef \<Longrightarrow> defined (AList.update k v kvs)"
  by (induction kvs) (auto simp: defined_def)

lemma defined_put_all: "defined ps \<Longrightarrow> defined kvs \<Longrightarrow> defined (put_all ps kvs)"
proof (induction ps arbitrary: kvs)
  case (Cons p ps)
  obtain k v where p: "p = (k, v)" by (cases p)
  have "defined ps" "v \<noteq> JUndef" using Cons.prems(1) by (auto simp: defined_def p)
  then show ?case using Cons.IH [OF _ defined_update [OF Cons.prems(2)], of v k] by (simp add: put_all_def p)
qed (simp add: put_all_def)

lemma clone_defined_obj: "defined kvs \<Longrightarrow> json_clone (JObj kvs) = JObj (cloned kvs)"
proof -
  assume "defined kvs"
  then have "filter (\<lambda>(k, v). v \<noteq> JUndef) kvs = kvs" by (intro filter_True) (auto simp: defined_def list_all_iff)
  then show ?thesis by (simp add: cloned_def)
qed

lemma json_defined: "json_value (JObj kvs) \<Longrightarrow> defined kvs \<and> cloned kvs = kvs"
proof -
  assume j: "json_value (JObj kvs)"
  then have d: "defined kvs" by (auto simp: defined_def list_all_iff)
  with clone_json [OF j] clone_defined_obj [OF d] show ?thesis by simp
qed

lemma put_all_same:
  "(\<And>k v. (k, v) \<in> set ps \<Longrightarrow> map_of kvs k = Some v) \<Longrightarrow> put_all ps kvs = kvs"
proof (induction ps)
  case (Cons p ps)
  obtain k v where p: "p = (k, v)" by (cases p)
  have "AList.update k v kvs = kvs"
    using Cons.prems [of k v] p by (induction kvs) (auto split: if_splits)
  then show ?case using Cons.IH Cons.prems by (simp add: put_all_def p)
qed (simp add: put_all_def)

lemma put_all_lookup: "distinct (map fst ps) \<Longrightarrow>
    map_of (put_all ps kvs) k = (case map_of ps k of None \<Rightarrow> map_of kvs k | Some v \<Rightarrow> Some v)"
  by (simp add: map_of_put_all map_add_def)

lemma put_all_twice: "distinct (map fst ps) \<Longrightarrow> put_all ps (put_all ps kvs) = put_all ps kvs"
  by (rule put_all_same) (auto simp: put_all_lookup map_of_eq_Some_iff split: option.splits)

lemma json_put_all:
  "json_value (JObj kvs) \<Longrightarrow> list_all (\<lambda>(k, v). json_value v) ps \<Longrightarrow> json_value (JObj (put_all ps kvs))"
proof (induction ps arbitrary: kvs)
  case (Cons p ps)
  obtain k v where p: "p = (k, v)" by (cases p)
  have "set (AList.update k v kvs) \<subseteq> insert (k, v) (set kvs)" by (induction kvs) auto
  then have "json_value (JObj (AList.update k v kvs))"
    using Cons.prems p by (auto simp: list_all_iff distinct_update)
  then show ?case using Cons p by (simp add: put_all_def)
qed (simp add: put_all_def)

section \<open>What a form of clean entries compiles to\<close>

definition clean_number :: "jsv \<Rightarrow> bool" where
  "clean_number v \<longleftrightarrow> json_value (js_or (to_number v) (JNum 0))"

definition clean_inbound :: "gui_inbound \<Rightarrow> bool" where
  "clean_inbound i \<longleftrightarrow> clean_number (ib_port i) \<and> json_value (ib_protocol i) \<and> truthy (ib_protocol i) \<and>
     json_value (ib_listen i) \<and> json_value (ib_tag i) \<and> (ib_uuid i = JUndef \<or> json_value (ib_uuid i))"

definition clean_outbound :: "gui_outbound \<Rightarrow> bool" where
  "clean_outbound i \<longleftrightarrow> json_value (ob_protocol i) \<and> truthy (ob_protocol i) \<and> json_value (ob_tag i) \<and> truthy (ob_tag i) \<and>
     json_value (ob_address i) \<and> clean_number (ob_port i) \<and> json_value (ob_uuid i)"

definition clean_gui :: "cfg_page \<Rightarrow> bool" where
  "clean_gui s \<longleftrightarrow> json_value (loggingLevel s) \<and> json_value (guiAccessLog s) \<and> json_value (guiErrorLog s) \<and>
     json_value (guiDomainStrategy s) \<and> list_all clean_inbound (guiInbounds s) \<and> list_all clean_outbound (guiOutbounds s)"

definition numeric :: "jsv \<Rightarrow> bool" where
  "numeric v \<longleftrightarrow> (\<exists>n. v = JNum n) \<or> v = JNaN"

lemma numeric_parts: "numeric (unsigned_num t)" "numeric (neg_num v)"
  by (simp_all add: numeric_def unsigned_num_def neg_num_def Let_def split: list.splits jsv.splits)

lemma number_forms: "numeric (to_number v)"
proof -
  have "numeric (str_number t)" for t
    using numeric_parts by (auto simp: str_number_def numeric_def [of "JNum 0"] split: list.splits)
  then show ?thesis by (cases v) (simp_all add: numeric_def)
qed

lemma number_or:
  assumes "clean_number v" and "p \<noteq> 0" and "p = of_int \<lfloor>p\<rfloor>"
  obtains n where "js_or (to_number v) (JNum p) = JNum n" "n = of_int \<lfloor>n\<rfloor>" "n \<noteq> 0"
proof -
  have "\<exists>n. js_or (to_number v) (JNum p) = JNum n \<and> n = of_int \<lfloor>n\<rfloor> \<and> n \<noteq> 0"
  proof (cases "truthy (to_number v)")
    case True
    with number_forms [of v] show ?thesis using assms(1) by (auto simp: clean_number_def js_or_def numeric_def)
  next
    case False
    then show ?thesis using assms(2,3) by (simp add: js_or_def)
  qed
  then show ?thesis using that by blast
qed

lemma json_or: "json_value v \<Longrightarrow> json_value (js_or v (JStr d)) \<and> js_or v (JStr d) \<noteq> JUndef"
  by (cases v) (auto simp: js_or_def)

lemma js_or_simps [simp]: "truthy a \<Longrightarrow> js_or a b = a" "\<not> truthy a \<Longrightarrow> js_or a b = b"
  by (simp_all add: js_or_def)

lemma defined_json: "json_value v \<Longrightarrow> v \<noteq> JUndef" "truthy v \<Longrightarrow> v \<noteq> JUndef"
  by auto

lemma at_zero_simps [simp]: "at_zero (JArr (x # xs)) = x" "at_zero (JArr []) = JUndef" "at_zero JUndef = JUndef"
proof -
  have "show_nat 0 = ''0''" by (simp add: show_nat.simps digit_char_def)
  then have "array_index ''0'' = Some 0" using index_of_show [of 0] by simp
  then show "at_zero (JArr (x # xs)) = x" "at_zero (JArr []) = JUndef" by (simp_all add: at_zero_def opt_index_def)
qed (simp add: at_zero_def)

definition clean_head :: "rat \<Rightarrow> jsv \<Rightarrow> jsv \<Rightarrow> jsv \<Rightarrow> obj" where
  "clean_head n p l t = [(''port'', JNum n), (''protocol'', p), (''listen'', l)] @ (if truthy t then [(''tag'', t)] else [])"

lemma clone_inbound:
  assumes "clean_inbound i" and "defined rest" and "pn \<noteq> 0" and "pn = of_int \<lfloor>pn\<rfloor>" and "d \<noteq> []"
  obtains n l where "json_clone (JObj (inbound_head pn d i @ rest)) = JObj (clean_head n (ib_protocol i) l (ib_tag i) @ cloned rest)"
    "js_or (to_number (ib_port i)) (JNum pn) = JNum n" "n \<noteq> 0" "js_or (ib_listen i) (JStr d) = l" "truthy l" "json_value l"
proof -
  obtain n where n: "js_or (to_number (ib_port i)) (JNum pn) = JNum n" "n \<noteq> 0"
    using number_or [of "ib_port i" pn] assms(1,3,4) by (auto simp: clean_inbound_def)
  let ?l = "js_or (ib_listen i) (JStr d)"
  have l: "truthy ?l" "json_value ?l" using assms(1,5) by (cases "truthy (ib_listen i)"; simp add: clean_inbound_def)+
  have p: "ib_protocol i \<noteq> JUndef" "json_clone (ib_protocol i) = ib_protocol i" "json_clone ?l = ?l"
    "json_clone (ib_tag i) = ib_tag i"
    using assms(1) l by (auto simp: clean_inbound_def intro: clone_json)
  have r: "filter (\<lambda>(k, v). v \<noteq> JUndef) rest = rest" using assms(2) by (intro filter_True) (auto simp: defined_def list_all_iff)
  have "json_clone (JObj (inbound_head pn d i @ rest)) = JObj (clean_head n (ib_protocol i) ?l (ib_tag i) @ cloned rest)"
    using n(1) p l(1) r defined_json(2) [OF l(1)]
    by (cases "truthy (ib_tag i)") (auto simp: inbound_head_def clean_head_def or_undefined_def cloned_def defined_json(2))
  then show ?thesis using that n l by blast
qed

lemma head_get [simp]:
  "obj_get (clean_head n p l t @ r) ''port'' = JNum n" "obj_get (clean_head n p l t @ r) ''protocol'' = p"
  "obj_get (clean_head n p l t @ r) ''listen'' = l"
  "obj_get (clean_head n p l t @ r) ''tag'' = (if truthy t then t else obj_get r ''tag'')"
  "obj_get (clean_head n p l t @ r) ''settings'' = obj_get r ''settings''"
  by (auto simp: clean_head_def obj_get_def split: option.splits)

lemma head_again:
  assumes "js_or (to_number (ib_port i)) (JNum pn) = JNum n" and "n \<noteq> 0" and "js_or (ib_listen i) (JStr d) = l" and "truthy l"
  shows "inbound_head pn d \<lparr>ib_port = JNum n, ib_protocol = ib_protocol i, ib_listen = l,
       ib_tag = js_or (if truthy (ib_tag i) then ib_tag i else JUndef) (JStr []), ib_uuid = u\<rparr> = inbound_head pn d i"
  using assms by (simp add: inbound_head_def or_undefined_def)

lemma read_client:
  assumes "clean_inbound i"
  shows "\<exists>i'. read_inbound False (json_clone (client_inbound i)) = Inr i' \<and> client_inbound i' = client_inbound i"
proof -
  let ?r = "[(''settings'', if ib_protocol i = JStr ''socks'' then socks_settings else JObj [])]"
  have r: "defined ?r" by (simp add: defined_def socks_settings_def)
  obtain n l where c0: "json_clone (JObj (inbound_head 10808 ''127.0.0.1'' i @ ?r)) = JObj (clean_head n (ib_protocol i) l (ib_tag i) @ cloned ?r)"
    and h: "js_or (to_number (ib_port i)) (JNum 10808) = JNum n" "n \<noteq> 0" "js_or (ib_listen i) (JStr ''127.0.0.1'') = l" "truthy l"
    by (rule clone_inbound [OF assms r, of 10808 "''127.0.0.1''"]) simp_all
  have c: "json_clone (client_inbound i) = JObj (clean_head n (ib_protocol i) l (ib_tag i) @ cloned ?r)"
    using c0 by (simp only: client_inbound_def)
  let ?i = "\<lparr>ib_port = JNum n, ib_protocol = ib_protocol i, ib_listen = l,
       ib_tag = js_or (if truthy (ib_tag i) then ib_tag i else JUndef) (JStr []), ib_uuid = JUndef\<rparr>"
  have "truthy (ib_protocol i)" using assms by (simp add: clean_inbound_def)
  then have "read_inbound False (json_clone (client_inbound i)) = Inr ?i"
    using h(2,4) by (simp add: read_inbound_def c opt_prop_json cloned_def)
  moreover have "client_inbound ?i = client_inbound i"
    unfolding client_inbound_def using head_again [OF h] by simp
  ultimately show ?thesis by blast
qed

lemma read_server:
  assumes "clean_inbound i"
  shows "\<exists>i'. read_inbound True (json_clone (server_inbound i)) = Inr i' \<and> server_inbound i' = server_inbound i"
proof -
  let ?p = "ib_protocol i" and ?u = "ib_uuid i"
  let ?r = "if ?p = JStr ''vless'' then [(''settings'', vless_settings ?u), (''streamSettings'', reality_stream)]
      else if ?p = JStr ''socks'' then [(''settings'', socks_settings)] else [(''settings'', JObj [])]"
  have r: "defined ?r" by (simp add: defined_def socks_settings_def vless_settings_def reality_stream_def)
  obtain n l where c0: "json_clone (JObj (inbound_head 443 ''0.0.0.0'' i @ ?r)) = JObj (clean_head n ?p l (ib_tag i) @ cloned ?r)"
    and h: "js_or (to_number (ib_port i)) (JNum 443) = JNum n" "n \<noteq> 0" "js_or (ib_listen i) (JStr ''0.0.0.0'') = l" "truthy l"
    by (rule clone_inbound [OF assms r, of 443 "''0.0.0.0''"]) simp_all
  have c: "json_clone (server_inbound i) = JObj (clean_head n ?p l (ib_tag i) @ cloned ?r)"
    using c0 by (simp only: server_inbound_def)
  define v where "v = js_or (opt_prop (at_zero (opt_prop (obj_get (cloned ?r) ''settings'') ''clients'')) ''id'') (JStr [])"
  let ?i = "\<lparr>ib_port = JNum n, ib_protocol = ?p, ib_listen = l,
       ib_tag = js_or (if truthy (ib_tag i) then ib_tag i else JUndef) (JStr []), ib_uuid = v\<rparr>"
  have no: "obj_get (cloned ?r) ''tag'' = JUndef" by (simp add: cloned_def obj_get_def)
  have "truthy ?p" using assms by (simp add: clean_inbound_def)
  then have "read_inbound True (json_clone (server_inbound i)) = Inr ?i"
    using h(2,4) no by (simp add: read_inbound_def c v_def del: if_split)
  moreover have "vless_settings v = vless_settings ?u" if "?p = JStr ''vless''"
  proof (cases "truthy ?u")
    case True
    then have "json_clone ?u = ?u" using assms by (auto simp: clean_inbound_def intro: clone_json)
    then have "v = ?u" using True that
      by (simp add: v_def cloned_def vless_settings_def obj_get_def defined_json(2))
    then show ?thesis by simp
  next
    case False
    then have "v = JStr []" using that by (simp add: v_def cloned_def vless_settings_def obj_get_def opt_prop_def)
    then show ?thesis using False by (simp add: vless_settings_def)
  qed
  then have "server_inbound ?i = server_inbound i"
    unfolding server_inbound_def using head_again [OF h] by simp
  ultimately show ?thesis by blast
qed

lemma read_back_inbound:
  "clean_inbound i \<Longrightarrow> \<exists>i'. read_inbound srv (json_clone (inbound_json srv i)) = Inr i' \<and> inbound_json srv i' = inbound_json srv i"
  using read_client read_server by (cases srv) (simp_all add: inbound_json_def)

lemma read_back_outbound:
  assumes "clean_outbound i"
  shows "\<exists>i'. read_outbound (json_clone (outbound_json srv i)) = Inr i' \<and> outbound_json srv i' = outbound_json srv i"
proof -
  have v: "json_clone (ob_protocol i) = ob_protocol i" "json_clone (ob_tag i) = ob_tag i" "json_clone (ob_address i) = ob_address i"
    "json_clone (ob_uuid i) = ob_uuid i" "truthy (ob_protocol i)" "truthy (ob_tag i)"
    "ob_protocol i \<noteq> JUndef" "ob_tag i \<noteq> JUndef"
    using assms by (auto simp: clean_outbound_def intro: clone_json)
  show ?thesis
  proof (cases "shows_server i")
    case False
    then have st: "outbound_settings srv i = JObj []" by (auto simp: outbound_settings_def shows_server_def)
    let ?i = "\<lparr>ob_protocol = ob_protocol i, ob_tag = ob_tag i, ob_address = JStr [], ob_port = JStr [], ob_uuid = JStr []\<rparr>"
    have "read_outbound (json_clone (outbound_json srv i)) = Inr ?i"
      using v by (simp add: read_outbound_def outbound_json_def st obj_get_def opt_prop_def Let_def)
    moreover have "outbound_json srv ?i = outbound_json srv i"
      using False by (auto simp: outbound_json_def outbound_settings_def shows_server_def)
    ultimately show ?thesis by blast
  next
    case True
    obtain n where n: "js_or (to_number (ob_port i)) (JNum 443) = JNum n" "n \<noteq> 0"
      using number_or [of "ob_port i" 443] assms by (auto simp: clean_outbound_def)
    let ?a = "js_or (ob_address i) (JStr ''127.0.0.1'')"
    let ?u = "if truthy (ob_uuid i) then JArr [user_json srv (ob_uuid i)] else JUndef"
    have a: "truthy ?a" "json_clone ?a = ?a" "?a \<noteq> JUndef"
      using v(3) assms by (cases "truthy (ob_address i)"; auto simp: clean_outbound_def)+
    have st: "outbound_settings srv i = JObj [(''servers'', JArr [JObj [(''address'', ?a), (''port'', JNum n), (''users'', ?u)]])]"
      using True n(1) by (auto simp: outbound_settings_def shows_server_def)
    let ?i = "\<lparr>ob_protocol = ob_protocol i, ob_tag = ob_tag i, ob_address = ?a, ob_port = JNum n,
       ob_uuid = if truthy (ob_uuid i) then ob_uuid i else JStr []\<rparr>"
    have "read_outbound (json_clone (outbound_json srv i)) = Inr ?i"
    proof (cases "truthy (ob_uuid i)")
      case u: True
      then have "ob_uuid i \<noteq> JUndef" by (rule defined_json(2))
      with u show ?thesis using v a n(2)
        by (simp add: read_outbound_def outbound_json_def st obj_get_def opt_prop_def Let_def user_json_def)
    next
      case False
      then show ?thesis using v a n(2)
        by (simp add: read_outbound_def outbound_json_def st obj_get_def opt_prop_def Let_def)
    qed
    moreover have "outbound_json srv ?i = outbound_json srv i"
      using True a(1) n(2) by (simp add: outbound_json_def st) (simp add: outbound_settings_def shows_server_def)
    ultimately show ?thesis by blast
  qed
qed

lemma read_back_all:
  assumes "list_all P xs" and "\<And>x. P x \<Longrightarrow> \<exists>y. f (g x) = Inr y \<and> h y = h x"
  shows "\<exists>ys. map_res f (map g xs) = Inr ys \<and> map h ys = map h xs"
  using assms(1)
proof (induction xs)
  case (Cons x xs)
  obtain ys where ys: "map_res f (map g xs) = Inr ys" "map h ys = map h xs" using Cons by auto
  obtain y where y: "f (g x) = Inr y" "h y = h x" using Cons.prems assms(2) [of x] by auto
  show ?case by (rule exI [of _ "y # ys"]) (simp add: ys y)
qed simp

section \<open>The compiled text\<close>

definition sound :: "jsv \<Rightarrow> bool" where
  "sound v \<longleftrightarrow> json_value (json_clone v)"

lemma sound_json: "json_value v \<Longrightarrow> sound v"
  by (simp add: sound_def clone_json)

lemma sound_undef [simp]: "sound JUndef"
  by (simp add: sound_def)

lemma sound_arr: "list_all sound xs \<Longrightarrow> sound (JArr xs)"
  by (auto simp: sound_def list_all_iff)

lemma sound_obj:
  assumes "distinct (map fst kvs)" and "list_all (\<lambda>(k, v). sound v) kvs"
  shows "sound (JObj kvs)"
proof -
  have k: "map fst (map (\<lambda>(k, v). (k, json_clone v)) ms) = map fst ms" for ms :: obj by (induction ms) auto
  have "distinct (map fst (filter (\<lambda>(k, v). v \<noteq> JUndef) kvs))" using assms(1) by (rule distinct_map_filter)
  with assms(2) show ?thesis
    unfolding sound_def json_clone.simps json_value.simps k by (auto simp: sound_def list_all_iff)
qed

lemma sound_or: "sound v \<Longrightarrow> sound w \<Longrightarrow> sound (js_or v w)"
  by (cases "truthy v") simp_all

lemma sound_texts: "list_all sound (map JStr ts)"
  by (induction ts) (simp_all add: sound_def)

lemmas sound_intros = sound_obj sound_arr sound_or

lemma sound_constants: "sound socks_settings" "sound reality_stream"
  by (simp_all add: sound_def socks_settings_def reality_stream_def)

lemma sound_vless: "u = JUndef \<or> json_value u \<Longrightarrow> sound (vless_settings u)"
  by (cases "truthy u") (auto simp: vless_settings_def sound_json intro!: sound_intros)

lemma sound_number: "clean_number v \<Longrightarrow> p \<noteq> 0 \<Longrightarrow> p = of_int \<lfloor>p\<rfloor> \<Longrightarrow> sound (js_or (to_number v) (JNum p))"
  by (rule number_or [of v p]) (auto intro: sound_json)

lemma sound_inbound: "clean_inbound i \<Longrightarrow> sound (inbound_json srv i)"
  by (auto simp: inbound_json_def client_inbound_def server_inbound_def inbound_head_def clean_inbound_def or_undefined_def
      sound_constants sound_vless sound_number sound_json intro!: sound_intros)

lemma sound_outbound: "clean_outbound i \<Longrightarrow> sound (outbound_json srv i)"
  by (auto simp: outbound_json_def outbound_settings_def user_json_def clean_outbound_def sound_number sound_json intro!: sound_intros)

lemma sound_parts:
  assumes "clean_gui s" and "json_value (kept_rules base)"
  shows "list_all (\<lambda>(k, v). json_value v) (cloned (gui_parts srv s base))"
proof -
  have "list_all sound (map (inbound_json srv) (guiInbounds s))" "list_all sound (map (outbound_json srv) (guiOutbounds s))"
    using assms(1) sound_inbound sound_outbound by (auto simp: clean_gui_def list_all_iff)
  moreover have "sound (log_json s)" "sound (dns_json s)" "sound (routing_json s base)"
    using assms by (auto simp: log_json_def dns_json_def routing_json_def clean_gui_def or_undefined_def sound_texts
        sound_json intro!: sound_intros)
  ultimately have "list_all (\<lambda>(k, v). sound v) (gui_parts srv s base)"
    by (simp add: gui_parts_def sound_arr)
  then show ?thesis by (auto simp: cloned_def sound_def list_all_iff)
qed

lemma opt_prop_json_value: "json_value v \<Longrightarrow> k \<noteq> ''length'' \<Longrightarrow> json_value (opt_prop v k) \<or> opt_prop v k = JUndef"
  by (cases v) (auto simp: opt_prop_def obj_get_def list_all_iff split: option.splits dest!: map_of_SomeD)

lemma rules_json: "json_value base \<Longrightarrow> json_value (kept_rules base)"
proof -
  assume b: "json_value base"
  let ?r = "opt_prop base ''routing''"
  have "json_value (opt_prop ?r ''rules'') \<or> opt_prop ?r ''rules'' = JUndef"
    using opt_prop_json_value [OF b, of "''routing''"] opt_prop_json_value [of ?r "''rules''"]
    by (auto simp: opt_prop_def)
  then show ?thesis by (cases "truthy (opt_prop ?r ''rules'')") (auto simp: kept_rules_def)
qed

lemma indent [simp]: "list_all json_space ''  ''"
  by (simp add: json_space_def)

text \<open>The configuration after the form was compiled, as the text of it is read.\<close>

definition settled :: "bool \<Rightarrow> cfg_page \<Rightarrow> obj \<Rightarrow> obj" where
  "settled srv s kvs = put_all (cloned (gui_parts srv s (JObj kvs))) kvs"

lemma parts_defined: "defined (gui_parts srv s base)"
  by (simp add: defined_def gui_parts_def log_json_def dns_json_def routing_json_def)

lemma compiled_read:
  assumes "base_of (rawConfigJson s) = JObj kvs" and "json_value (JObj kvs)" and "clean_gui s"
  shows "json_value (JObj (settled srv s kvs))" "json_parse (js_string (compiled srv s)) = Some (JObj (settled srv s kvs))"
    "compiled srv s = JStr (json_text ''  '' (JObj (settled srv s kvs)))"
proof -
  let ?v = "JObj (put_all (gui_parts srv s (JObj kvs)) kvs)"
  show j: "json_value (JObj (settled srv s kvs))"
    unfolding settled_def by (rule json_put_all [OF assms(2) sound_parts [OF assms(3) rules_json [OF assms(2)]]])
  have c: "json_clone ?v = JObj (settled srv s kvs)"
    using clone_defined_obj [OF defined_put_all [OF parts_defined]] json_defined [OF assms(2)]
    by (simp add: settled_def cloned_put_all)
  have t: "compiled srv s = JStr (json_text ''  '' ?v)"
    by (simp add: compiled_def assms(1) put_props_obj Let_def)
  show "json_parse (js_string (compiled srv s)) = Some (JObj (settled srv s kvs))"
    using json_read_clone [of ?v "''  ''", unfolded c, OF j indent] by (simp only: t js_string.simps)
  show "compiled srv s = JStr (json_text ''  '' (JObj (settled srv s kvs)))"
    using stringify_clone [of "''  ''" 0 ?v] by (simp only: c t json_text_def)
qed

section \<open>Reading it back\<close>

lemma settled_get:
  "obj_get (settled srv s kvs) ''log'' = json_clone (log_json s)" "obj_get (settled srv s kvs) ''dns'' = json_clone (dns_json s)"
  "obj_get (settled srv s kvs) ''routing'' = json_clone (routing_json s (JObj kvs))"
  "obj_get (settled srv s kvs) ''inbounds'' = JArr (map (json_clone \<circ> inbound_json srv) (guiInbounds s))"
  "obj_get (settled srv s kvs) ''outbounds'' = JArr (map (json_clone \<circ> outbound_json srv) (guiOutbounds s))"
  "k \<notin> {''log'', ''dns'', ''routing'', ''inbounds'', ''outbounds''} \<Longrightarrow> obj_get (settled srv s kvs) k = obj_get kvs k"
  by (auto simp: settled_def obj_get_def put_all_lookup gui_parts_def cloned_def)

lemma take_log_again:
  assumes "json_value (loggingLevel s)" and "json_value (guiAccessLog s)" and "json_value (guiErrorLog s)"
  shows "take_log (json_clone (log_json s)) s = s"
proof -
  have v: "json_clone (loggingLevel s) = loggingLevel s" "json_clone (guiAccessLog s) = guiAccessLog s"
    "json_clone (guiErrorLog s) = guiErrorLog s" "loggingLevel s \<noteq> JUndef"
    using assms by (auto intro: clone_json)
  have a: "if_truthy (json_clone (log_json s)) ''loglevel'' (loggingLevel s) = loggingLevel s"
    "if_truthy (json_clone (log_json s)) ''access'' (guiAccessLog s) = guiAccessLog s"
    "if_truthy (json_clone (log_json s)) ''error'' (guiErrorLog s) = guiErrorLog s"
    using v by (cases "truthy (loggingLevel s)"; cases "truthy (guiAccessLog s)"; cases "truthy (guiErrorLog s)";
        simp add: if_truthy_def log_json_def or_undefined_def obj_get_def defined_json(2))+
  show ?thesis by (simp add: take_log_def a)
qed

lemma take_dns_again:
  "take_dns (json_clone (dns_json s)) s' = s'\<lparr>guiDnsServers := join_with [newline] (clean_parts newline (guiDnsServers s))\<rparr>"
proof -
  have "joined (map JStr ts) = join_with [newline] ts" for ts by (simp add: joined_def comp_def)
  then show ?thesis by (simp add: take_dns_def dns_json_def obj_get_def comp_def)
qed

lemma take_routing_again:
  assumes "json_value (guiDomainStrategy s)" and "guiDomainStrategy s' = guiDomainStrategy s"
  shows "take_routing (json_clone (routing_json s base)) s' = s'"
  using assms clone_json [OF assms(1)] by (cases "truthy (guiDomainStrategy s)")
    (auto simp: take_routing_def if_truthy_def routing_json_def obj_get_def)

lemma take_bounds_again:
  assumes "list_all clean_inbound (guiInbounds s)" and "list_all clean_outbound (guiOutbounds s)"
  shows "\<exists>ibs obs. take_bounds srv (JObj (settled srv s kvs)) s' = s'\<lparr>guiInbounds := ibs, guiOutbounds := obs\<rparr> \<and>
    map (inbound_json srv) ibs = map (inbound_json srv) (guiInbounds s) \<and>
    map (outbound_json srv) obs = map (outbound_json srv) (guiOutbounds s)"
proof -
  obtain ibs where i: "map_res (read_inbound srv) (map (json_clone \<circ> inbound_json srv) (guiInbounds s)) = Inr ibs"
      "map (inbound_json srv) ibs = map (inbound_json srv) (guiInbounds s)"
    using read_back_all [OF assms(1), of "read_inbound srv" "json_clone \<circ> inbound_json srv" "inbound_json srv"] read_back_inbound
    by auto
  obtain obs where o: "map_res read_outbound (map (json_clone \<circ> outbound_json srv) (guiOutbounds s)) = Inr obs"
      "map (outbound_json srv) obs = map (outbound_json srv) (guiOutbounds s)"
    using read_back_all [OF assms(2), of read_outbound "json_clone \<circ> outbound_json srv" "outbound_json srv"] read_back_outbound
    by auto
  show ?thesis
    using i(2) o(2) by (intro exI [of _ ibs] exI [of _ obs]) (simp add: take_bounds_def take_outbounds_def settled_get i(1) o(1))
qed

lemma parts_again:
  assumes "clean_gui s" and "json_value (JObj kvs)"
  shows "gui_parts srv (take_config srv (JObj (settled srv s kvs)) s) (JObj (settled srv s kvs)) = gui_parts srv s (JObj kvs)"
proof -
  let ?base = "JObj (settled srv s kvs)"
  let ?s = "s\<lparr>guiDnsServers := join_with [newline] (clean_parts newline (guiDnsServers s))\<rparr>"
  have c: "json_value (loggingLevel s)" "json_value (guiAccessLog s)" "json_value (guiErrorLog s)"
    "json_value (guiDomainStrategy s)" "list_all clean_inbound (guiInbounds s)" "list_all clean_outbound (guiOutbounds s)"
    using assms(1) by (simp_all add: clean_gui_def)
  obtain ibs obs where b: "take_bounds srv ?base ?s = ?s\<lparr>guiInbounds := ibs, guiOutbounds := obs\<rparr>"
      "map (inbound_json srv) ibs = map (inbound_json srv) (guiInbounds s)"
      "map (outbound_json srv) obs = map (outbound_json srv) (guiOutbounds s)"
    using take_bounds_again [OF c(5,6)] by blast
  have t: "take_config srv ?base s = ?s\<lparr>guiInbounds := ibs, guiOutbounds := obs\<rparr>"
    by (simp add: take_config_def settled_get take_log_again [OF c(1,2,3)] take_dns_again take_routing_again [OF c(4)] b(1))
  have r: "json_value (kept_rules (JObj kvs))" by (rule rules_json [OF assms(2)])
  have "opt_prop ?base ''routing'' = JObj [(''domainStrategy'', guiDomainStrategy s), (''rules'', kept_rules (JObj kvs))]"
    using clone_json [OF r] clone_json [OF c(4)] r c(4) by (auto simp: settled_get routing_json_def)
  then have "kept_rules ?base = js_or (kept_rules (JObj kvs)) (JArr [])"
    by (simp add: kept_rules_def [of ?base] obj_get_def)
  also have "\<dots> = kept_rules (JObj kvs)" by (simp add: kept_rules_def js_or_def)
  finally have "kept_rules ?base = kept_rules (JObj kvs)" .
  then show ?thesis
    using b(2,3) by (simp add: t gui_parts_def log_json_def dns_json_def routing_json_def clean_parts_join)
qed

lemma take_keeps:
  "rawConfigJson (take_log v s) = rawConfigJson s" "rawConfigJson (take_dns v s) = rawConfigJson s"
  "rawConfigJson (take_routing v s) = rawConfigJson s" "rawConfigJson (take_outbounds v s) = rawConfigJson s"
  "rawConfigJson (take_bounds srv v s) = rawConfigJson s"
proof -
  show o: "rawConfigJson (take_outbounds v s) = rawConfigJson s" for v s
    by (simp add: take_outbounds_def split: jsv.split sum.split)
  show "rawConfigJson (take_bounds srv v s) = rawConfigJson s"
    by (simp add: take_bounds_def o split: jsv.split sum.split)
qed (simp_all add: take_log_def take_dns_def take_routing_def split: jsv.split)

lemma take_config_keeps [simp]: "rawConfigJson (take_config srv cfg s) = rawConfigJson s"
  by (simp add: take_config_def take_keeps)

lemma parts_of_form [simp]:
  "gui_parts srv (s\<lparr>rawConfigJson := r\<rparr>) base = gui_parts srv s base"
  "gui_parts srv (s\<lparr>activeTab := a\<rparr>) base = gui_parts srv s base"
  by (simp_all add: gui_parts_def log_json_def dns_json_def routing_json_def)

lemma compiled_tab [simp]: "compiled srv (s\<lparr>activeTab := a\<rparr>) = compiled srv s"
  by (simp add: compiled_def Let_def split: sum.split)

lemma compiled_again:
  assumes "base_of (rawConfigJson s') = JObj (settled srv s kvs)" and "json_value (JObj (settled srv s kvs))"
    and "gui_parts srv s' (JObj (settled srv s kvs)) = gui_parts srv s (JObj kvs)"
  shows "compiled srv s' = JStr (json_text ''  '' (JObj (settled srv s kvs)))"
proof -
  let ?g = "gui_parts srv s (JObj kvs)" and ?k = "settled srv s kvs"
  have k: "defined ?k" "cloned ?k = ?k" using json_defined [OF assms(2)] by simp_all
  have "distinct (map fst (cloned ?g))" by (simp add: cloned_def gui_parts_def)
  then have "put_all (cloned ?g) ?k = ?k" by (simp add: settled_def put_all_twice)
  then have "json_clone (JObj (put_all ?g ?k)) = JObj ?k"
    using clone_defined_obj [OF defined_put_all [OF parts_defined k(1)]] by (simp add: cloned_put_all k(2))
  then have "json_text ''  '' (JObj (put_all ?g ?k)) = json_text ''  '' (JObj ?k)"
    using stringify_clone [of "''  ''" 0 "JObj (put_all ?g ?k)"] by (simp only: json_text_def)
  then show ?thesis by (simp add: compiled_def assms(1,3) put_props_obj Let_def)
qed

text \<open>C34: The form and the JSON of the core configurator agree after one edit. Whatever JSON object the editor held, once
  the form is compiled into it, opening the form (which reads the JSON) and going back to the JSON (which compiles the
  form) leaves the text as it was, and saving from either tab sends this text. What the configuration holds beside the
  five sections of the form is still there. This is shown for numbers that are whole, and for a form (\<open>clean_gui\<close>) in
  which every inbound and every outbound has a protocol, every outbound has a tag, no port is a fraction (anything that
  is no number counts as 0, and 0 as the default), and the other entries are JSON values: an outbound whose tag was
  cleared comes back as \<open>direct\<close> (\<open>cleared_tag_is_direct\<close>), which changes the text once more.\<close>

theorem configurator_settles:
  assumes "base_of (rawConfigJson s) = JObj kvs" and "json_value (JObj kvs)" and "clean_gui s"
    and s1: "s1 = compileGuiToJSON srv s"
  shows "rawConfigJson (open_raw srv (open_gui srv s1)) = rawConfigJson s1 \<and>
    final_json srv (open_gui srv s1) = rawConfigJson s1 \<and> final_json srv (open_raw srv (open_gui srv s1)) = rawConfigJson s1 \<and>
    (\<forall>k. k \<notin> {''log'', ''dns'', ''routing'', ''inbounds'', ''outbounds''} \<longrightarrow>
      opt_prop (base_of (rawConfigJson s1)) k = obj_get kvs k)"
proof -
  let ?k = "settled srv s kvs"
  note r = compiled_read [OF assms(1-3), of srv]
  have raw: "rawConfigJson s1 = compiled srv s" by (simp add: s1 compileGuiToJSON_def)
  have base: "base_of (rawConfigJson s1) = JObj ?k" using r(2) by (simp add: raw base_of_def)
  have same: "settled srv s1 kvs = ?k" "gui_parts srv s1 (JObj kvs) = gui_parts srv s (JObj kvs)"
    by (simp_all add: s1 compileGuiToJSON_def settled_def)
  have "clean_gui s1" using assms(3) by (simp add: s1 compileGuiToJSON_def clean_gui_def)
  then have g: "gui_parts srv (take_config srv (JObj ?k) s1) (JObj ?k) = gui_parts srv s (JObj kvs)"
    using parts_again [OF _ assms(2), of s1 srv] by (simp add: same)
  have o: "open_gui srv s1 = (take_config srv (JObj ?k) s1)\<lparr>activeTab := Gui_tab\<rparr>"
    using r(2) by (simp add: open_gui_def syncRawToGui_def raw)
  have "compiled srv (take_config srv (JObj ?k) s1) = rawConfigJson s1"
    using compiled_again [OF _ r(1) g] base r(3) by (simp add: raw)
  moreover have "\<forall>k. k \<notin> {''log'', ''dns'', ''routing'', ''inbounds'', ''outbounds''} \<longrightarrow>
      opt_prop (base_of (rawConfigJson s1)) k = obj_get kvs k"
    by (simp add: base settled_get(6))
  ultimately show ?thesis by (simp add: o open_raw_def compileGuiToJSON_def final_json_def)
qed

definition sample_cfg :: cfg_page where
  "sample_cfg = type_raw (json_text [] (JObj [(''stats'', JNum 7)])) (init_cfg True Map.empty)"

lemma sample_read: "json_parse (json_text [] (JObj [(''stats'', JNum 7)])) = Some (JObj [(''stats'', JNum 7)])"
  by (rule json_roundtrip) simp_all

theorem configurator_settles_witness:
  "rawConfigJson (open_raw True (open_gui True (compileGuiToJSON True sample_cfg))) = rawConfigJson (compileGuiToJSON True sample_cfg) \<and>
   opt_prop (base_of (rawConfigJson (compileGuiToJSON True sample_cfg))) ''stats'' = JNum 7"
proof -
  have b: "base_of (rawConfigJson sample_cfg) = JObj [(''stats'', JNum 7)]"
    by (simp add: sample_cfg_def type_raw_def base_of_def sample_read)
  have "clean_gui sample_cfg"
    by (simp add: sample_cfg_def type_raw_def init_cfg_def clean_gui_def clean_inbound_def clean_outbound_def first_inbound_def
        first_outbound_def clean_number_def str_number_def trim_def)
  with configurator_settles [OF b, of "compileGuiToJSON True sample_cfg" True] show ?thesis
    by (simp add: obj_get_def)
qed

section \<open>What the form cannot show\<close>

text \<open>The sections of the form are written anew from the form alone, so whatever else an inbound held, the keys of its
  transport for instance, is gone after any edit.\<close>

lemma inbounds_rewritten:
  assumes "base_of (rawConfigJson s) = JObj kvs" and "json_value (JObj kvs)" and "clean_gui s"
  shows "opt_prop (base_of (compiled srv s)) ''inbounds'' = JArr (map (json_clone \<circ> inbound_json srv) (guiInbounds s))"
  using compiled_read(2) [OF assms, of srv] by (simp add: base_of_def settled_get)

lemma stream_not_read: "read_inbound True (JObj ((''streamSettings'', x) # kvs)) = read_inbound True (JObj kvs)"
  by (simp add: read_inbound_def obj_get_def)

text \<open>A server of the DNS list that is an object becomes the text of an object; an outbound whose tag was cleared comes back
  as \<open>direct\<close>.\<close>

lemma object_server_lost: "joined [JObj kvs] = ''[object Object]''"
  by (simp add: joined_def)

lemma cleared_tag_is_direct:
  "map_option ob_tag (case read_outbound (json_clone (outbound_json srv (edit_outbound (Ob_tag []) first_outbound))) of
     Inl e \<Rightarrow> None | Inr i \<Rightarrow> Some i) = Some (JStr ''direct'')"
  by (simp add: read_outbound_def outbound_json_def outbound_settings_def first_outbound_def obj_get_def Let_def)

end
