(* ===== verification/Server_Panel.thy ===== *)
theory Server_Panel
  imports Page Formats
begin

text \<open>
  The panel of the server (\<open>V2RayServerPage.tsx\<close> with its cards): edge nodes, inbounds, users and traffic, the core, the
  firewall, and a prober. The five lists are read by one reload, request after request; every action that changes something
  starts a reload that it does not await, so a reload is an entry of a list, which knows what it waits for and the
  selection of the render that started it.
\<close>

section \<open>State\<close>

datatype part = Part_nodes | Part_inbounds | Part_users | Part_traffic | Part_status

record reload =
  awaits :: part
  chosen_inbound :: jsv

datatype panel_note = Good string | Bad jsv

record panel =
  is_running :: jsv
  isLoading :: bool
  message :: "panel_note option"
  nodes :: jsv
  inbounds :: jsv
  users :: jsv
  firewallIPs :: "string list"
  trafficLogs :: jsv
  nodeName :: string
  nodeIP :: string
  nodeSSHPort :: jsv
  nodeSSHCreds :: string
  provisionPassword :: string
  selectedNode :: jsv
  inboundTag :: string
  inboundProtocol :: string
  inboundPort :: jsv
  inboundNetwork :: string
  inboundTlsMode :: string
  inboundSNI :: string
  inboundFallback :: string
  userName :: string
  userUUID :: string
  userInboundId :: jsv
  userLimitGB :: jsv
  blockIP :: string
  webhookURL :: string
  webhookSecret :: string
  mcpMethod :: string
  mcpResult :: jsv
  help_card :: "(string \<times> string) option"
  reloads :: "reload list"
  local_store :: storage

type_synonym panel_action = "(panel, unit) page_action"

definition init_panel :: "storage \<Rightarrow> panel" where
  "init_panel st = \<lparr>is_running = JBool False, isLoading = False, message = None, nodes = JArr [], inbounds = JArr [],
     users = JArr [], firewallIPs = [], trafficLogs = JArr [], nodeName = [], nodeIP = [], nodeSSHPort = JNum 22,
     nodeSSHCreds = [], provisionPassword = [], selectedNode = JNull, inboundTag = [], inboundProtocol = ''vless'',
     inboundPort = JNum 443, inboundNetwork = ''tcp'', inboundTlsMode = ''reality'', inboundSNI = ''yahoo.com'',
     inboundFallback = ''127.0.0.1:80'', userName = [], userUUID = [], userInboundId = JStr [], userLimitGB = JNum 100,
     blockIP = [], webhookURL = [], webhookSecret = [], mcpMethod = ''system.status'', mcpResult = JNull, help_card = None,
     reloads = [], local_store = st\<rparr>"

definition panel_token :: "panel \<Rightarrow> string" where
  "panel_token s =
     (let server = get_item_or (local_store s) ''cc_server_token'' [] in
      if server \<noteq> [] then server else get_item_or (local_store s) ''cc_client_token'' [])"

section \<open>Reading the cluster\<close>

definition part_url :: "part \<Rightarrow> string" where
  "part_url p = (case p of Part_nodes \<Rightarrow> ''/api/v2ray/nodes'' | Part_inbounds \<Rightarrow> ''/api/v2ray/inbounds''
     | Part_users \<Rightarrow> ''/api/v2ray/users'' | Part_traffic \<Rightarrow> ''/api/v2ray/traffic/logs''
     | Part_status \<Rightarrow> ''/api/v2ray/core/status'')"

fun next_part :: "part \<Rightarrow> part option" where
  "next_part Part_nodes = Some Part_inbounds"
| "next_part Part_inbounds = Some Part_users"
| "next_part Part_users = Some Part_traffic"
| "next_part Part_traffic = Some Part_status"
| "next_part Part_status = None"

text \<open>The start of \<open>loadData\<close>, up to its first request.\<close>

definition loadData :: "panel \<Rightarrow> panel \<Rightarrow> panel" where
  "loadData c s = s\<lparr>isLoading := True,
     reloads := reloads s @ [\<lparr>awaits = Part_nodes, chosen_inbound = userInboundId c\<rparr>]\<rparr>"

text \<open>The value of an answer in the page. The first inbound is chosen where none was; a list that is none has no length.\<close>

definition choose_first :: "jsv \<Rightarrow> jsv \<Rightarrow> panel \<Rightarrow> panel res" where
  "choose_first chosen ins s =
     (if js_less (JNum 0) (opt_prop ins ''length'') \<and> \<not> truthy chosen
      then (case ins of
          JArr (x # _) \<Rightarrow> (case get_prop x ''ID'' of Inl e \<Rightarrow> Inl e | Inr i \<Rightarrow> Inr (s\<lparr>userInboundId := i\<rparr>))
        | JObj kvs \<Rightarrow> (case get_prop (obj_get kvs ''0'') ''ID'' of Inl e \<Rightarrow> Inl e | Inr i \<Rightarrow> Inr (s\<lparr>userInboundId := i\<rparr>))
        | _ \<Rightarrow> Inr (s\<lparr>userInboundId := JUndef\<rparr>))
      else Inr s)"

fun take_part :: "part \<Rightarrow> jsv \<Rightarrow> jsv \<Rightarrow> panel \<Rightarrow> panel \<times> bool" where
  "take_part Part_nodes chosen v s = (s\<lparr>nodes := js_or v (JArr [])\<rparr>, True)"
| "take_part Part_inbounds chosen v s =
     (let ins = js_or v (JArr []); s1 = s\<lparr>inbounds := ins\<rparr> in
      case choose_first chosen ins s1 of Inl e \<Rightarrow> (s1, False) | Inr s2 \<Rightarrow> (s2, True))"
| "take_part Part_users chosen v s = (s\<lparr>users := js_or v (JArr [])\<rparr>, True)"
| "take_part Part_traffic chosen v s = (s\<lparr>trafficLogs := js_or v (JArr [])\<rparr>, True)"
| "take_part Part_status chosen v s =
     (case get_prop v ''is_running'' of Inl e \<Rightarrow> (s, False) | Inr r \<Rightarrow> (s\<lparr>is_running := r\<rparr>, True))"

text \<open>An answer: what it leaves in the page and whether the reload goes on. A refused request is passed over; a failed one,
  and one whose body does not parse, end the reload.\<close>

definition part_answer :: "reload \<Rightarrow> reply \<Rightarrow> panel \<Rightarrow> panel \<times> bool" where
  "part_answer l r s =
     (case r of
        Rejected e \<Rightarrow> (s, False)
      | Response ok b \<Rightarrow> if ok then (case b of JsonBad e \<Rightarrow> (s, False) | JsonOk v \<Rightarrow> take_part (awaits l) (chosen_inbound l) v s)
          else (s, True))"

definition reload_answer :: "nat \<Rightarrow> reply \<Rightarrow> panel \<Rightarrow> panel" where
  "reload_answer i r s =
     (if i < length (reloads s) then
        (let l = reloads s ! i; (s1, goes) = part_answer l r s in
         case (if goes then next_part (awaits l) else None) of
           None \<Rightarrow> s1\<lparr>isLoading := False, reloads := drop_nth i (reloads s1)\<rparr>
         | Some p \<Rightarrow> s1\<lparr>reloads := (reloads s1)[i := l\<lparr>awaits := p\<rparr>]\<rparr>)
      else s)"

definition reload_requests :: "panel \<Rightarrow> request list" where
  "reload_requests s = map (\<lambda>l. authed_get (panel_token s) (part_url (awaits l))) (reloads s)"

section \<open>Actions\<close>

text \<open>What the actions share: the flag, the message before, and \<open>catch\<close> and \<open>finally\<close>. A refusal leaves no trace except
  for the switch of the core.\<close>

definition failed_with :: "err \<Rightarrow> panel_action" where
  "failed_with e = set_state (\<lambda>s. s\<lparr>message := Some (Bad (JStr e))\<rparr>)"

definition done_loading :: "panel \<Rightarrow> panel" where
  "done_loading s = s\<lparr>isLoading := False\<rparr>"

definition panel_post :: "panel \<Rightarrow> string \<Rightarrow> jsv option \<Rightarrow> request" where
  "panel_post c url v = (case v of
       None \<Rightarrow> http_send ''POST'' url [auth_header (panel_token c)] None
     | Some b \<Rightarrow> post_json (panel_token c) url b)"

definition submit :: "panel \<Rightarrow> string \<Rightarrow> jsv \<Rightarrow> panel_note option \<Rightarrow> (panel \<Rightarrow> panel) \<Rightarrow> panel_action" where
  "submit c url b n ok_done = Set (\<lambda>s. s\<lparr>isLoading := True, message := n\<rparr>)
     (finally_do (try_catch
        (bind (page_fetch (panel_post c url (Some b))) (\<lambda>(ok, _). if ok then set_state ok_done else Done ()))
        failed_with)
      done_loading)"

definition core_text :: "bool \<Rightarrow> string" where
  "core_text start = ''Core process '' @ (if start then ''started'' else ''stopped'') @ '' successfully!''"

definition handleToggleCore :: "bool \<Rightarrow> panel_action" where
  "handleToggleCore start = Get (\<lambda>c. Set (\<lambda>s. s\<lparr>isLoading := True, message := None\<rparr>)
     (finally_do (try_catch
       (bind (page_fetch (panel_post c (''/api/v2ray/core/'' @ (if start then ''start'' else ''stop'')) None)) (\<lambda>(ok, b).
          if ok then set_state (\<lambda>s. s\<lparr>is_running := JBool start, message := Some (Good (core_text start))\<rparr>)
          else bind (read_json b) (\<lambda>d. bind (lift_res (get_prop d ''error'')) (\<lambda>e.
            set_state (\<lambda>s. s\<lparr>message := Some (Bad (js_or e (JStr ''Failed to toggle core.'')))\<rparr>)))))
       failed_with) done_loading))"

definition node_body :: "panel \<Rightarrow> jsv" where
  "node_body s = JObj [(''name'', JStr (nodeName s)), (''ip'', JStr (nodeIP s)), (''ssh_port'', to_number (nodeSSHPort s)),
     (''ssh_credentials'', JStr (nodeSSHCreds s))]"

definition handleAddNode :: panel_action where
  "handleAddNode = Get (\<lambda>c. submit c ''/api/v2ray/nodes'' (node_body c) None
     (\<lambda>s. loadData c (s\<lparr>nodeName := [], nodeIP := [], nodeSSHCreds := [],
        message := Some (Good ''New remote VPS node registered!'')\<rparr>)))"

definition handleProvision :: panel_action where
  "handleProvision = Get (\<lambda>c.
     if \<not> truthy (selectedNode c) \<or> provisionPassword c = [] then Done ()
     else submit c (''/api/v2ray/nodes/'' @ js_string (selectedNode c) @ ''/provision'')
       (JObj [(''password'', JStr (provisionPassword c))])
       (Some (Good ''Connecting to remote host and executing install tools...''))
       (\<lambda>s. loadData c (s\<lparr>provisionPassword := [], selectedNode := JNull,
          message := Some (Good ''SSH provisioning task started in background. Monitor the status below.'')\<rparr>)))"

definition inbound_body :: "panel \<Rightarrow> jsv" where
  "inbound_body s = JObj [(''tag'', JStr (inboundTag s)), (''protocol'', JStr (inboundProtocol s)),
     (''port'', to_number (inboundPort s)), (''network'', JStr (inboundNetwork s)), (''tls_mode'', JStr (inboundTlsMode s)),
     (''sni'', JStr (inboundSNI s)), (''fallback_dest'', JStr (inboundFallback s))]"

definition handleAddInbound :: panel_action where
  "handleAddInbound = Get (\<lambda>c. submit c ''/api/v2ray/inbounds'' (inbound_body c) None
     (\<lambda>s. loadData c (s\<lparr>inboundTag := [], message := Some (Good ''Inbound endpoint rule deployed!'')\<rparr>)))"

definition quota_bytes :: "jsv \<Rightarrow> jsv" where
  "quota_bytes gb = (case to_number gb of JNum n \<Rightarrow> JNum (n * 1024 * 1024 * 1024) | _ \<Rightarrow> JNaN)"

definition user_body :: "panel \<Rightarrow> jsv" where
  "user_body s = JObj [(''name'', JStr (userName s)), (''uuid'', if userUUID s = [] then JUndef else JStr (userUUID s)),
     (''inbound_id'', to_number (userInboundId s)), (''traffic_limit'', quota_bytes (userLimitGB s))]"

definition handleAddUser :: panel_action where
  "handleAddUser = Get (\<lambda>c. submit c ''/api/v2ray/users'' (user_body c) None
     (\<lambda>s. loadData c (s\<lparr>userName := [], userUUID := [],
        message := Some (Good ''Proxy user account created successfully!'')\<rparr>)))"

text \<open>Blocking keeps the message that is there until the server answers.\<close>

definition handleBlockIP :: panel_action where
  "handleBlockIP = Get (\<lambda>c.
     if blockIP c = [] then Done ()
     else Set (\<lambda>s. s\<lparr>isLoading := True\<rparr>)
       (finally_do (try_catch
         (bind (page_fetch (panel_post c ''/api/v2ray/firewall/block'' (Some (JObj [(''ip'', JStr (blockIP c))]))))
           (\<lambda>(ok, _). if ok then set_state (\<lambda>s. s\<lparr>firewallIPs := firewallIPs c @ [blockIP c], blockIP := [],
              message := Some (Good ''IP blocked in kernel firewall.'')\<rparr>) else Done ()))
         failed_with) done_loading))"

definition mcp_body :: "panel \<Rightarrow> jsv" where
  "mcp_body s = JObj [(''jsonrpc'', JStr ''2.0''), (''method'', JStr (mcpMethod s)), (''params'', JObj []), (''id'', JNum 1)]"

definition handleTestMCP :: panel_action where
  "handleTestMCP = Get (\<lambda>c. Set (\<lambda>s. s\<lparr>isLoading := True, mcpResult := JNull\<rparr>)
     (finally_do (quietly
       (bind (page_fetch (panel_post c ''/api/v2ray/mcp'' (Some (mcp_body c)))) (\<lambda>(ok, b).
          if ok then bind (read_json b) (\<lambda>v. set_state (\<lambda>s. s\<lparr>mcpResult := v\<rparr>)) else Done ())))
       done_loading))"

definition save_webhook :: "panel \<Rightarrow> panel" where
  "save_webhook s = s\<lparr>message := Some (Good ''Webhook listener registered!'')\<rparr>"

definition trigger_provision :: "jsv \<Rightarrow> panel \<Rightarrow> panel" where
  "trigger_provision node s = s\<lparr>selectedNode := opt_prop node ''ID''\<rparr>"

section \<open>What is shown\<close>

definition start_disabled :: "panel \<Rightarrow> bool" where
  "start_disabled s \<longleftrightarrow> truthy (is_running s) \<or> isLoading s"

definition stop_disabled :: "panel \<Rightarrow> bool" where
  "stop_disabled s \<longleftrightarrow> \<not> truthy (is_running s) \<or> isLoading s"

definition used_gb :: "rat \<Rightarrow> rat \<Rightarrow> string" where
  "used_gb up down = show_fixed 2 ((up + down) / (1024 * 1024 * 1024)) @ '' GB''"

definition limit_text :: "rat \<Rightarrow> string" where
  "limit_text l = (if 0 < l then show_fixed 0 (l / (1024 * 1024 * 1024)) @ '' GB'' else ''Unlimited'')"

definition shown_logs :: "jsv list \<Rightarrow> jsv list" where
  "shown_logs ls = take 15 ls"

definition log_name :: "jsv \<Rightarrow> jsv" where
  "log_name l = js_or (js_or (opt_prop l ''name'') (opt_prop l ''uuid'')) (JStr ''Client'')"

definition status_text :: "panel \<Rightarrow> string" where
  "status_text s = (if truthy (is_running s) then ''ACTIVE'' else ''INACTIVE'')"

section \<open>Runs\<close>

text \<open>A request that the server refuses: the form keeps its values, and nothing on the page tells of the refusal.\<close>

lemma panel_refusal_silent:
  "final (submit c url b n k) [Replied (Response False v)] s = s\<lparr>message := n, isLoading := False\<rparr>"
  by (simp add: submit_def final_def page_fetch_def done_loading_def)

text \<open>After an action the flag is down while the reload that it started still waits.\<close>

lemma reload_without_spinner:
  assumes "final handleAddInbound [Replied (Response True v)] s = s'"
  shows "\<not> isLoading s' \<and> reload_requests s' =
     reload_requests s @ [authed_get (panel_token s) ''/api/v2ray/nodes'']"
  using assms by (auto simp: handleAddInbound_def submit_def final_def page_fetch_def done_loading_def loadData_def
      reload_requests_def panel_token_def part_url_def Let_def)

text \<open>A reload that is alone: its answers in order, up to the first that fails.\<close>

definition list_after :: "reply \<Rightarrow> jsv \<Rightarrow> jsv" where
  "list_after r old = (case r of Response True (JsonOk v) \<Rightarrow> js_or v (JArr []) | _ \<Rightarrow> old)"

definition passed :: "reply \<Rightarrow> bool" where
  "passed r \<longleftrightarrow> (case r of Rejected e \<Rightarrow> False | Response ok b \<Rightarrow> \<not> ok \<or> (\<exists>v. b = JsonOk v))"

lemma nodes_answer: "awaits l = Part_nodes \<Longrightarrow> part_answer l r s = (s\<lparr>nodes := list_after r (nodes s)\<rparr>, passed r)"
  by (simp add: part_answer_def list_after_def passed_def split: reply.splits body.splits)

lemma users_answer: "awaits l = Part_users \<Longrightarrow> part_answer l r s = (s\<lparr>users := list_after r (users s)\<rparr>, passed r)"
  by (simp add: part_answer_def list_after_def passed_def split: reply.splits body.splits)

lemma traffic_answer: "awaits l = Part_traffic \<Longrightarrow> part_answer l r s = (s\<lparr>trafficLogs := list_after r (trafficLogs s)\<rparr>, passed r)"
  by (simp add: part_answer_def list_after_def passed_def split: reply.splits body.splits)

text \<open>When the nodes cannot be read, nothing else is asked for, and no message is shown.\<close>

lemma failed_nodes_end_reload:
  assumes "reloads s = [\<lparr>awaits = Part_nodes, chosen_inbound = i\<rparr>]" and "\<not> passed r"
  shows "reload_answer 0 r s = s\<lparr>isLoading := False, reloads := []\<rparr>"
proof -
  have "list_after r (nodes s) = nodes s"
    using assms(2) by (auto simp: passed_def list_after_def split: reply.splits body.splits bool.splits)
  then show ?thesis using assms by (simp add: reload_answer_def nodes_answer drop_nth_def)
qed

lemma inbounds_answer:
  "awaits l = Part_inbounds \<Longrightarrow> truthy (chosen_inbound l) \<Longrightarrow>
     part_answer l r s = (s\<lparr>inbounds := list_after r (inbounds s)\<rparr>, passed r)"
  by (simp add: part_answer_def list_after_def passed_def choose_first_def Let_def split: reply.splits body.splits)

lemma reload_reads_all:
  assumes "reloads s = [\<lparr>awaits = Part_nodes, chosen_inbound = i\<rparr>]" and "truthy i"
    and "passed r1" "passed r2" "passed r3" "passed r4" and "r5 = Response True (JsonOk v)" and "get_prop v ''is_running'' = Inr b"
  shows "fold (reload_answer 0) [r1, r2, r3, r4, r5] s =
    s\<lparr>nodes := list_after r1 (nodes s), inbounds := list_after r2 (inbounds s), users := list_after r3 (users s),
      trafficLogs := list_after r4 (trafficLogs s), is_running := b, isLoading := False, reloads := []\<rparr>"
  using assms
  by (simp add: reload_answer_def nodes_answer inbounds_answer users_answer traffic_answer drop_nth_def)
    (simp add: part_answer_def drop_nth_def)

end
