(* ===== verification/Warp_Page.thy ===== *)
theory Warp_Page
  imports Warp_Store Zoom Formats Regex Page
begin

text \<open>
  The WARP page (\<open>WarpPage.tsx\<close>) over the model of its store: the form of the engine with its mark of unsaved changes, the
  switch, the pool of accounts with the check of a key, the scan with its polls, and what the panels compute. The one
  effect that writes is that of the form on the settings of the store. The number fields of the scan hold whole numbers.
\<close>

section \<open>State\<close>

record warp_page =
  wstore :: warp_state
  transportMode :: jsv
  targetSni :: jsv
  socksPort :: jsv
  httpPort :: jsv
  isDirty :: bool
  licenseKey :: string
  showForm :: bool
  confirmDelete :: "int option"
  verifying :: bool
  verifyResult :: jsv
  healthCheckId :: "int option"
  healthResult :: "int \<rightharpoonup> jsv"
  scanMode :: string
  workers :: int
  timeoutMs :: int

type_synonym warp_act = "(warp_page, unit) action"

definition default_sni :: jsv where
  "default_sni = JStr ''consumer-masque.cloudflareclient.com''"

definition init_warp_page :: "warp_state \<Rightarrow> warp_page" where
  "init_warp_page st = \<lparr>wstore = st, transportMode = JStr ''masque'', targetSni = default_sni, socksPort = JNum 10880,
     httpPort = JNum 10881, isDirty = False, licenseKey = [], showForm = False, confirmDelete = None, verifying = False,
     verifyResult = JNull, healthCheckId = None, healthResult = Map.empty, scanMode = ''masque'', workers = 0,
     timeoutMs = 2000\<rparr>"

section \<open>The store in the page\<close>

definition read_config :: "jsv \<Rightarrow> warp_page \<Rightarrow> warp_page" where
  "read_config c s = s\<lparr>transportMode := js_or (opt_prop c ''transport_mode'') (JStr ''masque''),
     targetSni := js_or (opt_prop c ''target_sni'') default_sni, socksPort := js_or (opt_prop c ''socks_port'') (JNum 10880),
     httpPort := js_or (opt_prop c ''http_port'') (JNum 10881), isDirty := False\<rparr>"

definition config_effect :: "warp_page \<Rightarrow> warp_page" where
  "config_effect s = (if truthy (config (wstore s)) then read_config (config (wstore s)) s else s)"

definition on_warp :: "(warp_state \<Rightarrow> warp_state) \<Rightarrow> warp_page \<Rightarrow> warp_page" where
  "on_warp f s =
     (let s1 = s\<lparr>wstore := f (wstore s)\<rparr> in if writes config config_update f (wstore s) then config_effect s1 else s1)"

abbreviation in_warp :: "warp_action \<Rightarrow> warp_act" where
  "in_warp \<equiv> zoom wstore on_warp"

definition mount_warp :: "warp_page \<Rightarrow> warp_act list" where
  "mount_warp s = [in_warp (fetchScanResults (Some (scanMode s))), in_warp fetchGlobalConfig, in_warp fetchAccounts,
     in_warp fetchStatus]"

section \<open>The engine\<close>

definition tuning_patch :: "warp_page \<Rightarrow> jsv" where
  "tuning_patch s = JObj [(''transport_mode'', transportMode s), (''target_sni'', targetSni s),
     (''socks_port'', socksPort s), (''http_port'', httpPort s)]"

definition handleSave :: warp_act where
  "handleSave = Get (\<lambda>c. bind (await_task (in_warp (commitEngineTuning (tuning_patch c))))
     (\<lambda>_. set_state (\<lambda>s. s\<lparr>isDirty := False\<rparr>)))"

definition choose_transport :: "string \<Rightarrow> warp_page \<Rightarrow> warp_page" where
  "choose_transport m s = s\<lparr>transportMode := JStr m, isDirty := True\<rparr>"

definition type_sni :: "string \<Rightarrow> warp_page \<Rightarrow> warp_page" where
  "type_sni v s = s\<lparr>targetSni := JStr (filter (\<lambda>c. \<not> is_space c) v), isDirty := True\<rparr>"

definition type_socks :: "string \<Rightarrow> warp_page \<Rightarrow> warp_page" where
  "type_socks v s = s\<lparr>socksPort := str_number v, isDirty := True\<rparr>"

definition type_http :: "string \<Rightarrow> warp_page \<Rightarrow> warp_page" where
  "type_http v s = s\<lparr>httpPort := str_number v, isDirty := True\<rparr>"

definition portInvalid :: "jsv \<Rightarrow> bool" where
  "portInvalid p \<longleftrightarrow> js_less p (JNum 1024) \<or> js_less (JNum 65535) p"

definition socksPortConflict :: "warp_page \<Rightarrow> bool" where
  "socksPortConflict s \<longleftrightarrow> strict_eq (socksPort s) (httpPort s)"

definition apply_disabled :: "warp_page \<Rightarrow> bool" where
  "apply_disabled s \<longleftrightarrow> globalLoading (wstore s) \<or> \<not> isDirty s \<or> socksPortConflict s \<or> portInvalid (socksPort s) \<or>
     portInvalid (httpPort s)"

text \<open>The switch: the message goes first. While the engine is up its status is asked for every 8 seconds.\<close>

definition switch_tunnel :: warp_act where
  "switch_tunnel = Set (on_warp clearError) (in_warp toggleTunnelLifecycle)"

definition status_poll :: "warp_page \<Rightarrow> warp_act option" where
  "status_poll s = (if engine_up (wstore s) then Some (in_warp fetchStatus) else None)"

definition tcp_fallback :: "warp_page \<Rightarrow> bool" where
  "tcp_fallback s \<longleftrightarrow> opt_prop (engineStatus (wstore s)) ''tcp_fallback'' = JBool True"

definition status_label :: "TunnelStatus \<Rightarrow> string" where
  "status_label t = (case t of Dormant \<Rightarrow> ''DORMANT'' | Sweeping \<Rightarrow> ''SCANNING'' | Linking \<Rightarrow> ''LINKING'' | Active \<Rightarrow> ''ACTIVE''
     | Restricted \<Rightarrow> ''RESTRICTED'')"

definition status_color :: "TunnelStatus \<Rightarrow> string" where
  "status_color t = (case t of Dormant \<Rightarrow> ''#94a3b8'' | Sweeping \<Rightarrow> ''#f59e0b'' | Linking \<Rightarrow> ''#6366f1'' | Active \<Rightarrow> ''#10b981''
     | Restricted \<Rightarrow> ''#ef4444'')"

section \<open>The pool of accounts\<close>

definition handleRegister :: warp_act where
  "handleRegister = Get (\<lambda>c. try_catch
     (bind (await_task (in_warp (provisionNewLicense (licenseKey c))))
       (\<lambda>_. set_state (\<lambda>s. s\<lparr>licenseKey := [], showForm := False\<rparr>)))
     (\<lambda>_. Done ()))"

definition blank_stages :: jsv where
  "blank_stages = (let b = JObj [(''passed'', JBool False), (''message'', JStr [])] in
     JObj [(''crypto_preflight'', b), (''device_registration'', b), (''license_upgrade'', b), (''quota_scrape'', b)])"

definition failed_check :: "string \<Rightarrow> jsv" where
  "failed_check e = JObj [(''success'', JBool False), (''key_state'', JStr ''failed''), (''error_message'', JStr e),
     (''stages'', blank_stages)]"

text \<open>\<open>text_of\<close> is the text \<open>String(e)\<close> of an exception. The status of the reply is not looked at.\<close>

definition handleVerifyKey :: "(err \<Rightarrow> string) \<Rightarrow> warp_act" where
  "handleVerifyKey text_of = Get (\<lambda>c.
     if licenseKey c = [] then Done ()
     else Set (\<lambda>s. s\<lparr>verifying := True, verifyResult := JNull\<rparr>)
       (finally_do (try_catch
         (bind (fetch (post_json (warp_getToken (wstore c)) ''/api/v2ray/warp/accounts/verify''
             (JObj [(''license_key'', JStr (licenseKey c))])))
           (\<lambda>(_, b). bind (read_json b) (\<lambda>d. set_state (\<lambda>s. s\<lparr>verifyResult := d\<rparr>))))
         (\<lambda>e. set_state (\<lambda>s. s\<lparr>verifyResult := failed_check (text_of e)\<rparr>)))
       (\<lambda>s. s\<lparr>verifying := False\<rparr>)))"

definition handleHealthCheck :: "(err \<Rightarrow> string) \<Rightarrow> int \<Rightarrow> warp_act" where
  "handleHealthCheck text_of i = Get (\<lambda>c. Set (\<lambda>s. s\<lparr>healthCheckId := Some i\<rparr>)
     (finally_do (try_catch
       (bind (fetch (http_send ''POST'' (''/api/v2ray/warp/accounts/'' @ show_int i @ ''/verify'')
           [auth_header (warp_getToken (wstore c))] None))
         (\<lambda>(_, b). bind (read_json b) (\<lambda>d. set_state (\<lambda>s. s\<lparr>healthResult := (healthResult s)(i \<mapsto> d)\<rparr>))))
       (\<lambda>e. set_state (\<lambda>s. s\<lparr>healthResult := (healthResult s)(i \<mapsto> failed_check (text_of e))\<rparr>)))
     (\<lambda>s. s\<lparr>healthCheckId := None\<rparr>)))"

definition health_shown :: "warp_page \<Rightarrow> int \<Rightarrow> bool" where
  "health_shown s i \<longleftrightarrow> (case healthResult s i of None \<Rightarrow> False | Some r \<Rightarrow> truthy r)"

text \<open>The button of an account hides a result that is there.\<close>

definition health_button :: "(err \<Rightarrow> string) \<Rightarrow> int \<Rightarrow> warp_act" where
  "health_button text_of i = Get (\<lambda>c.
     if health_shown c i then set_state (\<lambda>s. s\<lparr>healthResult := (healthResult s)(i := None)\<rparr>)
     else handleHealthCheck text_of i)"

text \<open>\<open>/^[A-Za-z0-9]{8}-[A-Za-z0-9]{8}-[A-Za-z0-9]{8}$/\<close>.\<close>

definition alnum :: string where
  "alnum = ''ABCDEFGHIJKLMNOPQRSTUVWXYZabcdefghijklmnopqrstuvwxyz0123456789''"

definition license_re :: re where
  "license_re = (let group = Times 8 (Class alnum) in Seqs [group, Lit ''-'', group, Lit ''-'', group])"

definition license_format :: "string \<Rightarrow> bool" where
  "license_format k = test license_re k"

definition verify_disabled :: "warp_page \<Rightarrow> bool" where
  "verify_disabled s \<longleftrightarrow> verifying s \<or> licenseKey s = [] \<or> \<not> license_format (licenseKey s)"

definition register_disabled :: "warp_page \<Rightarrow> bool" where
  "register_disabled s \<longleftrightarrow> globalLoading (wstore s) \<or> (licenseKey s \<noteq> [] \<and> \<not> license_format (licenseKey s))"

definition cancel_form :: "warp_page \<Rightarrow> warp_page" where
  "cancel_form s = s\<lparr>showForm := False, licenseKey := [], verifyResult := JNull\<rparr>"

definition toggle_form :: "warp_page \<Rightarrow> warp_page" where
  "toggle_form s = s\<lparr>showForm := \<not> showForm s\<rparr>"

definition confirm_delete :: "int \<Rightarrow> warp_act" where
  "confirm_delete i = Set (\<lambda>s. s\<lparr>confirmDelete := None\<rparr>) (in_warp (deleteAccount i))"

definition is_active_account :: "warp_page \<Rightarrow> jsv \<Rightarrow> bool" where
  "is_active_account s acc \<longleftrightarrow>
     strict_eq (opt_prop (opt_prop (config (wstore s)) ''active_account'') ''id'') (opt_prop acc ''ID'')"

definition account_label :: "jsv \<Rightarrow> string" where
  "account_label acc = (if opt_prop acc ''account_type'' = JStr ''warp_plus'' then ''WARP+'' else ''WARP Free'')"

definition activate_disabled :: "warp_page \<Rightarrow> jsv \<Rightarrow> bool" where
  "activate_disabled s acc \<longleftrightarrow> globalLoading (wstore s) \<or> \<not> truthy (opt_prop acc ''is_functional'')"

text \<open>The panel of a check: its stages, or the exception that takes the page down.\<close>

definition stage_names :: "(string \<times> string) list" where
  "stage_names = [(''crypto_preflight'', ''1. Crypto Preflight''), (''device_registration'', ''2. Device Registration''),
     (''license_upgrade'', ''3. License Upgrade''), (''quota_scrape'', ''4. Quota Scrape'')]"

definition stage_row :: "jsv \<Rightarrow> string \<times> string \<Rightarrow> (string \<times> bool \<times> jsv) list res" where
  "stage_row stages kn = (case get_prop stages (fst kn) of Inl e \<Rightarrow> Inl e
     | Inr st \<Rightarrow> Inr (if truthy st then [(snd kn, truthy (opt_prop st ''passed''), opt_prop st ''message'')] else []))"

definition stage_rows :: "jsv \<Rightarrow> (string \<times> bool \<times> jsv) list res" where
  "stage_rows result = (case map_res (stage_row (opt_prop result ''stages'')) stage_names of Inl e \<Rightarrow> Inl e
     | Inr rows \<Rightarrow> Inr (concat rows))"

definition check_mark :: string where
  "check_mark = [CHR 0xE2, CHR 0x9C, CHR 0x93, CHR '' '']"

definition warning_mark :: string where
  "warning_mark = [CHR 0xE2, CHR 0x9A, CHR 0xA0, CHR '' '']"

definition cross_mark :: string where
  "cross_mark = [CHR 0xE2, CHR 0x9C, CHR 0x97, CHR '' '']"

definition key_state_labels :: "(string \<times> string) list" where
  "key_state_labels = [(''verified'', check_mark @ ''Verified''),
     (''exhausted_devices'', warning_mark @ ''Max Devices''), (''invalid_token'', cross_mark @ ''Invalid / Expired''),
     (''invalid_format'', cross_mark @ ''Bad Format''), (''depleted_quota'', warning_mark @ ''Quota Exhausted''),
     (''failed'', cross_mark @ ''Network Error'')]"

definition key_state_label :: "jsv \<Rightarrow> jsv" where
  "key_state_label result = (let k = opt_prop result ''key_state'' in
     case map_of key_state_labels (js_string k) of Some l \<Rightarrow> JStr l | None \<Rightarrow> k)"

definition cf_code_shown :: "jsv \<Rightarrow> bool" where
  "cf_code_shown result \<longleftrightarrow>
     (let c = opt_prop result ''cloudflare_error_code'' in \<not> nullish c \<and> \<not> strict_eq c (JNum 0))"

definition used_width :: "rat \<Rightarrow> rat \<Rightarrow> rat" where
  "used_width used quota = min 100 (used / quota * 100)"

section \<open>The scan\<close>

definition isScanning :: "warp_page \<Rightarrow> bool" where
  "isScanning s \<longleftrightarrow> tunnelStatus (wstore s) = Sweeping \<or>
     truthy (js_coalesce (opt_prop (scanProgress (wstore s)) ''is_running'') (JBool False))"

definition choose_scan_mode :: "string \<Rightarrow> warp_act" where
  "choose_scan_mode m = Get (\<lambda>c. Set (\<lambda>s. s\<lparr>scanMode := m\<rparr>)
     (if m = scanMode c then Done () else in_warp (fetchScanResults (Some m))))"

text \<open>The polls, every 3 seconds and every 800 milliseconds.\<close>

definition results_poll :: "warp_page \<Rightarrow> warp_act option" where
  "results_poll s = (if isScanning s then Some (in_warp (fetchScanResults (Some (scanMode s)))) else None)"

definition events_poll :: "warp_page \<Rightarrow> warp_act option" where
  "events_poll s = (if isScanning s then Some (in_warp fetchScanEvents) else None)"

definition handleStartScan :: warp_act where
  "handleStartScan = Get (\<lambda>c. in_warp
     (initiateManualEdgeScan (if workers c = 0 then None else Some (workers c)) (Some (timeoutMs c))))"

definition event_text :: "jsv \<Rightarrow> string" where
  "event_text ev = (if opt_prop ev ''status'' = JStr ''pass'' then ''PASS''
     else if opt_prop ev ''status'' = JStr ''tcp_ok'' then ''TCP ONLY'' else ''FAIL'')"

definition event_color :: "jsv \<Rightarrow> string" where
  "event_color st = (if st = JStr ''pass'' then ''#10b981'' else if st = JStr ''tcp_ok'' then ''#f59e0b'' else ''#6b7280'')"

definition latency_color :: "rat \<Rightarrow> string" where
  "latency_color ms = (if ms < 100 then ''#10b981'' else if ms < 300 then ''#f59e0b'' else ''#ef4444'')"

definition score_color :: "jsv \<Rightarrow> string" where
  "score_color v = (let score = js_coalesce v (JNum 0) in
     if js_less (JNum 800) score then ''#10b981'' else if js_less (JNum 500) score then ''#f59e0b'' else ''#ef4444'')"

section \<open>Drawings\<close>

definition quota_color :: "int \<Rightarrow> string" where
  "quota_color pct = (if 80 < pct then ''#f59e0b'' else if 60 < pct then ''#6366f1'' else ''#10b981'')"

text \<open>The line of the latencies in a box, as points.\<close>

definition or_one :: "rat \<Rightarrow> rat" where
  "or_one x = (if x = 0 then 1 else x)"

definition spark_y :: "rat \<Rightarrow> rat list \<Rightarrow> rat \<Rightarrow> rat" where
  "spark_y height values v =
     (let lo = Min (set values); hi = or_one (Max (set values)); range = or_one (hi - lo)
      in height - (v - lo) / range * (height - 10) - 5)"

definition spark_points :: "rat \<Rightarrow> rat \<Rightarrow> rat list \<Rightarrow> (rat \<times> rat) list" where
  "spark_points width height values =
     map (\<lambda>i. (of_nat i / of_nat (max (length values - 1) 1) * width, spark_y height values (values ! i))) [0..<length values]"

chapter \<open>What holds of it\<close>

text \<open>
  The WARP page: the actions of the store do in the page what they do alone, the line of latencies lies in its box, the format
  of a key, and the runs in which unsaved changes are lost or a reply takes the page down.
\<close>

section \<open>The store in the page\<close>

lemma store_of_effect [simp]: "wstore (config_effect s) = wstore s"
  by (simp add: config_effect_def read_config_def)

interpretation warp_page: exact_store wstore on_warp
  by unfold_locales (simp add: on_warp_def Let_def)

section \<open>Keys and drawings\<close>

lemma license_format_groups:
  "license_format k \<longleftrightarrow> (\<exists>a b c. k = a @ ''-'' @ b @ ''-'' @ c \<and> length a = 8 \<and> length b = 8 \<and> length c = 8 \<and>
     set a \<union> set b \<union> set c \<subseteq> set alnum)"
proof -
  have "lang (Seqs [g, Lit d, g, Lit d, g]) k \<longleftrightarrow> (\<exists>a b c. k = a @ d @ b @ d @ c \<and> lang g a \<and> lang g b \<and> lang g c)" for g d
  proof
    show "\<exists>a b c. k = a @ d @ b @ d @ c \<and> lang g a \<and> lang g b \<and> lang g c \<Longrightarrow> lang (Seqs [g, Lit d, g, Lit d, g]) k"
    proof (elim exE conjE)
      fix a b c assume k: "k = a @ d @ b @ d @ c" and l: "lang g a" "lang g b" "lang g c"
      have join: "lang r x \<Longrightarrow> lang (Seqs rs) y \<Longrightarrow> lang (Seqs (r # rs)) (x @ y)" for r rs x y by auto
      have "lang (Seqs [g]) c" using l(3) by simp
      then show "lang (Seqs [g, Lit d, g, Lit d, g]) k" unfolding k by (intro join l) simp_all
    qed
  qed auto
  then have "license_format k \<longleftrightarrow> (\<exists>a b c. k = a @ ''-'' @ b @ ''-'' @ c \<and> lang (Times 8 (Class alnum)) a \<and>
      lang (Times 8 (Class alnum)) b \<and> lang (Times 8 (Class alnum)) c)"
    unfolding license_format_def test_lang license_re_def Let_def by blast
  then show ?thesis unfolding lang_Times_Class by blast
qed

lemma spark_in_box:
  assumes "v \<in> set values" and "10 \<le> height"
  shows "5 \<le> spark_y height values v \<and> spark_y height values v \<le> height - 5"
proof -
  let ?lo = "Min (set values)" and ?hi = "Max (set values)"
  let ?r = "or_one (or_one ?hi - ?lo)"
  have v: "?lo \<le> v" "v \<le> ?hi" using assms(1) by simp_all
  then have r: "0 < ?r" "v - ?lo \<le> ?r" by (auto simp: or_one_def)
  then have f: "0 \<le> (v - ?lo) / ?r" "(v - ?lo) / ?r \<le> 1" using v(1) by (simp_all add: field_simps)
  have "0 \<le> (v - ?lo) / ?r * (height - 10)" using f(1) assms(2) by (intro mult_nonneg_nonneg) simp_all
  moreover have "(v - ?lo) / ?r * (height - 10) \<le> height - 10"
    using mult_right_mono [OF f(2), of "height - 10"] assms(2) by simp
  ultimately show ?thesis by (simp add: spark_y_def Let_def)
qed

section \<open>Unsaved changes\<close>

text \<open>A save that fails takes the mark of unsaved changes away, and with it the button; the message is in the store.\<close>

lemma refused_save_marks_clean:
  "\<not> isDirty (final handleSave [Response False (JsonOk v)] s)"
  "\<not> isDirty (final handleSave [Rejected e] s)"
  by (simp_all add: handleSave_def final_def commitEngineTuning_def warp_request_def warp_fetch_def fetch_def api_error_def
      read_json_def lift_res_def await_task_def warp_error_def split: sum.splits)

text \<open>Every reading of the settings, also the one after the switch or after choosing an account, puts the form back.\<close>

lemma settings_overwrite_form:
  assumes "truthy c"
  shows "on_warp (\<lambda>st. st\<lparr>config := c\<rparr>) s = read_config c (s\<lparr>wstore := (wstore s)\<lparr>config := c\<rparr>\<rparr>)"
proof -
  have "c \<noteq> JUndef" "c \<noteq> JNull" using assms by auto
  then show ?thesis using assms by (simp add: on_warp_def writes_def config_effect_def)
qed

section \<open>Replies and scans\<close>

text \<open>A reply of the check that has no stages, such as a message of failure, ends in an exception while the page is drawn.\<close>

lemma reply_without_stages:
  "\<exists>e. stage_rows (JObj [(''error'', x)]) = Inl e"
  by (simp add: stage_rows_def stage_names_def stage_row_def obj_get_def opt_prop_def)

lemma refused_check_is_shown:
  "licenseKey s \<noteq> [] \<Longrightarrow> verifyResult (final (handleVerifyKey f) [Response False (JsonOk v)] s) = v"
  by (simp add: handleVerifyKey_def final_def fetch_def read_json_def)

text \<open>The scan is started without its mode, and the results asked for at its start are those of MASQUE.\<close>

lemma scan_without_mode:
  assumes "h = warp_apiHeaders (wstore s)"
  shows "requests handleStartScan [Response True b] s =
    [http_send ''POST'' ''/api/v2ray/warp/scan'' h
       (Some (scan_body (if workers s = 0 then None else Some (workers s)) (Some (timeoutMs s)))),
     http_send ''GET'' ''/api/v2ray/warp/scan/results?mode=masque'' h None]"
proof -
  have w: "wstore (on_warp f s) = f (wstore s)" for f s by (simp add: on_warp_def Let_def)
  show ?thesis
    by (simp add: assms handleStartScan_def requests_def initiateManualEdgeScan_def fetchScanResults_def warp_fetch_def fetch_def
        await_task_def w warp_apiHeaders_def warp_getToken_def)
qed

end
