(* ===== verification/Tunnel_Page.thy ===== *)
theory Tunnel_Page
  imports TrustTunnel_Store Zoom
begin

text \<open>
  The TrustTunnel pages of both applications (\<open>TrustTunnelPage.tsx\<close>) over the model of their store: the form with the effect
  that fills it from the settings, the presets, saving, the switch of the automatic start, accounts and rules, the import of a
  token on the client, its export and the certificates on the server. What the two pages share is written once.
\<close>

section \<open>State\<close>

record tt_page =
  tt_store :: tt_state
  forcedTransport :: jsv
  authFailureStatusCode :: jsv
  clientRandomPrefix :: jsv
  h2InitialStreamWindowSize :: jsv
  h2InitialConnWindowSize :: jsv
  tlsHandshakeTimeoutSecs :: jsv
  activePreset :: jsv
  serverHostname :: jsv
  tlsServerCert :: jsv
  newCidr :: string
  newStrategy :: string
  newDesc :: string
  showAdvanced :: bool

record tt_client = tt_page +
  connectAddress :: jsv
  socks5Port :: jsv
  httpPort :: jsv
  killSwitchEnabled :: jsv
  clientUsername :: jsv
  clientPassword :: jsv
  skipTlsVerify :: jsv
  dnsUpstreams :: jsv
  importTokenStr :: string

record tt_server = tt_page +
  listenAddress :: jsv
  tlsCertPath :: jsv
  tlsKeyPath :: jsv
  publicTlsPort :: jsv
  acmeEmail :: string
  usernameInput :: string
  passwordInput :: string
  exportedToken :: jsv
  certCopied :: bool

type_synonym ('z, 'a) tt_act = "('z tt_page_scheme, 'a) action"

definition init_shared :: "tt_state \<Rightarrow> tt_page" where
  "init_shared st = \<lparr>tt_store = st, forcedTransport = JStr ''http2'', authFailureStatusCode = JNum 404,
     clientRandomPrefix = JStr ''a0b0/f0f0'', h2InitialStreamWindowSize = JNum 131072,
     h2InitialConnWindowSize = JNum 262144, tlsHandshakeTimeoutSecs = JNum 4, activePreset = JStr ''iran-stealth'',
     serverHostname = JStr [], tlsServerCert = JStr [], newCidr = [], newStrategy = ''direct-route'', newDesc = [],
     showAdvanced = False\<rparr>"

definition init_tt_client :: "tt_state \<Rightarrow> tt_client" where
  "init_tt_client st = tt_page.extend (init_shared st)
     (tt_client.fields (JStr []) (JNum 1088) (JNum 1089) (JBool False) (JStr []) (JStr []) (JBool False) (JStr []) [])"

definition init_tt_server :: "tt_state \<Rightarrow> tt_server" where
  "init_tt_server st = tt_page.extend (init_shared st)
     (tt_server.fields (JStr ''0.0.0.0:443'') (JStr []) (JStr []) (JNum 0) [] [] [] (JStr []) False)"

section \<open>The effect that fills the form\<close>

definition read_shared :: "jsv \<Rightarrow> 'z tt_page_scheme \<Rightarrow> 'z tt_page_scheme" where
  "read_shared c s = s\<lparr>
     forcedTransport := js_or (opt_prop c ''forced_transport'') (JStr ''http2''),
     authFailureStatusCode := js_or (opt_prop c ''auth_failure_status_code'') (JNum 404),
     clientRandomPrefix := js_or (opt_prop c ''client_random_prefix'') (JStr []),
     h2InitialStreamWindowSize := js_or (opt_prop c ''h2_initial_stream_window_size'') (JNum 131072),
     h2InitialConnWindowSize := js_or (opt_prop c ''h2_initial_conn_window_size'') (JNum 262144),
     tlsHandshakeTimeoutSecs := js_or (opt_prop c ''tls_handshake_timeout_secs'') (JNum 4),
     activePreset := js_or (opt_prop c ''active_preset'') (JStr ''iran-stealth''),
     serverHostname := js_or (opt_prop c ''server_hostname'') (JStr []),
     tlsServerCert := js_or (opt_prop c ''tls_server_cert'') (JStr [])\<rparr>"

definition read_client :: "jsv \<Rightarrow> tt_client \<Rightarrow> tt_client" where
  "read_client c s = (read_shared c s)\<lparr>
     connectAddress := js_or (opt_prop c ''connect_address'') (JStr []),
     socks5Port := js_or (opt_prop c ''socks5_port'') (JNum 1088),
     httpPort := js_or (opt_prop c ''http_port'') (JNum 1089),
     killSwitchEnabled := js_or (opt_prop c ''kill_switch_enabled'') (JBool False),
     clientUsername := js_or (opt_prop c ''client_username'') (JStr []),
     clientPassword := js_or (opt_prop c ''client_password'') (JStr []),
     skipTlsVerify := js_or (opt_prop c ''skip_tls_verify'') (JBool False),
     dnsUpstreams := js_or (opt_prop c ''dns_upstreams'') (JStr [])\<rparr>"

definition read_server :: "jsv \<Rightarrow> tt_server \<Rightarrow> tt_server" where
  "read_server c s = (read_shared c s)\<lparr>
     listenAddress := js_or (opt_prop c ''listen_address'') (JStr ''0.0.0.0:443''),
     tlsCertPath := js_or (opt_prop c ''tls_cert_path'') (JStr []),
     tlsKeyPath := js_or (opt_prop c ''tls_key_path'') (JStr []),
     publicTlsPort := js_or (opt_prop c ''public_tls_port'') (JNum 0)\<rparr>"

text \<open>A write of the store in the page that reads the settings with \<open>reads\<close>.\<close>

definition on_tt :: "(jsv \<Rightarrow> 'z tt_page_scheme \<Rightarrow> 'z tt_page_scheme) \<Rightarrow> (tt_state \<Rightarrow> tt_state) \<Rightarrow>
    'z tt_page_scheme \<Rightarrow> 'z tt_page_scheme" where
  "on_tt reads f s =
     (let st = f (tt_store s); s1 = s\<lparr>tt_store := st\<rparr> in
      if writes config config_update f (tt_store s) \<and> truthy (config st) then reads (config st) s1 else s1)"

abbreviation in_tt where
  "in_tt reads \<equiv> zoom tt_store (on_tt reads)"

section \<open>Presets\<close>

definition put_preset :: "string \<Rightarrow> rat \<Rightarrow> string \<Rightarrow> rat \<Rightarrow> rat \<Rightarrow> rat \<Rightarrow> 'z tt_page_scheme \<Rightarrow> 'z tt_page_scheme" where
  "put_preset tr code prefix stream conn secs s = s\<lparr>forcedTransport := JStr tr, authFailureStatusCode := JNum code,
     clientRandomPrefix := JStr prefix, h2InitialStreamWindowSize := JNum stream, h2InitialConnWindowSize := JNum conn,
     tlsHandshakeTimeoutSecs := JNum secs\<rparr>"

definition applyPresetLocally :: "string \<Rightarrow> 'z tt_page_scheme \<Rightarrow> 'z tt_page_scheme" where
  "applyPresetLocally name s0 =
     (let s = s0\<lparr>activePreset := JStr name\<rparr> in
      if name = ''iran-stealth'' then put_preset ''http2'' 407 ''a0b0/f0f0'' 131072 262144 4 s
      else if name = ''standard-web'' then put_preset ''http2'' 405 [] 65535 131072 10 s
      else if name = ''minimal-cover'' then put_preset ''http1'' 407 [] 65535 131072 30 s
      else s)"

definition preset_client :: "string \<Rightarrow> tt_client \<Rightarrow> tt_client" where
  "preset_client name s0 =
     (let s = applyPresetLocally name s0 in
      if name = ''iran-stealth'' then s\<lparr>killSwitchEnabled := JBool True\<rparr>
      else if name = ''standard-web'' \<or> name = ''minimal-cover'' then s\<lparr>killSwitchEnabled := JBool False\<rparr>
      else s)"

text \<open>The page opens with \<open>fetchConfig\<close>; the fields of the form are edited freely. The number fields go through \<open>Number\<close>.\<close>

definition type_transport :: "string \<Rightarrow> 'z tt_page_scheme \<Rightarrow> 'z tt_page_scheme" where
  "type_transport v s = s\<lparr>forcedTransport := JStr v\<rparr>"

definition type_code :: "string \<Rightarrow> 'z tt_page_scheme \<Rightarrow> 'z tt_page_scheme" where
  "type_code v s = s\<lparr>authFailureStatusCode := str_number v\<rparr>"

definition type_prefix :: "string \<Rightarrow> 'z tt_page_scheme \<Rightarrow> 'z tt_page_scheme" where
  "type_prefix v s = s\<lparr>clientRandomPrefix := JStr v\<rparr>"

definition type_timeout :: "string \<Rightarrow> 'z tt_page_scheme \<Rightarrow> 'z tt_page_scheme" where
  "type_timeout v s = s\<lparr>tlsHandshakeTimeoutSecs := str_number v\<rparr>"

definition type_stream :: "string \<Rightarrow> 'z tt_page_scheme \<Rightarrow> 'z tt_page_scheme" where
  "type_stream v s = s\<lparr>h2InitialStreamWindowSize := str_number v\<rparr>"

definition type_conn :: "string \<Rightarrow> 'z tt_page_scheme \<Rightarrow> 'z tt_page_scheme" where
  "type_conn v s = s\<lparr>h2InitialConnWindowSize := str_number v\<rparr>"

section \<open>Saving\<close>

definition active_now :: "'z tt_page_scheme \<Rightarrow> jsv" where
  "active_now s = js_or (opt_prop (config (tt_store s)) ''is_active'') (JBool False)"

definition client_values :: "tt_client \<Rightarrow> jsv" where
  "client_values s = JObj [(''connect_address'', connectAddress s), (''socks5_port'', to_number (socks5Port s)),
     (''http_port'', to_number (httpPort s)), (''forced_transport'', forcedTransport s),
     (''auth_failure_status_code'', to_number (authFailureStatusCode s)), (''client_random_prefix'', clientRandomPrefix s),
     (''h2_initial_stream_window_size'', to_number (h2InitialStreamWindowSize s)),
     (''h2_initial_conn_window_size'', to_number (h2InitialConnWindowSize s)),
     (''tls_handshake_timeout_secs'', to_number (tlsHandshakeTimeoutSecs s)),
     (''kill_switch_enabled'', killSwitchEnabled s), (''active_preset'', activePreset s),
     (''server_hostname'', serverHostname s), (''client_username'', clientUsername s),
     (''client_password'', clientPassword s), (''tls_server_cert'', tlsServerCert s),
     (''skip_tls_verify'', skipTlsVerify s), (''dns_upstreams'', dnsUpstreams s), (''is_active'', active_now s)]"

definition server_values :: "tt_server \<Rightarrow> jsv" where
  "server_values s = JObj [(''listen_address'', listenAddress s), (''forced_transport'', forcedTransport s),
     (''auth_failure_status_code'', to_number (authFailureStatusCode s)), (''client_random_prefix'', clientRandomPrefix s),
     (''h2_initial_stream_window_size'', to_number (h2InitialStreamWindowSize s)),
     (''h2_initial_conn_window_size'', to_number (h2InitialConnWindowSize s)),
     (''tls_handshake_timeout_secs'', to_number (tlsHandshakeTimeoutSecs s)), (''active_preset'', activePreset s),
     (''tls_cert_path'', tlsCertPath s), (''tls_key_path'', tlsKeyPath s), (''server_hostname'', serverHostname s),
     (''public_tls_port'', to_number (publicTlsPort s)), (''is_active'', active_now s)]"

text \<open>\<open>values\<close> is what the page sends: the fields of its form.\<close>

definition handleSave :: "(jsv \<Rightarrow> 'z tt_page_scheme \<Rightarrow> 'z tt_page_scheme) \<Rightarrow> ('z tt_page_scheme \<Rightarrow> jsv) \<Rightarrow> ('z, unit) tt_act" where
  "handleSave reads values = Get (\<lambda>c. await_task (in_tt reads (saveConfig (values c))))"

definition handleToggleAutoStart :: "(jsv \<Rightarrow> 'z tt_page_scheme \<Rightarrow> 'z tt_page_scheme) \<Rightarrow> ('z, unit) tt_act" where
  "handleToggleAutoStart reads = Get (\<lambda>c.
     if \<not> truthy (config (tt_store c)) then Done ()
     else await_task (in_tt reads (saveConfig
       (JObj [(''is_active'', JBool (\<not> truthy (opt_prop (config (tt_store c)) ''is_active'')))]))))"

section \<open>Rules and accounts\<close>

definition handleAddRuleSubmit :: "(jsv \<Rightarrow> 'z tt_page_scheme \<Rightarrow> 'z tt_page_scheme) \<Rightarrow> string \<Rightarrow> ('z, unit) tt_act" where
  "handleAddRuleSubmit reads mode = Get (\<lambda>c.
     if newCidr c = [] then Done ()
     else bind (await_task (in_tt reads (addRule mode (newCidr c) (newStrategy c) (Some (newDesc c)))))
       (\<lambda>_. set_state (\<lambda>s. s\<lparr>newCidr := [], newDesc := []\<rparr>)))"

definition handleAddUserSubmit :: "(tt_server, unit) action" where
  "handleAddUserSubmit = Get (\<lambda>c.
     if usernameInput c = [] \<or> passwordInput c = [] then Done ()
     else bind (await_task (in_tt read_server (addUser ''server'' (usernameInput c) (passwordInput c))))
       (\<lambda>_. set_state (\<lambda>s. s\<lparr>usernameInput := [], passwordInput := []\<rparr>)))"

definition strategy_colors :: "jsv \<Rightarrow> string \<times> string" where
  "strategy_colors v = (if v = JStr ''direct-route'' then (''var(--color-brand-light)'', ''var(--color-brand)'')
     else if v = JStr ''allow'' then (''#dcfce7'', ''#15803d'') else (''#fee2e2'', ''#b91c1c''))"

section \<open>Tokens and certificates\<close>

definition handleImportTokenSubmit :: "(tt_client, unit) action" where
  "handleImportTokenSubmit = Get (\<lambda>c.
     if importTokenStr c = [] then Done ()
     else bind (await_task (in_tt read_client (importConnectionToken (importTokenStr c))))
       (\<lambda>_. set_state (\<lambda>s. s\<lparr>importTokenStr := []\<rparr>)))"

definition handleExportToken :: "(tt_server, unit) action" where
  "handleExportToken = try_catch
     (bind (await_task (in_tt read_server exportConnectionToken)) (\<lambda>token. set_state (\<lambda>s. s\<lparr>exportedToken := token\<rparr>)))
     (\<lambda>_. Done ())"

text \<open>The host name is a text of the form, or what the settings hold.\<close>

definition handleGenerateCert :: "(tt_server, unit) action" where
  "handleGenerateCert = Get (\<lambda>c.
     if \<not> truthy (serverHostname c) then Done ()
     else try_catch
       (bind (await_task (in_tt read_server (generateCert (js_string (serverHostname c)) (acmeEmail c)))) (\<lambda>d.
          if truthy d then
            bind (lift_res (get_prop d ''cert_chain_path'')) (\<lambda>cert.
            bind (set_state (\<lambda>s. s\<lparr>tlsCertPath := cert\<rparr>)) (\<lambda>_.
            bind (lift_res (get_prop d ''private_key_path'')) (\<lambda>key.
            set_state (\<lambda>s. s\<lparr>tlsKeyPath := key\<rparr>))))
          else Done ()))
       (\<lambda>_. Done ()))"

definition cert_disabled :: "tt_server \<Rightarrow> bool" where
  "cert_disabled s \<longleftrightarrow> isLoading (tt_store s) \<or> \<not> truthy (serverHostname s)"

text \<open>A copy of the certificate is shown for two seconds.\<close>

definition copyCertToClipboard :: "tt_server \<Rightarrow> tt_server" where
  "copyCertToClipboard s = (if truthy (tlsServerCert s) then s\<lparr>certCopied := True\<rparr> else s)"

definition cert_copied_end :: "tt_server \<Rightarrow> tt_server" where
  "cert_copied_end s = s\<lparr>certCopied := False\<rparr>"

chapter \<open>What holds of it\<close>

text \<open>
  The TrustTunnel pages: the actions of the store do in the page what they do alone, what the form sends fills it again, a
  preset does not touch what it does not name, and the runs in which what was typed is lost.
\<close>

declare keeps_values [simp]

section \<open>The store in the pages\<close>

lemma store_of_read [simp]:
  "tt_store (read_shared c s) = tt_store s"
  "tt_store (read_client c s1) = tt_store s1"
  "tt_store (read_server c s2) = tt_store s2"
  by (simp_all add: read_shared_def read_client_def read_server_def)

lemma store_of_write:
  assumes "\<And>c s. tt_store (reads c s) = tt_store s"
  shows "tt_store (on_tt reads f s) = f (tt_store s)"
  by (simp add: on_tt_def Let_def assms)

interpretation tt_client_page: exact_store tt_store "on_tt read_client"
  by unfold_locales (simp add: store_of_write)

interpretation tt_server_page: exact_store tt_store "on_tt read_server"
  by unfold_locales (simp add: store_of_write)

lemma page_one_message:
  assumes "t \<in> tt_message_acts" and "run (in_tt read_client t) rs s = (qs, Returned (), s1, rest)"
  shows "truthy (error (tt_store s1)) \<noteq> truthy (successMessage (tt_store s1))"
  using run_keeps [OF tt_one_message [OF assms(1)], of rs "tt_store s"] tt_client_page.action_in_page [OF assms(2)]
  by (auto split: outcome.splits)

section \<open>The form and the settings\<close>

definition shared_form :: "'z tt_page_scheme \<Rightarrow> bool" where
  "shared_form s \<longleftrightarrow> number_in (authFailureStatusCode s) \<and> number_in (h2InitialStreamWindowSize s) \<and>
     number_in (h2InitialConnWindowSize s) \<and> number_in (tlsHandshakeTimeoutSecs s) \<and> text_in (clientRandomPrefix s) \<and>
     text_in (serverHostname s) \<and> truthy (forcedTransport s) \<and> truthy (activePreset s)"

text \<open>The numbers of the form are not 0 and its choices not empty: what it sends, it reads back.\<close>

lemma tt_client_form_roundtrip:
  assumes "shared_form s" and "number_in (socks5Port s)" "number_in (httpPort s)"
    and "text_in (connectAddress s)" "text_in (clientUsername s)" "text_in (clientPassword s)" "text_in (tlsServerCert s)"
      "text_in (dnsUpstreams s)" and "flag_in (killSwitchEnabled s)" "flag_in (skipTlsVerify s)"
  shows "read_client (client_values s) s = s"
  using assms by (simp add: read_client_def read_shared_def client_values_def shared_form_def opt_prop_def obj_get_def)

text \<open>The server does not send the certificate; the port of the public address may be 0.\<close>

lemma tt_server_form_roundtrip:
  assumes "shared_form s" and "truthy (listenAddress s)" "text_in (tlsCertPath s)" "text_in (tlsKeyPath s)"
    and "number_in (publicTlsPort s) \<or> publicTlsPort s = JNum 0"
  shows "read_server (server_values s) s = s\<lparr>tlsServerCert := JStr []\<rparr>"
proof -
  have "js_or (to_number (publicTlsPort s)) (JNum 0) = publicTlsPort s" using assms(5) by (auto simp: js_or_def number_in_def)
  then show ?thesis using assms
    by (simp add: read_server_def read_shared_def server_values_def shared_form_def opt_prop_def obj_get_def)
qed

lemma preset_form:
  assumes "p \<in> {''iran-stealth'', ''standard-web'', ''minimal-cover''}" and "text_in (serverHostname s)"
  shows "shared_form (applyPresetLocally p s)"
  using assms by (auto simp: applyPresetLocally_def put_preset_def shared_form_def number_in_def text_in_def Let_def)

text \<open>A number 0 in the settings, such as a window of 0, is shown as the default and sent as such by the next save.\<close>

lemma stored_zero_lost:
  "opt_prop c ''tls_handshake_timeout_secs'' = JNum 0 \<Longrightarrow> tlsHandshakeTimeoutSecs (read_shared c s) = JNum 4"
  by (simp add: read_shared_def js_or_def)

section \<open>What the presets say and do\<close>

text \<open>The codes that the form offers; the one it starts with, and falls back to, is not among them.\<close>

definition offered_codes :: "rat list" where
  "offered_codes = [407, 405]"

lemma fallback_code_not_offered:
  "\<not> truthy (opt_prop c ''auth_failure_status_code'') \<Longrightarrow>
   \<exists>q. authFailureStatusCode (read_shared c s) = JNum q \<and> q \<notin> set offered_codes"
  by (simp add: read_shared_def js_or_def offered_codes_def)

lemma preset_codes:
  "authFailureStatusCode (applyPresetLocally ''iran-stealth'' s) = JNum 407"
  "authFailureStatusCode (applyPresetLocally ''standard-web'' s) = JNum 405"
  by (simp_all add: applyPresetLocally_def put_preset_def Let_def)

section \<open>What was typed and lost\<close>

text \<open>A rule, an account or a token that the server refuses is wiped from its fields: the store reports the refusal as a
  message and does not throw.\<close>

lemma refused_inputs_cleared:
  "newCidr s \<noteq> [] \<Longrightarrow> newCidr (final (handleAddRuleSubmit read_client mode) [Response False (JsonOk v)] s) = []"
  "usernameInput u \<noteq> [] \<Longrightarrow> passwordInput u \<noteq> [] \<Longrightarrow>
     passwordInput (final handleAddUserSubmit [Response False (JsonOk v)] u) = []"
  "importTokenStr s \<noteq> [] \<Longrightarrow> importTokenStr (final handleImportTokenSubmit [Response False (JsonOk v)] s) = []"
  by (simp_all add: handleAddRuleSubmit_def handleAddUserSubmit_def handleImportTokenSubmit_def addRule_def addUser_def
      importConnectionToken_def tt_request_def final_def tt_fetch_def fetch_def api_error_def read_json_def lift_res_def
      await_task_def tt_error_def split: sum.splits)

text \<open>The answer to the switch of the automatic start fills the form anew, over what was typed.\<close>

lemma auto_start_refills_form:
  assumes "truthy (config (tt_store s))" and "get_prop d ''config'' = Inr c" "truthy c"
  shows "connectAddress (final (handleToggleAutoStart read_client) [Response True (JsonOk d)] s) =
      js_or (opt_prop c ''connect_address'') (JStr [])"
proof -
  have "c \<noteq> JUndef" "c \<noteq> JNull" using assms(3) by auto
  then show ?thesis using assms
    by (simp add: handleToggleAutoStart_def saveConfig_def tt_request_def final_def tt_fetch_def fetch_def read_json_def
        lift_res_def await_task_def on_tt_def writes_def show_success_def tt_begin_def tt_end_def read_client_def
        read_shared_def Let_def)
qed

end
