(* ===== verification/Ehco_Pages.thy ===== *)
theory Ehco_Pages
  imports Browser Loading
begin

text \<open>
  The Ehco pages: the local tunnel of the client (\<open>EhcoClientPage.tsx\<close>) and the engine of the server (\<open>EhcoServerPage.tsx\<close>).
  Each page keeps its state itself: the form, the flag of the engine, and the requests that load, save, start and stop. The two
  pages have the same handlers over different forms, which \<open>ehco_app\<close> describes.
\<close>

section \<open>State\<close>

record ehco_page =
  authToken :: jsv
  enableMux :: jsv
  keepAlive :: jsv
  showAdvanced :: bool
  isRunning :: jsv
  showToken :: bool
  isLoading :: bool
  message :: "(string \<times> jsv) option"
  local_storage :: storage

record ehco_client = ehco_page +
  localPort :: jsv
  remoteURL :: jsv
  secondaryURL :: jsv
  sni :: jsv
  bypassIR :: jsv
  enableBridge :: jsv
  bridgeURL :: jsv
  bridgeSNI :: jsv

record ehco_server = ehco_page +
  listenPort :: jsv
  targetMode :: jsv
  targetHost :: jsv

definition init_ehco :: "storage \<Rightarrow> ehco_page" where
  "init_ehco st = \<lparr>authToken = JStr [], enableMux = JBool True, keepAlive = JNum 15, showAdvanced = False,
     isRunning = JBool False, showToken = False, isLoading = False, message = None, local_storage = st\<rparr>"

definition init_ehco_client :: "storage \<Rightarrow> ehco_client" where
  "init_ehco_client st = ehco_page.extend (init_ehco st) (ehco_client.fields (JStr ''1080'') (JStr []) (JStr []) (JStr [])
     (JBool True) (JBool False) (JStr []) (JStr []))"

definition init_ehco_server :: "storage \<Rightarrow> ehco_server" where
  "init_ehco_server st = ehco_page.extend (init_ehco st)
     (ehco_server.fields (JStr ''3001'') (JStr ''direct'') (JStr ''127.0.0.1:80''))"

section \<open>The forms\<close>

definition read_client :: "jsv \<Rightarrow> ehco_client \<Rightarrow> ehco_client" where
  "read_client c s = s\<lparr>
     localPort := js_or (opt_prop c ''local_port'') (JStr ''1080''),
     remoteURL := js_or (opt_prop c ''remote_url'') (JStr []),
     secondaryURL := js_or (opt_prop c ''secondary_url'') (JStr []),
     authToken := js_or (opt_prop c ''auth_token'') (JStr []),
     sni := js_or (opt_prop c ''sni'') (JStr []),
     enableMux := or_undefined (opt_prop c ''enable_mux'') (JBool True),
     keepAlive := js_or (opt_prop c ''keep_alive'') (JNum 15),
     bypassIR := or_undefined (opt_prop c ''bypass_ir'') (JBool True),
     enableBridge := or_undefined (opt_prop c ''enable_bridge'') (JBool False),
     bridgeURL := js_or (opt_prop c ''bridge_url'') (JStr []),
     bridgeSNI := js_or (opt_prop c ''bridge_sni'') (JStr [])\<rparr>"

definition client_values :: "ehco_client \<Rightarrow> jsv" where
  "client_values s = JObj [(''local_port'', localPort s), (''remote_url'', remoteURL s),
     (''secondary_url'', secondaryURL s), (''auth_token'', authToken s), (''sni'', sni s), (''enable_mux'', enableMux s),
     (''keep_alive'', to_number (keepAlive s)), (''bypass_ir'', bypassIR s), (''enable_bridge'', enableBridge s),
     (''bridge_url'', bridgeURL s), (''bridge_sni'', bridgeSNI s)]"

definition read_server :: "jsv \<Rightarrow> ehco_server \<Rightarrow> ehco_server" where
  "read_server c s = s\<lparr>
     listenPort := js_or (opt_prop c ''listen_port'') (JStr ''3001''),
     authToken := js_or (opt_prop c ''auth_token'') (JStr []),
     targetMode := js_or (opt_prop c ''target_mode'') (JStr ''direct''),
     targetHost := js_or (opt_prop c ''target_host'') (JStr ''127.0.0.1:80''),
     enableMux := or_undefined (opt_prop c ''enable_mux'') (JBool True),
     keepAlive := js_or (opt_prop c ''keep_alive'') (JNum 15)\<rparr>"

definition server_values :: "ehco_server \<Rightarrow> jsv" where
  "server_values s = JObj [(''listen_port'', listenPort s), (''auth_token'', authToken s),
     (''target_mode'', targetMode s), (''target_host'', targetHost s), (''enable_mux'', enableMux s),
     (''keep_alive'', to_number (keepAlive s))]"

section \<open>The handlers of both pages\<close>

record 'p ehco_app =
  storage_key :: string
  reads :: "jsv \<Rightarrow> 'p \<Rightarrow> 'p"
  form_values :: "'p \<Rightarrow> jsv"
  saved_text :: string
  stopped_text :: string
  started_text :: string
  unreachable_text :: string

definition client_app :: "ehco_client ehco_app" where
  "client_app = \<lparr>storage_key = ''cc_client_token'', reads = read_client, form_values = client_values,
     saved_text = ''Local configurations saved!'', stopped_text = ''Client SOCKS5 tunnel stopped.'',
     started_text = ''Client SOCKS5 tunnel started successfully!'',
     unreachable_text = ''Failed to communicate with local engine.''\<rparr>"

definition server_app :: "ehco_server ehco_app" where
  "server_app = \<lparr>storage_key = ''cc_server_token'', reads = read_server, form_values = server_values,
     saved_text = ''Configurations saved successfully!'', stopped_text = ''Ehco tunnel engine stopped successfully.'',
     started_text = ''Ehco tunnel engine started successfully!'',
     unreachable_text = ''Failed to communicate with engine.''\<rparr>"

definition ehco_token :: "'z ehco_page_scheme ehco_app \<Rightarrow> 'z ehco_page_scheme \<Rightarrow> string" where
  "ehco_token app s = get_item_or (local_storage s) (storage_key app) []"

definition take_config :: "'z ehco_page_scheme ehco_app \<Rightarrow> jsv \<Rightarrow> ('z ehco_page_scheme, unit) action" where
  "take_config app d = bind (lift_res (get_prop d ''config''))
     (\<lambda>c. if truthy c then set_state (reads app c) else Done ())"

definition ehco_end :: "'z ehco_page_scheme \<Rightarrow> 'z ehco_page_scheme" where
  "ehco_end s = s\<lparr>isLoading := False\<rparr>"

definition fetchConfig :: "'z ehco_page_scheme ehco_app \<Rightarrow> ('z ehco_page_scheme, unit) action" where
  "fetchConfig app = Set (\<lambda>s. s\<lparr>isLoading := True\<rparr>) (Get (\<lambda>s. finally_do (try_catch
     (bind (fetch (http_send ''GET'' ''/api/ehco/config'' [auth_header (ehco_token app s)] None)) (\<lambda>(ok, b).
        if ok then bind (read_json b) (\<lambda>d. bind (take_config app d)
          (\<lambda>_. set_state (\<lambda>s. s\<lparr>isRunning := js_or (opt_prop d ''is_running'') (JBool False)\<rparr>)))
        else Done ()))
     (\<lambda>_. Done ())) ehco_end))"

definition show_message :: "string \<Rightarrow> jsv \<Rightarrow> ('z ehco_page_scheme, unit) action" where
  "show_message k t = set_state (\<lambda>s. s\<lparr>message := Some (k, t)\<rparr>)"

definition ehco_begin :: "'z ehco_page_scheme \<Rightarrow> 'z ehco_page_scheme" where
  "ehco_begin s = s\<lparr>isLoading := True, message := None\<rparr>"

text \<open>The frame of the requests: a refusal shows the server's text or \<open>failed\<close>, an exception its own text or \<open>broken\<close>.\<close>

definition ehco_request :: "request \<Rightarrow> (jsv \<Rightarrow> ('z ehco_page_scheme, unit) action) \<Rightarrow> string \<Rightarrow> string \<Rightarrow>
    ('z ehco_page_scheme, unit) action" where
  "ehco_request q on_ok failed broken = finally_do (try_catch
     (bind (fetch q) (\<lambda>(ok, b). bind (read_json b) (\<lambda>d.
        if ok then on_ok d
        else bind (lift_res (get_prop d ''error'')) (\<lambda>e. show_message ''error'' (js_or e (JStr failed))))))
     (\<lambda>e. show_message ''error'' (js_or (JStr e) (JStr broken)))) ehco_end"

definition handleSave :: "'z ehco_page_scheme ehco_app \<Rightarrow> ('z ehco_page_scheme, unit) action" where
  "handleSave app = Get (\<lambda>c. Set ehco_begin (ehco_request
     (http_send ''POST'' ''/api/ehco/config'' [json_header, auth_header (ehco_token app c)] (Some (form_values app c)))
     (\<lambda>d. bind (show_message ''success'' (JStr (saved_text app))) (\<lambda>_. take_config app d))
     ''Failed to save configurations.'' ''An unexpected error occurred.''))"

text \<open>The engine's flag is that of the click, also when the answer is there.\<close>

definition handleToggleEngine :: "'z ehco_page_scheme ehco_app \<Rightarrow> ('z ehco_page_scheme, unit) action" where
  "handleToggleEngine app = Get (\<lambda>c. let running = truthy (isRunning c) in Set ehco_begin (ehco_request
     (http_send ''POST'' (if running then ''/api/ehco/stop'' else ''/api/ehco/start'') [auth_header (ehco_token app c)] None)
     (\<lambda>d. bind (lift_res (get_prop d ''is_running'')) (\<lambda>r. bind (set_state (\<lambda>s. s\<lparr>isRunning := r\<rparr>))
       (\<lambda>_. show_message ''success'' (JStr (if running then stopped_text app else started_text app)))))
     ''Operation failed.'' (unreachable_text app)))"

section \<open>Edits\<close>

text \<open>\<open>draws\<close> are the values of \<open>Math.random()\<close>.\<close>

definition token_chars :: string where
  "token_chars = ''abcdef0123456789''"

definition generateToken :: "rat list \<Rightarrow> ehco_server \<Rightarrow> ehco_server" where
  "generateToken draws s = s\<lparr>authToken :=
     JStr (map (\<lambda>r. token_chars ! nat \<lfloor>r * of_nat (length token_chars)\<rfloor>) (take 32 draws))\<rparr>"

definition type_keep_alive :: "string \<Rightarrow> 'z ehco_page_scheme \<Rightarrow> 'z ehco_page_scheme" where
  "type_keep_alive v s = s\<lparr>keepAlive := str_number v\<rparr>"

definition endpoint_shown :: "ehco_server \<Rightarrow> string" where
  "endpoint_shown s = ''/tunnel/'' @ js_string (js_or (authToken s) (JStr ''<token>''))"

chapter \<open>What holds of it\<close>

text \<open>
  The Ehco pages: no answer and no exception leaves a page busy, a save that the server confirms leaves the form as it is, the
  message of the switch speaks of the click and not of the answer, and what a refused load makes the next save send.
\<close>

declare keeps_values [simp]

section \<open>The spinner\<close>

definition ehco_acts :: "'z ehco_page_scheme ehco_app \<Rightarrow> ('z ehco_page_scheme, unit) action set" where
  "ehco_acts app = {fetchConfig app, handleSave app, handleToggleEngine app}"

text \<open>Reading the settings into the form leaves the rest of the page alone.\<close>

locale ehco_form =
  fixes app :: "'z ehco_page_scheme ehco_app"
  assumes reads_loading: "isLoading (reads app c s) = isLoading s"
    and reads_running: "isRunning (reads app c s) = isRunning s"
    and reads_message: "message (reads app c s) = message s"
begin

lemma ehco_lowers: "t \<in> ehco_acts app \<Longrightarrow> lowers isLoading t s"
  unfolding ehco_acts_def
  by (elim insertE emptyE; hypsubst)
    (simp_all add: fetchConfig_def handleSave_def handleToggleEngine_def ehco_request_def ehco_begin_def ehco_end_def
      take_config_def show_message_def reads_loading Let_def split: reply.splits body.splits sum.splits)

lemma one_message:
  assumes "t \<in> {handleSave app, handleToggleEngine app}"
  shows "wp (\<lambda>_ _. True) (\<lambda>s. isLoading s \<and> message s = None) (\<lambda>_ s. \<not> isLoading s \<and> message s \<noteq> None) (\<lambda>_ _. False) t s"
  using assms
  by (elim insertE emptyE; hypsubst)
    (simp_all add: handleSave_def handleToggleEngine_def ehco_request_def ehco_begin_def ehco_end_def
      take_config_def show_message_def reads_loading reads_message Let_def split: reply.splits body.splits sum.splits)

lemma click_ends_with_message:
  assumes "t \<in> {handleSave app, handleToggleEngine app}" and "run t rs s = (qs, Returned (), s1, rest)"
  shows "\<not> isLoading s1 \<and> message s1 \<noteq> None"
  using run_keeps [OF one_message [OF assms(1)], of rs s] assms(2) by auto

end

interpretation ehco_client_page: ehco_form client_app
  by unfold_locales (simp_all add: client_app_def read_client_def)

interpretation ehco_server_page: ehco_form server_app
  by unfold_locales (simp_all add: server_app_def read_server_def)

interpretation ehco_client_spinner:
  busy_flag isLoading "ehco_acts client_app" "\<lambda>_ _. True" "\<lambda>s s1. isLoading s1 = isLoading s" "init_ehco_client st" for st
  by unfold_locales
    (auto simp: init_ehco_client_def init_ehco_def ehco_page.extend_def ehco_client.fields_def
      ehco_client_page.ehco_lowers [THEN lowers_settles])

interpretation ehco_server_spinner:
  busy_flag isLoading "ehco_acts server_app" "\<lambda>_ _. True" "\<lambda>s s1. isLoading s1 = isLoading s" "init_ehco_server st" for st
  by unfold_locales
    (auto simp: init_ehco_server_def init_ehco_def ehco_page.extend_def ehco_server.fields_def
      ehco_server_page.ehco_lowers [THEN lowers_settles])

section \<open>Form and settings\<close>

definition client_form :: "ehco_client \<Rightarrow> bool" where
  "client_form s \<longleftrightarrow> truthy (localPort s) \<and> number_in (keepAlive s) \<and> flag_in (enableMux s) \<and> flag_in (bypassIR s) \<and>
     flag_in (enableBridge s) \<and>
     (\<forall>v\<in>{remoteURL s, secondaryURL s, authToken s, sni s, bridgeURL s, bridgeSNI s}. text_in v)"

lemma client_form_roundtrip: "client_form s \<Longrightarrow> read_client (client_values s) s = s"
  by (simp add: client_form_def read_client_def client_values_def opt_prop_def obj_get_def)

definition server_form :: "ehco_server \<Rightarrow> bool" where
  "server_form s \<longleftrightarrow> truthy (listenPort s) \<and> truthy (targetMode s) \<and> truthy (targetHost s) \<and> number_in (keepAlive s) \<and>
     flag_in (enableMux s) \<and> text_in (authToken s)"

lemma server_form_roundtrip: "server_form s \<Longrightarrow> read_server (server_values s) s = s"
  by (simp add: server_form_def read_server_def server_values_def opt_prop_def obj_get_def)

text \<open>A save that the server confirms with what was sent changes the message only.\<close>

lemma confirmed_save:
  assumes "client_form s" and "\<not> isLoading s"
  shows "final (handleSave client_app) [Response True (JsonOk (JObj [(''config'', client_values s)]))] s =
    s\<lparr>message := Some (''success'', JStr ''Local configurations saved!'')\<rparr>"
proof -
  let ?s = "s\<lparr>isLoading := True, message := Some (''success'', JStr ''Local configurations saved!'')\<rparr>"
  have "client_values ?s = client_values s" "client_form ?s" using assms(1) by (simp_all add: client_values_def client_form_def)
  with client_form_roundtrip [of ?s] have "read_client (client_values s) ?s = ?s" by simp
  moreover have "truthy (client_values s)" by (simp add: client_values_def)
  ultimately show ?thesis using assms(2)
    by (simp add: handleSave_def client_app_def ehco_request_def ehco_begin_def ehco_end_def show_message_def take_config_def
        final_def fetch_def read_json_def lift_res_def obj_get_def)
qed

text \<open>A load that is refused leaves the defaults in the form without a message; the next save sends them.\<close>

lemma refused_load_silent:
  "final (fetchConfig server_app) [Response False b] s = s\<lparr>isLoading := False\<rparr>"
  by (simp add: fetchConfig_def final_def fetch_def ehco_end_def)

lemma defaults_sent:
  "form_values server_app (final (fetchConfig server_app) [Response False b] (init_ehco_server st)) =
    JObj [(''listen_port'', JStr ''3001''), (''auth_token'', JStr []), (''target_mode'', JStr ''direct''),
      (''target_host'', JStr ''127.0.0.1:80''), (''enable_mux'', JBool True), (''keep_alive'', JNum 15)]"
  unfolding refused_load_silent
  by (simp add: server_app_def server_values_def init_ehco_server_def init_ehco_def ehco_page.extend_def ehco_server.fields_def)

section \<open>The switch and the token\<close>

text \<open>An answer that says the engine did not start is shown as a success.\<close>

lemma start_not_running:
  assumes "\<not> truthy (isRunning s)"
  shows "let s1 = final (handleToggleEngine server_app) [Response True (JsonOk (JObj [(''is_running'', JBool False)]))] s in
     isRunning s1 = JBool False \<and> message s1 = Some (''success'', JStr ''Ehco tunnel engine started successfully!'')"
  using assms
  by (simp add: handleToggleEngine_def server_app_def ehco_request_def ehco_begin_def ehco_end_def show_message_def
      final_def fetch_def read_json_def lift_res_def obj_get_def Let_def)

lemma generated_token:
  assumes "length draws = 32" and "\<forall>r\<in>set draws. 0 \<le> r \<and> r < 1"
  shows "\<exists>t. authToken (generateToken draws s) = JStr t \<and> length t = 32 \<and> set t \<subseteq> set token_chars"
proof -
  have "token_chars ! nat \<lfloor>r * of_nat (length token_chars)\<rfloor> \<in> set token_chars" if "0 \<le> r" "r < 1" for r :: rat
  proof (rule nth_mem)
    have "r * of_nat (length token_chars) < of_nat (length token_chars)" using that by (simp add: token_chars_def)
    moreover have "0 \<le> r * of_nat (length token_chars)" using that by simp
    ultimately show "nat \<lfloor>r * of_nat (length token_chars)\<rfloor> < length token_chars"
      by (metis floor_less_iff nat_less_iff of_int_of_nat_eq zero_le_floor)
  qed
  then show ?thesis using assms by (auto simp: generateToken_def)
qed

end
