(* ===== verification/Base64.thy ===== *)
theory Base64
  imports JS_Values
begin

text \<open>
  \<open>window.atob\<close> on strings of bytes, and base64url as it is used in a token: without padding, with \<open>-\<close> and \<open>_\<close> in place of
  \<open>+\<close> and \<open>/\<close> (RFC 7515). Decoding undoes encoding.
\<close>

section \<open>Decoding\<close>

definition base64_chars :: string where
  "base64_chars = ''ABCDEFGHIJKLMNOPQRSTUVWXYZabcdefghijklmnopqrstuvwxyz0123456789+/''"

definition base64_value :: "char \<Rightarrow> nat option" where
  "base64_value c =
     (let n = of_char c :: nat in
      if 65 \<le> n \<and> n \<le> 90 then Some (n - 65)
      else if 97 \<le> n \<and> n \<le> 122 then Some (n - 71)
      else if 48 \<le> n \<and> n \<le> 57 then Some (n + 4)
      else if n = 43 then Some 62 else if n = 47 then Some 63 else None)"

fun sextets :: "string \<Rightarrow> nat list option" where
  "sextets [] = Some []"
| "sextets (c # s) = (case (base64_value c, sextets s) of (Some v, Some vs) \<Rightarrow> Some (v # vs) | _ \<Rightarrow> None)"

text \<open>Four sextets are three bytes; the bits left over at the end are dropped.\<close>

fun octets :: "nat list \<Rightarrow> nat list" where
  "octets (a # b # c # d # r) = [a * 4 + b div 16, b mod 16 * 16 + c div 4, c mod 4 * 64 + d] @ octets r"
| "octets [a, b, c] = [a * 4 + b div 16, b mod 16 * 16 + c div 4]"
| "octets [a, b] = [a * 4 + b div 16]"
| "octets _ = []"

definition drop_equals :: "string \<Rightarrow> string" where
  "drop_equals s = (if s \<noteq> [] \<and> last s = CHR ''='' then butlast s else s)"

definition atob :: "string \<Rightarrow> string option" where
  "atob t =
     (let s = filter (\<lambda>c. c \<notin> {CHR '' '', CHR 0x09, CHR 0x0A, CHR 0x0C, CHR 0x0D}) t;
          s1 = (if length s mod 4 = 0 then drop_equals (drop_equals s) else s)
      in if length s1 mod 4 = 1 then None else map_option (\<lambda>vs. map char_of (octets vs)) (sextets s1))"

section \<open>Encoding\<close>

fun to_sextets :: "nat list \<Rightarrow> nat list" where
  "to_sextets (x # y # z # r) = [x div 4, x mod 4 * 16 + y div 16, y mod 16 * 4 + z div 64, z mod 64] @ to_sextets r"
| "to_sextets [x, y] = [x div 4, x mod 4 * 16 + y div 16, y mod 16 * 4]"
| "to_sextets [x] = [x div 4, x mod 4 * 16]"
| "to_sextets [] = []"

definition base64 :: "string \<Rightarrow> string" where
  "base64 s = map (\<lambda>v. base64_chars ! v) (to_sextets (map of_char s))"

definition url_char :: "char \<Rightarrow> char" where
  "url_char c = (if c = CHR ''+'' then CHR ''-'' else if c = CHR ''/'' then CHR ''_'' else c)"

definition base64url :: "string \<Rightarrow> string" where
  "base64url s = map url_char (base64 s)"

section \<open>Decoding undoes encoding\<close>

lemma octets_to_sextets: "\<forall>b\<in>set bs. b < 256 \<Longrightarrow> octets (to_sextets bs) = bs"
  by (induction bs rule: to_sextets.induct) (auto simp: div_mult2_eq [symmetric] algebra_simps)

lemma sextet_bound: "\<forall>b\<in>set bs. b < 256 \<Longrightarrow> v \<in> set (to_sextets bs) \<Longrightarrow> v < 64"
  by (induction bs rule: to_sextets.induct) auto

lemma sextets_length: "length (to_sextets bs) mod 4 \<noteq> 1"
  by (induction bs rule: to_sextets.induct) auto

lemma value_of_char: "v < 64 \<Longrightarrow> base64_value (base64_chars ! v) = Some v \<and> base64_chars ! v \<in> set base64_chars"
proof -
  assume "v < 64"
  moreover have "list_all (\<lambda>v. base64_value (base64_chars ! v) = Some v) [0..<64]"
    by (simp add: upt_rec base64_value_def base64_chars_def)
  moreover have "length base64_chars = 64" by (simp add: base64_chars_def)
  ultimately show ?thesis by (simp add: list_all_iff)
qed

lemma sextets_of_chars: "\<forall>v\<in>set vs. v < 64 \<Longrightarrow> sextets (map (\<lambda>v. base64_chars ! v) vs) = Some vs"
  by (induction vs) (auto simp: value_of_char)

lemma base64_only: "set (base64 s) \<subseteq> set base64_chars"
proof
  fix c assume "c \<in> set (base64 s)"
  then obtain v where v: "v \<in> set (to_sextets (map of_char s))" and c: "c = base64_chars ! v" by (auto simp: base64_def)
  have "\<forall>b\<in>set (map of_char s). b < (256::nat)" by auto
  from value_of_char [OF sextet_bound [OF this v]] c show "c \<in> set base64_chars" by simp
qed

lemma atob_base64: "atob (base64 s) = Some s"
proof -
  let ?bs = "map of_char s :: nat list"
  have b: "\<forall>b\<in>set ?bs. b < 256" by auto
  have "c \<notin> {CHR '' '', CHR 0x09, CHR 0x0A, CHR 0x0C, CHR 0x0D, CHR ''=''}" if "c \<in> set (base64 s)" for c
    using that base64_only [of s] by (auto simp: base64_chars_def)
  then have f: "filter (\<lambda>c. c \<notin> {CHR '' '', CHR 0x09, CHR 0x0A, CHR 0x0C, CHR 0x0D}) (base64 s) = base64 s"
    and e: "drop_equals (base64 s) = base64 s"
    by (auto simp: filter_id_conv drop_equals_def)
  have l: "length (base64 s) mod 4 \<noteq> 1" using sextets_length by (simp add: base64_def)
  have "sextets (base64 s) = Some (to_sextets ?bs)"
    unfolding base64_def by (rule sextets_of_chars) (blast intro: sextet_bound [OF b])
  then show ?thesis using f e l by (simp add: atob_def Let_def octets_to_sextets [OF b] comp_def)
qed

text \<open>What \<open>s.replace(/-/g, '+').replace(/_/g, '/')\<close> makes of it.\<close>

definition from_url :: "string \<Rightarrow> string" where
  "from_url s = map (\<lambda>c. if c = CHR ''-'' then CHR ''+'' else if c = CHR ''_'' then CHR ''/'' else c) s"

lemma from_url_base64: "from_url (base64url s) = base64 s"
proof -
  have "CHR ''-'' \<notin> set (base64 s)" "CHR ''_'' \<notin> set (base64 s)"
    using base64_only [of s] by (auto simp: base64_chars_def)
  then show ?thesis unfolding from_url_def base64url_def by (auto simp: url_char_def intro!: map_idI)
qed

lemma base64url_no_dot: "CHR ''.'' \<notin> set (base64url s)"
  using base64_only [of s] by (auto simp: base64url_def base64_chars_def url_char_def)

end
