(* ===== verification/Settings_Page.thy ===== *)
theory Settings_Page
  imports Lookup_Store Zoom JSON URI Base64
begin

text \<open>
  The settings pages of both applications (\<open>SettingsPage.tsx\<close>): fonts and themes with the classes of the body and what is kept
  of them, the start of the application that applies them (\<open>App.tsx\<close>), the upload of an icon, on the client the connection to
  the server and the keys of the lookup services over the model of their store, on the server the tokens. The links of the icon
  in the document are left out, as is the file in the body of the upload.
\<close>

section \<open>State\<close>

record settings_page =
  token :: jsv
  selectedFont :: string
  selectedTheme :: string
  faviconFile :: "string option"
  uploadingFavicon :: bool
  faviconMsg :: string
  body_classes :: "string set"
  system_dark :: bool
  watching :: bool
  local_storage :: storage

record settings_client = settings_page +
  lookups :: lookup_state
  localApiKeys :: jsv
  testStatus :: "string \<rightharpoonup> bool \<times> jsv \<times> jsv"
  saveStatus :: string
  serverUrl :: jsv
  serverAuthToken :: jsv
  serverConfig :: jsv
  serverSaveStatus :: string

record settings_server = settings_page +
  showToken :: bool
  persistentToken :: jsv

section \<open>Fonts and themes\<close>

definition fonts :: "string list" where
  "fonts = [''inter'', ''outfit'', ''firacode'']"

definition themes :: "string list" where
  "themes = [''light'', ''dark'', ''system'']"

definition font_class :: "string \<Rightarrow> string" where
  "font_class f = ''font-'' @ f"

definition applyThemeMode :: "bool \<Rightarrow> string set \<Rightarrow> string set" where
  "applyThemeMode isDark cs = (if isDark then insert ''dark-theme'' cs else cs - {''dark-theme''})"

definition wants_dark :: "string \<Rightarrow> bool \<Rightarrow> bool" where
  "wants_dark theme dark \<longleftrightarrow> (if theme = ''system'' then dark else theme = ''dark'')"

text \<open>The start of the application, on a body with the classes \<open>cs\<close>.\<close>

definition app_start :: "storage \<Rightarrow> bool \<Rightarrow> string set \<Rightarrow> string set" where
  "app_start st dark cs = applyThemeMode (wants_dark (get_item_or st ''cc_theme'' ''light'') dark)
     (insert (font_class (get_item_or st ''cc_font'' ''inter'')) cs)"

text \<open>The effects of the page. That of the theme listens to the system while the theme is \<open>system\<close>; its clean-up stops it.\<close>

definition font_effect :: "'z settings_page_scheme \<Rightarrow> 'z settings_page_scheme" where
  "font_effect s = s\<lparr>local_storage := (local_storage s)(''cc_font'' \<mapsto> selectedFont s),
     body_classes := insert (font_class (selectedFont s)) (body_classes s - font_class ` set fonts)\<rparr>"

definition theme_effect :: "'z settings_page_scheme \<Rightarrow> 'z settings_page_scheme" where
  "theme_effect s = s\<lparr>local_storage := (local_storage s)(''cc_theme'' \<mapsto> selectedTheme s),
     body_classes := applyThemeMode (wants_dark (selectedTheme s) (system_dark s)) (body_classes s),
     watching := selectedTheme s = ''system''\<rparr>"

definition open_settings :: "'z settings_page_scheme \<Rightarrow> 'z settings_page_scheme" where
  "open_settings s = theme_effect (font_effect (s\<lparr>
     selectedFont := get_item_or (local_storage s) ''cc_font'' ''inter'',
     selectedTheme := get_item_or (local_storage s) ''cc_theme'' ''light''\<rparr>))"

definition choose_font :: "string \<Rightarrow> 'z settings_page_scheme \<Rightarrow> 'z settings_page_scheme" where
  "choose_font f s = (if f = selectedFont s then s else font_effect (s\<lparr>selectedFont := f\<rparr>))"

definition choose_theme :: "string \<Rightarrow> 'z settings_page_scheme \<Rightarrow> 'z settings_page_scheme" where
  "choose_theme t s = (if t = selectedTheme s then s else theme_effect (s\<lparr>selectedTheme := t\<rparr>))"

definition system_change :: "bool \<Rightarrow> 'z settings_page_scheme \<Rightarrow> 'z settings_page_scheme" where
  "system_change d s = (let s1 = s\<lparr>system_dark := d\<rparr> in
     if watching s then s1\<lparr>body_classes := applyThemeMode d (body_classes s)\<rparr> else s1)"

definition leave_settings :: "'z settings_page_scheme \<Rightarrow> 'z settings_page_scheme" where
  "leave_settings s = s\<lparr>watching := False\<rparr>"

inductive appearance_step :: "'z settings_page_scheme \<Rightarrow> 'z settings_page_scheme \<Rightarrow> bool" where
  font: "f \<in> set fonts \<Longrightarrow> appearance_step s (choose_font f s)"
| theme: "t \<in> set themes \<Longrightarrow> appearance_step s (choose_theme t s)"
| system: "appearance_step s (system_change d s)"

inductive_cases appearance_stepE: "appearance_step s t"

section \<open>The icon\<close>

definition tick :: string where
  "tick = [CHR 0xE2, CHR 0x9C, CHR 0x85, CHR '' '']"

definition cross :: string where
  "cross = [CHR 0xE2, CHR 0x9D, CHR 0x8C, CHR '' '']"

definition handleFaviconUpload :: "('z settings_page_scheme, unit) action" where
  "handleFaviconUpload = Get (\<lambda>c.
     if faviconFile c = None then Done ()
     else Set (\<lambda>s. s\<lparr>uploadingFavicon := True, faviconMsg := []\<rparr>)
       (bind (try_catch
         (bind (fetch (http_send ''POST'' ''/api/settings/favicon'' [auth_header (js_string (token c))] None)) (\<lambda>(ok, b).
            bind (read_json b) (\<lambda>d.
              if ok then set_state (\<lambda>s. s\<lparr>faviconMsg := tick @ ''Favicon updated successfully! Applied instantly.'',
                faviconFile := None\<rparr>)
              else bind (lift_res (get_prop d ''error'')) (\<lambda>e. set_state (\<lambda>s. s\<lparr>faviconMsg := cross @ js_string e\<rparr>)))))
         (\<lambda>e. set_state (\<lambda>s. s\<lparr>faviconMsg := cross @ e\<rparr>)))
       (\<lambda>_. set_state (\<lambda>s. s\<lparr>uploadingFavicon := False\<rparr>))))"

definition upload_disabled :: "'z settings_page_scheme \<Rightarrow> bool" where
  "upload_disabled s \<longleftrightarrow> uploadingFavicon s \<or> faviconFile s = None"

section \<open>The connection to the server\<close>

definition client_token :: "settings_client \<Rightarrow> string" where
  "client_token s = js_string (js_or (token s) (JStr (get_item_or (settings_page.local_storage s) ''cc_client_token'' [])))"

definition take_server :: "jsv \<Rightarrow> (settings_client, unit) action" where
  "take_server d = bind (lift_res (get_prop d ''config'')) (\<lambda>c.
     if truthy c then set_state (\<lambda>s. s\<lparr>serverConfig := c, serverUrl := js_or (opt_prop c ''remote_url'') (JStr []),
       serverAuthToken := js_or (opt_prop c ''auth_token'') (JStr [])\<rparr>)
     else Done ())"

definition fetchServerConfig :: "(settings_client, unit) action" where
  "fetchServerConfig = Get (\<lambda>c. try_catch
     (bind (fetch (http_get ''/api/ehco/config'' [auth_header (client_token c)]))
       (\<lambda>(ok, b). if ok then bind (read_json b) take_server else Done ()))
     (\<lambda>_. Done ()))"

definition server_status :: "string \<Rightarrow> (settings_client, unit) action" where
  "server_status t = set_state (\<lambda>s. s\<lparr>serverSaveStatus := t\<rparr>)"

definition server_payload :: "settings_client \<Rightarrow> jsv" where
  "server_payload s = spread2 (serverConfig s)
     (JObj [(''remote_url'', serverUrl s), (''auth_token'', serverAuthToken s)])"

definition handleSaveServerConfig :: "(settings_client, unit) action" where
  "handleSaveServerConfig = Get (\<lambda>c. Set (\<lambda>s. s\<lparr>serverSaveStatus := ''Saving...''\<rparr>) (try_catch
     (bind (fetch (http_send ''POST'' ''/api/ehco/config'' [json_header, auth_header (client_token c)]
         (Some (server_payload c)))) (\<lambda>(ok, b). bind (read_json b) (\<lambda>d.
        if ok then bind (take_server d) (\<lambda>_. server_status (tick @ ''Saved successfully!''))
        else bind (lift_res (get_prop d ''error'')) (\<lambda>e.
          server_status (cross @ ''Failed: '' @ js_string (js_or e (JStr ''Server error'')))))))
     (\<lambda>e. server_status (cross @ ''Error: '' @ e))))"

text \<open>Three seconds after a success its status is wiped, whatever it says by then.\<close>

definition server_status_end :: "settings_client \<Rightarrow> settings_client" where
  "server_status_end s = s\<lparr>serverSaveStatus := []\<rparr>"

section \<open>The keys of the lookup services\<close>

definition on_lookups :: "(lookup_state \<Rightarrow> lookup_state) \<Rightarrow> settings_client \<Rightarrow> settings_client" where
  "on_lookups f s =
     (let st = f (lookups s); s1 = s\<lparr>lookups := st\<rparr> in
      if writes apiConfig apiConfig_update f (lookups s) \<and> truthy (apiConfig st)
      then s1\<lparr>localApiKeys := spread2 (apiConfig st) (JObj [])\<rparr> else s1)"

definition edit_key :: "string \<Rightarrow> jsv \<Rightarrow> settings_client \<Rightarrow> settings_client" where
  "edit_key k v s = s\<lparr>localApiKeys := spread2 (localApiKeys s) (JObj [(k, v)])\<rparr>"

definition handleSaveApiKeys :: "(settings_client, unit) action" where
  "handleSaveApiKeys = Get (\<lambda>c.
     if \<not> truthy (localApiKeys c) then Done ()
     else Set (\<lambda>s. s\<lparr>saveStatus := ''Saving...''\<rparr>)
       (bind (await_task (zoom lookups on_lookups (saveApiConfig (localApiKeys c)))) (\<lambda>ok.
          set_state (\<lambda>s. s\<lparr>saveStatus := if ok then tick @ ''Saved successfully!''
            else cross @ ''Failed to save configurations.''\<rparr>))))"

definition save_status_end :: "settings_client \<Rightarrow> settings_client" where
  "save_status_end s = s\<lparr>saveStatus := []\<rparr>"

text \<open>The state of a test: whether it runs, \<open>valid\<close> and \<open>error\<close>.\<close>

definition handleTestKey :: "string \<Rightarrow> string \<Rightarrow> (settings_client, unit) action" where
  "handleTestKey service key =
     Set (\<lambda>s. s\<lparr>testStatus := (testStatus s)(service \<mapsto> (True, JUndef, JUndef))\<rparr>)
       (bind (await_task (zoom lookups on_lookups (testConnection service key))) (\<lambda>r.
        bind (lift_res (get_prop r ''valid'')) (\<lambda>v.
          set_state (\<lambda>s. s\<lparr>testStatus := (testStatus s)(service \<mapsto> (False, v, opt_prop r ''error''))\<rparr>))))"

definition key_fields :: "(string \<times> string) list" where
  "key_fields = [(''ip2location'', ''ip2location_key''), (''ip_api'', ''ip_api_key''),
     (''ipgeolocation'', ''ip_geolocation_key''), (''ipwhois'', ''ip_whois_key''), (''findip'', ''find_ip_key'')]"

definition test_disabled :: "settings_client \<Rightarrow> string \<times> string \<Rightarrow> bool" where
  "test_disabled s sf \<longleftrightarrow> (case testStatus s (fst sf) of Some (loading, _) \<Rightarrow> loading | None \<Rightarrow> False) \<or>
     \<not> truthy (opt_prop (localApiKeys s) (snd sf))"

definition renderTestStatus :: "bool \<times> jsv \<times> jsv \<Rightarrow> string" where
  "renderTestStatus st = (case st of (loading, valid, e) \<Rightarrow>
     if loading then [] else if truthy valid then tick @ ''Connection Success! API key is valid.''
     else cross @ ''Connection Failed: '' @ (case e of JUndef \<Rightarrow> [] | JNull \<Rightarrow> [] | JBool _ \<Rightarrow> [] | _ \<Rightarrow> js_string e))"

section \<open>The tokens of the server\<close>

definition fetchPersistentToken :: "(settings_server, unit) action" where
  "fetchPersistentToken = Get (\<lambda>c.
     if \<not> truthy (token c) then Done ()
     else try_catch
       (bind (fetch (http_get ''/api/settings/persistent-token'' [auth_header (js_string (token c))])) (\<lambda>(ok, b).
          if ok then bind (read_json b) (\<lambda>d. bind (lift_res (get_prop d ''token''))
            (\<lambda>t. set_state (\<lambda>s. s\<lparr>persistentToken := t\<rparr>)))
          else Done ()))
       (\<lambda>_. Done ()))"

definition low_hex :: "nat \<Rightarrow> string" where
  "low_hex n = (let d = (\<lambda>k. ''0123456789abcdef'' ! k) in if n < 16 then [d n] else [d (n div 16), d (n mod 16)])"

definition percent_byte :: "char \<Rightarrow> string" where
  "percent_byte c = CHR ''%'' # slice_last 2 (''00'' @ low_hex (of_char c))"

text \<open>Every exception of the decoder is caught, and is \<open>null\<close>.\<close>

definition jwt_payload :: "string \<Rightarrow> jsv option" where
  "jwt_payload t = (case split_on (CHR ''.'') t of
      _ # p # _ \<Rightarrow> (case atob (from_url p) of None \<Rightarrow> None
        | Some bytes \<Rightarrow> (case decodeURIComponent (concat (map percent_byte bytes)) of None \<Rightarrow> None
            | Some txt \<Rightarrow> json_parse txt))
    | _ \<Rightarrow> None)"

definition decodeJWT :: "jsv \<Rightarrow> jsv" where
  "decodeJWT t = (if truthy t then case jwt_payload (js_string t) of None \<Rightarrow> JNull | Some v \<Rightarrow> v else JNull)"

definition role_shown :: "jsv \<Rightarrow> jsv" where
  "role_shown info = js_or (opt_prop info ''role'') (JStr ''administrator'')"

definition username_shown :: "jsv \<Rightarrow> jsv" where
  "username_shown info = js_or (opt_prop info ''username'') (JStr ''salman'')"

chapter \<open>What holds of it\<close>

text \<open>
  The settings pages: the classes of the body follow font and theme under every sequence of choices and changes of the system,
  and come back when the application starts again; the claims of a session token are read from its text; and the runs in which
  edits of the keys are lost or a button stays off.
\<close>

section \<open>Fonts and themes\<close>

definition look_inv :: "'z settings_page_scheme \<Rightarrow> bool" where
  "look_inv s \<longleftrightarrow> selectedFont s \<in> set fonts \<and>
     local_storage s ''cc_font'' = Some (selectedFont s) \<and> local_storage s ''cc_theme'' = Some (selectedTheme s) \<and>
     selectedTheme s \<noteq> [] \<and> (watching s \<longleftrightarrow> selectedTheme s = ''system'') \<and>
     (''dark-theme'' \<in> body_classes s \<longleftrightarrow> wants_dark (selectedTheme s) (system_dark s)) \<and>
     body_classes s \<inter> font_class ` set fonts = {font_class (selectedFont s)}"

lemma dark_is_no_font [simp]: "''dark-theme'' \<noteq> font_class f" "font_class f \<noteq> ''dark-theme''"
  by (simp_all add: font_class_def)

lemma font_class_eq [simp]: "font_class f = font_class g \<longleftrightarrow> f = g"
  by (simp add: font_class_def)

lemma apply_theme [simp]:
  "''dark-theme'' \<in> applyThemeMode d cs \<longleftrightarrow> d"
  "applyThemeMode d cs \<inter> font_class ` F = cs \<inter> font_class ` F"
  "c \<noteq> ''dark-theme'' \<Longrightarrow> c \<in> applyThemeMode d cs \<longleftrightarrow> c \<in> cs"
  by (auto simp: applyThemeMode_def)

lemma effects_set_look:
  assumes "selectedFont s \<in> set fonts" and "selectedTheme s \<noteq> []"
  shows "look_inv (theme_effect (font_effect s))"
  using assms by (auto simp: look_inv_def theme_effect_def font_effect_def)

lemma look_step: "appearance_step s t \<Longrightarrow> look_inv s \<Longrightarrow> look_inv t"
proof (erule appearance_stepE)
  fix f assume "look_inv s" "t = choose_font f s" "f \<in> set fonts"
  moreover have "insert (font_class f) (B - font_class ` set fonts) \<inter> font_class ` set fonts = {font_class f}" for B
    using \<open>f \<in> set fonts\<close> by blast
  moreover have "''dark-theme'' \<notin> font_class ` set fonts" by auto
  ultimately show "look_inv t" by (simp add: look_inv_def choose_font_def font_effect_def)
next
  fix u assume "look_inv s" "t = choose_theme u s" "u \<in> set themes"
  then show "look_inv t" by (auto simp: look_inv_def choose_theme_def theme_effect_def themes_def)
next
  fix d assume "look_inv s" "t = system_change d s"
  then show "look_inv t" by (auto simp: look_inv_def system_change_def wants_dark_def Let_def)
qed

lemma look_reachable:
  assumes "get_item_or (local_storage s0) ''cc_font'' ''inter'' \<in> set fonts" and "appearance_step\<^sup>*\<^sup>* (open_settings s0) s"
  shows "look_inv s"
proof -
  have "get_item_or (local_storage s0) ''cc_theme'' ''light'' \<noteq> []" by (auto simp: get_item_or_def split: option.splits)
  then have "look_inv (open_settings s0)" unfolding open_settings_def using assms(1) by (intro effects_set_look) simp_all
  from assms(2) this show ?thesis by (rule reach_invariant [where P = look_inv]) (rule look_step)
qed

text \<open>Once the page is left, nothing follows the system any more.\<close>

lemma left_page_ignores_system:
  "body_classes (system_change d (leave_settings s)) = body_classes s"
  by (simp add: system_change_def leave_settings_def Let_def)

text \<open>C32: While the settings page is open, however fonts and themes are chosen and the system changes its preference,
  the body is dark exactly when the theme asks for it, carries the class of the chosen font and of no other, and a
  start of the application on what is stored by then gives the same look. When the page is left, the look stays as it
  was, whatever the system does from then on (so a body that followed the system follows it no more). This is shown
  when the font stored before is one of the three that the page offers, or none is stored.\<close>

theorem look_follows_choices:
  assumes "get_item_or (local_storage s0) ''cc_font'' ''inter'' \<in> set fonts"
    and "appearance_step\<^sup>*\<^sup>* (open_settings s0) s" and "c \<in> insert ''dark-theme'' (font_class ` set fonts)"
  shows "(c \<in> body_classes s \<longleftrightarrow>
      (if c = ''dark-theme'' then wants_dark (selectedTheme s) (system_dark s) else c = font_class (selectedFont s))) \<and>
    (c \<in> app_start (local_storage s) (system_dark s) {} \<longleftrightarrow> c \<in> body_classes s) \<and>
    (c \<in> body_classes (system_change d (leave_settings s)) \<longleftrightarrow> c \<in> body_classes s)"
proof -
  have i: "look_inv s" using assms(1,2) by (rule look_reachable)
  then have "selectedFont s \<in> set fonts" by (simp add: look_inv_def)
  then have "selectedFont s \<noteq> []" by (auto simp: fonts_def)
  with i have a: "app_start (local_storage s) (system_dark s) {} =
      applyThemeMode (wants_dark (selectedTheme s) (system_dark s)) {font_class (selectedFont s)}"
    by (simp add: app_start_def look_inv_def)
  from i have dark: "''dark-theme'' \<in> body_classes s \<longleftrightarrow> wants_dark (selectedTheme s) (system_dark s)"
    and font: "body_classes s \<inter> font_class ` set fonts = {font_class (selectedFont s)}" by (simp_all add: look_inv_def)
  show ?thesis
  proof (cases "c = ''dark-theme''")
    case True
    then show ?thesis using dark by (simp add: a left_page_ignores_system)
  next
    case False
    then have "c \<in> font_class ` set fonts" using assms(3) by simp
    with font have "c \<in> body_classes s \<longleftrightarrow> c = font_class (selectedFont s)" by blast
    then show ?thesis using False by (simp add: a left_page_ignores_system)
  qed
qed

definition sample_page :: settings_page where
  "sample_page = \<lparr>token = JNull, selectedFont = [], selectedTheme = [], faviconFile = None, uploadingFavicon = False,
     faviconMsg = [], body_classes = {}, system_dark = False, watching = False, local_storage = Map.empty\<rparr>"

theorem look_follows_choices_witness:
  "''dark-theme'' \<in> body_classes (system_change True (choose_theme ''system'' (open_settings sample_page)))"
proof -
  let ?s = "system_change True (choose_theme ''system'' (open_settings sample_page))"
  have "appearance_step (open_settings sample_page) (choose_theme ''system'' (open_settings sample_page))"
    by (rule appearance_step.theme) (simp add: themes_def)
  then have "appearance_step\<^sup>*\<^sup>* (open_settings sample_page) ?s"
    by (meson appearance_step.system r_into_rtranclp rtranclp.rtrancl_into_rtrancl)
  moreover have "get_item_or (local_storage sample_page) ''cc_font'' ''inter'' \<in> set fonts"
    by (simp add: sample_page_def get_item_or_def fonts_def)
  ultimately show ?thesis using look_follows_choices [of sample_page ?s "''dark-theme''"]
    by (simp add: system_change_def choose_theme_def theme_effect_def open_settings_def font_effect_def sample_page_def
        get_item_or_def wants_dark_def Let_def)
qed

section \<open>The claims of a token\<close>

lemma percent_bytes: "unescape (concat (map percent_byte s)) = Some s"
proof (induction s)
  case (Cons c s)
  let ?n = "of_char c :: nat"
  have n: "?n < 256" by simp
  then have d: "?n div 16 < 16" by (intro less_mult_imp_div_less) simp
  have "percent_byte c = [CHR ''%'', ''0123456789abcdef'' ! (?n div 16), ''0123456789abcdef'' ! (?n mod 16)]"
    by (simp add: percent_byte_def low_hex_def slice_last_def Let_def)
  then show ?case using Cons d by (simp add: hex_lower)
qed simp

text \<open>C33: The claims that the page shows of a session token are those in it: for a token in the compact form, whose payload is the
  base64url of the JSON text of the claims, decoding gives the claims back, whatever the signature is.\<close>

theorem jwt_claims_read:
  assumes "json_value claims" and "utf8_string (json_text [] claims)" and "CHR ''.'' \<notin> set header"
  shows "decodeJWT (JStr (header @ ''.'' @ base64url (json_text [] claims) @ ''.'' @ signature)) = claims"
proof -
  let ?t = "json_text [] claims"
  have "split_on (CHR ''.'') (header @ CHR ''.'' # base64url ?t @ CHR ''.'' # signature) =
      header # base64url ?t # split_on (CHR ''.'') signature"
    using assms(3) by (simp add: split_on_append base64url_no_dot)
  moreover have "decodeURIComponent (concat (map percent_byte ?t)) = Some ?t"
    using assms(2) by (simp add: decodeURIComponent_def percent_bytes)
  ultimately show ?thesis
    by (simp add: decodeJWT_def jwt_payload_def from_url_base64 atob_base64 json_roundtrip [OF assms(1)])
qed

theorem jwt_claims_read_witness:
  "username_shown (decodeJWT (JStr (''h'' @ ''.'' @
     base64url (json_text [] (JObj [(''username'', JStr ''ada''), (''exp'', JNum 17)])) @ ''.'' @ ''s''))) = JStr ''ada''"
proof -
  let ?v = "JObj [(''username'', JStr ''ada''), (''exp'', JNum 17)]"
  have "json_value ?v" by simp
  moreover have "utf8_string (json_text [] ?v)" by code_simp
  ultimately have "decodeJWT (JStr (''h'' @ ''.'' @ base64url (json_text [] ?v) @ ''.'' @ ''s'')) = ?v"
    by (rule jwt_claims_read) simp
  then show ?thesis by (simp add: username_shown_def opt_prop_def obj_get_def js_or_def)
qed

text \<open>A token that cannot be read is shown with a role and a name that stand in the page.\<close>

lemma unreadable_token_shown:
  "jwt_payload t = None \<Longrightarrow> role_shown (decodeJWT (JStr t)) = JStr ''administrator'' \<and>
     username_shown (decodeJWT (JStr t)) = JStr ''salman''"
  by (simp add: decodeJWT_def role_shown_def username_shown_def opt_prop_def js_or_def)

section \<open>Keys and connection\<close>

lemma lookups_of_write: "lookups (on_lookups f s) = f (lookups s)"
  by (simp add: on_lookups_def Let_def)

interpretation settings_lookups: exact_store lookups on_lookups
  by unfold_locales (rule lookups_of_write)

text \<open>What is typed while the keys are saved is replaced by what was sent: here the page is in the state \<open>s1\<close> when the answer
  comes.\<close>

lemma saved_keys_replace_edits:
  assumes "truthy cfg"
  shows "localApiKeys (on_lookups (\<lambda>st. st\<lparr>apiConfig := cfg\<rparr>) s1) = spread2 cfg (JObj [])"
proof -
  have "cfg \<noteq> JUndef" "cfg \<noteq> JNull" using assms by auto
  then show ?thesis using assms by (simp add: on_lookups_def writes_def Let_def)
qed

text \<open>After an answer \<open>null\<close> to a test its button stays off.\<close>

lemma null_answer_keeps_testing:
  "test_disabled (final (handleTestKey service key) [Response True (JsonOk JNull)] s) (service, field)"
  by (simp add: handleTestKey_def testConnection_def lookup_fetch_def final_def fetch_def read_json_def await_task_def
      lift_res_def test_disabled_def on_lookups_def Let_def)

text \<open>When the settings of the server could not be read, a save sends two fields.\<close>

lemma save_without_settings:
  assumes "serverConfig s = JNull"
  shows "server_payload s = JObj [(''remote_url'', serverUrl s), (''auth_token'', serverAuthToken s)]"
  using assms by (simp add: server_payload_def spread2_def put_all_def)

end
