(* ===== verification/Logs_Page.thy ===== *)
theory Logs_Page
  imports Log_Store URI Zoom
begin

text \<open>
  The log viewer (\<open>LogsPage.tsx\<close>, the same file in both applications) over the model of the log store: the filters, the list of
  the components, the row that is open, and the download. A frame of the stream is any JSON value, so that reading its fields as
  texts may throw, and then the page fails to draw.
\<close>

record logs_page =
  lstore :: log_state
  page_token :: jsv
  search :: string
  levelFilter :: string
  compFilter :: string
  expandedId :: "nat option"
  autoscroll :: bool

definition init_logs_page :: "log_state \<Rightarrow> jsv \<Rightarrow> logs_page" where
  "init_logs_page st tok = \<lparr>lstore = st, page_token = tok, search = [], levelFilter = ''ALL'', compFilter = ''ALL'',
     expandedId = None, autoscroll = True\<rparr>"

text \<open>The effect on the token: it connects, and its clean-up closes the socket of the connection it made.\<close>

definition open_stream :: "logs_page \<Rightarrow> logs_page \<times> nat option" where
  "open_stream s = (if truthy (page_token s)
     then (case connectLogs (js_string (page_token s)) (lstore s) of (st, c) \<Rightarrow> (s\<lparr>lstore := st\<rparr>, c))
     else (s, None))"

definition leave_stream :: "nat option \<Rightarrow> logs_page \<Rightarrow> logs_page" where
  "leave_stream c s = s\<lparr>lstore := cleanup_logs c (lstore s)\<rparr>"

section \<open>Filters\<close>

text \<open>\<open>log.k.toLowerCase()\<close> and \<open>log.k.toUpperCase()\<close>.\<close>

definition text_prop :: "(string \<Rightarrow> string) \<Rightarrow> string \<Rightarrow> string \<Rightarrow> jsv \<Rightarrow> string res" where
  "text_prop f m k l = (case get_prop l k of Inl e \<Rightarrow> Inl e
     | Inr v \<Rightarrow> (case as_string (''log.'' @ k) m v of Inl e \<Rightarrow> Inl e | Inr t \<Rightarrow> Inr (f t)))"

definition lower_prop :: "string \<Rightarrow> jsv \<Rightarrow> string res" where
  "lower_prop = text_prop to_lower ''toLowerCase''"

definition upper_prop :: "string \<Rightarrow> jsv \<Rightarrow> string res" where
  "upper_prop = text_prop to_upper ''toUpperCase''"

definition prop_test :: "(string \<Rightarrow> bool) \<Rightarrow> string res \<Rightarrow> bool res" where
  "prop_test p r = (case r of Inl e \<Rightarrow> Inl e | Inr t \<Rightarrow> Inr (p t))"

definition matchesSearch :: "logs_page \<Rightarrow> jsv \<Rightarrow> bool res" where
  "matchesSearch s l = (let has = (\<lambda>k. prop_test (\<lambda>t. includes_str t (to_lower (search s))) (lower_prop k l)) in
     res_or (has ''message'') (res_or (has ''component'') (has ''raw'')))"

definition matchesLevel :: "logs_page \<Rightarrow> jsv \<Rightarrow> bool res" where
  "matchesLevel s l = res_or (Inr (levelFilter s = ''ALL'')) (prop_test (\<lambda>t. t = levelFilter s) (upper_prop ''level'' l))"

definition matchesComp :: "logs_page \<Rightarrow> jsv \<Rightarrow> bool res" where
  "matchesComp s l =
     res_or (Inr (compFilter s = ''ALL'')) (prop_test (\<lambda>t. t = to_upper (compFilter s)) (upper_prop ''component'' l))"

text \<open>All three are computed before they are combined.\<close>

definition log_matches :: "logs_page \<Rightarrow> jsv \<Rightarrow> bool res" where
  "log_matches s l = (case matchesSearch s l of Inl e \<Rightarrow> Inl e | Inr a \<Rightarrow>
     (case matchesLevel s l of Inl e \<Rightarrow> Inl e | Inr b \<Rightarrow>
     (case matchesComp s l of Inl e \<Rightarrow> Inl e | Inr c \<Rightarrow> Inr (a \<and> b \<and> c))))"

definition filteredLogs :: "logs_page \<Rightarrow> jsv list res" where
  "filteredLogs s = filter_res (log_matches s) (logs (lstore s))"

definition uniqueComponents :: "logs_page \<Rightarrow> string list res" where
  "uniqueComponents s = (case map_res (upper_prop ''component'') (logs (lstore s)) of Inl e \<Rightarrow> Inl e
     | Inr cs \<Rightarrow> Inr (''ALL'' # as_set cs))"

definition level_options :: "string list" where
  "level_options = [''ALL'', ''DEBUG'', ''INFO'', ''WARN'', ''ERROR'']"

text \<open>Colour, background and border of a level.\<close>

definition getLevelStyles :: "string \<Rightarrow> string \<times> string \<times> string" where
  "getLevelStyles level = (let lvl = to_upper level in
     if lvl = ''DEBUG'' then (''#888ea8'', ''rgba(136, 142, 168, 0.12)'', ''rgba(136, 142, 168, 0.2)'')
     else if lvl = ''INFO'' then (''#22c55e'', ''rgba(34, 197, 94, 0.12)'', ''rgba(34, 197, 94, 0.2)'')
     else if lvl = ''WARN'' then (''#eab308'', ''rgba(234, 179, 8, 0.12)'', ''rgba(234, 179, 8, 0.2)'')
     else (''#ef4444'', ''rgba(239, 68, 68, 0.12)'', ''rgba(239, 68, 68, 0.2)''))"

section \<open>The rows and the stream\<close>

definition toggle_row :: "nat \<Rightarrow> logs_page \<Rightarrow> logs_page" where
  "toggle_row i s = s\<lparr>expandedId := if expandedId s = Some i then None else Some i\<rparr>"

definition expanded_log :: "logs_page \<Rightarrow> jsv option" where
  "expanded_log s = (case (expandedId s, filteredLogs s) of
     (Some i, Inr ls) \<Rightarrow> if i < length ls then Some (ls ! i) else None | _ \<Rightarrow> None)"

definition stream_label :: "logs_page \<Rightarrow> string" where
  "stream_label s = (if isConnected (lstore s) then if isPaused (lstore s) then ''Telemetry paused''
     else ''Active WebSocket Stream'' else ''Offline'')"

definition stream_color :: "logs_page \<Rightarrow> string" where
  "stream_color s = (if isConnected (lstore s) then if isPaused (lstore s) then ''#eab308'' else ''#22c55e'' else ''#ef4444'')"

definition handleDownload :: "logs_page \<Rightarrow> string option" where
  "handleDownload s = (if truthy (page_token s)
     then Some (''/api/logs/download?token='' @ encodeURIComponent (js_string (page_token s))) else None)"

definition receive :: "jsv option \<Rightarrow> logs_page \<Rightarrow> logs_page" where
  "receive frame s = s\<lparr>lstore := onmessage frame (lstore s)\<rparr>"

section \<open>Properties\<close>

text \<open>A message of the declared type; the stream of the server sends such messages.\<close>

definition log_message :: "jsv \<Rightarrow> bool" where
  "log_message l \<longleftrightarrow> (\<exists>kvs. l = JObj kvs) \<and>
     (\<forall>k\<in>{''message'', ''component'', ''raw'', ''level''}. \<exists>t. opt_prop l k = JStr t)"

lemma text_prop_message:
  assumes "log_message l" and "k \<in> {''message'', ''component'', ''raw'', ''level''}"
  shows "text_prop f m k l = Inr (f (js_string (opt_prop l k)))"
proof -
  from assms obtain kvs t where l: "l = JObj kvs" and t: "opt_prop l k = JStr t" unfolding log_message_def by blast
  then have "obj_get kvs k = JStr t" by (simp add: opt_prop_def)
  with l t show ?thesis by (simp add: text_prop_def)
qed

text \<open>What the filters keep, as a condition on the texts of a message.\<close>

definition kept :: "logs_page \<Rightarrow> jsv \<Rightarrow> bool" where
  "kept s l \<longleftrightarrow> (let t = (\<lambda>k. js_string (opt_prop l k)) in
     (\<exists>k\<in>{''message'', ''component'', ''raw''}. includes_str (to_lower (t k)) (to_lower (search s))) \<and>
     (levelFilter s = ''ALL'' \<or> to_upper (t ''level'') = levelFilter s) \<and>
     (compFilter s = ''ALL'' \<or> to_upper (t ''component'') = to_upper (compFilter s)))"

lemma includes_empty [simp]: "includes_str t []"
  by (cases t) simp_all

lemma filter_res_total: "\<forall>x\<in>set xs. p x = Inr (q x) \<Longrightarrow> filter_res p xs = Inr (filter q xs)"
  by (induction xs) auto

lemma map_res_total: "\<forall>x\<in>set xs. f x = Inr (g x) \<Longrightarrow> map_res f xs = Inr (map g xs)"
  by (induction xs) auto

lemma filters_exact:
  assumes "\<forall>l\<in>set (logs (lstore s)). log_message l"
  shows "filteredLogs s = Inr (filter (kept s) (logs (lstore s)))"
  unfolding filteredLogs_def
  by (rule filter_res_total)
    (use assms in \<open>auto simp: log_matches_def matchesSearch_def matchesLevel_def matchesComp_def prop_test_def lower_prop_def
      upper_prop_def text_prop_message kept_def Let_def\<close>)

lemma components_exact:
  assumes "\<forall>l\<in>set (logs (lstore s)). log_message l"
  shows "\<exists>cs. uniqueComponents s = Inr (''ALL'' # cs) \<and> distinct cs \<and>
    set cs = (\<lambda>l. to_upper (js_string (opt_prop l ''component''))) ` set (logs (lstore s))"
proof -
  have "map_res (upper_prop ''component'') (logs (lstore s)) =
      Inr (map (\<lambda>l. to_upper (js_string (opt_prop l ''component''))) (logs (lstore s)))"
    by (rule map_res_total) (use assms in \<open>auto simp: upper_prop_def text_prop_message\<close>)
  then show ?thesis by (simp add: uniqueComponents_def)
qed

text \<open>Choosing a component of the list shows its messages and no others.\<close>

lemma component_chosen:
  assumes "\<forall>l\<in>set (logs (lstore s)). log_message l" and "search s = []" "levelFilter s = ''ALL''" "c \<noteq> ''ALL''" "to_upper c = c"
  shows "filteredLogs (s\<lparr>compFilter := c\<rparr>) =
    Inr (filter (\<lambda>l. to_upper (js_string (opt_prop l ''component'')) = c) (logs (lstore s)))"
proof -
  have "kept (s\<lparr>compFilter := c\<rparr>) = (\<lambda>l. to_upper (js_string (opt_prop l ''component'')) = c)"
    using assms(2-5) by (intro ext) (auto simp: kept_def to_lower_def Let_def)
  then show ?thesis using assms(1) filters_exact [of "s\<lparr>compFilter := c\<rparr>"] by simp
qed

text \<open>A message without text takes the page down, whatever the filters are.\<close>

lemma broken_frame_breaks_page:
  assumes "\<forall>l\<in>set ls. log_message l" and "logs (lstore s) = ls @ JObj [] # rest"
  shows "\<exists>e. filteredLogs s = Inl e"
proof -
  let ?m = "JObj [] :: jsv"
  have m: "\<exists>e. log_matches s ?m = Inl e"
    by (simp add: log_matches_def matchesSearch_def prop_test_def lower_prop_def text_prop_def obj_get_def Let_def)
  have "\<exists>e. filter_res p (xs @ ?m # rest) = Inl e"
    if "\<forall>x\<in>set xs. \<exists>b. p x = Inr b" "\<exists>e. p ?m = Inl e" for p xs
    using that by (induction xs) auto
  moreover have "\<exists>b. log_matches s l = Inr b" if "log_message l" for l
    using that by (auto simp: log_matches_def matchesSearch_def matchesLevel_def matchesComp_def prop_test_def
        lower_prop_def upper_prop_def text_prop_message Let_def)
  ultimately show ?thesis using assms m unfolding filteredLogs_def by auto
qed

text \<open>The open row is a place in the list: when the window of 200 messages moves, another message is open.\<close>

lemma open_row_moves:
  assumes "length (logs (lstore s)) = 200" and "\<forall>l\<in>set (logs (lstore s)). log_message l" "log_message l"
    and "\<not> isPaused (lstore s)" "search s = []" "levelFilter s = ''ALL''" "compFilter s = ''ALL''"
    and "expandedId s = Some i" "Suc i < 200"
  shows "expanded_log s = Some (logs (lstore s) ! i) \<and> expanded_log (receive (Some l) s) = Some (logs (lstore s) ! Suc i)"
proof -
  have k: "kept (s\<lparr>lstore := st\<rparr>) x" for st x using assms(5-7) by (auto simp: kept_def to_lower_def Let_def)
  let ?s1 = "receive (Some l) s"
  have l1: "logs (lstore ?s1) = tl (logs (lstore s)) @ [l]"
    using assms(1,4) by (cases "logs (lstore s)") (auto simp: receive_def onmessage_def push_log_def Let_def)
  have "\<forall>x\<in>set (logs (lstore ?s1)). log_message x"
    unfolding l1 using assms(2,3) by (cases "logs (lstore s)") auto
  from filters_exact [OF this] have "filteredLogs ?s1 = Inr (tl (logs (lstore s)) @ [l])"
    using k [of "lstore ?s1"] by (simp add: l1 [symmetric] receive_def filter_True)
  moreover have "filteredLogs s = Inr (logs (lstore s))"
    using filters_exact [OF assms(2)] k [of "lstore s"] by (simp add: filter_True)
  ultimately show ?thesis using assms(1,8,9)
    by (simp add: expanded_log_def receive_def nth_append nth_tl)
qed

text \<open>The filter of the levels has none for \<open>FATAL\<close>, which the logger of the server writes and the page colours as an error.\<close>

lemma fatal_not_offered:
  "''FATAL'' \<notin> set level_options" "getLevelStyles ''FATAL'' = getLevelStyles ''ERROR''"
  by (simp_all add: level_options_def getLevelStyles_def to_upper_def to_upper_char_def Let_def)

end
