(* ===== verification/Geo_Badge.thy ===== *)
theory Geo_Badge
  imports Geo_Store Zoom JSON Loading
begin

text \<open>
  The badge of an address (\<open>IPResolveBadge.tsx\<close>, the same file in both applications) over the model of the geolocation store:
  the pop-up that the pointer with the Alt key opens and a timer closes, the refresh, and the flag of a country. The place of
  the pop-up on the screen is left out.
\<close>

section \<open>The pop-up\<close>

record badge =
  geo :: geo_state
  ip :: string
  isHovered :: bool
  popupVisible :: bool
  isMouseOver :: bool
  copied :: bool
  isRefreshing :: bool
  hide_timer :: bool

definition init_badge :: "geo_state \<Rightarrow> string \<Rightarrow> badge" where
  "init_badge g rawIp = \<lparr>geo = g, ip = trim rawIp, isHovered = False, popupVisible = False, isMouseOver = False,
     copied = False, isRefreshing = False, hide_timer = False\<rparr>"

text \<open>The effect on \<open>isHovered\<close>.\<close>

definition set_hovered :: "bool \<Rightarrow> badge \<Rightarrow> badge" where
  "set_hovered h s = (if h = isHovered s then s else s\<lparr>isHovered := h, popupVisible := h\<rparr>)"

definition startHideTimeout :: "badge \<Rightarrow> badge" where
  "startHideTimeout s = s\<lparr>hide_timer := True\<rparr>"

definition clearHideTimeout :: "badge \<Rightarrow> badge" where
  "clearHideTimeout s = set_hovered True (s\<lparr>hide_timer := False\<rparr>)"

definition mouse_enter :: "bool \<Rightarrow> badge \<Rightarrow> badge" where
  "mouse_enter altKey s = (let s1 = s\<lparr>isMouseOver := True\<rparr> in if altKey then clearHideTimeout s1 else s1)"

definition mouse_leave :: "badge \<Rightarrow> badge" where
  "mouse_leave s = startHideTimeout (s\<lparr>isMouseOver := False\<rparr>)"

definition alt_down :: "badge \<Rightarrow> badge" where
  "alt_down s = (if isMouseOver s then set_hovered True s else s)"

definition alt_up :: "badge \<Rightarrow> badge" where
  "alt_up s = set_hovered False s"

text \<open>The timer of 250 milliseconds; there is one at most, since a new one replaces it.\<close>

definition hide_now :: "badge \<Rightarrow> badge" where
  "hide_now s = (set_hovered False (s\<lparr>hide_timer := False\<rparr>))\<lparr>popupVisible := False\<rparr>"

text \<open>The pop-up reports the pointer too, as long as it is on the screen.\<close>

inductive badge_step :: "badge \<Rightarrow> badge \<Rightarrow> bool" where
  enter: "badge_step s (mouse_enter alt s)"
| leave: "badge_step s (mouse_leave s)"
| down: "badge_step s (alt_down s)"
| up: "badge_step s (alt_up s)"
| popup_enter: "popupVisible s \<Longrightarrow> badge_step s (clearHideTimeout s)"
| popup_leave: "popupVisible s \<Longrightarrow> badge_step s (startHideTimeout s)"
| timer: "hide_timer s \<Longrightarrow> badge_step s (hide_now s)"

inductive_cases badge_stepE: "badge_step s t"

section \<open>The store in the badge\<close>

definition on_geo :: "(geo_state \<Rightarrow> geo_state) \<Rightarrow> badge \<Rightarrow> badge" where
  "on_geo f s = s\<lparr>geo := f (geo s)\<rparr>"

definition resolve_on_mount :: "badge \<Rightarrow> (badge, unit) action option" where
  "resolve_on_mount s = (if ip s = [] then None else Some (zoom geo on_geo (resolveIPs [ip s] False)))"

definition handleForceRefresh :: "(badge, unit) action" where
  "handleForceRefresh = Get (\<lambda>c. Set (\<lambda>s. s\<lparr>isRefreshing := True\<rparr>)
     (finally_do (try_catch (await_task (zoom geo on_geo (resolveIPs [ip c] True))) (\<lambda>_. Done ()))
       (\<lambda>s. s\<lparr>isRefreshing := False\<rparr>)))"

definition isPending :: "badge \<Rightarrow> bool" where
  "isPending s \<longleftrightarrow> pendingResolutions (geo s) (ip s) = Some True"

definition geoInfo :: "badge \<Rightarrow> jsv" where
  "geoInfo s = (case geoCache (geo s) (ip s) of None \<Rightarrow> JUndef | Some v \<Rightarrow> v)"

definition refresh_disabled :: "badge \<Rightarrow> bool" where
  "refresh_disabled s \<longleftrightarrow> isRefreshing s \<or> isPending s"

definition cdn_shown :: "badge \<Rightarrow> bool" where
  "cdn_shown s \<longleftrightarrow> \<not> isPending s \<and> truthy (geoInfo s) \<and> truthy (opt_prop (geoInfo s) ''is_cdn'')"

definition cdn_text :: "badge \<Rightarrow> string" where
  "cdn_text s = (if truthy (opt_prop (geoInfo s) ''is_cdn'')
     then ''Yes ('' @ js_string (js_or (opt_prop (geoInfo s) ''cdn_provider'') (JStr ''Generic'')) @ '')'' else ''No'')"

definition coordinates_shown :: "badge \<Rightarrow> bool" where
  "coordinates_shown s \<longleftrightarrow> truthy (geoInfo s) \<and> (\<not> strict_eq (opt_prop (geoInfo s) ''latitude'') (JNum 0) \<or>
     \<not> strict_eq (opt_prop (geoInfo s) ''longitude'') (JNum 0))"

definition country_text :: "badge \<Rightarrow> string" where
  "country_text s = (let g = geoInfo s in
     if truthy g then js_string (js_or (opt_prop g ''country_name'') (JStr ''Unknown'')) @
       (if truthy (opt_prop g ''country_code'') then '' ('' @ js_string (opt_prop g ''country_code'') @ '')'' else [])
     else ''Unresolved'')"

section \<open>The flag\<close>

text \<open>\<open>String.fromCodePoint\<close> of the letters moved to the regional indicators. A code is a text of ASCII letters.\<close>

definition globe_sign :: string where
  "globe_sign = [CHR 0xF0, CHR 0x9F, CHR 0x8C, CHR 0x90]"

definition house_sign :: string where
  "house_sign = [CHR 0xF0, CHR 0x9F, CHR 0x8F, CHR 0xA0]"

definition getFlagEmoji :: "string \<Rightarrow> string" where
  "getFlagEmoji code =
     (if code = [] \<or> code = ''ZZ'' then globe_sign
      else if code = ''PV'' then house_sign
      else concat (map (\<lambda>c. utf8_bytes (127397 + of_char c)) (to_upper code)))"

section \<open>The link to the lookup\<close>

text \<open>\<open>pathname.substring(0, pathname.lastIndexOf('/') + 1)\<close>.\<close>

definition directory_of :: "string \<Rightarrow> string" where
  "directory_of path = rev (dropWhile (\<lambda>c. c \<noteq> CHR ''/'') (rev path))"

definition lookup_link :: "string \<Rightarrow> string \<Rightarrow> string \<Rightarrow> string" where
  "lookup_link origin pathname addr =
     (let base = (if pathname \<noteq> [] \<and> last pathname = CHR ''/'' then pathname else directory_of pathname)
      in origin @ base @ ''ip-domain-checker?target='' @ encodeURIComponent addr)"

section \<open>Properties\<close>

text \<open>The pop-up is on the screen exactly while the badge counts as hovered.\<close>

lemma popup_is_hover:
  assumes "badge_step\<^sup>*\<^sup>* (init_badge g a) s"
  shows "popupVisible s = isHovered s"
  using assms
proof (rule reach_invariant [where P = "\<lambda>s. popupVisible s = isHovered s"])
  show "popupVisible (init_badge g a) = isHovered (init_badge g a)" by (simp add: init_badge_def)
  show "popupVisible t = isHovered t" if "badge_step s t" "popupVisible s = isHovered s" for s t
    using that by (elim badge_stepE; hypsubst) (auto simp: mouse_enter_def clearHideTimeout_def mouse_leave_def startHideTimeout_def
        alt_down_def alt_up_def hide_now_def set_hovered_def Let_def)
qed

text \<open>Alt pressed over the badge does not stop the timer of an earlier leave: the pop-up it opens is closed by that timer.\<close>

lemma old_timer_closes_popup:
  assumes "\<not> isHovered s"
  shows "let s1 = alt_down (mouse_enter False (mouse_leave s)) in
    popupVisible s1 \<and> isMouseOver s1 \<and> hide_timer s1 \<and> \<not> popupVisible (hide_now s1) \<and> isMouseOver (hide_now s1)"
  using assms by (simp add: mouse_leave_def startHideTimeout_def mouse_enter_def alt_down_def set_hovered_def hide_now_def Let_def)

interpretation badge_store: exact_store geo on_geo
  by unfold_locales (simp add: on_geo_def)

lemma wp_anything: "wp (\<lambda>_ _. True) (\<lambda>_. True) (\<lambda>_ _. True) (\<lambda>_ _. True) t s"
  by (induction t arbitrary: s) auto

text \<open>Refreshing always ends with the button free, whatever the store's action does.\<close>

lemma refresh_settles:
  assumes "run handleForceRefresh rs s = (qs, out, s1, rest)" and "out \<noteq> Waiting"
  shows "\<not> isRefreshing s1"
proof -
  have "wp (\<lambda>_ _. True) (\<lambda>_. True) (\<lambda>_ s. \<not> isRefreshing s) (\<lambda>_ s. \<not> isRefreshing s) handleForceRefresh s"
    by (simp add: handleForceRefresh_def wp_anything)
  from run_keeps [OF this, of rs] assms show ?thesis by (auto split: outcome.splits)
qed

text \<open>The flag of a country's code is the pair of its regional indicators.\<close>

lemma regional_indicator:
  assumes "65 \<le> n" and "n \<le> 90"
  shows "utf8_bytes (127397 + n) = map char_of [240, 159, 135, n + 101]"
proof -
  have "list_all (\<lambda>k. utf8_bytes (127397 + (65 + k)) = map char_of [240, 159, 135, 65 + k + 101]) [0..<26]"
    by (simp add: upt_rec utf8_bytes_def)
  moreover have "n - 65 \<in> set [0..<26]" "65 + (n - 65) = n" using assms by auto
  ultimately show ?thesis unfolding list_all_iff by metis
qed

lemma flag_of_letters:
  assumes "\<forall>c\<in>set code. 65 \<le> (of_char c :: nat) \<and> (of_char c :: nat) \<le> 90" and "code \<notin> {[], ''ZZ'', ''PV''}"
  shows "getFlagEmoji code = concat (map (\<lambda>c. map char_of [240, 159, 135, of_char c + (101 :: nat)]) code)"
  (is "_ = concat (map ?f code)")
proof -
  have "to_upper code = code" using assms(1) unfolding to_upper_def by (intro map_idI) (auto simp: to_upper_char_def Let_def)
  moreover have "map (\<lambda>c. utf8_bytes (127397 + of_char c)) code = map ?f code"
    using assms(1) regional_indicator by (intro map_cong) auto
  ultimately show ?thesis using assms(2) unfolding getFlagEmoji_def by (auto simp only: insert_iff empty_iff if_False split: if_splits)
qed

end
