(* ===== verification/Clipboard_Modal.thy ===== *)
theory Clipboard_Modal
  imports Proxy_Links
begin

text \<open>
  The list of pasted configurations (\<open>ClipboardModal.tsx\<close>) over the model of its parser: search, selection, pages and the
  buttons. An entry is known by its place, which \<open>indexOf\<close> finds since the entries are distinct objects. The name and the host
  of a \<open>vmess\<close> entry come from its JSON, so that they may be no texts; searching them then throws while the list is drawn.
\<close>

record clip_modal = paste_page +
  clipboardSearch :: string
  isImporting :: bool

definition page_size :: nat where
  "page_size = 100"

definition entry_matches :: "string \<Rightarrow> parsed_config \<Rightarrow> bool res" where
  "entry_matches q0 c =
     (if q0 = [] then Inr True
      else let query = to_lower q0;
               has = (\<lambda>what v. case as_string what ''toLowerCase'' v of Inl e \<Rightarrow> Inl e
                 | Inr t \<Rightarrow> Inr (includes_str (to_lower t) query))
        in res_or (has ''c.name'' (cfg_name c)) (res_or (has ''c.host'' (host c)) (Inr (includes_str (protocol c) query))))"

text \<open>The entries that match, with their places.\<close>

definition filtered :: "'z clip_modal_scheme \<Rightarrow> (nat \<times> parsed_config) list res" where
  "filtered s = filter_res (\<lambda>(i, c). entry_matches (clipboardSearch s) c) (enumerate 0 (parsedConfigs s))"

definition slice_shown :: "'z clip_modal_scheme \<Rightarrow> (nat \<times> parsed_config) list res" where
  "slice_shown s = (case filtered s of Inl e \<Rightarrow> Inl e
     | Inr xs \<Rightarrow> Inr (take page_size (drop (clipboardPage s * page_size) xs)))"

definition type_search :: "string \<Rightarrow> 'z clip_modal_scheme \<Rightarrow> 'z clip_modal_scheme" where
  "type_search q s = s\<lparr>clipboardSearch := q, clipboardPage := 0\<rparr>"

definition found :: "'z clip_modal_scheme \<Rightarrow> nat set" where
  "found s = (case filtered s of Inl e \<Rightarrow> {} | Inr xs \<Rightarrow> fst ` set xs)"

definition select_results :: "'z clip_modal_scheme \<Rightarrow> 'z clip_modal_scheme" where
  "select_results s = s\<lparr>deselected := deselected s - found s\<rparr>"

definition deselect_results :: "'z clip_modal_scheme \<Rightarrow> 'z clip_modal_scheme" where
  "deselect_results s = s\<lparr>deselected := deselected s \<union> found s\<rparr>"

definition select_all :: "'z clip_modal_scheme \<Rightarrow> 'z clip_modal_scheme" where
  "select_all s = s\<lparr>deselected := {}\<rparr>"

definition deselect_all :: "'z clip_modal_scheme \<Rightarrow> 'z clip_modal_scheme" where
  "deselect_all s = s\<lparr>deselected := deselected s \<union> {0..<length (parsedConfigs s)}\<rparr>"

definition toggle_entry :: "nat \<Rightarrow> 'z clip_modal_scheme \<Rightarrow> 'z clip_modal_scheme" where
  "toggle_entry i s = s\<lparr>deselected := if i \<in> deselected s then deselected s - {i} else insert i (deselected s)\<rparr>"

definition prev_disabled :: "'z clip_modal_scheme \<Rightarrow> bool" where
  "prev_disabled s \<longleftrightarrow> clipboardPage s = 0"

definition next_disabled :: "'z clip_modal_scheme \<Rightarrow> bool" where
  "next_disabled s \<longleftrightarrow> (case filtered s of Inl e \<Rightarrow> False | Inr xs \<Rightarrow> length xs \<le> (clipboardPage s + 1) * 100)"

definition prev_page :: "'z clip_modal_scheme \<Rightarrow> 'z clip_modal_scheme" where
  "prev_page s = (if prev_disabled s then s else s\<lparr>clipboardPage := clipboardPage s - 1\<rparr>)"

definition next_page :: "'z clip_modal_scheme \<Rightarrow> 'z clip_modal_scheme" where
  "next_page s = (if next_disabled s then s else s\<lparr>clipboardPage := clipboardPage s + 1\<rparr>)"

text \<open>\<open>Math.ceil(filtered.length / 100) || 1\<close>.\<close>

definition page_total :: "'z clip_modal_scheme \<Rightarrow> nat" where
  "page_total s = (case filtered s of Inl e \<Rightarrow> 0 | Inr xs \<Rightarrow> if xs = [] then 1 else (length xs + 99) div 100)"

definition reset_modal :: "'z clip_modal_scheme \<Rightarrow> 'z clip_modal_scheme" where
  "reset_modal s = s\<lparr>parsedConfigs := [], deselected := {}, clipboardCount := 0, clipboardPage := 0\<rparr>"

definition selected_count :: "'z clip_modal_scheme \<Rightarrow> int" where
  "selected_count s = int (clipboardCount s) - int (card (deselected s))"

definition import_disabled :: "'z clip_modal_scheme \<Rightarrow> bool" where
  "import_disabled s \<longleftrightarrow> isImporting s \<or> selected_count s = 0"

text \<open>What the user does with the list.\<close>

inductive clip_step :: "clip_modal \<Rightarrow> clip_modal \<Rightarrow> bool" where
  search: "clip_step s (type_search q s)"
| select: "clip_step s (select_results s)"
| deselect: "clip_step s (deselect_results s)"
| all: "clip_step s (select_all s)"
| none: "clip_step s (deselect_all s)"
| toggle: "slice_shown s = Inr xs \<Longrightarrow> (i, c) \<in> set xs \<Longrightarrow> clip_step s (toggle_entry i s)"
| prev: "clip_step s (prev_page s)"
| forth: "clip_step s (next_page s)"
| reset: "clip_step s (reset_modal s)"

inductive_cases clip_stepE: "clip_step s t"

section \<open>Properties\<close>

lemma filter_res_sub: "filter_res p xs = Inr ys \<Longrightarrow> set ys \<subseteq> set xs"
  by (induction xs arbitrary: ys) (auto split: sum.splits if_splits)

lemma found_places: "found s \<subseteq> {0..<length (parsedConfigs s)}"
proof -
  have "filtered s = Inr xs \<Longrightarrow> set xs \<subseteq> set (enumerate 0 (parsedConfigs s))" for xs
    unfolding filtered_def by (rule filter_res_sub)
  then show ?thesis by (force simp: found_def in_set_enumerate_eq split: sum.splits)
qed

text \<open>What the pasted list keeps: the count is that of the entries, and only entries are deselected.\<close>

definition clip_inv :: "clip_modal \<Rightarrow> bool" where
  "clip_inv s \<longleftrightarrow> clipboardCount s = length (parsedConfigs s) \<and> deselected s \<subseteq> {0..<length (parsedConfigs s)} \<and>
     (\<forall>xs. filtered s = Inr xs \<longrightarrow> clipboardPage s = 0 \<or> clipboardPage s * page_size < length xs)"

lemma filtered_same:
  "filtered (s\<lparr>deselected := d\<rparr>) = filtered s" "filtered (s\<lparr>clipboardPage := n\<rparr>) = filtered s"
  by (simp_all add: filtered_def)

lemma clip_step_inv: "clip_step s t \<Longrightarrow> clip_inv s \<Longrightarrow> clip_inv t"
proof (erule clip_stepE)
  fix xs i c assume s: "clip_inv s" "t = toggle_entry i s" "slice_shown s = Inr xs" "(i, c) \<in> set xs"
  then have "i \<in> found s"
    by (force simp: slice_shown_def found_def split: sum.splits dest: in_set_takeD in_set_dropD)
  then have "i < length (parsedConfigs s)" using found_places by fastforce
  with s show "clip_inv t" by (auto simp: clip_inv_def toggle_entry_def filtered_same)
next
  assume s: "clip_inv s" "t = next_page s"
  show "clip_inv t"
  proof (cases "next_disabled s")
    case False
    with s show ?thesis by (auto simp: clip_inv_def next_page_def next_disabled_def filtered_same page_size_def split: sum.splits)
  qed (use s in \<open>simp add: next_page_def\<close>)
next
  assume s: "clip_inv s" "t = prev_page s"
  have "(n - 1) * page_size < k" if "n * page_size < k" for n k
    using that by (rule le_less_trans [rotated]) simp
  with s show "clip_inv t" by (auto simp: clip_inv_def prev_page_def filtered_same)
qed (use found_places in \<open>auto simp: clip_inv_def type_search_def select_results_def deselect_results_def select_all_def
    deselect_all_def reset_modal_def filtered_same\<close>)

text \<open>The number on the button is the number of links that the import sends.\<close>

lemma selected_are_imported:
  assumes "clip_inv s"
  shows "selected_count s = int (length (selected_uris (parsedConfigs s) (deselected s)))"
proof -
  let ?n = "length (parsedConfigs s)"
  have d: "deselected s \<subseteq> {0..<?n}" "finite (deselected s)" using assms finite_subset by (auto simp: clip_inv_def)
  have "length (selected_uris (parsedConfigs s) (deselected s)) =
      length (filter (\<lambda>i. i \<notin> deselected s) (map fst (enumerate 0 (parsedConfigs s))))"
    unfolding selected_uris_def length_map filter_map by (simp add: comp_def case_prod_unfold del: map_fst_enumerate)
  also have "\<dots> = card ({0..<?n} - deselected s)"
    by (subst distinct_card [symmetric]) (auto simp: set_diff_eq intro!: arg_cong [where f = card])
  also have "\<dots> = ?n - card (deselected s)" using d by (simp add: card_Diff_subset)
  finally show ?thesis using assms card_mono [OF _ d(1)] by (simp add: selected_count_def clip_inv_def)
qed

text \<open>Searching a list with a \<open>vmess\<close> entry whose name is a number takes the page down.\<close>

lemma search_with_number_name:
  assumes "q \<noteq> []" and "parsedConfigs s = c # cs" and "cfg_name c = JNum n"
  shows "\<exists>e. slice_shown (type_search q s) = Inl e"
  using assms by (simp add: slice_shown_def filtered_def type_search_def entry_matches_def enumerate_eq_zip Let_def upt_rec)

lemma empty_search_shows_all:
  assumes "clipboardSearch s = []"
  shows "filtered s = Inr (enumerate 0 (parsedConfigs s))"
proof -
  have "filter_res (\<lambda>x. Inr True) xs = Inr xs" for xs :: "(nat \<times> parsed_config) list" by (induction xs) auto
  then show ?thesis using assms by (simp add: filtered_def entry_matches_def case_prod_unfold)
qed

end
